(* ===== verification/Prelude.thy ===== *)
theory Prelude
  imports Main "HOL-Library.Word" "HOL-Library.Monad_Syntax"
begin

text \<open>
  Shared vocabulary of the development: the machine integers of the C code, the
  compile-time configuration of the stack with the default values of CMakeLists.txt,
  the C cast to a signed 32-bit integer with the time comparison the code builds on
  it, and small facts on lists, options and words that the component theories share.

  Fixed-width integers that are compared, wrapped or put on the wire are words
  (\<open>u8\<close>, \<open>u16\<close>, \<open>u32\<close>). Array indexes and lengths, which the code
  keeps inside the bounds of its arrays, are natural numbers.
\<close>

section \<open>Types\<close>

type_synonym u8 = "8 word"
type_synonym u16 = "16 word"
type_synonym u32 = "32 word"

text \<open>
  A string constant of the program is handled through its address; names of timers
  are compared by pointer in the code.
\<close>

type_synonym str_ptr = nat

section \<open>Configuration (CMakeLists.txt, pf_types.h)\<close>

definition PNET_MAX_AR :: nat where "PNET_MAX_AR = 1"
definition PNET_MAX_API :: nat where "PNET_MAX_API = 1"
definition PNET_MAX_CR :: nat where "PNET_MAX_CR = 2"
definition PNET_MAX_SLOTS :: nat where "PNET_MAX_SLOTS = 5"
definition PNET_MAX_SUBSLOTS :: nat where "PNET_MAX_SUBSLOTS = 3"
definition PNET_MAX_PHYSICAL_PORTS :: nat where "PNET_MAX_PHYSICAL_PORTS = 1"
definition PNET_MAX_LOG_BOOK_ENTRIES :: nat where "PNET_MAX_LOG_BOOK_ENTRIES = 16"
definition PNET_MAX_ALARMS :: nat where "PNET_MAX_ALARMS = 6"
definition PNET_MAX_ALARM_PAYLOAD_DATA_SIZE :: nat
  where "PNET_MAX_ALARM_PAYLOAD_DATA_SIZE = 28"
definition PNET_MAX_DIAG_ITEMS :: nat where "PNET_MAX_DIAG_ITEMS = 200"
definition PNET_MAX_DIAG_MANUF_DATA_SIZE :: nat
  where "PNET_MAX_DIAG_MANUF_DATA_SIZE = 16"

definition PF_MAX_TIMEOUTS :: nat where
  "PF_MAX_TIMEOUTS = 2 * PNET_MAX_AR * PNET_MAX_CR + 2 * PNET_MAX_PHYSICAL_PORTS + 9"

definition PF_ETH_MAX_MAP :: nat where
  "PF_ETH_MAX_MAP = PNET_MAX_API * PNET_MAX_AR * PNET_MAX_CR * 2 + 4 + 2"

lemmas config_defs =
  PNET_MAX_AR_def PNET_MAX_API_def PNET_MAX_CR_def PNET_MAX_SLOTS_def
  PNET_MAX_SUBSLOTS_def PNET_MAX_PHYSICAL_PORTS_def PNET_MAX_LOG_BOOK_ENTRIES_def
  PNET_MAX_ALARMS_def PNET_MAX_ALARM_PAYLOAD_DATA_SIZE_def PNET_MAX_DIAG_ITEMS_def
  PNET_MAX_DIAG_MANUF_DATA_SIZE_def PF_MAX_TIMEOUTS_def PF_ETH_MAX_MAP_def

section \<open>Signed differences of wrapping time stamps\<close>

text \<open>The C expression \<open>(int32_t)(a - b)\<close> on 32-bit unsigned operands.\<close>

definition sdiff32 :: "u32 \<Rightarrow> u32 \<Rightarrow> int" where
  "sdiff32 a b = sint (a - b)"

lemma sint_diff_window:
  fixes x y :: u32
  assumes x: "uint x < 2 ^ 31" and y: "uint y < 2 ^ 31"
  shows "sint (x - y) = uint x - uint y"
proof -
  have "sint (x - y) = signed_take_bit 31 (take_bit 32 (uint x - uint y))"
    by (simp only: sint_uint uint_sub_lem uint_word_ariths flip: take_bit_eq_mod) simp
  also have "\<dots> = signed_take_bit 31 (uint x - uint y)"
    by (rule signed_take_bit_take_bit [THEN trans]) simp
  also have "\<dots> = uint x - uint y"
  proof (rule signed_take_bit_int_eq_self)
    show "- (2 ^ 31) \<le> uint x - uint y"
      using y uint_ge_0 [of x] by linarith
    show "uint x - uint y < 2 ^ 31"
      using x uint_ge_0 [of y] by linarith
  qed
  finally show ?thesis .
qed

text \<open>
  Within a window of half the range that starts at \<open>b\<close>, the signed difference
  orders the time stamps as their distances from \<open>b\<close> do.
\<close>

lemma sdiff32_window:
  assumes "uint (a - b) < 2 ^ 31" and "uint (c - b) < 2 ^ 31"
  shows "sdiff32 a c = uint (a - b) - uint (c - b)"
proof -
  have "a - c = (a - b) - (c - b)" by simp
  then show ?thesis
    unfolding sdiff32_def using sint_diff_window [OF assms] by simp
qed

section \<open>Lists\<close>

lemma nth_list_update_simp [simp]:
  "k < length xs \<Longrightarrow> xs[j := e] ! k = (if j = k then e else xs ! k)"
  by (simp add: nth_list_update)

lemma takeWhile_sorted_map:
  fixes f :: "'a \<Rightarrow> 'b :: linorder"
  assumes "sorted (map f xs)"
  shows "takeWhile (\<lambda>x. f x \<le> c) xs = filter (\<lambda>x. f x \<le> c) xs"
  using assms by (induction xs) (auto simp: empty_filter_conv dest!: bspec)

lemma sorted_map_insert_takeWhile:
  fixes f :: "'a \<Rightarrow> 'b :: linorder"
  assumes "sorted (map f xs)"
  shows "sorted (map f (takeWhile (\<lambda>x. f x < f i) xs @ i # dropWhile (\<lambda>x. f x < f i) xs))"
  using assms
proof (induction xs)
  case Nil
  then show ?case by simp
next
  case (Cons x xs)
  then show ?case
    by (auto simp: not_less dest: set_takeWhileD set_dropWhileD
        intro: order_trans dest!: less_imp_le)
qed

section \<open>Search\<close>

text \<open>The search loops: the first index that fits, or the size of the table.\<close>

fun first_index :: "('e \<Rightarrow> bool) \<Rightarrow> 'e list \<Rightarrow> nat" where
  "first_index P [] = 0"
| "first_index P (e # es) = (if P e then 0 else Suc (first_index P es))"

lemma first_index_bound: "first_index P xs \<le> length xs"
  by (induction xs) auto

lemma first_index_less: "first_index P xs < length xs \<longleftrightarrow> (\<exists>x \<in> set xs. P x)"
  by (induction xs) auto

lemma first_index_fits: "first_index P xs < length xs \<Longrightarrow> P (xs ! first_index P xs)"
  by (induction xs) (auto split: if_splits)

lemma first_index_split:
  "first_index P xs < length xs \<Longrightarrow> \<exists>us x vs. xs = us @ x # vs \<and> length us = first_index P xs \<and> P x \<and> (\<forall>u \<in> set us. \<not> P u)"
proof (induction xs)
  case (Cons y ys)
  show ?case
  proof (cases "P y")
    case True
    then show ?thesis by (intro exI [of _ "[]"]) simp
  next
    case False
    with Cons obtain us x vs where "ys = us @ x # vs" "length us = first_index P ys" "P x" "\<forall>u \<in> set us. \<not> P u" by auto
    with False show ?thesis by (intro exI [of _ "y # us"]) auto
  qed
qed simp

text \<open>The result of a search as an option.\<close>

definition find_index :: "('e \<Rightarrow> bool) \<Rightarrow> 'e list \<Rightarrow> nat option" where
  "find_index P xs = (let k = first_index P xs in if k < length xs then Some k else None)"

lemma find_index_Some: "find_index P xs = Some k \<Longrightarrow> k < length xs \<and> P (xs ! k)"
  by (auto simp: find_index_def Let_def first_index_fits split: if_splits)

lemma find_index_None: "find_index P xs = None \<longleftrightarrow> (\<forall>x \<in> set xs. \<not> P x)"
  using first_index_less [of P xs] by (auto simp: find_index_def Let_def)

lemma find_index_unique:
  assumes "k < length xs" and "P (xs ! k)" and "\<And>j. j < length xs \<Longrightarrow> P (xs ! j) \<Longrightarrow> j = k"
  shows "find_index P xs = Some k"
proof (cases "find_index P xs")
  case None
  then show ?thesis using assms(1,2) by (auto simp: find_index_None)
next
  case (Some j)
  then show ?thesis using find_index_Some [OF Some] assms(3) by auto
qed

end
