(* ===== verification/Scheduler_Lists.thy ===== *)
theory Scheduler_Lists
  imports Scheduler
begin

text \<open>
  The list structure of the scheduler. \<open>dseg\<close> reads a doubly linked segment of the
  entry array as a list of indexes; \<open>sched_rep\<close> says that the two heads hold two
  disjoint such lists that, together with the entries in flight, use every entry. Each
  operation of src/common/pf_scheduler.c is shown to do to these lists what it is meant
  to do, and never to fail an assertion.
\<close>

section \<open>Doubly linked segments\<close>

definition hd_or :: "nat \<Rightarrow> nat list \<Rightarrow> nat" where
  "hd_or j xs = (case xs of [] \<Rightarrow> j | x # _ \<Rightarrow> x)"

definition last_or :: "nat \<Rightarrow> nat list \<Rightarrow> nat" where
  "last_or p xs = (if xs = [] then p else last xs)"

lemma hd_or_simps [simp]: "hd_or j [] = j" "hd_or j (x # xs) = x"
  by (simp_all add: hd_or_def)

lemma hd_or_append [simp]: "hd_or j (xs @ ys) = hd_or (hd_or j ys) xs"
  by (cases xs) simp_all

lemma last_or_simps [simp]: "last_or p [] = p" "last_or p (x # xs) = last_or x xs"
  by (simp_all add: last_or_def)

lemma last_or_append [simp]: "last_or p (xs @ ys) = last_or (last_or p xs) ys"
  by (simp add: last_or_def)

lemma hd_or_mem: "hd_or j xs \<in> insert j (set xs)"
  by (cases xs) simp_all

lemma hd_or_in: "xs \<noteq> [] \<Longrightarrow> hd_or j xs \<in> set xs"
  by (cases xs) simp_all

lemma last_or_in: "xs \<noteq> [] \<Longrightarrow> last_or p xs \<in> set xs"
  by (simp add: last_or_def)

fun dseg :: "('f, 'a) timeout_entry list \<Rightarrow> nat \<Rightarrow> nat list \<Rightarrow> nat \<Rightarrow> bool" where
  "dseg ts p [] j = True"
| "dseg ts p (x # xs) j =
     (to_prev (ts ! x) = p \<and> to_next (ts ! x) = hd_or j xs \<and> dseg ts x xs j)"

lemma dseg_append [simp]:
  "dseg ts p (xs @ ys) j = (dseg ts p xs (hd_or j ys) \<and> dseg ts (last_or p xs) ys j)"
  by (induction xs arbitrary: p) auto

lemma dseg_frame [simp]: "k \<notin> set xs \<Longrightarrow> dseg (ts[k := e]) p xs j = dseg ts p xs j"
  by (induction xs arbitrary: p) auto

lemma dseg_cong:
  assumes "\<And>k. k \<in> set xs \<Longrightarrow> to_next (us ! k) = to_next (ts ! k) \<and> to_prev (us ! k) = to_prev (ts ! k)"
  shows "dseg us p xs j = dseg ts p xs j"
  using assms by (induction xs arbitrary: p) auto

text \<open>Changing the end marker or the start marker only concerns the outer entries.\<close>

lemma dseg_change_next:
  assumes "dseg ts p xs j" and "xs \<noteq> []" and "distinct xs" and "last_or p xs < length ts"
  shows "dseg (ts[last_or p xs := (ts ! last_or p xs)\<lparr>to_next := n\<rparr>]) p xs n"
  using assms by (induction xs arbitrary: p rule: rev_induct) auto

lemma dseg_change_prev:
  assumes "dseg ts p xs j" and "xs \<noteq> []" and "distinct xs" and "hd_or j xs < length ts"
  shows "dseg (ts[hd_or j xs := (ts ! hd_or j xs)\<lparr>to_prev := q\<rparr>]) q xs j"
  using assms by (cases xs) auto

section \<open>Walking a segment\<close>

lemma is_linked_loop_dseg:
  assumes "dseg ts p xs PF_MAX_TIMEOUTS" and "set xs \<subseteq> {..<PF_MAX_TIMEOUTS}"
    and "cnt + length xs \<le> PF_MAX_TIMEOUTS"
  shows "is_linked_loop ts ix cnt (hd_or PF_MAX_TIMEOUTS xs) ret = Some (ret \<or> ix \<in> set xs)"
  using assms
proof (induction xs arbitrary: p cnt ret)
  case Nil
  then show ?case by (simp add: is_linked_loop.simps)
next
  case (Cons x xs)
  then have "is_linked_loop ts ix (Suc cnt) (hd_or PF_MAX_TIMEOUTS xs) (ret \<or> x = ix)
      = Some ((ret \<or> x = ix) \<or> ix \<in> set xs)"
    by (intro Cons.IH) auto
  with Cons.prems show ?case
    by (subst is_linked_loop.simps) auto
qed

lemma distinct_bounded_length:
  assumes "distinct xs" and "set xs \<subseteq> {..<n}"
  shows "length xs \<le> n"
proof -
  have "card (set xs) \<le> card {..<n}"
    using assms(2) by (intro card_mono) auto
  then show ?thesis using assms(1) by (simp add: distinct_card)
qed

text \<open>The lists the two heads stand for.\<close>

definition list_rep :: "queue_sel \<Rightarrow> ('f, 'a) sched \<Rightarrow> nat list \<Rightarrow> bool" where
  "list_rep q s xs \<longleftrightarrow> q_head q s = hd_or PF_MAX_TIMEOUTS xs \<and>
     dseg (timeouts s) PF_MAX_TIMEOUTS xs PF_MAX_TIMEOUTS \<and>
     distinct xs \<and> set xs \<subseteq> {..<PF_MAX_TIMEOUTS} \<and> length (timeouts s) = PF_MAX_TIMEOUTS"

lemma is_linked_rep:
  "list_rep q s xs \<Longrightarrow> pf_scheduler_is_linked s (q_head q s) ix = Some (ix \<in> set xs)"
  using distinct_bounded_length [of xs PF_MAX_TIMEOUTS]
  by (auto simp: pf_scheduler_is_linked_def list_rep_def is_linked_loop_dseg)

lemma q_head_upd_entry [simp]: "q_head q (upd_entry i f s) = q_head q s"
  by (cases q) (simp_all add: upd_entry_def)

lemma q_head_set_q_head [simp]:
  "q_head q (set_q_head r i s) = (if q = r then i else q_head q s)"
  by (cases q; cases r) simp_all

lemma q_head_fields_upd_entry [simp]:
  "timeout_first (upd_entry i f s) = timeout_first s" "timeout_free (upd_entry i f s) = timeout_free s"
  by (simp_all add: upd_entry_def)

lemma timeouts_set_q_head [simp]: "timeouts (set_q_head q i s) = timeouts s"
  by (cases q) simp_all

lemma tick_interval_set_q_head [simp]: "tick_interval (set_q_head q i s) = tick_interval s"
  by (cases q) simp_all

lemma timeouts_upd_entry [simp]:
  "timeouts (upd_entry i f s) = (timeouts s)[i := f (timeouts s ! i)]"
  by (simp add: upd_entry_def)

lemma tick_interval_upd_entry [simp]: "tick_interval (upd_entry i f s) = tick_interval s"
  by (simp add: upd_entry_def)

lemmas sched_simps = entry_def Let_def list_rep_def

section \<open>What an operation on one list leaves alone\<close>

definition same_payload :: "('f, 'a) timeout_entry \<Rightarrow> ('f, 'a) timeout_entry \<Rightarrow> bool" where
  "same_payload e e' \<longleftrightarrow> to_name e' = to_name e \<and> to_in_use e' = to_in_use e \<and>
     to_when e' = to_when e \<and> to_cb e' = to_cb e \<and> to_arg e' = to_arg e"

definition link_frame :: "queue_sel \<Rightarrow> nat set \<Rightarrow> ('f, 'a) sched \<Rightarrow> ('f, 'a) sched \<Rightarrow> bool" where
  "link_frame q A s s' \<longleftrightarrow> tick_interval s' = tick_interval s \<and>
     length (timeouts s') = length (timeouts s) \<and>
     (\<forall>r. r \<noteq> q \<longrightarrow> q_head r s' = q_head r s) \<and>
     (\<forall>i < length (timeouts s). same_payload (entry s i) (entry s' i)) \<and>
     (\<forall>i < length (timeouts s). i \<notin> A \<longrightarrow> entry s' i = entry s i)"

lemma same_payload_refl [simp]: "same_payload e e"
  by (simp add: same_payload_def)

lemma link_frame_list_rep:
  assumes "link_frame q A s s'" and "list_rep r s zs" and "r \<noteq> q" and "set zs \<inter> A = {}"
  shows "list_rep r s' zs"
proof -
  have "dseg (timeouts s') PF_MAX_TIMEOUTS zs PF_MAX_TIMEOUTS
      = dseg (timeouts s) PF_MAX_TIMEOUTS zs PF_MAX_TIMEOUTS"
    using assms by (intro dseg_cong) (auto simp: link_frame_def list_rep_def entry_def)
  with assms show ?thesis by (auto simp: link_frame_def list_rep_def)
qed

section \<open>The list operations on the abstract lists\<close>

lemma unlink_rep:
  assumes rep: "list_rep q s (xs @ x # ys)"
  shows "\<exists>s'. pf_scheduler_unlink q x s = Some s' \<and> list_rep q s' (xs @ ys) \<and>
           link_frame q (set (xs @ x # ys)) s s'"
proof -
  have x: "x < PF_MAX_TIMEOUTS" using rep by (simp add: list_rep_def)
  have linked: "pf_scheduler_is_linked s (q_head q s) x = Some True"
    using is_linked_rep [OF rep] by simp
  show ?thesis
  proof (cases xs rule: rev_cases)
    case Nil
    with rep x linked show ?thesis
      by (cases ys) (auto simp: pf_scheduler_unlink_def link_frame_def same_payload_def
          sched_simps nth_list_update)
  next
    case (snoc us w)
    with rep x linked hd_or_mem [of w us] show ?thesis
      by (cases ys) (auto simp: pf_scheduler_unlink_def link_frame_def same_payload_def
          sched_simps nth_list_update)
  qed
qed

lemma link_first_rep:
  assumes rep: "list_rep q s xs" and ix: "ix < PF_MAX_TIMEOUTS" "ix \<notin> set xs"
  shows "list_rep q (link_first q ix s) (ix # xs) \<and>
         link_frame q (set (ix # xs)) s (link_first q ix s)"
  using assms
  by (cases xs) (auto simp: link_first_def link_frame_def same_payload_def sched_simps
      nth_list_update)

lemma link_into_empty_rep:
  assumes rep: "list_rep q s []" and ix: "ix < PF_MAX_TIMEOUTS"
  shows "list_rep q (link_into_empty q ix s) [ix] \<and>
         link_frame q {ix} s (link_into_empty q ix s)"
  using assms
  by (auto simp: link_into_empty_def link_frame_def same_payload_def sched_simps nth_list_update)

text \<open>
  \<open>link_before\<close> puts the entry in front of the position, or first when the
  position is the end marker.
\<close>

lemma link_before_rep:
  assumes rep: "list_rep q s (xs @ ys)" and ix: "ix < PF_MAX_TIMEOUTS" "ix \<notin> set (xs @ ys)"
    and pos: "pos = hd_or PF_MAX_TIMEOUTS ys" and first: "ys = [] \<Longrightarrow> xs = []"
  shows "\<exists>s'. pf_scheduler_link_before q ix pos s = Some s' \<and> list_rep q s' (xs @ ix # ys) \<and>
           link_frame q (set (xs @ ix # ys)) s s'"
proof -
  have linked: "pf_scheduler_is_linked s (q_head q s) ix = Some False"
    using is_linked_rep [OF rep] ix by simp
  show ?thesis
  proof (cases ys)
    case Nil
    with assms linked link_first_rep [of q s "[]" ix] show ?thesis
      by (auto simp: pf_scheduler_link_before_def)
  next
    case (Cons y zs)
    have y: "y < PF_MAX_TIMEOUTS" and "q_head q s < PF_MAX_TIMEOUTS"
      using rep Cons hd_or_mem [of y xs] by (auto simp: list_rep_def)
    with linked ix pos Cons have eq: "pf_scheduler_link_before q ix pos s =
      (let prev_ix = to_prev (entry s y);
           s = (if prev_ix < PF_MAX_TIMEOUTS then set_next prev_ix ix s else s);
           s = set_prev y ix s; s = set_next ix y s; s = set_prev ix prev_ix s
       in Some (if q_head q s = y then set_q_head q ix s else s))"
      by (simp add: pf_scheduler_link_before_def Let_def)
    show ?thesis
    proof (cases xs rule: rev_cases)
      case Nil
      with rep ix Cons y show ?thesis unfolding eq
        by (auto simp: link_frame_def same_payload_def sched_simps nth_list_update)
    next
      case (snoc us w)
      with rep ix Cons y hd_or_mem [of w us] show ?thesis unfolding eq
        by (auto simp: link_frame_def same_payload_def sched_simps nth_list_update)
    qed
  qed
qed

text \<open>\<open>link_after\<close> puts it behind a position that is in the list.\<close>

lemma link_after_rep:
  assumes rep: "list_rep q s (xs @ x # ys)" and ix: "ix < PF_MAX_TIMEOUTS"
    "ix \<notin> set (xs @ x # ys)"
  shows "\<exists>s'. pf_scheduler_link_after q ix x s = Some s' \<and> list_rep q s' (xs @ x # ix # ys) \<and>
           link_frame q (set (xs @ x # ix # ys)) s s'"
proof -
  have x: "x < PF_MAX_TIMEOUTS" and "q_head q s < PF_MAX_TIMEOUTS"
    using rep hd_or_mem [of x xs] by (auto simp: list_rep_def)
  moreover have "pf_scheduler_is_linked s (q_head q s) ix = Some False"
    using is_linked_rep [OF rep] ix by simp
  ultimately have eq: "pf_scheduler_link_after q ix x s =
      (let next_ix = to_next (entry s x);
           s = (if next_ix < PF_MAX_TIMEOUTS then set_prev next_ix ix s else s);
           s = set_next x ix s; s = set_prev ix x s
       in Some (set_next ix next_ix s))"
    using ix by (simp add: pf_scheduler_link_after_def Let_def)
  show ?thesis
    using rep ix x hd_or_mem [of x xs] unfolding eq
    by (cases ys)
       (auto simp: link_frame_def same_payload_def sched_simps nth_list_update)
qed

section \<open>The abstract state of the scheduler\<close>

text \<open>
  \<open>busy\<close> and \<open>free\<close> are the two lists, \<open>held\<close> the entries that an
  operation has taken from one list and not yet put into the other.
\<close>

definition sched_rep ::
    "('f, 'a) sched \<Rightarrow> nat list \<Rightarrow> nat list \<Rightarrow> nat list \<Rightarrow> bool" where
  "sched_rep s busy free held \<longleftrightarrow>
     list_rep Busy_q s busy \<and> list_rep Free_q s free \<and>
     distinct (busy @ free @ held) \<and> set (busy @ free @ held) = {..<PF_MAX_TIMEOUTS} \<and>
     (\<forall>i \<in> set busy. to_in_use (entry s i)) \<and> (\<forall>i \<in> set free. \<not> to_in_use (entry s i))"

lemma sched_rep_bound: "sched_rep s busy free held \<Longrightarrow> i \<in> set (busy @ free @ held) \<Longrightarrow>
  i < PF_MAX_TIMEOUTS"
  by (auto simp: sched_rep_def)

lemma sched_rep_length: "sched_rep s busy free held \<Longrightarrow> length (timeouts s) = PF_MAX_TIMEOUTS"
  by (simp add: sched_rep_def list_rep_def)

lemma list_rep_upd_payload:
  assumes "list_rep q s xs" and "\<And>e. to_next (f e) = to_next e \<and> to_prev (f e) = to_prev e"
  shows "list_rep q (upd_entry i f s) xs"
proof -
  have "dseg (timeouts (upd_entry i f s)) PF_MAX_TIMEOUTS xs PF_MAX_TIMEOUTS
      = dseg (timeouts s) PF_MAX_TIMEOUTS xs PF_MAX_TIMEOUTS"
    using assms by (intro dseg_cong) (auto simp: list_rep_def nth_list_update)
  with assms show ?thesis by (simp add: list_rep_def)
qed

lemma entry_upd_entry [simp]:
  "k < length (timeouts s) \<Longrightarrow> entry (upd_entry i f s) k = (if i = k then f (entry s k) else entry s k)"
  by (auto simp: entry_def)

text \<open>Moving the entry that an operation holds.\<close>

lemma sched_rep_upd_held:
  assumes rep: "sched_rep s busy free held" and i: "i \<in> set held"
    and f: "\<And>e. to_next (f e) = to_next e \<and> to_prev (f e) = to_prev e"
  shows "sched_rep (upd_entry i f s) busy free held"
proof -
  have "\<And>k. k \<in> set (busy @ free) \<Longrightarrow> entry (upd_entry i f s) k = entry s k"
    using rep i sched_rep_length [OF rep] by (subst entry_upd_entry) (auto simp: sched_rep_def)
  with rep f show ?thesis
    by (auto simp: sched_rep_def list_rep_upd_payload)
qed

lemma link_frame_in_use:
  "link_frame q A s s' \<Longrightarrow> i < length (timeouts s) \<Longrightarrow> to_in_use (entry s' i) = to_in_use (entry s i)"
  by (auto simp: link_frame_def same_payload_def)

text \<open>An operation that moves indexes between the lists and keeps the payload.\<close>

lemma sched_rep_move:
  assumes rep: "sched_rep s busy free held" and fr: "link_frame q A s s'"
    and b: "list_rep Busy_q s' busy'" and f: "list_rep Free_q s' free'"
    and d: "distinct (busy' @ free' @ held')"
    and e: "set (busy' @ free' @ held') = set (busy @ free @ held)"
    and ub: "\<forall>i \<in> set busy'. to_in_use (entry s i)"
    and uf: "\<forall>i \<in> set free'. \<not> to_in_use (entry s i)"
  shows "sched_rep s' busy' free' held'"
proof -
  have all: "set (busy' @ free' @ held') = {..<PF_MAX_TIMEOUTS}"
    using rep e by (simp add: sched_rep_def)
  have "to_in_use (entry s' i) = to_in_use (entry s i)" if "i \<in> set (busy' @ free')" for i
    using link_frame_in_use [OF fr] sched_rep_length [OF rep] all that by auto
  with ub uf have "\<forall>i \<in> set busy'. to_in_use (entry s' i)" "\<forall>i \<in> set free'. \<not> to_in_use (entry s' i)"
    by simp_all
  with b f d all show ?thesis by (simp add: sched_rep_def)
qed

lemma sched_rep_unlink_busy:
  assumes rep: "sched_rep s (xs @ x # ys) free held"
  shows "\<exists>s'. pf_scheduler_unlink Busy_q x s = Some s' \<and> sched_rep s' (xs @ ys) free (x # held) \<and>
           link_frame Busy_q (set (xs @ x # ys)) s s'"
proof -
  from rep have "list_rep Busy_q s (xs @ x # ys)" by (simp add: sched_rep_def)
  from unlink_rep [OF this] obtain s' where s': "pf_scheduler_unlink Busy_q x s = Some s'"
    "list_rep Busy_q s' (xs @ ys)" "link_frame Busy_q (set (xs @ x # ys)) s s'" by blast
  have "list_rep Free_q s' free"
    by (rule link_frame_list_rep [OF s'(3)]) (use rep in \<open>auto simp: sched_rep_def\<close>)
  then have "sched_rep s' (xs @ ys) free (x # held)"
    by (rule sched_rep_move [OF rep s'(3,2)]) (use rep in \<open>auto simp: sched_rep_def\<close>)
  with s' show ?thesis by blast
qed

lemma sched_rep_unlink_free:
  assumes rep: "sched_rep s busy (x # ys) held"
  shows "\<exists>s'. pf_scheduler_unlink Free_q x s = Some s' \<and> sched_rep s' busy ys (x # held) \<and>
           link_frame Free_q (set (x # ys)) s s'"
proof -
  from rep have "list_rep Free_q s ([] @ x # ys)" by (simp add: sched_rep_def)
  from unlink_rep [OF this] obtain s' where s': "pf_scheduler_unlink Free_q x s = Some s'"
    "list_rep Free_q s' ys" "link_frame Free_q (set (x # ys)) s s'" by auto
  have "list_rep Busy_q s' busy"
    by (rule link_frame_list_rep [OF s'(3)]) (use rep in \<open>auto simp: sched_rep_def\<close>)
  then have "sched_rep s' busy ys (x # held)"
    by (rule sched_rep_move [OF rep s'(3) _ s'(2)]) (use rep in \<open>auto simp: sched_rep_def\<close>)
  with s' show ?thesis by blast
qed

lemma sched_rep_link_busy:
  assumes rep: "sched_rep s (xs @ ys) free (i # held)"
    and link: "list_rep Busy_q s' (xs @ i # ys)" "link_frame Busy_q (set (xs @ i # ys)) s s'"
    and use: "to_in_use (entry s i)"
  shows "sched_rep s' (xs @ i # ys) free held"
proof -
  have "list_rep Free_q s' free"
    by (rule link_frame_list_rep [OF link(2)]) (use rep in \<open>auto simp: sched_rep_def\<close>)
  then show ?thesis
    by (rule sched_rep_move [OF rep link(2,1)]) (use rep use in \<open>auto simp: sched_rep_def\<close>)
qed

lemma sched_rep_push_free:
  assumes rep: "sched_rep s busy free (i # held)" and use: "\<not> to_in_use (entry s i)"
  shows "\<exists>s'. pf_scheduler_link_before Free_q i (timeout_free s) s = Some s' \<and>
           sched_rep s' busy (i # free) held \<and> link_frame Free_q (set (i # free)) s s'"
proof -
  have free: "list_rep Free_q s ([] @ free)" and i: "i < PF_MAX_TIMEOUTS" "i \<notin> set ([] @ free)"
    using rep by (auto simp: sched_rep_def)
  have pos: "timeout_free s = hd_or PF_MAX_TIMEOUTS free"
    using free by (simp add: list_rep_def)
  from link_before_rep [OF free i pos] obtain s' where
    s': "pf_scheduler_link_before Free_q i (timeout_free s) s = Some s'"
      "list_rep Free_q s' (i # free)" "link_frame Free_q (set (i # free)) s s'" by auto
  have "list_rep Busy_q s' busy"
    by (rule link_frame_list_rep [OF s'(3)]) (use rep in \<open>auto simp: sched_rep_def\<close>)
  then have "sched_rep s' busy (i # free) held"
    by (rule sched_rep_move [OF rep s'(3) _ s'(2)]) (use rep use in \<open>auto simp: sched_rep_def\<close>)
  with s' show ?thesis by blast
qed

end
