(* ===== verification/Scheduler_Ops.thy ===== *)
theory Scheduler_Ops
  imports Scheduler_Lists
begin

text \<open>
  What the operations of src/common/pf_scheduler.c do to the abstract state
  \<open>sched_rep\<close>: initialisation, adding, removing and the round of a tick before the
  callback. The contents of the entries are followed with \<open>payload_frame\<close>.
\<close>

section \<open>Contents of the entries\<close>

definition payload_frame :: "nat set \<Rightarrow> ('f, 'a) sched \<Rightarrow> ('f, 'a) sched \<Rightarrow> bool" where
  "payload_frame A s s' \<longleftrightarrow> tick_interval s' = tick_interval s \<and>
     length (timeouts s') = length (timeouts s) \<and>
     (\<forall>i < length (timeouts s). i \<notin> A \<longrightarrow> same_payload (entry s i) (entry s' i))"

lemma link_frame_payload: "link_frame q A s s' \<Longrightarrow> payload_frame {} s s'"
  by (simp add: link_frame_def payload_frame_def)

lemma upd_entry_payload: "payload_frame {i} s (upd_entry i f s)"
  by (simp add: payload_frame_def)

lemma payload_frame_refl [simp]: "payload_frame A s s"
  by (simp add: payload_frame_def)

lemma payload_frame_trans:
  "payload_frame A s t \<Longrightarrow> payload_frame B t u \<Longrightarrow> A \<subseteq> C \<Longrightarrow> B \<subseteq> C \<Longrightarrow> payload_frame C s u"
  unfolding payload_frame_def same_payload_def by (metis subsetD)

lemma payload_frame_in:
  "payload_frame A s s' \<Longrightarrow> i < length (timeouts s) \<Longrightarrow> i \<notin> A \<Longrightarrow> same_payload (entry s i) (entry s' i)"
  by (simp add: payload_frame_def)

lemma payload_frame_when:
  "payload_frame A s s' \<Longrightarrow> i < length (timeouts s) \<Longrightarrow> i \<notin> A \<Longrightarrow> to_when (entry s' i) = to_when (entry s i)"
  by (simp add: payload_frame_def same_payload_def)

section \<open>Delays\<close>

lemma word_le_nat: "(a :: u32) \<le> b \<longleftrightarrow> unat a \<le> unat b" "(a :: u32) < b \<longleftrightarrow> unat a < unat b"
  by (simp_all add: word_le_nat_alt word_less_nat_alt)

definition delay_ticks :: "nat \<Rightarrow> nat \<Rightarrow> nat" where
  "delay_ticks w c = (if w > c + c div 2 then (w + c div 2) div c else 1)"

lemma delay_ticks_bounds:
  assumes "0 < c"
  shows "1 \<le> delay_ticks w c" and "delay_ticks w c * c \<le> max c (w + c div 2)"
    and "w + c div 2 \<le> delay_ticks w c * c + c"
proof -
  have *: "(w + c div 2) div c * c \<le> w + c div 2" "w + c div 2 < (w + c div 2) div c * c + c"
    using assms dividend_less_div_times [of c "w + c div 2"] by (simp_all add: add.commute)
  show "1 \<le> delay_ticks w c"
  proof (cases "w > c + c div 2")
    case True
    then have "c div c \<le> (w + c div 2) div c" by (intro div_le_mono) simp
    with True assms show ?thesis by (simp add: delay_ticks_def)
  qed (simp add: delay_ticks_def)
  show "delay_ticks w c * c \<le> max c (w + c div 2)"
    using * by (simp add: delay_ticks_def)
  show "w + c div 2 \<le> delay_ticks w c * c + c"
    using * assms by (auto simp: delay_ticks_def)
qed

text \<open>
  With a cycle time below 2^30 microseconds nothing wraps, no assertion fails, and the
  result is the nearest number of cycles less half a cycle.
\<close>

lemma sanitize_delay_nat:
  fixes w c :: u32
  defines "w' \<equiv> (if w > PF_SCHEDULER_MAX_DELAY_US then 0 else unat w)"
  assumes c: "0 < c" "unat c \<le> 2 ^ 30"
  shows "\<exists>d. pf_scheduler_sanitize_delay w c True = Some d \<and>
           unat d = delay_ticks w' (unat c) * unat c - unat c div 2"
proof -
  define v where "v = (if w > PF_SCHEDULER_MAX_DELAY_US then 0 else w)"
  let ?c = "unat c"
  have w': "unat v = w'" by (simp add: w'_def v_def)
  have w'_le: "w' \<le> 100000000"
    by (auto simp: w'_def PF_SCHEDULER_MAX_DELAY_US_def word_le_nat not_less)
  have c0: "0 < ?c" using c(1) by (simp add: word_le_nat)
  have half: "unat (c div 2) = ?c div 2" by (simp add: unat_div)
  have sum1: "unat (c + c div 2) = ?c + ?c div 2"
    using c(2) half by (subst unat_add_lem [THEN iffD1]) simp_all
  have sum2: "unat (v + c div 2) = w' + ?c div 2"
    using c(2) w'_le half w' by (subst unat_add_lem [THEN iffD1]) simp_all
  define n where "n = (if v > c + c div 2 then (v + c div 2) div c else 1)"
  have n: "unat n = delay_ticks w' ?c"
    by (simp add: n_def delay_ticks_def word_le_nat w' sum1 sum2 unat_div)
  note b = delay_ticks_bounds [OF c0, of w']
  have le: "delay_ticks w' ?c * ?c \<le> 2 ^ 31"
    by (rule order_trans [OF b(2)]) (use w'_le c(2) in auto)
  have "delay_ticks w' ?c \<le> 1 \<or> delay_ticks w' ?c \<le> (w' + ?c div 2) div 1"
    using c0 by (auto simp: delay_ticks_def intro: div_le_mono2)
  then have n_small: "unat n < 2 ^ 31" using n w'_le c(2) by auto
  have prod: "unat (n * c) = delay_ticks w' ?c * ?c"
    using le n by (subst unat_mult_lem [THEN iffD1]) simp_all
  have "?c div 2 \<le> delay_ticks w' ?c * ?c"
    using b(1) by (metis div_le_dividend le_trans mult_le_mono1 nat_mult_1)
  then have "unat (n * c - c div 2) = delay_ticks w' ?c * ?c - ?c div 2"
    using prod half by (subst unat_sub) (simp_all add: word_le_nat)
  moreover have "pf_scheduler_sanitize_delay w c True =
      (if n \<ge> 1 \<and> n < 0x80000000 then Some (n * c - c div 2) else None)"
    unfolding pf_scheduler_sanitize_delay_def Let_def v_def [symmetric] n_def [symmetric]
    using c(1) by auto
  moreover have "n \<ge> 1" "n < 0x80000000"
    using n b(1) n_small by (simp_all add: word_le_nat)
  ultimately show ?thesis by auto
qed

section \<open>Initialisation\<close>

text \<open>
  The loop of \<open>pf_scheduler_init\<close> works downwards: before the round for
  \<open>"ix - 1"\<close> the free list holds the entries from \<open>ix\<close> on.
\<close>

definition init_inv :: "nat \<Rightarrow> ('f, 'a) sched \<Rightarrow> bool" where
  "init_inv ix s \<longleftrightarrow> list_rep Busy_q s [] \<and> list_rep Free_q s [ix..<PF_MAX_TIMEOUTS] \<and>
     (\<forall>i < PF_MAX_TIMEOUTS. \<not> to_in_use (entry s i))"

lemma init_step_inv:
  assumes inv: "init_inv (Suc ix) s" and ix: "ix < PF_MAX_TIMEOUTS"
  shows "\<exists>s'. init_step (Suc ix) s = Some s' \<and> init_inv ix s' \<and> tick_interval s' = tick_interval s"
proof -
  let ?f = "\<lambda>e. e\<lparr>to_name := free_name, to_in_use := False\<rparr>"
  let ?s = "upd_entry ix ?f s"
  have free: "list_rep Free_q ?s ([] @ [Suc ix..<PF_MAX_TIMEOUTS])"
    and busy: "list_rep Busy_q ?s []"
    using inv by (simp_all add: init_inv_def list_rep_upd_payload)
  have pos: "timeout_free ?s = hd_or PF_MAX_TIMEOUTS [Suc ix..<PF_MAX_TIMEOUTS]"
    using free by (simp add: list_rep_def)
  from link_before_rep [OF free ix _ pos] obtain s' where
    s': "pf_scheduler_link_before Free_q ix (timeout_free ?s) ?s = Some s'"
      "list_rep Free_q s' (ix # [Suc ix..<PF_MAX_TIMEOUTS])"
      "link_frame Free_q (set (ix # [Suc ix..<PF_MAX_TIMEOUTS])) ?s s'" by auto
  have "list_rep Busy_q s' []"
    by (rule link_frame_list_rep [OF s'(3) busy]) simp_all
  moreover have "\<forall>i < PF_MAX_TIMEOUTS. \<not> to_in_use (entry s' i)"
    using inv free link_frame_in_use [OF s'(3)]
    by (auto simp: init_inv_def list_rep_def)
  ultimately show ?thesis
    using s' ix by (auto simp: init_step_def init_inv_def upt_conv_Cons link_frame_def)
qed

lemma init_loop_inv:
  assumes "init_inv ix s" and "ix \<le> PF_MAX_TIMEOUTS"
  shows "\<exists>s'. init_loop ix s = Some s' \<and> init_inv 0 s' \<and> tick_interval s' = tick_interval s"
  using assms
proof (induction ix arbitrary: s)
  case 0
  then show ?case by simp
next
  case (Suc ix)
  from init_step_inv [of ix s] Suc.prems obtain s' where
    s': "init_step (Suc ix) s = Some s'" "init_inv ix s'" "tick_interval s' = tick_interval s" by auto
  with Suc.IH [of s'] Suc.prems show ?case by auto
qed

lemma init_rep:
  assumes "tick > 0"
  shows "\<exists>s'. pf_scheduler_init tick s = Some s' \<and> sched_rep s' [] [0..<PF_MAX_TIMEOUTS] [] \<and>
           tick_interval s' = tick"
proof -
  let ?s = "s\<lparr>timeout_first := PF_MAX_TIMEOUTS, timeout_free := PF_MAX_TIMEOUTS,
               timeouts := replicate PF_MAX_TIMEOUTS zero_entry, tick_interval := tick\<rparr>"
  have "init_inv PF_MAX_TIMEOUTS ?s"
    by (simp add: init_inv_def list_rep_def entry_def zero_entry_def)
  from init_loop_inv [OF this] obtain s' where
    "init_loop PF_MAX_TIMEOUTS ?s = Some s'" "init_inv 0 s'" "tick_interval s' = tick" by auto
  then show ?thesis
    using assms by (auto simp: pf_scheduler_init_def init_inv_def sched_rep_def atLeast0LessThan)
qed

section \<open>Adding\<close>

lemma alloc_rep:
  assumes "sched_rep s busy (i # free) held"
  shows "\<exists>s'. sched_alloc s = Some (i, s') \<and> sched_rep s' busy free (i # held) \<and>
           payload_frame {} s s'"
proof -
  have "timeout_free s = i" using assms by (simp add: sched_rep_def list_rep_def)
  with sched_rep_unlink_free [OF assms] show ?thesis
    by (auto simp: sched_alloc_def dest: link_frame_payload)
qed

lemma alloc_exhausted:
  assumes "sched_rep s busy [] held"
  shows "sched_alloc s = Some (PF_MAX_TIMEOUTS, s)"
  using assms by (simp add: sched_alloc_def sched_rep_def list_rep_def pf_scheduler_unlink_def)

lemma add_find_pos_dseg:
  assumes "dseg ts p xs PF_MAX_TIMEOUTS" and "set xs \<subseteq> {..<PF_MAX_TIMEOUTS}"
  shows "add_find_pos ts when p (hd_or PF_MAX_TIMEOUTS xs) =
           Some (last_or p (takeWhile (\<lambda>j. sdiff32 when (to_when (ts ! j)) > 0) xs))"
  using assms by (induction xs arbitrary: p) (auto simp: add_find_pos.simps)

text \<open>Where the code puts entry \<open>i\<close>: behind the entries that are due before it.\<close>

definition later_than :: "('f, 'a) sched \<Rightarrow> nat \<Rightarrow> nat \<Rightarrow> bool" where
  "later_than s i j \<longleftrightarrow> sdiff32 (to_when (entry s i)) (to_when (entry s j)) > 0"

definition enqueue_order :: "('f, 'a) sched \<Rightarrow> nat \<Rightarrow> nat list \<Rightarrow> nat list" where
  "enqueue_order s i busy =
     takeWhile (later_than s i) busy @ i # dropWhile (later_than s i) busy"

lemma enqueue_rep:
  assumes rep: "sched_rep s busy free (i # held)" and use: "to_in_use (entry s i)"
  shows "\<exists>s'. sched_enqueue i s = Some s' \<and> sched_rep s' (enqueue_order s i busy) free held \<and>
           payload_frame {} s s'"
proof -
  have lr: "list_rep Busy_q s busy" and i: "i < PF_MAX_TIMEOUTS" "i \<notin> set busy"
    using rep by (auto simp: sched_rep_def)
  have hd: "timeout_first s = hd_or PF_MAX_TIMEOUTS busy" using lr by (simp add: list_rep_def)
  show ?thesis
  proof (cases busy)
    case Nil
    from link_before_rep [of Busy_q s "[]" "[]"] lr i Nil obtain s' where
      "pf_scheduler_link_before Busy_q i PF_MAX_TIMEOUTS s = Some s'"
      "list_rep Busy_q s' ([] @ i # [])" "link_frame Busy_q (set ([] @ i # [])) s s'" by auto
    with sched_rep_link_busy [of s "[]" "[]" free i held s'] rep use Nil hd show ?thesis
      by (auto simp: sched_enqueue_def enqueue_order_def dest: link_frame_payload)
  next
    case (Cons b bs)
    have b: "b < PF_MAX_TIMEOUTS" using lr Cons by (simp add: list_rep_def)
    show ?thesis
    proof (cases "later_than s i b")
      case False
      from link_before_rep [of Busy_q s "[]" "b # bs" i b] lr i Cons obtain s' where
        "pf_scheduler_link_before Busy_q i b s = Some s'"
        "list_rep Busy_q s' ([] @ i # b # bs)" "link_frame Busy_q (set ([] @ i # b # bs)) s s'" by auto
      with sched_rep_link_busy [of s "[]" "b # bs" free i held s'] rep use Cons hd b False show ?thesis
        by (auto simp: sched_enqueue_def enqueue_order_def later_than_def not_less
            dest: link_frame_payload)
    next
      case True
      define ds where "ds = dropWhile (later_than s i) bs"
      obtain us x where ux: "b # takeWhile (later_than s i) bs = us @ [x]"
        by (metis append_butlast_last_id list.distinct(1))
      have busy: "busy = us @ x # ds"
        using Cons ux by (metis append.assoc append_Cons append_Nil ds_def takeWhile_dropWhile_id)
      have x: "last_or b (takeWhile (later_than s i) bs) = x"
        using ux by (metis last_or_simps(2) last_or_append last_or_simps(1))
      have "add_find_pos (timeouts s) (to_when (entry s i)) b (to_next (entry s b)) = Some x"
        using add_find_pos_dseg [of "timeouts s" b bs "to_when (entry s i)"] lr Cons x
        by (auto simp: list_rep_def entry_def later_than_def [abs_def])
      moreover from link_after_rep [of Busy_q s us x ds i] lr i busy obtain s' where
        "pf_scheduler_link_after Busy_q i x s = Some s'"
        "list_rep Busy_q s' ((us @ [x]) @ i # ds)" "link_frame Busy_q (set ((us @ [x]) @ i # ds)) s s'"
        by auto
      moreover have "enqueue_order s i busy = (us @ [x]) @ i # ds"
        using True Cons ux by (simp add: enqueue_order_def ds_def)
      moreover have "timeout_first s = b" using hd Cons by simp
      ultimately show ?thesis
        using sched_rep_link_busy [of s "us @ [x]" ds free i held s'] rep use b True
        unfolding busy [symmetric]
        by (auto simp: sched_enqueue_def later_than_def not_le busy dest: link_frame_payload)
    qed
  qed
qed

end
