(* ===== verification/Scheduler_Time.thy ===== *)
theory Scheduler_Time
  imports Scheduler_Ops
begin

text \<open>
  Adding, removing and the tick of src/common/pf_scheduler.c on the abstract state, and
  the behaviour over time: the busy list stays sorted by deadline, and a tick runs the
  expired entries, in the order of their deadlines, and no other.
\<close>

section \<open>Add and remove\<close>

text \<open>The place of a new deadline: behind the entries that are due before it.\<close>

definition insert_deadline :: "('f, 'a) sched \<Rightarrow> u32 \<Rightarrow> nat \<Rightarrow> nat list \<Rightarrow> nat list" where
  "insert_deadline s w i busy =
     (let before = (\<lambda>j. sdiff32 w (to_when (entry s j)) > 0)
      in takeWhile before busy @ i # dropWhile before busy)"

lemma insert_deadline_set [simp]: "set (insert_deadline s w i busy) = insert i (set busy)"
proof -
  have "set (takeWhile P busy) \<union> set (dropWhile P busy) = set busy" for P
    by (metis set_append takeWhile_dropWhile_id)
  then show ?thesis unfolding insert_deadline_def Let_def by auto
qed

lemma when_frame:
  assumes "payload_frame A s t" and "set busy \<inter> A = {}" and "set busy \<subseteq> {..<length (timeouts s)}"
    and "j \<in> set busy"
  shows "to_when (entry t j) = to_when (entry s j)"
  using assms by (intro payload_frame_when [OF assms(1)]) auto

lemma enqueue_order_insert_deadline:
  assumes "payload_frame {i} s t" and "i \<notin> set busy" and "set busy \<subseteq> {..<length (timeouts s)}"
    and "to_when (entry t i) = w"
  shows "enqueue_order t i busy = insert_deadline s w i busy"
proof -
  have "j \<in> set busy \<Longrightarrow> later_than t i j = (sdiff32 w (to_when (entry s j)) > 0)" for j
    using assms(2-4) when_frame [OF assms(1), of busy j] by (simp add: later_than_def)
  then have "takeWhile (later_than t i) busy = takeWhile (\<lambda>j. sdiff32 w (to_when (entry s j)) > 0) busy"
    "dropWhile (later_than t i) busy = dropWhile (\<lambda>j. sdiff32 w (to_when (entry s j)) > 0) busy"
    by (auto intro: takeWhile_cong dropWhile_cong)
  then show ?thesis by (simp add: enqueue_order_def insert_deadline_def Let_def)
qed

definition entry_is :: "('f, 'a) sched \<Rightarrow> nat \<Rightarrow> str_ptr \<Rightarrow> u32 \<Rightarrow> 'f \<Rightarrow> 'a \<Rightarrow> bool" where
  "entry_is s i name w cb arg \<longleftrightarrow> to_in_use (entry s i) \<and> to_name (entry s i) = name \<and>
     to_when (entry s i) = w \<and> to_cb (entry s i) = Some cb \<and> to_arg (entry s i) = Some arg"

lemma entry_is_payload:
  "entry_is s i name w cb arg \<Longrightarrow> same_payload (entry s i) (entry t i) \<Longrightarrow> entry_is t i name w cb arg"
  by (auto simp: entry_is_def same_payload_def)

lemma add_rep:
  assumes rep: "sched_rep s busy (i # free) held"
    and d: "pf_scheduler_sanitize_delay delay (tick_interval s) True = Some d"
  shows "\<exists>s'. pf_scheduler_add now delay cb arg h s =
             Some (0, h\<lparr>h_timer_index := of_nat (i + 1)\<rparr>, s') \<and>
           sched_rep s' (insert_deadline s (now + d) i busy) free held \<and>
           entry_is s' i (h_name h) (now + d) cb arg \<and> payload_frame {i} s s'"
proof -
  let ?f = "\<lambda>e. e\<lparr>to_in_use := True, to_name := h_name h, to_cb := Some cb, to_arg := Some arg,
                  to_when := now + d\<rparr>"
  from alloc_rep [OF rep] obtain s1 where
    s1: "sched_alloc s = Some (i, s1)" "sched_rep s1 busy free (i # held)" "payload_frame {} s s1"
    by blast
  have i: "i < PF_MAX_TIMEOUTS" "i \<notin> set busy" and len: "length (timeouts s) = PF_MAX_TIMEOUTS"
    "length (timeouts s1) = PF_MAX_TIMEOUTS" and bs: "set busy \<subseteq> {..<PF_MAX_TIMEOUTS}"
    using rep sched_rep_length [OF s1(2)] sched_rep_length [OF rep] by (auto simp: sched_rep_def)
  let ?s2 = "upd_entry i ?f s1"
  have s2: "sched_rep ?s2 busy free (i # held)" "payload_frame {i} s ?s2"
    using sched_rep_upd_held [OF s1(2), of i ?f]
      payload_frame_trans [OF s1(3) upd_entry_payload, of "{i}" i ?f] by simp_all
  have e2: "entry_is ?s2 i (h_name h) (now + d) cb arg"
    using i len by (simp add: entry_is_def)
  from enqueue_rep [OF s2(1)] e2 obtain s3 where s3: "sched_enqueue i ?s2 = Some s3"
    "sched_rep s3 (enqueue_order ?s2 i busy) free held" "payload_frame {} ?s2 s3"
    by (auto simp: entry_is_def)
  have "enqueue_order ?s2 i busy = insert_deadline s (now + d) i busy"
    using s2(2) i bs len e2 by (intro enqueue_order_insert_deadline) (simp_all add: entry_is_def)
  moreover have "entry_is s3 i (h_name h) (now + d) cb arg"
    using e2 payload_frame_in [OF s3(3), of i] i len by (intro entry_is_payload [OF e2]) simp
  moreover have "payload_frame {i} s s3"
    by (rule payload_frame_trans [OF s2(2) s3(3)]) simp_all
  ultimately show ?thesis
    using s1(1) s3(1,2) d i(1) by (simp add: pf_scheduler_add_def)
qed

lemma add_full:
  assumes rep: "sched_rep s busy [] held"
    and d: "pf_scheduler_sanitize_delay delay (tick_interval s) True = Some d"
  shows "pf_scheduler_add now delay cb arg h s = Some (-1, h\<lparr>h_timer_index := UINT32_MAX\<rparr>, s)"
  using alloc_exhausted [OF rep] d by (simp add: pf_scheduler_add_def)

text \<open>A handle is live for entry \<open>i\<close> when a remove through it finds that entry.\<close>

definition handle_live :: "('f, 'a) sched \<Rightarrow> sched_handle \<Rightarrow> nat \<Rightarrow> bool" where
  "handle_live s h i \<longleftrightarrow> i < PF_MAX_TIMEOUTS \<and> h_timer_index h = of_nat (i + 1) \<and>
     to_in_use (entry s i) \<and> to_name (entry s i) = h_name h"

lemma handle_index:
  assumes "i < PF_MAX_TIMEOUTS"
  shows "unat (ucast ((of_nat (i + 1) :: u32) - 1) :: u16) = i"
    and "(of_nat (i + 1) :: u32) \<noteq> 0" and "(of_nat (i + 1) :: u32) \<le> of_nat PF_MAX_TIMEOUTS"
proof -
  have i: "i < 15" using assms by (simp add: config_defs)
  then have u: "unat (of_nat (i + 1) :: u32) = i + 1"
    by (simp add: unsigned_of_nat take_bit_nat_eq_self del: of_nat_Suc of_nat_add)
  show "(of_nat (i + 1) :: u32) \<noteq> 0" using u by (metis add_is_0 one_neq_zero unat_0)
  show "(of_nat (i + 1) :: u32) \<le> of_nat PF_MAX_TIMEOUTS"
    using i u by (simp add: word_le_nat config_defs)
  show "unat (ucast ((of_nat (i + 1) :: u32) - 1) :: u16) = i"
    using i by (simp add: unsigned_of_nat take_bit_nat_eq_self)
qed

lemma remove_rep:
  assumes rep: "sched_rep s (xs @ i # ys) free held" and live: "handle_live s h i"
  shows "\<exists>s'. pf_scheduler_remove h s = Some (h\<lparr>h_timer_index := UINT32_MAX\<rparr>, s') \<and>
           sched_rep s' (xs @ ys) (i # free) held \<and> payload_frame {i} s s'"
proof -
  have i: "i < PF_MAX_TIMEOUTS" using live by (simp add: handle_live_def)
  from sched_rep_unlink_busy [OF rep] obtain s1 where
    s1: "pf_scheduler_unlink Busy_q i s = Some s1" "sched_rep s1 (xs @ ys) free (i # held)"
      "payload_frame {} s s1" by (auto dest: link_frame_payload)
  let ?s2 = "upd_entry i (\<lambda>e. e\<lparr>to_in_use := False\<rparr>) s1"
  have s2: "sched_rep ?s2 (xs @ ys) free (i # held)" "payload_frame {i} s ?s2"
    using sched_rep_upd_held [OF s1(2), of i]
      payload_frame_trans [OF s1(3) upd_entry_payload, of "{i}" i] by simp_all
  have "\<not> to_in_use (entry ?s2 i)" using i sched_rep_length [OF s1(2)] by simp
  from sched_rep_push_free [OF s2(1) this] obtain s3 where
    s3: "pf_scheduler_link_before Free_q i (timeout_free ?s2) ?s2 = Some s3"
      "sched_rep s3 (xs @ ys) (i # free) held" "payload_frame {} ?s2 s3"
    by (auto dest: link_frame_payload)
  have "payload_frame {i} s s3" by (rule payload_frame_trans [OF s2(2) s3(3)]) simp_all
  then show ?thesis
    using s1(1) s3(1,2) live handle_index [OF i]
    by (auto simp: pf_scheduler_remove_def handle_live_def Let_def not_less)
qed

text \<open>A handle that is not running, or whose entry was given back, removes nothing.\<close>

lemma remove_stopped:
  "h_timer_index h = UINT32_MAX \<Longrightarrow> pf_scheduler_remove h s = Some (h, s)"
  by (simp add: pf_scheduler_remove_def UINT32_MAX_def config_defs)

lemma remove_if_running_stopped:
  "h_timer_index h = UINT32_MAX \<Longrightarrow> pf_scheduler_remove_if_running h s = Some (h, s)"
  by (simp add: pf_scheduler_remove_if_running_def pf_scheduler_is_running_def)

section \<open>Deadlines in order\<close>

text \<open>
  Time stamps wrap, so the order of the deadlines only makes sense inside a window of
  half the range. \<open>timely\<close> fixes where the window starts.
\<close>

definition age :: "u32 \<Rightarrow> u32 \<Rightarrow> int" where
  "age b w = uint (w - b)"

definition timely :: "u32 \<Rightarrow> ('f, 'a) sched \<Rightarrow> nat list \<Rightarrow> bool" where
  "timely b s busy \<longleftrightarrow> sorted (map (\<lambda>j. age b (to_when (entry s j))) busy) \<and>
     (\<forall>j \<in> set busy. age b (to_when (entry s j)) < 2 ^ 31)"

lemma sdiff32_age:
  "age b v < 2 ^ 31 \<Longrightarrow> age b w < 2 ^ 31 \<Longrightarrow> sdiff32 v w = age b v - age b w"
  unfolding age_def by (rule sdiff32_window)

lemma timely_frame:
  assumes "payload_frame A s t" and "set busy \<subseteq> {..<length (timeouts s)}" and "set busy \<inter> A = {}"
  shows "timely b t busy = timely b s busy"
proof -
  have "j \<in> set busy \<Longrightarrow> to_when (entry t j) = to_when (entry s j)" for j
    by (rule when_frame [OF assms(1,3,2)])
  then show ?thesis by (simp add: timely_def cong: map_cong)
qed

lemma timely_sub:
  "timely b s (xs @ i # ys) \<Longrightarrow> timely b s (xs @ ys)"
  by (auto simp: timely_def sorted_append)

lemma timely_insert:
  assumes t: "timely b s busy" and w: "age b w < 2 ^ 31" and f: "payload_frame {i} s s'"
    and i: "i \<notin> set busy" and bs: "set busy \<subseteq> {..<length (timeouts s)}" and w': "to_when (entry s' i) = w"
  shows "timely b s' (insert_deadline s w i busy)"
proof -
  let ?k = "\<lambda>j. age b (to_when (entry s' j))"
  have t': "timely b s' busy" using t timely_frame [OF f bs] i by simp
  have cmp: "j \<in> set busy \<Longrightarrow> (sdiff32 w (to_when (entry s j)) > 0) = (?k j < ?k i)" for j
    using t w w' i when_frame [OF f _ bs, of j]
    by (subst sdiff32_age [where b = b]) (simp_all add: timely_def)
  have "insert_deadline s w i busy =
      takeWhile (\<lambda>j. ?k j < ?k i) busy @ i # dropWhile (\<lambda>j. ?k j < ?k i) busy"
    unfolding insert_deadline_def Let_def using cmp by (auto intro!: takeWhile_cong dropWhile_cong arg_cong2 [where f = "(@)"])
  moreover have "sorted (map ?k busy)" using t' by (simp add: timely_def)
  ultimately have "sorted (map ?k (insert_deadline s w i busy))"
    by (simp add: sorted_map_insert_takeWhile [of ?k busy i, simplified])
  moreover have "\<forall>j \<in> set (insert_deadline s w i busy). ?k j < 2 ^ 31"
    using t' w w' by (simp add: timely_def)
  ultimately show ?thesis by (simp add: timely_def)
qed

end
