(* ===== verification/Scheduler_Tick.thy ===== *)
theory Scheduler_Tick
  imports Scheduler_Time
begin

text \<open>
  The tick of src/common/pf_scheduler.c. One round takes the head of the busy list. With
  callbacks that keep the invariant and do not make more entries due, the loop ends and
  leaves no expired entry; with passive callbacks it runs exactly the expired entries, in
  the order of their deadlines.
\<close>

section \<open>One round\<close>

lemma tick_take_rep:
  assumes rep: "sched_rep s (x # busy) free held"
  shows "\<exists>s'. tick_take s = Some (to_cb (entry s x), to_arg (entry s x), s') \<and>
           sched_rep s' busy (x # free) held \<and> payload_frame {x} s s'"
proof -
  have x: "x < PF_MAX_TIMEOUTS" and hd: "timeout_first s = x"
    using rep by (auto simp: sched_rep_def list_rep_def)
  from sched_rep_unlink_busy [of s "[]" x busy free held] rep obtain s1 where
    s1: "pf_scheduler_unlink Busy_q x s = Some s1" "sched_rep s1 busy free (x # held)"
      "payload_frame {} s s1" by (auto dest: link_frame_payload)
  have same: "same_payload (entry s x) (entry s1 x)"
    by (rule payload_frame_in [OF s1(3)]) (use x sched_rep_length [OF rep] in simp_all)
  let ?s2 = "upd_entry x (\<lambda>e. e\<lparr>to_in_use := False\<rparr>) s1"
  have s2: "sched_rep ?s2 busy free (x # held)" "payload_frame {x} s ?s2"
    using sched_rep_upd_held [OF s1(2), of x]
      payload_frame_trans [OF s1(3) upd_entry_payload, of "{x}" x] by simp_all
  have "\<not> to_in_use (entry ?s2 x)" using x sched_rep_length [OF s1(2)] by simp
  from sched_rep_push_free [OF s2(1) this] obtain s3 where
    s3: "pf_scheduler_link_before Free_q x (timeout_free ?s2) ?s2 = Some s3"
      "sched_rep s3 busy (x # free) held" "payload_frame {} ?s2 s3"
    by (auto dest: link_frame_payload)
  have "payload_frame {x} s s3" by (rule payload_frame_trans [OF s2(2) s3(3)]) simp_all
  then show ?thesis
    using s1(1) s3(1,2) hd same by (simp add: tick_take_def Let_def same_payload_def)
qed

lemma tick_due_rep:
  assumes "sched_rep s busy free held"
  shows "tick_due now s \<longleftrightarrow> busy \<noteq> [] \<and> sdiff32 now (to_when (entry s (hd busy))) \<ge> 0"
  using assms by (cases busy) (auto simp: tick_due_def sched_rep_def list_rep_def)

section \<open>Passive callbacks\<close>

text \<open>
  \<open>logging\<close> is the callback that only writes down what it was called with. With it
  the tick is a function of the scheduler alone.
\<close>

definition logging ::
    "'f option \<Rightarrow> 'a option \<Rightarrow> u32 \<Rightarrow> ('f, 'a) sched \<times> ('f option \<times> 'a option) list
       \<Rightarrow> (('f, 'a) sched \<times> ('f option \<times> 'a option) list) option" where
  "logging ftn arg now sw = Some (fst sw, snd sw @ [(ftn, arg)])"

definition expired :: "u32 \<Rightarrow> ('f, 'a) sched \<Rightarrow> nat \<Rightarrow> bool" where
  "expired now s j \<longleftrightarrow> sdiff32 now (to_when (entry s j)) \<ge> 0"

definition calls :: "('f, 'a) sched \<Rightarrow> nat list \<Rightarrow> ('f option \<times> 'a option) list" where
  "calls s js = map (\<lambda>j. (to_cb (entry s j), to_arg (entry s j))) js"

lemma busy_frame:
  assumes "payload_frame {x} s s'" and "sched_rep s (x # busy) free held" and "j \<in> set busy"
  shows "same_payload (entry s j) (entry s' j)"
  using assms by (intro payload_frame_in [OF assms(1)]) (auto simp: sched_rep_def list_rep_def)

lemma tick_runs_prefix:
  assumes "sched_rep s busy free held"
  shows "\<exists>s'. pf_scheduler_tick logging now (s, log) =
             Some (s', log @ calls s (takeWhile (expired now s) busy)) \<and>
           sched_rep s' (dropWhile (expired now s) busy)
             (rev (takeWhile (expired now s) busy) @ free) held \<and>
           payload_frame (set (takeWhile (expired now s) busy)) s s'"
  using assms
proof (induction busy arbitrary: s free log)
  case Nil
  then show ?case
    by (subst pf_scheduler_tick.simps) (auto simp: tick_due_rep calls_def)
next
  case (Cons x busy)
  show ?case
  proof (cases "expired now s x")
    case False
    with Cons.prems show ?thesis
      by (subst pf_scheduler_tick.simps) (auto simp: tick_due_rep [OF Cons.prems] calls_def expired_def)
  next
    case True
    from tick_take_rep [OF Cons.prems] obtain s1 where
      s1: "tick_take s = Some (to_cb (entry s x), to_arg (entry s x), s1)"
        "sched_rep s1 busy (x # free) held" "payload_frame {x} s s1" by blast
    have same: "j \<in> set busy \<Longrightarrow> same_payload (entry s j) (entry s1 j)" for j
      by (rule busy_frame [OF s1(3) Cons.prems])
    then have e: "j \<in> set busy \<Longrightarrow> expired now s1 j = expired now s j" for j
      by (simp add: expired_def same_payload_def)
    have tw: "takeWhile (expired now s1) busy = takeWhile (expired now s) busy"
      and dw: "dropWhile (expired now s1) busy = dropWhile (expired now s) busy"
      using e by (auto intro: takeWhile_cong dropWhile_cong)
    have cs: "calls s1 (takeWhile (expired now s) busy) = calls s (takeWhile (expired now s) busy)"
      using same by (auto simp: calls_def same_payload_def dest!: set_takeWhileD)
    let ?log = "log @ [(to_cb (entry s x), to_arg (entry s x))]"
    from Cons.IH [OF s1(2), of ?log] obtain s2 where
      s2: "pf_scheduler_tick logging now (s1, ?log) =
             Some (s2, ?log @ calls s (takeWhile (expired now s) busy))"
        "sched_rep s2 (dropWhile (expired now s) busy)
           (rev (takeWhile (expired now s) busy) @ x # free) held"
        "payload_frame (set (takeWhile (expired now s) busy)) s1 s2"
      unfolding tw dw cs by blast
    have "payload_frame (set (takeWhile (expired now s) (x # busy))) s s2"
      by (rule payload_frame_trans [OF s1(3) s2(3)]) (use True in auto)
    moreover have "pf_scheduler_tick logging now (s, log) =
        pf_scheduler_tick logging now (s1, ?log)"
      using True by (subst pf_scheduler_tick.simps)
        (simp add: tick_due_rep [OF Cons.prems] expired_def s1(1) logging_def)
    ultimately show ?thesis using s2(1,2) True by (auto simp: calls_def)
  qed
qed

lemma expired_timely:
  assumes t: "timely b s busy" and now: "age b now < 2 ^ 31"
  shows "takeWhile (expired now s) busy = filter (expired now s) busy"
    and "dropWhile (expired now s) busy = filter (\<lambda>j. \<not> expired now s j) busy"
proof -
  let ?k = "\<lambda>j. age b (to_when (entry s j))"
  have e: "j \<in> set busy \<Longrightarrow> expired now s j = (?k j \<le> age b now)" for j
    using t now sdiff32_age [of b now "to_when (entry s j)"] by (auto simp: expired_def timely_def)
  have srt: "sorted (map ?k busy)" using t by (simp add: timely_def)
  have "takeWhile (expired now s) busy = takeWhile (\<lambda>j. ?k j \<le> age b now) busy"
    using e by (auto intro: takeWhile_cong)
  also have "\<dots> = filter (\<lambda>j. ?k j \<le> age b now) busy" by (rule takeWhile_sorted_map [OF srt])
  also have "\<dots> = filter (expired now s) busy" using e by (auto intro: filter_cong)
  finally show tw: "takeWhile (expired now s) busy = filter (expired now s) busy" .
  have "filter (expired now s) busy @ dropWhile (expired now s) busy = busy"
    using tw takeWhile_dropWhile_id by metis
  moreover have "\<forall>j \<in> set (dropWhile (expired now s) busy). \<not> expired now s j"
  proof -
    have "filter (expired now s) (filter (expired now s) busy @ dropWhile (expired now s) busy)
        = filter (expired now s) busy" using calculation by simp
    then show ?thesis by (simp add: filter_empty_conv)
  qed
  ultimately show "dropWhile (expired now s) busy = filter (\<lambda>j. \<not> expired now s j) busy"
    by (metis (mono_tags, lifting) append_self_conv2 filter_True filter_append filter_empty_conv filter_filter
        set_filter mem_Collect_eq)
qed

section \<open>Active callbacks\<close>

text \<open>The number of expired entries that are in use bounds the rounds.\<close>

definition due_count :: "u32 \<Rightarrow> ('f, 'a) sched \<Rightarrow> nat" where
  "due_count now s =
     length (filter (\<lambda>j. to_in_use (entry s j) \<and> expired now s j) [0..<PF_MAX_TIMEOUTS])"

definition sched_ok :: "('f, 'a) sched \<Rightarrow> bool" where
  "sched_ok s \<longleftrightarrow> (\<exists>busy free. sched_rep s busy free [])"

lemma due_count_card:
  "due_count now s = card {j. j < PF_MAX_TIMEOUTS \<and> to_in_use (entry s j) \<and> expired now s j}"
proof -
  let ?xs = "filter (\<lambda>j. to_in_use (entry s j) \<and> expired now s j) [0..<PF_MAX_TIMEOUTS]"
  have "card (set ?xs) = length ?xs" by (rule distinct_card) simp
  moreover have "set ?xs = {j. j < PF_MAX_TIMEOUTS \<and> to_in_use (entry s j) \<and> expired now s j}"
    by auto
  ultimately show ?thesis unfolding due_count_def by simp
qed

lemma tick_take_due_count:
  assumes rep: "sched_rep s (x # busy) free []" and x: "expired now s x"
    and s': "sched_rep s' busy (x # free) []" "payload_frame {x} s s'"
  shows "due_count now s' < due_count now s"
proof -
  let ?D = "\<lambda>s. {j. j < PF_MAX_TIMEOUTS \<and> to_in_use (entry s j) \<and> expired now s j}"
  have same: "j < PF_MAX_TIMEOUTS \<Longrightarrow> j \<noteq> x \<Longrightarrow> same_payload (entry s j) (entry s' j)" for j
    by (rule payload_frame_in [OF s'(2)]) (use sched_rep_length [OF rep] in auto)
  have nx: "x \<notin> ?D s'" and ix: "x \<in> ?D s"
    using rep x s'(1) by (auto simp: sched_rep_def)
  have "?D s' \<subseteq> ?D s"
  proof
    fix j assume j: "j \<in> ?D s'"
    with nx have "j \<noteq> x" by blast
    with j same [of j] show "j \<in> ?D s" by (simp add: same_payload_def expired_def)
  qed
  with nx ix have "?D s' \<subset> ?D s" by blast
  then show ?thesis unfolding due_count_card by (intro psubset_card_mono) simp_all
qed

lemma tick_terminates:
  assumes fire: "\<And>ftn arg s w. sched_ok s \<Longrightarrow> \<exists>s' w'. fire ftn arg now (s, w) = Some (s', w') \<and>
      sched_ok s' \<and> due_count now s' \<le> due_count now s"
    and ok: "sched_ok s"
  shows "\<exists>s' w'. pf_scheduler_tick fire now (s, w) = Some (s', w') \<and> sched_ok s' \<and>
      \<not> tick_due now s'"
  using ok
proof (induction "due_count now s" arbitrary: s w rule: less_induct)
  case less
  from less.prems obtain busy free where rep: "sched_rep s busy free []"
    by (auto simp: sched_ok_def)
  show ?case
  proof (cases "tick_due now s")
    case False
    with less.prems show ?thesis by (subst pf_scheduler_tick.simps) auto
  next
    case True
    with tick_due_rep [OF rep] obtain x bs where b: "busy = x # bs" and x: "expired now s x"
      by (cases busy) (auto simp: expired_def)
    from tick_take_rep [OF rep [unfolded b]] obtain s1 where
      s1: "tick_take s = Some (to_cb (entry s x), to_arg (entry s x), s1)"
        "sched_rep s1 bs (x # free) []" "payload_frame {x} s s1" by blast
    have lt: "due_count now s1 < due_count now s"
      by (rule tick_take_due_count [OF rep [unfolded b] x s1(2,3)])
    have "sched_ok s1" using s1(2) by (auto simp: sched_ok_def)
    from fire [OF this] obtain s2 w2 where
      s2: "fire (to_cb (entry s x)) (to_arg (entry s x)) now (s1, w) = Some (s2, w2)"
        "sched_ok s2" "due_count now s2 \<le> due_count now s1" by blast
    from less.hyps [of s2 w2] s2 lt obtain s3 w3 where
      "pf_scheduler_tick fire now (s2, w2) = Some (s3, w3)" "sched_ok s3" "\<not> tick_due now s3" by auto
    then show ?thesis
      using True s1(1) s2(1) by (subst pf_scheduler_tick.simps) simp
  qed
qed

end
