(* ===== verification/Scheduler_Props.thy ===== *)
theory Scheduler_Props
  imports Scheduler_Tick
begin

text \<open>
  The properties of the scheduler (src/common/pf_scheduler.c), each with a concrete run
  that starts from the freshly initialised scheduler.
\<close>

section \<open>A concrete scheduler for the witnesses\<close>

definition blank_sched :: "(nat, nat) sched" where
  "blank_sched = \<lparr>timeouts = [], timeout_first = 0, timeout_free = 0, tick_interval = 0\<rparr>"

definition demo_sched :: "(nat, nat) sched" where
  "demo_sched = the (pf_scheduler_init 1000 blank_sched)"

definition demo_handle :: "nat \<Rightarrow> sched_handle" where
  "demo_handle n = pf_scheduler_init_handle \<lparr>h_name = 0, h_timer_index = 0\<rparr> n"

lemma demo_sched_rep:
  "sched_rep demo_sched [] [0..<PF_MAX_TIMEOUTS] []" "tick_interval demo_sched = 1000"
proof -
  have "(0 :: u32) < 1000" by simp
  from init_rep [OF this, of blank_sched]
  show "sched_rep demo_sched [] [0..<PF_MAX_TIMEOUTS] []" "tick_interval demo_sched = 1000"
    by (auto simp: demo_sched_def)
qed

lemma demo_free: "[0..<PF_MAX_TIMEOUTS] = 0 # [1..<PF_MAX_TIMEOUTS]"
  by (simp add: config_defs upt_conv_Cons)

lemma demo_delay: "pf_scheduler_sanitize_delay 3000 1000 True = Some 2500"
  by (simp add: pf_scheduler_sanitize_delay_def PF_SCHEDULER_MAX_DELAY_US_def)

section \<open>Properties\<close>

text \<open>
  C2. Adding a timeout with a free entry: no assertion fails, the call returns 0, the
  entry leaves the free list and stands in the busy list behind the entries that are due
  before it; the handle finds it, and it holds the name of the handle, the callback, the
  argument and the deadline now + sanitised delay. No other entry changes its contents,
  and a busy list that was sorted by deadline stays so.
\<close>

theorem scheduler_add_in_order:
  assumes rep: "sched_rep s busy (i # free) []"
    and d: "pf_scheduler_sanitize_delay delay (tick_interval s) True = Some d"
    and t: "timely b s busy" and w: "age b (now + d) < 2 ^ 31"
  shows "\<exists>h' s'. pf_scheduler_add now delay cb arg h s = Some (0, h', s') \<and>
           sched_rep s' (insert_deadline s (now + d) i busy) free [] \<and>
           handle_live s' h' i \<and> entry_is s' i (h_name h) (now + d) cb arg \<and>
           payload_frame {i} s s' \<and> timely b s' (insert_deadline s (now + d) i busy)"
proof -
  from add_rep [OF rep d, of now cb arg h] obtain s' where
    s': "pf_scheduler_add now delay cb arg h s = Some (0, h\<lparr>h_timer_index := of_nat (i + 1)\<rparr>, s')"
      "sched_rep s' (insert_deadline s (now + d) i busy) free []"
      "entry_is s' i (h_name h) (now + d) cb arg" "payload_frame {i} s s'" by blast
  have i: "i < PF_MAX_TIMEOUTS" "i \<notin> set busy" and bs: "set busy \<subseteq> {..<length (timeouts s)}"
    using rep sched_rep_length [OF rep] by (auto simp: sched_rep_def)
  have "timely b s' (insert_deadline s (now + d) i busy)"
    by (rule timely_insert [OF t w s'(4) i(2) bs]) (use s'(3) in \<open>simp add: entry_is_def\<close>)
  with s' i show ?thesis by (auto simp: handle_live_def entry_is_def)
qed

lemma scheduler_add_in_order_witness:
  "\<exists>h s. pf_scheduler_add 0 3000 7 8 (demo_handle 5) demo_sched = Some (0, h, s) \<and>
     sched_rep s [0] [1..<PF_MAX_TIMEOUTS] [] \<and> entry_is s 0 5 2500 7 8"
  using scheduler_add_in_order [of demo_sched "[]" 0 "[1..<PF_MAX_TIMEOUTS]" 3000 2500 0 0 7 8 "demo_handle 5"]
    demo_sched_rep demo_delay
  by (auto simp: demo_free timely_def age_def insert_deadline_def demo_handle_def
      pf_scheduler_init_handle_def pf_scheduler_reset_handle_def)

text \<open>
  Removing through a live handle takes exactly that entry out of the busy list, keeps
  the order of the rest, gives the entry back as the next one to be allocated, and stops
  the handle. A second removal through the stopped handle changes nothing.
\<close>

theorem scheduler_remove_live:
  assumes rep: "sched_rep s (xs @ i # ys) free []" and live: "handle_live s h i"
    and t: "timely b s (xs @ i # ys)"
  shows "\<exists>h' s'. pf_scheduler_remove h s = Some (h', s') \<and> sched_rep s' (xs @ ys) (i # free) [] \<and>
           \<not> pf_scheduler_is_running h' \<and> timely b s' (xs @ ys) \<and>
           pf_scheduler_remove h' s' = Some (h', s')"
proof -
  from remove_rep [OF rep live] obtain s' where
    s': "pf_scheduler_remove h s = Some (h\<lparr>h_timer_index := UINT32_MAX\<rparr>, s')"
      "sched_rep s' (xs @ ys) (i # free) []" "payload_frame {i} s s'" by blast
  have "timely b s' (xs @ ys) = timely b s (xs @ ys)"
    by (rule timely_frame [OF s'(3)]) (use rep in \<open>auto simp: sched_rep_def list_rep_def\<close>)
  with timely_sub [OF t] s' show ?thesis
    by (auto simp: pf_scheduler_is_running_def remove_stopped)
qed

lemma scheduler_remove_live_witness:
  "\<exists>h s h' s'. pf_scheduler_add 0 3000 7 8 (demo_handle 5) demo_sched = Some (0, h, s) \<and>
     pf_scheduler_remove h s = Some (h', s') \<and> sched_rep s' [] (0 # [1..<PF_MAX_TIMEOUTS]) []"
proof -
  have "sched_rep demo_sched [] (0 # [1..<PF_MAX_TIMEOUTS]) []"
    "pf_scheduler_sanitize_delay 3000 (tick_interval demo_sched) True = Some 2500"
    using demo_sched_rep demo_delay by (simp_all add: demo_free)
  from add_rep [OF this, of 0 7 8 "demo_handle 5"] obtain s where
    s: "pf_scheduler_add 0 3000 7 8 (demo_handle 5) demo_sched =
          Some (0, (demo_handle 5)\<lparr>h_timer_index := of_nat (0 + 1)\<rparr>, s)"
      "sched_rep s ([] @ 0 # []) [1..<PF_MAX_TIMEOUTS] []" "entry_is s 0 5 2500 7 8"
    by (auto simp: insert_deadline_def demo_handle_def pf_scheduler_init_handle_def
        pf_scheduler_reset_handle_def)
  have "handle_live s ((demo_handle 5)\<lparr>h_timer_index := of_nat (0 + 1)\<rparr>) 0"
    "timely 0 s ([] @ 0 # [])"
    using s(3) by (auto simp: handle_live_def entry_is_def config_defs timely_def age_def
        demo_handle_def pf_scheduler_init_handle_def pf_scheduler_reset_handle_def)
  from scheduler_remove_live [OF s(2) this] s(1) show ?thesis by auto
qed

text \<open>
  C1. A tick, with callbacks that leave the scheduler alone, calls exactly the callbacks of
  the expired entries, each with its argument, in the order of their deadlines; those
  entries are free afterwards and the others still wait in the same order.
\<close>

theorem scheduler_tick_runs_expired:
  assumes rep: "sched_rep s busy free []" and t: "timely b s busy" and now: "age b now < 2 ^ 31"
  shows "\<exists>s'. pf_scheduler_tick logging now (s, []) =
             Some (s', calls s (filter (\<lambda>j. age b (to_when (entry s j)) \<le> age b now) busy)) \<and>
           sched_rep s' (filter (\<lambda>j. age b (to_when (entry s j)) > age b now) busy)
             (rev (filter (\<lambda>j. age b (to_when (entry s j)) \<le> age b now) busy) @ free) []"
proof -
  have "j \<in> set busy \<Longrightarrow> expired now s j = (age b (to_when (entry s j)) \<le> age b now)" for j
    using t now sdiff32_age [of b now "to_when (entry s j)"] by (auto simp: expired_def timely_def)
  then have "filter (expired now s) busy = filter (\<lambda>j. age b (to_when (entry s j)) \<le> age b now) busy"
    "filter (\<lambda>j. \<not> expired now s j) busy = filter (\<lambda>j. age b (to_when (entry s j)) > age b now) busy"
    by (auto intro!: filter_cong)
  with tick_runs_prefix [OF rep, of now "[]"] expired_timely [OF t now] show ?thesis by auto
qed

lemma scheduler_tick_runs_expired_witness:
  "\<exists>h s s'. pf_scheduler_add 0 3000 7 8 (demo_handle 5) demo_sched = Some (0, h, s) \<and>
     pf_scheduler_tick logging 2500 (s, []) = Some (s', [(Some 7, Some 8)])"
proof -
  have "sched_rep demo_sched [] (0 # [1..<PF_MAX_TIMEOUTS]) []"
    "pf_scheduler_sanitize_delay 3000 (tick_interval demo_sched) True = Some 2500"
    using demo_sched_rep demo_delay by (simp_all add: demo_free)
  from add_rep [OF this, of 0 7 8 "demo_handle 5"] obtain s where
    s: "pf_scheduler_add 0 3000 7 8 (demo_handle 5) demo_sched =
          Some (0, (demo_handle 5)\<lparr>h_timer_index := of_nat (0 + 1)\<rparr>, s)"
      "sched_rep s [0] [1..<PF_MAX_TIMEOUTS] []" "entry_is s 0 (h_name (demo_handle 5)) 2500 7 8"
    by (auto simp: insert_deadline_def)
  have "timely 0 s [0]" "age 0 2500 < 2 ^ 31"
    using s(3) by (auto simp: entry_is_def timely_def age_def)
  from scheduler_tick_runs_expired [OF s(2) this] s(1,3) show ?thesis
    by (auto simp: entry_is_def age_def calls_def)
qed

text \<open>
  C3. A tick ends whatever its callbacks do to the scheduler, as long as each of them
  keeps the two lists well formed and does not make more entries due. Afterwards the
  lists are well formed and no entry at the head of the busy list is due.
\<close>

theorem scheduler_tick_ends:
  assumes fire: "\<And>ftn arg s w. sched_ok s \<Longrightarrow> \<exists>s' w'. fire ftn arg now (s, w) = Some (s', w') \<and>
      sched_ok s' \<and> due_count now s' \<le> due_count now s"
    and ok: "sched_ok s"
  shows "\<exists>s' w'. pf_scheduler_tick fire now (s, w) = Some (s', w') \<and> sched_ok s' \<and>
      \<not> tick_due now s'"
  using tick_terminates [where fire = fire and now = now and s = s and w = w] fire ok by blast

text \<open>
  A callback that schedules itself again, as the cyclic ones do. Its delay is at least a
  half tick, so the new entry is not due in the same tick.
\<close>

definition periodic ::
    "sched_handle \<Rightarrow> u32 \<Rightarrow> nat option \<Rightarrow> nat option \<Rightarrow> u32 \<Rightarrow> (nat, nat) sched \<times> nat
       \<Rightarrow> ((nat, nat) sched \<times> nat) option" where
  "periodic h tick ftn arg now sw =
     map_option (\<lambda>(_, _, s). (s, snd sw + 1))
       (pf_scheduler_add now 3000 7 8 h ((fst sw)\<lparr>tick_interval := tick\<rparr>))"

lemma sched_rep_tick_interval [simp]:
  "sched_rep (s\<lparr>tick_interval := c\<rparr>) busy free held = sched_rep s busy free held"
proof -
  have "list_rep q (s\<lparr>tick_interval := c\<rparr>) xs = list_rep q s xs" for q xs
    by (cases q) (simp_all add: list_rep_def)
  then show ?thesis by (simp add: sched_rep_def entry_def)
qed

lemma due_count_add:
  assumes "payload_frame {i} s s'" and "length (timeouts s) = PF_MAX_TIMEOUTS"
    and "\<not> expired now s' i"
  shows "due_count now s' \<le> due_count now s"
proof -
  have "j < PF_MAX_TIMEOUTS \<Longrightarrow> j \<noteq> i \<Longrightarrow> same_payload (entry s j) (entry s' j)" for j
    using payload_frame_in [OF assms(1)] assms(2) by simp
  then have "{j. j < PF_MAX_TIMEOUTS \<and> to_in_use (entry s' j) \<and> expired now s' j}
      \<subseteq> {j. j < PF_MAX_TIMEOUTS \<and> to_in_use (entry s j) \<and> expired now s j}"
    using assms(3) by (auto simp: same_payload_def expired_def) metis+
  then show ?thesis unfolding due_count_card by (intro card_mono) simp_all
qed

lemma periodic_ok:
  assumes "sched_ok s"
  shows "\<exists>s' w'. periodic h 1000 ftn arg now (s, w) = Some (s', w') \<and> sched_ok s' \<and>
           due_count now s' \<le> due_count now s"
proof -
  let ?s = "s\<lparr>tick_interval := 1000\<rparr>"
  have dc: "due_count now ?s = due_count now s" by (simp add: due_count_def expired_def entry_def)
  from assms obtain busy free where rep: "sched_rep ?s busy free []" by (auto simp: sched_ok_def)
  have d: "pf_scheduler_sanitize_delay 3000 (tick_interval ?s) True = Some 2500"
    using demo_delay by simp
  show ?thesis
  proof (cases free)
    case Nil
    with add_full [OF rep [unfolded Nil] d] rep dc show ?thesis
      by (auto simp: periodic_def sched_ok_def)
  next
    case (Cons i fs)
    from add_rep [OF rep [unfolded Cons] d, of now 7 8 h] obtain s' where
      s': "pf_scheduler_add now 3000 7 8 h ?s = Some (0, h\<lparr>h_timer_index := of_nat (i + 1)\<rparr>, s')"
        "sched_rep s' (insert_deadline ?s (now + 2500) i busy) fs []"
        "entry_is s' i (h_name h) (now + 2500) 7 8" "payload_frame {i} ?s s'" by blast
    have "\<not> expired now s' i" using s'(3) by (simp add: expired_def entry_is_def sdiff32_def)
    from due_count_add [OF s'(4) sched_rep_length [OF rep] this] s'(1,2) dc show ?thesis
      by (auto simp: periodic_def sched_ok_def)
  qed
qed

lemma scheduler_tick_ends_witness:
  "\<exists>s' w'. pf_scheduler_tick (periodic (demo_handle 5) 1000) 70 (demo_sched, 0) = Some (s', w') \<and>
     sched_ok s' \<and> \<not> tick_due 70 s'"
proof (rule scheduler_tick_ends)
  show "sched_ok demo_sched" using demo_sched_rep by (auto simp: sched_ok_def)
qed (rule periodic_ok)

text \<open>
  With a stack cycle of at most 2^30 microseconds the sanitised delay is a whole
  number of cycles less half a cycle, at least one cycle, and the number of cycles is the
  nearest to the wanted delay: it is at most the wanted delay rounded up by half a cycle,
  and less than one cycle below that. A wanted delay above 100 s counts as 0.
\<close>

theorem scheduler_delay_nearest:
  fixes w c :: u32
  defines "w' \<equiv> (if w > PF_SCHEDULER_MAX_DELAY_US then 0 else unat w)"
  assumes c: "0 < c" "unat c \<le> 2 ^ 30"
  shows "\<exists>d n. pf_scheduler_sanitize_delay w c True = Some d \<and> 1 \<le> n \<and>
           unat d = n * unat c - unat c div 2 \<and>
           n * unat c \<le> max (unat c) (w' + unat c div 2) \<and>
           w' + unat c div 2 \<le> n * unat c + unat c"
proof -
  have "0 < unat c" using c(1) by (simp add: word_le_nat)
  from delay_ticks_bounds [OF this, of w'] sanitize_delay_nat [OF c, of w] show ?thesis
    unfolding w'_def by blast
qed

lemma scheduler_delay_nearest_witness:
  "\<exists>d n. pf_scheduler_sanitize_delay 2600 1000 True = Some d \<and> 1 \<le> n \<and>
     unat d = n * 1000 - 500 \<and> n * 1000 \<le> max (1000 :: nat) 3100"
  using scheduler_delay_nearest [of 1000 2600]
  by (auto simp: word_le_nat PF_SCHEDULER_MAX_DELAY_US_def)

end
