(* ===== verification/Buffers.thy ===== *)
theory Buffers
  imports Prelude "HOL-Library.State_Monad"
begin

unbundle bit_operations_syntax

text \<open>
  The two ends of every message: the primitives of src/device/pf_block_writer.c, which
  put bytes into a buffer at a running position, and those of
  src/device/pf_block_reader.c, which take them out.

  Writing. The C functions get the same buffer, its size \<open>res_len\<close> and a pointer to
  the position in every call. Here the three are the state \<open>wstate\<close> of a state
  monad; a null buffer pointer is \<^const>\<open>None\<close>. A byte that does not fit is dropped.

  Reading. The C functions get the parser state \<open>pf_get_info\<close> and a pointer to the
  position. Here both are the state \<open>rstate\<close>. After the first error every read
  gives zero and moves nothing.

  The third part is a calculus for the functions built on these primitives:
  \<open>emits\<close> (a writer with enough room appends exactly these bytes), \<open>parses\<close>
  (a reader that finds these bytes gives this value), and \<open>wsafe\<close> and \<open>rsafe\<close>
  (no access outside the buffer, whatever the input).
\<close>

named_theorems emits_intros and parses_intros and wsafe_intros and rsafe_intros

section \<open>Writing\<close>

record wstate =
  w_bytes :: "u8 list option"
  w_len :: nat
  w_pos :: nat

type_synonym 'a wr = "(wstate, 'a) state"

definition write_at :: "nat \<Rightarrow> u8 list \<Rightarrow> u8 list \<Rightarrow> u8 list" where
  "write_at p xs b = take p b @ xs @ drop (p + length xs) b"

definition put_raw :: "u8 list \<Rightarrow> unit wr" where
  "put_raw xs = State_Monad.update (\<lambda>w.
     if w_pos w + length xs > w_len w then w
     else case w_bytes w of None \<Rightarrow> w
       | Some b \<Rightarrow> w\<lparr>w_bytes := Some (write_at (w_pos w) xs b), w_pos := w_pos w + length xs\<rparr>)"

definition pf_put_mem :: "u8 list \<Rightarrow> nat \<Rightarrow> unit wr" where
  "pf_put_mem src src_size = put_raw (take src_size src)"

definition pf_put_mem_overlapping :: "u8 list \<Rightarrow> nat \<Rightarrow> unit wr" where
  "pf_put_mem_overlapping src src_size = put_raw (take src_size src)"

definition pf_put_byte :: "u8 \<Rightarrow> unit wr" where
  "pf_put_byte val = put_raw [val]"

definition pf_put_uint16 :: "bool \<Rightarrow> u16 \<Rightarrow> unit wr" where
  "pf_put_uint16 is_big_endian val =
     (if is_big_endian then do {
        pf_put_byte (ucast (drop_bit 8 val AND 0xff));
        pf_put_byte (ucast (val AND 0xff))
      } else do {
        pf_put_byte (ucast (val AND 0xff));
        pf_put_byte (ucast (drop_bit 8 val AND 0xff))
      })"

definition pf_put_uint32 :: "bool \<Rightarrow> u32 \<Rightarrow> unit wr" where
  "pf_put_uint32 is_big_endian val =
     (if is_big_endian then do {
        pf_put_byte (ucast (drop_bit 24 val AND 0xff));
        pf_put_byte (ucast (drop_bit 16 val AND 0xff));
        pf_put_byte (ucast (drop_bit 8 val AND 0xff));
        pf_put_byte (ucast (val AND 0xff))
      } else do {
        pf_put_byte (ucast (val AND 0xff));
        pf_put_byte (ucast (drop_bit 8 val AND 0xff));
        pf_put_byte (ucast (drop_bit 16 val AND 0xff));
        pf_put_byte (ucast (drop_bit 24 val AND 0xff))
      })"

text \<open>A counting loop, and a loop over the elements of a list.\<close>

fun for_each :: "('a \<Rightarrow> unit wr) \<Rightarrow> 'a list \<Rightarrow> unit wr" where
  "for_each f [] = State_Monad.return ()"
| "for_each f (x # xs) = do { f x; for_each f xs }"

definition pf_put_padding :: "nat \<Rightarrow> unit wr" where
  "pf_put_padding n_bytes = for_each (\<lambda>_. pf_put_byte 0) [0..<n_bytes]"

text \<open>
  \<open>pf_put_padding_align\<close> goes on until the position is aligned, which it never
  becomes when the buffer is full: the loop is partial. The operand
  \<open>(*p_pos) - start_position\<close> is an \<open>int\<close>.
\<close>

partial_function (option) pf_put_padding_align :: "nat \<Rightarrow> nat \<Rightarrow> wstate \<Rightarrow> wstate option" where
  "pf_put_padding_align start_position align w =
     (if (int (w_pos w) - int start_position) mod int align \<noteq> 0
      then pf_put_padding_align start_position align (snd (run_state (pf_put_byte 0) w))
      else Some w)"

text \<open>The position, and a write at another position that leaves the running one alone.\<close>

definition get_pos :: "nat wr" where
  "get_pos = State (\<lambda>w. (w_pos w, w))"

definition at_pos :: "nat \<Rightarrow> unit wr \<Rightarrow> unit wr" where
  "at_pos p m = State_Monad.update (\<lambda>w. (snd (run_state m (w\<lparr>w_pos := p\<rparr>)))\<lparr>w_pos := w_pos w\<rparr>)"

lemma run_update [simp]: "run_state (State_Monad.update f) s = ((), f s)"
  by (simp add: State_Monad.update_def)

lemma run_get_pos [simp]: "run_state get_pos w = (w_pos w, w)"
  by (simp add: get_pos_def)

section \<open>Reading\<close>

datatype pf_get_result =
  PF_PARSE_OK | PF_PARSE_NULL_POINTER | PF_PARSE_END_OF_INPUT |
  PF_PARSE_OUT_OF_API_RESOURCES | PF_PARSE_OUT_OF_EXP_SUBMODULE_RESOURCES | PF_PARSE_ERROR

record pf_get_info =
  g_result :: pf_get_result
  g_is_big_endian :: bool
  g_buf :: "u8 list option"
  g_len :: nat

record rstate = pf_get_info +
  r_pos :: nat

type_synonym 'a rd = "(rstate, 'a) state"

text \<open>\<open>dest\<close> is what the destination holds before; a failed read leaves it.\<close>

definition pf_get_mem :: "nat \<Rightarrow> u8 list \<Rightarrow> u8 list rd" where
  "pf_get_mem dest_size dest = State (\<lambda>r.
     if g_result r \<noteq> PF_PARSE_OK then (dest, r)
     else if r_pos r + dest_size > g_len r then (dest, r\<lparr>g_result := PF_PARSE_END_OF_INPUT\<rparr>)
     else case g_buf r of None \<Rightarrow> (dest, r\<lparr>g_result := PF_PARSE_NULL_POINTER\<rparr>)
       | Some b \<Rightarrow> (take dest_size (drop (r_pos r) b) @ drop dest_size dest,
                    r\<lparr>r_pos := r_pos r + dest_size\<rparr>))"

definition pf_get_byte :: "u8 rd" where
  "pf_get_byte = State (\<lambda>r.
     if g_result r \<noteq> PF_PARSE_OK then (0, r)
     else if r_pos r \<ge> g_len r then (0, r\<lparr>g_result := PF_PARSE_END_OF_INPUT\<rparr>)
     else case g_buf r of None \<Rightarrow> (0, r\<lparr>g_result := PF_PARSE_NULL_POINTER\<rparr>)
       | Some b \<Rightarrow> (b ! r_pos r, r\<lparr>r_pos := r_pos r + 1\<rparr>))"

definition get_info :: "rstate rd" where
  "get_info = State (\<lambda>r. (r, r))"

text \<open>
  C leaves the order of the reads in one expression open; here it is the order the text
  of the function shows, the one that the wire format needs.
\<close>

definition pf_get_uint16 :: "u16 rd" where
  "pf_get_uint16 = do {
     r \<leftarrow> get_info;
     if g_result r \<noteq> PF_PARSE_OK then State_Monad.return 0
     else if g_is_big_endian r then do {
       b1 \<leftarrow> pf_get_byte; b0 \<leftarrow> pf_get_byte;
       State_Monad.return (push_bit 8 (ucast b1) + ucast b0)
     } else do {
       b0 \<leftarrow> pf_get_byte; b1 \<leftarrow> pf_get_byte;
       State_Monad.return (ucast b0 + push_bit 8 (ucast b1))
     }
   }"

definition pf_get_uint32 :: "u32 rd" where
  "pf_get_uint32 = do {
     r \<leftarrow> get_info;
     if g_is_big_endian r then do {
       b3 \<leftarrow> pf_get_byte; b2 \<leftarrow> pf_get_byte; b1 \<leftarrow> pf_get_byte; b0 \<leftarrow> pf_get_byte;
       State_Monad.return (push_bit 24 (ucast b3) + push_bit 16 (ucast b2) +
                           push_bit 8 (ucast b1) + ucast b0)
     } else do {
       b0 \<leftarrow> pf_get_byte; b1 \<leftarrow> pf_get_byte; b2 \<leftarrow> pf_get_byte; b3 \<leftarrow> pf_get_byte;
       State_Monad.return (ucast b0 + push_bit 8 (ucast b1) +
                           push_bit 16 (ucast b2) + push_bit 24 (ucast b3))
     }
   }"

section \<open>Bit fields\<close>

definition pf_get_bits :: "u32 \<Rightarrow> nat \<Rightarrow> nat \<Rightarrow> u32" where
  "pf_get_bits bits pos len =
     (if len = 0 then 0
      else if pos + len > 32 then 0
      else if pos = 0 \<and> len = 32 then bits
      else drop_bit pos bits AND (push_bit len 1 - 1))"

definition pf_put_bits :: "u32 \<Rightarrow> nat \<Rightarrow> nat \<Rightarrow> u32 \<Rightarrow> u32" where
  "pf_put_bits val len pos bits = bits OR push_bit pos (val AND (push_bit len 1 - 1))"

end
