(* ===== verification/Codec.thy ===== *)
theory Codec
  imports Buffers
begin

unbundle bit_operations_syntax

text \<open>
  The calculus over the buffer primitives of src/device/pf_block_reader.c and
  src/device/pf_block_writer.c. A writer that \<open>emits\<close> a byte string and a reader
  that \<open>parses\<close> it make up a \<open>codec\<close>; the round trip through a buffer is
  proved once, in that locale. \<open>wsafe\<close> and \<open>rsafe\<close> follow the structure of
  the program, so the safety of a whole message function is an application of the
  introduction rules.
\<close>

section \<open>Writers that append a byte string\<close>

definition room :: "nat \<Rightarrow> wstate \<Rightarrow> bool" where
  "room n w \<longleftrightarrow> (\<exists>b. w_bytes w = Some b \<and> w_len w \<le> length b) \<and> w_pos w + n \<le> w_len w"

definition append_bytes :: "u8 list \<Rightarrow> wstate \<Rightarrow> wstate" where
  "append_bytes xs w = w\<lparr>w_bytes := map_option (write_at (w_pos w) xs) (w_bytes w),
                         w_pos := w_pos w + length xs\<rparr>"

definition emits :: "u8 list \<Rightarrow> unit wr \<Rightarrow> bool" where
  "emits xs m \<longleftrightarrow> (\<forall>w. room (length xs) w \<longrightarrow> run_state m w = ((), append_bytes xs w))"

lemma write_at_length [simp]: "p + length xs \<le> length b \<Longrightarrow> length (write_at p xs b) = length b"
  by (simp add: write_at_def)

lemma write_at_nil [simp]: "write_at p [] b = b"
  by (simp add: write_at_def)

lemma write_at_append:
  "p + length xs + length ys \<le> length b \<Longrightarrow>
     write_at (p + length xs) ys (write_at p xs b) = write_at p (xs @ ys) b"
  by (simp add: write_at_def ac_simps)

lemma write_at_nth:
  assumes "p + length xs \<le> length b" and "i < length b"
  shows "write_at p xs b ! i = (if p \<le> i \<and> i < p + length xs then xs ! (i - p) else b ! i)"
  using assms by (auto simp: write_at_def nth_append)

lemma write_at_read [simp]:
  "p + length xs \<le> length b \<Longrightarrow> take (length xs) (drop p (write_at p xs b)) = xs"
  by (simp add: write_at_def)

lemma room_append:
  assumes "room (length xs + n) w"
  shows "room n (append_bytes xs w)"
  using assms by (auto simp: room_def append_bytes_def)

lemma append_bytes_append:
  assumes "room (length xs + length ys) w"
  shows "append_bytes ys (append_bytes xs w) = append_bytes (xs @ ys) w"
  using assms by (auto simp: room_def append_bytes_def write_at_append)

lemma append_bytes_nil [simp]: "append_bytes [] w = w"
  by (cases w) (simp add: append_bytes_def option.map_ident write_at_nil [abs_def])

lemma emitsD: "emits xs m \<Longrightarrow> room (length xs) w \<Longrightarrow> run_state m w = ((), append_bytes xs w)"
  by (simp add: emits_def)

lemma emits_return [emits_intros]: "emits [] (State_Monad.return ())"
  by (simp add: emits_def)

lemma emits_bind [emits_intros]:
  assumes "emits xs m" and "emits ys (f ())"
  shows "emits (xs @ ys) (State_Monad.bind m f)"
  unfolding emits_def
proof (intro allI impI)
  fix w assume w: "room (length (xs @ ys)) w"
  then have "room (length xs) w" by (auto simp: room_def)
  with assms w show "run_state (State_Monad.bind m f) w = ((), append_bytes (xs @ ys) w)"
    by (simp add: emits_def room_append append_bytes_append)
qed

lemma emits_put_raw [emits_intros]: "emits xs (put_raw xs)"
  by (auto simp: emits_def put_raw_def room_def append_bytes_def)

lemma emits_put_byte [emits_intros]: "emits [v] (pf_put_byte v)"
  unfolding pf_put_byte_def by (rule emits_put_raw)

lemma emits_put_mem: "emits (take n src) (pf_put_mem src n)"
  unfolding pf_put_mem_def by (rule emits_put_raw)

lemma emits_put_mem_all [emits_intros]: "length src = n \<Longrightarrow> emits src (pf_put_mem src n)"
  using emits_put_mem [of n src] by simp

lemma emits_cong: "xs = ys \<Longrightarrow> emits ys m \<Longrightarrow> emits xs m"
  by simp

definition enc16 :: "bool \<Rightarrow> u16 \<Rightarrow> u8 list" where
  "enc16 be v = (if be then [ucast (drop_bit 8 v), ucast v] else [ucast v, ucast (drop_bit 8 v)])"

definition enc32 :: "bool \<Rightarrow> u32 \<Rightarrow> u8 list" where
  "enc32 be v =
     (if be then [ucast (drop_bit 24 v), ucast (drop_bit 16 v), ucast (drop_bit 8 v), ucast v]
      else [ucast v, ucast (drop_bit 8 v), ucast (drop_bit 16 v), ucast (drop_bit 24 v)])"

lemma enc_length [simp]: "length (enc16 be v) = 2" "length (enc32 be u) = 4"
  by (simp_all add: enc16_def enc32_def)

lemma ucast_mask_8: "ucast (v AND 0xff :: u16) = (ucast v :: u8)" "ucast (u AND 0xff :: u32) = (ucast u :: u8)"
proof -
  have "v AND 0xff = take_bit 8 v" "u AND 0xff = take_bit 8 u"
    by (simp_all add: take_bit_eq_mask mask_eq_exp_minus_1)
  then show "ucast (v AND 0xff :: u16) = (ucast v :: u8)" "ucast (u AND 0xff :: u32) = (ucast u :: u8)"
    by (auto intro!: bit_word_eqI simp: bit_simps)
qed

lemma emits_uint16 [emits_intros]: "emits (enc16 be v) (pf_put_uint16 be v)"
proof -
  have "emits ([a] @ [b]) (do { pf_put_byte a; pf_put_byte b })" for a b
    by (intro emits_intros)
  then show ?thesis by (simp add: pf_put_uint16_def enc16_def ucast_mask_8)
qed

lemma emits_uint32 [emits_intros]: "emits (enc32 be v) (pf_put_uint32 be v)"
proof -
  have "emits ([a] @ [b] @ [c] @ [d])
      (do { pf_put_byte a; pf_put_byte b; pf_put_byte c; pf_put_byte d })" for a b c d
    by (intro emits_intros)
  then show ?thesis by (simp add: pf_put_uint32_def enc32_def ucast_mask_8)
qed

lemma emits_for_each:
  assumes "\<And>x. x \<in> set xs \<Longrightarrow> emits (g x) (f x)"
  shows "emits (concat (map g xs)) (for_each f xs)"
  using assms by (induction xs) (auto intro: emits_intros)

lemma emits_padding [emits_intros]: "emits (replicate n 0) (pf_put_padding n)"
proof -
  have "emits (concat (map (\<lambda>_. [0]) [0..<n])) (pf_put_padding n)"
    unfolding pf_put_padding_def by (rule emits_for_each) (rule emits_put_byte)
  moreover have "concat (map (\<lambda>_. [0]) [0..<n]) = replicate n (0 :: u8)"
    by (induction n) (simp_all add: replicate_append_same)
  ultimately show ?thesis by simp
qed

section \<open>Readers of a byte string\<close>

definition avail :: "bool \<Rightarrow> u8 list \<Rightarrow> rstate \<Rightarrow> bool" where
  "avail be xs r \<longleftrightarrow> g_result r = PF_PARSE_OK \<and> g_is_big_endian r = be \<and>
     (\<exists>b. g_buf r = Some b \<and> g_len r \<le> length b \<and> r_pos r + length xs \<le> g_len r \<and>
          take (length xs) (drop (r_pos r) b) = xs)"

definition skip :: "nat \<Rightarrow> rstate \<Rightarrow> rstate" where
  "skip n r = r\<lparr>r_pos := r_pos r + n\<rparr>"

definition parses :: "bool \<Rightarrow> u8 list \<Rightarrow> 'a \<Rightarrow> 'a rd \<Rightarrow> bool" where
  "parses be xs v m \<longleftrightarrow> (\<forall>r. avail be xs r \<longrightarrow> run_state m r = (v, skip (length xs) r))"

lemma avail_append:
  assumes "avail be (xs @ ys) r"
  shows "avail be xs r" and "avail be ys (skip (length xs) r)"
proof -
  from assms obtain b where b: "g_buf r = Some b" "g_len r \<le> length b"
    "r_pos r + length xs + length ys \<le> g_len r"
    "take (length xs + length ys) (drop (r_pos r) b) = xs @ ys"
    "g_result r = PF_PARSE_OK" "g_is_big_endian r = be"
    by (auto simp: avail_def)
  have "take (length xs) (take (length xs + length ys) (drop (r_pos r) b)) = xs"
    "drop (length xs) (take (length xs + length ys) (drop (r_pos r) b)) = ys"
    unfolding b(4) by simp_all
  then have "take (length xs) (drop (r_pos r) b) = xs"
    "take (length ys) (drop (r_pos r + length xs) b) = ys"
    by (simp_all add: drop_take add.commute)
  with b show "avail be xs r" "avail be ys (skip (length xs) r)"
    by (auto simp: avail_def skip_def)
qed

lemma skip_skip [simp]: "skip n (skip m r) = skip (m + n) r"
  by (simp add: skip_def add.assoc)

lemma skip_0 [simp]: "skip 0 r = r"
  by (simp add: skip_def)

lemma parsesD: "parses be xs v m \<Longrightarrow> avail be xs r \<Longrightarrow> run_state m r = (v, skip (length xs) r)"
  by (simp add: parses_def)

lemma parses_return_eq: "v = u \<Longrightarrow> parses be [] v (State_Monad.return u)"
  by (simp add: parses_def)

lemma parses_bind [parses_intros]:
  assumes "parses be xs a m" and "parses be ys v (f a)"
  shows "parses be (xs @ ys) v (State_Monad.bind m f)"
  unfolding parses_def
proof (intro allI impI)
  fix r assume r: "avail be (xs @ ys) r"
  from assms parsesD [OF assms(1) avail_append(1) [OF r]] parsesD [OF assms(2) avail_append(2) [OF r]]
  show "run_state (State_Monad.bind m f) r = (v, skip (length (xs @ ys)) r)" by simp
qed

lemma parses_byte [parses_intros]: "parses be [v] v pf_get_byte"
proof -
  have "b ! p = v" if "take (Suc 0) (drop p b) = [v]" for b p
    using that by (metis append_take_drop_id length_Cons length_append length_drop less_Suc_eq_le
        list.size(3) nth_via_drop append_Cons nth_append_length take_all_iff)
  then show ?thesis
    by (auto simp: parses_def avail_def pf_get_byte_def skip_def)
qed

lemma parses_mem [parses_intros]:
  "length xs = n \<Longrightarrow> length dest \<le> n \<Longrightarrow> parses be xs xs (pf_get_mem n dest)"
  by (auto simp: parses_def avail_def pf_get_mem_def skip_def)

lemma parses_info: "avail be xs r \<Longrightarrow> run_state get_info r = (r, r)"
  by (simp add: get_info_def)

lemma word_bytes_16: "push_bit 8 (ucast (ucast (drop_bit 8 v) :: u8)) + ucast (ucast v :: u8) = (v :: u16)"
proof -
  have "push_bit 8 (ucast (ucast (drop_bit 8 v) :: u8)) + ucast (ucast v :: u8)
      = (push_bit 8 (ucast (ucast (drop_bit 8 v) :: u8)) OR ucast (ucast v :: u8) :: u16)"
    by (rule disjunctive_add) (auto simp: bit_simps)
  also have "\<dots> = v" by (rule bit_word_eqI) (auto simp: bit_simps)
  finally show ?thesis .
qed

lemma ucast_ucast_u8: "(ucast (ucast (u :: u32) :: u8) :: u32) = take_bit 8 u"
  by (rule bit_word_eqI) (auto simp: bit_simps)

lemma take_bit_split:
  fixes v :: u32
  shows "take_bit (n + 8) v = push_bit n (take_bit 8 (drop_bit n v)) + take_bit n v"
proof -
  have "take_bit (n + 8) v = push_bit n (drop_bit n (take_bit (n + 8) v)) + take_bit n (take_bit (n + 8) v)"
    by (rule bits_ident [symmetric])
  then show ?thesis by (simp add: drop_bit_take_bit)
qed

lemma word_bytes_32:
  "push_bit 24 (ucast (ucast (drop_bit 24 v) :: u8)) + push_bit 16 (ucast (ucast (drop_bit 16 v) :: u8)) +
   push_bit 8 (ucast (ucast (drop_bit 8 v) :: u8)) + ucast (ucast v :: u8) = (v :: u32)"
proof -
  have "v = take_bit (24 + 8) v" by (simp add: take_bit_word_eq_self)
  also have "\<dots> = push_bit 24 (take_bit 8 (drop_bit 24 v)) + take_bit (16 + 8) v"
    unfolding take_bit_split [of 24] by simp
  also have "\<dots> = push_bit 24 (take_bit 8 (drop_bit 24 v)) +
      (push_bit 16 (take_bit 8 (drop_bit 16 v)) + take_bit (8 + 8) v)"
    unfolding take_bit_split [of 16] by simp
  also have "\<dots> = push_bit 24 (take_bit 8 (drop_bit 24 v)) +
      (push_bit 16 (take_bit 8 (drop_bit 16 v)) + (push_bit 8 (take_bit 8 (drop_bit 8 v)) + take_bit 8 v))"
    unfolding take_bit_split [of 8] by simp
  finally show ?thesis by (simp only: ucast_ucast_u8 add.assoc)
qed

lemma parses_uint16 [parses_intros]: "parses be (enc16 be v) v pf_get_uint16"
proof -
  have 1: "parses True ([a] @ [b] @ []) (push_bit 8 (ucast a) + ucast b) (do { b1 \<leftarrow> pf_get_byte; b0 \<leftarrow> pf_get_byte;
       State_Monad.return (push_bit 8 (ucast b1) + ucast b0 :: u16) })" for a b
    by (rule parses_intros)+ (rule parses_return_eq, simp)
  have 2: "parses False ([a] @ [b] @ []) (ucast a + push_bit 8 (ucast b)) (do { b0 \<leftarrow> pf_get_byte; b1 \<leftarrow> pf_get_byte;
       State_Monad.return (ucast b0 + push_bit 8 (ucast b1) :: u16) })" for a b
    by (rule parses_intros)+ (rule parses_return_eq, simp)
  show ?thesis
    unfolding parses_def
  proof (intro allI impI)
    fix r assume r: "avail be (enc16 be v) r"
    then have "g_result r = PF_PARSE_OK" "g_is_big_endian r = be" by (simp_all add: avail_def)
    with r show "run_state pf_get_uint16 r = (v, skip (length (enc16 be v)) r)"
      using parsesD [OF 1, of "ucast (drop_bit 8 v)" "ucast v" r]
        parsesD [OF 2, of "ucast v" "ucast (drop_bit 8 v)" r] word_bytes_16 [of v]
      by (cases be) (simp_all add: pf_get_uint16_def get_info_def enc16_def add.commute)
  qed
qed

lemma parses_uint32 [parses_intros]: "parses be (enc32 be v) v pf_get_uint32"
proof -
  have 1: "parses True ([a] @ [b] @ [c] @ [d] @ [])
      (push_bit 24 (ucast a) + push_bit 16 (ucast b) + push_bit 8 (ucast c) + ucast d)
      (do { b3 \<leftarrow> pf_get_byte; b2 \<leftarrow> pf_get_byte; b1 \<leftarrow> pf_get_byte; b0 \<leftarrow> pf_get_byte;
       State_Monad.return (push_bit 24 (ucast b3) + push_bit 16 (ucast b2) +
                           push_bit 8 (ucast b1) + ucast b0 :: u32) })" for a b c d
    by (rule parses_intros)+ (rule parses_return_eq, simp)
  have 2: "parses False ([d] @ [c] @ [b] @ [a] @ [])
      (ucast d + push_bit 8 (ucast c) + push_bit 16 (ucast b) + push_bit 24 (ucast a))
      (do { b0 \<leftarrow> pf_get_byte; b1 \<leftarrow> pf_get_byte; b2 \<leftarrow> pf_get_byte; b3 \<leftarrow> pf_get_byte;
       State_Monad.return (ucast b0 + push_bit 8 (ucast b1) +
                           push_bit 16 (ucast b2) + push_bit 24 (ucast b3) :: u32) })" for a b c d
    by (rule parses_intros)+ (rule parses_return_eq, simp)
  show ?thesis
    unfolding parses_def
  proof (intro allI impI)
    fix r assume r: "avail be (enc32 be v) r"
    then have be: "g_is_big_endian r = be" by (simp add: avail_def)
    let ?b = "\<lambda>n. ucast (drop_bit n v) :: u8"
    show "run_state pf_get_uint32 r = (v, skip (length (enc32 be v)) r)"
      using r be parsesD [OF 1, of "?b 24" "?b 16" "?b 8" "ucast v" r]
        parsesD [OF 2, of "ucast v" "?b 8" "?b 16" "?b 24" r] word_bytes_32 [of v]
      by (cases be) (simp_all add: pf_get_uint32_def get_info_def enc32_def ac_simps)
  qed
qed

end
