(* ===== verification/Codec_Safety.thy ===== *)
theory Codec_Safety
  imports Codec
begin

text \<open>
  Safety of the message functions and the round trip through a buffer.

  \<open>"wsafe_from p0 m"\<close>: started at or behind \<open>p0\<close> with a buffer of at least
  \<open>res_len\<close> bytes, \<open>m\<close> writes only between \<open>p0\<close> and \<open>res_len\<close> and
  leaves the position there. \<open>"rsafe m"\<close>: \<open>m\<close> never moves the position past the
  length of the input, and never turns an error back into success.
\<close>

section \<open>Safe writers\<close>

definition mem_ok :: "wstate \<Rightarrow> bool" where
  "mem_ok w \<longleftrightarrow> (\<forall>b. w_bytes w = Some b \<longrightarrow> w_len w \<le> length b)"

definition w_frame :: "nat \<Rightarrow> wstate \<Rightarrow> wstate \<Rightarrow> bool" where
  "w_frame p0 w w' \<longleftrightarrow> w_len w' = w_len w \<and> p0 \<le> w_pos w' \<and> w_pos w' \<le> max (w_len w) (w_pos w) \<and>
     rel_option (\<lambda>b b'. length b' = length b \<and>
       (\<forall>i < length b. i < p0 \<or> w_len w \<le> i \<longrightarrow> b' ! i = b ! i)) (w_bytes w) (w_bytes w')"

definition wsafe_from :: "nat \<Rightarrow> 'a wr \<Rightarrow> bool" where
  "wsafe_from p0 m \<longleftrightarrow>
     (\<forall>w. mem_ok w \<and> p0 \<le> w_pos w \<longrightarrow> w_frame p0 w (snd (run_state m w)))"

definition wsafe :: "'a wr \<Rightarrow> bool" where
  "wsafe m \<longleftrightarrow> (\<forall>p0. wsafe_from p0 m)"

lemma w_frame_refl: "p0 \<le> w_pos w \<Longrightarrow> w_frame p0 w w"
  by (auto simp: w_frame_def option.rel_refl)

lemma w_frame_mem_ok: "w_frame p0 w w' \<Longrightarrow> mem_ok w \<Longrightarrow> mem_ok w'"
  by (auto simp: w_frame_def mem_ok_def option_rel_Some2)

lemma w_frame_trans:
  assumes "w_frame p0 w w'" and "w_frame p0 w' w''"
  shows "w_frame p0 w w''"
proof (cases "w_bytes w")
  case None
  with assms show ?thesis by (auto simp: w_frame_def)
next
  case (Some b)
  with assms obtain b' b'' where "w_bytes w' = Some b'" "w_bytes w'' = Some b''"
    by (auto simp: w_frame_def option_rel_Some1)
  with Some assms show ?thesis by (auto simp: w_frame_def)
qed

lemma wsafe_fromD:
  "wsafe_from p0 m \<Longrightarrow> mem_ok w \<Longrightarrow> p0 \<le> w_pos w \<Longrightarrow> w_frame p0 w (snd (run_state m w))"
  by (simp add: wsafe_from_def)

lemma wsafe_return [wsafe_intros]: "wsafe_from p0 (State_Monad.return x)"
  by (simp add: wsafe_from_def w_frame_refl)

lemma wsafe_bind [wsafe_intros]:
  assumes "wsafe_from p0 m" and "\<And>a. wsafe_from p0 (f a)"
  shows "wsafe_from p0 (State_Monad.bind m f)"
  unfolding wsafe_from_def
proof (intro allI impI)
  fix w assume w: "mem_ok w \<and> p0 \<le> w_pos w"
  obtain a w' where m: "run_state m w = (a, w')" by fastforce
  with w wsafe_fromD [OF assms(1), of w] have f1: "w_frame p0 w w'" by simp
  then have "mem_ok w'" "p0 \<le> w_pos w'"
    using w w_frame_mem_ok by (auto simp: w_frame_def)
  with assms(2) have "w_frame p0 w' (snd (run_state (f a) w'))" by (simp add: wsafe_fromD)
  with f1 m show "w_frame p0 w (snd (run_state (State_Monad.bind m f) w))"
    by (simp add: w_frame_trans)
qed

lemma wsafe_get_pos [wsafe_intros]: "wsafe_from p0 get_pos"
  by (simp add: wsafe_from_def w_frame_refl)

text \<open>A position that was read is not in front of the start.\<close>

lemma wsafe_bind_get_pos:
  assumes "\<And>p. p0 \<le> p \<Longrightarrow> wsafe_from p0 (f p)"
  shows "wsafe_from p0 (State_Monad.bind get_pos f)"
  using assms by (auto simp: wsafe_from_def)

lemma wsafe_at_pos:
  assumes "p0 \<le> p" and "wsafe_from p0 m"
  shows "wsafe_from p0 (at_pos p m)"
  unfolding wsafe_from_def
proof (intro allI impI)
  fix w assume w: "mem_ok w \<and> p0 \<le> w_pos w"
  then have "w_frame p0 (w\<lparr>w_pos := p\<rparr>) (snd (run_state m (w\<lparr>w_pos := p\<rparr>)))"
    using assms by (intro wsafe_fromD) (auto simp: mem_ok_def)
  with w show "w_frame p0 w (snd (run_state (at_pos p m) w))"
    by (auto simp: at_pos_def w_frame_def)
qed

lemma wsafe_put_raw [wsafe_intros]: "wsafe_from p0 (put_raw xs)"
  by (auto simp: wsafe_from_def put_raw_def w_frame_def mem_ok_def option.rel_refl
      write_at_nth split: option.split)

lemma wsafe_put_byte [wsafe_intros]: "wsafe_from p0 (pf_put_byte v)"
  unfolding pf_put_byte_def by (rule wsafe_put_raw)

lemma wsafe_put_mem [wsafe_intros]: "wsafe_from p0 (pf_put_mem src n)"
  unfolding pf_put_mem_def by (rule wsafe_put_raw)

lemma wsafe_put_mem_overlapping [wsafe_intros]: "wsafe_from p0 (pf_put_mem_overlapping src n)"
  unfolding pf_put_mem_overlapping_def by (rule wsafe_put_raw)

lemma wsafe_if [wsafe_intros]:
  "(c \<Longrightarrow> wsafe_from p0 m) \<Longrightarrow> (\<not> c \<Longrightarrow> wsafe_from p0 n) \<Longrightarrow> wsafe_from p0 (if c then m else n)"
  by simp

lemma wsafe_uint16 [wsafe_intros]: "wsafe_from p0 (pf_put_uint16 be v)"
  unfolding pf_put_uint16_def by (intro wsafe_intros)

lemma wsafe_uint32 [wsafe_intros]: "wsafe_from p0 (pf_put_uint32 be v)"
  unfolding pf_put_uint32_def by (intro wsafe_intros)

lemma wsafe_for_each [wsafe_intros]:
  assumes "\<And>x. wsafe_from p0 (f x)"
  shows "wsafe_from p0 (for_each f xs)"
  by (induction xs) (auto intro!: wsafe_intros assms)

lemma wsafe_padding [wsafe_intros]: "wsafe_from p0 (pf_put_padding n)"
  unfolding pf_put_padding_def by (intro wsafe_intros)

section \<open>Alignment\<close>

text \<open>Enough room to reach the next aligned position makes the loop end there.\<close>

lemma padding_align_done:
  "(int (w_pos w) - int p) mod int align = 0 \<Longrightarrow> pf_put_padding_align p align w = Some w"
  by (simp add: pf_put_padding_align.simps)

lemma neg_mod_zero: "(- d) mod a = 0 \<Longrightarrow> d mod a = (0 :: int)"
  by (simp add: mod_eq_0_iff_dvd)

lemma neg_mod_step:
  fixes d a :: int
  assumes "0 < a" and "(- d) mod a = 1 + n" and "0 \<le> n"
  shows "(- (d + 1)) mod a = n" and "d mod a \<noteq> 0"
proof -
  have "(- (d + 1)) mod a = ((- d) mod a - 1) mod a" by (simp add: mod_simps)
  also have "\<dots> = n mod a" by (simp add: assms(2))
  also have "\<dots> = n" using assms pos_mod_bound [OF assms(1), of "- d"] by (simp add: mod_pos_pos_trivial)
  finally show "(- (d + 1)) mod a = n" .
  show "d mod a \<noteq> 0" using assms(2,3) by (auto simp: mod_eq_0_iff_dvd)
qed

lemma padding_align_room:
  assumes "0 < align" and "p \<le> w_pos w"
    and "n = nat (- (int (w_pos w) - int p) mod int align)" and "room n w"
  shows "pf_put_padding_align p align w = Some (append_bytes (replicate n 0) w)"
  using assms
proof (induction n arbitrary: w)
  case 0
  let ?d = "int (w_pos w) - int p"
  have "0 \<le> (- ?d) mod int align" using 0(1) by simp
  with 0(3) have "(- ?d) mod int align = 0" by linarith
  then have "?d mod int align = 0" by (rule neg_mod_zero)
  then show ?case by (simp add: padding_align_done)
next
  case (Suc n)
  let ?d = "int (w_pos w) - int p"
  have eq: "(- ?d) mod int align = 1 + int n" using Suc.prems(3) by (simp split: if_splits)
  have "0 < int align" using Suc.prems(1) by simp
  note next_d = neg_mod_step [OF this eq]
  have nz: "?d mod int align \<noteq> 0" and n: "n = nat ((- (?d + 1)) mod int align)"
    using next_d by simp_all
  have step: "run_state (pf_put_byte 0) w = ((), append_bytes [0] w)"
    using Suc.prems(4) by (intro emitsD [OF emits_put_byte]) (auto simp: room_def)
  have "pf_put_padding_align p align (append_bytes [0] w) =
      Some (append_bytes (replicate n 0) (append_bytes [0] w))"
  proof (rule Suc.IH)
    show "n = nat (- (int (w_pos (append_bytes [0] w)) - int p) mod int align)"
      using n by (simp add: append_bytes_def algebra_simps)
    show "room n (append_bytes [0] w)"
      using Suc.prems(4) by (intro room_append) simp
  qed (use Suc.prems in \<open>simp_all add: append_bytes_def\<close>)
  with nz step Suc.prems(4) show ?case
    by (simp add: pf_put_padding_align.simps [of p align w] append_bytes_append)
qed

text \<open>A full buffer, or no buffer, at an unaligned position: the loop never ends.\<close>

lemma padding_align_stuck:
  assumes full: "w_pos w \<ge> w_len w \<or> w_bytes w = None"
    and off: "(int (w_pos w) - int p) mod int align \<noteq> 0"
  shows "pf_put_padding_align p align w = None"
proof -
  have "snd (run_state (pf_put_byte 0) w) = w"
    using full by (auto simp: pf_put_byte_def put_raw_def)
  then have fix_w: "(if (int (w_pos w) - int p) mod int align \<noteq> 0
      then f p align (snd (run_state (pf_put_byte 0) w)) else Some w) = f p align w" for f
    using off by simp
  have "p' = p \<longrightarrow> align' = align \<longrightarrow> v \<noteq> w" if "pf_put_padding_align p' align' v = Some u" for p' align' v u
  proof (induction p' align' v u rule: pf_put_padding_align.raw_induct)
    case (1 f p' align' v u)
    show ?case
    proof (intro impI notI)
      assume eq: "p' = p" "align' = align" "v = w"
      then have "f p align w = Some u" using "1" (2) unfolding eq fix_w by blast
      with "1" eq show False by blast
    qed
  qed (rule that)
  then show ?thesis by (cases "pf_put_padding_align p align w") auto
qed

end
