(* ===== verification/Codec_Locale.thy ===== *)
theory Codec_Locale
  imports Codec_Safety
begin

text \<open>
  Safe readers, the locale of a writer and a reader that belong together with the round
  trip through a buffer, and its interpretations on the primitives of
  src/device/pf_block_reader.c and src/device/pf_block_writer.c.
\<close>

section \<open>Safe readers\<close>

definition r_frame :: "rstate \<Rightarrow> rstate \<Rightarrow> bool" where
  "r_frame r r' \<longleftrightarrow> g_buf r' = g_buf r \<and> g_len r' = g_len r \<and> r_pos r \<le> r_pos r' \<and>
     r_pos r' \<le> max (g_len r) (r_pos r) \<and>
     (g_result r \<noteq> PF_PARSE_OK \<longrightarrow> g_result r' \<noteq> PF_PARSE_OK \<and> r_pos r' = r_pos r)"

definition rsafe :: "'a rd \<Rightarrow> bool" where
  "rsafe m \<longleftrightarrow> (\<forall>r. r_frame r (snd (run_state m r)))"

lemma r_frame_refl [simp]: "r_frame r r"
  by (simp add: r_frame_def)

lemma r_frame_trans: "r_frame r s \<Longrightarrow> r_frame s t \<Longrightarrow> r_frame r t"
  by (auto simp: r_frame_def)

lemma rsafe_return [rsafe_intros]: "rsafe (State_Monad.return x)"
  by (simp add: rsafe_def)

lemma rsafe_bind [rsafe_intros]:
  assumes "rsafe m" and "\<And>a. rsafe (f a)"
  shows "rsafe (State_Monad.bind m f)"
  unfolding rsafe_def
proof
  fix r
  obtain a r' where "run_state m r = (a, r')" by fastforce
  with assms show "r_frame r (snd (run_state (State_Monad.bind m f) r))"
    by (auto simp: rsafe_def intro: r_frame_trans dest: spec [of _ r])
qed

lemma rsafe_info [rsafe_intros]: "rsafe get_info"
  by (simp add: rsafe_def get_info_def)

lemma rsafe_byte [rsafe_intros]: "rsafe pf_get_byte"
  by (auto simp: rsafe_def pf_get_byte_def r_frame_def split: option.split)

lemma rsafe_mem [rsafe_intros]: "rsafe (pf_get_mem n dest)"
  by (auto simp: rsafe_def pf_get_mem_def r_frame_def split: option.split)

lemma rsafe_if [rsafe_intros]:
  "(c \<Longrightarrow> rsafe m) \<Longrightarrow> (\<not> c \<Longrightarrow> rsafe n) \<Longrightarrow> rsafe (if c then m else n)"
  by simp

lemma rsafe_uint16 [rsafe_intros]: "rsafe pf_get_uint16"
  unfolding pf_get_uint16_def by (intro rsafe_intros)

lemma rsafe_uint32 [rsafe_intros]: "rsafe pf_get_uint32"
  unfolding pf_get_uint32_def by (intro rsafe_intros)

text \<open>A loop that reads one value after another.\<close>

fun read_n :: "nat \<Rightarrow> 'a rd \<Rightarrow> 'a list rd" where
  "read_n 0 m = State_Monad.return []"
| "read_n (Suc n) m = do { x \<leftarrow> m; xs \<leftarrow> read_n n m; State_Monad.return (x # xs) }"

lemma rsafe_read_n [rsafe_intros]: "rsafe m \<Longrightarrow> rsafe (read_n n m)"
  by (induction n) (auto intro!: rsafe_intros)

section \<open>Codecs\<close>

text \<open>The reader that starts where the writer started, on the buffer it left.\<close>

definition reader_at :: "bool \<Rightarrow> nat \<Rightarrow> wstate \<Rightarrow> rstate" where
  "reader_at be p w = \<lparr>g_result = PF_PARSE_OK, g_is_big_endian = be, g_buf = w_bytes w,
     g_len = w_len w, r_pos = p\<rparr>"

lemma avail_reader_at:
  assumes "room (length xs) w"
  shows "avail be xs (reader_at be (w_pos w) (append_bytes xs w))"
  using assms by (auto simp: room_def avail_def reader_at_def append_bytes_def)

locale codec =
  fixes be :: bool and put :: "'a \<Rightarrow> unit wr" and get :: "'a rd"
    and enc :: "'a \<Rightarrow> u8 list" and ok :: "'a \<Rightarrow> bool"
  assumes put_emits: "ok x \<Longrightarrow> emits (enc x) (put x)"
    and get_parses: "ok x \<Longrightarrow> parses be (enc x) x get"
begin

lemma round_trip:
  assumes "ok x" and "room (length (enc x)) w"
  shows "run_state get (reader_at be (w_pos w) (snd (run_state (put x) w))) =
           (x, reader_at be (w_pos w + length (enc x)) (snd (run_state (put x) w)))"
proof -
  have w: "snd (run_state (put x) w) = append_bytes (enc x) w"
    using emitsD [OF put_emits [OF assms(1)] assms(2)] by simp
  show ?thesis
    unfolding w parsesD [OF get_parses [OF assms(1)] avail_reader_at [OF assms(2)]]
    by (simp add: skip_def reader_at_def)
qed

text \<open>What is written determines the value.\<close>

lemma enc_inj:
  assumes "ok x" and "ok y" and "enc x = enc y"
  shows "x = y"
proof -
  let ?b = "enc x"
  let ?r = "\<lparr>g_result = PF_PARSE_OK, g_is_big_endian = be, g_buf = Some ?b, g_len = length ?b, r_pos = 0\<rparr>"
  have "avail be (enc x) ?r" by (simp add: avail_def)
  from parsesD [OF get_parses [OF assms(1)] this]
    parsesD [OF get_parses [OF assms(2)], of ?r] this assms(3)
  show ?thesis by (simp add: avail_def)
qed

lemma put_all_emits:
  assumes "\<forall>x \<in> set xs. ok x"
  shows "emits (concat (map enc xs)) (for_each put xs)"
  using assms by (intro emits_for_each put_emits) simp

lemma read_n_parses:
  assumes "\<forall>x \<in> set xs. ok x"
  shows "parses be (concat (map enc xs)) xs (read_n (length xs) get)"
  using assms
proof (induction xs)
  case Nil
  show ?case by (auto intro: parses_return_eq)
next
  case (Cons x xs)
  have "parses be (concat (map enc xs) @ []) (x # xs)
      (do { ys \<leftarrow> read_n (length xs) get; State_Monad.return (x # ys) })"
    using Cons by (intro parses_bind [where a = xs]) (auto intro: parses_return_eq)
  then have "parses be (enc x @ concat (map enc xs)) (x # xs)
      (do { y \<leftarrow> get; ys \<leftarrow> read_n (length xs) get; State_Monad.return (y # ys) })"
    using get_parses [of x] Cons.prems by (intro parses_bind [where a = x]) simp_all
  then show ?case by simp
qed

end

interpretation byte_codec: codec be pf_put_byte pf_get_byte "\<lambda>v. [v]" "\<lambda>_. True" for be :: bool
  by unfold_locales (auto intro: emits_put_byte parses_byte)

interpretation uint16_codec: codec be "pf_put_uint16 be" pf_get_uint16 "enc16 be" "\<lambda>_. True" for be :: bool
  by unfold_locales (auto intro: emits_uint16 parses_uint16)

interpretation uint32_codec: codec be "pf_put_uint32 be" pf_get_uint32 "enc32 be" "\<lambda>_. True" for be :: bool
  by unfold_locales (auto intro: emits_uint32 parses_uint32)

interpretation mem_codec: codec be "\<lambda>xs. pf_put_mem xs n" "pf_get_mem n []" "\<lambda>xs. xs" "\<lambda>xs. length xs = n"
  for be :: bool and n :: nat
  by unfold_locales (auto intro: emits_put_mem_all parses_mem)

section \<open>Block headers\<close>

record pf_block_header =
  block_type :: u16
  block_length :: u16
  block_version_high :: u8
  block_version_low :: u8

definition pf_get_block_header :: "pf_block_header rd" where
  "pf_get_block_header = do {
     t \<leftarrow> pf_get_uint16; l \<leftarrow> pf_get_uint16; h \<leftarrow> pf_get_byte; v \<leftarrow> pf_get_byte;
     State_Monad.return \<lparr>block_type = t, block_length = l, block_version_high = h, block_version_low = v\<rparr>
   }"

text \<open>The constant \<open>"sizeof (pf_block_header_t)"\<close> is 6.\<close>

definition pf_put_block_header :: "bool \<Rightarrow> u16 \<Rightarrow> u16 \<Rightarrow> u8 \<Rightarrow> u8 \<Rightarrow> unit wr" where
  "pf_put_block_header is_big_endian bh_type bh_length bh_ver_high bh_ver_low = do {
     pf_put_uint16 is_big_endian bh_type;
     pf_put_uint16 is_big_endian ((bh_length + 6) - 4);
     pf_put_byte bh_ver_high;
     pf_put_byte bh_ver_low
   }"

text \<open>
  Most blocks are written with a length of zero that is put right at the end: the last
  statements of these functions.
\<close>

definition put_block_length :: "bool \<Rightarrow> nat \<Rightarrow> unit wr" where
  "put_block_length is_big_endian block_pos = do {
     p \<leftarrow> get_pos;
     at_pos (block_pos + 2) (pf_put_uint16 is_big_endian (of_int (int p - (int block_pos + 4))))
   }"

definition enc_header :: "bool \<Rightarrow> u16 \<Rightarrow> nat \<Rightarrow> u8 \<Rightarrow> u8 \<Rightarrow> u8 list" where
  "enc_header be t n h v = enc16 be t @ enc16 be (of_nat (n + 2)) @ [h] @ [v]"

lemma enc_header_length [simp]: "length (enc_header be t n h v) = 6"
  by (simp add: enc_header_def)

lemma emits_block_header [emits_intros]:
  "emits (enc_header be t (unat n) h v) (pf_put_block_header be t n h v)"
  unfolding enc_header_def pf_put_block_header_def
  by (intro emits_bind) (auto intro: emits_intros)

lemma wsafe_block_header [wsafe_intros]: "wsafe_from p0 (pf_put_block_header be t n h v)"
  unfolding pf_put_block_header_def by (intro wsafe_intros)

lemma wsafe_block_length: "p0 \<le> p \<Longrightarrow> wsafe_from p0 (put_block_length be p)"
  unfolding put_block_length_def by (intro wsafe_intros wsafe_at_pos) simp

lemma rsafe_block_header [rsafe_intros]: "rsafe pf_get_block_header"
  unfolding pf_get_block_header_def by (intro rsafe_intros)

lemma at_pos_append:
  assumes "room (length xs) w" and "p + length ys \<le> length xs" and "emits ys m"
  shows "run_state (at_pos (w_pos w + p) m) (append_bytes xs w) =
           ((), append_bytes (take p xs @ ys @ drop (p + length ys) xs) w)"
proof -
  from assms(1) obtain b where b: "w_bytes w = Some b" "w_len w \<le> length b"
    "w_pos w + length xs \<le> w_len w" by (auto simp: room_def)
  let ?w = "(append_bytes xs w)\<lparr>w_pos := w_pos w + p\<rparr>"
  have eq: "write_at (w_pos w + p) ys (write_at (w_pos w) xs b) =
      write_at (w_pos w) (take p xs @ ys @ drop (p + length ys) xs) b"
    using b assms(2) by (simp add: write_at_def ac_simps)
  have "room (length ys) ?w" using b assms(2) by (auto simp: room_def append_bytes_def)
  with emitsD [OF assms(3)] have "run_state m ?w = ((), append_bytes ys ?w)" .
  with b assms(2) eq show ?thesis by (simp add: at_pos_def append_bytes_def)
qed

lemma emits_block:
  assumes "emits ys body"
  shows "emits (enc_header be t (length ys) h v @ ys)
    (do { p \<leftarrow> get_pos; pf_put_block_header be t n h v; body; put_block_length be p })"
  unfolding emits_def
proof (intro allI impI)
  fix w assume w: "room (length (enc_header be t (length ys) h v @ ys)) w"
  let ?xs = "enc_header be t (unat n) h v @ ys"
  have r: "room (length ?xs) w" using w by simp
  have "emits ?xs (do { pf_put_block_header be t n h v; body })"
    using emits_bind [OF emits_block_header assms] .
  from emitsD [OF this r] have
    1: "run_state (do { pf_put_block_header be t n h v; body }) w = ((), append_bytes ?xs w)" .
  have "run_state (at_pos (w_pos w + 2) (pf_put_uint16 be (of_nat (length ys + 2)))) (append_bytes ?xs w) =
      ((), append_bytes (take 2 ?xs @ enc16 be (of_nat (length ys + 2)) @ drop (2 + 2) ?xs) w)"
    using at_pos_append [OF r _ emits_uint16, of 2 be "of_nat (length ys + 2)"] by simp
  also have "take 2 ?xs @ enc16 be (of_nat (length ys + 2)) @ drop (2 + 2) ?xs =
      enc_header be t (length ys) h v @ ys"
    by (simp add: enc_header_def numeral_eq_Suc)
  finally have 2: "run_state (put_block_length be (w_pos w)) (append_bytes ?xs w) =
      ((), append_bytes (enc_header be t (length ys) h v @ ys) w)"
    by (simp add: put_block_length_def append_bytes_def)
  show "run_state (do { p \<leftarrow> get_pos; pf_put_block_header be t n h v; body; put_block_length be p }) w =
      ((), append_bytes (enc_header be t (length ys) h v @ ys) w)"
    using 1 2 by (simp add: case_prod_beta)
qed

lemma wsafe_block:
  assumes "\<And>p. wsafe_from p body"
  shows "wsafe_from p0 (do { p \<leftarrow> get_pos; pf_put_block_header be t n h v; body; put_block_length be p })"
  by (intro wsafe_bind_get_pos wsafe_bind wsafe_block_header wsafe_block_length assms)

end
