(* ===== verification/Wire_Types.thy ===== *)
theory Wire_Types
  imports Codec_Locale
begin

text \<open>
  The structures of src/pf_types.h and include/pnet_api.h that go over the wire. A C array
  is a list of the length of the array; a counter beside it says how many of the elements
  are used. A record has the fields of the structure that the modelled functions use.
\<close>

section \<open>Sizes\<close>

definition PNET_STATION_NAME_MAX_SIZE :: nat where "PNET_STATION_NAME_MAX_SIZE = 241"
definition PNET_LLDP_PORT_ID_MAX_SIZE :: nat where "PNET_LLDP_PORT_ID_MAX_SIZE = 256"
definition PF_CHECK_PEERS_PER_PORT :: nat where "PF_CHECK_PEERS_PER_PORT = 1"
definition PNET_MAX_DFP_IOCR :: nat where "PNET_MAX_DFP_IOCR = 2"
definition PNET_MAX_AR_VENDOR_BLOCK_DATA_LENGTH :: nat
  where "PNET_MAX_AR_VENDOR_BLOCK_DATA_LENGTH = 512"
definition IM_TAG_FUNCTION_SIZE :: nat where "IM_TAG_FUNCTION_SIZE = 33"
definition PNET_LOCATION_MAX_SIZE :: nat where "PNET_LOCATION_MAX_SIZE = 23"

lemmas size_defs =
  PNET_STATION_NAME_MAX_SIZE_def PNET_LLDP_PORT_ID_MAX_SIZE_def PF_CHECK_PEERS_PER_PORT_def
  PNET_MAX_DFP_IOCR_def PNET_MAX_AR_VENDOR_BLOCK_DATA_LENGTH_def IM_TAG_FUNCTION_SIZE_def
  PNET_LOCATION_MAX_SIZE_def

section \<open>Identifiers\<close>

record pf_uuid =
  data1 :: u32
  data2 :: u16
  data3 :: u16
  data4 :: "u8 list"

record pf_rpc_uuid_type =
  time_low :: u32
  time_mid :: u16
  time_hi_and_version :: u16
  clock_hi_and_reserved :: u8
  clock_low :: u8
  node :: "u8 list"

record pf_rpc_handle =
  rpc_entry_handle :: u32
  handle_uuid :: pf_rpc_uuid_type

section \<open>Connect request\<close>

record pf_ar_properties =
  arp_state :: u16
  supervisor_takeover_allowed :: bool
  parameterization_server :: u8
  device_access :: bool
  companion_ar :: u16
  acknowledge_companion_ar :: bool
  combined_object_container :: bool
  startup_mode :: bool
  pull_module_alarm_allowed :: bool

record pf_ar_param =
  ar_type :: u16
  ar_uuid :: pf_uuid
  session_key :: u16
  cm_initiator_mac_add :: "u8 list"
  cm_initiator_object_uuid :: pf_uuid
  ar_properties :: pf_ar_properties
  cm_initiator_activity_timeout_factor :: u16
  cm_initiator_udp_rt_port :: u16
  cm_initiator_station_name_len :: u16
  cm_initiator_station_name :: "u8 list"

record pf_frame_descriptor =
  fd_slot_number :: u16
  fd_subslot_number :: u16
  frame_offset :: u16

record pf_api_entry =
  ae_api :: u32
  nbr_io_data :: u16
  io_data :: "pf_frame_descriptor list"
  nbr_iocs :: u16
  iocs :: "pf_frame_descriptor list"

record pf_iocr_properties =
  rt_class :: u32
  reserved_1 :: u16
  reserved_2 :: u16
  reserved_3 :: u16

record pf_iocr_tag_header =
  vlan_id :: u16
  iocr_user_priority :: u16

record pf_iocr_param =
  iocr_type :: u16
  iocr_reference :: u16
  lt_field :: u16
  iocr_properties :: pf_iocr_properties
  c_sdu_length :: u16
  frame_id :: u16
  send_clock_factor :: u16
  reduction_ratio :: u16
  phase :: u16
  ip_sequence :: u16
  frame_send_offset :: u32
  watchdog_factor :: u32
  data_hold_factor :: u16
  iocr_tag_header :: pf_iocr_tag_header
  iocr_multicast_mac_add :: "u8 list"
  nbr_apis :: u16
  apis :: "pf_api_entry list"

record pf_data_descriptor =
  data_direction :: u16
  submodule_data_length :: u16
  length_iops :: u8
  length_iocs :: u8

record pf_submodule_properties =
  sp_type :: u8
  sharedInput :: bool
  reduce_input_submodule_data_length :: bool
  reduce_output_submodule_data_length :: bool
  discard_ioxs :: bool

record pf_submodule_state =
  add_info :: u8
  advice_avail :: bool
  maintenance_required :: bool
  maintenance_demanded :: bool
  fault :: bool
  ar_info :: u8
  ident_info :: u8
  format_indicator :: bool

record pf_exp_submodule =
  es_subslot_number :: u16
  es_ident_number :: u32
  es_properties :: pf_submodule_properties
  nbr_data_descriptors :: u16
  data_descriptor :: "pf_data_descriptor list"
  es_state :: pf_submodule_state

record pf_exp_module =
  em_slot_number :: u16
  em_ident_number :: u32
  em_properties :: u16
  em_state :: u16
  nbr_submodules :: u16
  submodule :: "pf_exp_submodule list"
  nbr_diff_submodules :: u16
  diff_submodule :: "u16 list"

record pf_exp_api =
  ea_valid :: bool
  ea_api :: u32
  nbr_modules :: u16
  ea_module :: "pf_exp_module list"
  nbr_diff_modules :: u16
  diff_module :: "u16 list"

record pf_exp_ident =
  ei_nbr_apis :: u16
  ei_api :: "pf_exp_api list"
  nbr_diff_apis :: u16
  diff_api :: "u16 list"

record pf_alarm_cr_properties =
  priority :: bool
  transport_udp :: bool

record pf_alarm_cr_tag_header =
  acr_vlan_id :: u8
  alarm_user_priority :: u8

record pf_alarm_cr_request =
  acr_type :: u32
  acr_lt_field :: u16
  alarm_cr_properties :: pf_alarm_cr_properties
  rta_timeout_factor :: u16
  rta_retries :: u16
  local_alarm_reference :: u16
  max_alarm_data_length :: u16
  alarm_cr_tag_header_high :: pf_alarm_cr_tag_header
  alarm_cr_tag_header_low :: pf_alarm_cr_tag_header

record pf_prm_server =
  parameter_server_object_uuid :: pf_uuid
  prm_activity_timeout_factor :: u16
  parameter_server_station_name_len :: u16
  parameter_server_station_name :: "u8 list"

record pf_dfp_iocr =
  dfp_iocr_reference :: u16
  subframe_offset :: u16
  subframe_position :: u8
  subframe_length :: u8

record pf_ir_info =
  ir_data_uuid :: pf_uuid
  nbr_iocrs :: u16
  dfp_iocrs :: "pf_dfp_iocr list"

record pf_multicast_cr =
  mcr_iocr_reference :: u16
  mcr_protocol :: u8
  resolution_factor :: u8
  mci_timeout_factor :: u16
  length_provider_station_name :: u16
  provider_station_name :: "u8 list"

record pf_ar_vendor_request =
  ap_structure_identifier :: u32
  avr_api :: u32
  length_data_request :: u16
  data_request :: "u8 list"

section \<open>RPC\<close>

record pf_control_block =
  cb_ar_uuid :: pf_uuid
  cb_session_key :: u16
  control_command :: u16
  control_block_properties :: u16
  alarm_sequence_number :: u16

record pf_ndr_data =
  args_maximum :: u32
  args_length :: u32
  maximum_count :: u32
  ndr_offset :: u32
  actual_count :: u32

record pf_rpc_flags =
  last_fragment :: bool
  fragment :: bool
  no_fack :: bool
  maybe :: bool
  idempotent :: bool
  broadcast :: bool

record pf_rpc_header =
  rpc_version :: u8
  packet_type :: u8
  rpc_flags :: pf_rpc_flags
  cancel_pending :: bool
  rpc_is_big_endian :: bool
  float_repr :: u8
  rpc_reserved :: u8
  serial_high :: u8
  object_uuid :: pf_uuid
  interface_uuid :: pf_uuid
  activity_uuid :: pf_uuid
  server_boot_time :: u32
  interface_version :: u32
  sequence_nmb :: u32
  opnum :: u16
  interface_hint :: u16
  activity_hint :: u16
  length_of_body :: u16
  fragment_nmb :: u16
  auth_protocol :: u8
  serial_low :: u8

record pf_iod_read_request =
  rq_sequence_number :: u16
  rq_ar_uuid :: pf_uuid
  rq_api :: u32
  rq_slot_number :: u16
  rq_subslot_number :: u16
  rq_padding :: "u8 list"
  rq_index :: u16
  rq_record_data_length :: u32
  target_ar_uuid :: pf_uuid
  rq_rw_padding :: "u8 list"

record pf_iod_write_request =
  wq_sequence_number :: u16
  wq_ar_uuid :: pf_uuid
  wq_api :: u32
  wq_slot_number :: u16
  wq_subslot_number :: u16
  wq_padding :: "u8 list"
  wq_index :: u16
  wq_record_data_length :: u32
  wq_rw_padding :: "u8 list"

record pf_rpc_lookup_req =
  inquiry_type :: u32
  object_id :: u32
  lr_object_uuid :: pf_uuid
  interface_id :: u32
  lr_interface_uuid :: pf_uuid
  interface_ver_major :: u16
  interface_ver_minor :: u16
  version_option :: u32
  rpc_handle :: pf_rpc_handle
  max_entries :: u32

section \<open>Records, alarms and ports\<close>

record pnet_im_1 =
  im_tag_function :: "u8 list"
  im_tag_location :: "u8 list"

record pnet_pnio_status =
  error_code :: u8
  error_decode :: u8
  error_code_1 :: u8
  error_code_2 :: u8

record pf_alarm_fixed =
  dst_ref :: u16
  src_ref :: u16
  pdu_type :: u8
  pdu_version :: u8
  window_size :: u8
  tack :: bool
  send_seq_num :: u16
  ack_seq_nbr :: u16

record pnet_alarm_spec =
  channel_diagnosis :: bool
  manufacturer_diagnosis :: bool
  submodule_diagnosis :: bool
  ar_diagnosis :: bool

text \<open>A diagnosis item.\<close>

record pf_diag_std =
  ext_ch_add_value :: u32
  qual_ch_qualifier :: u32
  ch_nbr :: u16
  ch_properties :: u16
  ch_error_type :: u16
  ext_ch_error_type :: u16

text \<open>
  The union of the standard and the manufacturer format; the code tells them apart by the
  USI. Reading the member that was not stored last gives bytes that C leaves
  unspecified; the accessors give a cleared structure then.
\<close>

datatype diag_fmt = Fmt_std pf_diag_std | Fmt_usi nat "u8 list"

definition zero_diag_std :: pf_diag_std where
  "zero_diag_std = \<lparr>ext_ch_add_value = 0, qual_ch_qualifier = 0, ch_nbr = 0, ch_properties = 0,
     ch_error_type = 0, ext_ch_error_type = 0\<rparr>"

fun fmt_std :: "diag_fmt \<Rightarrow> pf_diag_std" where
  "fmt_std (Fmt_std d) = d"
| "fmt_std (Fmt_usi n m) = zero_diag_std"

fun fmt_usi_len :: "diag_fmt \<Rightarrow> nat" where
  "fmt_usi_len (Fmt_std d) = 0"
| "fmt_usi_len (Fmt_usi n m) = n"

fun fmt_usi_data :: "diag_fmt \<Rightarrow> u8 list" where
  "fmt_usi_data (Fmt_std d) = []"
| "fmt_usi_data (Fmt_usi n m) = m"

record pf_diag_item =
  di_fmt :: diag_fmt
  di_in_use :: bool
  di_usi :: u16
  di_next :: u16

text \<open>The payload of an alarm is raw bytes or a diagnosis item, told apart by the USI.\<close>

datatype alarm_payload = Raw_payload "u8 list" | Diag_payload pf_diag_item

fun payload_bytes :: "alarm_payload \<Rightarrow> u8 list" where
  "payload_bytes (Raw_payload xs) = xs"
| "payload_bytes (Diag_payload d) = []"

definition zero_diag_item :: pf_diag_item where
  "zero_diag_item = \<lparr>di_fmt = Fmt_std zero_diag_std, di_in_use = False, di_usi = 0, di_next = 0\<rparr>"

fun payload_item :: "alarm_payload \<Rightarrow> pf_diag_item" where
  "payload_item (Raw_payload xs) = zero_diag_item"
| "payload_item (Diag_payload d) = d"

record pf_alarm_payload =
  pl_usi :: u16
  pl_len :: u16
  pl_data :: alarm_payload

text \<open>The member \<open>submodule_ident\<close> has 16 bits in the C structure.\<close>

record pf_alarm_data =
  alarm_type :: u16
  api_id :: u32
  slot_nbr :: u16
  subslot_nbr :: u16
  module_ident :: u32
  submodule_ident :: u16
  alarm_specifier :: pnet_alarm_spec
  sequence_number :: u16
  payload :: pf_alarm_payload

record pf_port_data =
  pd_slot_number :: u16
  pd_subslot_number :: u16
  block_header :: pf_block_header

record pf_check_peer =
  length_peer_port_name :: u8
  peer_port_name :: "u8 list"
  length_peer_station_name :: u8
  peer_station_name :: "u8 list"

record pf_check_peers =
  number_of_peers :: u8
  peers :: "pf_check_peer list"

record pf_adjust_peer_to_peer_boundary =
  do_not_send_LLDP_frames :: u32
  do_not_send_pctp_delay_request_frames :: u32
  do_not_send_path_delay_request_frames :: u32
  adjust_properties :: u16

text \<open>Who owns a submodule.\<close>

datatype pf_ownsm_state = PF_OWNSM_STATE_FREE | PF_OWNSM_STATE_SOL | PF_OWNSM_STATE_IOS | PF_OWNSM_STATE_IOC

section \<open>Values of fresh structures\<close>

text \<open>Memory that was cleared by the caller.\<close>

definition zero_uuid :: pf_uuid where
  "zero_uuid = \<lparr>data1 = 0, data2 = 0, data3 = 0, data4 = replicate 8 0\<rparr>"

definition zero_data_descriptor :: pf_data_descriptor where
  "zero_data_descriptor =
     \<lparr>data_direction = 0, submodule_data_length = 0, length_iops = 0, length_iocs = 0\<rparr>"

definition zero_exp_submodule :: pf_exp_submodule where
  "zero_exp_submodule = \<lparr>es_subslot_number = 0, es_ident_number = 0,
     es_properties = \<lparr>sp_type = 0, sharedInput = False, reduce_input_submodule_data_length = False,
       reduce_output_submodule_data_length = False, discard_ioxs = False\<rparr>,
     nbr_data_descriptors = 0, data_descriptor = replicate 2 zero_data_descriptor,
     es_state = \<lparr>add_info = 0, advice_avail = False, maintenance_required = False,
       maintenance_demanded = False, fault = False, ar_info = 0, ident_info = 0,
       format_indicator = False\<rparr>\<rparr>"

definition zero_exp_module :: pf_exp_module where
  "zero_exp_module = \<lparr>em_slot_number = 0, em_ident_number = 0, em_properties = 0, em_state = 0,
     nbr_submodules = 0, submodule = replicate PNET_MAX_SUBSLOTS zero_exp_submodule,
     nbr_diff_submodules = 0, diff_submodule = replicate PNET_MAX_SUBSLOTS 0\<rparr>"

definition zero_exp_api :: pf_exp_api where
  "zero_exp_api = \<lparr>ea_valid = False, ea_api = 0, nbr_modules = 0,
     ea_module = replicate PNET_MAX_SLOTS zero_exp_module, nbr_diff_modules = 0,
     diff_module = replicate PNET_MAX_SLOTS 0\<rparr>"

definition zero_exp_ident :: pf_exp_ident where
  "zero_exp_ident = \<lparr>ei_nbr_apis = 0, ei_api = replicate PNET_MAX_API zero_exp_api,
     nbr_diff_apis = 0, diff_api = replicate PNET_MAX_API 0\<rparr>"

end
