(* ===== verification/Block_Reader.thy ===== *)
theory Block_Reader
  imports Wire_Types
begin

unbundle bit_operations_syntax

text \<open>
  The message readers of src/device/pf_block_reader.c. Each function is a program of the
  reader monad that gives the structure it fills; where the C function leaves members of
  the destination alone, the structure as it was is an argument.

  A copy or a store behind the end of an array of the destination is undefined in C. The
  functions in which the length comes from the message give \<^const>\<open>None\<close> then.
\<close>

section \<open>Identifiers\<close>

definition pf_get_uuid :: "pf_uuid \<Rightarrow> pf_uuid rd" where
  "pf_get_uuid old = do {
     d1 \<leftarrow> pf_get_uint32; d2 \<leftarrow> pf_get_uint16; d3 \<leftarrow> pf_get_uint16;
     d4 \<leftarrow> pf_get_mem 8 (data4 old);
     State_Monad.return \<lparr>data1 = d1, data2 = d2, data3 = d3, data4 = d4\<rparr>
   }"

definition pf_get_handle :: "pf_rpc_handle \<Rightarrow> pf_rpc_handle rd" where
  "pf_get_handle old = do {
     h \<leftarrow> pf_get_uint32; tl \<leftarrow> pf_get_uint32; tm \<leftarrow> pf_get_uint16; th \<leftarrow> pf_get_uint16;
     ch \<leftarrow> pf_get_byte; cl \<leftarrow> pf_get_byte; n \<leftarrow> pf_get_mem 6 (node (handle_uuid old));
     State_Monad.return \<lparr>rpc_entry_handle = h,
       handle_uuid = \<lparr>time_low = tl, time_mid = tm, time_hi_and_version = th,
         clock_hi_and_reserved = ch, clock_low = cl, node = n\<rparr>\<rparr>
   }"

section \<open>Storing into arrays of fixed size\<close>

text \<open>The result of copying into an array, unless the copy was longer than the array.\<close>

definition in_array :: "u8 list \<Rightarrow> u8 list \<Rightarrow> u8 list option" where
  "in_array dest xs = (if length xs = length dest then Some xs else None)"

definition store :: "nat \<Rightarrow> 'a \<Rightarrow> 'a list \<Rightarrow> 'a list option" where
  "store i x xs = (if i < length xs then Some (xs[i := x]) else None)"

text \<open>A length read from the message, that many bytes, and a terminating zero.\<close>

definition get_terminated :: "nat \<Rightarrow> u8 list \<Rightarrow> u8 list option rd" where
  "get_terminated n dest = do {
     xs \<leftarrow> pf_get_mem n dest;
     State_Monad.return (Option.bind (in_array dest xs) (store n 0))
   }"

section \<open>Connect request\<close>

definition pf_get_frame_descriptor :: "pf_frame_descriptor rd" where
  "pf_get_frame_descriptor = do {
     s \<leftarrow> pf_get_uint16; ss \<leftarrow> pf_get_uint16; f \<leftarrow> pf_get_uint16;
     State_Monad.return \<lparr>fd_slot_number = s, fd_subslot_number = ss, frame_offset = f\<rparr>
   }"

definition pf_get_iocr_api_entry :: "pf_api_entry \<Rightarrow> (int \<times> pf_api_entry) rd" where
  "pf_get_iocr_api_entry ae = do {
     a \<leftarrow> pf_get_uint32;
     n \<leftarrow> pf_get_uint16;
     let ae = ae\<lparr>ae_api := a, nbr_io_data := n\<rparr>;
     if unat n > length (io_data ae) then State_Monad.return (-1, ae)
     else do {
       ds \<leftarrow> read_n (unat n) pf_get_frame_descriptor;
       let ae = ae\<lparr>io_data := ds @ drop (unat n) (io_data ae)\<rparr>;
       k \<leftarrow> pf_get_uint16;
       let ae = ae\<lparr>nbr_iocs := k\<rparr>;
       if unat k > length (iocs ae) then State_Monad.return (-1, ae)
       else do {
         cs \<leftarrow> read_n (unat k) pf_get_frame_descriptor;
         State_Monad.return (0, ae\<lparr>iocs := cs @ drop (unat k) (iocs ae)\<rparr>)
       }
     }
   }"

definition get_data_descriptor :: "pf_data_descriptor rd" where
  "get_data_descriptor = do {
     d \<leftarrow> pf_get_uint16; l \<leftarrow> pf_get_uint16; c \<leftarrow> pf_get_byte; p \<leftarrow> pf_get_byte;
     State_Monad.return \<lparr>data_direction = d, submodule_data_length = l, length_iops = p,
       length_iocs = c\<rparr>
   }"

definition PNET_DIR_IO :: u8 where "PNET_DIR_IO = 3"

definition submodule_properties_of :: "u16 \<Rightarrow> pf_submodule_properties" where
  "submodule_properties_of t =
     \<lparr>sp_type = ucast (pf_get_bits (ucast t) 0 2),
      sharedInput = (pf_get_bits (ucast t) 2 1 \<noteq> 0),
      reduce_input_submodule_data_length = (pf_get_bits (ucast t) 3 1 \<noteq> 0),
      reduce_output_submodule_data_length = (pf_get_bits (ucast t) 4 1 \<noteq> 0),
      discard_ioxs = (pf_get_bits (ucast t) 5 1 \<noteq> 0)\<rparr>"

definition pf_get_exp_submodule :: "pf_exp_submodule \<Rightarrow> pf_exp_submodule rd" where
  "pf_get_exp_submodule sub = do {
     ss \<leftarrow> pf_get_uint16;
     i \<leftarrow> pf_get_uint32;
     t \<leftarrow> pf_get_uint16;
     d0 \<leftarrow> get_data_descriptor;
     let sub = sub\<lparr>es_subslot_number := ss, es_ident_number := i,
                 es_properties := submodule_properties_of t,
                 data_descriptor := (data_descriptor sub)[0 := d0], nbr_data_descriptors := 1\<rparr>;
     if sp_type (es_properties sub) = PNET_DIR_IO then do {
       d1 \<leftarrow> get_data_descriptor;
       State_Monad.return (sub\<lparr>data_descriptor := (data_descriptor sub)[1 := d1],
                               nbr_data_descriptors := 2\<rparr>)
     } else State_Monad.return sub
   }"

definition ar_properties_of :: "u32 \<Rightarrow> pf_ar_properties" where
  "ar_properties_of t =
     \<lparr>arp_state = ucast (pf_get_bits t 0 3),
      supervisor_takeover_allowed = (pf_get_bits t 3 1 \<noteq> 0),
      parameterization_server = ucast (pf_get_bits t 4 1),
      device_access = (pf_get_bits t 8 1 \<noteq> 0),
      companion_ar = ucast (pf_get_bits t 9 2),
      acknowledge_companion_ar = (pf_get_bits t 11 1 \<noteq> 0),
      combined_object_container = (pf_get_bits t 29 1 \<noteq> 0),
      startup_mode = (pf_get_bits t 30 1 \<noteq> 0),
      pull_module_alarm_allowed = (pf_get_bits t 31 1 \<noteq> 0)\<rparr>"

definition pf_get_ar_param :: "pf_ar_param \<Rightarrow> pf_ar_param rd" where
  "pf_get_ar_param old = do {
     t \<leftarrow> pf_get_uint16;
     u \<leftarrow> pf_get_uuid (ar_uuid old);
     k \<leftarrow> pf_get_uint16;
     m \<leftarrow> pf_get_mem 6 (cm_initiator_mac_add old);
     ou \<leftarrow> pf_get_uuid (cm_initiator_object_uuid old);
     p \<leftarrow> pf_get_uint32;
     a \<leftarrow> pf_get_uint16;
     r \<leftarrow> pf_get_uint16;
     l \<leftarrow> pf_get_uint16;
     let str_len = min (unat l) (PNET_STATION_NAME_MAX_SIZE - 1);
     n \<leftarrow> pf_get_mem str_len (cm_initiator_station_name old);
     State_Monad.return \<lparr>ar_type = t, ar_uuid = u, session_key = k, cm_initiator_mac_add = m,
       cm_initiator_object_uuid = ou, ar_properties = ar_properties_of p,
       cm_initiator_activity_timeout_factor = a, cm_initiator_udp_rt_port = r,
       cm_initiator_station_name_len = l, cm_initiator_station_name = n[str_len := 0]\<rparr>
   }"

definition iocr_properties_of :: "u32 \<Rightarrow> pf_iocr_properties" where
  "iocr_properties_of t =
     \<lparr>rt_class = pf_get_bits t 0 4, reserved_1 = of_bool (pf_get_bits t 4 9 \<noteq> 0),
      reserved_2 = of_bool (pf_get_bits t 13 11 \<noteq> 0),
      reserved_3 = of_bool (pf_get_bits t 24 8 \<noteq> 0)\<rparr>"

definition iocr_tag_header_of :: "u16 \<Rightarrow> pf_iocr_tag_header" where
  "iocr_tag_header_of t =
     \<lparr>vlan_id = ucast (pf_get_bits (ucast t) 0 11),
      iocr_user_priority = ucast (pf_get_bits (ucast t) 13 3)\<rparr>"

text \<open>The loop over the API entries ends at the first one that is refused.\<close>

fun get_api_entries :: "nat list \<Rightarrow> pf_api_entry list \<Rightarrow> (int \<times> pf_api_entry list) rd" where
  "get_api_entries [] aes = State_Monad.return (0, aes)"
| "get_api_entries (iy # iys) aes = do {
     (r, ae) \<leftarrow> pf_get_iocr_api_entry (aes ! iy);
     if r \<noteq> 0 then State_Monad.return (-1, aes[iy := ae])
     else get_api_entries iys (aes[iy := ae])
   }"

definition pf_get_iocr_param :: "pf_iocr_param \<Rightarrow> (int \<times> pf_iocr_param) rd" where
  "pf_get_iocr_param old = do {
     t \<leftarrow> pf_get_uint16; r \<leftarrow> pf_get_uint16; lt \<leftarrow> pf_get_uint16; p \<leftarrow> pf_get_uint32;
     c \<leftarrow> pf_get_uint16; f \<leftarrow> pf_get_uint16; sc \<leftarrow> pf_get_uint16; rr \<leftarrow> pf_get_uint16;
     ph \<leftarrow> pf_get_uint16; sq \<leftarrow> pf_get_uint16; fo \<leftarrow> pf_get_uint32; w \<leftarrow> pf_get_uint16;
     dh \<leftarrow> pf_get_uint16; th \<leftarrow> pf_get_uint16;
     m \<leftarrow> pf_get_mem 6 (iocr_multicast_mac_add old);
     n \<leftarrow> pf_get_uint16;
     let new = \<lparr>iocr_type = t, iocr_reference = r, lt_field = lt,
       iocr_properties = iocr_properties_of p, c_sdu_length = c, frame_id = f,
       send_clock_factor = sc, reduction_ratio = rr, phase = ph, ip_sequence = sq,
       frame_send_offset = fo, watchdog_factor = ucast w, data_hold_factor = dh,
       iocr_tag_header = iocr_tag_header_of th, iocr_multicast_mac_add = m, nbr_apis = n,
       apis = apis old\<rparr>;
     if unat n > PNET_MAX_API then State_Monad.return (-1, new)
     else do {
       (res, aes) \<leftarrow> get_api_entries [0..<unat n] (apis old);
       State_Monad.return (res, new\<lparr>apis := aes\<rparr>)
     }
   }"

section \<open>Expected modules\<close>

definition set_result :: "pf_get_result \<Rightarrow> unit rd" where
  "set_result x = State_Monad.update (\<lambda>r. r\<lparr>g_result := x\<rparr>)"

text \<open>
  The search for the API that is augmented: the last match wins, and without a match the
  pointer \<open>api\<close>, here an index, keeps its value.
\<close>

definition find_exp_api :: "pf_exp_ident \<Rightarrow> u32 \<Rightarrow> nat option \<Rightarrow> nat option" where
  "find_exp_api e exp_api api =
     fold (\<lambda>iy a. if ea_valid (ei_api e ! iy) \<and> ea_api (ei_api e ! iy) = exp_api then Some iy else a)
       [0..<unat (ei_nbr_apis e)] api"

text \<open>
  The submodules of one module: the number comes from the message and is not compared
  with the size of the array.
\<close>

fun get_exp_submodules :: "nat list \<Rightarrow> pf_exp_submodule list \<Rightarrow> pf_exp_submodule list option rd" where
  "get_exp_submodules [] subs = State_Monad.return (Some subs)"
| "get_exp_submodules (iy # iys) subs =
     (if iy < length subs then do {
        sub \<leftarrow> pf_get_exp_submodule (subs ! iy);
        get_exp_submodules iys (subs[iy := sub])
      } else State_Monad.return None)"

definition get_exp_module :: "u16 \<Rightarrow> pf_exp_module \<Rightarrow> pf_exp_module option rd" where
  "get_exp_module slot_number m = do {
     i \<leftarrow> pf_get_uint32; p \<leftarrow> pf_get_uint16; n \<leftarrow> pf_get_uint16;
     subs \<leftarrow> get_exp_submodules [0..<unat n] (submodule m);
     State_Monad.return (map_option (\<lambda>subs. m\<lparr>em_slot_number := slot_number,
       em_ident_number := i, em_properties := p, nbr_submodules := n, submodule := subs\<rparr>) subs)
   }"

definition set_api :: "nat \<Rightarrow> (pf_exp_api \<Rightarrow> pf_exp_api) \<Rightarrow> pf_exp_ident \<Rightarrow> pf_exp_ident" where
  "set_api i f e = e\<lparr>ei_api := (ei_api e)[i := f (ei_api e ! i)]\<rparr>"

text \<open>One round of the loop of \<open>pf_get_exp_api_module\<close>.\<close>

definition exp_api_round ::
    "nat option \<Rightarrow> pf_exp_ident \<Rightarrow> (nat option \<times> pf_exp_ident) option rd" where
  "exp_api_round api e = do {
     exp_api \<leftarrow> pf_get_uint32;
     let api = find_exp_api e exp_api api;
     let (api, e) =
       (if api = None \<and> unat (ei_nbr_apis e) < PNET_MAX_API then
          let ix = unat (ei_nbr_apis e)
          in (Some ix, set_api ix (\<lambda>a. a\<lparr>ea_api := exp_api, nbr_modules := 0, nbr_diff_modules := 0\<rparr>)
                         (e\<lparr>ei_nbr_apis := ei_nbr_apis e + 1\<rparr>))
        else (api, e));
     case api of
       None \<Rightarrow> do { set_result PF_PARSE_OUT_OF_API_RESOURCES; State_Monad.return (Some (api, e)) }
     | Some ix \<Rightarrow> do {
         slot_number \<leftarrow> pf_get_uint16;
         let n = unat (nbr_modules (ei_api e ! ix));
         if n < PNET_MAX_SLOTS then do {
           m \<leftarrow> get_exp_module slot_number (ea_module (ei_api e ! ix) ! n);
           State_Monad.return (map_option (\<lambda>m. (api, set_api ix (\<lambda>a. a\<lparr>
             nbr_modules := nbr_modules a + 1, ea_module := (ea_module a)[n := m],
             ea_valid := True\<rparr>) e)) m)
         } else do {
           set_result PF_PARSE_OUT_OF_EXP_SUBMODULE_RESOURCES;
           State_Monad.return (Some (api, e))
         }
       }
   }"

fun exp_api_rounds :: "nat \<Rightarrow> nat option \<Rightarrow> pf_exp_ident \<Rightarrow> pf_exp_ident option rd" where
  "exp_api_rounds 0 api e = State_Monad.return (Some e)"
| "exp_api_rounds (Suc n) api e = do {
     x \<leftarrow> exp_api_round api e;
     case x of None \<Rightarrow> State_Monad.return None
       | Some (api, e) \<Rightarrow> exp_api_rounds n api e
   }"

definition pf_get_exp_api_module :: "pf_exp_ident \<Rightarrow> pf_exp_ident option rd" where
  "pf_get_exp_api_module e = do {
     nbr_exp_api \<leftarrow> pf_get_uint16;
     exp_api_rounds (unat nbr_exp_api) None e
   }"

section \<open>Other blocks of a connect request\<close>

definition alarm_cr_properties_of :: "u32 \<Rightarrow> pf_alarm_cr_properties" where
  "alarm_cr_properties_of t =
     \<lparr>priority = (pf_get_bits t 0 1 \<noteq> 0), transport_udp = (pf_get_bits t 1 1 \<noteq> 0)\<rparr>"

definition alarm_cr_tag_header_of :: "u16 \<Rightarrow> pf_alarm_cr_tag_header" where
  "alarm_cr_tag_header_of t =
     \<lparr>acr_vlan_id = ucast (pf_get_bits (ucast t) 0 12),
      alarm_user_priority = ucast (pf_get_bits (ucast t) 13 3)\<rparr>"

definition pf_get_alarm_cr_request :: "pf_alarm_cr_request rd" where
  "pf_get_alarm_cr_request = do {
     t \<leftarrow> pf_get_uint16; lt \<leftarrow> pf_get_uint16; p \<leftarrow> pf_get_uint32; f \<leftarrow> pf_get_uint16;
     r \<leftarrow> pf_get_uint16; l \<leftarrow> pf_get_uint16; m \<leftarrow> pf_get_uint16; h \<leftarrow> pf_get_uint16;
     w \<leftarrow> pf_get_uint16;
     State_Monad.return \<lparr>acr_type = ucast t, acr_lt_field = lt,
       alarm_cr_properties = alarm_cr_properties_of p, rta_timeout_factor = f, rta_retries = r,
       local_alarm_reference = l, max_alarm_data_length = m,
       alarm_cr_tag_header_high = alarm_cr_tag_header_of h,
       alarm_cr_tag_header_low = alarm_cr_tag_header_of w\<rparr>
   }"

definition pf_get_ar_prm_server_request :: "pf_prm_server \<Rightarrow> pf_prm_server option rd" where
  "pf_get_ar_prm_server_request old = do {
     u \<leftarrow> pf_get_uuid (parameter_server_object_uuid old);
     _ \<leftarrow> pf_get_uint32;
     f \<leftarrow> pf_get_uint16;
     l \<leftarrow> pf_get_uint16;
     n \<leftarrow> get_terminated (unat l) (parameter_server_station_name old);
     State_Monad.return (map_option (\<lambda>n. \<lparr>parameter_server_object_uuid = u,
       prm_activity_timeout_factor = f, parameter_server_station_name_len = l,
       parameter_server_station_name = n\<rparr>) n)
   }"

definition pf_get_dfp_iocr :: "pf_dfp_iocr rd" where
  "pf_get_dfp_iocr = do {
     r \<leftarrow> pf_get_uint16; s \<leftarrow> pf_get_uint16; p \<leftarrow> pf_get_byte; l \<leftarrow> pf_get_byte;
     State_Monad.return \<lparr>dfp_iocr_reference = r, subframe_offset = s, subframe_position = p,
       subframe_length = l\<rparr>
   }"

fun get_dfp_iocrs :: "nat list \<Rightarrow> pf_dfp_iocr list \<Rightarrow> pf_dfp_iocr list option rd" where
  "get_dfp_iocrs [] ds = State_Monad.return (Some ds)"
| "get_dfp_iocrs (ix # ixs) ds = do {
     d \<leftarrow> pf_get_dfp_iocr;
     case store ix d ds of None \<Rightarrow> State_Monad.return None | Some ds \<Rightarrow> get_dfp_iocrs ixs ds
   }"

definition pf_get_ir_info_request :: "pf_ir_info \<Rightarrow> pf_ir_info option rd" where
  "pf_get_ir_info_request old = do {
     u \<leftarrow> pf_get_uuid (ir_data_uuid old);
     n \<leftarrow> pf_get_uint16;
     ds \<leftarrow> get_dfp_iocrs [0..<unat n] (dfp_iocrs old);
     State_Monad.return (map_option (\<lambda>ds. \<lparr>ir_data_uuid = u, nbr_iocrs = n, dfp_iocrs = ds\<rparr>) ds)
   }"

definition pf_get_mcr_request :: "pf_multicast_cr \<Rightarrow> pf_multicast_cr option rd" where
  "pf_get_mcr_request old = do {
     r \<leftarrow> pf_get_uint16; p \<leftarrow> pf_get_byte; f \<leftarrow> pf_get_byte; t \<leftarrow> pf_get_uint16; l \<leftarrow> pf_get_uint16;
     n \<leftarrow> get_terminated (unat l) (provider_station_name old);
     State_Monad.return (map_option (\<lambda>n. \<lparr>mcr_iocr_reference = r, mcr_protocol = p,
       resolution_factor = f, mci_timeout_factor = t, length_provider_station_name = l,
       provider_station_name = n\<rparr>) n)
   }"

definition pf_get_ar_rpc_request :: "u16 rd" where
  "pf_get_ar_rpc_request = pf_get_uint16"

definition pf_get_ar_vendor_request :: "pf_ar_vendor_request \<Rightarrow> pf_ar_vendor_request option rd" where
  "pf_get_ar_vendor_request old = do {
     i \<leftarrow> pf_get_uint32; a \<leftarrow> pf_get_uint32; l \<leftarrow> pf_get_uint16;
     xs \<leftarrow> pf_get_mem (unat l) (data_request old);
     State_Monad.return (map_option (\<lambda>xs. \<lparr>ap_structure_identifier = i, avr_api = a,
       length_data_request = l, data_request = xs\<rparr>) (in_array (data_request old) xs))
   }"

section \<open>RPC\<close>

definition pf_get_control :: "pf_control_block \<Rightarrow> pf_control_block rd" where
  "pf_get_control old = do {
     _ \<leftarrow> pf_get_uint16;
     u \<leftarrow> pf_get_uuid (cb_ar_uuid old);
     k \<leftarrow> pf_get_uint16; a \<leftarrow> pf_get_uint16; c \<leftarrow> pf_get_uint16; p \<leftarrow> pf_get_uint16;
     State_Monad.return (old\<lparr>cb_ar_uuid := u, cb_session_key := k, alarm_sequence_number := a,
       control_command := c, control_block_properties := p\<rparr>)
   }"

definition pf_get_ndr_data :: "pf_ndr_data rd" where
  "pf_get_ndr_data = do {
     am \<leftarrow> pf_get_uint32; al \<leftarrow> pf_get_uint32; mc \<leftarrow> pf_get_uint32; off \<leftarrow> pf_get_uint32;
     ac \<leftarrow> pf_get_uint32;
     State_Monad.return \<lparr>args_maximum = am, args_length = al, maximum_count = mc,
       ndr_offset = off, actual_count = ac\<rparr>
   }"

definition PF_RPC_F_LAST_FRAGMENT :: nat where "PF_RPC_F_LAST_FRAGMENT = 1"
definition PF_RPC_F_FRAGMENT :: nat where "PF_RPC_F_FRAGMENT = 2"
definition PF_RPC_F_NO_FACK :: nat where "PF_RPC_F_NO_FACK = 3"
definition PF_RPC_F_MAYBE :: nat where "PF_RPC_F_MAYBE = 4"
definition PF_RPC_F_IDEMPOTENT :: nat where "PF_RPC_F_IDEMPOTENT = 5"
definition PF_RPC_F_BROADCAST :: nat where "PF_RPC_F_BROADCAST = 6"
definition PF_RPC_F2_CANCEL_PENDING :: nat where "PF_RPC_F2_CANCEL_PENDING = 1"

lemmas rpc_flag_defs =
  PF_RPC_F_LAST_FRAGMENT_def PF_RPC_F_FRAGMENT_def PF_RPC_F_NO_FACK_def PF_RPC_F_MAYBE_def
  PF_RPC_F_IDEMPOTENT_def PF_RPC_F_BROADCAST_def PF_RPC_F2_CANCEL_PENDING_def

definition rpc_flags_of :: "u8 \<Rightarrow> pf_rpc_flags" where
  "rpc_flags_of t =
     \<lparr>last_fragment = (pf_get_bits (ucast t) PF_RPC_F_LAST_FRAGMENT 1 \<noteq> 0),
      fragment = (pf_get_bits (ucast t) PF_RPC_F_FRAGMENT 1 \<noteq> 0),
      no_fack = (pf_get_bits (ucast t) PF_RPC_F_NO_FACK 1 \<noteq> 0),
      maybe = (pf_get_bits (ucast t) PF_RPC_F_MAYBE 1 \<noteq> 0),
      idempotent = (pf_get_bits (ucast t) PF_RPC_F_IDEMPOTENT 1 \<noteq> 0),
      broadcast = (pf_get_bits (ucast t) PF_RPC_F_BROADCAST 1 \<noteq> 0)\<rparr>"

text \<open>From the data representation on, the reader uses the byte order of the message.\<close>

definition set_big_endian :: "bool \<Rightarrow> unit rd" where
  "set_big_endian be = State_Monad.update (\<lambda>r. r\<lparr>g_is_big_endian := be\<rparr>)"

definition pf_get_dce_rpc_header :: "pf_rpc_header \<Rightarrow> pf_rpc_header rd" where
  "pf_get_dce_rpc_header old = do {
     ver \<leftarrow> pf_get_byte;
     pt \<leftarrow> pf_get_byte;
     f1 \<leftarrow> pf_get_byte;
     f2 \<leftarrow> pf_get_byte;
     dr \<leftarrow> pf_get_byte;
     let big = (pf_get_bits (ucast dr) 4 4 = 0);
     set_big_endian big;
     _ \<leftarrow> pf_get_byte;
     res \<leftarrow> pf_get_byte;
     sh \<leftarrow> pf_get_byte;
     ob \<leftarrow> pf_get_uuid (object_uuid old);
     ifc \<leftarrow> pf_get_uuid (interface_uuid old);
     act \<leftarrow> pf_get_uuid (activity_uuid old);
     bt \<leftarrow> pf_get_uint32; iv \<leftarrow> pf_get_uint32; sn \<leftarrow> pf_get_uint32;
     opn \<leftarrow> pf_get_uint16; ih \<leftarrow> pf_get_uint16; ah \<leftarrow> pf_get_uint16; lb \<leftarrow> pf_get_uint16;
     fn \<leftarrow> pf_get_uint16;
     ap \<leftarrow> pf_get_byte; sl \<leftarrow> pf_get_byte;
     State_Monad.return \<lparr>rpc_version = ver, packet_type = pt AND 0x1f,
       rpc_flags = rpc_flags_of f1,
       cancel_pending = (pf_get_bits (ucast f2) PF_RPC_F2_CANCEL_PENDING 1 \<noteq> 0),
       rpc_is_big_endian = big, float_repr = 0, rpc_reserved = res, serial_high = sh,
       object_uuid = ob, interface_uuid = ifc, activity_uuid = act, server_boot_time = bt,
       interface_version = iv, sequence_nmb = sn, opnum = opn, interface_hint = ih,
       activity_hint = ah, length_of_body = lb, fragment_nmb = fn, auth_protocol = ap,
       serial_low = sl\<rparr>
   }"

definition pf_get_read_request :: "pf_iod_read_request \<Rightarrow> pf_iod_read_request rd" where
  "pf_get_read_request old = do {
     sn \<leftarrow> pf_get_uint16;
     u \<leftarrow> pf_get_uuid (rq_ar_uuid old);
     a \<leftarrow> pf_get_uint32; s \<leftarrow> pf_get_uint16; ss \<leftarrow> pf_get_uint16;
     p0 \<leftarrow> pf_get_byte; p1 \<leftarrow> pf_get_byte;
     i \<leftarrow> pf_get_uint16; l \<leftarrow> pf_get_uint32;
     tu \<leftarrow> pf_get_uuid (target_ar_uuid old);
     rw \<leftarrow> read_n 8 pf_get_byte;
     State_Monad.return \<lparr>rq_sequence_number = sn, rq_ar_uuid = u, rq_api = a, rq_slot_number = s,
       rq_subslot_number = ss, rq_padding = [p0, p1], rq_index = i, rq_record_data_length = l,
       target_ar_uuid = tu, rq_rw_padding = rw\<rparr>
   }"

definition pf_get_epm_lookup_request :: "pf_rpc_lookup_req \<Rightarrow> pf_rpc_lookup_req rd" where
  "pf_get_epm_lookup_request old = do {
     it \<leftarrow> pf_get_uint32; oi \<leftarrow> pf_get_uint32;
     ou \<leftarrow> pf_get_uuid (lr_object_uuid old);
     ii \<leftarrow> pf_get_uint32;
     iu \<leftarrow> pf_get_uuid (lr_interface_uuid old);
     vmaj \<leftarrow> pf_get_uint16; vmin \<leftarrow> pf_get_uint16; vo \<leftarrow> pf_get_uint32;
     h \<leftarrow> pf_get_handle (rpc_handle old);
     m \<leftarrow> pf_get_uint32;
     State_Monad.return \<lparr>inquiry_type = it, object_id = oi, lr_object_uuid = ou,
       interface_id = ii, lr_interface_uuid = iu, interface_ver_major = vmaj,
       interface_ver_minor = vmin, version_option = vo, rpc_handle = h, max_entries = m\<rparr>
   }"

definition pf_get_write_request :: "pf_iod_write_request \<Rightarrow> pf_iod_write_request rd" where
  "pf_get_write_request old = do {
     sn \<leftarrow> pf_get_uint16;
     u \<leftarrow> pf_get_uuid (wq_ar_uuid old);
     a \<leftarrow> pf_get_uint32; s \<leftarrow> pf_get_uint16; ss \<leftarrow> pf_get_uint16;
     p0 \<leftarrow> pf_get_byte; p1 \<leftarrow> pf_get_byte;
     i \<leftarrow> pf_get_uint16; l \<leftarrow> pf_get_uint32;
     rw \<leftarrow> read_n 24 pf_get_byte;
     State_Monad.return \<lparr>wq_sequence_number = sn, wq_ar_uuid = u, wq_api = a, wq_slot_number = s,
       wq_subslot_number = ss, wq_padding = [p0, p1], wq_index = i, wq_record_data_length = l,
       wq_rw_padding = rw\<rparr>
   }"

section \<open>Records, alarms and ports\<close>

definition pf_get_im_1 :: "pnet_im_1 \<Rightarrow> pnet_im_1 rd" where
  "pf_get_im_1 old = do {
     f \<leftarrow> pf_get_mem (IM_TAG_FUNCTION_SIZE - 1) (im_tag_function old);
     l \<leftarrow> pf_get_mem (PNET_LOCATION_MAX_SIZE - 1) (im_tag_location old);
     State_Monad.return \<lparr>im_tag_function = f[IM_TAG_FUNCTION_SIZE - 1 := 0],
       im_tag_location = l[PNET_LOCATION_MAX_SIZE - 1 := 0]\<rparr>
   }"

definition pf_get_alarm_fixed :: "pf_alarm_fixed rd" where
  "pf_get_alarm_fixed = do {
     d \<leftarrow> pf_get_uint16; s \<leftarrow> pf_get_uint16; t \<leftarrow> pf_get_byte; f \<leftarrow> pf_get_byte;
     n \<leftarrow> pf_get_uint16; a \<leftarrow> pf_get_uint16;
     State_Monad.return \<lparr>dst_ref = d, src_ref = s,
       pdu_type = ucast (pf_get_bits (ucast t) 0 4), pdu_version = ucast (pf_get_bits (ucast t) 4 4),
       window_size = ucast (pf_get_bits (ucast f) 0 4), tack = (pf_get_bits (ucast f) 4 1 \<noteq> 0),
       send_seq_num = n, ack_seq_nbr = a\<rparr>
   }"

definition alarm_spec_of :: "u16 \<Rightarrow> pnet_alarm_spec" where
  "alarm_spec_of t =
     \<lparr>channel_diagnosis = (pf_get_bits (ucast t) 11 1 \<noteq> 0),
      manufacturer_diagnosis = (pf_get_bits (ucast t) 12 1 \<noteq> 0),
      submodule_diagnosis = (pf_get_bits (ucast t) 13 1 \<noteq> 0),
      ar_diagnosis = (pf_get_bits (ucast t) 15 1 \<noteq> 0)\<rparr>"

definition pf_get_alarm_data :: "pf_alarm_data \<Rightarrow> pf_alarm_data rd" where
  "pf_get_alarm_data old = do {
     t \<leftarrow> pf_get_uint16; a \<leftarrow> pf_get_uint32; s \<leftarrow> pf_get_uint16; ss \<leftarrow> pf_get_uint16;
     m \<leftarrow> pf_get_uint32; sm \<leftarrow> pf_get_uint32; sp \<leftarrow> pf_get_uint16;
     State_Monad.return (old\<lparr>alarm_type := t, api_id := a, slot_nbr := s, subslot_nbr := ss,
       module_ident := m, submodule_ident := ucast sm,
       sequence_number := ucast (pf_get_bits (ucast sp) 0 11),
       alarm_specifier := alarm_spec_of sp\<rparr>)
   }"

definition pf_get_alarm_ack :: "pf_alarm_data \<Rightarrow> pf_alarm_data rd" where
  "pf_get_alarm_ack old = do {
     t \<leftarrow> pf_get_uint16; a \<leftarrow> pf_get_uint32; s \<leftarrow> pf_get_uint16; ss \<leftarrow> pf_get_uint16;
     sp \<leftarrow> pf_get_uint16;
     State_Monad.return (old\<lparr>alarm_type := t, api_id := a, slot_nbr := s, subslot_nbr := ss,
       sequence_number := ucast (pf_get_bits (ucast sp) 0 11),
       alarm_specifier := alarm_spec_of sp\<rparr>)
   }"

definition pf_get_pnio_status :: "pnet_pnio_status rd" where
  "pf_get_pnio_status = do {
     c \<leftarrow> pf_get_byte; d \<leftarrow> pf_get_byte; c1 \<leftarrow> pf_get_byte; c2 \<leftarrow> pf_get_byte;
     State_Monad.return \<lparr>error_code = c, error_decode = d, error_code_1 = c1, error_code_2 = c2\<rparr>
   }"

text \<open>
  \<open>pf_get_port_data_check\<close> and \<open>pf_get_port_data_adjust\<close> have the same body.
\<close>

definition pf_get_port_data_check :: "pf_port_data rd" where
  "pf_get_port_data_check = do {
     _ \<leftarrow> pf_get_mem 2 (replicate 4 0);
     s \<leftarrow> pf_get_uint16; ss \<leftarrow> pf_get_uint16; h \<leftarrow> pf_get_block_header;
     State_Monad.return \<lparr>pd_slot_number = s, pd_subslot_number = ss, block_header = h\<rparr>
   }"

definition pf_get_port_data_adjust :: "pf_port_data rd" where
  "pf_get_port_data_adjust = do {
     _ \<leftarrow> pf_get_mem 2 (replicate 4 0);
     s \<leftarrow> pf_get_uint16; ss \<leftarrow> pf_get_uint16; h \<leftarrow> pf_get_block_header;
     State_Monad.return \<lparr>pd_slot_number = s, pd_subslot_number = ss, block_header = h\<rparr>
   }"

definition get_check_peer :: "pf_check_peer \<Rightarrow> pf_check_peer option rd" where
  "get_check_peer old = do {
     lp \<leftarrow> pf_get_byte;
     p \<leftarrow> get_terminated (unat lp) (peer_port_name old);
     ls \<leftarrow> pf_get_byte;
     s \<leftarrow> get_terminated (unat ls) (peer_station_name old);
     State_Monad.return (case (p, s) of
         (Some p, Some s) \<Rightarrow> Some \<lparr>length_peer_port_name = lp, peer_port_name = p,
           length_peer_station_name = ls, peer_station_name = s\<rparr>
       | _ \<Rightarrow> None)
   }"

fun get_check_peers :: "nat list \<Rightarrow> pf_check_peer list \<Rightarrow> pf_check_peer list option rd" where
  "get_check_peers [] ps = State_Monad.return (Some ps)"
| "get_check_peers (i # is) ps =
     (if i < length ps then do {
        p \<leftarrow> get_check_peer (ps ! i);
        case p of None \<Rightarrow> State_Monad.return None | Some p \<Rightarrow> get_check_peers is (ps[i := p])
      } else State_Monad.return None)"

definition pf_get_port_data_check_check_peers ::
    "u8 \<Rightarrow> pf_check_peers \<Rightarrow> pf_check_peers option rd" where
  "pf_get_port_data_check_check_peers max_peers old = do {
     n \<leftarrow> pf_get_byte;
     let n = (if n > max_peers then max_peers else n);
     ps \<leftarrow> get_check_peers [0..<unat n] (peers old);
     State_Monad.return (map_option (\<lambda>ps. \<lparr>number_of_peers = n, peers = ps\<rparr>) ps)
   }"

definition pf_get_port_data_adjust_peer_to_peer_boundary ::
    "pf_adjust_peer_to_peer_boundary rd" where
  "pf_get_port_data_adjust_peer_to_peer_boundary = do {
     _ \<leftarrow> pf_get_mem 2 (replicate 4 0);
     t \<leftarrow> pf_get_uint32;
     p \<leftarrow> pf_get_uint16;
     State_Monad.return \<lparr>do_not_send_LLDP_frames = pf_get_bits t 0 1,
       do_not_send_pctp_delay_request_frames = pf_get_bits t 1 1,
       do_not_send_path_delay_request_frames = pf_get_bits t 2 1, adjust_properties = p\<rparr>
   }"

definition pf_get_interface_adjust :: "u32 rd" where
  "pf_get_interface_adjust = do {
     _ \<leftarrow> pf_get_mem 2 (replicate 2 0);
     t \<leftarrow> pf_get_uint32;
     State_Monad.return (pf_get_bits t 0 1)
   }"

end
