(* ===== verification/Block_Writer.thy ===== *)
theory Block_Writer
  imports Wire_Types
begin

unbundle bit_operations_syntax

text \<open>
  Message writers of src/device/pf_block_writer.c: strings, identifiers, the blocks of a
  connect response, the RPC header, the control and record blocks and the identification
  and maintenance records.

  A writer whose loops always end is a program of the writer monad. The functions that
  pad to a multiple of four go through \<open>pf_put_padding_align\<close>, which need not end:
  they are functions from a state to a state option.
\<close>

section \<open>Strings and identifiers\<close>

text \<open>\<open>strlen\<close>, for a string that is terminated inside its array.\<close>

definition c_strlen :: "u8 list \<Rightarrow> nat" where
  "c_strlen s = length (takeWhile (\<lambda>c. c \<noteq> 0) s)"

text \<open>
  The room for the whole array is checked, the string is copied, and the rest is padded
  with spaces, one byte less than the size of the array.
\<close>

definition pf_put_str :: "u8 list \<Rightarrow> nat \<Rightarrow> unit wr" where
  "pf_put_str src src_size = State_Monad.update (\<lambda>w.
     if w_pos w + src_size > w_len w \<or> w_bytes w = None then w
     else
       let str_len = c_strlen src;
           w = w\<lparr>w_bytes := map_option (write_at (w_pos w) (take str_len src)) (w_bytes w),
                 w_pos := w_pos w + str_len\<rparr>
       in snd (run_state (for_each (\<lambda>_. pf_put_byte 32) [str_len..<src_size - 1]) w))"

definition pf_put_uuid :: "bool \<Rightarrow> pf_uuid \<Rightarrow> unit wr" where
  "pf_put_uuid is_big_endian u = do {
     pf_put_uint32 is_big_endian (data1 u);
     pf_put_uint16 is_big_endian (data2 u);
     pf_put_uint16 is_big_endian (data3 u);
     pf_put_mem (data4 u) 8
   }"

definition pf_put_rpc_uuid :: "bool \<Rightarrow> pf_rpc_uuid_type \<Rightarrow> unit wr" where
  "pf_put_rpc_uuid is_big_endian u = do {
     pf_put_uint32 is_big_endian (time_low u);
     pf_put_uint16 is_big_endian (time_mid u);
     pf_put_uint16 is_big_endian (time_hi_and_version u);
     pf_put_byte (clock_hi_and_reserved u);
     pf_put_byte (clock_low u);
     pf_put_mem (node u) 6
   }"

text \<open>
  The time stamp: the low part of the seconds has 32 bits in the structure and is written
  with 16.
\<close>

record pf_log_book_ts =
  ts_status :: u16
  sec_hi :: u16
  sec_lo :: u32
  nano_sec :: u32

definition pf_put_time_timestamp :: "bool \<Rightarrow> pf_log_book_ts \<Rightarrow> unit wr" where
  "pf_put_time_timestamp is_big_endian t = do {
     pf_put_uint16 is_big_endian (sec_hi t);
     pf_put_uint16 is_big_endian (ucast (sec_lo t));
     pf_put_uint32 is_big_endian (nano_sec t)
   }"

section \<open>Blocks\<close>

definition PNET_BLOCK_VERSION_HIGH :: u8 where "PNET_BLOCK_VERSION_HIGH = 1"
definition PNET_BLOCK_VERSION_LOW :: u8 where "PNET_BLOCK_VERSION_LOW = 0"
definition PNET_BLOCK_VERSION_LOW_1 :: u8 where "PNET_BLOCK_VERSION_LOW_1 = 1"

text \<open>
  The frame that nearly all functions share: remember the position, write a header with
  an unknown length, write the contents, and insert the length.
\<close>

definition put_block :: "bool \<Rightarrow> u16 \<Rightarrow> u8 \<Rightarrow> unit wr \<Rightarrow> unit wr" where
  "put_block is_big_endian bh_type ver_low body = do {
     block_pos \<leftarrow> get_pos;
     pf_put_block_header is_big_endian bh_type 0 PNET_BLOCK_VERSION_HIGH ver_low;
     body;
     put_block_length is_big_endian block_pos
   }"

text \<open>Running a total writer where a later step is partial.\<close>

definition exec :: "unit wr \<Rightarrow> wstate \<Rightarrow> wstate option" where
  "exec m w = Some (snd (run_state m w))"

definition PF_BT_AR_BLOCK_RES :: u16 where "PF_BT_AR_BLOCK_RES = 0x8101"
definition PF_BT_IOCR_BLOCK_RES :: u16 where "PF_BT_IOCR_BLOCK_RES = 0x8102"
definition PF_BT_ALARM_CR_BLOCK_RES :: u16 where "PF_BT_ALARM_CR_BLOCK_RES = 0x8103"
definition PF_BT_MODULE_DIFF_BLOCK :: u16 where "PF_BT_MODULE_DIFF_BLOCK = 0x8104"
definition PF_BT_AR_SERVER_BLOCK :: u16 where "PF_BT_AR_SERVER_BLOCK = 0x8106"
definition PF_BT_AR_RPC_BLOCK_RES :: u16 where "PF_BT_AR_RPC_BLOCK_RES = 0x8107"
definition PF_BT_AR_VENDOR_BLOCK_RES :: u16 where "PF_BT_AR_VENDOR_BLOCK_RES = 0x8108"

section \<open>Connect response\<close>

text \<open>The parts of \<open>pf_ar_t\<close> that the writers read.\<close>

record pf_iocr_view =
  iv_param :: pf_iocr_param
  res_iocr_type :: u16
  res_iocr_reference :: u16
  res_frame_id :: u16
  ppm_data_status :: u8
  cpm_data_status :: u8

record pf_ar_view =
  av_ar_param :: pf_ar_param
  cm_responder_mac_add :: "u8 list"
  responder_udp_rt_port :: u16
  av_alarm_cr_request :: pf_alarm_cr_request
  res_alarm_cr_type :: u16
  res_local_alarm_reference :: u16
  res_max_alarm_data_length :: u16
  responder_rpc_server_port :: u16
  length_cm_responder_station_name :: u16
  cm_responder_station_name :: "u8 list"
  av_nbr_iocrs :: u16
  av_iocrs :: "pf_iocr_view list"
  av_exp_ident :: pf_exp_ident
  av_prm_server :: pf_prm_server
  nbr_ir_info :: u16
  sr_info_valid :: bool
  nbr_ar_vendor :: u16
  ar_vendor_request :: "pf_ar_vendor_request list"
  ar_vendor_result :: "(u16 \<times> u8 list) list"
  fast_startup_valid :: bool
  rs_info_valid :: bool

definition pf_put_ar_result :: "bool \<Rightarrow> pf_ar_view \<Rightarrow> unit wr" where
  "pf_put_ar_result is_big_endian ar =
     put_block is_big_endian PF_BT_AR_BLOCK_RES PNET_BLOCK_VERSION_LOW (do {
       pf_put_uint16 is_big_endian (ar_type (av_ar_param ar));
       pf_put_uuid is_big_endian (ar_uuid (av_ar_param ar));
       pf_put_uint16 is_big_endian (session_key (av_ar_param ar));
       pf_put_mem (cm_responder_mac_add ar) 6;
       pf_put_uint16 is_big_endian (responder_udp_rt_port ar)
     })"

definition pf_put_iocr_result :: "bool \<Rightarrow> pf_ar_view \<Rightarrow> nat \<Rightarrow> unit wr" where
  "pf_put_iocr_result is_big_endian ar ix =
     put_block is_big_endian PF_BT_IOCR_BLOCK_RES PNET_BLOCK_VERSION_LOW (do {
       pf_put_uint16 is_big_endian (res_iocr_type (av_iocrs ar ! ix));
       pf_put_uint16 is_big_endian (res_iocr_reference (av_iocrs ar ! ix));
       pf_put_uint16 is_big_endian (res_frame_id (av_iocrs ar ! ix))
     })"

definition pf_put_alarm_cr_result :: "bool \<Rightarrow> pf_ar_view \<Rightarrow> unit wr" where
  "pf_put_alarm_cr_result is_big_endian ar =
     put_block is_big_endian PF_BT_ALARM_CR_BLOCK_RES PNET_BLOCK_VERSION_LOW (do {
       pf_put_uint16 is_big_endian (res_alarm_cr_type ar);
       pf_put_uint16 is_big_endian (res_local_alarm_reference ar);
       pf_put_uint16 is_big_endian (res_max_alarm_data_length ar)
     })"

definition PF_IDENT_INFO_NO :: u8 where "PF_IDENT_INFO_NO = 3"
definition PF_MODULE_STATE_NO_MODULE :: u16 where "PF_MODULE_STATE_NO_MODULE = 0"

text \<open>The successive calls of \<open>pf_put_bits\<close> that fill one word.\<close>

definition submodule_state_bits :: "pf_submodule_state \<Rightarrow> u32" where
  "submodule_state_bits s =
     (pf_put_bits (of_bool (format_indicator s)) 1 15
     (pf_put_bits (ucast (ident_info s)) 4 11
     (pf_put_bits (ucast (ar_info s)) 4 7
     (pf_put_bits (of_bool (fault s)) 1 6
     (pf_put_bits (of_bool (maintenance_demanded s)) 1 5
     (pf_put_bits (of_bool (maintenance_required s)) 1 4
     (pf_put_bits (of_bool (advice_avail s)) 1 3
     (pf_put_bits (ucast (add_info s)) 3 0 0))))))))"

definition pf_put_submodule_diff :: "bool \<Rightarrow> pf_exp_submodule \<Rightarrow> unit wr" where
  "pf_put_submodule_diff is_big_endian sub = do {
     pf_put_uint16 is_big_endian (es_subslot_number sub);
     (if ident_info (es_state sub) = PF_IDENT_INFO_NO then pf_put_uint32 is_big_endian 0
      else pf_put_uint32 is_big_endian (es_ident_number sub));
     pf_put_uint16 is_big_endian (ucast (submodule_state_bits (es_state sub)))
   }"

text \<open>A loop over the indexes in an array of which the first \<open>n\<close> elements count.\<close>

definition put_indexed :: "u16 \<Rightarrow> u16 list \<Rightarrow> (nat \<Rightarrow> unit wr) \<Rightarrow> unit wr" where
  "put_indexed n ixs f = for_each (\<lambda>i. f (unat (ixs ! i))) [0..<unat n]"

definition pf_put_module_diff :: "bool \<Rightarrow> pf_exp_module \<Rightarrow> unit wr" where
  "pf_put_module_diff is_big_endian m = do {
     pf_put_uint16 is_big_endian (em_slot_number m);
     (if em_state m = PF_MODULE_STATE_NO_MODULE then pf_put_uint32 is_big_endian 0
      else pf_put_uint32 is_big_endian (em_ident_number m));
     pf_put_uint16 is_big_endian (em_state m);
     (if em_state m = PF_MODULE_STATE_NO_MODULE then pf_put_uint32 is_big_endian 0
      else do {
        pf_put_uint16 is_big_endian (nbr_diff_submodules m);
        put_indexed (nbr_diff_submodules m) (diff_submodule m)
          (\<lambda>j. pf_put_submodule_diff is_big_endian (submodule m ! j))
      })
   }"

definition pf_put_api_diff :: "bool \<Rightarrow> pf_exp_api \<Rightarrow> unit wr" where
  "pf_put_api_diff is_big_endian a = do {
     pf_put_uint32 is_big_endian (ea_api a);
     pf_put_uint16 is_big_endian (nbr_diff_modules a);
     put_indexed (nbr_diff_modules a) (diff_module a)
       (\<lambda>j. pf_put_module_diff is_big_endian (ea_module a ! j))
   }"

definition pf_put_ar_diff :: "bool \<Rightarrow> pf_exp_ident option \<Rightarrow> unit wr" where
  "pf_put_ar_diff is_big_endian ar = (case ar of
       None \<Rightarrow> State_Monad.return ()
     | Some e \<Rightarrow>
         if nbr_diff_apis e > 0 then
           put_block is_big_endian PF_BT_MODULE_DIFF_BLOCK PNET_BLOCK_VERSION_LOW (do {
             pf_put_uint16 is_big_endian (nbr_diff_apis e);
             put_indexed (nbr_diff_apis e) (diff_api e)
               (\<lambda>j. pf_put_api_diff is_big_endian (ei_api e ! j))
           })
         else State_Monad.return ())"

definition pf_put_ar_rpc_result :: "bool \<Rightarrow> pf_ar_view \<Rightarrow> unit wr" where
  "pf_put_ar_rpc_result is_big_endian ar =
     put_block is_big_endian PF_BT_AR_RPC_BLOCK_RES PNET_BLOCK_VERSION_LOW
       (pf_put_uint16 is_big_endian (responder_rpc_server_port ar))"

definition pf_put_ar_server_result :: "bool \<Rightarrow> pf_ar_view \<Rightarrow> wstate \<Rightarrow> wstate option" where
  "pf_put_ar_server_result is_big_endian ar w = (let block_pos = w_pos w in do {
     w \<leftarrow> exec (do {
       pf_put_block_header is_big_endian PF_BT_AR_SERVER_BLOCK 0 PNET_BLOCK_VERSION_HIGH
         PNET_BLOCK_VERSION_LOW;
       pf_put_uint16 is_big_endian (length_cm_responder_station_name ar);
       pf_put_mem (cm_responder_station_name ar) (unat (length_cm_responder_station_name ar))
     }) w;
     w \<leftarrow> pf_put_padding_align block_pos 4 w;
     exec (put_block_length is_big_endian block_pos) w
   })"

definition pf_put_ar_vendor_result :: "bool \<Rightarrow> pf_ar_view \<Rightarrow> nat \<Rightarrow> wstate \<Rightarrow> wstate option" where
  "pf_put_ar_vendor_result is_big_endian ar ix w = (let block_pos = w_pos w in do {
     w \<leftarrow> exec (do {
       pf_put_block_header is_big_endian PF_BT_AR_VENDOR_BLOCK_RES 0 PNET_BLOCK_VERSION_HIGH
         PNET_BLOCK_VERSION_LOW;
       pf_put_uint32 is_big_endian (ap_structure_identifier (ar_vendor_request ar ! ix));
       pf_put_uint32 is_big_endian (avr_api (ar_vendor_request ar ! ix));
       pf_put_uint16 is_big_endian (fst (ar_vendor_result ar ! ix));
       pf_put_mem (snd (ar_vendor_result ar ! ix)) (unat (fst (ar_vendor_result ar ! ix)))
     }) w;
     w \<leftarrow> pf_put_padding_align block_pos 4 w;
     exec (put_block_length is_big_endian block_pos) w
   })"

end
