(* ===== verification/Block_Writer_Records.thy ===== *)
theory Block_Writer_Records
  imports Block_Writer
begin

unbundle bit_operations_syntax

text \<open>
  Further writers of src/device/pf_block_writer.c: the description of an AR, control and
  status, the RPC header, the read and write blocks, the maintenance records and the log
  book.
\<close>

definition PF_BT_AR_DATA :: u16 where "PF_BT_AR_DATA = 0x0018"
definition PF_BT_LOG_BOOK_DATA :: u16 where "PF_BT_LOG_BOOK_DATA = 0x0019"
definition PF_BT_IM_0 :: u16 where "PF_BT_IM_0 = 0x0020"
definition PF_BT_IM_1 :: u16 where "PF_BT_IM_1 = 0x0021"
definition PF_BT_IM_2 :: u16 where "PF_BT_IM_2 = 0x0022"
definition PF_BT_IM_3 :: u16 where "PF_BT_IM_3 = 0x0023"
definition PF_BT_WRITE_RES :: u16 where "PF_BT_WRITE_RES = 0x8008"
definition PF_BT_READ_RES :: u16 where "PF_BT_READ_RES = 0x8009"

definition PF_IOCR_TYPE_INPUT :: u16 where "PF_IOCR_TYPE_INPUT = 1"
definition PF_IOCR_TYPE_MC_PROVIDER :: u16 where "PF_IOCR_TYPE_MC_PROVIDER = 3"

section \<open>The description of an AR\<close>

definition pf_put_iocr :: "bool \<Rightarrow> pf_ar_view \<Rightarrow> nat \<Rightarrow> unit wr" where
  "pf_put_iocr is_big_endian ar ix =
     (let cr = av_iocrs ar ! ix in do {
        pf_put_uint32 is_big_endian (pf_put_bits (rt_class (iocr_properties (iv_param cr))) 4 0 0);
        pf_put_uint16 is_big_endian (iocr_type (iv_param cr));
        pf_put_uint16 is_big_endian (res_frame_id cr);
        pf_put_uint16 is_big_endian 0;
        pf_put_byte (if iocr_type (iv_param cr) = PF_IOCR_TYPE_INPUT \<or>
                        iocr_type (iv_param cr) = PF_IOCR_TYPE_MC_PROVIDER
                     then ppm_data_status cr else cpm_data_status cr);
        pf_put_byte 0
      })"

definition ar_properties_bits :: "pf_ar_properties \<Rightarrow> u32" where
  "ar_properties_bits p =
     (pf_put_bits (of_bool (pull_module_alarm_allowed p)) 1 31
     (pf_put_bits (of_bool (startup_mode p)) 1 30
     (pf_put_bits (of_bool (combined_object_container p)) 1 29
     (pf_put_bits (of_bool (acknowledge_companion_ar p)) 1 11
     (pf_put_bits (ucast (companion_ar p)) 2 9
     (pf_put_bits (of_bool (device_access p)) 1 8
     (pf_put_bits (ucast (parameterization_server p)) 1 4
     (pf_put_bits (of_bool (supervisor_takeover_allowed p)) 1 3
     (pf_put_bits (ucast (arp_state p)) 3 0 0)))))))))"

text \<open>
  The optional blocks behind the APIs are counted; the functions that should write them
  are empty.
\<close>

definition nbr_ar_data :: "pf_ar_view \<Rightarrow> u16" where
  "nbr_ar_data ar = of_bool (nbr_ir_info ar > 0) + of_bool (sr_info_valid ar) +
     2 * nbr_ar_vendor ar + of_bool (fast_startup_valid ar) + of_bool (rs_info_valid ar)"

definition pf_put_one_ar :: "bool \<Rightarrow> pf_ar_view \<Rightarrow> bool \<Rightarrow> u32 \<Rightarrow> wstate \<Rightarrow> wstate option" where
  "pf_put_one_ar is_big_endian ar api_filter the_api w = do {
     w \<leftarrow> exec (do {
       pf_put_uuid is_big_endian (ar_uuid (av_ar_param ar));
       pf_put_uuid is_big_endian (cm_initiator_object_uuid (av_ar_param ar));
       pf_put_uuid is_big_endian (parameter_server_object_uuid (av_prm_server ar));
       pf_put_uint32 is_big_endian (ar_properties_bits (ar_properties (av_ar_param ar)));
       pf_put_uint16 is_big_endian (ar_type (av_ar_param ar));
       pf_put_uint16 is_big_endian (ucast (acr_type (av_alarm_cr_request ar)));
       pf_put_uint16 is_big_endian (local_alarm_reference (av_alarm_cr_request ar));
       pf_put_uint16 is_big_endian (res_local_alarm_reference ar);
       pf_put_uint16 is_big_endian (cm_initiator_udp_rt_port (av_ar_param ar));
       pf_put_uint16 is_big_endian (responder_udp_rt_port ar);
       pf_put_uint16 is_big_endian (cm_initiator_station_name_len (av_ar_param ar));
       pf_put_mem (cm_initiator_station_name (av_ar_param ar))
         (unat (cm_initiator_station_name_len (av_ar_param ar)))
     }) w;
     w \<leftarrow> pf_put_padding_align 0 4 w;
     w \<leftarrow> exec (do {
       pf_put_uint16 is_big_endian (parameter_server_station_name_len (av_prm_server ar));
       pf_put_mem (parameter_server_station_name (av_prm_server ar))
         (unat (parameter_server_station_name_len (av_prm_server ar)))
     }) w;
     w \<leftarrow> pf_put_padding_align 0 4 w;
     w \<leftarrow> exec (pf_put_uint16 is_big_endian (av_nbr_iocrs ar)) w;
     w \<leftarrow> pf_put_padding_align 0 4 w;
     w \<leftarrow> exec (do {
       for_each (pf_put_iocr is_big_endian ar) [0..<unat (av_nbr_iocrs ar)];
       pf_put_uint16 is_big_endian (ei_nbr_apis (av_exp_ident ar))
     }) w;
     w \<leftarrow> pf_put_padding_align 0 4 w;
     w \<leftarrow> exec (for_each (\<lambda>ix.
         let a = ea_api (ei_api (av_exp_ident ar) ! ix)
         in if \<not> api_filter \<or> a = the_api then pf_put_uint32 is_big_endian a
            else State_Monad.return ())
       [0..<unat (ei_nbr_apis (av_exp_ident ar))]) w;
     let nbr_ar_data_pos = w_pos w;
     w \<leftarrow> exec (pf_put_uint16 is_big_endian 0) w;
     w \<leftarrow> pf_put_padding_align 0 4 w;
     exec (at_pos nbr_ar_data_pos (pf_put_uint16 is_big_endian (nbr_ar_data ar))) w
   }"

text \<open>One after the other, for partial writers.\<close>

fun all_of :: "(wstate \<Rightarrow> wstate option) list \<Rightarrow> wstate \<Rightarrow> wstate option" where
  "all_of [] w = Some w"
| "all_of (f # fs) w = do { w \<leftarrow> f w; all_of fs w }"

text \<open>
  \<open>ars\<close> are the results of \<open>pf_ar_find_by_index\<close> for the indexes in order,
  \<open>device\<close> whether \<open>pf_cmdev_get_device\<close> succeeds. Without an AR as argument
  the ones with identifiers are written, with an AR it is written for the API asked for.
\<close>

definition ar_has_ids :: "pf_ar_view \<Rightarrow> bool" where
  "ar_has_ids ar \<longleftrightarrow> data1 (ar_uuid (av_ar_param ar)) \<noteq> 0 \<and>
     data1 (cm_initiator_object_uuid (av_ar_param ar)) \<noteq> 0"

definition ar_data_items :: "pf_ar_view option list \<Rightarrow> pf_ar_view option \<Rightarrow> u32 \<Rightarrow> pf_ar_view list" where
  "ar_data_items ars p_ar the_api = (case p_ar of
       None \<Rightarrow> filter ar_has_ids (List.map_filter id ars)
     | Some ar \<Rightarrow> map (\<lambda>_. ar) (filter (\<lambda>ix. ea_api (ei_api (av_exp_ident ar) ! ix) = the_api)
         [0..<unat (ei_nbr_apis (av_exp_ident ar))]))"

definition pf_put_ar_data ::
    "bool \<Rightarrow> pf_ar_view option list \<Rightarrow> bool \<Rightarrow> pf_ar_view option \<Rightarrow> u32 \<Rightarrow> wstate \<Rightarrow> wstate option" where
  "pf_put_ar_data device ars is_big_endian p_ar the_api w = (let block_pos = w_pos w in do {
     w \<leftarrow> exec (pf_put_block_header is_big_endian PF_BT_AR_DATA 0 PNET_BLOCK_VERSION_HIGH
                  PNET_BLOCK_VERSION_LOW_1) w;
     let data_pos = w_pos w;
     let items = ar_data_items ars p_ar the_api;
     w \<leftarrow> (if device then do {
         w \<leftarrow> (if items \<noteq> [] then exec (pf_put_uint16 is_big_endian (of_nat (length items))) w
                else Some w);
         all_of (map (\<lambda>ar. case p_ar of
             None \<Rightarrow> pf_put_one_ar is_big_endian ar False 0
           | Some _ \<Rightarrow> pf_put_one_ar is_big_endian ar True the_api) items) w
       } else Some w);
     if data_pos < w_pos w then exec (put_block_length is_big_endian block_pos) w
     else Some (w\<lparr>w_pos := block_pos\<rparr>)
   })"

section \<open>Control and status\<close>

definition pf_put_control :: "bool \<Rightarrow> u16 \<Rightarrow> pf_control_block \<Rightarrow> unit wr" where
  "pf_put_control is_big_endian bt res =
     put_block is_big_endian bt PNET_BLOCK_VERSION_LOW (do {
       pf_put_byte 0;
       pf_put_byte 0;
       pf_put_uuid is_big_endian (cb_ar_uuid res);
       pf_put_uint16 is_big_endian (cb_session_key res);
       pf_put_uint16 is_big_endian (alarm_sequence_number res);
       pf_put_uint16 is_big_endian (control_command res);
       pf_put_uint16 is_big_endian (control_block_properties res)
     })"

definition pf_put_pnet_status :: "bool \<Rightarrow> pnet_pnio_status \<Rightarrow> unit wr" where
  "pf_put_pnet_status is_big_endian s =
     pf_put_uint32 is_big_endian
       (0x01000000 * ucast (error_code s) + 0x10000 * ucast (error_decode s) +
        0x100 * ucast (error_code_1 s) + ucast (error_code_2 s))"

section \<open>The RPC header\<close>

definition rpc_flags_bits :: "pf_rpc_flags \<Rightarrow> u32" where
  "rpc_flags_bits f =
     (pf_put_bits (if broadcast f then 1 else 0) 1 6
     (pf_put_bits (if idempotent f then 1 else 0) 1 5
     (pf_put_bits (if maybe f then 1 else 0) 1 4
     (pf_put_bits (if no_fack f then 1 else 0) 1 3
     (pf_put_bits (if fragment f then 1 else 0) 1 2
     (pf_put_bits (if last_fragment f then 1 else 0) 1 1 0))))))"

text \<open>The value is the position of the body length, which the caller overwrites later.\<close>

definition pf_put_dce_rpc_header :: "pf_rpc_header \<Rightarrow> nat wr" where
  "pf_put_dce_rpc_header h = do {
     pf_put_byte (rpc_version h);
     pf_put_byte (packet_type h);
     pf_put_byte (ucast (rpc_flags_bits (rpc_flags h) mod 0x100));
     pf_put_byte 0;
     pf_put_byte (ucast (pf_put_bits (if rpc_is_big_endian h then 0 else 1) 4 4 0 mod 0x100));
     pf_put_byte (float_repr h);
     pf_put_byte (rpc_reserved h);
     pf_put_byte (serial_high h);
     pf_put_uuid (rpc_is_big_endian h) (object_uuid h);
     pf_put_uuid (rpc_is_big_endian h) (interface_uuid h);
     pf_put_uuid (rpc_is_big_endian h) (activity_uuid h);
     pf_put_uint32 (rpc_is_big_endian h) (server_boot_time h);
     pf_put_uint32 (rpc_is_big_endian h) (interface_version h);
     pf_put_uint32 (rpc_is_big_endian h) (sequence_nmb h);
     pf_put_uint16 (rpc_is_big_endian h) (opnum h);
     pf_put_uint16 (rpc_is_big_endian h) (interface_hint h);
     pf_put_uint16 (rpc_is_big_endian h) (activity_hint h);
     p_pos_body_len \<leftarrow> get_pos;
     pf_put_uint16 (rpc_is_big_endian h) (length_of_body h);
     pf_put_uint16 (rpc_is_big_endian h) (fragment_nmb h);
     pf_put_byte (auth_protocol h);
     pf_put_byte (serial_low h);
     State_Monad.return p_pos_body_len
   }"

section \<open>Reading and writing records\<close>

definition pf_put_record_data_read :: "bool \<Rightarrow> u16 \<Rightarrow> nat \<Rightarrow> u8 list \<Rightarrow> unit wr" where
  "pf_put_record_data_read is_big_endian bt raw_length raw_data =
     put_block is_big_endian bt PNET_BLOCK_VERSION_LOW (pf_put_mem raw_data raw_length)"

definition pf_put_record_data_write :: "bool \<Rightarrow> u16 \<Rightarrow> nat \<Rightarrow> u8 list \<Rightarrow> unit wr" where
  "pf_put_record_data_write is_big_endian bt raw_length raw_data =
     put_block is_big_endian bt PNET_BLOCK_VERSION_LOW (pf_put_mem raw_data raw_length)"

record pf_iod_result =
  rr_sequence_number :: u16
  rr_ar_uuid :: pf_uuid
  rr_api :: u32
  rr_slot_number :: u16
  rr_subslot_number :: u16
  rr_index :: u16
  rr_record_data_length :: u32
  add_data_1 :: u16
  add_data_2 :: u16

text \<open>
  The value is the position of the record length, which is inserted when the record is
  complete.
\<close>

definition pf_put_read_result :: "bool \<Rightarrow> pf_iod_result \<Rightarrow> nat wr" where
  "pf_put_read_result is_big_endian res = do {
     block_pos \<leftarrow> get_pos;
     pf_put_block_header is_big_endian PF_BT_READ_RES 0 PNET_BLOCK_VERSION_HIGH PNET_BLOCK_VERSION_LOW;
     pf_put_uint16 is_big_endian (rr_sequence_number res);
     pf_put_uuid is_big_endian (rr_ar_uuid res);
     pf_put_uint32 is_big_endian (rr_api res);
     pf_put_uint16 is_big_endian (rr_slot_number res);
     pf_put_uint16 is_big_endian (rr_subslot_number res);
     pf_put_byte 0;
     pf_put_byte 0;
     pf_put_uint16 is_big_endian (rr_index res);
     p_data_length_pos \<leftarrow> get_pos;
     pf_put_uint32 is_big_endian (rr_record_data_length res);
     pf_put_uint16 is_big_endian (add_data_1 res);
     pf_put_uint16 is_big_endian (add_data_2 res);
     pf_put_padding 20;
     put_block_length is_big_endian block_pos;
     State_Monad.return p_data_length_pos
   }"

record pf_iod_write_result = pf_iod_result +
  pnio_status :: pnet_pnio_status

definition pf_put_write_result :: "bool \<Rightarrow> pf_iod_write_result \<Rightarrow> unit wr" where
  "pf_put_write_result is_big_endian res =
     put_block is_big_endian PF_BT_WRITE_RES PNET_BLOCK_VERSION_LOW (do {
       pf_put_uint16 is_big_endian (rr_sequence_number res);
       pf_put_uuid is_big_endian (rr_ar_uuid res);
       pf_put_uint32 is_big_endian (rr_api res);
       pf_put_uint16 is_big_endian (rr_slot_number res);
       pf_put_uint16 is_big_endian (rr_subslot_number res);
       pf_put_byte 0;
       pf_put_byte 0;
       pf_put_uint16 is_big_endian (rr_index res);
       pf_put_uint32 is_big_endian (rr_record_data_length res);
       pf_put_uint16 is_big_endian (add_data_1 res);
       pf_put_uint16 is_big_endian (add_data_2 res);
       pf_put_pnet_status is_big_endian (pnio_status res);
       pf_put_padding 16
     })"

section \<open>Identification and maintenance\<close>

record pnet_im_0 =
  im_vendor_id_hi :: u8
  im_vendor_id_lo :: u8
  im_order_id :: "u8 list"
  im_serial_number :: "u8 list"
  im_hardware_revision :: u16
  im_sw_revision_prefix :: u8
  im_sw_revision_functional_enhancement :: u8
  im_sw_revision_bug_fix :: u8
  im_sw_revision_internal_change :: u8
  im_revision_counter :: u16
  im_profile_id :: u16
  im_profile_specific_type :: u16
  im_version_major :: u8
  im_version_minor :: u8
  im_supported :: u16

definition pf_put_im_0 :: "bool \<Rightarrow> pnet_im_0 \<Rightarrow> unit wr" where
  "pf_put_im_0 is_big_endian im =
     put_block is_big_endian PF_BT_IM_0 PNET_BLOCK_VERSION_LOW (do {
       pf_put_byte (im_vendor_id_hi im);
       pf_put_byte (im_vendor_id_lo im);
       pf_put_str (im_order_id im) 21;
       pf_put_str (im_serial_number im) 17;
       pf_put_uint16 is_big_endian (im_hardware_revision im);
       pf_put_byte (im_sw_revision_prefix im);
       pf_put_byte (im_sw_revision_functional_enhancement im);
       pf_put_byte (im_sw_revision_bug_fix im);
       pf_put_byte (im_sw_revision_internal_change im);
       pf_put_uint16 is_big_endian (im_revision_counter im);
       pf_put_uint16 is_big_endian (im_profile_id im);
       pf_put_uint16 is_big_endian (im_profile_specific_type im);
       pf_put_byte (im_version_major im);
       pf_put_byte (im_version_minor im);
       pf_put_uint16 is_big_endian (im_supported im)
     })"

definition pf_put_im_1 :: "bool \<Rightarrow> pnet_im_1 \<Rightarrow> unit wr" where
  "pf_put_im_1 is_big_endian im =
     put_block is_big_endian PF_BT_IM_1 PNET_BLOCK_VERSION_LOW (do {
       pf_put_str (im_tag_function im) IM_TAG_FUNCTION_SIZE;
       pf_put_str (im_tag_location im) PNET_LOCATION_MAX_SIZE
     })"

text \<open>I&M 2 is the date (17 bytes), I&M 3 the descriptor (55 bytes).\<close>

definition pf_put_im_2 :: "bool \<Rightarrow> u8 list \<Rightarrow> unit wr" where
  "pf_put_im_2 is_big_endian im_date =
     put_block is_big_endian PF_BT_IM_2 PNET_BLOCK_VERSION_LOW (pf_put_str im_date 17)"

definition pf_put_im_3 :: "bool \<Rightarrow> u8 list \<Rightarrow> unit wr" where
  "pf_put_im_3 is_big_endian im_descriptor =
     put_block is_big_endian PF_BT_IM_3 PNET_BLOCK_VERSION_LOW (pf_put_str im_descriptor 55)"

section \<open>The log book\<close>

record pf_log_book_entry =
  le_time_ts :: pf_log_book_ts
  le_ar_uuid :: pf_uuid
  le_pnio_status :: pnet_pnio_status
  entry_detail :: u32

record pf_log_book =
  lb_time_ts :: pf_log_book_ts
  lb_entries :: "pf_log_book_entry list"
  lb_put :: nat
  lb_wrap :: bool

definition put_log_book_entry :: "bool \<Rightarrow> pf_log_book_entry \<Rightarrow> unit wr" where
  "put_log_book_entry is_big_endian e = do {
     pf_put_time_timestamp is_big_endian (le_time_ts e);
     pf_put_uuid is_big_endian (le_ar_uuid e);
     pf_put_pnet_status is_big_endian (le_pnio_status e);
     pf_put_uint32 is_big_endian (entry_detail e)
   }"

text \<open>The loop over the entries ends when the index meets \<open>put\<close>.\<close>

partial_function (option) put_log_book_entries ::
    "bool \<Rightarrow> pf_log_book \<Rightarrow> nat \<Rightarrow> wstate \<Rightarrow> wstate option" where
  "put_log_book_entries is_big_endian lb ix w =
     (if ix \<noteq> lb_put lb then
        put_log_book_entries is_big_endian lb
          (if ix + 1 \<ge> PNET_MAX_LOG_BOOK_ENTRIES then 0 else ix + 1)
          (snd (run_state (put_log_book_entry is_big_endian (lb_entries lb ! ix)) w))
      else Some w)"

definition pf_put_log_book_data :: "bool \<Rightarrow> pf_log_book \<Rightarrow> wstate \<Rightarrow> wstate option" where
  "pf_put_log_book_data is_big_endian lb w = (let block_pos = w_pos w in do {
     w \<leftarrow> exec (pf_put_block_header is_big_endian PF_BT_LOG_BOOK_DATA 0 PNET_BLOCK_VERSION_HIGH
                  PNET_BLOCK_VERSION_LOW) w;
     let ix = (if lb_wrap lb then
                 (if lb_put lb + 1 \<ge> PNET_MAX_LOG_BOOK_ENTRIES then 0 else lb_put lb + 1)
               else 0);
     let cnt = (if lb_wrap lb then PNET_MAX_LOG_BOOK_ENTRIES else lb_put lb);
     w \<leftarrow> exec (do {
       pf_put_time_timestamp is_big_endian (lb_time_ts lb);
       pf_put_uint16 is_big_endian (of_nat cnt)
     }) w;
     w \<leftarrow> put_log_book_entries is_big_endian lb ix w;
     exec (put_block_length is_big_endian block_pos) w
   })"

end
