(* ===== verification/Block_Writer_Alarm.thy ===== *)
theory Block_Writer_Alarm
  imports Block_Writer_Records
begin

unbundle bit_operations_syntax

text \<open>
  The writers of src/device/pf_block_writer.c for alarms and diagnosis items: the fixed
  part of an RTA frame, the maintenance status, a diagnosis item and the alarm block.
\<close>

definition PF_USI_CHANNEL_DIAGNOSIS :: u16 where "PF_USI_CHANNEL_DIAGNOSIS = 0x8000"
definition PF_USI_EXTENDED_CHANNEL_DIAGNOSIS :: u16 where
  "PF_USI_EXTENDED_CHANNEL_DIAGNOSIS = 0x8002"
definition PF_USI_QUALIFIED_CHANNEL_DIAGNOSIS :: u16 where
  "PF_USI_QUALIFIED_CHANNEL_DIAGNOSIS = 0x8003"
definition PF_USI_MAINTENANCE :: u16 where "PF_USI_MAINTENANCE = 0x8100"

lemmas usi_defs =
  PF_USI_CHANNEL_DIAGNOSIS_def PF_USI_EXTENDED_CHANNEL_DIAGNOSIS_def
  PF_USI_QUALIFIED_CHANNEL_DIAGNOSIS_def PF_USI_MAINTENANCE_def

definition PF_BT_ALARM_NOTIFICATION_HIGH :: u16 where "PF_BT_ALARM_NOTIFICATION_HIGH = 0x0001"
definition PF_BT_ALARM_NOTIFICATION_LOW :: u16 where "PF_BT_ALARM_NOTIFICATION_LOW = 0x0002"
definition PF_BT_ALARM_ACK_HIGH :: u16 where "PF_BT_ALARM_ACK_HIGH = 0x8001"
definition PF_BT_ALARM_ACK_LOW :: u16 where "PF_BT_ALARM_ACK_LOW = 0x8002"
definition PF_BT_MAINTENANCE_ITEM :: u16 where "PF_BT_MAINTENANCE_ITEM = 0x0f00"
definition PF_FRAME_BUFFER_SIZE :: nat where "PF_FRAME_BUFFER_SIZE = 1500"

section \<open>The fixed part\<close>

definition pf_put_alarm_fixed :: "bool \<Rightarrow> pf_alarm_fixed \<Rightarrow> unit wr" where
  "pf_put_alarm_fixed is_big_endian a = do {
     pf_put_uint16 is_big_endian (dst_ref a);
     pf_put_uint16 is_big_endian (src_ref a);
     pf_put_byte (ucast (pf_put_bits (ucast (pdu_version a)) 4 4
                        (pf_put_bits (ucast (pdu_type a)) 4 0 0)));
     pf_put_byte (ucast (pf_put_bits (of_bool (tack a)) 1 4
                        (pf_put_bits (ucast (window_size a)) 4 0 0)));
     pf_put_uint16 is_big_endian (send_seq_num a);
     pf_put_uint16 is_big_endian (ack_seq_nbr a)
   }"

section \<open>Diagnosis items\<close>

definition put_diag_channel :: "bool \<Rightarrow> pf_diag_std \<Rightarrow> unit wr" where
  "put_diag_channel is_big_endian d = do {
     pf_put_uint16 is_big_endian (ch_nbr d);
     pf_put_uint16 is_big_endian (ch_properties d);
     pf_put_uint16 is_big_endian (ch_error_type d)
   }"

definition put_diag_extended :: "bool \<Rightarrow> pf_diag_std \<Rightarrow> unit wr" where
  "put_diag_extended is_big_endian d = do {
     put_diag_channel is_big_endian d;
     pf_put_uint16 is_big_endian (ext_ch_error_type d);
     pf_put_uint32 is_big_endian (ext_ch_add_value d)
   }"

definition pf_put_diag_item :: "bool \<Rightarrow> pf_diag_item \<Rightarrow> bool \<Rightarrow> unit wr" where
  "pf_put_diag_item is_big_endian item insert_usi = do {
     (if insert_usi then pf_put_uint16 is_big_endian (di_usi item) else State_Monad.return ());
     (let d = fmt_std (di_fmt item) in
      if di_usi item = PF_USI_CHANNEL_DIAGNOSIS then put_diag_channel is_big_endian d
      else if di_usi item = PF_USI_EXTENDED_CHANNEL_DIAGNOSIS then put_diag_extended is_big_endian d
      else if di_usi item = PF_USI_QUALIFIED_CHANNEL_DIAGNOSIS then do {
        put_diag_extended is_big_endian d;
        pf_put_uint32 is_big_endian (qual_ch_qualifier d)
      }
      else pf_put_mem (fmt_usi_data (di_fmt item)) (fmt_usi_len (di_fmt item)))
   }"

section \<open>The alarm block\<close>

definition pf_put_maint_status :: "bool \<Rightarrow> u32 \<Rightarrow> unit wr" where
  "pf_put_maint_status is_big_endian maint_status = do {
     pf_put_uint16 is_big_endian PF_USI_MAINTENANCE;
     put_block is_big_endian PF_BT_MAINTENANCE_ITEM PNET_BLOCK_VERSION_LOW (do {
       pf_put_byte 0;
       pf_put_byte 0;
       pf_put_uint32 is_big_endian maint_status
     })
   }"

definition alarm_specifier_bits :: "pf_alarm_data \<Rightarrow> u32" where
  "alarm_specifier_bits a =
     (pf_put_bits (of_bool (ar_diagnosis (alarm_specifier a))) 1 15
     (pf_put_bits (of_bool (submodule_diagnosis (alarm_specifier a))) 1 13
     (pf_put_bits (of_bool (manufacturer_diagnosis (alarm_specifier a))) 1 12
     (pf_put_bits (of_bool (channel_diagnosis (alarm_specifier a))) 1 11
     (pf_put_bits (ucast (sequence_number a)) 11 0 0)))))"

text \<open>
  The status of an acknowledgement is written with the size of a frame buffer in place of
  \<open>res_len\<close>: \<open>with_len\<close>.
\<close>

definition with_len :: "nat \<Rightarrow> unit wr \<Rightarrow> unit wr" where
  "with_len n m = State_Monad.update (\<lambda>w. (snd (run_state m (w\<lparr>w_len := n\<rparr>)))\<lparr>w_len := w_len w\<rparr>)"

definition is_notification :: "u16 \<Rightarrow> bool" where
  "is_notification bt \<longleftrightarrow> bt = PF_BT_ALARM_NOTIFICATION_LOW \<or> bt = PF_BT_ALARM_NOTIFICATION_HIGH"

definition put_alarm_payload ::
    "bool \<Rightarrow> u32 \<Rightarrow> u16 \<Rightarrow> nat \<Rightarrow> alarm_payload \<Rightarrow> unit wr" where
  "put_alarm_payload is_big_endian maint_status payload_usi payload_len pl =
     (if payload_usi = 0 then State_Monad.return ()
      else if payload_usi = PF_USI_MAINTENANCE then State_Monad.return ()
      else if payload_usi = PF_USI_CHANNEL_DIAGNOSIS \<or>
              payload_usi = PF_USI_EXTENDED_CHANNEL_DIAGNOSIS \<or>
              payload_usi = PF_USI_QUALIFIED_CHANNEL_DIAGNOSIS then do {
        (if maint_status \<noteq> 0 then pf_put_maint_status is_big_endian maint_status
         else State_Monad.return ());
        pf_put_diag_item is_big_endian (payload_item pl) True
      }
      else do {
        pf_put_uint16 is_big_endian payload_usi;
        (if payload_len > 0 then pf_put_mem (payload_bytes pl) payload_len
         else State_Monad.return ())
      })"

definition pf_put_alarm_block ::
    "bool \<Rightarrow> u16 \<Rightarrow> pf_alarm_data \<Rightarrow> u32 \<Rightarrow> u16 \<Rightarrow> nat \<Rightarrow> alarm_payload \<Rightarrow> pnet_pnio_status \<Rightarrow> unit wr"
  where
  "pf_put_alarm_block is_big_endian bh_type a maint_status payload_usi payload_len pl status =
     put_block is_big_endian bh_type PNET_BLOCK_VERSION_LOW (do {
       pf_put_uint16 is_big_endian (alarm_type a);
       pf_put_uint32 is_big_endian (api_id a);
       pf_put_uint16 is_big_endian (slot_nbr a);
       pf_put_uint16 is_big_endian (subslot_nbr a);
       (if is_notification bh_type then do {
          pf_put_uint32 is_big_endian (module_ident a);
          pf_put_uint32 is_big_endian (ucast (submodule_ident a))
        } else State_Monad.return ());
       pf_put_uint16 is_big_endian (ucast (alarm_specifier_bits a));
       (if is_notification bh_type
        then put_alarm_payload is_big_endian maint_status payload_usi payload_len pl
        else with_len PF_FRAME_BUFFER_SIZE (pf_put_pnet_status True status))
     })"

end
