(* ===== verification/Block_Safety.thy ===== *)
theory Block_Safety
  imports Block_Reader Block_Writer_Alarm
begin

text \<open>
  Safety of the message functions of src/device/pf_block_writer.c and
  src/device/pf_block_reader.c: \<open>wsafe_from\<close> for every writer (the acknowledgement
  of an alarm is the exception, it ignores the size of the buffer), \<open>osafe_from\<close> for
  the ones that pad, \<open>rsafe\<close> for every reader.
\<close>

section \<open>Writers\<close>

lemma wsafe_put_block [wsafe_intros]:
  assumes "\<And>p. wsafe_from p body"
  shows "wsafe_from p0 (put_block be bt vl body)"
  unfolding put_block_def by (rule wsafe_block) (rule assms)

lemma wsafe_case_option [wsafe_intros]:
  "(x = None \<Longrightarrow> wsafe_from p0 m) \<Longrightarrow> (\<And>a. x = Some a \<Longrightarrow> wsafe_from p0 (f a)) \<Longrightarrow>
   wsafe_from p0 (case x of None \<Rightarrow> m | Some a \<Rightarrow> f a)"
  by (cases x) simp_all

lemma wsafe_update_frame:
  "(\<And>w. mem_ok w \<Longrightarrow> p0 \<le> w_pos w \<Longrightarrow> w_frame p0 w (f w)) \<Longrightarrow> wsafe_from p0 (State_Monad.update f)"
  by (simp add: wsafe_from_def)

lemma takeWhile_length: "length (takeWhile P s) \<le> length s"
  by (metis length_append le_add1 takeWhile_dropWhile_id)

text \<open>A string that is terminated in its array is shorter than the array.\<close>

lemma c_strlen_terminated: "0 \<in> set s \<Longrightarrow> c_strlen s < length s"
  by (induction s) (auto simp: c_strlen_def)

lemma w_frame_pos: "w_frame p0 w w' \<Longrightarrow> p0 \<le> w_pos w'"
  by (simp add: w_frame_def)

lemma wsafe_put_str:
  assumes "c_strlen src \<le> n"
  shows "wsafe_from p0 (pf_put_str src n)"
  unfolding pf_put_str_def
proof (rule wsafe_update_frame)
  fix w assume w: "mem_ok w" "p0 \<le> w_pos w"
  let ?k = "c_strlen src"
  have l: "length (take ?k src) = ?k" by (simp add: c_strlen_def takeWhile_length)
  show "w_frame p0 w
     (if w_pos w + n > w_len w \<or> w_bytes w = None then w
      else let str_len = ?k; w = w\<lparr>w_bytes := map_option (write_at (w_pos w) (take str_len src)) (w_bytes w),
                 w_pos := w_pos w + str_len\<rparr>
           in snd (run_state (for_each (\<lambda>_. pf_put_byte 32) [str_len..<n - 1]) w))"
  proof (cases "w_pos w + n > w_len w \<or> w_bytes w = None")
    case True
    then show ?thesis using w by (auto intro: w_frame_refl)
  next
    case False
    let ?w = "w\<lparr>w_bytes := map_option (write_at (w_pos w) (take ?k src)) (w_bytes w), w_pos := w_pos w + ?k\<rparr>"
    have 1: "w_frame p0 w ?w"
      using False w assms l by (auto simp: w_frame_def mem_ok_def write_at_nth)
    have "wsafe_from p0 (for_each (\<lambda>_. pf_put_byte 32) [?k..<n - 1])" by (intro wsafe_intros)
    then have "w_frame p0 ?w (snd (run_state (for_each (\<lambda>_. pf_put_byte 32) [?k..<n - 1]) ?w))"
      using w w_frame_mem_ok [OF 1 w(1)] by (intro wsafe_fromD) auto
    with 1 False show ?thesis by (auto simp: Let_def intro: w_frame_trans)
  qed
qed

lemma wsafe_put_indexed [wsafe_intros]:
  "(\<And>j. wsafe_from p0 (f j)) \<Longrightarrow> wsafe_from p0 (put_indexed n ixs f)"
  unfolding put_indexed_def by (intro wsafe_intros)

lemma wsafe_uuids [wsafe_intros]:
  "wsafe_from p0 (pf_put_uuid be u)" "wsafe_from p0 (pf_put_rpc_uuid be r)"
  "wsafe_from p0 (pf_put_time_timestamp be t)"
  unfolding pf_put_uuid_def pf_put_rpc_uuid_def pf_put_time_timestamp_def by (intro wsafe_intros)+

lemma wsafe_connect:
  "wsafe_from p0 (pf_put_ar_result be ar)" "wsafe_from p0 (pf_put_iocr_result be ar ix)"
  "wsafe_from p0 (pf_put_alarm_cr_result be ar)" "wsafe_from p0 (pf_put_ar_rpc_result be ar)"
  unfolding pf_put_ar_result_def pf_put_iocr_result_def pf_put_alarm_cr_result_def
    pf_put_ar_rpc_result_def by (intro wsafe_intros)+

lemma wsafe_submodule_diff [wsafe_intros]: "wsafe_from p0 (pf_put_submodule_diff be s)"
  unfolding pf_put_submodule_diff_def by (intro wsafe_intros)

lemma wsafe_module_diff [wsafe_intros]: "wsafe_from p0 (pf_put_module_diff be m)"
  unfolding pf_put_module_diff_def by (intro wsafe_intros)

lemma wsafe_api_diff [wsafe_intros]: "wsafe_from p0 (pf_put_api_diff be a)"
  unfolding pf_put_api_diff_def by (intro wsafe_intros)

lemma wsafe_ar_diff [wsafe_intros]: "wsafe_from p0 (pf_put_ar_diff be e)"
  unfolding pf_put_ar_diff_def by (intro wsafe_intros)

lemma wsafe_iocr [wsafe_intros]: "wsafe_from p0 (pf_put_iocr be ar ix)"
  unfolding pf_put_iocr_def Let_def by (intro wsafe_intros)

lemma wsafe_pnet_status [wsafe_intros]: "wsafe_from p0 (pf_put_pnet_status be s)"
  unfolding pf_put_pnet_status_def by (intro wsafe_intros)

lemma wsafe_control [wsafe_intros]: "wsafe_from p0 (pf_put_control be bt c)"
  unfolding pf_put_control_def by (intro wsafe_intros)

lemma wsafe_dce_rpc_header [wsafe_intros]: "wsafe_from p0 (pf_put_dce_rpc_header h)"
  unfolding pf_put_dce_rpc_header_def by (intro wsafe_intros)

lemma wsafe_records [wsafe_intros]:
  "wsafe_from p0 (pf_put_record_data_read be bt n xs)"
  "wsafe_from p0 (pf_put_record_data_write be bt n xs)"
  "wsafe_from p0 (pf_put_write_result be res)"
  unfolding pf_put_record_data_read_def pf_put_record_data_write_def pf_put_write_result_def
  by (intro wsafe_intros)+

lemma wsafe_read_result [wsafe_intros]: "wsafe_from p0 (pf_put_read_result be res)"
  unfolding pf_put_read_result_def
  by (rule wsafe_bind_get_pos) (intro wsafe_intros wsafe_block_length)

lemma wsafe_im:
  assumes "0 \<in> set (im_order_id im)" "length (im_order_id im) = 21"
    and "0 \<in> set (im_serial_number im)" "length (im_serial_number im) = 17"
  shows "wsafe_from p0 (pf_put_im_0 be im)"
  using assms c_strlen_terminated unfolding pf_put_im_0_def
  by (intro wsafe_intros wsafe_put_str) (metis less_imp_le)+

lemma wsafe_alarm_fixed [wsafe_intros]: "wsafe_from p0 (pf_put_alarm_fixed be a)"
  unfolding pf_put_alarm_fixed_def by (intro wsafe_intros)

lemma wsafe_diag_item [wsafe_intros]: "wsafe_from p0 (pf_put_diag_item be item b)"
  unfolding pf_put_diag_item_def Let_def put_diag_extended_def put_diag_channel_def
  by (intro wsafe_intros)

lemma wsafe_maint_status [wsafe_intros]: "wsafe_from p0 (pf_put_maint_status be s)"
  unfolding pf_put_maint_status_def by (intro wsafe_intros)

lemma wsafe_alarm_payload [wsafe_intros]: "wsafe_from p0 (put_alarm_payload be ms usi n pl)"
  unfolding put_alarm_payload_def by (intro wsafe_intros)

lemma wsafe_alarm_notification:
  assumes "is_notification bt"
  shows "wsafe_from p0 (pf_put_alarm_block be bt a ms usi n pl st)"
  unfolding pf_put_alarm_block_def using assms by (simp) (intro wsafe_intros)

lemma wsafe_log_book_entry [wsafe_intros]: "wsafe_from p0 (put_log_book_entry be e)"
  unfolding put_log_book_entry_def by (intro wsafe_intros)

section \<open>Writers that need not end\<close>

definition osafe_from :: "nat \<Rightarrow> (wstate \<Rightarrow> wstate option) \<Rightarrow> bool" where
  "osafe_from p0 f \<longleftrightarrow>
     (\<forall>w w'. mem_ok w \<and> p0 \<le> w_pos w \<and> f w = Some w' \<longrightarrow> w_frame p0 w w')"

lemma osafe_exec: "wsafe_from p0 m \<Longrightarrow> osafe_from p0 (exec m)"
  by (auto simp: osafe_from_def exec_def wsafe_fromD)

lemma osafe_bind:
  assumes "osafe_from p0 f" and "osafe_from p0 g"
  shows "osafe_from p0 (\<lambda>w. Option.bind (f w) g)"
  unfolding osafe_from_def
proof (intro allI impI)
  fix w w' assume *: "mem_ok w \<and> p0 \<le> w_pos w \<and> Option.bind (f w) g = Some w'"
  then obtain v where v: "f w = Some v" "g v = Some w'"
    by (cases "f w") auto
  then have 1: "w_frame p0 w v" using assms(1) * by (auto simp: osafe_from_def)
  then have "w_frame p0 v w'"
    using assms(2) * v(2) w_frame_mem_ok [OF 1] w_frame_pos [OF 1] unfolding osafe_from_def by blast
  with 1 show "w_frame p0 w w'" by (rule w_frame_trans)
qed

lemma osafe_padding_align: "osafe_from p0 (pf_put_padding_align p align)"
  unfolding osafe_from_def
proof (intro allI impI)
  fix w w' assume *: "mem_ok w \<and> p0 \<le> w_pos w \<and> pf_put_padding_align p align w = Some w'"
  have "mem_ok w \<longrightarrow> p0 \<le> w_pos w \<longrightarrow> w_frame p0 w w'"
  proof (induction p align w w' rule: pf_put_padding_align.raw_induct)
    case (1 f p align w w')
    show ?case
    proof (intro impI)
      assume w: "mem_ok w" "p0 \<le> w_pos w"
      show "w_frame p0 w w'"
      proof (cases "(int (w_pos w) - int p) mod int align \<noteq> 0")
        case True
        let ?w = "snd (run_state (pf_put_byte 0) w)"
        have 2: "w_frame p0 w ?w" using w by (intro wsafe_fromD wsafe_intros)
        have "f p align ?w = Some w'" using "1"(2) True by simp
        then have "w_frame p0 ?w w'"
          using "1"(1) w w_frame_mem_ok [OF 2] w_frame_pos [OF 2] by blast
        with 2 show ?thesis by (rule w_frame_trans)
      next
        case False
        with "1"(2) w show ?thesis by (auto intro: w_frame_refl)
      qed
    qed
  qed (use * in simp)
  with * show "w_frame p0 w w'" by simp
qed

lemma osafe_ar_server_result:
  "w_pos w = p0 \<Longrightarrow> mem_ok w \<Longrightarrow> pf_put_ar_server_result be ar w = Some w' \<Longrightarrow> w_frame p0 w w'"
proof -
  assume w: "w_pos w = p0" "mem_ok w" and r: "pf_put_ar_server_result be ar w = Some w'"
  have "osafe_from p0 (\<lambda>w. Option.bind (exec (do {
       pf_put_block_header be PF_BT_AR_SERVER_BLOCK 0 PNET_BLOCK_VERSION_HIGH PNET_BLOCK_VERSION_LOW;
       pf_put_uint16 be (length_cm_responder_station_name ar);
       pf_put_mem (cm_responder_station_name ar) (unat (length_cm_responder_station_name ar))
     }) w) (\<lambda>w. Option.bind (pf_put_padding_align p0 4 w) (exec (put_block_length be p0))))"
    by (intro osafe_bind osafe_exec osafe_padding_align wsafe_intros wsafe_block_length) simp
  then show ?thesis using w r unfolding pf_put_ar_server_result_def osafe_from_def Let_def by blast
qed

section \<open>Readers\<close>

lemma rsafe_case_prod [rsafe_intros]:
  "(\<And>a b. rsafe (f a b)) \<Longrightarrow> rsafe (case p of (a, b) \<Rightarrow> f a b)"
  by (cases p) simp

lemma rsafe_case_option [rsafe_intros]:
  "rsafe m \<Longrightarrow> (\<And>a. rsafe (f a)) \<Longrightarrow> rsafe (case x of None \<Rightarrow> m | Some a \<Rightarrow> f a)"
  by (cases x) simp_all

lemma rsafe_set_big_endian [rsafe_intros]: "rsafe (set_big_endian be)"
  by (simp add: rsafe_def set_big_endian_def r_frame_def)

lemma rsafe_set_result [rsafe_intros]: "x \<noteq> PF_PARSE_OK \<Longrightarrow> rsafe (set_result x)"
  by (simp add: rsafe_def set_result_def r_frame_def)

lemma rsafe_uuid [rsafe_intros]: "rsafe (pf_get_uuid u)" "rsafe (pf_get_handle h)"
  unfolding pf_get_uuid_def pf_get_handle_def by (intro rsafe_intros)+

lemma rsafe_terminated [rsafe_intros]: "rsafe (get_terminated n dest)"
  unfolding get_terminated_def by (intro rsafe_intros)

lemma rsafe_frame_descriptor [rsafe_intros]: "rsafe pf_get_frame_descriptor"
  unfolding pf_get_frame_descriptor_def by (intro rsafe_intros)

lemma rsafe_iocr_api_entry [rsafe_intros]: "rsafe (pf_get_iocr_api_entry ae)"
  unfolding pf_get_iocr_api_entry_def Let_def by (intro rsafe_intros)

lemma rsafe_api_entries [rsafe_intros]: "rsafe (get_api_entries iys aes)"
  by (induction iys arbitrary: aes) (auto intro!: rsafe_intros)

lemma rsafe_iocr_param [rsafe_intros]: "rsafe (pf_get_iocr_param p)"
  unfolding pf_get_iocr_param_def Let_def by (intro rsafe_intros)

lemma rsafe_exp_submodule [rsafe_intros]: "rsafe (pf_get_exp_submodule sub)"
  unfolding pf_get_exp_submodule_def get_data_descriptor_def Let_def by (intro rsafe_intros)

lemma rsafe_ar_param [rsafe_intros]: "rsafe (pf_get_ar_param p)"
  unfolding pf_get_ar_param_def Let_def by (intro rsafe_intros)

lemma rsafe_exp_submodules [rsafe_intros]: "rsafe (get_exp_submodules iys subs)"
  by (induction iys arbitrary: subs) (auto intro!: rsafe_intros)

lemma rsafe_exp_module [rsafe_intros]: "rsafe (get_exp_module s m)"
  unfolding get_exp_module_def by (intro rsafe_intros)

lemma rsafe_exp_api_round [rsafe_intros]: "rsafe (exp_api_round api e)"
  unfolding exp_api_round_def Let_def by (intro rsafe_intros) simp_all

lemma rsafe_exp_api_rounds [rsafe_intros]: "rsafe (exp_api_rounds n api e)"
  by (induction n arbitrary: api e) (auto intro!: rsafe_intros)

lemma rsafe_exp_api_module [rsafe_intros]: "rsafe (pf_get_exp_api_module e)"
  unfolding pf_get_exp_api_module_def by (intro rsafe_intros)

lemma rsafe_connect_blocks [rsafe_intros]:
  "rsafe pf_get_alarm_cr_request" "rsafe (pf_get_ar_prm_server_request s)"
  "rsafe pf_get_dfp_iocr" "rsafe (pf_get_mcr_request m)" "rsafe pf_get_ar_rpc_request"
  "rsafe (pf_get_ar_vendor_request v)"
  unfolding pf_get_alarm_cr_request_def pf_get_ar_prm_server_request_def pf_get_dfp_iocr_def
    pf_get_mcr_request_def pf_get_ar_rpc_request_def pf_get_ar_vendor_request_def
  by (intro rsafe_intros)+

lemma rsafe_dfp_iocrs [rsafe_intros]: "rsafe (get_dfp_iocrs ixs ds)"
  by (induction ixs arbitrary: ds) (auto intro!: rsafe_intros split: option.split)

lemma rsafe_ir_info [rsafe_intros]: "rsafe (pf_get_ir_info_request i)"
  unfolding pf_get_ir_info_request_def by (intro rsafe_intros)

lemma rsafe_rpc [rsafe_intros]:
  "rsafe (pf_get_control c)" "rsafe pf_get_ndr_data" "rsafe (pf_get_dce_rpc_header h)"
  "rsafe (pf_get_read_request rq)" "rsafe (pf_get_epm_lookup_request lq)"
  "rsafe (pf_get_write_request wq)"
  unfolding pf_get_control_def pf_get_ndr_data_def pf_get_dce_rpc_header_def pf_get_read_request_def
    pf_get_epm_lookup_request_def pf_get_write_request_def Let_def
  by (intro rsafe_intros)+

lemma rsafe_alarms [rsafe_intros]:
  "rsafe (pf_get_im_1 im)" "rsafe pf_get_alarm_fixed" "rsafe (pf_get_alarm_data a)"
  "rsafe (pf_get_alarm_ack a)" "rsafe pf_get_pnio_status"
  unfolding pf_get_im_1_def pf_get_alarm_fixed_def pf_get_alarm_data_def pf_get_alarm_ack_def
    pf_get_pnio_status_def
  by (intro rsafe_intros)+

lemma rsafe_check_peer [rsafe_intros]: "rsafe (get_check_peer p)"
  unfolding get_check_peer_def by (intro rsafe_intros)

lemma rsafe_check_peers [rsafe_intros]: "rsafe (get_check_peers is ps)"
  by (induction "is" arbitrary: ps) (auto intro!: rsafe_intros)

lemma rsafe_ports [rsafe_intros]:
  "rsafe pf_get_port_data_check" "rsafe pf_get_port_data_adjust"
  "rsafe (pf_get_port_data_check_check_peers n ps)"
  "rsafe pf_get_port_data_adjust_peer_to_peer_boundary" "rsafe pf_get_interface_adjust"
  unfolding pf_get_port_data_check_def pf_get_port_data_adjust_def
    pf_get_port_data_check_check_peers_def pf_get_port_data_adjust_peer_to_peer_boundary_def
    pf_get_interface_adjust_def Let_def
  by (intro rsafe_intros)+

end
