(* ===== verification/Block_Codecs.thy ===== *)
theory Block_Codecs
  imports Block_Safety
begin

unbundle bit_operations_syntax

text \<open>
  Writers and readers that belong together: bit fields, identifiers, the status, the
  fixed part and the data of an alarm, the control block, the maintenance record and the
  RPC header. For each the bytes are given once, the writer is shown to emit them and the
  reader to parse them; the interpretations of \<open>codec\<close> give the round trips.
\<close>

section \<open>Bit fields\<close>

lemma bit_get_bits [bit_simps]:
  "0 < l \<Longrightarrow> p + l \<le> 32 \<Longrightarrow> bit (pf_get_bits w p l) n \<longleftrightarrow> n < l \<and> bit w (p + n)"
proof -
  assume l: "0 < l" "p + l \<le> 32"
  have "push_bit l (1 :: u32) - 1 = mask l" by (simp add: mask_eq_exp_minus_1 push_bit_eq_mult)
  moreover have "p = 0 \<and> l = 32 \<Longrightarrow> take_bit l (drop_bit p w) = w"
    by (simp add: take_bit_word_eq_self)
  ultimately have "pf_get_bits w p l = take_bit l (drop_bit p w)"
    using l by (auto simp: pf_get_bits_def take_bit_eq_mask)
  then show ?thesis by (simp add: bit_simps)
qed

lemma put_bits_or: "l < 32 \<Longrightarrow> pf_put_bits v l p b = b OR push_bit p (take_bit l v)"
  by (simp add: pf_put_bits_def take_bit_eq_mask mask_eq_exp_minus_1 push_bit_eq_mult)

lemma bit_put_bits [bit_simps]:
  "l < 32 \<Longrightarrow> bit (pf_put_bits v l p b) n \<longleftrightarrow>
     bit b n \<or> n < 32 \<and> p \<le> n \<and> n < p + l \<and> bit v (n - p)"
  by (auto simp: put_bits_or bit_simps)

lemma get_bit_iff: "p < 32 \<Longrightarrow> (pf_get_bits w p 1 \<noteq> 0) = bit w p"
proof -
  assume "p < 32"
  then have "pf_get_bits w p 1 = of_bool (bit w p)"
    by (intro bit_word_eqI) (auto simp: bit_simps)
  then show ?thesis by simp
qed

lemma get_bit_zero_iff [simp]: "p < 32 \<Longrightarrow> pf_get_bits w p (Suc 0) = 0 \<longleftrightarrow> \<not> bit w p"
  using get_bit_iff [of p w] by auto

lemma take_bit_small: "unat (v :: 'a :: len word) < 2 ^ n \<Longrightarrow> take_bit n v = v"
  by (metis take_bit_nat_eq_self unsigned_take_bit_eq word_unat_eq_iff)

lemma bit_small: "unat (v :: 'a :: len word) < 2 ^ n \<Longrightarrow> bit v i \<Longrightarrow> i < n"
  by (metis bit_take_bit_iff take_bit_small)

section \<open>Identifiers\<close>

definition enc_uuid :: "bool \<Rightarrow> pf_uuid \<Rightarrow> u8 list" where
  "enc_uuid be u = enc32 be (data1 u) @ enc16 be (data2 u) @ enc16 be (data3 u) @ data4 u"

definition uuid_ok :: "pf_uuid \<Rightarrow> bool" where
  "uuid_ok u \<longleftrightarrow> length (data4 u) = 8"

lemma emits_uuid [emits_intros]: "uuid_ok u \<Longrightarrow> emits (enc_uuid be u) (pf_put_uuid be u)"
  unfolding enc_uuid_def pf_put_uuid_def uuid_ok_def by (intro emits_intros)

lemma parses_uuid [parses_intros]:
  assumes "uuid_ok u" "uuid_ok old"
  shows "parses be (enc_uuid be u) u (pf_get_uuid old)"
proof -
  have "parses be (enc32 be (data1 u) @ enc16 be (data2 u) @ enc16 be (data3 u) @ data4 u @ []) u
      (pf_get_uuid old)"
    unfolding pf_get_uuid_def
    by (rule parses_intros parses_return_eq | use assms in \<open>simp add: uuid_ok_def\<close>)+
  then show ?thesis by (simp add: enc_uuid_def)
qed

lemma enc_uuid_length [simp]: "uuid_ok u \<Longrightarrow> length (enc_uuid be u) = 16"
  by (simp add: enc_uuid_def uuid_ok_def)

interpretation uuid_codec: codec be "pf_put_uuid be" "pf_get_uuid zero_uuid" "enc_uuid be" uuid_ok
  for be :: bool
  by unfold_locales (auto intro: emits_uuid parses_uuid simp: zero_uuid_def uuid_ok_def)

section \<open>Status\<close>

text \<open>
  The writer puts the status as one number, the reader takes it byte by byte: they agree
  in big endian order, and the writer turns the bytes round in little endian order.
\<close>

definition enc_status :: "pnet_pnio_status \<Rightarrow> u8 list" where
  "enc_status s = [error_code s, error_decode s, error_code_1 s, error_code_2 s]"

lemma status_word:
  "0x01000000 * ucast (a :: u8) + 0x10000 * ucast (b :: u8) + 0x100 * ucast (c :: u8) + ucast (d :: u8)
     = (push_bit 24 (ucast a) OR push_bit 16 (ucast b) OR push_bit 8 (ucast c) OR ucast d :: u32)"
proof -
  have a: "push_bit 24 (ucast a) OR push_bit 16 (ucast b) = (push_bit 24 (ucast a) + push_bit 16 (ucast b) :: u32)"
    by (rule disjunctive_add [symmetric]) (auto simp: bit_simps dest: bit_imp_le_length)
  have b: "(push_bit 24 (ucast a) OR push_bit 16 (ucast b)) OR push_bit 8 (ucast c) =
      (push_bit 24 (ucast a) OR push_bit 16 (ucast b)) + (push_bit 8 (ucast c) :: u32)"
    by (rule disjunctive_add [symmetric]) (auto simp: bit_simps dest: bit_imp_le_length)
  have c: "(push_bit 24 (ucast a) OR push_bit 16 (ucast b) OR push_bit 8 (ucast c)) OR ucast d =
      (push_bit 24 (ucast a) OR push_bit 16 (ucast b) OR push_bit 8 (ucast c)) + (ucast d :: u32)"
    by (rule disjunctive_add [symmetric]) (auto simp: bit_simps dest: bit_imp_le_length)
  have "push_bit 24 (ucast a) OR push_bit 16 (ucast b) OR push_bit 8 (ucast c) OR ucast d =
      (((push_bit 24 (ucast a) OR push_bit 16 (ucast b)) OR push_bit 8 (ucast c)) OR ucast d :: u32)"
    by (simp only: or.assoc)
  also have "\<dots> = push_bit 24 (ucast a) + push_bit 16 (ucast b) + push_bit 8 (ucast c) + ucast d"
    using c unfolding or.assoc [symmetric] by (simp only: a b [unfolded a])
  finally show ?thesis by (simp add: push_bit_eq_mult)
qed

lemma status_bytes:
  "enc32 be (0x01000000 * ucast (a :: u8) + 0x10000 * ucast (b :: u8) + 0x100 * ucast (c :: u8) + ucast (d :: u8))
     = (if be then [a, b, c, d] else [d, c, b, a])"
proof -
  let ?w = "push_bit 24 (ucast a) OR push_bit 16 (ucast b) OR push_bit 8 (ucast c) OR ucast d :: u32"
  have "ucast (drop_bit 24 ?w) = a" by (rule bit_word_eqI) (auto simp: bit_simps dest: bit_imp_le_length)
  moreover have "ucast (drop_bit 16 ?w) = b"
    by (rule bit_word_eqI) (auto simp: bit_simps dest: bit_imp_le_length)
  moreover have "ucast (drop_bit 8 ?w) = c"
    by (rule bit_word_eqI) (auto simp: bit_simps dest: bit_imp_le_length)
  moreover have "ucast ?w = d"
    by (rule bit_word_eqI) (auto simp: bit_simps dest: bit_imp_le_length)
  ultimately show ?thesis unfolding status_word by (simp add: enc32_def)
qed

lemma emits_pnet_status [emits_intros]:
  "emits (if be then enc_status s else rev (enc_status s)) (pf_put_pnet_status be s)"
  unfolding pf_put_pnet_status_def enc_status_def
  by (rule emits_cong [OF _ emits_uint32]) (simp add: status_bytes)

lemma parses_pnio_status [parses_intros]: "parses be (enc_status s) s pf_get_pnio_status"
proof -
  have "parses be ([error_code s] @ [error_decode s] @ [error_code_1 s] @ [error_code_2 s] @ []) s
      pf_get_pnio_status"
    unfolding pf_get_pnio_status_def by (rule parses_intros parses_return_eq | simp)+
  then show ?thesis by (simp add: enc_status_def)
qed

interpretation status_codec: codec True "pf_put_pnet_status True" pf_get_pnio_status enc_status "\<lambda>_. True"
  using emits_pnet_status [of True] by unfold_locales (auto intro: parses_pnio_status)

section \<open>The fixed part of an alarm frame\<close>

lemma nibbles:
  fixes v t :: u8
  assumes "unat t < 2 ^ 4" and "unat v < 2 ^ 4"
  defines "b \<equiv> (ucast (pf_put_bits (ucast v) 4 4 (pf_put_bits (ucast t) 4 0 0)) :: u8)"
  shows "ucast (pf_get_bits (ucast b) 0 4) = t" and "ucast (pf_get_bits (ucast b) 4 4) = v"
  using bit_small [OF assms(1)] bit_small [OF assms(2)] unfolding b_def
  by (auto intro!: bit_word_eqI simp: bit_simps)

lemma flag_nibble:
  fixes t :: u8 and f :: bool
  assumes "unat t < 2 ^ 4"
  defines "b \<equiv> (ucast (pf_put_bits (of_bool f) 1 4 (pf_put_bits (ucast t) 4 0 0)) :: u8)"
  shows "ucast (pf_get_bits (ucast b) 0 4) = t" and "(pf_get_bits (ucast b) 4 1 \<noteq> 0) = f"
  using bit_small [OF assms(1)] unfolding b_def
  by (auto intro!: bit_word_eqI simp: bit_simps split: if_splits)

definition alarm_fixed_ok :: "pf_alarm_fixed \<Rightarrow> bool" where
  "alarm_fixed_ok a \<longleftrightarrow> unat (pdu_type a) < 2 ^ 4 \<and> unat (pdu_version a) < 2 ^ 4 \<and>
     unat (window_size a) < 2 ^ 4"

definition enc_alarm_fixed :: "bool \<Rightarrow> pf_alarm_fixed \<Rightarrow> u8 list" where
  "enc_alarm_fixed be a = enc16 be (dst_ref a) @ enc16 be (src_ref a) @
     [ucast (pf_put_bits (ucast (pdu_version a)) 4 4 (pf_put_bits (ucast (pdu_type a)) 4 0 0))] @
     [ucast (pf_put_bits (of_bool (tack a)) 1 4 (pf_put_bits (ucast (window_size a)) 4 0 0))] @
     enc16 be (send_seq_num a) @ enc16 be (ack_seq_nbr a)"

lemma emits_alarm_fixed [emits_intros]: "emits (enc_alarm_fixed be a) (pf_put_alarm_fixed be a)"
  unfolding enc_alarm_fixed_def pf_put_alarm_fixed_def by (intro emits_intros)

lemma parses_alarm_fixed [parses_intros]:
  assumes "alarm_fixed_ok a"
  shows "parses be (enc_alarm_fixed be a) a pf_get_alarm_fixed"
proof -
  have ok: "unat (pdu_type a) < 2 ^ 4" "unat (pdu_version a) < 2 ^ 4" "unat (window_size a) < 2 ^ 4"
    using assms by (simp_all add: alarm_fixed_ok_def)
  have "parses be (enc_alarm_fixed be a @ []) a pf_get_alarm_fixed"
    unfolding enc_alarm_fixed_def append_assoc pf_get_alarm_fixed_def
    by (rule parses_intros | rule parses_return_eq, simp del: One_nat_def get_bit_zero_iff add: nibbles [OF ok(1,2)] flag_nibble [OF ok(3)])+
  then show ?thesis by simp
qed

lemma enc_alarm_fixed_length [simp]: "length (enc_alarm_fixed be a) = 10"
  by (simp add: enc_alarm_fixed_def)

interpretation alarm_fixed_codec: codec be "pf_put_alarm_fixed be" pf_get_alarm_fixed "enc_alarm_fixed be"
    alarm_fixed_ok for be :: bool
  by unfold_locales (auto intro: emits_alarm_fixed parses_alarm_fixed)

section \<open>The data of an alarm\<close>

text \<open>The bytes of a notification; the submodule identifier has 32 bits on the wire.\<close>

definition enc_alarm_data ::
    "bool \<Rightarrow> u16 \<Rightarrow> u32 \<Rightarrow> u16 \<Rightarrow> u16 \<Rightarrow> u32 \<Rightarrow> u32 \<Rightarrow> u16 \<Rightarrow> u8 list" where
  "enc_alarm_data be t a s ss m sm sp = enc16 be t @ enc32 be a @ enc16 be s @ enc16 be ss @
     enc32 be m @ enc32 be sm @ enc16 be sp"

definition enc_alarm_ack :: "bool \<Rightarrow> u16 \<Rightarrow> u32 \<Rightarrow> u16 \<Rightarrow> u16 \<Rightarrow> u16 \<Rightarrow> u8 list" where
  "enc_alarm_ack be t a s ss sp = enc16 be t @ enc32 be a @ enc16 be s @ enc16 be ss @ enc16 be sp"

lemma parses_alarm_data:
  "parses be (enc_alarm_data be t a s ss m sm sp)
     (old\<lparr>alarm_type := t, api_id := a, slot_nbr := s, subslot_nbr := ss, module_ident := m,
        submodule_ident := ucast sm, sequence_number := ucast (pf_get_bits (ucast sp) 0 11),
        alarm_specifier := alarm_spec_of sp\<rparr>) (pf_get_alarm_data old)"
    (is "parses _ _ ?v _")
proof -
  have "parses be (enc_alarm_data be t a s ss m sm sp @ []) ?v (pf_get_alarm_data old)"
    unfolding enc_alarm_data_def append_assoc pf_get_alarm_data_def
    by (rule parses_intros | rule parses_return_eq, simp)+
  then show ?thesis by simp
qed

lemma parses_alarm_ack:
  "parses be (enc_alarm_ack be t a s ss sp)
     (old\<lparr>alarm_type := t, api_id := a, slot_nbr := s, subslot_nbr := ss,
        sequence_number := ucast (pf_get_bits (ucast sp) 0 11),
        alarm_specifier := alarm_spec_of sp\<rparr>) (pf_get_alarm_ack old)"
    (is "parses _ _ ?v _")
proof -
  have "parses be (enc_alarm_ack be t a s ss sp @ []) ?v (pf_get_alarm_ack old)"
    unfolding enc_alarm_ack_def append_assoc pf_get_alarm_ack_def
    by (rule parses_intros | rule parses_return_eq, simp)+
  then show ?thesis by simp
qed

lemma specifier_bits:
  fixes a :: pf_alarm_data
  assumes "unat (sequence_number a) < 2 ^ 11"
  shows "ucast (pf_get_bits (ucast (ucast (alarm_specifier_bits a) :: u16)) 0 11) = sequence_number a"
    and "alarm_spec_of (ucast (alarm_specifier_bits a)) = alarm_specifier a"
proof -
  show "ucast (pf_get_bits (ucast (ucast (alarm_specifier_bits a) :: u16)) 0 11) = sequence_number a"
    using bit_small [OF assms] unfolding alarm_specifier_bits_def
    by (auto intro!: bit_word_eqI simp: bit_simps)
  have "bit (alarm_specifier_bits a) 11 = channel_diagnosis (alarm_specifier a)"
    "bit (alarm_specifier_bits a) 12 = manufacturer_diagnosis (alarm_specifier a)"
    "bit (alarm_specifier_bits a) 13 = submodule_diagnosis (alarm_specifier a)"
    "bit (alarm_specifier_bits a) 15 = ar_diagnosis (alarm_specifier a)"
    unfolding alarm_specifier_bits_def by (simp_all add: bit_simps)
  then show "alarm_spec_of (ucast (alarm_specifier_bits a)) = alarm_specifier a"
    by (cases "alarm_specifier a") (simp add: alarm_spec_of_def get_bit_iff bit_simps)
qed

section \<open>Control blocks\<close>

definition enc_control :: "bool \<Rightarrow> pf_control_block \<Rightarrow> u8 list" where
  "enc_control be c = [0] @ [0] @ enc_uuid be (cb_ar_uuid c) @ enc16 be (cb_session_key c) @
     enc16 be (alarm_sequence_number c) @ enc16 be (control_command c) @
     enc16 be (control_block_properties c)"

lemma enc_control_length [simp]: "uuid_ok (cb_ar_uuid c) \<Longrightarrow> length (enc_control be c) = 26"
  by (simp add: enc_control_def)

lemma emits_control [emits_intros]:
  assumes "uuid_ok (cb_ar_uuid c)"
  shows "emits (enc_header be bt 26 PNET_BLOCK_VERSION_HIGH PNET_BLOCK_VERSION_LOW @ enc_control be c)
           (pf_put_control be bt c)"
proof -
  have "emits (enc_header be bt (length (enc_control be c)) PNET_BLOCK_VERSION_HIGH PNET_BLOCK_VERSION_LOW
      @ enc_control be c) (pf_put_control be bt c)"
    unfolding pf_put_control_def put_block_def
    by (rule emits_block) (use assms in \<open>simp only: enc_control_def, intro emits_intros, simp_all\<close>)
  with assms show ?thesis by simp
qed

lemma parses_control [parses_intros]:
  assumes "uuid_ok (cb_ar_uuid c)" "uuid_ok (cb_ar_uuid old)"
  shows "parses be (enc_control be c) c (pf_get_control old)"
proof -
  have zero: "parses be ([0] @ [0]) 0 pf_get_uint16"
    using parses_uint16 [of be 0] by (simp add: enc16_def split: if_splits)
  have "parses be (([0] @ [0]) @ enc_uuid be (cb_ar_uuid c) @ enc16 be (cb_session_key c) @
     enc16 be (alarm_sequence_number c) @ enc16 be (control_command c) @
     enc16 be (control_block_properties c) @ []) c (pf_get_control old)"
    unfolding pf_get_control_def
    by (rule zero | rule parses_intros | rule assms | rule parses_return_eq, simp)+
  then show ?thesis by (simp add: enc_control_def)
qed

lemma parses_block_header [parses_intros]:
  "parses be (enc_header be t n h v)
     \<lparr>block_type = t, block_length = of_nat (n + 2), block_version_high = h, block_version_low = v\<rparr>
     pf_get_block_header"
proof -
  have "parses be (enc16 be t @ enc16 be (of_nat (n + 2)) @ [h] @ [v] @ [])
     \<lparr>block_type = t, block_length = of_nat (n + 2), block_version_high = h, block_version_low = v\<rparr>
     pf_get_block_header"
    unfolding pf_get_block_header_def by (rule parses_intros | rule parses_return_eq, simp)+
  then show ?thesis by (simp add: enc_header_def)
qed

section \<open>The RPC header\<close>

definition rpc_header_ok :: "pf_rpc_header \<Rightarrow> bool" where
  "rpc_header_ok h \<longleftrightarrow> uuid_ok (object_uuid h) \<and> uuid_ok (interface_uuid h) \<and>
     uuid_ok (activity_uuid h) \<and> unat (packet_type h) < 2 ^ 5 \<and> \<not> cancel_pending h \<and>
     float_repr h = 0"

definition enc_rpc_start :: "pf_rpc_header \<Rightarrow> u8 list" where
  "enc_rpc_start h = [rpc_version h] @ [packet_type h] @ [ucast (rpc_flags_bits (rpc_flags h) mod 0x100)] @
     [0] @ [ucast (pf_put_bits (if rpc_is_big_endian h then 0 else 1) 4 4 0 mod 0x100)]"

definition enc_rpc_rest :: "pf_rpc_header \<Rightarrow> u8 list" where
  "enc_rpc_rest h = (let be = rpc_is_big_endian h in
     [float_repr h] @ [rpc_reserved h] @ [serial_high h] @ enc_uuid be (object_uuid h) @
     enc_uuid be (interface_uuid h) @ enc_uuid be (activity_uuid h) @
     enc32 be (server_boot_time h) @ enc32 be (interface_version h) @ enc32 be (sequence_nmb h) @
     enc16 be (opnum h) @ enc16 be (interface_hint h) @ enc16 be (activity_hint h) @
     enc16 be (length_of_body h) @ enc16 be (fragment_nmb h) @ [auth_protocol h] @ [serial_low h])"

definition enc_rpc_header :: "pf_rpc_header \<Rightarrow> u8 list" where
  "enc_rpc_header h = enc_rpc_start h @ enc_rpc_rest h"

lemma enc_rpc_header_length: "rpc_header_ok h \<Longrightarrow> length (enc_rpc_header h) = 80"
  by (simp add: enc_rpc_header_def enc_rpc_start_def enc_rpc_rest_def rpc_header_ok_def Let_def)

text \<open>A writer with a result that appends bytes; the result is the position after some of them.\<close>

definition emits_pos :: "nat \<Rightarrow> u8 list \<Rightarrow> nat wr \<Rightarrow> bool" where
  "emits_pos k xs m \<longleftrightarrow>
     (\<forall>w. room (length xs) w \<longrightarrow> run_state m w = (w_pos w + k, append_bytes xs w))"

lemma emits_pos_split:
  assumes m1: "emits xs m1" and m2: "emits ys m2"
  shows "emits_pos (length xs) (xs @ ys)
    (do { m1; p \<leftarrow> get_pos; m2; State_Monad.return p })"
  unfolding emits_pos_def
proof (intro allI impI)
  fix w assume w: "room (length (xs @ ys)) w"
  then have "room (length xs) w" by (auto simp: room_def)
  with m1 have 1: "run_state m1 w = ((), append_bytes xs w)" by (rule emitsD)
  have "room (length ys) (append_bytes xs w)" using w by (intro room_append) simp
  with m2 have 2: "run_state m2 (append_bytes xs w) = ((), append_bytes ys (append_bytes xs w))"
    by (rule emitsD)
  show "run_state (do { m1; p \<leftarrow> get_pos; m2; State_Monad.return p }) w =
      (w_pos w + length xs, append_bytes (xs @ ys) w)"
    using w 1 2 by (simp add: append_bytes_append) (simp add: append_bytes_def)
qed

lemma emits_rpc_header:
  assumes "rpc_header_ok h"
  shows "emits_pos 74 (enc_rpc_header h) (pf_put_dce_rpc_header h)"
proof -
  let ?be = "rpc_is_big_endian h"
  have ok: "uuid_ok (object_uuid h)" "uuid_ok (interface_uuid h)" "uuid_ok (activity_uuid h)"
    using assms by (simp_all add: rpc_header_ok_def)
  let ?xs = "[rpc_version h] @ [packet_type h] @ [ucast (rpc_flags_bits (rpc_flags h) mod 0x100)] @
     [0] @ [ucast (pf_put_bits (if ?be then 0 else 1) 4 4 0 mod 0x100)] @
     [float_repr h] @ [rpc_reserved h] @ [serial_high h] @ enc_uuid ?be (object_uuid h) @
     enc_uuid ?be (interface_uuid h) @ enc_uuid ?be (activity_uuid h) @
     enc32 ?be (server_boot_time h) @ enc32 ?be (interface_version h) @ enc32 ?be (sequence_nmb h) @
     enc16 ?be (opnum h) @ enc16 ?be (interface_hint h) @ enc16 ?be (activity_hint h)"
  let ?ys = "enc16 ?be (length_of_body h) @ enc16 ?be (fragment_nmb h) @ [auth_protocol h] @ [serial_low h]"
  let ?m1 = "do {
     pf_put_byte (rpc_version h); pf_put_byte (packet_type h);
     pf_put_byte (ucast (rpc_flags_bits (rpc_flags h) mod 0x100)); pf_put_byte 0;
     pf_put_byte (ucast (pf_put_bits (if ?be then 0 else 1) 4 4 0 mod 0x100));
     pf_put_byte (float_repr h); pf_put_byte (rpc_reserved h); pf_put_byte (serial_high h);
     pf_put_uuid ?be (object_uuid h); pf_put_uuid ?be (interface_uuid h); pf_put_uuid ?be (activity_uuid h);
     pf_put_uint32 ?be (server_boot_time h); pf_put_uint32 ?be (interface_version h);
     pf_put_uint32 ?be (sequence_nmb h); pf_put_uint16 ?be (opnum h);
     pf_put_uint16 ?be (interface_hint h); pf_put_uint16 ?be (activity_hint h) }"
  let ?m2 = "do { pf_put_uint16 ?be (length_of_body h); pf_put_uint16 ?be (fragment_nmb h);
     pf_put_byte (auth_protocol h); pf_put_byte (serial_low h) }"
  have "emits ?xs ?m1" by (intro emits_intros ok)
  moreover have "emits ?ys ?m2" by (intro emits_intros)
  ultimately have "emits_pos (length ?xs) (?xs @ ?ys) (do { ?m1; p \<leftarrow> get_pos; ?m2; State_Monad.return p })"
    by (rule emits_pos_split)
  moreover have "length ?xs = 74" using ok by simp
  ultimately show ?thesis
    by (simp add: pf_put_dce_rpc_header_def enc_rpc_header_def enc_rpc_start_def enc_rpc_rest_def Let_def)
qed

lemma rpc_flags_bits_back: "rpc_flags_of (ucast (rpc_flags_bits f mod 0x100)) = f"
proof -
  have "rpc_flags_bits f mod 0x100 = take_bit 8 (rpc_flags_bits f)"
    by (simp add: take_bit_eq_mod)
  then show ?thesis
    by (cases f) (simp add: rpc_flags_of_def rpc_flags_bits_def rpc_flag_defs bit_simps)
qed

lemma rpc_drep_back:
  "(pf_get_bits (ucast (ucast (pf_put_bits (if be then 0 else 1) 4 4 0 mod 0x100) :: u8)) 4 4 = 0) = be"
  by (cases be) (simp_all add: pf_put_bits_def pf_get_bits_def)

lemma packet_type_back: "unat (t :: u8) < 2 ^ 5 \<Longrightarrow> t AND 0x1f = t"
  using take_bit_small [of t 5] by (simp add: take_bit_eq_mask mask_eq_exp_minus_1)

text \<open>The reader, split where it learns the byte order.\<close>

definition rpc_rest :: "pf_rpc_header \<Rightarrow> u8 \<Rightarrow> u8 \<Rightarrow> u8 \<Rightarrow> u8 \<Rightarrow> bool \<Rightarrow> pf_rpc_header rd" where
  "rpc_rest old ver pt f1 f2 big = do {
     _ \<leftarrow> pf_get_byte;
     res \<leftarrow> pf_get_byte;
     sh \<leftarrow> pf_get_byte;
     ob \<leftarrow> pf_get_uuid (object_uuid old);
     ifc \<leftarrow> pf_get_uuid (interface_uuid old);
     act \<leftarrow> pf_get_uuid (activity_uuid old);
     bt \<leftarrow> pf_get_uint32; iv \<leftarrow> pf_get_uint32; sn \<leftarrow> pf_get_uint32;
     opn \<leftarrow> pf_get_uint16; ih \<leftarrow> pf_get_uint16; ah \<leftarrow> pf_get_uint16; lb \<leftarrow> pf_get_uint16;
     fn \<leftarrow> pf_get_uint16;
     ap \<leftarrow> pf_get_byte; sl \<leftarrow> pf_get_byte;
     State_Monad.return \<lparr>rpc_version = ver, packet_type = pt AND 0x1f,
       rpc_flags = rpc_flags_of f1,
       cancel_pending = (pf_get_bits (ucast f2) PF_RPC_F2_CANCEL_PENDING 1 \<noteq> 0),
       rpc_is_big_endian = big, float_repr = 0, rpc_reserved = res, serial_high = sh,
       object_uuid = ob, interface_uuid = ifc, activity_uuid = act, server_boot_time = bt,
       interface_version = iv, sequence_nmb = sn, opnum = opn, interface_hint = ih,
       activity_hint = ah, length_of_body = lb, fragment_nmb = fn, auth_protocol = ap,
       serial_low = sl\<rparr>
   }"

lemma rpc_header_split:
  "pf_get_dce_rpc_header old = do {
     x \<leftarrow> (do { ver \<leftarrow> pf_get_byte; pt \<leftarrow> pf_get_byte; f1 \<leftarrow> pf_get_byte; f2 \<leftarrow> pf_get_byte;
              dr \<leftarrow> pf_get_byte; State_Monad.return (ver, pt, f1, f2, dr) });
     case x of (ver, pt, f1, f2, dr) \<Rightarrow> do {
       set_big_endian (pf_get_bits (ucast dr) 4 4 = 0);
       rpc_rest old ver pt f1 f2 (pf_get_bits (ucast dr) 4 4 = 0)
     } }"
  by (simp add: pf_get_dce_rpc_header_def rpc_rest_def Let_def)

lemma parses_rpc_rest:
  assumes h: "rpc_header_ok h"
    and old: "uuid_ok (object_uuid old)" "uuid_ok (interface_uuid old)" "uuid_ok (activity_uuid old)"
  shows "parses (rpc_is_big_endian h) (enc_rpc_rest h) h
    (rpc_rest old (rpc_version h) (packet_type h) (ucast (rpc_flags_bits (rpc_flags h) mod 0x100)) 0
       (rpc_is_big_endian h))"
proof -
  have ok: "uuid_ok (object_uuid h)" "uuid_ok (interface_uuid h)" "uuid_ok (activity_uuid h)"
    "unat (packet_type h) < 2 ^ 5" "\<not> cancel_pending h" "float_repr h = 0"
    using h by (simp_all add: rpc_header_ok_def)
  let ?be = "rpc_is_big_endian h"
  have "parses ?be ([float_repr h] @ [rpc_reserved h] @ [serial_high h] @ enc_uuid ?be (object_uuid h) @
     enc_uuid ?be (interface_uuid h) @ enc_uuid ?be (activity_uuid h) @
     enc32 ?be (server_boot_time h) @ enc32 ?be (interface_version h) @ enc32 ?be (sequence_nmb h) @
     enc16 ?be (opnum h) @ enc16 ?be (interface_hint h) @ enc16 ?be (activity_hint h) @
     enc16 ?be (length_of_body h) @ enc16 ?be (fragment_nmb h) @ [auth_protocol h] @ [serial_low h] @ []) h
    (rpc_rest old (rpc_version h) (packet_type h) (ucast (rpc_flags_bits (rpc_flags h) mod 0x100)) 0 ?be)"
    unfolding rpc_rest_def
    by (rule parses_intros | rule ok | rule old |
        rule parses_return_eq, simp add: rpc_flags_bits_back packet_type_back [OF ok(4)] ok(5,6) rpc_flag_defs)+
  then show ?thesis by (simp add: enc_rpc_rest_def Let_def)
qed

lemma rpc_header_read:
  assumes h: "rpc_header_ok h"
    and old: "uuid_ok (object_uuid old)" "uuid_ok (interface_uuid old)" "uuid_ok (activity_uuid old)"
    and r: "avail be0 (enc_rpc_header h) r"
  shows "run_state (pf_get_dce_rpc_header old) r =
           (h, (skip 80 r)\<lparr>g_is_big_endian := rpc_is_big_endian h\<rparr>)"
proof -
  let ?f1 = "ucast (rpc_flags_bits (rpc_flags h) mod 0x100) :: u8"
  let ?dr = "ucast (pf_put_bits (if rpc_is_big_endian h then 0 else 1) 4 4 0 mod 0x100) :: u8"
  let ?be = "rpc_is_big_endian h"
  let ?start = "do { ver \<leftarrow> pf_get_byte; pt \<leftarrow> pf_get_byte; f1 \<leftarrow> pf_get_byte; f2 \<leftarrow> pf_get_byte;
              dr \<leftarrow> pf_get_byte; State_Monad.return (ver, pt, f1, f2, dr) }"
  have "parses be0 ([rpc_version h] @ [packet_type h] @ [?f1] @ [0] @ [?dr] @ [])
      (rpc_version h, packet_type h, ?f1, 0, ?dr) ?start"
    by (rule parses_intros | rule parses_return_eq, simp)+
  then have start: "parses be0 (enc_rpc_start h) (rpc_version h, packet_type h, ?f1, 0, ?dr) ?start"
    by (simp add: enc_rpc_start_def)
  note av = avail_append [OF r [unfolded enc_rpc_header_def]]
  have len: "length (enc_rpc_start h) + length (enc_rpc_rest h) = 80"
    using enc_rpc_header_length [OF h] by (simp add: enc_rpc_header_def)
  let ?r = "(skip (length (enc_rpc_start h)) r)\<lparr>g_is_big_endian := ?be\<rparr>"
  have "avail ?be (enc_rpc_rest h) ?r" using av(2) by (simp add: avail_def)
  from parsesD [OF parses_rpc_rest [OF h old] this]
  have "run_state (rpc_rest old (rpc_version h) (packet_type h) ?f1 0 ?be) ?r =
      (h, skip (length (enc_rpc_rest h)) ?r)" .
  moreover have "skip (length (enc_rpc_rest h)) ?r = (skip 80 r)\<lparr>g_is_big_endian := ?be\<rparr>"
    using len by (simp add: skip_def)
  ultimately show ?thesis
    unfolding rpc_header_split State_Monad.run_state_bind [of ?start] parsesD [OF start av(1)] prod.case
    by (simp add: rpc_drep_back set_big_endian_def)
qed

section \<open>Maintenance records\<close>

text \<open>The padded contents of a string field: the string and spaces, without a terminator.\<close>

definition pad_str :: "nat \<Rightarrow> u8 list \<Rightarrow> u8 list" where
  "pad_str n s = take (c_strlen s) s @ replicate (n - 1 - c_strlen s) 32"

lemma pad_str_length [simp]: "c_strlen s < n \<Longrightarrow> length (pad_str n s) = n - 1"
  by (simp add: pad_str_def c_strlen_def takeWhile_length)

lemma put_str_room:
  assumes "room n w" and "c_strlen s < n"
  shows "run_state (pf_put_str s n) w = ((), append_bytes (pad_str n s) w)"
proof -
  let ?k = "c_strlen s"
  have l: "length (take ?k s) = ?k" by (simp add: c_strlen_def takeWhile_length)
  let ?w = "append_bytes (take ?k s) w"
  from assms obtain b where b: "w_bytes w = Some b" "w_len w \<le> length b" "w_pos w + n \<le> w_len w"
    by (auto simp: room_def)
  have w: "w\<lparr>w_bytes := Some (write_at (w_pos w) (take ?k s) b), w_pos := w_pos w + ?k\<rparr> = ?w"
    using l b(1) by (simp add: append_bytes_def)
  have "emits (concat (map (\<lambda>_. [32]) [?k..<n - 1])) (for_each (\<lambda>_. pf_put_byte 32) [?k..<n - 1])"
    by (rule emits_for_each) (rule emits_put_byte)
  moreover have "concat (map (\<lambda>_. [32]) [?k..<n - 1]) = replicate (n - 1 - ?k) (32 :: u8)"
    by (simp add: map_replicate_const concat_replicate_single)
  ultimately have e: "emits (replicate (n - 1 - ?k) 32) (for_each (\<lambda>_. pf_put_byte 32) [?k..<n - 1])"
    by simp
  have "room (length (replicate (n - 1 - ?k) (32 :: u8))) ?w"
    using b assms(2) l by (auto simp: room_def append_bytes_def)
  from emitsD [OF e this] have "run_state (for_each (\<lambda>_. pf_put_byte 32) [?k..<n - 1]) ?w =
      ((), append_bytes (replicate (n - 1 - ?k) 32) ?w)" .
  moreover have "append_bytes (replicate (n - 1 - ?k) 32) ?w = append_bytes (pad_str n s) w"
    unfolding pad_str_def by (rule append_bytes_append) (use b assms(2) l in \<open>auto simp: room_def\<close>)
  ultimately show ?thesis
    using b by (simp add: pf_put_str_def Let_def w)
qed

end
