(* ===== verification/Block_Results.thy ===== *)
theory Block_Results
  imports Block_Codecs
begin

unbundle bit_operations_syntax

text \<open>
  What whole messages contain: the alarm notification, the log book, the padded blocks
  and the expected modules of a connect request. The lemmas here are the steps of the
  properties in \<open>Block_Props\<close>.
\<close>

section \<open>Alarm blocks\<close>

definition enc_alarm_start :: "bool \<Rightarrow> pf_alarm_data \<Rightarrow> u8 list" where
  "enc_alarm_start be a = enc_alarm_data be (alarm_type a) (api_id a) (slot_nbr a) (subslot_nbr a)
     (module_ident a) (ucast (submodule_ident a)) (ucast (alarm_specifier_bits a))"

lemma emits_if_then: "c \<Longrightarrow> emits xs m \<Longrightarrow> emits xs (if c then m else n)"
  by simp

lemma emits_if_else: "\<not> c \<Longrightarrow> emits xs n \<Longrightarrow> emits xs (if c then m else n)"
  by simp

lemma enc_alarm_data_length [simp]: "length (enc_alarm_data be t a s ss m sm sp) = 20"
  by (simp add: enc_alarm_data_def)

text \<open>A notification without payload.\<close>

lemma emits_alarm_notification:
  assumes "is_notification bt"
  shows "emits (enc_header be bt 20 PNET_BLOCK_VERSION_HIGH PNET_BLOCK_VERSION_LOW @ enc_alarm_start be a)
           (pf_put_alarm_block be bt a ms 0 n pl st)"
proof -
  have "emits (enc16 be (alarm_type a) @ enc32 be (api_id a) @ enc16 be (slot_nbr a) @
      enc16 be (subslot_nbr a) @ (enc32 be (module_ident a) @ enc32 be (ucast (submodule_ident a))) @
      enc16 be (ucast (alarm_specifier_bits a)) @ [])
    (do {
       pf_put_uint16 be (alarm_type a); pf_put_uint32 be (api_id a); pf_put_uint16 be (slot_nbr a);
       pf_put_uint16 be (subslot_nbr a);
       (if is_notification bt then do {
          pf_put_uint32 be (module_ident a); pf_put_uint32 be (ucast (submodule_ident a))
        } else State_Monad.return ());
       pf_put_uint16 be (ucast (alarm_specifier_bits a));
       (if is_notification bt then put_alarm_payload be ms 0 n pl
        else with_len PF_FRAME_BUFFER_SIZE (pf_put_pnet_status True st)) })"
    using assms by (intro emits_intros emits_if_then) (simp_all add: put_alarm_payload_def emits_return)
  then have *: "emits (enc_alarm_start be a) (do {
       pf_put_uint16 be (alarm_type a); pf_put_uint32 be (api_id a); pf_put_uint16 be (slot_nbr a);
       pf_put_uint16 be (subslot_nbr a);
       (if is_notification bt then do {
          pf_put_uint32 be (module_ident a); pf_put_uint32 be (ucast (submodule_ident a))
        } else State_Monad.return ());
       pf_put_uint16 be (ucast (alarm_specifier_bits a));
       (if is_notification bt then put_alarm_payload be ms 0 n pl
        else with_len PF_FRAME_BUFFER_SIZE (pf_put_pnet_status True st)) })"
    by (simp add: enc_alarm_start_def enc_alarm_data_def)
  have "length (enc_alarm_start be a) = 20" by (simp add: enc_alarm_start_def)
  then show ?thesis
    using emits_block [OF *, of be bt PNET_BLOCK_VERSION_HIGH PNET_BLOCK_VERSION_LOW 0]
    unfolding pf_put_alarm_block_def put_block_def by simp
qed

lemma parses_alarm_start:
  assumes "unat (sequence_number a) < 2 ^ 11"
  shows "parses be (enc_alarm_start be a) (a\<lparr>payload := payload old\<rparr>) (pf_get_alarm_data old)"
proof -
  have eq: "old\<lparr>alarm_type := alarm_type a, api_id := api_id a, slot_nbr := slot_nbr a, subslot_nbr := subslot_nbr a,
      module_ident := module_ident a, submodule_ident := submodule_ident a,
      sequence_number := sequence_number a, alarm_specifier := alarm_specifier a\<rparr> =
      a\<lparr>payload := payload old\<rparr>"
    by simp
  have id: "ucast (ucast (submodule_ident a) :: u32) = submodule_ident a"
    by (rule bit_word_eqI) (simp add: bit_simps)
  show ?thesis
    using parses_alarm_data [of be "alarm_type a" "api_id a" "slot_nbr a" "subslot_nbr a" "module_ident a"
        "ucast (submodule_ident a)" "ucast (alarm_specifier_bits a)" old]
    unfolding enc_alarm_start_def specifier_bits [OF assms] id eq .
qed

section \<open>The log book\<close>

definition enc_timestamp :: "bool \<Rightarrow> pf_log_book_ts \<Rightarrow> u8 list" where
  "enc_timestamp be t = enc16 be (sec_hi t) @ enc16 be (ucast (sec_lo t)) @ enc32 be (nano_sec t)"

definition enc_log_entry :: "bool \<Rightarrow> pf_log_book_entry \<Rightarrow> u8 list" where
  "enc_log_entry be e = enc_timestamp be (le_time_ts e) @ enc_uuid be (le_ar_uuid e) @
     (if be then enc_status (le_pnio_status e) else rev (enc_status (le_pnio_status e))) @
     enc32 be (entry_detail e)"

lemma emits_timestamp [emits_intros]: "emits (enc_timestamp be t) (pf_put_time_timestamp be t)"
  unfolding enc_timestamp_def pf_put_time_timestamp_def by (intro emits_intros)

lemma emits_log_entry [emits_intros]:
  "uuid_ok (le_ar_uuid e) \<Longrightarrow> emits (enc_log_entry be e) (put_log_book_entry be e)"
  unfolding enc_log_entry_def put_log_book_entry_def by (intro emits_intros)

text \<open>A list of indexes that the loop walks along.\<close>

fun log_path :: "nat \<Rightarrow> nat \<Rightarrow> nat list \<Rightarrow> bool" where
  "log_path put ix [] = (ix = put)"
| "log_path put ix (i # is) = (i = ix \<and> ix \<noteq> put \<and>
     log_path put (if ix + 1 \<ge> PNET_MAX_LOG_BOOK_ENTRIES then 0 else ix + 1) is)"

lemma log_entries_path:
  assumes "log_path (lb_put lb) ix is" and "\<forall>i \<in> set is. uuid_ok (le_ar_uuid (lb_entries lb ! i))"
    and "room (length (concat (map (\<lambda>i. enc_log_entry be (lb_entries lb ! i)) is))) w"
  shows "put_log_book_entries be lb ix w =
           Some (append_bytes (concat (map (\<lambda>i. enc_log_entry be (lb_entries lb ! i)) is)) w)"
  using assms
proof (induction "is" arbitrary: ix w)
  case Nil
  then show ?case by (simp add: put_log_book_entries.simps)
next
  case (Cons i "is")
  let ?e = "enc_log_entry be (lb_entries lb ! i)"
  let ?rest = "concat (map (\<lambda>i. enc_log_entry be (lb_entries lb ! i)) is)"
  have rooms: "room (length ?e) w" "room (length ?e + length ?rest) w"
    using Cons.prems(3) by (auto simp: room_def)
  have "run_state (put_log_book_entry be (lb_entries lb ! i)) w = ((), append_bytes ?e w)"
    using Cons.prems(2) rooms(1) by (intro emitsD [OF emits_log_entry]) simp_all
  moreover have "put_log_book_entries be lb (if ix + 1 \<ge> PNET_MAX_LOG_BOOK_ENTRIES then 0 else ix + 1)
      (append_bytes ?e w) = Some (append_bytes ?rest (append_bytes ?e w))"
    using Cons.prems room_append [OF rooms(2)] by (intro Cons.IH) simp_all
  ultimately show ?case
    using Cons.prems(1) rooms(2) by (subst put_log_book_entries.simps) (auto simp: append_bytes_append)
qed

lemma log_path_up:
  "ix \<le> put \<Longrightarrow> put < PNET_MAX_LOG_BOOK_ENTRIES \<Longrightarrow> log_path put ix [ix..<put]"
proof (induction "put - ix" arbitrary: ix)
  case 0
  then show ?case by simp
next
  case (Suc n)
  then have lt: "ix < put" and "log_path put (Suc ix) [Suc ix..<put]" by simp_all
  with Suc.prems show ?case by (auto simp: upt_conv_Cons)
qed

lemma log_path_round:
  "put < ix \<Longrightarrow> ix < PNET_MAX_LOG_BOOK_ENTRIES \<Longrightarrow>
   log_path put ix ([ix..<PNET_MAX_LOG_BOOK_ENTRIES] @ [0..<put])"
proof (induction "PNET_MAX_LOG_BOOK_ENTRIES - ix" arbitrary: ix)
  case 0
  then show ?case by simp
next
  case (Suc n)
  show ?case
  proof (cases "ix + 1 < PNET_MAX_LOG_BOOK_ENTRIES")
    case True
    then have "log_path put (Suc ix) ([Suc ix..<PNET_MAX_LOG_BOOK_ENTRIES] @ [0..<put])"
      using Suc by simp
    with True Suc.prems show ?thesis by (simp add: upt_conv_Cons)
  next
    case False
    then have "ix + 1 = PNET_MAX_LOG_BOOK_ENTRIES" using Suc.prems by simp
    then have "[ix..<PNET_MAX_LOG_BOOK_ENTRIES] = [ix]" by (metis Suc_eq_plus1 upt_conv_Cons lessI upt_rec less_irrefl)
    with False Suc.prems log_path_up [of 0 put] show ?thesis by simp
  qed
qed

text \<open>
  The entries the loop visits: in a wrapped book all but the oldest one, which is the one
  at \<open>put\<close>.
\<close>

definition logged :: "pf_log_book \<Rightarrow> nat list" where
  "logged lb = (if lb_wrap lb then [lb_put lb + 1..<PNET_MAX_LOG_BOOK_ENTRIES] @ [0..<lb_put lb]
                else [0..<lb_put lb])"

definition log_count :: "pf_log_book \<Rightarrow> nat" where
  "log_count lb = (if lb_wrap lb then PNET_MAX_LOG_BOOK_ENTRIES else lb_put lb)"

lemma logged_path:
  assumes "lb_put lb < PNET_MAX_LOG_BOOK_ENTRIES"
  shows "log_path (lb_put lb) (if lb_wrap lb then
            (if lb_put lb + 1 \<ge> PNET_MAX_LOG_BOOK_ENTRIES then 0 else lb_put lb + 1) else 0) (logged lb)"
  using assms log_path_up [of 0 "lb_put lb"] log_path_round [of "lb_put lb" "lb_put lb + 1"]
  by (auto simp: logged_def not_le)

definition enc_log_body :: "bool \<Rightarrow> pf_log_book \<Rightarrow> u8 list" where
  "enc_log_body be lb = enc_timestamp be (lb_time_ts lb) @ enc16 be (of_nat (log_count lb)) @
     concat (map (\<lambda>i. enc_log_entry be (lb_entries lb ! i)) (logged lb))"

lemma exec_emits: "emits xs m \<Longrightarrow> room (length xs) w \<Longrightarrow> exec m w = Some (append_bytes xs w)"
  by (simp add: exec_def emitsD)

lemma room_le: "room n w \<Longrightarrow> k \<le> n \<Longrightarrow> room k w"
  by (auto simp: room_def)

lemma put_block_length_append:
  assumes "room (length (enc_header be t n h v @ ys)) w"
  shows "exec (put_block_length be (w_pos w)) (append_bytes (enc_header be t n h v @ ys) w) =
           Some (append_bytes (enc_header be t (length ys) h v @ ys) w)"
proof -
  let ?xs = "enc_header be t n h v @ ys"
  have "run_state (at_pos (w_pos w + 2) (pf_put_uint16 be (of_nat (length ys + 2)))) (append_bytes ?xs w) =
      ((), append_bytes (take 2 ?xs @ enc16 be (of_nat (length ys + 2)) @ drop (2 + 2) ?xs) w)"
    using at_pos_append [OF assms _ emits_uint16, of 2 be "of_nat (length ys + 2)"] by simp
  also have "take 2 ?xs @ enc16 be (of_nat (length ys + 2)) @ drop (2 + 2) ?xs =
      enc_header be t (length ys) h v @ ys"
    by (simp add: enc_header_def numeral_eq_Suc)
  finally show ?thesis
    by (simp add: exec_def put_block_length_def append_bytes_def)
qed

lemma log_book_emits:
  assumes put: "lb_put lb < PNET_MAX_LOG_BOOK_ENTRIES"
    and ok: "\<forall>i < PNET_MAX_LOG_BOOK_ENTRIES. uuid_ok (le_ar_uuid (lb_entries lb ! i))"
    and room: "room (6 + length (enc_log_body be lb)) w"
  shows "pf_put_log_book_data be lb w = Some (append_bytes
    (enc_header be PF_BT_LOG_BOOK_DATA (length (enc_log_body be lb)) PNET_BLOCK_VERSION_HIGH
       PNET_BLOCK_VERSION_LOW @ enc_log_body be lb) w)"
proof -
  let ?h = "enc_header be PF_BT_LOG_BOOK_DATA (unat (0 :: u16)) PNET_BLOCK_VERSION_HIGH PNET_BLOCK_VERSION_LOW"
  let ?t = "enc_timestamp be (lb_time_ts lb) @ enc16 be (of_nat (log_count lb))"
  let ?es = "concat (map (\<lambda>i. enc_log_entry be (lb_entries lb ! i)) (logged lb))"
  have body: "enc_log_body be lb = ?t @ ?es" by (simp add: enc_log_body_def)
  have r: "room (6 + (length ?t + length ?es)) w" using room body by simp
  have 1: "exec (pf_put_block_header be PF_BT_LOG_BOOK_DATA 0 PNET_BLOCK_VERSION_HIGH PNET_BLOCK_VERSION_LOW) w =
      Some (append_bytes ?h w)"
    using room_le [OF r] by (intro exec_emits emits_block_header) simp
  have r2: "room (length ?t + length ?es) (append_bytes ?h w)" using r by (intro room_append) simp
  have 2: "exec (do { pf_put_time_timestamp be (lb_time_ts lb); pf_put_uint16 be (of_nat (log_count lb)) })
      (append_bytes ?h w) = Some (append_bytes ?t (append_bytes ?h w))"
    using room_le [OF r2] by (intro exec_emits emits_bind emits_timestamp emits_uint16) simp
  have r3: "room (length ?es) (append_bytes ?t (append_bytes ?h w))" using r2 by (rule room_append)
  have "\<forall>i \<in> set (logged lb). i < PNET_MAX_LOG_BOOK_ENTRIES" using put by (auto simp: logged_def)
  then have 3: "put_log_book_entries be lb (if lb_wrap lb then
            (if lb_put lb + 1 \<ge> PNET_MAX_LOG_BOOK_ENTRIES then 0 else lb_put lb + 1) else 0)
      (append_bytes ?t (append_bytes ?h w)) = Some (append_bytes ?es (append_bytes ?t (append_bytes ?h w)))"
    using ok by (intro log_entries_path [OF logged_path [OF put] _ r3]) simp
  have "append_bytes ?es (append_bytes ?t (append_bytes ?h w)) = append_bytes (?t @ ?es) (append_bytes ?h w)"
    using r2 by (rule append_bytes_append)
  also have "\<dots> = append_bytes (?h @ ?t @ ?es) w"
    by (rule append_bytes_append) (use r in simp)
  finally have 4: "append_bytes ?es (append_bytes ?t (append_bytes ?h w)) = append_bytes (?h @ ?t @ ?es) w" .
  have 5: "exec (put_block_length be (w_pos w)) (append_bytes (?h @ ?t @ ?es) w) =
      Some (append_bytes (enc_header be PF_BT_LOG_BOOK_DATA (length (?t @ ?es)) PNET_BLOCK_VERSION_HIGH
        PNET_BLOCK_VERSION_LOW @ ?t @ ?es) w)"
    by (rule put_block_length_append) (use r in simp)
  show ?thesis
    unfolding pf_put_log_book_data_def Let_def body log_count_def [symmetric]
    by (simp only: 1 2 3 4 5 Option.bind.simps)
qed

section \<open>Padded blocks\<close>

definition server_start :: "bool \<Rightarrow> pf_ar_view \<Rightarrow> unit wr" where
  "server_start be ar = do {
     pf_put_block_header be PF_BT_AR_SERVER_BLOCK 0 PNET_BLOCK_VERSION_HIGH PNET_BLOCK_VERSION_LOW;
     pf_put_uint16 be (length_cm_responder_station_name ar);
     pf_put_mem (cm_responder_station_name ar) (unat (length_cm_responder_station_name ar)) }"

definition enc_server_body :: "bool \<Rightarrow> pf_ar_view \<Rightarrow> u8 list" where
  "enc_server_body be ar = enc16 be (length_cm_responder_station_name ar) @
     take (unat (length_cm_responder_station_name ar)) (cm_responder_station_name ar)"

lemma server_result_split:
  "pf_put_ar_server_result be ar w = do {
     w1 \<leftarrow> exec (server_start be ar) w;
     w2 \<leftarrow> pf_put_padding_align (w_pos w) 4 w1;
     exec (put_block_length be (w_pos w)) w2 }"
  by (simp add: pf_put_ar_server_result_def server_start_def Let_def)

lemma emits_server_start:
  "emits (enc_header be PF_BT_AR_SERVER_BLOCK (unat (0 :: u16)) PNET_BLOCK_VERSION_HIGH PNET_BLOCK_VERSION_LOW @
     enc_server_body be ar) (server_start be ar)"
  unfolding server_start_def enc_server_body_def
  by (intro emits_bind emits_block_header emits_uint16 emits_put_mem)

lemma pad_to_four: "(n + nat (- int n mod 4)) mod 4 = 0"
proof -
  have "int (n + nat (- int n mod 4)) mod 4 = (int n + - int n mod 4) mod 4" by simp
  also have "\<dots> = 0" by (simp only: mod_add_right_eq) simp
  finally show ?thesis by presburger
qed

text \<open>With room for the padding the block is complete and its size a multiple of four.\<close>

lemma server_result_padded:
  fixes be ar
  defines "ys \<equiv> enc_server_body be ar"
  defines "k \<equiv> nat (- int (6 + length ys) mod 4)"
  assumes room: "room (6 + length ys + k) w"
  shows "pf_put_ar_server_result be ar w = Some (append_bytes
    (enc_header be PF_BT_AR_SERVER_BLOCK (length (ys @ replicate k 0)) PNET_BLOCK_VERSION_HIGH
       PNET_BLOCK_VERSION_LOW @ ys @ replicate k 0) w)" and "(6 + length ys + k) mod 4 = 0"
proof -
  let ?h = "enc_header be PF_BT_AR_SERVER_BLOCK (unat (0 :: u16)) PNET_BLOCK_VERSION_HIGH PNET_BLOCK_VERSION_LOW"
  let ?w1 = "append_bytes (?h @ ys) w"
  have r: "room (length (?h @ ys)) w" using room by (rule room_le) simp
  have 1: "exec (server_start be ar) w = Some ?w1"
    using emits_server_start r unfolding ys_def by (rule exec_emits)
  have rk: "room k ?w1" using room by (intro room_append) simp
  have pos: "w_pos ?w1 = w_pos w + (6 + length ys)" by (simp add: append_bytes_def)
  have k: "k = nat (- (int (w_pos ?w1) - int (w_pos w)) mod int 4)" unfolding pos k_def by simp
  have 2: "pf_put_padding_align (w_pos w) 4 ?w1 = Some (append_bytes (replicate k 0) ?w1)"
    by (rule padding_align_room [OF _ _ k rk]) (simp, unfold pos, simp)
  have 3: "append_bytes (replicate k 0) ?w1 = append_bytes (?h @ ys @ replicate k 0) w"
    using append_bytes_append [of "?h @ ys" "replicate k 0" w] room by simp
  have 4: "exec (put_block_length be (w_pos w)) (append_bytes (?h @ ys @ replicate k 0) w) =
      Some (append_bytes (enc_header be PF_BT_AR_SERVER_BLOCK (length (ys @ replicate k 0))
        PNET_BLOCK_VERSION_HIGH PNET_BLOCK_VERSION_LOW @ ys @ replicate k 0) w)"
    by (rule put_block_length_append) (use room in \<open>simp add: add.assoc\<close>)
  show "pf_put_ar_server_result be ar w = Some (append_bytes
    (enc_header be PF_BT_AR_SERVER_BLOCK (length (ys @ replicate k 0)) PNET_BLOCK_VERSION_HIGH
       PNET_BLOCK_VERSION_LOW @ ys @ replicate k 0) w)"
    unfolding server_result_split by (simp only: 1 2 3 4 Option.bind.simps)
  show "(6 + length ys + k) mod 4 = 0" unfolding k_def by (rule pad_to_four)
qed

text \<open>A buffer that ends with the contents, off a multiple of four: the call never returns.\<close>

lemma server_result_hangs:
  fixes be ar
  defines "ys \<equiv> enc_server_body be ar"
  assumes full: "room (6 + length ys) w" "w_len w = w_pos w + (6 + length ys)"
    and off: "(6 + length ys) mod 4 \<noteq> 0"
  shows "pf_put_ar_server_result be ar w = None"
proof -
  let ?h = "enc_header be PF_BT_AR_SERVER_BLOCK (unat (0 :: u16)) PNET_BLOCK_VERSION_HIGH PNET_BLOCK_VERSION_LOW"
  let ?w1 = "append_bytes (?h @ ys) w"
  have 1: "exec (server_start be ar) w = Some ?w1"
    using emits_server_start full(1) unfolding ys_def by (intro exec_emits) simp_all
  have "pf_put_padding_align (w_pos w) 4 ?w1 = None"
  proof (rule padding_align_stuck)
    show "w_len ?w1 \<le> w_pos ?w1 \<or> w_bytes ?w1 = None" using full(2) by (simp add: append_bytes_def)
    have "int (w_pos ?w1) - int (w_pos w) = int (6 + length ys)" by (simp add: append_bytes_def)
    with off show "(int (w_pos ?w1) - int (w_pos w)) mod int 4 \<noteq> 0"
      by (simp only: of_nat_mod [symmetric] of_nat_eq_0_iff) simp
  qed
  then show ?thesis unfolding server_result_split by (simp add: 1)
qed

section \<open>The acknowledgement of an alarm\<close>

text \<open>A 16-bit field that lies inside a shorter and inside a longer size.\<close>

lemma at_pos_with_len:
  assumes "room (length xs) (w\<lparr>w_pos := p\<rparr>)" "room (length xs) (w\<lparr>w_len := n, w_pos := p\<rparr>)" "emits xs m"
  shows "snd (run_state (at_pos p m) (w\<lparr>w_len := n\<rparr>)) = (snd (run_state (at_pos p m) w))\<lparr>w_len := n\<rparr>"
  using emitsD [OF assms(3,1)] emitsD [OF assms(3,2)] by (simp add: at_pos_def append_bytes_def)

lemma append_bytes_with_len: "append_bytes xs (w\<lparr>w_len := n\<rparr>) = (append_bytes xs w)\<lparr>w_len := n\<rparr>"
  by (simp add: append_bytes_def)

lemma same_but_len: "(v :: wstate)\<lparr>w_len := n\<rparr> = u\<lparr>w_len := n\<rparr> \<Longrightarrow> w_len v = w_len u \<Longrightarrow> v = u"
  by (cases v, cases u) simp

lemma w_len_append [simp]: "w_len (append_bytes xs w) = w_len w"
  by (simp add: append_bytes_def)

lemma append_bytes_in_memory:
  assumes "w_bytes w = Some b" and "w_pos w + (length xs + length ys) \<le> length b"
  shows "append_bytes ys (append_bytes xs w) = append_bytes (xs @ ys) w"
proof -
  have "room (length xs + length ys) (w\<lparr>w_len := length b\<rparr>)" using assms by (simp add: room_def)
  then have "(append_bytes ys (append_bytes xs w))\<lparr>w_len := length b\<rparr> = (append_bytes (xs @ ys) w)\<lparr>w_len := length b\<rparr>"
    by (simp only: append_bytes_with_len [symmetric] append_bytes_append)
  then show ?thesis by (rule same_but_len) (simp only: w_len_append)
qed

lemma with_len_emits:
  assumes "emits xs m" and "room (length xs) (w\<lparr>w_len := n\<rparr>)"
  shows "run_state (with_len n m) w = ((), append_bytes xs w)"
  using emitsD [OF assms] by (simp add: with_len_def append_bytes_with_len)

definition enc_ack_body :: "bool \<Rightarrow> pf_alarm_data \<Rightarrow> u8 list" where
  "enc_ack_body be a = enc_alarm_ack be (alarm_type a) (api_id a) (slot_nbr a) (subslot_nbr a)
     (ucast (alarm_specifier_bits a))"

lemma put_block_length_append_with_len:
  assumes "room (length (enc_header be t n h v @ ys)) (w\<lparr>w_len := l\<rparr>)" and "w_pos w + 4 \<le> w_len w" and "w_len w \<le> l"
  shows "run_state (put_block_length be (w_pos w)) (append_bytes (enc_header be t n h v @ ys) w) =
           ((), append_bytes (enc_header be t (length ys) h v @ ys) w)"
proof -
  let ?xs = "enc_header be t n h v @ ys"
  let ?w = "append_bytes ?xs w"
  let ?m = "at_pos (w_pos w + 2) (pf_put_uint16 be (of_nat (length ys + 2)))"
  have "snd (run_state ?m (?w\<lparr>w_len := l\<rparr>)) = (snd (run_state ?m ?w))\<lparr>w_len := l\<rparr>"
    by (rule at_pos_with_len [OF _ _ emits_uint16]) (use assms in \<open>auto simp: room_def append_bytes_def\<close>)
  moreover have "run_state (put_block_length be (w_pos w)) (?w\<lparr>w_len := l\<rparr>) =
      ((), append_bytes (enc_header be t (length ys) h v @ ys) (w\<lparr>w_len := l\<rparr>))"
    using put_block_length_append [OF assms(1)]
    by (intro prod_eqI) (simp_all add: exec_def append_bytes_with_len)
  moreover have pl: "run_state (put_block_length be (w_pos w)) v = run_state ?m v" if "w_pos v = w_pos ?w" for v
    using that by (simp add: put_block_length_def append_bytes_def)
  ultimately have "(snd (run_state ?m ?w))\<lparr>w_len := l\<rparr> = (append_bytes (enc_header be t (length ys) h v @ ys) w)\<lparr>w_len := l\<rparr>"
    by (simp add: append_bytes_with_len)
  moreover have "w_len (snd (run_state ?m ?w)) = w_len w"
  proof -
    have "room (length (enc16 be (of_nat (length ys + 2)))) (?w\<lparr>w_pos := w_pos w + 2\<rparr>)"
      using assms by (auto simp: room_def append_bytes_def)
    from emitsD [OF emits_uint16 this] show ?thesis by (simp add: at_pos_def)
  qed
  ultimately have "snd (run_state ?m ?w) = append_bytes (enc_header be t (length ys) h v @ ys) w"
    by - (rule same_but_len [where n = l], assumption, simp only: w_len_append)
  then show ?thesis unfolding pl [OF refl] by (intro prod_eqI) simp_all
qed

text \<open>
  The whole acknowledgement: the status goes in wherever the frame buffer has room, whatever
  the size that was asked for.
\<close>

lemma run_block_parts:
  fixes A B C :: "unit wr"
  assumes "run_state A w = ((), w1)" "run_state B w1 = ((), w2)" "run_state C w2 = ((), w3)"
    and "run_state (D (w_pos w)) w3 = ((), w4)"
  shows "run_state (do { p \<leftarrow> get_pos; A; B; C; D p }) w = ((), w4)"
  using assms by simp

lemma alarm_ack_emits:
  assumes bt: "\<not> is_notification bt" and r: "room 18 w"
    and f: "room 22 (w\<lparr>w_len := PF_FRAME_BUFFER_SIZE\<rparr>)" and l: "w_len w \<le> PF_FRAME_BUFFER_SIZE"
  shows "run_state (pf_put_alarm_block be bt a ms usi n pl st) w = ((), append_bytes
    (enc_header be bt 16 PNET_BLOCK_VERSION_HIGH PNET_BLOCK_VERSION_LOW @ enc_ack_body be a @ enc_status st) w)"
proof -
  let ?h = "enc_header be bt (unat (0 :: u16)) PNET_BLOCK_VERSION_HIGH PNET_BLOCK_VERSION_LOW"
  let ?b = "enc_ack_body be a" and ?F = PF_FRAME_BUFFER_SIZE
  let ?m = "do { pf_put_uint16 be (alarm_type a); pf_put_uint32 be (api_id a); pf_put_uint16 be (slot_nbr a);
     pf_put_uint16 be (subslot_nbr a); pf_put_uint16 be (ucast (alarm_specifier_bits a)) }"
  have lb: "length ?b = 12" by (simp add: enc_ack_body_def enc_alarm_ack_def)
  have ls: "length (enc_status st) = 4" by (simp add: enc_status_def)
  have m: "emits ?b ?m" unfolding enc_ack_body_def enc_alarm_ack_def by (intro emits_intros)
  have 1: "run_state (pf_put_block_header be bt 0 PNET_BLOCK_VERSION_HIGH PNET_BLOCK_VERSION_LOW) w =
      ((), append_bytes ?h w)"
    using room_le [OF r] by (intro emitsD emits_block_header) simp
  have "room 12 (append_bytes ?h w)" using r by (intro room_append) simp
  then have 2: "run_state ?m (append_bytes ?h w) = ((), append_bytes ?b (append_bytes ?h w))"
    using m lb by (intro emitsD) simp_all
  have app: "append_bytes (enc_status st) (append_bytes ?b (append_bytes ?h w)) =
      append_bytes (?h @ ?b @ enc_status st) w"
  proof -
    from f obtain b where b: "w_bytes w = Some b" "w_pos w + 22 \<le> length b" by (auto simp: room_def)
    then have "append_bytes ?b (append_bytes ?h w) = append_bytes (?h @ ?b) w"
      using lb by (intro append_bytes_in_memory [OF b(1)]) simp_all
    with append_bytes_in_memory [OF b(1), of "?h @ ?b" "enc_status st"] b(2) lb ls show ?thesis by simp
  qed
  have 3: "run_state (with_len ?F (pf_put_pnet_status True st)) (append_bytes ?b (append_bytes ?h w)) =
      ((), append_bytes (?h @ ?b @ enc_status st) w)"
    unfolding app [symmetric]
    by (rule with_len_emits) (use emits_pnet_status [of True st] f lb ls in
        \<open>auto simp: room_def append_bytes_def\<close>)
  have len: "length (?b @ enc_status st) = 16" using lb ls by simp
  have 4: "run_state (put_block_length be (w_pos w)) (append_bytes (?h @ ?b @ enc_status st) w) =
      ((), append_bytes (enc_header be bt (length (?b @ enc_status st)) PNET_BLOCK_VERSION_HIGH
         PNET_BLOCK_VERSION_LOW @ ?b @ enc_status st) w)"
    by (rule put_block_length_append_with_len [where l = ?F]) (use f r l len in \<open>auto simp: room_def\<close>)
  have "pf_put_alarm_block be bt a ms usi n pl st = do {
      p \<leftarrow> get_pos; pf_put_block_header be bt 0 PNET_BLOCK_VERSION_HIGH PNET_BLOCK_VERSION_LOW;
      ?m; with_len ?F (pf_put_pnet_status True st); put_block_length be p }"
    using bt by (simp add: pf_put_alarm_block_def put_block_def)
  then show ?thesis using run_block_parts [of _ w _ ?m _ _ _ "put_block_length be", OF 1 2 3 4] len
    by (simp only:)
qed

end
