(* ===== verification/Expected_Modules.thy ===== *)
theory Expected_Modules
  imports Block_Results
begin

unbundle bit_operations_syntax

text \<open>
  The expected modules of a connect request (\<open>pf_get_exp_api_module\<close> in
  src/device/pf_block_reader.c): the invariant of the tables it fills, when it writes past
  the end of one, and what it does with a second API in the same block.
\<close>

section \<open>Well-formed tables\<close>

definition exp_module_wf :: "pf_exp_module \<Rightarrow> bool" where
  "exp_module_wf m \<longleftrightarrow> length (submodule m) = PNET_MAX_SUBSLOTS \<and>
     unat (nbr_submodules m) \<le> PNET_MAX_SUBSLOTS"

definition exp_api_wf :: "pf_exp_api \<Rightarrow> bool" where
  "exp_api_wf a \<longleftrightarrow> length (ea_module a) = PNET_MAX_SLOTS \<and> unat (nbr_modules a) \<le> PNET_MAX_SLOTS \<and>
     (\<forall>m \<in> set (ea_module a). exp_module_wf m)"

definition exp_wf :: "pf_exp_ident \<Rightarrow> bool" where
  "exp_wf e \<longleftrightarrow> length (ei_api e) = PNET_MAX_API \<and> unat (ei_nbr_apis e) \<le> PNET_MAX_API \<and>
     (\<forall>a \<in> set (ei_api e). exp_api_wf a)"

lemma zero_exp_wf: "exp_wf zero_exp_ident"
  by (simp add: exp_wf_def exp_api_wf_def exp_module_wf_def zero_exp_ident_def zero_exp_api_def
      zero_exp_module_def)

lemma set_updateD: "x \<in> set (xs[i := y]) \<Longrightarrow> x = y \<or> x \<in> set xs"
  using set_update_subset_insert [of xs i y] by auto

lemma set_api_wf:
  assumes "exp_wf e" and "i < PNET_MAX_API" and "exp_api_wf (ei_api e ! i) \<Longrightarrow> exp_api_wf (f (ei_api e ! i))"
  shows "exp_wf (set_api i f e)"
proof -
  have "exp_api_wf (ei_api e ! i)" using assms(1,2) by (auto simp: exp_wf_def)
  then show ?thesis using assms(1,3) by (auto simp: exp_wf_def set_api_def dest!: set_updateD)
qed

section \<open>One module\<close>

text \<open>All submodules of a module fit, or the loop stores behind the array.\<close>

lemma submodules_fit:
  "k + length iys \<le> length subs \<Longrightarrow> iys = [k..<k + length iys] \<Longrightarrow>
   \<exists>subs' r'. run_state (get_exp_submodules iys subs) r = (Some subs', r') \<and> length subs' = length subs"
proof (induction iys arbitrary: k subs r)
  case Nil
  then show ?case by simp
next
  case (Cons iy iys)
  from Cons.prems(2) have iy: "iy = k" and iys: "iys = [Suc k..<Suc k + length iys]"
    by (auto simp: upt_conv_Cons simp del: upt_Suc)
  obtain sub r1 where 1: "run_state (pf_get_exp_submodule (subs ! k)) r = (sub, r1)" by fastforce
  from Cons.IH [of "Suc k" "subs[k := sub]" r1] Cons.prems(1) iys
  show ?case using Cons.prems(1) by (simp add: iy 1)
qed

lemma submodules_overflow:
  "length subs < n \<Longrightarrow> k \<le> length subs \<Longrightarrow> fst (run_state (get_exp_submodules [k..<n] subs) r) = None"
proof (induction "length subs - k" arbitrary: k subs r)
  case 0
  then show ?case by (simp add: upt_conv_Cons)
next
  case (Suc d)
  obtain sub r1 where 1: "run_state (pf_get_exp_submodule (subs ! k)) r = (sub, r1)" by fastforce
  have "fst (run_state (get_exp_submodules [Suc k..<n] (subs[k := sub])) r1) = None"
    using Suc by (intro Suc.hyps(1)) simp_all
  with 1 Suc.hyps(2) Suc.prems show ?case by (simp add: upt_conv_Cons)
qed

lemma exp_module_result:
  assumes "exp_module_wf m" and "run_state (get_exp_module s m) r = (Some m', r')"
  shows "exp_module_wf m'"
proof -
  obtain i r1 where 1: "run_state pf_get_uint32 r = (i, r1)" by fastforce
  obtain p r2 where 2: "run_state pf_get_uint16 r1 = (p, r2)" by fastforce
  obtain n r3 where 3: "run_state pf_get_uint16 r2 = (n, r3)" by fastforce
  obtain so r4 where 4: "run_state (get_exp_submodules [0..<unat n] (submodule m)) r3 = (so, r4)" by fastforce
  from assms(2) have m': "so \<noteq> None" "m' = m\<lparr>em_slot_number := s, em_ident_number := i, em_properties := p,
      nbr_submodules := n, submodule := the so\<rparr>"
    by (auto simp: get_exp_module_def 1 2 3 4)
  have len: "length (submodule m) = PNET_MAX_SUBSLOTS" using assms(1) by (simp add: exp_module_wf_def)
  have n: "unat n \<le> PNET_MAX_SUBSLOTS"
    using submodules_overflow [of "submodule m" "unat n" 0 r3] 4 m'(1) len by (cases "unat n \<le> PNET_MAX_SUBSLOTS") auto
  with submodules_fit [of 0 "[0..<unat n]" "submodule m" r3] 4 len
  have "length (the so) = PNET_MAX_SUBSLOTS" by auto
  with n m'(2) show ?thesis by (simp add: exp_module_wf_def)
qed

lemma find_exp_api_bound:
  assumes "find_exp_api e a x = Some i" and "unat (ei_nbr_apis e) \<le> PNET_MAX_API"
    and "\<And>j. x = Some j \<Longrightarrow> j < PNET_MAX_API"
  shows "i < PNET_MAX_API"
proof -
  have "\<forall>i. fold (\<lambda>iy b. if ea_valid (ei_api e ! iy) \<and> ea_api (ei_api e ! iy) = a then Some iy else b) ixs x = Some i
      \<longrightarrow> i < PNET_MAX_API" if "\<forall>iy \<in> set ixs. iy < PNET_MAX_API" for ixs
    using that assms(3) by (induction ixs arbitrary: x) (auto split: if_splits)
  from this [of "[0..<unat (ei_nbr_apis e)]"] assms(1,2) show ?thesis by (auto simp: find_exp_api_def)
qed

section \<open>The whole block\<close>

text \<open>The step of a round after the API is known.\<close>

definition exp_api_fill :: "nat option \<Rightarrow> pf_exp_ident \<Rightarrow> (nat option \<times> pf_exp_ident) option rd" where
  "exp_api_fill api e = (case api of
     None \<Rightarrow> do { set_result PF_PARSE_OUT_OF_API_RESOURCES; State_Monad.return (Some (api, e)) }
   | Some ix \<Rightarrow> do {
       slot_number \<leftarrow> pf_get_uint16;
       let n = unat (nbr_modules (ei_api e ! ix));
       if n < PNET_MAX_SLOTS then do {
         m \<leftarrow> get_exp_module slot_number (ea_module (ei_api e ! ix) ! n);
         State_Monad.return (map_option (\<lambda>m. (api, set_api ix (\<lambda>a. a\<lparr>
           nbr_modules := nbr_modules a + 1, ea_module := (ea_module a)[n := m],
           ea_valid := True\<rparr>) e)) m)
       } else do {
         set_result PF_PARSE_OUT_OF_EXP_SUBMODULE_RESOURCES;
         State_Monad.return (Some (api, e))
       }
     })"

definition exp_api_select :: "u32 \<Rightarrow> nat option \<Rightarrow> pf_exp_ident \<Rightarrow> nat option \<times> pf_exp_ident" where
  "exp_api_select exp_api api e = (let api = find_exp_api e exp_api api in
     if api = None \<and> unat (ei_nbr_apis e) < PNET_MAX_API then
       let ix = unat (ei_nbr_apis e)
       in (Some ix, set_api ix (\<lambda>a. a\<lparr>ea_api := exp_api, nbr_modules := 0, nbr_diff_modules := 0\<rparr>)
                      (e\<lparr>ei_nbr_apis := ei_nbr_apis e + 1\<rparr>))
     else (api, e))"

lemma exp_api_round_split:
  "exp_api_round api e = do { a \<leftarrow> pf_get_uint32; case exp_api_select a api e of (api, e) \<Rightarrow> exp_api_fill api e }"
  by (simp add: exp_api_round_def exp_api_fill_def exp_api_select_def Let_def cong: option.case_cong)

lemma unat_inc_le: "unat (n :: u16) < k \<Longrightarrow> k < 65536 \<Longrightarrow> unat (n + 1) = unat n + 1"
  by (simp add: unat_word_ariths)

lemma exp_api_select_wf:
  assumes "exp_wf e" and "\<And>j. api = Some j \<Longrightarrow> j < PNET_MAX_API"
    and "exp_api_select a api e = (api', e')"
  shows "exp_wf e'" and "api' = Some j \<Longrightarrow> j < PNET_MAX_API"
proof -
  have n: "unat (ei_nbr_apis e) \<le> PNET_MAX_API" using assms(1) by (simp add: exp_wf_def)
  let ?e = "e\<lparr>ei_nbr_apis := ei_nbr_apis e + 1\<rparr>"
  have "exp_wf (set_api ix (\<lambda>a. a\<lparr>ea_api := x, nbr_modules := 0, nbr_diff_modules := 0\<rparr>) ?e)"
    if "ix < PNET_MAX_API" "unat (ei_nbr_apis e) < PNET_MAX_API" for ix x
    using assms(1) that unat_inc_le [of "ei_nbr_apis e" PNET_MAX_API]
    by (intro set_api_wf) (auto simp: exp_wf_def exp_api_wf_def PNET_MAX_API_def)
  then show "exp_wf e'" using assms(1,3) by (auto simp: exp_api_select_def Let_def split: if_splits)
  show "j < PNET_MAX_API" if "api' = Some j"
    using assms(3) find_exp_api_bound [OF _ n assms(2)] that
    by (auto simp: exp_api_select_def Let_def split: if_splits)
qed

lemma exp_api_fill_wf:
  assumes wf: "exp_wf e" and b: "\<And>j. api = Some j \<Longrightarrow> j < PNET_MAX_API"
    and run: "run_state (exp_api_fill api e) r = (Some (api', e'), r')"
  shows "exp_wf e'" and "api' = api"
proof -
  have "exp_wf e' \<and> api' = api"
  proof (cases api)
    case None
    then show ?thesis using run wf by (simp add: exp_api_fill_def set_result_def)
  next
    case (Some ix)
    obtain s r1 where 1: "run_state pf_get_uint16 r = (s, r1)" by fastforce
    let ?n = "unat (nbr_modules (ei_api e ! ix))"
    let ?m = "ea_module (ei_api e ! ix) ! ?n"
    show ?thesis
    proof (cases "?n < PNET_MAX_SLOTS")
      case False
      then show ?thesis using run wf Some by (simp add: exp_api_fill_def set_result_def 1 Let_def)
    next
      case True
      obtain mo r2 where 2: "run_state (get_exp_module s ?m) r1 = (mo, r2)" by fastforce
      from run Some True obtain m where m: "mo = Some m" "api' = api"
        "e' = set_api ix (\<lambda>a. a\<lparr>nbr_modules := nbr_modules a + 1, ea_module := (ea_module a)[?n := m],
           ea_valid := True\<rparr>) e"
        by (auto simp: exp_api_fill_def 1 2 Let_def)
      have ix: "ix < PNET_MAX_API" using b Some by simp
      then have a: "exp_api_wf (ei_api e ! ix)" using wf by (auto simp: exp_wf_def)
      then have "exp_module_wf ?m" using True by (auto simp: exp_api_wf_def)
      then have "exp_module_wf m" using exp_module_result 2 m(1) by blast
      then have "exp_wf e'" unfolding m(3)
        using True unat_inc_le [of "nbr_modules (ei_api e ! ix)" PNET_MAX_SLOTS] a
        by (intro set_api_wf [OF wf ix]) (auto simp: exp_api_wf_def PNET_MAX_SLOTS_def dest!: set_updateD)
      with m show ?thesis by simp
    qed
  qed
  then show "exp_wf e'" and "api' = api" by simp_all
qed

lemma exp_api_rounds_wf:
  "exp_wf e \<Longrightarrow> (\<And>j. api = Some j \<Longrightarrow> j < PNET_MAX_API) \<Longrightarrow>
   run_state (exp_api_rounds n api e) r = (Some e', r') \<Longrightarrow> exp_wf e'"
proof (induction n arbitrary: api e r)
  case 0
  then show ?case by simp
next
  case (Suc n)
  obtain a r1 where 1: "run_state pf_get_uint32 r = (a, r1)" by fastforce
  obtain api1 e1 where 2: "exp_api_select a api e = (api1, e1)" by fastforce
  obtain x r2 where 3: "run_state (exp_api_fill api1 e1) r1 = (x, r2)" by fastforce
  have w1: "exp_wf e1" "\<And>j. api1 = Some j \<Longrightarrow> j < PNET_MAX_API"
    using exp_api_select_wf [OF Suc.prems(1) _ 2] Suc.prems(2) by blast+
  from Suc.prems(3) obtain api2 e2 where x: "x = Some (api2, e2)"
    "run_state (exp_api_rounds n api2 e2) r2 = (Some e', r')"
    by (cases x) (auto simp: exp_api_round_split 1 2 3)
  have "run_state (exp_api_fill api1 e1) r1 = (Some (api2, e2), r2)" using 3 x(1) by simp
  from exp_api_fill_wf [OF w1 this] have "exp_wf e2" "api2 = api1" by simp_all
  with Suc.IH [OF _ _ x(2)] w1(2) show ?case by blast
qed

section \<open>Several APIs in one block\<close>

definition enc_module :: "bool \<Rightarrow> u32 \<Rightarrow> u16 \<Rightarrow> u32 \<Rightarrow> u16 \<Rightarrow> u16 \<Rightarrow> u8 list" where
  "enc_module be a s i p n = enc32 be a @ enc16 be s @ enc32 be i @ enc16 be p @ enc16 be n"

definition add_module :: "nat \<Rightarrow> u16 \<Rightarrow> u32 \<Rightarrow> u16 \<Rightarrow> pf_exp_ident \<Rightarrow> pf_exp_ident" where
  "add_module ix s i p e = set_api ix (\<lambda>a. a\<lparr>nbr_modules := nbr_modules a + 1,
     ea_module := (ea_module a)[unat (nbr_modules a) := (ea_module a ! unat (nbr_modules a))\<lparr>
       em_slot_number := s, em_ident_number := i, em_properties := p, nbr_submodules := 0\<rparr>],
     ea_valid := True\<rparr>) e"

lemma unat_two: "unat (2 :: u16) = Suc (Suc 0)"
  by simp

lemma parses_round:
  assumes "exp_api_select a api e = (Some ix, e1)" and "unat (nbr_modules (ei_api e1 ! ix)) < PNET_MAX_SLOTS"
  shows "parses be (enc_module be a s i p 0) (Some (Some ix, add_module ix s i p e1)) (exp_api_round api e)"
proof -
  let ?m = "ea_module (ei_api e1 ! ix) ! unat (nbr_modules (ei_api e1 ! ix))"
  let ?m' = "?m\<lparr>em_slot_number := s, em_ident_number := i, em_properties := p, nbr_submodules := 0\<rparr>"
  have "parses be (enc32 be i @ enc16 be p @ enc16 be 0 @ [] @ []) (Some ?m') (get_exp_module s ?m)"
    unfolding get_exp_module_def
    by (rule parses_intros | rule parses_return_eq, simp | simp only: unat_0 upt_0 get_exp_submodules.simps)+
  then have m: "parses be (enc32 be i @ enc16 be p @ enc16 be 0) (Some ?m') (get_exp_module s ?m)" by simp
  have "parses be (enc16 be s @ (enc32 be i @ enc16 be p @ enc16 be 0) @ [])
      (Some (Some ix, add_module ix s i p e1)) (exp_api_fill (Some ix) e1)"
    unfolding exp_api_fill_def option.case Let_def if_P [OF assms(2)]
    by (rule parses_bind [OF parses_uint16] parses_bind [OF m] parses_return_eq)+
      (simp add: add_module_def set_api_def)
  then have f: "parses be (enc16 be s @ enc32 be i @ enc16 be p @ enc16 be 0)
      (Some (Some ix, add_module ix s i p e1)) (exp_api_fill (Some ix) e1)" by simp
  show ?thesis unfolding enc_module_def exp_api_round_split
    by (rule parses_bind [OF parses_uint32]) (use f assms(1) in simp)
qed

text \<open>
  A block with modules of two APIs: after the first round the pointer is set, and where
  the search fails for the second API it still points to the first.
\<close>

lemma parses_two_apis:
  fixes x :: u32
  assumes wf: "exp_wf e" and n: "ei_nbr_apis e = 0"
  defines "e1 \<equiv> set_api 0 (\<lambda>a. a\<lparr>ea_api := x, nbr_modules := 0, nbr_diff_modules := 0\<rparr>) (e\<lparr>ei_nbr_apis := 1\<rparr>)"
  shows "parses be (enc16 be 2 @ enc_module be x s i p 0 @ enc_module be y t j q 0)
    (Some (add_module 0 t j q (add_module 0 s i p e1))) (pf_get_exp_api_module e)"
proof -
  have l: "length (ei_api e) = 1" using wf by (simp add: exp_wf_def PNET_MAX_API_def)
  have 1: "exp_api_select x None e = (Some 0, e1)"
    by (simp add: exp_api_select_def find_exp_api_def n e1_def PNET_MAX_API_def)
  have n1: "nbr_modules (ei_api e1 ! 0) = 0" using l by (simp add: e1_def set_api_def)
  let ?e2 = "add_module 0 s i p e1"
  have 2: "exp_api_select y (Some 0) ?e2 = (Some 0, ?e2)"
    by (simp add: exp_api_select_def find_exp_api_def add_module_def set_api_def e1_def PNET_MAX_API_def)
  have n2: "nbr_modules (ei_api ?e2 ! 0) = 1" using l n1 by (simp add: add_module_def set_api_def e1_def)
  have "parses be (enc_module be y t j q 0 @ []) (Some (add_module 0 t j q ?e2)) (exp_api_rounds (Suc 0) (Some 0) ?e2)"
    unfolding exp_api_rounds.simps
    by (rule parses_bind [OF parses_round [OF 2]])
      (use n2 in \<open>auto simp: PNET_MAX_SLOTS_def intro: parses_return_eq\<close>)
  then have r2: "parses be (enc_module be y t j q 0) (Some (add_module 0 t j q ?e2)) (exp_api_rounds (Suc 0) (Some 0) ?e2)"
    by simp
  have r1: "parses be (enc_module be x s i p 0 @ enc_module be y t j q 0) (Some (add_module 0 t j q ?e2))
      (exp_api_rounds (Suc (Suc 0)) None e)"
    unfolding exp_api_rounds.simps(2) [of "Suc 0"]
    by (rule parses_bind [OF parses_round [OF 1]]) (use n1 r2 in \<open>simp_all add: PNET_MAX_SLOTS_def\<close>)
  show ?thesis unfolding pf_get_exp_api_module_def
    by (rule parses_bind [OF parses_uint16]) (use r1 in \<open>simp only: unat_two\<close>)
qed

text \<open>A module that announces more submodules than there is room for.\<close>

lemma parses_then:
  assumes "parses be xs a m" and "avail be (xs @ ys) r"
  shows "run_state (State_Monad.bind m f) r = run_state (f a) (skip (length xs) r)"
    and "avail be ys (skip (length xs) r)"
  using assms avail_append [OF assms(2)] parsesD [OF assms(1)] by simp_all

lemma module_overflow:
  assumes wf: "exp_wf e" and n: "ei_nbr_apis e = 0" and k: "unat k > PNET_MAX_SUBSLOTS"
    and r: "avail be (enc16 be 1 @ enc_module be x s i p k) r"
  shows "fst (run_state (pf_get_exp_api_module e) r) = None"
proof -
  define e1 where "e1 = set_api 0 (\<lambda>a. a\<lparr>ea_api := x, nbr_modules := 0, nbr_diff_modules := 0\<rparr>) (e\<lparr>ei_nbr_apis := 1\<rparr>)"
  have sel: "exp_api_select x None e = (Some 0, e1)"
    by (simp add: exp_api_select_def find_exp_api_def n e1_def PNET_MAX_API_def)
  have l: "length (ei_api e) = 1" using wf by (simp add: exp_wf_def PNET_MAX_API_def)
  have n1: "nbr_modules (ei_api e1 ! 0) = 0" using l by (simp add: e1_def set_api_def)
  let ?m = "ea_module (ei_api e1 ! 0) ! 0"
  have "exp_wf e1" using exp_api_select_wf(1) [OF wf _ sel] by simp
  then have m: "length (submodule ?m) = PNET_MAX_SUBSLOTS"
  proof -
    from \<open>exp_wf e1\<close> have "ei_api e1 ! 0 \<in> set (ei_api e1)" by (auto simp: exp_wf_def PNET_MAX_API_def)
    with \<open>exp_wf e1\<close> have a: "exp_api_wf (ei_api e1 ! 0)" by (simp add: exp_wf_def)
    then have "?m \<in> set (ea_module (ei_api e1 ! 0))" by (auto simp: exp_api_wf_def PNET_MAX_SLOTS_def)
    with a show ?thesis by (auto simp: exp_api_wf_def exp_module_wf_def)
  qed
  note 1 = parses_then [OF parses_uint16 r]
  note 2 = parses_then [OF parses_uint32 1(2) [unfolded enc_module_def]]
  note 3 = parses_then [OF parses_uint16 2(2)]
  note 4 = parses_then [OF parses_uint32 3(2)]
  note 5 = parses_then [OF parses_uint16 4(2)]
  note 6 = parsesD [OF parses_uint16 5(2)]
  have o: "fst (run_state (get_exp_submodules [0..<unat k] (submodule ?m)) v) = None" for v
    using k m by (intro submodules_overflow) simp_all
  have fill: "fst (run_state (get_exp_module s ?m) v) = None"
    if "v = skip (length (enc16 be s)) (skip (length (enc32 be x)) (skip (length (enc16 be (1 :: u16))) r))" for v
    unfolding that get_exp_module_def 4(1) 5(1)
    using o [of "skip 16 r"] 6 by (auto split: prod.split)
  have "fst (run_state (exp_api_round None e) (skip (length (enc16 be (1 :: u16))) r)) = None"
    unfolding exp_api_round_split 2(1) sel prod.case exp_api_fill_def option.case 3(1) n1
    using fill [OF refl] by (auto simp: Let_def PNET_MAX_SLOTS_def split: prod.split)
  then show ?thesis unfolding pf_get_exp_api_module_def 1(1)
    by (auto split: prod.split option.split)
qed

end
