(* ===== verification/Block_Props.thy ===== *)
theory Block_Props
  imports Expected_Modules
begin

unbundle bit_operations_syntax

text \<open>
  The properties of the message functions (src/device/pf_block_writer.c and
  src/device/pf_block_reader.c).
\<close>

section \<open>Concrete buffers for the witnesses\<close>

definition blank :: "nat \<Rightarrow> wstate" where
  "blank n = \<lparr>w_bytes = Some (replicate n 0), w_len = n, w_pos = 0\<rparr>"

lemma blank_simps [simp]: "w_len (blank n) = n" "w_pos (blank n) = 0" "mem_ok (blank n)" "room k (blank n) \<longleftrightarrow> k \<le> n"
  by (auto simp: blank_def mem_ok_def room_def)

definition demo_rpc :: pf_rpc_header where
  "demo_rpc = \<lparr>rpc_version = 4, packet_type = 2, rpc_flags = rpc_flags_of 0x20, cancel_pending = False,
     rpc_is_big_endian = False, float_repr = 0, rpc_reserved = 0, serial_high = 1,
     object_uuid = zero_uuid, interface_uuid = zero_uuid, activity_uuid = zero_uuid,
     server_boot_time = 1, interface_version = 1, sequence_nmb = 7, opnum = 2, interface_hint = 0xffff,
     activity_hint = 0xffff, length_of_body = 120, fragment_nmb = 0, auth_protocol = 0, serial_low = 9\<rparr>"

lemma zero_uuid_ok [simp]: "uuid_ok zero_uuid"
  by (simp add: uuid_ok_def zero_uuid_def)

lemma demo_rpc_ok: "rpc_header_ok demo_rpc"
  by (simp add: rpc_header_ok_def demo_rpc_def)

definition demo_alarm :: pf_alarm_data where
  "demo_alarm = \<lparr>alarm_type = 2, api_id = 0, slot_nbr = 1, subslot_nbr = 1, module_ident = 0x32,
     submodule_ident = 0x132, alarm_specifier = alarm_spec_of 0x800, sequence_number = 5, payload = undefined\<rparr>"

definition zero_ar_param :: pf_ar_param where
  "zero_ar_param = \<lparr>ar_type = 0, ar_uuid = zero_uuid, session_key = 0, cm_initiator_mac_add = replicate 6 0,
     cm_initiator_object_uuid = zero_uuid,
     ar_properties = \<lparr>arp_state = 0, supervisor_takeover_allowed = False, parameterization_server = 0,
       device_access = False, companion_ar = 0, acknowledge_companion_ar = False,
       combined_object_container = False, startup_mode = False, pull_module_alarm_allowed = False\<rparr>,
     cm_initiator_activity_timeout_factor = 0, cm_initiator_udp_rt_port = 0,
     cm_initiator_station_name_len = 0, cm_initiator_station_name = replicate 241 0\<rparr>"

definition zero_alarm_cr_request :: pf_alarm_cr_request where
  "zero_alarm_cr_request = \<lparr>acr_type = 0, acr_lt_field = 0,
     alarm_cr_properties = \<lparr>priority = False, transport_udp = False\<rparr>, rta_timeout_factor = 0,
     rta_retries = 0, local_alarm_reference = 0, max_alarm_data_length = 0,
     alarm_cr_tag_header_high = \<lparr>acr_vlan_id = 0, alarm_user_priority = 0\<rparr>,
     alarm_cr_tag_header_low = \<lparr>acr_vlan_id = 0, alarm_user_priority = 0\<rparr>\<rparr>"

text \<open>An application relation of a device with a name of two letters.\<close>

definition demo_ar :: pf_ar_view where
  "demo_ar = \<lparr>av_ar_param = zero_ar_param, cm_responder_mac_add = replicate 6 0, responder_udp_rt_port = 0,
     av_alarm_cr_request = zero_alarm_cr_request, res_alarm_cr_type = 0, res_local_alarm_reference = 0,
     res_max_alarm_data_length = 0, responder_rpc_server_port = 0, length_cm_responder_station_name = 2,
     cm_responder_station_name = [97, 98] @ replicate 239 0, av_nbr_iocrs = 0, av_iocrs = [],
     av_exp_ident = zero_exp_ident,
     av_prm_server = \<lparr>parameter_server_object_uuid = zero_uuid, prm_activity_timeout_factor = 0,
       parameter_server_station_name_len = 0, parameter_server_station_name = []\<rparr>,
     nbr_ir_info = 0, sr_info_valid = False, nbr_ar_vendor = 0, ar_vendor_request = [],
     ar_vendor_result = [], fast_startup_valid = False, rs_info_valid = False\<rparr>"

lemma demo_server_body: "length (enc_server_body be demo_ar) = 4"
  by (simp add: enc_server_body_def demo_ar_def)

definition demo_entry :: pf_log_book_entry where
  "demo_entry = \<lparr>le_time_ts = \<lparr>ts_status = 0, sec_hi = 0, sec_lo = 0, nano_sec = 0\<rparr>, le_ar_uuid = zero_uuid,
     le_pnio_status = \<lparr>error_code = 0, error_decode = 0, error_code_1 = 0, error_code_2 = 0\<rparr>, entry_detail = 1\<rparr>"

definition demo_log :: pf_log_book where
  "demo_log = \<lparr>lb_time_ts = \<lparr>ts_status = 0, sec_hi = 0, sec_lo = 0, nano_sec = 0\<rparr>,
     lb_entries = replicate PNET_MAX_LOG_BOOK_ENTRIES demo_entry, lb_put = 3, lb_wrap = True\<rparr>"

lemma enc_log_entry_length [simp]: "uuid_ok (le_ar_uuid e) \<Longrightarrow> length (enc_log_entry be e) = 32"
  by (simp add: enc_log_entry_def enc_timestamp_def enc_status_def)

lemma sum_list_all: "\<forall>x \<in> set xs. f x = (k :: nat) \<Longrightarrow> sum_list (map f xs) = k * length xs"
  by (induction xs) auto

lemma enc_log_body_length:
  assumes "lb_put lb < PNET_MAX_LOG_BOOK_ENTRIES"
    and "\<forall>i < PNET_MAX_LOG_BOOK_ENTRIES. uuid_ok (le_ar_uuid (lb_entries lb ! i))"
  shows "length (enc_log_body be lb) = 10 + 32 * length (logged lb)"
proof -
  have "\<forall>i \<in> set (logged lb). uuid_ok (le_ar_uuid (lb_entries lb ! i))"
    using assms by (auto simp: logged_def)
  then have "length (concat (map (\<lambda>i. enc_log_entry be (lb_entries lb ! i)) (logged lb))) = 32 * length (logged lb)"
    by (simp add: length_concat comp_def sum_list_all)
  then show ?thesis by (simp add: enc_log_body_def enc_timestamp_def)
qed

section \<open>Properties\<close>



text \<open>
  C6. A DCE/RPC header that is written and read back is the same header, in both byte
  orders: the reader learns the byte order from the data representation of the header,
  whatever byte order it started with, takes exactly the 80 bytes that were written and
  reports no error.
\<close>

theorem rpc_header_round_trip:
  assumes "rpc_header_ok h" and "room 80 w" and "uuid_ok (object_uuid old)" "uuid_ok (interface_uuid old)"
    and "uuid_ok (activity_uuid old)"
  shows "run_state (pf_get_dce_rpc_header old)
           (reader_at be0 (w_pos w) (snd (run_state (pf_put_dce_rpc_header h) w))) =
         (h, reader_at (rpc_is_big_endian h) (w_pos w + 80) (snd (run_state (pf_put_dce_rpc_header h) w)))"
proof -
  have l: "length (enc_rpc_header h) = 80" using assms(1) by (rule enc_rpc_header_length)
  have w: "snd (run_state (pf_put_dce_rpc_header h) w) = append_bytes (enc_rpc_header h) w"
    using emits_rpc_header [OF assms(1)] assms(2) l by (simp add: emits_pos_def)
  have "avail be0 (enc_rpc_header h) (reader_at be0 (w_pos w) (append_bytes (enc_rpc_header h) w))"
    using assms(2) l by (intro avail_reader_at) simp
  from rpc_header_read [OF assms(1) assms(3-5) this] show ?thesis
    unfolding w by (simp add: skip_def reader_at_def)
qed

lemma rpc_header_round_trip_witness:
  "fst (run_state (pf_get_dce_rpc_header demo_rpc)
     (reader_at True 0 (snd (run_state (pf_put_dce_rpc_header demo_rpc) (blank 80))))) = demo_rpc"
  using rpc_header_round_trip [OF demo_rpc_ok, of "blank 80" demo_rpc True] demo_rpc_ok
  by (simp add: rpc_header_ok_def)



text \<open>
  The submodule identifier of a received alarm notification has 32 bits on the wire and
  16 in the record: two notifications whose identifiers differ only above bit 15 are read
  as the same alarm.
\<close>

theorem alarm_submodule_ident_truncated:
  assumes "avail be (enc_alarm_data be t a s ss m sm sp) r"
  shows "submodule_ident (fst (run_state (pf_get_alarm_data old) r)) = ucast sm \<and>
         run_state (pf_get_alarm_data old) r = (old\<lparr>alarm_type := t, api_id := a, slot_nbr := s,
           subslot_nbr := ss, module_ident := m, submodule_ident := ucast (sm AND 0xFFFF),
           sequence_number := ucast (pf_get_bits (ucast sp) 0 11), alarm_specifier := alarm_spec_of sp\<rparr>, skip 20 r)"
proof -
  have "ucast (sm AND 0xFFFF) = (ucast sm :: u16)"
  proof -
    have "sm AND 0xFFFF = take_bit 16 sm" by (simp add: take_bit_eq_mask mask_eq_exp_minus_1)
    then show ?thesis by (intro bit_word_eqI) (simp add: bit_simps)
  qed
  then show ?thesis using parsesD [OF parses_alarm_data assms] by simp
qed

lemma alarm_submodule_ident_truncated_witness:
  "submodule_ident (fst (run_state (pf_get_alarm_data demo_alarm)
     \<lparr>g_result = PF_PARSE_OK, g_is_big_endian = True, g_buf = Some (enc_alarm_data True 2 0 1 1 0x32 0xABCD0132 0x805),
      g_len = 20, r_pos = 0\<rparr>)) = 0x132"
  using alarm_submodule_ident_truncated [of True 2 0 1 1 "0x32" "0xABCD0132" "0x805", where old = demo_alarm and r = "\<lparr>g_result = PF_PARSE_OK,
      g_is_big_endian = True, g_buf = Some (enc_alarm_data True 2 0 1 1 0x32 0xABCD0132 0x805), g_len = 20, r_pos = 0\<rparr>"]
  by (simp add: avail_def)

text \<open>
  A control block (application ready, end of parameters, release) that is written and
  read back, header first, is the same block.
\<close>

theorem control_block_round_trip:
  assumes "uuid_ok (cb_ar_uuid c)" "uuid_ok (cb_ar_uuid old)" and "room 32 w"
  shows "run_state (do { h \<leftarrow> pf_get_block_header; d \<leftarrow> pf_get_control old; State_Monad.return (block_type h, d) })
           (reader_at be (w_pos w) (snd (run_state (pf_put_control be bt c) w))) =
         ((bt, c), reader_at be (w_pos w + 32) (snd (run_state (pf_put_control be bt c) w)))"
proof -
  let ?xs = "enc_header be bt 26 PNET_BLOCK_VERSION_HIGH PNET_BLOCK_VERSION_LOW @ enc_control be c"
  have l: "length ?xs = 32" using assms(1) by simp
  have w: "snd (run_state (pf_put_control be bt c) w) = append_bytes ?xs w"
    using emitsD [OF emits_control [OF assms(1)], of be bt w] assms(3) l by simp
  have "parses be (enc_header be bt 26 PNET_BLOCK_VERSION_HIGH PNET_BLOCK_VERSION_LOW @ enc_control be c @ [])
      (bt, c) (do { h \<leftarrow> pf_get_block_header; d \<leftarrow> pf_get_control old; State_Monad.return (block_type h, d) })"
    by (rule parses_bind [OF parses_block_header] parses_bind [OF parses_control [OF assms(1,2)]] parses_return_eq)+ simp
  from parsesD [OF this, of "reader_at be (w_pos w) (append_bytes ?xs w)"]
    avail_reader_at [of ?xs w be] assms(3) l
  show ?thesis unfolding w by (simp add: skip_def reader_at_def)
qed

definition demo_control :: pf_control_block where
  "demo_control = \<lparr>cb_ar_uuid = zero_uuid, cb_session_key = 3, control_command = 1,
     control_block_properties = 0, alarm_sequence_number = 0\<rparr>"

lemma control_block_round_trip_witness:
  "fst (run_state (do { h \<leftarrow> pf_get_block_header; d \<leftarrow> pf_get_control demo_control; State_Monad.return (block_type h, d) })
     (reader_at True 0 (snd (run_state (pf_put_control True 0x112 demo_control) (blank 32))))) = (0x112, demo_control)"
  using control_block_round_trip [where c = demo_control and old = demo_control and w = "blank 32" and be = True and bt = "0x112"]
  by (simp add: demo_control_def)

text \<open>
  C8. The block of an alarm acknowledgement ignores the size it is given: with room for
  everything but the status, the four bytes of the status still go into the memory behind
  the announced size, as long as a whole frame buffer would have had room.
\<close>

theorem alarm_ack_writes_behind_size:
  assumes "\<not> is_notification bt" and "room 18 w" and "w_len w = w_pos w + 18"
    and "w_bytes w = Some b" and "PF_FRAME_BUFFER_SIZE \<le> length b" and "w_pos w + 22 \<le> PF_FRAME_BUFFER_SIZE"
  shows "\<exists>b'. w_bytes (snd (run_state (pf_put_alarm_block be bt a ms usi n pl st) w)) = Some b' \<and>
           take 4 (drop (w_len w) b') = [error_code st, error_decode st, error_code_1 st, error_code_2 st]"
proof -
  let ?xs = "enc_header be bt 16 PNET_BLOCK_VERSION_HIGH PNET_BLOCK_VERSION_LOW @ enc_ack_body be a"
  have f: "room 22 (w\<lparr>w_len := PF_FRAME_BUFFER_SIZE\<rparr>)" and l: "w_len w \<le> PF_FRAME_BUFFER_SIZE"
    using assms by (auto simp: room_def)
  have xs: "length ?xs = 18" by (simp add: enc_ack_body_def enc_alarm_ack_def)
  have st: "length (enc_status st) = 4" by (simp add: enc_status_def)
  have "take 4 (drop (w_pos w + 18) (write_at (w_pos w) (?xs @ enc_status st) b)) = enc_status st"
    using assms xs st by (simp add: write_at_def)
  then show ?thesis
    using alarm_ack_emits [OF assms(1,2) f l, of be a ms usi n pl st] assms(3,4)
    by (simp add: append_bytes_def enc_status_def)
qed

lemma alarm_ack_writes_behind_size_witness:
  "\<exists>b'. w_bytes (snd (run_state (pf_put_alarm_block True 0x8001 demo_alarm 0 0 0 (Raw_payload []) (le_pnio_status demo_entry))
      \<lparr>w_bytes = Some (replicate PF_FRAME_BUFFER_SIZE 0xff), w_len = 18, w_pos = 0\<rparr>)) = Some b' \<and>
     take 4 (drop 18 b') = [0, 0, 0, 0]"
  using alarm_ack_writes_behind_size [where bt = "0x8001" and b = "replicate PF_FRAME_BUFFER_SIZE 0xff" and
      w = "\<lparr>w_bytes = Some (replicate PF_FRAME_BUFFER_SIZE 0xff), w_len = 18, w_pos = 0\<rparr>" and be = True and
      a = demo_alarm and ms = 0 and usi = 0 and n = 0 and pl = "Raw_payload []" and st = "le_pnio_status demo_entry"]
  by (simp add: is_notification_def PF_BT_ALARM_NOTIFICATION_LOW_def PF_BT_ALARM_NOTIFICATION_HIGH_def room_def
      PF_FRAME_BUFFER_SIZE_def demo_entry_def)

text \<open>
  The server block of a connect response, given room for its padding, is complete: the
  header announces the length with the padding, the name and the zero bytes follow, and the
  block ends on a multiple of four.
\<close>

theorem ar_server_block_complete:
  assumes "room (6 + length (enc_server_body be ar) + nat (- int (6 + length (enc_server_body be ar)) mod 4)) w"
  shows "\<exists>k. (6 + length (enc_server_body be ar) + k) mod 4 = 0 \<and> k < 4 \<and>
     pf_put_ar_server_result be ar w = Some (append_bytes
       (enc_header be PF_BT_AR_SERVER_BLOCK (length (enc_server_body be ar) + k) PNET_BLOCK_VERSION_HIGH
          PNET_BLOCK_VERSION_LOW @ enc_server_body be ar @ replicate k 0) w)"
proof -
  have "nat (- int (6 + length (enc_server_body be ar)) mod 4) < 4" by (simp add: nat_less_iff)
  then show ?thesis using server_result_padded [OF assms] by (intro exI conjI) simp_all
qed

lemma ar_server_block_complete_witness:
  "\<exists>k. (10 + k) mod 4 = 0 \<and> k < 4 \<and> pf_put_ar_server_result True demo_ar (blank 12) = Some (append_bytes
       (enc_header True PF_BT_AR_SERVER_BLOCK (4 + k) PNET_BLOCK_VERSION_HIGH PNET_BLOCK_VERSION_LOW @
        enc_server_body True demo_ar @ replicate k 0) (blank 12))"
  using ar_server_block_complete [of True demo_ar "blank 12"] by (simp add: demo_server_body)

text \<open>
  C9. The same block in a buffer that ends with the name, where the end is no multiple of
  four: the loop that pads writes nothing and never ends.
\<close>

theorem ar_server_block_hangs:
  assumes "room (6 + length (enc_server_body be ar)) w"
    and "w_len w = w_pos w + (6 + length (enc_server_body be ar))"
    and "(6 + length (enc_server_body be ar)) mod 4 \<noteq> 0"
  shows "pf_put_ar_server_result be ar w = None"
  using assms by (rule server_result_hangs)

lemma ar_server_block_hangs_witness: "pf_put_ar_server_result True demo_ar (blank 10) = None"
  using ar_server_block_hangs [of True demo_ar "blank 10"] by (simp add: demo_server_body)


text \<open>
  Two expected modules of different APIs in one block, read into a device that has
  room for one API: no error is reported, and the module of the second API is filed as the
  second module of the first one.
\<close>

theorem expected_modules_second_api_merged:
  assumes "exp_wf e" and "ei_nbr_apis e = 0"
    and "avail be (enc16 be 2 @ enc_module be x s i p 0 @ enc_module be y t j q 0) r"
  shows "\<exists>e' r'. run_state (pf_get_exp_api_module e) r = (Some e', r') \<and> g_result r' = PF_PARSE_OK \<and>
           ei_nbr_apis e' = 1 \<and> ea_api (ei_api e' ! 0) = x \<and> nbr_modules (ei_api e' ! 0) = 2 \<and>
           em_slot_number (ea_module (ei_api e' ! 0) ! 1) = t \<and> em_ident_number (ea_module (ei_api e' ! 0) ! 1) = j"
proof -
  have l: "length (ei_api e) = 1" using assms(1) by (simp add: exp_wf_def PNET_MAX_API_def)
  then have "exp_api_wf (ei_api e ! 0)" using assms(1) by (simp add: exp_wf_def PNET_MAX_API_def)
  then have m: "length (ea_module (ei_api e ! 0)) = 5" by (simp add: exp_api_wf_def PNET_MAX_SLOTS_def)
  from parsesD [OF parses_two_apis [OF assms(1,2)] assms(3)] assms(3) l m
  show ?thesis by (auto simp: add_module_def set_api_def skip_def avail_def)
qed

definition demo_reader :: "u8 list \<Rightarrow> rstate" where
  "demo_reader xs = \<lparr>g_result = PF_PARSE_OK, g_is_big_endian = True, g_buf = Some xs, g_len = length xs, r_pos = 0\<rparr>"

lemma demo_reader_avail: "avail True xs (demo_reader xs)"
  by (simp add: avail_def demo_reader_def)


lemma expected_modules_second_api_merged_witness:
  "\<exists>e' r'. run_state (pf_get_exp_api_module zero_exp_ident)
     (demo_reader (enc16 True 2 @ enc_module True 0 1 50 0 0 @ enc_module True 7 2 60 0 0)) = (Some e', r') \<and>
     ei_nbr_apis e' = 1 \<and> em_ident_number (ea_module (ei_api e' ! 0) ! 1) = 60"
  using expected_modules_second_api_merged [OF zero_exp_wf _ demo_reader_avail, of 0 1 50 0 7 2 60 0]
  by (auto simp: zero_exp_ident_def)

text \<open>
  C11. An expected module that announces more submodules than PNET\_MAX\_SUBSLOTS makes the
  reader store behind the array: the number is not checked.
\<close>

theorem expected_submodules_overflow:
  assumes "exp_wf e" and "ei_nbr_apis e = 0" and "unat k > PNET_MAX_SUBSLOTS"
    and "avail be (enc16 be 1 @ enc_module be x s i p k) r"
  shows "fst (run_state (pf_get_exp_api_module e) r) = None"
  using assms by (rule module_overflow)

lemma expected_submodules_overflow_witness:
  "fst (run_state (pf_get_exp_api_module zero_exp_ident) (demo_reader (enc16 True 1 @ enc_module True 0 1 50 0 4))) = None"
  using expected_submodules_overflow [OF zero_exp_wf _ _ demo_reader_avail, of 4 0 1 50 0]
  by (simp add: zero_exp_ident_def PNET_MAX_SUBSLOTS_def)

text \<open>
  A log book that has wrapped announces all of its entries and carries all but the
  oldest one: the block ends one entry, 32 bytes, before what its count promises.
\<close>

theorem log_book_drops_oldest:
  assumes "lb_wrap lb" and "lb_put lb < PNET_MAX_LOG_BOOK_ENTRIES"
    and "\<forall>i < PNET_MAX_LOG_BOOK_ENTRIES. uuid_ok (le_ar_uuid (lb_entries lb ! i))"
    and "room (16 + 32 * (PNET_MAX_LOG_BOOK_ENTRIES - 1)) w"
  shows "\<exists>body. pf_put_log_book_data be lb w = Some (append_bytes
      (enc_header be PF_BT_LOG_BOOK_DATA (length body) PNET_BLOCK_VERSION_HIGH PNET_BLOCK_VERSION_LOW @ body) w) \<and>
    body = enc_timestamp be (lb_time_ts lb) @ enc16 be (of_nat PNET_MAX_LOG_BOOK_ENTRIES) @
      concat (map (\<lambda>i. enc_log_entry be (lb_entries lb ! i))
        ([lb_put lb + 1..<PNET_MAX_LOG_BOOK_ENTRIES] @ [0..<lb_put lb])) \<and>
    length body = 10 + 32 * (PNET_MAX_LOG_BOOK_ENTRIES - 1)"
proof -
  have n: "length (logged lb) = PNET_MAX_LOG_BOOK_ENTRIES - 1"
    using assms(1,2) by (simp add: logged_def)
  have l: "length (enc_log_body be lb) = 10 + 32 * (PNET_MAX_LOG_BOOK_ENTRIES - 1)"
    using enc_log_body_length [OF assms(2,3), of be] n by simp
  have "room (6 + length (enc_log_body be lb)) w" using assms(4) l by (simp add: add.assoc)
  from log_book_emits [OF assms(2,3) this] l assms(1) show ?thesis
    by (intro exI [of _ "enc_log_body be lb"] conjI) (simp_all add: enc_log_body_def log_count_def logged_def)
qed

lemma demo_log_ok: "lb_wrap demo_log" "lb_put demo_log < PNET_MAX_LOG_BOOK_ENTRIES"
  "\<forall>i < PNET_MAX_LOG_BOOK_ENTRIES. uuid_ok (le_ar_uuid (lb_entries demo_log ! i))"
  "room (16 + 32 * (PNET_MAX_LOG_BOOK_ENTRIES - 1)) (blank 496)"
  by (simp_all add: demo_log_def demo_entry_def PNET_MAX_LOG_BOOK_ENTRIES_def)

lemma log_book_drops_oldest_witness:
  "\<exists>body. length body = 490 \<and> pf_put_log_book_data True demo_log (blank 496) = Some (append_bytes
      (enc_header True PF_BT_LOG_BOOK_DATA (length body) PNET_BLOCK_VERSION_HIGH PNET_BLOCK_VERSION_LOW @ body) (blank 496))"
proof -
  have "10 + 32 * (PNET_MAX_LOG_BOOK_ENTRIES - 1) = 490" by (simp add: PNET_MAX_LOG_BOOK_ENTRIES_def)
  with log_book_drops_oldest [OF demo_log_ok, of True] show ?thesis by metis
qed

end
