(* ===== verification/Alarm_Queue.thy ===== *)
theory Alarm_Queue
  imports Block_Props
begin

text \<open>
  The alarm queues of src/common/pf_alarm.c: an accountant with a read index, a write index
  and a count for a ring of PNET\_MAX\_ALARMS items, the queue of received frames and the
  queue of alarms to send. The locale \<open>bounded_queue\<close> is the contract their clients use: a
  first-in first-out list of bounded length; it is interpreted on both queues. The mutex is
  a flag (created or not); locking is the atomicity of an operation, and a lock without a
  mutex fails an assertion, which the guards of the operations exclude.
\<close>

section \<open>Accountant\<close>

record accountant =
  acc_mutex :: bool
  acc_count :: nat
  acc_read :: nat
  acc_write :: nat

definition pf_alarm_queue_mutex_create :: "accountant \<Rightarrow> accountant" where
  "pf_alarm_queue_mutex_create acc = (if \<not> acc_mutex acc then acc\<lparr>acc_mutex := True\<rparr> else acc)"

definition pf_alarm_queue_mutex_destroy :: "accountant \<Rightarrow> accountant" where
  "pf_alarm_queue_mutex_destroy acc = (if acc_mutex acc then acc\<lparr>acc_mutex := False\<rparr> else acc)"

definition pf_alarm_queue_is_available :: "accountant \<Rightarrow> bool" where
  "pf_alarm_queue_is_available acc = acc_mutex acc"

definition pf_alarm_queue_accountant_reset :: "accountant \<Rightarrow> accountant" where
  "pf_alarm_queue_accountant_reset acc = acc\<lparr>acc_count := 0, acc_read := 0, acc_write := 0\<rparr>"

definition pf_alarm_queue_get_writeindex :: "accountant \<Rightarrow> (nat \<times> accountant) option" where
  "pf_alarm_queue_get_writeindex acc =
     (if acc_count acc \<ge> PNET_MAX_ALARMS then None
      else Some (acc_write acc, acc\<lparr>
        acc_write := (if acc_write acc + 1 \<ge> PNET_MAX_ALARMS then 0 else acc_write acc + 1),
        acc_count := acc_count acc + 1\<rparr>))"

definition pf_alarm_queue_get_readindex :: "accountant \<Rightarrow> (nat \<times> accountant) option" where
  "pf_alarm_queue_get_readindex acc =
     (if acc_count acc = 0 then None
      else Some (acc_read acc, acc\<lparr>
        acc_read := (if acc_read acc + 1 \<ge> PNET_MAX_ALARMS then 0 else acc_read acc + 1),
        acc_count := acc_count acc - 1\<rparr>))"

section \<open>Received frames\<close>

text \<open>A buffer is its address; the pointer of an empty item is NULL.\<close>

record pf_apmr_msg =
  msg_buf :: "nat option"
  frame_id_pos :: nat

record pf_alarm_receive_queue =
  rq_accountant :: accountant
  rq_items :: "pf_apmr_msg list"

definition empty_msg :: pf_apmr_msg where
  "empty_msg = \<lparr>msg_buf = None, frame_id_pos = 0\<rparr>"

text \<open>The reset also gives the buffers that are freed.\<close>

definition pf_alarm_receive_queue_reset ::
    "pf_alarm_receive_queue \<Rightarrow> pf_alarm_receive_queue \<times> nat list" where
  "pf_alarm_receive_queue_reset q =
     (if \<not> pf_alarm_queue_is_available (rq_accountant q) then (q, [])
      else (q\<lparr>rq_accountant := pf_alarm_queue_accountant_reset (rq_accountant q),
              rq_items := map (\<lambda>_. empty_msg) (rq_items q)\<rparr>,
            List.map_filter msg_buf (rq_items q)))"

definition pf_alarm_receive_queue_post ::
    "pf_apmr_msg \<Rightarrow> pf_alarm_receive_queue \<Rightarrow> int \<times> pf_alarm_receive_queue" where
  "pf_alarm_receive_queue_post m q =
     (if \<not> pf_alarm_queue_is_available (rq_accountant q) then (-1, q)
      else case pf_alarm_queue_get_writeindex (rq_accountant q) of
        None \<Rightarrow> (-1, q)
      | Some (i, acc) \<Rightarrow> (0, q\<lparr>rq_accountant := acc, rq_items := (rq_items q)[i := m]\<rparr>))"

definition pf_alarm_receive_queue_fetch ::
    "pf_alarm_receive_queue \<Rightarrow> pf_apmr_msg option \<times> pf_alarm_receive_queue" where
  "pf_alarm_receive_queue_fetch q =
     (if \<not> pf_alarm_queue_is_available (rq_accountant q) then (None, q)
      else case pf_alarm_queue_get_readindex (rq_accountant q) of
        None \<Rightarrow> (None, q)
      | Some (i, acc) \<Rightarrow> (Some (rq_items q ! i),
          q\<lparr>rq_accountant := acc, rq_items := (rq_items q)[i := empty_msg]\<rparr>))"

section \<open>Alarms to send\<close>

record pf_alarm_send_queue =
  sq_accountant :: accountant
  sq_items :: "pf_alarm_data list"

definition zero_alarm_data :: pf_alarm_data where
  "zero_alarm_data = \<lparr>alarm_type = 0, api_id = 0, slot_nbr = 0, subslot_nbr = 0, module_ident = 0,
     submodule_ident = 0, alarm_specifier = \<lparr>channel_diagnosis = False, manufacturer_diagnosis = False,
       submodule_diagnosis = False, ar_diagnosis = False\<rparr>, sequence_number = 0,
     payload = \<lparr>pl_usi = 0, pl_len = 0, pl_data = Raw_payload []\<rparr>\<rparr>"

definition pf_alarm_send_queue_reset :: "pf_alarm_send_queue \<Rightarrow> pf_alarm_send_queue" where
  "pf_alarm_send_queue_reset q =
     (if \<not> pf_alarm_queue_is_available (sq_accountant q) then q
      else q\<lparr>sq_accountant := pf_alarm_queue_accountant_reset (sq_accountant q),
             sq_items := map (\<lambda>_. zero_alarm_data) (sq_items q)\<rparr>)"

definition pf_alarm_send_queue_post ::
    "pf_alarm_data \<Rightarrow> pf_alarm_send_queue \<Rightarrow> int \<times> pf_alarm_send_queue" where
  "pf_alarm_send_queue_post d q =
     (if \<not> pf_alarm_queue_is_available (sq_accountant q) then (-1, q)
      else case pf_alarm_queue_get_writeindex (sq_accountant q) of
        None \<Rightarrow> (-1, q)
      | Some (i, acc) \<Rightarrow> (0, q\<lparr>sq_accountant := acc, sq_items := (sq_items q)[i := d]\<rparr>))"

definition pf_alarm_send_queue_fetch ::
    "pf_alarm_send_queue \<Rightarrow> pf_alarm_data option \<times> pf_alarm_send_queue" where
  "pf_alarm_send_queue_fetch q =
     (if \<not> pf_alarm_queue_is_available (sq_accountant q) then (None, q)
      else case pf_alarm_queue_get_readindex (sq_accountant q) of
        None \<Rightarrow> (None, q)
      | Some (i, acc) \<Rightarrow> (Some (sq_items q ! i), q\<lparr>sq_accountant := acc\<rparr>))"

section \<open>The contract\<close>

text \<open>A script of operations and what they return, on a list of bounded length.\<close>

datatype 'a queue_op = Post 'a | Fetch

fun list_queue :: "nat \<Rightarrow> 'a queue_op list \<Rightarrow> 'a list \<Rightarrow> (int + 'a option) list \<times> 'a list" where
  "list_queue cap [] xs = ([], xs)"
| "list_queue cap (Post x # ops) xs =
     (if length xs < cap then case list_queue cap ops (xs @ [x]) of (rs, ys) \<Rightarrow> (Inl 0 # rs, ys)
      else case list_queue cap ops xs of (rs, ys) \<Rightarrow> (Inl (-1) # rs, ys))"
| "list_queue cap (Fetch # ops) xs =
     (case xs of [] \<Rightarrow> (case list_queue cap ops [] of (rs, ys) \<Rightarrow> (Inr None # rs, ys))
      | x # xs \<Rightarrow> (case list_queue cap ops xs of (rs, ys) \<Rightarrow> (Inr (Some x) # rs, ys)))"

fun run_queue :: "('a \<Rightarrow> 'q \<Rightarrow> int \<times> 'q) \<Rightarrow> ('q \<Rightarrow> 'a option \<times> 'q) \<Rightarrow> 'a queue_op list \<Rightarrow> 'q \<Rightarrow>
    (int + 'a option) list \<times> 'q" where
  "run_queue post fetch [] q = ([], q)"
| "run_queue post fetch (Post x # ops) q = (case post x q of (r, q) \<Rightarrow>
     case run_queue post fetch ops q of (rs, q) \<Rightarrow> (Inl r # rs, q))"
| "run_queue post fetch (Fetch # ops) q = (case fetch q of (r, q) \<Rightarrow>
     case run_queue post fetch ops q of (rs, q) \<Rightarrow> (Inr r # rs, q))"

locale bounded_queue =
  fixes cap :: nat and post :: "'a \<Rightarrow> 'q \<Rightarrow> int \<times> 'q" and fetch :: "'q \<Rightarrow> 'a option \<times> 'q"
    and inv :: "'q \<Rightarrow> bool" and contents :: "'q \<Rightarrow> 'a list"
  assumes post_room: "inv q \<Longrightarrow> length (contents q) < cap \<Longrightarrow>
      \<exists>q'. post x q = (0, q') \<and> inv q' \<and> contents q' = contents q @ [x]"
    and post_full: "inv q \<Longrightarrow> \<not> length (contents q) < cap \<Longrightarrow> post x q = (-1, q)"
    and fetch_first: "inv q \<Longrightarrow> contents q = x # xs \<Longrightarrow>
      \<exists>q'. fetch q = (Some x, q') \<and> inv q' \<and> contents q' = xs"
    and fetch_empty: "inv q \<Longrightarrow> contents q = [] \<Longrightarrow> fetch q = (None, q)"
    and bounded: "inv q \<Longrightarrow> length (contents q) \<le> cap"
begin

lemma run_refines:
  "inv q \<Longrightarrow> \<exists>q'. run_queue post fetch ops q = (fst (list_queue cap ops (contents q)), q') \<and> inv q' \<and>
     contents q' = snd (list_queue cap ops (contents q))"
proof (induction ops arbitrary: q)
  case Nil
  then show ?case by simp
next
  case (Cons op ops)
  show ?case
  proof (cases op)
    case (Post x)
    show ?thesis
    proof (cases "length (contents q) < cap")
      case True
      from post_room [OF Cons.prems True, of x] obtain q1 where
        "post x q = (0, q1)" "inv q1" "contents q1 = contents q @ [x]" by blast
      with Cons.IH [of q1] True Post show ?thesis by (auto split: prod.split)
    next
      case False
      with post_full [OF Cons.prems False, of x] Cons.IH [OF Cons.prems] Post
      show ?thesis by (auto split: prod.split)
    qed
  next
    case Fetch
    show ?thesis
    proof (cases "contents q")
      case Nil
      with fetch_empty [OF Cons.prems Nil] Cons.IH [OF Cons.prems] Fetch
      show ?thesis by (auto split: prod.split)
    next
      case (Cons x xs)
      from fetch_first [OF \<open>inv q\<close> Cons] obtain q1 where
        "fetch q = (Some x, q1)" "inv q1" "contents q1 = xs" by blast
      with Cons.IH [of q1] Cons Fetch show ?thesis by (auto split: prod.split)
    qed
  qed
qed

lemma post_cases:
  assumes "inv q" and "post x q = (r, q')"
  shows "inv q'" and "r = 0 \<Longrightarrow> contents q' = contents q @ [x]" and "r \<noteq> 0 \<Longrightarrow> q' = q"
  using assms post_room [OF assms(1), of x] post_full [OF assms(1), of x]
  by (cases "length (contents q) < cap"; auto)+

lemma fetch_cases:
  assumes "inv q" and "fetch q = (r, q')"
  shows "inv q'" and "r = Some x \<Longrightarrow> contents q = x # contents q'" and "r = None \<Longrightarrow> q' = q \<and> contents q = []"
  using assms fetch_first [OF assms(1)] fetch_empty [OF assms(1)]
  by (cases "contents q"; fastforce)+

end

section \<open>The ring behind both queues\<close>

definition ring_inv :: "accountant \<Rightarrow> 'a list \<Rightarrow> bool" where
  "ring_inv acc items \<longleftrightarrow> acc_mutex acc \<and> length items = PNET_MAX_ALARMS \<and>
     acc_read acc < PNET_MAX_ALARMS \<and> acc_count acc \<le> PNET_MAX_ALARMS \<and>
     acc_write acc = (acc_read acc + acc_count acc) mod PNET_MAX_ALARMS"

definition ring :: "accountant \<Rightarrow> 'a list \<Rightarrow> 'a list" where
  "ring acc items = map (\<lambda>k. items ! ((acc_read acc + k) mod PNET_MAX_ALARMS)) [0..<acc_count acc]"

lemma max_alarms_pos [simp]: "0 < PNET_MAX_ALARMS"
  by (simp add: PNET_MAX_ALARMS_def)

lemma ring_length [simp]: "length (ring acc items) = acc_count acc"
  by (simp add: ring_def)

lemma ring_next: "i < n \<Longrightarrow> (if i + 1 \<ge> n then 0 else i + 1) = Suc i mod (n :: nat)"
  by (simp add: le_Suc_eq less_Suc_eq_le)

lemma ring_index_inj:
  assumes "(r + i) mod n = (r + j) mod (n :: nat)" and "i < n" and "j < n"
  shows "i = j"
proof -
  have *: "i = j" if "i \<le> j" "j < n" "(r + i) mod n = (r + j) mod n" for i j
  proof -
    from that have "n dvd (r + j) - (r + i)" by (intro iffD1 [OF mod_eq_dvd_iff_nat that(3) [symmetric]]) simp
    then have "n dvd j - i" by simp
    with that show ?thesis by (auto dest: dvd_imp_le)
  qed
  show ?thesis using * [of i j] * [of j i] assms by linarith
qed

lemma ring_update_other:
  assumes "ring_inv acc items" and "c < PNET_MAX_ALARMS" and "k < PNET_MAX_ALARMS" and "k \<noteq> c"
  shows "items[(acc_read acc + c) mod PNET_MAX_ALARMS := x] ! ((acc_read acc + k) mod PNET_MAX_ALARMS) =
           items ! ((acc_read acc + k) mod PNET_MAX_ALARMS)"
  using ring_index_inj [of "acc_read acc" c PNET_MAX_ALARMS k] assms by (intro nth_list_update_neq) auto

lemma ring_push:
  assumes inv: "ring_inv acc items" and room: "acc_count acc < PNET_MAX_ALARMS"
  shows "\<exists>acc'. pf_alarm_queue_get_writeindex acc = Some (acc_write acc, acc') \<and>
           ring_inv acc' (items[acc_write acc := x]) \<and> ring acc' (items[acc_write acc := x]) = ring acc items @ [x]"
proof -
  let ?N = PNET_MAX_ALARMS and ?r = "acc_read acc" and ?c = "acc_count acc"
  let ?acc = "acc\<lparr>acc_write := Suc (acc_write acc) mod ?N, acc_count := ?c + 1\<rparr>"
  have w: "acc_write acc = (?r + ?c) mod ?N" and "acc_write acc < ?N" using inv by (auto simp: ring_inv_def)
  then have "pf_alarm_queue_get_writeindex acc = Some (acc_write acc, ?acc)"
    using room ring_next [of "acc_write acc" ?N] by (simp add: pf_alarm_queue_get_writeindex_def)
  moreover have "ring_inv ?acc (items[acc_write acc := x])"
    using inv room w by (simp add: ring_inv_def mod_Suc_eq)
  moreover have "ring ?acc (items[acc_write acc := x]) = ring acc items @ [x]"
  proof -
    have "items[(?r + ?c) mod ?N := x] ! ((?r + ?c) mod ?N) = x"
      using inv by (simp add: ring_inv_def)
    then show ?thesis using ring_update_other [OF inv room, of _ x] room by (simp add: ring_def w)
  qed
  ultimately show ?thesis by blast
qed

lemma ring_pop:
  assumes inv: "ring_inv acc items" and c: "ring acc items = x # xs"
  shows "\<exists>acc'. pf_alarm_queue_get_readindex acc = Some (acc_read acc, acc') \<and> items ! acc_read acc = x \<and>
           (\<forall>y. ring_inv acc' (items[acc_read acc := y]) \<and> ring acc' (items[acc_read acc := y]) = xs) \<and>
           ring_inv acc' items \<and> ring acc' items = xs"
proof -
  let ?N = PNET_MAX_ALARMS and ?r = "acc_read acc" and ?c = "acc_count acc"
  let ?acc = "acc\<lparr>acc_read := Suc ?r mod ?N, acc_count := ?c - 1\<rparr>"
  have r: "?r < ?N" and le: "?c \<le> ?N" using inv by (auto simp: ring_inv_def)
  have pos: "0 < ?c" using c by (cases "?c") (simp_all add: ring_def)
  then obtain d where d: "?c = Suc d" by (cases ?c) simp_all
  have up: "[0..<Suc d] = 0 # map Suc [0..<d]" by (simp add: upt_conv_Cons map_Suc_upt del: upt_Suc)
  have x: "items ! ?r = x" and xs: "xs = map (\<lambda>k. items ! ((?r + Suc k) mod ?N)) [0..<d]"
    using c r unfolding ring_def d up by (auto simp: comp_def)
  have get: "pf_alarm_queue_get_readindex acc = Some (?r, ?acc)"
    using pos r ring_next [of ?r ?N] by (simp add: pf_alarm_queue_get_readindex_def)
  have i: "ring_inv ?acc items" if "length items = ?N" for items :: "'a list"
    using inv pos that by (simp add: ring_inv_def mod_Suc_eq mod_add_left_eq flip: Suc_eq_plus1)
      (simp add: mod_simps d)
  have same: "ring ?acc items = xs" by (simp add: ring_def d xs mod_simps)
  have "items[?r := y] ! ((?r + Suc k) mod ?N) = items ! ((?r + Suc k) mod ?N)" if "k < d" for k y
    using ring_update_other [OF inv, of 0 "Suc k" y] r le d that by simp
  then have "ring ?acc (items[?r := y]) = xs" for y by (simp add: ring_def d xs mod_simps)
  with get x i same inv show ?thesis by (auto simp: ring_inv_def)
qed

lemma ring_empty: "ring acc items = [] \<Longrightarrow> pf_alarm_queue_get_readindex acc = None"
  by (simp add: ring_def pf_alarm_queue_get_readindex_def)

lemma ring_full: "\<not> length (ring acc items) < PNET_MAX_ALARMS \<Longrightarrow> pf_alarm_queue_get_writeindex acc = None"
  by (simp add: pf_alarm_queue_get_writeindex_def)

section \<open>Both queues keep the contract\<close>

definition receive_inv :: "pf_alarm_receive_queue \<Rightarrow> bool" where
  "receive_inv q = ring_inv (rq_accountant q) (rq_items q)"

definition received :: "pf_alarm_receive_queue \<Rightarrow> pf_apmr_msg list" where
  "received q = ring (rq_accountant q) (rq_items q)"

definition send_inv :: "pf_alarm_send_queue \<Rightarrow> bool" where
  "send_inv q = ring_inv (sq_accountant q) (sq_items q)"

definition to_send :: "pf_alarm_send_queue \<Rightarrow> pf_alarm_data list" where
  "to_send q = ring (sq_accountant q) (sq_items q)"

lemmas queue_op_defs = pf_alarm_queue_is_available_def pf_alarm_receive_queue_post_def
  pf_alarm_receive_queue_fetch_def pf_alarm_send_queue_post_def pf_alarm_send_queue_fetch_def

interpretation receive_queue: bounded_queue PNET_MAX_ALARMS pf_alarm_receive_queue_post
  pf_alarm_receive_queue_fetch receive_inv received
proof
  fix q :: pf_alarm_receive_queue and x xs
  assume inv: "receive_inv q"
  then have av: "acc_mutex (rq_accountant q)" by (simp add: receive_inv_def ring_inv_def)
  show "\<exists>q'. pf_alarm_receive_queue_post x q = (0, q') \<and> receive_inv q' \<and> received q' = received q @ [x]"
    if "length (received q) < PNET_MAX_ALARMS"
    using ring_push [of "rq_accountant q" "rq_items q" x] inv av that
    by (auto simp: queue_op_defs receive_inv_def received_def)
  show "pf_alarm_receive_queue_post x q = (-1, q)" if "\<not> length (received q) < PNET_MAX_ALARMS"
    using ring_full that av by (simp add: queue_op_defs received_def)
  show "\<exists>q'. pf_alarm_receive_queue_fetch q = (Some x, q') \<and> receive_inv q' \<and> received q' = xs"
    if "received q = x # xs"
    using ring_pop [of "rq_accountant q" "rq_items q" x xs] inv av that
    by (auto simp: queue_op_defs receive_inv_def received_def)
  show "pf_alarm_receive_queue_fetch q = (None, q)" if "received q = []"
    using ring_empty [OF that [unfolded received_def]] av by (simp add: queue_op_defs)
  show "length (received q) \<le> PNET_MAX_ALARMS" using inv by (simp add: receive_inv_def received_def ring_inv_def)
qed

interpretation send_queue: bounded_queue PNET_MAX_ALARMS pf_alarm_send_queue_post
  pf_alarm_send_queue_fetch send_inv to_send
proof
  fix q :: pf_alarm_send_queue and x xs
  assume inv: "send_inv q"
  then have av: "acc_mutex (sq_accountant q)" by (simp add: send_inv_def ring_inv_def)
  show "\<exists>q'. pf_alarm_send_queue_post x q = (0, q') \<and> send_inv q' \<and> to_send q' = to_send q @ [x]"
    if "length (to_send q) < PNET_MAX_ALARMS"
    using ring_push [of "sq_accountant q" "sq_items q" x] inv av that
    by (auto simp: queue_op_defs send_inv_def to_send_def)
  show "pf_alarm_send_queue_post x q = (-1, q)" if "\<not> length (to_send q) < PNET_MAX_ALARMS"
    using ring_full that av by (simp add: queue_op_defs to_send_def)
  show "\<exists>q'. pf_alarm_send_queue_fetch q = (Some x, q') \<and> send_inv q' \<and> to_send q' = xs"
    if "to_send q = x # xs"
    using ring_pop [of "sq_accountant q" "sq_items q" x xs] inv av that
    by (auto simp: queue_op_defs send_inv_def to_send_def)
  show "pf_alarm_send_queue_fetch q = (None, q)" if "to_send q = []"
    using ring_empty [OF that [unfolded to_send_def]] av by (simp add: queue_op_defs)
  show "length (to_send q) \<le> PNET_MAX_ALARMS" using inv by (simp add: send_inv_def to_send_def ring_inv_def)
qed

end
