(* ===== verification/Alarm_State.thy ===== *)
theory Alarm_State
  imports Alarm_Queue Scheduler_Props
begin

unbundle bit_operations_syntax

text \<open>
  The state of the alarm component (src/common/pf_alarm.c) and what it calls.

  A stack instance keeps for every application relation (AR) and for each of the two
  priorities (0 low, 1 high) the four protocol machines of an alarm channel: APMS sends a
  frame and waits for its transport acknowledgement, APMR receives, ALPMI sends alarm
  notifications, ALPMR receives them. The state has the machines of all ARs, the scheduler,
  the frame buffers that are allocated (an address space with the bytes of every live
  buffer: freeing an address that is not live gives \<^const>\<open>None\<close>, like a failed assertion or
  a null pointer) and the rest of the world. What the component calls outside itself are
  functions of an environment: the Ethernet port, the error indication to CMSU, which may
  close the AR, the callbacks of the application, and the log book.
\<close>

section \<open>Protocol machines\<close>

datatype pf_apms_state = PF_APMS_STATE_CLOSED | PF_APMS_STATE_OPEN | PF_APMS_STATE_WTACK
datatype pf_apmr_state = PF_APMR_STATE_CLOSED | PF_APMR_STATE_OPEN | PF_APMR_STATE_WCNF
datatype pf_alpmi_state = PF_ALPMI_STATE_W_START | PF_ALPMI_STATE_W_ALARM | PF_ALPMI_STATE_W_ACK
datatype pf_alpmr_state = PF_ALPMR_STATE_W_START | PF_ALPMR_STATE_W_NOTIFY |
  PF_ALPMR_STATE_W_USER_ACK | PF_ALPMR_STATE_W_TACK

record pf_alpmx =
  alpmx_da :: "u8 list"
  prev_sequence_number :: u16
  alpm_sequence_number :: u16
  alpmi_state :: pf_alpmi_state
  alpmr_state :: pf_alpmr_state

text \<open>The pointers to the AR (\<open>p_ar\<close>, cleared when the machine is closed) and to the last frame.\<close>

record pf_apmx =
  has_ar :: bool
  apmx_da :: "u8 list"
  apmx_src_ref :: u16
  apmx_dst_ref :: u16
  apms_state :: pf_apms_state
  apmr_state :: pf_apmr_state
  send_seq_count :: u16
  send_seq_count_o :: u16
  exp_seq_count :: u16
  exp_seq_count_o :: u16
  alarm_receive_q :: pf_alarm_receive_queue
  p_rta :: "nat option"
  high_priority :: bool
  vlan_prio :: u16
  block_type_alarm_notify :: u16
  block_type_alarm_ack :: u16
  apmx_frame_id :: u16
  timeout_us :: u32
  resend_timeout :: sched_handle
  resend_counter :: u32

text \<open>The fields of \<open>pf_ar_t\<close> that the component uses.\<close>

record alarm_ar =
  ar_in_use :: bool
  apmx :: "nat \<Rightarrow> pf_apmx"
  alpmx :: "nat \<Rightarrow> pf_alpmx"
  alarm_send_q :: "nat \<Rightarrow> pf_alarm_send_queue"
  alarm_enable :: bool
  err_cls :: u8
  err_code :: u8
  initiator_mac :: "u8 list"
  req_rta_timeout_factor :: u16
  req_rta_retries :: u16
  req_transport_udp :: bool
  req_local_alarm_reference :: u16
  req_max_alarm_data_length :: u16
  alarm_res_local_alarm_reference :: u16
  pull_alarm_allowed :: bool

text \<open>A subslot, as far as the summary of diagnoses looks at it; \<open>owner\<close> is an AR.\<close>

record alarm_subslot =
  ownsm_ioc_or_ios :: bool
  sub_owner :: "nat option"
  sub_diag_list :: u16

datatype alarm_cb = Apms_timeout | Other_cb nat

record 'w alarm_net =
  n_sched :: "(alarm_cb, nat \<times> nat) sched"
  n_now :: u32
  n_bufs :: "nat \<rightharpoonup> u8 list"
  n_next_buf :: nat
  global_alarm_enable :: bool
  alarm_endpoint :: "(bool \<times> nat option) list"
  n_ar :: "nat \<Rightarrow> alarm_ar"
  n_device_mac :: "u8 list"
  n_diag_items :: "pf_diag_item list"
  n_subslot :: "u32 \<Rightarrow> u16 \<Rightarrow> u16 \<Rightarrow> alarm_subslot option"
  n_module_ident :: "u32 \<Rightarrow> u16 \<Rightarrow> u32 option"
  n_submodule_ident :: "u32 \<Rightarrow> u16 \<Rightarrow> u16 \<Rightarrow> u32 option"
  n_world :: 'w

section \<open>Environment\<close>

text \<open>
  A function that may fail an assertion gives an option; one with a result gives it beside
  the new state.
\<close>

type_synonym 'w cmd = "'w alarm_net \<Rightarrow> 'w alarm_net option"
type_synonym ('w, 'a) fn = "'w alarm_net \<Rightarrow> ('a \<times> 'w alarm_net) option"

record pnet_alarm_argument =
  arg_api_id :: u32
  arg_slot_nbr :: u16
  arg_subslot_nbr :: u16
  arg_alarm_type :: u16
  arg_sequence_number :: u16
  arg_alarm_specifier :: pnet_alarm_spec

record 'w alarm_env =
  env_alloc :: "'w \<Rightarrow> bool"
  env_eth_send :: "u8 list \<Rightarrow> 'w \<Rightarrow> int \<times> 'w"
  env_map_add :: "u16 \<Rightarrow> 'w \<Rightarrow> 'w"
  env_map_remove :: "u16 \<Rightarrow> 'w \<Rightarrow> 'w"
  env_error_ind :: "nat \<Rightarrow> u8 \<Rightarrow> u8 \<Rightarrow> 'w cmd"
  env_alarm_cnf :: "nat \<Rightarrow> pnet_pnio_status \<Rightarrow> 'w cmd"
  env_alarm_ind :: "nat \<Rightarrow> pnet_alarm_argument \<Rightarrow> u16 \<Rightarrow> u16 \<Rightarrow> u8 list \<Rightarrow> 'w cmd"
  env_ack_cnf :: "nat \<Rightarrow> int \<Rightarrow> 'w cmd"
  env_log :: "nat \<Rightarrow> pnet_pnio_status \<Rightarrow> 'w cmd"

section \<open>Access to the state\<close>

definition upd_ar :: "nat \<Rightarrow> (alarm_ar \<Rightarrow> alarm_ar) \<Rightarrow> 'w alarm_net \<Rightarrow> 'w alarm_net" where
  "upd_ar a f n = n\<lparr>n_ar := (n_ar n)(a := f (n_ar n a))\<rparr>"

definition upd_apmx :: "nat \<Rightarrow> nat \<Rightarrow> (pf_apmx \<Rightarrow> pf_apmx) \<Rightarrow> 'w alarm_net \<Rightarrow> 'w alarm_net" where
  "upd_apmx a ix f = upd_ar a (\<lambda>r. r\<lparr>apmx := (apmx r)(ix := f (apmx r ix))\<rparr>)"

definition upd_alpmx :: "nat \<Rightarrow> nat \<Rightarrow> (pf_alpmx \<Rightarrow> pf_alpmx) \<Rightarrow> 'w alarm_net \<Rightarrow> 'w alarm_net" where
  "upd_alpmx a ix f = upd_ar a (\<lambda>r. r\<lparr>alpmx := (alpmx r)(ix := f (alpmx r ix))\<rparr>)"

abbreviation get_apmx :: "nat \<Rightarrow> nat \<Rightarrow> 'w alarm_net \<Rightarrow> pf_apmx" where
  "get_apmx a ix n \<equiv> apmx (n_ar n a) ix"

abbreviation get_alpmx :: "nat \<Rightarrow> nat \<Rightarrow> 'w alarm_net \<Rightarrow> pf_alpmx" where
  "get_alpmx a ix n \<equiv> alpmx (n_ar n a) ix"

text \<open>\<open>p_apmx->p_ar\<close>: the AR, unless the pointer has been cleared.\<close>

definition deref_ar :: "nat \<Rightarrow> nat \<Rightarrow> 'w alarm_net \<Rightarrow> alarm_ar option" where
  "deref_ar a ix n = (if has_ar (get_apmx a ix n) then Some (n_ar n a) else None)"

definition set_err :: "nat \<Rightarrow> u8 \<Rightarrow> u8 \<Rightarrow> 'w alarm_net \<Rightarrow> 'w alarm_net" where
  "set_err a c d = upd_ar a (\<lambda>r. r\<lparr>err_cls := c, err_code := d\<rparr>)"

text \<open>Buffers.\<close>

definition pnal_buf_alloc :: "'w alarm_env \<Rightarrow> 'w alarm_net \<Rightarrow> nat option \<times> 'w alarm_net" where
  "pnal_buf_alloc env n = (if env_alloc env (n_world n)
     then (Some (n_next_buf n), n\<lparr>n_bufs := (n_bufs n)(n_next_buf n \<mapsto> []), n_next_buf := n_next_buf n + 1\<rparr>)
     else (None, n))"

definition pnal_buf_free :: "nat \<Rightarrow> 'w cmd" where
  "pnal_buf_free b n = (if n_bufs n b = None then None else Some (n\<lparr>n_bufs := (n_bufs n)(b := None)\<rparr>))"

fun free_all :: "nat list \<Rightarrow> 'w cmd" where
  "free_all [] n = Some n"
| "free_all (b # bs) n = do { n \<leftarrow> pnal_buf_free b n; free_all bs n }"

definition buf_store :: "nat \<Rightarrow> u8 list \<Rightarrow> 'w cmd" where
  "buf_store b xs n = (if n_bufs n b = None then None else Some (n\<lparr>n_bufs := (n_bufs n)(b \<mapsto> xs)\<rparr>))"

definition pf_eth_send_on_management_port :: "'w alarm_env \<Rightarrow> nat \<Rightarrow> ('w, int) fn" where
  "pf_eth_send_on_management_port env b n = do {
     xs \<leftarrow> n_bufs n b;
     let (r, w) = env_eth_send env xs (n_world n);
     Some (r, n\<lparr>n_world := w\<rparr>)
   }"

text \<open>Timers of an APMS machine.\<close>

definition start_resend_timer :: "nat \<Rightarrow> nat \<Rightarrow> ('w, int) fn" where
  "start_resend_timer a ix n = do {
     (r, h, s) \<leftarrow> pf_scheduler_add (n_now n) (timeout_us (get_apmx a ix n)) Apms_timeout (a, ix)
                     (resend_timeout (get_apmx a ix n)) (n_sched n);
     Some (r, upd_apmx a ix (\<lambda>x. x\<lparr>resend_timeout := h\<rparr>) (n\<lparr>n_sched := s\<rparr>))
   }"

definition stop_resend_timer :: "nat \<Rightarrow> nat \<Rightarrow> 'w cmd" where
  "stop_resend_timer a ix n = do {
     (h, s) \<leftarrow> pf_scheduler_remove_if_running (resend_timeout (get_apmx a ix n)) (n_sched n);
     Some (upd_apmx a ix (\<lambda>x. x\<lparr>resend_timeout := h\<rparr>) (n\<lparr>n_sched := s\<rparr>))
   }"

definition free_rta :: "nat \<Rightarrow> nat \<Rightarrow> 'w cmd" where
  "free_rta a ix n = (case p_rta (get_apmx a ix n) of
       None \<Rightarrow> Some n
     | Some b \<Rightarrow> pnal_buf_free b (upd_apmx a ix (\<lambda>x. x\<lparr>p_rta := None\<rparr>) n))"

end
