(* ===== verification/Alarm.thy ===== *)
theory Alarm
  imports Alarm_State
begin

unbundle bit_operations_syntax

text \<open>
  The operations of src/common/pf_alarm.c, in the order of the file. \<open>a\<close> is the AR, \<open>ix\<close> the
  priority: together they are the pointer \<open>p_apmx\<close>. Log messages are left out.
\<close>

section \<open>Constants\<close>

definition PF_FRAME_ID_ALARM_HIGH :: u16 where "PF_FRAME_ID_ALARM_HIGH = 0xfc01"
definition PF_FRAME_ID_ALARM_LOW :: u16 where "PF_FRAME_ID_ALARM_LOW = 0xfe01"
definition PF_RTA_PDU_TYPE_DATA :: u8 where "PF_RTA_PDU_TYPE_DATA = 1"
definition PF_RTA_PDU_TYPE_NACK :: u8 where "PF_RTA_PDU_TYPE_NACK = 2"
definition PF_RTA_PDU_TYPE_ACK :: u8 where "PF_RTA_PDU_TYPE_ACK = 3"
definition PF_RTA_PDU_TYPE_ERR :: u8 where "PF_RTA_PDU_TYPE_ERR = 4"
definition PF_ALARM_PDU_TYPE_VERSION_1 :: u8 where "PF_ALARM_PDU_TYPE_VERSION_1 = 1"
definition PNET_ERROR_CODE_1_ALPMI :: u8 where "PNET_ERROR_CODE_1_ALPMI = 0x41"
definition PNET_ERROR_CODE_1_ALPMR :: u8 where "PNET_ERROR_CODE_1_ALPMR = 0x42"
definition PNET_ERROR_CODE_1_APMR :: u8 where "PNET_ERROR_CODE_1_APMR = 0x46"
definition PNET_ERROR_CODE_1_APMS :: u8 where "PNET_ERROR_CODE_1_APMS = 0x47"
definition PNET_ERROR_CODE_1_RTA_ERR_CLS_PROTOCOL :: u8 where "PNET_ERROR_CODE_1_RTA_ERR_CLS_PROTOCOL = 0xFD"
definition PNET_ERROR_CODE_2_INVALID_STATE :: u8 where "PNET_ERROR_CODE_2_INVALID_STATE = 0x00"
definition PNET_ERROR_CODE_2_ALPMX_INVALID :: u8 where "PNET_ERROR_CODE_2_ALPMX_INVALID = 0x02"
definition PNET_ERROR_CODE_2_ALPMX_WRONG_STATE :: u8 where "PNET_ERROR_CODE_2_ALPMX_WRONG_STATE = 0x03"
definition PNET_ERROR_CODE_2_ABORT_CODE_SEQ :: u8 where "PNET_ERROR_CODE_2_ABORT_CODE_SEQ = 0x01"
definition PNET_ERROR_CODE_2_ABORT_AR_ALARM_SEND_CNF_NEG :: u8 where "PNET_ERROR_CODE_2_ABORT_AR_ALARM_SEND_CNF_NEG = 0x08"
definition PNET_ERROR_CODE_2_ABORT_AR_ALARM_IND_ERROR :: u8 where "PNET_ERROR_CODE_2_ABORT_AR_ALARM_IND_ERROR = 0x0b"
definition PNET_ERROR_CODE_2_ABORT_AR_PROTOCOL_VIOLATION :: u8 where "PNET_ERROR_CODE_2_ABORT_AR_PROTOCOL_VIOLATION = 0x12"
definition PNET_ERROR_CODE_PNIO :: u8 where "PNET_ERROR_CODE_PNIO = 0x81"
definition PNET_ERROR_CODE_RTA_ERROR :: u8 where "PNET_ERROR_CODE_RTA_ERROR = 0xCF"
definition PNET_ERROR_DECODE_PNIO :: u8 where "PNET_ERROR_DECODE_PNIO = 0x81"

definition apmx_timer_name :: str_ptr where "apmx_timer_name = 2"

lemmas pdu_type_defs = PF_RTA_PDU_TYPE_DATA_def PF_RTA_PDU_TYPE_NACK_def PF_RTA_PDU_TYPE_ACK_def
  PF_RTA_PDU_TYPE_ERR_def PF_ALARM_PDU_TYPE_VERSION_1_def

definition pf_alarm_init :: "'w alarm_net \<Rightarrow> 'w alarm_net" where
  "pf_alarm_init n = n\<lparr>global_alarm_enable := True\<rparr>"

section \<open>ALPMI and ALPMR\<close>

text \<open>The indication takes the AR of the machine; without one CMSU would use a null pointer.\<close>

definition pf_alarm_error_ind :: "'w alarm_env \<Rightarrow> nat \<Rightarrow> nat \<Rightarrow> u8 \<Rightarrow> u8 \<Rightarrow> 'w cmd" where
  "pf_alarm_error_ind env a ix c d n = do { _ \<leftarrow> deref_ar a ix n; env_error_ind env a c d n }"

definition alpmx_activate_step :: "nat \<Rightarrow> nat \<Rightarrow> int \<times> 'w alarm_net \<Rightarrow> int \<times> 'w alarm_net" where
  "alpmx_activate_step a ix rn = (case rn of (ret, n) \<Rightarrow>
     (let x = get_alpmx a ix n in
      if alpmi_state x = PF_ALPMI_STATE_W_START \<and> alpmr_state x = PF_ALPMR_STATE_W_START then
        (ret, upd_alpmx a ix (\<lambda>x. x\<lparr>alpmx_da := initiator_mac (n_ar n a), prev_sequence_number := 0xffff,
           alpm_sequence_number := 0, alpmr_state := PF_ALPMR_STATE_W_NOTIFY,
           alpmi_state := PF_ALPMI_STATE_W_ALARM\<rparr>) n)
      else if alpmi_state x \<noteq> PF_ALPMI_STATE_W_START then
        (-1, set_err a PNET_ERROR_CODE_1_ALPMI PNET_ERROR_CODE_2_ALPMX_WRONG_STATE n)
      else (-1, set_err a PNET_ERROR_CODE_1_ALPMR PNET_ERROR_CODE_2_ALPMX_WRONG_STATE n)))"

definition pf_alarm_alpmx_activate :: "nat \<Rightarrow> 'w alarm_net \<Rightarrow> int \<times> 'w alarm_net" where
  "pf_alarm_alpmx_activate a n = alpmx_activate_step a 1 (alpmx_activate_step a 0 (0, n))"

definition pf_alarm_alpmx_close :: "nat \<Rightarrow> 'w alarm_net \<Rightarrow> int \<times> 'w alarm_net" where
  "pf_alarm_alpmx_close a n =
     (0, upd_alpmx a 1 (\<lambda>x. x\<lparr>alpmi_state := PF_ALPMI_STATE_W_START, alpmr_state := PF_ALPMR_STATE_W_START\<rparr>)
        (upd_alpmx a 0 (\<lambda>x. x\<lparr>alpmi_state := PF_ALPMI_STATE_W_START, alpmr_state := PF_ALPMR_STATE_W_START\<rparr>) n))"

definition pf_alarm_alpmi_apms_a_data_cnf :: "'w alarm_env \<Rightarrow> nat \<Rightarrow> nat \<Rightarrow> int \<Rightarrow> 'w cmd" where
  "pf_alarm_alpmi_apms_a_data_cnf env a ix res n =
     (if res \<noteq> 0 then do {
        _ \<leftarrow> deref_ar a ix n;
        pf_alarm_error_ind env a ix PNET_ERROR_CODE_1_ALPMI PNET_ERROR_CODE_2_ALPMX_INVALID
          (set_err a PNET_ERROR_CODE_1_ALPMI PNET_ERROR_CODE_2_ALPMX_INVALID n)
      } else Some n)"

definition pf_alarm_alpmi_apmr_a_data_ind ::
    "'w alarm_env \<Rightarrow> nat \<Rightarrow> nat \<Rightarrow> pnet_pnio_status \<Rightarrow> ('w, int) fn" where
  "pf_alarm_alpmi_apmr_a_data_ind env a ix st n =
     (case alpmi_state (get_alpmx a ix n) of
        PF_ALPMI_STATE_W_ACK \<Rightarrow> do {
          let n = upd_alpmx a ix (\<lambda>x. x\<lparr>alpmi_state := PF_ALPMI_STATE_W_ALARM\<rparr>) n;
          _ \<leftarrow> deref_ar a ix n;
          n \<leftarrow> env_alarm_cnf env a st n;
          Some (0, n)
        }
      | _ \<Rightarrow> Some (0, n))"

definition alpmr_neg_cnf :: "'w alarm_env \<Rightarrow> nat \<Rightarrow> nat \<Rightarrow> 'w cmd" where
  "alpmr_neg_cnf env a ix n = do {
     _ \<leftarrow> deref_ar a ix n;
     pf_alarm_error_ind env a ix PNET_ERROR_CODE_1_ALPMR PNET_ERROR_CODE_2_ALPMX_INVALID
       (set_err a PNET_ERROR_CODE_1_ALPMR PNET_ERROR_CODE_2_ALPMX_INVALID n)
   }"

definition pf_alarm_alpmr_apms_a_data_cnf :: "'w alarm_env \<Rightarrow> nat \<Rightarrow> nat \<Rightarrow> int \<Rightarrow> 'w cmd" where
  "pf_alarm_alpmr_apms_a_data_cnf env a ix res n =
     (case alpmr_state (get_alpmx a ix n) of
        PF_ALPMR_STATE_W_START \<Rightarrow> Some n
      | PF_ALPMR_STATE_W_TACK \<Rightarrow>
          (if res \<noteq> 0 then alpmr_neg_cnf env a ix n
           else do {
             _ \<leftarrow> deref_ar a ix n;
             n \<leftarrow> env_ack_cnf env a res n;
             Some (upd_alpmx a ix (\<lambda>x. x\<lparr>alpmr_state := PF_ALPMR_STATE_W_NOTIFY\<rparr>) n)
           })
      | _ \<Rightarrow> (if res \<noteq> 0 then alpmr_neg_cnf env a ix n else Some n))"

definition alarm_argument :: "pf_alarm_data \<Rightarrow> pnet_alarm_argument" where
  "alarm_argument d = \<lparr>arg_api_id = api_id d, arg_slot_nbr = slot_nbr d, arg_subslot_nbr = subslot_nbr d,
     arg_alarm_type = alarm_type d, arg_sequence_number = sequence_number d,
     arg_alarm_specifier = alarm_specifier d\<rparr>"

definition pf_alarm_alpmr_apmr_a_data_ind ::
    "'w alarm_env \<Rightarrow> nat \<Rightarrow> nat \<Rightarrow> pf_alarm_data \<Rightarrow> u16 \<Rightarrow> u16 \<Rightarrow> u8 list \<Rightarrow> ('w, int) fn" where
  "pf_alarm_alpmr_apmr_a_data_ind env a ix d data_len data_usi xs n =
     (case alpmr_state (get_alpmx a ix n) of
        PF_ALPMR_STATE_W_START \<Rightarrow> Some (0, n)
      | PF_ALPMR_STATE_W_NOTIFY \<Rightarrow> do {
          let n = upd_alpmx a ix (\<lambda>x. x\<lparr>alpmr_state := PF_ALPMR_STATE_W_USER_ACK\<rparr>) n;
          _ \<leftarrow> deref_ar a ix n;
          n \<leftarrow> env_alarm_ind env a (alarm_argument d) data_len data_usi xs n;
          Some (0, n)
        }
      | _ \<Rightarrow> do {
          _ \<leftarrow> deref_ar a ix n;
          n \<leftarrow> pf_alarm_error_ind env a ix PNET_ERROR_CODE_1_RTA_ERR_CLS_PROTOCOL
                 PNET_ERROR_CODE_2_ABORT_AR_PROTOCOL_VIOLATION
                 (set_err a PNET_ERROR_CODE_1_RTA_ERR_CLS_PROTOCOL
                    PNET_ERROR_CODE_2_ABORT_AR_PROTOCOL_VIOLATION n);
          Some (-1, n)
        })"

section \<open>Endpoints and received frames\<close>

fun allocate_endpoint_from :: "nat \<Rightarrow> nat \<Rightarrow> (bool \<times> nat option) list \<Rightarrow> nat \<times> (bool \<times> nat option) list" where
  "allocate_endpoint_from i a [] = (0, [])"
| "allocate_endpoint_from i a (e # es) =
     (if snd e = None then (i + 1, (False, Some a) # es)
      else case allocate_endpoint_from (i + 1) a es of (r, es) \<Rightarrow> (r, e # es))"

definition pf_alarm_allocate_endpoint :: "nat \<Rightarrow> 'w alarm_net \<Rightarrow> nat \<times> 'w alarm_net" where
  "pf_alarm_allocate_endpoint a n = (case allocate_endpoint_from 0 a (alarm_endpoint n) of
     (r, es) \<Rightarrow> (r, n\<lparr>alarm_endpoint := es\<rparr>))"

fun free_endpoint_of :: "nat \<Rightarrow> (bool \<times> nat option) list \<Rightarrow> (bool \<times> nat option) list" where
  "free_endpoint_of a [] = []"
| "free_endpoint_of a (e # es) = (if snd e = Some a then (False, None) # es else e # free_endpoint_of a es)"

definition pf_alarm_free_endpoint :: "nat \<Rightarrow> 'w alarm_net \<Rightarrow> 'w alarm_net" where
  "pf_alarm_free_endpoint a n = n\<lparr>alarm_endpoint := free_endpoint_of a (alarm_endpoint n)\<rparr>"

fun set_endpoint_active :: "bool \<Rightarrow> nat \<Rightarrow> (bool \<times> nat option) list \<Rightarrow> (bool \<times> nat option) list" where
  "set_endpoint_active v a [] = []"
| "set_endpoint_active v a (e # es) =
     (if snd e = Some a then (v, Some a) # es else e # set_endpoint_active v a es)"

definition frame_reader :: "u8 list \<Rightarrow> nat \<Rightarrow> rstate" where
  "frame_reader xs pos = \<lparr>g_result = PF_PARSE_OK, g_is_big_endian = True, g_buf = Some xs,
     g_len = length xs, r_pos = pos\<rparr>"

text \<open>The AR that the endpoint of a received frame stands for.\<close>

definition endpoint_ar :: "u16 \<Rightarrow> 'w alarm_net \<Rightarrow> nat option" where
  "endpoint_ar e n =
     (if e > 0 \<and> unat e \<le> PNET_MAX_AR \<and> fst (alarm_endpoint n ! (unat e - 1))
      then snd (alarm_endpoint n ! (unat e - 1)) else None)"

definition pf_alarm_apmr_frame_handler :: "u16 \<Rightarrow> nat option \<Rightarrow> nat \<Rightarrow> ('w, int) fn" where
  "pf_alarm_apmr_frame_handler fid p_buf frame_pos n =
     (case p_buf of None \<Rightarrow> Some (1, n)
      | Some b \<Rightarrow> do {
          xs \<leftarrow> n_bufs n b;
          let prio = (if fid = PF_FRAME_ID_ALARM_HIGH then 1 else 0);
          let endpoint = fst (run_state pf_get_uint16 (frame_reader xs (frame_pos + 2)));
          (case endpoint_ar endpoint n of None \<Rightarrow> Some (0, n)
           | Some a \<Rightarrow>
               (case pf_alarm_receive_queue_post \<lparr>msg_buf = p_buf, frame_id_pos = frame_pos\<rparr>
                       (alarm_receive_q (get_apmx a prio n)) of
                  (r, q) \<Rightarrow> Some (if r = 0 then 1 else 0, upd_apmx a prio (\<lambda>x. x\<lparr>alarm_receive_q := q\<rparr>) n)))
        })"

section \<open>APMS: sending\<close>

definition pf_alarm_apms_timeout :: "'w alarm_env \<Rightarrow> nat \<times> nat \<Rightarrow> 'w cmd" where
  "pf_alarm_apms_timeout env arg n = (case arg of (a, ix) \<Rightarrow>
     (let n = upd_apmx a ix (\<lambda>x. x\<lparr>resend_timeout := pf_scheduler_reset_handle (resend_timeout x)\<rparr>) n;
          x = get_apmx a ix n in
      if apms_state x = PF_APMS_STATE_WTACK then
        (case p_rta x of None \<Rightarrow> Some n
         | Some b \<Rightarrow>
             (if resend_counter x > 0 then do {
                let n = upd_apmx a ix (\<lambda>x. x\<lparr>resend_counter := resend_counter x - 1\<rparr>) n;
                ar \<leftarrow> deref_ar a ix n;
                n \<leftarrow> (if req_transport_udp ar then Some n
                      else map_option snd (pf_eth_send_on_management_port env b n));
                (_, n) \<leftarrow> start_resend_timer a ix n;
                Some n
              } else do {
                let n = upd_apmx a ix (\<lambda>x. x\<lparr>apms_state := PF_APMS_STATE_OPEN\<rparr>) n;
                _ \<leftarrow> deref_ar a ix n;
                pf_alarm_error_ind env a ix PNET_ERROR_CODE_1_APMS
                  PNET_ERROR_CODE_2_ABORT_AR_ALARM_SEND_CNF_NEG
                  (set_err a PNET_ERROR_CODE_1_APMS PNET_ERROR_CODE_2_ABORT_AR_ALARM_SEND_CNF_NEG n)
              }))
      else free_rta a ix n))"

definition apmx_opened :: "alarm_ar \<Rightarrow> nat \<Rightarrow> pf_apmx \<Rightarrow> pf_apmx" where
  "apmx_opened ar ix x = x\<lparr>has_ar := True, apmx_da := initiator_mac ar,
     apmx_src_ref := alarm_res_local_alarm_reference ar, apmx_dst_ref := req_local_alarm_reference ar,
     send_seq_count := 0xffff, send_seq_count_o := 0xfffe, exp_seq_count := 0xffff,
     exp_seq_count_o := 0xfffe, high_priority := (ix \<noteq> 0), vlan_prio := (if ix = 0 then 5 else 6),
     block_type_alarm_notify := (if ix = 0 then PF_BT_ALARM_NOTIFICATION_LOW else PF_BT_ALARM_NOTIFICATION_HIGH),
     block_type_alarm_ack := (if ix = 0 then PF_BT_ALARM_ACK_LOW else PF_BT_ALARM_ACK_HIGH),
     apmx_frame_id := (if ix = 0 then PF_FRAME_ID_ALARM_LOW else PF_FRAME_ID_ALARM_HIGH),
     timeout_us := 100 * 1000 * ucast (req_rta_timeout_factor ar), resend_counter := 0,
     resend_timeout := pf_scheduler_init_handle (resend_timeout x) apmx_timer_name,
     apms_state := PF_APMS_STATE_OPEN, apmr_state := PF_APMR_STATE_OPEN\<rparr>"

definition apmx_activate_step :: "nat \<Rightarrow> nat \<Rightarrow> int \<Rightarrow> ('w, int) fn" where
  "apmx_activate_step a ix ret n =
     (let x = get_apmx a ix n in
      if apms_state x \<noteq> PF_APMS_STATE_CLOSED then
        Some (-1, set_err a PNET_ERROR_CODE_1_APMS PNET_ERROR_CODE_2_INVALID_STATE n)
      else if apmr_state x \<noteq> PF_APMR_STATE_CLOSED then
        Some (-1, set_err a PNET_ERROR_CODE_1_APMR PNET_ERROR_CODE_2_INVALID_STATE n)
      else
        (let q = alarm_receive_q x;
             q = q\<lparr>rq_accountant := pf_alarm_queue_mutex_create (rq_accountant q)\<rparr>;
             (q, bs) = pf_alarm_receive_queue_reset q
         in do {
           n \<leftarrow> free_all bs n;
           Some (ret, upd_apmx a ix (\<lambda>x. apmx_opened (n_ar n a) ix (x\<lparr>alarm_receive_q := q\<rparr>)) n)
         }))"

definition no_endpoint_active :: "'w alarm_net \<Rightarrow> bool" where
  "no_endpoint_active n \<longleftrightarrow> list_all (\<lambda>e. \<not> fst e) (alarm_endpoint n)"

definition pf_alarm_apmx_activate :: "'w alarm_env \<Rightarrow> nat \<Rightarrow> ('w, int) fn" where
  "pf_alarm_apmx_activate env a n = do {
     (ret, n) \<leftarrow> apmx_activate_step a 0 0 n;
     (ret, n) \<leftarrow> apmx_activate_step a 1 ret n;
     let n = (if no_endpoint_active n then n\<lparr>n_world := env_map_add env PF_FRAME_ID_ALARM_HIGH
                (env_map_add env PF_FRAME_ID_ALARM_LOW (n_world n))\<rparr> else n);
     Some (ret, n\<lparr>alarm_endpoint := set_endpoint_active True a (alarm_endpoint n)\<rparr>)
   }"

text \<open>A transport acknowledgement, in a frame of its own or along with data.\<close>

definition pf_alarm_apms_a_data_ind :: "'w alarm_env \<Rightarrow> nat \<Rightarrow> nat \<Rightarrow> pf_alarm_fixed \<Rightarrow> ('w, int) fn" where
  "pf_alarm_apms_a_data_ind env a ix fixed n =
     (let x = get_apmx a ix n in
      if (pdu_type fixed = PF_RTA_PDU_TYPE_ACK \<or> pdu_type fixed = PF_RTA_PDU_TYPE_DATA) \<and>
         apms_state x = PF_APMS_STATE_WTACK \<and> ack_seq_nbr fixed = send_seq_count x
      then do {
        n \<leftarrow> free_rta a ix (upd_apmx a ix (\<lambda>x. x\<lparr>send_seq_count_o := send_seq_count x,
               send_seq_count := (send_seq_count x + 1) AND 0x7fff\<rparr>) n);
        n \<leftarrow> pf_alarm_alpmi_apms_a_data_cnf env a ix 0 n;
        n \<leftarrow> pf_alarm_alpmr_apms_a_data_cnf env a ix 0 n;
        Some (0, upd_apmx a ix (\<lambda>x. x\<lparr>apms_state := PF_APMS_STATE_OPEN\<rparr>) n)
      } else Some (0, n))"

text \<open>
  The bytes of a frame, up to the position the writer ends at. Without alarm data there is
  nothing to build a data message from, and an error message needs a status.
\<close>

definition alarm_var_part ::
    "pf_apmx \<Rightarrow> pf_alarm_fixed \<Rightarrow> pf_alarm_data option \<Rightarrow> u32 \<Rightarrow> u16 \<Rightarrow> nat \<Rightarrow> alarm_payload \<Rightarrow>
     pnet_pnio_status option \<Rightarrow> unit wr option" where
  "alarm_var_part x fixed data maint_status usi len pl status =
     (if pdu_type fixed = PF_RTA_PDU_TYPE_DATA then
        (case data of None \<Rightarrow> None
         | Some d \<Rightarrow> Some (case status of
               Some st \<Rightarrow> pf_put_alarm_block True (block_type_alarm_ack x) d maint_status 0 0 (Raw_payload []) st
             | None \<Rightarrow> pf_put_alarm_block True (block_type_alarm_notify x) d maint_status usi len pl
                 \<lparr>error_code = 0, error_decode = 0, error_code_1 = 0, error_code_2 = 0\<rparr>))
      else if pdu_type fixed = PF_RTA_PDU_TYPE_ERR then map_option (pf_put_pnet_status True) status
      else Some (State_Monad.return ()))"

definition PNAL_ETHTYPE_VLAN :: u16 where "PNAL_ETHTYPE_VLAN = 0x8100"
definition PNAL_ETHTYPE_PROFINET :: u16 where "PNAL_ETHTYPE_PROFINET = 0x8892"

definition put_alarm_frame :: "u8 list \<Rightarrow> pf_apmx \<Rightarrow> pf_alarm_fixed \<Rightarrow> unit wr \<Rightarrow> unit wr" where
  "put_alarm_frame mac x fixed var_part = do {
     pf_put_mem (apmx_da x) 6;
     pf_put_mem mac 6;
     pf_put_uint16 True PNAL_ETHTYPE_VLAN;
     pf_put_uint16 True (push_bit 13 (vlan_prio x AND 7));
     pf_put_uint16 True PNAL_ETHTYPE_PROFINET;
     pf_put_uint16 True (apmx_frame_id x);
     pf_put_alarm_fixed True fixed;
     var_part_len_pos \<leftarrow> get_pos;
     pf_put_uint16 True 0;
     var_part;
     p \<leftarrow> get_pos;
     at_pos var_part_len_pos (pf_put_uint16 True (of_int (int p - (int var_part_len_pos + 2))))
   }"

definition frame_bytes :: "unit wr \<Rightarrow> u8 list" where
  "frame_bytes m = (let w = snd (run_state m \<lparr>w_bytes = Some (replicate PF_FRAME_BUFFER_SIZE 0),
       w_len = PF_FRAME_BUFFER_SIZE, w_pos = 0\<rparr>) in take (w_pos w) (the (w_bytes w)))"

definition pf_alarm_apms_a_data_req ::
    "'w alarm_env \<Rightarrow> nat \<Rightarrow> nat \<Rightarrow> pf_alarm_fixed \<Rightarrow> pf_alarm_data option \<Rightarrow> u32 \<Rightarrow> u16 \<Rightarrow> nat \<Rightarrow>
     alarm_payload \<Rightarrow> pnet_pnio_status option \<Rightarrow> ('w, int) fn" where
  "pf_alarm_apms_a_data_req env a ix fixed data maint_status usi len pl status n = do {
     ar \<leftarrow> deref_ar a ix n;
     (if req_transport_udp ar then Some (-1, n)
      else (case pnal_buf_alloc env n of
          (None, n) \<Rightarrow> Some (-1, n)
        | (Some b, n) \<Rightarrow> do {
            var_part \<leftarrow> alarm_var_part (get_apmx a ix n) fixed data maint_status usi len pl status;
            n \<leftarrow> buf_store b (frame_bytes (put_alarm_frame (n_device_mac n) (get_apmx a ix n) fixed var_part)) n;
            (sent, n) \<leftarrow> pf_eth_send_on_management_port env b n;
            n \<leftarrow> (if tack fixed \<and> p_rta (get_apmx a ix n) = None
                  then Some (upd_apmx a ix (\<lambda>x. x\<lparr>p_rta := Some b\<rparr>) n)
                  else pnal_buf_free b n);
            Some (if sent \<le> 0 then -1 else 0, n)
          }))
   }"

definition alarm_fixed_of :: "pf_apmx \<Rightarrow> u8 \<Rightarrow> bool \<Rightarrow> u16 \<Rightarrow> pf_alarm_fixed" where
  "alarm_fixed_of x type tk seq = \<lparr>dst_ref = apmx_dst_ref x, src_ref = apmx_src_ref x, pdu_type = type,
     pdu_version = PF_ALARM_PDU_TYPE_VERSION_1, window_size = 1, tack = tk, send_seq_num = seq,
     ack_seq_nbr = exp_seq_count_o x\<rparr>"

definition pf_alarm_apms_apms_a_data_req ::
    "'w alarm_env \<Rightarrow> nat \<Rightarrow> nat \<Rightarrow> pf_alarm_data \<Rightarrow> u32 \<Rightarrow> pnet_pnio_status option \<Rightarrow> ('w, int) fn" where
  "pf_alarm_apms_apms_a_data_req env a ix d maint_status status n =
     (let x = get_apmx a ix n in
      if apms_state x \<noteq> PF_APMS_STATE_OPEN then do {
        n \<leftarrow> pf_alarm_alpmi_apms_a_data_cnf env a ix (-1) n;
        n \<leftarrow> pf_alarm_alpmr_apms_a_data_cnf env a ix (-1) n;
        Some (-1, n)
      } else do {
        ar \<leftarrow> deref_ar a ix n;
        (ret, n) \<leftarrow> pf_alarm_apms_a_data_req env a ix (alarm_fixed_of x PF_RTA_PDU_TYPE_DATA True (send_seq_count x))
                      (Some d) maint_status (pl_usi (payload d)) (unat (pl_len (payload d))) (pl_data (payload d)) status
                      (upd_apmx a ix (\<lambda>x. x\<lparr>resend_counter := ucast (req_rta_retries ar)\<rparr>) n);
        (started, n) \<leftarrow> start_resend_timer a ix (upd_apmx a ix (\<lambda>x. x\<lparr>apms_state := PF_APMS_STATE_WTACK\<rparr>) n);
        Some (if started \<noteq> 0 then -1 else ret, n)
      })"

section \<open>Closing, acknowledging\<close>

definition apmx_close_step :: "nat \<Rightarrow> nat \<Rightarrow> 'w cmd" where
  "apmx_close_step a ix n = do {
     n \<leftarrow> (if apms_state (get_apmx a ix n) \<noteq> PF_APMS_STATE_CLOSED then do {
             n \<leftarrow> stop_resend_timer a ix n;
             Some (upd_apmx a ix (\<lambda>x. x\<lparr>has_ar := False, apms_state := PF_APMS_STATE_CLOSED\<rparr>) n)
           } else Some n);
     n \<leftarrow> free_rta a ix n;
     (if apmr_state (get_apmx a ix n) \<noteq> PF_APMR_STATE_CLOSED then
        (case pf_alarm_receive_queue_reset (alarm_receive_q (get_apmx a ix n)) of
           (q, bs) \<Rightarrow> free_all bs (upd_apmx a ix (\<lambda>x. x\<lparr>apmr_state := PF_APMR_STATE_CLOSED,
              alarm_receive_q := q\<lparr>rq_accountant := pf_alarm_queue_mutex_destroy (rq_accountant q)\<rparr>\<rparr>) n))
      else Some n)
   }"

definition pf_alarm_apmx_close :: "'w alarm_env \<Rightarrow> nat \<Rightarrow> u8 \<Rightarrow> ('w, int) fn" where
  "pf_alarm_apmx_close env a code n = do {
     n \<leftarrow> (if apms_state (get_apmx a 0 n) \<noteq> PF_APMS_STATE_CLOSED then
             map_option snd (pf_alarm_apms_a_data_req env a 0
               (alarm_fixed_of (get_apmx a 0 n) PF_RTA_PDU_TYPE_ERR False (send_seq_count (get_apmx a 0 n)))
               None 0 0 0 (Raw_payload []) (Some \<lparr>error_code = PNET_ERROR_CODE_RTA_ERROR,
                 error_decode = PNET_ERROR_DECODE_PNIO, error_code_1 = PNET_ERROR_CODE_1_RTA_ERR_CLS_PROTOCOL,
                 error_code_2 = code\<rparr>) n)
           else Some n);
     let n = n\<lparr>alarm_endpoint := set_endpoint_active False a (alarm_endpoint n)\<rparr>;
     let n = (if no_endpoint_active n then n\<lparr>n_world := env_map_remove env PF_FRAME_ID_ALARM_LOW
                (env_map_remove env PF_FRAME_ID_ALARM_HIGH (n_world n))\<rparr> else n);
     n \<leftarrow> apmx_close_step a 0 n;
     n \<leftarrow> apmx_close_step a 1 n;
     Some (0, n)
   }"

definition pf_alarm_apmr_send_ack :: "'w alarm_env \<Rightarrow> nat \<Rightarrow> nat \<Rightarrow> ('w, int) fn" where
  "pf_alarm_apmr_send_ack env a ix n = pf_alarm_apms_a_data_req env a ix
     (alarm_fixed_of (get_apmx a ix n) PF_RTA_PDU_TYPE_ACK False (send_seq_count_o (get_apmx a ix n)))
     None 0 0 0 (Raw_payload []) None n"

definition pf_alarm_apmr_send_nack :: "'w alarm_env \<Rightarrow> nat \<Rightarrow> nat \<Rightarrow> ('w, int) fn" where
  "pf_alarm_apmr_send_nack env a ix n = pf_alarm_apms_a_data_req env a ix
     (alarm_fixed_of (get_apmx a ix n) PF_RTA_PDU_TYPE_NACK False (send_seq_count_o (get_apmx a ix n)))
     None 0 0 0 (Raw_payload []) None n"

section \<open>APMR: receiving\<close>

definition next_seq :: "pf_apmx \<Rightarrow> pf_apmx" where
  "next_seq x = x\<lparr>exp_seq_count_o := exp_seq_count x, exp_seq_count := (exp_seq_count x + 1) AND 0x7fff\<rparr>"

text \<open>
  A data message in sequence: APMS looks at its acknowledgement, the sequence moves on, the
  transport acknowledgement is sent, and \<open>deliver\<close> hands the contents to ALPMI or ALPMR.
\<close>

definition apmr_accept :: "'w alarm_env \<Rightarrow> nat \<Rightarrow> nat \<Rightarrow> pf_alarm_fixed \<Rightarrow> ('w, int) fn \<Rightarrow> ('w, int) fn" where
  "apmr_accept env a ix fixed deliver n = do {
     (_, n) \<leftarrow> pf_alarm_apms_a_data_ind env a ix fixed n;
     (ret, n) \<leftarrow> pf_alarm_apmr_send_ack env a ix (upd_apmx a ix next_seq n);
     (if ret = 0 then do {
        (ret, n) \<leftarrow> deliver (upd_apmx a ix (\<lambda>x. x\<lparr>apmr_state := PF_APMR_STATE_WCNF\<rparr>) n);
        Some (ret, if ret = 0 then upd_apmx a ix (\<lambda>x. x\<lparr>apmr_state := PF_APMR_STATE_OPEN\<rparr>) n else n)
      } else Some (ret, n))
   }"

definition deliver_ack :: "'w alarm_env \<Rightarrow> nat \<Rightarrow> nat \<Rightarrow> rstate \<Rightarrow> ('w, int) fn" where
  "deliver_ack env a ix r = pf_alarm_alpmi_apmr_a_data_ind env a ix (fst (run_state pf_get_pnio_status r))"

definition deliver_notification :: "'w alarm_env \<Rightarrow> nat \<Rightarrow> nat \<Rightarrow> u16 \<Rightarrow> nat \<Rightarrow> rstate \<Rightarrow> ('w, int) fn" where
  "deliver_notification env a ix data_len start_pos r n =
     (case run_state (do { d \<leftarrow> pf_get_alarm_data zero_alarm_data; u \<leftarrow> pf_get_uint16; State_Monad.return (d, u) }) r of
        ((d, usi), r) \<Rightarrow>
          (if g_result r = PF_PARSE_OK then
             pf_alarm_alpmr_apmr_a_data_ind env a ix d (data_len - of_nat (r_pos r - start_pos)) usi
               (drop (r_pos r) (case g_buf r of None \<Rightarrow> [] | Some xs \<Rightarrow> xs)) n
           else Some (-1, n)))"

definition pf_alarm_apmr_a_data_ind ::
    "'w alarm_env \<Rightarrow> nat \<Rightarrow> nat \<Rightarrow> pf_alarm_fixed \<Rightarrow> u16 \<Rightarrow> rstate \<Rightarrow> ('w, int) fn" where
  "pf_alarm_apmr_a_data_ind env a ix fixed data_len r n =
     (let x = get_apmx a ix n in case apmr_state x of
        PF_APMR_STATE_CLOSED \<Rightarrow> Some (0, n)
      | PF_APMR_STATE_WCNF \<Rightarrow> Some (-1, n)
      | PF_APMR_STATE_OPEN \<Rightarrow>
          (if \<not> tack fixed then Some (0, n)
           else if send_seq_num fixed = exp_seq_count x then
             (case run_state pf_get_block_header r of (h, r') \<Rightarrow>
               (if block_type h = block_type_alarm_ack x then
                  apmr_accept env a ix fixed (deliver_ack env a ix r') n
                else if block_type h = block_type_alarm_notify x then
                  apmr_accept env a ix fixed (deliver_notification env a ix data_len (r_pos r) r') n
                else do {
                  _ \<leftarrow> deref_ar a ix n;
                  n \<leftarrow> pf_alarm_error_ind env a ix PNET_ERROR_CODE_1_RTA_ERR_CLS_PROTOCOL
                         PNET_ERROR_CODE_2_ABORT_AR_ALARM_IND_ERROR
                         (set_err a PNET_ERROR_CODE_1_RTA_ERR_CLS_PROTOCOL
                            PNET_ERROR_CODE_2_ABORT_AR_ALARM_IND_ERROR n);
                  Some (-1, n)
                }))
           else if send_seq_num fixed = exp_seq_count_o x then do {
             (_, n) \<leftarrow> pf_alarm_apms_a_data_ind env a ix fixed n;
             (_, n) \<leftarrow> pf_alarm_apmr_send_ack env a ix n;
             Some (0, n)
           }
           else do {
             _ \<leftarrow> deref_ar a ix n;
             n \<leftarrow> env_log env a \<lparr>error_code = PNET_ERROR_CODE_PNIO, error_decode = PNET_ERROR_DECODE_PNIO,
                    error_code_1 = PNET_ERROR_CODE_1_RTA_ERR_CLS_PROTOCOL,
                    error_code_2 = PNET_ERROR_CODE_2_ABORT_CODE_SEQ\<rparr>
                    (set_err a PNET_ERROR_CODE_1_RTA_ERR_CLS_PROTOCOL PNET_ERROR_CODE_2_ABORT_CODE_SEQ n);
             (_, n) \<leftarrow> pf_alarm_apmr_send_nack env a ix n;
             Some (0, n)
           }))"

text \<open>One frame from the receive queue; the result ends or continues the loop.\<close>

definition apmr_handle_frame :: "'w alarm_env \<Rightarrow> nat \<Rightarrow> nat \<Rightarrow> u8 list \<Rightarrow> nat \<Rightarrow> ('w, int) fn" where
  "apmr_handle_frame env a ix xs frame_pos n =
     (case run_state (do { f \<leftarrow> pf_get_alarm_fixed; l \<leftarrow> pf_get_uint16; State_Monad.return (f, l) })
             (frame_reader xs (frame_pos + 2)) of
        ((fixed, var_part_len), r) \<Rightarrow>
          (if pdu_version fixed \<noteq> 1 then Some (0, n)
           else if pdu_type fixed = PF_RTA_PDU_TYPE_ACK then
             (if var_part_len = 0 then map_option (\<lambda>(_, n). (0, n)) (pf_alarm_apms_a_data_ind env a ix fixed n)
              else Some (0, n))
           else if pdu_type fixed = PF_RTA_PDU_TYPE_DATA then
             pf_alarm_apmr_a_data_ind env a ix fixed var_part_len r n
           else if pdu_type fixed = PF_RTA_PDU_TYPE_ERR then
             (if var_part_len = 4 then
                (let st = fst (run_state pf_get_pnio_status r) in do {
                   n \<leftarrow> (if apmr_state (get_apmx a ix n) = PF_APMR_STATE_OPEN
                         then pf_alarm_error_ind env a ix (error_code_1 st) (error_code_2 st) n
                         else pf_alarm_error_ind env a ix PNET_ERROR_CODE_1_APMR PNET_ERROR_CODE_2_INVALID_STATE n);
                   Some (0, n)
                 })
              else Some (0, n))
           else Some (0, n)))"

text \<open>A fetched item without a buffer would be a null pointer.\<close>

partial_function (option) apmr_drain :: "'w alarm_env \<Rightarrow> nat \<Rightarrow> nat \<Rightarrow> ('w, int) fn" where
  "apmr_drain env a ix n =
     (if apmr_state (get_apmx a ix n) = PF_APMR_STATE_CLOSED then Some (0, n)
      else (case pf_alarm_receive_queue_fetch (alarm_receive_q (get_apmx a ix n)) of
          (None, q) \<Rightarrow> Some (0, upd_apmx a ix (\<lambda>x. x\<lparr>alarm_receive_q := q\<rparr>) n)
        | (Some m, q) \<Rightarrow>
            Option.bind (msg_buf m) (\<lambda>b.
            Option.bind (n_bufs n b) (\<lambda>xs.
            Option.bind (apmr_handle_frame env a ix xs (frame_id_pos m)
                           (upd_apmx a ix (\<lambda>x. x\<lparr>alarm_receive_q := q\<rparr>) n)) (\<lambda>(ret, n).
            Option.bind (pnal_buf_free b n) (\<lambda>n.
            if ret = 0 then apmr_drain env a ix n else Some (ret, n)))))))"

definition pf_alarm_apmr_periodic :: "'w alarm_env \<Rightarrow> nat \<Rightarrow> ('w, int) fn" where
  "pf_alarm_apmr_periodic env a n = do {
     (ret, n) \<leftarrow> apmr_drain env a 0 n;
     (if ret = 0 then apmr_drain env a 1 n else Some (ret, n))
   }"

section \<open>Summary of the diagnoses of a subslot\<close>

definition PF_DIAG_QUALIFIED_SEVERITY_MASK :: u32 where "PF_DIAG_QUALIFIED_SEVERITY_MASK = NOT 0x00000007"
definition PF_DIAG_QUALIFIER_MASK_FAULT :: u32 where "PF_DIAG_QUALIFIER_MASK_FAULT = 0xF8000000"
definition PF_DIAG_QUALIFIER_MASK_DEMANDED :: u32 where "PF_DIAG_QUALIFIER_MASK_DEMANDED = 0x07FE0000"
definition PF_DIAG_QUALIFIER_MASK_REQUIRED :: u32 where "PF_DIAG_QUALIFIER_MASK_REQUIRED = 0x0001FF80"
definition PF_DIAG_CH_PROP_MAINT_GET :: "u16 \<Rightarrow> u16" where
  "PF_DIAG_CH_PROP_MAINT_GET x = drop_bit 9 (x AND 0x0600)"
definition PF_DIAG_CH_PROP_SPEC_GET :: "u16 \<Rightarrow> u16" where
  "PF_DIAG_CH_PROP_SPEC_GET x = drop_bit 11 (x AND 0x1800)"
definition PNET_DIAG_CH_PROP_MAINT_FAULT :: u16 where "PNET_DIAG_CH_PROP_MAINT_FAULT = 0"
definition PNET_DIAG_CH_PROP_MAINT_REQUIRED :: u16 where "PNET_DIAG_CH_PROP_MAINT_REQUIRED = 1"
definition PNET_DIAG_CH_PROP_MAINT_DEMANDED :: u16 where "PNET_DIAG_CH_PROP_MAINT_DEMANDED = 2"
definition PNET_DIAG_CH_PROP_MAINT_QUALIFIED :: u16 where "PNET_DIAG_CH_PROP_MAINT_QUALIFIED = 3"
definition PF_DIAG_CH_PROP_SPEC_APPEARS :: u16 where "PF_DIAG_CH_PROP_SPEC_APPEARS = 1"

definition is_severity :: "u16 \<Rightarrow> u32 \<Rightarrow> pf_diag_std \<Rightarrow> bool" where
  "is_severity level bits d \<longleftrightarrow> PF_DIAG_CH_PROP_MAINT_GET (ch_properties d) = level \<or>
     PF_DIAG_CH_PROP_MAINT_GET (ch_properties d) = PNET_DIAG_CH_PROP_MAINT_QUALIFIED \<and>
     (qual_ch_qualifier d AND PF_DIAG_QUALIFIED_SEVERITY_MASK) AND bits > 0"

definition pf_alarm_add_diag_item_to_summary ::
    "nat \<Rightarrow> alarm_subslot \<Rightarrow> pf_diag_item \<Rightarrow> pnet_alarm_spec \<times> u32 \<Rightarrow> pnet_alarm_spec \<times> u32" where
  "pf_alarm_add_diag_item_to_summary a sub item sm = (case sm of (spec, maint) \<Rightarrow>
     (let same_ar = (ownsm_ioc_or_ios sub \<and> sub_owner sub = Some a) in
      if di_usi item < PF_USI_CHANNEL_DIAGNOSIS then
        (spec\<lparr>manufacturer_diagnosis := True, submodule_diagnosis := True,
           ar_diagnosis := ar_diagnosis spec \<or> same_ar\<rparr>, maint)
      else
        (let d = fmt_std (di_fmt item);
             required = is_severity PNET_DIAG_CH_PROP_MAINT_REQUIRED PF_DIAG_QUALIFIER_MASK_REQUIRED d;
             demanded = is_severity PNET_DIAG_CH_PROP_MAINT_DEMANDED PF_DIAG_QUALIFIER_MASK_DEMANDED d;
             fault = is_severity PNET_DIAG_CH_PROP_MAINT_FAULT PF_DIAG_QUALIFIER_MASK_FAULT d;
             appears = (PF_DIAG_CH_PROP_SPEC_GET (ch_properties d) = PF_DIAG_CH_PROP_SPEC_APPEARS)
         in (spec\<lparr>channel_diagnosis := channel_diagnosis spec \<or> appears,
               submodule_diagnosis := submodule_diagnosis spec \<or> appears \<and> fault,
               ar_diagnosis := ar_diagnosis spec \<or> appears \<and> fault \<and> same_ar\<rparr>,
             (maint OR (qual_ch_qualifier d AND PF_DIAG_QUALIFIED_SEVERITY_MASK)) OR
             ((if required then 1 else 0) OR (if demanded then 2 else 0))))))"

partial_function (option) summarize ::
    "pf_diag_item list \<Rightarrow> nat \<Rightarrow> alarm_subslot \<Rightarrow> u16 \<Rightarrow> pnet_alarm_spec \<times> u32 \<Rightarrow> (pnet_alarm_spec \<times> u32) option"
  where
  "summarize items a sub i sm =
     (if unat i < length items then
        summarize items a sub (di_next (items ! unat i))
          (pf_alarm_add_diag_item_to_summary a sub (items ! unat i) sm)
      else Some sm)"

definition no_diagnosis :: pnet_alarm_spec where
  "no_diagnosis = \<lparr>channel_diagnosis = False, manufacturer_diagnosis = False, submodule_diagnosis = False,
     ar_diagnosis = False\<rparr>"

definition pf_alarm_get_diag_summary ::
    "nat \<Rightarrow> u32 \<Rightarrow> u16 \<Rightarrow> u16 \<Rightarrow> pf_diag_item option \<Rightarrow> 'w alarm_net \<Rightarrow> (pnet_alarm_spec \<times> u32) option" where
  "pf_alarm_get_diag_summary a api slot subslot item n =
     (case n_subslot n api slot subslot of None \<Rightarrow> Some (no_diagnosis, 0)
      | Some sub \<Rightarrow> summarize (n_diag_items n) a sub (sub_diag_list sub)
          (case item of None \<Rightarrow> (no_diagnosis, 0)
           | Some i \<Rightarrow> pf_alarm_add_diag_item_to_summary a sub i (no_diagnosis, 0)))"

section \<open>Sending alarms\<close>

definition pf_alarm_send_internal :: "'w alarm_env \<Rightarrow> nat \<Rightarrow> nat \<Rightarrow> pf_alarm_data \<Rightarrow> ('w, int) fn" where
  "pf_alarm_send_internal env a ix d n =
     (if \<not> (global_alarm_enable n \<and> alarm_enable (n_ar n a) \<and> alpmi_state (get_alpmx a ix n) = PF_ALPMI_STATE_W_ALARM)
      then None
      else do {
        (spec, maint) \<leftarrow> pf_alarm_get_diag_summary a (api_id d) (slot_nbr d) (subslot_nbr d) None n;
        let d = d\<lparr>alarm_specifier := spec, sequence_number := alpm_sequence_number (get_alpmx a ix n)\<rparr>;
        (ret, n) \<leftarrow> pf_alarm_apms_apms_a_data_req env a ix d maint None
          (upd_alpmx a ix (\<lambda>x. x\<lparr>prev_sequence_number := alpm_sequence_number x,
             alpm_sequence_number := (alpm_sequence_number x + 1) mod 0x0800\<rparr>) n);
        Some (ret, if ret = 0 then upd_alpmx a ix (\<lambda>x. x\<lparr>alpmi_state := PF_ALPMI_STATE_W_ACK\<rparr>) n else n)
      })"

fun almpi_from :: "'w alarm_env \<Rightarrow> nat \<Rightarrow> nat list \<Rightarrow> 'w cmd" where
  "almpi_from env a [] n = Some n"
| "almpi_from env a (prio # ps) n =
     (if alpmi_state (get_alpmx a prio n) = PF_ALPMI_STATE_W_ALARM then
        (case pf_alarm_send_queue_fetch (alarm_send_q (n_ar n a) prio) of
           (None, q) \<Rightarrow> almpi_from env a ps n
         | (Some d, q) \<Rightarrow> map_option snd (pf_alarm_send_internal env a prio d
             (upd_ar a (\<lambda>r. r\<lparr>alarm_send_q := (alarm_send_q r)(prio := q)\<rparr>) n)))
      else almpi_from env a ps n)"

definition pf_alarm_almpi_periodic :: "'w alarm_env \<Rightarrow> nat \<Rightarrow> 'w cmd" where
  "pf_alarm_almpi_periodic env a n = (if alarm_enable (n_ar n a) then almpi_from env a [1, 0] n else Some n)"

definition pf_alarm_enable :: "nat \<Rightarrow> 'w alarm_net \<Rightarrow> 'w alarm_net" where
  "pf_alarm_enable a = upd_ar a (\<lambda>r. r\<lparr>alarm_enable := True\<rparr>)"

definition pf_alarm_disable :: "nat \<Rightarrow> 'w alarm_net \<Rightarrow> 'w alarm_net" where
  "pf_alarm_disable a = upd_ar a (\<lambda>r. r\<lparr>alarm_enable := False\<rparr>)"

definition pf_alarm_pending :: "nat \<Rightarrow> 'w alarm_net \<Rightarrow> bool" where
  "pf_alarm_pending a n = False"

definition send_queue_open :: "nat \<Rightarrow> nat \<Rightarrow> 'w alarm_net \<Rightarrow> 'w alarm_net" where
  "send_queue_open a i = upd_ar a (\<lambda>r. r\<lparr>alarm_send_q := (alarm_send_q r)(i := pf_alarm_send_queue_reset
     ((alarm_send_q r i)\<lparr>sq_accountant := pf_alarm_queue_mutex_create (sq_accountant (alarm_send_q r i))\<rparr>))\<rparr>)"

definition send_queue_close :: "nat \<Rightarrow> nat \<Rightarrow> 'w alarm_net \<Rightarrow> 'w alarm_net" where
  "send_queue_close a i = upd_ar a (\<lambda>r. r\<lparr>alarm_send_q := (alarm_send_q r)(i :=
     (let q = pf_alarm_send_queue_reset (alarm_send_q r i)
      in q\<lparr>sq_accountant := pf_alarm_queue_mutex_destroy (sq_accountant q)\<rparr>))\<rparr>)"

definition pf_alarm_activate :: "'w alarm_env \<Rightarrow> nat \<Rightarrow> ('w, int) fn" where
  "pf_alarm_activate env a n = do {
     let n = send_queue_open a 1 (send_queue_open a 0 n);
     let (r1, n) = pf_alarm_alpmx_activate a n;
     (r2, n) \<leftarrow> pf_alarm_apmx_activate env a n;
     Some (if r1 \<noteq> 0 \<or> r2 \<noteq> 0 then -1 else 0, n)
   }"

definition pf_alarm_close :: "'w alarm_env \<Rightarrow> nat \<Rightarrow> ('w, int) fn" where
  "pf_alarm_close env a n = do {
     let n = send_queue_close a 1 (send_queue_close a 0 n);
     let (r1, n) = pf_alarm_alpmx_close a n;
     (r2, n) \<leftarrow> pf_alarm_apmx_close env a (err_code (n_ar n a)) n;
     Some (if r1 \<noteq> 0 \<or> r2 \<noteq> 0 then -1 else 0, n)
   }"

fun alarm_periodic_from :: "'w alarm_env \<Rightarrow> nat list \<Rightarrow> 'w cmd" where
  "alarm_periodic_from env [] n = Some n"
| "alarm_periodic_from env (a # as) n = do {
     n \<leftarrow> (if ar_in_use (n_ar n a) then do {
             (_, n) \<leftarrow> pf_alarm_apmr_periodic env a n;
             pf_alarm_almpi_periodic env a n
           } else Some n);
     alarm_periodic_from env as n
   }"

definition pf_alarm_periodic :: "'w alarm_env \<Rightarrow> 'w cmd" where
  "pf_alarm_periodic env n =
     (if global_alarm_enable n then alarm_periodic_from env [0..<PNET_MAX_AR] n else Some n)"

text \<open>The acknowledgement by the user always goes out with high priority.\<close>

definition pf_alarm_alpmr_alarm_ack ::
    "'w alarm_env \<Rightarrow> nat \<Rightarrow> pnet_alarm_argument \<Rightarrow> pnet_pnio_status \<Rightarrow> ('w, int) fn" where
  "pf_alarm_alpmr_alarm_ack env a arg st n =
     (if alpmr_state (get_alpmx a 1 n) = PF_ALPMR_STATE_W_USER_ACK then do {
        let d = zero_alarm_data\<lparr>alarm_type := arg_alarm_type arg, api_id := arg_api_id arg,
                  slot_nbr := arg_slot_nbr arg, subslot_nbr := arg_subslot_nbr arg,
                  alarm_specifier := arg_alarm_specifier arg, sequence_number := arg_sequence_number arg\<rparr>;
        (ret, n) \<leftarrow> pf_alarm_apms_apms_a_data_req env a 1 d 0 (Some st)
          (upd_alpmx a 1 (\<lambda>x. x\<lparr>prev_sequence_number := alpm_sequence_number x,
             alpm_sequence_number := (alpm_sequence_number x + 1) mod 0x0800\<rparr>) n);
        Some (ret, upd_alpmx a 1 (\<lambda>x. x\<lparr>alpmr_state := PF_ALPMR_STATE_W_TACK\<rparr>) n)
      } else Some (-1, set_err a PNET_ERROR_CODE_1_ALPMI PNET_ERROR_CODE_2_ALPMX_WRONG_STATE n))"

definition pf_alarm_send_alarm ::
    "nat \<Rightarrow> u16 \<Rightarrow> bool \<Rightarrow> u32 \<Rightarrow> u16 \<Rightarrow> u16 \<Rightarrow> u32 \<Rightarrow> u32 \<Rightarrow> u16 \<Rightarrow> u16 \<Rightarrow> alarm_payload option \<Rightarrow>
     'w alarm_net \<Rightarrow> int \<times> 'w alarm_net" where
  "pf_alarm_send_alarm a type high_prio api slot subslot mod_id sub_id usi len pl n =
     (if \<not> global_alarm_enable n \<or> \<not> alarm_enable (n_ar n a) then (-1, n)
      else if unat len > PNET_MAX_ALARM_PAYLOAD_DATA_SIZE then (-1, n)
      else if len > req_max_alarm_data_length (n_ar n a) then (-1, n)
      else if len > 0 \<and> pl = None then (-1, n)
      else
        (let d = zero_alarm_data\<lparr>alarm_type := type, api_id := api, slot_nbr := slot, subslot_nbr := subslot,
               module_ident := mod_id, submodule_ident := ucast sub_id,
               payload := \<lparr>pl_usi = usi, pl_len = len,
                 pl_data = (if len > 0 then the pl else pl_data (payload zero_alarm_data))\<rparr>\<rparr>;
             i = (if high_prio then 1 else 0)
         in case pf_alarm_send_queue_post d (alarm_send_q (n_ar n a) i) of
              (r, q) \<Rightarrow> (r, upd_ar a (\<lambda>r. r\<lparr>alarm_send_q := (alarm_send_q r)(i := q)\<rparr>) n)))"

definition PF_ALARM_TYPE_DIAGNOSIS :: u16 where "PF_ALARM_TYPE_DIAGNOSIS = 0x0001"
definition PF_ALARM_TYPE_PROCESS :: u16 where "PF_ALARM_TYPE_PROCESS = 0x0002"
definition PF_ALARM_TYPE_PULL :: u16 where "PF_ALARM_TYPE_PULL = 0x0003"
definition PF_ALARM_TYPE_PLUG :: u16 where "PF_ALARM_TYPE_PLUG = 0x0004"
definition PF_ALARM_TYPE_RELEASED :: u16 where "PF_ALARM_TYPE_RELEASED = 0x0009"
definition PF_ALARM_TYPE_PLUG_WRONG_MODULE :: u16 where "PF_ALARM_TYPE_PLUG_WRONG_MODULE = 0x000a"
definition PF_ALARM_TYPE_DIAGNOSIS_DISAPPEARS :: u16 where "PF_ALARM_TYPE_DIAGNOSIS_DISAPPEARS = 0x000c"
definition PF_ALARM_TYPE_PORT_DATA_CHANGE :: u16 where "PF_ALARM_TYPE_PORT_DATA_CHANGE = 0x000e"
definition PF_ALARM_TYPE_PULL_MODULE :: u16 where "PF_ALARM_TYPE_PULL_MODULE = 0x001f"
definition PF_WRT_ERROR_REMOTE_MISMATCH :: u16 where "PF_WRT_ERROR_REMOTE_MISMATCH = 0x8001"

definition with_idents ::
    "u32 \<Rightarrow> u16 \<Rightarrow> u16 \<Rightarrow> (u32 \<Rightarrow> u32 \<Rightarrow> int \<times> 'w alarm_net) \<Rightarrow> 'w alarm_net \<Rightarrow> int \<times> 'w alarm_net" where
  "with_idents api slot subslot k n =
     (case n_module_ident n api slot of None \<Rightarrow> (-1, n)
      | Some m \<Rightarrow> (case n_submodule_ident n api slot subslot of None \<Rightarrow> (-1, n) | Some s \<Rightarrow> k m s))"

definition pf_alarm_send_process ::
    "nat \<Rightarrow> u32 \<Rightarrow> u16 \<Rightarrow> u16 \<Rightarrow> u16 \<Rightarrow> u16 \<Rightarrow> u8 list option \<Rightarrow> 'w alarm_net \<Rightarrow> int \<times> 'w alarm_net" where
  "pf_alarm_send_process a api slot subslot usi len xs n =
     (if usi \<ge> PF_USI_CHANNEL_DIAGNOSIS then (-1, n)
      else with_idents api slot subslot (\<lambda>m s. pf_alarm_send_alarm a PF_ALARM_TYPE_PROCESS True api slot subslot m s
        usi len (map_option Raw_payload xs) n) n)"

text \<open>The size of \<open>pf_diag_item_t\<close>, the payload of a diagnosis in the standard format.\<close>

definition DIAG_ITEM_SIZE :: u16 where "DIAG_ITEM_SIZE = 28"

definition pf_alarm_send_diagnosis ::
    "nat \<Rightarrow> u32 \<Rightarrow> u16 \<Rightarrow> u16 \<Rightarrow> pf_diag_item option \<Rightarrow> 'w alarm_net \<Rightarrow> int \<times> 'w alarm_net" where
  "pf_alarm_send_diagnosis a api slot subslot item n = (case item of None \<Rightarrow> (-1, n)
     | Some d \<Rightarrow>
        (let type = (if di_usi d \<ge> PF_USI_CHANNEL_DIAGNOSIS \<and>
               ch_error_type (fmt_std (di_fmt d)) = PF_WRT_ERROR_REMOTE_MISMATCH
             then PF_ALARM_TYPE_PORT_DATA_CHANGE else PF_ALARM_TYPE_DIAGNOSIS)
         in with_idents api slot subslot (\<lambda>m s.
              if di_usi d < PF_USI_CHANNEL_DIAGNOSIS then
                pf_alarm_send_alarm a type False api slot subslot m s (di_usi d)
                  (of_nat (fmt_usi_len (di_fmt d))) (Some (Raw_payload (fmt_usi_data (di_fmt d)))) n
              else pf_alarm_send_alarm a type False api slot subslot m s (di_usi d) DIAG_ITEM_SIZE
                  (Some (Diag_payload d)) n) n))"

definition pf_alarm_send_usi_diagnosis_disappears ::
    "nat \<Rightarrow> u32 \<Rightarrow> u16 \<Rightarrow> u16 \<Rightarrow> u16 \<Rightarrow> 'w alarm_net \<Rightarrow> (int \<times> 'w alarm_net) option" where
  "pf_alarm_send_usi_diagnosis_disappears a api slot subslot usi n =
     (if usi < PF_USI_CHANNEL_DIAGNOSIS then
        Some (with_idents api slot subslot (\<lambda>m s. pf_alarm_send_alarm a PF_ALARM_TYPE_DIAGNOSIS_DISAPPEARS False
          api slot subslot m s usi 0 None n) n)
      else None)"

definition pf_alarm_send_pull :: "nat \<Rightarrow> u32 \<Rightarrow> u16 \<Rightarrow> u16 \<Rightarrow> 'w alarm_net \<Rightarrow> int \<times> 'w alarm_net" where
  "pf_alarm_send_pull a api slot subslot n =
     (let type = (if subslot = 0 \<and> pull_alarm_allowed (n_ar n a) then PF_ALARM_TYPE_PULL_MODULE else PF_ALARM_TYPE_PULL)
      in (0, snd (pf_alarm_send_alarm a type False api slot subslot 0 0 0 0 None n)))"

definition send_plug_type :: "u16 \<Rightarrow> nat \<Rightarrow> u32 \<Rightarrow> u16 \<Rightarrow> u16 \<Rightarrow> u32 \<Rightarrow> u32 \<Rightarrow> 'w alarm_net \<Rightarrow> int \<times> 'w alarm_net" where
  "send_plug_type type a api slot subslot m s n =
     (0, snd (pf_alarm_send_alarm a type False api slot subslot m s 0 0 None n))"

definition pf_alarm_send_plug :: "nat \<Rightarrow> u32 \<Rightarrow> u16 \<Rightarrow> u16 \<Rightarrow> u32 \<Rightarrow> u32 \<Rightarrow> 'w alarm_net \<Rightarrow> int \<times> 'w alarm_net" where
  "pf_alarm_send_plug = send_plug_type PF_ALARM_TYPE_PLUG"

definition pf_alarm_send_plug_wrong :: "nat \<Rightarrow> u32 \<Rightarrow> u16 \<Rightarrow> u16 \<Rightarrow> u32 \<Rightarrow> u32 \<Rightarrow> 'w alarm_net \<Rightarrow> int \<times> 'w alarm_net" where
  "pf_alarm_send_plug_wrong = send_plug_type PF_ALARM_TYPE_PLUG_WRONG_MODULE"

definition pf_alarm_send_released :: "nat \<Rightarrow> u32 \<Rightarrow> u16 \<Rightarrow> u16 \<Rightarrow> u32 \<Rightarrow> u32 \<Rightarrow> 'w alarm_net \<Rightarrow> int \<times> 'w alarm_net" where
  "pf_alarm_send_released = send_plug_type PF_ALARM_TYPE_RELEASED"

end
