(* ===== verification/Scheduler_Service.thy ===== *)
theory Scheduler_Service
  imports Scheduler_Props
begin

text \<open>
  What the other components rely on when they use the scheduler: the contract of a timer
  service as a locale, its consequences for a client that restarts a timer, and its
  interpretation on src/common/pf_scheduler.c.
\<close>

section \<open>The contract\<close>

text \<open>
  \<open>pending\<close> maps the timers that are set to their callback and argument, \<open>owns\<close> says that a
  handle stands for a timer, and \<open>idle\<close> that it stands for none.
\<close>

locale timer_service =
  fixes add :: "u32 \<Rightarrow> u32 \<Rightarrow> 'f \<Rightarrow> 'a \<Rightarrow> 'h \<Rightarrow> 's \<Rightarrow> (int \<times> 'h \<times> 's) option"
    and cancel :: "'h \<Rightarrow> 's \<Rightarrow> ('h \<times> 's) option"
    and ok :: "'s \<Rightarrow> bool" and pending :: "'s \<Rightarrow> nat \<Rightarrow> ('f option \<times> 'a option) option"
    and owns :: "'s \<Rightarrow> 'h \<Rightarrow> nat \<Rightarrow> bool" and idle :: "'h \<Rightarrow> bool" and capacity :: nat
  assumes add_room: "ok s \<Longrightarrow> card (dom (pending s)) < capacity \<Longrightarrow>
      \<exists>h' s' i. add now d cb arg h s = Some (0, h', s') \<and> ok s' \<and> pending s i = None \<and>
        pending s' = (pending s)(i \<mapsto> (Some cb, Some arg)) \<and> owns s' h' i"
    and add_full: "ok s \<Longrightarrow> \<not> card (dom (pending s)) < capacity \<Longrightarrow>
      \<exists>h'. add now d cb arg h s = Some (-1, h', s) \<and> idle h'"
    and cancel_owned: "ok s \<Longrightarrow> owns s h i \<Longrightarrow>
      \<exists>h' s'. cancel h s = Some (h', s') \<and> ok s' \<and> pending s' = (pending s)(i := None) \<and> idle h'"
    and cancel_idle: "idle h \<Longrightarrow> cancel h s = Some (h, s)"
    and cancel_any: "ok s \<Longrightarrow> \<exists>h' s'. cancel h s = Some (h', s') \<and> ok s' \<and> dom (pending s') \<subseteq> dom (pending s)"
    and owned: "ok s \<Longrightarrow> owns s h i \<Longrightarrow> i \<in> dom (pending s)"
    and bounded: "ok s \<Longrightarrow> finite (dom (pending s)) \<and> card (dom (pending s)) \<le> capacity"
begin

lemma add_total: "ok s \<Longrightarrow> \<exists>r h' s'. add now d cb arg h s = Some (r, h', s') \<and> ok s'"
  using add_room [of s now d cb arg h] add_full [of s now d cb arg h] by blast

text \<open>A client that restarts its own timer cannot run out of timers.\<close>

lemma restart_owned:
  assumes "ok s" and "owns s h i"
  shows "\<exists>h1 s1 h' s' j. cancel h s = Some (h1, s1) \<and> add now d cb arg h1 s1 = Some (0, h', s') \<and> ok s' \<and>
    owns s' h' j \<and> pending s' = ((pending s)(i := None))(j \<mapsto> (Some cb, Some arg)) \<and>
    ((pending s)(i := None)) j = None"
proof -
  from cancel_owned [OF assms] obtain h1 s1 where
    1: "cancel h s = Some (h1, s1)" "ok s1" "pending s1 = (pending s)(i := None)" by blast
  have "card (dom (pending s) - {i}) < card (dom (pending s))"
    using owned [OF assms] bounded [OF assms(1)] by (intro card_Diff1_less) auto
  then have "card (dom (pending s1)) < capacity" using bounded [OF assms(1)] by (simp add: 1(3))
  from add_room [OF 1(2) this, of now d cb arg h1] 1 show ?thesis by fastforce
qed

lemma restart_idle:
  assumes "ok s" and "idle h" and "card (dom (pending s)) < capacity"
  shows "\<exists>h' s' j. cancel h s = Some (h, s) \<and> add now d cb arg h s = Some (0, h', s') \<and> ok s' \<and>
    owns s' h' j \<and> pending s j = None \<and> pending s' = (pending s)(j \<mapsto> (Some cb, Some arg))"
  using cancel_idle [OF assms(2), of s] add_room [OF assms(1,3), of now d cb arg h] by blast

end

section \<open>The scheduler keeps the contract\<close>

definition timer_ok :: "('f, 'a) sched \<Rightarrow> bool" where
  "timer_ok s \<longleftrightarrow> sched_ok s \<and> 0 < tick_interval s \<and> unat (tick_interval s) \<le> 2 ^ 30"

definition pending_timers :: "('f, 'a) sched \<Rightarrow> nat \<Rightarrow> ('f option \<times> 'a option) option" where
  "pending_timers s i = (if i < PF_MAX_TIMEOUTS \<and> to_in_use (entry s i)
     then Some (to_cb (entry s i), to_arg (entry s i)) else None)"

definition handle_idle :: "sched_handle \<Rightarrow> bool" where
  "handle_idle h \<longleftrightarrow> h_timer_index h = UINT32_MAX"

lemma pending_busy: "sched_rep s busy free [] \<Longrightarrow> dom (pending_timers s) = set busy"
  by (auto simp: pending_timers_def sched_rep_def split: if_splits)

lemma pending_card: "sched_rep s busy free [] \<Longrightarrow> card (dom (pending_timers s)) = length busy \<and>
    length busy + length free = PF_MAX_TIMEOUTS"
proof -
  assume rep: "sched_rep s busy free []"
  then have d: "distinct (busy @ free)" and all: "set (busy @ free) = {..<PF_MAX_TIMEOUTS}"
    by (simp_all add: sched_rep_def)
  have "length (busy @ free) = PF_MAX_TIMEOUTS" using distinct_card [OF d] all by simp
  with d pending_busy [OF rep] show ?thesis by (simp add: distinct_card)
qed

lemma pending_frame:
  assumes "payload_frame {i} s s'" and "length (timeouts s) = PF_MAX_TIMEOUTS" and "j \<noteq> i"
  shows "pending_timers s' j = pending_timers s j"
  using payload_frame_in [OF assms(1), of j] assms(2,3)
  by (auto simp: pending_timers_def same_payload_def)

lemma pending_frame_upd:
  assumes "payload_frame {i} s s'" and "length (timeouts s) = PF_MAX_TIMEOUTS" and "pending_timers s' i = v"
  shows "pending_timers s' = (pending_timers s)(i := v)"
  using pending_frame [OF assms(1,2)] assms(3) by auto

text \<open>A timer of the busy list is removed through any handle that finds it.\<close>

lemma remove_any:
  assumes "sched_rep s busy free []"
  shows "\<exists>h' s'. pf_scheduler_remove h s = Some (h', s') \<and> sched_ok s' \<and> tick_interval s' = tick_interval s \<and>
    dom (pending_timers s') \<subseteq> dom (pending_timers s)"
proof -
  let ?i = "unat (ucast (h_timer_index h - 1) :: u16)"
  let ?found = "h_timer_index h \<noteq> 0 \<and> h_timer_index h \<le> of_nat PF_MAX_TIMEOUTS \<and>
    to_name (entry s ?i) = h_name h \<and> to_in_use (entry s ?i)"
  have ok: "sched_ok s" using assms by (auto simp: sched_ok_def)
  show ?thesis
  proof (cases ?found)
    case False
    then have "pf_scheduler_remove h s = Some (h, s)"
      by (auto simp: pf_scheduler_remove_def Let_def not_less)
    with ok show ?thesis by auto
  next
    case True
    have "0 < unat (h_timer_index h)" "unat (h_timer_index h) \<le> PF_MAX_TIMEOUTS"
      using True by (auto simp: word_le_nat config_defs unat_gt_0)
    then have "h_timer_index h = of_nat ((unat (h_timer_index h) - 1) + 1)"
      "unat (h_timer_index h) - 1 < PF_MAX_TIMEOUTS" by auto
    then obtain m where idx: "h_timer_index h = of_nat (m + 1)" and m: "m < PF_MAX_TIMEOUTS" by blast
    have "?i = m" using handle_index(1) [OF m] idx by simp
    with True idx m have live: "handle_live s h m" by (simp add: handle_live_def)
    then have "m \<in> set busy" using assms m by (auto simp: handle_live_def sched_rep_def)
    then obtain xs ys where "busy = xs @ (m) # ys" by (auto dest: split_list)
    with remove_rep [of s xs "m" ys free "[]", OF _ live] assms obtain s' where
      s': "pf_scheduler_remove h s = Some (h\<lparr>h_timer_index := UINT32_MAX\<rparr>, s')"
        "sched_rep s' (xs @ ys) ((m) # free) []" "payload_frame {m} s s'" by auto
    with \<open>busy = _\<close> pending_busy [OF assms] pending_busy [OF s'(2)] show ?thesis
      by (auto simp: sched_ok_def payload_frame_def)
  qed
qed

interpretation timer: timer_service
  "pf_scheduler_add :: u32 \<Rightarrow> u32 \<Rightarrow> 'f \<Rightarrow> 'a \<Rightarrow> sched_handle \<Rightarrow> ('f, 'a) sched \<Rightarrow> (int \<times> sched_handle \<times> ('f, 'a) sched) option"
  pf_scheduler_remove_if_running timer_ok pending_timers
  handle_live handle_idle PF_MAX_TIMEOUTS
proof
  fix s :: "('f, 'a) sched" and now d :: u32 and cb arg h i
  assume ok: "timer_ok s"
  then obtain busy free where rep: "sched_rep s busy free []" by (auto simp: timer_ok_def sched_ok_def)
  obtain t where t: "pf_scheduler_sanitize_delay d (tick_interval s) True = Some t"
    using ok sanitize_delay_nat [of "tick_interval s" d] by (auto simp: timer_ok_def)
  note len = sched_rep_length [OF rep]
  show "\<exists>h' s' i. pf_scheduler_add now d cb arg h s = Some (0, h', s') \<and> timer_ok s' \<and> pending_timers s i = None \<and>
      pending_timers s' = (pending_timers s)(i \<mapsto> (Some cb, Some arg)) \<and> handle_live s' h' i"
    if "card (dom (pending_timers s)) < PF_MAX_TIMEOUTS"
  proof -
    from that pending_card [OF rep] obtain j fs where f: "free = j # fs" by (cases free) auto
    from add_rep [OF rep [unfolded f] t, of now cb arg h] obtain s' where
      s': "pf_scheduler_add now d cb arg h s = Some (0, h\<lparr>h_timer_index := of_nat (j + 1)\<rparr>, s')"
        "sched_rep s' (insert_deadline s (now + t) j busy) fs []"
        "entry_is s' j (h_name h) (now + t) cb arg" "payload_frame {j} s s'" by blast
    have j: "j < PF_MAX_TIMEOUTS" "pending_timers s j = None"
      using rep f by (auto simp: sched_rep_def pending_timers_def)
    have p: "pending_timers s' j = Some (Some cb, Some arg)"
      using j(1) s'(3) by (simp add: pending_timers_def entry_is_def)
    have "timer_ok s'" using ok s'(2,4) by (auto simp: timer_ok_def sched_ok_def payload_frame_def)
    then show ?thesis
      using s'(1,3) j pending_frame_upd [OF s'(4) len p] by (auto simp: handle_live_def entry_is_def)
  qed
  show "\<exists>h'. pf_scheduler_add now d cb arg h s = Some (-1, h', s) \<and> handle_idle h'"
    if "\<not> card (dom (pending_timers s)) < PF_MAX_TIMEOUTS"
  proof -
    from that pending_card [OF rep] have "free = []" by (cases free) auto
    with add_full [of s busy "[]" d t now cb arg h] rep t show ?thesis by (auto simp: handle_idle_def)
  qed
  show "\<exists>h' s'. pf_scheduler_remove_if_running h s = Some (h', s') \<and> timer_ok s' \<and>
      pending_timers s' = (pending_timers s)(i := None) \<and> handle_idle h'" if live: "handle_live s h i"
  proof -
    have "i \<in> set busy" using rep live by (auto simp: handle_live_def sched_rep_def)
    then obtain xs ys where b: "busy = xs @ i # ys" by (auto dest: split_list)
    from remove_rep [OF rep [unfolded b] live] obtain s' where
      s': "pf_scheduler_remove h s = Some (h\<lparr>h_timer_index := UINT32_MAX\<rparr>, s')"
        "sched_rep s' (xs @ ys) (i # free) []" "payload_frame {i} s s'" by blast
    have "pending_timers s' i = None" using s'(2) by (auto simp: pending_timers_def sched_rep_def)
    from pending_frame_upd [OF s'(3) len this] s' ok live show ?thesis
      by (auto simp: pf_scheduler_remove_if_running_def handle_idle_def timer_ok_def sched_ok_def payload_frame_def
          remove_if_running_stopped pf_scheduler_is_running_def remove_stopped)
  qed
  show "\<exists>h' s'. pf_scheduler_remove_if_running h s = Some (h', s') \<and> timer_ok s' \<and>
      dom (pending_timers s') \<subseteq> dom (pending_timers s)"
    using remove_any [OF rep, of h] ok by (auto simp: pf_scheduler_remove_if_running_def timer_ok_def)
  show "i \<in> dom (pending_timers s)" if "handle_live s h i"
    using that by (auto simp: pending_timers_def handle_live_def)
  show "finite (dom (pending_timers s)) \<and> card (dom (pending_timers s)) \<le> PF_MAX_TIMEOUTS"
    using pending_busy [OF rep] pending_card [OF rep] by simp
next
  fix h :: sched_handle and s :: "('f, 'a) sched"
  show "pf_scheduler_remove_if_running h s = Some (h, s)" if "handle_idle h"
    using that by (intro remove_if_running_stopped) (simp add: handle_idle_def)
qed

section \<open>Restarting a timer\<close>

text \<open>
  Restarting a timer through its live handle cannot fail, even when all timers are in
  use: the old timer is gone, exactly one new one is set, with the new callback and
  argument, and the handle stands for it; all other timers stay as they are.
\<close>

theorem scheduler_restart_replaces:
  assumes "timer_ok s" and "handle_live s h i"
  shows "\<exists>h' s' j. pf_scheduler_restart now d cb arg h s = Some (0, h', s') \<and> timer_ok s' \<and> handle_live s' h' j \<and>
    ((pending_timers s)(i := None)) j = None \<and>
    pending_timers s' = ((pending_timers s)(i := None))(j \<mapsto> (Some cb, Some arg))"
  using timer.restart_owned [OF assms, of now d cb arg] by (fastforce simp: pf_scheduler_restart_def)

lemma scheduler_restart_replaces_witness:
  "\<exists>h s h' s' j. pf_scheduler_add 0 3000 7 8 (demo_handle 5) demo_sched = Some (0, h, s) \<and>
     pf_scheduler_restart 10 4000 9 10 h s = Some (0, h', s') \<and>
     pending_timers s' = [j \<mapsto> (Some 9, Some 10)]"
proof -
  have ok: "timer_ok demo_sched" using demo_sched_rep by (auto simp: timer_ok_def sched_ok_def)
  have none: "pending_timers demo_sched = Map.empty"
    using pending_busy [OF demo_sched_rep(1)] by simp
  from timer.add_room [OF ok, of 0 3000 7 8 "demo_handle 5"] obtain h s i where
    s: "pf_scheduler_add 0 3000 7 8 (demo_handle 5) demo_sched = Some (0, h, s)" "timer_ok s"
      "pending_timers s = [i \<mapsto> (Some 7, Some 8)]" "handle_live s h i"
    by (auto simp: none config_defs)
  from scheduler_restart_replaces [OF s(2,4), of 10 4000 9 10] s show ?thesis by fastforce
qed

end
