(* ===== verification/Alarm_Lemmas.thy ===== *)
theory Alarm_Lemmas
  imports Alarm Scheduler_Service
begin

unbundle bit_operations_syntax

text \<open>
  Lemmas on the alarm component: reading the state after an update, what an operation
  leaves alone, the account of the frame buffers, the timers of a sender.
\<close>

section \<open>Reading after updating\<close>

lemma n_ar_upd_ar: "n_ar (upd_ar a f n) b = (if b = a then f (n_ar n a) else n_ar n b)"
  by (simp add: upd_ar_def)

lemma upd_ar_frame [simp]:
  "n_sched (upd_ar a f n) = n_sched n" "n_now (upd_ar a f n) = n_now n" "n_bufs (upd_ar a f n) = n_bufs n"
  "n_next_buf (upd_ar a f n) = n_next_buf n" "global_alarm_enable (upd_ar a f n) = global_alarm_enable n"
  "alarm_endpoint (upd_ar a f n) = alarm_endpoint n" "n_device_mac (upd_ar a f n) = n_device_mac n"
  "n_diag_items (upd_ar a f n) = n_diag_items n" "n_subslot (upd_ar a f n) = n_subslot n"
  "n_world (upd_ar a f n) = n_world n"
  by (simp_all add: upd_ar_def)

lemma upd_x_frame [simp]:
  "n_sched (upd_apmx a ix g n) = n_sched n" "n_now (upd_apmx a ix g n) = n_now n"
  "n_bufs (upd_apmx a ix g n) = n_bufs n" "n_next_buf (upd_apmx a ix g n) = n_next_buf n"
  "global_alarm_enable (upd_apmx a ix g n) = global_alarm_enable n"
  "alarm_endpoint (upd_apmx a ix g n) = alarm_endpoint n" "n_world (upd_apmx a ix g n) = n_world n"
  "n_device_mac (upd_apmx a ix g n) = n_device_mac n"
  "n_sched (upd_alpmx a ix h n) = n_sched n" "n_now (upd_alpmx a ix h n) = n_now n"
  "n_bufs (upd_alpmx a ix h n) = n_bufs n" "n_next_buf (upd_alpmx a ix h n) = n_next_buf n"
  "global_alarm_enable (upd_alpmx a ix h n) = global_alarm_enable n"
  "alarm_endpoint (upd_alpmx a ix h n) = alarm_endpoint n" "n_world (upd_alpmx a ix h n) = n_world n"
  "n_device_mac (upd_alpmx a ix h n) = n_device_mac n"
  by (simp_all add: upd_apmx_def upd_alpmx_def)

lemma apmx_upd [simp]:
  "apmx (n_ar (upd_apmx a ix g n) b) j = (if b = a \<and> j = ix then g (apmx (n_ar n a) ix) else apmx (n_ar n b) j)"
  "apmx (n_ar (upd_alpmx a ix h n) b) j = apmx (n_ar n b) j"
  "alpmx (n_ar (upd_alpmx a ix h n) b) j = (if b = a \<and> j = ix then h (alpmx (n_ar n a) ix) else alpmx (n_ar n b) j)"
  "alpmx (n_ar (upd_apmx a ix g n) b) j = alpmx (n_ar n b) j"
  by (simp_all add: upd_apmx_def upd_alpmx_def n_ar_upd_ar)

text \<open>The part of an AR that neither machine updates.\<close>

definition ar_params :: "alarm_ar \<Rightarrow> (nat \<Rightarrow> pf_alarm_send_queue) \<times> bool \<times> bool \<times> u16 \<times> u16 \<times> u16 \<times> u8 \<times> u8" where
  "ar_params r = (alarm_send_q r, alarm_enable r, req_transport_udp r, req_rta_retries r,
     req_rta_timeout_factor r, req_max_alarm_data_length r, err_cls r, err_code r)"

lemma ar_params_upd [simp]:
  "ar_params (n_ar (upd_apmx a ix g n) b) = ar_params (n_ar n b)"
  "ar_params (n_ar (upd_alpmx a ix h n) b) = ar_params (n_ar n b)"
  by (simp_all add: upd_apmx_def upd_alpmx_def n_ar_upd_ar ar_params_def)

lemma udp_upd [simp]:
  "req_transport_udp (n_ar (upd_apmx a ix g n) b) = req_transport_udp (n_ar n b)"
  "req_transport_udp (n_ar (upd_alpmx a ix h n) b) = req_transport_udp (n_ar n b)"
  by (simp_all add: upd_apmx_def upd_alpmx_def n_ar_upd_ar)

lemma set_err_get [simp]:
  "apmx (n_ar (set_err a c d n) b) j = apmx (n_ar n b) j" "alpmx (n_ar (set_err a c d n) b) j = alpmx (n_ar n b) j"
  "n_bufs (set_err a c d n) = n_bufs n" "n_sched (set_err a c d n) = n_sched n"
  by (simp_all add: set_err_def n_ar_upd_ar)

lemma bufs_update [simp]:
  "n_ar (n\<lparr>n_bufs := b\<rparr>) = n_ar n" "n_ar (n\<lparr>n_sched := s\<rparr>) = n_ar n" "n_ar (n\<lparr>n_world := w\<rparr>) = n_ar n"
  "n_ar (n\<lparr>n_next_buf := k\<rparr>) = n_ar n" "n_ar (n\<lparr>alarm_endpoint := e\<rparr>) = n_ar n"
  by simp_all

lemma deref_some [simp]: "has_ar (get_apmx a ix n) \<Longrightarrow> deref_ar a ix n = Some (n_ar n a)"
  "\<not> has_ar (get_apmx a ix n) \<Longrightarrow> deref_ar a ix n = None"
  by (simp_all add: deref_ar_def)

section \<open>Transport acknowledgements\<close>

lemma free_rta_some:
  assumes "\<forall>b. p_rta (get_apmx a ix n) = Some b \<longrightarrow> n_bufs n b \<noteq> None"
  shows "free_rta a ix n = Some (case p_rta (get_apmx a ix n) of None \<Rightarrow> n
     | Some b \<Rightarrow> (upd_apmx a ix (\<lambda>x. x\<lparr>p_rta := None\<rparr>) n)\<lparr>n_bufs := (n_bufs n)(b := None)\<rparr>)"
  using assms by (auto simp: free_rta_def pnal_buf_free_def split: option.split)

lemma ack_ignored:
  assumes "pdu_type f \<noteq> PF_RTA_PDU_TYPE_ACK \<and> pdu_type f \<noteq> PF_RTA_PDU_TYPE_DATA \<or>
     apms_state (get_apmx a ix n) \<noteq> PF_APMS_STATE_WTACK \<or> ack_seq_nbr f \<noteq> send_seq_count (get_apmx a ix n)"
  shows "pf_alarm_apms_a_data_ind env a ix f n = Some (0, n)"
  using assms by (auto simp: pf_alarm_apms_a_data_ind_def Let_def)

text \<open>
  The acknowledgement that is waited for, when no acknowledgement of the user is pending:
  no callback is called.
\<close>

lemma ack_taken:
  assumes t: "pdu_type f = PF_RTA_PDU_TYPE_ACK \<or> pdu_type f = PF_RTA_PDU_TYPE_DATA"
    and s: "apms_state (get_apmx a ix n) = PF_APMS_STATE_WTACK" and q: "ack_seq_nbr f = send_seq_count (get_apmx a ix n)"
    and live: "\<forall>b. p_rta (get_apmx a ix n) = Some b \<longrightarrow> n_bufs n b \<noteq> None"
    and r: "alpmr_state (get_alpmx a ix n) \<noteq> PF_ALPMR_STATE_W_TACK"
  shows "\<exists>n'. pf_alarm_apms_a_data_ind env a ix f n = Some (0, n') \<and>
     get_apmx a ix n' = (get_apmx a ix n)\<lparr>send_seq_count_o := send_seq_count (get_apmx a ix n),
       send_seq_count := (send_seq_count (get_apmx a ix n) + 1) AND 0x7fff, p_rta := None,
       apms_state := PF_APMS_STATE_OPEN\<rparr> \<and>
     get_alpmx a ix n' = get_alpmx a ix n \<and> n_sched n' = n_sched n \<and> n_now n' = n_now n \<and>
     n_next_buf n' = n_next_buf n \<and>
     ar_params (n_ar n' a) = ar_params (n_ar n a) \<and>
     n_bufs n' = (case p_rta (get_apmx a ix n) of None \<Rightarrow> n_bufs n | Some b \<Rightarrow> (n_bufs n)(b := None))"
proof -
  let ?g = "\<lambda>x. x\<lparr>send_seq_count_o := send_seq_count x, send_seq_count := (send_seq_count x + 1) AND 0x7fff\<rparr>"
  let ?n = "upd_apmx a ix ?g n"
  have "\<forall>b. p_rta (get_apmx a ix ?n) = Some b \<longrightarrow> n_bufs ?n b \<noteq> None" using live by simp
  note fr = free_rta_some [OF this]
  have cnf: "pf_alarm_alpmr_apms_a_data_cnf env a ix 0 v = Some v"
    if "alpmr_state (get_alpmx a ix v) \<noteq> PF_ALPMR_STATE_W_TACK" for v
    using that by (simp add: pf_alarm_alpmr_apms_a_data_cnf_def split: pf_alpmr_state.split)
  show ?thesis
    using t s q r
    by (cases "p_rta (get_apmx a ix n)")
      (auto simp: pf_alarm_apms_a_data_ind_def Let_def fr cnf pf_alarm_alpmi_apms_a_data_cnf_def)
qed

section \<open>Frame buffers\<close>

text \<open>What sending a frame does to the buffers: it is kept for a retransmission, or freed.\<close>

lemma data_req_buffers:
  assumes ar: "has_ar (get_apmx a ix n)" and fresh: "\<forall>b \<ge> n_next_buf n. n_bufs n b = None"
    and var: "\<forall>x. alarm_var_part x f data ms usi len pl st \<noteq> None"
  shows "\<exists>r n'. pf_alarm_apms_a_data_req env a ix f data ms usi len pl st n = Some (r, n') \<and>
     (\<forall>b \<ge> n_next_buf n'. n_bufs n' b = None) \<and>
     (if tack f \<and> p_rta (get_apmx a ix n) = None \<and> env_alloc env (n_world n) \<and> \<not> req_transport_udp (n_ar n a)
      then p_rta (get_apmx a ix n') = Some (n_next_buf n) \<and> n_bufs n' (n_next_buf n) \<noteq> None \<and>
           n' \<lparr>n_bufs := n_bufs n, n_next_buf := n_next_buf n, n_world := n_world n\<rparr> =
             upd_apmx a ix (\<lambda>x. x\<lparr>p_rta := Some (n_next_buf n)\<rparr>) n
      else n_bufs n' (n_next_buf n) = None \<and>
           n'\<lparr>n_bufs := n_bufs n, n_next_buf := n_next_buf n, n_world := n_world n\<rparr> = n) \<and>
     (\<forall>b. b \<noteq> n_next_buf n \<longrightarrow> n_bufs n' b = n_bufs n b) \<and>
     (n_bufs n' (n_next_buf n) \<noteq> None \<longrightarrow> p_rta (get_apmx a ix n') = Some (n_next_buf n))"
proof -
  obtain v where v: "alarm_var_part (get_apmx a ix n) f data ms usi len pl st = Some v" using var by blast
  show ?thesis
    using ar fresh v
    by (cases "req_transport_udp (n_ar n a)"; cases "env_alloc env (n_world n)"; cases "tack f";
        cases "p_rta (get_apmx a ix n)")
      (auto simp: pf_alarm_apms_a_data_req_def pnal_buf_alloc_def buf_store_def
        pf_eth_send_on_management_port_def pnal_buf_free_def upd_apmx_def upd_ar_def split: prod.split)
qed

section \<open>Sending data\<close>

text \<open>The entries of the scheduler that will call the resend function of a machine.\<close>

definition resend_timers :: "nat \<Rightarrow> nat \<Rightarrow> 'w alarm_net \<Rightarrow> nat set" where
  "resend_timers a ix n = {j. j < PF_MAX_TIMEOUTS \<and> to_in_use (entry (n_sched n) j) \<and>
     to_cb (entry (n_sched n) j) = Some Apms_timeout \<and> to_arg (entry (n_sched n) j) = Some (a, ix)}"

lemma resend_timers_sched: "n_sched n' = n_sched n \<Longrightarrow> resend_timers a ix n' = resend_timers a ix n"
  by (simp add: resend_timers_def)

lemma start_timer_rep:
  assumes rep: "sched_rep (n_sched n) busy (i # free) []"
    and d: "pf_scheduler_sanitize_delay (timeout_us (get_apmx a ix n)) (tick_interval (n_sched n)) True = Some d"
  shows "\<exists>h s. start_resend_timer a ix n = Some (0, upd_apmx a ix (\<lambda>x. x\<lparr>resend_timeout := h\<rparr>) (n\<lparr>n_sched := s\<rparr>)) \<and>
     sched_rep s (insert_deadline (n_sched n) (n_now n + d) i busy) free [] \<and>
     tick_interval s = tick_interval (n_sched n) \<and> i \<notin> resend_timers a ix n \<and> resend_timers a ix (n\<lparr>n_sched := s\<rparr>) = insert i (resend_timers a ix n)"
proof -
  from add_rep [OF rep d, of "n_now n" Apms_timeout "(a, ix)" "resend_timeout (get_apmx a ix n)"] obtain s where
    s: "pf_scheduler_add (n_now n) (timeout_us (get_apmx a ix n)) Apms_timeout (a, ix)
          (resend_timeout (get_apmx a ix n)) (n_sched n) =
          Some (0, (resend_timeout (get_apmx a ix n))\<lparr>h_timer_index := of_nat (i + 1)\<rparr>, s)"
      "sched_rep s (insert_deadline (n_sched n) (n_now n + d) i busy) free []"
      "entry_is s i (h_name (resend_timeout (get_apmx a ix n))) (n_now n + d) Apms_timeout (a, ix)"
      "payload_frame {i} (n_sched n) s" by blast
  have i: "i < PF_MAX_TIMEOUTS" "\<not> to_in_use (entry (n_sched n) i)"
    using rep sched_rep_length [OF rep] by (auto simp: sched_rep_def)
  have "same_payload (entry (n_sched n) j) (entry s j)" if "j < PF_MAX_TIMEOUTS" "j \<noteq> i" for j
    using that payload_frame_in [OF s(4), of j] sched_rep_length [OF rep] by simp
  then have "resend_timers a ix (n\<lparr>n_sched := s\<rparr>) = insert i (resend_timers a ix n)"
    using s(3) i(1) by (fastforce simp: resend_timers_def entry_is_def same_payload_def)
  then show ?thesis
    using s(1,2,4) i(2) by (intro exI [of _ s] exI) (auto simp: start_resend_timer_def resend_timers_def payload_frame_def)
qed

lemma stored_eq: "n'\<lparr>n_bufs := b, n_next_buf := k, n_world := w\<rparr> = m \<Longrightarrow>
    n_sched n' = n_sched m \<and> n_now n' = n_now m \<and> n_ar n' = n_ar m"
  by auto

text \<open>
  Handing a data message to an open sender: it waits for the acknowledgement afterwards,
  with one more timer, and the frame is kept in a buffer of its own when the sender has
  none, there is one to allocate and the channel is not over UDP.
\<close>

lemma send_data:
  assumes ar: "has_ar (get_apmx a ix n)" and fresh: "\<forall>b \<ge> n_next_buf n. n_bufs n b = None"
    and st: "apms_state (get_apmx a ix n) = PF_APMS_STATE_OPEN"
    and rep: "sched_rep (n_sched n) busy (i # free) []"
    and d: "pf_scheduler_sanitize_delay (timeout_us (get_apmx a ix n)) (tick_interval (n_sched n)) True = Some t"
  shows "\<exists>r n'. pf_alarm_apms_apms_a_data_req env a ix d ms status n = Some (r, n') \<and>
     apms_state (get_apmx a ix n') = PF_APMS_STATE_WTACK \<and>
     resend_counter (get_apmx a ix n') = ucast (req_rta_retries (n_ar n a)) \<and>
     sched_rep (n_sched n') (insert_deadline (n_sched n) (n_now n + t) i busy) free [] \<and>
     i \<notin> resend_timers a ix n \<and> resend_timers a ix n' = insert i (resend_timers a ix n) \<and>
     (\<forall>b. b \<noteq> n_next_buf n \<longrightarrow> n_bufs n' b = n_bufs n b) \<and>
     (n_bufs n' (n_next_buf n) \<noteq> None \<longrightarrow> p_rta (get_apmx a ix n') = Some (n_next_buf n)) \<and>
     (p_rta (get_apmx a ix n) = None \<and> env_alloc env (n_world n) \<and> \<not> req_transport_udp (n_ar n a) \<longrightarrow>
        n_bufs n' (n_next_buf n) \<noteq> None) \<and>
     (p_rta (get_apmx a ix n) \<noteq> None \<longrightarrow> p_rta (get_apmx a ix n') = p_rta (get_apmx a ix n)) \<and>
     (\<forall>b \<ge> n_next_buf n'. n_bufs n' b = None) \<and> tick_interval (n_sched n') = tick_interval (n_sched n) \<and>
     get_alpmx a ix n' = get_alpmx a ix n \<and> has_ar (get_apmx a ix n') \<and>
     timeout_us (get_apmx a ix n') = timeout_us (get_apmx a ix n) \<and>
     send_seq_count (get_apmx a ix n') = send_seq_count (get_apmx a ix n)"
proof -
  let ?x = "get_apmx a ix n"
  let ?f = "alarm_fixed_of ?x PF_RTA_PDU_TYPE_DATA True (send_seq_count ?x)"
  let ?n = "upd_apmx a ix (\<lambda>x. x\<lparr>resend_counter := ucast (req_rta_retries (n_ar n a))\<rparr>) n"
  have var: "\<forall>x. alarm_var_part x ?f (Some d) ms (pl_usi (payload d)) (unat (pl_len (payload d)))
      (pl_data (payload d)) status \<noteq> None"
    by (simp add: alarm_var_part_def alarm_fixed_of_def split: option.split)
  have f: "tack ?f" by (simp add: alarm_fixed_of_def)
  have udp: "req_transport_udp (n_ar ?n a) = req_transport_udp (n_ar n a)" by simp
  from data_req_buffers [where a = a and ix = ix and n = ?n and f = ?f and env = env, OF _ _ var] ar fresh
  obtain r n1 where n1: "pf_alarm_apms_a_data_req env a ix ?f (Some d) ms (pl_usi (payload d))
        (unat (pl_len (payload d))) (pl_data (payload d)) status ?n = Some (r, n1)"
    and eq: "if p_rta ?x = None \<and> env_alloc env (n_world n) \<and> \<not> req_transport_udp (n_ar n a)
      then p_rta (get_apmx a ix n1) = Some (n_next_buf n) \<and> n_bufs n1 (n_next_buf n) \<noteq> None \<and>
           n1\<lparr>n_bufs := n_bufs n, n_next_buf := n_next_buf n, n_world := n_world n\<rparr> =
             upd_apmx a ix (\<lambda>x. x\<lparr>p_rta := Some (n_next_buf n)\<rparr>) ?n
      else n_bufs n1 (n_next_buf n) = None \<and> n1\<lparr>n_bufs := n_bufs n, n_next_buf := n_next_buf n, n_world := n_world n\<rparr> = ?n"
    and keep: "\<forall>b. b \<noteq> n_next_buf n \<longrightarrow> n_bufs n1 b = n_bufs n b"
      "n_bufs n1 (n_next_buf n) \<noteq> None \<longrightarrow> p_rta (get_apmx a ix n1) = Some (n_next_buf n)"
      "\<forall>b \<ge> n_next_buf n1. n_bufs n1 b = None"
    by (auto simp: f cong: if_cong)
  have same: "n_sched n1 = n_sched n" "n_now n1 = n_now n" "timeout_us (get_apmx a ix n1) = timeout_us ?x"
    "resend_counter (get_apmx a ix n1) = ucast (req_rta_retries (n_ar n a))"
    "p_rta ?x \<noteq> None \<longrightarrow> p_rta (get_apmx a ix n1) = p_rta ?x" "get_alpmx a ix n1 = get_alpmx a ix n"
    "has_ar (get_apmx a ix n1)" "send_seq_count (get_apmx a ix n1) = send_seq_count ?x"
    using eq ar by (auto simp: alarm_fixed_of_def dest!: stored_eq split: if_splits)
  let ?n1 = "upd_apmx a ix (\<lambda>x. x\<lparr>apms_state := PF_APMS_STATE_WTACK\<rparr>) n1"
  from start_timer_rep [of ?n1 busy i free a ix t] rep d same obtain h s where
    hs: "start_resend_timer a ix ?n1 = Some (0, upd_apmx a ix (\<lambda>x. x\<lparr>resend_timeout := h\<rparr>) (?n1\<lparr>n_sched := s\<rparr>))"
      "sched_rep s (insert_deadline (n_sched n) (n_now n + t) i busy) free []"
      "tick_interval s = tick_interval (n_sched n)" "i \<notin> resend_timers a ix ?n1" "resend_timers a ix (?n1\<lparr>n_sched := s\<rparr>) = insert i (resend_timers a ix ?n1)"
    by auto
  have tm: "resend_timers a ix ?n1 = resend_timers a ix n" using same(1) by (intro resend_timers_sched) simp
  let ?n2 = "upd_apmx a ix (\<lambda>x. x\<lparr>resend_timeout := h\<rparr>) (?n1\<lparr>n_sched := s\<rparr>)"
  have "resend_timers a ix ?n2 = resend_timers a ix (?n1\<lparr>n_sched := s\<rparr>)" by (intro resend_timers_sched) simp
  moreover have "pf_alarm_apms_apms_a_data_req env a ix d ms status n = Some (r, ?n2)"
    using ar st n1 hs(1) by (simp add: pf_alarm_apms_apms_a_data_req_def Let_def)
  ultimately show ?thesis using hs tm keep same eq by (intro exI [of _ r] exI [of _ ?n2]) auto
qed

section \<open>Summary of diagnoses\<close>

text \<open>The indexes that a walk along \<open>next\<close> visits, up to the first one outside the table.\<close>

fun diag_chain :: "pf_diag_item list \<Rightarrow> u16 \<Rightarrow> u16 list \<Rightarrow> bool" where
  "diag_chain items i [] \<longleftrightarrow> unat i \<ge> length items"
| "diag_chain items i (j # js) \<longleftrightarrow> i = j \<and> unat i < length items \<and> diag_chain items (di_next (items ! unat i)) js"

definition diagnosis_at :: "pf_diag_item list \<Rightarrow> u16 \<Rightarrow> pf_diag_item" where
  "diagnosis_at items j = (items ! unat j)\<lparr>di_next := 0\<rparr>"

lemma summary_next [simp]:
  "pf_alarm_add_diag_item_to_summary a sub (x\<lparr>di_next := k\<rparr>) = pf_alarm_add_diag_item_to_summary a sub x"
  by (simp add: pf_alarm_add_diag_item_to_summary_def Let_def fun_eq_iff)

lemma summarize_chain:
  "diag_chain items i is \<Longrightarrow> summarize items a sub i sm =
     Some (fold (pf_alarm_add_diag_item_to_summary a sub) (map (diagnosis_at items) is) sm)"
  by (induction "is" arbitrary: i sm) (simp_all add: summarize.simps diagnosis_at_def)

lemma summary_commute:
  "pf_alarm_add_diag_item_to_summary a sub x \<circ> pf_alarm_add_diag_item_to_summary a sub y =
   pf_alarm_add_diag_item_to_summary a sub y \<circ> pf_alarm_add_diag_item_to_summary a sub x"
  by (rule ext, rename_tac sm, case_tac sm)
    (auto simp: pf_alarm_add_diag_item_to_summary_def Let_def or.assoc or.left_commute or.commute
      intro!: pnet_alarm_spec.equality)

end
