(* ===== verification/Alarm_Inv.thy ===== *)
theory Alarm_Inv
  imports Alarm_Lemmas
begin

unbundle bit_operations_syntax

text \<open>
  The invariant of the alarm component and the small steps that keep it. A frame buffer has
  one owner: the sender that keeps it for retransmission, the queue it waits in, or whoever
  holds it at the moment. So nothing is freed twice, and nothing is used after it was freed.
\<close>

section \<open>Owners of buffers\<close>

definition queue_bufs :: "pf_alarm_receive_queue \<Rightarrow> nat list" where
  "queue_bufs q = List.map_filter msg_buf (rq_items q)"

definition queue_ok :: "pf_alarm_receive_queue \<Rightarrow> bool" where
  "queue_ok q \<longleftrightarrow> distinct (queue_bufs q) \<and> (if acc_mutex (rq_accountant q)
     then receive_inv q \<and> (\<forall>m \<in> set (received q). msg_buf m \<noteq> None)
     else queue_bufs q = [] \<and> length (rq_items q) = PNET_MAX_ALARMS)"

definition mach_bufs :: "pf_apmx \<Rightarrow> nat set" where
  "mach_bufs x = set_option (p_rta x) \<union> set (queue_bufs (alarm_receive_q x))"

definition mach_ok :: "pf_apmx \<Rightarrow> bool" where
  "mach_ok x \<longleftrightarrow> queue_ok (alarm_receive_q x) \<and>
     (\<forall>b. p_rta x = Some b \<longrightarrow> b \<notin> set (queue_bufs (alarm_receive_q x)))"

definition own_ok :: "nat set \<Rightarrow> nat \<Rightarrow> (nat \<rightharpoonup> u8 list) \<Rightarrow> ('k \<Rightarrow> pf_apmx) \<Rightarrow> bool" where
  "own_ok H nx B M \<longleftrightarrow> (\<forall>b. B b \<noteq> None \<longrightarrow> b < nx) \<and> (\<forall>b. b \<in> H \<longrightarrow> B b \<noteq> None) \<and>
     (\<forall>k b. b \<in> mach_bufs (M k) \<longrightarrow> B b \<noteq> None \<and> b \<notin> H \<and> (\<forall>l. b \<in> mach_bufs (M l) \<longrightarrow> l = k))"

definition machines :: "'w alarm_net \<Rightarrow> nat \<times> nat \<Rightarrow> pf_apmx" where
  "machines n k = get_apmx (fst k) (snd k) n"

text \<open>
  A machine has a pointer to its AR, a queue that can be used and open states, or none of
  these; and a machine whose user may call it has them.
\<close>

definition link_ok :: "pf_apmx \<Rightarrow> pf_alpmx \<Rightarrow> bool" where
  "link_ok x l \<longleftrightarrow> has_ar x = (apms_state x \<noteq> PF_APMS_STATE_CLOSED) \<and> has_ar x = (apmr_state x \<noteq> PF_APMR_STATE_CLOSED) \<and>
     has_ar x = acc_mutex (rq_accountant (alarm_receive_q x)) \<and>
     (has_ar x \<or> alpmi_state l \<noteq> PF_ALPMI_STATE_W_ALARM \<and> alpmr_state l \<noteq> PF_ALPMR_STATE_W_USER_ACK)"

definition diag_ok :: "'w alarm_net \<Rightarrow> bool" where
  "diag_ok n \<longleftrightarrow> (\<forall>api slot subslot sub. n_subslot n api slot subslot = Some sub \<longrightarrow>
     (\<exists>is. diag_chain (n_diag_items n) (sub_diag_list sub) is))"

definition env_ok :: "'w alarm_net \<Rightarrow> bool" where
  "env_ok n \<longleftrightarrow> timer_ok (n_sched n) \<and> diag_ok n \<and> global_alarm_enable n \<and> length (alarm_endpoint n) = PNET_MAX_AR"

definition machines_ok :: "nat set \<Rightarrow> 'w alarm_net \<Rightarrow> bool" where
  "machines_ok H n \<longleftrightarrow> own_ok H (n_next_buf n) (n_bufs n) (machines n) \<and> (\<forall>k. mach_ok (machines n k)) \<and> env_ok n"

definition alarm_inv :: "nat set \<Rightarrow> 'w alarm_net \<Rightarrow> bool" where
  "alarm_inv H n \<longleftrightarrow> machines_ok H n \<and> (\<forall>a ix. link_ok (get_apmx a ix n) (get_alpmx a ix n))"

definition queue_len :: "pf_apmx \<Rightarrow> nat" where
  "queue_len x = acc_count (rq_accountant (alarm_receive_q x))"

definition shrinks :: "'w alarm_net \<Rightarrow> 'w alarm_net \<Rightarrow> bool" where
  "shrinks n n' \<longleftrightarrow> (\<forall>a ix. queue_len (get_apmx a ix n') \<le> queue_len (get_apmx a ix n))"

lemma shrinks_refl [simp]: "shrinks n n" by (simp add: shrinks_def)

lemma shrinks_trans: "shrinks n n' \<Longrightarrow> shrinks n' n'' \<Longrightarrow> shrinks n n''"
  by (meson shrinks_def le_trans)

section \<open>Updates in place\<close>

lemma map_filter_append [simp]: "List.map_filter f (xs @ ys) = List.map_filter f xs @ List.map_filter f ys"
  by (simp add: List.map_filter_def)

lemma map_filter_update_empty:
  assumes "i < length xs" and "f y = None" and "distinct (List.map_filter f xs)"
  shows "distinct (List.map_filter f (xs[i := y])) \<and>
    set (List.map_filter f (xs[i := y])) = set (List.map_filter f xs) - set_option (f (xs ! i))"
proof -
  note split = id_take_nth_drop [OF assms(1)] upd_conv_take_nth_drop [OF assms(1), of y]
  from assms(2,3) show ?thesis
    unfolding split(2) by (subst (asm) split(1), subst (4) split(1))
      (cases "f (xs ! i)"; auto simp: map_filter_simps)
qed

lemma map_filter_update_new:
  assumes "f y = Some b" and "b \<notin> set (List.map_filter f xs)" and "distinct (List.map_filter f xs)"
  shows "distinct (List.map_filter f (xs[i := y])) \<and> set (List.map_filter f (xs[i := y])) \<subseteq> insert b (set (List.map_filter f xs))"
proof (cases "i < length xs")
  case True
  note split = id_take_nth_drop [OF True] upd_conv_take_nth_drop [OF True, of y]
  from assms show ?thesis
    unfolding split(2) by (subst (asm) split(1), subst (asm) (3) split(1), subst (4) split(1))
      (cases "f (xs ! i)"; auto simp: map_filter_simps)
qed (use assms in \<open>auto simp: list_update_beyond\<close>)

section \<open>Buffers change hands\<close>

lemma own_mono: "own_ok H nx B M \<Longrightarrow> (\<And>l. mach_bufs (N l) \<subseteq> mach_bufs (M l)) \<Longrightarrow> own_ok H nx B N"
  unfolding own_ok_def by blast

lemma own_upd: "own_ok H nx B M \<Longrightarrow> mach_bufs y \<subseteq> mach_bufs (M k) \<Longrightarrow> own_ok H nx B (M(k := y))"
  by (erule own_mono) simp

lemma own_elem: "own_ok H nx B M \<Longrightarrow> b \<in> mach_bufs (M k) \<Longrightarrow> B b \<noteq> None \<and> b \<notin> H \<and> (\<forall>l. b \<in> mach_bufs (M l) \<longrightarrow> l = k)"
  unfolding own_ok_def by blast

lemma own_held: "own_ok H nx B M \<Longrightarrow> b \<in> H \<Longrightarrow> B b \<noteq> None \<and> b \<notin> mach_bufs (M l)"
  unfolding own_ok_def by blast

lemma own_free: "own_ok (insert b H) nx B M \<Longrightarrow> b \<notin> H \<Longrightarrow> own_ok H nx (B(b := None)) M \<and> B b \<noteq> None"
  unfolding own_ok_def fun_upd_apply by (metis insert_iff)

lemma own_take:
  "own_ok H nx B M \<Longrightarrow> b \<in> mach_bufs (M k) \<Longrightarrow> mach_bufs y \<subseteq> mach_bufs (M k) - {b} \<Longrightarrow>
   own_ok (insert b H) nx B (M(k := y)) \<and> b \<notin> H"
  unfolding own_ok_def fun_upd_apply by (intro conjI) (auto split: if_splits)

lemma own_give:
  "own_ok (insert b H) nx B M \<Longrightarrow> b \<notin> H \<Longrightarrow> mach_bufs y \<subseteq> insert b (mach_bufs (M k)) \<Longrightarrow>
   own_ok H nx B (M(k := y))"
  unfolding own_ok_def fun_upd_apply by ((intro conjI allI impI; auto split: if_splits); blast)

lemma own_alloc:
  assumes "own_ok H nx B M"
  shows "own_ok (insert nx H) (nx + 1) (B(nx \<mapsto> xs)) M \<and> nx \<notin> H"
proof -
  have "B nx = None" using assms unfolding own_ok_def by blast
  moreover from this have "nx \<notin> H" "nx \<notin> mach_bufs (M l)" for l
    using assms unfolding own_ok_def by blast+
  ultimately show ?thesis using assms by (auto simp: own_ok_def less_Suc_eq)
qed

lemma own_store: "own_ok H nx B M \<Longrightarrow> b \<in> H \<Longrightarrow> own_ok H nx (B(b \<mapsto> xs)) M"
  by (auto simp: own_ok_def)

section \<open>Machines\<close>

lemma machines_upd [simp]:
  "machines (upd_apmx a ix g n) = (machines n)((a, ix) := g (machines n (a, ix)))"
  "machines (upd_alpmx a ix h n) = machines n" "machines (set_err a c d n) = machines n"
  by (auto simp: machines_def fun_eq_iff)

lemma machines_frame [simp]:
  "machines (n\<lparr>n_bufs := B\<rparr>) = machines n" "machines (n\<lparr>n_sched := s\<rparr>) = machines n"
  "machines (n\<lparr>n_world := w\<rparr>) = machines n" "machines (n\<lparr>n_next_buf := k\<rparr>) = machines n"
  "machines (n\<lparr>alarm_endpoint := e\<rparr>) = machines n"
  by (simp_all add: machines_def fun_eq_iff)

lemma env_ok_frame [simp]:
  "env_ok (upd_apmx a ix g n) = env_ok n" "env_ok (upd_alpmx a ix h n) = env_ok n" "env_ok (set_err a c d n) = env_ok n"
  "env_ok (n\<lparr>n_bufs := B\<rparr>) = env_ok n" "env_ok (n\<lparr>n_world := w\<rparr>) = env_ok n" "env_ok (n\<lparr>n_next_buf := k\<rparr>) = env_ok n"
  by (simp_all add: env_ok_def diag_ok_def upd_apmx_def upd_alpmx_def set_err_def)

lemma env_ok_sched: "env_ok n \<Longrightarrow> timer_ok s \<Longrightarrow> env_ok (n\<lparr>n_sched := s\<rparr>)"
  by (simp add: env_ok_def diag_ok_def)

lemma machines_ok_upd:
  "machines_ok H n \<Longrightarrow> mach_ok (g (get_apmx a ix n)) \<Longrightarrow> mach_bufs (g (get_apmx a ix n)) \<subseteq> mach_bufs (get_apmx a ix n) \<Longrightarrow>
   machines_ok H (upd_apmx a ix g n)"
  using own_upd [of H "n_next_buf n" "n_bufs n" "machines n" "g (get_apmx a ix n)" "(a, ix)"]
  by (simp add: machines_ok_def machines_def)

text \<open>
  A calm step changes neither the states of the machines nor their queues: it may update
  counters and timers, and the buffer that is kept for retransmission.
\<close>

definition same_mach :: "pf_apmx \<Rightarrow> pf_apmx \<Rightarrow> bool" where
  "same_mach x y \<longleftrightarrow> has_ar y = has_ar x \<and> apms_state y = apms_state x \<and> apmr_state y = apmr_state x \<and>
     alarm_receive_q y = alarm_receive_q x"

definition calm :: "'w alarm_net \<Rightarrow> 'w alarm_net \<Rightarrow> bool" where
  "calm n n' \<longleftrightarrow> (\<forall>a ix. same_mach (get_apmx a ix n) (get_apmx a ix n') \<and> get_alpmx a ix n' = get_alpmx a ix n) \<and>
     (\<forall>a. ar_params (n_ar n' a) = ar_params (n_ar n a))"

lemma calm_refl [simp]: "calm n n" by (simp add: calm_def same_mach_def)

lemma calm_trans: "calm n n' \<Longrightarrow> calm n' n'' \<Longrightarrow> calm n n''"
  by (simp add: calm_def same_mach_def)

lemma calm_upd: "same_mach (get_apmx a ix n) (g (get_apmx a ix n)) \<Longrightarrow> calm n (upd_apmx a ix g n)"
  by (auto simp: calm_def same_mach_def)

lemma calm_frame [simp]:
  "calm n (n\<lparr>n_bufs := B\<rparr>)" "calm n (n\<lparr>n_sched := s\<rparr>)" "calm n (n\<lparr>n_world := w\<rparr>)" "calm n (n\<lparr>n_next_buf := k\<rparr>)"
  by (simp_all add: calm_def same_mach_def)

lemma calm_shrinks: "calm n n' \<Longrightarrow> shrinks n n'"
  by (simp add: calm_def shrinks_def same_mach_def queue_len_def)

lemma calm_link: "calm n n' \<Longrightarrow> link_ok (get_apmx a ix n') (get_alpmx a ix n') = link_ok (get_apmx a ix n) (get_alpmx a ix n)"
  by (simp add: calm_def same_mach_def link_ok_def)

lemma calm_inv: "alarm_inv H n \<Longrightarrow> machines_ok H n' \<Longrightarrow> calm n n' \<Longrightarrow> alarm_inv H n'"
  by (simp add: alarm_inv_def calm_link)

lemma machines_ok_own: "machines_ok H n \<Longrightarrow> own_ok H (n_next_buf n) (n_bufs n) (machines n)"
  by (simp add: machines_ok_def)

lemma machines_ok_mach: "machines_ok H n \<Longrightarrow> mach_ok (get_apmx a ix n)"
  by (auto simp: machines_ok_def machines_def)

lemma machines_ok_calm_upd:
  "machines_ok H n \<Longrightarrow> same_mach (get_apmx a ix n) (g (get_apmx a ix n)) \<Longrightarrow>
   p_rta (g (get_apmx a ix n)) = p_rta (get_apmx a ix n) \<Longrightarrow> machines_ok H (upd_apmx a ix g n) \<and> calm n (upd_apmx a ix g n)"
  using machines_ok_mach [of H n a ix] by (auto intro!: machines_ok_upd calm_upd simp: mach_ok_def mach_bufs_def same_mach_def)

lemma next_buf_set_err [simp]: "n_next_buf (set_err a c d n) = n_next_buf n"
  by (simp add: set_err_def)

lemma machines_ok_frame:
  "machines_ok H (upd_alpmx a ix h n) = machines_ok H n" "machines_ok H (set_err a c d n) = machines_ok H n"
  "machines_ok H (n\<lparr>n_world := w\<rparr>) = machines_ok H n"
  by (simp_all add: machines_ok_def)

declare machines_ok_frame [simp]

section \<open>Small steps\<close>

lemma free_held:
  assumes "machines_ok (insert b H) n" and "b \<notin> H"
  shows "\<exists>n'. pnal_buf_free b n = Some n' \<and> machines_ok H n' \<and> calm n n' \<and> n_ar n' = n_ar n"
  using assms own_free [OF machines_ok_own [OF assms(1)] assms(2)]
  by (auto simp: pnal_buf_free_def machines_ok_def)

lemma free_rta_ok:
  assumes "machines_ok H n"
  shows "\<exists>n'. free_rta a ix n = Some n' \<and> machines_ok H n' \<and> calm n n'"
proof (cases "p_rta (get_apmx a ix n)")
  case None
  with assms show ?thesis by (simp add: free_rta_def)
next
  case (Some b)
  let ?g = "\<lambda>x. x\<lparr>p_rta := None\<rparr>" and ?x = "get_apmx a ix n"
  have m: "mach_ok ?x" by (rule machines_ok_mach [OF assms])
  have "mach_bufs (?g ?x) \<subseteq> mach_bufs ?x - {b}" "b \<in> mach_bufs ?x"
    using m Some by (auto simp: mach_bufs_def mach_ok_def)
  from own_take [OF machines_ok_own [OF assms], of b "(a, ix)" "?g ?x"] this
  have "machines_ok (insert b H) (upd_apmx a ix ?g n)" "b \<notin> H"
    using assms m by (auto simp: machines_ok_def machines_def mach_ok_def)
  from free_held [OF this] calm_upd [where a = a and ix = ix and n = n and g = ?g] show ?thesis
    by (auto simp: free_rta_def Some same_mach_def intro: calm_trans)
qed

lemma start_timer_ok:
  assumes "machines_ok H n"
  shows "\<exists>r n'. start_resend_timer a ix n = Some (r, n') \<and> machines_ok H n' \<and> calm n n'"
proof -
  have "timer_ok (n_sched n)" using assms by (simp add: machines_ok_def env_ok_def)
  from timer.add_total [OF this, of "n_now n" "timeout_us (get_apmx a ix n)" Apms_timeout "(a, ix)"
      "resend_timeout (get_apmx a ix n)"] obtain r h s where
    s: "pf_scheduler_add (n_now n) (timeout_us (get_apmx a ix n)) Apms_timeout (a, ix)
      (resend_timeout (get_apmx a ix n)) (n_sched n) = Some (r, h, s)" "timer_ok s" by blast
  have "machines_ok H (n\<lparr>n_sched := s\<rparr>)" using assms s(2) by (simp add: machines_ok_def env_ok_sched)
  from machines_ok_calm_upd [OF this, where a = a and ix = ix and g = "\<lambda>x. x\<lparr>resend_timeout := h\<rparr>"] s(1) show ?thesis
    by (fastforce simp: start_resend_timer_def same_mach_def intro: calm_trans [OF calm_frame(2)])
qed

lemma stop_timer_ok:
  assumes "machines_ok H n"
  shows "\<exists>n'. stop_resend_timer a ix n = Some n' \<and> machines_ok H n' \<and> calm n n'"
proof -
  have "timer_ok (n_sched n)" using assms by (simp add: machines_ok_def env_ok_def)
  from timer.cancel_any [OF this, of "resend_timeout (get_apmx a ix n)"] obtain h s where
    s: "pf_scheduler_remove_if_running (resend_timeout (get_apmx a ix n)) (n_sched n) = Some (h, s)" "timer_ok s"
    by blast
  have "machines_ok H (n\<lparr>n_sched := s\<rparr>)" using assms s(2) by (simp add: machines_ok_def env_ok_sched)
  from machines_ok_calm_upd [OF this, where a = a and ix = ix and g = "\<lambda>x. x\<lparr>resend_timeout := h\<rparr>"] s(1) show ?thesis
    by (fastforce simp: stop_resend_timer_def same_mach_def intro: calm_trans [OF calm_frame(2)])
qed

lemma data_req_ok:
  assumes ok: "machines_ok H n" and ar: "has_ar (get_apmx a ix n)"
    and v: "pdu_type f = PF_RTA_PDU_TYPE_DATA \<longrightarrow> data \<noteq> None" "pdu_type f = PF_RTA_PDU_TYPE_ERR \<longrightarrow> st \<noteq> None"
  shows "\<exists>r n'. pf_alarm_apms_a_data_req env a ix f data ms usi len pl st n = Some (r, n') \<and>
    machines_ok H n' \<and> calm n n'"
proof (cases "req_transport_udp (n_ar n a) \<or> \<not> env_alloc env (n_world n)")
  case True
  with ok ar show ?thesis by (auto simp: pf_alarm_apms_a_data_req_def pnal_buf_alloc_def)
next
  case False
  have "alarm_var_part (get_apmx a ix n) f data ms usi len pl st \<noteq> None"
    using v by (auto simp: alarm_var_part_def split: option.split)
  then obtain var where var: "alarm_var_part (get_apmx a ix n) f data ms usi len pl st = Some var" by blast
  let ?b = "n_next_buf n" and ?x = "get_apmx a ix n"
  define xs where "xs = frame_bytes (put_alarm_frame (n_device_mac n) ?x f var)"
  define w where "w = snd (env_eth_send env xs (n_world n))"
  define r where "r = fst (env_eth_send env xs (n_world n))"
  define m where "m = n\<lparr>n_next_buf := ?b + 1, n_bufs := (n_bufs n)(?b \<mapsto> xs), n_world := w\<rparr>"
  have m: "machines_ok (insert ?b H) m" "?b \<notin> H" "calm n m" "get_apmx a ix m = ?x"
    using ok own_alloc [OF machines_ok_own [OF ok], of xs]
    by (auto simp: machines_ok_def m_def env_ok_def diag_ok_def machines_def calm_def same_mach_def)
  have eq: "pf_alarm_apms_a_data_req env a ix f data ms usi len pl st n =
      Option.bind (if tack f \<and> p_rta ?x = None then Some (upd_apmx a ix (\<lambda>x. x\<lparr>p_rta := Some ?b\<rparr>) m) else pnal_buf_free ?b m)
        (\<lambda>n. Some (if r \<le> 0 then -1 else 0, n))"
    using False ar var
    by (simp add: pf_alarm_apms_a_data_req_def pnal_buf_alloc_def buf_store_def pf_eth_send_on_management_port_def
        xs_def [symmetric] w_def r_def m_def split: prod.split)
  show ?thesis
  proof (cases "tack f \<and> p_rta ?x = None")
    case True
    let ?g = "\<lambda>x. x\<lparr>p_rta := Some ?b\<rparr>"
    have "mach_ok ?x" by (rule machines_ok_mach [OF ok])
    moreover have "?b \<notin> mach_bufs ?x"
      using own_held [OF machines_ok_own [OF m(1)], of ?b "(a, ix)"] m(4) by (simp add: machines_def)
    ultimately have "machines_ok H (upd_apmx a ix ?g m)"
      using own_give [OF machines_ok_own [OF m(1)] m(2), of "?g ?x" "(a, ix)"] m(1,4) True
      by (auto simp: machines_ok_def machines_def mach_bufs_def mach_ok_def)
    moreover have "calm n (upd_apmx a ix ?g m)"
      using m(3) calm_upd [where a = a and ix = ix and n = m and g = ?g] by (auto simp: same_mach_def intro: calm_trans)
    ultimately show ?thesis using eq True by simp
  next
    case False
    from free_held [OF m(1,2)] m(3) eq False show ?thesis by (auto intro: calm_trans)
  qed
qed

section \<open>The receive queue\<close>

lemma receive_inv_mutex [simp]: "receive_inv q \<Longrightarrow> acc_mutex (rq_accountant q)"
  by (simp add: receive_inv_def ring_inv_def)

lemma queue_op_mutex:
  "pf_alarm_receive_queue_fetch q = (m, q') \<Longrightarrow> acc_mutex (rq_accountant q') = acc_mutex (rq_accountant q)"
  "pf_alarm_receive_queue_post x q = (r, q') \<Longrightarrow> acc_mutex (rq_accountant q') = acc_mutex (rq_accountant q)"
  by (auto simp: queue_op_defs pf_alarm_queue_get_readindex_def pf_alarm_queue_get_writeindex_def
      split: if_splits option.splits)

lemma fetch_ok:
  assumes ok: "machines_ok H n" and f: "pf_alarm_receive_queue_fetch (alarm_receive_q (get_apmx a ix n)) = (Some m, q)"
  defines "n' \<equiv> upd_apmx a ix (\<lambda>x. x\<lparr>alarm_receive_q := q\<rparr>) n"
  shows "\<exists>b. msg_buf m = Some b \<and> b \<notin> H \<and> machines_ok (insert b H) n' \<and> shrinks n n' \<and>
    queue_len (get_apmx a ix n') < queue_len (get_apmx a ix n)"
proof -
  let ?x = "get_apmx a ix n"
  let ?q = "alarm_receive_q ?x" and ?y = "get_apmx a ix n\<lparr>alarm_receive_q := q\<rparr>"
  have mx: "mach_ok ?x" by (rule machines_ok_mach [OF ok])
  have av: "acc_mutex (rq_accountant ?q)" using f by (auto simp: queue_op_defs split: if_splits)
  then have inv: "receive_inv ?q" "\<forall>m \<in> set (received ?q). msg_buf m \<noteq> None" "distinct (queue_bufs ?q)"
    using mx by (auto simp: mach_ok_def queue_ok_def)
  from receive_queue.fetch_cases [OF inv(1) f] have q: "receive_inv q" "received ?q = m # received q" by auto
  then obtain b where b: "msg_buf m = Some b" using inv(2) by auto
  obtain i acc where i: "m = rq_items ?q ! i" "rq_items q = (rq_items ?q)[i := empty_msg]" "i < length (rq_items ?q)"
    using f inv(1) by (auto simp: queue_op_defs pf_alarm_queue_get_readindex_def receive_inv_def ring_inv_def
        split: if_splits option.splits)
  have "distinct (queue_bufs q) \<and> set (queue_bufs q) = set (queue_bufs ?q) - {b}"
    using map_filter_update_empty [OF i(3), of msg_buf empty_msg] inv(3) b i
    by (simp add: queue_bufs_def empty_msg_def)
  moreover have "b \<in> set (queue_bufs ?q)"
  proof -
    have "m \<in> set (rq_items ?q)" using i(1,3) by simp
    with b show ?thesis by (force simp: queue_bufs_def List.map_filter_def)
  qed
  ultimately have "mach_ok ?y" "mach_bufs ?y \<subseteq> mach_bufs ?x - {b}" "b \<in> mach_bufs ?x"
    using mx q inv(2) by (auto simp: mach_ok_def queue_ok_def mach_bufs_def)
  from own_take [OF machines_ok_own [OF ok], of b "(a, ix)" ?y] this
  have "machines_ok (insert b H) n'" "b \<notin> H" using ok by (auto simp: machines_ok_def machines_def n'_def)
  moreover have "length (received ?q) = Suc (length (received q))" by (simp add: q(2))
  then have "queue_len ?y < queue_len ?x" by (simp add: queue_len_def received_def)
  ultimately show ?thesis using b by (auto simp: n'_def shrinks_def)
qed

lemma post_ok:
  assumes ok: "machines_ok (insert b H) n" and b: "b \<notin> H"
    and p: "pf_alarm_receive_queue_post \<lparr>msg_buf = Some b, frame_id_pos = k\<rparr> (alarm_receive_q (get_apmx a ix n)) = (r, q)"
  defines "n' \<equiv> upd_apmx a ix (\<lambda>x. x\<lparr>alarm_receive_q := q\<rparr>) n"
  shows "machines_ok (if r = 0 then H else insert b H) n'"
proof -
  let ?x = "get_apmx a ix n"
  let ?q = "alarm_receive_q ?x" and ?y = "get_apmx a ix n\<lparr>alarm_receive_q := q\<rparr>"
  have mx: "mach_ok ?x" by (rule machines_ok_mach [OF ok])
  show ?thesis
  proof (cases "q = ?q")
    case True
    then have "machines_ok (insert b H) n'"
      using ok mx by (auto simp: n'_def intro!: machines_ok_upd)
    moreover have "machines_ok H n'" using calculation by (auto simp: machines_ok_def own_ok_def)
    ultimately show ?thesis by simp
  next
    case False
    then have av: "acc_mutex (rq_accountant ?q)" using p by (auto simp: queue_op_defs split: if_splits)
    then have inv: "receive_inv ?q" "\<forall>m \<in> set (received ?q). msg_buf m \<noteq> None" "distinct (queue_bufs ?q)"
      using mx by (auto simp: mach_ok_def queue_ok_def)
    from receive_queue.post_cases [OF inv(1) p] False have q: "receive_inv q" "r = 0"
      "received q = received ?q @ [\<lparr>msg_buf = Some b, frame_id_pos = k\<rparr>]" by auto
    obtain i where i: "rq_items q = (rq_items ?q)[i := \<lparr>msg_buf = Some b, frame_id_pos = k\<rparr>]"
      using p False by (auto simp: queue_op_defs split: if_splits option.splits prod.splits)
    have nb: "b \<notin> mach_bufs ?x"
      using own_held [OF machines_ok_own [OF ok], of b "(a, ix)"] by (simp add: machines_def)
    then have "distinct (queue_bufs q) \<and> set (queue_bufs q) \<subseteq> insert b (set (queue_bufs ?q))"
      using map_filter_update_new [of msg_buf "\<lparr>msg_buf = Some b, frame_id_pos = k\<rparr>" b "rq_items ?q" i] inv(3)
      by (simp add: queue_bufs_def mach_bufs_def i)
    with mx q inv nb have "mach_ok ?y" "mach_bufs ?y \<subseteq> insert b (mach_bufs ?x)"
      by (auto simp: mach_ok_def queue_ok_def mach_bufs_def)
    with own_give [OF machines_ok_own [OF ok] b, of ?y "(a, ix)"] ok q(2)
    show ?thesis by (auto simp: machines_ok_def machines_def n'_def)
  qed
qed

end
