(* ===== verification/Alarm_Safety.thy ===== *)
theory Alarm_Safety
  imports Alarm_Inv
begin

unbundle bit_operations_syntax

text \<open>
  Every operation of the alarm component keeps its invariant and never uses a null pointer,
  frees a buffer twice or fails an assertion, given callbacks that keep a contract: the locale
  \<open>alarm_callbacks\<close>. The error indication may close the AR, as CMSU does; the callbacks of
  the application may call the component, but must not abort the AR from inside the callback.
\<close>

section \<open>Steps\<close>

text \<open>\<open>moves\<close>: the invariant holds and no queue grew; \<open>stays\<close>: no AR was closed, either.\<close>

definition moves :: "nat set \<Rightarrow> 'w alarm_net \<Rightarrow> 'w alarm_net \<Rightarrow> bool" where
  "moves H n n' \<longleftrightarrow> alarm_inv H n' \<and> shrinks n n'"

definition stays :: "nat set \<Rightarrow> 'w alarm_net \<Rightarrow> 'w alarm_net \<Rightarrow> bool" where
  "stays H n n' \<longleftrightarrow> moves H n n' \<and> (\<forall>a ix. has_ar (get_apmx a ix n) \<longrightarrow> has_ar (get_apmx a ix n'))"

lemma moves_refl: "alarm_inv H n \<Longrightarrow> moves H n n" by (simp add: moves_def)
lemma stays_refl: "alarm_inv H n \<Longrightarrow> stays H n n" by (simp add: stays_def moves_refl)

lemma moves_trans: "moves H n n' \<Longrightarrow> moves H n' n'' \<Longrightarrow> moves H n n''"
  by (auto simp: moves_def intro: shrinks_trans)

lemma stays_trans: "stays H n n' \<Longrightarrow> stays H n' n'' \<Longrightarrow> stays H n n''"
  by (auto simp: stays_def intro: moves_trans)

lemma stays_moves: "stays H n n' \<Longrightarrow> moves H n n'" by (simp add: stays_def)
lemma stays_inv: "stays H n n' \<Longrightarrow> alarm_inv H n'" by (simp add: stays_def moves_def)
lemma moves_inv: "moves H n n' \<Longrightarrow> alarm_inv H n'" by (simp add: moves_def)
lemma stays_ar: "stays H n n' \<Longrightarrow> has_ar (get_apmx a ix n) \<Longrightarrow> has_ar (get_apmx a ix n')" by (simp add: stays_def)

lemma calm_stays: "alarm_inv H n \<Longrightarrow> machines_ok H n' \<Longrightarrow> calm n n' \<Longrightarrow> stays H n n'"
  using calm_inv [of H n n'] calm_shrinks [of n n'] by (auto simp: stays_def moves_def calm_def same_mach_def)

lemma inv_machines: "alarm_inv H n \<Longrightarrow> machines_ok H n" by (simp add: alarm_inv_def)
lemma inv_link: "alarm_inv H n \<Longrightarrow> link_ok (get_apmx a ix n) (get_alpmx a ix n)" by (simp add: alarm_inv_def)

lemma inv_open:
  assumes "alarm_inv H n"
  shows "apmr_state (get_apmx a ix n) \<noteq> PF_APMR_STATE_CLOSED \<Longrightarrow> has_ar (get_apmx a ix n)"
    and "apms_state (get_apmx a ix n) \<noteq> PF_APMS_STATE_CLOSED \<Longrightarrow> has_ar (get_apmx a ix n)"
    and "alpmi_state (get_alpmx a ix n) = PF_ALPMI_STATE_W_ALARM \<Longrightarrow> has_ar (get_apmx a ix n)"
    and "alpmr_state (get_alpmx a ix n) = PF_ALPMR_STATE_W_USER_ACK \<Longrightarrow> has_ar (get_apmx a ix n)"
  using inv_link [OF assms, of a ix] unfolding link_ok_def by metis+

lemma inv_opened:
  assumes "alarm_inv H n" and "has_ar (get_apmx a ix n)"
  shows "apms_state (get_apmx a ix n) \<noteq> PF_APMS_STATE_CLOSED" and "apmr_state (get_apmx a ix n) \<noteq> PF_APMR_STATE_CLOSED"
    and "acc_mutex (rq_accountant (alarm_receive_q (get_apmx a ix n)))"
  using inv_link [OF assms(1), of a ix] assms(2) unfolding link_ok_def by metis+

lemma link_ok_numbers [simp]:
  "link_ok x (l\<lparr>prev_sequence_number := p, alpm_sequence_number := q\<rparr>) = link_ok x l"
  by (simp add: link_ok_def)

lemma stays_alpmx:
  assumes "alarm_inv H n" and "link_ok (get_apmx a ix n) (h (get_alpmx a ix n))"
  shows "stays H n (upd_alpmx a ix h n)"
  using assms by (auto simp: stays_def moves_def alarm_inv_def shrinks_def)

text \<open>An update of an open machine that leaves its queue and its buffer and does not close it.\<close>

lemma stays_apmx:
  assumes inv: "alarm_inv H n" and ar: "has_ar (get_apmx a ix n)"
    and g: "has_ar (g (get_apmx a ix n))" "p_rta (g (get_apmx a ix n)) = p_rta (get_apmx a ix n)"
      "alarm_receive_q (g (get_apmx a ix n)) = alarm_receive_q (get_apmx a ix n)"
      "apms_state (g (get_apmx a ix n)) \<noteq> PF_APMS_STATE_CLOSED" "apmr_state (g (get_apmx a ix n)) \<noteq> PF_APMR_STATE_CLOSED"
  shows "stays H n (upd_apmx a ix g n)"
proof -
  have "machines_ok H (upd_apmx a ix g n)"
    using machines_ok_mach [OF inv_machines [OF inv], of a ix] g
    by (intro machines_ok_upd [OF inv_machines [OF inv]]) (auto simp: mach_ok_def mach_bufs_def)
  with inv ar g inv_link [OF inv, of a ix] show ?thesis
    by (auto simp: stays_def moves_def alarm_inv_def shrinks_def queue_len_def link_ok_def)
qed

lemma stays_set_err: "alarm_inv H n \<Longrightarrow> stays H n (set_err a c d n)"
  by (simp add: stays_def moves_def alarm_inv_def shrinks_def)

section \<open>The contract of the callbacks\<close>

definition user_ok :: "nat set \<Rightarrow> 'w alarm_net \<Rightarrow> 'w alarm_net option \<Rightarrow> bool" where
  "user_ok H n r \<longleftrightarrow> (\<exists>n'. r = Some n' \<and> stays H n n')"

definition error_ok :: "nat set \<Rightarrow> 'w alarm_net \<Rightarrow> 'w alarm_net option \<Rightarrow> bool" where
  "error_ok H n r \<longleftrightarrow> (\<exists>n'. r = Some n' \<and> moves H n n' \<and> (\<forall>a ix. has_ar (get_apmx a ix n) \<longrightarrow>
     has_ar (get_apmx a ix n') \<or> alpmr_state (get_alpmx a ix n') = PF_ALPMR_STATE_W_START))"

locale alarm_callbacks =
  fixes env :: "'w alarm_env"
  assumes error_ind: "alarm_inv H n \<Longrightarrow> error_ok H n (env_error_ind env a c d n)"
    and alarm_cnf: "alarm_inv H n \<Longrightarrow> user_ok H n (env_alarm_cnf env a st n)"
    and alarm_ind: "alarm_inv H n \<Longrightarrow> user_ok H n (env_alarm_ind env a arg len usi xs n)"
    and ack_cnf: "alarm_inv H n \<Longrightarrow> user_ok H n (env_ack_cnf env a res n)"
    and log: "alarm_inv H n \<Longrightarrow> user_ok H n (env_log env a st n)"
begin

lemma indicate:
  assumes "alarm_inv H n" and "has_ar (get_apmx a ix n)"
  shows "\<exists>n'. pf_alarm_error_ind env a ix c d n = Some n' \<and> moves H n n' \<and>
    (has_ar (get_apmx a ix n') \<or> alpmr_state (get_alpmx a ix n') = PF_ALPMR_STATE_W_START)"
  using error_ind [OF assms(1), of a c d] assms(2) by (auto simp: pf_alarm_error_ind_def error_ok_def)

lemma indicate_err:
  assumes "alarm_inv H n" and "has_ar (get_apmx a ix n)"
  shows "\<exists>n'. pf_alarm_error_ind env a ix c d (set_err a c' d' n) = Some n' \<and> moves H n n' \<and>
    (has_ar (get_apmx a ix n') \<or> alpmr_state (get_alpmx a ix n') = PF_ALPMR_STATE_W_START)"
  using indicate [OF stays_inv [OF stays_set_err [OF assms(1), of a c' d']], of a ix c d] assms
    stays_moves [OF stays_set_err [OF assms(1), of a c' d']] by (auto intro: moves_trans)

section \<open>Sending\<close>

lemma data_req:
  assumes inv: "alarm_inv H n" and ar: "has_ar (get_apmx a ix n)"
    and v: "pdu_type f = PF_RTA_PDU_TYPE_DATA \<longrightarrow> data \<noteq> None" "pdu_type f = PF_RTA_PDU_TYPE_ERR \<longrightarrow> st \<noteq> None"
  shows "\<exists>r n'. pf_alarm_apms_a_data_req env a ix f data ms usi len pl st n = Some (r, n') \<and> stays H n n'"
  using data_req_ok [OF inv_machines [OF inv] ar v, where env = env] calm_stays [OF inv] by blast

lemma send_ack:
  assumes "alarm_inv H n" and "has_ar (get_apmx a ix n)"
  shows "\<exists>r n'. pf_alarm_apmr_send_ack env a ix n = Some (r, n') \<and> stays H n n'"
    and "\<exists>r n'. pf_alarm_apmr_send_nack env a ix n = Some (r, n') \<and> stays H n n'"
  unfolding pf_alarm_apmr_send_ack_def pf_alarm_apmr_send_nack_def
  by (rule data_req [OF assms]; simp add: alarm_fixed_of_def pdu_type_defs)+

lemma confirm_ok:
  assumes "alarm_inv H n" and "has_ar (get_apmx a ix n)"
  shows "pf_alarm_alpmi_apms_a_data_cnf env a ix 0 n = Some n"
    and "\<exists>n'. pf_alarm_alpmr_apms_a_data_cnf env a ix 0 n = Some n' \<and> stays H n n'"
proof -
  show "pf_alarm_alpmi_apms_a_data_cnf env a ix 0 n = Some n"
    by (simp add: pf_alarm_alpmi_apms_a_data_cnf_def)
  let ?h = "\<lambda>x. x\<lparr>alpmr_state := PF_ALPMR_STATE_W_NOTIFY\<rparr>"
  from ack_cnf [OF assms(1), of a 0] obtain m where m: "env_ack_cnf env a 0 n = Some m" "stays H n m"
    by (auto simp: user_ok_def)
  have "stays H m (upd_alpmx a ix ?h m)"
    using inv_link [OF stays_inv [OF m(2)], of a ix] by (intro stays_alpmx [OF stays_inv [OF m(2)]]) (auto simp: link_ok_def)
  with m assms stays_refl [OF assms(1)] show "\<exists>n'. pf_alarm_alpmr_apms_a_data_cnf env a ix 0 n = Some n' \<and> stays H n n'"
    by (auto simp: pf_alarm_alpmr_apms_a_data_cnf_def intro: stays_trans split: pf_alpmr_state.split)
qed

text \<open>The negative confirmations of a request that comes too early.\<close>

lemma confirm_error:
  assumes inv: "alarm_inv H n" and ar: "has_ar (get_apmx a ix n)"
  shows "\<exists>m n'. pf_alarm_alpmi_apms_a_data_cnf env a ix (-1) n = Some m \<and>
    pf_alarm_alpmr_apms_a_data_cnf env a ix (-1) m = Some n' \<and> moves H n n'"
proof -
  from indicate_err [OF assms] obtain m where m: "pf_alarm_alpmi_apms_a_data_cnf env a ix (-1) n = Some m" "moves H n m"
      "has_ar (get_apmx a ix m) \<or> alpmr_state (get_alpmx a ix m) = PF_ALPMR_STATE_W_START"
    using ar by (fastforce simp: pf_alarm_alpmi_apms_a_data_cnf_def)
  show ?thesis
  proof (cases "has_ar (get_apmx a ix m)")
    case True
    from indicate_err [OF moves_inv [OF m(2)] True] obtain n' where
      "alpmr_neg_cnf env a ix m = Some n'" "moves H m n'" using True by (fastforce simp: alpmr_neg_cnf_def)
    with m show ?thesis
      by (cases "alpmr_state (get_alpmx a ix m)")
        (auto simp: pf_alarm_alpmr_apms_a_data_cnf_def intro: moves_trans)
  next
    case False
    with m show ?thesis by (auto simp: pf_alarm_alpmr_apms_a_data_cnf_def)
  qed
qed

lemma a_data_req:
  assumes inv: "alarm_inv H n" and ar: "has_ar (get_apmx a ix n)"
  shows "\<exists>r n'. pf_alarm_apms_apms_a_data_req env a ix d ms st n = Some (r, n') \<and> moves H n n'"
proof (cases "apms_state (get_apmx a ix n) = PF_APMS_STATE_OPEN")
  case False
  with confirm_error [OF assms] show ?thesis by (auto simp: pf_alarm_apms_apms_a_data_req_def Let_def)
next
  case True
  let ?x = "get_apmx a ix n"
  have op: "apmr_state ?x \<noteq> PF_APMR_STATE_CLOSED" using inv_link [OF inv, of a ix] ar by (simp add: link_ok_def)
  let ?n1 = "upd_apmx a ix (\<lambda>x. x\<lparr>resend_counter := ucast (req_rta_retries (n_ar n a))\<rparr>) n"
  have 1: "stays H n ?n1" by (rule stays_apmx [OF inv ar]) (use ar op True in simp_all)
  from data_req [OF stays_inv [OF 1] stays_ar [OF 1 ar],
      of "alarm_fixed_of ?x PF_RTA_PDU_TYPE_DATA True (send_seq_count ?x)" "Some d" st ms "pl_usi (payload d)"
        "unat (pl_len (payload d))" "pl_data (payload d)"] obtain r n2 where
    2: "pf_alarm_apms_a_data_req env a ix (alarm_fixed_of ?x PF_RTA_PDU_TYPE_DATA True (send_seq_count ?x)) (Some d) ms
      (pl_usi (payload d)) (unat (pl_len (payload d))) (pl_data (payload d)) st ?n1 = Some (r, n2)" "stays H ?n1 n2"
    by (auto simp: alarm_fixed_of_def pdu_type_defs)
  note ar2 = stays_ar [OF 2(2) stays_ar [OF 1 ar]]
  let ?n3 = "upd_apmx a ix (\<lambda>x. x\<lparr>apms_state := PF_APMS_STATE_WTACK\<rparr>) n2"
  have 3: "stays H n2 ?n3"
    by (rule stays_apmx [OF stays_inv [OF 2(2)] ar2])
      (use ar2 inv_link [OF stays_inv [OF 2(2)], of a ix] in \<open>simp_all add: link_ok_def\<close>)
  from start_timer_ok [OF inv_machines [OF stays_inv [OF 3]], of a ix] calm_stays [OF stays_inv [OF 3]] obtain q n4 where
    4: "start_resend_timer a ix ?n3 = Some (q, n4)" "stays H ?n3 n4" by blast
  have "stays H n n4" using 1 2(2) 3 4(2) by (blast intro: stays_trans)
  with ar True 2(1) 4(1) show ?thesis by (auto simp: pf_alarm_apms_apms_a_data_req_def Let_def dest: stays_moves)
qed

end

section \<open>Receiving\<close>

context alarm_callbacks
begin

lemma transport_ack:
  assumes inv: "alarm_inv H n" and ar: "has_ar (get_apmx a ix n)"
  shows "\<exists>n'. pf_alarm_apms_a_data_ind env a ix f n = Some (0, n') \<and> stays H n n'"
proof -
  let ?x = "get_apmx a ix n"
  let ?g = "\<lambda>x. x\<lparr>send_seq_count_o := send_seq_count x, send_seq_count := (send_seq_count x + 1) AND 0x7fff\<rparr>"
  let ?n1 = "upd_apmx a ix ?g n"
  have op: "apms_state ?x \<noteq> PF_APMS_STATE_CLOSED" "apmr_state ?x \<noteq> PF_APMR_STATE_CLOSED"
    using inv_link [OF inv, of a ix] ar by (simp_all add: link_ok_def)
  have 1: "stays H n ?n1" by (rule stays_apmx [OF inv ar]) (use ar op in simp_all)
  from free_rta_ok [OF inv_machines [OF stays_inv [OF 1]], of a ix] calm_stays [OF stays_inv [OF 1]] obtain n2 where
    2: "free_rta a ix ?n1 = Some n2" "stays H ?n1 n2" by blast
  note ar2 = stays_ar [OF 2(2) stays_ar [OF 1 ar]]
  from confirm_ok [OF stays_inv [OF 2(2)] ar2] obtain n3 where
    3: "pf_alarm_alpmi_apms_a_data_cnf env a ix 0 n2 = Some n2" "pf_alarm_alpmr_apms_a_data_cnf env a ix 0 n2 = Some n3"
      "stays H n2 n3" by blast
  note ar3 = stays_ar [OF 3(3) ar2]
  have 4: "stays H n3 (upd_apmx a ix (\<lambda>x. x\<lparr>apms_state := PF_APMS_STATE_OPEN\<rparr>) n3)"
    by (rule stays_apmx [OF stays_inv [OF 3(3)] ar3])
      (use ar3 inv_link [OF stays_inv [OF 3(3)], of a ix] in \<open>simp_all add: link_ok_def\<close>)
  have "stays H n (upd_apmx a ix (\<lambda>x. x\<lparr>apms_state := PF_APMS_STATE_OPEN\<rparr>) n3)"
    using 1 2(2) 3(3) 4 by (blast intro: stays_trans)
  with 2(1) 3(1,2) stays_refl [OF inv] show ?thesis by (auto simp: pf_alarm_apms_a_data_ind_def Let_def)
qed

text \<open>What is handed to a user may come back as an error, and then the AR may be closed.\<close>

definition delivers :: "nat set \<Rightarrow> nat \<Rightarrow> nat \<Rightarrow> ('w, int) fn \<Rightarrow> bool" where
  "delivers H a ix f \<longleftrightarrow> (\<forall>n. alarm_inv H n \<longrightarrow> has_ar (get_apmx a ix n) \<longrightarrow>
     (\<exists>r n'. f n = Some (r, n') \<and> moves H n n' \<and> (r = 0 \<longrightarrow> stays H n n')))"

lemma deliver_ack_ok: "delivers H a ix (deliver_ack env a ix r)"
  unfolding delivers_def
proof (intro allI impI)
  fix n :: "'w alarm_net" assume inv: "alarm_inv H n" and ar: "has_ar (get_apmx a ix n)"
  let ?n1 = "upd_alpmx a ix (\<lambda>x. x\<lparr>alpmi_state := PF_ALPMI_STATE_W_ALARM\<rparr>) n"
  have 1: "stays H n ?n1"
    by (rule stays_alpmx [OF inv]) (use ar inv_link [OF inv, of a ix] in \<open>auto simp: link_ok_def\<close>)
  from alarm_cnf [OF stays_inv [OF 1], of a "fst (run_state pf_get_pnio_status r)"] obtain n2 where
    "env_alarm_cnf env a (fst (run_state pf_get_pnio_status r)) ?n1 = Some n2" "stays H ?n1 n2"
    by (auto simp: user_ok_def)
  with 1 ar stays_refl [OF inv] show "\<exists>q n'. deliver_ack env a ix r n = Some (q, n') \<and> moves H n n' \<and> (q = 0 \<longrightarrow> stays H n n')"
    by (auto simp: deliver_ack_def pf_alarm_alpmi_apmr_a_data_ind_def Let_def intro: stays_trans stays_moves
        split: pf_alpmi_state.split)
qed

lemma user_notified:
  assumes inv: "alarm_inv H n" and ar: "has_ar (get_apmx a ix n)"
  shows "\<exists>r n'. pf_alarm_alpmr_apmr_a_data_ind env a ix d len usi xs n = Some (r, n') \<and> moves H n n' \<and>
    (r = 0 \<longrightarrow> stays H n n')"
proof -
  let ?n1 = "upd_alpmx a ix (\<lambda>x. x\<lparr>alpmr_state := PF_ALPMR_STATE_W_USER_ACK\<rparr>) n"
  have 1: "stays H n ?n1"
    by (rule stays_alpmx [OF inv]) (use ar inv_link [OF inv, of a ix] in \<open>auto simp: link_ok_def\<close>)
  from alarm_ind [OF stays_inv [OF 1], of a "alarm_argument d" len usi xs] obtain n2 where
    2: "env_alarm_ind env a (alarm_argument d) len usi xs ?n1 = Some n2" "stays H ?n1 n2" by (auto simp: user_ok_def)
  from indicate_err [OF assms] obtain n3 where
    3: "pf_alarm_error_ind env a ix PNET_ERROR_CODE_1_RTA_ERR_CLS_PROTOCOL PNET_ERROR_CODE_2_ABORT_AR_PROTOCOL_VIOLATION
      (set_err a PNET_ERROR_CODE_1_RTA_ERR_CLS_PROTOCOL PNET_ERROR_CODE_2_ABORT_AR_PROTOCOL_VIOLATION n) = Some n3"
      "moves H n n3" by blast
  show ?thesis
    using 1 2 3 ar stays_refl [OF inv] stays_trans [OF 1 2(2)]
    by (cases "alpmr_state (get_alpmx a ix n)")
      (auto simp: pf_alarm_alpmr_apmr_a_data_ind_def Let_def intro: stays_moves)
qed

lemma deliver_notification_ok: "delivers H a ix (deliver_notification env a ix len pos r)"
  using user_notified moves_refl by (auto simp: delivers_def deliver_notification_def split: prod.split)

lemma accept_ok:
  assumes inv: "alarm_inv H n" and ar: "has_ar (get_apmx a ix n)" and d: "delivers H a ix deliver"
  shows "\<exists>r n'. apmr_accept env a ix f deliver n = Some (r, n') \<and> moves H n n'"
proof -
  have open_upd: "stays H m (upd_apmx a ix g m)"
    if "alarm_inv H m" "has_ar (get_apmx a ix m)" "g \<in> {next_seq, \<lambda>x. x\<lparr>apmr_state := PF_APMR_STATE_WCNF\<rparr>,
      \<lambda>x. x\<lparr>apmr_state := PF_APMR_STATE_OPEN\<rparr>}" for m g
    by (rule stays_apmx [OF that(1,2)])
      (use that inv_link [OF that(1), of a ix] in \<open>auto simp: link_ok_def next_seq_def\<close>)
  from transport_ack [OF inv ar, of f] obtain n1 where
    1: "pf_alarm_apms_a_data_ind env a ix f n = Some (0, n1)" "stays H n n1" by blast
  note ar1 = stays_ar [OF 1(2) ar]
  have 2: "stays H n1 (upd_apmx a ix next_seq n1)" by (rule open_upd [OF stays_inv [OF 1(2)] ar1]) simp
  note ar2 = stays_ar [OF 2 ar1]
  from send_ack(1) [OF stays_inv [OF 2] ar2] obtain r n3 where
    3: "pf_alarm_apmr_send_ack env a ix (upd_apmx a ix next_seq n1) = Some (r, n3)" "stays H (upd_apmx a ix next_seq n1) n3"
    by blast
  note ar3 = stays_ar [OF 3(2) ar2]
  have to3: "stays H n n3" using 1(2) 2 3(2) by (blast intro: stays_trans)
  let ?n4 = "upd_apmx a ix (\<lambda>x. x\<lparr>apmr_state := PF_APMR_STATE_WCNF\<rparr>) n3"
  have 4: "stays H n3 ?n4" by (rule open_upd [OF stays_inv [OF 3(2)] ar3]) simp
  from d stays_inv [OF 4] stays_ar [OF 4 ar3] obtain q n5 where
    5: "deliver ?n4 = Some (q, n5)" "moves H ?n4 n5" "q = 0 \<longrightarrow> stays H ?n4 n5" unfolding delivers_def by blast
  have m5: "moves H n n5" using stays_moves [OF to3] stays_moves [OF 4] 5(2) by (blast intro: moves_trans)
  have "moves H n (upd_apmx a ix (\<lambda>x. x\<lparr>apmr_state := PF_APMR_STATE_OPEN\<rparr>) n5)" if "q = 0"
  proof -
    have "stays H ?n4 n5" using 5(3) that by simp
    from open_upd [OF stays_inv [OF this] stays_ar [OF this stays_ar [OF 4 ar3]]] m5
    show ?thesis by (blast intro: moves_trans stays_moves)
  qed
  with 1(1) 3(1) 5(1) m5 to3 show ?thesis by (auto simp: apmr_accept_def intro: stays_moves)
qed

lemma data_ind:
  assumes inv: "alarm_inv H n"
  shows "\<exists>r n'. pf_alarm_apmr_a_data_ind env a ix f len r0 n = Some (r, n') \<and> moves H n n'"
proof (cases "apmr_state (get_apmx a ix n) = PF_APMR_STATE_OPEN \<and> tack f")
  case False
  with moves_refl [OF inv] show ?thesis
    by (cases "apmr_state (get_apmx a ix n)") (auto simp: pf_alarm_apmr_a_data_ind_def Let_def)
next
  case True
  let ?x = "get_apmx a ix n"
  have ar: "has_ar ?x" using inv_open(1) [OF inv] True by auto
  obtain h r' where h: "run_state pf_get_block_header r0 = (h, r')" by fastforce
  consider "send_seq_num f = exp_seq_count ?x" "block_type h = block_type_alarm_ack ?x"
    | "send_seq_num f = exp_seq_count ?x" "block_type h \<noteq> block_type_alarm_ack ?x" "block_type h = block_type_alarm_notify ?x"
    | "send_seq_num f = exp_seq_count ?x" "block_type h \<noteq> block_type_alarm_ack ?x" "block_type h \<noteq> block_type_alarm_notify ?x"
    | "send_seq_num f \<noteq> exp_seq_count ?x" "send_seq_num f = exp_seq_count_o ?x"
    | "send_seq_num f \<noteq> exp_seq_count ?x" "send_seq_num f \<noteq> exp_seq_count_o ?x" by blast
  then show ?thesis
  proof cases
    case 1
    with accept_ok [OF inv ar deliver_ack_ok] True h show ?thesis by (simp add: pf_alarm_apmr_a_data_ind_def Let_def)
  next
    case 2
    with accept_ok [OF inv ar deliver_notification_ok] True h show ?thesis
      by (simp add: pf_alarm_apmr_a_data_ind_def Let_def)
  next
    case 3
    from indicate_err [OF inv ar, where c = PNET_ERROR_CODE_1_RTA_ERR_CLS_PROTOCOL and c' = PNET_ERROR_CODE_1_RTA_ERR_CLS_PROTOCOL
        and d = PNET_ERROR_CODE_2_ABORT_AR_ALARM_IND_ERROR and d' = PNET_ERROR_CODE_2_ABORT_AR_ALARM_IND_ERROR]
      3 True h ar show ?thesis
      by (auto simp: pf_alarm_apmr_a_data_ind_def Let_def)
  next
    case 4
    from transport_ack [OF inv ar, of f] obtain n1 where
      1: "pf_alarm_apms_a_data_ind env a ix f n = Some (0, n1)" "stays H n n1" by blast
    from send_ack(1) [OF stays_inv [OF 1(2)] stays_ar [OF 1(2) ar]] 1 4 True h show ?thesis
      by (auto simp: pf_alarm_apmr_a_data_ind_def Let_def intro: stays_moves [OF stays_trans])
  next
    case 5
    let ?st = "\<lparr>error_code = PNET_ERROR_CODE_PNIO, error_decode = PNET_ERROR_DECODE_PNIO,
      error_code_1 = PNET_ERROR_CODE_1_RTA_ERR_CLS_PROTOCOL, error_code_2 = PNET_ERROR_CODE_2_ABORT_CODE_SEQ\<rparr>"
    note e = stays_set_err [OF inv, of a PNET_ERROR_CODE_1_RTA_ERR_CLS_PROTOCOL PNET_ERROR_CODE_2_ABORT_CODE_SEQ]
    from log [OF stays_inv [OF e], of a ?st] obtain n1 where
      1: "env_log env a ?st (set_err a PNET_ERROR_CODE_1_RTA_ERR_CLS_PROTOCOL PNET_ERROR_CODE_2_ABORT_CODE_SEQ n) = Some n1"
        "stays H n n1" using stays_trans [OF e] by (auto simp: user_ok_def)
    from send_ack(2) [OF stays_inv [OF 1(2)] stays_ar [OF 1(2) ar]] 1 5 True h ar show ?thesis
      by (auto simp: pf_alarm_apmr_a_data_ind_def Let_def intro: stays_moves [OF stays_trans])
  qed
qed

lemma handle_frame:
  assumes inv: "alarm_inv H n" and op: "apmr_state (get_apmx a ix n) \<noteq> PF_APMR_STATE_CLOSED"
  shows "\<exists>r n'. apmr_handle_frame env a ix xs pos n = Some (r, n') \<and> moves H n n'"
proof -
  have ar: "has_ar (get_apmx a ix n)" by (rule inv_open(1) [OF inv op])
  obtain f l r where r: "run_state (do { f \<leftarrow> pf_get_alarm_fixed; l \<leftarrow> pf_get_uint16; State_Monad.return (f, l) })
      (frame_reader xs (pos + 2)) = ((f, l), r)" by (metis surj_pair)
  let ?st = "fst (run_state pf_get_pnio_status r)"
  from transport_ack [OF inv ar, of f] data_ind [OF inv, of a ix f l r]
    indicate [OF inv ar, of "error_code_1 ?st" "error_code_2 ?st"]
    indicate [OF inv ar, of PNET_ERROR_CODE_1_APMR PNET_ERROR_CODE_2_INVALID_STATE] moves_refl [OF inv]
  show ?thesis
    unfolding apmr_handle_frame_def r by (auto simp: Let_def intro: stays_moves)
qed

text \<open>The loop over the queue ends because nobody but the driver puts frames into it.\<close>

lemma drain:
  "alarm_inv H n \<Longrightarrow> \<exists>r n'. apmr_drain env a ix n = Some (r, n') \<and> moves H n n'"
proof (induction "queue_len (get_apmx a ix n)" arbitrary: n rule: less_induct)
  case less
  note inv = less.prems
  show ?case
  proof (cases "apmr_state (get_apmx a ix n) = PF_APMR_STATE_CLOSED")
    case True
    with moves_refl [OF inv] show ?thesis by (simp add: apmr_drain.simps)
  next
    case False
    obtain m q where f: "pf_alarm_receive_queue_fetch (alarm_receive_q (get_apmx a ix n)) = (m, q)" by fastforce
    have ar: "has_ar (get_apmx a ix n)" by (rule inv_open(1) [OF inv False])
    let ?n1 = "upd_apmx a ix (\<lambda>x. x\<lparr>alarm_receive_q := q\<rparr>) n"
    have link: "link_ok (get_apmx b jx ?n1) (get_alpmx b jx ?n1)" for b jx
      using inv_link [OF inv, of b jx] queue_op_mutex(1) [OF f] by (auto simp: link_ok_def)
    show ?thesis
    proof (cases m)
      case None
      have "q = alarm_receive_q (get_apmx a ix n)"
        using f None by (auto simp: queue_op_defs split: if_splits option.splits)
      then have "moves H n ?n1"
        using inv_link [OF inv, of a ix] False ar by (intro stays_moves stays_apmx [OF inv ar]) (auto simp: link_ok_def)
      with f None False show ?thesis by (simp add: apmr_drain.simps)
    next
      case (Some msg)
      from fetch_ok [OF inv_machines [OF inv] f [unfolded Some]] obtain b where
        b: "msg_buf msg = Some b" "b \<notin> H" "machines_ok (insert b H) ?n1" "shrinks n ?n1"
          "queue_len (get_apmx a ix ?n1) < queue_len (get_apmx a ix n)" by blast
      have inv1: "alarm_inv (insert b H) ?n1" using b(3) link by (simp add: alarm_inv_def)
      have "n_bufs n b \<noteq> None"
        using own_held [OF machines_ok_own [OF b(3)], of b] by simp
      then obtain xs where xs: "n_bufs n b = Some xs" by blast
      have "apmr_state (get_apmx a ix ?n1) \<noteq> PF_APMR_STATE_CLOSED" using False by simp
      from handle_frame [OF inv1 this, of xs "frame_id_pos msg"] obtain r n2 where
        2: "apmr_handle_frame env a ix xs (frame_id_pos msg) ?n1 = Some (r, n2)" "moves (insert b H) ?n1 n2" by blast
      from free_held [OF inv_machines [OF moves_inv [OF 2(2)]] b(2)] obtain n3 where
        3: "pnal_buf_free b n2 = Some n3" "machines_ok H n3" "calm n2 n3" by blast
      have inv3: "alarm_inv H n3" using moves_inv [OF 2(2)] 3(2,3) by (simp add: alarm_inv_def calm_link)
      have sh: "shrinks ?n1 n3" using 2(2) calm_shrinks [OF 3(3)] by (auto simp: moves_def intro: shrinks_trans)
      then have m3: "moves H n n3" using b(4) inv3 by (auto simp: moves_def intro: shrinks_trans)
      have "queue_len (get_apmx a ix n3) < queue_len (get_apmx a ix n)"
        using sh b(5) unfolding shrinks_def by (meson le_less_trans)
      from less.hyps [OF this inv3] obtain r' n4 where "apmr_drain env a ix n3 = Some (r', n4)" "moves H n3 n4" by blast
      with f Some False b(1) xs 2(1) 3(1) m3 show ?thesis
        by (subst apmr_drain.simps) (auto intro: moves_trans)
    qed
  qed
qed

lemma apmr_periodic:
  assumes "alarm_inv H n"
  shows "\<exists>r n'. pf_alarm_apmr_periodic env a n = Some (r, n') \<and> moves H n n'"
proof -
  from drain [OF assms, of a 0] obtain r n1 where 1: "apmr_drain env a 0 n = Some (r, n1)" "moves H n n1" by blast
  from drain [OF moves_inv [OF 1(2)], of a 1] 1 show ?thesis
    by (auto simp: pf_alarm_apmr_periodic_def intro: moves_trans)
qed

end

section \<open>Alarms of the application\<close>

lemma diag_summary_ok: "alarm_inv H n \<Longrightarrow> \<exists>sm. pf_alarm_get_diag_summary a api slot subslot None n = Some sm"
proof (cases "n_subslot n api slot subslot")
  case (Some sub)
  assume "alarm_inv H n"
  then obtain "is" where "diag_chain (n_diag_items n) (sub_diag_list sub) is"
    using Some unfolding alarm_inv_def machines_ok_def env_ok_def diag_ok_def by blast
  from summarize_chain [OF this] Some show ?thesis by (simp add: pf_alarm_get_diag_summary_def)
qed (simp add: pf_alarm_get_diag_summary_def)

text \<open>An update of the AR outside its machines.\<close>

lemma stays_upd_ar:
  assumes "alarm_inv H n" and "\<And>r. apmx (g r) = apmx r \<and> alpmx (g r) = alpmx r"
  shows "stays H n (upd_ar a g n)"
proof -
  have "get_apmx b ix (upd_ar a g n) = get_apmx b ix n" "get_alpmx b ix (upd_ar a g n) = get_alpmx b ix n" for b ix
    using assms(2) by (simp_all add: n_ar_upd_ar)
  with assms(1) show ?thesis
    by (simp add: stays_def moves_def alarm_inv_def machines_ok_def env_ok_def diag_ok_def shrinks_def
        machines_def [abs_def])
qed

context alarm_callbacks
begin

lemma send_internal:
  assumes inv: "alarm_inv H n" and en: "alarm_enable (n_ar n a)"
    and st: "alpmi_state (get_alpmx a ix n) = PF_ALPMI_STATE_W_ALARM"
  shows "\<exists>r n'. pf_alarm_send_internal env a ix d n = Some (r, n') \<and> moves H n n'"
proof -
  obtain spec ms where sm: "pf_alarm_get_diag_summary a (api_id d) (slot_nbr d) (subslot_nbr d) None n = Some (spec, ms)"
    using diag_summary_ok [OF inv] by (metis surj_pair)
  have gl: "global_alarm_enable n" using inv by (simp add: alarm_inv_def machines_ok_def env_ok_def)
  let ?h = "\<lambda>x. x\<lparr>prev_sequence_number := alpm_sequence_number x,
    alpm_sequence_number := (alpm_sequence_number x + 1) mod 0x0800\<rparr>"
  have 1: "stays H n (upd_alpmx a ix ?h n)"
    by (rule stays_alpmx [OF inv]) (use inv_link [OF inv, of a ix] in simp)
  have ar: "has_ar (get_apmx a ix n)" by (rule inv_open(3) [OF inv st])
  let ?d = "d\<lparr>alarm_specifier := spec, sequence_number := alpm_sequence_number (get_alpmx a ix n)\<rparr>"
  from a_data_req [OF stays_inv [OF 1] stays_ar [OF 1 ar], of ?d ms None] obtain r n2 where
    2: "pf_alarm_apms_apms_a_data_req env a ix ?d ms None (upd_alpmx a ix ?h n) = Some (r, n2)"
      "moves H (upd_alpmx a ix ?h n) n2" by blast
  have "stays H n2 (upd_alpmx a ix (\<lambda>x. x\<lparr>alpmi_state := PF_ALPMI_STATE_W_ACK\<rparr>) n2)"
    by (rule stays_alpmx [OF moves_inv [OF 2(2)]])
      (use inv_link [OF moves_inv [OF 2(2)], of a ix] in \<open>auto simp: link_ok_def\<close>)
  with moves_trans [OF stays_moves [OF 1] 2(2)] 2(1) gl en st sm show ?thesis
    by (auto simp: pf_alarm_send_internal_def Let_def intro: moves_trans [OF _ stays_moves])
qed

lemma almpi_from_ok:
  "alarm_inv H n \<Longrightarrow> alarm_enable (n_ar n a) \<Longrightarrow> \<exists>n'. almpi_from env a ps n = Some n' \<and> moves H n n'"
proof (induction ps)
  case (Cons ix ps)
  note inv = Cons.prems(1) and rest = Cons.IH [OF Cons.prems]
  show ?case
  proof (cases "alpmi_state (get_alpmx a ix n) = PF_ALPMI_STATE_W_ALARM")
    case True
    obtain d q where f: "pf_alarm_send_queue_fetch (alarm_send_q (n_ar n a) ix) = (d, q)" by fastforce
    let ?n = "upd_ar a (\<lambda>r. r\<lparr>alarm_send_q := (alarm_send_q r)(ix := q)\<rparr>) n"
    have 1: "stays H n ?n" by (rule stays_upd_ar [OF inv]) simp
    have "alarm_enable (n_ar ?n a)" "alpmi_state (get_alpmx a ix ?n) = PF_ALPMI_STATE_W_ALARM"
      using Cons.prems(2) True by (simp_all add: n_ar_upd_ar)
    from send_internal [OF stays_inv [OF 1] this] stays_moves [OF 1] True f rest show ?thesis
      by (cases d) (fastforce intro: moves_trans)+
  qed (use rest in simp)
qed (simp add: moves_refl)

lemma almpi_periodic:
  assumes "alarm_inv H n"
  shows "\<exists>n'. pf_alarm_almpi_periodic env a n = Some n' \<and> moves H n n'"
  using almpi_from_ok [OF assms] moves_refl [OF assms] by (simp add: pf_alarm_almpi_periodic_def del: almpi_from.simps)

lemma periodic_from: "alarm_inv H n \<Longrightarrow> \<exists>n'. alarm_periodic_from env as n = Some n' \<and> moves H n n'"
proof (induction as arbitrary: n)
  case (Cons a as)
  show ?case
  proof (cases "ar_in_use (n_ar n a)")
    case True
    from apmr_periodic [OF Cons.prems, of a] obtain r n1 where
      1: "pf_alarm_apmr_periodic env a n = Some (r, n1)" "moves H n n1" by blast
    from almpi_periodic [OF moves_inv [OF 1(2)], of a] obtain n2 where
      2: "pf_alarm_almpi_periodic env a n1 = Some n2" "moves H n1 n2" by blast
    from Cons.IH [OF moves_inv [OF 2(2)]] 1 2 True show ?thesis by (auto intro: moves_trans)
  qed (use Cons in simp)
qed (simp add: moves_refl)

lemma periodic:
  assumes "alarm_inv H n"
  shows "\<exists>n'. pf_alarm_periodic env n = Some n' \<and> moves H n n'"
  using periodic_from [OF assms] moves_refl [OF assms] by (simp add: pf_alarm_periodic_def)

lemma user_ack:
  assumes inv: "alarm_inv H n"
  shows "\<exists>r n'. pf_alarm_alpmr_alarm_ack env a arg st n = Some (r, n') \<and> moves H n n'"
proof (cases "alpmr_state (get_alpmx a 1 n) = PF_ALPMR_STATE_W_USER_ACK")
  case False
  with stays_moves [OF stays_set_err [OF inv]] show ?thesis by (simp add: pf_alarm_alpmr_alarm_ack_def)
next
  case True
  let ?h = "\<lambda>x. x\<lparr>prev_sequence_number := alpm_sequence_number x,
    alpm_sequence_number := (alpm_sequence_number x + 1) mod 0x0800\<rparr>"
  have 1: "stays H n (upd_alpmx a 1 ?h n)"
    by (rule stays_alpmx [OF inv]) (use inv_link [OF inv, of a 1] in simp)
  let ?d = "zero_alarm_data\<lparr>alarm_type := arg_alarm_type arg, api_id := arg_api_id arg, slot_nbr := arg_slot_nbr arg,
    subslot_nbr := arg_subslot_nbr arg, alarm_specifier := arg_alarm_specifier arg,
    sequence_number := arg_sequence_number arg\<rparr>"
  from a_data_req [OF stays_inv [OF 1] stays_ar [OF 1 inv_open(4) [OF inv True]], of ?d 0 "Some st"] obtain r n2 where
    2: "pf_alarm_apms_apms_a_data_req env a 1 ?d 0 (Some st) (upd_alpmx a 1 ?h n) = Some (r, n2)"
      "moves H (upd_alpmx a 1 ?h n) n2" by blast
  have "stays H n2 (upd_alpmx a 1 (\<lambda>x. x\<lparr>alpmr_state := PF_ALPMR_STATE_W_TACK\<rparr>) n2)"
    by (rule stays_alpmx [OF moves_inv [OF 2(2)]])
      (use inv_link [OF moves_inv [OF 2(2)], of a 1] in \<open>auto simp: link_ok_def\<close>)
  with moves_trans [OF stays_moves [OF 1] 2(2)] 2(1) True show ?thesis
    by (auto simp: pf_alarm_alpmr_alarm_ack_def Let_def intro: moves_trans [OF _ stays_moves])
qed

lemma timeout:
  assumes inv: "alarm_inv H n"
  shows "\<exists>n'. pf_alarm_apms_timeout env (a, ix) n = Some n' \<and> moves H n n'"
proof -
  let ?g = "\<lambda>x. x\<lparr>resend_timeout := pf_scheduler_reset_handle (resend_timeout x)\<rparr>"
  let ?n = "upd_apmx a ix ?g n"
  have 1: "stays H n ?n"
    using machines_ok_calm_upd [OF inv_machines [OF inv], where a = a and ix = ix and g = ?g] calm_stays [OF inv]
    by (simp add: same_mach_def)
  let ?x = "get_apmx a ix ?n"
  note inv1 = stays_inv [OF 1]
  consider "apms_state ?x \<noteq> PF_APMS_STATE_WTACK" | "apms_state ?x = PF_APMS_STATE_WTACK" "p_rta ?x = None"
    | b where "apms_state ?x = PF_APMS_STATE_WTACK" "p_rta ?x = Some b" "resend_counter ?x > 0"
    | b where "apms_state ?x = PF_APMS_STATE_WTACK" "p_rta ?x = Some b" "\<not> resend_counter ?x > 0" by blast
  then show ?thesis
  proof cases
    case 1
    from free_rta_ok [OF inv_machines [OF inv1], of a ix] obtain m where
      m: "free_rta a ix ?n = Some m" "machines_ok H m" "calm ?n m" by blast
    have "stays H n m" by (rule stays_trans [OF \<open>stays H n ?n\<close> calm_stays [OF inv1 m(2,3)]])
    with 1 m(1) show ?thesis by (auto simp: pf_alarm_apms_timeout_def Let_def intro: stays_moves)
  next
    case 2
    with stays_moves [OF 1] show ?thesis by (simp add: pf_alarm_apms_timeout_def Let_def)
  next
    case (3 b)
    have ar: "has_ar ?x" by (rule inv_open(2) [OF inv1]) (use 3 in simp)
    have op: "apmr_state ?x \<noteq> PF_APMR_STATE_CLOSED" by (rule inv_opened(2) [OF inv1 ar])
    let ?n2 = "upd_apmx a ix (\<lambda>x. x\<lparr>resend_counter := resend_counter x - 1\<rparr>) ?n"
    have s2: "stays H ?n ?n2" by (rule stays_apmx [OF inv1 ar]) (use ar op 3 in simp_all)
    have live: "n_bufs ?n2 b \<noteq> None"
      using own_elem [OF machines_ok_own [OF inv_machines [OF stays_inv [OF s2]]], of b "(a, ix)"] 3(2)
      by (simp add: machines_def mach_bufs_def)
    have sent: "\<exists>m. (if req_transport_udp (n_ar ?n2 a) then Some ?n2
        else map_option snd (pf_eth_send_on_management_port env b ?n2)) = Some m \<and> stays H ?n2 m"
    proof (cases "req_transport_udp (n_ar ?n2 a)")
      case True
      with stays_refl [OF stays_inv [OF s2]] show ?thesis by simp
    next
      case False
      have "stays H ?n2 (?n2\<lparr>n_world := w\<rparr>)" for w
        using calm_stays [OF stays_inv [OF s2], of "?n2\<lparr>n_world := w\<rparr>"] inv_machines [OF stays_inv [OF s2]] by simp
      with False live show ?thesis
        by (auto simp: pf_eth_send_on_management_port_def split: prod.split)
    qed
    then obtain m where m: "(if req_transport_udp (n_ar ?n2 a) then Some ?n2
        else map_option snd (pf_eth_send_on_management_port env b ?n2)) = Some m" "stays H ?n2 m" by blast
    from start_timer_ok [OF inv_machines [OF stays_inv [OF m(2)]], of a ix] calm_stays [OF stays_inv [OF m(2)]] obtain q k where
      k: "start_resend_timer a ix m = Some (q, k)" "stays H m k" by blast
    have "stays H n k" using 1 s2 m(2) k(2) by (blast intro: stays_trans)
    then have "moves H n k" by (rule stays_moves)
    moreover have "pf_alarm_apms_timeout env (a, ix) n = Some k"
      using 3 ar m(1) k(1) stays_ar [OF s2 ar] by (simp add: pf_alarm_apms_timeout_def Let_def)
    ultimately show ?thesis by blast
  next
    case (4 b)
    have ar: "has_ar ?x" by (rule inv_open(2) [OF inv1]) (use 4 in simp)
    have op: "apmr_state ?x \<noteq> PF_APMR_STATE_CLOSED" by (rule inv_opened(2) [OF inv1 ar])
    let ?n2 = "upd_apmx a ix (\<lambda>x. x\<lparr>apms_state := PF_APMS_STATE_OPEN\<rparr>) ?n"
    have s2: "stays H ?n ?n2" by (rule stays_apmx [OF inv1 ar]) (use ar op in simp_all)
    from indicate_err [OF stays_inv [OF s2] stays_ar [OF s2 ar], where c = PNET_ERROR_CODE_1_APMS and c' = PNET_ERROR_CODE_1_APMS
        and d = PNET_ERROR_CODE_2_ABORT_AR_ALARM_SEND_CNF_NEG and d' = PNET_ERROR_CODE_2_ABORT_AR_ALARM_SEND_CNF_NEG]
      obtain m where m: "pf_alarm_error_ind env a ix PNET_ERROR_CODE_1_APMS PNET_ERROR_CODE_2_ABORT_AR_ALARM_SEND_CNF_NEG
        (set_err a PNET_ERROR_CODE_1_APMS PNET_ERROR_CODE_2_ABORT_AR_ALARM_SEND_CNF_NEG ?n2) = Some m" "moves H ?n2 m" by blast
    have "moves H n m" using 1 s2 m(2) by (blast intro: moves_trans stays_moves)
    moreover have "pf_alarm_apms_timeout env (a, ix) n = Some m"
      using 4 ar m(1) stays_ar [OF s2 ar] by (simp add: pf_alarm_apms_timeout_def Let_def)
    ultimately show ?thesis by blast
  qed
qed

end

end
