(* ===== verification/Alarm_Runs.thy ===== *)
theory Alarm_Runs
  imports Alarm_Safety
begin

unbundle bit_operations_syntax

text \<open>
  Opening and closing an alarm channel, the frame handler, and runs of the component: any
  sequence of received frames, timeouts, periodic calls and calls of the application.
\<close>

section \<open>What a step leaves alone\<close>

definition others :: "nat \<Rightarrow> nat \<Rightarrow> 'w alarm_net \<Rightarrow> 'w alarm_net \<Rightarrow> bool" where
  "others a ix n n' \<longleftrightarrow> (\<forall>b jx. (b, jx) \<noteq> (a, ix) \<longrightarrow> get_apmx b jx n' = get_apmx b jx n) \<and>
     (\<forall>b jx. get_alpmx b jx n' = get_alpmx b jx n)"

lemma others_trans: "others a ix n n' \<Longrightarrow> others a ix n' n'' \<Longrightarrow> others a ix n n''"
  by (simp add: others_def)

lemma others_upd [simp]: "others a ix n (upd_apmx a ix g n)" by (auto simp: others_def)

lemma stop_timer_others: "stop_resend_timer a ix n = Some n' \<Longrightarrow> others a ix n n'"
  by (auto simp: stop_resend_timer_def others_def split: Option.bind_splits)

lemma free_rta_others: "free_rta a ix n = Some n' \<Longrightarrow> others a ix n n' \<and> p_rta (get_apmx a ix n') = None"
  by (auto simp: free_rta_def pnal_buf_free_def others_def split: option.splits if_splits)

lemma free_all_ar: "free_all bs n = Some n' \<Longrightarrow> n_ar n' = n_ar n"
  by (induction bs arbitrary: n) (auto simp: pnal_buf_free_def split: Option.bind_splits if_splits)

lemma free_all_ok:
  "machines_ok (H \<union> set bs) n \<Longrightarrow> distinct bs \<Longrightarrow> H \<inter> set bs = {} \<Longrightarrow>
   \<exists>n'. free_all bs n = Some n' \<and> machines_ok H n'"
proof (induction bs arbitrary: n)
  case (Cons b bs)
  have "machines_ok (insert b (H \<union> set bs)) n" "b \<notin> H \<union> set bs" using Cons.prems by auto
  from free_held [OF this] Cons.IH Cons.prems(2,3) show ?case by fastforce
qed simp

lemma own_take_all:
  "own_ok H nx B M \<Longrightarrow> S \<subseteq> mach_bufs (M k) \<Longrightarrow> mach_bufs y \<subseteq> mach_bufs (M k) - S \<Longrightarrow>
   own_ok (H \<union> S) nx B (M(k := y)) \<and> H \<inter> S = {}"
proof
  assume ok: "own_ok H nx B M" and S: "S \<subseteq> mach_bufs (M k)" and y: "mach_bufs y \<subseteq> mach_bufs (M k) - S"
  have el: "B b \<noteq> None \<and> b \<notin> H \<and> (\<forall>l. b \<in> mach_bufs (M l) \<longrightarrow> l = k')" if "b \<in> mach_bufs (M k')" for b k'
    by (rule own_elem [OF ok that])
  show "H \<inter> S = {}" using el S by blast
  have N: "(M(k := y)) k' = (if k' = k then y else M k')" for k' by simp
  have sub: "mach_bufs ((M(k := y)) k') \<subseteq> mach_bufs (M k') - S" for k'
    using y el S by (cases "k' = k") auto
  have "B b \<noteq> None" if "b \<in> H \<union> S" for b using that el S own_held [OF ok] by blast
  moreover have "B b \<noteq> None \<and> b \<notin> H \<union> S \<and> (\<forall>l. b \<in> mach_bufs ((M(k := y)) l) \<longrightarrow> l = k')"
    if "b \<in> mach_bufs ((M(k := y)) k')" for b k' using that el sub by blast
  ultimately show "own_ok (H \<union> S) nx B (M(k := y))" using ok unfolding own_ok_def by blast
qed

section \<open>Closing\<close>

lemma reset_queue_bufs:
  "acc_mutex (rq_accountant q) \<Longrightarrow> pf_alarm_receive_queue_reset q = (q', bs) \<Longrightarrow>
   bs = queue_bufs q \<and> queue_bufs q' = [] \<and> length (rq_items q') = length (rq_items q) \<and>
   rq_accountant q' = pf_alarm_queue_accountant_reset (rq_accountant q)"
  by (auto simp: pf_alarm_receive_queue_reset_def pf_alarm_queue_is_available_def queue_bufs_def empty_msg_def
      List.map_filter_def)

lemma queue_ok_length: "queue_ok q \<Longrightarrow> length (rq_items q) = PNET_MAX_ALARMS"
  by (cases "acc_mutex (rq_accountant q)") (simp_all add: queue_ok_def receive_inv_def ring_inv_def)

lemma closed_queue_ok:
  assumes "queue_ok q" and "acc_mutex (rq_accountant q)" and "pf_alarm_receive_queue_reset q = (q', bs)"
  defines "p \<equiv> q'\<lparr>rq_accountant := pf_alarm_queue_mutex_destroy (rq_accountant q')\<rparr>"
  shows "queue_ok p" and "queue_bufs p = []" and "\<not> acc_mutex (rq_accountant p)" and "bs = queue_bufs q"
    and "acc_count (rq_accountant p) = 0"
  using reset_queue_bufs [OF assms(2,3)] queue_ok_length [OF assms(1)] assms(2)
  by (simp_all add: p_def queue_ok_def pf_alarm_queue_mutex_destroy_def pf_alarm_queue_accountant_reset_def queue_bufs_def)

lemma close_step_ok:
  assumes inv: "alarm_inv H n" and st: "alpmi_state (get_alpmx a ix n) \<noteq> PF_ALPMI_STATE_W_ALARM"
      "alpmr_state (get_alpmx a ix n) \<noteq> PF_ALPMR_STATE_W_USER_ACK"
  shows "\<exists>n'. apmx_close_step a ix n = Some n' \<and> moves H n n' \<and> others a ix n n' \<and>
    \<not> has_ar (get_apmx a ix n') \<and> mach_bufs (get_apmx a ix n') = {}"
proof (cases "has_ar (get_apmx a ix n)")
  case False
  then have cl: "apms_state (get_apmx a ix n) = PF_APMS_STATE_CLOSED" "apmr_state (get_apmx a ix n) = PF_APMR_STATE_CLOSED"
    "\<not> acc_mutex (rq_accountant (alarm_receive_q (get_apmx a ix n)))"
    using inv_link [OF inv, of a ix] unfolding link_ok_def by metis+
  from free_rta_ok [OF inv_machines [OF inv], of a ix] obtain m where
    m: "free_rta a ix n = Some m" "machines_ok H m" "calm n m" by blast
  have same: "has_ar (get_apmx a ix m) = has_ar (get_apmx a ix n)" "apmr_state (get_apmx a ix m) = apmr_state (get_apmx a ix n)"
    "alarm_receive_q (get_apmx a ix m) = alarm_receive_q (get_apmx a ix n)"
    using m(3) by (auto simp: calm_def same_mach_def)
  have "mach_bufs (get_apmx a ix m) = {}"
    using free_rta_others [OF m(1)] machines_ok_mach [OF m(2), of a ix] cl(3) same(3)
    by (auto simp: mach_bufs_def mach_ok_def queue_ok_def)
  with m cl same False free_rta_others [OF m(1)] stays_moves [OF calm_stays [OF inv m(2,3)]] show ?thesis
    by (simp add: apmx_close_step_def)
next
  case True
  note op = inv_opened [OF inv True]
  from stop_timer_ok [OF inv_machines [OF inv], of a ix] obtain n1 where
    1: "stop_resend_timer a ix n = Some n1" "machines_ok H n1" "calm n n1" by blast
  let ?g = "\<lambda>x. x\<lparr>has_ar := False, apms_state := PF_APMS_STATE_CLOSED\<rparr>"
  let ?n2 = "upd_apmx a ix ?g n1"
  have 2: "machines_ok H ?n2"
    using machines_ok_mach [OF 1(2), of a ix] by (intro machines_ok_upd [OF 1(2)]) (auto simp: mach_ok_def mach_bufs_def)
  from free_rta_ok [OF 2, of a ix] obtain n3 where
    3: "free_rta a ix ?n2 = Some n3" "machines_ok H n3" "calm ?n2 n3" by blast
  let ?x = "get_apmx a ix n3"
  have x: "\<not> has_ar ?x" "apms_state ?x = PF_APMS_STATE_CLOSED" "apmr_state ?x \<noteq> PF_APMR_STATE_CLOSED"
    "acc_mutex (rq_accountant (alarm_receive_q ?x))" "p_rta ?x = None"
    using 1(3) 3(3) op free_rta_others [OF 3(1)] by (auto simp: calm_def same_mach_def)
  obtain q bs where r: "pf_alarm_receive_queue_reset (alarm_receive_q ?x) = (q, bs)" by fastforce
  let ?p = "q\<lparr>rq_accountant := pf_alarm_queue_mutex_destroy (rq_accountant q)\<rparr>"
  let ?h = "\<lambda>x. x\<lparr>apmr_state := PF_APMR_STATE_CLOSED, alarm_receive_q := ?p\<rparr>"
  have mx: "mach_ok ?x" by (rule machines_ok_mach [OF 3(2)])
  then have qx: "queue_ok (alarm_receive_q ?x)" by (simp add: mach_ok_def)
  note c = closed_queue_ok [OF qx x(4) r]
  have bx: "mach_bufs ?x = set bs" using x(5) c(4) by (simp add: mach_bufs_def)
  have yb: "mach_bufs (?h ?x) = {}" using x(5) c(2) by (simp add: mach_bufs_def)
  from own_take_all [OF machines_ok_own [OF 3(2)], of "set bs" "(a, ix)" "?h ?x"] bx yb
  have 4: "machines_ok (H \<union> set bs) (upd_apmx a ix ?h n3)" "H \<inter> set bs = {}"
    using 3(2) c(1) x(5) by (auto simp: machines_ok_def machines_def mach_ok_def)
  have "distinct bs" using qx c(4) by (simp add: queue_ok_def)
  from free_all_ok [OF 4(1) this 4(2)] obtain n5 where
    5: "free_all bs (upd_apmx a ix ?h n3) = Some n5" "machines_ok H n5" by blast
  have ar5: "n_ar n5 = n_ar (upd_apmx a ix ?h n3)" by (rule free_all_ar [OF 5(1)])
  have oth: "others a ix n n5"
    using stop_timer_others [OF 1(1)] free_rta_others [OF 3(1)] by (auto simp: others_def ar5)
  have "link_ok (get_apmx b jx n5) (get_alpmx b jx n5)" for b jx
  proof (cases "(b, jx) = (a, ix)")
    case True
    then show ?thesis using oth st x(1,2) c(3) by (auto simp: link_ok_def ar5 others_def)
  next
    case False
    then show ?thesis using inv_link [OF inv, of b jx] oth by (auto simp: others_def)
  qed
  moreover have "shrinks n n5"
    using oth c(5) unfolding shrinks_def others_def queue_len_def by (metis apmx_upd(1) ar5 bot_nat_0.extremum le_refl
        pf_apmx.select_convs(11) pf_apmx.surjective pf_apmx.update_convs(11) prod.inject)
  moreover have "apmx_close_step a ix n = Some n5"
    using op(1) x(3) 1(1) 3(1) 5(1) by (simp add: apmx_close_step_def r)
  moreover have "\<not> has_ar (get_apmx a ix n5)" "mach_bufs (get_apmx a ix n5) = {}"
    using x(1) yb by (simp_all add: ar5)
  ultimately show ?thesis using oth 5(2) by (auto simp: moves_def alarm_inv_def)
qed

lemma set_endpoint_active_length [simp]: "length (set_endpoint_active v a es) = length es"
  by (induction v a es rule: set_endpoint_active.induct) auto

lemma endpoint_moves:
  assumes "alarm_inv H n" and "length es = length (alarm_endpoint n)"
  shows "stays H n (n\<lparr>alarm_endpoint := es\<rparr>)" and "stays H n (n\<lparr>n_world := w\<rparr>)"
  using assms by (auto simp: stays_def moves_def alarm_inv_def machines_ok_def env_ok_def diag_ok_def shrinks_def)

text \<open>The states that stay when an alarm channel is closed: those of the others.\<close>

definition same_others :: "nat \<Rightarrow> 'w alarm_net \<Rightarrow> 'w alarm_net \<Rightarrow> bool" where
  "same_others a n n' \<longleftrightarrow> (\<forall>b jx. b \<noteq> a \<or> jx > 1 \<longrightarrow> has_ar (get_apmx b jx n') = has_ar (get_apmx b jx n)) \<and>
     (\<forall>b jx. get_alpmx b jx n' = get_alpmx b jx n)"

lemma close_apmx:
  assumes inv: "alarm_inv H n" and st: "\<And>ix. ix \<le> 1 \<Longrightarrow> alpmi_state (get_alpmx a ix n) \<noteq> PF_ALPMI_STATE_W_ALARM \<and>
      alpmr_state (get_alpmx a ix n) \<noteq> PF_ALPMR_STATE_W_USER_ACK"
  shows "\<exists>n'. pf_alarm_apmx_close env a code n = Some (0, n') \<and> moves H n n' \<and> same_others a n n' \<and>
    (\<forall>ix \<le> 1. \<not> has_ar (get_apmx a ix n') \<and> mach_bufs (get_apmx a ix n') = {})"
proof -
  let ?fixed = "alarm_fixed_of (get_apmx a 0 n) PF_RTA_PDU_TYPE_ERR False (send_seq_count (get_apmx a 0 n))"
  let ?st = "Some \<lparr>error_code = PNET_ERROR_CODE_RTA_ERROR, error_decode = PNET_ERROR_DECODE_PNIO,
    error_code_1 = PNET_ERROR_CODE_1_RTA_ERR_CLS_PROTOCOL, error_code_2 = code\<rparr>"
  let ?req = "if apms_state (get_apmx a 0 n) \<noteq> PF_APMS_STATE_CLOSED then
    map_option snd (pf_alarm_apms_a_data_req env a 0 ?fixed None 0 0 0 (Raw_payload []) ?st n) else Some n"
  have "\<exists>n1. ?req = Some n1 \<and> machines_ok H n1 \<and> calm n n1"
  proof (cases "apms_state (get_apmx a 0 n) = PF_APMS_STATE_CLOSED")
    case True
    with inv_machines [OF inv] show ?thesis by simp
  next
    case False
    have v: "pdu_type ?fixed = PF_RTA_PDU_TYPE_DATA \<longrightarrow> None \<noteq> (None :: pf_alarm_data option)"
      "pdu_type ?fixed = PF_RTA_PDU_TYPE_ERR \<longrightarrow> ?st \<noteq> None"
      by (simp_all add: alarm_fixed_of_def pdu_type_defs)
    from data_req_ok [OF inv_machines [OF inv] inv_open(2) [OF inv False] v, where env = env and ms = 0 and usi = 0
        and len = 0 and pl = "Raw_payload []"] False show ?thesis by auto
  qed
  then obtain n1 where 1: "?req = Some n1" "machines_ok H n1" "calm n n1" by blast
  have s1: "stays H n n1" by (rule calm_stays [OF inv 1(2,3)])
  let ?n2 = "n1\<lparr>alarm_endpoint := set_endpoint_active False a (alarm_endpoint n1)\<rparr>"
  let ?n3 = "if no_endpoint_active ?n2 then ?n2\<lparr>n_world := env_map_remove env PF_FRAME_ID_ALARM_LOW
    (env_map_remove env PF_FRAME_ID_ALARM_HIGH (n_world ?n2))\<rparr> else ?n2"
  have s2: "stays H n1 ?n2" by (rule endpoint_moves(1) [OF stays_inv [OF s1]]) simp
  have s3: "stays H n1 ?n3"
    using s2 endpoint_moves(2) [OF stays_inv [OF s2]] by (auto intro: stays_trans)
  have ar3: "n_ar ?n3 = n_ar n1" by simp
  have st3: "get_alpmx b ix ?n3 = get_alpmx b ix n" "has_ar (get_apmx b ix ?n3) = has_ar (get_apmx b ix n)" for b ix
    using 1(3) by (simp_all add: ar3 calm_def same_mach_def)
  from close_step_ok [OF stays_inv [OF s3], of a 0] st [of 0] st3 obtain n4 where
    4: "apmx_close_step a 0 ?n3 = Some n4" "moves H ?n3 n4" "others a 0 ?n3 n4" "\<not> has_ar (get_apmx a 0 n4)"
      "mach_bufs (get_apmx a 0 n4) = {}" by auto
  have st4: "get_alpmx b ix n4 = get_alpmx b ix n" for b ix using 4(3) st3 by (simp add: others_def)
  from close_step_ok [OF moves_inv [OF 4(2)], of a 1] st [of 1] st4 obtain n5 where
    5: "apmx_close_step a 1 n4 = Some n5" "moves H n4 n5" "others a 1 n4 n5" "\<not> has_ar (get_apmx a 1 n5)"
      "mach_bufs (get_apmx a 1 n5) = {}" by auto
  have "pf_alarm_apmx_close env a code n = Some (0, n5)"
    using 1(1) 4(1) 5(1) unfolding pf_alarm_apmx_close_def Let_def by simp
  moreover have "moves H n n5" using s1 s3 4(2) 5(2) by (blast intro: moves_trans stays_moves)
  moreover have "same_others a n n5"
    using 4(3) 5(3) st3 by (auto simp: same_others_def others_def)
  moreover have "\<not> has_ar (get_apmx a ix n5) \<and> mach_bufs (get_apmx a ix n5) = {}" if "ix \<le> 1" for ix
    using that 4(4,5) 5(3-5) by (auto simp: le_Suc_eq others_def)
  ultimately show ?thesis by blast
qed

lemma close_ok:
  assumes inv: "alarm_inv H n"
  shows "\<exists>n'. pf_alarm_close env a n = Some (0, n') \<and> moves H n n' \<and> error_ok H n (Some n') \<and>
    (\<forall>ix \<le> 1. \<not> has_ar (get_apmx a ix n') \<and> mach_bufs (get_apmx a ix n') = {} \<and>
       alpmi_state (get_alpmx a ix n') = PF_ALPMI_STATE_W_START \<and> alpmr_state (get_alpmx a ix n') = PF_ALPMR_STATE_W_START)"
proof -
  let ?h = "\<lambda>x. x\<lparr>alpmi_state := PF_ALPMI_STATE_W_START, alpmr_state := PF_ALPMR_STATE_W_START\<rparr>"
  let ?n1 = "send_queue_close a 1 (send_queue_close a 0 n)"
  have sq: "stays H m (send_queue_close a i m)" if "alarm_inv H m" for m i
    unfolding send_queue_close_def by (rule stays_upd_ar [OF that]) simp
  have 1: "stays H n ?n1" using sq [OF inv] sq [OF stays_inv [OF sq [OF inv]]] by (blast intro: stays_trans)
  have up: "stays H m (upd_alpmx a i ?h m)" if "alarm_inv H m" for m i
    using inv_link [OF that, of a i] by (intro stays_alpmx [OF that]) (auto simp: link_ok_def)
  let ?n2 = "upd_alpmx a 1 ?h (upd_alpmx a 0 ?h ?n1)"
  have 2: "stays H ?n1 ?n2" using up [OF stays_inv [OF 1]] up [OF stays_inv [OF up [OF stays_inv [OF 1]]]] by (blast intro: stays_trans)
  have st: "alpmi_state (get_alpmx a ix ?n2) = PF_ALPMI_STATE_W_START" "alpmr_state (get_alpmx a ix ?n2) = PF_ALPMR_STATE_W_START"
    if "ix \<le> 1" for ix using that by (auto simp: le_Suc_eq)
  from close_apmx [OF stays_inv [OF 2], where env = env and a = a and code = "err_code (n_ar ?n2 a)"] st obtain n3 where
    3: "pf_alarm_apmx_close env a (err_code (n_ar ?n2 a)) ?n2 = Some (0, n3)" "moves H ?n2 n3" "same_others a ?n2 n3"
      "\<forall>ix \<le> 1. \<not> has_ar (get_apmx a ix n3) \<and> mach_bufs (get_apmx a ix n3) = {}" by auto
  have m: "moves H n n3" using 1 2 3(2) by (blast intro: moves_trans stays_moves)
  have st3: "get_alpmx b ix n3 = get_alpmx b ix ?n2" for b ix using 3(3) by (simp add: same_others_def)
  have "has_ar (get_apmx b ix n3) \<or> alpmr_state (get_alpmx b ix n3) = PF_ALPMR_STATE_W_START"
    if "has_ar (get_apmx b ix n)" for b ix
  proof (cases "b \<noteq> a \<or> ix > 1")
    case True
    then have "has_ar (get_apmx b ix n3) = has_ar (get_apmx b ix ?n2)" using 3(3) unfolding same_others_def by blast
    with that stays_ar [OF 2 stays_ar [OF 1 that]] show ?thesis by simp
  next
    case False
    with st(2) [of ix] show ?thesis unfolding st3 by simp
  qed
  with m have "error_ok H n (Some n3)" by (simp add: error_ok_def)
  moreover have "pf_alarm_close env a n = Some (0, n3)"
    using 3(1) by (simp add: pf_alarm_close_def pf_alarm_alpmx_close_def Let_def)
  moreover have "alpmi_state (get_alpmx a ix n3) = PF_ALPMI_STATE_W_START \<and> alpmr_state (get_alpmx a ix n3) = PF_ALPMR_STATE_W_START"
    if "ix \<le> 1" for ix unfolding st3 using st [OF that] by blast
  ultimately show ?thesis using m 3(4) by blast
qed

section \<open>Opening\<close>

text \<open>
  While an AR opens its channel, its ALPMI may be open before its APMS: the machines of the
  priorities \<open>S\<close> are linked to some state of their ALPMI and ALPMR, not yet to the present one.
\<close>

definition half_open :: "nat set \<Rightarrow> nat \<Rightarrow> nat set \<Rightarrow> 'w alarm_net \<Rightarrow> bool" where
  "half_open H a S n \<longleftrightarrow> machines_ok H n \<and> (\<forall>b ix. (\<exists>l. link_ok (get_apmx b ix n) l) \<and>
     (b \<noteq> a \<or> ix \<notin> S \<longrightarrow> link_ok (get_apmx b ix n) (get_alpmx b ix n)))"

lemma half_open_iff: "half_open H a {} n = alarm_inv H n"
  by (auto simp: half_open_def alarm_inv_def)

lemma half_open_mono: "half_open H a S n \<Longrightarrow> S \<subseteq> T \<Longrightarrow> half_open H a T n"
  by (auto simp: half_open_def)

lemma alpmx_step_half:
  assumes "half_open H a S n" and "ix \<in> S"
  shows "\<exists>r' n'. alpmx_activate_step a ix (r, n) = (r', n') \<and> half_open H a S n'"
  using assms by (auto simp: alpmx_activate_step_def Let_def half_open_def)

lemma opened_queue:
  assumes "queue_ok q" and "\<not> acc_mutex (rq_accountant q)"
  shows "\<exists>p. pf_alarm_receive_queue_reset (q\<lparr>rq_accountant := pf_alarm_queue_mutex_create (rq_accountant q)\<rparr>) = (p, []) \<and>
    queue_ok p \<and> queue_bufs p = [] \<and> acc_mutex (rq_accountant p)"
proof -
  let ?q = "q\<lparr>rq_accountant := pf_alarm_queue_mutex_create (rq_accountant q)\<rparr>"
  have mx: "acc_mutex (rq_accountant ?q)" by (simp add: pf_alarm_queue_mutex_create_def)
  obtain p bs where r: "pf_alarm_receive_queue_reset ?q = (p, bs)" by fastforce
  from reset_queue_bufs [OF mx r] queue_ok_length [OF assms(1)] mx assms have
    p: "bs = []" "queue_bufs p = []" "length (rq_items p) = PNET_MAX_ALARMS"
      "rq_accountant p = pf_alarm_queue_accountant_reset (rq_accountant ?q)"
    by (simp_all add: queue_ok_def queue_bufs_def)
  then have "queue_ok p" "acc_mutex (rq_accountant p)"
    using mx by (simp_all add: queue_ok_def receive_inv_def ring_inv_def received_def ring_def pf_alarm_queue_accountant_reset_def
        PNET_MAX_ALARMS_def)
  with r p show ?thesis by simp
qed

lemma apmx_step_half:
  assumes half: "half_open H a S n"
  shows "\<exists>r' n'. apmx_activate_step a ix r n = Some (r', n') \<and> half_open H a (S - {ix}) n'"
proof (cases "has_ar (get_apmx a ix n)")
  case True
  from half obtain l where "link_ok (get_apmx a ix n) l" by (auto simp: half_open_def)
  with True have op: "apms_state (get_apmx a ix n) \<noteq> PF_APMS_STATE_CLOSED"
    "link_ok (get_apmx a ix n) (get_alpmx a ix n)" by (simp_all add: link_ok_def)
  with half show ?thesis by (auto simp: apmx_activate_step_def Let_def half_open_def)
next
  case False
  let ?x = "get_apmx a ix n"
  from half obtain l where "link_ok ?x l" by (auto simp: half_open_def)
  with False have cl: "apms_state ?x = PF_APMS_STATE_CLOSED" "apmr_state ?x = PF_APMR_STATE_CLOSED"
    "\<not> acc_mutex (rq_accountant (alarm_receive_q ?x))" by (simp_all add: link_ok_def)
  have ok: "machines_ok H n" using half by (simp add: half_open_def)
  have mx: "mach_ok ?x" by (rule machines_ok_mach [OF ok])
  then have "queue_ok (alarm_receive_q ?x)" by (simp add: mach_ok_def)
  from opened_queue [OF this cl(3)] obtain p where
    p: "pf_alarm_receive_queue_reset ((alarm_receive_q ?x)\<lparr>rq_accountant := pf_alarm_queue_mutex_create
        (rq_accountant (alarm_receive_q ?x))\<rparr>) = (p, [])" "queue_ok p" "queue_bufs p = []" "acc_mutex (rq_accountant p)"
    by blast
  let ?g = "\<lambda>x. apmx_opened (n_ar n a) ix (x\<lparr>alarm_receive_q := p\<rparr>)"
  have "machines_ok H (upd_apmx a ix ?g n)"
    using mx p(2,3) by (intro machines_ok_upd [OF ok]) (auto simp: mach_ok_def mach_bufs_def apmx_opened_def)
  moreover have "link_ok (?g ?x) l'" for l' using p(4) by (simp add: link_ok_def apmx_opened_def)
  ultimately have "half_open H a (S - {ix}) (upd_apmx a ix ?g n)"
    using half by (auto simp: half_open_def)
  with cl(1,2) p(1) show ?thesis by (simp add: apmx_activate_step_def Let_def)
qed

lemma activate_ok:
  assumes inv: "alarm_inv H n"
  shows "\<exists>r n'. pf_alarm_activate env a n = Some (r, n') \<and> alarm_inv H n'"
proof -
  define n1 where "n1 = send_queue_open a 1 (send_queue_open a 0 n)"
  have sq: "stays H m (send_queue_open a i m)" if "alarm_inv H m" for m i
    unfolding send_queue_open_def by (rule stays_upd_ar [OF that]) simp
  have "alarm_inv H n1" unfolding n1_def by (rule stays_inv [OF sq [OF stays_inv [OF sq [OF inv]]]])
  then have "half_open H a {} n1" by (simp add: half_open_iff)
  then have "half_open H a {0, 1} n1" by (rule half_open_mono) simp
  from alpmx_step_half [OF this, of 0 0] obtain r2 n2 where
    2: "alpmx_activate_step a 0 (0, n1) = (r2, n2)" "half_open H a {0, 1} n2" by auto
  from alpmx_step_half [OF 2(2), of 1 r2] obtain r3 n3 where
    3: "alpmx_activate_step a 1 (r2, n2) = (r3, n3)" "half_open H a {0, 1} n3" by auto
  from apmx_step_half [OF 3(2), of 0 0] obtain r4 n4 where
    4: "apmx_activate_step a 0 0 n3 = Some (r4, n4)" "half_open H a ({0, 1} - {0}) n4" by blast
  from apmx_step_half [OF 4(2), of 1 r4] obtain r5 n5 where
    5: "apmx_activate_step a 1 r4 n4 = Some (r5, n5)" "half_open H a ({0, 1} - {0} - {1}) n5" by blast
  have "{0, 1} - {0} - {1} = ({} :: nat set)" by auto
  with 5(2) have inv5: "alarm_inv H n5" by (simp add: half_open_iff)
  define n6 where "n6 = (if no_endpoint_active n5 then n5\<lparr>n_world := env_map_add env PF_FRAME_ID_ALARM_HIGH
    (env_map_add env PF_FRAME_ID_ALARM_LOW (n_world n5))\<rparr> else n5)"
  have inv6: "alarm_inv H n6" using inv5 stays_inv [OF endpoint_moves(2) [OF inv5 refl]] by (simp add: n6_def)
  have "alarm_inv H (n6\<lparr>alarm_endpoint := set_endpoint_active True a (alarm_endpoint n6)\<rparr>)"
    by (rule stays_inv [OF endpoint_moves(1) [OF inv6]]) simp
  moreover have "pf_alarm_apmx_activate env a n3 = Some (r5, n6\<lparr>alarm_endpoint := set_endpoint_active True a (alarm_endpoint n6)\<rparr>)"
    using 4(1) 5(1) by (simp add: pf_alarm_apmx_activate_def n6_def [symmetric])
  moreover have "pf_alarm_alpmx_activate a n1 = (r3, n3)" using 2(1) 3(1) by (simp add: pf_alarm_alpmx_activate_def)
  ultimately show ?thesis unfolding pf_alarm_activate_def Let_def n1_def [symmetric] by simp
qed

section \<open>A received frame\<close>

lemma frame_handler_ok:
  assumes inv: "alarm_inv (insert b H) n" and b: "b \<notin> H"
  shows "\<exists>r n'. pf_alarm_apmr_frame_handler fid (Some b) pos n = Some (r, n') \<and>
    alarm_inv (if r = 1 then H else insert b H) n' \<and> (r = 0 \<or> r = 1)"
proof -
  obtain xs where xs: "n_bufs n b = Some xs"
    using own_held [OF machines_ok_own [OF inv_machines [OF inv]], of b] by auto
  let ?e = "fst (run_state pf_get_uint16 (frame_reader xs (pos + 2)))" and ?i = "if fid = PF_FRAME_ID_ALARM_HIGH then 1 else 0 :: nat"
  show ?thesis
  proof (cases "endpoint_ar ?e n")
    case None
    with inv xs show ?thesis by (simp add: pf_alarm_apmr_frame_handler_def)
  next
    case (Some a)
    obtain r q where p: "pf_alarm_receive_queue_post \<lparr>msg_buf = Some b, frame_id_pos = pos\<rparr>
      (alarm_receive_q (get_apmx a ?i n)) = (r, q)" by fastforce
    let ?n = "upd_apmx a ?i (\<lambda>x. x\<lparr>alarm_receive_q := q\<rparr>) n"
    have "machines_ok (if r = 0 then H else insert b H) ?n" by (rule post_ok [OF inv_machines [OF inv] b p])
    moreover have "link_ok (get_apmx c ix ?n) (get_alpmx c ix ?n)" for c ix
      using inv_link [OF inv, of c ix] queue_op_mutex(2) [OF p] by (auto simp: link_ok_def)
    ultimately have "alarm_inv (if r = 0 then H else insert b H) ?n" by (simp add: alarm_inv_def)
    moreover have "pf_alarm_apmr_frame_handler fid (Some b) pos n = Some (if r = 0 then 1 else 0, ?n)"
      using xs Some p unfolding pf_alarm_apmr_frame_handler_def Let_def by simp
    ultimately show ?thesis by auto
  qed
qed

text \<open>
  The driver has the frame in a buffer of its own, which it frees unless the handler took it.
\<close>

definition frame_in :: "u16 \<Rightarrow> u8 list \<Rightarrow> nat \<Rightarrow> 'w cmd" where
  "frame_in fid xs pos n = do {
     let b = n_next_buf n;
     (r, n) \<leftarrow> pf_alarm_apmr_frame_handler fid (Some b) pos (n\<lparr>n_bufs := (n_bufs n)(b \<mapsto> xs), n_next_buf := b + 1\<rparr>);
     (if r = 0 then pnal_buf_free b n else Some n)
   }"

lemma frame_in_ok:
  assumes inv: "alarm_inv H n"
  shows "\<exists>n'. frame_in fid xs pos n = Some n' \<and> alarm_inv H n'"
proof -
  let ?b = "n_next_buf n" and ?m = "n\<lparr>n_bufs := (n_bufs n)(n_next_buf n \<mapsto> xs), n_next_buf := n_next_buf n + 1\<rparr>"
  have own: "own_ok (insert ?b H) (?b + 1) ((n_bufs n)(?b \<mapsto> xs)) (machines n)" "?b \<notin> H"
    using own_alloc [OF machines_ok_own [OF inv_machines [OF inv]]] by auto
  then have "alarm_inv (insert ?b H) ?m"
    using inv by (simp add: alarm_inv_def machines_ok_def env_ok_def diag_ok_def machines_def [abs_def])
  from frame_handler_ok [OF this own(2)] obtain r n1 where
    1: "pf_alarm_apmr_frame_handler fid (Some ?b) pos ?m = Some (r, n1)" "alarm_inv (if r = 1 then H else insert ?b H) n1"
      "r = 0 \<or> r = 1" by blast
  show ?thesis
  proof (cases "r = 1")
    case True
    with 1 show ?thesis by (simp add: frame_in_def Let_def)
  next
    case False
    with 1 have inv1: "alarm_inv (insert ?b H) n1" by simp
    from free_held [OF inv_machines [OF inv1] own(2)] obtain n2 where
      2: "pnal_buf_free ?b n1 = Some n2" "machines_ok H n2" "calm n1 n2" by blast
    then have "alarm_inv H n2" using inv1 by (simp add: alarm_inv_def calm_link)
    with 1 2(1) False show ?thesis by (simp add: frame_in_def Let_def)
  qed
qed

section \<open>Timers\<close>

text \<open>A round of the tick with this component's callback: the first timer of the list, when it is due.\<close>

definition timer_round :: "'w alarm_env \<Rightarrow> 'w cmd" where
  "timer_round env n =
     (if tick_due (n_now n) (n_sched n) then do {
        (ftn, arg, s) \<leftarrow> tick_take (n_sched n);
        let n = n\<lparr>n_sched := s\<rparr>;
        (case (ftn, arg) of (Some Apms_timeout, Some p) \<Rightarrow> pf_alarm_apms_timeout env p n | _ \<Rightarrow> Some n)
      } else Some n)"

lemma tick_take_ok:
  assumes "timer_ok s" and "tick_due now s"
  shows "\<exists>f p s'. tick_take s = Some (f, p, s') \<and> timer_ok s'"
proof -
  obtain busy free where rep: "sched_rep s busy free []" using assms(1) by (auto simp: timer_ok_def sched_ok_def)
  with assms(2) obtain x xs where b: "busy = x # xs" by (cases busy) (simp_all add: tick_due_rep)
  from tick_take_rep [OF rep [unfolded b]] obtain s' where
    s': "tick_take s = Some (to_cb (entry s x), to_arg (entry s x), s')" "sched_rep s' xs (x # free) []" "payload_frame {x} s s'"
    by blast
  then have "sched_ok s'" by (auto simp: sched_ok_def)
  with s' assms(1) show ?thesis by (simp add: timer_ok_def payload_frame_def)
qed

lemma sched_inv: "alarm_inv H n \<Longrightarrow> timer_ok s \<Longrightarrow> alarm_inv H (n\<lparr>n_sched := s\<rparr>)"
  by (simp add: alarm_inv_def machines_ok_def env_ok_sched)

section \<open>Runs\<close>

datatype alarm_event =
    Frame_in u16 "u8 list" nat
  | Timer_round
  | Alarm_periodic
  | Send_alarm nat u16 bool u32 u16 u16 u32 u32 u16 u16 "alarm_payload option"
  | Alarm_ack nat pnet_alarm_argument pnet_pnio_status
  | Open_alarms nat
  | Close_alarms nat
  | Enable_alarms nat bool
  | Clock u32

fun handle_event :: "'w alarm_env \<Rightarrow> alarm_event \<Rightarrow> 'w cmd" where
  "handle_event env (Frame_in fid xs pos) n = frame_in fid xs pos n"
| "handle_event env Timer_round n = timer_round env n"
| "handle_event env Alarm_periodic n = pf_alarm_periodic env n"
| "handle_event env (Send_alarm a type high api slot subslot m s usi len pl) n =
     Some (snd (pf_alarm_send_alarm a type high api slot subslot m s usi len pl n))"
| "handle_event env (Alarm_ack a arg st) n = map_option snd (pf_alarm_alpmr_alarm_ack env a arg st n)"
| "handle_event env (Open_alarms a) n = map_option snd (pf_alarm_activate env a n)"
| "handle_event env (Close_alarms a) n = map_option snd (pf_alarm_close env a n)"
| "handle_event env (Enable_alarms a v) n = Some ((if v then pf_alarm_enable a else pf_alarm_disable a) n)"
| "handle_event env (Clock t) n = Some (n\<lparr>n_now := t\<rparr>)"

inductive alarm_run :: "'w alarm_env \<Rightarrow> 'w alarm_net \<Rightarrow> alarm_event list \<Rightarrow> 'w alarm_net \<Rightarrow> bool" for env where
  run_nil: "alarm_run env n [] n"
| run_cons: "handle_event env e n = Some n' \<Longrightarrow> alarm_run env n' es n'' \<Longrightarrow> alarm_run env n (e # es) n''"

inductive_cases run_consE: "alarm_run env n (e # es) n''"
inductive_simps run_simps [simp]: "alarm_run env n [] n'" "alarm_run env n (e # es) n'"

lemma send_alarm_ok:
  assumes "alarm_inv H n"
  shows "alarm_inv H (snd (pf_alarm_send_alarm a type high api slot subslot m s usi len pl n))"
  using assms by (auto simp: pf_alarm_send_alarm_def Let_def intro!: stays_inv [OF stays_upd_ar] split: prod.split)

context alarm_callbacks
begin

lemma timer_round_ok:
  assumes inv: "alarm_inv H n"
  shows "\<exists>n'. timer_round env n = Some n' \<and> alarm_inv H n'"
proof (cases "tick_due (n_now n) (n_sched n)")
  case False
  with inv show ?thesis by (simp add: timer_round_def)
next
  case True
  have "timer_ok (n_sched n)" using inv by (simp add: alarm_inv_def machines_ok_def env_ok_def)
  from tick_take_ok [OF this True] obtain f p s where s: "tick_take (n_sched n) = Some (f, p, s)" "timer_ok s" by blast
  have inv1: "alarm_inv H (n\<lparr>n_sched := s\<rparr>)" by (rule sched_inv [OF inv s(2)])
  have "\<exists>m. pf_alarm_apms_timeout env q (n\<lparr>n_sched := s\<rparr>) = Some m \<and> alarm_inv H m" for q
    using timeout [OF inv1] moves_inv by (cases q) blast
  with inv1 s(1) True show ?thesis by (auto simp: timer_round_def Let_def split: option.split alarm_cb.split)
qed

lemma event_ok:
  assumes inv: "alarm_inv H n"
  shows "\<exists>n'. handle_event env e n = Some n' \<and> alarm_inv H n'"
proof (cases e)
  case (Frame_in fid xs pos)
  with frame_in_ok [OF inv] show ?thesis by simp
next
  case Timer_round
  with timer_round_ok [OF inv] show ?thesis by simp
next
  case Alarm_periodic
  with periodic [OF inv] show ?thesis by (auto dest: moves_inv)
next
  case (Alarm_ack a arg st)
  with user_ack [OF inv, of a arg st] show ?thesis by (auto dest: moves_inv)
next
  case (Open_alarms a)
  with activate_ok [OF inv, of env a] show ?thesis by auto
next
  case (Close_alarms a)
  with close_ok [OF inv, of env a] show ?thesis by (auto dest: moves_inv)
next
  case (Enable_alarms a v)
  with stays_inv [OF stays_upd_ar [OF inv]] show ?thesis by (auto simp: pf_alarm_enable_def pf_alarm_disable_def)
next
  case (Clock t)
  with inv show ?thesis
    by (simp add: alarm_inv_def machines_ok_def env_ok_def diag_ok_def machines_def [abs_def])
qed (use send_alarm_ok [OF inv] in simp)

lemma run_ok: "alarm_run env n es m \<Longrightarrow> alarm_inv H n \<Longrightarrow> alarm_inv H m"
proof (induction rule: alarm_run.induct)
  case (run_cons e n n' es n'')
  from event_ok [OF run_cons.prems, of e] run_cons show ?case by auto
qed

lemma run_total: "alarm_inv H n \<Longrightarrow> \<exists>m. alarm_run env n es m \<and> alarm_inv H m"
proof (induction es arbitrary: n)
  case (Cons e es)
  from event_ok [OF Cons.prems, of e] Cons.IH show ?case by (auto intro: run_cons)
qed (auto intro: run_nil)

end

section \<open>Retransmission\<close>

fun timeouts_of :: "'w alarm_env \<Rightarrow> nat \<Rightarrow> nat \<Rightarrow> nat \<Rightarrow> 'w cmd" where
  "timeouts_of env a ix 0 n = Some n"
| "timeouts_of env a ix (Suc k) n = do { n \<leftarrow> pf_alarm_apms_timeout env (a, ix) n; timeouts_of env a ix k n }"

text \<open>A sender that waits for the acknowledgement of the frame \<open>xs\<close> in buffer \<open>b\<close>.\<close>

definition sender_waits :: "nat \<Rightarrow> nat \<Rightarrow> nat \<Rightarrow> u8 list \<Rightarrow> u32 \<Rightarrow> 'w alarm_net \<Rightarrow> bool" where
  "sender_waits a ix b xs c n \<longleftrightarrow> apms_state (get_apmx a ix n) = PF_APMS_STATE_WTACK \<and> p_rta (get_apmx a ix n) = Some b \<and>
     n_bufs n b = Some xs \<and> \<not> req_transport_udp (n_ar n a) \<and> resend_counter (get_apmx a ix n) = c"

lemma start_timer_frame:
  "start_resend_timer a ix n = Some (r, n') \<Longrightarrow> n_bufs n' = n_bufs n \<and> n_world n' = n_world n \<and>
   p_rta (get_apmx a ix n') = p_rta (get_apmx a ix n) \<and> apms_state (get_apmx a ix n') = apms_state (get_apmx a ix n) \<and>
   has_ar (get_apmx a ix n') = has_ar (get_apmx a ix n) \<and>
   resend_counter (get_apmx a ix n') = resend_counter (get_apmx a ix n) \<and> req_transport_udp (n_ar n' a) = req_transport_udp (n_ar n a)"
  by (auto simp: start_resend_timer_def n_ar_upd_ar upd_apmx_def upd_ar_def split: Option.bind_splits)

text \<open>The pointer to the AR and a working timer service are all that the callback needs.\<close>

definition timed_ar :: "nat \<Rightarrow> nat \<Rightarrow> 'w alarm_net \<Rightarrow> bool" where
  "timed_ar a ix n \<longleftrightarrow> has_ar (get_apmx a ix n) \<and> timer_ok (n_sched n)"

lemma start_timer_timed:
  assumes "timed_ar a ix n"
  shows "\<exists>r n'. start_resend_timer a ix n = Some (r, n') \<and> timer_ok (n_sched n')"
proof -
  from timer.add_total [of "n_sched n" "n_now n" "timeout_us (get_apmx a ix n)" Apms_timeout "(a, ix)"
      "resend_timeout (get_apmx a ix n)"] assms obtain r h s where
    "pf_scheduler_add (n_now n) (timeout_us (get_apmx a ix n)) Apms_timeout (a, ix)
      (resend_timeout (get_apmx a ix n)) (n_sched n) = Some (r, h, s)" "timer_ok s" by (auto simp: timed_ar_def)
  then show ?thesis by (auto simp: start_resend_timer_def upd_apmx_def upd_ar_def)
qed

lemma resend_step:
  assumes w: "sender_waits a ix b xs c n" and t: "timed_ar a ix n" and c: "c > 0"
  shows "\<exists>n'. pf_alarm_apms_timeout env (a, ix) n = Some n' \<and> sender_waits a ix b xs (c - 1) n' \<and> timed_ar a ix n' \<and>
    n_world n' = snd (env_eth_send env xs (n_world n))"
proof -
  let ?n1 = "upd_apmx a ix (\<lambda>x. x\<lparr>resend_timeout := pf_scheduler_reset_handle (resend_timeout x)\<rparr>) n"
  let ?n2 = "upd_apmx a ix (\<lambda>x. x\<lparr>resend_counter := resend_counter x - 1\<rparr>) ?n1"
  let ?m = "?n2\<lparr>n_world := snd (env_eth_send env xs (n_world n))\<rparr>"
  have sent: "map_option snd (pf_eth_send_on_management_port env b ?n2) = Some ?m"
    using w by (simp add: pf_eth_send_on_management_port_def sender_waits_def upd_apmx_def upd_ar_def split: prod.split)
  have m: "sender_waits a ix b xs (c - 1) ?m" "timed_ar a ix ?m"
    using w t by (simp_all add: sender_waits_def timed_ar_def upd_apmx_def upd_ar_def)
  from start_timer_timed [OF m(2)] obtain r k where k: "start_resend_timer a ix ?m = Some (r, k)" "timer_ok (n_sched k)" by blast
  note f = start_timer_frame [OF k(1)]
  have "pf_alarm_apms_timeout env (a, ix) n = Some k"
    using w t c sent k(1)
    by (simp add: pf_alarm_apms_timeout_def sender_waits_def timed_ar_def deref_ar_def Let_def upd_apmx_def upd_ar_def
        del: map_option_eq_Some)
  moreover have "sender_waits a ix b xs (c - 1) k" "timed_ar a ix k"
    using m f k(2) by (simp_all add: sender_waits_def timed_ar_def)
  ultimately show ?thesis using f by simp
qed

lemma resend_all:
  "sender_waits a ix b xs c n \<Longrightarrow> timed_ar a ix n \<Longrightarrow> unat c = k \<Longrightarrow>
   \<exists>n'. timeouts_of env a ix k n = Some n' \<and> sender_waits a ix b xs 0 n' \<and> timed_ar a ix n' \<and>
     n_world n' = ((\<lambda>w. snd (env_eth_send env xs w)) ^^ k) (n_world n)"
proof (induction k arbitrary: c n)
  case 0
  then show ?case by (simp add: unat_eq_0)
next
  case (Suc k)
  have c: "c > 0" using Suc.prems(3) by (auto simp: word_gt_0)
  from resend_step [OF Suc.prems(1,2) c, where env = env] obtain m where
    m: "pf_alarm_apms_timeout env (a, ix) n = Some m" "sender_waits a ix b xs (c - 1) m" "timed_ar a ix m"
      "n_world m = snd (env_eth_send env xs (n_world n))" by blast
  have "unat (c - 1) = k" using c Suc.prems(3) by (simp add: unat_minus_one word_gt_0)
  from Suc.IH [OF m(2,3) this] m show ?case unfolding funpow_Suc_right by auto
qed

end
