(* ===== verification/Alarm_Props.thy ===== *)
theory Alarm_Props
  imports Alarm_Lemmas "HOL-Library.Multiset"
begin

unbundle bit_operations_syntax

text \<open>The properties of the alarm component (src/common/pf_alarm.c).\<close>

section \<open>A concrete instance for the witnesses\<close>

definition fresh_receive_queue :: pf_alarm_receive_queue where
  "fresh_receive_queue = \<lparr>rq_accountant = \<lparr>acc_mutex = True, acc_count = 0, acc_read = 4, acc_write = 4\<rparr>,
     rq_items = replicate PNET_MAX_ALARMS empty_msg\<rparr>"

definition fresh_send_queue :: pf_alarm_send_queue where
  "fresh_send_queue = \<lparr>sq_accountant = \<lparr>acc_mutex = True, acc_count = 0, acc_read = 0, acc_write = 0\<rparr>,
     sq_items = replicate PNET_MAX_ALARMS zero_alarm_data\<rparr>"

definition demo_env :: "nat list alarm_env" where
  "demo_env = \<lparr>env_alloc = \<lambda>_. True, env_eth_send = \<lambda>xs w. (max 60 (int (length xs)), length xs # w),
     env_map_add = \<lambda>_ w. w, env_map_remove = \<lambda>_ w. w, env_error_ind = \<lambda>_ _ _. Some,
     env_alarm_cnf = \<lambda>_ _. Some, env_alarm_ind = \<lambda>_ _ _ _ _. Some, env_ack_cnf = \<lambda>_ _. Some,
     env_log = \<lambda>_ _. Some\<rparr>"

definition demo_apmx :: pf_apmx where
  "demo_apmx = \<lparr>has_ar = True, apmx_da = [1, 2, 3, 4, 5, 6], apmx_src_ref = 1, apmx_dst_ref = 2,
     apms_state = PF_APMS_STATE_OPEN, apmr_state = PF_APMR_STATE_OPEN, send_seq_count = 0xffff,
     send_seq_count_o = 0xfffe, exp_seq_count = 0xffff, exp_seq_count_o = 0xfffe,
     alarm_receive_q = fresh_receive_queue, p_rta = None, high_priority = True, vlan_prio = 6,
     block_type_alarm_notify = PF_BT_ALARM_NOTIFICATION_HIGH, block_type_alarm_ack = PF_BT_ALARM_ACK_HIGH,
     apmx_frame_id = PF_FRAME_ID_ALARM_HIGH, timeout_us = 3000, resend_timeout = \<lparr>h_name = 2, h_timer_index = UINT32_MAX\<rparr>,
     resend_counter = 3\<rparr>"

definition demo_alpmx :: pf_alpmx where
  "demo_alpmx = \<lparr>alpmx_da = [1, 2, 3, 4, 5, 6], prev_sequence_number = 0xffff, alpm_sequence_number = 0,
     alpmi_state = PF_ALPMI_STATE_W_ALARM, alpmr_state = PF_ALPMR_STATE_W_NOTIFY\<rparr>"

definition demo_alarm_ar :: alarm_ar where
  "demo_alarm_ar = \<lparr>ar_in_use = True, apmx = \<lambda>_. demo_apmx, alpmx = \<lambda>_. demo_alpmx,
     alarm_send_q = \<lambda>_. fresh_send_queue, alarm_enable = True, err_cls = 0, err_code = 0,
     initiator_mac = [1, 2, 3, 4, 5, 6], req_rta_timeout_factor = 1, req_rta_retries = 3,
     req_transport_udp = False, req_local_alarm_reference = 2, req_max_alarm_data_length = 200,
     alarm_res_local_alarm_reference = 1, pull_alarm_allowed = False\<rparr>"

definition no_timers :: "(alarm_cb, nat \<times> nat) sched" where
  "no_timers = \<lparr>timeouts = [], timeout_first = 0, timeout_free = 0, tick_interval = 0\<rparr>"

definition demo_timers :: "(alarm_cb, nat \<times> nat) sched" where
  "demo_timers = the (pf_scheduler_init 1000 no_timers)"

definition demo_net :: "nat list alarm_net" where
  "demo_net = \<lparr>n_sched = demo_timers, n_now = 0, n_bufs = Map.empty, n_next_buf = 0,
     global_alarm_enable = True, alarm_endpoint = [(True, Some 0)], n_ar = \<lambda>_. demo_alarm_ar,
     n_device_mac = [6, 5, 4, 3, 2, 1], n_diag_items = [], n_subslot = \<lambda>_ _ _. None,
     n_module_ident = \<lambda>_ _. None, n_submodule_ident = \<lambda>_ _ _. None, n_world = []\<rparr>"

text \<open>The sender of the high priority waits for the acknowledgement of the frame in buffer 0.\<close>

definition waiting_net :: "nat list alarm_net" where
  "waiting_net = (upd_apmx 0 1 (\<lambda>x. x\<lparr>apms_state := PF_APMS_STATE_WTACK, p_rta := Some 0\<rparr>) demo_net)
     \<lparr>n_bufs := [0 \<mapsto> [1, 2, 3]], n_next_buf := 1\<rparr>"

definition demo_fixed :: "u8 \<Rightarrow> u16 \<Rightarrow> u16 \<Rightarrow> pf_alarm_fixed" where
  "demo_fixed type seq ack = \<lparr>dst_ref = 1, src_ref = 2, pdu_type = type, pdu_version = 1, window_size = 1,
     tack = True, send_seq_num = seq, ack_seq_nbr = ack\<rparr>"

lemma demo_timers_rep:
  "sched_rep demo_timers [] [0..<PF_MAX_TIMEOUTS] []" "tick_interval demo_timers = 1000"
proof -
  have "(0 :: u32) < 1000" by simp
  from init_rep [OF this, of no_timers]
  show "sched_rep demo_timers [] [0..<PF_MAX_TIMEOUTS] []" "tick_interval demo_timers = 1000"
    by (auto simp: demo_timers_def)
qed

lemma demo_simps [simp]:
  "n_ar demo_net = (\<lambda>_. demo_alarm_ar)" "apmx demo_alarm_ar = (\<lambda>_. demo_apmx)" "alpmx demo_alarm_ar = (\<lambda>_. demo_alpmx)"
  "n_sched demo_net = demo_timers" "global_alarm_enable demo_net" "alarm_enable demo_alarm_ar" "n_bufs demo_net = Map.empty" "n_next_buf demo_net = 0"
  by (simp_all add: demo_net_def demo_alarm_ar_def)

lemma demo_env_simps [simp]: "env_alloc demo_env w" "0 < fst (env_eth_send demo_env xs w)"
  "env_error_ind demo_env a c d = Some" "env_alarm_ind demo_env a arg l u ys = Some"
  "env_alarm_cnf demo_env a st = Some" "env_ack_cnf demo_env a r = Some"
  by (simp_all add: demo_env_def)

section \<open>Queues\<close>

lemma fresh_queues: "receive_inv fresh_receive_queue" "received fresh_receive_queue = []"
  "send_inv fresh_send_queue" "to_send fresh_send_queue = []"
  by (simp_all add: fresh_receive_queue_def fresh_send_queue_def receive_inv_def received_def send_inv_def
      to_send_def ring_inv_def ring_def PNET_MAX_ALARMS_def)

text \<open>
  C12. Whatever sequence of posts and fetches runs on the queue of received frames, the
  results are those of a first-in first-out list of at most PNET\_MAX\_ALARMS frames: a post
  to a full queue is refused and changes nothing, a fetch gives the oldest frame.
\<close>

theorem alarm_receive_queue_fifo:
  assumes "receive_inv q"
  shows "\<exists>q'. run_queue pf_alarm_receive_queue_post pf_alarm_receive_queue_fetch ops q =
      (fst (list_queue PNET_MAX_ALARMS ops (received q)), q') \<and> receive_inv q' \<and>
      received q' = snd (list_queue PNET_MAX_ALARMS ops (received q))"
  using assms by (rule receive_queue.run_refines)

lemma alarm_receive_queue_fifo_witness:
  "\<exists>q'. run_queue pf_alarm_receive_queue_post pf_alarm_receive_queue_fetch
      [Post \<lparr>msg_buf = Some 1, frame_id_pos = 12\<rparr>, Post \<lparr>msg_buf = Some 2, frame_id_pos = 16\<rparr>, Fetch]
      fresh_receive_queue = ([Inl 0, Inl 0, Inr (Some \<lparr>msg_buf = Some 1, frame_id_pos = 12\<rparr>)], q') \<and>
    received q' = [\<lparr>msg_buf = Some 2, frame_id_pos = 16\<rparr>]"
  using alarm_receive_queue_fifo [OF fresh_queues(1), of "[Post \<lparr>msg_buf = Some 1, frame_id_pos = 12\<rparr>,
      Post \<lparr>msg_buf = Some 2, frame_id_pos = 16\<rparr>, Fetch]"]
  by (auto simp: fresh_queues PNET_MAX_ALARMS_def)

text \<open>The same for the queue of alarms to send.\<close>

theorem alarm_send_queue_fifo:
  assumes "send_inv q"
  shows "\<exists>q'. run_queue pf_alarm_send_queue_post pf_alarm_send_queue_fetch ops q =
      (fst (list_queue PNET_MAX_ALARMS ops (to_send q)), q') \<and> send_inv q' \<and>
      to_send q' = snd (list_queue PNET_MAX_ALARMS ops (to_send q))"
  using assms by (rule send_queue.run_refines)

lemma alarm_send_queue_fifo_witness:
  "\<exists>q'. run_queue pf_alarm_send_queue_post pf_alarm_send_queue_fetch [Post zero_alarm_data, Fetch, Fetch]
      fresh_send_queue = ([Inl 0, Inr (Some zero_alarm_data), Inr None], q') \<and> to_send q' = []"
  using alarm_send_queue_fifo [OF fresh_queues(3), of "[Post zero_alarm_data, Fetch, Fetch]"]
  by (auto simp: fresh_queues PNET_MAX_ALARMS_def)

section \<open>Transport acknowledgements and timers\<close>

text \<open>
  APMS takes exactly the transport acknowledgement it waits for: it moves on to the
  next sequence number (modulo 2^15), frees the frame it kept, calls nobody and can send
  again; any other acknowledgement, or one it does not wait for, changes nothing.
\<close>

theorem alarm_transport_ack:
  assumes "\<forall>b. p_rta (get_apmx a ix n) = Some b \<longrightarrow> n_bufs n b \<noteq> None"
    and "alpmr_state (get_alpmx a ix n) \<noteq> PF_ALPMR_STATE_W_TACK"
    and "pdu_type f = PF_RTA_PDU_TYPE_ACK"
  shows "\<exists>n'. pf_alarm_apms_a_data_ind env a ix f n = Some (0, n') \<and>
     (if apms_state (get_apmx a ix n) = PF_APMS_STATE_WTACK \<and> ack_seq_nbr f = send_seq_count (get_apmx a ix n)
      then apms_state (get_apmx a ix n') = PF_APMS_STATE_OPEN \<and> p_rta (get_apmx a ix n') = None \<and>
           send_seq_count (get_apmx a ix n') = (send_seq_count (get_apmx a ix n) + 1) AND 0x7fff \<and>
           dom (n_bufs n') = dom (n_bufs n) - set_option (p_rta (get_apmx a ix n))
      else n' = n)"
proof (cases "apms_state (get_apmx a ix n) = PF_APMS_STATE_WTACK \<and> ack_seq_nbr f = send_seq_count (get_apmx a ix n)")
  case True
  from ack_taken [OF _ True [THEN conjunct1] True [THEN conjunct2] assms(1,2), of env] assms(3) True
  show ?thesis by (fastforce split: option.split)
next
  case False
  then have "pf_alarm_apms_a_data_ind env a ix f n = Some (0, n)" by (auto intro!: ack_ignored)
  with False show ?thesis by auto
qed

lemma alarm_transport_ack_witness:
  "\<exists>n'. pf_alarm_apms_a_data_ind demo_env 0 1 (demo_fixed 3 0 0xffff) waiting_net = Some (0, n') \<and>
     apms_state (get_apmx 0 1 n') = PF_APMS_STATE_OPEN \<and> send_seq_count (get_apmx 0 1 n') = 0 \<and>
     dom (n_bufs n') = {}"
  using alarm_transport_ack [where a = 0 and ix = 1 and n = waiting_net and f = "demo_fixed 3 0 0xffff" and env = demo_env]
  by (auto simp: waiting_net_def demo_fixed_def demo_apmx_def demo_alpmx_def pdu_type_defs)

text \<open>
  The timer of an acknowledged frame is not stopped: after the acknowledgement the
  scheduler has the same resend timers of this machine, and the next alarm adds one more,
  so the retransmissions of later alarms come earlier than the configured timeout.
\<close>

theorem alarm_ack_keeps_timer:
  assumes ar: "has_ar (get_apmx a ix n)" and fresh: "\<forall>b \<ge> n_next_buf n. n_bufs n b = None"
    and st: "apms_state (get_apmx a ix n) = PF_APMS_STATE_WTACK"
    and f: "pdu_type f = PF_RTA_PDU_TYPE_ACK" "ack_seq_nbr f = send_seq_count (get_apmx a ix n)"
    and live: "\<forall>b. p_rta (get_apmx a ix n) = Some b \<longrightarrow> n_bufs n b \<noteq> None"
    and r: "alpmr_state (get_alpmx a ix n) \<noteq> PF_ALPMR_STATE_W_TACK"
    and rep: "sched_rep (n_sched n) busy (i # free) []"
    and t: "pf_scheduler_sanitize_delay (timeout_us (get_apmx a ix n)) (tick_interval (n_sched n)) True = Some t"
  shows "\<exists>n1 r n2. pf_alarm_apms_a_data_ind env a ix f n = Some (0, n1) \<and>
     resend_timers a ix n1 = resend_timers a ix n \<and>
     pf_alarm_apms_apms_a_data_req env a ix d ms status n1 = Some (r, n2) \<and>
     i \<notin> resend_timers a ix n \<and> resend_timers a ix n2 = insert i (resend_timers a ix n)"
proof -
  from ack_taken [OF _ st f(2) live r, of env] f(1) obtain n1 where
    n1: "pf_alarm_apms_a_data_ind env a ix f n = Some (0, n1)"
    and x: "get_apmx a ix n1 = (get_apmx a ix n)\<lparr>send_seq_count_o := send_seq_count (get_apmx a ix n),
       send_seq_count := (send_seq_count (get_apmx a ix n) + 1) AND 0x7fff, p_rta := None,
       apms_state := PF_APMS_STATE_OPEN\<rparr>" "n_sched n1 = n_sched n" "n_next_buf n1 = n_next_buf n"
    and b: "n_bufs n1 = (case p_rta (get_apmx a ix n) of None \<Rightarrow> n_bufs n | Some b \<Rightarrow> (n_bufs n)(b := None))"
    by auto
  have "\<forall>b \<ge> n_next_buf n1. n_bufs n1 b = None" using fresh by (simp add: b x split: option.split)
  from send_data [OF _ this, of a ix busy i free t env d ms status] ar rep t n1 resend_timers_sched [OF x(2)]
  show ?thesis by (auto simp: x)
qed

text \<open>Sending twice from the instance above leaves two timers.\<close>

lemma alarm_ack_keeps_timer_witness:
  "\<exists>r n n1 r' n2. pf_alarm_apms_apms_a_data_req demo_env 0 1 zero_alarm_data 0 None demo_net = Some (r, n) \<and>
     pf_alarm_apms_a_data_ind demo_env 0 1 (demo_fixed 3 0 0xffff) n = Some (0, n1) \<and>
     pf_alarm_apms_apms_a_data_req demo_env 0 1 zero_alarm_data 0 None n1 = Some (r', n2) \<and>
     resend_timers 0 1 n2 = {0, 1}"
proof -
  have d: "pf_scheduler_sanitize_delay 3000 1000 True = Some 2500" by (rule demo_delay)
  have free: "[0..<PF_MAX_TIMEOUTS] = 0 # 1 # [2..<PF_MAX_TIMEOUTS]" by (simp add: config_defs upt_conv_Cons)
  from send_data [where n = demo_net and a = 0 and ix = 1 and busy = "[]" and i = 0 and free = "1 # [2..<PF_MAX_TIMEOUTS]" and t = 2500 and env = demo_env and d = zero_alarm_data and ms = 0 and status = None]
    demo_timers_rep d
  obtain r n where n: "pf_alarm_apms_apms_a_data_req demo_env 0 1 zero_alarm_data 0 None demo_net = Some (r, n)"
      "apms_state (get_apmx 0 1 n) = PF_APMS_STATE_WTACK" "sched_rep (n_sched n) [0] (1 # [2..<PF_MAX_TIMEOUTS]) []"
      "resend_timers 0 1 n = insert 0 (resend_timers 0 1 demo_net)" "\<forall>b \<ge> n_next_buf n. n_bufs n b = None"
      "tick_interval (n_sched n) = 1000" "has_ar (get_apmx 0 1 n)" "timeout_us (get_apmx 0 1 n) = 3000"
      "send_seq_count (get_apmx 0 1 n) = 0xffff" "get_alpmx 0 1 n = demo_alpmx" "n_bufs n 0 \<noteq> None"
      "p_rta (get_apmx 0 1 n) = Some 0"
    by (auto simp: free demo_apmx_def insert_deadline_def demo_alarm_ar_def)
  have "resend_timers 0 1 demo_net = {}"
    using demo_timers_rep by (auto simp: resend_timers_def sched_rep_def)
  with alarm_ack_keeps_timer [OF n(7,5,2) _ _ _ _ n(3), where f = "demo_fixed 3 0 0xffff" and env = demo_env and d = zero_alarm_data and ms = 0 and status = None] n d
  show ?thesis by (fastforce simp: demo_fixed_def pdu_type_defs demo_alpmx_def)
qed

text \<open>
  The buffer of a frame: after a request to send, the buffers that were live before
  are live with the same contents, and the new one is live only if the sender keeps it for
  retransmission, which it does for a frame that wants an acknowledgement when it keeps no
  other. No buffer is lost.
\<close>

theorem alarm_frame_kept_or_freed:
  assumes "has_ar (get_apmx a ix n)" and "\<forall>b \<ge> n_next_buf n. n_bufs n b = None"
    and "pdu_type f = PF_RTA_PDU_TYPE_DATA \<longrightarrow> data \<noteq> None" and "pdu_type f = PF_RTA_PDU_TYPE_ERR \<longrightarrow> st \<noteq> None"
  shows "\<exists>r n'. pf_alarm_apms_a_data_req env a ix f data ms usi len pl st n = Some (r, n') \<and>
     (\<forall>b. b \<noteq> n_next_buf n \<longrightarrow> n_bufs n' b = n_bufs n b) \<and>
     (n_bufs n' (n_next_buf n) \<noteq> None \<longleftrightarrow> tack f \<and> p_rta (get_apmx a ix n) = None \<and> env_alloc env (n_world n) \<and>
        \<not> req_transport_udp (n_ar n a)) \<and>
     (n_bufs n' (n_next_buf n) \<noteq> None \<longrightarrow> p_rta (get_apmx a ix n') = Some (n_next_buf n))"
proof -
  have "\<forall>x. alarm_var_part x f data ms usi len pl st \<noteq> None"
    using assms(3,4) by (auto simp: alarm_var_part_def split: option.split)
  from data_req_buffers [OF assms(1,2) this, of env] show ?thesis
    by (elim exE conjE, intro exI conjI) (assumption, simp_all split: if_splits)
qed

lemma alarm_frame_kept_or_freed_witness:
  "\<exists>r n'. pf_alarm_apms_a_data_req demo_env 0 1 (demo_fixed 1 0 0) (Some zero_alarm_data) 0 0 0 (Raw_payload [])
     None demo_net = Some (r, n') \<and> p_rta (get_apmx 0 1 n') = Some 0 \<and> n_bufs n' 0 \<noteq> None"
  using alarm_frame_kept_or_freed [where a = 0 and ix = 1 and n = demo_net and f = "demo_fixed 1 0 0"
      and data = "Some zero_alarm_data" and st = None and env = demo_env]
  by (fastforce simp: demo_fixed_def demo_apmx_def demo_alarm_ar_def pdu_type_defs)

section \<open>Received alarms\<close>

text \<open>Sending a frame of its own: the acknowledgement goes out and leaves the machines alone.\<close>

lemma send_ack_ok:
  assumes "has_ar (get_apmx a ix n)" "\<not> req_transport_udp (n_ar n a)" "env_alloc env (n_world n)"
    and "\<forall>xs w. fst (env_eth_send env xs w) > 0"
  shows "\<exists>n'. pf_alarm_apmr_send_ack env a ix n = Some (0, n') \<and> n_ar n' = n_ar n"
  using assms by (simp add: pf_alarm_apmr_send_ack_def pf_alarm_apms_a_data_req_def alarm_var_part_def
      alarm_fixed_of_def pdu_type_defs pnal_buf_alloc_def buf_store_def pf_eth_send_on_management_port_def
      pnal_buf_free_def split: prod.split)
    (metis fst_conv not_less)

text \<open>
  A notification that is in sequence but too short is acknowledged on the transport
  level and then wedges the receiver: the call gives -1, APMR stays in WCNF, and every
  later data frame gives -1 and is dropped.
\<close>

theorem alarm_truncated_notification_wedges:
  assumes ar: "has_ar (get_apmx a ix n)" "\<not> req_transport_udp (n_ar n a)" "env_alloc env (n_world n)"
      "\<forall>xs w. fst (env_eth_send env xs w) > 0"
    and st: "apmr_state (get_apmx a ix n) = PF_APMR_STATE_OPEN" "apms_state (get_apmx a ix n) \<noteq> PF_APMS_STATE_WTACK"
    and f: "tack f" "send_seq_num f = exp_seq_count (get_apmx a ix n)"
    and h: "run_state pf_get_block_header r = (h, r')" "block_type h = block_type_alarm_notify (get_apmx a ix n)"
      "block_type h \<noteq> block_type_alarm_ack (get_apmx a ix n)"
    and short: "g_result (snd (run_state (do { d \<leftarrow> pf_get_alarm_data zero_alarm_data; u \<leftarrow> pf_get_uint16;
      State_Monad.return (d, u) }) r')) \<noteq> PF_PARSE_OK"
  shows "\<exists>n'. pf_alarm_apmr_a_data_ind env a ix f len r n = Some (-1, n') \<and>
     (\<forall>f' len' q. pf_alarm_apmr_a_data_ind env a ix f' len' q n' = Some (-1, n'))"
proof -
  have "pf_alarm_apms_a_data_ind env a ix f n = Some (0, n)" using st(2) by (intro ack_ignored) simp
  moreover obtain n1 where "pf_alarm_apmr_send_ack env a ix (upd_apmx a ix next_seq n) = Some (0, n1)"
    using send_ack_ok [where a = a and ix = ix and n = "upd_apmx a ix next_seq n" and env = env] ar by (auto simp: next_seq_def)
  moreover have "deliver_notification env a ix len (r_pos r) r' m = Some (-1, m)" for m
    using short by (auto simp: deliver_notification_def split: prod.splits)
  ultimately have "pf_alarm_apmr_a_data_ind env a ix f len r n =
      Some (-1, upd_apmx a ix (\<lambda>x. x\<lparr>apmr_state := PF_APMR_STATE_WCNF\<rparr>) n1)"
    using st f h by (simp add: pf_alarm_apmr_a_data_ind_def Let_def apmr_accept_def)
  then show ?thesis by (auto simp: pf_alarm_apmr_a_data_ind_def Let_def)
qed

text \<open>A block header that announces a high priority notification, and nothing behind it.\<close>

lemma alarm_truncated_notification_wedges_witness:
  "\<exists>n'. pf_alarm_apmr_a_data_ind demo_env 0 1 (demo_fixed 1 0xffff 0) 6
      (frame_reader [0, 1, 0, 2, 1, 0] 0) demo_net = Some (-1, n') \<and>
    pf_alarm_apmr_a_data_ind demo_env 0 1 (demo_fixed 1 0 0) 60 (frame_reader (replicate 60 0) 0) n' = Some (-1, n')"
proof -
  let ?r = "frame_reader [0, 1, 0, 2, 1, 0] 0"
  have "block_type (fst (run_state pf_get_block_header ?r)) = 1"
    "g_result (snd (run_state (do { d \<leftarrow> pf_get_alarm_data zero_alarm_data; u \<leftarrow> pf_get_uint16;
       State_Monad.return (d, u) }) (snd (run_state pf_get_block_header ?r)))) \<noteq> PF_PARSE_OK"
    by code_simp+
  with alarm_truncated_notification_wedges [where a = 0 and ix = 1 and n = demo_net and env = demo_env
        and f = "demo_fixed 1 0xffff 0" and len = 6 and r = ?r and h = "fst (run_state pf_get_block_header ?r)"
        and r' = "snd (run_state pf_get_block_header ?r)"]
  show ?thesis
    by (auto 0 3 simp: demo_alarm_ar_def demo_apmx_def demo_fixed_def PF_BT_ALARM_NOTIFICATION_HIGH_def
        PF_BT_ALARM_ACK_HIGH_def)
qed

text \<open>
  A notification of low priority that waits for the user is never acknowledged: the
  acknowledgement only looks at the high priority machine, so it gives -1 and leaves the
  low priority one waiting, and the next low priority notification is a protocol violation
  that is indicated to CMSU with the intent to abort the AR.
\<close>

theorem alarm_low_priority_ack_refused:
  assumes "alpmr_state (get_alpmx a 0 n) = PF_ALPMR_STATE_W_USER_ACK"
    and "alpmr_state (get_alpmx a 1 n) \<noteq> PF_ALPMR_STATE_W_USER_ACK" and "has_ar (get_apmx a 0 n)"
  shows "\<exists>n'. pf_alarm_alpmr_alarm_ack env a arg st n = Some (-1, n') \<and>
     alpmr_state (get_alpmx a 0 n') = PF_ALPMR_STATE_W_USER_ACK \<and>
     pf_alarm_alpmr_apmr_a_data_ind env a 0 d len usi xs n' = map_option (Pair (-1))
       (env_error_ind env a PNET_ERROR_CODE_1_RTA_ERR_CLS_PROTOCOL PNET_ERROR_CODE_2_ABORT_AR_PROTOCOL_VIOLATION
         (set_err a PNET_ERROR_CODE_1_RTA_ERR_CLS_PROTOCOL PNET_ERROR_CODE_2_ABORT_AR_PROTOCOL_VIOLATION n'))"
  using assms by (simp add: pf_alarm_alpmr_alarm_ack_def pf_alarm_alpmr_apmr_a_data_ind_def pf_alarm_error_ind_def)
    (simp add: map_option_case option.case_eq_if bind_eq_Some_conv deref_ar_def split: Option.bind_split)

lemma alarm_low_priority_ack_refused_witness:
  "\<exists>n' m. pf_alarm_alpmr_alarm_ack demo_env 0 (alarm_argument zero_alarm_data) \<lparr>error_code = 0, error_decode = 0,
       error_code_1 = 0, error_code_2 = 0\<rparr>
     (upd_alpmx 0 0 (\<lambda>x. x\<lparr>alpmr_state := PF_ALPMR_STATE_W_USER_ACK\<rparr>) demo_net) = Some (-1, n') \<and>
     pf_alarm_alpmr_apmr_a_data_ind demo_env 0 0 zero_alarm_data 0 0 [] n' = Some (-1, m)"
  using alarm_low_priority_ack_refused [where a = 0 and env = demo_env and
      n = "upd_alpmx 0 0 (\<lambda>x. x\<lparr>alpmr_state := PF_ALPMR_STATE_W_USER_ACK\<rparr>) demo_net"]
  by (fastforce simp: demo_apmx_def demo_alpmx_def)

text \<open>
  An alarm that is due while the acknowledgement of the user is on its way aborts the
  AR: the periodic operation takes the alarm from the queue, the sender is not open, and
  the alarm is lost and indicated as an error of ALPMI and then as one of ALPMR.
\<close>

theorem alarm_send_during_ack_aborts:
  assumes en: "global_alarm_enable n" "alarm_enable (n_ar n a)" and ar: "has_ar (get_apmx a 1 n)"
    and st: "alpmi_state (get_alpmx a 1 n) = PF_ALPMI_STATE_W_ALARM" "apms_state (get_apmx a 1 n) = PF_APMS_STATE_WTACK"
    and q: "send_inv (alarm_send_q (n_ar n a) 1)" "to_send (alarm_send_q (n_ar n a) 1) = d # ds"
    and s: "pf_alarm_get_diag_summary a (api_id d) (slot_nbr d) (subslot_nbr d) None n = Some sm"
  shows "\<exists>m. to_send (alarm_send_q (n_ar m a) 1) = ds \<and>
     get_apmx a 1 m = get_apmx a 1 n \<and> alpmr_state (get_alpmx a 1 m) = alpmr_state (get_alpmx a 1 n) \<and>
     pf_alarm_almpi_periodic env a n =
       Option.bind (env_error_ind env a PNET_ERROR_CODE_1_ALPMI PNET_ERROR_CODE_2_ALPMX_INVALID m)
         (pf_alarm_alpmr_apms_a_data_cnf env a 1 (-1))"
proof -
  obtain q' where q': "pf_alarm_send_queue_fetch (alarm_send_q (n_ar n a) 1) = (Some d, q')" "to_send q' = ds"
    using send_queue.fetch_first [OF q] by auto
  let ?n = "upd_ar a (\<lambda>r. r\<lparr>alarm_send_q := (alarm_send_q r)(1 := q')\<rparr>) n"
  let ?g = "\<lambda>x. x\<lparr>prev_sequence_number := alpm_sequence_number x, alpm_sequence_number := (alpm_sequence_number x + 1) mod 0x0800\<rparr>"
  let ?m = "set_err a PNET_ERROR_CODE_1_ALPMI PNET_ERROR_CODE_2_ALPMX_INVALID (upd_alpmx a 1 ?g ?n)"
  have "pf_alarm_get_diag_summary a (api_id d) (slot_nbr d) (subslot_nbr d) None ?n = Some sm"
    using s by (simp add: pf_alarm_get_diag_summary_def cong: option.case_cong)
  with en ar st q'(1) show ?thesis
    using q'(2)
    by (intro exI [of _ ?m])
      (auto simp: pf_alarm_almpi_periodic_def pf_alarm_send_internal_def pf_alarm_apms_apms_a_data_req_def Let_def
        pf_alarm_alpmi_apms_a_data_cnf_def pf_alarm_error_ind_def n_ar_upd_ar set_err_def deref_ar_def upd_alpmx_def
        map_option_case split: option.splits Option.bind_splits)
qed

definition ack_on_its_way :: "nat list alarm_net" where
  "ack_on_its_way = upd_ar 0 (\<lambda>r. r\<lparr>alarm_send_q := \<lambda>_. snd (pf_alarm_send_queue_post zero_alarm_data fresh_send_queue)\<rparr>)
     (upd_apmx 0 1 (\<lambda>x. x\<lparr>apms_state := PF_APMS_STATE_WTACK\<rparr>)
       (upd_alpmx 0 1 (\<lambda>x. x\<lparr>alpmr_state := PF_ALPMR_STATE_W_TACK\<rparr>) demo_net))"

lemma alarm_send_during_ack_aborts_witness:
  "\<exists>m. to_send (alarm_send_q (n_ar m 0) 1) = [] \<and>
     pf_alarm_almpi_periodic demo_env 0 ack_on_its_way = pf_alarm_alpmr_apms_a_data_cnf demo_env 0 1 (-1) m"
proof -
  let ?q = "snd (pf_alarm_send_queue_post zero_alarm_data fresh_send_queue)"
  have q: "send_inv ?q" "to_send ?q = [zero_alarm_data]"
    using send_queue.post_room [OF fresh_queues(3), of zero_alarm_data] fresh_queues(4)
    by (auto simp: PNET_MAX_ALARMS_def)
  have "pf_alarm_get_diag_summary 0 0 0 0 None ack_on_its_way = Some (no_diagnosis, 0)"
    by (simp add: pf_alarm_get_diag_summary_def ack_on_its_way_def demo_net_def upd_ar_def upd_apmx_def upd_alpmx_def)
  moreover have "global_alarm_enable ack_on_its_way" "alarm_enable (n_ar ack_on_its_way 0)"
    "has_ar (get_apmx 0 1 ack_on_its_way)" "alpmi_state (get_alpmx 0 1 ack_on_its_way) = PF_ALPMI_STATE_W_ALARM"
    "apms_state (get_apmx 0 1 ack_on_its_way) = PF_APMS_STATE_WTACK" "alarm_send_q (n_ar ack_on_its_way 0) 1 = ?q"
    by (simp_all add: ack_on_its_way_def n_ar_upd_ar upd_apmx_def upd_alpmx_def demo_apmx_def demo_alpmx_def)
  ultimately obtain m where "to_send (alarm_send_q (n_ar m 0) 1) = []"
      "pf_alarm_almpi_periodic demo_env 0 ack_on_its_way = Option.bind
        (env_error_ind demo_env 0 PNET_ERROR_CODE_1_ALPMI PNET_ERROR_CODE_2_ALPMX_INVALID m)
        (pf_alarm_alpmr_apms_a_data_cnf demo_env 0 1 (-1))"
    using alarm_send_during_ack_aborts [of ack_on_its_way 0 zero_alarm_data "[]" "(no_diagnosis, 0)" demo_env] q
    by (auto simp: zero_alarm_data_def)
  then show ?thesis by auto
qed

section \<open>Summary of diagnoses\<close>

text \<open>
  The alarm specifier and the maintenance status that go out with an alarm depend on
  which diagnoses the subslot has, not on the order of their list, and a list that ends
  is summarised.
\<close>

theorem alarm_summary_any_order:
  assumes "diag_chain items i is" and "diag_chain items' i' is'"
    and "mset (map (diagnosis_at items) is) = mset (map (diagnosis_at items') is')"
  shows "summarize items a sub i sm = summarize items' a sub i' sm \<and> summarize items a sub i sm \<noteq> None"
  using fold_multiset_equiv [where f = "pf_alarm_add_diag_item_to_summary a sub", OF summary_commute assms(3)]
  by (auto simp: summarize_chain [OF assms(1)] summarize_chain [OF assms(2)])

text \<open>For the witness, two diagnoses: one of the manufacturer and one of a channel.\<close>

definition demo_diag :: "u16 \<Rightarrow> u16 \<Rightarrow> pf_diag_item" where
  "demo_diag u nxt = zero_diag_item\<lparr>di_usi := u, di_next := nxt\<rparr>"

lemma alarm_summary_any_order_witness:
  "\<forall>sub. summarize [demo_diag 1 1, demo_diag 0x8000 9] 0 sub 0 (no_diagnosis, 0) =
     summarize [demo_diag 0x8000 9, demo_diag 1 0] 0 sub 1 (no_diagnosis, 0)"
proof -
  have "mset (map (diagnosis_at [demo_diag 1 1, demo_diag 0x8000 9]) [0, 1]) =
      mset (map (diagnosis_at [demo_diag 0x8000 9, demo_diag 1 0]) [1, 0])"
    by (simp add: diagnosis_at_def demo_diag_def)
  from alarm_summary_any_order [OF _ _ this] show ?thesis by (simp add: demo_diag_def)
qed

end
