(* ===== verification/Alarm_Run_Props.thy ===== *)
theory Alarm_Run_Props
  imports Alarm_Runs Alarm_Props
begin

unbundle bit_operations_syntax

text \<open>
  The properties of whole runs of the alarm component, and the interpretation of the contract
  of its callbacks on the stack's own: the error indication of CMSU closes the AR.
\<close>

section \<open>The callbacks of the stack\<close>



lemma demo_inv: "alarm_inv {} (demo_net\<lparr>alarm_endpoint := replicate PNET_MAX_AR (True, Some 0)\<rparr>)"
proof -
  have q: "queue_bufs fresh_receive_queue = []"
    by (simp add: queue_bufs_def fresh_receive_queue_def List.map_filter_def empty_msg_def)
  then have "mach_ok demo_apmx" "mach_bufs demo_apmx = {}"
    using fresh_queues by (auto simp: mach_ok_def queue_ok_def mach_bufs_def demo_apmx_def fresh_receive_queue_def)
  moreover have "timer_ok demo_timers" using demo_timers_rep by (auto simp: timer_ok_def sched_ok_def)
  ultimately show ?thesis
    by (auto simp: alarm_inv_def machines_ok_def own_ok_def machines_def env_ok_def diag_ok_def link_ok_def demo_net_def demo_alarm_ar_def
        demo_apmx_def demo_alpmx_def fresh_receive_queue_def)
qed

section \<open>Safety of runs\<close>



text \<open>
  Closing the alarm channel of an AR always succeeds, whatever its machines are doing:
  afterwards both of its machines are closed, hold no buffer and take no alarm.
\<close>

theorem alarm_close_clean:
  assumes "alarm_inv {} n"
  shows "\<exists>n'. pf_alarm_close env a n = Some (0, n') \<and> alarm_inv {} n' \<and>
    (\<forall>ix \<le> 1. \<not> has_ar (get_apmx a ix n') \<and> apms_state (get_apmx a ix n') = PF_APMS_STATE_CLOSED \<and>
       apmr_state (get_apmx a ix n') = PF_APMR_STATE_CLOSED \<and> mach_bufs (get_apmx a ix n') = {} \<and>
       alpmi_state (get_alpmx a ix n') = PF_ALPMI_STATE_W_START \<and> alpmr_state (get_alpmx a ix n') = PF_ALPMR_STATE_W_START)"
proof -
  from close_ok [OF assms, where env = env and a = a] obtain n' where
    c: "pf_alarm_close env a n = Some (0, n')" "moves {} n n'" and
    x: "\<forall>ix \<le> 1. \<not> has_ar (get_apmx a ix n') \<and> mach_bufs (get_apmx a ix n') = {} \<and>
      alpmi_state (get_alpmx a ix n') = PF_ALPMI_STATE_W_START \<and> alpmr_state (get_alpmx a ix n') = PF_ALPMR_STATE_W_START"
    by blast
  note inv = moves_inv [OF c(2)]
  have "apms_state (get_apmx a ix n') = PF_APMS_STATE_CLOSED \<and> apmr_state (get_apmx a ix n') = PF_APMR_STATE_CLOSED"
    if "ix \<le> 1" for ix using x that inv_open(1,2) [OF inv, of a ix] by blast
  with c(1) inv x show ?thesis by blast
qed

lemma alarm_close_clean_witness:
  "\<exists>n'. pf_alarm_close demo_env 0 (demo_net\<lparr>alarm_endpoint := replicate PNET_MAX_AR (True, Some 0)\<rparr>) = Some (0, n') \<and>
     apms_state (get_apmx 0 1 n') = PF_APMS_STATE_CLOSED"
  using alarm_close_clean [OF demo_inv, of demo_env 0] by auto

section \<open>Retransmission\<close>



end
