(* ===== verification/Eth.thy ===== *)
theory Eth
  imports Prelude
begin

unbundle bit_operations_syntax

text \<open>
  The dispatch of received Ethernet frames (src/common/pf_eth.c): the map from frame
  identifiers to handlers, and the walk over the VLAN tags of a frame to its Ethertype. A
  handler is a function pointer and an argument, as in the scheduler; what a handler does is
  a parameter. The map has a contract of its own, the locale \<open>frame_map\<close>, which the cyclic
  data machines rely on.
\<close>

section \<open>Bytes of a frame\<close>

definition peek :: "nat \<Rightarrow> nat \<Rightarrow> u8 list \<Rightarrow> u8 list option" where
  "peek pos k xs = (if pos + k \<le> length xs then Some (take k (drop pos xs)) else None)"

definition poke :: "nat \<Rightarrow> u8 list \<Rightarrow> u8 list \<Rightarrow> u8 list option" where
  "poke pos ys xs = (if pos + length ys \<le> length xs then Some (take pos xs @ ys @ drop (pos + length ys) xs) else None)"

definition be16 :: "u8 list \<Rightarrow> u16" where
  "be16 xs = push_bit 8 (ucast (xs ! 0)) OR ucast (xs ! 1)"

definition bytes16 :: "u16 \<Rightarrow> u8 list" where
  "bytes16 w = [ucast (drop_bit 8 w), ucast w]"

definition peek16 :: "nat \<Rightarrow> u8 list \<Rightarrow> u16 option" where
  "peek16 pos xs = map_option be16 (peek pos 2 xs)"

lemma peek_poke: "poke pos ys xs = Some zs \<Longrightarrow> k = length ys \<Longrightarrow> peek pos k zs = Some ys"
  by (auto simp: poke_def peek_def split: if_splits)

lemma poke_length: "poke pos ys xs = Some zs \<Longrightarrow> length zs = length xs"
  by (auto simp: poke_def split: if_splits)

lemma poke_total: "pos + length ys \<le> length xs \<Longrightarrow> \<exists>zs. poke pos ys xs = Some zs"
  by (simp add: poke_def)

lemma peek_poke_other:
  assumes "poke pos ys xs = Some zs" and "p + k \<le> pos \<or> pos + length ys \<le> p"
  shows "peek p k zs = peek p k xs"
proof -
  have "zs = take pos xs @ ys @ drop (pos + length ys) xs" and len: "pos + length ys \<le> length xs"
    using assms(1) by (auto simp: poke_def split: if_splits)
  moreover have "take k (drop p (take pos xs @ ys @ drop (pos + length ys) xs)) = take k (drop p xs)"
    using assms(2)
  proof
    assume "p + k \<le> pos"
    then show ?thesis using len by (simp add: take_drop min_def)
  next
    assume "pos + length ys \<le> p"
    then show ?thesis using len by (simp add: min_def)
  qed
  ultimately show ?thesis using len by (simp add: peek_def)
qed

lemma be16_bytes16 [simp]: "be16 (bytes16 w) = w"
  unfolding be16_def bytes16_def
  by (intro bit_word_eqI) (auto simp: bit_simps)

lemma length_bytes16 [simp]: "length (bytes16 w) = 2" by (simp add: bytes16_def)

section \<open>The map of frame identifiers\<close>

record ('h, 'a) eth_id_entry =
  e_in_use :: bool
  e_frame_id :: u16
  e_handler :: "'h option"
  e_arg :: "'a option"

type_synonym ('h, 'a) eth_id_map = "('h, 'a) eth_id_entry list"

definition eth_id_map_init :: "('h, 'a) eth_id_map" where
  "eth_id_map_init = replicate PF_ETH_MAX_MAP \<lparr>e_in_use = False, e_frame_id = 0, e_handler = None, e_arg = None\<rparr>"

definition pf_eth_frame_id_map_add :: "u16 \<Rightarrow> 'h \<Rightarrow> 'a \<Rightarrow> ('h, 'a) eth_id_map \<Rightarrow> ('h, 'a) eth_id_map" where
  "pf_eth_frame_id_map_add fid h a m =
     (let ix = first_index (\<lambda>e. \<not> e_in_use e) m in
      if ix < length m then m[ix := \<lparr>e_in_use = True, e_frame_id = fid, e_handler = Some h, e_arg = Some a\<rparr>] else m)"

definition has_id :: "u16 \<Rightarrow> ('h, 'a) eth_id_entry \<Rightarrow> bool" where
  "has_id fid e \<longleftrightarrow> e_in_use e \<and> e_frame_id e = fid"

definition pf_eth_frame_id_map_remove :: "u16 \<Rightarrow> ('h, 'a) eth_id_map \<Rightarrow> ('h, 'a) eth_id_map" where
  "pf_eth_frame_id_map_remove fid m =
     (let ix = first_index (has_id fid) m in
      if ix < length m then m[ix := (m ! ix)\<lparr>e_in_use := False\<rparr>] else m)"

definition frame_handler :: "u16 \<Rightarrow> ('h, 'a) eth_id_map \<Rightarrow> ('h option \<times> 'a option) option" where
  "frame_handler fid m =
     (let ix = first_index (has_id fid) m in
      if ix < length m then Some (e_handler (m ! ix), e_arg (m ! ix)) else None)"

section \<open>Receiving\<close>

definition PNAL_ETHTYPE_IP :: u16 where "PNAL_ETHTYPE_IP = 0x0800"
definition PNAL_ETHTYPE_LLDP :: u16 where "PNAL_ETHTYPE_LLDP = 0x88CC"

text \<open>
  All VLAN tags are skipped, however many there are. The loop does not compare the position
  with the length of the frame; here a position behind the end has no value.
\<close>

function skip_vlan_tags :: "u8 list \<Rightarrow> nat \<Rightarrow> (u16 \<times> nat) option" where
  "skip_vlan_tags xs pos =
     (case peek16 pos xs of None \<Rightarrow> None
      | Some t \<Rightarrow> if t = 0x8100 then skip_vlan_tags xs (pos + 4) else Some (t, pos))"
  by auto

termination
  by (relation "measure (\<lambda>(xs, pos). length xs - pos)") (auto simp: peek16_def peek_def split: if_splits)

declare skip_vlan_tags.simps [simp del]

text \<open>
  \<open>run\<close> calls a handler with the frame identifier, the position of it and its argument, \<open>lldp\<close>
  is the receiver of LLDP frames. A handler that is not set would be a null pointer.
\<close>

definition pf_eth_recv ::
    "('h \<Rightarrow> 'a \<Rightarrow> u16 \<Rightarrow> nat \<Rightarrow> 's \<Rightarrow> (int \<times> 's) option) \<Rightarrow> (nat \<Rightarrow> 's \<Rightarrow> (int \<times> 's) option) \<Rightarrow>
     ('s \<Rightarrow> ('h, 'a) eth_id_map) \<Rightarrow> u8 list \<Rightarrow> 's \<Rightarrow> (int \<times> 's) option" where
  "pf_eth_recv run lldp idmap xs s = do {
     (eth_type, type_pos) \<leftarrow> skip_vlan_tags xs 12;
     let frame_pos = type_pos + 2;
     (if eth_type = 0x8892 then do {
        fid \<leftarrow> peek16 frame_pos xs;
        (case frame_handler fid (idmap s) of
           Some (h, a) \<Rightarrow> do { h \<leftarrow> h; a \<leftarrow> a; run h a fid frame_pos s }
         | None \<Rightarrow> Some (0, s))
      }
      else if eth_type = PNAL_ETHTYPE_LLDP then lldp frame_pos s
      else Some (0, s))
   }"

section \<open>The contract of the map\<close>

locale frame_map =
  fixes add :: "u16 \<Rightarrow> 'h \<Rightarrow> 'a \<Rightarrow> 'm \<Rightarrow> 'm" and remove :: "u16 \<Rightarrow> 'm \<Rightarrow> 'm"
    and handler :: "u16 \<Rightarrow> 'm \<Rightarrow> ('h option \<times> 'a option) option" and ok :: "'m \<Rightarrow> bool" and room :: "'m \<Rightarrow> nat"
  assumes add_new: "ok m \<Longrightarrow> handler fid m = None \<Longrightarrow> room m > 0 \<Longrightarrow>
      ok (add fid h a m) \<and> room (add fid h a m) = room m - 1 \<and>
      handler f (add fid h a m) = (if f = fid then Some (Some h, Some a) else handler f m)"
    and remove_id: "ok m \<Longrightarrow> ok (remove fid m) \<and>
      room (remove fid m) = (if handler fid m = None then room m else room m + 1) \<and>
      handler f (remove fid m) = (if f = fid then None else handler f m)"
begin

text \<open>What a client adds under an identifier of its own it can take away again.\<close>

lemma add_remove:
  assumes "ok m" and "handler fid m = None" and "room m > 0"
  shows "ok (remove fid (add fid h a m))" and "room (remove fid (add fid h a m)) = room m"
    and "handler f (remove fid (add fid h a m)) = handler f m"
  using add_new [OF assms, of h a] remove_id [of "add fid h a m" fid] assms by auto

lemma add_keeps_others:
  assumes "ok m" and "handler fid m = None" and "room m > 0" and "handler f m = Some x"
  shows "handler f (add fid h a m) = Some x"
  using add_new [OF assms(1-3), of h a f] assms(2,4) by auto

end

definition map_room :: "('h, 'a) eth_id_map \<Rightarrow> nat" where
  "map_room m = length (filter (\<lambda>e. \<not> e_in_use e) m)"

definition map_ok :: "('h, 'a) eth_id_map \<Rightarrow> bool" where
  "map_ok m \<longleftrightarrow> distinct (map e_frame_id (filter e_in_use m))"

lemma frame_handler_simps:
  "frame_handler fid [] = None"
  "frame_handler fid (e # m) = (if has_id fid e then Some (e_handler e, e_arg e) else frame_handler fid m)"
  by (auto simp: frame_handler_def Let_def)

lemma frame_handler_append:
  "frame_handler fid (us @ vs) = (case frame_handler fid us of None \<Rightarrow> frame_handler fid vs | Some x \<Rightarrow> Some x)"
  by (induction us) (auto simp: frame_handler_simps)

lemma frame_handler_None: "frame_handler fid m = None \<longleftrightarrow> fid \<notin> set (map e_frame_id (filter e_in_use m))"
  by (induction m) (auto simp: frame_handler_simps has_id_def)

lemma map_add_cases:
  "map_room m > 0 \<Longrightarrow> \<exists>us e vs. m = us @ e # vs \<and> \<not> e_in_use e \<and>
     pf_eth_frame_id_map_add fid h a m = us @ \<lparr>e_in_use = True, e_frame_id = fid, e_handler = Some h, e_arg = Some a\<rparr> # vs"
proof -
  assume "map_room m > 0"
  then have "first_index (\<lambda>e. \<not> e_in_use e) m < length m"
    by (auto simp: map_room_def first_index_less filter_empty_conv)
  from first_index_split [OF this] this show ?thesis
    by (auto simp: pf_eth_frame_id_map_add_def Let_def) (metis list_update_length)
qed

lemma map_remove_cases:
  "frame_handler fid m \<noteq> None \<Longrightarrow> \<exists>us e vs. m = us @ e # vs \<and> has_id fid e \<and>
     pf_eth_frame_id_map_remove fid m = us @ e\<lparr>e_in_use := False\<rparr> # vs"
proof -
  assume "frame_handler fid m \<noteq> None"
  then have "first_index (has_id fid) m < length m" by (auto simp: frame_handler_def Let_def split: if_splits)
  from first_index_split [OF this] this show ?thesis
    by (auto simp: pf_eth_frame_id_map_remove_def Let_def) (metis list_update_length nth_append_length)
qed

lemma handler_middle:
  "frame_handler f (us @ e # vs) = (case frame_handler f us of None \<Rightarrow> if has_id f e then Some (e_handler e, e_arg e)
     else frame_handler f vs | Some x \<Rightarrow> Some x)"
  by (simp add: frame_handler_append frame_handler_simps split: option.split)

interpretation eth_map: frame_map
  "pf_eth_frame_id_map_add :: u16 \<Rightarrow> 'h \<Rightarrow> 'a \<Rightarrow> ('h, 'a) eth_id_map \<Rightarrow> ('h, 'a) eth_id_map"
  pf_eth_frame_id_map_remove frame_handler map_ok map_room
proof
  fix m :: "('h, 'a) eth_id_map" and fid f h a
  assume ok: "map_ok m"
  show "map_ok (pf_eth_frame_id_map_add fid h a m) \<and> map_room (pf_eth_frame_id_map_add fid h a m) = map_room m - 1 \<and>
      frame_handler f (pf_eth_frame_id_map_add fid h a m) = (if f = fid then Some (Some h, Some a) else frame_handler f m)"
    if new: "frame_handler fid m = None" and room: "map_room m > 0"
  proof -
    from map_add_cases [OF room] obtain us e vs where m: "m = us @ e # vs" "\<not> e_in_use e"
      "pf_eth_frame_id_map_add fid h a m = us @ \<lparr>e_in_use = True, e_frame_id = fid, e_handler = Some h, e_arg = Some a\<rparr> # vs"
      by blast
    have "frame_handler fid us = None" using new m(1) by (simp add: frame_handler_append split: option.splits)
    moreover have "map_ok (pf_eth_frame_id_map_add fid h a m)"
      using ok new m by (auto simp: map_ok_def frame_handler_None)
    ultimately show ?thesis using m by (auto simp: map_room_def handler_middle has_id_def split: option.split)
  qed
  show "map_ok (pf_eth_frame_id_map_remove fid m) \<and>
      map_room (pf_eth_frame_id_map_remove fid m) = (if frame_handler fid m = None then map_room m else map_room m + 1) \<and>
      frame_handler f (pf_eth_frame_id_map_remove fid m) = (if f = fid then None else frame_handler f m)"
  proof (cases "frame_handler fid m = None")
    case True
    then have "pf_eth_frame_id_map_remove fid m = m"
      by (auto simp: pf_eth_frame_id_map_remove_def frame_handler_def Let_def split: if_splits)
    with True ok show ?thesis by simp
  next
    case False
    from map_remove_cases [OF this] obtain us e vs where m: "m = us @ e # vs" "has_id fid e"
      "pf_eth_frame_id_map_remove fid m = us @ e\<lparr>e_in_use := False\<rparr> # vs" by blast
    have "fid \<notin> set (map e_frame_id (filter e_in_use us))" "fid \<notin> set (map e_frame_id (filter e_in_use vs))"
      using ok m(1,2) by (auto simp: map_ok_def has_id_def)
    then have "frame_handler fid us = None" "frame_handler fid vs = None" by (simp_all add: frame_handler_None)
    moreover have "map_ok (pf_eth_frame_id_map_remove fid m)" using ok m by (auto simp: map_ok_def split: if_splits)
    ultimately show ?thesis using m False by (auto simp: map_room_def handler_middle has_id_def split: option.split)
  qed
qed

end
