(* ===== verification/Cyclic_State.thy ===== *)
theory Cyclic_State
  imports Scheduler_Service Eth Wire_Types
begin

unbundle bit_operations_syntax

text \<open>
  The state of the cyclic data exchange: the consumer (CPM, src/common/pf_cpm.c) and the
  provider (PPM, src/common/pf_ppm.c) of every IO communication relation (IOCR) of every
  application relation (AR), the timers, the frame map, and the pool of frame buffers. What is
  called outside is an environment, as for the alarms. An IOCR is given by the number of its AR
  and its index (\<open>crep\<close>) there. The time does not pass within a call; the measurement of
  execution times (\<open>max_exec\<close>) and the line number of the last error are left out.
\<close>

section \<open>Machines\<close>

datatype pf_cpm_state = PF_CPM_STATE_W_START | PF_CPM_STATE_FRUN | PF_CPM_STATE_RUN
datatype pf_ppm_state = PF_PPM_STATE_W_START | PF_PPM_STATE_RUN

definition PF_IOCR_TYPE_INPUT :: u16 where "PF_IOCR_TYPE_INPUT = 1"
definition PF_IOCR_TYPE_OUTPUT :: u16 where "PF_IOCR_TYPE_OUTPUT = 2"
definition PF_IOCR_TYPE_MC_PROVIDER :: u16 where "PF_IOCR_TYPE_MC_PROVIDER = 3"
definition PF_IOCR_TYPE_MC_CONSUMER :: u16 where "PF_IOCR_TYPE_MC_CONSUMER = 4"

record pf_cpm =
  cpm_state :: pf_cpm_state
  cpm_errcnt :: u32
  cpm_recv_cnt :: u32
  cpm_free_cnt :: u32
  cpm_sa :: "u8 list"
  nbr_frame_id :: u16
  cpm_frame_id :: "u16 \<times> u16"
  cpm_data_hold_factor :: u16
  p_buffer_app :: "nat option"
  p_buffer_cpm :: "nat option"
  cpm_new_buf :: bool
  cpm_frame_id_pos :: u16
  cpm_data_status :: u8
  cpm_buffer_length :: u16
  cpm_buffer_pos :: u16
  dht :: u16
  cpm_new_data :: bool
  rxa :: "(u32 \<times> u32) list"
  cpm_cycle :: int
  cpm_control_interval :: u32
  cpm_ci_running :: bool
  cpm_ci_timeout :: sched_handle

record pf_ppm =
  ppm_state :: pf_ppm_state
  next_exec :: u32
  ppm_sa :: "u8 list"
  ppm_da :: "u8 list"
  first_transmit :: bool
  p_send_buffer :: "nat option"
  ppm_cycle :: u16
  ppm_transfer_status :: u8
  ppm_data_status :: u8
  ppm_buffer_length :: u16
  ppm_buffer_pos :: u16
  cycle_counter_offset :: u16
  data_status_offset :: u16
  transfer_status_offset :: u16
  buffer_data :: "u8 list"
  trx_cnt :: u32
  ppm_send_clock_factor :: u16
  ppm_reduction_ratio :: u16
  ppm_control_interval :: u32
  ppm_ci_running :: bool
  ppm_ci_timeout :: sched_handle

record pf_iodata_object =
  io_in_use :: bool
  io_api_id :: u32
  io_slot_nbr :: u16
  io_subslot_nbr :: u16
  data_offset :: u16
  data_length :: u16
  iops_offset :: u16
  iops_length :: u16
  iocs_offset :: u16
  iocs_length :: u16
  data_avail :: bool

record pf_iocr =
  iocr_cpm :: pf_cpm
  iocr_ppm :: pf_ppm
  in_length :: u16
  out_length :: u16
  nbr_data_desc :: u16
  data_desc :: "pf_iodata_object list"
  iocr_param :: pf_iocr_param

datatype pf_cmsu_state = PF_CMSU_STATE_IDLE | PF_CMSU_STATE_STARTUP | PF_CMSU_STATE_RUN | PF_CMSU_STATE_ABORT

record cyclic_ar =
  cmsu_state :: pf_cmsu_state
  nbr_iocrs :: u16
  iocrs :: "nat \<Rightarrow> pf_iocr"
  ar_err_cls :: u8
  ar_err_code :: u8
  cm_initiator_mac :: "u8 list"
  cm_responder_mac :: "u8 list"

datatype cyclic_cb = Pf_cpm_control_interval_expired | Pf_ppm_drv_sw_send
datatype frame_cb = Pf_cpm_c_data_ind | Other_handler nat

text \<open>A frame buffer has a length and a payload, of the size it was allocated with.\<close>

record pnal_buf =
  b_len :: u16
  b_payload :: "u8 list"

record 'w cyclic_net =
  c_sched :: "(cyclic_cb, nat \<times> nat) sched"
  c_now :: u32
  c_id_map :: "(frame_cb, nat \<times> nat) eth_id_map"
  c_bufs :: "nat \<rightharpoonup> pnal_buf"
  c_next_buf :: nat
  c_ar :: "nat \<Rightarrow> cyclic_ar"
  cpm_instance_cnt :: u32
  cpm_buf_lock :: bool
  ppm_instance_cnt :: u32
  ppm_buf_lock :: bool
  num_physical_ports :: nat
  c_subslot :: "u32 \<Rightarrow> u16 \<Rightarrow> u16 \<Rightarrow> (pf_ownsm_state \<times> nat option) option"
  c_world :: 'w

type_synonym 'w ccmd = "'w cyclic_net \<Rightarrow> 'w cyclic_net option"
type_synonym ('w, 'a) cfn = "'w cyclic_net \<Rightarrow> ('a \<times> 'w cyclic_net) option"

text \<open>
  What the machines call: the driver of the network, CMIO when a consumer starts, stops or has
  new data, FSPM when the data status changes, and CMSU when a machine fails.
\<close>

record 'w cyclic_env =
  ce_alloc :: "'w \<Rightarrow> bool"
  ce_eth_send :: "u8 list \<Rightarrow> 'w \<Rightarrow> int \<times> 'w"
  ce_cpm_state_ind :: "nat \<Rightarrow> nat \<Rightarrow> bool \<Rightarrow> 'w ccmd"
  ce_new_data_ind :: "nat \<Rightarrow> nat \<Rightarrow> bool \<Rightarrow> 'w ccmd"
  ce_data_status_changed :: "nat \<Rightarrow> nat \<Rightarrow> u8 \<Rightarrow> u8 \<Rightarrow> 'w ccmd"
  ce_error_ind :: "nat \<Rightarrow> u8 \<Rightarrow> u8 \<Rightarrow> 'w ccmd"

section \<open>Access to the state\<close>

abbreviation get_iocr :: "nat \<Rightarrow> nat \<Rightarrow> 'w cyclic_net \<Rightarrow> pf_iocr" where
  "get_iocr a c n \<equiv> iocrs (c_ar n a) c"

abbreviation get_cpm :: "nat \<Rightarrow> nat \<Rightarrow> 'w cyclic_net \<Rightarrow> pf_cpm" where
  "get_cpm a c n \<equiv> iocr_cpm (get_iocr a c n)"

abbreviation get_ppm :: "nat \<Rightarrow> nat \<Rightarrow> 'w cyclic_net \<Rightarrow> pf_ppm" where
  "get_ppm a c n \<equiv> iocr_ppm (get_iocr a c n)"

definition upd_car :: "nat \<Rightarrow> (cyclic_ar \<Rightarrow> cyclic_ar) \<Rightarrow> 'w cyclic_net \<Rightarrow> 'w cyclic_net" where
  "upd_car a f n = n\<lparr>c_ar := (c_ar n)(a := f (c_ar n a))\<rparr>"

definition upd_iocr :: "nat \<Rightarrow> nat \<Rightarrow> (pf_iocr \<Rightarrow> pf_iocr) \<Rightarrow> 'w cyclic_net \<Rightarrow> 'w cyclic_net" where
  "upd_iocr a c f = upd_car a (\<lambda>r. r\<lparr>iocrs := (iocrs r)(c := f (iocrs r c))\<rparr>)"

definition upd_cpm :: "nat \<Rightarrow> nat \<Rightarrow> (pf_cpm \<Rightarrow> pf_cpm) \<Rightarrow> 'w cyclic_net \<Rightarrow> 'w cyclic_net" where
  "upd_cpm a c f = upd_iocr a c (\<lambda>i. i\<lparr>iocr_cpm := f (iocr_cpm i)\<rparr>)"

definition upd_ppm :: "nat \<Rightarrow> nat \<Rightarrow> (pf_ppm \<Rightarrow> pf_ppm) \<Rightarrow> 'w cyclic_net \<Rightarrow> 'w cyclic_net" where
  "upd_ppm a c f = upd_iocr a c (\<lambda>i. i\<lparr>iocr_ppm := f (iocr_ppm i)\<rparr>)"

definition set_car_err :: "nat \<Rightarrow> u8 \<Rightarrow> u8 \<Rightarrow> 'w cyclic_net \<Rightarrow> 'w cyclic_net" where
  "set_car_err a x y = upd_car a (\<lambda>r. r\<lparr>ar_err_cls := x, ar_err_code := y\<rparr>)"

definition cyc_buf_alloc :: "'w cyclic_env \<Rightarrow> nat \<Rightarrow> 'w cyclic_net \<Rightarrow> nat option \<times> 'w cyclic_net" where
  "cyc_buf_alloc env sz n = (if ce_alloc env (c_world n)
     then (Some (c_next_buf n), n\<lparr>c_bufs := (c_bufs n)(c_next_buf n \<mapsto> \<lparr>b_len = of_nat sz, b_payload = replicate sz 0\<rparr>),
        c_next_buf := c_next_buf n + 1\<rparr>)
     else (None, n))"

text \<open>Freeing no buffer does nothing, freeing one twice is an error.\<close>

definition cyc_buf_free :: "nat option \<Rightarrow> 'w ccmd" where
  "cyc_buf_free p n = (case p of None \<Rightarrow> Some n
     | Some b \<Rightarrow> if c_bufs n b = None then None else Some (n\<lparr>c_bufs := (c_bufs n)(b := None)\<rparr>))"

definition cyc_start_timer ::
    "u32 \<Rightarrow> cyclic_cb \<Rightarrow> nat \<times> nat \<Rightarrow> sched_handle \<Rightarrow> 'w cyclic_net \<Rightarrow> (int \<times> sched_handle \<times> 'w cyclic_net) option" where
  "cyc_start_timer d cb arg h n = do {
     (r, h, s) \<leftarrow> pf_scheduler_add (c_now n) d cb arg h (c_sched n);
     Some (r, h, n\<lparr>c_sched := s\<rparr>)
   }"

section \<open>The sub-slot of a relation\<close>

text \<open>
  The search for the IOCR and the descriptor of a sub-slot, the same in both machines but for
  the types of relations they look at. The AR is the owner of the sub-slot.
\<close>

definition owning_ar :: "u32 \<Rightarrow> u16 \<Rightarrow> u16 \<Rightarrow> 'w cyclic_net \<Rightarrow> nat option" where
  "owning_ar api slot subslot n = (case c_subslot n api slot subslot of
       Some (st, owner) \<Rightarrow> if st = PF_OWNSM_STATE_IOC \<or> st = PF_OWNSM_STATE_IOS then owner else None
     | None \<Rightarrow> None)"

definition desc_fits :: "u32 \<Rightarrow> u16 \<Rightarrow> u16 \<Rightarrow> pf_iodata_object \<Rightarrow> bool" where
  "desc_fits api slot subslot d \<longleftrightarrow>
     io_in_use d \<and> io_api_id d = api \<and> io_slot_nbr d = slot \<and> io_subslot_nbr d = subslot"

fun find_iodata :: "(pf_iodata_object \<Rightarrow> bool) \<Rightarrow> (nat \<Rightarrow> pf_iocr) \<Rightarrow> (u16 \<Rightarrow> bool) \<Rightarrow> nat list \<Rightarrow> (nat \<times> nat) option" where
  "find_iodata P io T [] = None"
| "find_iodata P io T (c # cs) =
     (let ds = take (unat (nbr_data_desc (io c))) (data_desc (io c)); k = first_index P ds in
      if T (iocr_type (iocr_param (io c))) \<and> k < length ds then Some (c, k)
      else find_iodata P io T cs)"

definition get_ar_iocr_desc :: "(u16 \<Rightarrow> bool) \<Rightarrow> u32 \<Rightarrow> u16 \<Rightarrow> u16 \<Rightarrow> 'w cyclic_net \<Rightarrow> (nat \<times> nat \<times> nat) option" where
  "get_ar_iocr_desc T api slot subslot n = do {
     a \<leftarrow> owning_ar api slot subslot n;
     (c, k) \<leftarrow> find_iodata (desc_fits api slot subslot) (iocrs (c_ar n a)) T [0..<unat (nbr_iocrs (c_ar n a))];
     Some (a, c, k)
   }"

end
