(* ===== verification/Cpm.thy ===== *)
theory Cpm
  imports Cyclic_State
begin

unbundle bit_operations_syntax

text \<open>
  The consumer protocol machine (src/common/pf_cpm.c) with its default driver
  (src/common/pf_cpm_driver_sw.c), in the order of the files. \<open>a\<close> is the AR and \<open>c\<close> the index
  of the IOCR. A mutex that has not been created cannot be locked.
\<close>

section \<open>Constants\<close>

definition PNET_ERROR_CODE_1_CPM :: u8 where "PNET_ERROR_CODE_1_CPM = 0x48"
definition PNET_ERROR_CODE_2_CPM_INVALID_STATE :: u8 where "PNET_ERROR_CODE_2_CPM_INVALID_STATE = 0x00"
definition PNET_ERROR_CODE_2_CPM_INVALID :: u8 where "PNET_ERROR_CODE_2_CPM_INVALID = 0x01"
definition PNET_ERROR_CODE_1_RTA_ERR_CLS :: u8 where "PNET_ERROR_CODE_1_RTA_ERR_CLS = 0xFD"
definition PNET_ERROR_CODE_2_ABORT_AR_CONSUMER_DHT_EXPIRED :: u8 where
  "PNET_ERROR_CODE_2_ABORT_AR_CONSUMER_DHT_EXPIRED = 0x05"
definition cpm_timer_name :: str_ptr where "cpm_timer_name = 3"

section \<open>Machine\<close>

definition pf_cpm_init :: "'w cyclic_net \<Rightarrow> 'w cyclic_net" where
  "pf_cpm_init n = n\<lparr>cpm_instance_cnt := 0\<rparr>"

definition pf_cpm_set_state :: "nat \<Rightarrow> nat \<Rightarrow> pf_cpm_state \<Rightarrow> 'w cyclic_net \<Rightarrow> 'w cyclic_net" where
  "pf_cpm_set_state a c st = upd_cpm a c (\<lambda>x. x\<lparr>cpm_state := st\<rparr>)"

text \<open>The other receiver of this indication, CMDMC, does nothing.\<close>

definition pf_cpm_state_ind :: "'w cyclic_env \<Rightarrow> nat \<Rightarrow> nat \<Rightarrow> bool \<Rightarrow> 'w ccmd" where
  "pf_cpm_state_ind env a c start = ce_cpm_state_ind env a c start"

definition pf_cpm_driver_sw_create :: "nat \<Rightarrow> nat \<Rightarrow> ('w, int) cfn" where
  "pf_cpm_driver_sw_create a c n = Some (0, n)"

definition pf_cpm_create :: "nat \<Rightarrow> nat \<Rightarrow> ('w, int) cfn" where
  "pf_cpm_create a c n = do {
     let cnt = cpm_instance_cnt n;
     let n = n\<lparr>cpm_instance_cnt := cnt + 1\<rparr>;
     let n = (if cnt = 0 then n\<lparr>cpm_buf_lock := True\<rparr> else n);
     pf_cpm_driver_sw_create a c (pf_cpm_set_state a c PF_CPM_STATE_W_START n)
   }"

definition remove_frame_id :: "u16 \<Rightarrow> 'w cyclic_net \<Rightarrow> 'w cyclic_net" where
  "remove_frame_id fid n = n\<lparr>c_id_map := pf_eth_frame_id_map_remove fid (c_id_map n)\<rparr>"

text \<open>The pointers to the buffers stay as they are after the buffers are freed.\<close>

definition pf_cpm_driver_sw_close_req :: "nat \<Rightarrow> nat \<Rightarrow> ('w, int) cfn" where
  "pf_cpm_driver_sw_close_req a c n = do {
     let n = upd_cpm a c (\<lambda>x. x\<lparr>cpm_ci_running := False\<rparr>) n;
     (h, s) \<leftarrow> pf_scheduler_remove_if_running (cpm_ci_timeout (get_cpm a c n)) (c_sched n);
     let n = upd_cpm a c (\<lambda>x. x\<lparr>cpm_ci_timeout := h\<rparr>) (n\<lparr>c_sched := s\<rparr>);
     let n = remove_frame_id (fst (cpm_frame_id (get_cpm a c n))) n;
     let n = (if nbr_frame_id (get_cpm a c n) = 2 then remove_frame_id (snd (cpm_frame_id (get_cpm a c n))) n else n);
     n \<leftarrow> cyc_buf_free (p_buffer_cpm (get_cpm a c n)) n;
     n \<leftarrow> cyc_buf_free (p_buffer_app (get_cpm a c n)) n;
     Some (0, n)
   }"

definition pf_cpm_close_req :: "nat \<Rightarrow> nat \<Rightarrow> ('w, int) cfn" where
  "pf_cpm_close_req a c n = do {
     (ret, n) \<leftarrow> pf_cpm_driver_sw_close_req a c (pf_cpm_set_state a c PF_CPM_STATE_W_START n);
     (if ret = 0 then
        (let cnt = cpm_instance_cnt n; n = n\<lparr>cpm_instance_cnt := cnt - 1\<rparr>
         in Some (ret, if cnt = 1 then n\<lparr>cpm_buf_lock := False\<rparr> else n))
      else Some (ret, n))
   }"

definition pf_cpm_check_cycle :: "int \<Rightarrow> u16 \<Rightarrow> int" where
  "pf_cpm_check_cycle prev now =
     (let diff = now - of_int prev :: u16 in if diff \<ge> 1 \<and> diff \<le> 61440 then 0 else -1)"

definition pf_cpm_check_src_addr :: "pf_cpm \<Rightarrow> u8 list \<Rightarrow> int option" where
  "pf_cpm_check_src_addr x xs = do {
     src \<leftarrow> peek 6 6 xs;
     Some (if src = cpm_sa x then 0 else -1)
   }"

section \<open>Driver\<close>

text \<open>The callback of the control interval.\<close>

definition pf_cpm_control_interval_expired :: "'w cyclic_env \<Rightarrow> nat \<times> nat \<Rightarrow> 'w ccmd" where
  "pf_cpm_control_interval_expired env arg n = (case arg of (a, c) \<Rightarrow> do {
     let n = upd_cpm a c (\<lambda>x. x\<lparr>cpm_ci_timeout := pf_scheduler_reset_handle (cpm_ci_timeout x)\<rparr>) n;
     (if cpm_ci_running (get_cpm a c n) then do {
        n \<leftarrow> (if cpm_state (get_cpm a c n) = PF_CPM_STATE_RUN then
                (if dht (get_cpm a c n) \<ge> cpm_data_hold_factor (get_cpm a c n) then do {
                   let n = set_car_err a PNET_ERROR_CODE_1_RTA_ERR_CLS PNET_ERROR_CODE_2_ABORT_AR_CONSUMER_DHT_EXPIRED n;
                   n \<leftarrow> pf_cpm_state_ind env a c False (upd_cpm a c (\<lambda>x. x\<lparr>dht := 0, cpm_ci_running := False\<rparr>) n);
                   Some (pf_cpm_set_state a c PF_CPM_STATE_W_START n)
                 } else Some (upd_cpm a c (\<lambda>x. x\<lparr>dht := dht x + 1\<rparr>) n))
              else Some n);
        (if cpm_ci_running (get_cpm a c n) then do {
           (r, h, n) \<leftarrow> cyc_start_timer (cpm_control_interval (get_cpm a c n)) Pf_cpm_control_interval_expired (a, c)
                          (cpm_ci_timeout (get_cpm a c n)) n;
           let n = upd_cpm a c (\<lambda>x. x\<lparr>cpm_ci_timeout := h\<rparr>) n;
           (if r \<noteq> 0 then ce_error_ind env a PNET_ERROR_CODE_1_CPM PNET_ERROR_CODE_2_CPM_INVALID
              (set_car_err a PNET_ERROR_CODE_1_CPM PNET_ERROR_CODE_2_CPM_INVALID n)
            else Some n)
         } else Some n)
      } else Some n)
   })"

text \<open>The new buffer goes in, the previous one comes out.\<close>

definition pf_cpm_put_buf :: "nat \<Rightarrow> nat \<Rightarrow> nat option \<Rightarrow> ('w, nat option) cfn" where
  "pf_cpm_put_buf a c p n =
     (if cpm_buf_lock n
      then Some (p_buffer_cpm (get_cpm a c n), upd_cpm a c (\<lambda>x. x\<lparr>p_buffer_cpm := p, cpm_new_buf := True\<rparr>) n)
      else None)"

definition swap_buf :: "pf_cpm \<Rightarrow> pf_cpm" where
  "swap_buf x = x\<lparr>p_buffer_app := p_buffer_cpm x, p_buffer_cpm := p_buffer_app x, cpm_new_buf := False\<rparr>"

text \<open>The result is the flag of new data and the bytes of the frame after its header.\<close>

definition pf_cpm_get_buf :: "nat \<Rightarrow> nat \<Rightarrow> ('w, bool \<times> u8 list option) cfn" where
  "pf_cpm_get_buf a c n =
     (if \<not> cpm_buf_lock n then None
      else do {
        let new_flag = cpm_new_buf (get_cpm a c n);
        let n = (if new_flag then upd_cpm a c swap_buf n else n);
        (case p_buffer_app (get_cpm a c n) of
           None \<Rightarrow> Some ((new_flag, None), n)
         | Some b \<Rightarrow> do {
             buf \<leftarrow> c_bufs n b;
             Some ((new_flag, Some (drop (unat (cpm_buffer_pos (get_cpm a c n))) (b_payload buf))), n)
           })
      })"

text \<open>The last four bytes of a frame: the cycle counter, the data status, the transfer status.\<close>

definition apdu_status :: "pnal_buf \<Rightarrow> (u16 \<times> u8 \<times> u8) option" where
  "apdu_status buf = do {
     let pos = unat (b_len buf - 4);
     xs \<leftarrow> peek pos 4 (b_payload buf);
     Some (be16 xs, xs ! 2, xs ! 3)
   }"

text \<open>
  The length of the frame without its VLAN tags is compared with the expected one, its
  sender with the controller.
\<close>

definition frame_structure :: "pf_cpm \<Rightarrow> pnal_buf \<Rightarrow> u16 \<Rightarrow> u8 \<Rightarrow> bool option" where
  "frame_structure x buf frame_id_pos transfer_status = do {
     src \<leftarrow> pf_cpm_check_src_addr x (b_payload buf);
     let len = b_len buf - frame_id_pos + (2 * 6 + 2);
     Some (transfer_status = 0 \<and> src = 0 \<and> len = cpm_buffer_length x)
   }"

text \<open>
  A frame with valid data, of the right form and with a cycle counter in the window. Data that
  is valid is also primary or backup data, so it is always taken (the case 20 of the standard).
\<close>

definition cpm_accept :: "'w cyclic_env \<Rightarrow> nat \<Rightarrow> nat \<Rightarrow> nat \<Rightarrow> u16 \<Rightarrow> u16 \<Rightarrow> u8 \<Rightarrow> ('w, nat option) cfn" where
  "cpm_accept env a c b frame_id_pos cycle status n = do {
     n \<leftarrow> (if cpm_state (get_cpm a c n) = PF_CPM_STATE_FRUN then pf_cpm_state_ind env a c True n else Some n);
     (p, n) \<leftarrow> pf_cpm_put_buf a c (Some b) n;
     n \<leftarrow> ce_new_data_ind env a c True
            (upd_cpm a c (\<lambda>x. x\<lparr>cpm_frame_id_pos := frame_id_pos, cpm_buffer_pos := frame_id_pos + 2\<rparr>) n);
     let changes = cpm_data_status (get_cpm a c n) XOR status;
     let n = upd_cpm a c (\<lambda>x. x\<lparr>dht := 0, cpm_cycle := uint cycle, cpm_data_status := status\<rparr>) n;
     n \<leftarrow> (if changes \<noteq> 0 then ce_data_status_changed env a c changes status n else Some n);
     Some (p, pf_cpm_set_state a c PF_CPM_STATE_RUN n)
   }"

definition pf_cpm_c_data_ind :: "'w cyclic_env \<Rightarrow> nat \<times> nat \<Rightarrow> nat \<Rightarrow> u16 \<Rightarrow> ('w, int) cfn" where
  "pf_cpm_c_data_ind env arg b frame_id_pos n = (case arg of (a, c) \<Rightarrow> do {
     let n = upd_cpm a c (\<lambda>x. x\<lparr>cpm_recv_cnt := cpm_recv_cnt x + 1\<rparr>) n;
     (p, n) \<leftarrow> (if cpm_state (get_cpm a c n) = PF_CPM_STATE_W_START then
          Some (Some b, upd_cpm a c (\<lambda>x. x\<lparr>cpm_errcnt := cpm_errcnt x + 1\<rparr>)
            (set_car_err a PNET_ERROR_CODE_1_CPM PNET_ERROR_CODE_2_CPM_INVALID_STATE n))
        else do {
          buf \<leftarrow> c_bufs n b;
          (cycle, data_status, transfer_status) \<leftarrow> apdu_status buf;
          structure_ok \<leftarrow> frame_structure (get_cpm a c n) buf frame_id_pos transfer_status;
          let c_sdu_structure = (pf_cpm_check_cycle (cpm_cycle (get_cpm a c n)) cycle = 0);
          let data_valid = (data_status AND 0x04 \<noteq> 0);
          (if data_valid \<and> structure_ok \<and> c_sdu_structure
           then cpm_accept env a c b frame_id_pos cycle data_status n
           else Some (Some b, n))
        });
     (case p of None \<Rightarrow> Some (1, n)
      | Some _ \<Rightarrow> do {
          n \<leftarrow> cyc_buf_free p (upd_cpm a c (\<lambda>x. x\<lparr>cpm_free_cnt := cpm_free_cnt x + 1\<rparr>) n);
          Some (1, n)
        })
   })"

definition add_frame_id :: "nat \<Rightarrow> nat \<Rightarrow> u16 \<Rightarrow> 'w cyclic_net \<Rightarrow> 'w cyclic_net" where
  "add_frame_id a c fid n = n\<lparr>c_id_map := pf_eth_frame_id_map_add fid Pf_cpm_c_data_ind (a, c) (c_id_map n)\<rparr>"

definition pf_cpm_driver_sw_activate_req :: "nat \<Rightarrow> nat \<Rightarrow> ('w, int) cfn" where
  "pf_cpm_driver_sw_activate_req a c n = do {
     let n = add_frame_id a c (fst (cpm_frame_id (get_cpm a c n))) n;
     let n = (if nbr_frame_id (get_cpm a c n) = 2 then
                (let fid = fst (cpm_frame_id (get_cpm a c n)) + 1
                 in add_frame_id a c fid (upd_cpm a c (\<lambda>x. x\<lparr>cpm_frame_id := (fst (cpm_frame_id x), fid)\<rparr>) n))
              else n);
     let n = upd_cpm a c (\<lambda>x. x\<lparr>cpm_ci_timeout := pf_scheduler_init_handle (cpm_ci_timeout x) cpm_timer_name\<rparr>) n;
     (ret, h, n) \<leftarrow> cyc_start_timer (cpm_control_interval (get_cpm a c n)) Pf_cpm_control_interval_expired (a, c)
                      (cpm_ci_timeout (get_cpm a c n)) n;
     let n = upd_cpm a c (\<lambda>x. x\<lparr>cpm_ci_timeout := h\<rparr>) n;
     Some (ret, if ret \<noteq> 0 then n else upd_cpm a c (\<lambda>x. x\<lparr>cpm_ci_running := True\<rparr>) n)
   }"

text \<open>The period between two frames in microseconds.\<close>

definition control_interval_of :: "pf_iocr_param \<Rightarrow> u32" where
  "control_interval_of p = ucast (send_clock_factor p) * ucast (reduction_ratio p) * 1000 div 32"

definition cpm_configure :: "nat \<Rightarrow> cyclic_ar \<Rightarrow> pf_iocr_param \<Rightarrow> pf_cpm \<Rightarrow> pf_cpm" where
  "cpm_configure ports ar p x = x\<lparr>cpm_data_hold_factor := data_hold_factor p, cpm_control_interval := control_interval_of p,
     rxa := map (\<lambda>i. if i < ports then (-1, -1) else rxa x ! i) [0..<length (rxa x)],
     cpm_cycle := -1, cpm_new_data := False, dht := 0, cpm_recv_cnt := 0, cpm_sa := cm_initiator_mac ar,
     cpm_buffer_pos := 2 * 6 + 2 + 2, cpm_data_status := 0,
     cpm_buffer_length := (2 * 6 + 2 + 2) + c_sdu_length p + 2 + 1 + 1,
     nbr_frame_id := 1, cpm_frame_id := (frame_id p, snd (cpm_frame_id x))\<rparr>"

definition pf_cpm_activate_req :: "'w cyclic_env \<Rightarrow> nat \<Rightarrow> nat \<Rightarrow> ('w, int) cfn" where
  "pf_cpm_activate_req env a c n =
     (case cpm_state (get_cpm a c n) of
        PF_CPM_STATE_W_START \<Rightarrow> do {
          let n = upd_cpm a c (cpm_configure (num_physical_ports n) (c_ar n a) (iocr_param (get_iocr a c n))) n;
          (ret, n) \<leftarrow> pf_cpm_driver_sw_activate_req a c n;
          (if ret = 0 then Some (ret, pf_cpm_set_state a c PF_CPM_STATE_FRUN n)
           else do {
             n \<leftarrow> ce_error_ind env a PNET_ERROR_CODE_1_CPM PNET_ERROR_CODE_2_CPM_INVALID
                    (set_car_err a PNET_ERROR_CODE_1_CPM PNET_ERROR_CODE_2_CPM_INVALID n);
             Some (ret, n)
           })
        }
      | _ \<Rightarrow> Some (-1, set_car_err a PNET_ERROR_CODE_1_CPM PNET_ERROR_CODE_2_CPM_INVALID_STATE n))"

section \<open>Access by the application\<close>

definition pf_cpm_get_ar_iocr_desc :: "u32 \<Rightarrow> u16 \<Rightarrow> u16 \<Rightarrow> 'w cyclic_net \<Rightarrow> (nat \<times> nat \<times> nat) option" where
  "pf_cpm_get_ar_iocr_desc = get_ar_iocr_desc (\<lambda>t. t = PF_IOCR_TYPE_OUTPUT \<or> t = PF_IOCR_TYPE_MC_CONSUMER)"

text \<open>
  The driver copies the data and the provider status out of the newest frame; the result is
  the new-data flag, the data and the status.
\<close>

definition pf_cpm_driver_sw_get_data_and_iops ::
    "nat \<Rightarrow> nat \<Rightarrow> pf_iodata_object \<Rightarrow> ('w, int \<times> bool \<times> u8 list \<times> u8 list) cfn" where
  "pf_cpm_driver_sw_get_data_and_iops a c d n = do {
     ((new_flag, buf), n) \<leftarrow> pf_cpm_get_buf a c n;
     (case buf of
        None \<Rightarrow> Some ((-1, False, [], []), n)
      | Some xs \<Rightarrow> do {
          data \<leftarrow> (if data_length d > 0 then peek (unat (data_offset d)) (unat (data_length d)) xs else Some []);
          iops \<leftarrow> (if iops_length d > 0 then peek (unat (iops_offset d)) (unat (iops_length d)) xs else Some []);
          Some ((0, new_flag, data, iops), n)
        })
   }"

definition pf_cpm_driver_sw_get_iocs :: "nat \<Rightarrow> nat \<Rightarrow> pf_iodata_object \<Rightarrow> ('w, int \<times> u8 list) cfn" where
  "pf_cpm_driver_sw_get_iocs a c d n = do {
     ((new_flag, buf), n) \<leftarrow> pf_cpm_get_buf a c n;
     (case buf of
        None \<Rightarrow> Some ((-1, []), n)
      | Some xs \<Rightarrow> do {
          iocs \<leftarrow> peek (unat (iocs_offset d)) (unat (iocs_length d)) xs;
          Some ((0, iocs), n)
        })
   }"

text \<open>
  What a call stores through its pointers: the result, and where it sets them the flag, the
  data and the status with their lengths. \<^const>\<open>None\<close> is an output that is left alone.
\<close>

record data_out =
  out_ret :: int
  out_new :: "bool option"
  out_data :: "u8 list"
  out_data_len :: u16
  out_iops :: "u8 list"
  out_iops_len :: u8

definition pf_cpm_get_data_and_iops :: "u32 \<Rightarrow> u16 \<Rightarrow> u16 \<Rightarrow> u16 \<Rightarrow> u8 \<Rightarrow> ('w, data_out) cfn" where
  "pf_cpm_get_data_and_iops api slot subslot data_len iops_len n =
     (case pf_cpm_get_ar_iocr_desc api slot subslot n of
        None \<Rightarrow> Some (\<lparr>out_ret = -1, out_new = None, out_data = [], out_data_len = data_len, out_iops = [],
          out_iops_len = iops_len\<rparr>, n)
      | Some (a, c, k) \<Rightarrow>
          (let d = data_desc (get_iocr a c n) ! k in
           if cpm_state (get_cpm a c n) = PF_CPM_STATE_W_START then
             Some (\<lparr>out_ret = -1, out_new = None, out_data = [], out_data_len = data_len, out_iops = [],
               out_iops_len = iops_len\<rparr>, set_car_err a PNET_ERROR_CODE_1_CPM PNET_ERROR_CODE_2_CPM_INVALID_STATE n)
           else if data_len < data_length d \<or> (ucast iops_len :: u16) < iops_length d then
             Some (\<lparr>out_ret = -1, out_new = Some False, out_data = [], out_data_len = 0, out_iops = [],
               out_iops_len = iops_len\<rparr>, n)
           else do {
             ((ret, new_flag, xs, ys), n) \<leftarrow> pf_cpm_driver_sw_get_data_and_iops a c d n;
             Some (\<lparr>out_ret = ret, out_new = Some new_flag, out_data = xs,
               out_data_len = (if ret \<noteq> 0 then 0 else data_length d), out_iops = ys,
               out_iops_len = (if ret \<noteq> 0 then 0 else ucast (iops_length d))\<rparr>, n)
           }))"

definition pf_cpm_get_iocs :: "u32 \<Rightarrow> u16 \<Rightarrow> u16 \<Rightarrow> u8 \<Rightarrow> ('w, int \<times> u8 list \<times> u8) cfn" where
  "pf_cpm_get_iocs api slot subslot iocs_len n =
     (case pf_cpm_get_ar_iocr_desc api slot subslot n of
        None \<Rightarrow> Some ((-1, [], iocs_len), n)
      | Some (a, c, k) \<Rightarrow>
          (let d = data_desc (get_iocr a c n) ! k in
           if cpm_state (get_cpm a c n) = PF_CPM_STATE_W_START then
             Some ((-1, [], iocs_len), set_car_err a PNET_ERROR_CODE_1_CPM PNET_ERROR_CODE_2_CPM_INVALID_STATE n)
           else if (ucast iocs_len :: u16) < iocs_length d \<or> iocs_length d = 0 then Some ((-1, [], iocs_len), n)
           else do {
             ((ret, xs), n) \<leftarrow> pf_cpm_driver_sw_get_iocs a c d n;
             Some ((ret, xs, ucast (iocs_length d)), n)
           }))"

definition pf_cpm_get_data_status :: "pf_cpm \<Rightarrow> int \<times> u8" where
  "pf_cpm_get_data_status x = (0, cpm_data_status x)"

definition pf_cpm_driver_sw_get_data_status :: "pf_cpm \<Rightarrow> int \<times> u8" where
  "pf_cpm_driver_sw_get_data_status x = (0, cpm_data_status x)"

end
