(* ===== verification/Ppm.thy ===== *)
theory Ppm
  imports Cyclic_State
begin

unbundle bit_operations_syntax

text \<open>
  The provider protocol machine (src/common/pf_ppm.c) with its default driver
  (src/common/pf_ppm_driver_sw.c), in the order of the files. A copy that does not fit into its
  buffer has no value.
\<close>

section \<open>Constants\<close>

definition PNET_ERROR_CODE_1_PPM :: u8 where "PNET_ERROR_CODE_1_PPM = 0x49"
definition PNET_ERROR_CODE_2_PPM_INVALID_STATE :: u8 where "PNET_ERROR_CODE_2_PPM_INVALID_STATE = 0x00"
definition PNET_ERROR_CODE_2_PPM_INVALID :: u8 where "PNET_ERROR_CODE_2_PPM_INVALID = 0x01"
definition PNET_DATA_STATUS_BIT_STATE :: nat where "PNET_DATA_STATUS_BIT_STATE = 0"
definition PNET_DATA_STATUS_BIT_REDUNDANCY :: nat where "PNET_DATA_STATUS_BIT_REDUNDANCY = 1"
definition PNET_DATA_STATUS_BIT_DATA_VALID :: nat where "PNET_DATA_STATUS_BIT_DATA_VALID = 2"
definition PNET_DATA_STATUS_BIT_PROVIDER_STATE :: nat where "PNET_DATA_STATUS_BIT_PROVIDER_STATE = 4"
definition PNET_DATA_STATUS_BIT_STATION_PROBLEM_INDICATOR :: nat where
  "PNET_DATA_STATUS_BIT_STATION_PROBLEM_INDICATOR = 5"
definition CYCLIC_FRAME_SIZE :: nat where "CYCLIC_FRAME_SIZE = 1500"
definition ppm_timer_name :: str_ptr where "ppm_timer_name = 4"

section \<open>Cycle counter\<close>

text \<open>The counter runs in units of 31.25 us. The products are 32 bits wide, a zero factor divides by zero.\<close>

definition pf_ppm_calculate_cyclecounter :: "u32 \<Rightarrow> u16 \<Rightarrow> u16 \<Rightarrow> u16 option" where
  "pf_ppm_calculate_cyclecounter timestamp scf rr =
     (let interval = ucast scf * ucast rr :: u32 in
      if interval = 0 then None
      else let raw = (32 * ucast timestamp :: 64 word) div 1000;
               transmissions = ucast (raw div ucast interval) :: u32
           in Some (ucast (transmissions * interval)))"

definition pf_ppm_calculate_next_cyclecounter :: "u16 \<Rightarrow> u16 \<Rightarrow> u16 \<Rightarrow> u16 option" where
  "pf_ppm_calculate_next_cyclecounter previous scf rr =
     (let interval = ucast scf * ucast rr :: u32 in
      if interval = 0 then None
      else let transmissions = ucast ((ucast previous :: u32) div interval) :: u16
           in Some (ucast ((ucast transmissions + 1) * interval)))"

section \<open>Machine\<close>

definition pf_ppm_init :: "'w cyclic_net \<Rightarrow> 'w cyclic_net" where
  "pf_ppm_init n = n\<lparr>ppm_instance_cnt := 0\<rparr>"

definition pf_ppm_state_ind :: "'w cyclic_env \<Rightarrow> nat \<Rightarrow> bool \<Rightarrow> 'w ccmd" where
  "pf_ppm_state_ind env a err n =
     (if err then ce_error_ind env a PNET_ERROR_CODE_1_PPM PNET_ERROR_CODE_2_PPM_INVALID
        (set_car_err a PNET_ERROR_CODE_1_PPM PNET_ERROR_CODE_2_PPM_INVALID n)
      else Some n)"

definition pf_ppm_set_state :: "nat \<Rightarrow> nat \<Rightarrow> pf_ppm_state \<Rightarrow> 'w cyclic_net \<Rightarrow> 'w cyclic_net" where
  "pf_ppm_set_state a c st = upd_ppm a c (\<lambda>x. x\<lparr>ppm_state := st\<rparr>)"

text \<open>The header of a frame: the addresses, a VLAN tag, the Ethertype and the frame identifier.\<close>

definition ppm_header :: "pf_ppm \<Rightarrow> u16 \<Rightarrow> pf_iocr_tag_header \<Rightarrow> u8 list" where
  "ppm_header x fid h = ppm_da x @ ppm_sa x @ bytes16 0x8100 @
     bytes16 ((vlan_id h AND 0x0FFF) OR push_bit 13 (iocr_user_priority h AND 0x0007)) @ bytes16 0x8892 @ bytes16 fid"

definition pf_ppm_init_buf :: "pf_ppm \<Rightarrow> pnal_buf \<Rightarrow> u16 \<Rightarrow> pf_iocr_tag_header \<Rightarrow> pnal_buf option" where
  "pf_ppm_init_buf x buf fid h = do {
     let len = ppm_buffer_length x;
     xs \<leftarrow> poke 0 (replicate (unat len) 0) (b_payload buf);
     xs \<leftarrow> poke 0 (ppm_header x fid h) xs;
     Some (buf\<lparr>b_len := len, b_payload := xs\<rparr>)
   }"

definition set_buf :: "nat \<Rightarrow> pnal_buf \<Rightarrow> 'w cyclic_net \<Rightarrow> 'w cyclic_net" where
  "set_buf b buf n = n\<lparr>c_bufs := (c_bufs n)(b \<mapsto> buf)\<rparr>"

text \<open>The data, the cycle counter, the data status and the transfer status go into the frame.\<close>

definition ppm_fill :: "pf_ppm \<Rightarrow> u16 \<Rightarrow> u8 list \<Rightarrow> u8 list option" where
  "ppm_fill x len xs = do {
     data \<leftarrow> peek 0 (unat len) (buffer_data x);
     xs \<leftarrow> poke (unat (ppm_buffer_pos x)) data xs;
     xs \<leftarrow> poke (unat (cycle_counter_offset x)) (bytes16 (ppm_cycle x)) xs;
     xs \<leftarrow> poke (unat (data_status_offset x)) [ppm_data_status x] xs;
     poke (unat (transfer_status_offset x)) [ppm_transfer_status x] xs
   }"

definition pf_ppm_finish_buffer :: "nat \<Rightarrow> nat \<Rightarrow> u16 \<Rightarrow> 'w ccmd" where
  "pf_ppm_finish_buffer a c len n = do {
     b \<leftarrow> p_send_buffer (get_ppm a c n);
     buf \<leftarrow> c_bufs n b;
     cycle \<leftarrow> pf_ppm_calculate_next_cyclecounter (ppm_cycle (get_ppm a c n)) (ppm_send_clock_factor (get_ppm a c n))
                 (ppm_reduction_ratio (get_ppm a c n));
     let n = upd_ppm a c (\<lambda>x. x\<lparr>ppm_cycle := cycle\<rparr>) n;
     (if ppm_buf_lock n then do {
        xs \<leftarrow> ppm_fill (get_ppm a c n) len (b_payload buf);
        Some (set_buf b (buf\<lparr>b_payload := xs\<rparr>) n)
      } else None)
   }"

definition ppm_control_interval_of :: "pf_iocr_param \<Rightarrow> u32" where
  "ppm_control_interval_of p = ucast (send_clock_factor p) * ucast (reduction_ratio p) * 1000 div 32"

definition pf_ppm_init_cr_config :: "cyclic_ar \<Rightarrow> pf_iocr_param \<Rightarrow> pf_ppm \<Rightarrow> pf_ppm" where
  "pf_ppm_init_cr_config ar p x =
     (let pos = 2 * 6 + 4 + 2 + 2; sdu = c_sdu_length p in
      x\<lparr>first_transmit := False, ppm_sa := cm_responder_mac ar, ppm_da := cm_initiator_mac ar,
        ppm_buffer_pos := pos, ppm_cycle := 0, ppm_transfer_status := 0, cycle_counter_offset := pos + sdu,
        data_status_offset := pos + sdu + 2, transfer_status_offset := pos + sdu + 2 + 1,
        ppm_buffer_length := pos + sdu + 2 + 1 + 1,
        ppm_data_status := push_bit PNET_DATA_STATUS_BIT_STATE 1 OR push_bit PNET_DATA_STATUS_BIT_DATA_VALID 1 OR
          push_bit PNET_DATA_STATUS_BIT_STATION_PROBLEM_INDICATOR 1,
        ppm_control_interval := ppm_control_interval_of p, ppm_send_clock_factor := send_clock_factor p,
        ppm_reduction_ratio := reduction_ratio p\<rparr>)"

definition pf_ppm_drv_sw_create :: "nat \<Rightarrow> nat \<Rightarrow> ('w, int) cfn" where
  "pf_ppm_drv_sw_create a c n = Some (0, n)"

definition pf_ppm_create :: "'w cyclic_env \<Rightarrow> nat \<Rightarrow> nat \<Rightarrow> ('w, int) cfn" where
  "pf_ppm_create env a c n =
     (let cnt = ppm_instance_cnt n;
          n = n\<lparr>ppm_instance_cnt := cnt + 1\<rparr>;
          n = (if cnt = 0 then n\<lparr>ppm_buf_lock := True\<rparr> else n)
      in if ppm_state (get_ppm a c n) \<noteq> PF_PPM_STATE_W_START then
           Some (-1, set_car_err a PNET_ERROR_CODE_1_PPM PNET_ERROR_CODE_2_PPM_INVALID_STATE n)
         else
           (let p = iocr_param (get_iocr a c n);
                n = upd_ppm a c (pf_ppm_init_cr_config (c_ar n a) p) n
            in case cyc_buf_alloc env CYCLIC_FRAME_SIZE n of
                 (None, n) \<Rightarrow> Some (-1, set_car_err a PNET_ERROR_CODE_1_PPM PNET_ERROR_CODE_2_PPM_INVALID_STATE
                   (upd_ppm a c (\<lambda>x. x\<lparr>p_send_buffer := None\<rparr>) n))
               | (Some b, n) \<Rightarrow> do {
                   let n = upd_ppm a c (\<lambda>x. x\<lparr>p_send_buffer := Some b\<rparr>) n;
                   buf \<leftarrow> c_bufs n b;
                   buf \<leftarrow> pf_ppm_init_buf (get_ppm a c n) buf (frame_id p) (iocr_tag_header p);
                   pf_ppm_drv_sw_create a c (set_buf b buf n)
                 }))"

definition pf_ppm_drv_sw_activate_req :: "nat \<Rightarrow> nat \<Rightarrow> ('w, int) cfn" where
  "pf_ppm_drv_sw_activate_req a c n = do {
     let n = upd_ppm a c (\<lambda>x. x\<lparr>ppm_ci_timeout := pf_scheduler_init_handle (ppm_ci_timeout x) ppm_timer_name\<rparr>) n;
     (ret, h, n) \<leftarrow> cyc_start_timer (ppm_control_interval (get_ppm a c n)) Pf_ppm_drv_sw_send (a, c)
                      (ppm_ci_timeout (get_ppm a c n)) n;
     Some (ret, upd_ppm a c (\<lambda>x. x\<lparr>ppm_ci_timeout := h\<rparr>) n)
   }"

definition pf_ppm_activate_req :: "'w cyclic_env \<Rightarrow> nat \<Rightarrow> nat \<Rightarrow> ('w, int) cfn" where
  "pf_ppm_activate_req env a c n =
     (if ppm_state (get_ppm a c n) = PF_PPM_STATE_RUN then
        Some (-1, set_car_err a PNET_ERROR_CODE_1_PPM PNET_ERROR_CODE_2_PPM_INVALID_STATE n)
      else do {
        let n = upd_ppm a c (\<lambda>x. x\<lparr>next_exec := c_now n + ppm_control_interval x\<rparr>) n;
        let n = upd_ppm a c (\<lambda>x. x\<lparr>ppm_ci_running := True\<rparr>) (pf_ppm_set_state a c PF_PPM_STATE_RUN n);
        n \<leftarrow> pf_ppm_finish_buffer a c (in_length (get_iocr a c n)) n;
        (ret, n) \<leftarrow> pf_ppm_drv_sw_activate_req a c n;
        n \<leftarrow> (if ret \<noteq> 0 then pf_ppm_state_ind env a True n else Some n);
        Some (ret, n)
      })"

definition pf_ppm_drv_sw_close_req :: "nat \<Rightarrow> nat \<Rightarrow> ('w, int) cfn" where
  "pf_ppm_drv_sw_close_req a c n = do {
     (h, s) \<leftarrow> pf_scheduler_remove_if_running (ppm_ci_timeout (get_ppm a c n)) (c_sched n);
     Some (0, upd_ppm a c (\<lambda>x. x\<lparr>ppm_ci_timeout := h\<rparr>) (n\<lparr>c_sched := s\<rparr>))
   }"

definition pf_ppm_close_req :: "nat \<Rightarrow> nat \<Rightarrow> ('w, int) cfn" where
  "pf_ppm_close_req a c n = do {
     (_, n) \<leftarrow> pf_ppm_drv_sw_close_req a c (upd_ppm a c (\<lambda>x. x\<lparr>ppm_ci_running := False\<rparr>) n);
     n \<leftarrow> cyc_buf_free (p_send_buffer (get_ppm a c n)) n;
     let n = upd_ppm a c (\<lambda>x. x\<lparr>ppm_state := PF_PPM_STATE_W_START, ppm_data_status := 0\<rparr>) n;
     let cnt = ppm_instance_cnt n;
     let n = n\<lparr>ppm_instance_cnt := cnt - 1\<rparr>;
     Some (0, if cnt = 1 then n\<lparr>ppm_buf_lock := False\<rparr> else n)
   }"

section \<open>Driver\<close>

definition cyc_eth_send :: "'w cyclic_env \<Rightarrow> nat \<Rightarrow> ('w, int) cfn" where
  "cyc_eth_send env b n = do {
     buf \<leftarrow> c_bufs n b;
     let (r, w) = ce_eth_send env (take (unat (b_len buf)) (b_payload buf)) (c_world n);
     Some (r, n\<lparr>c_world := w\<rparr>)
   }"

definition pf_ppm_drv_sw_send :: "'w cyclic_env \<Rightarrow> nat \<times> nat \<Rightarrow> u32 \<Rightarrow> 'w ccmd" where
  "pf_ppm_drv_sw_send env arg current_time n = (case arg of (a, c) \<Rightarrow> do {
     let n = upd_ppm a c (\<lambda>x. x\<lparr>ppm_ci_timeout := pf_scheduler_reset_handle (ppm_ci_timeout x)\<rparr>) n;
     (if ppm_ci_running (get_ppm a c n) then do {
        n \<leftarrow> pf_ppm_finish_buffer a c (in_length (get_iocr a c n)) n;
        b \<leftarrow> p_send_buffer (get_ppm a c n);
        (sent, n) \<leftarrow> cyc_eth_send env b n;
        (if sent > 0 then do {
           let n = upd_ppm a c (\<lambda>x. x\<lparr>next_exec := next_exec x + ppm_control_interval x\<rparr>) n;
           let delay = next_exec (get_ppm a c n) - current_time;
           (r, h, n) \<leftarrow> cyc_start_timer delay Pf_ppm_drv_sw_send (a, c) (ppm_ci_timeout (get_ppm a c n)) n;
           let n = upd_ppm a c (\<lambda>x. x\<lparr>ppm_ci_timeout := h\<rparr>) n;
           (if r = 0 then
              (let n = upd_ppm a c (\<lambda>x. x\<lparr>trx_cnt := trx_cnt x + 1\<rparr>) n in
               if \<not> first_transmit (get_ppm a c n) then
                 map_option (upd_ppm a c (\<lambda>x. x\<lparr>first_transmit := True\<rparr>)) (pf_ppm_state_ind env a False n)
               else Some n)
            else pf_ppm_state_ind env a True n)
         } else Some n)
      } else Some n)
   })"

definition pf_ppm_drv_sw_write_frame_buffer :: "nat \<Rightarrow> nat \<Rightarrow> u16 \<Rightarrow> u8 list \<Rightarrow> ('w, int) cfn" where
  "pf_ppm_drv_sw_write_frame_buffer a c offset data n = do {
     xs \<leftarrow> poke (unat offset) data (buffer_data (get_ppm a c n));
     Some (0, upd_ppm a c (\<lambda>x. x\<lparr>buffer_data := xs\<rparr>) n)
   }"

definition pf_ppm_drv_sw_read_frame_buffer :: "nat \<Rightarrow> nat \<Rightarrow> u16 \<Rightarrow> u16 \<Rightarrow> 'w cyclic_net \<Rightarrow> (int \<times> u8 list) option" where
  "pf_ppm_drv_sw_read_frame_buffer a c offset len n =
     map_option (Pair 0) (peek (unat offset) (unat len) (buffer_data (get_ppm a c n)))"

text \<open>The functions of the driver lock the buffer around their copies.\<close>

definition pf_ppm_drv_sw_write_data_and_iops ::
    "nat \<Rightarrow> nat \<Rightarrow> pf_iodata_object \<Rightarrow> u8 list option \<Rightarrow> u8 list \<Rightarrow> ('w, int) cfn" where
  "pf_ppm_drv_sw_write_data_and_iops a c d data iops n =
     (if \<not> ppm_buf_lock n then None
      else do {
        (ret, n) \<leftarrow> (case data of None \<Rightarrow> Some (0, n)
           | Some xs \<Rightarrow> pf_ppm_drv_sw_write_frame_buffer a c (data_offset d) xs n);
        (if ret = 0 then pf_ppm_drv_sw_write_frame_buffer a c (iops_offset d) iops n else Some (ret, n))
      })"

definition pf_ppm_drv_sw_read_data_and_iops ::
    "nat \<Rightarrow> nat \<Rightarrow> pf_iodata_object \<Rightarrow> u16 \<Rightarrow> u8 \<Rightarrow> 'w cyclic_net \<Rightarrow> (int \<times> u8 list \<times> u8 list) option" where
  "pf_ppm_drv_sw_read_data_and_iops a c d len iops_len n =
     (if \<not> ppm_buf_lock n then None
      else do {
        (_, xs) \<leftarrow> pf_ppm_drv_sw_read_frame_buffer a c (data_offset d) len n;
        (_, ys) \<leftarrow> pf_ppm_drv_sw_read_frame_buffer a c (iops_offset d) (ucast iops_len) n;
        Some (0, xs, ys)
      })"

definition pf_ppm_drv_sw_write_iocs :: "nat \<Rightarrow> nat \<Rightarrow> pf_iodata_object \<Rightarrow> u8 list \<Rightarrow> ('w, int) cfn" where
  "pf_ppm_drv_sw_write_iocs a c d src n =
     (if \<not> ppm_buf_lock n then None else pf_ppm_drv_sw_write_frame_buffer a c (iocs_offset d) src n)"

definition pf_ppm_drv_sw_read_iocs ::
    "nat \<Rightarrow> nat \<Rightarrow> pf_iodata_object \<Rightarrow> u8 \<Rightarrow> 'w cyclic_net \<Rightarrow> (int \<times> u8 list) option" where
  "pf_ppm_drv_sw_read_iocs a c d len n =
     (if \<not> ppm_buf_lock n then None else pf_ppm_drv_sw_read_frame_buffer a c (iocs_offset d) (ucast len) n)"

definition pf_ppm_drv_sw_write_data_status :: "nat \<Rightarrow> nat \<Rightarrow> u8 \<Rightarrow> ('w, int) cfn" where
  "pf_ppm_drv_sw_write_data_status a c status n = Some (0, n)"

section \<open>Access by the application\<close>

definition pf_ppm_get_ar_iocr_desc :: "u32 \<Rightarrow> u16 \<Rightarrow> u16 \<Rightarrow> 'w cyclic_net \<Rightarrow> (nat \<times> nat \<times> nat) option" where
  "pf_ppm_get_ar_iocr_desc = get_ar_iocr_desc (\<lambda>t. t = PF_IOCR_TYPE_INPUT \<or> t = PF_IOCR_TYPE_MC_PROVIDER)"

text \<open>
  The lengths are arguments of their own: \<open>data\<close> and \<open>iops\<close> are the bytes behind the pointers,
  at least as many as the lengths say.
\<close>

definition pf_ppm_set_data_and_iops ::
    "u32 \<Rightarrow> u16 \<Rightarrow> u16 \<Rightarrow> u8 list option \<Rightarrow> u16 \<Rightarrow> u8 list \<Rightarrow> u8 \<Rightarrow> ('w, int) cfn" where
  "pf_ppm_set_data_and_iops api slot subslot data data_len iops iops_len n =
     (case pf_ppm_get_ar_iocr_desc api slot subslot n of
        None \<Rightarrow> Some (-1, n)
      | Some (a, c, k) \<Rightarrow>
          (let d = data_desc (get_iocr a c n) ! k in
           if data_len = data_length d \<and> ucast iops_len = iops_length d then do {
             (ret, n) \<leftarrow> pf_ppm_drv_sw_write_data_and_iops a c d (map_option (take (unat data_len)) data)
                           (take (unat iops_len) iops) n;
             Some (ret, upd_iocr a c (\<lambda>i. i\<lparr>data_desc := (data_desc i)[k := (data_desc i ! k)\<lparr>data_avail := True\<rparr>]\<rparr>) n)
           }
           else Some (-1, n)))"

definition pf_ppm_set_iocs :: "u32 \<Rightarrow> u16 \<Rightarrow> u16 \<Rightarrow> u8 list \<Rightarrow> u8 \<Rightarrow> ('w, int) cfn" where
  "pf_ppm_set_iocs api slot subslot src iocs_len n =
     (case pf_ppm_get_ar_iocr_desc api slot subslot n of
        None \<Rightarrow> Some (-1, n)
      | Some (a, c, k) \<Rightarrow>
          (let d = data_desc (get_iocr a c n) ! k in
           if ucast iocs_len = iocs_length d then pf_ppm_drv_sw_write_iocs a c d (take (unat iocs_len) src) n
           else if iocs_length d = 0 then Some (0, n)
           else Some (-1, n)))"

definition pf_ppm_get_data_and_iops ::
    "u32 \<Rightarrow> u16 \<Rightarrow> u16 \<Rightarrow> u16 \<Rightarrow> u8 \<Rightarrow> ('w, int \<times> u8 list \<times> u16 \<times> u8 list \<times> u8) cfn" where
  "pf_ppm_get_data_and_iops api slot subslot data_len iops_len n =
     (case pf_ppm_get_ar_iocr_desc api slot subslot n of
        None \<Rightarrow> Some ((-1, [], data_len, [], iops_len), n)
      | Some (a, c, k) \<Rightarrow>
          (let d = data_desc (get_iocr a c n) ! k in
           case ppm_state (get_ppm a c n) of
             PF_PPM_STATE_W_START \<Rightarrow> Some ((-1, [], data_len, [], iops_len),
               set_car_err a PNET_ERROR_CODE_1_PPM PNET_ERROR_CODE_2_PPM_INVALID_STATE n)
           | PF_PPM_STATE_RUN \<Rightarrow>
               (if data_length d \<le> data_len \<and> iops_length d \<le> ucast iops_len then do {
                  (ret, xs, ys) \<leftarrow> pf_ppm_drv_sw_read_data_and_iops a c d (data_length d) (ucast (iops_length d)) n;
                  Some ((ret, xs, data_length d, ys, ucast (iops_length d)), n)
                }
                else Some ((-1, [], data_len, [], iops_len), n))))"

definition pf_ppm_get_iocs :: "u32 \<Rightarrow> u16 \<Rightarrow> u16 \<Rightarrow> u8 \<Rightarrow> ('w, int \<times> u8 list \<times> u8) cfn" where
  "pf_ppm_get_iocs api slot subslot iocs_len n =
     (case pf_ppm_get_ar_iocr_desc api slot subslot n of
        None \<Rightarrow> Some ((-1, [], iocs_len), n)
      | Some (a, c, k) \<Rightarrow>
          (let d = data_desc (get_iocr a c n) ! k in
           case ppm_state (get_ppm a c n) of
             PF_PPM_STATE_W_START \<Rightarrow> Some ((-1, [], iocs_len),
               set_car_err a PNET_ERROR_CODE_1_PPM PNET_ERROR_CODE_2_PPM_INVALID_STATE n)
           | PF_PPM_STATE_RUN \<Rightarrow>
               (if iocs_length d \<le> ucast iocs_len then do {
                  (ret, xs) \<leftarrow> pf_ppm_drv_sw_read_iocs a c d (ucast (iocs_length d)) n;
                  Some ((ret, xs, ucast (iocs_length d)), n)
                }
                else Some ((-1, [], iocs_len), n))))"

section \<open>Data status\<close>

definition with_bit :: "nat \<Rightarrow> bool \<Rightarrow> u8 \<Rightarrow> u8" where
  "with_bit k v s = (if v then s OR push_bit k 1 else s AND NOT (push_bit k 1))"

definition set_status_bit :: "nat \<Rightarrow> nat \<Rightarrow> nat \<Rightarrow> bool \<Rightarrow> ('w, int) cfn" where
  "set_status_bit k a c v n =
     (let n = upd_ppm a c (\<lambda>x. x\<lparr>ppm_data_status := with_bit k v (ppm_data_status x)\<rparr>) n
      in pf_ppm_drv_sw_write_data_status a c (ppm_data_status (get_ppm a c n)) n)"

definition pf_ppm_set_data_status_state :: "nat \<Rightarrow> nat \<Rightarrow> bool \<Rightarrow> ('w, int) cfn" where
  "pf_ppm_set_data_status_state a c primary = set_status_bit PNET_DATA_STATUS_BIT_STATE a c primary"

definition pf_ppm_set_data_status_redundancy :: "nat \<Rightarrow> nat \<Rightarrow> bool \<Rightarrow> ('w, int) cfn" where
  "pf_ppm_set_data_status_redundancy a c redundant = set_status_bit PNET_DATA_STATUS_BIT_REDUNDANCY a c redundant"

definition pf_ppm_set_data_status_provider :: "nat \<Rightarrow> nat \<Rightarrow> bool \<Rightarrow> ('w, int) cfn" where
  "pf_ppm_set_data_status_provider a c run = set_status_bit PNET_DATA_STATUS_BIT_PROVIDER_STATE a c run"

definition pf_ppm_get_data_status :: "pf_ppm \<Rightarrow> int \<times> u8" where
  "pf_ppm_get_data_status x = (0, ppm_data_status x)"

text \<open>The problem indicator is a bit that is clear when there is a problem.\<close>

fun problem_indicator_from :: "nat \<Rightarrow> bool \<Rightarrow> nat list \<Rightarrow> 'w ccmd" where
  "problem_indicator_from a v [] n = Some n"
| "problem_indicator_from a v (c # cs) n = do {
     n \<leftarrow> (if iocr_type (iocr_param (get_iocr a c n)) = PF_IOCR_TYPE_INPUT \<or>
              iocr_type (iocr_param (get_iocr a c n)) = PF_IOCR_TYPE_MC_PROVIDER
           then map_option snd (set_status_bit PNET_DATA_STATUS_BIT_STATION_PROBLEM_INDICATOR a c (\<not> v) n)
           else Some n);
     problem_indicator_from a v cs n
   }"

definition pf_ppm_set_problem_indicator :: "nat \<Rightarrow> bool \<Rightarrow> 'w ccmd" where
  "pf_ppm_set_problem_indicator a problem_indicator = problem_indicator_from a problem_indicator [0..<PNET_MAX_CR]"

end
