(* ===== verification/Cmsu.thy ===== *)
theory Cmsu
  imports Cpm Ppm
begin

unbundle bit_operations_syntax

text \<open>
  The startup and abort of an AR (src/device/pf_cmsu.c): it creates and activates the cyclic
  machines and the alarm channel, and closes them again. The alarm channel and the
  supervision of the startup (CMSM) are functions of an environment.
\<close>

datatype pnet_event = PNET_EVENT_ABORT | PNET_EVENT_STARTUP | PNET_EVENT_PRMEND | PNET_EVENT_APPLRDY | PNET_EVENT_DATA

record 'w cmsu_calls =
  call_alarm_activate :: "nat \<Rightarrow> ('w, int) cfn"
  call_alarm_close :: "nat \<Rightarrow> 'w ccmd"
  call_alarm_free_endpoint :: "nat \<Rightarrow> 'w ccmd"
  call_cmsm_activate :: "nat \<Rightarrow> ('w, int) cfn"

definition PNET_ERROR_CODE_1_CMDEV :: u8 where "PNET_ERROR_CODE_1_CMDEV = 0x3D"
definition PNET_ERROR_CODE_2_CMDEV_STATE_CONFLICT :: u8 where "PNET_ERROR_CODE_2_CMDEV_STATE_CONFLICT = 0x00"
definition PNET_ERROR_CODE_2_CMSM_SIGNALED_ERROR :: u8 where "PNET_ERROR_CODE_2_CMSM_SIGNALED_ERROR = 0x01"
definition PNET_ERROR_CODE_2_CMSU_AR_ADD_PROV_CONS_FAILED :: u8 where
  "PNET_ERROR_CODE_2_CMSU_AR_ADD_PROV_CONS_FAILED = 0x01"
definition PNET_ERROR_CODE_2_CMSU_AR_ALARM_OPEN_FAILED :: u8 where "PNET_ERROR_CODE_2_CMSU_AR_ALARM_OPEN_FAILED = 0x02"

definition pf_cmsu_set_state :: "nat \<Rightarrow> pf_cmsu_state \<Rightarrow> 'w cyclic_net \<Rightarrow> 'w cyclic_net" where
  "pf_cmsu_set_state a st = upd_car a (\<lambda>r. r\<lparr>cmsu_state := st\<rparr>)"

definition pf_cmsu_init :: "nat \<Rightarrow> 'w cyclic_net \<Rightarrow> 'w cyclic_net" where
  "pf_cmsu_init a = pf_cmsu_set_state a PF_CMSU_STATE_IDLE"

abbreviation type_of_cr :: "nat \<Rightarrow> nat \<Rightarrow> 'w cyclic_net \<Rightarrow> u16" where
  "type_of_cr a c n \<equiv> iocr_type (iocr_param (get_iocr a c n))"

text \<open>A failing activation is only logged: it has reported itself.\<close>

fun activate_providers :: "'w cyclic_env \<Rightarrow> nat \<Rightarrow> nat list \<Rightarrow> 'w ccmd" where
  "activate_providers env a [] n = Some n"
| "activate_providers env a (c # cs) n = do {
     n \<leftarrow> (if type_of_cr a c n = PF_IOCR_TYPE_INPUT then map_option snd (pf_ppm_activate_req env a c n) else Some n);
     activate_providers env a cs n
   }"

fun close_iocrs :: "nat \<Rightarrow> nat list \<Rightarrow> 'w ccmd" where
  "close_iocrs a [] n = Some n"
| "close_iocrs a (c # cs) n = do {
     n \<leftarrow> (if type_of_cr a c n = PF_IOCR_TYPE_INPUT then map_option snd (pf_ppm_close_req a c n) else Some n);
     n \<leftarrow> (if type_of_cr a c n = PF_IOCR_TYPE_OUTPUT then map_option snd (pf_cpm_close_req a c n) else Some n);
     close_iocrs a cs n
   }"

definition cmsu_abort :: "'w cmsu_calls \<Rightarrow> nat \<Rightarrow> 'w ccmd" where
  "cmsu_abort cc a n = do {
     n \<leftarrow> close_iocrs a [0..<unat (nbr_iocrs (c_ar n a))] n;
     n \<leftarrow> call_alarm_close cc a n;
     n \<leftarrow> call_alarm_free_endpoint cc a n;
     Some (pf_cmsu_set_state a PF_CMSU_STATE_IDLE (pf_cmsu_set_state a PF_CMSU_STATE_ABORT n))
   }"

definition pf_cmsu_cmdev_state_ind ::
    "'w cyclic_env \<Rightarrow> 'w cmsu_calls \<Rightarrow> nat \<Rightarrow> pnet_event \<Rightarrow> ('w, int) cfn" where
  "pf_cmsu_cmdev_state_ind env cc a event n =
     (case cmsu_state (c_ar n a) of
        PF_CMSU_STATE_STARTUP \<Rightarrow> do {
          n \<leftarrow> (if event = PNET_EVENT_PRMEND then activate_providers env a [0..<unat (nbr_iocrs (c_ar n a))] n else Some n);
          n \<leftarrow> (if event = PNET_EVENT_ABORT then cmsu_abort cc a n else Some n);
          Some (0, n)
        }
      | PF_CMSU_STATE_RUN \<Rightarrow> map_option (Pair 0) (if event = PNET_EVENT_ABORT then cmsu_abort cc a n else Some n)
      | _ \<Rightarrow> Some (0, n))"

text \<open>
  The loop of the start request goes on after an error without doing anything. The result is
  0, or -1 with the second error code, and unchanged error codes are \<^const>\<open>None\<close>.
\<close>

fun start_iocrs :: "'w cyclic_env \<Rightarrow> nat \<Rightarrow> nat list \<Rightarrow> ('w, int) cfn" where
  "start_iocrs env a [] n = Some (0, n)"
| "start_iocrs env a (c # cs) n = do {
     (ret, n) \<leftarrow> (if type_of_cr a c n = PF_IOCR_TYPE_OUTPUT then do {
                      (r, n) \<leftarrow> pf_cpm_create a c n;
                      (if r \<noteq> 0 then Some (-1, n)
                       else map_option (\<lambda>(r, n). (if r \<noteq> 0 then -1 else 0, n)) (pf_cpm_activate_req env a c n))
                    } else Some (0, n));
     (ret, n) \<leftarrow> (if ret = 0 \<and> type_of_cr a c n = PF_IOCR_TYPE_INPUT
                   then map_option (\<lambda>(r, n). (if r \<noteq> 0 then -1 else 0, n)) (pf_ppm_create env a c n)
                   else Some (ret, n));
     (if ret = 0 then start_iocrs env a cs n else Some (ret, n))
   }"

definition pf_cmsu_start_req ::
    "'w cyclic_env \<Rightarrow> 'w cmsu_calls \<Rightarrow> nat \<Rightarrow> ('w, int \<times> u8 option \<times> u8 option) cfn" where
  "pf_cmsu_start_req env cc a n =
     (case cmsu_state (c_ar n a) of
        PF_CMSU_STATE_IDLE \<Rightarrow> do {
          (ret, n) \<leftarrow> start_iocrs env a [0..<unat (nbr_iocrs (c_ar n a))] n;
          let code = (if ret = 0 then None else Some PNET_ERROR_CODE_2_CMSU_AR_ADD_PROV_CONS_FAILED);
          ((ret, code), n) \<leftarrow> (if ret = 0
             then map_option (\<lambda>(r, n). (if r \<noteq> 0 then (-1, Some PNET_ERROR_CODE_2_CMSU_AR_ALARM_OPEN_FAILED) else (0, code), n))
               (call_alarm_activate cc a n)
             else Some ((ret, code), n));
          ((ret, code), n) \<leftarrow> (if ret = 0
             then map_option (\<lambda>(r, n). (if r \<noteq> 0 then (-1, Some PNET_ERROR_CODE_2_CMSM_SIGNALED_ERROR) else (0, code), n))
               (call_cmsm_activate cc a n)
             else Some ((ret, code), n));
          Some ((ret, None, code), pf_cmsu_set_state a PF_CMSU_STATE_STARTUP n)
        }
      | PF_CMSU_STATE_ABORT \<Rightarrow> Some ((-1, None, None), n)
      | _ \<Rightarrow> Some ((-1, Some PNET_ERROR_CODE_1_CMDEV, Some PNET_ERROR_CODE_2_CMDEV_STATE_CONFLICT), n))"

text \<open>The errors of the machines abort the AR; CMDEV tells all of its components.\<close>

definition cmsu_error_ind :: "(nat \<Rightarrow> pnet_event \<Rightarrow> 'w ccmd) \<Rightarrow> nat \<Rightarrow> u8 \<Rightarrow> u8 \<Rightarrow> 'w ccmd" where
  "cmsu_error_ind cmdev_state_ind a cls code n = cmdev_state_ind a PNET_EVENT_ABORT (set_car_err a cls code n)"

definition pf_cmsu_cpm_error_ind :: "(nat \<Rightarrow> pnet_event \<Rightarrow> 'w ccmd) \<Rightarrow> nat \<Rightarrow> u8 \<Rightarrow> u8 \<Rightarrow> 'w ccmd" where
  "pf_cmsu_cpm_error_ind = cmsu_error_ind"

definition pf_cmsu_ppm_error_ind :: "(nat \<Rightarrow> pnet_event \<Rightarrow> 'w ccmd) \<Rightarrow> nat \<Rightarrow> u8 \<Rightarrow> u8 \<Rightarrow> 'w ccmd" where
  "pf_cmsu_ppm_error_ind = cmsu_error_ind"

definition pf_cmsu_alarm_error_ind :: "(nat \<Rightarrow> pnet_event \<Rightarrow> 'w ccmd) \<Rightarrow> nat \<Rightarrow> u8 \<Rightarrow> u8 \<Rightarrow> 'w ccmd" where
  "pf_cmsu_alarm_error_ind = cmsu_error_ind"

definition pf_cmsu_cmdmc_error_ind :: "(nat \<Rightarrow> pnet_event \<Rightarrow> 'w ccmd) \<Rightarrow> nat \<Rightarrow> u8 \<Rightarrow> u8 \<Rightarrow> 'w ccmd" where
  "pf_cmsu_cmdmc_error_ind = cmsu_error_ind"

end
