(* ===== verification/Cyclic_Lemmas.thy ===== *)
theory Cyclic_Lemmas
  imports Cmsu
begin

unbundle bit_operations_syntax

text \<open>
  What the operations of the cyclic machines leave alone, the arithmetic of their cycle
  counters, and the steps of the watchdog of a consumer.
\<close>

section \<open>Updates\<close>

lemma get_upd [simp]:
  "get_iocr b d (upd_iocr a c f n) = (if (b, d) = (a, c) then f (get_iocr a c n) else get_iocr b d n)"
  "get_cpm b d (upd_cpm a c g n) = (if (b, d) = (a, c) then g (get_cpm a c n) else get_cpm b d n)"
  "get_ppm b d (upd_cpm a c g n) = get_ppm b d n"
  "get_ppm b d (upd_ppm a c h n) = (if (b, d) = (a, c) then h (get_ppm a c n) else get_ppm b d n)"
  "get_cpm b d (upd_ppm a c h n) = get_cpm b d n"
  "get_iocr b d (set_car_err a x y n) = get_iocr b d n"
  by (simp_all add: upd_cpm_def upd_ppm_def upd_iocr_def upd_car_def set_car_err_def)

lemma upd_frame [simp]:
  "c_sched (upd_car a f n) = c_sched n" "c_sched (upd_iocr a c i n) = c_sched n" "c_sched (upd_cpm a c g n) = c_sched n" "c_sched (upd_ppm a c h n) = c_sched n"
  "c_now (upd_cpm a c g n) = c_now n" "c_now (upd_ppm a c h n) = c_now n" "c_now (upd_iocr a c i n) = c_now n"
  "c_bufs (upd_cpm a c g n) = c_bufs n" "c_bufs (upd_ppm a c h n) = c_bufs n" "c_bufs (upd_iocr a c i n) = c_bufs n" "c_bufs (set_car_err a x y n) = c_bufs n"
  "c_world (upd_cpm a c g n) = c_world n" "c_world (upd_ppm a c h n) = c_world n" "c_world (upd_iocr a c i n) = c_world n"
  "cpm_buf_lock (upd_cpm a c g n) = cpm_buf_lock n" "ppm_buf_lock (upd_ppm a c h n) = ppm_buf_lock n" "ppm_buf_lock (upd_iocr a c i n) = ppm_buf_lock n"
  "ppm_buf_lock (upd_cpm a c g n) = ppm_buf_lock n" "c_subslot (upd_cpm a c g n) = c_subslot n" "c_subslot (upd_ppm a c h n) = c_subslot n"
  "c_subslot (upd_iocr a c i n) = c_subslot n" "nbr_iocrs (c_ar (upd_cpm a c g n) b) = nbr_iocrs (c_ar n b)"
  "c_sched (set_car_err a x y n) = c_sched n"
  by (simp_all add: upd_cpm_def upd_ppm_def upd_iocr_def upd_car_def set_car_err_def)

section \<open>The window of cycle counters\<close>

lemma uint_diff_window:
  fixes now :: u16
  assumes "0 \<le> prev" "prev < 65536"
  shows "uint (now - of_int prev) = (uint now - prev) mod 65536"
  using assms by (simp add: uint_word_ariths mod_diff_right_eq uint_word_of_int)

lemma check_cycle_iff:
  "pf_cpm_check_cycle prev now = 0 \<longleftrightarrow> 1 \<le> uint (now - of_int prev) \<and> uint (now - of_int prev) \<le> 61440"
  by (auto simp: pf_cpm_check_cycle_def Let_def word_le_def)

lemma check_cycle_known:
  assumes "0 \<le> prev" "prev < 65536"
  shows "pf_cpm_check_cycle prev now = 0 \<longleftrightarrow> (\<exists>k. 1 \<le> k \<and> k \<le> 61440 \<and> uint now = (prev + k) mod 65536)"
proof -
  let ?d = "(uint now - prev) mod 65536"
  have now: "0 \<le> uint now" "uint now < 65536" using uint_ge_0 [of now] uint_lt2p [of now] by simp_all
  have "uint now = (prev + ?d) mod 65536" using now by (simp add: mod_add_right_eq)
  moreover have "?d = k" if "1 \<le> k" "k \<le> 61440" "uint now = (prev + k) mod 65536" for k
    using that by (simp add: mod_diff_left_eq)
  ultimately show ?thesis unfolding check_cycle_iff uint_diff_window [OF assms] by metis
qed

lemma check_cycle_never: "pf_cpm_check_cycle (-1) now = 0 \<longleftrightarrow> uint now < 61440"
proof -
  have "now - of_int (-1) = now + 1" by simp
  moreover have "uint (now + 1) = (uint now + 1) mod 65536" by (simp add: uint_word_ariths)
  moreover have "0 \<le> uint now" "uint now < 65536" using uint_ge_0 [of now] uint_lt2p [of now] by simp_all
  ultimately show ?thesis unfolding check_cycle_iff
    by (cases "uint now = 65535") (auto simp: mod_pos_pos_trivial)
qed

section \<open>The counter of the provider\<close>

lemma uint_ucast32: "uint (ucast (w :: u16) :: u32) = uint w"
proof -
  have "0 \<le> uint w" "uint w < 65536" using uint_ge_0 [of w] uint_lt2p [of w] by simp_all
  then show ?thesis by (simp add: unsigned_ucast_eq take_bit_int_eq_self)
qed

lemma interval_uint:
  fixes scf rr :: u16
  shows "uint (ucast scf * ucast rr :: u32) = uint scf * uint rr"
proof -
  have b: "0 \<le> uint scf" "uint scf < 65536" "0 \<le> uint rr" "uint rr < 65536"
    using uint_ge_0 [of scf] uint_ge_0 [of rr] uint_lt2p [of scf] uint_lt2p [of rr] by simp_all
  then have "uint scf * uint rr \<le> 65535 * 65535" by (intro mult_mono) simp_all
  with b have "(uint scf * uint rr) mod 4294967296 = uint scf * uint rr"
    by (intro mod_pos_pos_trivial) simp_all
  then show ?thesis by (simp add: uint_word_ariths uint_ucast32)
qed

lemma next_cycle_uint:
  assumes "uint scf * uint rr = i" and "0 < i" and "i dvd 65536"
  shows "\<exists>next. pf_ppm_calculate_next_cyclecounter prev scf rr = Some next \<and>
    uint next = ((uint prev div i + 1) * i) mod 65536"
proof -
  let ?i = "ucast scf * ucast rr :: u32" and ?q = "uint prev div i"
  have i: "uint ?i = i" using interval_uint [of scf rr] assms(1) by simp
  then have nz: "?i \<noteq> 0" using assms(2) by auto
  have prev: "0 \<le> uint prev" "uint prev < 65536" using uint_ge_0 [of prev] uint_lt2p [of prev] by simp_all
  have qi: "?q * i \<le> uint prev"
    using assms(2) div_mult_mod_eq [of "uint prev" i] pos_mod_sign [of i "uint prev"] by linarith
  have q0: "0 \<le> ?q" using prev assms(2) by (simp add: pos_imp_zdiv_nonneg_iff)
  have "?q * 1 \<le> ?q * i" using q0 assms(2) by (intro mult_left_mono) simp_all
  with qi prev have q: "?q < 65536" by linarith
  let ?t = "ucast ((ucast prev :: u32) div ?i) :: u16"
  have d: "uint ((ucast prev :: u32) div ?i) = ?q" by (simp only: uint_div i uint_ucast32)
  have t: "uint ?t = ?q"
    unfolding unsigned_ucast_eq d using q q0 by (simp add: take_bit_int_eq_self)
  have le: "i \<le> 65536" using assms(3) by (simp add: zdvd_imp_le)
  have t1: "uint (ucast ?t + 1 :: u32) = ?q + 1"
    using q q0 by (simp only: uint_word_ariths uint_ucast32 t) simp
  have "(?q + 1) * i < 4294967296" "0 \<le> (?q + 1) * i"
    using qi prev le q0 assms(2) by (simp_all add: distrib_right)
  then have m: "((?q + 1) * i) mod 2 ^ 32 = (?q + 1) * i" by (intro mod_pos_pos_trivial) simp_all
  have "uint ((ucast ?t + 1) * ?i) = (uint (ucast ?t + 1 :: u32) * uint ?i) mod 2 ^ 32"
    by (simp only: uint_word_ariths(3)) simp
  then have "uint ((ucast ?t + 1) * ?i) = (?q + 1) * i" unfolding t1 i m .
  then have "uint (ucast ((ucast ?t + 1) * ?i) :: u16) = ((?q + 1) * i) mod 65536"
    by (simp add: unsigned_ucast_eq take_bit_eq_mod)
  then show ?thesis using nz by (simp add: pf_ppm_calculate_next_cyclecounter_def Let_def)
qed

lemma next_cycle_accepted:
  assumes i: "uint scf * uint rr = i" "0 < i" "i dvd 65536" and prev: "i dvd uint prev"
  shows "\<exists>nx. pf_ppm_calculate_next_cyclecounter prev scf rr = Some nx \<and> i dvd uint nx \<and>
    uint nx = (uint prev + i) mod 65536 \<and> (pf_cpm_check_cycle (uint prev) nx = 0 \<longleftrightarrow> i \<noteq> 65536)"
proof -
  from next_cycle_uint [OF i] obtain nx where
    n: "pf_ppm_calculate_next_cyclecounter prev scf rr = Some nx" "uint nx = ((uint prev div i + 1) * i) mod 65536"
    by blast
  have e: "(uint prev div i + 1) * i = uint prev + i" using prev by (auto simp: distrib_right)
  have p: "0 \<le> uint prev" "uint prev < 65536" using uint_ge_0 [of prev] uint_lt2p [of prev] by simp_all
  have le: "i \<le> 65536" using i(3) by (simp add: zdvd_imp_le)
  have "i dvd uint nx" unfolding n(2) e using i(3) prev by (simp add: dvd_mod)
  moreover have "pf_cpm_check_cycle (uint prev) nx = 0 \<longleftrightarrow> i \<noteq> 65536"
  proof -
    have d: "uint (nx - of_int (uint prev)) = i mod 65536"
      unfolding uint_diff_window [OF p] n(2) e by (simp add: mod_diff_left_eq)
    show ?thesis
    proof (cases "i = 65536")
      case True
      then show ?thesis unfolding check_cycle_iff d by simp
    next
      case False
      obtain k where k: "65536 = i * k" using i(3) by blast
      have "k \<ge> 2"
      proof (rule ccontr)
        assume "\<not> k \<ge> 2"
        then have "k \<le> 1" by simp
        then have "i * k \<le> i * 1" using i(2) by (intro mult_left_mono) simp_all
        with k le False show False by simp
      qed
      then have "i * 2 \<le> i * k" using i(2) by (intro mult_left_mono) simp_all
      with k have "i \<le> 32768" by simp
      with i(2) False show ?thesis unfolding check_cycle_iff d by (simp add: mod_pos_pos_trivial)
    qed
  qed
  ultimately show ?thesis using n e by auto
qed

section \<open>The watchdog of a consumer\<close>

lemma tick_take_room:
  assumes "timer_ok s" and "tick_due now s"
  shows "\<exists>f p s'. tick_take s = Some (f, p, s') \<and> timer_ok s' \<and> card (dom (pending_timers s')) < PF_MAX_TIMEOUTS"
proof -
  obtain busy free where rep: "sched_rep s busy free []" using assms(1) by (auto simp: timer_ok_def sched_ok_def)
  with assms(2) obtain x xs where b: "busy = x # xs" by (cases busy) (simp_all add: tick_due_rep)
  from tick_take_rep [OF rep [unfolded b]] obtain s' where
    s': "tick_take s = Some (to_cb (entry s x), to_arg (entry s x), s')" "sched_rep s' xs (x # free) []" "payload_frame {x} s s'"
    by blast
  then have "timer_ok s'" using assms(1) by (auto simp: timer_ok_def sched_ok_def payload_frame_def)
  moreover have "card (dom (pending_timers s')) < PF_MAX_TIMEOUTS" using pending_card [OF s'(2)] by simp
  ultimately show ?thesis using s'(1) by blast
qed

text \<open>
  No frame arrives for the consumer while its timer expires \<open>k\<close> times. Whatever else the stack
  does in between leaves the consumer and the timer service in order.
\<close>

inductive cpm_silence :: "'w cyclic_env \<Rightarrow> nat \<Rightarrow> nat \<Rightarrow> 'w cyclic_net \<Rightarrow> nat \<Rightarrow> 'w cyclic_net \<Rightarrow> bool" for env a c n where
  silence_start: "cpm_silence env a c n 0 n"
| silence_other: "cpm_silence env a c n k m \<Longrightarrow> get_cpm a c m' = get_cpm a c m \<Longrightarrow> timer_ok (c_sched m') \<Longrightarrow>
    cpm_silence env a c n k m'"
| silence_expiry: "cpm_silence env a c n k m \<Longrightarrow> tick_due now (c_sched m) \<Longrightarrow>
    tick_take (c_sched m) = Some (Some Pf_cpm_control_interval_expired, Some (a, c), s) \<Longrightarrow>
    pf_cpm_control_interval_expired env (a, c) (m\<lparr>c_sched := s\<rparr>) = Some m' \<Longrightarrow> cpm_silence env a c n (Suc k) m'"

definition consuming :: "nat \<Rightarrow> nat \<Rightarrow> u16 \<Rightarrow> nat \<Rightarrow> 'w cyclic_net \<Rightarrow> bool" where
  "consuming a c factor k n \<longleftrightarrow> cpm_state (get_cpm a c n) = PF_CPM_STATE_RUN \<and> cpm_ci_running (get_cpm a c n) \<and>
     cpm_data_hold_factor (get_cpm a c n) = factor \<and> unat (dht (get_cpm a c n)) = k \<and> timer_ok (c_sched n)"

lemma get_sched [simp]: "get_cpm a c (n\<lparr>c_sched := s\<rparr>) = get_cpm a c n" by simp

lemma interval_step:
  assumes "consuming a c factor k n" and "k < unat factor" and "card (dom (pending_timers (c_sched n))) < PF_MAX_TIMEOUTS"
  shows "\<exists>n'. pf_cpm_control_interval_expired env (a, c) n = Some n' \<and> consuming a c factor (Suc k) n'"
proof -
  let ?x = "get_cpm a c n"
  let ?n1 = "upd_cpm a c (\<lambda>x. x\<lparr>cpm_ci_timeout := pf_scheduler_reset_handle (cpm_ci_timeout x)\<rparr>) n"
  let ?n2 = "upd_cpm a c (\<lambda>x. x\<lparr>dht := dht x + 1\<rparr>) ?n1"
  have ok: "timer_ok (c_sched n)" using assms(1) by (simp add: consuming_def)
  have lt: "dht ?x < factor" using assms(1,2) by (simp add: consuming_def word_less_nat_alt)
  have "unat factor < 65536" by (rule order_less_le_trans [OF unsigned_less]) simp
  with assms(1,2) have un: "unat (dht ?x + 1) = Suc k" by (simp add: consuming_def unat_word_ariths)
  from timer.add_room [OF ok assms(3), of "c_now n" "cpm_control_interval ?x" Pf_cpm_control_interval_expired "(a, c)"
      "pf_scheduler_reset_handle (cpm_ci_timeout ?x)"] obtain h s where
    s: "pf_scheduler_add (c_now n) (cpm_control_interval ?x) Pf_cpm_control_interval_expired (a, c)
      (pf_scheduler_reset_handle (cpm_ci_timeout ?x)) (c_sched n) = Some (0, h, s)" "timer_ok s" by blast
  have "pf_cpm_control_interval_expired env (a, c) n =
      Some (upd_cpm a c (\<lambda>x. x\<lparr>cpm_ci_timeout := h\<rparr>) (?n2\<lparr>c_sched := s\<rparr>))"
    using assms(1) lt [folded not_le] s(1) by (simp add: pf_cpm_control_interval_expired_def consuming_def cyc_start_timer_def Let_def)
  moreover have "consuming a c factor (Suc k) (upd_cpm a c (\<lambda>x. x\<lparr>cpm_ci_timeout := h\<rparr>) (?n2\<lparr>c_sched := s\<rparr>))"
    using assms(1) un s(2) by (simp add: consuming_def)
  ultimately show ?thesis by blast
qed

lemma silence_consuming:
  "cpm_silence env a c n k m \<Longrightarrow> consuming a c factor 0 n \<Longrightarrow> k \<le> unat factor \<Longrightarrow> consuming a c factor k m"
proof (induction rule: cpm_silence.induct)
  case (silence_expiry k m now s m')
  then have m: "consuming a c factor k m" "k < unat factor" by simp_all
  then have "timer_ok (c_sched m)" by (simp add: consuming_def)
  from tick_take_room [OF this silence_expiry.hyps(2)] silence_expiry.hyps(3) have
    s: "timer_ok s" "card (dom (pending_timers s)) < PF_MAX_TIMEOUTS" by auto
  have "consuming a c factor k (m\<lparr>c_sched := s\<rparr>)" using m(1) s(1) by (simp add: consuming_def)
  from interval_step [OF this m(2), where env = env] s(2) silence_expiry.hyps(4) show ?case by auto
qed (auto simp: consuming_def)

definition watchdog_stop :: "nat \<Rightarrow> nat \<Rightarrow> 'w cyclic_net \<Rightarrow> 'w cyclic_net" where
  "watchdog_stop a c n = upd_cpm a c (\<lambda>x. x\<lparr>dht := 0, cpm_ci_running := False\<rparr>)
     (set_car_err a PNET_ERROR_CODE_1_RTA_ERR_CLS PNET_ERROR_CODE_2_ABORT_AR_CONSUMER_DHT_EXPIRED
       (upd_cpm a c (\<lambda>x. x\<lparr>cpm_ci_timeout := pf_scheduler_reset_handle (cpm_ci_timeout x)\<rparr>) n))"

lemma interval_abort:
  assumes "consuming a c factor (unat factor) n" and "ce_cpm_state_ind env a c False (watchdog_stop a c n) = Some m"
    and "\<not> cpm_ci_running (get_cpm a c m)"
  shows "pf_cpm_control_interval_expired env (a, c) n = Some (pf_cpm_set_state a c PF_CPM_STATE_W_START m)"
proof -
  have "dht (get_cpm a c n) = factor" using assms(1) by (simp add: consuming_def word_unat_eq_iff)
  with assms show ?thesis
    by (simp add: pf_cpm_control_interval_expired_def consuming_def pf_cpm_state_ind_def watchdog_stop_def Let_def
        pf_cpm_set_state_def)
qed

section \<open>A frame from the provider to the consumer\<close>

lemma peek_poke_sub:
  assumes "poke pos ys xs = Some zs" and "off + k \<le> length ys"
  shows "peek (pos + off) k zs = peek off k ys"
proof -
  have z: "zs = take pos xs @ ys @ drop (pos + length ys) xs" and len: "pos + length ys \<le> length xs"
    using assms(1) by (auto simp: poke_def split: if_splits)
  have "take k (drop (pos + off) zs) = take k (drop off ys)"
    using assms(2) len unfolding z by simp
  then show ?thesis using assms(2) len z by (simp add: peek_def)
qed

lemma peek_append: "peek p j zs = Some us \<Longrightarrow> peek (p + j) k zs = Some vs \<Longrightarrow> peek p (j + k) zs = Some (us @ vs)"
  by (auto simp: peek_def take_add add.commute split: if_splits)

lemma poke_ok: "length xs = N \<Longrightarrow> pos + length ys \<le> N \<Longrightarrow> \<exists>zs. poke pos ys xs = Some zs \<and> length zs = N"
  by (simp add: poke_def)

lemma peek_take: "p + k \<le> l \<Longrightarrow> l \<le> length zs \<Longrightarrow> peek p k (take l zs) = peek p k zs"
  by (auto simp: peek_def take_drop min_def)

lemma peek_length: "peek p k zs = Some us \<Longrightarrow> length us = k"
  by (auto simp: peek_def split: if_splits)

lemma peek_prefix: "peek p k xs = Some ys \<Longrightarrow> off + j \<le> k \<Longrightarrow> peek (p + off) j xs = peek off j ys"
  by (auto simp: peek_def take_drop add.commute add.left_commute min_def split: if_splits)

text \<open>The places of a frame with \<open>sdu\<close> bytes of process data, as \<open>pf_ppm_init_cr_config\<close> lays it out.\<close>

definition ppm_layout :: "nat \<Rightarrow> pf_ppm \<Rightarrow> bool" where
  "ppm_layout sdu x \<longleftrightarrow> unat (ppm_buffer_pos x) = 20 \<and> unat (cycle_counter_offset x) = 20 + sdu \<and>
     unat (data_status_offset x) = 22 + sdu \<and> unat (transfer_status_offset x) = 23 + sdu \<and>
     unat (ppm_buffer_length x) = 24 + sdu \<and> ppm_transfer_status x = 0 \<and>
     length (buffer_data x) = CYCLIC_FRAME_SIZE \<and> 24 + sdu \<le> CYCLIC_FRAME_SIZE"

definition cyclic_frame :: "nat \<Rightarrow> u8 list \<Rightarrow> u16 \<Rightarrow> u8 \<Rightarrow> nat \<Rightarrow> u8 list \<Rightarrow> u8 list \<Rightarrow> bool" where
  "cyclic_frame sdu src cycle status len data xs \<longleftrightarrow> length xs = 24 + sdu \<and> peek 6 6 xs = Some src \<and>
     peek (20 + sdu) 4 xs = Some (bytes16 cycle @ [status, 0]) \<and>
     (\<forall>off k. off + k \<le> len \<longrightarrow> peek (20 + off) k xs = peek off k data)"

lemma fill_frame:
  assumes lay: "ppm_layout sdu x" and len: "unat len \<le> sdu" and xs: "length xs = CYCLIC_FRAME_SIZE"
    and src: "peek 6 6 xs = Some (ppm_sa x)"
  shows "\<exists>ys. ppm_fill x len xs = Some ys \<and> length ys = CYCLIC_FRAME_SIZE \<and>
    cyclic_frame sdu (ppm_sa x) (ppm_cycle x) (ppm_data_status x) (unat len) (buffer_data x) (take (24 + sdu) ys)"
proof -
  note places = lay [unfolded ppm_layout_def]
  obtain data where d: "peek 0 (unat len) (buffer_data x) = Some data" "length data = unat len"
    using places len by (auto simp: peek_def)
  from poke_ok [OF xs, of 20 data] d(2) len places obtain z1 where
    1: "poke 20 data xs = Some z1" "length z1 = CYCLIC_FRAME_SIZE" by auto
  from poke_ok [OF 1(2), of "20 + sdu" "bytes16 (ppm_cycle x)"] places obtain z2 where
    2: "poke (20 + sdu) (bytes16 (ppm_cycle x)) z1 = Some z2" "length z2 = CYCLIC_FRAME_SIZE" by auto
  from poke_ok [OF 2(2), of "22 + sdu" "[ppm_data_status x]"] places obtain z3 where
    3: "poke (22 + sdu) [ppm_data_status x] z2 = Some z3" "length z3 = CYCLIC_FRAME_SIZE" by auto
  from poke_ok [OF 3(2), of "23 + sdu" "[0]"] places obtain z4 where
    4: "poke (23 + sdu) [0] z3 = Some z4" "length z4 = CYCLIC_FRAME_SIZE" by auto
  have fill: "ppm_fill x len xs = Some z4"
    using places d(1) 1(1) 2(1) 3(1) 4(1) by (simp add: ppm_fill_def)
  have early: "peek p k z4 = peek p k z1" if "p + k \<le> 20 + sdu" for p k
    using that peek_poke_other [OF 2(1), of p k] peek_poke_other [OF 3(1), of p k] peek_poke_other [OF 4(1), of p k] by simp
  have "peek 6 6 z4 = Some (ppm_sa x)" using early [of 6 6] peek_poke_other [OF 1(1), of 6 6] src by simp
  moreover have "peek (20 + off) k z4 = peek off k (buffer_data x)" if "off + k \<le> unat len" for off k
    using early [of "20 + off" k] peek_poke_sub [OF 1(1), of off k] peek_prefix [OF d(1), of off k] d(2) that len by simp
  moreover have "peek (20 + sdu) 4 z4 = Some (bytes16 (ppm_cycle x) @ [ppm_data_status x, 0])"
  proof -
    have "peek (20 + sdu) 2 z4 = Some (bytes16 (ppm_cycle x))"
      using peek_poke [OF 2(1), of 2] peek_poke_other [OF 3(1), of "20 + sdu" 2] peek_poke_other [OF 4(1), of "20 + sdu" 2] by simp
    moreover have "peek (20 + sdu + 2) 1 z4 = Some [ppm_data_status x]"
      using peek_poke [OF 3(1), of 1] peek_poke_other [OF 4(1), of "22 + sdu" 1] by simp
    moreover have "peek (20 + sdu + 3) 1 z4 = Some [0]" using peek_poke [OF 4(1), of 1] by simp
    ultimately have "peek (20 + sdu) (2 + 1 + 1) z4 = Some ((bytes16 (ppm_cycle x) @ [ppm_data_status x]) @ [0])"
      by (intro peek_append) (simp_all add: add.assoc)
    then show ?thesis by simp
  qed
  moreover have "peek p k (take (24 + sdu) z4) = peek p k z4" if "p + k \<le> 24 + sdu" for p k
    using that 4(2) places by (intro peek_take) simp_all
  ultimately have "cyclic_frame sdu (ppm_sa x) (ppm_cycle x) (ppm_data_status x) (unat len) (buffer_data x) (take (24 + sdu) z4)"
    using 4(2) places len by (simp add: cyclic_frame_def)
  with fill 4(2) show ?thesis by blast
qed

section \<open>The provider\<close>

definition provides :: "nat \<Rightarrow> nat \<Rightarrow> nat \<Rightarrow> 'w cyclic_net \<Rightarrow> bool" where
  "provides a c sdu n \<longleftrightarrow> ppm_layout sdu (get_ppm a c n) \<and> ppm_ci_running (get_ppm a c n) \<and> ppm_buf_lock n \<and>
     unat (in_length (get_iocr a c n)) \<le> sdu \<and> timer_ok (c_sched n) \<and>
     card (dom (pending_timers (c_sched n))) < PF_MAX_TIMEOUTS \<and>
     (\<exists>b buf. p_send_buffer (get_ppm a c n) = Some b \<and> c_bufs n b = Some buf \<and>
        b_len buf = ppm_buffer_length (get_ppm a c n) \<and> length (b_payload buf) = CYCLIC_FRAME_SIZE \<and>
        peek 6 6 (b_payload buf) = Some (ppm_sa (get_ppm a c n)))"

text \<open>A descriptor whose data and provider status lie in the process data and do not overlap.\<close>

definition desc_ok :: "nat \<Rightarrow> pf_iodata_object \<Rightarrow> bool" where
  "desc_ok len d \<longleftrightarrow> unat (data_offset d) + unat (data_length d) \<le> len \<and>
     unat (iops_offset d) + unat (iops_length d) \<le> len \<and> unat (iops_length d) < 256 \<and>
     (unat (data_offset d) + unat (data_length d) \<le> unat (iops_offset d) \<or>
      unat (iops_offset d) + unat (iops_length d) \<le> unat (data_offset d))"

lemma upd_ppm_provides:
  assumes "provides a c sdu n" and "ppm_layout sdu (h (get_ppm a c n))" and "ppm_ci_running (h (get_ppm a c n))"
    and "p_send_buffer (h (get_ppm a c n)) = p_send_buffer (get_ppm a c n)"
    and "ppm_buffer_length (h (get_ppm a c n)) = ppm_buffer_length (get_ppm a c n)" and "ppm_sa (h (get_ppm a c n)) = ppm_sa (get_ppm a c n)"
  shows "provides a c sdu (upd_ppm a c h n)"
  using assms by (simp add: provides_def upd_ppm_def upd_iocr_def upd_car_def)

lemma small_u8:
  fixes w :: u16
  assumes "unat w < 256"
  shows "(ucast (ucast w :: u8) :: u16) = w" and "unat (ucast w :: u8) = unat w"
proof -
  show u: "unat (ucast w :: u8) = unat w" using assms by (simp add: unsigned_ucast_eq unsigned_take_bit_eq take_bit_nat_eq_self)
  have "unat (ucast (ucast w :: u8) :: u16) = unat (ucast w :: u8)"
    unfolding u using assms by (simp add: unsigned_ucast_eq unsigned_take_bit_eq take_bit_nat_eq_self)
  then show "(ucast (ucast w :: u8) :: u16) = w" using u by (simp add: word_unat_eq_iff)
qed

lemma set_data_ok:
  assumes p: "provides a c sdu n" and f: "pf_ppm_get_ar_iocr_desc api slot subslot n = Some (a, c, k)"
    and d: "desc_ok (unat (in_length (get_iocr a c n))) d" "d = data_desc (get_iocr a c n) ! k"
    and l: "length xs = unat (data_length d)" "length ys = unat (iops_length d)"
  shows "\<exists>n' bs. pf_ppm_set_data_and_iops api slot subslot (Some xs) (data_length d) ys (ucast (iops_length d)) n = Some (0, n') \<and>
    provides a c sdu n' \<and> get_ppm a c n' = (get_ppm a c n)\<lparr>buffer_data := bs\<rparr> \<and> in_length (get_iocr a c n') = in_length (get_iocr a c n) \<and>
    c_world n' = c_world n \<and> peek (unat (data_offset d)) (length xs) bs = Some xs \<and> peek (unat (iops_offset d)) (length ys) bs = Some ys"
proof -
  let ?x = "get_ppm a c n"
  have N: "length (buffer_data ?x) = CYCLIC_FRAME_SIZE" and sdu: "unat (in_length (get_iocr a c n)) \<le> CYCLIC_FRAME_SIZE"
    using p by (auto simp: provides_def ppm_layout_def)
  from poke_ok [OF N, of "unat (data_offset d)" xs] d(1) sdu l obtain z1 where
    1: "poke (unat (data_offset d)) xs (buffer_data ?x) = Some z1" "length z1 = CYCLIC_FRAME_SIZE" by (auto simp: desc_ok_def)
  from poke_ok [OF 1(2), of "unat (iops_offset d)" ys] d(1) sdu l obtain z2 where
    2: "poke (unat (iops_offset d)) ys z1 = Some z2" "length z2 = CYCLIC_FRAME_SIZE" by (auto simp: desc_ok_def)
  have u: "(ucast (ucast (iops_length d) :: u8) :: u16) = iops_length d" "unat (ucast (iops_length d) :: u8) = length ys"
    using d(1) l(2) small_u8 [of "iops_length d"] by (auto simp: desc_ok_def)
  let ?n1 = "upd_ppm a c (\<lambda>x. x\<lparr>buffer_data := z2\<rparr>) (upd_ppm a c (\<lambda>x. x\<lparr>buffer_data := z1\<rparr>) n)"
  let ?n2 = "upd_iocr a c (\<lambda>i. i\<lparr>data_desc := (data_desc i)[k := (data_desc i ! k)\<lparr>data_avail := True\<rparr>]\<rparr>) ?n1"
  have "ppm_buf_lock n" using p by (simp add: provides_def)
  then have "pf_ppm_set_data_and_iops api slot subslot (Some xs) (data_length d) ys (ucast (iops_length d)) n = Some (0, ?n2)"
    using f d(2) 1(1) 2(1) l(1) u
    by (simp add: pf_ppm_set_data_and_iops_def pf_ppm_drv_sw_write_data_and_iops_def pf_ppm_drv_sw_write_frame_buffer_def Let_def)
  moreover have "get_ppm a c ?n2 = ?x\<lparr>buffer_data := z2\<rparr>" "in_length (get_iocr a c ?n2) = in_length (get_iocr a c n)" "c_world ?n2 = c_world n"
    by (simp_all add: upd_ppm_def)
  moreover have "provides a c sdu ?n1"
    using p N 1(2) 2(2) by (intro upd_ppm_provides) (simp_all add: provides_def ppm_layout_def)
  then have "provides a c sdu ?n2" by (simp add: provides_def)
  moreover have "peek (unat (iops_offset d)) (length ys) z2 = Some ys" by (rule peek_poke [OF 2(1) refl])
  moreover have "peek (unat (data_offset d)) (length xs) z2 = Some xs"
    using peek_poke [OF 1(1) refl] peek_poke_other [OF 2(1), of "unat (data_offset d)" "length xs"] d(1) l by (auto simp: desc_ok_def)
  ultimately show ?thesis by blast
qed

lemma send_frame:
  assumes p: "provides a c sdu n"
    and cyc: "pf_ppm_calculate_next_cyclecounter (ppm_cycle (get_ppm a c n)) (ppm_send_clock_factor (get_ppm a c n))
      (ppm_reduction_ratio (get_ppm a c n)) = Some nx"
  shows "\<exists>n' xs. pf_ppm_drv_sw_send env (a, c) t n = Some n' \<and> c_world n' = snd (ce_eth_send env xs (c_world n)) \<and>
    cyclic_frame sdu (ppm_sa (get_ppm a c n)) nx (ppm_data_status (get_ppm a c n)) (unat (in_length (get_iocr a c n)))
      (buffer_data (get_ppm a c n)) xs"
proof -
  let ?h = "\<lambda>x. x\<lparr>ppm_ci_timeout := pf_scheduler_reset_handle (ppm_ci_timeout x)\<rparr>"
  let ?n1 = "upd_ppm a c (\<lambda>x. x\<lparr>ppm_cycle := nx\<rparr>) (upd_ppm a c ?h n)"
  let ?x = "get_ppm a c n"
  from p obtain b buf where b: "p_send_buffer ?x = Some b" "c_bufs n b = Some buf" "b_len buf = ppm_buffer_length ?x"
    "length (b_payload buf) = CYCLIC_FRAME_SIZE" "peek 6 6 (b_payload buf) = Some (ppm_sa ?x)" by (auto simp: provides_def)
  have lay: "ppm_layout sdu (get_ppm a c ?n1)" and run: "ppm_ci_running ?x" "ppm_buf_lock n"
    and len: "unat (in_length (get_iocr a c n)) \<le> sdu" and room: "timer_ok (c_sched n)" "card (dom (pending_timers (c_sched n))) < PF_MAX_TIMEOUTS"
    using p by (simp_all add: provides_def ppm_layout_def)
  from fill_frame [OF lay len b(4)] b(5) obtain ys where
    ys: "ppm_fill (get_ppm a c ?n1) (in_length (get_iocr a c n)) (b_payload buf) = Some ys" "length ys = CYCLIC_FRAME_SIZE"
      "cyclic_frame sdu (ppm_sa ?x) nx (ppm_data_status ?x) (unat (in_length (get_iocr a c n))) (buffer_data ?x) (take (24 + sdu) ys)"
    by auto
  let ?n2 = "set_buf b (buf\<lparr>b_payload := ys\<rparr>) ?n1" and ?xs = "take (24 + sdu) ys"
  have fin: "pf_ppm_finish_buffer a c (in_length (get_iocr a c n)) (upd_ppm a c ?h n) = Some ?n2"
    using b(1,2) cyc run(2) ys(1) by (simp add: pf_ppm_finish_buffer_def Let_def)
  have il: "in_length (get_iocr a c (upd_ppm a c ?h n)) = in_length (get_iocr a c n)" by (simp add: upd_ppm_def)
  have "unat (b_len buf) = 24 + sdu" using b(3) lay by (simp add: ppm_layout_def)
  then have sent: "cyc_eth_send env b ?n2 = Some (fst (ce_eth_send env ?xs (c_world n)), ?n2\<lparr>c_world := snd (ce_eth_send env ?xs (c_world n))\<rparr>)"
    by (simp add: cyc_eth_send_def set_buf_def split: prod.split)
  have pb: "p_send_buffer (get_ppm a c ?n2) = Some b" using b(1) by (simp add: set_buf_def)
  define r where "r = fst (ce_eth_send env ?xs (c_world n))"
  define m where "m = ?n2\<lparr>c_world := snd (ce_eth_send env ?xs (c_world n))\<rparr>"
  let ?m1 = "upd_ppm a c (\<lambda>x. x\<lparr>next_exec := next_exec x + ppm_control_interval x\<rparr>) m"
  have sched: "c_sched m = c_sched n" by (simp add: m_def set_buf_def)
  from timer.add_room [OF room, of "c_now m" "next_exec (get_ppm a c ?m1) - t" Pf_ppm_drv_sw_send "(a, c)" "ppm_ci_timeout (get_ppm a c m)"]
  obtain g s where s: "pf_scheduler_add (c_now m) (next_exec (get_ppm a c ?m1) - t) Pf_ppm_drv_sw_send (a, c) (ppm_ci_timeout (get_ppm a c m))
    (c_sched n) = Some (0, g, s)" by blast
  have step: "pf_ppm_drv_sw_send env (a, c) t n = (if r > 0 then do {
      let n = upd_ppm a c (\<lambda>x. x\<lparr>trx_cnt := trx_cnt x + 1\<rparr>) (upd_ppm a c (\<lambda>x. x\<lparr>ppm_ci_timeout := g\<rparr>) (?m1\<lparr>c_sched := s\<rparr>));
      (if \<not> first_transmit (get_ppm a c n) then Some (upd_ppm a c (\<lambda>x. x\<lparr>first_transmit := True\<rparr>) n) else Some n)
    } else Some m)"
    using run(1) fin sent pb s sched il
    by (simp add: pf_ppm_drv_sw_send_def r_def [symmetric] m_def [symmetric] cyc_start_timer_def pf_ppm_state_ind_def Let_def)
  have "\<exists>n'. pf_ppm_drv_sw_send env (a, c) t n = Some n' \<and> c_world n' = c_world m"
    unfolding step by (simp add: Let_def)
  then show ?thesis using ys(3) by (auto simp: m_def)
qed

section \<open>The consumer\<close>

definition quiet_env :: "'w cyclic_env \<Rightarrow> bool" where
  "quiet_env env \<longleftrightarrow> (\<forall>a c s. ce_cpm_state_ind env a c s = Some) \<and> (\<forall>a c v. ce_new_data_ind env a c v = Some) \<and>
     (\<forall>a c x y. ce_data_status_changed env a c x y = Some) \<and> (\<forall>a x y. ce_error_ind env a x y = Some)"

definition consumes :: "nat \<Rightarrow> nat \<Rightarrow> nat \<Rightarrow> u8 list \<Rightarrow> 'w cyclic_net \<Rightarrow> bool" where
  "consumes a c sdu src n \<longleftrightarrow> cpm_state (get_cpm a c n) \<noteq> PF_CPM_STATE_W_START \<and> cpm_buf_lock n \<and>
     cpm_sa (get_cpm a c n) = src \<and> unat (cpm_buffer_length (get_cpm a c n)) = 20 + sdu \<and> 24 + sdu < 2 ^ 16 \<and>
     (\<forall>b. p_buffer_cpm (get_cpm a c n) = Some b \<longrightarrow> c_bufs n b \<noteq> None)"

lemma unat_u16: "k < 2 ^ 16 \<Longrightarrow> unat (of_nat k :: u16) = k"
  by (simp only: unsigned_of_nat) (simp add: take_bit_nat_eq_self)

lemma frame_status:
  assumes "cyclic_frame sdu src cycle status len data xs" and "24 + sdu < 2 ^ 16"
  shows "apdu_status \<lparr>b_len = of_nat (length xs), b_payload = xs\<rparr> = Some (cycle, status, 0)"
    and "frame_structure x \<lparr>b_len = of_nat (length xs), b_payload = xs\<rparr> 18 0 =
      Some (src = cpm_sa x \<and> unat (cpm_buffer_length x) = 20 + sdu)"
proof -
  have xs: "length xs = 24 + sdu" "peek 6 6 xs = Some src" "peek (20 + sdu) 4 xs = Some (bytes16 cycle @ [status, 0])"
    using assms(1) by (simp_all add: cyclic_frame_def)
  have e: "(of_nat (24 + sdu) :: u16) - 4 = of_nat (20 + sdu)" by simp
  have u: "unat ((of_nat (24 + sdu) :: u16) - 4) = 20 + sdu"
    unfolding e using assms(2) by (intro unat_u16) simp
  have b: "be16 (bytes16 cycle @ [status, 0]) = cycle"
    using be16_bytes16 [of cycle] by (simp add: be16_def bytes16_def)
  show "apdu_status \<lparr>b_len = of_nat (length xs), b_payload = xs\<rparr> = Some (cycle, status, 0)"
    unfolding apdu_status_def Let_def pnal_buf.select_convs xs(1) u xs(3) using b by (simp add: bytes16_def)
  have l: "(of_nat (24 + sdu) :: u16) - 18 + (2 * 6 + 2) = of_nat (20 + sdu)" by simp
  have q: "(of_nat (20 + sdu) :: u16) = cpm_buffer_length x \<longleftrightarrow> unat (cpm_buffer_length x) = 20 + sdu"
  proof -
    have "unat (of_nat (20 + sdu) :: u16) = 20 + sdu" using assms(2) by (intro unat_u16) simp
    then show ?thesis unfolding word_unat_eq_iff by presburger
  qed
  show "frame_structure x \<lparr>b_len = of_nat (length xs), b_payload = xs\<rparr> 18 0 =
      Some (src = cpm_sa x \<and> unat (cpm_buffer_length x) = 20 + sdu)"
    unfolding frame_structure_def pf_cpm_check_src_addr_def pnal_buf.select_convs xs(1,2) l Let_def
    using q by (simp del: of_nat_add)
qed

lemma consume_frame:
  assumes env: "quiet_env env" and m: "consumes a c sdu src n" and f: "cyclic_frame sdu src cycle status len data xs"
    and b: "c_bufs n b = Some \<lparr>b_len = of_nat (length xs), b_payload = xs\<rparr>" "p_buffer_cpm (get_cpm a c n) \<noteq> Some b"
    and st: "status AND 4 \<noteq> 0" and win: "pf_cpm_check_cycle (cpm_cycle (get_cpm a c n)) cycle = 0"
  shows "\<exists>n'. pf_cpm_c_data_ind env (a, c) b 18 n = Some (1, n') \<and> cpm_state (get_cpm a c n') = PF_CPM_STATE_RUN \<and>
    p_buffer_cpm (get_cpm a c n') = Some b \<and> cpm_new_buf (get_cpm a c n') \<and> unat (cpm_buffer_pos (get_cpm a c n')) = 20 \<and>
    c_bufs n' b = c_bufs n b \<and> cpm_buf_lock n' \<and> cpm_cycle (get_cpm a c n') = uint cycle \<and> dht (get_cpm a c n') = 0 \<and>
    c_subslot n' = c_subslot n \<and> (\<forall>e. nbr_iocrs (c_ar n' e) = nbr_iocrs (c_ar n e)) \<and>
    (\<forall>e d. (get_iocr e d n')\<lparr>iocr_cpm := iocr_cpm (get_iocr e d n)\<rparr> = get_iocr e d n)"
proof -
  let ?n1 = "upd_cpm a c (\<lambda>x. x\<lparr>cpm_recv_cnt := cpm_recv_cnt x + 1\<rparr>) n"
  have len: "24 + sdu < 2 ^ 16" using m by (simp add: consumes_def)
  let ?p = "p_buffer_cpm (get_cpm a c n)"
  let ?n2 = "upd_cpm a c (\<lambda>x. x\<lparr>p_buffer_cpm := Some b, cpm_new_buf := True\<rparr>) ?n1"
  let ?n3 = "upd_cpm a c (\<lambda>x. x\<lparr>cpm_frame_id_pos := 18, cpm_buffer_pos := 20\<rparr>) ?n2"
  let ?n4 = "upd_cpm a c (\<lambda>x. x\<lparr>dht := 0, cpm_cycle := uint cycle, cpm_data_status := status\<rparr>) ?n3"
  let ?n5 = "upd_cpm a c (\<lambda>x. x\<lparr>cpm_state := PF_CPM_STATE_RUN\<rparr>) ?n4"
  have acc: "cpm_accept env a c b 18 cycle status ?n1 = Some (?p, ?n5)"
    using env m by (simp add: cpm_accept_def quiet_env_def consumes_def pf_cpm_state_ind_def pf_cpm_put_buf_def pf_cpm_set_state_def Let_def)
  have fs: "frame_structure (get_cpm a c ?n1) \<lparr>b_len = of_nat (length xs), b_payload = xs\<rparr> 18 0 = Some True"
    using frame_status(2) [OF f len, of "get_cpm a c ?n1"] m by (simp add: consumes_def)
  have ind: "pf_cpm_c_data_ind env (a, c) b 18 n = (case ?p of None \<Rightarrow> Some (1, ?n5)
      | Some _ \<Rightarrow> do { n \<leftarrow> cyc_buf_free ?p (upd_cpm a c (\<lambda>x. x\<lparr>cpm_free_cnt := cpm_free_cnt x + 1\<rparr>) ?n5); Some (1, n) })"
    using m b(1) st win fs acc unfolding pf_cpm_c_data_ind_def Let_def
    by (simp add: consumes_def frame_status(1) [OF f len])
  show ?thesis
  proof (cases ?p)
    case None
    have "pf_cpm_c_data_ind env (a, c) b 18 n = Some (1, ?n5)" using ind None by simp
    moreover have "(get_iocr e d ?n5)\<lparr>iocr_cpm := iocr_cpm (get_iocr e d n)\<rparr> = get_iocr e d n" for e d
      by (simp add: upd_cpm_def)
    ultimately show ?thesis using m by (intro exI [of _ ?n5]) (simp add: consumes_def)
  next
    case (Some q)
    let ?n6 = "upd_cpm a c (\<lambda>x. x\<lparr>cpm_free_cnt := cpm_free_cnt x + 1\<rparr>) ?n5"
    have "pf_cpm_c_data_ind env (a, c) b 18 n = Some (1, ?n6\<lparr>c_bufs := (c_bufs n)(q := None)\<rparr>)"
      using ind Some m by (auto simp: cyc_buf_free_def consumes_def)
    moreover have "(get_iocr e d ?n6)\<lparr>iocr_cpm := iocr_cpm (get_iocr e d n)\<rparr> = get_iocr e d n" for e d
      by (simp add: upd_cpm_def)
    moreover have "q \<noteq> b" using Some b(2) by auto
    ultimately show ?thesis using m
      by (intro exI [of _ "?n6\<lparr>c_bufs := (c_bufs n)(q := None)\<rparr>"]) (simp add: consumes_def)
  qed
qed

lemma peek_drop: "p \<le> length xs \<Longrightarrow> peek off k (drop p xs) = peek (p + off) k xs"
  by (auto simp: peek_def add.commute add.left_commute)

lemma get_frame_data:
  assumes f: "cyclic_frame sdu src cycle status len data xs" and lock: "cpm_buf_lock n"
    and cpm: "cpm_state (get_cpm a c n) \<noteq> PF_CPM_STATE_W_START" "p_buffer_cpm (get_cpm a c n) = Some b" "cpm_new_buf (get_cpm a c n)"
      "unat (cpm_buffer_pos (get_cpm a c n)) = 20" and b: "c_bufs n b = Some \<lparr>b_len = of_nat (length xs), b_payload = xs\<rparr>"
    and d: "pf_cpm_get_ar_iocr_desc api slot subslot n = Some (a, c, k)" "d = data_desc (get_iocr a c n) ! k" "desc_ok len d"
    and data: "peek (unat (data_offset d)) (unat (data_length d)) data = Some ds" "peek (unat (iops_offset d)) (unat (iops_length d)) data = Some ios"
  shows "\<exists>n'. pf_cpm_get_data_and_iops api slot subslot (data_length d) (ucast (iops_length d)) n = Some (
    \<lparr>out_ret = 0, out_new = Some True, out_data = ds, out_data_len = data_length d, out_iops = ios, out_iops_len = ucast (iops_length d)\<rparr>, n')"
proof -
  let ?n1 = "upd_cpm a c swap_buf n"
  have x: "p_buffer_app (get_cpm a c ?n1) = Some b" "cpm_buffer_pos (get_cpm a c ?n1) = cpm_buffer_pos (get_cpm a c n)"
    using cpm(2) by (simp_all add: swap_buf_def)
  have l: "20 \<le> length xs" using f by (simp add: cyclic_frame_def)
  have get: "pf_cpm_get_buf a c n = Some ((True, Some (drop 20 xs)), ?n1)"
    using lock cpm(3,4) b x by (simp add: pf_cpm_get_buf_def Let_def)
  have p1: "peek (unat (data_offset d)) (unat (data_length d)) (drop 20 xs) = Some ds"
    unfolding peek_drop [OF l] using f d(3) data(1) by (simp add: cyclic_frame_def desc_ok_def)
  have p2: "peek (unat (iops_offset d)) (unat (iops_length d)) (drop 20 xs) = Some ios"
    unfolding peek_drop [OF l] using f d(3) data(2) by (simp add: cyclic_frame_def desc_ok_def)
  have e: "ds = []" if "data_length d = 0" using peek_length [OF data(1)] that by simp
  have e': "ios = []" if "iops_length d = 0" using peek_length [OF data(2)] that by simp
  have drv: "pf_cpm_driver_sw_get_data_and_iops a c d n = Some ((0, True, ds, ios), ?n1)"
    using p1 p2 e e' by (simp add: pf_cpm_driver_sw_get_data_and_iops_def get word_gt_0)
  have u: "(ucast (ucast (iops_length d) :: u8) :: u16) = iops_length d"
    using d(3) small_u8(1) [of "iops_length d"] by (simp add: desc_ok_def)
  show ?thesis using cpm(1) d(1,2) drv u by (simp add: pf_cpm_get_data_and_iops_def Let_def)
qed

lemma find_iodata_same:
  assumes "\<And>c. c \<in> set cs \<Longrightarrow> iocr_param (io c) = iocr_param (io' c) \<and> data_desc (io c) = data_desc (io' c) \<and>
    nbr_data_desc (io c) = nbr_data_desc (io' c)"
  shows "find_iodata P io T cs = find_iodata P io' T cs"
  using assms by (induction cs) (simp_all add: Let_def)

lemma get_desc_same:
  assumes "c_subslot m = c_subslot n" and "\<forall>q. nbr_iocrs (c_ar m q) = nbr_iocrs (c_ar n q)"
    and "\<forall>q r. (get_iocr q r m)\<lparr>iocr_cpm := iocr_cpm (get_iocr q r n)\<rparr> = get_iocr q r n"
  shows "get_ar_iocr_desc T api slot subslot m = get_ar_iocr_desc T api slot subslot n"
    and "data_desc (get_iocr q r m) = data_desc (get_iocr q r n)"
proof -
  have e: "iocr_param (get_iocr q r m) = iocr_param (get_iocr q r n) \<and> data_desc (get_iocr q r m) = data_desc (get_iocr q r n) \<and>
    nbr_data_desc (get_iocr q r m) = nbr_data_desc (get_iocr q r n)" for q r
    using assms(3) [rule_format, of q r] by (metis pf_iocr.select_convs(5-7) pf_iocr.surjective pf_iocr.update_convs(1))
  show "data_desc (get_iocr q r m) = data_desc (get_iocr q r n)" using e by blast
  have "find_iodata P (iocrs (c_ar m q)) T cs = find_iodata P (iocrs (c_ar n q)) T cs" for P q cs
    by (rule find_iodata_same) (rule e)
  then show "get_ar_iocr_desc T api slot subslot m = get_ar_iocr_desc T api slot subslot n"
    using assms(1,2) by (simp add: get_ar_iocr_desc_def owning_ar_def)
qed

lemma get_desc_set_buf [simp]: "get_ar_iocr_desc T api slot subslot (set_buf p x m) = get_ar_iocr_desc T api slot subslot m"
  by (simp add: set_buf_def get_ar_iocr_desc_def owning_ar_def)

end
