(* ===== verification/Cyclic_Props.thy ===== *)
theory Cyclic_Props
  imports Cyclic_Lemmas
begin

unbundle bit_operations_syntax

text \<open>The properties of the cyclic data exchange (pf_cpm.c, pf_ppm.c and their drivers).\<close>

section \<open>Cycle counters\<close>

text \<open>
  C15. The test of the cycle counter is membership in a window behind the last accepted
  counter: a frame is taken exactly when its counter is 1 to 61440 ahead, modulo 2^16. Before
  the first frame the last counter is -1, which is meant to accept any counter; but the test
  treats it as 65535, and a connection whose first counter is 61440 or more is refused.
\<close>

theorem cpm_cycle_window:
  "(\<forall>prev now. 0 \<le> prev \<and> prev < 65536 \<longrightarrow>
     (pf_cpm_check_cycle prev now = 0 \<longleftrightarrow> (\<exists>k. 1 \<le> k \<and> k \<le> 61440 \<and> uint now = (prev + k) mod 65536))) \<and>
   (\<forall>now. pf_cpm_check_cycle (-1) now = 0 \<longleftrightarrow> uint now < 61440)"
  using check_cycle_known check_cycle_never by blast

lemma cpm_cycle_window_witness:
  "pf_cpm_check_cycle 65535 3 = 0 \<and> pf_cpm_check_cycle 3 3 \<noteq> 0 \<and> pf_cpm_check_cycle (-1) 62000 \<noteq> 0"
proof -
  have "\<exists>k :: int. 1 \<le> k \<and> k \<le> 61440 \<and> uint (3 :: u16) = (65535 + k) mod 65536" by (intro exI [of _ 4]) simp
  moreover have "\<not> (\<exists>k :: int. 1 \<le> k \<and> k \<le> 61440 \<and> uint (3 :: u16) = (3 + k) mod 65536)" by simp
  ultimately show ?thesis using cpm_cycle_window by fastforce
qed



section \<open>The watchdog\<close>


section \<open>A concrete instance\<close>

definition demo_cyclic_env :: "u8 list list cyclic_env" where
  "demo_cyclic_env = \<lparr>ce_alloc = \<lambda>_. True, ce_eth_send = \<lambda>xs w. (int (length xs), w @ [xs]),
     ce_cpm_state_ind = \<lambda>_ _ _. Some, ce_new_data_ind = \<lambda>_ _ _. Some, ce_data_status_changed = \<lambda>_ _ _ _. Some,
     ce_error_ind = \<lambda>_ _ _. Some\<rparr>"

definition demo_cpm :: pf_cpm where
  "demo_cpm = \<lparr>cpm_state = PF_CPM_STATE_RUN, cpm_errcnt = 0, cpm_recv_cnt = 0, cpm_free_cnt = 0, cpm_sa = replicate 6 0,
     nbr_frame_id = 1, cpm_frame_id = (0x8000, 0), cpm_data_hold_factor = 0, p_buffer_app = None, p_buffer_cpm = None,
     cpm_new_buf = False, cpm_frame_id_pos = 0, cpm_data_status = 0, cpm_buffer_length = 60, cpm_buffer_pos = 16, dht = 0,
     cpm_new_data = False, rxa = [], cpm_cycle = -1, cpm_control_interval = 1000, cpm_ci_running = True,
     cpm_ci_timeout = \<lparr>h_name = cpm_timer_name, h_timer_index = UINT32_MAX\<rparr>\<rparr>"

definition demo_ppm :: pf_ppm where
  "demo_ppm = \<lparr>ppm_state = PF_PPM_STATE_RUN, next_exec = 0, ppm_sa = replicate 6 0, ppm_da = replicate 6 0, first_transmit = False,
     p_send_buffer = Some 0, ppm_cycle = 0, ppm_transfer_status = 0, ppm_data_status = 0x35, ppm_buffer_length = 64,
     ppm_buffer_pos = 20, cycle_counter_offset = 60, data_status_offset = 62, transfer_status_offset = 63,
     buffer_data = replicate CYCLIC_FRAME_SIZE 0, trx_cnt = 0, ppm_send_clock_factor = 32, ppm_reduction_ratio = 1,
     ppm_control_interval = 1000, ppm_ci_running = True, ppm_ci_timeout = \<lparr>h_name = ppm_timer_name, h_timer_index = UINT32_MAX\<rparr>\<rparr>"

definition demo_desc :: pf_iodata_object where
  "demo_desc = \<lparr>io_in_use = True, io_api_id = 0, io_slot_nbr = 1, io_subslot_nbr = 1, data_offset = 0, data_length = 2,
     iops_offset = 2, iops_length = 1, iocs_offset = 3, iocs_length = 0, data_avail = False\<rparr>"

definition demo_iocr :: "u16 \<Rightarrow> pf_iocr" where
  "demo_iocr t = \<lparr>iocr_cpm = demo_cpm, iocr_ppm = demo_ppm, in_length = 40, out_length = 40, nbr_data_desc = 1, data_desc = [demo_desc],
     iocr_param = \<lparr>iocr_type = t, iocr_reference = 1, lt_field = 0x8892, iocr_properties = \<lparr>rt_class = 1, reserved_1 = 0,
       reserved_2 = 0, reserved_3 = 0\<rparr>, c_sdu_length = 40, frame_id = 0x8000, send_clock_factor = 32, reduction_ratio = 1, phase = 1,
       ip_sequence = 0, frame_send_offset = 0, watchdog_factor = 3, data_hold_factor = 3,
       iocr_tag_header = \<lparr>vlan_id = 0, iocr_user_priority = 6\<rparr>, iocr_multicast_mac_add = [], nbr_apis = 0, apis = []\<rparr>\<rparr>"

definition demo_cyclic :: "(cyclic_cb, nat \<times> nat) sched \<Rightarrow> u16 \<Rightarrow> u8 list list cyclic_net" where
  "demo_cyclic s t = \<lparr>c_sched = s, c_now = 0, c_id_map = eth_id_map_init,
     c_bufs = [0 \<mapsto> \<lparr>b_len = 64, b_payload = replicate CYCLIC_FRAME_SIZE 0\<rparr>], c_next_buf = 1,
     c_ar = \<lambda>_. \<lparr>cmsu_state = PF_CMSU_STATE_STARTUP, nbr_iocrs = 1, iocrs = \<lambda>_. demo_iocr t, ar_err_cls = 0, ar_err_code = 0,
       cm_initiator_mac = replicate 6 0, cm_responder_mac = replicate 6 0\<rparr>,
     cpm_instance_cnt = 1, cpm_buf_lock = True, ppm_instance_cnt = 1, ppm_buf_lock = True, num_physical_ports = 1,
     c_subslot = \<lambda>_ _ _. Some (PF_OWNSM_STATE_IOC, Some 0), c_world = []\<rparr>"

lemma idle_scheduler: "\<exists>s :: ('f, 'a) sched. timer_ok s \<and> pending_timers s = Map.empty"
proof -
  have "(0 :: u32) < 1000" by simp
  from init_rep [OF this, of "\<lparr>timeouts = [], timeout_first = 0, timeout_free = 0, tick_interval = 0\<rparr> :: ('f, 'a) sched"]
  obtain s :: "('f, 'a) sched" where s: "sched_rep s [] [0..<PF_MAX_TIMEOUTS] []" "tick_interval s = 1000" by auto
  then have "timer_ok s" by (auto simp: timer_ok_def sched_ok_def)
  with pending_busy [OF s(1)] show ?thesis by auto
qed

lemma demo_provides: "timer_ok s \<Longrightarrow> pending_timers s = Map.empty \<Longrightarrow> provides 0 0 40 (demo_cyclic s t)"
  by (simp add: provides_def demo_cyclic_def demo_iocr_def demo_ppm_def ppm_layout_def CYCLIC_FRAME_SIZE_def peek_def config_defs)

lemma demo_consumes: "consumes 0 0 40 (replicate 6 0) (demo_cyclic s t)"
  by (simp add: consumes_def demo_cyclic_def demo_iocr_def demo_cpm_def)

lemma demo_desc_ok: "desc_ok 40 demo_desc" by (simp add: desc_ok_def demo_desc_def)

lemma demo_find:
  "pf_ppm_get_ar_iocr_desc 0 1 1 (demo_cyclic s PF_IOCR_TYPE_INPUT) = Some (0, 0, 0)"
  "pf_cpm_get_ar_iocr_desc 0 1 1 (demo_cyclic s PF_IOCR_TYPE_OUTPUT) = Some (0, 0, 0)"
  by (simp_all add: pf_ppm_get_ar_iocr_desc_def pf_cpm_get_ar_iocr_desc_def get_ar_iocr_desc_def owning_ar_def demo_cyclic_def demo_iocr_def
      demo_desc_def desc_fits_def Let_def PF_IOCR_TYPE_INPUT_def PF_IOCR_TYPE_OUTPUT_def)


section \<open>Process data from end to end\<close>

text \<open>
  C18. What an application sets at a provider is what an application gets at the consumer: the
  call stores data and provider status, the next frame of the provider carries them, and a
  consumer with the same layout that gets the frame accepts it and hands out exactly these
  bytes, as new data. The data status must be valid and the cycle counter in the window.
\<close>

theorem cyclic_data_round_trip:
  assumes prov: "provides a c sdu n" "pf_ppm_get_ar_iocr_desc api slot subslot n = Some (a, c, k)"
      "d = data_desc (get_iocr a c n) ! k" "desc_ok (unat (in_length (get_iocr a c n))) d"
    and data: "length xs = unat (data_length d)" "length ys = unat (iops_length d)"
    and status: "ppm_data_status (get_ppm a c n) AND 4 \<noteq> 0"
    and cycle: "pf_ppm_calculate_next_cyclecounter (ppm_cycle (get_ppm a c n)) (ppm_send_clock_factor (get_ppm a c n))
      (ppm_reduction_ratio (get_ppm a c n)) = Some nx" "pf_cpm_check_cycle (cpm_cycle (get_cpm b e m)) nx = 0"
    and cons: "consumes b e sdu (ppm_sa (get_ppm a c n)) m" "pf_cpm_get_ar_iocr_desc api slot' subslot' m = Some (b, e, j)"
      "data_desc (get_iocr b e m) ! j = d'" "data_offset d' = data_offset d" "data_length d' = data_length d"
      "iops_offset d' = iops_offset d" "iops_length d' = iops_length d"
    and buf: "c_bufs m p = None" and env: "quiet_env env'"
  shows "\<exists>n1 n2 frame m1 m2.
    pf_ppm_set_data_and_iops api slot subslot (Some xs) (data_length d) ys (ucast (iops_length d)) n = Some (0, n1) \<and>
    pf_ppm_drv_sw_send env (a, c) t n1 = Some n2 \<and> c_world n2 = snd (ce_eth_send env frame (c_world n)) \<and>
    pf_cpm_c_data_ind env' (b, e) p 18 (set_buf p \<lparr>b_len = of_nat (length frame), b_payload = frame\<rparr> m) = Some (1, m1) \<and>
    pf_cpm_get_data_and_iops api slot' subslot' (data_length d) (ucast (iops_length d)) m1 =
      Some (\<lparr>out_ret = 0, out_new = Some True, out_data = xs, out_data_len = data_length d, out_iops = ys,
        out_iops_len = ucast (iops_length d)\<rparr>, m2)"
proof -
  from set_data_ok [OF prov(1,2,4,3) data] obtain n1 bs where
    1: "pf_ppm_set_data_and_iops api slot subslot (Some xs) (data_length d) ys (ucast (iops_length d)) n = Some (0, n1)"
      "provides a c sdu n1" "get_ppm a c n1 = (get_ppm a c n)\<lparr>buffer_data := bs\<rparr>" "in_length (get_iocr a c n1) = in_length (get_iocr a c n)"
      "c_world n1 = c_world n" "peek (unat (data_offset d)) (length xs) bs = Some xs" "peek (unat (iops_offset d)) (length ys) bs = Some ys"
    by blast
  from send_frame [OF 1(2), of nx env t] cycle(1) 1(3-5) obtain n2 frame where
    2: "pf_ppm_drv_sw_send env (a, c) t n1 = Some n2" "c_world n2 = snd (ce_eth_send env frame (c_world n))"
      "cyclic_frame sdu (ppm_sa (get_ppm a c n)) nx (ppm_data_status (get_ppm a c n)) (unat (in_length (get_iocr a c n))) bs frame"
    by auto
  let ?m = "set_buf p \<lparr>b_len = of_nat (length frame), b_payload = frame\<rparr> m"
  have cm: "consumes b e sdu (ppm_sa (get_ppm a c n)) ?m" "p_buffer_cpm (get_cpm b e ?m) \<noteq> Some p"
    using cons(1) buf by (auto simp: consumes_def set_buf_def)
  have bp: "c_bufs ?m p = Some \<lparr>b_len = of_nat (length frame), b_payload = frame\<rparr>" by (simp add: set_buf_def)
  have win: "pf_cpm_check_cycle (cpm_cycle (get_cpm b e ?m)) nx = 0" using cycle(2) by (simp add: set_buf_def)
  from consume_frame [OF env cm(1) 2(3) bp cm(2) status win] obtain m1 where
    3: "pf_cpm_c_data_ind env' (b, e) p 18 ?m = Some (1, m1)" "cpm_state (get_cpm b e m1) = PF_CPM_STATE_RUN"
      "p_buffer_cpm (get_cpm b e m1) = Some p" "cpm_new_buf (get_cpm b e m1)" "unat (cpm_buffer_pos (get_cpm b e m1)) = 20"
      "c_bufs m1 p = c_bufs ?m p" "cpm_buf_lock m1" "c_subslot m1 = c_subslot ?m" "\<forall>q. nbr_iocrs (c_ar m1 q) = nbr_iocrs (c_ar ?m q)"
      "\<forall>q r. (get_iocr q r m1)\<lparr>iocr_cpm := iocr_cpm (get_iocr q r ?m)\<rparr> = get_iocr q r ?m" by blast
  have same: "pf_cpm_get_ar_iocr_desc api slot' subslot' m1 = Some (b, e, j)" "data_desc (get_iocr b e m1) ! j = d'"
    using get_desc_same(1) [OF 3(8-10)] get_desc_same(2) [OF 3(8-10), of b e] cons(2,3)
    by (simp_all add: pf_cpm_get_ar_iocr_desc_def) (simp add: set_buf_def)
  have d': "desc_ok (unat (in_length (get_iocr a c n))) d'" using prov(4) cons(4-7) by (simp add: desc_ok_def)
  from get_frame_data [OF 2(3) 3(7) _ 3(3-5) _ same(1) same(2) [symmetric] d'] 3(2,6) bp 1(6,7) data cons(4-7)
  obtain m2 where "pf_cpm_get_data_and_iops api slot' subslot' (data_length d) (ucast (iops_length d)) m1 =
      Some (\<lparr>out_ret = 0, out_new = Some True, out_data = xs, out_data_len = data_length d, out_iops = ys,
        out_iops_len = ucast (iops_length d)\<rparr>, m2)" by auto
  with 1(1) 2(1,2) 3(1) show ?thesis by blast
qed

lemma cyclic_data_round_trip_witness:
  "\<exists>s n1 n2 frame m1 m2.
    pf_ppm_set_data_and_iops 0 1 1 (Some [7, 8]) 2 [0x80] 1 (demo_cyclic s PF_IOCR_TYPE_INPUT) = Some (0, n1) \<and>
    pf_ppm_drv_sw_send demo_cyclic_env (0, 0) 1000 n1 = Some n2 \<and> c_world n2 = [frame] \<and>
    pf_cpm_c_data_ind demo_cyclic_env (0, 0) 5 18 (set_buf 5 \<lparr>b_len = of_nat (length frame), b_payload = frame\<rparr>
      (demo_cyclic s PF_IOCR_TYPE_OUTPUT)) = Some (1, m1) \<and>
    pf_cpm_get_data_and_iops 0 1 1 2 1 m1 = Some (\<lparr>out_ret = 0, out_new = Some True, out_data = [7, 8], out_data_len = 2,
      out_iops = [0x80], out_iops_len = 1\<rparr>, m2)"
proof -
  obtain s :: "(cyclic_cb, nat \<times> nat) sched" where s: "timer_ok s" "pending_timers s = Map.empty" using idle_scheduler by blast
  let ?n = "demo_cyclic s PF_IOCR_TYPE_INPUT" and ?m = "demo_cyclic s PF_IOCR_TYPE_OUTPUT"
  have d: "data_desc (get_iocr 0 0 ?n) ! 0 = demo_desc" "data_desc (get_iocr 0 0 ?m) ! 0 = demo_desc" "unat (in_length (get_iocr 0 0 ?n)) = 40"
    "ppm_sa (get_ppm 0 0 ?n) = replicate 6 0" "ppm_data_status (get_ppm 0 0 ?n) = 0x35" "ppm_cycle (get_ppm 0 0 ?n) = 0"
    "ppm_send_clock_factor (get_ppm 0 0 ?n) = 32" "ppm_reduction_ratio (get_ppm 0 0 ?n) = 1" "cpm_cycle (get_cpm 0 0 ?m) = -1"
    "c_bufs ?m 5 = None" "c_world ?n = []"
    by (simp_all add: demo_cyclic_def demo_iocr_def demo_ppm_def demo_cpm_def)
  have cyc: "pf_ppm_calculate_next_cyclecounter 0 32 1 = Some 32" "pf_cpm_check_cycle (-1) 32 = 0"
    by (simp_all add: pf_ppm_calculate_next_cyclecounter_def pf_cpm_check_cycle_def Let_def)
  have q: "quiet_env demo_cyclic_env" by (simp add: quiet_env_def demo_cyclic_env_def)
  from cyclic_data_round_trip [OF demo_provides [OF s] demo_find(1) _ _ _ _ _ _ _ _ demo_find(2), where xs = "[7, 8]" and ys = "[0x80]"
      and d = demo_desc and d' = demo_desc and nx = 32 and env = demo_cyclic_env and env' = demo_cyclic_env and p = 5 and t = 1000]
  show ?thesis
    using d cyc q demo_desc_ok demo_consumes [of s PF_IOCR_TYPE_OUTPUT]
    by (intro exI [of _ s]) (simp add: demo_desc_def demo_cyclic_env_def)
qed

end
