(* ===== verification/Device.thy ===== *)
theory Device
  imports Block_Writer_Alarm
begin

unbundle bit_operations_syntax

text \<open>
  The device tree of src/device/pf_cmdev.c: the API instances with their slots and subslots
  and the pool of diagnosis items. A pointer into the tree is a path of indexes. What the
  operations call outside (the alarms of pf_alarm.c and the machine of released submodules) are
  functions of an environment that see the state of the device and change the rest of
  the world.
\<close>

section \<open>The tree\<close>

datatype pnet_submodule_dir = PNET_DIR_NO_IO | PNET_DIR_INPUT | PNET_DIR_OUTPUT | PNET_DIR_IO

record pf_submod_diag_summary =
  sum_maintenance_required :: bool
  sum_maintenance_demanded :: bool
  sum_fault :: bool

record pf_subslot =
  ss_in_use :: bool
  ss_number :: u16
  ss_ident_number :: u32
  ss_owner :: "nat option"
  ss_ownsm_state :: pf_ownsm_state
  length_input :: u16
  length_output :: u16
  ss_direction :: pnet_submodule_dir
  diag_summary :: pf_submod_diag_summary
  diag_list :: u16

record pf_slot =
  sl_in_use :: bool
  sl_number :: u16
  sl_ident_number :: u32
  subslots :: "pf_subslot list"

record pf_api =
  ra_in_use :: bool
  ra_api_id :: u32
  slots :: "pf_slot list"

record pf_device =
  real_ident :: "pf_api list"
  diag_items :: "pf_diag_item list"
  diag_items_free :: u16

definition PF_DIAG_IX_NULL :: u16 where "PF_DIAG_IX_NULL = 0xffff"

text \<open>Cleared memory.\<close>

definition zero_subslot :: pf_subslot where
  "zero_subslot = \<lparr>ss_in_use = False, ss_number = 0, ss_ident_number = 0, ss_owner = None,
     ss_ownsm_state = PF_OWNSM_STATE_FREE, length_input = 0, length_output = 0, ss_direction = PNET_DIR_NO_IO,
     diag_summary = \<lparr>sum_maintenance_required = False, sum_maintenance_demanded = False, sum_fault = False\<rparr>,
     diag_list = 0\<rparr>"

definition zero_slot :: pf_slot where
  "zero_slot = \<lparr>sl_in_use = False, sl_number = 0, sl_ident_number = 0,
     subslots = replicate PNET_MAX_SUBSLOTS zero_subslot\<rparr>"

definition zero_api :: pf_api where
  "zero_api = \<lparr>ra_in_use = False, ra_api_id = 0, slots = replicate PNET_MAX_SLOTS zero_slot\<rparr>"

definition zero_device :: pf_device where
  "zero_device = \<lparr>real_ident = replicate PNET_MAX_API zero_api,
     diag_items = replicate PNET_MAX_DIAG_ITEMS zero_diag_item, diag_items_free = 0\<rparr>"

section \<open>Getters\<close>

definition pf_cmdev_get_api :: "pf_device \<Rightarrow> u32 \<Rightarrow> nat option" where
  "pf_cmdev_get_api dev api = find_index (\<lambda>x. ra_in_use x \<and> ra_api_id x = api) (real_ident dev)"

definition pf_cmdev_get_slot :: "pf_api \<Rightarrow> u16 \<Rightarrow> nat option" where
  "pf_cmdev_get_slot p slot = find_index (\<lambda>x. sl_in_use x \<and> sl_number x = slot) (slots p)"

definition pf_cmdev_get_subslot :: "pf_slot \<Rightarrow> u16 \<Rightarrow> nat option" where
  "pf_cmdev_get_subslot p subslot = find_index (\<lambda>x. ss_in_use x \<and> ss_number x = subslot) (subslots p)"

abbreviation api_at :: "pf_device \<Rightarrow> nat \<Rightarrow> pf_api" where
  "api_at dev i \<equiv> real_ident dev ! i"

abbreviation slot_at :: "pf_device \<Rightarrow> nat \<Rightarrow> nat \<Rightarrow> pf_slot" where
  "slot_at dev i j \<equiv> slots (api_at dev i) ! j"

abbreviation subslot_at :: "pf_device \<Rightarrow> nat \<Rightarrow> nat \<Rightarrow> nat \<Rightarrow> pf_subslot" where
  "subslot_at dev i j k \<equiv> subslots (slot_at dev i j) ! k"

definition pf_cmdev_get_slot_full :: "pf_device \<Rightarrow> u32 \<Rightarrow> u16 \<Rightarrow> (nat \<times> nat) option" where
  "pf_cmdev_get_slot_full dev api slot = do {
     i \<leftarrow> pf_cmdev_get_api dev api;
     j \<leftarrow> pf_cmdev_get_slot (api_at dev i) slot;
     Some (i, j)
   }"

definition pf_cmdev_get_subslot_full :: "pf_device \<Rightarrow> u32 \<Rightarrow> u16 \<Rightarrow> u16 \<Rightarrow> (nat \<times> nat \<times> nat) option" where
  "pf_cmdev_get_subslot_full dev api slot subslot = do {
     i \<leftarrow> pf_cmdev_get_api dev api;
     j \<leftarrow> pf_cmdev_get_slot (api_at dev i) slot;
     k \<leftarrow> pf_cmdev_get_subslot (slot_at dev i j) subslot;
     Some (i, j, k)
   }"

definition pf_cmdev_get_module_ident :: "pf_device \<Rightarrow> u32 \<Rightarrow> u16 \<Rightarrow> u32 option" where
  "pf_cmdev_get_module_ident dev api slot = do {
     (i, j) \<leftarrow> pf_cmdev_get_slot_full dev api slot;
     Some (sl_ident_number (slot_at dev i j))
   }"

definition pf_cmdev_get_submodule_ident :: "pf_device \<Rightarrow> u32 \<Rightarrow> u16 \<Rightarrow> u16 \<Rightarrow> u32 option" where
  "pf_cmdev_get_submodule_ident dev api slot subslot = do {
     (i, j, k) \<leftarrow> pf_cmdev_get_subslot_full dev api slot subslot;
     Some (ss_ident_number (subslot_at dev i j k))
   }"

text \<open>Stores through a path.\<close>

definition upd_api :: "nat \<Rightarrow> (pf_api \<Rightarrow> pf_api) \<Rightarrow> pf_device \<Rightarrow> pf_device" where
  "upd_api i f dev = dev\<lparr>real_ident := (real_ident dev)[i := f (api_at dev i)]\<rparr>"

definition upd_slot :: "nat \<Rightarrow> nat \<Rightarrow> (pf_slot \<Rightarrow> pf_slot) \<Rightarrow> pf_device \<Rightarrow> pf_device" where
  "upd_slot i j f = upd_api i (\<lambda>a. a\<lparr>slots := (slots a)[j := f (slots a ! j)]\<rparr>)"

definition upd_subslot :: "nat \<times> nat \<times> nat \<Rightarrow> (pf_subslot \<Rightarrow> pf_subslot) \<Rightarrow> pf_device \<Rightarrow> pf_device" where
  "upd_subslot p f = (case p of (i, j, k) \<Rightarrow>
     upd_slot i j (\<lambda>s. s\<lparr>subslots := (subslots s)[k := f (subslots s ! k)]\<rparr>))"

section \<open>Diagnosis items\<close>

definition pf_cmdev_get_diag_item :: "pf_device \<Rightarrow> u16 \<Rightarrow> pf_diag_item option" where
  "pf_cmdev_get_diag_item dev ix =
     (if unat ix < length (diag_items dev) then Some (diag_items dev ! unat ix) else None)"

definition upd_item :: "u16 \<Rightarrow> (pf_diag_item \<Rightarrow> pf_diag_item) \<Rightarrow> pf_device \<Rightarrow> pf_device" where
  "upd_item ix f dev = dev\<lparr>diag_items := (diag_items dev)[unat ix := f (diag_items dev ! unat ix)]\<rparr>"

definition pf_cmdev_new_diag :: "pf_device \<Rightarrow> u16 option \<times> pf_device" where
  "pf_cmdev_new_diag dev =
     (let ix = diag_items_free dev in
      if ix \<noteq> PF_DIAG_IX_NULL then
        (Some ix, upd_item ix (\<lambda>_. zero_diag_item\<lparr>di_in_use := True\<rparr>)
           (dev\<lparr>diag_items_free := di_next (diag_items dev ! unat ix)\<rparr>))
      else (None, dev))"

definition pf_cmdev_free_diag :: "u16 \<Rightarrow> pf_device \<Rightarrow> pf_device" where
  "pf_cmdev_free_diag ix dev =
     (if unat ix < length (diag_items dev) then
        (upd_item ix (\<lambda>d. d\<lparr>di_in_use := False, di_next := diag_items_free dev\<rparr>) dev)\<lparr>diag_items_free := ix\<rparr>
      else dev)"

text \<open>A walk along a list of items, which ends only if the list does.\<close>

partial_function (option) next_usi_from :: "pf_device \<Rightarrow> u16 \<Rightarrow> u16 \<Rightarrow> u16 \<Rightarrow> u16 option" where
  "next_usi_from dev low ix res = (case pf_cmdev_get_diag_item dev ix of
       None \<Rightarrow> Some res
     | Some d \<Rightarrow> next_usi_from dev low (di_next d)
         (if di_usi d > low \<and> di_usi d < res then di_usi d else res))"

definition pf_cmdev_get_next_diagnosis_usi :: "pf_device \<Rightarrow> u16 \<Rightarrow> u16 \<Rightarrow> u16 option option" where
  "pf_cmdev_get_next_diagnosis_usi dev list_head low = do {
     res \<leftarrow> next_usi_from dev low list_head 0xffff;
     Some (if res \<noteq> 0xffff then Some res else None)
   }"

section \<open>Expected modules\<close>

definition pf_cmdev_get_exp_api :: "pf_exp_ident \<Rightarrow> u32 \<Rightarrow> pf_exp_api option" where
  "pf_cmdev_get_exp_api e api = List.find (\<lambda>x. ea_api x = api) (take (unat (ei_nbr_apis e)) (ei_api e))"

definition pf_cmdev_get_exp_mod :: "pf_exp_ident \<Rightarrow> u32 \<Rightarrow> u16 \<Rightarrow> pf_exp_module option" where
  "pf_cmdev_get_exp_mod e api slot = do {
     a \<leftarrow> pf_cmdev_get_exp_api e api;
     List.find (\<lambda>x. em_slot_number x = slot) (take (unat (nbr_modules a)) (ea_module a))
   }"

definition pf_cmdev_get_exp_sub :: "pf_exp_ident \<Rightarrow> u32 \<Rightarrow> u16 \<Rightarrow> u16 \<Rightarrow> pf_exp_submodule option" where
  "pf_cmdev_get_exp_sub e api slot subslot = do {
     m \<leftarrow> pf_cmdev_get_exp_mod e api slot;
     List.find (\<lambda>x. es_subslot_number x = subslot) (take (unat (nbr_submodules m)) (submodule m))
   }"

end
