(* ===== verification/Device_Ops.thy ===== *)
theory Device_Ops
  imports Device
begin

unbundle bit_operations_syntax

text \<open>
  Plugging and pulling of modules and submodules (src/device/pf_cmdev.c), the start of the
  device tree and what an aborted AR leaves behind. The state has the tree, the ARs in the
  order of the list of CMRPC with their expected identifications, and the rest of the world,
  which the calls of the environment change.
\<close>

section \<open>State\<close>

record 'w dev_net =
  d_device :: pf_device
  d_ars :: "nat list"
  d_exp_ident :: "nat \<Rightarrow> pf_exp_ident"
  d_world :: 'w

type_synonym 'w dcall = "pf_device \<Rightarrow> 'w \<Rightarrow> int \<times> 'w"

record 'w dev_env =
  de_send_pull :: "nat \<Rightarrow> u32 \<Rightarrow> u16 \<Rightarrow> u16 \<Rightarrow> 'w dcall"
  de_send_plug :: "nat \<Rightarrow> u32 \<Rightarrow> u16 \<Rightarrow> u16 \<Rightarrow> u32 \<Rightarrow> u32 \<Rightarrow> 'w dcall"
  de_send_plug_wrong :: "nat \<Rightarrow> u32 \<Rightarrow> u16 \<Rightarrow> u16 \<Rightarrow> u32 \<Rightarrow> u32 \<Rightarrow> 'w dcall"
  de_released :: "nat \<Rightarrow> u32 \<Rightarrow> u16 \<Rightarrow> u16 \<Rightarrow> u32 \<Rightarrow> u32 \<Rightarrow> 'w dcall"
  de_send_diagnosis :: "nat \<Rightarrow> u32 \<Rightarrow> u16 \<Rightarrow> u16 \<Rightarrow> pf_diag_item \<Rightarrow> 'w dcall"
  de_send_usi_disappears :: "nat \<Rightarrow> u32 \<Rightarrow> u16 \<Rightarrow> u16 \<Rightarrow> u16 \<Rightarrow> 'w dcall"
  de_problem_indicator :: "nat \<Rightarrow> bool \<Rightarrow> 'w dcall"

definition upd_dev :: "(pf_device \<Rightarrow> pf_device) \<Rightarrow> 'w dev_net \<Rightarrow> 'w dev_net" where
  "upd_dev f n = n\<lparr>d_device := f (d_device n)\<rparr>"

definition dcall :: "'w dcall \<Rightarrow> 'w dev_net \<Rightarrow> int \<times> 'w dev_net" where
  "dcall f n = (fst (f (d_device n) (d_world n)), n\<lparr>d_world := snd (f (d_device n) (d_world n))\<rparr>)"

section \<open>New entries\<close>

text \<open>The result is the path of the new entry, or nothing if it exists or there is no room.\<close>

definition pf_cmdev_new_api :: "u32 \<Rightarrow> pf_device \<Rightarrow> nat option \<times> pf_device" where
  "pf_cmdev_new_api api dev =
     (if pf_cmdev_get_api dev api \<noteq> None then (None, dev)
      else case find_index (\<lambda>x. \<not> ra_in_use x) (real_ident dev) of None \<Rightarrow> (None, dev)
        | Some i \<Rightarrow> (Some i, upd_api i (\<lambda>_. zero_api\<lparr>ra_api_id := api, ra_in_use := True\<rparr>) dev))"

definition pf_cmdev_new_slot :: "nat \<Rightarrow> u16 \<Rightarrow> pf_device \<Rightarrow> nat option \<times> pf_device" where
  "pf_cmdev_new_slot i slot dev =
     (if pf_cmdev_get_slot (api_at dev i) slot \<noteq> None then (None, dev)
      else case find_index (\<lambda>x. \<not> sl_in_use x) (slots (api_at dev i)) of None \<Rightarrow> (None, dev)
        | Some j \<Rightarrow> (Some j, upd_slot i j (\<lambda>_. zero_slot\<lparr>sl_number := slot, sl_in_use := True\<rparr>) dev))"

definition pf_cmdev_new_subslot :: "nat \<Rightarrow> nat \<Rightarrow> u16 \<Rightarrow> pf_device \<Rightarrow> nat option \<times> pf_device" where
  "pf_cmdev_new_subslot i j subslot dev =
     (if pf_cmdev_get_subslot (slot_at dev i j) subslot \<noteq> None then (None, dev)
      else case find_index (\<lambda>x. \<not> ss_in_use x) (subslots (slot_at dev i j)) of None \<Rightarrow> (None, dev)
        | Some k \<Rightarrow> (Some k, upd_subslot (i, j, k)
            (\<lambda>_. zero_subslot\<lparr>ss_number := subslot, diag_list := PF_DIAG_IX_NULL, ss_in_use := True\<rparr>) dev))"

text \<open>The free list of the start has all items, in the order of the pool.\<close>

definition chained_items :: "pf_diag_item list" where
  "chained_items = map (\<lambda>k. zero_diag_item\<lparr>di_next :=
     if k + 1 < PNET_MAX_DIAG_ITEMS then of_nat (k + 1) else PF_DIAG_IX_NULL\<rparr>) [0..<PNET_MAX_DIAG_ITEMS]"

definition pf_cmdev_init :: "'w dev_net \<Rightarrow> 'w dev_net" where
  "pf_cmdev_init n = n\<lparr>d_device :=
     snd (pf_cmdev_new_api 0 (zero_device\<lparr>diag_items := chained_items, diag_items_free := 0\<rparr>))\<rparr>"

definition pf_cmdev_exit :: "'w dev_net \<Rightarrow> 'w dev_net" where
  "pf_cmdev_exit n = n\<lparr>d_device := zero_device\<rparr>"

section \<open>Plug and pull\<close>

definition pf_cmdev_plug_module :: "u32 \<Rightarrow> u16 \<Rightarrow> u32 \<Rightarrow> 'w dev_net \<Rightarrow> int \<times> 'w dev_net" where
  "pf_cmdev_plug_module api slot ident n =
     (case pf_cmdev_get_api (d_device n) api of None \<Rightarrow> (-1, n)
      | Some i \<Rightarrow> (case pf_cmdev_get_slot (api_at (d_device n) i) slot of
            Some j \<Rightarrow> (if sl_ident_number (slot_at (d_device n) i j) = ident then (0, n) else (-1, n))
          | None \<Rightarrow> (case pf_cmdev_new_slot i slot (d_device n) of
                (None, dev) \<Rightarrow> (-1, n\<lparr>d_device := dev\<rparr>)
              | (Some j, dev) \<Rightarrow>
                  (0, n\<lparr>d_device := upd_slot i j (\<lambda>s. s\<lparr>sl_ident_number := ident\<rparr>) dev\<rparr>))))"

definition is_owned :: "pf_subslot \<Rightarrow> bool" where
  "is_owned s \<longleftrightarrow> ss_ownsm_state s = PF_OWNSM_STATE_IOC \<or> ss_ownsm_state s = PF_OWNSM_STATE_IOS"

text \<open>The result is 0 only if there is an owner to tell.\<close>

definition pf_cmdev_pull_submodule ::
    "'w dev_env \<Rightarrow> u32 \<Rightarrow> u16 \<Rightarrow> u16 \<Rightarrow> 'w dev_net \<Rightarrow> (int \<times> 'w dev_net) option" where
  "pf_cmdev_pull_submodule env api slot subslot n =
     (case pf_cmdev_get_subslot_full (d_device n) api slot subslot of None \<Rightarrow> Some (-1, n)
      | Some (i, j, k) \<Rightarrow>
          (let s = subslot_at (d_device n) i j k;
               n = upd_dev (upd_subslot (i, j, k) (\<lambda>s. s\<lparr>ss_in_use := False\<rparr>)) n
           in if is_owned s then do {
                a \<leftarrow> ss_owner s;
                Some (dcall (de_send_pull env a api slot subslot) n)
              } else Some (-1, n)))"

fun pull_submodules ::
    "'w dev_env \<Rightarrow> u32 \<Rightarrow> u16 \<Rightarrow> nat \<Rightarrow> nat \<Rightarrow> nat list \<Rightarrow> 'w dev_net \<Rightarrow> (int \<times> 'w dev_net) option" where
  "pull_submodules env api slot i j [] n = Some (0, n)"
| "pull_submodules env api slot i j (k # ks) n =
     (let s = subslot_at (d_device n) i j k in
      if ss_in_use s then do {
        (r, n) \<leftarrow> pf_cmdev_pull_submodule env api slot (ss_number s) n;
        (if r \<noteq> 0 then Some (-1, n) else pull_submodules env api slot i j ks n)
      } else pull_submodules env api slot i j ks n)"

definition pf_cmdev_pull_module ::
    "'w dev_env \<Rightarrow> u32 \<Rightarrow> u16 \<Rightarrow> 'w dev_net \<Rightarrow> (int \<times> 'w dev_net) option" where
  "pf_cmdev_pull_module env api slot n =
     (case pf_cmdev_get_slot_full (d_device n) api slot of None \<Rightarrow> Some (-1, n)
      | Some (i, j) \<Rightarrow> do {
          (r, n) \<leftarrow> pull_submodules env api slot i j [0..<PNET_MAX_SUBSLOTS] n;
          Some (r, if r = 0 then upd_dev (upd_slot i j (\<lambda>s. s\<lparr>sl_in_use := False\<rparr>)) n else n)
        })"

text \<open>The first AR that expects a submodule in the subslot becomes its owner.\<close>

definition expecting_ar :: "'w dev_net \<Rightarrow> u32 \<Rightarrow> u16 \<Rightarrow> u16 \<Rightarrow> nat option" where
  "expecting_ar n api slot subslot =
     List.find (\<lambda>a. pf_cmdev_get_exp_sub (d_exp_ident n a) api slot subslot \<noteq> None) (d_ars n)"

definition assign_owner ::
    "'w dev_env \<Rightarrow> u32 \<Rightarrow> u16 \<Rightarrow> u16 \<Rightarrow> u32 \<Rightarrow> u32 \<Rightarrow> nat \<times> nat \<times> nat \<Rightarrow> 'w dev_net \<Rightarrow> int \<times> 'w dev_net" where
  "assign_owner env api slot subslot mident sident p n =
     (case expecting_ar n api slot subslot of None \<Rightarrow> (0, n)
      | Some a \<Rightarrow>
          (let n = upd_dev (upd_subslot p (\<lambda>s. s\<lparr>ss_ownsm_state := PF_OWNSM_STATE_IOC, ss_owner := Some a\<rparr>)) n
           in if map_option es_ident_number (pf_cmdev_get_exp_sub (d_exp_ident n a) api slot subslot) = Some sident
              then dcall (de_send_plug env a api slot subslot mident sident) n
              else dcall (de_send_plug_wrong env a api slot subslot mident sident) n))"

text \<open>
  First the module is plugged if it is missing, and a submodule that is there is pulled, or found
  to be the one that is plugged.
\<close>

definition plug_make_room ::
    "'w dev_env \<Rightarrow> nat \<Rightarrow> u32 \<Rightarrow> u16 \<Rightarrow> u16 \<Rightarrow> u32 \<Rightarrow> u32 \<Rightarrow> bool \<Rightarrow> 'w dev_net \<Rightarrow> (bool \<times> 'w dev_net) option" where
  "plug_make_room env i api slot subslot mident sident update n =
     (case pf_cmdev_get_slot (api_at (d_device n) i) slot of
        None \<Rightarrow> Some (False, snd (pf_cmdev_plug_module api slot mident n))
      | Some j \<Rightarrow> (case pf_cmdev_get_subslot (slot_at (d_device n) i j) subslot of
            None \<Rightarrow> Some (False, n)
          | Some k \<Rightarrow> if update then map_option (\<lambda>(_, n). (False, n)) (pf_cmdev_pull_submodule env api slot subslot n)
              else Some (ss_ident_number (subslot_at (d_device n) i j k) = sident, n)))"

definition pf_cmdev_plug_submodule ::
    "'w dev_env \<Rightarrow> u32 \<Rightarrow> u16 \<Rightarrow> u16 \<Rightarrow> u32 \<Rightarrow> u32 \<Rightarrow> pnet_submodule_dir \<Rightarrow> u16 \<Rightarrow> u16 \<Rightarrow> bool \<Rightarrow>
     'w dev_net \<Rightarrow> (int \<times> 'w dev_net) option" where
  "pf_cmdev_plug_submodule env api slot subslot mident sident dir len_in len_out update n =
     (case pf_cmdev_get_api (d_device n) api of None \<Rightarrow> Some (-1, n)
      | Some i \<Rightarrow> do {
          (already_plugged, n) \<leftarrow> plug_make_room env i api slot subslot mident sident update n;
          (if already_plugged then Some (0, n)
           else case pf_cmdev_get_slot (api_at (d_device n) i) slot of None \<Rightarrow> Some (-1, n)
             | Some j \<Rightarrow> (case pf_cmdev_new_subslot i j subslot (d_device n) of
                   (None, dev) \<Rightarrow> Some (-1, n\<lparr>d_device := dev\<rparr>)
                 | (Some k, dev) \<Rightarrow> Some (assign_owner env api slot subslot mident sident (i, j, k)
                     (n\<lparr>d_device := upd_subslot (i, j, k) (\<lambda>s. s\<lparr>ss_ident_number := sident, ss_direction := dir,
                         length_input := len_in, length_output := len_out,
                         ss_ownsm_state := PF_OWNSM_STATE_FREE, ss_owner := None\<rparr>) dev\<rparr>))))
        })"

section \<open>An aborted AR\<close>

text \<open>
  The subslots of the AR go to the first AR that expects a module and a submodule there; it
  is told if they are the right ones.
\<close>

definition next_owner :: "'w dev_net \<Rightarrow> u32 \<Rightarrow> u16 \<Rightarrow> u16 \<Rightarrow> nat option" where
  "next_owner n api slot subslot =
     List.find (\<lambda>a. pf_cmdev_get_exp_mod (d_exp_ident n a) api slot \<noteq> None \<and>
       pf_cmdev_get_exp_sub (d_exp_ident n a) api slot subslot \<noteq> None) (d_ars n)"

definition clear_subslot :: "'w dev_env \<Rightarrow> nat \<Rightarrow> nat \<times> nat \<times> nat \<Rightarrow> 'w dev_net \<Rightarrow> 'w dev_net" where
  "clear_subslot env a p n = (case p of (i, j, k) \<Rightarrow>
     (let x = api_at (d_device n) i; y = slot_at (d_device n) i j; z = subslot_at (d_device n) i j k in
      if is_owned z \<and> ss_owner z = Some a then
        (let n = upd_dev (upd_subslot p (\<lambda>s. s\<lparr>ss_ownsm_state := PF_OWNSM_STATE_FREE, ss_owner := None\<rparr>)) n
         in case next_owner n (ra_api_id x) (sl_number y) (ss_number z) of None \<Rightarrow> n
           | Some b \<Rightarrow>
               (let n = upd_dev (upd_subslot p (\<lambda>s. s\<lparr>ss_ownsm_state := PF_OWNSM_STATE_IOC, ss_owner := Some b\<rparr>)) n
                in if map_option em_ident_number (pf_cmdev_get_exp_mod (d_exp_ident n b) (ra_api_id x) (sl_number y))
                        = Some (sl_ident_number y) \<and>
                      map_option es_ident_number
                        (pf_cmdev_get_exp_sub (d_exp_ident n b) (ra_api_id x) (sl_number y) (ss_number z))
                        = Some (ss_ident_number z)
                   then snd (dcall (de_released env b (ra_api_id x) (sl_number y) (ss_number z)
                          (sl_ident_number y) (ss_ident_number z)) n)
                   else n))
      else n))"

definition subslot_paths :: "(nat \<times> nat \<times> nat) list" where
  "subslot_paths = List.product [0..<PNET_MAX_API] (List.product [0..<PNET_MAX_SLOTS] [0..<PNET_MAX_SUBSLOTS])"

definition pf_device_clear :: "'w dev_env \<Rightarrow> nat \<Rightarrow> 'w dev_net \<Rightarrow> 'w dev_net" where
  "pf_device_clear env a n = fold (clear_subslot env a) subslot_paths n"

end
