(* ===== verification/Diag.thy ===== *)
theory Diag
  imports Device_Ops Alarm
begin

unbundle bit_operations_syntax

text \<open>
  The diagnosis store (src/device/pf_diag.c). Every subslot has a list of diagnosis items,
  linked through the pool of the device. An item is found by its manufacturer USI, or in the
  standard format by channel and error type; adding one that exists replaces it, and every
  change is reported by an alarm to the AR that owns the subslot. The walks along a list are
  partial functions.
\<close>

section \<open>Channel properties\<close>

definition set_prop :: "u16 \<Rightarrow> nat \<Rightarrow> u16 \<Rightarrow> u16 \<Rightarrow> u16" where
  "set_prop m pos v x = (x AND NOT m) OR push_bit pos v"

definition PF_DIAG_CH_PROP_TYPE_SET :: "u16 \<Rightarrow> u16 \<Rightarrow> u16" where
  "PF_DIAG_CH_PROP_TYPE_SET = set_prop 0x00ff 0"
definition PF_DIAG_CH_PROP_ACC_SET :: "u16 \<Rightarrow> u16 \<Rightarrow> u16" where
  "PF_DIAG_CH_PROP_ACC_SET = set_prop 0x0100 8"
definition PF_DIAG_CH_PROP_MAINT_SET :: "u16 \<Rightarrow> u16 \<Rightarrow> u16" where
  "PF_DIAG_CH_PROP_MAINT_SET = set_prop 0x0600 9"
definition PF_DIAG_CH_PROP_SPEC_SET :: "u16 \<Rightarrow> u16 \<Rightarrow> u16" where
  "PF_DIAG_CH_PROP_SPEC_SET = set_prop 0x1800 11"
definition PF_DIAG_CH_PROP_DIR_SET :: "u16 \<Rightarrow> u16 \<Rightarrow> u16" where
  "PF_DIAG_CH_PROP_DIR_SET = set_prop 0xe000 13"
definition PF_DIAG_CH_PROP_ACC_GET :: "u16 \<Rightarrow> u16" where
  "PF_DIAG_CH_PROP_ACC_GET x = drop_bit 8 (x AND 0x0100)"
definition PF_DIAG_CH_PROP_DIR_GET :: "u16 \<Rightarrow> u16" where
  "PF_DIAG_CH_PROP_DIR_GET x = drop_bit 13 (x AND 0xe000)"

definition PF_DIAG_CH_PROP_SPEC_ALL_DISAPPEARS :: u16 where "PF_DIAG_CH_PROP_SPEC_ALL_DISAPPEARS = 0"
definition PF_DIAG_CH_PROP_SPEC_DISAPPEARS :: u16 where "PF_DIAG_CH_PROP_SPEC_DISAPPEARS = 2"
definition PF_DIAG_CH_PROP_SPEC_DIS_OTHERS_REMAIN :: u16 where
  "PF_DIAG_CH_PROP_SPEC_DIS_OTHERS_REMAIN = 3"
definition PNET_DIAG_CH_INDIVIDUAL_CHANNEL :: u16 where "PNET_DIAG_CH_INDIVIDUAL_CHANNEL = 0"
definition PNET_DIAG_CH_CHANNEL_GROUP :: u16 where "PNET_DIAG_CH_CHANNEL_GROUP = 1"
definition PNET_DIAG_CH_PROP_DIR_MANUF_SPEC :: u16 where "PNET_DIAG_CH_PROP_DIR_MANUF_SPEC = 0"
definition PNET_DIAG_CH_PROP_TYPE_UNSPECIFIED :: u16 where "PNET_DIAG_CH_PROP_TYPE_UNSPECIFIED = 0"
definition PNET_CHANNEL_WHOLE_SUBMODULE :: u16 where "PNET_CHANNEL_WHOLE_SUBMODULE = 0x8000"
definition PF_USI_ALARM_MULTIPLE :: u16 where "PF_USI_ALARM_MULTIPLE = 0x8001"

record pnet_diag_source =
  src_api :: u32
  src_slot :: u16
  src_subslot :: u16
  src_ch :: u16
  ch_grouping :: u16
  ch_direction :: u16

section \<open>Summaries of a subslot\<close>

definition is_fault_item :: "pf_diag_item \<Rightarrow> bool" where
  "is_fault_item d \<longleftrightarrow> di_in_use d \<and> (di_usi d < PF_USI_CHANNEL_DIAGNOSIS \<or>
     PF_DIAG_CH_PROP_MAINT_GET (ch_properties (fmt_std (di_fmt d))) = PNET_DIAG_CH_PROP_MAINT_FAULT)"

partial_function (option) problem_from :: "pf_device \<Rightarrow> u16 \<Rightarrow> bool \<Rightarrow> bool option" where
  "problem_from dev ix res = (case pf_cmdev_get_diag_item dev ix of
       None \<Rightarrow> Some res
     | Some d \<Rightarrow> problem_from dev (di_next d) (is_fault_item d \<or> res))"

definition pf_diag_update_station_problem_indicator ::
    "'w dev_env \<Rightarrow> nat \<Rightarrow> pf_subslot \<Rightarrow> 'w dev_net \<Rightarrow> 'w dev_net option" where
  "pf_diag_update_station_problem_indicator env a s n = do {
     is_problem \<leftarrow> problem_from (d_device n) (diag_list s) False;
     Some (snd (dcall (de_problem_indicator env a is_problem) n))
   }"

text \<open>The AR decides only about the diagnosis bit of the AR, which is not looked at here.\<close>

definition alarm_view :: "pf_subslot \<Rightarrow> alarm_subslot" where
  "alarm_view s = \<lparr>ownsm_ioc_or_ios = is_owned s, sub_owner = ss_owner s, sub_diag_list = diag_list s\<rparr>"

definition add_to_diag_summary :: "pnet_alarm_spec \<times> u32 \<Rightarrow> pf_submod_diag_summary \<Rightarrow> pf_submod_diag_summary" where
  "add_to_diag_summary sm su = (case sm of (spec, maint) \<Rightarrow>
     \<lparr>sum_maintenance_required = (sum_maintenance_required su \<or> bit maint 0),
      sum_maintenance_demanded = (sum_maintenance_demanded su \<or> bit maint 1),
      sum_fault = (sum_fault su \<or> submodule_diagnosis spec)\<rparr>)"

partial_function (option) diag_summary_from ::
    "pf_device \<Rightarrow> alarm_subslot \<Rightarrow> u16 \<Rightarrow> pnet_alarm_spec \<times> u32 \<Rightarrow> pf_submod_diag_summary \<Rightarrow> pf_submod_diag_summary option"
  where
  "diag_summary_from dev s ix sm su = (case pf_cmdev_get_diag_item dev ix of
       None \<Rightarrow> Some su
     | Some d \<Rightarrow>
         if di_in_use d then
           (let sm' = pf_alarm_add_diag_item_to_summary 0 s d sm
            in diag_summary_from dev s (di_next d) sm' (add_to_diag_summary sm' su))
         else diag_summary_from dev s (di_next d) sm su)"

definition pf_diag_update_submodule_state :: "nat \<times> nat \<times> nat \<Rightarrow> pf_device \<Rightarrow> pf_device option" where
  "pf_diag_update_submodule_state p dev = (case p of (i, j, k) \<Rightarrow> do {
     su \<leftarrow> diag_summary_from dev (alarm_view (subslot_at dev i j k)) (diag_list (subslot_at dev i j k))
              (no_diagnosis, 0) (diag_summary zero_subslot);
     Some (upd_subslot p (\<lambda>s. s\<lparr>diag_summary := su\<rparr>) dev)
   })"

section \<open>Finding an item\<close>

definition item_matches :: "pnet_diag_source \<Rightarrow> u16 \<Rightarrow> u16 \<Rightarrow> u16 \<Rightarrow> pf_diag_item \<Rightarrow> bool" where
  "item_matches src err ext usi d =
     (if di_usi d \<ge> PF_USI_CHANNEL_DIAGNOSIS then
        (let f = fmt_std (di_fmt d) in
         ch_nbr f = src_ch src \<and> ch_error_type f = err \<and> ext_ch_error_type f = ext \<and>
         PF_DIAG_CH_PROP_ACC_GET (ch_properties f) = ch_grouping src \<and>
         PF_DIAG_CH_PROP_DIR_GET (ch_properties f) = ch_direction src)
      else di_usi d = usi)"

text \<open>The item that matches, with the one before it.\<close>

partial_function (option) find_item ::
    "(pf_diag_item \<Rightarrow> bool) \<Rightarrow> pf_device \<Rightarrow> u16 \<Rightarrow> u16 \<Rightarrow> (u16 \<times> u16) option option" where
  "find_item P dev prev ix = (case pf_cmdev_get_diag_item dev ix of
       None \<Rightarrow> Some None
     | Some d \<Rightarrow> if P d then Some (Some (prev, ix)) else find_item P dev ix (di_next d))"

definition unlink_item :: "nat \<times> nat \<times> nat \<Rightarrow> u16 \<Rightarrow> u16 \<Rightarrow> pf_device \<Rightarrow> pf_device" where
  "unlink_item p prev ix dev =
     (let nxt = di_next (diag_items dev ! unat ix) in
      if prev \<noteq> PF_DIAG_IX_NULL then upd_item prev (\<lambda>d. d\<lparr>di_next := nxt\<rparr>) dev
      else upd_subslot p (\<lambda>s. s\<lparr>diag_list := nxt\<rparr>) dev)"

definition pf_diag_find_entry ::
    "pnet_diag_source \<Rightarrow> u16 \<Rightarrow> u16 \<Rightarrow> u16 \<Rightarrow> pf_device \<Rightarrow> ((nat \<times> nat \<times> nat) option \<times> u16 \<times> pf_device) option" where
  "pf_diag_find_entry src err ext usi dev =
     (case pf_cmdev_get_subslot_full dev (src_api src) (src_slot src) (src_subslot src) of
        None \<Rightarrow> Some (None, PF_DIAG_IX_NULL, dev)
      | Some (i, j, k) \<Rightarrow> do {
          r \<leftarrow> find_item (item_matches src err ext usi) dev PF_DIAG_IX_NULL (diag_list (subslot_at dev i j k));
          Some (case r of None \<Rightarrow> (Some (i, j, k), PF_DIAG_IX_NULL, dev)
                | Some (prev, ix) \<Rightarrow> (Some (i, j, k), ix, unlink_item (i, j, k) prev ix dev))
        })"

section \<open>Adding\<close>

definition bad_usi :: "u16 \<Rightarrow> bool" where
  "bad_usi usi \<longleftrightarrow> usi > PF_USI_QUALIFIED_CHANNEL_DIAGNOSIS \<or> usi = PF_USI_ALARM_MULTIPLE"

definition bad_manuf_data :: "u16 \<Rightarrow> u16 \<Rightarrow> u8 list option \<Rightarrow> bool" where
  "bad_manuf_data usi len data \<longleftrightarrow>
     usi \<ge> PF_USI_CHANNEL_DIAGNOSIS \<and> (data \<noteq> None \<or> len \<noteq> 0) \<or>
     len > 0 \<and> data = None \<or> unat len > PNET_MAX_DIAG_MANUF_DATA_SIZE"

definition diag_add_refused ::
    "pnet_diag_source \<Rightarrow> u16 \<Rightarrow> u16 \<Rightarrow> u16 \<Rightarrow> u32 \<Rightarrow> u32 \<Rightarrow> u16 \<Rightarrow> u16 \<Rightarrow> u8 list option \<Rightarrow> bool" where
  "diag_add_refused src severity err ext add_value qualifier usi len data \<longleftrightarrow>
     bad_usi usi \<or>
     usi < PF_USI_CHANNEL_DIAGNOSIS \<and> err \<noteq> 0 \<or>
     usi \<le> PF_USI_CHANNEL_DIAGNOSIS \<and> ext \<noteq> 0 \<or>
     usi \<le> PF_USI_CHANNEL_DIAGNOSIS \<and> add_value \<noteq> 0 \<or>
     usi \<noteq> PF_USI_QUALIFIED_CHANNEL_DIAGNOSIS \<and> qualifier \<noteq> 0 \<or>
     usi \<noteq> PF_USI_QUALIFIED_CHANNEL_DIAGNOSIS \<and> severity = PNET_DIAG_CH_PROP_MAINT_QUALIFIED \<or>
     qualifier \<noteq> 0 \<and> severity \<noteq> PNET_DIAG_CH_PROP_MAINT_QUALIFIED \<or>
     bad_manuf_data usi len data \<or> src_ch src > PNET_CHANNEL_WHOLE_SUBMODULE"

text \<open>The manufacturer data of the union, which is overwritten as far as the new data go.\<close>

fun manuf_bytes :: "diag_fmt \<Rightarrow> u8 list" where
  "manuf_bytes (Fmt_std d) = replicate PNET_MAX_DIAG_MANUF_DATA_SIZE 0"
| "manuf_bytes (Fmt_usi n m) = m"

definition set_manuf_data :: "u16 \<Rightarrow> u8 list option \<Rightarrow> diag_fmt \<Rightarrow> diag_fmt" where
  "set_manuf_data len data f =
     (let m = manuf_bytes f; xs = (case data of None \<Rightarrow> [] | Some xs \<Rightarrow> take (unat len) xs)
      in Fmt_usi (unat len) (xs @ drop (length xs) m))"

definition diag_properties :: "pnet_diag_source \<Rightarrow> u16 \<Rightarrow> u16 \<Rightarrow> u16" where
  "diag_properties src ch_bits severity =
     PF_DIAG_CH_PROP_SPEC_SET PF_DIAG_CH_PROP_SPEC_APPEARS
     (PF_DIAG_CH_PROP_DIR_SET (ch_direction src)
     (PF_DIAG_CH_PROP_MAINT_SET severity
     (PF_DIAG_CH_PROP_ACC_SET (of_bool (ch_grouping src = PNET_DIAG_CH_CHANNEL_GROUP))
     (PF_DIAG_CH_PROP_TYPE_SET ch_bits 0))))"

definition new_item_fmt ::
    "pnet_diag_source \<Rightarrow> u16 \<Rightarrow> u16 \<Rightarrow> u16 \<Rightarrow> u16 \<Rightarrow> u32 \<Rightarrow> u32 \<Rightarrow> u16 \<Rightarrow> u16 \<Rightarrow> u8 list option \<Rightarrow> diag_fmt \<Rightarrow> diag_fmt" where
  "new_item_fmt src ch_bits severity err ext add_value qualifier usi len data f =
     (if usi < PF_USI_CHANNEL_DIAGNOSIS then set_manuf_data len data f
      else Fmt_std \<lparr>ext_ch_add_value = add_value, qual_ch_qualifier = qualifier, ch_nbr = src_ch src,
             ch_properties = diag_properties src ch_bits severity, ch_error_type = err, ext_ch_error_type = ext\<rparr>)"

definition link_item :: "nat \<times> nat \<times> nat \<Rightarrow> u16 \<Rightarrow> pf_device \<Rightarrow> pf_device" where
  "link_item p ix dev = (case p of (i, j, k) \<Rightarrow>
     upd_subslot p (\<lambda>s. s\<lparr>diag_list := ix\<rparr>)
       (upd_item ix (\<lambda>d. d\<lparr>di_next := diag_list (subslot_at dev i j k)\<rparr>) dev))"

text \<open>Setting the specifier of an item; a store to the standard member of the union.\<close>

definition upd_std :: "(pf_diag_std \<Rightarrow> pf_diag_std) \<Rightarrow> pf_diag_item \<Rightarrow> pf_diag_item" where
  "upd_std f d = d\<lparr>di_fmt := Fmt_std (f (fmt_std (di_fmt d)))\<rparr>"

definition set_spec :: "u16 \<Rightarrow> pf_diag_item \<Rightarrow> pf_diag_item" where
  "set_spec v = upd_std (\<lambda>f. f\<lparr>ch_properties := PF_DIAG_CH_PROP_SPEC_SET v (ch_properties f)\<rparr>)"

text \<open>
  What follows when an item has been changed: the summary of the subslot, the alarm and the
  problem indicator, and for an item that replaced one in the standard format an alarm that the
  old one disappears.
\<close>

definition report_change ::
    "'w dev_env \<Rightarrow> pnet_diag_source \<Rightarrow> nat \<times> nat \<times> nat \<Rightarrow> u16 \<Rightarrow> pf_diag_item option \<Rightarrow> 'w dev_net \<Rightarrow> (int \<times> 'w dev_net) option"
  where
  "report_change env src p ix old n = (case p of (i, j, k) \<Rightarrow> do {
     dev \<leftarrow> pf_diag_update_submodule_state p (d_device n);
     let n = n\<lparr>d_device := dev\<rparr>;
     let s = subslot_at dev i j k;
     (if is_owned s then do {
        a \<leftarrow> ss_owner s;
        let (ret, n) = dcall (de_send_diagnosis env a (src_api src) (src_slot src) (src_subslot src)
                               (diag_items dev ! unat ix)) n;
        n \<leftarrow> pf_diag_update_station_problem_indicator env a s n;
        Some (case old of
            Some d \<Rightarrow> if di_usi d \<ge> PF_USI_CHANNEL_DIAGNOSIS
              then dcall (de_send_diagnosis env a (src_api src) (src_slot src) (src_subslot src)
                     (set_spec PF_DIAG_CH_PROP_SPEC_DIS_OTHERS_REMAIN d)) n
              else (ret, n)
          | None \<Rightarrow> (ret, n))
      } else Some (-1, n))
   })"

definition pf_diag_add ::
    "'w dev_env \<Rightarrow> pnet_diag_source \<Rightarrow> u16 \<Rightarrow> u16 \<Rightarrow> u16 \<Rightarrow> u16 \<Rightarrow> u32 \<Rightarrow> u32 \<Rightarrow> u16 \<Rightarrow> u16 \<Rightarrow> u8 list option \<Rightarrow>
     'w dev_net \<Rightarrow> (int \<times> 'w dev_net) option" where
  "pf_diag_add env src ch_bits severity err ext add_value qualifier usi len data n =
     (let qualifier = qualifier AND PF_DIAG_QUALIFIED_SEVERITY_MASK in
      if diag_add_refused src severity err ext add_value qualifier usi len data then Some (-1, n)
      else do {
        (p, ix, dev) \<leftarrow> pf_diag_find_entry src err ext usi (d_device n);
        (case p of None \<Rightarrow> Some (-1, n\<lparr>d_device := dev\<rparr>)
         | Some p \<Rightarrow>
             (let (item, dev') = (if ix = PF_DIAG_IX_NULL then pf_cmdev_new_diag dev else (Some ix, dev)) in
              case item of None \<Rightarrow> Some (-1, n\<lparr>d_device := dev'\<rparr>)
              | Some ix' \<Rightarrow> (case pf_cmdev_get_diag_item dev' ix' of
                    None \<Rightarrow> Some (-1, n\<lparr>d_device := dev'\<rparr>)
                  | Some old \<Rightarrow>
                      report_change env src p ix' (if ix = PF_DIAG_IX_NULL then None else Some old)
                        (n\<lparr>d_device := link_item p ix'
                           (upd_item ix' (\<lambda>d. d\<lparr>di_usi := usi, di_fmt := new_item_fmt src ch_bits severity err ext
                              add_value qualifier usi len data (di_fmt d)\<rparr>) dev')\<rparr>))))
      })"

section \<open>Updating\<close>

definition diag_update_refused ::
    "pnet_diag_source \<Rightarrow> u16 \<Rightarrow> u16 \<Rightarrow> u32 \<Rightarrow> u16 \<Rightarrow> u16 \<Rightarrow> u8 list option \<Rightarrow> bool" where
  "diag_update_refused src err ext add_value usi len data \<longleftrightarrow>
     bad_usi usi \<or>
     usi < PF_USI_CHANNEL_DIAGNOSIS \<and> err \<noteq> 0 \<or>
     usi \<le> PF_USI_CHANNEL_DIAGNOSIS \<and> ext \<noteq> 0 \<or>
     usi \<le> PF_USI_CHANNEL_DIAGNOSIS \<and> add_value \<noteq> 0 \<or>
     bad_manuf_data usi len data \<or> src_ch src > PNET_CHANNEL_WHOLE_SUBMODULE"

definition updated_item :: "u32 \<Rightarrow> u16 \<Rightarrow> u8 list option \<Rightarrow> pf_diag_item \<Rightarrow> pf_diag_item" where
  "updated_item add_value len data d =
     (if di_usi d < PF_USI_CHANNEL_DIAGNOSIS then d\<lparr>di_fmt := set_manuf_data len data (di_fmt d)\<rparr>
      else upd_std (\<lambda>f. f\<lparr>ext_ch_add_value := add_value\<rparr>) (set_spec PF_DIAG_CH_PROP_SPEC_APPEARS d))"

definition pf_diag_update ::
    "'w dev_env \<Rightarrow> pnet_diag_source \<Rightarrow> u16 \<Rightarrow> u16 \<Rightarrow> u32 \<Rightarrow> u16 \<Rightarrow> u16 \<Rightarrow> u8 list option \<Rightarrow>
     'w dev_net \<Rightarrow> (int \<times> 'w dev_net) option" where
  "pf_diag_update env src err ext add_value usi len data n =
     (if diag_update_refused src err ext add_value usi len data then Some (-1, n)
      else do {
        (p, ix, dev) \<leftarrow> pf_diag_find_entry src err ext usi (d_device n);
        (case p of None \<Rightarrow> Some (-1, n\<lparr>d_device := dev\<rparr>)
         | Some p \<Rightarrow> (case pf_cmdev_get_diag_item dev ix of
               None \<Rightarrow> Some (-1, n\<lparr>d_device := dev\<rparr>)
             | Some old \<Rightarrow> report_change env src p ix (Some old)
                 (n\<lparr>d_device := link_item p ix (upd_item ix (updated_item add_value len data) dev)\<rparr>)))
      })"

section \<open>Removing\<close>

definition diag_remove_refused :: "pnet_diag_source \<Rightarrow> u16 \<Rightarrow> u16 \<Rightarrow> u16 \<Rightarrow> bool" where
  "diag_remove_refused src err ext usi \<longleftrightarrow>
     bad_usi usi \<or>
     usi < PF_USI_CHANNEL_DIAGNOSIS \<and> err \<noteq> 0 \<or>
     usi \<le> PF_USI_CHANNEL_DIAGNOSIS \<and> ext \<noteq> 0 \<or>
     src_ch src > PNET_CHANNEL_WHOLE_SUBMODULE"

definition disappearing_item :: "u16 \<Rightarrow> pf_diag_item \<Rightarrow> pf_diag_item" where
  "disappearing_item rest d =
     (if rest \<noteq> PF_DIAG_IX_NULL then
        (if di_usi d \<ge> PF_USI_CHANNEL_DIAGNOSIS then set_spec PF_DIAG_CH_PROP_SPEC_DISAPPEARS d else d)
      else set_spec PF_DIAG_CH_PROP_SPEC_ALL_DISAPPEARS
             (upd_std (\<lambda>f. f\<lparr>ch_properties := PF_DIAG_CH_PROP_MAINT_SET PNET_DIAG_CH_PROP_MAINT_FAULT (ch_properties f)\<rparr>)
                (d\<lparr>di_usi := PF_USI_EXTENDED_CHANNEL_DIAGNOSIS\<rparr>)))"

definition report_removal ::
    "'w dev_env \<Rightarrow> pnet_diag_source \<Rightarrow> nat \<times> nat \<times> nat \<Rightarrow> u16 \<Rightarrow> u16 \<Rightarrow> 'w dev_net \<Rightarrow> (int \<times> nat option \<times> 'w dev_net) option"
  where
  "report_removal env src p ix usi n = (case p of (i, j, k) \<Rightarrow>
     (let s = subslot_at (d_device n) i j k in
      if is_owned s then do {
        a \<leftarrow> ss_owner s;
        let n = upd_dev (upd_item ix (disappearing_item (diag_list s))) n;
        let (ret, n) = (if usi \<ge> PF_USI_CHANNEL_DIAGNOSIS
           then dcall (de_send_diagnosis env a (src_api src) (src_slot src) (src_subslot src)
                  (diag_items (d_device n) ! unat ix)) n
           else dcall (de_send_usi_disappears env a (src_api src) (src_slot src) (src_subslot src) usi) n);
        Some (ret, Some a, n)
      } else Some (-1, None, n)))"

definition pf_diag_remove ::
    "'w dev_env \<Rightarrow> pnet_diag_source \<Rightarrow> u16 \<Rightarrow> u16 \<Rightarrow> u16 \<Rightarrow> 'w dev_net \<Rightarrow> (int \<times> 'w dev_net) option" where
  "pf_diag_remove env src err ext usi n =
     (if diag_remove_refused src err ext usi then Some (-1, n)
      else do {
        (p, ix, dev) \<leftarrow> pf_diag_find_entry src err ext usi (d_device n);
        let n = n\<lparr>d_device := dev\<rparr>;
        (case p of None \<Rightarrow> Some (-1, n)
         | Some p \<Rightarrow> if ix = PF_DIAG_IX_NULL then Some (-1, n)
             else do {
               (ret, ar, n) \<leftarrow> report_removal env src p ix usi n;
               dev \<leftarrow> pf_diag_update_submodule_state p (d_device n);
               let n = n\<lparr>d_device := pf_cmdev_free_diag ix dev\<rparr>;
               n \<leftarrow> (case ar of None \<Rightarrow> Some n
                 | Some a \<Rightarrow> (case p of (i, j, k) \<Rightarrow>
                     pf_diag_update_station_problem_indicator env a (subslot_at (d_device n) i j k) n));
               Some (ret, n)
             })
      })"

section \<open>The two formats\<close>

text \<open>\<open>use_qualified\<close> is the setting \<open>use_qualified_diagnosis\<close> of the configuration.\<close>

definition pf_diag_get_preferred_usi :: "bool \<Rightarrow> u16" where
  "pf_diag_get_preferred_usi use_qualified =
     (if use_qualified then PF_USI_QUALIFIED_CHANNEL_DIAGNOSIS else PF_USI_EXTENDED_CHANNEL_DIAGNOSIS)"

definition pf_diag_std_add where
  "pf_diag_std_add env use_qualified src ch_bits severity err ext add_value qualifier =
     pf_diag_add env src ch_bits severity err ext add_value qualifier (pf_diag_get_preferred_usi use_qualified) 0 None"

definition pf_diag_std_update where
  "pf_diag_std_update env use_qualified src err ext add_value =
     pf_diag_update env src err ext add_value (pf_diag_get_preferred_usi use_qualified) 0 None"

definition pf_diag_std_remove where
  "pf_diag_std_remove env use_qualified src err ext =
     pf_diag_remove env src err ext (pf_diag_get_preferred_usi use_qualified)"

definition usi_source :: "u32 \<Rightarrow> u16 \<Rightarrow> u16 \<Rightarrow> pnet_diag_source" where
  "usi_source api slot subslot = \<lparr>src_api = api, src_slot = slot, src_subslot = subslot,
     src_ch = PNET_CHANNEL_WHOLE_SUBMODULE, ch_grouping = PNET_DIAG_CH_INDIVIDUAL_CHANNEL,
     ch_direction = PNET_DIAG_CH_PROP_DIR_MANUF_SPEC\<rparr>"

definition pf_diag_usi_add ::
    "'w dev_env \<Rightarrow> u32 \<Rightarrow> u16 \<Rightarrow> u16 \<Rightarrow> u16 \<Rightarrow> u16 \<Rightarrow> u8 list option \<Rightarrow> 'w dev_net \<Rightarrow> (int \<times> 'w dev_net) option" where
  "pf_diag_usi_add env api slot subslot usi len data n =
     (if usi \<ge> PF_USI_CHANNEL_DIAGNOSIS then Some (-1, n)
      else pf_diag_add env (usi_source api slot subslot) PNET_DIAG_CH_PROP_TYPE_UNSPECIFIED
        PNET_DIAG_CH_PROP_MAINT_FAULT 0 0 0 0 usi len data n)"

definition pf_diag_usi_update ::
    "'w dev_env \<Rightarrow> u32 \<Rightarrow> u16 \<Rightarrow> u16 \<Rightarrow> u16 \<Rightarrow> u16 \<Rightarrow> u8 list option \<Rightarrow> 'w dev_net \<Rightarrow> (int \<times> 'w dev_net) option" where
  "pf_diag_usi_update env api slot subslot usi len data n =
     (if usi \<ge> PF_USI_CHANNEL_DIAGNOSIS then Some (-1, n)
      else pf_diag_update env (usi_source api slot subslot) 0 0 0 usi len data n)"

definition pf_diag_usi_remove ::
    "'w dev_env \<Rightarrow> u32 \<Rightarrow> u16 \<Rightarrow> u16 \<Rightarrow> u16 \<Rightarrow> 'w dev_net \<Rightarrow> (int \<times> 'w dev_net) option" where
  "pf_diag_usi_remove env api slot subslot usi n =
     (if usi \<ge> PF_USI_CHANNEL_DIAGNOSIS then Some (-1, n)
      else pf_diag_remove env (usi_source api slot subslot) 0 0 usi n)"

end
