(* ===== verification/Diag_Store.thy ===== *)
theory Diag_Store
  imports Diag Alarm_Lemmas
begin

text \<open>
  The abstract view of the diagnosis store: the free list and the list of every subslot in use
  are chains through the pool that share no item (\<open>diag_rep\<close>). Finding, linking, freeing and
  changing an item act on these lists; the walks along a chain end and have closed forms.
\<close>

declare split_paired_All [simp del] split_paired_Ex [simp del]

section \<open>Paths of the tree\<close>

definition shape :: "pf_device \<Rightarrow> bool" where
  "shape dev \<longleftrightarrow> length (real_ident dev) = PNET_MAX_API \<and>
     (\<forall>a \<in> set (real_ident dev). length (slots a) = PNET_MAX_SLOTS \<and>
        (\<forall>s \<in> set (slots a). length (subslots s) = PNET_MAX_SUBSLOTS))"

definition path_ok :: "nat \<times> nat \<times> nat \<Rightarrow> bool" where
  "path_ok p \<longleftrightarrow> (case p of (i, j, k) \<Rightarrow> i < PNET_MAX_API \<and> j < PNET_MAX_SLOTS \<and> k < PNET_MAX_SUBSLOTS)"

definition ssub :: "pf_device \<Rightarrow> nat \<times> nat \<times> nat \<Rightarrow> pf_subslot" where
  "ssub dev p = (case p of (i, j, k) \<Rightarrow> subslot_at dev i j k)"

lemma subslot_paths_ok: "p \<in> set subslot_paths \<longleftrightarrow> path_ok p"
  by (cases p) (auto simp: subslot_paths_def path_ok_def)

lemma shape_lengths:
  "shape dev \<Longrightarrow> length (real_ident dev) = PNET_MAX_API"
  "shape dev \<Longrightarrow> i < PNET_MAX_API \<Longrightarrow> length (slots (api_at dev i)) = PNET_MAX_SLOTS"
  "shape dev \<Longrightarrow> i < PNET_MAX_API \<Longrightarrow> j < PNET_MAX_SLOTS \<Longrightarrow>
     length (subslots (slot_at dev i j)) = PNET_MAX_SUBSLOTS"
  by (auto simp: shape_def) (metis nth_mem)

lemma shape_upd_api:
  "shape dev \<Longrightarrow> i < PNET_MAX_API \<Longrightarrow>
   (length (slots (f (api_at dev i))) = PNET_MAX_SLOTS \<and>
    (\<forall>s \<in> set (slots (f (api_at dev i))). length (subslots s) = PNET_MAX_SUBSLOTS)) \<Longrightarrow> shape (upd_api i f dev)"
  by (auto simp: shape_def upd_api_def dest!: set_update_subset_insert [THEN subsetD])

lemma shape_upd_slot:
  assumes "shape dev" "i < PNET_MAX_API" "j < PNET_MAX_SLOTS"
    and "length (subslots (f (slot_at dev i j))) = PNET_MAX_SUBSLOTS"
  shows "shape (upd_slot i j f dev)"
  unfolding upd_slot_def using assms
  by (intro shape_upd_api) (auto simp: shape_def dest!: set_update_subset_insert [THEN subsetD])

lemma shape_upd_subslot: "shape dev \<Longrightarrow> path_ok p \<Longrightarrow> shape (upd_subslot p f dev)"
  by (cases p) (auto simp: upd_subslot_def path_ok_def shape_lengths intro!: shape_upd_slot)

lemma ssub_upd_subslot:
  assumes "shape dev" and "path_ok p"
  shows "ssub (upd_subslot p f dev) q = (if q = p then f (ssub dev p) else ssub dev q)"
proof -
  obtain i j k where p: "p = (i, j, k)" by (cases p) auto
  obtain i' j' k' where q: "q = (i', j', k')" by (cases q) auto
  have "i < length (real_ident dev)" "j < length (slots (api_at dev i))" "k < length (subslots (slot_at dev i j))"
    using assms by (auto simp: p path_ok_def shape_lengths)
  then show ?thesis
    by (auto simp: p q ssub_def upd_subslot_def upd_slot_def upd_api_def nth_list_update)
qed

lemma upd_subslot_items [simp]:
  "diag_items (upd_subslot p f dev) = diag_items dev" "diag_items_free (upd_subslot p f dev) = diag_items_free dev"
  by (cases p; simp add: upd_subslot_def upd_slot_def upd_api_def)+

lemma upd_item_tree [simp]:
  "real_ident (upd_item ix f dev) = real_ident dev" "diag_items_free (upd_item ix f dev) = diag_items_free dev"
  "ssub (upd_item ix f dev) p = ssub dev p" "shape (upd_item ix f dev) = shape dev"
  "diag_items (upd_item ix f dev) = (diag_items dev)[unat ix := f (diag_items dev ! unat ix)]"
  by (auto simp: upd_item_def ssub_def shape_def split: prod.split)

lemma free_update_tree [simp]:
  "ssub (dev\<lparr>diag_items_free := x\<rparr>) p = ssub dev p" "shape (dev\<lparr>diag_items_free := x\<rparr>) = shape dev"
  by (auto simp: ssub_def shape_def split: prod.split)

section \<open>Chains\<close>

fun dchain :: "pf_diag_item list \<Rightarrow> u16 \<Rightarrow> u16 list \<Rightarrow> bool" where
  "dchain items i [] \<longleftrightarrow> i = PF_DIAG_IX_NULL"
| "dchain items i (j # js) \<longleftrightarrow> i = j \<and> unat j < length items \<and> dchain items (di_next (items ! unat j)) js"

text \<open>A chain is not touched by stores that keep the links of its items.\<close>

lemma dchain_cong:
  assumes "length items' = length items" "\<And>j. j \<in> set js \<Longrightarrow> di_next (items' ! unat j) = di_next (items ! unat j)"
  shows "dchain items' i js \<longleftrightarrow> dchain items i js"
  using assms by (induction js arbitrary: i) auto

lemma nth_update_unat [simp]:
  "unat j < length xs \<Longrightarrow> xs[unat i := x] ! unat j = (if i = j then x else xs ! unat j)" for i j :: u16
  by (auto simp: nth_list_update simp flip: word_unat_eq_iff)

lemma dchain_bound: "dchain items i js \<Longrightarrow> j \<in> set js \<Longrightarrow> unat j < length items"
  by (induction js arbitrary: i) auto

lemma dchain_update_other:
  "x \<notin> set js \<Longrightarrow> dchain (items[unat x := d]) i js \<longleftrightarrow> dchain items i js"
  by (induction js arbitrary: i) (auto simp flip: word_unat_eq_iff simp: nth_list_update)

lemma dchain_append:
  "dchain items i (us @ x # vs) \<Longrightarrow> unat x < length items \<and> dchain items (di_next (items ! unat x)) vs"
  by (induction us arbitrary: i) auto

text \<open>Taking an item out of a chain.\<close>

lemma dchain_unlink_first: "dchain items i (x # vs) \<Longrightarrow> dchain items (di_next (items ! unat x)) vs"
  by simp

lemma dchain_unlink:
  assumes "dchain items i (us @ y # x # vs)" and "distinct (us @ y # x # vs)"
  shows "dchain (items[unat y := (items ! unat y)\<lparr>di_next := di_next (items ! unat x)\<rparr>]) i (us @ y # vs)"
  using assms
proof (induction us arbitrary: i)
  case Nil
  then show ?case by (auto simp: dchain_update_other)
next
  case (Cons u us)
  have "unat u \<noteq> unat y" "unat u < length items" using Cons.prems by (auto simp flip: word_unat_eq_iff)
  then show ?case using Cons by (auto simp: nth_list_update)
qed

section \<open>The store\<close>

text \<open>The lists share nothing.\<close>

definition apart :: "u16 list \<Rightarrow> (nat \<times> nat \<times> nat \<Rightarrow> u16 list) \<Rightarrow> bool" where
  "apart fr L \<longleftrightarrow> distinct fr \<and> (\<forall>p. distinct (L p)) \<and> (\<forall>p. set fr \<inter> set (L p) = {}) \<and>
     (\<forall>p q. p \<noteq> q \<longrightarrow> set (L p) \<inter> set (L q) = {})"

definition in_use_at :: "pf_device \<Rightarrow> nat \<times> nat \<times> nat \<Rightarrow> bool" where
  "in_use_at dev p \<longleftrightarrow> path_ok p \<and> ss_in_use (ssub dev p)"

definition chained :: "pf_device \<Rightarrow> u16 list \<Rightarrow> (nat \<times> nat \<times> nat \<Rightarrow> u16 list) \<Rightarrow> bool" where
  "chained dev fr L \<longleftrightarrow> dchain (diag_items dev) (diag_items_free dev) fr \<and>
     (\<forall>p. if in_use_at dev p then dchain (diag_items dev) (diag_list (ssub dev p)) (L p) else L p = [])"

definition diag_rep :: "pf_device \<Rightarrow> u16 list \<Rightarrow> (nat \<times> nat \<times> nat \<Rightarrow> u16 list) \<Rightarrow> bool" where
  "diag_rep dev fr L \<longleftrightarrow> shape dev \<and> length (diag_items dev) = PNET_MAX_DIAG_ITEMS \<and>
     chained dev fr L \<and> apart fr L"

text \<open>An item on no list.\<close>

definition orphan :: "u16 \<Rightarrow> u16 list \<Rightarrow> (nat \<times> nat \<times> nat \<Rightarrow> u16 list) \<Rightarrow> bool" where
  "orphan x fr L \<longleftrightarrow> unat x < PNET_MAX_DIAG_ITEMS \<and> x \<notin> set fr \<and> (\<forall>p. x \<notin> set (L p))"

lemma orphan_not_null: "orphan x fr L \<Longrightarrow> x \<noteq> PF_DIAG_IX_NULL"
  by (auto simp: orphan_def PF_DIAG_IX_NULL_def PNET_MAX_DIAG_ITEMS_def)

lemma diag_repD:
  assumes "diag_rep dev fr L"
  shows "shape dev" "length (diag_items dev) = PNET_MAX_DIAG_ITEMS" "apart fr L" "chained dev fr L"
    "dchain (diag_items dev) (diag_items_free dev) fr"
    "in_use_at dev p \<Longrightarrow> dchain (diag_items dev) (diag_list (ssub dev p)) (L p)"
  using assms unfolding diag_rep_def chained_def by meson+

lemma apartD:
  assumes "apart fr L"
  shows "distinct fr" "distinct (L p)" "x \<in> set fr \<Longrightarrow> x \<notin> set (L p)" "x \<in> set (L p) \<Longrightarrow> x \<in> set (L q) \<Longrightarrow> p = q"
  using assms unfolding apart_def by blast+

lemma live_index_bound:
  assumes r: "diag_rep dev fr L" and x: "x \<in> set (L p)"
  shows "unat x < PNET_MAX_DIAG_ITEMS"
proof -
  have "in_use_at dev p" using diag_repD(4) [OF r] x by (metis chained_def empty_iff list.set(1))
  from dchain_bound [OF diag_repD(6) [OF r this] x] show ?thesis using diag_repD(2) [OF r] by simp
qed

lemma apart_cons: "apart fr L \<Longrightarrow> orphan x fr L \<Longrightarrow> apart fr (L(p := x # L p))"
  by (simp add: apart_def orphan_def)

lemma apart_cons_free: "apart fr L \<Longrightarrow> orphan x fr L \<Longrightarrow> apart (x # fr) L"
  by (simp add: apart_def orphan_def)

lemma apart_remove:
  assumes "apart fr L" "L p = us @ x # vs"
  shows "apart fr (L(p := us @ vs))" "x \<notin> set fr" "x \<notin> set ((L(p := us @ vs)) q)"
proof -
  have s: "set (us @ vs) \<subseteq> set (L p)" "distinct (us @ vs)" "x \<notin> set (us @ vs)" "x \<in> set (L p)"
    using apartD(2) [OF assms(1), of p] assms(2) by auto
  show "x \<notin> set fr" using apartD(3) [OF assms(1)] s(4) by blast
  show "x \<notin> set ((L(p := us @ vs)) q)" using apartD(4) [OF assms(1) s(4), of q] s(3) by auto
  have sub: "set ((L(p := us @ vs)) q) \<subseteq> set (L q)" for q using s(1) by simp
  show "apart fr (L(p := us @ vs))" unfolding apart_def
  proof (intro conjI allI impI)
    show "distinct fr" by (rule apartD [OF assms(1)])
    show "distinct ((L(p := us @ vs)) q)" for q using s(2) apartD(2) [OF assms(1)] by simp
    show "set fr \<inter> set ((L(p := us @ vs)) q) = {}" for q
      using sub [of q] apartD(3) [OF assms(1), of _ q] by blast
    show "q \<noteq> r \<Longrightarrow> set ((L(p := us @ vs)) q) \<inter> set ((L(p := us @ vs)) r) = {}" for q r
      using sub [of q] sub [of r] apartD(4) [OF assms(1), of _ q r] by blast
  qed
qed

text \<open>Stores that keep the representation.\<close>

lemma in_use_at_items [simp]:
  "in_use_at (upd_item x f dev) = in_use_at dev" "in_use_at (dev\<lparr>diag_items_free := x\<rparr>) = in_use_at dev"
  by (simp_all add: in_use_at_def fun_eq_iff)

lemma in_use_at_upd_subslot:
  "shape dev \<Longrightarrow> path_ok p \<Longrightarrow> ss_in_use (f (ssub dev p)) = ss_in_use (ssub dev p) \<Longrightarrow>
   in_use_at (upd_subslot p f dev) = in_use_at dev"
  by (auto simp: in_use_at_def fun_eq_iff ssub_upd_subslot)

lemma chained_upd_orphan: "chained dev fr L \<Longrightarrow> orphan x fr L \<Longrightarrow> chained (upd_item x f dev) fr L"
  by (simp add: chained_def orphan_def dchain_update_other)

lemma diag_rep_upd_orphan: "diag_rep dev fr L \<Longrightarrow> orphan x fr L \<Longrightarrow> diag_rep (upd_item x f dev) fr L"
  by (simp add: diag_rep_def chained_upd_orphan)

lemma chained_upd_subslot:
  assumes "shape dev" "path_ok p" "chained dev fr L"
    and "ss_in_use (f (ssub dev p)) = ss_in_use (ssub dev p)" "diag_list (f (ssub dev p)) = diag_list (ssub dev p)"
  shows "chained (upd_subslot p f dev) fr L"
  using assms by (simp add: chained_def in_use_at_upd_subslot ssub_upd_subslot)

lemma diag_rep_upd_subslot:
  assumes "diag_rep dev fr L" "path_ok p"
    and "ss_in_use (f (ssub dev p)) = ss_in_use (ssub dev p)" "diag_list (f (ssub dev p)) = diag_list (ssub dev p)"
  shows "diag_rep (upd_subslot p f dev) fr L"
  using assms by (simp add: diag_rep_def shape_upd_subslot chained_upd_subslot)

text \<open>A new head for the list of a subslot.\<close>

lemma diag_rep_new_list:
  assumes r: "diag_rep dev fr L" and p: "in_use_at dev p"
    and c: "dchain (diag_items dev) y ys" and a: "apart fr (L(p := ys))"
  shows "diag_rep (upd_subslot p (\<lambda>s. s\<lparr>diag_list := y\<rparr>) dev) fr (L(p := ys))"
proof -
  have p': "path_ok p" using p by (simp add: in_use_at_def)
  show ?thesis using r p c a p'
    by (simp add: diag_rep_def chained_def shape_upd_subslot in_use_at_upd_subslot ssub_upd_subslot)
qed

lemma link_item_def': "link_item p x dev = upd_subslot p (\<lambda>s. s\<lparr>diag_list := x\<rparr>)
    (upd_item x (\<lambda>d. d\<lparr>di_next := diag_list (ssub dev p)\<rparr>) dev)"
  by (cases p) (simp add: link_item_def ssub_def)

lemma diag_rep_link:
  assumes r: "diag_rep dev fr L" and o: "orphan x fr L" and p: "in_use_at dev p"
  shows "diag_rep (link_item p x dev) fr (L(p := x # L p))"
  unfolding link_item_def'
proof (rule diag_rep_new_list)
  let ?d = "upd_item x (\<lambda>d. d\<lparr>di_next := diag_list (ssub dev p)\<rparr>) dev"
  show "diag_rep ?d fr L" using r o by (rule diag_rep_upd_orphan)
  show "in_use_at ?d p" using p by simp
  show "dchain (diag_items ?d) x (x # L p)"
    using diag_repD(2) [OF r] diag_repD(6) [OF r p] o by (simp add: orphan_def dchain_update_other)
  show "apart fr (L(p := x # L p))" using diag_repD(3) [OF r] o by (rule apart_cons)
qed

lemma diag_rep_free:
  assumes r: "diag_rep dev fr L" and o: "orphan x fr L"
  shows "diag_rep (pf_cmdev_free_diag x dev) (x # fr) L"
  using r o apart_cons_free [OF diag_repD(3) [OF r] o]
  by (simp add: pf_cmdev_free_diag_def diag_rep_def chained_def orphan_def dchain_update_other)

lemma diag_rep_new:
  assumes r: "diag_rep dev (x # fr) L"
  shows "pf_cmdev_new_diag dev = (Some x, upd_item x (\<lambda>_. zero_diag_item\<lparr>di_in_use := True\<rparr>)
             (dev\<lparr>diag_items_free := di_next (diag_items dev ! unat x)\<rparr>))"
    and "diag_rep (snd (pf_cmdev_new_diag dev)) fr L" "orphan x fr L"
proof -
  have c: "diag_items_free dev = x" "unat x < PNET_MAX_DIAG_ITEMS"
      "dchain (diag_items dev) (di_next (diag_items dev ! unat x)) fr"
    using diag_repD(2,5) [OF r] by auto
  have a: "apart fr L" "x \<notin> set fr" "\<And>p. x \<notin> set (L p)"
    using diag_repD(3) [OF r] by (auto simp: apart_def)
  then show o: "orphan x fr L" using c by (simp add: orphan_def)
  show e: "pf_cmdev_new_diag dev = (Some x, upd_item x (\<lambda>_. zero_diag_item\<lparr>di_in_use := True\<rparr>)
             (dev\<lparr>diag_items_free := di_next (diag_items dev ! unat x)\<rparr>))"
    using c orphan_not_null [OF o] by (simp add: pf_cmdev_new_diag_def Let_def)
  have "diag_rep (dev\<lparr>diag_items_free := di_next (diag_items dev ! unat x)\<rparr>) fr L"
    using r c a by (simp add: diag_rep_def chained_def)
  then show "diag_rep (snd (pf_cmdev_new_diag dev)) fr L" using o e by (simp add: diag_rep_upd_orphan)
qed

lemma new_diag_empty: "diag_rep dev [] L \<Longrightarrow> pf_cmdev_new_diag dev = (None, dev)"
  by (simp add: pf_cmdev_new_diag_def diag_rep_def chained_def Let_def)

section \<open>Unlinking\<close>

lemma diag_rep_unlink:
  assumes r: "diag_rep dev fr L" and p: "in_use_at dev p" and l: "L p = us @ x # vs"
  shows "diag_rep (unlink_item p (last (PF_DIAG_IX_NULL # us)) x dev) fr (L(p := us @ vs))"
    and "orphan x fr (L(p := us @ vs))"
proof -
  let ?L = "L(p := us @ vs)"
  have c: "dchain (diag_items dev) (diag_list (ssub dev p)) (us @ x # vs)" "distinct (us @ x # vs)"
    using diag_repD(6) [OF r p] apartD(2) [OF diag_repD(3) [OF r], of p] l by simp_all
  note a = apart_remove [OF diag_repD(3) [OF r] l]
  show "orphan x fr ?L" using a live_index_bound [OF r, of x p] l by (simp add: orphan_def)
  show "diag_rep (unlink_item p (last (PF_DIAG_IX_NULL # us)) x dev) fr ?L"
  proof (cases us rule: rev_cases)
    case Nil
    have "dchain (diag_items dev) (di_next (diag_items dev ! unat x)) (us @ vs)" using c Nil by simp
    from diag_rep_new_list [OF r p this a(1)] show ?thesis using Nil by (simp add: unlink_item_def)
  next
    case (snoc ws y)
    have y: "y \<noteq> PF_DIAG_IX_NULL" "y \<in> set (L p)"
      using live_index_bound [OF r, of y p] snoc l by (auto simp: PF_DIAG_IX_NULL_def PNET_MAX_DIAG_ITEMS_def)
    have "dchain ((diag_items dev)[unat y := (diag_items dev ! unat y)\<lparr>di_next := di_next (diag_items dev ! unat x)\<rparr>])
        (diag_list (ssub dev p)) (ws @ y # vs)"
      using dchain_unlink [of _ _ ws y x vs] c snoc by simp
    moreover have "y \<notin> set fr" "\<And>q. q \<noteq> p \<Longrightarrow> y \<notin> set (L q)"
      using apartD(3,4) [OF diag_repD(3) [OF r]] y(2) by blast+
    ultimately show ?thesis using r p a(1) snoc y(1)
      by (simp add: unlink_item_def diag_rep_def chained_def dchain_update_other Let_def)
  qed
qed

end
