(* ===== verification/Device_Tree.thy ===== *)
theory Device_Tree
  imports Diag_Store
begin

text \<open>
  When a device tree is well formed: the arrays have their sizes, the numbers of what is in use
  are distinct at every level, nothing is in use below something that is not, and a subslot that
  is owned names its owner. Every operation of the tree keeps this.
\<close>

section \<open>Well formed trees\<close>

text \<open>An owner that the state names is there.\<close>

definition owner_ok :: "pf_subslot \<Rightarrow> bool" where
  "owner_ok s \<longleftrightarrow> (is_owned s \<longrightarrow> ss_owner s \<noteq> None)"

definition unique_numbers :: "('e \<Rightarrow> bool) \<Rightarrow> ('e \<Rightarrow> 'n) \<Rightarrow> 'e list \<Rightarrow> bool" where
  "unique_numbers P f xs \<longleftrightarrow> (\<forall>i < length xs. \<forall>j < length xs. P (xs ! i) \<and> P (xs ! j) \<and> f (xs ! i) = f (xs ! j) \<longrightarrow> i = j)"

definition slot_ok :: "pf_slot \<Rightarrow> bool" where
  "slot_ok s \<longleftrightarrow> length (subslots s) = PNET_MAX_SUBSLOTS \<and> unique_numbers ss_in_use ss_number (subslots s) \<and>
     (\<forall>u \<in> set (subslots s). owner_ok u \<and> (ss_in_use u \<longrightarrow> sl_in_use s))"

definition api_ok :: "pf_api \<Rightarrow> bool" where
  "api_ok a \<longleftrightarrow> length (slots a) = PNET_MAX_SLOTS \<and> unique_numbers sl_in_use sl_number (slots a) \<and>
     (\<forall>s \<in> set (slots a). slot_ok s \<and> (sl_in_use s \<longrightarrow> ra_in_use a))"

definition tree_ok :: "pf_device \<Rightarrow> bool" where
  "tree_ok dev \<longleftrightarrow> length (real_ident dev) = PNET_MAX_API \<and> unique_numbers ra_in_use ra_api_id (real_ident dev) \<and>
     (\<forall>a \<in> set (real_ident dev). api_ok a)"

lemma tree_ok_shape: "tree_ok dev \<Longrightarrow> shape dev"
  by (auto simp: tree_ok_def api_ok_def slot_ok_def shape_def)

lemma tree_okD:
  assumes t: "tree_ok dev"
  shows "i < PNET_MAX_API \<Longrightarrow> api_ok (api_at dev i)"
    "i < PNET_MAX_API \<Longrightarrow> j < PNET_MAX_SLOTS \<Longrightarrow> slot_ok (slot_at dev i j)"
    "path_ok p \<Longrightarrow> owner_ok (ssub dev p)"
proof -
  show a: "api_ok (api_at dev i)" if "i < PNET_MAX_API" for i using t that by (simp add: tree_ok_def)
  show s: "slot_ok (slot_at dev i j)" if "i < PNET_MAX_API" "j < PNET_MAX_SLOTS" for i j
    using a [OF that(1)] that(2) by (simp add: api_ok_def)
  show "path_ok p \<Longrightarrow> owner_ok (ssub dev p)"
    using s by (cases p) (auto simp: path_ok_def ssub_def slot_ok_def)
qed

text \<open>A store into a table keeps the numbers unique if its entry had its number before or a fresh one.\<close>

lemma unique_numbers_update:
  assumes u: "unique_numbers P f xs" and i: "i < length xs"
    and y: "P y \<Longrightarrow> P (xs ! i) \<and> f y = f (xs ! i) \<or> (\<forall>x \<in> set xs. P x \<longrightarrow> f x \<noteq> f y)"
  shows "unique_numbers P f (xs[i := y])"
proof -
  have old: "j = k" if "j < length xs" "k < length xs" "P (xs ! j)" "P (xs ! k)" "f (xs ! j) = f (xs ! k)" for j k
    using u that by (auto simp: unique_numbers_def)
  have new: "f (xs ! m) \<noteq> f y" if "m \<noteq> i" "m < length xs" "P y" "P (xs ! m)" for m
    using y [OF that(3)] old [of m i] i that by (metis nth_mem)
  have "j = k" if "j < length xs" "k < length xs" "P (xs[i := y] ! j)" "P (xs[i := y] ! k)"
      "f (xs[i := y] ! j) = f (xs[i := y] ! k)" for j k
    using that old [of j k] new [of j] new [of k] by (cases "j = i"; cases "k = i") simp_all
  then show ?thesis by (simp add: unique_numbers_def)
qed

lemma ball_update: "\<forall>x \<in> set xs. Q x \<Longrightarrow> Q y \<Longrightarrow> \<forall>x \<in> set (xs[i := y]). Q x"
  by (auto dest!: set_update_subset_insert [THEN subsetD])

lemma slot_ok_upd:
  assumes "slot_ok s" "k < PNET_MAX_SUBSLOTS" "owner_ok u" "ss_in_use u \<Longrightarrow> sl_in_use s"
    and "ss_in_use u \<Longrightarrow> ss_in_use (subslots s ! k) \<and> ss_number u = ss_number (subslots s ! k) \<or>
      (\<forall>x \<in> set (subslots s). ss_in_use x \<longrightarrow> ss_number x \<noteq> ss_number u)"
  shows "slot_ok (s\<lparr>subslots := (subslots s)[k := u]\<rparr>)"
  using assms unfolding slot_ok_def by (auto intro!: unique_numbers_update dest!: set_update_subset_insert [THEN subsetD])

lemma api_ok_upd:
  assumes "api_ok a" "j < PNET_MAX_SLOTS" "slot_ok s" "sl_in_use s \<Longrightarrow> ra_in_use a"
    and "sl_in_use s \<Longrightarrow> sl_in_use (slots a ! j) \<and> sl_number s = sl_number (slots a ! j) \<or>
      (\<forall>x \<in> set (slots a). sl_in_use x \<longrightarrow> sl_number x \<noteq> sl_number s)"
  shows "api_ok (a\<lparr>slots := (slots a)[j := s]\<rparr>)"
  using assms unfolding api_ok_def by (auto intro!: unique_numbers_update dest!: set_update_subset_insert [THEN subsetD])

lemma tree_ok_upd_api:
  assumes "tree_ok dev" "i < PNET_MAX_API" "api_ok (f (api_at dev i))"
    and "ra_in_use (f (api_at dev i)) \<Longrightarrow> ra_in_use (api_at dev i) \<and> ra_api_id (f (api_at dev i)) = ra_api_id (api_at dev i) \<or>
      (\<forall>x \<in> set (real_ident dev). ra_in_use x \<longrightarrow> ra_api_id x \<noteq> ra_api_id (f (api_at dev i)))"
  shows "tree_ok (upd_api i f dev)"
  using assms unfolding tree_ok_def upd_api_def
  by (auto intro!: unique_numbers_update dest!: set_update_subset_insert [THEN subsetD])

lemma tree_ok_upd_slot:
  assumes t: "tree_ok dev" and i: "i < PNET_MAX_API" "j < PNET_MAX_SLOTS" and s: "slot_ok (f (slot_at dev i j))"
    and "sl_in_use (f (slot_at dev i j)) \<Longrightarrow> ra_in_use (api_at dev i)"
    and "sl_in_use (f (slot_at dev i j)) \<Longrightarrow>
      sl_in_use (slot_at dev i j) \<and> sl_number (f (slot_at dev i j)) = sl_number (slot_at dev i j) \<or>
      (\<forall>x \<in> set (slots (api_at dev i)). sl_in_use x \<longrightarrow> sl_number x \<noteq> sl_number (f (slot_at dev i j)))"
  shows "tree_ok (upd_slot i j f dev)"
proof -
  have "api_ok ((api_at dev i)\<lparr>slots := (slots (api_at dev i))[j := f (slot_at dev i j)]\<rparr>)"
    using tree_okD(1) [OF t i(1)] i(2) s assms(5,6) by (rule api_ok_upd)
  then show ?thesis unfolding upd_slot_def using t i by (intro tree_ok_upd_api) auto
qed

lemma tree_ok_upd_subslot:
  assumes t: "tree_ok dev" and p: "path_ok (i, j, k)" and o: "owner_ok (f (subslot_at dev i j k))"
    and "ss_in_use (f (subslot_at dev i j k)) \<Longrightarrow> sl_in_use (slot_at dev i j)"
    and "ss_in_use (f (subslot_at dev i j k)) \<Longrightarrow>
      ss_in_use (subslot_at dev i j k) \<and> ss_number (f (subslot_at dev i j k)) = ss_number (subslot_at dev i j k) \<or>
      (\<forall>x \<in> set (subslots (slot_at dev i j)). ss_in_use x \<longrightarrow> ss_number x \<noteq> ss_number (f (subslot_at dev i j k)))"
  shows "tree_ok (upd_subslot (i, j, k) f dev)"
proof -
  have b: "i < PNET_MAX_API" "j < PNET_MAX_SLOTS" "k < PNET_MAX_SUBSLOTS" using p by (auto simp: path_ok_def)
  have s: "slot_ok ((slot_at dev i j)\<lparr>subslots := (subslots (slot_at dev i j))[k := f (subslot_at dev i j k)]\<rparr>)"
    using tree_okD(2) [OF t b(1,2)] b(3) o assms(4,5) by (rule slot_ok_upd)
  have "sl_in_use (slot_at dev i j) \<Longrightarrow> ra_in_use (api_at dev i)"
    using tree_okD(1) [OF t b(1)] b(2) by (auto simp: api_ok_def)
  then show ?thesis unfolding upd_subslot_def using t b s by (auto intro!: tree_ok_upd_slot)
qed

text \<open>The frequent case: what is in use and the number of the subslot stay.\<close>

lemma tree_ok_upd_subslot_same:
  assumes t: "tree_ok dev" and p: "path_ok p" and o: "owner_ok (f (ssub dev p))"
    and "ss_in_use (f (ssub dev p)) \<Longrightarrow> ss_in_use (ssub dev p) \<and> ss_number (f (ssub dev p)) = ss_number (ssub dev p)"
  shows "tree_ok (upd_subslot p f dev)"
proof -
  obtain i j k where q: "p = (i, j, k)" by (cases p) auto
  have b: "i < PNET_MAX_API" "j < PNET_MAX_SLOTS" "k < PNET_MAX_SUBSLOTS" using p by (auto simp: path_ok_def q)
  have "ss_in_use (subslot_at dev i j k) \<Longrightarrow> sl_in_use (slot_at dev i j)"
    using tree_okD(2) [OF t b(1,2)] b(3) by (auto simp: slot_ok_def)
  then show ?thesis unfolding q using t p o assms(4) by (intro tree_ok_upd_subslot) (auto simp: q ssub_def)
qed

lemma tree_ok_items [simp]:
  "tree_ok (upd_item x f dev) = tree_ok dev" "tree_ok (dev\<lparr>diag_items_free := y\<rparr>) = tree_ok dev"
  by (simp_all add: tree_ok_def)

section \<open>Lookups\<close>

lemma lookup_paths:
  assumes "shape dev"
  shows "pf_cmdev_get_api dev api = Some i \<Longrightarrow> i < PNET_MAX_API \<and> ra_in_use (api_at dev i) \<and> ra_api_id (api_at dev i) = api"
    and "i < PNET_MAX_API \<Longrightarrow> pf_cmdev_get_slot (api_at dev i) slot = Some j \<Longrightarrow>
      j < PNET_MAX_SLOTS \<and> sl_in_use (slot_at dev i j) \<and> sl_number (slot_at dev i j) = slot"
    and "i < PNET_MAX_API \<Longrightarrow> j < PNET_MAX_SLOTS \<Longrightarrow> pf_cmdev_get_subslot (slot_at dev i j) subslot = Some k \<Longrightarrow>
      k < PNET_MAX_SUBSLOTS \<and> ss_in_use (subslot_at dev i j k) \<and> ss_number (subslot_at dev i j k) = subslot"
  using assms by (auto simp: pf_cmdev_get_api_def pf_cmdev_get_slot_def pf_cmdev_get_subslot_def shape_lengths
      dest!: find_index_Some)

lemma lookup_full_paths:
  assumes "shape dev"
  shows "pf_cmdev_get_slot_full dev api slot = Some (i, j) \<Longrightarrow> i < PNET_MAX_API \<and> j < PNET_MAX_SLOTS"
    and "pf_cmdev_get_subslot_full dev api slot subslot = Some p \<Longrightarrow> path_ok p \<and> ss_in_use (ssub dev p)"
  using lookup_paths [OF assms]
  by (auto simp: pf_cmdev_get_slot_full_def pf_cmdev_get_subslot_full_def path_ok_def ssub_def split: Option.bind_splits)
    blast+

end
