(* ===== verification/Diag_Refine.thy ===== *)
theory Diag_Refine
  imports Device_Tree
begin

text \<open>
  The diagnosis store as an abstract one: for every subslot the list of its diagnoses, the
  newest first, and the number of free items. The operations of pf_diag.c are shown to be the
  obvious operations on these lists.
\<close>

section \<open>Walks\<close>

lemma get_item_chain:
  assumes "length (diag_items dev) = PNET_MAX_DIAG_ITEMS"
  shows "pf_cmdev_get_diag_item dev PF_DIAG_IX_NULL = None"
    and "unat x < PNET_MAX_DIAG_ITEMS \<Longrightarrow> pf_cmdev_get_diag_item dev x = Some (diag_items dev ! unat x)"
  using assms by (simp_all add: pf_cmdev_get_diag_item_def PF_DIAG_IX_NULL_def PNET_MAX_DIAG_ITEMS_def)

lemma find_item_none:
  assumes len: "length (diag_items dev) = PNET_MAX_DIAG_ITEMS"
  shows "dchain (diag_items dev) ix js \<Longrightarrow> \<forall>j \<in> set js. \<not> P (diag_items dev ! unat j) \<Longrightarrow>
    find_item P dev prev ix = Some None"
  by (induction js arbitrary: prev ix) (subst find_item.simps, simp add: get_item_chain [OF len] len)+

lemma find_item_some:
  assumes len: "length (diag_items dev) = PNET_MAX_DIAG_ITEMS"
  shows "dchain (diag_items dev) ix (us @ x # vs) \<Longrightarrow> \<forall>j \<in> set us. \<not> P (diag_items dev ! unat j) \<Longrightarrow>
    P (diag_items dev ! unat x) \<Longrightarrow> find_item P dev prev ix = Some (Some (last (prev # us), x))"
  by (induction us arbitrary: prev ix) (subst find_item.simps, simp add: get_item_chain [OF len] len)+

lemma problem_from_chain:
  assumes len: "length (diag_items dev) = PNET_MAX_DIAG_ITEMS"
  shows "dchain (diag_items dev) ix js \<Longrightarrow>
    problem_from dev ix res = Some (res \<or> (\<exists>j \<in> set js. is_fault_item (diag_items dev ! unat j)))"
  by (induction js arbitrary: ix res) (subst problem_from.simps, auto simp: get_item_chain [OF len] len)+

lemma diag_summary_from_chain:
  assumes len: "length (diag_items dev) = PNET_MAX_DIAG_ITEMS"
  shows "dchain (diag_items dev) ix js \<Longrightarrow> \<exists>su'. diag_summary_from dev s ix sm su = Some su'"
  by (induction js arbitrary: ix sm su)
    (subst diag_summary_from.simps, simp add: get_item_chain [OF len] len Let_def)+

lemma next_usi_from_chain:
  assumes len: "length (diag_items dev) = PNET_MAX_DIAG_ITEMS"
  shows "dchain (diag_items dev) ix js \<Longrightarrow> next_usi_from dev low ix res =
    Some (fold (\<lambda>j r. if low < di_usi (diag_items dev ! unat j) \<and> di_usi (diag_items dev ! unat j) < r
                     then di_usi (diag_items dev ! unat j) else r) js res)"
  by (induction js arbitrary: ix res) (subst next_usi_from.simps, simp add: get_item_chain [OF len] len)+

section \<open>Contents\<close>

definition diags :: "pf_device \<Rightarrow> u16 list \<Rightarrow> pf_diag_item list" where
  "diags dev js = map (diagnosis_at (diag_items dev)) js"

lemma diags_simps [simp]:
  "diags dev [] = []" "diags dev (j # js) = diagnosis_at (diag_items dev) j # diags dev js"
  "diags dev (us @ vs) = diags dev us @ diags dev vs" "length (diags dev js) = length js"
  by (simp_all add: diags_def)

lemma diagnosis_at_update_next:
  "unat y < length items \<Longrightarrow> diagnosis_at (items[unat y := (items ! unat y)\<lparr>di_next := k\<rparr>]) j = diagnosis_at items j"
  by (cases "unat j = unat y") (auto simp: diagnosis_at_def)

lemma diags_upd_other: "x \<notin> set js \<Longrightarrow> diags (upd_item x f dev) js = diags dev js"
  by (auto simp: diags_def diagnosis_at_def) (metis nth_list_update_neq word_unat_eq_iff)

lemma diags_upd_subslot [simp]: "diags (upd_subslot p f dev) js = diags dev js"
  by (simp add: diags_def)

lemma diags_free [simp]: "diags (dev\<lparr>diag_items_free := x\<rparr>) js = diags dev js"
  by (simp add: diags_def)

lemma diags_unlink:
  "prev = PF_DIAG_IX_NULL \<or> unat prev < length (diag_items dev) \<Longrightarrow> diags (unlink_item p prev x dev) js = diags dev js"
  by (auto simp: unlink_item_def Let_def diags_def diagnosis_at_update_next)

lemma item_matches_next [simp]:
  "item_matches src err ext usi (d\<lparr>di_next := k\<rparr>) = item_matches src err ext usi d"
  by (simp add: item_matches_def)

lemma matches_diagnosis_at:
  "item_matches src err ext usi (diagnosis_at items j) = item_matches src err ext usi (items ! unat j)"
  by (simp add: diagnosis_at_def)

section \<open>Steps of the operations\<close>

text \<open>Finding: the first item that matches is taken out.\<close>

lemma find_entry_none:
  assumes r: "diag_rep dev fr L" and l: "pf_cmdev_get_subslot_full dev (src_api src) (src_slot src) (src_subslot src) = Some p"
    and p: "in_use_at dev p" and n: "\<forall>d \<in> set (diags dev (L p)). \<not> item_matches src err ext usi d"
  shows "pf_diag_find_entry src err ext usi dev = Some (Some p, PF_DIAG_IX_NULL, dev)"
proof -
  have "find_item (item_matches src err ext usi) dev PF_DIAG_IX_NULL (diag_list (ssub dev p)) = Some None"
    using n by (intro find_item_none [OF diag_repD(2) [OF r] diag_repD(6) [OF r p]]) (simp add: diags_def matches_diagnosis_at)
  then show ?thesis using l by (cases p) (simp add: pf_diag_find_entry_def ssub_def)
qed

lemma find_entry_some:
  assumes r: "diag_rep dev fr L" and l: "pf_cmdev_get_subslot_full dev (src_api src) (src_slot src) (src_subslot src) = Some p"
    and p: "in_use_at dev p" and s: "L p = us @ x # vs" "item_matches src err ext usi (diag_items dev ! unat x)"
    and n: "\<forall>d \<in> set (diags dev us). \<not> item_matches src err ext usi d"
  shows "pf_diag_find_entry src err ext usi dev = Some (Some p, x, unlink_item p (last (PF_DIAG_IX_NULL # us)) x dev)"
proof -
  have c: "dchain (diag_items dev) (diag_list (ssub dev p)) (us @ x # vs)"
    using diag_repD(6) [OF r p] s by simp
  have "find_item (item_matches src err ext usi) dev PF_DIAG_IX_NULL (diag_list (ssub dev p)) =
      Some (Some (last (PF_DIAG_IX_NULL # us), x))"
    using n s by (intro find_item_some [OF diag_repD(2) [OF r] c]) (simp_all add: diags_def matches_diagnosis_at)
  then show ?thesis using l by (cases p) (simp add: pf_diag_find_entry_def ssub_def)
qed

lemma lookup_in_use:
  assumes "shape dev" and "pf_cmdev_get_subslot_full dev api slot subslot = Some p"
  shows "in_use_at dev p"
proof -
  obtain i j k where p: "p = (i, j, k)" by (cases p) auto
  have "pf_cmdev_get_api dev api = Some i" "pf_cmdev_get_slot (api_at dev i) slot = Some j"
      "pf_cmdev_get_subslot (slot_at dev i j) subslot = Some k"
    using assms(2) by (auto simp: pf_cmdev_get_subslot_full_def p split: Option.bind_splits)
  then show ?thesis using assms(1)
    by (auto simp: pf_cmdev_get_api_def pf_cmdev_get_slot_def pf_cmdev_get_subslot_def p in_use_at_def path_ok_def
        ssub_def shape_lengths dest!: find_index_Some)
qed

text \<open>Updating the summary of a subslot changes nothing else.\<close>

lemma update_submodule_state:
  assumes r: "diag_rep dev fr L" and p: "in_use_at dev p"
  obtains su where "pf_diag_update_submodule_state p dev = Some (upd_subslot p (\<lambda>s. s\<lparr>diag_summary := su\<rparr>) dev)"
proof -
  obtain su where "diag_summary_from dev (alarm_view (ssub dev p)) (diag_list (ssub dev p)) (no_diagnosis, 0)
      (diag_summary zero_subslot) = Some su"
    using diag_summary_from_chain [OF diag_repD(2) [OF r] diag_repD(6) [OF r p]] by blast
  then have "pf_diag_update_submodule_state p dev = Some (upd_subslot p (\<lambda>s. s\<lparr>diag_summary := su\<rparr>) dev)"
    by (cases p) (simp add: pf_diag_update_submodule_state_def ssub_def)
  then show ?thesis by (rule that)
qed

lemma problem_indicator_returns:
  assumes r: "diag_rep (d_device n) fr L" and p: "in_use_at (d_device n) p" and s: "diag_list s = diag_list (ssub (d_device n) p)"
  shows "\<exists>w. pf_diag_update_station_problem_indicator env a s n = Some (n\<lparr>d_world := w\<rparr>)"
  using problem_from_chain [OF diag_repD(2) [OF r] diag_repD(6) [OF r p]] s
  by (auto simp: pf_diag_update_station_problem_indicator_def dcall_def)

lemma dcall_device [simp]: "d_device (snd (dcall f n)) = d_device n"
  by (simp add: dcall_def)

lemma owner_summary [simp]:
  "is_owned (s\<lparr>diag_summary := x\<rparr>) = is_owned s" "is_owned (s\<lparr>diag_list := y\<rparr>) = is_owned s"
  by (simp_all add: is_owned_def)

text \<open>What follows a change returns, and changes the summary and the world only.\<close>

lemma report_change_returns:
  assumes r: "diag_rep (d_device n) fr L" and p: "in_use_at (d_device n) p" and o: "owner_ok (ssub (d_device n) p)"
  shows "\<exists>ret su w. report_change env src p ix old n =
    Some (ret, n\<lparr>d_device := upd_subslot p (\<lambda>s. s\<lparr>diag_summary := su\<rparr>) (d_device n), d_world := w\<rparr>)"
proof -
  obtain su where u: "pf_diag_update_submodule_state p (d_device n) =
      Some (upd_subslot p (\<lambda>s. s\<lparr>diag_summary := su\<rparr>) (d_device n))"
    using r p by (rule update_submodule_state)
  define m where "m = n\<lparr>d_device := upd_subslot p (\<lambda>s. s\<lparr>diag_summary := su\<rparr>) (d_device n)\<rparr>"
  have sp: "shape (d_device n)" "path_ok p" using diag_repD(1) [OF r] p by (auto simp: in_use_at_def)
  have s: "ssub (d_device m) p = (ssub (d_device n) p)\<lparr>diag_summary := su\<rparr>"
    using sp by (simp add: m_def ssub_upd_subslot)
  have rm: "diag_rep (d_device m) fr L" "in_use_at (d_device m) p"
    using r p sp by (simp_all add: m_def diag_rep_upd_subslot in_use_at_upd_subslot)
  obtain i j k where pp: "p = (i, j, k)" by (cases p) auto
  have ss: "subslot_at (d_device m) i j k = ssub (d_device m) p" by (simp add: pp ssub_def)
  show ?thesis
  proof (cases "is_owned (ssub (d_device n) p)")
    case False
    then show ?thesis using u s ss unfolding report_change_def pp m_def
      by (intro exI [of _ "-1"] exI [of _ su] exI [of _ "d_world n"]) (simp add: Let_def)
  next
    case True
    then obtain a where a: "ss_owner (ssub (d_device n) p) = Some a" using o by (auto simp: owner_ok_def)
    have w: "\<exists>w'. pf_diag_update_station_problem_indicator env a (ssub (d_device m) p) (m\<lparr>d_world := w\<rparr>) =
        Some (m\<lparr>d_world := w'\<rparr>)" for w
      using problem_indicator_returns [of "m\<lparr>d_world := w\<rparr>" fr L p] rm by fastforce
    let ?w = "snd (de_send_diagnosis env a (src_api src) (src_slot src) (src_subslot src)
        (diag_items (d_device m) ! unat ix) (d_device m) (d_world m))"
    obtain w2 where "pf_diag_update_station_problem_indicator env a (ssub (d_device m) p) (m\<lparr>d_world := ?w\<rparr>) =
        Some (m\<lparr>d_world := w2\<rparr>)" using w by blast
    then show ?thesis using u s ss a True
      by (auto simp: report_change_def pp Let_def dcall_def m_def split: option.split)
  qed
qed

section \<open>The abstract store\<close>

text \<open>How many items are free, and the diagnoses of every subslot, the newest first.\<close>

type_synonym diag_store = "nat \<times> (nat \<times> nat \<times> nat \<Rightarrow> pf_diag_item list)"

definition diag_sim :: "pf_device \<Rightarrow> diag_store \<Rightarrow> bool" where
  "diag_sim dev A \<longleftrightarrow> (\<exists>fr L. diag_rep dev fr L \<and> A = (length fr, \<lambda>p. diags dev (L p)))"

fun remove_first :: "('a \<Rightarrow> bool) \<Rightarrow> 'a list \<Rightarrow> 'a list" where
  "remove_first P [] = []"
| "remove_first P (x # xs) = (if P x then xs else x # remove_first P xs)"

definition store_put ::
    "(pf_diag_item \<Rightarrow> bool) \<Rightarrow> (pf_diag_item \<Rightarrow> pf_diag_item) \<Rightarrow> nat \<times> nat \<times> nat \<Rightarrow> diag_store \<Rightarrow> diag_store" where
  "store_put P mk p A = (case A of (c, V) \<Rightarrow> (case List.find P (V p) of
       Some d \<Rightarrow> (c, V(p := mk d # remove_first P (V p)))
     | None \<Rightarrow> if c = 0 then A else (c - 1, V(p := mk (zero_diag_item\<lparr>di_in_use := True\<rparr>) # V p))))"

definition store_change ::
    "(pf_diag_item \<Rightarrow> bool) \<Rightarrow> (pf_diag_item \<Rightarrow> pf_diag_item) \<Rightarrow> nat \<times> nat \<times> nat \<Rightarrow> diag_store \<Rightarrow> diag_store" where
  "store_change P mk p A = (case A of (c, V) \<Rightarrow> (case List.find P (V p) of
       Some d \<Rightarrow> (c, V(p := mk d # remove_first P (V p))) | None \<Rightarrow> A))"

definition store_remove :: "(pf_diag_item \<Rightarrow> bool) \<Rightarrow> nat \<times> nat \<times> nat \<Rightarrow> diag_store \<Rightarrow> diag_store" where
  "store_remove P p A = (case A of (c, V) \<Rightarrow> (case List.find P (V p) of
       Some d \<Rightarrow> (c + 1, V(p := remove_first P (V p))) | None \<Rightarrow> A))"

lemma find_diags_split:
  "List.find P (diags dev js) = Some d \<Longrightarrow> \<exists>us x vs. js = us @ x # vs \<and> diagnosis_at (diag_items dev) x = d \<and> P d \<and>
     (\<forall>e \<in> set (diags dev us). \<not> P e) \<and> remove_first P (diags dev js) = diags dev (us @ vs)"
proof (induction js)
  case (Cons j js)
  show ?case
  proof (cases "P (diagnosis_at (diag_items dev) j)")
    case True
    with Cons show ?thesis by (intro exI [of _ "[]"]) auto
  next
    case False
    with Cons obtain us x vs where "js = us @ x # vs" "diagnosis_at (diag_items dev) x = d" "P d"
      "\<forall>e \<in> set (diags dev us). \<not> P e" "remove_first P (diags dev js) = diags dev (us @ vs)" by auto
    with False show ?thesis by (intro exI [of _ "j # us"] exI [of _ x] exI [of _ vs]) auto
  qed
qed simp

lemma in_use_at_new_list:
  "shape dev \<Longrightarrow> in_use_at dev p \<Longrightarrow> in_use_at (upd_subslot p (\<lambda>s. s\<lparr>diag_list := y\<rparr>) dev) = in_use_at dev"
  by (intro in_use_at_upd_subslot) (simp_all add: in_use_at_def)

lemma unlink_item_tree:
  assumes "shape dev" "in_use_at dev p"
  shows "in_use_at (unlink_item p y x dev) = in_use_at dev"
    "owner_ok (ssub (unlink_item p y x dev) q) = owner_ok (ssub dev q)"
  using assms unfolding unlink_item_def Let_def
  by (auto simp: in_use_at_new_list in_use_at_def ssub_upd_subslot owner_ok_def)

text \<open>An item that is found is unlinked, and keeps what it says.\<close>

lemma find_entry_found:
  assumes r: "diag_rep dev fr L" and l: "pf_cmdev_get_subslot_full dev (src_api src) (src_slot src) (src_subslot src) = Some p"
    and f: "List.find (item_matches src err ext usi) (diags dev (L p)) = Some d"
  obtains x dev' L' where "pf_diag_find_entry src err ext usi dev = Some (Some p, x, dev')"
    and "diag_rep dev' fr L'" "orphan x fr L'" "in_use_at dev' p" "owner_ok (ssub dev' p) = owner_ok (ssub dev p)"
    and "(diag_items dev' ! unat x)\<lparr>di_next := 0\<rparr> = d"
    and "(\<lambda>q. diags dev' (L' q)) = (\<lambda>q. diags dev (L q))(p := remove_first (item_matches src err ext usi) (diags dev (L p)))"
proof -
  have p: "in_use_at dev p" using lookup_in_use [OF diag_repD(1) [OF r] l] .
  obtain us x vs where s: "L p = us @ x # vs" "diagnosis_at (diag_items dev) x = d" "item_matches src err ext usi d"
      "\<forall>e \<in> set (diags dev us). \<not> item_matches src err ext usi e"
      "remove_first (item_matches src err ext usi) (diags dev (L p)) = diags dev (us @ vs)"
    using find_diags_split [OF f] by blast
  let ?y = "last (PF_DIAG_IX_NULL # us)"
  let ?dev = "unlink_item p ?y x dev"
  have y: "?y = PF_DIAG_IX_NULL \<or> unat ?y < length (diag_items dev)"
    using live_index_bound [OF r, of ?y p] diag_repD(2) [OF r] s(1) by auto
  have k: "diags ?dev js = diags dev js" for js by (rule diags_unlink [OF y])
  have x: "(diag_items ?dev ! unat x)\<lparr>di_next := 0\<rparr> = d" using k [of "[x]"] s(2) by (simp add: diagnosis_at_def)
  have m: "item_matches src err ext usi (diag_items dev ! unat x)" using s(2,3) by (auto simp: diagnosis_at_def)
  have v: "(\<lambda>q. diags ?dev ((L(p := us @ vs)) q)) =
      (\<lambda>q. diags dev (L q))(p := remove_first (item_matches src err ext usi) (diags dev (L p)))"
    unfolding k by (rule ext) (simp add: s(5))
  show ?thesis
    by (rule that [OF find_entry_some [OF r l p s(1) m s(4)] diag_rep_unlink [OF r p s(1)] _ _ x v])
      (use unlink_item_tree [OF diag_repD(1) [OF r] p] p in simp_all)
qed

text \<open>An item that is filled and linked.\<close>

lemma link_new:
  fixes f :: "pf_diag_item \<Rightarrow> pf_diag_item"
  assumes r: "diag_rep dev fr L" and o: "orphan x fr L" and p: "in_use_at dev p" and ok: "owner_ok (ssub dev p)"
  defines "dev' \<equiv> link_item p x (upd_item x f dev)"
  shows "diag_rep dev' fr (L(p := x # L p))" "in_use_at dev' p" "owner_ok (ssub dev' p)"
    and "(\<lambda>q. diags dev' ((L(p := x # L p)) q)) =
         (\<lambda>q. diags dev (L q))(p := (f (diag_items dev ! unat x))\<lparr>di_next := 0\<rparr> # diags dev (L p))"
proof -
  have r': "diag_rep (upd_item x f dev) fr L" using r o by (rule diag_rep_upd_orphan)
  show "diag_rep dev' fr (L(p := x # L p))" unfolding dev'_def using r' o p by (intro diag_rep_link) simp_all
  have sp: "shape dev" "path_ok p" using diag_repD(1) [OF r] p by (auto simp: in_use_at_def)
  show "in_use_at dev' p" "owner_ok (ssub dev' p)" using p ok sp
    by (auto simp: dev'_def link_item_def' in_use_at_new_list ssub_upd_subslot owner_ok_def)
  have b: "unat x < length (diag_items dev)" using o diag_repD(2) [OF r] by (simp add: orphan_def)
  have d: "diags dev' js = diags dev js" if "x \<notin> set js" for js
    using that by (simp add: dev'_def link_item_def' diags_upd_other)
  have "diagnosis_at (diag_items dev') x = (f (diag_items dev ! unat x))\<lparr>di_next := 0\<rparr>"
    using b by (simp add: dev'_def link_item_def' diagnosis_at_def)
  then show "(\<lambda>q. diags dev' ((L(p := x # L p)) q)) =
      (\<lambda>q. diags dev (L q))(p := (f (diag_items dev ! unat x))\<lparr>di_next := 0\<rparr> # diags dev (L p))"
    using o d by (auto simp: fun_eq_iff orphan_def)
qed

text \<open>Then the change is reported, which leaves the store as it is.\<close>

lemma report_keeps_store:
  assumes r: "diag_rep (d_device n) fr L" and p: "in_use_at (d_device n) p" and o: "owner_ok (ssub (d_device n) p)"
  shows "\<exists>ret n'. report_change env src p ix old n = Some (ret, n') \<and>
    diag_sim (d_device n') (length fr, \<lambda>q. diags (d_device n) (L q))"
proof -
  obtain ret su w where e: "report_change env src p ix old n =
      Some (ret, n\<lparr>d_device := upd_subslot p (\<lambda>s. s\<lparr>diag_summary := su\<rparr>) (d_device n), d_world := w\<rparr>)"
    using report_change_returns [OF r p o] by blast
  have "diag_rep (upd_subslot p (\<lambda>s. s\<lparr>diag_summary := su\<rparr>) (d_device n)) fr L"
    using r p by (intro diag_rep_upd_subslot) (simp_all add: in_use_at_def)
  then show ?thesis unfolding e by (intro exI conjI) (auto simp: diag_sim_def intro!: exI [of _ fr] exI [of _ L])
qed

end
