(* ===== verification/Diag_Props.thy ===== *)
theory Diag_Props
  imports Diag_Refine
begin

text \<open>
  Properties of the diagnosis store: its operations are those of the abstract store, and what
  happens to the diagnoses of a submodule that is pulled.
\<close>

section \<open>The operations on the abstract store\<close>

definition put_item ::
    "pnet_diag_source \<Rightarrow> u16 \<Rightarrow> u16 \<Rightarrow> u16 \<Rightarrow> u16 \<Rightarrow> u32 \<Rightarrow> u32 \<Rightarrow> u16 \<Rightarrow> u16 \<Rightarrow> u8 list option \<Rightarrow> pf_diag_item \<Rightarrow> pf_diag_item"
  where
  "put_item src ch_bits severity err ext add_value qualifier usi len data d =
     d\<lparr>di_usi := usi, di_fmt := new_item_fmt src ch_bits severity err ext add_value
        (qualifier AND PF_DIAG_QUALIFIED_SEVERITY_MASK) usi len data (di_fmt d)\<rparr>"

lemma put_item_next:
  "(put_item src b s e x av q u l dt d)\<lparr>di_next := k\<rparr> = put_item src b s e x av q u l dt (d\<lparr>di_next := k\<rparr>)"
  by (simp add: put_item_def)

lemma updated_item_next: "(updated_item av l dt d)\<lparr>di_next := k\<rparr> = updated_item av l dt (d\<lparr>di_next := k\<rparr>)"
  by (simp add: updated_item_def set_spec_def upd_std_def)

text \<open>Linking a filled item and reporting it gives the store with the item in front.\<close>

lemma link_and_report:
  fixes f :: "pf_diag_item \<Rightarrow> pf_diag_item"
  assumes r: "diag_rep dev fr L" and o: "orphan x fr L" and p: "in_use_at dev p" and ok: "owner_ok (ssub dev p)"
    and v: "(\<lambda>q. diags dev (L q)) = V" and x: "(f (diag_items dev ! unat x))\<lparr>di_next := 0\<rparr> = d"
  shows "\<exists>ret n'. report_change env src p ix old (n\<lparr>d_device := link_item p x (upd_item x f dev)\<rparr>) = Some (ret, n') \<and>
    diag_sim (d_device n') (length fr, V(p := d # V p))"
proof -
  note l = link_new [OF r o p ok, of f]
  let ?n = "n\<lparr>d_device := link_item p x (upd_item x f dev)\<rparr>"
  have "\<exists>ret n'. report_change env src p ix old ?n = Some (ret, n') \<and>
    diag_sim (d_device n') (length fr, \<lambda>q. diags (d_device ?n) ((L(p := x # L p)) q))"
    by (rule report_keeps_store) (use l in \<open>simp_all del: fun_upd_apply\<close>)
  then show ?thesis unfolding v [symmetric] x [symmetric] using l(4) by (simp del: fun_upd_apply)
qed

lemma get_orphan: "diag_rep dev fr L \<Longrightarrow> orphan x fr L \<Longrightarrow> pf_cmdev_get_diag_item dev x = Some (diag_items dev ! unat x)"
  by (simp add: get_item_chain(2) diag_repD(2) orphan_def)

lemma add_refines:
  assumes s: "diag_sim (d_device n) A"
    and l: "pf_cmdev_get_subslot_full (d_device n) (src_api src) (src_slot src) (src_subslot src) = Some p"
    and ok: "owner_ok (ssub (d_device n) p)"
    and a: "\<not> diag_add_refused src severity err ext add_value (qualifier AND PF_DIAG_QUALIFIED_SEVERITY_MASK) usi len data"
  shows "\<exists>ret n'. pf_diag_add env src ch_bits severity err ext add_value qualifier usi len data n = Some (ret, n') \<and>
    diag_sim (d_device n') (store_put (item_matches src err ext usi)
      (put_item src ch_bits severity err ext add_value qualifier usi len data) p A)"
proof -
  obtain fr L where r: "diag_rep (d_device n) fr L" and A: "A = (length fr, \<lambda>q. diags (d_device n) (L q))"
    using s by (auto simp: diag_sim_def)
  have p: "in_use_at (d_device n) p" using lookup_in_use [OF diag_repD(1) [OF r] l] .
  let ?P = "item_matches src err ext usi"
  let ?mk = "put_item src ch_bits severity err ext add_value qualifier usi len data"
  note defs = pf_diag_add_def a Let_def put_item_def [abs_def] A store_put_def
  show ?thesis
  proof (cases "List.find ?P (diags (d_device n) (L p))")
    case (Some d)
    obtain x dev' L' where f: "pf_diag_find_entry src err ext usi (d_device n) = Some (Some p, x, dev')"
        "diag_rep dev' fr L'" "orphan x fr L'" "in_use_at dev' p" "owner_ok (ssub dev' p) = owner_ok (ssub (d_device n) p)"
        "(diag_items dev' ! unat x)\<lparr>di_next := 0\<rparr> = d"
        "(\<lambda>q. diags dev' (L' q)) = (\<lambda>q. diags (d_device n) (L q))(p := remove_first ?P (diags (d_device n) (L p)))"
      using find_entry_found [OF r l Some] by metis
    have x: "x \<noteq> PF_DIAG_IX_NULL" using orphan_not_null [OF f(3)] .
    have ok': "owner_ok (ssub dev' p)" using ok f(5) by simp
    have i: "(?mk (diag_items dev' ! unat x))\<lparr>di_next := 0\<rparr> = ?mk d" using f(6) by (simp add: put_item_next)
    show ?thesis
      using link_and_report [where f = ?mk, OF f(2,3,4) ok' f(7) i, of env src x "Some (diag_items dev' ! unat x)" n] Some x f(1)
      by (simp add: defs get_orphan [OF f(2,3)])
  next
    case None
    then have f: "pf_diag_find_entry src err ext usi (d_device n) = Some (Some p, PF_DIAG_IX_NULL, d_device n)"
      by (intro find_entry_none [OF r l p]) (simp add: find_None_iff)
    show ?thesis
    proof (cases fr)
      case Nil
      then show ?thesis using f None s by (simp add: defs new_diag_empty [OF r [unfolded Nil]])
    next
      case (Cons x fr')
      note w = diag_rep_new [OF r [unfolded Cons]]
      let ?dev = "snd (pf_cmdev_new_diag (d_device n))"
      have k: "(\<lambda>q. diags ?dev (L q)) = (\<lambda>q. diags (d_device n) (L q))"
        using w(3) unfolding w(1) by (auto simp: orphan_def diags_upd_other)
      have b: "unat x < length (diag_items (d_device n))" using w(3) diag_repD(2) [OF r] by (simp add: orphan_def)
      have i: "(?mk (diag_items ?dev ! unat x))\<lparr>di_next := 0\<rparr> = ?mk (zero_diag_item\<lparr>di_in_use := True\<rparr>)"
        using b unfolding w(1) put_item_next by (simp add: zero_diag_item_def)
      have u: "in_use_at ?dev p" "owner_ok (ssub ?dev p)" using p ok unfolding w(1) by simp_all
      show ?thesis
        using link_and_report [where f = ?mk, OF w(2,3) u k i, of env src x None n] f None get_orphan [OF w(2,3)]
        by (simp add: defs w(1) Cons)
    qed
  qed
qed

lemma update_refines:
  assumes s: "diag_sim (d_device n) A"
    and l: "pf_cmdev_get_subslot_full (d_device n) (src_api src) (src_slot src) (src_subslot src) = Some p"
    and ok: "owner_ok (ssub (d_device n) p)"
    and a: "\<not> diag_update_refused src err ext add_value usi len data"
  shows "\<exists>ret n'. pf_diag_update env src err ext add_value usi len data n = Some (ret, n') \<and>
    diag_sim (d_device n') (store_change (item_matches src err ext usi) (updated_item add_value len data) p A)"
proof -
  obtain fr L where r: "diag_rep (d_device n) fr L" and A: "A = (length fr, \<lambda>q. diags (d_device n) (L q))"
    using s by (auto simp: diag_sim_def)
  have p: "in_use_at (d_device n) p" using lookup_in_use [OF diag_repD(1) [OF r] l] .
  let ?P = "item_matches src err ext usi"
  let ?mk = "updated_item add_value len data"
  note defs = pf_diag_update_def a Let_def A store_change_def
  show ?thesis
  proof (cases "List.find ?P (diags (d_device n) (L p))")
    case (Some d)
    obtain x dev' L' where f: "pf_diag_find_entry src err ext usi (d_device n) = Some (Some p, x, dev')"
        "diag_rep dev' fr L'" "orphan x fr L'" "in_use_at dev' p" "owner_ok (ssub dev' p) = owner_ok (ssub (d_device n) p)"
        "(diag_items dev' ! unat x)\<lparr>di_next := 0\<rparr> = d"
        "(\<lambda>q. diags dev' (L' q)) = (\<lambda>q. diags (d_device n) (L q))(p := remove_first ?P (diags (d_device n) (L p)))"
      using find_entry_found [OF r l Some] by metis
    have ok': "owner_ok (ssub dev' p)" using ok f(5) by simp
    have i: "(?mk (diag_items dev' ! unat x))\<lparr>di_next := 0\<rparr> = ?mk d" using f(6) by (simp add: updated_item_next)
    show ?thesis
      using link_and_report [where f = ?mk, OF f(2,3,4) ok' f(7) i, of env src x "Some (diag_items dev' ! unat x)" n] Some f(1)
      by (simp add: defs get_orphan [OF f(2,3)])
  next
    case None
    then have f: "pf_diag_find_entry src err ext usi (d_device n) = Some (Some p, PF_DIAG_IX_NULL, d_device n)"
      by (intro find_entry_none [OF r l p]) (simp add: find_None_iff)
    then show ?thesis using None s by (simp add: defs get_item_chain(1) [OF diag_repD(2) [OF r]])
  qed
qed

text \<open>Removing: the item, which is on no list then, is told about and freed.\<close>

lemma report_removal_returns:
  assumes "owner_ok (ssub (d_device n) p)"
  shows "\<exists>ret ar f w. report_removal env src p x usi n =
    Some (ret, ar, n\<lparr>d_device := upd_item x f (d_device n), d_world := w\<rparr>)"
proof -
  obtain i j k where p: "p = (i, j, k)" by (cases p) auto
  have idle: "upd_item x id (d_device n) = d_device n" by (simp add: upd_item_def)
  show ?thesis
  proof (cases "is_owned (subslot_at (d_device n) i j k)")
    case False
    then have "report_removal env src p x usi n =
        Some (-1, None, n\<lparr>d_device := upd_item x id (d_device n), d_world := d_world n\<rparr>)"
      by (simp add: report_removal_def p idle Let_def)
    then show ?thesis by blast
  next
    case True
    then show ?thesis using assms
      by (auto simp: report_removal_def p ssub_def Let_def dcall_def owner_ok_def upd_dev_def) (intro exI, rule refl)+
  qed
qed

lemma free_diags: "orphan x fr L \<Longrightarrow> diags (pf_cmdev_free_diag x dev) (L q) = diags dev (L q)"
  by (simp add: pf_cmdev_free_diag_def diags_upd_other orphan_def)

lemma removal_ends:
  assumes r: "diag_rep dev fr L" and o: "orphan x fr L" and p: "in_use_at dev p"
    and ok: "owner_ok (ssub dev p)" and V: "(\<lambda>q. diags dev (L q)) = V"
  shows "\<exists>ret ar m dev' n'. report_removal env src p x usi (n\<lparr>d_device := dev\<rparr>) = Some (ret, ar, m) \<and>
    pf_diag_update_submodule_state p (d_device m) = Some dev' \<and>
    (case ar of None \<Rightarrow> Some (m\<lparr>d_device := pf_cmdev_free_diag x dev'\<rparr>)
     | Some a \<Rightarrow> pf_diag_update_station_problem_indicator env a (ssub (pf_cmdev_free_diag x dev') p)
         (m\<lparr>d_device := pf_cmdev_free_diag x dev'\<rparr>)) = Some n' \<and>
    diag_sim (d_device n') (Suc (length fr), V)"
proof -
  obtain ret ar f w where e: "report_removal env src p x usi (n\<lparr>d_device := dev\<rparr>) =
      Some (ret, ar, n\<lparr>d_device := upd_item x f dev, d_world := w\<rparr>)"
    using report_removal_returns [of "n\<lparr>d_device := dev\<rparr>" p env src x usi] ok by auto
  have r1: "diag_rep (upd_item x f dev) fr L" using r o by (rule diag_rep_upd_orphan)
  have p1: "in_use_at (upd_item x f dev) p" using p by simp
  obtain su where u: "pf_diag_update_submodule_state p (upd_item x f dev) =
      Some (upd_subslot p (\<lambda>s. s\<lparr>diag_summary := su\<rparr>) (upd_item x f dev))"
    using r1 p1 by (rule update_submodule_state)
  let ?d = "upd_subslot p (\<lambda>s. s\<lparr>diag_summary := su\<rparr>) (upd_item x f dev)"
  let ?f = "pf_cmdev_free_diag x ?d"
  let ?n = "n\<lparr>d_world := w, d_device := ?f\<rparr>"
  have r2: "diag_rep ?d fr L" using r1 p1 by (intro diag_rep_upd_subslot) (simp_all add: in_use_at_def)
  have r3: "diag_rep ?f (x # fr) L" using r2 o by (rule diag_rep_free)
  have p3: "in_use_at ?f p" using p diag_repD(1) [OF r]
    by (simp add: pf_cmdev_free_diag_def in_use_at_upd_subslot in_use_at_def [of dev p])
  have v: "(\<lambda>q. diags ?f (L q)) = V"
    using o by (simp add: free_diags [OF o] diags_upd_other orphan_def flip: V)
  have s: "diag_sim ?f (Suc (length fr), V)"
    unfolding diag_sim_def using r3 v by (intro exI [of _ "x # fr"] exI [of _ L]) simp
  show ?thesis
  proof (cases ar)
    case None
    then show ?thesis using e u s by simp
  next
    case (Some a)
    obtain w' where "pf_diag_update_station_problem_indicator env a (ssub ?f p) ?n = Some (?n\<lparr>d_world := w'\<rparr>)"
      using problem_indicator_returns [of ?n "x # fr" L p "ssub ?f p" env a] r3 p3 by auto
    then show ?thesis using e u s Some by (simp add: fun_eq_iff)
  qed
qed

lemma remove_refines:
  assumes s: "diag_sim (d_device n) A"
    and l: "pf_cmdev_get_subslot_full (d_device n) (src_api src) (src_slot src) (src_subslot src) = Some p"
    and ok: "owner_ok (ssub (d_device n) p)" and a: "\<not> diag_remove_refused src err ext usi"
  shows "\<exists>ret n'. pf_diag_remove env src err ext usi n = Some (ret, n') \<and>
    diag_sim (d_device n') (store_remove (item_matches src err ext usi) p A)"
proof -
  obtain fr L where r: "diag_rep (d_device n) fr L" and A: "A = (length fr, \<lambda>q. diags (d_device n) (L q))"
    using s by (auto simp: diag_sim_def)
  have p: "in_use_at (d_device n) p" using lookup_in_use [OF diag_repD(1) [OF r] l] .
  obtain i j k where pp: "p = (i, j, k)" by (cases p) auto
  let ?P = "item_matches src err ext usi"
  note defs = pf_diag_remove_def a Let_def A store_remove_def
  show ?thesis
  proof (cases "List.find ?P (diags (d_device n) (L p))")
    case (Some d)
    obtain x dev' L' where f: "pf_diag_find_entry src err ext usi (d_device n) = Some (Some p, x, dev')"
        "diag_rep dev' fr L'" "orphan x fr L'" "in_use_at dev' p" "owner_ok (ssub dev' p) = owner_ok (ssub (d_device n) p)"
        "(diag_items dev' ! unat x)\<lparr>di_next := 0\<rparr> = d"
        "(\<lambda>q. diags dev' (L' q)) = (\<lambda>q. diags (d_device n) (L q))(p := remove_first ?P (diags (d_device n) (L p)))"
      using find_entry_found [OF r l Some] by metis
    have x: "x \<noteq> PF_DIAG_IX_NULL" using orphan_not_null [OF f(3)] .
    have ok': "owner_ok (ssub dev' p)" using ok f(5) by simp
    from removal_ends [OF f(2,3,4) ok' f(7), of env src usi n] obtain ret ar m dev2 n' where
      "report_removal env src p x usi (n\<lparr>d_device := dev'\<rparr>) = Some (ret, ar, m)"
      "pf_diag_update_submodule_state p (d_device m) = Some dev2"
      "(case ar of None \<Rightarrow> Some (m\<lparr>d_device := pf_cmdev_free_diag x dev2\<rparr>)
       | Some a \<Rightarrow> pf_diag_update_station_problem_indicator env a (ssub (pf_cmdev_free_diag x dev2) p)
           (m\<lparr>d_device := pf_cmdev_free_diag x dev2\<rparr>)) = Some n'"
      "diag_sim (d_device n') (Suc (length fr), (\<lambda>q. diags (d_device n) (L q))(p := remove_first ?P (diags (d_device n) (L p))))"
      by blast
    then show ?thesis using Some x f(1) by (cases ar) (simp_all add: defs pp ssub_def)
  next
    case None
    then have f: "pf_diag_find_entry src err ext usi (d_device n) = Some (Some p, PF_DIAG_IX_NULL, d_device n)"
      by (intro find_entry_none [OF r l p]) (simp add: find_None_iff)
    then show ?thesis using None s by (simp add: defs)
  qed
qed

end
