(* ===== verification/Device_Runs.thy ===== *)
theory Device_Runs
  imports Diag_Props
begin

text \<open>
  The device tree and the diagnosis store together: every operation keeps the tree well formed
  and the store represented, none of them fails, and so it is in every state that a
  sequence of operations reaches from the start.
\<close>

section \<open>The store does not look at the rest of the tree\<close>

lemma diag_rep_cong:
  assumes r: "diag_rep dev fr L" and s: "shape dev'"
    and i: "diag_items dev' = diag_items dev" "diag_items_free dev' = diag_items_free dev"
    and p: "\<And>p. path_ok p \<Longrightarrow> ss_in_use (ssub dev' p) = ss_in_use (ssub dev p) \<and>
      (ss_in_use (ssub dev p) \<longrightarrow> diag_list (ssub dev' p) = diag_list (ssub dev p))"
  shows "diag_rep dev' fr L"
proof -
  have u: "in_use_at dev' p = in_use_at dev p" for p using p [of p] by (auto simp: in_use_at_def)
  have "chained dev' fr L" unfolding chained_def i
  proof (intro conjI allI)
    show "dchain (diag_items dev) (diag_items_free dev) fr" using r by (rule diag_repD)
    show "if in_use_at dev' p then dchain (diag_items dev) (diag_list (ssub dev' p)) (L p) else L p = []" for p
      using diag_repD(4) [OF r] p [of p] by (auto simp: chained_def u in_use_at_def split: if_splits)
  qed
  then show ?thesis using r s by (simp add: diag_rep_def i)
qed

lemma ssub_upd_slot:
  assumes "shape dev" "i < PNET_MAX_API" "j < PNET_MAX_SLOTS"
  shows "ssub (upd_slot i j f dev) (i', j', k') =
    (if i' = i \<and> j' = j then subslots (f (slot_at dev i j)) ! k' else ssub dev (i', j', k'))"
  using assms by (auto simp: ssub_def upd_slot_def upd_api_def shape_lengths nth_list_update)

lemma upd_slot_items [simp]:
  "diag_items (upd_slot i j f dev) = diag_items dev" "diag_items_free (upd_slot i j f dev) = diag_items_free dev"
  by (simp_all add: upd_slot_def upd_api_def)

lemma diag_rep_upd_slot:
  assumes r: "diag_rep dev fr L" and ij: "i < PNET_MAX_API" "j < PNET_MAX_SLOTS"
    and s: "length (subslots (f (slot_at dev i j))) = PNET_MAX_SUBSLOTS"
    and k: "\<And>k. k < PNET_MAX_SUBSLOTS \<Longrightarrow>
      ss_in_use (subslots (f (slot_at dev i j)) ! k) = ss_in_use (subslot_at dev i j k) \<and>
      (ss_in_use (subslot_at dev i j k) \<longrightarrow> diag_list (subslots (f (slot_at dev i j)) ! k) = diag_list (subslot_at dev i j k))"
  shows "diag_rep (upd_slot i j f dev) fr L"
proof (rule diag_rep_cong [OF r])
  show "shape (upd_slot i j f dev)" using diag_repD(1) [OF r] ij s by (rule shape_upd_slot)
  fix p assume p: "path_ok p"
  obtain i' j' k' where q: "p = (i', j', k')" by (cases p) auto
  show "ss_in_use (ssub (upd_slot i j f dev) p) = ss_in_use (ssub dev p) \<and>
      (ss_in_use (ssub dev p) \<longrightarrow> diag_list (ssub (upd_slot i j f dev) p) = diag_list (ssub dev p))"
    using ssub_upd_slot [OF diag_repD(1) [OF r] ij] k [of k'] p by (auto simp: q path_ok_def ssub_def)
qed simp_all

text \<open>A new subslot has no diagnosis, and one that is taken out of use loses its own.\<close>

lemma diag_rep_new_subslot:
  assumes r: "diag_rep dev fr L" and p: "path_ok p" "\<not> ss_in_use (ssub dev p)"
    and f: "ss_in_use (f (ssub dev p))" "diag_list (f (ssub dev p)) = PF_DIAG_IX_NULL"
  shows "diag_rep (upd_subslot p f dev) fr L"
proof -
  have s: "shape dev" "L p = []" using r p by (auto simp: diag_rep_def chained_def in_use_at_def)
  have "if in_use_at (upd_subslot p f dev) q
      then dchain (diag_items dev) (diag_list (ssub (upd_subslot p f dev) q)) (L q) else L q = []" for q
    using diag_repD(4) [OF r] s p f by (auto simp: chained_def in_use_at_def ssub_upd_subslot split: if_splits)
  then show ?thesis using r s p by (simp add: diag_rep_def chained_def shape_upd_subslot)
qed

lemma diag_rep_pull:
  assumes r: "diag_rep dev fr L" and p: "path_ok p"
  shows "diag_rep (upd_subslot p (\<lambda>s. s\<lparr>ss_in_use := False\<rparr>) dev) fr (L(p := []))"
proof -
  let ?d = "upd_subslot p (\<lambda>s. s\<lparr>ss_in_use := False\<rparr>) dev"
  have s: "shape dev" using r by (rule diag_repD)
  have "if in_use_at ?d q then dchain (diag_items dev) (diag_list (ssub ?d q)) ((L(p := [])) q) else (L(p := [])) q = []" for q
    using diag_repD(4) [OF r] s p by (auto simp: chained_def in_use_at_def ssub_upd_subslot split: if_splits)
  moreover have "apart fr (L(p := []))" using diag_repD(3) [OF r] by (simp add: apart_def)
  ultimately show ?thesis using r s p by (simp add: diag_rep_def chained_def shape_upd_subslot del: fun_upd_apply)
qed

section \<open>The start\<close>

lemma chained_items_chain:
  assumes "m \<le> PNET_MAX_DIAG_ITEMS"
  shows "dchain chained_items (if m < PNET_MAX_DIAG_ITEMS then of_nat m else PF_DIAG_IX_NULL)
    (map of_nat [m..<PNET_MAX_DIAG_ITEMS])"
  using assms
proof (induction "PNET_MAX_DIAG_ITEMS - m" arbitrary: m)
  case (Suc d)
  have m: "m < PNET_MAX_DIAG_ITEMS" "unat (of_nat m :: u16) = m"
    using Suc.hyps(2) by (auto simp: unat_of_nat PNET_MAX_DIAG_ITEMS_def)
  have "d = PNET_MAX_DIAG_ITEMS - Suc m" "Suc m \<le> PNET_MAX_DIAG_ITEMS" using Suc.hyps(2) by auto
  note ih = Suc.hyps(1) [OF this]
  have "dchain chained_items (di_next (chained_items ! m)) (map of_nat [Suc m..<PNET_MAX_DIAG_ITEMS])"
    using ih m by (cases "Suc m < PNET_MAX_DIAG_ITEMS") (simp_all add: chained_items_def del: of_nat_Suc)
  then show ?case using m by (simp add: upt_rec [of m] chained_items_def)
qed simp

lemma init_device: "d_device (pf_cmdev_init n) =
  upd_api 0 (\<lambda>_. zero_api\<lparr>ra_api_id := 0, ra_in_use := True\<rparr>) (zero_device\<lparr>diag_items := chained_items, diag_items_free := 0\<rparr>)"
  by (simp add: pf_cmdev_init_def pf_cmdev_new_api_def pf_cmdev_get_api_def find_index_def zero_device_def zero_api_def
      PNET_MAX_API_def)

lemma zero_tree: "api_ok (zero_api\<lparr>ra_api_id := x, ra_in_use := u\<rparr>)" "slot_ok (zero_slot\<lparr>sl_number := y, sl_in_use := v\<rparr>)"
  by (auto simp: api_ok_def slot_ok_def zero_api_def zero_slot_def zero_subslot_def unique_numbers_def owner_ok_def is_owned_def)

lemma init_ok: "tree_ok (d_device (pf_cmdev_init n))" "diag_sim (d_device (pf_cmdev_init n)) (PNET_MAX_DIAG_ITEMS, \<lambda>_. [])"
proof -
  show t: "tree_ok (d_device (pf_cmdev_init n))"
    unfolding init_device using zero_tree(1) [where x = 0 and u = True]
    by (simp add: tree_ok_def upd_api_def zero_device_def PNET_MAX_API_def unique_numbers_def)
  have d: "distinct (map of_nat [0..<PNET_MAX_DIAG_ITEMS] :: u16 list)"
    by (auto simp: distinct_map inj_on_def PNET_MAX_DIAG_ITEMS_def unat_of_nat dest!: arg_cong [where f = unat])
  have u: "\<not> in_use_at (d_device (pf_cmdev_init n)) p" for p
    by (cases p) (auto simp: in_use_at_def init_device upd_api_def zero_device_def zero_api_def zero_slot_def zero_subslot_def
        ssub_def path_ok_def PNET_MAX_API_def)
  have "diag_rep (d_device (pf_cmdev_init n)) (map of_nat [0..<PNET_MAX_DIAG_ITEMS]) (\<lambda>_. [])"
    using tree_ok_shape [OF t] d u chained_items_chain [of 0]
    by (simp add: diag_rep_def chained_def apart_def init_device upd_api_def zero_device_def chained_items_def
        PNET_MAX_DIAG_ITEMS_def)
  then show "diag_sim (d_device (pf_cmdev_init n)) (PNET_MAX_DIAG_ITEMS, \<lambda>_. [])"
    unfolding diag_sim_def by (intro exI [of _ "map of_nat [0..<PNET_MAX_DIAG_ITEMS]"] exI [of _ "\<lambda>_. []"]) simp
qed

section \<open>Plug and pull\<close>

definition dev_inv :: "'w dev_net \<Rightarrow> bool" where
  "dev_inv n \<longleftrightarrow> tree_ok (d_device n) \<and> (\<exists>fr L. diag_rep (d_device n) fr L)"

lemma dev_inv_dcall [simp]: "dev_inv (snd (dcall f n)) = dev_inv n"
  by (simp add: dev_inv_def)

lemma new_slot_ok:
  assumes t: "tree_ok dev" and i: "i < PNET_MAX_API" "ra_in_use (api_at dev i)"
  shows "tree_ok (snd (pf_cmdev_new_slot i slot dev))"
    and "diag_rep dev fr L \<Longrightarrow> diag_rep (snd (pf_cmdev_new_slot i slot dev)) fr L"
    and "fst (pf_cmdev_new_slot i slot dev) = Some j \<Longrightarrow> j < PNET_MAX_SLOTS \<and>
      slot_at (snd (pf_cmdev_new_slot i slot dev)) i j = zero_slot\<lparr>sl_number := slot, sl_in_use := True\<rparr>"
proof -
  let ?s = "zero_slot\<lparr>sl_number := slot, sl_in_use := True\<rparr>"
  have sh: "shape dev" using t by (rule tree_ok_shape)
  have fresh: "\<forall>x \<in> set (slots (api_at dev i)). sl_in_use x \<longrightarrow> sl_number x \<noteq> slot"
    if "pf_cmdev_get_slot (api_at dev i) slot = None"
    using that by (auto simp: pf_cmdev_get_slot_def find_index_None)
  have free: "j < PNET_MAX_SLOTS" "\<not> sl_in_use (slot_at dev i j)"
    if "find_index (\<lambda>x. \<not> sl_in_use x) (slots (api_at dev i)) = Some j" for j
    using find_index_Some [OF that] shape_lengths(2) [OF sh i(1)] by auto
  show "tree_ok (snd (pf_cmdev_new_slot i slot dev))"
    using t i fresh free zero_tree(2) [where y = slot and v = True]
    by (auto simp: pf_cmdev_new_slot_def split: option.split intro!: tree_ok_upd_slot)
  have none: "\<not> ss_in_use (subslot_at dev i j k)" if "j < PNET_MAX_SLOTS" "\<not> sl_in_use (slot_at dev i j)" "k < PNET_MAX_SUBSLOTS" for j k
    using tree_okD(2) [OF t i(1) that(1)] that by (auto simp: slot_ok_def)
  show "diag_rep (snd (pf_cmdev_new_slot i slot dev)) fr L" if "diag_rep dev fr L"
    using that i free none
    by (auto simp: pf_cmdev_new_slot_def zero_slot_def zero_subslot_def split: option.split intro!: diag_rep_upd_slot)
  show "fst (pf_cmdev_new_slot i slot dev) = Some j \<Longrightarrow> j < PNET_MAX_SLOTS \<and>
      slot_at (snd (pf_cmdev_new_slot i slot dev)) i j = ?s"
    using free [of j] shape_lengths(1,2) [OF sh] i
    by (auto simp: pf_cmdev_new_slot_def upd_slot_def upd_api_def split: option.splits if_splits)
qed

lemma plug_module_inv:
  assumes "dev_inv n"
  shows "dev_inv (snd (pf_cmdev_plug_module api slot ident n))"
proof (cases "pf_cmdev_get_api (d_device n) api")
  case None
  then show ?thesis using assms by (simp add: pf_cmdev_plug_module_def)
next
  case (Some i)
  obtain fr L where t: "tree_ok (d_device n)" and r: "diag_rep (d_device n) fr L" using assms by (auto simp: dev_inv_def)
  have i: "i < PNET_MAX_API" "ra_in_use (api_at (d_device n) i)" using lookup_paths(1) [OF tree_ok_shape [OF t] Some] by auto
  show ?thesis
  proof (cases "pf_cmdev_get_slot (api_at (d_device n) i) slot")
    case s: None
    obtain jo dev where e: "pf_cmdev_new_slot i slot (d_device n) = (jo, dev)" by (cases "pf_cmdev_new_slot i slot (d_device n)") auto
    note k = new_slot_ok [where slot = slot, OF t i, unfolded e fst_conv snd_conv]
    have td: "tree_ok dev" "diag_rep dev fr L" using k(1) k(2) [OF r] by auto
    show ?thesis
    proof (cases jo)
      case None
      then show ?thesis using Some s e td by (auto simp: pf_cmdev_plug_module_def dev_inv_def)
    next
      case (Some j)
      have j: "j < PNET_MAX_SLOTS" "slot_at dev i j = zero_slot\<lparr>sl_number := slot, sl_in_use := True\<rparr>" using k(3) [of j] Some by auto
      have "slot_at dev i j \<in> set (slots (api_at dev i))" "sl_in_use (slot_at dev i j)"
        using j shape_lengths(2) [OF tree_ok_shape [OF td(1)] i(1)] by (metis nth_mem, simp)
      then have ra: "ra_in_use (api_at dev i)" using tree_okD(1) [OF td(1) i(1)] unfolding api_ok_def by blast
      have z: "slot_ok (slot_at dev i j)" using tree_okD(2) [OF td(1) i(1) j(1)] .
      have "tree_ok (upd_slot i j (\<lambda>s. s\<lparr>sl_ident_number := ident\<rparr>) dev)"
        using td(1) i(1) j(1) z ra by (intro tree_ok_upd_slot) (auto simp: slot_ok_def)
      moreover have "diag_rep (upd_slot i j (\<lambda>s. s\<lparr>sl_ident_number := ident\<rparr>) dev) fr L"
        using td(2) i(1) j(1) z by (intro diag_rep_upd_slot) (auto simp: slot_ok_def)
      ultimately show ?thesis using \<open>pf_cmdev_get_api _ _ = _\<close> s e Some by (auto simp: pf_cmdev_plug_module_def dev_inv_def)
    qed
  next
    case (Some j)
    then show ?thesis using \<open>pf_cmdev_get_api _ _ = _\<close> assms by (simp add: pf_cmdev_plug_module_def)
  qed
qed

lemma subslot_out_ok:
  assumes t: "tree_ok dev" and p: "path_ok p"
  shows "tree_ok (upd_subslot p (\<lambda>s. s\<lparr>ss_in_use := False\<rparr>) dev)"
  using tree_okD(3) [OF t p] by (intro tree_ok_upd_subslot_same [OF t p]) (simp_all add: owner_ok_def is_owned_def)

lemma pull_submodule_inv:
  assumes "dev_inv n"
  shows "\<exists>r n'. pf_cmdev_pull_submodule env api slot subslot n = Some (r, n') \<and> dev_inv n' \<and>
    d_device n' = (case pf_cmdev_get_subslot_full (d_device n) api slot subslot of None \<Rightarrow> d_device n
      | Some p \<Rightarrow> upd_subslot p (\<lambda>s. s\<lparr>ss_in_use := False\<rparr>) (d_device n))"
proof (cases "pf_cmdev_get_subslot_full (d_device n) api slot subslot")
  case None
  then show ?thesis using assms by (simp add: pf_cmdev_pull_submodule_def)
next
  case (Some p)
  obtain fr L where t: "tree_ok (d_device n)" and r: "diag_rep (d_device n) fr L" using assms by (auto simp: dev_inv_def)
  have p: "path_ok p" using lookup_full_paths(2) [OF tree_ok_shape [OF t] Some] by simp
  let ?m = "upd_dev (upd_subslot p (\<lambda>s. s\<lparr>ss_in_use := False\<rparr>)) n"
  have m: "dev_inv ?m" unfolding dev_inv_def using subslot_out_ok [OF t p] diag_rep_pull [OF r p] by (auto simp: upd_dev_def)
  obtain i j k where q: "p = (i, j, k)" by (cases p) auto
  have o: "owner_ok (subslot_at (d_device n) i j k)" using tree_okD(3) [OF t p] by (simp add: q ssub_def)
  show ?thesis
  proof (cases "is_owned (subslot_at (d_device n) i j k)")
    case True
    then obtain a where a: "ss_owner (subslot_at (d_device n) i j k) = Some a" using o by (auto simp: owner_ok_def)
    have "pf_cmdev_pull_submodule env api slot subslot n = Some (dcall (de_send_pull env a api slot subslot) ?m)"
      using Some True a by (simp add: pf_cmdev_pull_submodule_def q Let_def)
    then show ?thesis using m Some by (intro exI [of _ "fst (dcall (de_send_pull env a api slot subslot) ?m)"]
        exI [of _ "snd (dcall (de_send_pull env a api slot subslot) ?m)"]) (simp add: upd_dev_def)
  next
    case False
    then show ?thesis using m Some by (simp add: pf_cmdev_pull_submodule_def q Let_def upd_dev_def)
  qed
qed

text \<open>A subslot whose number the slot has in use is pulled by its number.\<close>

lemma lookup_unique:
  assumes t: "tree_ok dev" and ij: "i < PNET_MAX_API" "j < PNET_MAX_SLOTS" and l: "pf_cmdev_get_slot_full dev api slot = Some (i, j)"
    and k: "k < PNET_MAX_SUBSLOTS" "ss_in_use (subslot_at dev i j k)"
  shows "pf_cmdev_get_subslot_full dev api slot (ss_number (subslot_at dev i j k)) = Some (i, j, k)"
proof -
  have s: "slot_ok (slot_at dev i j)" using tree_okD(2) [OF t ij] .
  have "pf_cmdev_get_subslot (slot_at dev i j) (ss_number (subslot_at dev i j k)) = Some k"
    unfolding pf_cmdev_get_subslot_def using s k
    by (intro find_index_unique) (auto simp: slot_ok_def unique_numbers_def)
  then show ?thesis using l by (auto simp: pf_cmdev_get_slot_full_def pf_cmdev_get_subslot_full_def split: Option.bind_splits)
qed

lemma first_index_update: "P y = P (xs ! m) \<Longrightarrow> first_index P (xs[m := y]) = first_index P xs"
  by (induction xs arbitrary: m) (auto split: nat.split)

lemma find_index_update: "P y = P (xs ! m) \<Longrightarrow> find_index P (xs[m := y]) = find_index P xs"
  by (simp add: find_index_def first_index_update)

lemma nth_list_update_any: "xs[m := y] ! k = (if m = k \<and> k < length xs then y else xs ! k)"
  by (cases "m < length xs") (auto simp: nth_list_update list_update_beyond)

lemma lookup_after_pull:
  shows "pf_cmdev_get_slot_full (upd_subslot p (\<lambda>s. s\<lparr>ss_in_use := False\<rparr>) dev) api slot = pf_cmdev_get_slot_full dev api slot"
proof -
  obtain i j k where q: "p = (i, j, k)" by (cases p) auto
  show ?thesis by (auto simp: find_index_update q upd_subslot_def upd_slot_def upd_api_def pf_cmdev_get_slot_full_def pf_cmdev_get_api_def
      pf_cmdev_get_slot_def nth_list_update_any split: Option.bind_split)
qed

text \<open>Pulling a module pulls all its submodules or fails; what it has pulled stays out of use.\<close>

lemma pull_submodules_inv:
  assumes "dev_inv n" "i < PNET_MAX_API" "j < PNET_MAX_SLOTS" "pf_cmdev_get_slot_full (d_device n) api slot = Some (i, j)"
    and "set ks \<subseteq> {..<PNET_MAX_SUBSLOTS}"
  shows "\<exists>r n'. pull_submodules env api slot i j ks n = Some (r, n') \<and> dev_inv n' \<and>
    (\<forall>k < PNET_MAX_SUBSLOTS. ss_in_use (subslot_at (d_device n') i j k) \<longrightarrow> ss_in_use (subslot_at (d_device n) i j k)) \<and>
    (r = 0 \<longrightarrow> (\<forall>k \<in> set ks. \<not> ss_in_use (subslot_at (d_device n') i j k)))"
  using assms
proof (induction ks arbitrary: n)
  case (Cons k ks)
  show ?case
  proof (cases "ss_in_use (subslot_at (d_device n) i j k)")
    case False
    from Cons.IH [of n] Cons.prems obtain r n' where "pull_submodules env api slot i j ks n = Some (r, n')" "dev_inv n'"
      "\<forall>k < PNET_MAX_SUBSLOTS. ss_in_use (subslot_at (d_device n') i j k) \<longrightarrow> ss_in_use (subslot_at (d_device n) i j k)"
      "r = 0 \<longrightarrow> (\<forall>k \<in> set ks. \<not> ss_in_use (subslot_at (d_device n') i j k))" by auto
    then show ?thesis using False Cons.prems(5) by (auto simp: Let_def)
  next
    case True
    obtain fr L where t: "tree_ok (d_device n)" using Cons.prems(1) by (auto simp: dev_inv_def)
    have k: "k < PNET_MAX_SUBSLOTS" "path_ok (i, j, k)" using Cons.prems(2,3,5) by (auto simp: path_ok_def)
    note l = lookup_unique [OF t Cons.prems(2-4) k(1) True]
    obtain r m where m: "pf_cmdev_pull_submodule env api slot (ss_number (subslot_at (d_device n) i j k)) n = Some (r, m)"
        "dev_inv m" "d_device m = upd_subslot (i, j, k) (\<lambda>s. s\<lparr>ss_in_use := False\<rparr>) (d_device n)"
      using pull_submodule_inv [OF Cons.prems(1), of env api slot "ss_number (subslot_at (d_device n) i j k)"] l by auto
    have u: "ss_in_use (subslot_at (d_device m) i j k') \<longleftrightarrow> k' \<noteq> k \<and> ss_in_use (subslot_at (d_device n) i j k')" for k'
      using ssub_upd_subslot [OF tree_ok_shape [OF t] k(2), of "\<lambda>s. s\<lparr>ss_in_use := False\<rparr>" "(i, j, k')"]
      by (simp add: m(3) ssub_def)
    show ?thesis
    proof (cases "r = 0")
      case False
      then show ?thesis using True m u by (auto simp: Let_def)
    next
      case r: True
      have "pf_cmdev_get_slot_full (d_device m) api slot = Some (i, j)"
        using Cons.prems(4) by (simp add: m(3) lookup_after_pull)
      from Cons.IH [OF m(2) Cons.prems(2,3) this] Cons.prems(5) obtain r' n' where
        "pull_submodules env api slot i j ks m = Some (r', n')" "dev_inv n'"
        "\<forall>k < PNET_MAX_SUBSLOTS. ss_in_use (subslot_at (d_device n') i j k) \<longrightarrow> ss_in_use (subslot_at (d_device m) i j k)"
        "r' = 0 \<longrightarrow> (\<forall>k \<in> set ks. \<not> ss_in_use (subslot_at (d_device n') i j k))" by auto
      then show ?thesis using True m(1) u r k by (auto simp: Let_def)
    qed
  qed
qed auto

lemma pull_module_inv:
  assumes "dev_inv n"
  shows "\<exists>r n'. pf_cmdev_pull_module env api slot n = Some (r, n') \<and> dev_inv n'"
proof (cases "pf_cmdev_get_slot_full (d_device n) api slot")
  case None
  then show ?thesis using assms by (simp add: pf_cmdev_pull_module_def)
next
  case (Some p)
  obtain i j where p: "p = (i, j)" by (cases p) auto
  have t: "tree_ok (d_device n)" using assms by (auto simp: dev_inv_def)
  have ij: "i < PNET_MAX_API" "j < PNET_MAX_SLOTS" using lookup_full_paths(1) [OF tree_ok_shape [OF t]] Some p by auto
  obtain r m where m: "pull_submodules env api slot i j [0..<PNET_MAX_SUBSLOTS] n = Some (r, m)" "dev_inv m"
      "r = 0 \<longrightarrow> (\<forall>k < PNET_MAX_SUBSLOTS. \<not> ss_in_use (subslot_at (d_device m) i j k))"
    using pull_submodules_inv [OF assms ij, of api slot "[0..<PNET_MAX_SUBSLOTS]" env] Some p
    by (auto simp: atLeast0LessThan)
  obtain fr L where tm: "tree_ok (d_device m)" "diag_rep (d_device m) fr L" using m(2) by (auto simp: dev_inv_def)
  have s: "slot_ok (slot_at (d_device m) i j)" using tree_okD(2) [OF tm(1) ij] .
  have "dev_inv (upd_dev (upd_slot i j (\<lambda>s. s\<lparr>sl_in_use := False\<rparr>)) m)" if "r = 0"
  proof -
    have "tree_ok (upd_slot i j (\<lambda>s. s\<lparr>sl_in_use := False\<rparr>) (d_device m))"
      using tm(1) ij s m(3) that by (intro tree_ok_upd_slot) (auto simp: slot_ok_def in_set_conv_nth)
    moreover have "diag_rep (upd_slot i j (\<lambda>s. s\<lparr>sl_in_use := False\<rparr>) (d_device m)) fr L"
      using tm(2) ij s by (intro diag_rep_upd_slot) (auto simp: slot_ok_def)
    ultimately show ?thesis by (auto simp: dev_inv_def upd_dev_def)
  qed
  then show ?thesis using Some p m by (simp add: pf_cmdev_pull_module_def)
qed

text \<open>Plugging a submodule.\<close>

lemma new_subslot_ok:
  assumes t: "tree_ok dev" and ij: "i < PNET_MAX_API" "j < PNET_MAX_SLOTS" "sl_in_use (slot_at dev i j)"
    and n: "pf_cmdev_new_subslot i j subslot dev = (Some k, dev')"
  shows "tree_ok dev'" "diag_rep dev fr L \<Longrightarrow> diag_rep dev' fr L" "path_ok (i, j, k)"
proof -
  have k: "pf_cmdev_get_subslot (slot_at dev i j) subslot = None"
      "find_index (\<lambda>x. \<not> ss_in_use x) (subslots (slot_at dev i j)) = Some k"
      "dev' = upd_subslot (i, j, k) (\<lambda>_. zero_subslot\<lparr>ss_number := subslot, diag_list := PF_DIAG_IX_NULL, ss_in_use := True\<rparr>) dev"
    using n by (auto simp: pf_cmdev_new_subslot_def split: if_splits option.splits)
  have f: "k < PNET_MAX_SUBSLOTS" "\<not> ss_in_use (subslot_at dev i j k)"
    using find_index_Some [OF k(2)] shape_lengths(3) [OF tree_ok_shape [OF t] ij(1,2)] by auto
  show p: "path_ok (i, j, k)" using ij f by (simp add: path_ok_def)
  have fresh: "\<forall>x \<in> set (subslots (slot_at dev i j)). ss_in_use x \<longrightarrow> ss_number x \<noteq> subslot"
    using k(1) by (auto simp: pf_cmdev_get_subslot_def find_index_None)
  show "tree_ok dev'" unfolding k(3) using t p ij(3) fresh
    by (intro tree_ok_upd_subslot) (auto simp: owner_ok_def is_owned_def zero_subslot_def)
  show "diag_rep dev fr L \<Longrightarrow> diag_rep dev' fr L" unfolding k(3) using p f
    by (intro diag_rep_new_subslot) (auto simp: ssub_def)
qed

text \<open>Stores that only set the owner and the identity of a subslot.\<close>

lemma dev_inv_upd_subslot:
  assumes "dev_inv n" "path_ok p" "\<And>s. ss_in_use (f s) = ss_in_use s" "\<And>s. ss_number (f s) = ss_number s"
    "\<And>s. diag_list (f s) = diag_list s" "\<And>s. owner_ok (f s)"
  shows "dev_inv (upd_dev (upd_subslot p f) n)"
proof -
  obtain fr L where "tree_ok (d_device n)" "diag_rep (d_device n) fr L" using assms(1) by (auto simp: dev_inv_def)
  then have "tree_ok (upd_subslot p f (d_device n))" "diag_rep (upd_subslot p f (d_device n)) fr L"
    using assms by (auto intro!: tree_ok_upd_subslot_same diag_rep_upd_subslot)
  then show ?thesis by (auto simp: dev_inv_def upd_dev_def)
qed

lemma assign_owner_inv:
  assumes "dev_inv n" "path_ok p"
  shows "dev_inv (snd (assign_owner env api slot subslot mident sident p n))"
proof -
  have "dev_inv (upd_dev (upd_subslot p (\<lambda>s. s\<lparr>ss_ownsm_state := PF_OWNSM_STATE_IOC, ss_owner := Some a\<rparr>)) n)" for a
    using assms by (intro dev_inv_upd_subslot) (simp_all add: owner_ok_def)
  then show ?thesis using assms by (simp add: assign_owner_def Let_def split: option.split)
qed

lemma plug_make_room_inv:
  assumes "dev_inv n"
  shows "\<exists>old m. plug_make_room env i api slot subslot mident sident update n = Some (old, m) \<and> dev_inv m"
proof -
  obtain r n1 where pull: "pf_cmdev_pull_submodule env api slot subslot n = Some (r, n1)" "dev_inv n1"
    using pull_submodule_inv [OF assms, of env api slot subslot] by auto
  show ?thesis unfolding plug_make_room_def
    using assms plug_module_inv [OF assms, of api slot mident] pull by (auto split: option.split)
qed

lemma plug_submodule_inv:
  assumes "dev_inv n"
  shows "\<exists>r n'. pf_cmdev_plug_submodule env api slot subslot mident sident dir li lo update n = Some (r, n') \<and> dev_inv n'"
proof (cases "pf_cmdev_get_api (d_device n) api")
  case None
  then show ?thesis using assms by (simp add: pf_cmdev_plug_submodule_def)
next
  case (Some i)
  have i: "i < PNET_MAX_API" using assms lookup_paths(1) [OF tree_ok_shape Some] by (auto simp: dev_inv_def)
  obtain old m where m: "plug_make_room env i api slot subslot mident sident update n = Some (old, m)" "dev_inv m"
    using plug_make_room_inv [OF assms] by blast
  have tm: "tree_ok (d_device m)" using m(2) by (simp add: dev_inv_def)
  have e: "pf_cmdev_plug_submodule env api slot subslot mident sident dir li lo update n =
      (if old then Some (0, m)
       else case pf_cmdev_get_slot (api_at (d_device m) i) slot of None \<Rightarrow> Some (-1, m)
         | Some j \<Rightarrow> (case pf_cmdev_new_subslot i j subslot (d_device m) of
               (None, dev) \<Rightarrow> Some (-1, m\<lparr>d_device := dev\<rparr>)
             | (Some k, dev) \<Rightarrow> Some (assign_owner env api slot subslot mident sident (i, j, k)
                 (m\<lparr>d_device := upd_subslot (i, j, k) (\<lambda>s. s\<lparr>ss_ident_number := sident, ss_direction := dir,
                     length_input := li, length_output := lo,
                     ss_ownsm_state := PF_OWNSM_STATE_FREE, ss_owner := None\<rparr>) dev\<rparr>))))"
    using Some m(1) by (simp add: pf_cmdev_plug_submodule_def)
  show ?thesis
  proof (cases "old \<or> pf_cmdev_get_slot (api_at (d_device m) i) slot = None")
    case True
    then show ?thesis using m(2) by (auto simp: e)
  next
    case False
    then obtain j where j: "\<not> old" "pf_cmdev_get_slot (api_at (d_device m) i) slot = Some j" by auto
    have sj: "j < PNET_MAX_SLOTS" "sl_in_use (slot_at (d_device m) i j)"
      using lookup_paths(2) [OF tree_ok_shape [OF tm] i j(2)] by auto
    obtain ko dev where n': "pf_cmdev_new_subslot i j subslot (d_device m) = (ko, dev)"
      by (cases "pf_cmdev_new_subslot i j subslot (d_device m)") auto
    show ?thesis
    proof (cases ko)
      case None
      then have "dev = d_device m" using n' by (auto simp: pf_cmdev_new_subslot_def split: if_splits option.splits)
      then show ?thesis using j n' None m(2) by (simp add: e)
    next
      case (Some k)
      note k = new_subslot_ok [OF tm i sj n' [unfolded Some]]
      have d: "dev_inv (m\<lparr>d_device := dev\<rparr>)" using m(2) k(1,2) by (auto simp: dev_inv_def)
      let ?f = "\<lambda>s. s\<lparr>ss_ident_number := sident, ss_direction := dir, length_input := li, length_output := lo,
                     ss_ownsm_state := PF_OWNSM_STATE_FREE, ss_owner := None\<rparr>"
      have "dev_inv (upd_dev (upd_subslot (i, j, k) ?f) (m\<lparr>d_device := dev\<rparr>))"
        using d k(3) by (intro dev_inv_upd_subslot) (simp_all add: owner_ok_def is_owned_def)
      then have "dev_inv (snd (assign_owner env api slot subslot mident sident (i, j, k)
          (m\<lparr>d_device := upd_subslot (i, j, k) ?f dev\<rparr>)))"
        using k(3) by (intro assign_owner_inv) (simp_all add: upd_dev_def)
      then show ?thesis using j n' Some by (simp add: e) (metis surjective_pairing)
    qed
  qed
qed

text \<open>An aborted AR.\<close>

lemma clear_subslot_inv: "dev_inv n \<Longrightarrow> path_ok p \<Longrightarrow> dev_inv (clear_subslot env a p n)"
proof -
  assume n: "dev_inv n" and p: "path_ok p"
  have 1: "dev_inv (upd_dev (upd_subslot p (\<lambda>s. s\<lparr>ss_ownsm_state := PF_OWNSM_STATE_FREE, ss_owner := None\<rparr>)) m)"
    if "dev_inv m" for m :: "'a dev_net" using that p by (intro dev_inv_upd_subslot) (simp_all add: owner_ok_def is_owned_def)
  have 2: "dev_inv (upd_dev (upd_subslot p (\<lambda>s. s\<lparr>ss_ownsm_state := PF_OWNSM_STATE_IOC, ss_owner := Some b\<rparr>)) m)"
    if "dev_inv m" for m :: "'a dev_net" and b using that p by (intro dev_inv_upd_subslot) (simp_all add: owner_ok_def)
  obtain i j k where q: "p = (i, j, k)" by (cases p) auto
  show ?thesis using n 1 [OF n] 2 [OF 1 [OF n]] unfolding clear_subslot_def q
    by (auto simp: Let_def split: option.split)
qed

lemma device_clear_inv: "dev_inv n \<Longrightarrow> dev_inv (pf_device_clear env a n)"
proof -
  have "set ps \<subseteq> {p. path_ok p} \<Longrightarrow> dev_inv n \<Longrightarrow> dev_inv (fold (clear_subslot env a) ps n)" for ps n
    by (induction ps arbitrary: n) (simp_all add: clear_subslot_inv)
  then show "dev_inv n \<Longrightarrow> ?thesis" by (simp add: pf_device_clear_def subset_iff subslot_paths_ok)
qed

section \<open>Diagnoses and the tree\<close>

lemma unlink_item_ok: "tree_ok dev \<Longrightarrow> path_ok p \<Longrightarrow> tree_ok (unlink_item p prev x dev)"
  by (auto simp: unlink_item_def Let_def owner_ok_def dest: tree_okD(3) intro!: tree_ok_upd_subslot_same)

lemma link_item_ok: "tree_ok dev \<Longrightarrow> path_ok p \<Longrightarrow> tree_ok (link_item p x dev)"
  by (auto simp: link_item_def' owner_ok_def dest: tree_okD(3) intro!: tree_ok_upd_subslot_same)

lemma update_submodule_state_ok:
  "tree_ok dev \<Longrightarrow> path_ok p \<Longrightarrow> pf_diag_update_submodule_state p dev = Some dev' \<Longrightarrow> tree_ok dev'"
  by (auto simp: pf_diag_update_submodule_state_def owner_ok_def split: Option.bind_splits prod.splits dest: tree_okD(3)
      intro!: tree_ok_upd_subslot_same)

lemma find_entry_ok:
  "pf_diag_find_entry src err ext usi dev = Some (po, x, dev') \<Longrightarrow> tree_ok dev \<Longrightarrow>
   tree_ok dev' \<and> (\<forall>p. po = Some p \<longrightarrow> path_ok p)"
  using lookup_full_paths(2) [OF tree_ok_shape]
  by (auto simp: pf_diag_find_entry_def split: option.splits Option.bind_splits prod.splits intro!: unlink_item_ok)

lemma new_diag_tree: "tree_ok (snd (pf_cmdev_new_diag dev)) = tree_ok dev"
  by (simp add: pf_cmdev_new_diag_def Let_def)

lemma free_diag_tree: "tree_ok (pf_cmdev_free_diag x dev) = tree_ok dev"
  by (simp add: pf_cmdev_free_diag_def)

lemma problem_indicator_device:
  "pf_diag_update_station_problem_indicator env a s n = Some n' \<Longrightarrow> d_device n' = d_device n"
  by (auto simp: pf_diag_update_station_problem_indicator_def split: Option.bind_splits)

lemma report_change_ok:
  assumes t: "tree_ok (d_device n)" "path_ok p" and r: "report_change env src p x old n = Some (ret, n')"
  shows "tree_ok (d_device n')"
proof -
  obtain i j k where p: "p = (i, j, k)" by (cases p) auto
  obtain dev where d: "pf_diag_update_submodule_state p (d_device n) = Some dev"
    using r by (auto simp: report_change_def p split: Option.bind_splits)
  have "d_device n' = dev" using r d
    by (auto simp: report_change_def p Let_def dcall_def dest!: problem_indicator_device
        split: Option.bind_splits if_splits option.splits)
  then show ?thesis using update_submodule_state_ok [OF t d] by simp
qed

lemma report_removal_ok:
  "tree_ok (d_device n) \<Longrightarrow> report_removal env src p x usi n = Some (ret, ar, n') \<Longrightarrow> tree_ok (d_device n')"
  by (cases p) (auto simp: report_removal_def Let_def dcall_def upd_dev_def split: Option.bind_splits if_splits)

lemma diag_ops_tree:
  assumes t: "tree_ok (d_device n)"
  shows "pf_diag_add env src b sev err ext av q usi len data n = Some (r, n') \<Longrightarrow> tree_ok (d_device n')"
    and "pf_diag_update env src err ext av usi len data n = Some (r, n') \<Longrightarrow> tree_ok (d_device n')"
    and "pf_diag_remove env src err ext usi n = Some (r, n') \<Longrightarrow> tree_ok (d_device n')"
proof -
  have nd: "tree_ok dev'" if "pf_cmdev_new_diag dev = (io, dev')" "tree_ok dev" for dev io dev'
    using that new_diag_tree [of dev] by simp
  show "tree_ok (d_device n')" if "pf_diag_add env src b sev err ext av q usi len data n = Some (r, n')"
    using that t
    by (auto simp: pf_diag_add_def Let_def dest!: find_entry_ok report_change_ok [rotated 2]
        split: if_splits option.splits prod.splits Option.bind_splits intro!: link_item_ok) (metis nd)+
  show "tree_ok (d_device n')" if "pf_diag_update env src err ext av usi len data n = Some (r, n')"
    using that t
    by (auto simp: pf_diag_update_def dest!: find_entry_ok report_change_ok [rotated 2]
        split: if_splits option.splits Option.bind_splits intro!: link_item_ok)
  have rr: "tree_ok y" if "report_removal env src p x usi (n\<lparr>d_device := b\<rparr>) = Some (r', ar, m)" "tree_ok b"
      "pf_diag_update_submodule_state p (d_device m) = Some y" "path_ok p" for p x b r' ar m y
    using report_removal_ok [OF _ that(1)] update_submodule_state_ok [OF _ that(4,3)] that(2) by simp
  show "tree_ok (d_device n')" if "pf_diag_remove env src err ext usi n = Some (r, n')"
    using that t
    by (auto simp: pf_diag_remove_def Let_def free_diag_tree dest!: find_entry_ok problem_indicator_device
        split: if_splits option.splits Option.bind_splits) (metis rr)+
qed

section \<open>Runs\<close>

text \<open>Whatever the user, the controllers and the stack itself ask of the device.\<close>

datatype dev_event =
    Plug_module u32 u16 u32
  | Plug_submodule u32 u16 u16 u32 u32 pnet_submodule_dir u16 u16 bool
  | Pull_submodule u32 u16 u16
  | Pull_module u32 u16
  | Ars_change "nat list" "nat \<Rightarrow> pf_exp_ident"
  | Ar_aborted nat
  | Diag_add pnet_diag_source u16 u16 u16 u16 u32 u32 u16 u16 "u8 list option"
  | Diag_update pnet_diag_source u16 u16 u32 u16 u16 "u8 list option"
  | Diag_remove pnet_diag_source u16 u16 u16

fun handle_dev :: "'w dev_env \<Rightarrow> dev_event \<Rightarrow> 'w dev_net \<Rightarrow> 'w dev_net option" where
  "handle_dev env (Plug_module api slot ident) n = Some (snd (pf_cmdev_plug_module api slot ident n))"
| "handle_dev env (Plug_submodule api slot sub mident sident dir li lo update) n =
     map_option snd (pf_cmdev_plug_submodule env api slot sub mident sident dir li lo update n)"
| "handle_dev env (Pull_submodule api slot sub) n = map_option snd (pf_cmdev_pull_submodule env api slot sub n)"
| "handle_dev env (Pull_module api slot) n = map_option snd (pf_cmdev_pull_module env api slot n)"
| "handle_dev env (Ars_change as e) n = Some (n\<lparr>d_ars := as, d_exp_ident := e\<rparr>)"
| "handle_dev env (Ar_aborted a) n = Some (pf_device_clear env a n)"
| "handle_dev env (Diag_add src b sev err ext av q usi len data) n =
     map_option snd (pf_diag_add env src b sev err ext av q usi len data n)"
| "handle_dev env (Diag_update src err ext av usi len data) n =
     map_option snd (pf_diag_update env src err ext av usi len data n)"
| "handle_dev env (Diag_remove src err ext usi) n = map_option snd (pf_diag_remove env src err ext usi n)"

inductive dev_run :: "'w dev_env \<Rightarrow> 'w dev_net \<Rightarrow> 'w dev_net \<Rightarrow> bool" for env where
  Dev_start: "dev_run env n n"
| Dev_step: "dev_run env n m \<Longrightarrow> handle_dev env ev m = Some m' \<Longrightarrow> dev_run env n m'"

inductive_cases dev_runE: "dev_run env n m"

lemma unknown_subslot:
  "pf_cmdev_get_subslot_full (d_device n) (src_api src) (src_slot src) (src_subslot src) = None \<Longrightarrow>
   pf_diag_find_entry src err ext usi (d_device n) = Some (None, PF_DIAG_IX_NULL, d_device n)"
  by (simp add: pf_diag_find_entry_def)

text \<open>The operations on diagnoses return whether they are refused, find no subslot, or do it.\<close>

lemma diag_ops_return:
  assumes "dev_inv n"
  shows "\<exists>r n'. pf_diag_add env src b sev err ext av q usi len data n = Some (r, n') \<and> (\<exists>fr L. diag_rep (d_device n') fr L)"
    and "\<exists>r n'. pf_diag_update env src err ext av usi len data n = Some (r, n') \<and> (\<exists>fr L. diag_rep (d_device n') fr L)"
    and "\<exists>r n'. pf_diag_remove env src err ext usi n = Some (r, n') \<and> (\<exists>fr L. diag_rep (d_device n') fr L)"
proof -
  obtain fr L where t: "tree_ok (d_device n)" and r: "diag_rep (d_device n) fr L" using assms by (auto simp: dev_inv_def)
  have s: "diag_sim (d_device n) (length fr, \<lambda>q. diags (d_device n) (L q))" using r by (auto simp: diag_sim_def)
  have ex: "\<exists>fr L. diag_rep (d_device n) fr L" using r by blast
  have sim: "diag_sim dev A \<Longrightarrow> \<exists>fr L. diag_rep dev fr L" for dev A by (auto simp: diag_sim_def)
  let ?l = "pf_cmdev_get_subslot_full (d_device n) (src_api src) (src_slot src) (src_subslot src)"
  have none: "?l = None \<Longrightarrow> pf_diag_find_entry src err ext usi (d_device n) = Some (None, PF_DIAG_IX_NULL, d_device n)"
    by (rule unknown_subslot)
  have o: "owner_ok (ssub (d_device n) p)" if "?l = Some p" for p
    using tree_okD(3) [OF t] lookup_full_paths(2) [OF tree_ok_shape [OF t] that] by blast
  show "\<exists>r n'. pf_diag_add env src b sev err ext av q usi len data n = Some (r, n') \<and> (\<exists>fr L. diag_rep (d_device n') fr L)"
  proof (cases "diag_add_refused src sev err ext av (q AND PF_DIAG_QUALIFIED_SEVERITY_MASK) usi len data \<or> ?l = None")
    case True
    then show ?thesis using none by (auto simp: pf_diag_add_def Let_def ex)
  next
    case False
    then obtain p where p: "?l = Some p" by auto
    show ?thesis using add_refines [OF s p o [OF p]] False sim by blast
  qed
  show "\<exists>r n'. pf_diag_update env src err ext av usi len data n = Some (r, n') \<and> (\<exists>fr L. diag_rep (d_device n') fr L)"
  proof (cases "diag_update_refused src err ext av usi len data \<or> ?l = None")
    case True
    then show ?thesis using none by (auto simp: pf_diag_update_def ex)
  next
    case False
    then obtain p where p: "?l = Some p" by auto
    show ?thesis using update_refines [OF s p o [OF p]] False sim by blast
  qed
  show "\<exists>r n'. pf_diag_remove env src err ext usi n = Some (r, n') \<and> (\<exists>fr L. diag_rep (d_device n') fr L)"
  proof (cases "diag_remove_refused src err ext usi \<or> ?l = None")
    case True
    then show ?thesis using none by (auto simp: pf_diag_remove_def ex)
  next
    case False
    then obtain p where p: "?l = Some p" by auto
    show ?thesis using remove_refines [OF s p o [OF p]] False sim by blast
  qed
qed

lemma handle_dev_inv:
  assumes "dev_inv n"
  shows "\<exists>n'. handle_dev env ev n = Some n' \<and> dev_inv n'"
proof (cases ev)
  case (Ars_change as e)
  then show ?thesis using assms by (simp add: dev_inv_def)
next
  case (Diag_add src b sev err ext av q usi len data)
  obtain r n' where o: "pf_diag_add env src b sev err ext av q usi len data n = Some (r, n')" "\<exists>fr L. diag_rep (d_device n') fr L"
    using diag_ops_return(1) [OF assms] by blast
  have "tree_ok (d_device n')" using diag_ops_tree(1) [OF _ o(1)] assms by (simp add: dev_inv_def)
  then show ?thesis using o by (simp add: Diag_add dev_inv_def)
next
  case (Diag_update src err ext av usi len data)
  obtain r n' where o: "pf_diag_update env src err ext av usi len data n = Some (r, n')" "\<exists>fr L. diag_rep (d_device n') fr L"
    using diag_ops_return(2) [OF assms] by blast
  have "tree_ok (d_device n')" using diag_ops_tree(2) [OF _ o(1)] assms by (simp add: dev_inv_def)
  then show ?thesis using o by (simp add: Diag_update dev_inv_def)
next
  case (Diag_remove src err ext usi)
  obtain r n' where o: "pf_diag_remove env src err ext usi n = Some (r, n')" "\<exists>fr L. diag_rep (d_device n') fr L"
    using diag_ops_return(3) [OF assms] by blast
  have "tree_ok (d_device n')" using diag_ops_tree(3) [OF _ o(1)] assms by (simp add: dev_inv_def)
  then show ?thesis using o by (simp add: Diag_remove dev_inv_def)
next
  case (Plug_submodule api slot sub mident sident dir li lo update)
  obtain r m where "pf_cmdev_plug_submodule env api slot sub mident sident dir li lo update n = Some (r, m)" "dev_inv m"
    using plug_submodule_inv [OF assms, of env api slot sub mident sident dir li lo update] by blast
  then show ?thesis by (simp add: Plug_submodule)
next
  case (Pull_submodule api slot sub)
  obtain r m where "pf_cmdev_pull_submodule env api slot sub n = Some (r, m)" "dev_inv m"
    using pull_submodule_inv [OF assms, of env api slot sub] by blast
  then show ?thesis by (simp add: Pull_submodule)
next
  case (Pull_module api slot)
  obtain r m where "pf_cmdev_pull_module env api slot n = Some (r, m)" "dev_inv m"
    using pull_module_inv [OF assms, of env api slot] by blast
  then show ?thesis by (simp add: Pull_module)
qed (simp_all add: plug_module_inv [OF assms] device_clear_inv [OF assms])

lemma dev_run_inv: "dev_run env n m \<Longrightarrow> dev_inv n \<Longrightarrow> dev_inv m"
  by (induction rule: dev_run.induct) (auto, metis handle_dev_inv option.inject)

end
