(* ===== verification/Device_Props.thy ===== *)
theory Device_Props
  imports Device_Runs
begin

text \<open>
  Properties of the device tree (src/device/pf_cmdev.c) and of the diagnosis store
  (src/device/pf_diag.c).
\<close>

section \<open>The abstraction is unique\<close>






section \<open>A small device\<close>

text \<open>Alarms are sent, and the world counts the calls.\<close>

definition demo_dev_env :: "nat dev_env" where
  "demo_dev_env = \<lparr>de_send_pull = \<lambda>_ _ _ _ _ w. (0, Suc w), de_send_plug = \<lambda>_ _ _ _ _ _ _ w. (0, Suc w),
     de_send_plug_wrong = \<lambda>_ _ _ _ _ _ _ w. (0, Suc w), de_released = \<lambda>_ _ _ _ _ _ _ w. (0, Suc w),
     de_send_diagnosis = \<lambda>_ _ _ _ _ _ w. (0, Suc w), de_send_usi_disappears = \<lambda>_ _ _ _ _ _ w. (0, Suc w),
     de_problem_indicator = \<lambda>_ _ _ w. (0, Suc w)\<rparr>"

definition demo_start :: "nat dev_net" where
  "demo_start = pf_cmdev_init \<lparr>d_device = zero_device, d_ars = [], d_exp_ident = \<lambda>_. zero_exp_ident, d_world = 0\<rparr>"

text \<open>A module in slot 1 with a submodule in subslot 1, which no AR owns.\<close>

definition demo_slot :: "nat dev_net" where
  "demo_slot = snd (pf_cmdev_plug_module 0 1 5 demo_start)"

definition demo_device :: "nat dev_net" where
  "demo_device = snd (the (pf_cmdev_plug_submodule demo_dev_env 0 1 1 5 7 PNET_DIR_INPUT 1 0 False demo_slot))"

definition demo_source :: pnet_diag_source where
  "demo_source = \<lparr>src_api = 0, src_slot = 1, src_subslot = 1, src_ch = 4, ch_grouping = 0, ch_direction = 1\<rparr>"

lemma demo_start_inv: "dev_inv demo_start" "diag_sim (d_device demo_start) (PNET_MAX_DIAG_ITEMS, \<lambda>_. [])"
  using init_ok [of "\<lparr>d_device = zero_device, d_ars = [], d_exp_ident = \<lambda>_. zero_exp_ident, d_world = 0::nat\<rparr>"]
  by (auto simp: dev_inv_def demo_start_def diag_sim_def)

lemma demo_device_run: "dev_run demo_dev_env demo_start demo_device"
proof -
  have 1: "dev_run demo_dev_env demo_start demo_slot"
    by (rule Dev_step [OF Dev_start, of _ "Plug_module 0 1 5"]) (simp add: demo_slot_def)
  from dev_run_inv [OF 1] demo_start_inv obtain r m where
    "pf_cmdev_plug_submodule demo_dev_env 0 1 1 5 7 PNET_DIR_INPUT 1 0 False demo_slot = Some (r, m)"
    using plug_submodule_inv by blast
  then show ?thesis
    by (intro Dev_step [OF 1, of "Plug_submodule 0 1 1 5 7 PNET_DIR_INPUT 1 0 False"]) (simp add: demo_device_def)
qed

lemma demo_lookup: "pf_cmdev_get_subslot_full (d_device demo_device) 0 1 1 = Some (0, 0, 0)"
  by code_simp

lemma demo_unowned: "\<not> is_owned (ssub (d_device demo_device) (0, 0, 0))" "pf_cmdev_get_slot_full (d_device demo_device) 0 1 = Some (0, 0)"
  by code_simp+

section \<open>Properties\<close>

text \<open>
  C19. After the start, whatever modules and submodules are plugged and pulled, diagnoses added,
  changed and removed, and ARs aborted: the device tree has its sizes, the numbers of what is in
  use are distinct at every level, nothing is in use below something that is not, an owned
  subslot names its owner, the lists of diagnoses and the free list are chains that share
  nothing, and every operation returns.
\<close>

theorem device_tree_well_formed:
  assumes "dev_run env (pf_cmdev_init n) m"
  shows "tree_ok (d_device m) \<and> (\<exists>fr L. diag_rep (d_device m) fr L) \<and> handle_dev env ev m \<noteq> None"
proof -
  have "dev_inv (pf_cmdev_init n)" using init_ok [of n] by (auto simp: dev_inv_def diag_sim_def)
  with assms have m: "dev_inv m" by (rule dev_run_inv)
  then show ?thesis using handle_dev_inv [OF m, of env ev] by (auto simp: dev_inv_def)
qed

lemma device_tree_well_formed_witness:
  "tree_ok (d_device demo_device) \<and> (\<exists>fr L. diag_rep (d_device demo_device) fr L) \<and>
   handle_dev demo_dev_env (Pull_module 0 1) demo_device \<noteq> None"
  by (rule device_tree_well_formed [OF demo_device_run [unfolded demo_start_def]])

text \<open>
  C20. The operations on diagnoses are those of the abstract store, which has a list of
  diagnoses for every subslot. Adding replaces the first diagnosis that matches or takes a free
  item, and puts the new one in front; updating changes the first that matches and puts it in
  front; removing takes it out and frees its item. All other subslots keep what they have. An
  item that cannot be stored because none is free leaves the store as it is.
\<close>

theorem diag_store_refines:
  assumes "diag_sim (d_device n) A" and "tree_ok (d_device n)"
    and "pf_cmdev_get_subslot_full (d_device n) (src_api src) (src_slot src) (src_subslot src) = Some p"
  shows "(\<not> diag_add_refused src sev err ext av (q AND PF_DIAG_QUALIFIED_SEVERITY_MASK) usi len data \<longrightarrow>
      (\<exists>r n'. pf_diag_add env src b sev err ext av q usi len data n = Some (r, n') \<and>
         diag_sim (d_device n') (store_put (item_matches src err ext usi) (put_item src b sev err ext av q usi len data) p A))) \<and>
    (\<not> diag_update_refused src err ext av usi len data \<longrightarrow>
      (\<exists>r n'. pf_diag_update env src err ext av usi len data n = Some (r, n') \<and>
         diag_sim (d_device n') (store_change (item_matches src err ext usi) (updated_item av len data) p A))) \<and>
    (\<not> diag_remove_refused src err ext usi \<longrightarrow>
      (\<exists>r n'. pf_diag_remove env src err ext usi n = Some (r, n') \<and>
         diag_sim (d_device n') (store_remove (item_matches src err ext usi) p A)))"
proof -
  have o: "owner_ok (ssub (d_device n) p)"
    using tree_okD(3) [OF assms(2)] lookup_full_paths(2) [OF tree_ok_shape [OF assms(2)] assms(3)] by blast
  show ?thesis
    by (intro conjI impI add_refines [OF assms(1,3) o] update_refines [OF assms(1,3) o] remove_refines [OF assms(1,3) o])
qed

lemma diag_store_refines_witness:
  "\<exists>A r n'. diag_sim (d_device demo_device) A \<and>
    pf_diag_add demo_dev_env demo_source 1 0 0x10 0x20 5 0 0x8002 0 None demo_device = Some (r, n') \<and>
    diag_sim (d_device n') (store_put (item_matches demo_source 0x10 0x20 0x8002)
      (put_item demo_source 1 0 0x10 0x20 5 0 0x8002 0 None) (0, 0, 0) A)"
proof -
  have i: "dev_inv demo_device" using dev_run_inv [OF demo_device_run demo_start_inv(1)] .
  then obtain fr L where r: "tree_ok (d_device demo_device)" "diag_rep (d_device demo_device) fr L" by (auto simp: dev_inv_def)
  let ?A = "(length fr, \<lambda>p. diags (d_device demo_device) (L p))"
  have s: "diag_sim (d_device demo_device) ?A" using r(2) by (auto simp: diag_sim_def)
  have l: "pf_cmdev_get_subslot_full (d_device demo_device) (src_api demo_source) (src_slot demo_source)
      (src_subslot demo_source) = Some (0, 0, 0)" using demo_lookup by (simp add: demo_source_def)
  have a: "\<not> diag_add_refused demo_source 0 0x10 0x20 5 (0 AND PF_DIAG_QUALIFIED_SEVERITY_MASK) 0x8002 0 None"
    by (simp add: diag_add_refused_def bad_usi_def bad_manuf_data_def demo_source_def usi_defs PF_USI_ALARM_MULTIPLE_def
        PNET_DIAG_CH_PROP_MAINT_QUALIFIED_def PNET_CHANNEL_WHOLE_SUBMODULE_def PNET_MAX_DIAG_MANUF_DATA_SIZE_def)
  show ?thesis
    using diag_store_refines [where sev = 0 and err = "0x10" and ext = "0x20" and av = 5 and q = 0 and usi = "0x8002"
        and len = 0 and data = None and env = demo_dev_env and b = 1, OF s r(1) l] a s by blast
qed



lemma pull_submodules_stuck:
  assumes "dev_inv n" "i < PNET_MAX_API" "j < PNET_MAX_SLOTS" "pf_cmdev_get_slot_full (d_device n) api slot = Some (i, j)"
    and "set ks \<subseteq> {..<PNET_MAX_SUBSLOTS}" "k \<in> set ks"
    and "ss_in_use (subslot_at (d_device n) i j k)" "\<not> is_owned (subslot_at (d_device n) i j k)"
  shows "\<exists>n'. pull_submodules env api slot i j ks n = Some (-1, n') \<and>
    pf_cmdev_get_slot_full (d_device n') api slot = Some (i, j)"
  using assms
proof (induction ks arbitrary: n)
  case (Cons m ks)
  show ?case
  proof (cases "ss_in_use (subslot_at (d_device n) i j m)")
    case False
    then show ?thesis using Cons.IH [of n] Cons.prems by (auto simp: Let_def)
  next
    case True
    have t: "tree_ok (d_device n)" using Cons.prems(1) by (auto simp: dev_inv_def)
    have m: "m < PNET_MAX_SUBSLOTS" "path_ok (i, j, m)" using Cons.prems(2,3,5) by (auto simp: path_ok_def)
    note l = lookup_unique [OF t Cons.prems(2-4) m(1) True]
    let ?sub = "ss_number (subslot_at (d_device n) i j m)"
    obtain r n1 where n1: "pf_cmdev_pull_submodule env api slot ?sub n = Some (r, n1)"
        "dev_inv n1" "d_device n1 = upd_subslot (i, j, m) (\<lambda>s. s\<lparr>ss_in_use := False\<rparr>) (d_device n)"
      using pull_submodule_inv [OF Cons.prems(1), of env api slot ?sub] l by auto
    have g: "pf_cmdev_get_slot_full (d_device n1) api slot = Some (i, j)"
      using Cons.prems(4) by (simp add: n1(3) lookup_after_pull)
    show ?thesis
    proof (cases "r = 0")
      case False
      then show ?thesis using True n1(1) g by (simp add: Let_def)
    next
      case r: True
      have "m \<noteq> k" using r n1(1) l Cons.prems(8) by (auto simp: pf_cmdev_pull_submodule_def Let_def)
      then have "subslot_at (d_device n1) i j k = subslot_at (d_device n) i j k" "k \<in> set ks"
        using ssub_upd_subslot [OF tree_ok_shape [OF t] m(2), of "\<lambda>s. s\<lparr>ss_in_use := False\<rparr>" "(i, j, k)"] Cons.prems(6)
        by (simp_all add: n1(3) ssub_def)
      then obtain n' where "pull_submodules env api slot i j ks n1 = Some (-1, n')"
          "pf_cmdev_get_slot_full (d_device n') api slot = Some (i, j)"
        using Cons.IH [OF n1(2) Cons.prems(2,3) g] Cons.prems(5,7,8) by auto
      then show ?thesis using True r n1(1) by (simp add: Let_def)
    qed
  qed
qed simp

text \<open>
  A submodule without an owner cannot be pulled successfully: the operation takes it out of
  use and reports a failure. A module that has such a submodule therefore stays plugged when it
  is pulled, though some of its submodules are gone.
\<close>

theorem pull_module_unowned_fails:
  assumes n: "tree_ok (d_device n)" "diag_sim (d_device n) A"
    and s: "pf_cmdev_get_slot_full (d_device n) api slot = Some (i, j)"
    and k: "k < PNET_MAX_SUBSLOTS" "ss_in_use (ssub (d_device n) (i, j, k))" "\<not> is_owned (ssub (d_device n) (i, j, k))"
  shows "\<exists>n'. pf_cmdev_pull_module env api slot n = Some (-1, n') \<and>
    pf_cmdev_get_slot_full (d_device n') api slot = Some (i, j)"
proof -
  have i: "dev_inv n" using n by (auto simp: dev_inv_def diag_sim_def)
  have ij: "i < PNET_MAX_API" "j < PNET_MAX_SLOTS" using lookup_full_paths(1) [OF tree_ok_shape [OF n(1)] s] by auto
  show ?thesis using pull_submodules_stuck [OF i ij s, of "[0..<PNET_MAX_SUBSLOTS]" k env] k s
    by (auto simp: ssub_def pf_cmdev_pull_module_def atLeast0LessThan)
qed

lemma pull_module_unowned_fails_witness:
  "\<exists>n'. pf_cmdev_pull_module demo_dev_env 0 1 demo_device = Some (-1, n') \<and>
    pf_cmdev_get_slot_full (d_device n') 0 1 = Some (0, 0)"
proof -
  have i: "dev_inv demo_device" using dev_run_inv [OF demo_device_run demo_start_inv(1)] .
  then obtain A where a: "tree_ok (d_device demo_device)" "diag_sim (d_device demo_device) A"
    by (auto simp: dev_inv_def diag_sim_def)
  have u: "ss_in_use (ssub (d_device demo_device) (0, 0, 0))"
    using lookup_full_paths(2) [OF tree_ok_shape [OF a(1)] demo_lookup] by blast
  show ?thesis
    by (rule pull_module_unowned_fails [OF a demo_unowned(2) _ u demo_unowned(1)]) (simp add: PNET_MAX_SUBSLOTS_def)
qed

end
