(* ===== verification/Connect_Checks.thy ===== *)
theory Connect_Checks
  imports Cyclic_State Diag
begin

unbundle bit_operations_syntax

text \<open>
  The checks of a connect request (src/device/pf_cmdev.c). The first condition of a
  chain that holds gives the error; an error is the pair of the last two bytes of the PNIO
  status, the first two are the same for all of them. The flags \<open>valid\<close> of the
  blocks that were checked are only printed and left out.
\<close>

section \<open>Errors\<close>

type_synonym conn_error = "u8 \<times> u8"

definition pf_set_error :: "u8 \<Rightarrow> u8 \<Rightarrow> u8 \<Rightarrow> u8 \<Rightarrow> pnet_pnio_status" where
  "pf_set_error code decode code_1 code_2 =
     \<lparr>error_code = code, error_decode = decode, error_code_1 = code_1, error_code_2 = code_2\<rparr>"

definition PNET_ERROR_CODE_CONNECT :: u8 where "PNET_ERROR_CODE_CONNECT = 0xdb"
definition PNET_ERROR_DECODE_PNIO :: u8 where "PNET_ERROR_DECODE_PNIO = 0x81"
definition PNET_ERROR_CODE_1_CONN_FAULTY_AR_BLOCK_REQ :: u8 where
  "PNET_ERROR_CODE_1_CONN_FAULTY_AR_BLOCK_REQ = 1"
definition PNET_ERROR_CODE_1_CONN_FAULTY_IOCR_BLOCK_REQ :: u8 where
  "PNET_ERROR_CODE_1_CONN_FAULTY_IOCR_BLOCK_REQ = 2"
definition PNET_ERROR_CODE_1_CONN_FAULTY_EXP_BLOCK_REQ :: u8 where
  "PNET_ERROR_CODE_1_CONN_FAULTY_EXP_BLOCK_REQ = 3"
definition PNET_ERROR_CODE_1_CONN_FAULTY_ALARM_BLOCK_REQ :: u8 where
  "PNET_ERROR_CODE_1_CONN_FAULTY_ALARM_BLOCK_REQ = 4"
definition PNET_ERROR_CODE_1_CONN_FAULTY_AR_RPC_BLOCK_REQ :: u8 where
  "PNET_ERROR_CODE_1_CONN_FAULTY_AR_RPC_BLOCK_REQ = 7"
definition PNET_ERROR_CODE_1_CMRPC :: u8 where "PNET_ERROR_CODE_1_CMRPC = 0x40"
definition PNET_ERROR_CODE_2_CMRPC_UNKNOWN_BLOCKS :: u8 where
  "PNET_ERROR_CODE_2_CMRPC_UNKNOWN_BLOCKS = 1"
definition PNET_ERROR_CODE_2_CMRPC_IOCR_MISSING :: u8 where
  "PNET_ERROR_CODE_2_CMRPC_IOCR_MISSING = 2"
definition PNET_ERROR_CODE_2_CMRPC_WRONG_BLOCK_COUNT :: u8 where
  "PNET_ERROR_CODE_2_CMRPC_WRONG_BLOCK_COUNT = 3"
definition PNET_ERROR_CODE_2_CMRPC_PDEV_ALREADY_OWNED :: u8 where
  "PNET_ERROR_CODE_2_CMRPC_PDEV_ALREADY_OWNED = 9"

definition conn_status :: "conn_error \<Rightarrow> pnet_pnio_status" where
  "conn_status e = pf_set_error PNET_ERROR_CODE_CONNECT PNET_ERROR_DECODE_PNIO (fst e) (snd e)"

abbreviation faulty_ar :: "u8 \<Rightarrow> conn_error" where
  "faulty_ar x \<equiv> (PNET_ERROR_CODE_1_CONN_FAULTY_AR_BLOCK_REQ, x)"
abbreviation faulty_iocr :: "u8 \<Rightarrow> conn_error" where
  "faulty_iocr x \<equiv> (PNET_ERROR_CODE_1_CONN_FAULTY_IOCR_BLOCK_REQ, x)"
abbreviation faulty_exp :: "u8 \<Rightarrow> conn_error" where
  "faulty_exp x \<equiv> (PNET_ERROR_CODE_1_CONN_FAULTY_EXP_BLOCK_REQ, x)"
abbreviation faulty_alarm :: "u8 \<Rightarrow> conn_error" where
  "faulty_alarm x \<equiv> (PNET_ERROR_CODE_1_CONN_FAULTY_ALARM_BLOCK_REQ, x)"
abbreviation faulty_cmrpc :: "u8 \<Rightarrow> conn_error" where
  "faulty_cmrpc x \<equiv> (PNET_ERROR_CODE_1_CMRPC, x)"

text \<open>A chain of else-if branches, and an error that a later one overwrites.\<close>

definition first_fault :: "(bool \<times> conn_error) list \<Rightarrow> conn_error option" where
  "first_fault xs = map_option snd (List.find fst xs)"

lemma first_fault_simps [simp]:
  "first_fault [] = None" "first_fault ((b, e) # xs) = (if b then Some e else first_fault xs)"
  by (simp_all add: first_fault_def)

definition overwrite :: "conn_error option \<Rightarrow> conn_error option \<Rightarrow> conn_error option" where
  "overwrite x old = (case x of None \<Rightarrow> old | Some e \<Rightarrow> Some e)"

lemma overwrite_None [simp]: "overwrite x y = None \<longleftrightarrow> x = None \<and> y = None"
  by (simp add: overwrite_def split: option.split)

section \<open>The AR block\<close>

definition pf_cmdev_check_zero :: "u8 list \<Rightarrow> int" where
  "pf_cmdev_check_zero xs = (if dropWhile (\<lambda>x. x = 0) xs = [] then 0 else -1)"

text \<open>The memory of a UUID.\<close>

definition uuid_mem :: "pf_uuid \<Rightarrow> u8 list" where
  "uuid_mem u = bytes16 (ucast (drop_bit 16 (data1 u))) @ bytes16 (ucast (data1 u)) @
     bytes16 (data2 u) @ bytes16 (data3 u) @ data4 u"

definition pf_cmdev_check_cm_initiator_object_uuid :: "pf_uuid \<Rightarrow> int" where
  "pf_cmdev_check_cm_initiator_object_uuid u =
     (if data1 u = 0xdea00000 \<and> data2 u = 0x6c97 \<and> data3 u = 0x11d1 \<and> data4 u ! 0 = 0x82 \<and> data4 u ! 1 = 0x71
      then 0 else -1)"

definition isprint :: "u8 \<Rightarrow> bool" where
  "isprint c \<longleftrightarrow> 0x20 \<le> c \<and> c \<le> 0x7e"

text \<open>The reader of the block has terminated the string.\<close>

definition pf_cmdev_check_visible_string :: "u8 list \<Rightarrow> int" where
  "pf_cmdev_check_visible_string s =
     (if hd s \<noteq> 0 \<and> hd (dropWhile (\<lambda>c. c \<noteq> 0 \<and> isprint c) s) = 0 then 0 else -1)"

definition PF_ART_IOCAR_SINGLE :: u16 where "PF_ART_IOCAR_SINGLE = 1"
definition PF_ART_IOSAR :: u16 where "PF_ART_IOSAR = 6"
definition PF_PS_EXTERNAL_PARAMETER_SERVER :: u8 where "PF_PS_EXTERNAL_PARAMETER_SERVER = 0"

definition pf_cmdev_check_ar_type :: "u16 \<Rightarrow> int" where
  "pf_cmdev_check_ar_type t = (if t = PF_ART_IOCAR_SINGLE then 0 else -1)"

definition pf_cmdev_check_ar_param :: "pf_ar_param \<Rightarrow> conn_error option" where
  "pf_cmdev_check_ar_param p = (let q = ar_properties p in first_fault
     [(pf_cmdev_check_ar_type (ar_type p) \<noteq> 0, faulty_ar 4),
      (pf_cmdev_check_zero (uuid_mem (ar_uuid p)) = 0, faulty_ar 5),
      (cm_initiator_mac_add p ! 0 AND 1 \<noteq> 0, faulty_ar 7),
      (pf_cmdev_check_cm_initiator_object_uuid (cm_initiator_object_uuid p) \<noteq> 0, faulty_ar 8),
      (arp_state q \<noteq> 1, faulty_ar 9),
      (parameterization_server q = PF_PS_EXTERNAL_PARAMETER_SERVER, faulty_ar 9),
      (device_access q \<and> ar_type p \<noteq> PF_ART_IOSAR, faulty_ar 9),
      (companion_ar q = 3, faulty_ar 9),
      (cm_initiator_activity_timeout_factor p < 1 \<or> cm_initiator_activity_timeout_factor p > 1000, faulty_ar 10),
      (cm_initiator_station_name_len p = 0 \<or>
         unat (cm_initiator_station_name_len p) > PNET_STATION_NAME_MAX_SIZE - 1, faulty_ar 12),
      (pf_cmdev_check_visible_string (cm_initiator_station_name p) \<noteq> 0, faulty_ar 13)])"

section \<open>The IOCR blocks\<close>

definition PF_RT_CLASS_1 :: u32 where "PF_RT_CLASS_1 = 1"
definition PF_RT_CLASS_2 :: u32 where "PF_RT_CLASS_2 = 2"
definition PF_RT_CLASS_3 :: u32 where "PF_RT_CLASS_3 = 3"
definition PF_RT_CLASS_UDP :: u32 where "PF_RT_CLASS_UDP = 4"
definition PF_RT_CLASS_STREAM :: u32 where "PF_RT_CLASS_STREAM = 5"

lemmas rt_class_defs = PF_RT_CLASS_1_def PF_RT_CLASS_2_def PF_RT_CLASS_3_def PF_RT_CLASS_UDP_def PF_RT_CLASS_STREAM_def
lemmas iocr_type_defs = PF_IOCR_TYPE_INPUT_def PF_IOCR_TYPE_OUTPUT_def PF_IOCR_TYPE_MC_PROVIDER_def
  PF_IOCR_TYPE_MC_CONSUMER_def

definition id_outside :: "u16 \<Rightarrow> u16 \<Rightarrow> u16 \<Rightarrow> bool" where
  "id_outside x lo hi \<longleftrightarrow> x < lo \<or> x > hi"

definition is_multicast :: "pf_iocr_param \<Rightarrow> bool" where
  "is_multicast p \<longleftrightarrow> iocr_type p = PF_IOCR_TYPE_MC_CONSUMER \<or> iocr_type p = PF_IOCR_TYPE_MC_PROVIDER"

text \<open>The product of the time factors is computed with 32 bits and wraps.\<close>

definition hold_time :: "pf_iocr_param \<Rightarrow> u32" where
  "hold_time p = (ucast (data_hold_factor p) * ucast (reduction_ratio p) * ucast (send_clock_factor p) * 1000) div 32"

definition is_rt123 :: "pf_iocr_param \<Rightarrow> bool" where
  "is_rt123 p \<longleftrightarrow> rt_class (iocr_properties p) = PF_RT_CLASS_1 \<or> rt_class (iocr_properties p) = PF_RT_CLASS_2 \<or>
     rt_class (iocr_properties p) = PF_RT_CLASS_3"

definition iocr_kind_faults :: "pf_ar_param \<Rightarrow> pf_iocr_param \<Rightarrow> (bool \<times> conn_error) list" where
  "iocr_kind_faults ar p =
    (let rt = rt_class (iocr_properties p); udp = (rt = PF_RT_CLASS_UDP); fid = frame_id p in
     [(device_access (ar_properties ar), faulty_cmrpc PNET_ERROR_CODE_2_CMRPC_UNKNOWN_BLOCKS),
      (iocr_type p < PF_IOCR_TYPE_INPUT \<or> iocr_type p > PF_IOCR_TYPE_MC_CONSUMER, faulty_iocr 4),
      (\<not> udp \<and> lt_field p \<noteq> PNAL_ETHTYPE_PROFINET, faulty_iocr 6),
      (udp \<and> lt_field p \<noteq> PNAL_ETHTYPE_IP, faulty_iocr 6),
      (\<not> startup_mode (ar_properties ar) \<and> (rt < PF_RT_CLASS_1 \<or> rt > PF_RT_CLASS_STREAM), faulty_iocr 7),
      (startup_mode (ar_properties ar) \<and> (rt < PF_RT_CLASS_2 \<or> rt > PF_RT_CLASS_STREAM), faulty_iocr 7),
      (reserved_1 (iocr_properties p) \<noteq> 0 \<or> reserved_3 (iocr_properties p) \<noteq> 0, faulty_iocr 7),
      (udp \<and> (c_sdu_length p < 12 \<or> c_sdu_length p > 1440) \<or>
         rt = PF_RT_CLASS_1 \<and> (c_sdu_length p < 40 \<or> c_sdu_length p > 1440), faulty_iocr 8),
      (is_multicast p \<and>
         (rt = PF_RT_CLASS_1 \<and> id_outside fid 0xf800 0xfbff \<or> rt = PF_RT_CLASS_2 \<and> id_outside fid 0xbc00 0xbfff \<or>
          rt = PF_RT_CLASS_3 \<and> id_outside fid 0x0100 0x7fff \<or> udp \<and> id_outside fid 0xf800 0xfbff), faulty_iocr 9),
      (iocr_type p = PF_IOCR_TYPE_INPUT \<and>
         (rt = PF_RT_CLASS_1 \<and> id_outside fid 0xc000 0xf7ff \<or> rt = PF_RT_CLASS_2 \<and> id_outside fid 0x8000 0xbbff \<or>
          rt = PF_RT_CLASS_3 \<and> id_outside fid 0x0100 0x7fff \<or> udp \<and> id_outside fid 0xc000 0xf7ff), faulty_iocr 9)])"

definition iocr_time_faults :: "int \<Rightarrow> pf_ar_param \<Rightarrow> pf_iocr_param \<Rightarrow> (bool \<times> conn_error) list" where
  "iocr_time_faults min_device_interval ar p =
    (let udp = (rt_class (iocr_properties p) = PF_RT_CLASS_UDP); rr = reduction_ratio p; scf = send_clock_factor p in
     [(scf \<notin> {1, 2, 4, 8, 16, 32, 64, 128}, faulty_iocr 10),
      (is_rt123 p \<and> (rr < 1 \<or> rr > 512 \<or> rr \<ge> 256 \<and> scf > 64 \<or> rr = 512 \<and> scf > 32 \<or>
         min_device_interval > int (unat scf * unat rr)), faulty_iocr 11),
      (udp \<and> (rr < 1 \<or> rr > 16384 \<or> rr \<ge> 8192 \<and> scf > 64 \<or> rr = 16384 \<and> scf > 32), faulty_iocr 11),
      (phase p = 0 \<or> phase p > rr, faulty_iocr 12),
      (frame_send_offset p \<noteq> 0xffffffff \<and>
         (unat (frame_send_offset p) \<ge> unat scf * 31250 \<or>
          frame_send_offset p \<ge> 0x003d0900 \<and> frame_send_offset p \<le> 0xfffffffe), faulty_iocr 14),
      (data_hold_factor p < 1 \<or> data_hold_factor p > 0x1e00 \<or> udp \<and> hold_time p > 61440000 \<or>
         is_rt123 p \<and> hold_time p > 1920000, faulty_iocr 16),
      (vlan_id (iocr_tag_header p) \<noteq> 0, faulty_iocr 17),
      (iocr_user_priority (iocr_tag_header p) \<noteq> 6, faulty_iocr 17),
      (is_multicast p \<and> iocr_multicast_mac_add p ! 0 AND 1 = 0, faulty_iocr 18),
      (nbr_apis p = 0, faulty_iocr 19),
      (udp \<and> pf_cmdev_check_zero (cm_initiator_mac_add ar) \<noteq> 0, faulty_ar 7),
      (udp \<and> cm_initiator_udp_rt_port ar \<le> 0x03ff, faulty_ar 11)])"

definition iocr_param_fault :: "int \<Rightarrow> pf_ar_param \<Rightarrow> pf_iocr_param \<Rightarrow> conn_error option" where
  "iocr_param_fault min_device_interval ar p = first_fault (iocr_kind_faults ar p @ iocr_time_faults min_device_interval ar p)"

lemmas iocr_fault_defs = iocr_param_fault_def iocr_kind_faults_def iocr_time_faults_def

text \<open>Every IOCR is checked; the last error counts.\<close>

definition pf_cmdev_check_iocr_param :: "int \<Rightarrow> pf_ar_param \<Rightarrow> pf_iocr list \<Rightarrow> conn_error option" where
  "pf_cmdev_check_iocr_param min_device_interval ar is =
     fold (\<lambda>i. overwrite (iocr_param_fault min_device_interval ar (iocr_param i))) is None"

section \<open>Alarm and RPC blocks\<close>

definition PF_ALARM_CR :: u32 where "PF_ALARM_CR = 1"

definition pf_cmdev_check_alarm_cr :: "pf_ar_param \<Rightarrow> pf_alarm_cr_request \<Rightarrow> conn_error option" where
  "pf_cmdev_check_alarm_cr ar r = first_fault
     [(device_access (ar_properties ar), faulty_cmrpc PNET_ERROR_CODE_2_CMRPC_UNKNOWN_BLOCKS),
      (acr_type r \<noteq> PF_ALARM_CR, faulty_alarm 4),
      (\<not> transport_udp (alarm_cr_properties r) \<and> acr_lt_field r \<noteq> PNAL_ETHTYPE_PROFINET \<or>
         transport_udp (alarm_cr_properties r) \<and> acr_lt_field r \<noteq> PNAL_ETHTYPE_IP, faulty_alarm 5),
      (rta_timeout_factor r < 1 \<or> rta_timeout_factor r > 0x0064, faulty_alarm 7),
      (rta_retries r < 3 \<or> rta_retries r > 15, faulty_alarm 8),
      (max_alarm_data_length r < 200 \<or> max_alarm_data_length r > 1432, faulty_alarm 10),
      (acr_vlan_id (alarm_cr_tag_header_high r) \<noteq> 0, faulty_alarm 11),
      (alarm_user_priority (alarm_cr_tag_header_high r) \<noteq> 6, faulty_alarm 11),
      (acr_vlan_id (alarm_cr_tag_header_low r) \<noteq> 0, faulty_alarm 12),
      (alarm_user_priority (alarm_cr_tag_header_low r) \<noteq> 5, faulty_alarm 12)]"

definition pf_cmdev_check_ar_rpc :: "u16 \<Rightarrow> conn_error option" where
  "pf_cmdev_check_ar_rpc initiator_rpc_server_port =
     first_fault [(initiator_rpc_server_port < 0x0400, (PNET_ERROR_CODE_1_CONN_FAULTY_AR_RPC_BLOCK_REQ, 4))]"

end
