(* ===== verification/Connect_Setup.thy ===== *)
theory Connect_Setup
  imports Connect_Checks
begin

unbundle bit_operations_syntax

text \<open>
  The data descriptors of an IOCR (src/device/pf_cmdev.c): from the frame descriptors of the
  request and the expected submodules, every IOCR gets the places of data, provider status and
  consumer status of its submodules in the frame. The table of descriptors is not
  checked for room; a store behind its end is a missing result. The final checks compare the
  places with the size of the frame and with each other.
\<close>

section \<open>Directions\<close>

datatype pf_dev_status_type = PF_DEV_STATUS_TYPE_IOPS | PF_DEV_STATUS_TYPE_IOCS

definition PF_DIRECTION_INPUT :: u16 where "PF_DIRECTION_INPUT = 1"
definition PF_DIRECTION_OUTPUT :: u16 where "PF_DIRECTION_OUTPUT = 2"

text \<open>The type of a submodule on the wire.\<close>

definition SUBMOD_NO_IO :: u8 where "SUBMOD_NO_IO = 0"
definition SUBMOD_INPUT :: u8 where "SUBMOD_INPUT = 1"
definition SUBMOD_OUTPUT :: u8 where "SUBMOD_OUTPUT = 2"
definition SUBMOD_IO :: u8 where "SUBMOD_IO = 3"

lemmas direction_defs = PF_DIRECTION_INPUT_def PF_DIRECTION_OUTPUT_def SUBMOD_NO_IO_def SUBMOD_INPUT_def
  SUBMOD_OUTPUT_def SUBMOD_IO_def

definition pf_cmdev_calculate_exp_sub_data_descriptor_direction :: "u8 \<Rightarrow> u16 \<Rightarrow> pf_dev_status_type \<Rightarrow> u16 option" where
  "pf_cmdev_calculate_exp_sub_data_descriptor_direction submodule_dir data_dir status_type =
     (let own_input = (data_dir = PF_DIRECTION_INPUT \<and> status_type = PF_DEV_STATUS_TYPE_IOPS \<or>
                       data_dir = PF_DIRECTION_OUTPUT \<and> status_type = PF_DEV_STATUS_TYPE_IOCS);
          own_output = (data_dir = PF_DIRECTION_INPUT \<and> status_type = PF_DEV_STATUS_TYPE_IOCS \<or>
                        data_dir = PF_DIRECTION_OUTPUT \<and> status_type = PF_DEV_STATUS_TYPE_IOPS)
      in if submodule_dir = SUBMOD_NO_IO \<or> submodule_dir = SUBMOD_INPUT then
           (if own_input then Some PF_DIRECTION_INPUT else None)
         else if submodule_dir = SUBMOD_IO then
           Some (if own_input then PF_DIRECTION_INPUT else PF_DIRECTION_OUTPUT)
         else if submodule_dir = SUBMOD_OUTPUT then (if own_output then Some PF_DIRECTION_OUTPUT else None)
         else None)"

definition pf_cmdev_get_exp_sub_data_descriptor ::
    "pf_exp_submodule \<Rightarrow> u16 \<Rightarrow> pf_dev_status_type \<Rightarrow> pf_data_descriptor option" where
  "pf_cmdev_get_exp_sub_data_descriptor s dir status_type = do {
     look_for \<leftarrow> pf_cmdev_calculate_exp_sub_data_descriptor_direction (sp_type (es_properties s)) dir status_type;
     List.find (\<lambda>d. data_direction d = look_for) (take (unat (nbr_data_descriptors s)) (data_descriptor s))
   }"

section \<open>The table of descriptors\<close>

primrec fold_option :: "('a \<Rightarrow> 's \<Rightarrow> 's option) \<Rightarrow> 'a list \<Rightarrow> 's \<Rightarrow> 's option" where
  "fold_option f [] s = Some s"
| "fold_option f (x # xs) s = Option.bind (f x s) (fold_option f xs)"

definition has_key :: "u32 \<Rightarrow> u16 \<Rightarrow> u16 \<Rightarrow> pf_iodata_object \<Rightarrow> bool" where
  "has_key api slot subslot ob \<longleftrightarrow> io_api_id ob = api \<and> io_slot_nbr ob = slot \<and> io_subslot_nbr ob = subslot"

text \<open>
  The descriptor of a submodule, which is changed by \<open>old\<close>, or else the next free one, with
  the key of the submodule, changed by \<open>new\<close>.
\<close>

definition upd_desc :: "nat \<Rightarrow> (pf_iodata_object \<Rightarrow> pf_iodata_object) \<Rightarrow> pf_iocr \<Rightarrow> pf_iocr" where
  "upd_desc k f i = i\<lparr>data_desc := (data_desc i)[k := f (data_desc i ! k)]\<rparr>"

definition iodata_at ::
    "u32 \<Rightarrow> u16 \<Rightarrow> u16 \<Rightarrow> (pf_iodata_object \<Rightarrow> pf_iodata_object) \<Rightarrow> pf_iocr \<Rightarrow> (nat \<times> pf_iocr) option" where
  "iodata_at api slot subslot fresh i =
     (case find_index (has_key api slot subslot) (take (unat (nbr_data_desc i)) (data_desc i)) of
        Some k \<Rightarrow> Some (k, i)
      | None \<Rightarrow>
          if unat (nbr_data_desc i) < length (data_desc i) then
            Some (unat (nbr_data_desc i),
              (upd_desc (unat (nbr_data_desc i))
                 (\<lambda>ob. fresh (ob\<lparr>io_in_use := True, io_api_id := api, io_slot_nbr := slot, io_subslot_nbr := subslot\<rparr>)) i)
              \<lparr>nbr_data_desc := nbr_data_desc i + 1\<rparr>)
          else None)"

definition add_length :: "u16 \<Rightarrow> u16 \<Rightarrow> pf_iocr \<Rightarrow> pf_iocr" where
  "add_length dir n i = (if dir = PF_DIRECTION_INPUT then i\<lparr>in_length := in_length i + n\<rparr>
     else if dir = PF_DIRECTION_OUTPUT then i\<lparr>out_length := out_length i + n\<rparr> else i)"

definition set_data_iops ::
    "pf_submodule_properties \<Rightarrow> u16 \<Rightarrow> pf_data_descriptor \<Rightarrow> u16 \<Rightarrow> pf_iodata_object \<Rightarrow> pf_iodata_object" where
  "set_data_iops q dir d offset ob =
     (let ob = (if dir = PF_DIRECTION_INPUT \<and> reduce_input_submodule_data_length q \<or>
                  dir = PF_DIRECTION_OUTPUT \<and> reduce_output_submodule_data_length q
               then ob\<lparr>data_length := 0, data_offset := 0\<rparr>
               else ob\<lparr>data_length := submodule_data_length d, data_offset := offset\<rparr>)
      in if discard_ioxs q then ob\<lparr>data_length := 0, data_offset := 0, iops_length := 0, iops_offset := 0\<rparr>
         else ob\<lparr>iops_length := ucast (length_iops d), iops_offset := data_offset ob + data_length ob\<rparr>)"

definition iocr_put_data_iops :: "pf_exp_ident \<Rightarrow> u16 \<Rightarrow> u32 \<Rightarrow> pf_frame_descriptor \<Rightarrow> pf_iocr \<Rightarrow> pf_iocr option" where
  "iocr_put_data_iops e dir api fd i =
     (case pf_cmdev_get_exp_sub e api (fd_slot_number fd) (fd_subslot_number fd) of None \<Rightarrow> Some i
      | Some s \<Rightarrow> (case pf_cmdev_get_exp_sub_data_descriptor s dir PF_DEV_STATUS_TYPE_IOPS of None \<Rightarrow> Some i
          | Some d \<Rightarrow> do {
              (k, i) \<leftarrow> iodata_at api (fd_slot_number fd) (fd_subslot_number fd)
                          (\<lambda>ob. ob\<lparr>iocs_offset := 0, iocs_length := 0\<rparr>) i;
              let i = upd_desc k (set_data_iops (es_properties s) dir d (frame_offset fd)) i;
              let ob = data_desc i ! k;
              Some (add_length dir (data_length ob + iops_length ob + iocs_length ob) i)
            }))"

definition pf_cmdev_iocr_setup_data_iops :: "pf_exp_ident \<Rightarrow> u16 \<Rightarrow> pf_iocr \<Rightarrow> pf_iocr option" where
  "pf_cmdev_iocr_setup_data_iops e dir i =
     fold_option (\<lambda>a. fold_option (iocr_put_data_iops e dir (ae_api a)) (take (unat (nbr_io_data a)) (io_data a)))
       (take (unat (nbr_apis (iocr_param i))) (apis (iocr_param i))) i"

text \<open>The consumer status; a submodule that is not expected makes the request fail.\<close>

definition set_iocs :: "pf_submodule_properties \<Rightarrow> pf_data_descriptor \<Rightarrow> u16 \<Rightarrow> pf_iodata_object \<Rightarrow> pf_iodata_object" where
  "set_iocs q d offset ob =
     (if discard_ioxs q then ob\<lparr>iocs_offset := 0, iocs_length := 0\<rparr>
      else ob\<lparr>iocs_offset := offset, iocs_length := ucast (length_iocs d)\<rparr>)"

definition iocr_put_iocs ::
    "pf_exp_ident \<Rightarrow> u16 \<Rightarrow> u32 \<Rightarrow> pf_frame_descriptor \<Rightarrow> int \<times> pf_iocr \<Rightarrow> (int \<times> pf_iocr) option" where
  "iocr_put_iocs e dir api fd ri = (case ri of (r, i) \<Rightarrow>
     (case pf_cmdev_get_exp_sub e api (fd_slot_number fd) (fd_subslot_number fd) of None \<Rightarrow> Some (-1, i)
      | Some s \<Rightarrow> (case pf_cmdev_get_exp_sub_data_descriptor s dir PF_DEV_STATUS_TYPE_IOCS of None \<Rightarrow> Some (r, i)
          | Some d \<Rightarrow> do {
              (k, i) \<leftarrow> iodata_at api (fd_slot_number fd) (fd_subslot_number fd)
                          (\<lambda>ob. ob\<lparr>data_length := 0, data_offset := 0, iops_offset := 0, iops_length := 0\<rparr>) i;
              let i = upd_desc k (set_iocs (es_properties s) d (frame_offset fd)) i;
              Some (r, add_length dir (iocs_length (data_desc i ! k)) i)
            })))"

definition pf_cmdev_iocr_setup_iocs :: "pf_exp_ident \<Rightarrow> u16 \<Rightarrow> pf_iocr \<Rightarrow> (int \<times> pf_iocr) option" where
  "pf_cmdev_iocr_setup_iocs e dir i =
     fold_option (\<lambda>a. fold_option (iocr_put_iocs e dir (ae_api a)) (take (unat (nbr_iocs a)) (iocs a)))
       (take (unat (nbr_apis (iocr_param i))) (apis (iocr_param i))) (0, i)"

definition iocr_direction :: "pf_iocr \<Rightarrow> u16" where
  "iocr_direction i = (if iocr_type (iocr_param i) = PF_IOCR_TYPE_INPUT \<or> iocr_type (iocr_param i) = PF_IOCR_TYPE_MC_PROVIDER
     then PF_DIRECTION_INPUT else PF_DIRECTION_OUTPUT)"

definition pf_cmdev_iocr_setup_desc :: "pf_exp_ident \<Rightarrow> pf_iocr \<Rightarrow> (int \<times> pf_iocr) option" where
  "pf_cmdev_iocr_setup_desc e i = do {
     let dir = iocr_direction i;
     i \<leftarrow> pf_cmdev_iocr_setup_data_iops e dir (i\<lparr>in_length := 0, out_length := 0, nbr_data_desc := 0\<rparr>);
     pf_cmdev_iocr_setup_iocs e dir i
   }"

section \<open>The final checks\<close>

definition pf_cmdev_check_no_straddle :: "u16 \<Rightarrow> u16 \<Rightarrow> u16 \<Rightarrow> u16 \<Rightarrow> int" where
  "pf_cmdev_check_no_straddle start_1 length_1 start_2 length_2 =
     (if length_1 > 0 \<and> length_2 > 0 then
        (if start_1 \<le> start_2 then (if unat start_1 + unat length_1 > unat start_2 then -1 else 0)
         else (if unat start_1 < unat start_2 + unat length_2 then -1 else 0))
      else 0)"

text \<open>An area against the three areas of a descriptor.\<close>

definition area_straddles :: "u16 \<Rightarrow> u16 \<Rightarrow> pf_iodata_object \<Rightarrow> bool" where
  "area_straddles start len ob \<longleftrightarrow> len > 0 \<and>
     (pf_cmdev_check_no_straddle start len (data_offset ob) (data_length ob) \<noteq> 0 \<or>
      pf_cmdev_check_no_straddle start len (iocs_offset ob) (iocs_length ob) \<noteq> 0 \<or>
      pf_cmdev_check_no_straddle start len (iops_offset ob) (iops_length ob) \<noteq> 0)"

definition pf_cmdev_check_iocr_overlap :: "pf_iocr \<Rightarrow> nat \<Rightarrow> conn_error option" where
  "pf_cmdev_check_iocr_overlap i ix_this =
     (let this = data_desc i ! ix_this; earlier = take ix_this (data_desc i) in first_fault
        [(\<exists>ob \<in> set earlier. area_straddles (data_offset this) (data_length this) ob \<or>
            area_straddles (iops_offset this) (iops_length this) ob, faulty_iocr 24),
         (\<exists>ob \<in> set earlier. area_straddles (iocs_offset this) (iocs_length this) ob, faulty_iocr 28)])"

text \<open>An error of before is kept unless the condition holds.\<close>

definition fault_if :: "bool \<Rightarrow> conn_error \<Rightarrow> conn_error option \<Rightarrow> conn_error option" where
  "fault_if b x e = (if b then Some x else e)"

definition find_last :: "('a \<Rightarrow> bool) \<Rightarrow> 'a list \<Rightarrow> 'a option" where
  "find_last P xs = List.find P (rev xs)"

definition check_unique :: "conn_error \<Rightarrow> pf_frame_descriptor list \<Rightarrow> conn_error option \<Rightarrow> conn_error option" where
  "check_unique x ds = fold (\<lambda>d. fault_if (length (filter (\<lambda>d2. fd_slot_number d2 = fd_slot_number d \<and>
     fd_subslot_number d2 = fd_subslot_number d) ds) \<noteq> 1) x) ds"

text \<open>The expected submodule of a frame descriptor, with the errors for a missing module or submodule.\<close>

definition exp_sub_of :: "pf_exp_api \<Rightarrow> pf_frame_descriptor \<Rightarrow> conn_error \<Rightarrow> conn_error \<Rightarrow>
    conn_error option \<Rightarrow> pf_exp_submodule option \<times> conn_error option" where
  "exp_sub_of a d no_mod no_sub e =
     (case find_last (\<lambda>m. em_slot_number m = fd_slot_number d) (take (unat (nbr_modules a)) (ea_module a)) of
        None \<Rightarrow> (None, Some no_mod)
      | Some m \<Rightarrow> (case find_last (\<lambda>s. es_subslot_number s = fd_subslot_number d)
                        (take (unat (nbr_submodules m)) (submodule m)) of
            None \<Rightarrow> (None, Some no_sub)
          | Some s \<Rightarrow> (Some s, e)))"

definition is_input_only :: "pf_exp_submodule \<Rightarrow> bool" where
  "is_input_only s \<longleftrightarrow> sp_type (es_properties s) = SUBMOD_NO_IO \<or> sp_type (es_properties s) = SUBMOD_INPUT"

definition check_io_data :: "u16 \<Rightarrow> pf_exp_api \<Rightarrow> pf_frame_descriptor \<Rightarrow> conn_error option \<Rightarrow> conn_error option" where
  "check_io_data ty a d e = (case exp_sub_of a d (faulty_iocr 22) (faulty_iocr 23) e of
       (Some s, None) \<Rightarrow> first_fault
         [(is_input_only s \<and> (ty = PF_IOCR_TYPE_OUTPUT \<or> ty = PF_IOCR_TYPE_MC_CONSUMER), faulty_iocr 23),
          (sp_type (es_properties s) = SUBMOD_OUTPUT \<and> (ty = PF_IOCR_TYPE_INPUT \<or> ty = PF_IOCR_TYPE_MC_PROVIDER), faulty_iocr 23)]
     | (_, e) \<Rightarrow> e)"

definition check_iocs :: "u16 \<Rightarrow> pf_exp_api \<Rightarrow> pf_frame_descriptor \<Rightarrow> conn_error option \<Rightarrow> conn_error option" where
  "check_iocs ty a d e = (case exp_sub_of a d (faulty_iocr 27) (faulty_iocr 27) e of
       (Some s, None) \<Rightarrow> first_fault
         [(is_input_only s \<and> ty = PF_IOCR_TYPE_INPUT, faulty_iocr 27),
          (sp_type (es_properties s) = SUBMOD_OUTPUT \<and> ty = PF_IOCR_TYPE_OUTPUT, faulty_iocr 27),
          (sp_type (es_properties s) = SUBMOD_IO \<and> nbr_data_descriptors s \<noteq> 2, faulty_iocr 28)]
     | (_, e) \<Rightarrow> e)"

definition check_iocr_api :: "pf_exp_ident \<Rightarrow> u16 \<Rightarrow> pf_api_entry \<Rightarrow> conn_error option \<Rightarrow> conn_error option" where
  "check_iocr_api x ty p e =
     (case pf_cmdev_get_exp_api x (ae_api p) of None \<Rightarrow> Some (faulty_iocr 20)
      | Some a \<Rightarrow>
          (let e = fault_if (nbr_io_data p = 0 \<and> nbr_iocs p = 0) (faulty_iocr 21) e in
           if e \<noteq> None then e
           else (let ds = take (unat (nbr_io_data p)) (io_data p); cs = take (unat (nbr_iocs p)) (iocs p);
                     e = fold (check_io_data ty a) ds (check_unique (faulty_iocr 23) ds None);
                     e = (if e = None then check_unique (faulty_iocr 27) cs None else e)
                 in if e = None then fold (check_iocs ty a) cs None else e)))"

definition check_iocr_desc :: "pf_iocr \<Rightarrow> nat \<Rightarrow> conn_error option \<Rightarrow> conn_error option" where
  "check_iocr_desc i k e =
     (if e \<noteq> None then e
      else (let ob = data_desc i ! k; size = unat (c_sdu_length (iocr_param i)) in
        case first_fault
          [(unat (data_offset ob) + unat (data_length ob) > size, faulty_iocr 24),
           (unat (iops_offset ob) + unat (iops_length ob) > size, faulty_iocr 24),
           (unat (iocs_offset ob) + unat (iocs_length ob) > size, faulty_iocr 28)]
        of Some x \<Rightarrow> Some x | None \<Rightarrow> pf_cmdev_check_iocr_overlap i k))"

definition pf_cmdev_check_iocr_apis :: "pf_exp_ident \<Rightarrow> pf_iocr list \<Rightarrow> conn_error option" where
  "pf_cmdev_check_iocr_apis x is = fold (\<lambda>i e.
     fold (check_iocr_desc i) [0..<unat (nbr_data_desc i)]
       (fold (check_iocr_api x (iocr_type (iocr_param i)))
         (take (unat (nbr_apis (iocr_param i))) (apis (iocr_param i))) e)) is None"

end
