(* ===== verification/Connect_Config.thy ===== *)
theory Connect_Config
  imports Connect_Setup
begin

unbundle bit_operations_syntax

text \<open>
  The expected modules of a connect request (src/device/pf_cmdev.c): the application is asked to
  plug what is missing, the blocks are checked, the free subslots get their owner, and
  the differences between the expected and the real modules are computed. The calls of
  the application are functions of an environment, which may plug and pull.
\<close>

section \<open>Configuration\<close>

record pnet_data_cfg =
  dc_data_dir :: u8
  dc_insize :: u16
  dc_outsize :: u16

record 'w conn_app =
  exp_module_ind :: "u32 \<Rightarrow> u16 \<Rightarrow> u32 \<Rightarrow> 'w dev_net \<Rightarrow> 'w dev_net option"
  exp_submodule_ind :: "u32 \<Rightarrow> u16 \<Rightarrow> u16 \<Rightarrow> u32 \<Rightarrow> u32 \<Rightarrow> pnet_data_cfg \<Rightarrow> 'w dev_net \<Rightarrow> 'w dev_net option"

definition data_cfg_of :: "pf_exp_submodule \<Rightarrow> pnet_data_cfg" where
  "data_cfg_of s = fold (\<lambda>d c.
     (let c = (if data_direction d = PF_DIRECTION_INPUT
               then c\<lparr>dc_data_dir := dc_data_dir c OR 1, dc_insize := submodule_data_length d\<rparr> else c)
      in if data_direction d = PF_DIRECTION_OUTPUT
         then c\<lparr>dc_data_dir := dc_data_dir c OR 2, dc_outsize := submodule_data_length d\<rparr> else c))
     (take (unat (nbr_data_descriptors s)) (data_descriptor s)) \<lparr>dc_data_dir = 0, dc_insize = 0, dc_outsize = 0\<rparr>"

text \<open>A submodule has to be used in at least one IOCR.\<close>

definition used_in_iocr :: "pf_iocr list \<Rightarrow> u32 \<Rightarrow> u16 \<Rightarrow> u16 \<Rightarrow> bool" where
  "used_in_iocr is api slot subslot \<longleftrightarrow>
     (\<exists>i \<in> set is. \<exists>p \<in> set (take (unat (nbr_apis (iocr_param i))) (apis (iocr_param i))). ae_api p = api \<and>
        (\<exists>d \<in> set (take (unat (nbr_io_data p)) (io_data p) @ take (unat (nbr_iocs p)) (iocs p)).
           fd_slot_number d = slot \<and> fd_subslot_number d = subslot))"

definition descriptors_fit :: "pf_exp_submodule \<Rightarrow> bool" where
  "descriptors_fit s \<longleftrightarrow>
     (let ty = sp_type (es_properties s); n = nbr_data_descriptors s;
          x = data_direction (data_descriptor s ! 0); y = data_direction (data_descriptor s ! 1)
      in \<not> (is_input_only s \<and> \<not> (n = 1 \<and> x = PF_DIRECTION_INPUT) \<or>
            ty = SUBMOD_OUTPUT \<and> \<not> (n = 1 \<and> x = PF_DIRECTION_OUTPUT) \<or>
            ty = SUBMOD_IO \<and> \<not> (n = 2 \<and> (x = PF_DIRECTION_INPUT \<or> y = PF_DIRECTION_INPUT) \<and>
              (x = PF_DIRECTION_OUTPUT \<or> y = PF_DIRECTION_OUTPUT))))"

definition data_descriptor_fault :: "pf_exp_submodule \<Rightarrow> pf_data_descriptor \<Rightarrow> conn_error option" where
  "data_descriptor_fault s d = (let ty = sp_type (es_properties s) in first_fault
     [(data_direction d \<noteq> PF_DIRECTION_INPUT \<and> data_direction d \<noteq> PF_DIRECTION_OUTPUT, faulty_exp 13),
      (data_direction d = PF_DIRECTION_INPUT \<and> ty = SUBMOD_OUTPUT, faulty_exp 13),
      (data_direction d = PF_DIRECTION_OUTPUT \<and> ty \<noteq> SUBMOD_OUTPUT \<and> ty \<noteq> SUBMOD_IO, faulty_exp 13),
      (submodule_data_length d > 1439 \<or> ty = SUBMOD_NO_IO \<and> submodule_data_length d \<noteq> 0, faulty_exp 14),
      (length_iops d \<noteq> 1, faulty_exp 15),
      (length_iocs d \<noteq> 1, faulty_exp 16)])"

definition exp_sub_fault :: "u32 \<Rightarrow> pf_slot \<Rightarrow> pf_exp_submodule \<Rightarrow> conn_error option" where
  "exp_sub_fault api slot s =
     (let q = es_properties s; ty = sp_type q; input = (ty = SUBMOD_INPUT \<or> ty = SUBMOD_IO);
          output = (ty = SUBMOD_OUTPUT \<or> ty = SUBMOD_IO) in
      case first_fault
        [(es_subslot_number s > 0x9fff, faulty_exp 10),
         (pf_cmdev_get_subslot slot (es_subslot_number s) = None, faulty_exp 10),
         (es_subslot_number s \<ge> 0x8000 \<and> api \<noteq> 0, faulty_exp 10),
         (\<not> descriptors_fit s, faulty_exp 12),
         (ty = SUBMOD_OUTPUT \<and> sharedInput q, faulty_exp 12),
         (reduce_input_submodule_data_length q \<and> input, faulty_exp 12),
         (reduce_output_submodule_data_length q \<and> output, faulty_exp 12),
         (discard_ioxs q \<and> ty \<noteq> SUBMOD_IO, faulty_exp 12)]
      of Some e \<Rightarrow> Some e
       | None \<Rightarrow> fold (\<lambda>d. overwrite (data_descriptor_fault s d))
           (take (unat (nbr_data_descriptors s)) (data_descriptor s)) None)"

text \<open>One expected submodule; an error of an earlier one is kept, and the application is asked all the same.\<close>

definition configure_submodule ::
    "'w conn_app \<Rightarrow> nat \<Rightarrow> pf_iocr list \<Rightarrow> u32 \<Rightarrow> pf_exp_module \<Rightarrow> nat \<times> nat \<Rightarrow> nat \<Rightarrow>
     conn_error option \<times> 'w dev_net \<Rightarrow> (conn_error option \<times> 'w dev_net) option" where
  "configure_submodule app a is api m p ix en = (case p of (i, j) \<Rightarrow> case en of (e, n) \<Rightarrow>
     (let s = submodule m ! ix in do {
        n \<leftarrow> (if pf_cmdev_get_subslot (slot_at (d_device n) i j) (es_subslot_number s) = None
               then exp_submodule_ind app api (em_slot_number m) (es_subslot_number s) (em_ident_number m)
                      (es_ident_number s) (data_cfg_of s) n
               else Some n);
        let e = (if e \<noteq> None then e else first_fault
          [(\<exists>t \<in> set (take ix (submodule m)). es_subslot_number t = es_subslot_number s, faulty_exp 10),
           (\<not> used_in_iocr is api (em_slot_number m) (es_subslot_number s), faulty_exp 10)]);
        let e = (if e \<noteq> None then e else exp_sub_fault api (slot_at (d_device n) i j) s);
        Some (e, case pf_cmdev_get_subslot (slot_at (d_device n) i j) (es_subslot_number s) of
            Some k \<Rightarrow> if e = None \<and> ss_ownsm_state (subslot_at (d_device n) i j k) = PF_OWNSM_STATE_FREE
              then upd_dev (upd_subslot (i, j, k) (\<lambda>s. s\<lparr>ss_ownsm_state := PF_OWNSM_STATE_IOC, ss_owner := Some a\<rparr>)) n
              else n
          | None \<Rightarrow> n)
      }))"

definition pf_cmdev_exp_submodule_configure ::
    "'w conn_app \<Rightarrow> nat \<Rightarrow> pf_iocr list \<Rightarrow> u32 \<Rightarrow> pf_exp_module \<Rightarrow> nat \<times> nat \<Rightarrow> 'w dev_net \<Rightarrow>
     (conn_error option \<times> 'w dev_net) option" where
  "pf_cmdev_exp_submodule_configure app a is api m p n =
     fold_option (configure_submodule app a is api m p) [0..<unat (nbr_submodules m)] (None, n)"

text \<open>After the first error no other module is looked at.\<close>

definition configure_module ::
    "'w conn_app \<Rightarrow> nat \<Rightarrow> pf_iocr list \<Rightarrow> pf_exp_api \<Rightarrow> nat \<Rightarrow> nat \<Rightarrow>
     conn_error option \<times> 'w dev_net \<Rightarrow> (conn_error option \<times> 'w dev_net) option" where
  "configure_module app a is x i ix en = (case en of (e, n) \<Rightarrow>
     (if e \<noteq> None then Some (e, n)
      else (let m = ea_module x ! ix; slot = em_slot_number m in do {
        n \<leftarrow> (if pf_cmdev_get_slot (api_at (d_device n) i) slot = None
               then exp_module_ind app (ea_api x) slot (em_ident_number m) n else Some n);
        (case first_fault
           [(\<exists>t \<in> set (take ix (ea_module x)). em_slot_number t = slot, faulty_exp 6),
            (slot > 0x7fff, faulty_exp 6),
            (pf_cmdev_get_slot (api_at (d_device n) i) slot = None, faulty_exp 6),
            (em_ident_number m = 0, faulty_exp 7),
            (nbr_submodules m = 0, faulty_exp 9)]
         of Some e \<Rightarrow> Some (Some e, n)
          | None \<Rightarrow> pf_cmdev_exp_submodule_configure app a is (ea_api x) m
              (i, the (pf_cmdev_get_slot (api_at (d_device n) i) slot)) n)
      })))"

definition pf_cmdev_exp_modules_configure ::
    "'w conn_app \<Rightarrow> nat \<Rightarrow> pf_iocr list \<Rightarrow> pf_exp_api \<Rightarrow> nat \<Rightarrow> 'w dev_net \<Rightarrow>
     (conn_error option \<times> 'w dev_net) option" where
  "pf_cmdev_exp_modules_configure app a is x i n =
     fold_option (configure_module app a is x i) [0..<unat (nbr_modules x)] (None, n)"

definition set_exp_ident :: "nat \<Rightarrow> (pf_exp_ident \<Rightarrow> pf_exp_ident) \<Rightarrow> 'w dev_net \<Rightarrow> 'w dev_net" where
  "set_exp_ident a f n = n\<lparr>d_exp_ident := (d_exp_ident n)(a := f (d_exp_ident n a))\<rparr>"

definition upd_exp_api :: "nat \<Rightarrow> (pf_exp_api \<Rightarrow> pf_exp_api) \<Rightarrow> pf_exp_ident \<Rightarrow> pf_exp_ident" where
  "upd_exp_api k f e = e\<lparr>ei_api := (ei_api e)[k := f (ei_api e ! k)]\<rparr>"

text \<open>An API for which there is no room is passed over without an error.\<close>

definition configure_api ::
    "'w conn_app \<Rightarrow> nat \<Rightarrow> pf_iocr list \<Rightarrow> nat \<Rightarrow> conn_error option \<times> 'w dev_net \<Rightarrow>
     (conn_error option \<times> 'w dev_net) option" where
  "configure_api app a is ix en = (case en of (e, n) \<Rightarrow>
     (if e \<noteq> None then Some (e, n)
      else (let x = ei_api (d_exp_ident n a) ! ix;
                (i, dev) = (case pf_cmdev_get_api (d_device n) (ea_api x) of Some i \<Rightarrow> (Some i, d_device n)
                            | None \<Rightarrow> pf_cmdev_new_api (ea_api x) (d_device n));
                n = n\<lparr>d_device := dev\<rparr>
            in case i of None \<Rightarrow> Some (e, n)
             | Some i \<Rightarrow> do {
                 (e, n) \<leftarrow> pf_cmdev_exp_modules_configure app a is x i n;
                 Some (e, set_exp_ident a (upd_exp_api ix (\<lambda>x. x\<lparr>ea_valid := (e = None)\<rparr>)) n)
               })))"

definition pf_cmdev_exp_apis_configure ::
    "'w conn_app \<Rightarrow> nat \<Rightarrow> pf_ar_param \<Rightarrow> pf_iocr list \<Rightarrow> 'w dev_net \<Rightarrow> (conn_error option \<times> 'w dev_net) option" where
  "pf_cmdev_exp_apis_configure app a ar is n =
     (if \<not> device_access (ar_properties ar) \<and> ei_nbr_apis (d_exp_ident n a) = 0 then Some (Some (faulty_exp 4), n)
      else fold_option (configure_api app a is) [0..<unat (ei_nbr_apis (d_exp_ident n a))] (None, n))"

section \<open>Differences\<close>

definition PF_MODULE_STATE_NO_MODULE :: u16 where "PF_MODULE_STATE_NO_MODULE = 0"
definition PF_MODULE_STATE_PROPER_MODULE :: u16 where "PF_MODULE_STATE_PROPER_MODULE = 2"
definition PF_MODULE_STATE_SUBSTITUTE :: u16 where "PF_MODULE_STATE_SUBSTITUTE = 3"
definition PF_AR_INFO_OWN :: u8 where "PF_AR_INFO_OWN = 0"
definition PF_AR_INFO_LOCKED_BY_IO_CONTROLLER :: u8 where "PF_AR_INFO_LOCKED_BY_IO_CONTROLLER = 3"
definition PF_IDENT_INFO_OK :: u8 where "PF_IDENT_INFO_OK = 0"
definition PF_IDENT_INFO_WRONG :: u8 where "PF_IDENT_INFO_WRONG = 2"
definition PF_IDENT_INFO_NO :: u8 where "PF_IDENT_INFO_NO = 3"

definition fresh_state :: pf_submodule_state where
  "fresh_state = (es_state zero_exp_submodule)\<lparr>format_indicator := True\<rparr>"

definition wrong_submodule :: pf_submodule_state where
  "wrong_submodule = fresh_state\<lparr>ar_info := PF_AR_INFO_OWN, ident_info := PF_IDENT_INFO_WRONG\<rparr>"

text \<open>The state of an expected submodule, and whether it is a difference.\<close>

definition submodule_state_of :: "nat \<Rightarrow> pf_subslot option \<Rightarrow> pf_exp_submodule \<Rightarrow> pf_submodule_state \<times> bool" where
  "submodule_state_of a real s = (case real of
       None \<Rightarrow> (fresh_state\<lparr>ident_info := PF_IDENT_INFO_NO\<rparr>, True)
     | Some r \<Rightarrow>
         if es_ident_number s \<noteq> ss_ident_number r then (wrong_submodule, True)
         else if is_owned r \<and> ss_owner r \<noteq> Some a then
           (fresh_state\<lparr>ident_info := PF_IDENT_INFO_OK, ar_info := PF_AR_INFO_LOCKED_BY_IO_CONTROLLER\<rparr>, True)
         else (let u = diag_summary r; st = fresh_state\<lparr>ident_info := PF_IDENT_INFO_OK, ar_info := PF_AR_INFO_OWN\<rparr> in
           if sum_fault u \<or> sum_maintenance_demanded u \<or> sum_maintenance_required u then
             (st\<lparr>fault := sum_fault u, maintenance_demanded := sum_maintenance_demanded u,
                 maintenance_required := sum_maintenance_required u\<rparr>, True)
           else (st, False)))"

definition real_subslot :: "pf_slot \<Rightarrow> u16 \<Rightarrow> pf_subslot option" where
  "real_subslot p subslot = map_option (\<lambda>k. subslots p ! k) (pf_cmdev_get_subslot p subslot)"

definition real_slot :: "pf_api \<Rightarrow> u16 \<Rightarrow> pf_slot option" where
  "real_slot p slot = map_option (\<lambda>j. slots p ! j) (pf_cmdev_get_slot p slot)"

definition set_sub_state :: "nat \<Rightarrow> pf_submodule_state \<Rightarrow> pf_exp_module \<Rightarrow> pf_exp_module" where
  "set_sub_state s st m = m\<lparr>submodule := (submodule m)[s := (submodule m ! s)\<lparr>es_state := st\<rparr>]\<rparr>"

definition add_diff_submodule :: "nat \<Rightarrow> pf_exp_module \<Rightarrow> pf_exp_module" where
  "add_diff_submodule s m = m\<lparr>diff_submodule := (diff_submodule m)[unat (nbr_diff_submodules m) := of_nat s],
     nbr_diff_submodules := nbr_diff_submodules m + 1\<rparr>"

definition add_diff_module :: "nat \<Rightarrow> pf_exp_api \<Rightarrow> pf_exp_api" where
  "add_diff_module m x = x\<lparr>diff_module := (diff_module x)[unat (nbr_diff_modules x) := of_nat m],
     nbr_diff_modules := nbr_diff_modules x + 1\<rparr>"

definition add_diff_api :: "nat \<Rightarrow> pf_exp_ident \<Rightarrow> pf_exp_ident" where
  "add_diff_api k e = e\<lparr>diff_api := (diff_api e)[unat (nbr_diff_apis e) := of_nat k], nbr_diff_apis := nbr_diff_apis e + 1\<rparr>"

definition upd_exp_module :: "nat \<Rightarrow> (pf_exp_module \<Rightarrow> pf_exp_module) \<Rightarrow> pf_exp_api \<Rightarrow> pf_exp_api" where
  "upd_exp_module k f x = x\<lparr>ea_module := (ea_module x)[k := f (ea_module x ! k)]\<rparr>"

definition diff_one_submodule :: "nat \<Rightarrow> pf_slot \<Rightarrow> nat \<Rightarrow> pf_exp_module \<Rightarrow> pf_exp_module" where
  "diff_one_submodule a real s m =
     (case submodule_state_of a (real_subslot real (es_subslot_number (submodule m ! s))) (submodule m ! s) of
        (st, d) \<Rightarrow> if d then add_diff_submodule s (set_sub_state s st m) else set_sub_state s st m)"

text \<open>A module of which the wrong one is plugged has all its submodules wrong.\<close>

definition substitute_module :: "pf_exp_module \<Rightarrow> pf_exp_module" where
  "substitute_module m = (let n = unat (nbr_submodules m) in
     fold (\<lambda>s m. (set_sub_state s wrong_submodule m)\<lparr>diff_submodule := (diff_submodule m)[s := of_nat s]\<rparr>) [0..<n]
       (m\<lparr>em_state := PF_MODULE_STATE_SUBSTITUTE, nbr_diff_submodules := nbr_submodules m\<rparr>))"

text \<open>The module goes to the list of differences only on the paths that reach the end of the loop.\<close>

definition diff_one_module :: "nat \<Rightarrow> pf_api \<Rightarrow> nat \<Rightarrow> pf_exp_api \<Rightarrow> pf_exp_api" where
  "diff_one_module a real k x =
     (let m = (ea_module x ! k)\<lparr>nbr_diff_submodules := 0\<rparr> in
      case real_slot real (em_slot_number m) of
        None \<Rightarrow> add_diff_module k (upd_exp_module k (\<lambda>_. m\<lparr>em_state := PF_MODULE_STATE_NO_MODULE\<rparr>) x)
      | Some r \<Rightarrow>
          if em_ident_number m \<noteq> sl_ident_number r then upd_exp_module k (\<lambda>_. substitute_module m) x
          else (let m = fold (diff_one_submodule a r) [0..<unat (nbr_submodules m)]
                          (m\<lparr>em_state := PF_MODULE_STATE_PROPER_MODULE\<rparr>);
                    x = upd_exp_module k (\<lambda>_. m) x
                in if nbr_diff_submodules m > 0 then add_diff_module k x else x))"

definition missing_api :: "pf_exp_api \<Rightarrow> pf_exp_api" where
  "missing_api x = fold (\<lambda>k x. (upd_exp_module k (\<lambda>m. m\<lparr>em_state := PF_MODULE_STATE_NO_MODULE, nbr_diff_submodules := 0\<rparr>) x)
      \<lparr>diff_module := (diff_module x)[k := of_nat k]\<rparr>) [0..<unat (nbr_modules x)]
      (x\<lparr>nbr_diff_modules := nbr_modules x\<rparr>)"

definition diff_one_api :: "nat \<Rightarrow> pf_device \<Rightarrow> nat \<Rightarrow> pf_exp_ident \<Rightarrow> pf_exp_ident" where
  "diff_one_api a dev k e =
     (let x = (ei_api e ! k)\<lparr>nbr_diff_modules := 0\<rparr> in
      case pf_cmdev_get_api dev (ea_api x) of
        None \<Rightarrow> upd_exp_api k (\<lambda>_. missing_api x) e
      | Some i \<Rightarrow>
          (let x = fold (diff_one_module a (api_at dev i)) [0..<unat (nbr_modules x)] x;
               e = upd_exp_api k (\<lambda>_. x) e
           in if nbr_diff_modules x > 0 then add_diff_api k e else e))"

definition pf_cmdev_generate_module_diff :: "nat \<Rightarrow> pf_device \<Rightarrow> pf_exp_ident \<Rightarrow> pf_exp_ident" where
  "pf_cmdev_generate_module_diff a dev e =
     fold (diff_one_api a dev) [0..<unat (ei_nbr_apis e)] (e\<lparr>nbr_diff_apis := 0\<rparr>)"

text \<open>
  The difference of one subslot. The search for it in a module of which the wrong one is
  plugged looks at the submodule with the index of the module, which may not exist.
\<close>

definition substitute_submodule :: "nat \<Rightarrow> u16 \<Rightarrow> pf_exp_module \<Rightarrow> pf_exp_module option" where
  "substitute_submodule k subslot m =
     (if nbr_submodules m = 0 then Some (m\<lparr>em_state := PF_MODULE_STATE_SUBSTITUTE\<rparr>)
      else if k < length (submodule m) then
        (let m = m\<lparr>em_state := PF_MODULE_STATE_SUBSTITUTE\<rparr> in
         Some (case List.find (\<lambda>s. es_subslot_number (submodule m ! k) = subslot) [0..<unat (nbr_submodules m)] of
             None \<Rightarrow> m
           | Some s \<Rightarrow> (set_sub_state s wrong_submodule m)
               \<lparr>diff_submodule := (diff_submodule m)[s := of_nat s], nbr_diff_submodules := nbr_diff_submodules m + 1\<rparr>))
      else None)"

definition subdiff_one_module :: "nat \<Rightarrow> pf_api \<Rightarrow> u16 \<Rightarrow> u16 \<Rightarrow> nat \<Rightarrow> pf_exp_api \<Rightarrow> pf_exp_api option" where
  "subdiff_one_module a real slot subslot k x =
     (let m = (ea_module x ! k)\<lparr>nbr_diff_submodules := 0\<rparr>; store = (\<lambda>m. upd_exp_module k (\<lambda>_. m) x) in
      if em_slot_number m \<noteq> slot then Some (store m)
      else case real_slot real (em_slot_number m) of
          None \<Rightarrow> Some (add_diff_module k (store (m\<lparr>em_state := PF_MODULE_STATE_NO_MODULE\<rparr>)))
        | Some r \<Rightarrow>
            if em_ident_number m \<noteq> sl_ident_number r then map_option store (substitute_submodule k subslot m)
            else (let m = fold (\<lambda>s m. if es_subslot_number (submodule m ! s) = subslot then diff_one_submodule a r s m else m)
                            [0..<unat (nbr_submodules m)] (m\<lparr>em_state := PF_MODULE_STATE_PROPER_MODULE\<rparr>)
                  in Some (if nbr_diff_submodules m > 0 then add_diff_module k (store m) else store m)))"

definition subdiff_one_api ::
    "nat \<Rightarrow> pf_device \<Rightarrow> u32 \<Rightarrow> u16 \<Rightarrow> u16 \<Rightarrow> nat \<Rightarrow> pf_exp_ident \<Rightarrow> pf_exp_ident option" where
  "subdiff_one_api a dev api slot subslot k e =
     (let x = (ei_api e ! k)\<lparr>nbr_diff_modules := 0\<rparr> in
      if ea_api x \<noteq> api then Some (upd_exp_api k (\<lambda>_. x) e)
      else case pf_cmdev_get_api dev api of
          None \<Rightarrow> Some (upd_exp_api k (\<lambda>_. case find_index (\<lambda>m. em_slot_number m = slot)
                      (take (unat (nbr_modules x)) (ea_module x)) of
                    None \<Rightarrow> x
                  | Some j \<Rightarrow> (upd_exp_module j (\<lambda>m. m\<lparr>em_state := PF_MODULE_STATE_NO_MODULE, nbr_diff_submodules := 0\<rparr>) x)
                      \<lparr>diff_module := (diff_module x)[j := of_nat j], nbr_diff_modules := nbr_diff_modules x + 1\<rparr>) e)
        | Some i \<Rightarrow> do {
            x \<leftarrow> fold_option (subdiff_one_module a (api_at dev i) slot subslot) [0..<unat (nbr_modules x)] x;
            let e = upd_exp_api k (\<lambda>_. x) e;
            Some (if nbr_diff_modules x > 0 then add_diff_api k e else e)
          })"

definition pf_cmdev_generate_submodule_diff ::
    "nat \<Rightarrow> pf_device \<Rightarrow> u32 \<Rightarrow> u16 \<Rightarrow> u16 \<Rightarrow> pf_exp_ident \<Rightarrow> pf_exp_ident option" where
  "pf_cmdev_generate_submodule_diff a dev api slot subslot e =
     fold_option (subdiff_one_api a dev api slot subslot) [0..<unat (ei_nbr_apis e)] (e\<lparr>nbr_diff_apis := 0\<rparr>)"

end
