(* ===== verification/Connect.thy ===== *)
theory Connect
  imports Connect_Config Cmsu
begin

unbundle bit_operations_syntax

text \<open>
  The state machine of an AR (src/device/pf_cmdev.c): connect, end of the parametrisation,
  application ready, release and abort. What the machine calls (the application through
  FSPM, the other machines that hear of its events, the alarm channel, CMRPC) is an
  environment of functions on the whole state, so that a callee can come back to this
  component. A missing result is a callee that fails.
\<close>

section \<open>State\<close>

datatype pf_cmdev_state = PF_CMDEV_STATE_POWER_ON | PF_CMDEV_STATE_W_CIND | PF_CMDEV_STATE_W_CRES
  | PF_CMDEV_STATE_W_SUCNF | PF_CMDEV_STATE_W_PEIND | PF_CMDEV_STATE_W_PERES | PF_CMDEV_STATE_W_ARDY
  | PF_CMDEV_STATE_W_ARDYCNF | PF_CMDEV_STATE_WDATA | PF_CMDEV_STATE_DATA | PF_CMDEV_STATE_ABORT

text \<open>What the response to a connect request is built from.\<close>

record conn_result =
  cr_cm_responder_mac_add :: "u8 list"
  cr_responder_udp_rt_port :: u16
  cr_iocrs :: "(u16 \<times> u16 \<times> u16) list"
  cr_alarm_cr_type :: u32
  cr_local_alarm_reference :: u16
  cr_max_alarm_data_length :: u16
  cr_station_name :: "u8 list"
  cr_length_station_name :: u16

text \<open>The IOCRs are those of the request, the first \<open>nbr_iocrs\<close> of the array.\<close>

record conn_ar =
  ca_in_use :: bool
  ca_state :: pf_cmdev_state
  ca_nbr_ar_param :: u16
  ca_param :: pf_ar_param
  ca_iocrs :: "pf_iocr list"
  ca_nbr_alarm_cr :: u16
  ca_alarm_cr :: pf_alarm_cr_request
  ca_nbr_rpc_server :: u16
  ca_rpc_server_port :: u16
  ca_rpc_valid :: bool
  ca_input_cr_cnt :: u16
  ca_output_cr_cnt :: u16
  ca_nbr_mcr :: u16
  ca_mcr_cons_cnt :: u16
  ca_ir_info_valid :: bool
  ca_rtc3_present :: bool
  ca_ready_4_data :: bool
  ca_err_cls :: u8
  ca_err_code :: u8
  ca_result :: conn_result

record 'w conn_net =
  cn_dev :: "'w dev_net"
  cn_ar :: "nat \<Rightarrow> conn_ar"

type_synonym 'w ncmd = "'w conn_net \<Rightarrow> 'w conn_net option"
type_synonym ('w, 'a) nfn = "'w conn_net \<Rightarrow> ('a \<times> 'w conn_net) option"

record 'w conn_env =
  ev_app :: "'w conn_app"
  ev_dev :: "'w dev_env"
  ev_min_device_interval :: int
  ev_station_name :: "u8 list"
  ev_mac_address :: "u8 list"
  ev_state_inds :: "(nat \<Rightarrow> pnet_event \<Rightarrow> 'w ncmd) list"
  ev_pdport_reset_all :: "'w ncmd"
  ev_pdport_ar_connect_ind :: "nat \<Rightarrow> 'w ncmd"
  ev_allocate_endpoint :: "nat \<Rightarrow> ('w, u16) nfn"
  ev_connect_ind :: "nat \<Rightarrow> pnet_pnio_status \<Rightarrow> ('w, int \<times> pnet_pnio_status) nfn"
  ev_release_ind :: "nat \<Rightarrow> pnet_pnio_status \<Rightarrow> ('w, int \<times> pnet_pnio_status) nfn"
  ev_dcontrol_ind :: "nat \<Rightarrow> pnet_pnio_status \<Rightarrow> ('w, int \<times> pnet_pnio_status) nfn"
  ev_ccontrol_cnf :: "nat \<Rightarrow> pnet_pnio_status \<Rightarrow> 'w ncmd"
  ev_cmsu_start_req :: "nat \<Rightarrow> pnet_pnio_status \<Rightarrow> ('w, int \<times> pnet_pnio_status) nfn"
  ev_cmpbe_dcontrol_ind :: "nat \<Rightarrow> pf_control_block \<Rightarrow> pnet_pnio_status \<Rightarrow> ('w, int \<times> pnet_pnio_status) nfn"
  ev_log_book_entry :: "nat \<Rightarrow> pnet_pnio_status \<Rightarrow> 'w ncmd"
  ev_alarm_enable :: "nat \<Rightarrow> 'w ncmd"
  ev_fast_port_in_use :: "'w conn_net \<Rightarrow> bool"
  ev_ppm_iodata :: "u32 \<Rightarrow> u16 \<Rightarrow> u16 \<Rightarrow> 'w conn_net \<Rightarrow> pf_iodata_object option"
  ev_cmrpc_ccontrol_req :: "nat \<Rightarrow> ('w, int) nfn"

definition upd_cn_ar :: "nat \<Rightarrow> (conn_ar \<Rightarrow> conn_ar) \<Rightarrow> 'w conn_net \<Rightarrow> 'w conn_net" where
  "upd_cn_ar a f n = n\<lparr>cn_ar := (cn_ar n)(a := f (cn_ar n a))\<rparr>"

abbreviation cmdev_state :: "nat \<Rightarrow> 'w conn_net \<Rightarrow> pf_cmdev_state" where
  "cmdev_state a n \<equiv> ca_state (cn_ar n a)"

abbreviation is_device_access :: "nat \<Rightarrow> 'w conn_net \<Rightarrow> bool" where
  "is_device_access a n \<equiv> device_access (ar_properties (ca_param (cn_ar n a)))"

section \<open>Events and states\<close>

text \<open>
  FSPM, CMSU, CMIO, CMWRR, CMSM, CMPBE and CMRPC hear of an event, in the order of the list in
  the environment; the device tree is cleared last.
\<close>

definition pf_cmdev_state_ind :: "'w conn_env \<Rightarrow> nat \<Rightarrow> pnet_event \<Rightarrow> 'w ncmd" where
  "pf_cmdev_state_ind env a ev n = do {
     n \<leftarrow> fold_option (\<lambda>ind. ind a ev) (ev_state_inds env) n;
     Some (if ev = PNET_EVENT_ABORT then n\<lparr>cn_dev := pf_device_clear (ev_dev env) a (cn_dev n)\<rparr> else n)
   }"

definition pf_cmdev_set_state :: "'w conn_env \<Rightarrow> nat \<Rightarrow> pf_cmdev_state \<Rightarrow> 'w ncmd" where
  "pf_cmdev_set_state env a st n =
     (let n = upd_cn_ar a (\<lambda>r. r\<lparr>ca_state := st\<rparr>) n in
      if st = PF_CMDEV_STATE_ABORT then pf_cmdev_state_ind env a PNET_EVENT_ABORT n else Some n)"

definition pf_cmdev_get_state :: "nat \<Rightarrow> 'w conn_net \<Rightarrow> pf_cmdev_state" where
  "pf_cmdev_get_state a n = cmdev_state a n"

definition pf_cmdev_cmio_info_ind :: "'w conn_env \<Rightarrow> nat \<Rightarrow> bool \<Rightarrow> 'w ncmd" where
  "pf_cmdev_cmio_info_ind env a data_possible n =
     (if cmdev_state a n \<in> {PF_CMDEV_STATE_W_ARDY, PF_CMDEV_STATE_W_ARDYCNF} then
        Some (upd_cn_ar a (\<lambda>r. r\<lparr>ca_ready_4_data := data_possible\<rparr>) n)
      else if cmdev_state a n = PF_CMDEV_STATE_WDATA then
        (let n = upd_cn_ar a (\<lambda>r. r\<lparr>ca_ready_4_data := data_possible\<rparr>) n in
         if data_possible then
           Option.bind (pf_cmdev_state_ind env a PNET_EVENT_DATA n) (pf_cmdev_set_state env a PF_CMDEV_STATE_DATA)
         else Some n)
      else Some n)"

text \<open>An abort by the controller may come without an AR.\<close>

definition pf_cmdev_cm_abort :: "'w conn_env \<Rightarrow> nat option \<Rightarrow> ('w, int) nfn" where
  "pf_cmdev_cm_abort env ar n = (case ar of None \<Rightarrow> Some (-1, n)
     | Some a \<Rightarrow>
         if is_device_access a n \<and> cmdev_state a n \<notin> {PF_CMDEV_STATE_W_CRES, PF_CMDEV_STATE_DATA} then Some (-1, n)
         else map_option (Pair 0) (pf_cmdev_set_state env a PF_CMDEV_STATE_ABORT n))"

definition pf_cmdev_cm_init_req :: "'w conn_env \<Rightarrow> nat \<Rightarrow> ('w, int) nfn" where
  "pf_cmdev_cm_init_req env a n =
     (if cmdev_state a n = PF_CMDEV_STATE_POWER_ON
      then map_option (Pair 0) (pf_cmdev_set_state env a PF_CMDEV_STATE_W_CIND n) else Some (-1, n))"

section \<open>Frame identifiers\<close>

definition pf_cmdev_verify_free_frame_id :: "'w conn_net \<Rightarrow> u16 \<Rightarrow> bool" where
  "pf_cmdev_verify_free_frame_id n fid \<longleftrightarrow>
     \<not> (\<exists>a < PNET_MAX_AR. ca_in_use (cn_ar n a) \<and> (\<exists>i \<in> set (ca_iocrs (cn_ar n a)). frame_id (iocr_param i) = fid))"

definition frame_id_range :: "u32 \<Rightarrow> u16 \<times> u16" where
  "frame_id_range rt =
     (if rt = PF_RT_CLASS_1 then (0xc000, 0xf7ff) else if rt = PF_RT_CLASS_2 then (0x8000, 0xbbff)
      else if rt = PF_RT_CLASS_3 then (0x0100, 0x7fff) else if rt = PF_RT_CLASS_UDP then (0xc000, 0xf7ff)
      else (0xffff, 0xffff))"

text \<open>The counter of the loop has 16 bits and wraps, so the loop need not end.\<close>

partial_function (option) next_frame_id :: "(u16 \<Rightarrow> bool) \<Rightarrow> u16 \<Rightarrow> u16 \<Rightarrow> u16 option" where
  "next_frame_id free fid stop =
     (if fid \<le> stop \<and> \<not> free fid then next_frame_id free (fid + 1) stop else Some fid)"

declare next_frame_id.simps [code]

definition set_frame_id :: "u16 \<Rightarrow> pf_iocr \<Rightarrow> pf_iocr" where
  "set_frame_id fid i = i\<lparr>iocr_param := (iocr_param i)\<lparr>frame_id := fid\<rparr>\<rparr>"

definition fix_iocr_frame_id :: "nat \<Rightarrow> nat \<Rightarrow> 'w ncmd" where
  "fix_iocr_frame_id a ix n =
     (let p = iocr_param (ca_iocrs (cn_ar n a) ! ix) in
      if iocr_type p = PF_IOCR_TYPE_OUTPUT \<and> frame_id p = 0xffff then
        (case frame_id_range (rt_class (iocr_properties p)) of (start, stop) \<Rightarrow> do {
           fid \<leftarrow> next_frame_id (pf_cmdev_verify_free_frame_id n) start stop;
           Some (if fid \<le> stop
             then upd_cn_ar a (\<lambda>r. r\<lparr>ca_iocrs := (ca_iocrs r)[ix := set_frame_id fid (ca_iocrs r ! ix)]\<rparr>) n else n)
         })
      else Some n)"

definition pf_cmdev_fix_frame_id :: "nat \<Rightarrow> 'w ncmd" where
  "pf_cmdev_fix_frame_id a n = fold_option (fix_iocr_frame_id a) [0..<length (ca_iocrs (cn_ar n a))] n"

section \<open>Connect\<close>

definition setup_all :: "pf_exp_ident \<Rightarrow> pf_iocr list \<Rightarrow> (int \<times> pf_iocr list) option" where
  "setup_all x is = fold_option (\<lambda>k ri. case ri of (r, is) \<Rightarrow>
     if r \<noteq> 0 then Some (r, is)
     else map_option (\<lambda>(r, i). (r, is[k := i])) (pf_cmdev_iocr_setup_desc x (is ! k))) [0..<length is] (0, is)"

text \<open>
  The result has an error, or none but a failure (\<open>Inr\<close> is the result of the function), and the
  state in which the application has plugged its modules.
\<close>

definition block_count_fault :: "conn_ar \<Rightarrow> conn_error option" where
  "block_count_fault r = (let da = device_access (ar_properties (ca_param r)) in first_fault
     [(\<not> da \<and> (ca_input_cr_cnt r = 0 \<or> ca_output_cr_cnt r = 0), faulty_cmrpc PNET_ERROR_CODE_2_CMRPC_IOCR_MISSING),
      (\<not> da \<and> ca_nbr_alarm_cr r \<noteq> 1, faulty_cmrpc PNET_ERROR_CODE_2_CMRPC_WRONG_BLOCK_COUNT),
      (ca_nbr_mcr r = 0 \<and> ca_mcr_cons_cnt r > 0, faulty_cmrpc PNET_ERROR_CODE_2_CMRPC_WRONG_BLOCK_COUNT),
      (\<not> ca_ir_info_valid r \<and> ca_rtc3_present r, faulty_cmrpc PNET_ERROR_CODE_2_CMRPC_WRONG_BLOCK_COUNT)])"

definition final_fault :: "conn_ar \<Rightarrow> conn_error option" where
  "final_fault r = (case block_count_fault r of Some e \<Rightarrow> Some e
     | None \<Rightarrow> (case (if ca_nbr_alarm_cr r > 0 then pf_cmdev_check_alarm_cr (ca_param r) (ca_alarm_cr r) else None) of
           Some e \<Rightarrow> Some e
         | None \<Rightarrow> if ca_nbr_rpc_server r > 0 then pf_cmdev_check_ar_rpc (ca_rpc_server_port r) else None))"

definition pf_cmdev_check_apdu ::
    "'w conn_env \<Rightarrow> nat \<Rightarrow> pnet_pnio_status \<Rightarrow> ('w, int \<times> pnet_pnio_status) nfn" where
  "pf_cmdev_check_apdu env a st n =
     (let r = cn_ar n a in
      if ca_nbr_ar_param r = 0 then Some ((-1, st), n)
      else case pf_cmdev_check_ar_param (ca_param r) of Some e \<Rightarrow> Some ((-1, conn_status e), n)
        | None \<Rightarrow> (case pf_cmdev_check_iocr_param (ev_min_device_interval env) (ca_param r) (ca_iocrs r) of
              Some e \<Rightarrow> Some ((-1, conn_status e), n)
            | None \<Rightarrow> do {
                (e, d) \<leftarrow> pf_cmdev_exp_apis_configure (ev_app env) a (ca_param r) (ca_iocrs r) (cn_dev n);
                let n = n\<lparr>cn_dev := d\<rparr>;
                (case e of Some e \<Rightarrow> Some ((-1, conn_status e), n)
                 | None \<Rightarrow> do {
                     (ret, is) \<leftarrow> setup_all (d_exp_ident d a) (ca_iocrs r);
                     let n = upd_cn_ar a (\<lambda>r. r\<lparr>ca_iocrs := is\<rparr>) n;
                     (if ret \<noteq> 0 then Some ((-1, st), n)
                      else case pf_cmdev_check_iocr_apis (d_exp_ident d a) is of Some e \<Rightarrow> Some ((-1, conn_status e), n)
                        | None \<Rightarrow> (case final_fault (cn_ar n a) of Some e \<Rightarrow> Some ((-1, conn_status e), n)
                            | None \<Rightarrow> Some ((0, st), if ca_nbr_rpc_server r > 0
                                then upd_cn_ar a (\<lambda>r. r\<lparr>ca_rpc_valid := True\<rparr>) n else n)))
                   })
              }))"

definition pf_cmdev_cm_connect_rsp_neg :: "'w conn_env \<Rightarrow> nat \<Rightarrow> pnet_pnio_status \<Rightarrow> 'w ncmd" where
  "pf_cmdev_cm_connect_rsp_neg env a st n = do {
     n \<leftarrow> (if \<not> is_device_access a n then ev_log_book_entry env a st n else Some n);
     pf_cmdev_set_state env a PF_CMDEV_STATE_W_CIND n
   }"

definition pf_cmdev_cm_connect_rsp_pos ::
    "'w conn_env \<Rightarrow> nat \<Rightarrow> pnet_pnio_status \<Rightarrow> ('w, int \<times> pnet_pnio_status) nfn" where
  "pf_cmdev_cm_connect_rsp_pos env a st n =
     (if \<not> is_device_access a n then
        (if cmdev_state a n = PF_CMDEV_STATE_W_CRES then do {
           ((ret, st), n) \<leftarrow> ev_cmsu_start_req env a st n;
           n \<leftarrow> pf_cmdev_set_state env a PF_CMDEV_STATE_W_SUCNF n;
           (if ret = 0 then do {
              n \<leftarrow> pf_cmdev_state_ind env a PNET_EVENT_STARTUP n;
              n \<leftarrow> pf_cmdev_set_state env a PF_CMDEV_STATE_W_PEIND n;
              Some ((ret, st), n)
            } else do {
              let st = conn_status (faulty_cmrpc PNET_ERROR_CODE_2_CMRPC_PDEV_ALREADY_OWNED);
              n \<leftarrow> ev_log_book_entry env a st n;
              Some ((ret, st), n)
            })
         } else Some ((-1, st), n))
      else if cmdev_state a n = PF_CMDEV_STATE_W_CRES then do {
        n \<leftarrow> pf_cmdev_state_ind env a PNET_EVENT_STARTUP n;
        n \<leftarrow> pf_cmdev_set_state env a PF_CMDEV_STATE_DATA n;
        Some ((0, st), n)
      } else do {
        n \<leftarrow> pf_cmdev_set_state env a PF_CMDEV_STATE_W_CIND n;
        Some ((-1, st), n)
      })"

definition PF_UDP_UNICAST_PORT :: u16 where "PF_UDP_UNICAST_PORT = 0x8892"
definition PF_MAX_ALARM_DATA_LEN :: u16 where "PF_MAX_ALARM_DATA_LEN = 200"

definition result_of :: "'w conn_env \<Rightarrow> conn_ar \<Rightarrow> u16 \<Rightarrow> conn_result" where
  "result_of env r alarm_reference =
     (let name = takeWhile (\<lambda>c. c \<noteq> 0) (ev_station_name env) in
      \<lparr>cr_cm_responder_mac_add = ev_mac_address env, cr_responder_udp_rt_port = PF_UDP_UNICAST_PORT,
       cr_iocrs = map (\<lambda>i. (iocr_type (iocr_param i), iocr_reference (iocr_param i), frame_id (iocr_param i))) (ca_iocrs r),
       cr_alarm_cr_type = acr_type (ca_alarm_cr r), cr_local_alarm_reference = alarm_reference,
       cr_max_alarm_data_length = PF_MAX_ALARM_DATA_LEN,
       cr_station_name = take (PNET_STATION_NAME_MAX_SIZE - 1) (name @ replicate PNET_STATION_NAME_MAX_SIZE 0) @ [0],
       cr_length_station_name = of_nat (length name)\<rparr>)"

text \<open>A request that is refused gets the result 0 all the same, with the error in the status.\<close>

definition pf_cmdev_rm_connect_ind ::
    "'w conn_env \<Rightarrow> nat \<Rightarrow> pnet_pnio_status \<Rightarrow> ('w, int \<times> pnet_pnio_status) nfn" where
  "pf_cmdev_rm_connect_ind env a st n = do {
     ((ret, st), n) \<leftarrow> pf_cmdev_check_apdu env a st n;
     ((ret, st), n) \<leftarrow> (if ret = 0 then do {
         n \<leftarrow> ev_pdport_reset_all env n;
         n \<leftarrow> ev_pdport_ar_connect_ind env a n;
         let n = n\<lparr>cn_dev := set_exp_ident a (pf_cmdev_generate_module_diff a (d_device (cn_dev n))) (cn_dev n)\<rparr>;
         n \<leftarrow> pf_cmdev_fix_frame_id a n;
         (alarm_reference, n) \<leftarrow> ev_allocate_endpoint env a n;
         let n = upd_cn_ar a (\<lambda>r. r\<lparr>ca_result := result_of env r alarm_reference, ca_ready_4_data := False\<rparr>) n;
         ev_connect_ind env a st n
       } else Some ((-1, st), n));
     (if ret = 0 then do {
        n \<leftarrow> pf_cmdev_set_state env a PF_CMDEV_STATE_W_CRES n;
        pf_cmdev_cm_connect_rsp_pos env a st n
      } else map_option (Pair (0, st)) (pf_cmdev_cm_connect_rsp_neg env a st n))
   }"

section \<open>Release and control\<close>

definition set_cn_err :: "nat \<Rightarrow> u8 \<Rightarrow> 'w conn_net \<Rightarrow> 'w conn_net" where
  "set_cn_err a code = upd_cn_ar a (\<lambda>r. r\<lparr>ca_err_cls := PNET_ERROR_CODE_1_RTA_ERR_CLS, ca_err_code := code\<rparr>)"

definition PNET_ERROR_CODE_2_ABORT_AR_RELEASE_IND_RECEIVED :: u8 where
  "PNET_ERROR_CODE_2_ABORT_AR_RELEASE_IND_RECEIVED = 0x0f"
definition PNET_ERROR_CODE_2_ABORT_PDEV_CHECK_FAILED :: u8 where
  "PNET_ERROR_CODE_2_ABORT_PDEV_CHECK_FAILED = 0x24"

definition pf_cmdev_rm_release_ind :: "'w conn_env \<Rightarrow> nat \<Rightarrow> pnet_pnio_status \<Rightarrow> ('w, int \<times> pnet_pnio_status) nfn" where
  "pf_cmdev_rm_release_ind env a st n =
     (if \<not> is_device_access a n then
        (if cmdev_state a n \<in> {PF_CMDEV_STATE_W_PEIND, PF_CMDEV_STATE_W_ARDY, PF_CMDEV_STATE_W_ARDYCNF,
              PF_CMDEV_STATE_WDATA, PF_CMDEV_STATE_DATA} then do {
           ((ret, st), n) \<leftarrow> ev_release_ind env a st (set_cn_err a PNET_ERROR_CODE_2_ABORT_AR_RELEASE_IND_RECEIVED n);
           let n = (if ret \<noteq> 0 then upd_cn_ar a (\<lambda>r. r\<lparr>ca_err_code := error_code_2 st\<rparr>) n else n);
           map_option (Pair (0, st)) (pf_cmdev_set_state env a PF_CMDEV_STATE_ABORT n)
         } else Some ((0, st), n))
      else if cmdev_state a n = PF_CMDEV_STATE_DATA then
        map_option (Pair (0, st)) (pf_cmdev_state_ind env a PNET_EVENT_ABORT
          (set_cn_err a PNET_ERROR_CODE_2_ABORT_AR_RELEASE_IND_RECEIVED n))
      else Some ((0, st), n))"

definition PF_CONTROL_COMMAND_BIT_PRM_END :: nat where "PF_CONTROL_COMMAND_BIT_PRM_END = 0"
definition PF_CONTROL_COMMAND_BIT_DONE :: nat where "PF_CONTROL_COMMAND_BIT_DONE = 3"

definition pf_cmdev_check_pdev :: "'w conn_env \<Rightarrow> 'w conn_net \<Rightarrow> int" where
  "pf_cmdev_check_pdev env n = (if ev_fast_port_in_use env n then 0 else -1)"

definition dcontrol_prm_end ::
    "'w conn_env \<Rightarrow> nat \<Rightarrow> pnet_pnio_status \<Rightarrow> ('w, int \<times> pnet_pnio_status \<times> bool) nfn" where
  "dcontrol_prm_end env a st n = do {
     n \<leftarrow> pf_cmdev_set_state env a PF_CMDEV_STATE_W_PERES n;
     ((ret, st), n) \<leftarrow> ev_dcontrol_ind env a st n;
     (if ret = 0 then do {
        n \<leftarrow> pf_cmdev_set_state env a PF_CMDEV_STATE_W_ARDY n;
        Some (if pf_cmdev_check_pdev env n = 0 then ((0, st, True), n)
              else ((-1, st, False), set_cn_err a PNET_ERROR_CODE_2_ABORT_PDEV_CHECK_FAILED n))
      } else Some ((-1, st, False), n))
   }"

text \<open>The flag tells the caller to send the event PRMEND; a failure aborts the AR, and the result is 0.\<close>

definition pf_cmdev_rm_dcontrol_ind ::
    "'w conn_env \<Rightarrow> nat \<Rightarrow> pf_control_block \<Rightarrow> pnet_pnio_status \<Rightarrow> ('w, int \<times> pnet_pnio_status \<times> bool) nfn" where
  "pf_cmdev_rm_dcontrol_ind env a cb st n = do {
     ((ret, st, prmend), n) \<leftarrow>
       (if \<not> is_device_access a n then
          (case cmdev_state a n of
             PF_CMDEV_STATE_W_PEIND \<Rightarrow>
               if control_command cb = push_bit PF_CONTROL_COMMAND_BIT_PRM_END 1 then dcontrol_prm_end env a st n
               else Some ((-1, st, False), n)
           | PF_CMDEV_STATE_DATA \<Rightarrow>
               map_option (\<lambda>((ret, st), n). ((ret, st, False), n)) (ev_cmpbe_dcontrol_ind env a cb st n)
           | _ \<Rightarrow> Some ((0, st, False), n))
        else Some ((-1, st, False), n));
     (if ret \<noteq> 0 then map_option (Pair (0, st, prmend)) (pf_cmdev_state_ind env a PNET_EVENT_ABORT n)
      else Some ((ret, st, prmend), n))
   }"

definition no_error :: "pnet_pnio_status \<Rightarrow> bool" where
  "no_error st \<longleftrightarrow> error_code st = 0 \<and> error_decode st = 0 \<and> error_code_1 st = 0 \<and> error_code_2 st = 0"

definition pf_cmdev_rm_ccontrol_cnf ::
    "'w conn_env \<Rightarrow> nat \<Rightarrow> pf_control_block \<Rightarrow> pnet_pnio_status \<Rightarrow> ('w, int) nfn" where
  "pf_cmdev_rm_ccontrol_cnf env a cb st n =
     (if cmdev_state a n \<noteq> PF_CMDEV_STATE_W_ARDYCNF then Some (-1, n)
      else if no_error st then
        (if control_command cb = push_bit PF_CONTROL_COMMAND_BIT_DONE 1 then do {
           n \<leftarrow> ev_alarm_enable env a n;
           n \<leftarrow> (if ca_ready_4_data (cn_ar n a) then
                  Option.bind (pf_cmdev_state_ind env a PNET_EVENT_DATA n) (pf_cmdev_set_state env a PF_CMDEV_STATE_DATA)
                else pf_cmdev_set_state env a PF_CMDEV_STATE_WDATA n);
           map_option (Pair 0) (ev_ccontrol_cnf env a st n)
         } else Some (-1, n))
      else do {
        n \<leftarrow> ev_log_book_entry env a st n;
        n \<leftarrow> ev_ccontrol_cnf env a st n;
        map_option (Pair (-1)) (pf_cmdev_set_state env a PF_CMDEV_STATE_ABORT n)
      })"

text \<open>All the data of the providers, of this AR or of the one that owns the subslot, have been set.\<close>

definition all_data_set :: "'w conn_env \<Rightarrow> nat \<Rightarrow> 'w conn_net \<Rightarrow> bool" where
  "all_data_set env a n \<longleftrightarrow>
     (\<forall>i \<in> set (ca_iocrs (cn_ar n a)). iocr_direction i = PF_DIRECTION_INPUT \<longrightarrow>
        (\<forall>d \<in> set (take (unat (nbr_data_desc i)) (data_desc i)).
           case ev_ppm_iodata env (io_api_id d) (io_slot_nbr d) (io_subslot_nbr d) n of
             None \<Rightarrow> False | Some ob \<Rightarrow> \<not> (iops_length ob > 0 \<and> \<not> data_avail ob)))"

definition pf_cmdev_cm_ccontrol_req :: "'w conn_env \<Rightarrow> nat \<Rightarrow> ('w, int) nfn" where
  "pf_cmdev_cm_ccontrol_req env a n =
     (if is_device_access a n then map_option (Pair (-1)) (pf_cmdev_state_ind env a PNET_EVENT_ABORT n)
      else if cmdev_state a n \<noteq> PF_CMDEV_STATE_W_ARDY then Some (0, n)
      else if all_data_set env a n then do {
        n \<leftarrow> pf_cmdev_state_ind env a PNET_EVENT_APPLRDY n;
        (ret, n) \<leftarrow> ev_cmrpc_ccontrol_req env a n;
        (if ret = 0 then map_option (Pair 0) (pf_cmdev_set_state env a PF_CMDEV_STATE_W_ARDYCNF n)
         else Some (-1, n))
      } else Some (-1, n))"

end
