(* ===== verification/Connect_Layout.thy ===== *)
theory Connect_Layout
  imports Connect Expected_Modules
begin

text \<open>
  What the setup and the checks of a connect request guarantee for the descriptors of an IOCR:
  the table has room for all of them, every submodule has one, and those of an accepted
  request lie in the frame and apart from each other.
\<close>

section \<open>Loops\<close>

text \<open>An invariant of a loop that keeps it and does not fail.\<close>

lemma fold_option_inv:
  assumes "\<And>x s. x \<in> set xs \<Longrightarrow> I s \<Longrightarrow> \<exists>s'. f x s = Some s' \<and> I s'" and "I s"
  shows "\<exists>s'. fold_option f xs s = Some s' \<and> I s'"
  using assms
proof (induction xs arbitrary: s)
  case (Cons x xs)
  from Cons.prems(1) [of x s] Cons.prems(2) obtain s1 where s1: "f x s = Some s1" "I s1" by auto
  show ?case using Cons.IH [OF Cons.prems(1) s1(2)] s1(1) by auto
qed simp

lemma fold_option_preserves:
  assumes "\<And>x s s'. x \<in> set xs \<Longrightarrow> I s \<Longrightarrow> f x s = Some s' \<Longrightarrow> I s'" and "I s" and "fold_option f xs s = Some s'"
  shows "I s'"
  using assms
proof (induction xs arbitrary: s)
  case (Cons x xs)
  then obtain s1 where s1: "f x s = Some s1" "fold_option f xs s1 = Some s'" by (auto split: bind_splits)
  have "I s1" using Cons.prems(1) [OF _ Cons.prems(2) s1(1)] by simp
  then show ?case using Cons.IH [OF _ _ s1(2)] Cons.prems(1) by (meson list.set_intros(2))
qed simp

lemma fold_option_append: "fold_option f (xs @ ys) s = Option.bind (fold_option f xs s) (fold_option f ys)"
proof (induction xs arbitrary: s)
  case (Cons x xs)
  then show ?case by (cases "f x s") simp_all
qed simp

text \<open>A check that never takes an error back: if the loop ends without one, no step has one.\<close>

definition sticky :: "('a \<Rightarrow> conn_error option \<Rightarrow> conn_error option) \<Rightarrow> bool" where
  "sticky f \<longleftrightarrow> (\<forall>x e. f x e = None \<longrightarrow> e = None)"

lemma stickyI: "(\<And>x e. f x e = None \<Longrightarrow> e = None) \<Longrightarrow> sticky f"
  by (simp add: sticky_def)

lemma fold_sticky:
  assumes "sticky f" and "fold f xs e = None"
  shows "e = None \<and> (\<forall>x \<in> set xs. f x None = None)"
  using assms(2)
proof (induction xs arbitrary: e)
  case (Cons x xs)
  then have "f x e = None" "\<forall>x \<in> set xs. f x None = None" by auto
  moreover have "e = None" using assms(1) calculation(1) by (auto simp: sticky_def)
  ultimately show ?case by simp
qed simp

lemma sticky_overwrite: "sticky (\<lambda>i. overwrite (f i))"
  by (rule stickyI) simp

section \<open>The table has room\<close>

text \<open>The keys of the descriptors in use are different, and all of them are expected.\<close>

definition key_of :: "pf_iodata_object \<Rightarrow> u32 \<times> u16 \<times> u16" where
  "key_of ob = (io_api_id ob, io_slot_nbr ob, io_subslot_nbr ob)"

definition used :: "pf_iocr \<Rightarrow> pf_iodata_object list" where
  "used i = take (unat (nbr_data_desc i)) (data_desc i)"

definition exp_keys :: "pf_exp_ident \<Rightarrow> (u32 \<times> u16 \<times> u16) list" where
  "exp_keys e = concat (map (\<lambda>a. concat (map (\<lambda>m. map (\<lambda>s. (ea_api a, em_slot_number m, es_subslot_number s)) (submodule m))
     (ea_module a))) (ei_api e))"

definition table_keys :: "pf_exp_ident \<Rightarrow> pf_iocr \<Rightarrow> bool" where
  "table_keys e i \<longleftrightarrow> length (data_desc i) = PNET_MAX_API * PNET_MAX_SLOTS * PNET_MAX_SUBSLOTS \<and>
     unat (nbr_data_desc i) \<le> length (data_desc i) \<and>
     distinct (map key_of (used i)) \<and> set (map key_of (used i)) \<subseteq> set (exp_keys e)"

text \<open>The provider status follows the data.\<close>

definition iops_follows :: "pf_iodata_object \<Rightarrow> bool" where
  "iops_follows ob \<longleftrightarrow> iops_offset ob = data_offset ob + data_length ob"

definition table_ok :: "pf_exp_ident \<Rightarrow> pf_iocr \<Rightarrow> bool" where
  "table_ok e i \<longleftrightarrow> table_keys e i \<and> (\<forall>k < unat (nbr_data_desc i). iops_follows (data_desc i ! k))"

lemma length_exp_keys:
  assumes "exp_wf e"
  shows "length (exp_keys e) = PNET_MAX_API * PNET_MAX_SLOTS * PNET_MAX_SUBSLOTS"
proof -
  have sub: "length (concat (map (\<lambda>m. map (\<lambda>s. (ea_api a, em_slot_number m, es_subslot_number s)) (submodule m)) (ea_module a)))
      = PNET_MAX_SLOTS * PNET_MAX_SUBSLOTS" if "a \<in> set (ei_api e)" for a
  proof -
    have "exp_api_wf a" using assms that by (simp add: exp_wf_def)
    then have "map (\<lambda>m. length (submodule m)) (ea_module a) = replicate PNET_MAX_SLOTS PNET_MAX_SUBSLOTS"
      by (intro replicate_eqI) (auto simp: exp_api_wf_def exp_module_wf_def)
    then show ?thesis by (simp add: length_concat comp_def sum_list_replicate)
  qed
  then have "map (\<lambda>a. length (concat (map (\<lambda>m. map (\<lambda>s. (ea_api a, em_slot_number m, es_subslot_number s)) (submodule m))
      (ea_module a)))) (ei_api e) = replicate PNET_MAX_API (PNET_MAX_SLOTS * PNET_MAX_SUBSLOTS)"
    using assms by (intro replicate_eqI) (auto simp: exp_wf_def simp del: length_concat)
  then show ?thesis by (simp add: exp_keys_def length_concat [of "map _ (ei_api e)"] comp_def sum_list_replicate del: length_concat)
qed

lemma exp_sub_key:
  assumes "pf_cmdev_get_exp_sub e api slot subslot = Some s"
  shows "(api, slot, subslot) \<in> set (exp_keys e)"
proof -
  have mem: "x \<in> set xs \<and> P x" if "List.find P (take k xs) = Some x" for P and x :: 'b and k xs
    using that by (auto simp: find_Some_iff dest: in_set_takeD)
  from assms obtain m where m: "pf_cmdev_get_exp_mod e api slot = Some m"
      "List.find (\<lambda>x. es_subslot_number x = subslot) (take (unat (nbr_submodules m)) (submodule m)) = Some s"
    by (auto simp: pf_cmdev_get_exp_sub_def split: bind_splits)
  from m(1) obtain a where a: "List.find (\<lambda>x. ea_api x = api) (take (unat (ei_nbr_apis e)) (ei_api e)) = Some a"
      "List.find (\<lambda>x. em_slot_number x = slot) (take (unat (nbr_modules a)) (ea_module a)) = Some m"
    by (auto simp: pf_cmdev_get_exp_mod_def pf_cmdev_get_exp_api_def split: bind_splits)
  show ?thesis using mem [OF m(2)] mem [OF a(1)] mem [OF a(2)] by (auto simp: exp_keys_def)
qed

text \<open>Changing a descriptor without its key, and taking the next free one.\<close>

lemma used_nth: "k < unat (nbr_data_desc i) \<Longrightarrow> unat (nbr_data_desc i) \<le> length (data_desc i) \<Longrightarrow> used i ! k = data_desc i ! k"
  by (simp add: used_def)

lemma table_keys_upd:
  assumes t: "table_keys e i" and k: "k < unat (nbr_data_desc i)" and key: "\<And>ob. key_of (f ob) = key_of ob"
  shows "table_keys e (upd_desc k f i)"
proof -
  have u: "used (upd_desc k f i) = (used i)[k := f (used i ! k)]"
    using t k by (simp add: used_def upd_desc_def table_keys_def take_update_swap)
  then have "map key_of (used (upd_desc k f i)) = map key_of (used i)"
    using t k by (simp add: map_update key list_update_same_conv used_def table_keys_def)
  then show ?thesis using t unfolding table_keys_def by (simp add: upd_desc_def)
qed

lemma table_ok_upd:
  assumes t: "table_keys e i" and k: "k < unat (nbr_data_desc i)" and key: "\<And>ob. key_of (f ob) = key_of ob"
    and others: "\<And>j. j < unat (nbr_data_desc i) \<Longrightarrow> j \<noteq> k \<Longrightarrow> iops_follows (data_desc i ! j)"
    and own: "iops_follows (f (data_desc i ! k))"
  shows "table_ok e (upd_desc k f i)"
  using table_keys_upd [OF t k key] t k others own
  by (auto simp: table_ok_def table_keys_def upd_desc_def)

lemma iodata_at_ok:
  assumes w: "exp_wf e" and t: "table_ok e i" and x: "(api, slot, subslot) \<in> set (exp_keys e)"
    and f: "\<And>ob. key_of (fresh ob) = key_of ob"
  shows "\<exists>k i'. iodata_at api slot subslot fresh i = Some (k, i') \<and> k < unat (nbr_data_desc i') \<and> table_keys e i' \<and>
    (\<forall>j < unat (nbr_data_desc i'). j \<noteq> k \<longrightarrow> iops_follows (data_desc i' ! j)) \<and>
    (iops_follows (data_desc i' ! k) \<or> (\<exists>ob. data_desc i' ! k = fresh ob))"
proof (cases "find_index (has_key api slot subslot) (used i)")
  case (Some k)
  then have "k < unat (nbr_data_desc i)" using find_index_Some [OF Some] by (simp add: used_def)
  then show ?thesis using t Some by (simp add: iodata_at_def used_def [symmetric] table_ok_def)
next
  case None
  have new: "(api, slot, subslot) \<notin> set (map key_of (used i))"
    using None by (auto simp: find_index_None has_key_def key_of_def)
  let ?n = "unat (nbr_data_desc i)"
  have l: "length (used i) = ?n" using t by (simp add: used_def table_ok_def table_keys_def)
  have "card (insert (api, slot, subslot) (set (map key_of (used i)))) \<le> card (set (exp_keys e))"
    using t x by (intro card_mono) (auto simp: table_ok_def table_keys_def)
  also have "\<dots> \<le> PNET_MAX_API * PNET_MAX_SLOTS * PNET_MAX_SUBSLOTS" using card_length [of "exp_keys e"] length_exp_keys [OF w] by simp
  finally have room: "?n < length (data_desc i)"
    using new t l distinct_card [of "map key_of (used i)"] by (simp add: table_ok_def table_keys_def del: set_map)
  have small: "?n < 15" using room t by (simp add: table_ok_def table_keys_def config_defs)
  have suc: "unat (nbr_data_desc i + 1) = Suc ?n"
    using small by (simp add: unat_word_ariths mod_less)
  let ?ob = "fresh ((data_desc i ! ?n)\<lparr>io_in_use := True, io_api_id := api, io_slot_nbr := slot, io_subslot_nbr := subslot\<rparr>)"
  let ?i = "i\<lparr>data_desc := (data_desc i)[?n := ?ob], nbr_data_desc := nbr_data_desc i + 1\<rparr>"
  have e: "iodata_at api slot subslot fresh i = Some (?n, ?i)"
    using None room by (simp add: iodata_at_def used_def [symmetric] upd_desc_def)
  have "used ?i = used i @ [?ob]" using room by (simp add: used_def suc take_Suc_conv_app_nth)
  moreover have "key_of ?ob = (api, slot, subslot)" unfolding f by (simp add: key_of_def)
  ultimately have "table_keys e ?i" using t x new room suc by (auto simp: table_ok_def table_keys_def)
  then show ?thesis using e t room suc by (auto simp: table_ok_def less_Suc_eq)
qed

section \<open>The setup does not fail\<close>

lemma table_ok_add_length [simp]: "table_ok e (add_length dir n i) = table_ok e i"
  by (simp add: table_ok_def table_keys_def add_length_def used_def)

lemma put_data_iops_ok:
  assumes w: "exp_wf e" and t: "table_ok e i"
  shows "\<exists>i'. iocr_put_data_iops e dir api fd i = Some i' \<and> table_ok e i'"
proof (cases "pf_cmdev_get_exp_sub e api (fd_slot_number fd) (fd_subslot_number fd)")
  case None
  then show ?thesis using t by (simp add: iocr_put_data_iops_def)
next
  case (Some s)
  show ?thesis
  proof (cases "pf_cmdev_get_exp_sub_data_descriptor s dir PF_DEV_STATUS_TYPE_IOPS")
    case None
    then show ?thesis using Some t by (simp add: iocr_put_data_iops_def)
  next
    case d: (Some d)
    have key: "key_of (ob\<lparr>iocs_offset := 0, iocs_length := 0\<rparr>) = key_of ob"
      "key_of (set_data_iops q dir d off ob) = key_of ob" for ob q off
      by (simp_all add: key_of_def set_data_iops_def Let_def)
    have follows: "iops_follows (set_data_iops q dir d off ob)" for q off ob
      by (auto simp: iops_follows_def set_data_iops_def Let_def)
    obtain k i' where k: "iodata_at api (fd_slot_number fd) (fd_subslot_number fd) (\<lambda>ob. ob\<lparr>iocs_offset := 0, iocs_length := 0\<rparr>) i = Some (k, i')"
        "k < unat (nbr_data_desc i')" "table_keys e i'" "\<forall>j < unat (nbr_data_desc i'). j \<noteq> k \<longrightarrow> iops_follows (data_desc i' ! j)"
      using iodata_at_ok [OF w t exp_sub_key [OF Some] key(1)] by auto
    have "table_ok e (upd_desc k (set_data_iops (es_properties s) dir d (frame_offset fd)) i')"
      using k follows by (intro table_ok_upd) (auto simp: key)
    then show ?thesis using Some d k(1) by (simp add: iocr_put_data_iops_def Let_def)
  qed
qed

lemma put_iocs_ok:
  assumes w: "exp_wf e" and t: "table_ok e i"
  shows "\<exists>r' i'. iocr_put_iocs e dir api fd (r, i) = Some (r', i') \<and> table_ok e i'"
proof (cases "pf_cmdev_get_exp_sub e api (fd_slot_number fd) (fd_subslot_number fd)")
  case None
  then show ?thesis using t by (simp add: iocr_put_iocs_def)
next
  case (Some s)
  show ?thesis
  proof (cases "pf_cmdev_get_exp_sub_data_descriptor s dir PF_DEV_STATUS_TYPE_IOCS")
    case None
    then show ?thesis using Some t by (simp add: iocr_put_iocs_def)
  next
    case d: (Some d)
    let ?fresh = "\<lambda>ob. ob\<lparr>data_length := 0, data_offset := 0, iops_offset := 0, iops_length := 0\<rparr>"
    have key: "key_of (?fresh ob) = key_of ob" "key_of (set_iocs q d off ob) = key_of ob" for ob q off
      by (simp_all add: key_of_def set_iocs_def)
    have follows: "iops_follows (set_iocs q d off ob) = iops_follows ob" "iops_follows (?fresh ob)" for q off ob
      by (simp_all add: iops_follows_def set_iocs_def)
    obtain k i' where k: "iodata_at api (fd_slot_number fd) (fd_subslot_number fd) ?fresh i = Some (k, i')"
        "k < unat (nbr_data_desc i')" "table_keys e i'" "\<forall>j < unat (nbr_data_desc i'). j \<noteq> k \<longrightarrow> iops_follows (data_desc i' ! j)"
        "iops_follows (data_desc i' ! k)"
      using iodata_at_ok [OF w t exp_sub_key [OF Some] key(1)] follows(2) by metis
    have "table_ok e (upd_desc k (set_iocs (es_properties s) d (frame_offset fd)) i')"
      using k follows by (intro table_ok_upd) (auto simp: key)
    then show ?thesis using Some d k(1) by (simp add: iocr_put_iocs_def Let_def)
  qed
qed

lemma setup_desc_ok:
  assumes w: "exp_wf e" and l: "length (data_desc i) = PNET_MAX_API * PNET_MAX_SLOTS * PNET_MAX_SUBSLOTS"
  shows "\<exists>r i'. pf_cmdev_iocr_setup_desc e i = Some (r, i') \<and> table_ok e i'"
proof -
  let ?i = "i\<lparr>in_length := 0, out_length := 0, nbr_data_desc := 0\<rparr>"
  have "table_ok e ?i" using l by (simp add: table_ok_def table_keys_def used_def)
  then have "\<exists>i'. pf_cmdev_iocr_setup_data_iops e (iocr_direction i) ?i = Some i' \<and> table_ok e i'"
    unfolding pf_cmdev_iocr_setup_data_iops_def by (intro fold_option_inv put_data_iops_ok w)
  then obtain i1 where i1: "pf_cmdev_iocr_setup_data_iops e (iocr_direction i) ?i = Some i1" "table_ok e i1" by blast
  have "\<exists>ri. pf_cmdev_iocr_setup_iocs e (iocr_direction i) i1 = Some ri \<and> table_ok e (snd ri)"
    unfolding pf_cmdev_iocr_setup_iocs_def
  proof (intro fold_option_inv)
    fix a fd and s :: "int \<times> pf_iocr" assume "table_ok e (snd s)"
    then show "\<exists>s'. iocr_put_iocs e (iocr_direction i) (ae_api a) fd s = Some s' \<and> table_ok e (snd s')"
      using put_iocs_ok [OF w, of "snd s" "iocr_direction i" "ae_api a" fd "fst s"] by auto
  qed (simp_all add: i1(2))
  then show ?thesis using i1(1) by (auto simp: pf_cmdev_iocr_setup_desc_def Let_def)
qed

lemma setup_all_ok:
  assumes w: "exp_wf e" and l: "\<forall>i \<in> set is. length (data_desc i) = PNET_MAX_API * PNET_MAX_SLOTS * PNET_MAX_SUBSLOTS"
  shows "\<exists>r is'. setup_all e is = Some (r, is') \<and> length is' = length is \<and> (r = 0 \<longrightarrow> (\<forall>i \<in> set is'. table_ok e i))"
proof -
  let ?f = "\<lambda>k ri. case ri of (r, js) \<Rightarrow> if r \<noteq> 0 then Some (r, js)
     else map_option (\<lambda>(r, i). (r, js[k := i])) (pf_cmdev_iocr_setup_desc e (js ! k))"
  let ?I = "\<lambda>m ri. length (snd ri) = length is \<and> (\<forall>i \<in> set (snd ri). length (data_desc i) = PNET_MAX_API * PNET_MAX_SLOTS * PNET_MAX_SUBSLOTS) \<and>
     (fst ri = (0::int) \<longrightarrow> (\<forall>k < m. table_ok e (snd ri ! k)))"
  have "\<exists>ri. fold_option ?f [0..<m] (0, is) = Some ri \<and> ?I m ri" if "m \<le> length is" for m
    using that
  proof (induction m)
    case 0
    then show ?case using l by simp
  next
    case (Suc m)
    then obtain r js where ih: "fold_option ?f [0..<m] (0, is) = Some (r, js)" "?I m (r, js)" by auto
    show ?case
    proof (cases "r = 0")
      case False
      then show ?thesis using ih by (simp add: fold_option_append)
    next
      case True
      have m: "m < length js" using Suc.prems ih(2) by simp
      then have "length (data_desc (js ! m)) = PNET_MAX_API * PNET_MAX_SLOTS * PNET_MAX_SUBSLOTS" using ih(2) by simp
      from setup_desc_ok [OF w this] obtain r' i' where s: "pf_cmdev_iocr_setup_desc e (js ! m) = Some (r', i')" "table_ok e i'" by blast
      have "length (data_desc i') = PNET_MAX_API * PNET_MAX_SLOTS * PNET_MAX_SUBSLOTS" using s(2) by (simp add: table_ok_def table_keys_def)
      then show ?thesis using ih True s m by (auto simp: fold_option_append less_Suc_eq dest!: set_update_subset_insert [THEN subsetD])
    qed
  qed
  from this [of "length is"] obtain r js where "setup_all e is = Some (r, js)" "?I (length is) (r, js)" by (auto simp: setup_all_def)
  then show ?thesis by (auto simp: in_set_conv_nth)
qed

section \<open>Accepted layouts\<close>

definition areas :: "pf_iodata_object \<Rightarrow> (nat \<times> nat) list" where
  "areas ob = [(unat (data_offset ob), unat (data_length ob)), (unat (iops_offset ob), unat (iops_length ob)),
     (unat (iocs_offset ob), unat (iocs_length ob))]"

definition disjoint_areas :: "nat \<times> nat \<Rightarrow> nat \<times> nat \<Rightarrow> bool" where
  "disjoint_areas x y \<longleftrightarrow> snd x = 0 \<or> snd y = 0 \<or> fst x + snd x \<le> fst y \<or> fst y + snd y \<le> fst x"

text \<open>
  Every descriptor has its own key, its areas lie in the process data of the frame, data and
  provider status follow each other, and the areas of different descriptors are disjoint.
\<close>

definition layout_ok :: "pf_iocr \<Rightarrow> bool" where
  "layout_ok i \<longleftrightarrow> (let n = unat (nbr_data_desc i); ds = data_desc i in
     n \<le> length ds \<and> distinct (map key_of (take n ds)) \<and>
     (\<forall>k < n. \<forall>(start, len) \<in> set (areas (ds ! k)). start + len \<le> unat (c_sdu_length (iocr_param i))) \<and>
     (\<forall>k < n. unat (iops_offset (ds ! k)) = unat (data_offset (ds ! k)) + unat (data_length (ds ! k))) \<and>
     (\<forall>k < n. \<forall>j < k. \<forall>x \<in> set (areas (ds ! k)). \<forall>y \<in> set (areas (ds ! j)). disjoint_areas x y))"

lemma no_straddle_disjoint:
  "pf_cmdev_check_no_straddle s1 l1 s2 l2 = 0 \<longleftrightarrow> disjoint_areas (unat s1, unat l1) (unat s2, unat l2)"
  by (auto simp: pf_cmdev_check_no_straddle_def disjoint_areas_def word_le_nat_alt word_less_nat_alt unat_eq_zero
      word_greater_zero_iff)

lemma area_straddles_disjoint:
  "\<not> area_straddles s l ob \<longleftrightarrow> (\<forall>y \<in> set (areas ob). disjoint_areas (unat s, unat l) y)"
  by (auto simp: area_straddles_def no_straddle_disjoint areas_def disjoint_areas_def word_greater_zero_iff unat_eq_zero)

lemma sticky_api: "sticky (check_iocr_api x ty)" and sticky_desc: "sticky (check_iocr_desc i)"
  by (auto intro!: stickyI simp: check_iocr_api_def check_iocr_desc_def fault_if_def Let_def
      simp del: split_paired_All not_None_eq split: option.splits if_splits)

lemma checked_desc:
  assumes "check_iocr_desc i k None = None" and "k < length (data_desc i)"
  shows "\<forall>(start, len) \<in> set (areas (data_desc i ! k)). start + len \<le> unat (c_sdu_length (iocr_param i))"
    and "\<forall>j < k. \<forall>x \<in> set (areas (data_desc i ! k)). \<forall>y \<in> set (areas (data_desc i ! j)). disjoint_areas x y"
proof -
  have c: "\<not> unat (data_offset (data_desc i ! k)) + unat (data_length (data_desc i ! k)) > unat (c_sdu_length (iocr_param i))"
     "\<not> unat (iops_offset (data_desc i ! k)) + unat (iops_length (data_desc i ! k)) > unat (c_sdu_length (iocr_param i))"
     "\<not> unat (iocs_offset (data_desc i ! k)) + unat (iocs_length (data_desc i ! k)) > unat (c_sdu_length (iocr_param i))"
     "pf_cmdev_check_iocr_overlap i k = None"
    using assms(1) by (auto simp: check_iocr_desc_def Let_def split: if_splits option.splits)
  show "\<forall>(start, len) \<in> set (areas (data_desc i ! k)). start + len \<le> unat (c_sdu_length (iocr_param i))"
    using c(1-3) by (simp add: areas_def)
  have "\<forall>ob \<in> set (take k (data_desc i)). \<not> area_straddles (data_offset (data_desc i ! k)) (data_length (data_desc i ! k)) ob \<and>
      \<not> area_straddles (iops_offset (data_desc i ! k)) (iops_length (data_desc i ! k)) ob \<and>
      \<not> area_straddles (iocs_offset (data_desc i ! k)) (iocs_length (data_desc i ! k)) ob"
    using c(4) by (auto simp: pf_cmdev_check_iocr_overlap_def Let_def split: if_splits)
  moreover have "data_desc i ! j \<in> set (take k (data_desc i))" if "j < k" for j
    using that assms(2) by (auto simp: in_set_conv_nth intro!: exI [of _ j])
  ultimately show "\<forall>j < k. \<forall>x \<in> set (areas (data_desc i ! k)). \<forall>y \<in> set (areas (data_desc i ! j)). disjoint_areas x y"
    by (auto simp: area_straddles_disjoint areas_def [of "data_desc i ! k"])
qed

lemma checked_layout:
  assumes "pf_cmdev_check_iocr_apis x is = None" and "\<forall>i \<in> set is. table_ok e i" and "i \<in> set is"
  shows "layout_ok i"
proof -
  let ?f = "\<lambda>i e. fold (check_iocr_desc i) [0..<unat (nbr_data_desc i)]
       (fold (check_iocr_api x (iocr_type (iocr_param i))) (take (unat (nbr_apis (iocr_param i))) (apis (iocr_param i))) e)"
  have "sticky ?f"
  proof (rule stickyI)
    fix i e assume "?f i e = None"
    then show "e = None" using fold_sticky [OF sticky_desc] fold_sticky [OF sticky_api] by metis
  qed
  then have "?f i None = None" using fold_sticky [of ?f "is" None] assms(1,3) by (simp add: pf_cmdev_check_iocr_apis_def)
  then have d: "check_iocr_desc i k None = None" if "k < unat (nbr_data_desc i)" for k
    using fold_sticky [OF sticky_desc] that by (meson atLeastLessThan_iff le0 set_upt [THEN equalityD2, THEN subsetD])
  have t: "table_ok e i" using assms(2,3) by blast
  then have l: "unat (nbr_data_desc i) \<le> length (data_desc i)" by (simp add: table_ok_def table_keys_def)
  have f: "unat (iops_offset (data_desc i ! k)) = unat (data_offset (data_desc i ! k)) + unat (data_length (data_desc i ! k))"
    if "k < unat (nbr_data_desc i)" for k
  proof -
    have "unat (data_offset (data_desc i ! k)) + unat (data_length (data_desc i ! k)) \<le> unat (c_sdu_length (iocr_param i))"
      using checked_desc(1) [OF d [OF that]] that l by (simp add: areas_def)
    also have "\<dots> < 2 ^ 16" using unsigned_less [of "c_sdu_length (iocr_param i)"] by simp
    finally show ?thesis using t that by (simp add: table_ok_def iops_follows_def unat_word_ariths)
  qed
  show ?thesis unfolding layout_ok_def Let_def
    using t l f checked_desc [OF d] by (auto simp: table_ok_def table_keys_def used_def)
qed

end
