(* ===== verification/Connect_Lemmas.thy ===== *)
theory Connect_Lemmas
  imports Connect_Layout
begin

unbundle bit_operations_syntax

text \<open>
  Lemmas on the connect request: an IOCS of a submodule that is not expected, the numbers of
  the frames, and the lists of differences.
\<close>

section \<open>Unexpected IOCS\<close>

definition iocs_unexpected :: "pf_exp_ident \<Rightarrow> pf_iocr \<Rightarrow> bool" where
  "iocs_unexpected e i \<longleftrightarrow> (\<exists>p \<in> set (take (unat (nbr_apis (iocr_param i))) (apis (iocr_param i))).
     \<exists>fd \<in> set (take (unat (nbr_iocs p)) (iocs p)).
       pf_cmdev_get_exp_sub e (ae_api p) (fd_slot_number fd) (fd_subslot_number fd) = None)"

text \<open>A loop reaches a state that a step establishes and that the others keep.\<close>

lemma fold_option_reaches:
  assumes "x \<in> set xs" and "\<And>s s'. f x s = Some s' \<Longrightarrow> P s'" and "\<And>y s s'. P s \<Longrightarrow> f y s = Some s' \<Longrightarrow> P s'"
    and "fold_option f xs s = Some s'"
  shows "P s'"
proof -
  from assms(1) obtain us vs where "xs = us @ x # vs" by (meson split_list)
  with assms(4) obtain s1 s2 where "f x s1 = Some s2" "fold_option f vs s2 = Some s'"
    by (auto simp: fold_option_append split: bind_splits)
  then show ?thesis using fold_option_preserves [of vs P f s2 s'] assms(2,3) by blast
qed

lemma put_iocs_sticky: "iocr_put_iocs e dir api fd (-1, i) = Some (r, i') \<Longrightarrow> r = -1"
  by (auto simp: iocr_put_iocs_def Let_def split: option.splits bind_splits)

lemma setup_iocs_unexpected:
  assumes "iocs_unexpected e i" and "pf_cmdev_iocr_setup_iocs e dir i = Some (r, i')"
  shows "r = -1"
proof -
  obtain p fd where p: "p \<in> set (take (unat (nbr_apis (iocr_param i))) (apis (iocr_param i)))"
      "fd \<in> set (take (unat (nbr_iocs p)) (iocs p))"
      "pf_cmdev_get_exp_sub e (ae_api p) (fd_slot_number fd) (fd_subslot_number fd) = None"
    using assms(1) by (auto simp: iocs_unexpected_def)
  have keep: "fst s' = -1" if "fst s = -1" "iocr_put_iocs e dir api d s = Some s'" for s s' api d
    using put_iocs_sticky [of e dir api d "snd s" "fst s'" "snd s'"] that by (cases s; cases s') auto
  have hit: "fst s' = -1" if "fold_option (iocr_put_iocs e dir (ae_api p)) (take (unat (nbr_iocs p)) (iocs p)) s = Some s'" for s s'
  proof (rule fold_option_reaches [where P = "\<lambda>s. fst s = -1", OF p(2) _ keep that])
    show "fst t' = -1" if "iocr_put_iocs e dir (ae_api p) fd t = Some t'" for t t'
      using that p(3) by (auto simp: iocr_put_iocs_def split: prod.splits)
  qed
  have "fst (r, i') = -1"
  proof (rule fold_option_reaches [where P = "\<lambda>s. fst s = -1", OF p(1) hit])
    show "fst s' = -1" if "fst s = -1" "fold_option (iocr_put_iocs e dir (ae_api q)) (take (unat (nbr_iocs q)) (iocs q)) s = Some s'" for q s s'
      by (rule fold_option_preserves [where I = "\<lambda>s. fst s = -1", OF _ that]) (rule keep)
    show "fold_option (\<lambda>a. fold_option (iocr_put_iocs e dir (ae_api a)) (take (unat (nbr_iocs a)) (iocs a)))
        (take (unat (nbr_apis (iocr_param i))) (apis (iocr_param i))) (0, i) = Some (r, i')"
      using assms(2) by (simp add: pf_cmdev_iocr_setup_iocs_def)
  qed
  then show ?thesis by simp
qed

lemma put_data_iops_param: "iocr_put_data_iops e dir api fd i = Some i' \<Longrightarrow> iocr_param i' = iocr_param i"
  by (auto simp: iocr_put_data_iops_def iodata_at_def upd_desc_def add_length_def Let_def split: option.splits bind_splits if_splits)

lemma setup_data_iops_param:
  assumes "pf_cmdev_iocr_setup_data_iops e dir i = Some i'"
  shows "iocr_param i' = iocr_param i"
proof (rule fold_option_preserves [where I = "\<lambda>j. iocr_param j = iocr_param i"])
  show "fold_option (\<lambda>a. fold_option (iocr_put_data_iops e dir (ae_api a)) (take (unat (nbr_io_data a)) (io_data a)))
       (take (unat (nbr_apis (iocr_param i))) (apis (iocr_param i))) i = Some i'"
    using assms by (simp add: pf_cmdev_iocr_setup_data_iops_def)
  show "iocr_param s' = iocr_param i" if "iocr_param s = iocr_param i"
      "fold_option (iocr_put_data_iops e dir (ae_api a)) (take (unat (nbr_io_data a)) (io_data a)) s = Some s'" for a s s'
    using fold_option_preserves [where I = "\<lambda>j. iocr_param j = iocr_param i", OF _ that] put_data_iops_param by metis
qed simp

lemma setup_desc_unexpected:
  assumes "iocs_unexpected e i" and "pf_cmdev_iocr_setup_desc e i = Some (r, i')"
  shows "r = -1"
proof -
  from assms(2) obtain i1 where
    "pf_cmdev_iocr_setup_data_iops e (iocr_direction i) (i\<lparr>in_length := 0, out_length := 0, nbr_data_desc := 0\<rparr>) = Some i1"
    "pf_cmdev_iocr_setup_iocs e (iocr_direction i) i1 = Some (r, i')"
    by (auto simp: pf_cmdev_iocr_setup_desc_def Let_def split: bind_splits)
  then show ?thesis using setup_iocs_unexpected [of e i1] setup_data_iops_param assms(1) by (simp add: iocs_unexpected_def)
qed

lemma setup_all_unexpected:
  assumes "setup_all e is = Some (r, js)" and "i \<in> set is" and "iocs_unexpected e i"
  shows "r \<noteq> 0"
proof
  assume r: "r = 0"
  let ?f = "\<lambda>k ri. case ri of (r, js) \<Rightarrow> if r \<noteq> 0 then Some (r, js)
     else map_option (\<lambda>(r, i). (r, js[k := i])) (pf_cmdev_iocr_setup_desc e (js ! k))"
  obtain k where k: "k < length is" "is ! k = i" using assms(2) by (auto simp: in_set_conv_nth)
  have later: "\<forall>j \<ge> m. js ! j = is ! j" if "fold_option ?f [0..<m] (0, is) = Some (0, js)" for m js
    using that
  proof (induction m arbitrary: js)
    case (Suc m)
    then obtain r1 js1 where 1: "fold_option ?f [0..<m] (0, is) = Some (r1, js1)" "?f m (r1, js1) = Some (0, js)"
      by (auto simp: fold_option_append split: bind_splits)
    then have "r1 = 0" by (auto split: if_splits)
    with 1 Suc.IH show ?case by auto
  qed simp
  have "[0..<length is] = [0..<k] @ k # [Suc k..<length is]" using k(1)
    by (metis le_add_diff_inverse less_imp_le_nat upt_add_eq_append upt_conv_Cons zero_le)
  then obtain r1 js1 r2 js2 where s: "fold_option ?f [0..<k] (0, is) = Some (r1, js1)" "?f k (r1, js1) = Some (r2, js2)"
      "fold_option ?f [Suc k..<length is] (r2, js2) = Some (0, js)"
    using assms(1) r by (auto simp: setup_all_def fold_option_append split: bind_splits)
  have keep: "fst s' \<noteq> 0" if "fst s \<noteq> 0" "?f x s = Some s'" for x s s' using that by (auto split: prod.splits)
  have "fst (0 :: int, js) \<noteq> 0" if "r2 \<noteq> 0"
    by (rule fold_option_preserves [where I = "\<lambda>s. fst s \<noteq> 0", OF _ _ s(3)]) (use that keep in auto)
  then have r2: "r2 = 0" by auto
  then have r1: "r1 = 0" using s(2) by (auto split: if_splits)
  then have "js1 ! k = i" using later s(1) k(2) by auto
  then show False using s(2) r1 r2 setup_desc_unexpected [OF assms(3)] by auto
qed

section \<open>Frame identifiers\<close>

text \<open>The search ends at the first free number if there is one in the range.\<close>

lemma next_frame_id_finds:
  fixes fid stop :: u16
  assumes "free x" and "fid \<le> x" and "x \<le> stop"
  shows "\<exists>y. next_frame_id free fid stop = Some y \<and> free y \<and> fid \<le> y \<and> y \<le> x"
  using assms(2)
proof (induction "unat (x - fid)" arbitrary: fid)
  case 0
  then have "x = fid" by (simp add: unat_eq_zero)
  then show ?case using assms(1) by (subst next_frame_id.simps) simp
next
  case (Suc m)
  show ?case
  proof (cases "free fid")
    case True
    then show ?thesis using Suc.prems by (subst next_frame_id.simps) auto
  next
    case False
    with assms(1) Suc.prems have l: "fid < x" by (cases "fid = x") auto
    have x: "unat x < 2 ^ 16" using unsigned_less [of x] by simp
    with l have u: "unat (fid + 1) = Suc (unat fid)" by (simp add: unat_word_ariths word_less_nat_alt)
    then have s: "fid \<le> fid + 1" "fid + 1 \<le> x" using l by (simp_all add: word_le_nat_alt word_less_nat_alt)
    have "m = unat (x - (fid + 1))" using Suc.hyps(2) s(2) u Suc.prems by (simp add: unat_sub_if' word_le_nat_alt split: if_splits)
    from Suc.hyps(1) [OF this s(2)] obtain y where
      "next_frame_id free (fid + 1) stop = Some y" "free y" "fid + 1 \<le> y" "y \<le> x" by blast
    moreover have "fid \<le> stop" using Suc.prems assms(3) by simp
    ultimately show ?thesis using False s(1) by (subst next_frame_id.simps) auto
  qed
qed

definition used_frame_ids :: "'w conn_net \<Rightarrow> u16 set" where
  "used_frame_ids n = (\<Union>a \<in> {a. a < PNET_MAX_AR \<and> ca_in_use (cn_ar n a)}. (\<lambda>i. frame_id (iocr_param i)) ` set (ca_iocrs (cn_ar n a)))"

lemma verify_free: "pf_cmdev_verify_free_frame_id n fid \<longleftrightarrow> fid \<notin> used_frame_ids n"
  by (auto simp: pf_cmdev_verify_free_frame_id_def used_frame_ids_def)

definition iocrs_fit :: "'w conn_net \<Rightarrow> bool" where
  "iocrs_fit n \<longleftrightarrow> (\<forall>a < PNET_MAX_AR. length (ca_iocrs (cn_ar n a)) \<le> PNET_MAX_CR)"

lemma card_used_frame_ids:
  assumes "iocrs_fit n"
  shows "finite (used_frame_ids n)" "card (used_frame_ids n) \<le> PNET_MAX_AR * PNET_MAX_CR"
proof -
  let ?A = "{a. a < PNET_MAX_AR \<and> ca_in_use (cn_ar n a)}"
  show "finite (used_frame_ids n)" by (simp add: used_frame_ids_def)
  have "card (used_frame_ids n) \<le> (\<Sum>a \<in> ?A. card ((\<lambda>i. frame_id (iocr_param i)) ` set (ca_iocrs (cn_ar n a))))"
    unfolding used_frame_ids_def by (rule card_UN_le) simp
  also have "\<dots> \<le> (\<Sum>a \<in> ?A. PNET_MAX_CR)"
  proof (rule sum_mono)
    fix a assume "a \<in> ?A"
    then have "length (ca_iocrs (cn_ar n a)) \<le> PNET_MAX_CR" using assms by (simp add: iocrs_fit_def)
    then show "card ((\<lambda>i. frame_id (iocr_param i)) ` set (ca_iocrs (cn_ar n a))) \<le> PNET_MAX_CR"
      using card_length [of "map (\<lambda>i. frame_id (iocr_param i)) (ca_iocrs (cn_ar n a))"] by simp
  qed
  also have "\<dots> \<le> PNET_MAX_AR * PNET_MAX_CR"
    using card_mono [of "{..<PNET_MAX_AR}" ?A] by auto
  finally show "card (used_frame_ids n) \<le> PNET_MAX_AR * PNET_MAX_CR" .
qed

lemma free_frame_id:
  assumes "iocrs_fit n" and "card S = 3"
  shows "\<exists>x \<in> S. pf_cmdev_verify_free_frame_id n x"
proof (rule ccontr)
  assume "\<not> ?thesis"
  then have "S \<subseteq> used_frame_ids n" by (auto simp: verify_free)
  then have "card S \<le> card (used_frame_ids n)" using card_used_frame_ids(1) [OF assms(1)] by (rule card_mono [rotated])
  then show False using card_used_frame_ids(2) [OF assms(1)] assms(2) by (simp add: config_defs)
qed

lemma u16_le_max: "(x :: u16) \<le> 0xffff"
  using unsigned_less [of x, where ?'a = nat] by (simp add: word_le_nat_alt)

lemma word_wrap: "(65536 :: u16) = 0"
  by (rule word_unat_eq_iff [THEN iffD2]) simp

lemma next_frame_id_ok:
  assumes n: "iocrs_fit n" and r: "frame_id_range rt = (start, stop)"
  shows "\<exists>fid. next_frame_id (pf_cmdev_verify_free_frame_id n) start stop = Some fid \<and> fid \<notin> used_frame_ids n \<and> fid \<le> stop \<and>
    (rt \<in> {PF_RT_CLASS_1, PF_RT_CLASS_2, PF_RT_CLASS_3, PF_RT_CLASS_UDP} \<longrightarrow> start \<le> fid)"
proof -
  let ?free = "pf_cmdev_verify_free_frame_id n"
  have range: ?thesis if "\<exists>x. ?free x \<and> start \<le> x \<and> x \<le> stop"
    using that next_frame_id_finds [of ?free _ start stop] by (meson order_trans verify_free)
  show ?thesis
  proof (cases "rt \<in> {PF_RT_CLASS_1, PF_RT_CLASS_2, PF_RT_CLASS_3, PF_RT_CLASS_UDP}")
    case True
    with r have "(start, stop) \<in> {(0xc000, 0xf7ff), (0x8000, 0xbbff), (0x0100, 0x7fff)}"
      by (auto simp: frame_id_range_def rt_class_defs)
    moreover from this have "card {start, start + 1, start + 2} = 3" by auto
    from free_frame_id [OF n this] have "\<exists>x \<in> {start, start + 1, start + 2}. ?free x" .
    ultimately show ?thesis by (intro range) auto
  next
    case False
    with r have s: "start = 0xffff" "stop = 0xffff" by (auto simp: frame_id_range_def)
    show ?thesis
    proof (cases "?free 0xffff")
      case True
      then show ?thesis by (intro range) (auto simp: s)
    next
      case f: False
      have "card {0, 1, 2 :: u16} = 3" by simp
      from free_frame_id [OF n this] obtain x where x: "?free x" by blast
      have "(0 :: u16) \<le> x" "x \<le> 0xffff" using u16_le_max [of x] by simp_all
      from next_frame_id_finds [of ?free, OF x this] obtain y where
        "next_frame_id ?free 0 0xffff = Some y" "?free y" by blast
      moreover have "y \<le> 0xffff" by (rule u16_le_max)
      moreover have "next_frame_id ?free 0xffff 0xffff = next_frame_id ?free 0 0xffff"
        using f by (subst next_frame_id.simps) (simp add: word_wrap)
      ultimately show ?thesis using False s by (auto simp: verify_free)
    qed
  qed
qed

definition wants_frame_id :: "pf_iocr \<Rightarrow> bool" where
  "wants_frame_id i \<longleftrightarrow> iocr_type (iocr_param i) = PF_IOCR_TYPE_OUTPUT \<and> frame_id (iocr_param i) = 0xffff"

text \<open>The number of an IOCR is its own: no other IOCR of an AR in use has it.\<close>

definition own_frame_id :: "'w conn_net \<Rightarrow> nat \<Rightarrow> nat \<Rightarrow> bool" where
  "own_frame_id n a ix \<longleftrightarrow> (\<forall>b < PNET_MAX_AR. ca_in_use (cn_ar n b) \<longrightarrow> (\<forall>k < length (ca_iocrs (cn_ar n b)). (b, k) \<noteq> (a, ix) \<longrightarrow>
     frame_id (iocr_param (ca_iocrs (cn_ar n b) ! k)) \<noteq> frame_id (iocr_param (ca_iocrs (cn_ar n a) ! ix))))"

definition frame_id_fixed :: "'w conn_net \<Rightarrow> 'w conn_net \<Rightarrow> nat \<Rightarrow> nat \<Rightarrow> bool" where
  "frame_id_fixed n n' a ix \<longleftrightarrow> (let i = ca_iocrs (cn_ar n a) ! ix; i' = ca_iocrs (cn_ar n' a) ! ix; rt = rt_class (iocr_properties (iocr_param i)) in
     if wants_frame_id i then
       own_frame_id n' a ix \<and>
       (rt \<in> {PF_RT_CLASS_1, PF_RT_CLASS_2, PF_RT_CLASS_3, PF_RT_CLASS_UDP} \<longrightarrow>
          fst (frame_id_range rt) \<le> frame_id (iocr_param i') \<and> frame_id (iocr_param i') \<le> snd (frame_id_range rt))
     else i' = i)"

lemma fix_frame_id_ok:
  assumes n: "iocrs_fit n" and m: "m \<le> length (ca_iocrs (cn_ar n a))"
  shows "\<exists>is'. fold_option (fix_iocr_frame_id a) [0..<m] n = Some (upd_cn_ar a (\<lambda>r. r\<lparr>ca_iocrs := is'\<rparr>) n) \<and>
    length is' = length (ca_iocrs (cn_ar n a)) \<and> (\<forall>k < length is'. k \<ge> m \<longrightarrow> is' ! k = ca_iocrs (cn_ar n a) ! k) \<and>
    (\<forall>k < m. frame_id_fixed n (upd_cn_ar a (\<lambda>r. r\<lparr>ca_iocrs := is'\<rparr>) n) a k)"
  using m
proof (induction m)
  case 0
  then show ?case by (auto simp: upd_cn_ar_def intro!: exI [of _ "ca_iocrs (cn_ar n a)"])
next
  case (Suc m)
  then obtain js where js: "fold_option (fix_iocr_frame_id a) [0..<m] n = Some (upd_cn_ar a (\<lambda>r. r\<lparr>ca_iocrs := js\<rparr>) n)"
      "length js = length (ca_iocrs (cn_ar n a))" "\<forall>k < length js. k \<ge> m \<longrightarrow> js ! k = ca_iocrs (cn_ar n a) ! k"
      "\<forall>k < m. frame_id_fixed n (upd_cn_ar a (\<lambda>r. r\<lparr>ca_iocrs := js\<rparr>) n) a k" by auto
  let ?n = "upd_cn_ar a (\<lambda>r. r\<lparr>ca_iocrs := js\<rparr>) n"
  let ?i = "ca_iocrs (cn_ar n a) ! m"
  have m: "m < length js" "js ! m = ?i" using Suc.prems js(2,3) by auto
  have i: "ca_iocrs (cn_ar ?n a) = js" by (simp add: upd_cn_ar_def)
  show ?case
  proof (cases "wants_frame_id ?i")
    case False
    then have "fix_iocr_frame_id a m ?n = Some ?n" using m by (auto simp: fix_iocr_frame_id_def i wants_frame_id_def Let_def)
    then show ?thesis using js m False
      by (intro exI [of _ js]) (auto simp: fold_option_append less_Suc_eq frame_id_fixed_def i)
  next
    case True
    let ?rt = "rt_class (iocr_properties (iocr_param ?i))"
    have fit: "iocrs_fit ?n" using n js(2) by (auto simp: iocrs_fit_def upd_cn_ar_def)
    obtain start stop where r: "frame_id_range ?rt = (start, stop)" by (cases "frame_id_range ?rt") auto
    from next_frame_id_ok [OF fit r] obtain fid where fid:
      "next_frame_id (pf_cmdev_verify_free_frame_id ?n) start stop = Some fid" "fid \<notin> used_frame_ids ?n" "fid \<le> stop"
      "?rt \<in> {PF_RT_CLASS_1, PF_RT_CLASS_2, PF_RT_CLASS_3, PF_RT_CLASS_UDP} \<longrightarrow> start \<le> fid" by blast
    let ?js = "js[m := set_frame_id fid ?i]"
    let ?n' = "upd_cn_ar a (\<lambda>r. r\<lparr>ca_iocrs := ?js\<rparr>) n"
    have "fix_iocr_frame_id a m ?n = Some ?n'"
      using True m fid(1,3) r by (simp add: fix_iocr_frame_id_def i wants_frame_id_def Let_def) (simp add: upd_cn_ar_def m)
    then have run: "fold_option (fix_iocr_frame_id a) [0..<Suc m] n = Some ?n'" using js(1) by (simp add: fold_option_append)
    have other: "frame_id (iocr_param (ca_iocrs (cn_ar ?n b) ! k)) \<noteq> fid"
      if "b < PNET_MAX_AR" "ca_in_use (cn_ar n b)" "k < length (ca_iocrs (cn_ar ?n b))" for b k
      using fid(2) that by (auto simp: used_frame_ids_def upd_cn_ar_def split: if_splits)
    have old: "frame_id_fixed n ?n' a k" if k: "k < m" for k
    proof -
      have f: "frame_id_fixed n ?n a k" using js(4) k by blast
      have x: "ca_iocrs (cn_ar ?n' a) ! k = js ! k" using k m by (simp add: upd_cn_ar_def)
      have "own_frame_id ?n' a k" if o: "own_frame_id ?n a k"
        unfolding own_frame_id_def
      proof (intro allI impI)
        fix b l assume b: "b < PNET_MAX_AR" "ca_in_use (cn_ar ?n' b)" "l < length (ca_iocrs (cn_ar ?n' b))" "(b, l) \<noteq> (a, k)"
        show "frame_id (iocr_param (ca_iocrs (cn_ar ?n' b) ! l)) \<noteq> frame_id (iocr_param (ca_iocrs (cn_ar ?n' a) ! k))"
        proof (cases "b = a \<and> l = m")
          case True
          then have "frame_id (iocr_param (js ! k)) \<noteq> fid" using other [of a k] b k m by (simp add: upd_cn_ar_def split: if_splits)
          then show ?thesis using True m k by (simp add: upd_cn_ar_def set_frame_id_def)
        next
          case False
          then show ?thesis using o b m k unfolding own_frame_id_def x by (auto simp: upd_cn_ar_def split: if_splits)
        qed
      qed
      then show ?thesis using f x by (simp add: frame_id_fixed_def Let_def i split: if_splits)
    qed
    have "own_frame_id ?n' a m"
      unfolding own_frame_id_def
    proof (intro allI impI)
      fix b l assume b: "b < PNET_MAX_AR" "ca_in_use (cn_ar ?n' b)" "l < length (ca_iocrs (cn_ar ?n' b))" "(b, l) \<noteq> (a, m)"
      then show "frame_id (iocr_param (ca_iocrs (cn_ar ?n' b) ! l)) \<noteq> frame_id (iocr_param (ca_iocrs (cn_ar ?n' a) ! m))"
        using other [of b l] m by (auto simp: upd_cn_ar_def set_frame_id_def split: if_splits)
    qed
    then have new: "frame_id_fixed n ?n' a m"
      using True fid(3,4) r m by (auto simp: frame_id_fixed_def Let_def upd_cn_ar_def set_frame_id_def)
    show ?thesis using run js(2,3) old new m by (intro exI [of _ ?js]) (auto simp: less_Suc_eq)
  qed
qed

section \<open>Lists of differences\<close>

definition reported_modules :: "pf_exp_api \<Rightarrow> nat list" where
  "reported_modules x = map unat (take (unat (nbr_diff_modules x)) (diff_module x))"

definition reported_apis :: "pf_exp_ident \<Rightarrow> nat list" where
  "reported_apis e = map unat (take (unat (nbr_diff_apis e)) (diff_api e))"

definition sub_differs :: "nat \<Rightarrow> pf_slot \<Rightarrow> pf_exp_submodule \<Rightarrow> bool" where
  "sub_differs a r s = snd (submodule_state_of a (real_subslot r (es_subslot_number s)) s)"

text \<open>A module that is missing, or the right one with a submodule that differs; not a wrong module.\<close>

definition module_reported :: "nat \<Rightarrow> pf_api \<Rightarrow> pf_exp_module \<Rightarrow> bool" where
  "module_reported a real m \<longleftrightarrow> (case real_slot real (em_slot_number m) of None \<Rightarrow> True
     | Some r \<Rightarrow> em_ident_number m = sl_ident_number r \<and> (\<exists>s < unat (nbr_submodules m). sub_differs a r (submodule m ! s)))"

lemma of_nat_u16_add:
  fixes w :: u16
  assumes "unat w < n" and "n < 65536"
  shows "unat (w + 1) = Suc (unat w)"
  using assms by (simp add: unat_word_ariths)

lemma diff_submodules:
  assumes "q \<le> PNET_MAX_SUBSLOTS" and "nbr_diff_submodules m = 0"
  shows "let m' = fold (diff_one_submodule a r) [0..<q] m in
    (\<forall>s \<ge> q. submodule m' ! s = submodule m ! s) \<and> length (submodule m') = length (submodule m) \<and>
    unat (nbr_diff_submodules m') = length (filter (\<lambda>s. sub_differs a r (submodule m ! s)) [0..<q])"
  using assms(1)
proof (induction q)
  case (Suc q)
  let ?m = "fold (diff_one_submodule a r) [0..<q] m"
  have ih: "\<forall>s \<ge> q. submodule ?m ! s = submodule m ! s" "length (submodule ?m) = length (submodule m)"
    "unat (nbr_diff_submodules ?m) = length (filter (\<lambda>s. sub_differs a r (submodule m ! s)) [0..<q])"
    using Suc by (auto simp: Let_def)
  have "unat (nbr_diff_submodules ?m) \<le> q" using ih(3) by (metis diff_zero length_filter_le length_upt)
  then have "unat (nbr_diff_submodules ?m + 1) = Suc (unat (nbr_diff_submodules ?m))"
    using Suc.prems by (intro of_nat_u16_add [of _ 10]) (auto simp: config_defs)
  then have "unat (nbr_diff_submodules ?m + 1) = Suc (length (filter (\<lambda>s. sub_differs a r (submodule m ! s)) [0..<q]))"
    by (simp add: ih(3))
  moreover define st where "st = fst (submodule_state_of a (real_subslot r (es_subslot_number (submodule m ! q))) (submodule m ! q))"
  moreover have "diff_one_submodule a r q ?m =
      (if sub_differs a r (submodule m ! q) then add_diff_submodule q (set_sub_state q st ?m) else set_sub_state q st ?m)"
    using ih(1) by (simp add: diff_one_submodule_def sub_differs_def st_def split_beta)
  ultimately show ?case using ih by (auto simp: Let_def set_sub_state_def add_diff_submodule_def)
qed (simp add: assms(2) Let_def)

lemma reported_add_diff_module:
  assumes "unat (nbr_diff_modules x) < length (diff_module x)" and "length (diff_module x) = PNET_MAX_SLOTS" and "k < PNET_MAX_SLOTS"
  shows "reported_modules (add_diff_module k x) = reported_modules x @ [k]"
proof -
  have "unat (nbr_diff_modules x + 1) = Suc (unat (nbr_diff_modules x))"
    using assms by (intro of_nat_u16_add [of _ 10]) (auto simp: config_defs)
  then show ?thesis using assms by (simp add: reported_modules_def add_diff_module_def take_Suc_conv_app_nth config_defs unat_of_nat)
qed

lemma diff_module_cases:
  assumes "exp_module_wf (ea_module x ! k)" and "k < length (ea_module x)"
  shows "\<exists>m'. diff_one_module a real k x =
    (if module_reported a real (ea_module x ! k) then add_diff_module k (upd_exp_module k (\<lambda>_. m') x) else upd_exp_module k (\<lambda>_. m') x)"
proof -
  let ?m = "(ea_module x ! k)\<lparr>nbr_diff_submodules := 0\<rparr>"
  show ?thesis
  proof (cases "real_slot real (em_slot_number ?m)")
    case None
    then show ?thesis by (intro exI) (simp add: diff_one_module_def module_reported_def Let_def)
  next
    case (Some r)
    show ?thesis
    proof (cases "em_ident_number ?m = sl_ident_number r")
      case False
      then show ?thesis using Some by (intro exI) (simp add: diff_one_module_def module_reported_def Let_def)
    next
      case True
      let ?p = "?m\<lparr>em_state := PF_MODULE_STATE_PROPER_MODULE\<rparr>"
      let ?m' = "fold (diff_one_submodule a r) [0..<unat (nbr_submodules ?m)] ?p"
      have "unat (nbr_submodules ?m) \<le> PNET_MAX_SUBSLOTS" using assms(1) by (simp add: exp_module_wf_def)
      then have "unat (nbr_diff_submodules ?m') = length (filter (\<lambda>s. sub_differs a r (submodule ?p ! s)) [0..<unat (nbr_submodules ?m)])"
        using diff_submodules [of "unat (nbr_submodules ?m)" ?p a r] by (simp add: Let_def)
      then have "nbr_diff_submodules ?m' > 0 \<longleftrightarrow> (\<exists>s < unat (nbr_submodules ?m). sub_differs a r (submodule ?m ! s))"
        by (auto simp: word_greater_zero_iff filter_empty_conv simp flip: unat_eq_zero)
      then show ?thesis using Some True by (intro exI [of _ ?m']) (auto simp: diff_one_module_def module_reported_def Let_def)
    qed
  qed
qed

lemma diff_modules:
  assumes "q \<le> PNET_MAX_SLOTS" and x: "nbr_diff_modules x = 0" "length (ea_module x) = PNET_MAX_SLOTS"
    "length (diff_module x) = PNET_MAX_SLOTS" "\<forall>m \<in> set (ea_module x). exp_module_wf m"
  shows "let x' = fold (diff_one_module a real) [0..<q] x in
    (\<forall>k \<ge> q. ea_module x' ! k = ea_module x ! k) \<and> length (ea_module x') = PNET_MAX_SLOTS \<and> length (diff_module x') = PNET_MAX_SLOTS \<and>
    unat (nbr_diff_modules x') \<le> q \<and> reported_modules x' = filter (\<lambda>k. module_reported a real (ea_module x ! k)) [0..<q]"
  using assms(1)
proof (induction q)
  case 0
  then show ?case using x by (simp add: reported_modules_def Let_def)
next
  case (Suc q)
  let ?x = "fold (diff_one_module a real) [0..<q] x"
  have ih: "\<forall>k \<ge> q. ea_module ?x ! k = ea_module x ! k" "length (ea_module ?x) = PNET_MAX_SLOTS"
    "length (diff_module ?x) = PNET_MAX_SLOTS" "unat (nbr_diff_modules ?x) \<le> q"
    "reported_modules ?x = filter (\<lambda>k. module_reported a real (ea_module x ! k)) [0..<q]"
    using Suc by (auto simp: Let_def)
  have m: "ea_module ?x ! q = ea_module x ! q" "exp_module_wf (ea_module x ! q)" "q < length (ea_module ?x)"
    using ih(1,2) x(2,4) Suc.prems by auto
  from diff_module_cases [of ?x q a real] m obtain m' where
    d: "diff_one_module a real q ?x =
      (if module_reported a real (ea_module x ! q) then add_diff_module q (upd_exp_module q (\<lambda>_. m') ?x) else upd_exp_module q (\<lambda>_. m') ?x)"
    by auto
  have suc: "unat (nbr_diff_modules ?x + 1) = Suc (unat (nbr_diff_modules ?x))"
    using ih(4) Suc.prems by (intro of_nat_u16_add [of _ 10]) (auto simp: config_defs)
  have u: "reported_modules (upd_exp_module q (\<lambda>_. m') ?x) = reported_modules ?x" by (simp add: reported_modules_def upd_exp_module_def)
  have "reported_modules (add_diff_module q (upd_exp_module q (\<lambda>_. m') ?x)) = reported_modules ?x @ [q]"
    using ih(3,4) Suc.prems by (subst reported_add_diff_module) (auto simp: u, auto simp: upd_exp_module_def)
  then show ?case using ih d suc u by (auto simp: Let_def upd_exp_module_def add_diff_module_def)
qed

text \<open>The lists of differences have room.\<close>

definition diff_room :: "pf_exp_ident \<Rightarrow> bool" where
  "diff_room e \<longleftrightarrow> length (diff_api e) = PNET_MAX_API \<and> (\<forall>x \<in> set (ei_api e). length (diff_module x) = PNET_MAX_SLOTS)"

definition api_modules_reported :: "nat \<Rightarrow> pf_device \<Rightarrow> pf_exp_api \<Rightarrow> nat list" where
  "api_modules_reported a dev x = (case pf_cmdev_get_api dev (ea_api x) of None \<Rightarrow> []
     | Some i \<Rightarrow> filter (\<lambda>j. module_reported a (api_at dev i) (ea_module x ! j)) [0..<unat (nbr_modules x)])"

lemma diff_apis:
  assumes w: "exp_wf e" "diff_room e" and z: "nbr_diff_apis e = 0" and q: "q \<le> unat (ei_nbr_apis e)"
  shows "let e' = fold (diff_one_api a dev) [0..<q] e in
    (\<forall>k \<ge> q. ei_api e' ! k = ei_api e ! k) \<and> length (ei_api e') = PNET_MAX_API \<and> length (diff_api e') = PNET_MAX_API \<and>
    unat (nbr_diff_apis e') \<le> q \<and> reported_apis e' = filter (\<lambda>k. api_modules_reported a dev (ei_api e ! k) \<noteq> []) [0..<q] \<and>
    (\<forall>k < q. pf_cmdev_get_api dev (ea_api (ei_api e ! k)) \<noteq> None \<longrightarrow>
       reported_modules (ei_api e' ! k) = api_modules_reported a dev (ei_api e ! k))"
  using q
proof (induction q)
  case 0
  then show ?case using w z by (simp add: exp_wf_def diff_room_def reported_apis_def Let_def)
next
  case (Suc q)
  let ?e = "fold (diff_one_api a dev) [0..<q] e"
  have ih: "\<forall>k \<ge> q. ei_api ?e ! k = ei_api e ! k" "length (ei_api ?e) = PNET_MAX_API" "length (diff_api ?e) = PNET_MAX_API"
    "unat (nbr_diff_apis ?e) \<le> q" "reported_apis ?e = filter (\<lambda>k. api_modules_reported a dev (ei_api e ! k) \<noteq> []) [0..<q]"
    "\<forall>k < q. pf_cmdev_get_api dev (ea_api (ei_api e ! k)) \<noteq> None \<longrightarrow>
       reported_modules (ei_api ?e ! k) = api_modules_reported a dev (ei_api e ! k)"
    using Suc by (auto simp: Let_def)
  have q: "q < PNET_MAX_API" "q < length (ei_api e)" using Suc.prems w(1) by (auto simp: exp_wf_def)
  let ?x = "ei_api e ! q"
  have wx: "exp_api_wf ?x" "length (diff_module ?x) = PNET_MAX_SLOTS" using w q(2) by (auto simp: exp_wf_def diff_room_def)
  have suc: "unat (nbr_diff_apis ?e + 1) = Suc (unat (nbr_diff_apis ?e))"
    using ih(4) q(1) by (intro of_nat_u16_add [of _ 10]) (auto simp: config_defs)
  obtain x' where x': "diff_one_api a dev q ?e = (if api_modules_reported a dev ?x \<noteq> []
      then add_diff_api q (upd_exp_api q (\<lambda>_. x') ?e) else upd_exp_api q (\<lambda>_. x') ?e)"
    "pf_cmdev_get_api dev (ea_api ?x) \<noteq> None \<longrightarrow> reported_modules x' = api_modules_reported a dev ?x"
  proof (cases "pf_cmdev_get_api dev (ea_api ?x)")
    case None
    then show ?thesis using ih(1) by (intro that [of "missing_api (?x\<lparr>nbr_diff_modules := 0\<rparr>)"])
      (simp_all add: diff_one_api_def api_modules_reported_def Let_def)
  next
    case (Some i)
    let ?y = "fold (diff_one_module a (api_at dev i)) [0..<unat (nbr_modules ?x)] (?x\<lparr>nbr_diff_modules := 0\<rparr>)"
    have "unat (nbr_modules ?x) \<le> PNET_MAX_SLOTS" using wx(1) by (simp add: exp_api_wf_def)
    then have y: "reported_modules ?y = api_modules_reported a dev ?x" "unat (nbr_diff_modules ?y) \<le> PNET_MAX_SLOTS"
        "length (diff_module ?y) = PNET_MAX_SLOTS"
      using diff_modules [of "unat (nbr_modules ?x)" "?x\<lparr>nbr_diff_modules := 0\<rparr>" a "api_at dev i"] wx Some
      by (auto simp: Let_def exp_api_wf_def api_modules_reported_def)
    then have "nbr_diff_modules ?y > 0 \<longleftrightarrow> api_modules_reported a dev ?x \<noteq> []"
    proof -
      have "unat (nbr_diff_modules ?y) = length (api_modules_reported a dev ?x)"
        using arg_cong [OF y(1), of length] y(2,3) by (simp add: reported_modules_def)
      then show ?thesis by (simp add: word_greater_zero_iff flip: unat_eq_zero)
    qed
    then show ?thesis using ih(1) Some y(1) by (intro that [of ?y]) (auto simp: diff_one_api_def Let_def)
  qed
  have "unat (of_nat q :: u16) = q" using q(1) by (simp add: unat_of_nat PNET_MAX_API_def)
  moreover have "unat (nbr_diff_apis ?e) < PNET_MAX_API" using ih(4) q(1) by linarith
  ultimately have "reported_apis (add_diff_api q (upd_exp_api q (\<lambda>_. x') ?e)) = reported_apis ?e @ [q]"
    using ih(3) suc by (simp add: reported_apis_def add_diff_api_def upd_exp_api_def take_Suc_conv_app_nth)
  moreover have "reported_apis (upd_exp_api q (\<lambda>_. x') ?e) = reported_apis ?e" by (simp add: reported_apis_def upd_exp_api_def)
  ultimately show ?case using ih x' suc q(1) by (auto simp: Let_def upd_exp_api_def add_diff_api_def less_Suc_eq)
qed

end
