(* ===== verification/Connect_Runs.thy ===== *)
theory Connect_Runs
  imports Connect_Lemmas "HOL-Library.Sublist"
begin

unbundle bit_operations_syntax

text \<open>
  Runs of the state machine of an AR. The callees may abort the AR, but do not change its
  state otherwise; then a state is reached only after the requests that lead to it.
\<close>

section \<open>The contract of the callees\<close>

definition unchanged :: "nat \<Rightarrow> 'w conn_net \<Rightarrow> 'w conn_net \<Rightarrow> bool" where
  "unchanged a n n' \<longleftrightarrow> (cmdev_state a n' = cmdev_state a n \<or> cmdev_state a n' = PF_CMDEV_STATE_ABORT) \<and>
     is_device_access a n' = is_device_access a n"

definition quiet :: "nat \<Rightarrow> 'w ncmd \<Rightarrow> bool" where
  "quiet a f \<longleftrightarrow> (\<forall>n n'. f n = Some n' \<longrightarrow> unchanged a n n')"

definition quiet_fn :: "nat \<Rightarrow> ('w, 'x) nfn \<Rightarrow> bool" where
  "quiet_fn a f \<longleftrightarrow> (\<forall>n x n'. f n = Some (x, n') \<longrightarrow> unchanged a n n')"

definition quiet_conn_env :: "'w conn_env \<Rightarrow> nat \<Rightarrow> bool" where
  "quiet_conn_env env a \<longleftrightarrow>
     (\<forall>f \<in> set (ev_state_inds env). \<forall>e. quiet a (f a e)) \<and> quiet a (ev_pdport_reset_all env) \<and>
     quiet a (ev_pdport_ar_connect_ind env a) \<and> quiet_fn a (ev_allocate_endpoint env a) \<and>
     (\<forall>st. quiet_fn a (ev_connect_ind env a st)) \<and> (\<forall>st. quiet_fn a (ev_release_ind env a st)) \<and>
     (\<forall>st. quiet_fn a (ev_dcontrol_ind env a st)) \<and> (\<forall>st. quiet a (ev_ccontrol_cnf env a st)) \<and>
     (\<forall>st. quiet_fn a (ev_cmsu_start_req env a st)) \<and> (\<forall>cb st. quiet_fn a (ev_cmpbe_dcontrol_ind env a cb st)) \<and>
     (\<forall>st. quiet a (ev_log_book_entry env a st)) \<and> quiet a (ev_alarm_enable env a) \<and>
     quiet_fn a (ev_cmrpc_ccontrol_req env a)"

lemma quietD: "quiet a f \<Longrightarrow> f n = Some n' \<Longrightarrow> unchanged a n n'"
  by (simp add: quiet_def)

lemma quiet_fnD: "quiet_fn a f \<Longrightarrow> f n = Some (x, n') \<Longrightarrow> unchanged a n n'"
  unfolding quiet_fn_def by blast

lemma quiet_conn_envD:
  assumes "quiet_conn_env env a"
  shows "f \<in> set (ev_state_inds env) \<Longrightarrow> quiet a (f a e)" "quiet a (ev_pdport_reset_all env)"
    "quiet a (ev_pdport_ar_connect_ind env a)" "quiet_fn a (ev_allocate_endpoint env a)" "quiet_fn a (ev_connect_ind env a st)"
    "quiet_fn a (ev_release_ind env a st)" "quiet_fn a (ev_dcontrol_ind env a st)" "quiet a (ev_ccontrol_cnf env a st)"
    "quiet_fn a (ev_cmsu_start_req env a st)" "quiet_fn a (ev_cmpbe_dcontrol_ind env a cb st)" "quiet a (ev_log_book_entry env a st)"
    "quiet a (ev_alarm_enable env a)" "quiet_fn a (ev_cmrpc_ccontrol_req env a)"
  using assms unfolding quiet_conn_env_def by blast+

lemma unchanged_refl [simp]: "unchanged a n n"
  by (simp add: unchanged_def)

lemma unchanged_trans: "unchanged a n1 n2 \<Longrightarrow> unchanged a n2 n3 \<Longrightarrow> unchanged a n1 n3"
  by (auto simp: unchanged_def)

lemma unchanged_dev [simp]: "unchanged a n (m\<lparr>cn_dev := d\<rparr>) = unchanged a n m" "unchanged a (m\<lparr>cn_dev := d\<rparr>) n = unchanged a m n"
  by (simp_all add: unchanged_def)

text \<open>An update that keeps the state and the parameters.\<close>

lemma unchanged_upd:
  assumes "ca_state (f (cn_ar n b)) = ca_state (cn_ar n b)" "ca_param (f (cn_ar n b)) = ca_param (cn_ar n b)"
  shows "unchanged a n (upd_cn_ar b f n)"
  using assms by (simp add: unchanged_def upd_cn_ar_def)

section \<open>Single operations\<close>

lemma state_ind_unchanged:
  assumes "quiet_conn_env env a" and "pf_cmdev_state_ind env a e n = Some n'"
  shows "unchanged a n n'"
proof -
  from assms(2) obtain m where m: "fold_option (\<lambda>ind. ind a e) (ev_state_inds env) n = Some m" "unchanged a m n'"
    by (auto simp: pf_cmdev_state_ind_def split: bind_splits if_splits)
  have "unchanged a n m"
  proof (rule fold_option_preserves [where I = "unchanged a n", OF _ _ m(1)])
    fix f s s' assume "f \<in> set (ev_state_inds env)" "unchanged a n s" "f a e s = Some s'"
    then show "unchanged a n s'" using quietD [OF quiet_conn_envD(1) [OF assms(1)]] unchanged_trans by blast
  qed simp
  then show ?thesis using m(2) by (rule unchanged_trans)
qed

definition moved :: "nat \<Rightarrow> pf_cmdev_state \<Rightarrow> 'w conn_net \<Rightarrow> 'w conn_net \<Rightarrow> bool" where
  "moved a st n n' \<longleftrightarrow> cmdev_state a n' \<in> {st, PF_CMDEV_STATE_ABORT} \<and> is_device_access a n' = is_device_access a n"

lemma set_state_moved:
  assumes "quiet_conn_env env a" and "pf_cmdev_set_state env a st n = Some n'"
  shows "moved a st n n'" and "st \<noteq> PF_CMDEV_STATE_ABORT \<Longrightarrow> cmdev_state a n' = st"
proof -
  let ?m = "upd_cn_ar a (\<lambda>r. r\<lparr>ca_state := st\<rparr>) n"
  show "moved a st n n'"
    using state_ind_unchanged [OF assms(1), of PNET_EVENT_ABORT ?m n'] assms(2)
    by (auto simp: moved_def pf_cmdev_set_state_def Let_def unchanged_def upd_cn_ar_def split: if_splits)
  show "st \<noteq> PF_CMDEV_STATE_ABORT \<Longrightarrow> cmdev_state a n' = st"
    using assms(2) by (auto simp: pf_cmdev_set_state_def Let_def upd_cn_ar_def split: if_splits)
qed

lemma moved_unchanged: "moved a st n1 n2 \<Longrightarrow> unchanged a n2 n3 \<Longrightarrow> moved a st n1 n3"
  by (auto simp: moved_def unchanged_def)

lemma unchanged_moved: "unchanged a n1 n2 \<Longrightarrow> moved a st n2 n3 \<Longrightarrow> moved a st n1 n3"
  by (auto simp: moved_def unchanged_def)

lemma moved_moved: "moved a st n1 n2 \<Longrightarrow> moved a st' n2 n3 \<Longrightarrow> moved a st' n1 n3"
  by (auto simp: moved_def)

lemma check_apdu_unchanged:
  assumes "pf_cmdev_check_apdu env a st n = Some (x, n')"
  shows "unchanged a n n'"
  using assms by (auto simp: pf_cmdev_check_apdu_def Let_def unchanged_def upd_cn_ar_def split: if_splits option.splits bind_splits)

lemma fix_frame_id_unchanged:
  assumes "pf_cmdev_fix_frame_id a n = Some n'"
  shows "unchanged a n n'"
proof -
  have step: "unchanged a s s'" if "fix_iocr_frame_id a ix s = Some s'" for ix s s'
    using that by (auto simp: fix_iocr_frame_id_def Let_def unchanged_def upd_cn_ar_def split: if_splits bind_splits prod.splits)
  show ?thesis
    by (rule fold_option_preserves [where I = "unchanged a n", OF _ _ assms [unfolded pf_cmdev_fix_frame_id_def]])
      (use unchanged_trans step in blast, simp)
qed

lemma connect_rsp_pos_moved:
  assumes q: "quiet_conn_env env a" and d: "\<not> is_device_access a n" and r: "pf_cmdev_cm_connect_rsp_pos env a st n = Some (x, n')"
  shows "unchanged a n n' \<or> moved a PF_CMDEV_STATE_W_SUCNF n n' \<or> moved a PF_CMDEV_STATE_W_PEIND n n'"
proof -
  note c = quiet_fnD [OF quiet_conn_envD(9) [OF q]] set_state_moved(1) [OF q] state_ind_unchanged [OF q] quietD [OF quiet_conn_envD(11) [OF q]]
  from r d show ?thesis
    by (auto simp: pf_cmdev_cm_connect_rsp_pos_def Let_def split: if_splits bind_splits
        dest!: c) (auto simp: moved_def unchanged_def)
qed

text \<open>A connect request ends in one of these states.\<close>

lemma connect_states:
  assumes q: "quiet_conn_env env a" and d: "\<not> is_device_access a n" and r: "pf_cmdev_rm_connect_ind env a st n = Some (x, n')"
  shows "cmdev_state a n' \<in> {PF_CMDEV_STATE_W_CIND, PF_CMDEV_STATE_W_CRES, PF_CMDEV_STATE_W_SUCNF, PF_CMDEV_STATE_W_PEIND, PF_CMDEV_STATE_ABORT}"
    and "\<not> is_device_access a n'"
proof -
  obtain ret st1 n1 where 1: "pf_cmdev_check_apdu env a st n = Some ((ret, st1), n1)"
    using r by (auto simp: pf_cmdev_rm_connect_ind_def split: bind_splits)
  have u1: "unchanged a n n1" using check_apdu_unchanged [OF 1] .
  obtain ret2 st2 n2 where 2: "unchanged a n1 n2"
    "(if ret2 = (0 :: int) then do {
        n \<leftarrow> pf_cmdev_set_state env a PF_CMDEV_STATE_W_CRES n2;
        pf_cmdev_cm_connect_rsp_pos env a st2 n
      } else map_option (Pair (0, st2)) (pf_cmdev_cm_connect_rsp_neg env a st2 n2)) = Some (x, n')"
  proof (cases "ret = 0")
    case False
    then show ?thesis using r 1 by (intro that [of n1 "-1" st1]) (simp_all add: pf_cmdev_rm_connect_ind_def)
  next
    case True
    let ?diff = "\<lambda>n. n\<lparr>cn_dev := set_exp_ident a (pf_cmdev_generate_module_diff a (d_device (cn_dev n))) (cn_dev n)\<rparr>"
    obtain m1 m2 m3 m4 al where m: "ev_pdport_reset_all env n1 = Some m1" "ev_pdport_ar_connect_ind env a m1 = Some m2"
        "pf_cmdev_fix_frame_id a (?diff m2) = Some m3" "ev_allocate_endpoint env a m3 = Some (al, m4)"
        "Option.bind (ev_connect_ind env a st1 (upd_cn_ar a (\<lambda>r. r\<lparr>ca_result := result_of env r al, ca_ready_4_data := False\<rparr>) m4))
          (\<lambda>((ret, st), n). if ret = 0 then do {
             n \<leftarrow> pf_cmdev_set_state env a PF_CMDEV_STATE_W_CRES n;
             pf_cmdev_cm_connect_rsp_pos env a st n
           } else map_option (Pair (0, st)) (pf_cmdev_cm_connect_rsp_neg env a st n)) = Some (x, n')"
      using r 1 True by (auto simp: pf_cmdev_rm_connect_ind_def Let_def split: bind_splits)
    let ?m5 = "upd_cn_ar a (\<lambda>r. r\<lparr>ca_result := result_of env r al, ca_ready_4_data := False\<rparr>) m4"
    from m(5) obtain ret2 st2 n2 where e: "ev_connect_ind env a st1 ?m5 = Some ((ret2, st2), n2)"
      by (auto split: bind_splits)
    have "unchanged a m4 ?m5" by (rule unchanged_upd) simp_all
    then have "unchanged a n1 n2"
      using quietD [OF quiet_conn_envD(2) [OF q] m(1)] quietD [OF quiet_conn_envD(3) [OF q] m(2)]
        fix_frame_id_unchanged [OF m(3)] quiet_fnD [OF quiet_conn_envD(4) [OF q] m(4)] quiet_fnD [OF quiet_conn_envD(5) [OF q] e]
      by (simp, meson unchanged_trans)
    then show ?thesis using m(5) e by (intro that [of n2 ret2 st2]) simp_all
  qed
  have d2: "\<not> is_device_access a n2" using d u1 2(1) by (simp add: unchanged_def)
  have "\<not> is_device_access a n' \<and> cmdev_state a n' \<in>
      {PF_CMDEV_STATE_W_CIND, PF_CMDEV_STATE_W_CRES, PF_CMDEV_STATE_W_SUCNF, PF_CMDEV_STATE_W_PEIND, PF_CMDEV_STATE_ABORT}"
  proof (cases "ret2 = 0")
    case True
    with 2(2) obtain n3 where n3: "pf_cmdev_set_state env a PF_CMDEV_STATE_W_CRES n2 = Some n3"
        "pf_cmdev_cm_connect_rsp_pos env a st2 n3 = Some (x, n')" by (auto split: bind_splits)
    have m: "moved a PF_CMDEV_STATE_W_CRES n2 n3" "cmdev_state a n3 = PF_CMDEV_STATE_W_CRES"
      using set_state_moved [OF q n3(1)] by simp_all
    then have "\<not> is_device_access a n3" using d2 by (simp add: moved_def)
    from connect_rsp_pos_moved [OF q this n3(2)] m this show ?thesis by (auto simp: moved_def unchanged_def)
  next
    case False
    with 2(2) obtain n3 where n3: "unchanged a n2 n3" "pf_cmdev_set_state env a PF_CMDEV_STATE_W_CIND n3 = Some n'"
      using quietD [OF quiet_conn_envD(11) [OF q]] d2
      by (auto simp: pf_cmdev_cm_connect_rsp_neg_def split: bind_splits if_splits)
    from set_state_moved(1) [OF q n3(2)] n3(1) d2 show ?thesis by (auto simp: moved_def unchanged_def)
  qed
  then show "cmdev_state a n' \<in> {PF_CMDEV_STATE_W_CIND, PF_CMDEV_STATE_W_CRES, PF_CMDEV_STATE_W_SUCNF, PF_CMDEV_STATE_W_PEIND, PF_CMDEV_STATE_ABORT}"
    "\<not> is_device_access a n'" by blast+
qed

text \<open>The other requests move the state along one edge, or not at all.\<close>

lemma release_states:
  assumes q: "quiet_conn_env env a" and r: "pf_cmdev_rm_release_ind env a st n = Some (x, n')"
  shows "unchanged a n n'"
proof -
  have e: "unchanged a n (set_cn_err a c n)" for c n by (simp add: set_cn_err_def unchanged_upd)
  have f: "unchanged a m (upd_cn_ar a (\<lambda>r. r\<lparr>ca_err_code := c\<rparr>) m)" for c m by (simp add: unchanged_upd)
  show ?thesis
  proof (cases "is_device_access a n")
    case True
    then show ?thesis using r unchanged_trans [OF e state_ind_unchanged [OF q]]
      by (auto simp: pf_cmdev_rm_release_ind_def split: if_splits)
  next
    case False
    show ?thesis
    proof (cases "cmdev_state a n \<in> {PF_CMDEV_STATE_W_PEIND, PF_CMDEV_STATE_W_ARDY, PF_CMDEV_STATE_W_ARDYCNF,
              PF_CMDEV_STATE_WDATA, PF_CMDEV_STATE_DATA}")
      case out: False
      then show ?thesis using r False by (auto simp: pf_cmdev_rm_release_ind_def)
    next
      case True
      with r False obtain ret st1 m where m: "ev_release_ind env a st (set_cn_err a PNET_ERROR_CODE_2_ABORT_AR_RELEASE_IND_RECEIVED n) = Some ((ret, st1), m)"
          "pf_cmdev_set_state env a PF_CMDEV_STATE_ABORT
             (if ret \<noteq> 0 then upd_cn_ar a (\<lambda>r. r\<lparr>ca_err_code := error_code_2 st1\<rparr>) m else m) = Some n'"
        by (auto simp: pf_cmdev_rm_release_ind_def Let_def split: bind_splits if_splits)
      have um: "unchanged a n m" using unchanged_trans [OF e quiet_fnD [OF quiet_conn_envD(6) [OF q] m(1)]] .
      have "unchanged a n (if ret \<noteq> 0 then upd_cn_ar a (\<lambda>r. r\<lparr>ca_err_code := error_code_2 st1\<rparr>) m else m)"
        using um unchanged_trans [OF um f [of m "error_code_2 st1"]] by simp
      then show ?thesis using set_state_moved(1) [OF q m(2)] by (auto simp: moved_def unchanged_def)
    qed
  qed
qed

lemma dcontrol_prm_end_states:
  assumes q: "quiet_conn_env env a" and r: "dcontrol_prm_end env a st n = Some (x, n')"
  shows "cmdev_state a n' \<in> {PF_CMDEV_STATE_W_PERES, PF_CMDEV_STATE_W_ARDY, PF_CMDEV_STATE_ABORT}" "is_device_access a n' = is_device_access a n"
proof -
  obtain ret st1 n1 n2 where 1: "pf_cmdev_set_state env a PF_CMDEV_STATE_W_PERES n = Some n1"
      "ev_dcontrol_ind env a st n1 = Some ((ret, st1), n2)"
    using r by (auto simp: dcontrol_prm_end_def split: bind_splits)
  have 2: "moved a PF_CMDEV_STATE_W_PERES n n2"
    using moved_unchanged [OF set_state_moved(1) [OF q 1(1)] quiet_fnD [OF quiet_conn_envD(7) [OF q] 1(2)]] .
  have e: "unchanged a m (set_cn_err a c m)" for c m by (simp add: set_cn_err_def unchanged_upd)
  have "moved a PF_CMDEV_STATE_W_PERES n n' \<or> moved a PF_CMDEV_STATE_W_ARDY n n'"
  proof (cases "ret = 0")
    case False
    then show ?thesis using r 1 2 by (simp add: dcontrol_prm_end_def)
  next
    case True
    with r 1 obtain n3 where 3: "pf_cmdev_set_state env a PF_CMDEV_STATE_W_ARDY n2 = Some n3"
        "n' = n3 \<or> n' = set_cn_err a PNET_ERROR_CODE_2_ABORT_PDEV_CHECK_FAILED n3"
      by (auto simp: dcontrol_prm_end_def split: bind_splits if_splits)
    have "moved a PF_CMDEV_STATE_W_ARDY n n3" using moved_moved [OF 2 set_state_moved(1) [OF q 3(1)]] .
    then show ?thesis using 3(2) moved_unchanged [OF _ e] by blast
  qed
  then show "cmdev_state a n' \<in> {PF_CMDEV_STATE_W_PERES, PF_CMDEV_STATE_W_ARDY, PF_CMDEV_STATE_ABORT}"
    "is_device_access a n' = is_device_access a n" by (auto simp: moved_def)
qed

definition prm_end :: "pf_control_block \<Rightarrow> bool" where
  "prm_end cb \<longleftrightarrow> control_command cb = push_bit PF_CONTROL_COMMAND_BIT_PRM_END 1"

lemma dcontrol_states:
  assumes q: "quiet_conn_env env a" and d: "\<not> is_device_access a n" and r: "pf_cmdev_rm_dcontrol_ind env a cb st n = Some (x, n')"
  shows "\<not> is_device_access a n' \<and> (unchanged a n n' \<or> cmdev_state a n = PF_CMDEV_STATE_W_PEIND \<and> prm_end cb \<and>
    cmdev_state a n' \<in> {PF_CMDEV_STATE_W_PERES, PF_CMDEV_STATE_W_ARDY, PF_CMDEV_STATE_ABORT})"
proof -
  let ?first = "if \<not> is_device_access a n then
          (case cmdev_state a n of
             PF_CMDEV_STATE_W_PEIND \<Rightarrow>
               if control_command cb = push_bit PF_CONTROL_COMMAND_BIT_PRM_END 1 then dcontrol_prm_end env a st n
               else Some ((-1, st, False), n)
           | PF_CMDEV_STATE_DATA \<Rightarrow>
               map_option (\<lambda>((ret, st), n). ((ret, st, False), n)) (ev_cmpbe_dcontrol_ind env a cb st n)
           | _ \<Rightarrow> Some ((0, st, False), n))
        else Some ((-1, st, False), n)"
  obtain y n1 where 1: "?first = Some (y, n1)" "n' = n1 \<or> pf_cmdev_state_ind env a PNET_EVENT_ABORT n1 = Some n'"
    using r d by (auto simp: pf_cmdev_rm_dcontrol_ind_def split: bind_splits if_splits)
  have u: "unchanged a n1 n'" using 1(2) state_ind_unchanged [OF q] by auto
  have "\<not> is_device_access a n1 \<and> (unchanged a n n1 \<or> cmdev_state a n = PF_CMDEV_STATE_W_PEIND \<and> prm_end cb \<and>
    cmdev_state a n1 \<in> {PF_CMDEV_STATE_W_PERES, PF_CMDEV_STATE_W_ARDY, PF_CMDEV_STATE_ABORT})"
  proof (cases "cmdev_state a n = PF_CMDEV_STATE_W_PEIND \<and> prm_end cb")
    case True
    then have "dcontrol_prm_end env a st n = Some (y, n1)" using 1(1) d by (simp add: prm_end_def)
    then show ?thesis using dcontrol_prm_end_states [OF q] d True by blast
  next
    case False
    then have "n1 = n \<or> (\<exists>z. ev_cmpbe_dcontrol_ind env a cb st n = Some (z, n1))"
      using 1(1) d by (cases "cmdev_state a n") (auto simp: prm_end_def)
    then have "unchanged a n n1" using quiet_fnD [OF quiet_conn_envD(10) [OF q]] by auto
    then show ?thesis using d by (simp add: unchanged_def)
  qed
  then show ?thesis using u by (auto simp: unchanged_def)
qed

definition done_cnf :: "pf_control_block \<Rightarrow> pnet_pnio_status \<Rightarrow> bool" where
  "done_cnf cb st \<longleftrightarrow> no_error st \<and> control_command cb = push_bit PF_CONTROL_COMMAND_BIT_DONE 1"

lemma ccontrol_cnf_states:
  assumes q: "quiet_conn_env env a" and r: "pf_cmdev_rm_ccontrol_cnf env a cb st n = Some (x, n')"
  shows "is_device_access a n' = is_device_access a n \<and> (unchanged a n n' \<or> cmdev_state a n = PF_CMDEV_STATE_W_ARDYCNF \<and> done_cnf cb st \<and>
    cmdev_state a n' \<in> {PF_CMDEV_STATE_WDATA, PF_CMDEV_STATE_DATA, PF_CMDEV_STATE_ABORT})"
proof (cases "cmdev_state a n = PF_CMDEV_STATE_W_ARDYCNF")
  case False
  then show ?thesis using r by (simp add: pf_cmdev_rm_ccontrol_cnf_def)
next
  case s: True
  show ?thesis
  proof (cases "done_cnf cb st")
    case True
    then obtain n1 n2 where 1: "ev_alarm_enable env a n = Some n1"
        "(if ca_ready_4_data (cn_ar n1 a) then
            Option.bind (pf_cmdev_state_ind env a PNET_EVENT_DATA n1) (pf_cmdev_set_state env a PF_CMDEV_STATE_DATA)
          else pf_cmdev_set_state env a PF_CMDEV_STATE_WDATA n1) = Some n2" "ev_ccontrol_cnf env a st n2 = Some n'"
      using r s by (auto simp: pf_cmdev_rm_ccontrol_cnf_def done_cnf_def split: bind_splits)
    have "is_device_access a n2 = is_device_access a n1 \<and>
        cmdev_state a n2 \<in> {PF_CMDEV_STATE_WDATA, PF_CMDEV_STATE_DATA, PF_CMDEV_STATE_ABORT}"
      using 1(2) state_ind_unchanged [OF q, of PNET_EVENT_DATA n1] set_state_moved(1) [OF q]
      by (auto simp: moved_def unchanged_def split: if_splits bind_splits)
    then show ?thesis using quietD [OF quiet_conn_envD(12) [OF q] 1(1)] quietD [OF quiet_conn_envD(8) [OF q] 1(3)] s True
      by (auto simp: unchanged_def)
  next
    case False
    show ?thesis
    proof (cases "no_error st")
      case True
      then show ?thesis using r s False by (auto simp: pf_cmdev_rm_ccontrol_cnf_def done_cnf_def)
    next
      case e: False
      then obtain n1 n2 where 1: "ev_log_book_entry env a st n = Some n1" "ev_ccontrol_cnf env a st n1 = Some n2"
          "pf_cmdev_set_state env a PF_CMDEV_STATE_ABORT n2 = Some n'"
        using r s by (auto simp: pf_cmdev_rm_ccontrol_cnf_def split: bind_splits)
      have "unchanged a n n2" using unchanged_trans [OF quietD [OF quiet_conn_envD(11) [OF q] 1(1)] quietD [OF quiet_conn_envD(8) [OF q] 1(2)]] .
      then show ?thesis using set_state_moved(1) [OF q 1(3)] by (auto simp: moved_def unchanged_def)
    qed
  qed
qed

lemma ccontrol_req_states:
  assumes q: "quiet_conn_env env a" and d: "\<not> is_device_access a n" and r: "pf_cmdev_cm_ccontrol_req env a n = Some (x, n')"
  shows "\<not> is_device_access a n' \<and> (unchanged a n n' \<or> cmdev_state a n = PF_CMDEV_STATE_W_ARDY \<and>
    cmdev_state a n' \<in> {PF_CMDEV_STATE_W_ARDYCNF, PF_CMDEV_STATE_ABORT})"
proof (cases "cmdev_state a n = PF_CMDEV_STATE_W_ARDY \<and> all_data_set env a n")
  case False
  then show ?thesis using r d by (auto simp: pf_cmdev_cm_ccontrol_req_def split: if_splits)
next
  case True
  with r d obtain n1 ret n2 where 1: "pf_cmdev_state_ind env a PNET_EVENT_APPLRDY n = Some n1"
      "ev_cmrpc_ccontrol_req env a n1 = Some (ret, n2)"
      "n' = n2 \<or> pf_cmdev_set_state env a PF_CMDEV_STATE_W_ARDYCNF n2 = Some n'"
    by (auto simp: pf_cmdev_cm_ccontrol_req_def split: bind_splits if_splits)
  have "unchanged a n n2" using unchanged_trans [OF state_ind_unchanged [OF q 1(1)] quiet_fnD [OF quiet_conn_envD(13) [OF q] 1(2)]] .
  then show ?thesis using 1(3) set_state_moved(1) [OF q, of PF_CMDEV_STATE_W_ARDYCNF n2 n'] True d
    by (auto simp: moved_def unchanged_def)
qed

lemma cmio_info_states:
  assumes q: "quiet_conn_env env a" and r: "pf_cmdev_cmio_info_ind env a dp n = Some n'"
  shows "is_device_access a n' = is_device_access a n \<and> (unchanged a n n' \<or> cmdev_state a n = PF_CMDEV_STATE_WDATA \<and>
    cmdev_state a n' \<in> {PF_CMDEV_STATE_DATA, PF_CMDEV_STATE_ABORT})"
proof -
  let ?m = "upd_cn_ar a (\<lambda>r. r\<lparr>ca_ready_4_data := dp\<rparr>) n"
  have u: "unchanged a n ?m" by (simp add: unchanged_upd)
  show ?thesis
    using r u state_ind_unchanged [OF q, of PNET_EVENT_DATA ?m] set_state_moved(1) [OF q, of PF_CMDEV_STATE_DATA]
    by (auto simp: pf_cmdev_cmio_info_ind_def Let_def moved_def unchanged_def split: if_splits bind_splits)
qed

lemma cm_abort_states:
  assumes q: "quiet_conn_env env a" and r: "pf_cmdev_cm_abort env (Some a) n = Some (x, n')"
  shows "unchanged a n n'"
  using r set_state_moved(1) [OF q, of PF_CMDEV_STATE_ABORT n]
  by (auto simp: pf_cmdev_cm_abort_def moved_def unchanged_def split: if_splits)

lemma cm_init_states:
  assumes q: "quiet_conn_env env a" and r: "pf_cmdev_cm_init_req env a n = Some (x, n')"
  shows "unchanged a n n' \<or> moved a PF_CMDEV_STATE_W_CIND n n'"
  using r set_state_moved(1) [OF q, of PF_CMDEV_STATE_W_CIND n] by (auto simp: pf_cmdev_cm_init_req_def split: if_splits)

section \<open>Runs\<close>

text \<open>
  What reaches the machine of one AR: the requests of the controller, what the application asks
  for, what the other machines report. The trace of a run is the sequence of these inputs.
\<close>

datatype cmdev_input = Connect pnet_pnio_status | Release pnet_pnio_status | Dcontrol pf_control_block pnet_pnio_status
  | Ccontrol_cnf pf_control_block pnet_pnio_status | Ccontrol_req | Cmio_info bool | Cm_abort | Cm_init

definition handle_cmdev :: "'w conn_env \<Rightarrow> nat \<Rightarrow> cmdev_input \<Rightarrow> 'w ncmd" where
  "handle_cmdev env a y n = (case y of
       Connect st \<Rightarrow> map_option snd (pf_cmdev_rm_connect_ind env a st n)
     | Release st \<Rightarrow> map_option snd (pf_cmdev_rm_release_ind env a st n)
     | Dcontrol cb st \<Rightarrow> map_option snd (pf_cmdev_rm_dcontrol_ind env a cb st n)
     | Ccontrol_cnf cb st \<Rightarrow> map_option snd (pf_cmdev_rm_ccontrol_cnf env a cb st n)
     | Ccontrol_req \<Rightarrow> map_option snd (pf_cmdev_cm_ccontrol_req env a n)
     | Cmio_info dp \<Rightarrow> pf_cmdev_cmio_info_ind env a dp n
     | Cm_abort \<Rightarrow> map_option snd (pf_cmdev_cm_abort env (Some a) n)
     | Cm_init \<Rightarrow> map_option snd (pf_cmdev_cm_init_req env a n))"

inductive cmdev_run :: "'w conn_env \<Rightarrow> nat \<Rightarrow> 'w conn_net \<Rightarrow> cmdev_input list \<Rightarrow> 'w conn_net \<Rightarrow> bool"
  for env :: "'w conn_env" and a :: nat and n0 :: "'w conn_net" where
  start: "cmdev_run env a n0 [] n0"
| step: "cmdev_run env a n0 ys n \<Longrightarrow> handle_cmdev env a y n = Some n' \<Longrightarrow> cmdev_run env a n0 (ys @ [y]) n'"

inductive_cases cmdev_run_snocE: "cmdev_run env a n0 (ys @ [y]) n"

text \<open>Inputs that satisfy the predicates occur in this order, with anything between them.\<close>

definition in_order :: "('a \<Rightarrow> bool) list \<Rightarrow> 'a list \<Rightarrow> bool" where
  "in_order ps tr \<longleftrightarrow> (\<exists>ys. subseq ys tr \<and> list_all2 (\<lambda>p y. p y) ps ys)"

lemma in_order_Nil [simp]: "in_order [] tr"
  unfolding in_order_def by (intro exI [of _ "[]"]) simp

lemma in_order_more: "in_order ps tr \<Longrightarrow> in_order ps (tr @ [y])"
  unfolding in_order_def using subseq_rev_drop_many by blast

lemma in_order_snoc: "in_order ps tr \<Longrightarrow> p y \<Longrightarrow> in_order (ps @ [p]) (tr @ [y])"
  unfolding in_order_def by (metis list_all2_Cons list_all2_appendI list_all2_Nil2 list_emb_append_mono subseq_order.refl)

definition is_connect :: "cmdev_input \<Rightarrow> bool" where
  "is_connect y \<longleftrightarrow> (\<exists>st. y = Connect st)"

definition is_prm_end :: "cmdev_input \<Rightarrow> bool" where
  "is_prm_end y \<longleftrightarrow> (\<exists>cb st. y = Dcontrol cb st \<and> prm_end cb)"

definition is_application_ready :: "cmdev_input \<Rightarrow> bool" where
  "is_application_ready y \<longleftrightarrow> y = Ccontrol_req"

definition is_done :: "cmdev_input \<Rightarrow> bool" where
  "is_done y \<longleftrightarrow> (\<exists>cb st. y = Ccontrol_cnf cb st \<and> done_cnf cb st)"

definition needed :: "pf_cmdev_state \<Rightarrow> (cmdev_input \<Rightarrow> bool) list" where
  "needed s = (case s of PF_CMDEV_STATE_W_CRES \<Rightarrow> [is_connect] | PF_CMDEV_STATE_W_SUCNF \<Rightarrow> [is_connect]
     | PF_CMDEV_STATE_W_PEIND \<Rightarrow> [is_connect]
     | PF_CMDEV_STATE_W_PERES \<Rightarrow> [is_connect, is_prm_end] | PF_CMDEV_STATE_W_ARDY \<Rightarrow> [is_connect, is_prm_end]
     | PF_CMDEV_STATE_W_ARDYCNF \<Rightarrow> [is_connect, is_prm_end, is_application_ready]
     | PF_CMDEV_STATE_WDATA \<Rightarrow> [is_connect, is_prm_end, is_application_ready, is_done]
     | PF_CMDEV_STATE_DATA \<Rightarrow> [is_connect, is_prm_end, is_application_ready, is_done]
     | _ \<Rightarrow> [])"

text \<open>One input takes the machine along an edge, whose label is what the new state needs more.\<close>

definition edge :: "cmdev_input \<Rightarrow> pf_cmdev_state \<Rightarrow> pf_cmdev_state \<Rightarrow> bool" where
  "edge y s s' \<longleftrightarrow> needed s' = [] \<or> needed s' = needed s \<or> (\<exists>p. p y \<and> needed s' = needed s @ [p]) \<or>
     (is_connect y \<and> needed s' = [is_connect])"

lemma edge_same [simp]: "edge y s s" "edge y s PF_CMDEV_STATE_ABORT" "edge y s PF_CMDEV_STATE_W_CIND"
  "edge y s PF_CMDEV_STATE_POWER_ON" "edge y PF_CMDEV_STATE_WDATA PF_CMDEV_STATE_DATA"
  by (simp_all add: edge_def needed_def)

lemma edge_connect:
  assumes "is_connect y"
  shows "edge y s PF_CMDEV_STATE_W_CRES" "edge y s PF_CMDEV_STATE_W_SUCNF" "edge y s PF_CMDEV_STATE_W_PEIND"
  using assms by (simp_all add: edge_def needed_def)

lemma edge_prm_end:
  assumes "is_prm_end y"
  shows "edge y PF_CMDEV_STATE_W_PEIND PF_CMDEV_STATE_W_PERES" "edge y PF_CMDEV_STATE_W_PEIND PF_CMDEV_STATE_W_ARDY"
  using assms unfolding edge_def needed_def by simp_all

lemma edge_application_ready:
  assumes "is_application_ready y"
  shows "edge y PF_CMDEV_STATE_W_ARDY PF_CMDEV_STATE_W_ARDYCNF"
  using assms unfolding edge_def needed_def by simp

lemma edge_done:
  assumes "is_done y"
  shows "edge y PF_CMDEV_STATE_W_ARDYCNF PF_CMDEV_STATE_WDATA" "edge y PF_CMDEV_STATE_W_ARDYCNF PF_CMDEV_STATE_DATA"
  using assms unfolding edge_def needed_def by simp_all

lemma unchanged_edge: "unchanged a n n' \<Longrightarrow> edge y (cmdev_state a n) (cmdev_state a n')"
  by (auto simp: unchanged_def)

lemma handle_cmdev_edges:
  assumes q: "quiet_conn_env env a" and d: "\<not> is_device_access a n" and h: "handle_cmdev env a y n = Some n'"
  shows "\<not> is_device_access a n' \<and> edge y (cmdev_state a n) (cmdev_state a n')"
proof -
  have u: ?thesis if "unchanged a n n'" using unchanged_edge [OF that] that d by (simp add: unchanged_def)
  show ?thesis
  proof (cases y)
    case (Connect st)
    then obtain x where "pf_cmdev_rm_connect_ind env a st n = Some (x, n')" using h by (auto simp: handle_cmdev_def)
    from connect_states [OF q d this] show ?thesis using edge_connect [of y] Connect by (auto simp: is_connect_def)
  next
    case (Release st)
    then show ?thesis using h release_states [OF q] u by (auto simp: handle_cmdev_def)
  next
    case (Dcontrol cb st)
    then obtain x where "pf_cmdev_rm_dcontrol_ind env a cb st n = Some (x, n')" using h by (auto simp: handle_cmdev_def)
    from dcontrol_states [OF q d this] show ?thesis using edge_prm_end [of y] Dcontrol u by (auto simp: is_prm_end_def)
  next
    case (Ccontrol_cnf cb st)
    then obtain x where "pf_cmdev_rm_ccontrol_cnf env a cb st n = Some (x, n')" using h by (auto simp: handle_cmdev_def)
    from ccontrol_cnf_states [OF q this] show ?thesis using edge_done [of y] Ccontrol_cnf u d by (auto simp: is_done_def)
  next
    case Ccontrol_req
    then obtain x where "pf_cmdev_cm_ccontrol_req env a n = Some (x, n')" using h by (auto simp: handle_cmdev_def)
    from ccontrol_req_states [OF q d this] show ?thesis using edge_application_ready [of y] Ccontrol_req u by (auto simp: is_application_ready_def)
  next
    case (Cmio_info dp)
    then have "pf_cmdev_cmio_info_ind env a dp n = Some n'" using h by (simp add: handle_cmdev_def)
    from cmio_info_states [OF q this] show ?thesis using u d by auto
  next
    case Cm_abort
    then show ?thesis using h cm_abort_states [OF q] u by (auto simp: handle_cmdev_def)
  next
    case Cm_init
    then obtain x where "pf_cmdev_cm_init_req env a n = Some (x, n')" using h by (auto simp: handle_cmdev_def)
    from cm_init_states [OF q this] show ?thesis using u d by (auto simp: moved_def)
  qed
qed

lemma cmdev_run_needed:
  assumes q: "quiet_conn_env env a" and d: "\<not> is_device_access a n0" and s: "cmdev_state a n0 = PF_CMDEV_STATE_POWER_ON"
    and r: "cmdev_run env a n0 tr n"
  shows "\<not> is_device_access a n \<and> in_order (needed (cmdev_state a n)) tr"
  using r
proof (induction rule: cmdev_run.induct)
  case start
  then show ?case using d s by (simp add: needed_def)
next
  case (step ys m y m')
  have d': "\<not> is_device_access a m" and o': "in_order (needed (cmdev_state a m)) ys" using step.IH by simp_all
  have "in_order [is_connect] (ys @ [y])" if "is_connect y"
    using in_order_snoc [of "[]" ys is_connect y] that by simp
  then have "in_order (needed (cmdev_state a m')) (ys @ [y])" if "edge y (cmdev_state a m) (cmdev_state a m')"
    using that [unfolded edge_def] in_order_more [OF o'] in_order_snoc [OF o'] by (elim disjE exE conjE) simp_all
  then show ?case using handle_cmdev_edges [OF q d' step.hyps(2)] by blast
qed

end
