(* ===== verification/Connect_Demo.thy ===== *)
theory Connect_Demo
  imports Connect_Runs Cyclic_Props Device_Props Block_Props
begin

unbundle bit_operations_syntax

text \<open>
  A device with one submodule and a connect request that fits it, with which the properties
  of the connect request are applied.
\<close>

section \<open>The request\<close>

definition demo_fd :: pf_frame_descriptor where
  "demo_fd = \<lparr>fd_slot_number = 1, fd_subslot_number = 1, frame_offset = 0\<rparr>"

definition demo_conn_iocr :: "u16 \<Rightarrow> u16 \<Rightarrow> pf_api_entry \<Rightarrow> pf_iocr" where
  "demo_conn_iocr t fid p = (demo_iocr t)\<lparr>data_desc := replicate (PNET_MAX_API * PNET_MAX_SLOTS * PNET_MAX_SUBSLOTS) demo_desc,
     iocr_param := (iocr_param (demo_iocr t))\<lparr>frame_id := fid, nbr_apis := 1, apis := [p]\<rparr>\<rparr>"

definition demo_iocrs :: "pf_iocr list" where
  "demo_iocrs = [
     demo_conn_iocr PF_IOCR_TYPE_INPUT 0xc001 \<lparr>ae_api = 0, nbr_io_data = 1, io_data = [demo_fd], nbr_iocs = 0, iocs = []\<rparr>,
     demo_conn_iocr PF_IOCR_TYPE_OUTPUT 0xffff \<lparr>ae_api = 0, nbr_io_data = 0, io_data = [], nbr_iocs = 1, iocs = [demo_fd]\<rparr>]"

definition demo_exp_submodule :: pf_exp_submodule where
  "demo_exp_submodule = zero_exp_submodule\<lparr>es_subslot_number := 1, es_ident_number := 7, nbr_data_descriptors := 1,
     es_properties := (es_properties zero_exp_submodule)\<lparr>sp_type := SUBMOD_INPUT\<rparr>,
     data_descriptor := [\<lparr>data_direction = 1, submodule_data_length = 4, length_iops = 1, length_iocs = 1\<rparr>, zero_data_descriptor]\<rparr>"

definition demo_exp_module :: "u32 \<Rightarrow> pf_exp_module" where
  "demo_exp_module ident = zero_exp_module\<lparr>em_slot_number := 1, em_ident_number := ident, nbr_submodules := 1,
     submodule := (replicate PNET_MAX_SUBSLOTS zero_exp_submodule)[0 := demo_exp_submodule]\<rparr>"

definition demo_exp_ident :: "u32 \<Rightarrow> pf_exp_ident" where
  "demo_exp_ident ident = zero_exp_ident\<lparr>ei_nbr_apis := 1, ei_api := [zero_exp_api\<lparr>ea_valid := True, nbr_modules := 1,
     ea_module := (replicate PNET_MAX_SLOTS zero_exp_module)[0 := demo_exp_module ident]\<rparr>]\<rparr>"

definition demo_ar_param :: pf_ar_param where
  "demo_ar_param = zero_ar_param\<lparr>ar_type := 1, ar_uuid := zero_uuid\<lparr>data1 := 9\<rparr>,
     cm_initiator_object_uuid := \<lparr>data1 = 0xdea00000, data2 = 0x6c97, data3 = 0x11d1, data4 = [0x82, 0x71, 0, 1, 0, 0, 0, 0]\<rparr>,
     ar_properties := (ar_properties zero_ar_param)\<lparr>arp_state := 1, parameterization_server := 1\<rparr>,
     cm_initiator_activity_timeout_factor := 100, cm_initiator_station_name_len := 2, cm_initiator_station_name := [97, 98, 0]\<rparr>"

definition demo_alarm_cr :: pf_alarm_cr_request where
  "demo_alarm_cr = \<lparr>acr_type = 1, acr_lt_field = 0x8892, alarm_cr_properties = \<lparr>priority = False, transport_udp = False\<rparr>,
     rta_timeout_factor = 1, rta_retries = 3, local_alarm_reference = 1, max_alarm_data_length = 200,
     alarm_cr_tag_header_high = \<lparr>acr_vlan_id = 0, alarm_user_priority = 6\<rparr>,
     alarm_cr_tag_header_low = \<lparr>acr_vlan_id = 0, alarm_user_priority = 5\<rparr>\<rparr>"

section \<open>The device\<close>

definition demo_real_device :: pf_device where
  "demo_real_device = \<lparr>real_ident = [\<lparr>ra_in_use = True, ra_api_id = 0, slots = (replicate PNET_MAX_SLOTS zero_slot)[0 :=
        \<lparr>sl_in_use = True, sl_number = 1, sl_ident_number = 5, subslots = (replicate PNET_MAX_SUBSLOTS zero_subslot)[0 :=
           zero_subslot\<lparr>ss_in_use := True, ss_number := 1, ss_ident_number := 7, length_input := 4, ss_direction := PNET_DIR_INPUT,
             diag_list := PF_DIAG_IX_NULL\<rparr>]\<rparr>]\<rparr>],
     diag_items = [], diag_items_free = PF_DIAG_IX_NULL\<rparr>"

definition demo_conn_ar :: conn_ar where
  "demo_conn_ar = \<lparr>ca_in_use = True, ca_state = PF_CMDEV_STATE_POWER_ON, ca_nbr_ar_param = 1, ca_param = demo_ar_param,
     ca_iocrs = demo_iocrs, ca_nbr_alarm_cr = 1, ca_alarm_cr = demo_alarm_cr, ca_nbr_rpc_server = 0, ca_rpc_server_port = 0,
     ca_rpc_valid = False, ca_input_cr_cnt = 1, ca_output_cr_cnt = 1, ca_nbr_mcr = 0, ca_mcr_cons_cnt = 0,
     ca_ir_info_valid = False, ca_rtc3_present = False, ca_ready_4_data = False, ca_err_cls = 0, ca_err_code = 0,
     ca_result = \<lparr>cr_cm_responder_mac_add = [], cr_responder_udp_rt_port = 0, cr_iocrs = [], cr_alarm_cr_type = 0,
       cr_local_alarm_reference = 0, cr_max_alarm_data_length = 0, cr_station_name = [], cr_length_station_name = 0\<rparr>\<rparr>"

definition demo_conn_net :: "pf_exp_ident \<Rightarrow> nat conn_net" where
  "demo_conn_net x = \<lparr>cn_dev = \<lparr>d_device = demo_real_device, d_ars = [0], d_exp_ident = \<lambda>_. x, d_world = 0\<rparr>,
     cn_ar = (\<lambda>_. demo_conn_ar\<lparr>ca_in_use := False\<rparr>)(0 := demo_conn_ar)\<rparr>"

text \<open>The stack around it does nothing and succeeds; the data of the providers are set.\<close>

definition demo_conn_env :: "nat conn_env" where
  "demo_conn_env = \<lparr>ev_app = \<lparr>exp_module_ind = \<lambda>_ _ _. Some, exp_submodule_ind = \<lambda>_ _ _ _ _ _. Some\<rparr>, ev_dev = demo_dev_env,
     ev_min_device_interval = 32, ev_station_name = [97], ev_mac_address = replicate 6 2, ev_state_inds = [],
     ev_pdport_reset_all = Some, ev_pdport_ar_connect_ind = \<lambda>_. Some, ev_allocate_endpoint = \<lambda>_ n. Some (3, n),
     ev_connect_ind = \<lambda>_ st n. Some ((0, st), n), ev_release_ind = \<lambda>_ st n. Some ((0, st), n),
     ev_dcontrol_ind = \<lambda>_ st n. Some ((0, st), n), ev_ccontrol_cnf = \<lambda>_ _. Some, ev_cmsu_start_req = \<lambda>_ st n. Some ((0, st), n),
     ev_cmpbe_dcontrol_ind = \<lambda>_ _ st n. Some ((0, st), n), ev_log_book_entry = \<lambda>_ _. Some, ev_alarm_enable = \<lambda>_. Some,
     ev_fast_port_in_use = \<lambda>_. True, ev_ppm_iodata = \<lambda>_ _ _ _. Some (demo_desc\<lparr>data_avail := True\<rparr>),
     ev_cmrpc_ccontrol_req = \<lambda>_ n. Some (0, n)\<rparr>"

lemma demo_conn_quiet: "quiet_conn_env demo_conn_env a"
  by (simp add: quiet_conn_env_def demo_conn_env_def quiet_def quiet_fn_def)

definition demo_no_error :: pnet_pnio_status where
  "demo_no_error = pf_set_error 0 0 0 0"

definition demo_command :: "nat \<Rightarrow> pf_control_block" where
  "demo_command b = \<lparr>cb_ar_uuid = zero_uuid, cb_session_key = 1, control_command = push_bit b 1, control_block_properties = 0,
     alarm_sequence_number = 0\<rparr>"

definition demo_inputs :: "cmdev_input list" where
  "demo_inputs = [Cm_init, Connect demo_no_error, Dcontrol (demo_command PF_CONTROL_COMMAND_BIT_PRM_END) demo_no_error,
     Ccontrol_req, Ccontrol_cnf (demo_command PF_CONTROL_COMMAND_BIT_DONE) demo_no_error, Cmio_info True]"

lemmas demo_conn_defs = demo_conn_iocr_def demo_iocrs_def demo_iocr_def demo_fd_def demo_ar_param_def zero_ar_param_def demo_desc_def

lemma demo_ar_param_ok: "pf_cmdev_check_ar_param demo_ar_param = None"
  by code_simp

lemma demo_iocr_param_ok: "pf_cmdev_check_iocr_param 32 demo_ar_param demo_iocrs = None"
  by (simp add: pf_cmdev_check_iocr_param_def iocr_fault_defs demo_conn_defs iocr_type_defs rt_class_defs is_multicast_def
      is_rt123_def id_outside_def hold_time_def PNAL_ETHTYPE_PROFINET_def overwrite_def Let_def)

lemma demo_configured:
  "\<exists>d. pf_cmdev_exp_apis_configure (ev_app demo_conn_env) 0 demo_ar_param demo_iocrs (cn_dev (demo_conn_net (demo_exp_ident 5))) = Some (None, d) \<and>
     d_exp_ident d 0 = demo_exp_ident 5"
proof -
  have "map_option (\<lambda>(e, d). (e, d_exp_ident d 0)) (pf_cmdev_exp_apis_configure (ev_app demo_conn_env) 0 demo_ar_param demo_iocrs
      (cn_dev (demo_conn_net (demo_exp_ident 5)))) = Some (None, demo_exp_ident 5)" by code_simp
  then show ?thesis by auto
qed

lemma demo_setup: "\<exists>is. setup_all (demo_exp_ident 5) demo_iocrs = Some (0, is) \<and> pf_cmdev_check_iocr_apis (demo_exp_ident 5) is = None"
proof -
  have "map_option (\<lambda>(r, is). (r, pf_cmdev_check_iocr_apis (demo_exp_ident 5) is)) (setup_all (demo_exp_ident 5) demo_iocrs) = Some (0, None)"
    by code_simp
  then show ?thesis by auto
qed

lemma block_count_fault_upd [simp]:
  "block_count_fault (r\<lparr>ca_iocrs := is\<rparr>) = block_count_fault r" "block_count_fault (r\<lparr>ca_state := st\<rparr>) = block_count_fault r"
  by (simp_all add: block_count_fault_def Let_def)

lemma final_fault_upd [simp]:
  "final_fault (r\<lparr>ca_iocrs := is\<rparr>) = final_fault r" "final_fault (r\<lparr>ca_state := st\<rparr>) = final_fault r"
  by (simp_all add: final_fault_def cong: option.case_cong if_cong)

lemma demo_final: "final_fault demo_conn_ar = None"
  by code_simp

lemma demo_exp_wf: "exp_wf (demo_exp_ident ident)"
  by (simp add: exp_wf_def exp_api_wf_def exp_module_wf_def demo_exp_ident_def zero_exp_ident_def zero_exp_api_def demo_exp_module_def
      zero_exp_module_def demo_exp_submodule_def config_defs eval_nat_numeral)

lemma demo_ar_access: "\<not> device_access (ar_properties demo_ar_param)"
  by (simp add: demo_ar_param_def zero_ar_param_def)

text \<open>The application relation of the device.\<close>

definition demo_ready :: "pf_cmdev_state \<Rightarrow> nat conn_net \<Rightarrow> bool" where
  "demo_ready s n \<longleftrightarrow> cmdev_state 0 n = s \<and> \<not> is_device_access 0 n \<and> \<not> ca_ready_4_data (cn_ar n 0)"

lemma demo_init:
  "handle_cmdev demo_conn_env 0 Cm_init (demo_conn_net x) = Some (upd_cn_ar 0 (\<lambda>r. r\<lparr>ca_state := PF_CMDEV_STATE_W_CIND\<rparr>) (demo_conn_net x))"
  by (simp add: handle_cmdev_def pf_cmdev_cm_init_req_def demo_conn_net_def demo_conn_ar_def pf_cmdev_set_state_def Let_def)

lemma demo_accepts:
  assumes "pf_cmdev_check_apdu demo_conn_env 0 st n = Some ((0, st), m)" and "iocrs_fit m" and "\<not> is_device_access 0 m"
  shows "\<exists>n'. handle_cmdev demo_conn_env 0 (Connect st) n = Some n' \<and> demo_ready PF_CMDEV_STATE_W_PEIND n'"
proof -
  let ?m = "m\<lparr>cn_dev := set_exp_ident 0 (pf_cmdev_generate_module_diff 0 (d_device (cn_dev m))) (cn_dev m)\<rparr>"
  have "iocrs_fit ?m" using assms(2) by (simp add: iocrs_fit_def)
  from fix_frame_id_ok [OF this order_refl, of 0] obtain ks where
    "pf_cmdev_fix_frame_id 0 ?m = Some (upd_cn_ar 0 (\<lambda>r. r\<lparr>ca_iocrs := ks\<rparr>) ?m)"
    unfolding pf_cmdev_fix_frame_id_def by blast
  then show ?thesis using assms(1,3)
    by (simp add: handle_cmdev_def pf_cmdev_rm_connect_ind_def demo_conn_env_def pf_cmdev_cm_connect_rsp_pos_def pf_cmdev_set_state_def
        pf_cmdev_state_ind_def Let_def upd_cn_ar_def demo_ready_def)
qed

lemma demo_connect:
  "\<exists>n. handle_cmdev demo_conn_env 0 (Connect demo_no_error)
      (upd_cn_ar 0 (\<lambda>r. r\<lparr>ca_state := PF_CMDEV_STATE_W_CIND\<rparr>) (demo_conn_net (demo_exp_ident 5))) = Some n \<and> demo_ready PF_CMDEV_STATE_W_PEIND n"
proof -
  let ?n = "upd_cn_ar 0 (\<lambda>r. r\<lparr>ca_state := PF_CMDEV_STATE_W_CIND\<rparr>) (demo_conn_net (demo_exp_ident 5))"
  obtain d where d: "pf_cmdev_exp_apis_configure (ev_app demo_conn_env) 0 demo_ar_param demo_iocrs (cn_dev (demo_conn_net (demo_exp_ident 5))) = Some (None, d)"
    "d_exp_ident d 0 = demo_exp_ident 5" using demo_configured by blast
  obtain js where js: "setup_all (demo_exp_ident 5) demo_iocrs = Some (0, js)" "pf_cmdev_check_iocr_apis (demo_exp_ident 5) js = None"
    using demo_setup by blast
  let ?r = "demo_conn_ar\<lparr>ca_state := PF_CMDEV_STATE_W_CIND, ca_iocrs := js\<rparr>"
  let ?m = "upd_cn_ar 0 (\<lambda>_. ?r) (?n\<lparr>cn_dev := d\<rparr>)"
  have ar: "cn_ar ?n 0 = demo_conn_ar\<lparr>ca_state := PF_CMDEV_STATE_W_CIND\<rparr>" "cn_dev ?n = cn_dev (demo_conn_net (demo_exp_ident 5))"
    by (simp_all add: upd_cn_ar_def demo_conn_net_def)
  have c: "ca_nbr_ar_param demo_conn_ar = 1" "ca_param demo_conn_ar = demo_ar_param" "ca_iocrs demo_conn_ar = demo_iocrs" "ca_nbr_rpc_server demo_conn_ar = 0"
    by (simp_all add: demo_conn_ar_def)
  have e: "ev_min_device_interval demo_conn_env = 32" by (simp add: demo_conn_env_def)
  have "pf_cmdev_check_apdu demo_conn_env 0 demo_no_error ?n = Some ((0, demo_no_error), ?m)"
    unfolding pf_cmdev_check_apdu_def Let_def ar
    by (simp add: c e demo_ar_param_ok demo_iocr_param_ok d js) (simp add: demo_final c demo_conn_net_def upd_cn_ar_def)
  moreover have "length js = 2"
    using setup_all_ok [of "demo_exp_ident 5" demo_iocrs] js(1) demo_exp_wf by (simp add: demo_iocrs_def demo_conn_iocr_def)
  then have "iocrs_fit ?m" by (simp add: iocrs_fit_def upd_cn_ar_def demo_conn_net_def demo_conn_ar_def demo_iocrs_def config_defs)
  moreover have "\<not> is_device_access 0 ?m" by (simp add: upd_cn_ar_def c demo_ar_access)
  ultimately show ?thesis by (rule demo_accepts)
qed

lemma demo_control:
  assumes "demo_ready PF_CMDEV_STATE_W_PEIND n"
  shows "\<exists>n'. handle_cmdev demo_conn_env 0 (Dcontrol (demo_command PF_CONTROL_COMMAND_BIT_PRM_END) st) n = Some n' \<and> demo_ready PF_CMDEV_STATE_W_ARDY n'"
  using assms
  by (simp add: handle_cmdev_def pf_cmdev_rm_dcontrol_ind_def dcontrol_prm_end_def demo_command_def demo_ready_def demo_conn_env_def
      pf_cmdev_set_state_def Let_def pf_cmdev_check_pdev_def upd_cn_ar_def)

lemma demo_application_ready:
  assumes "demo_ready PF_CMDEV_STATE_W_ARDY n"
  shows "\<exists>n'. handle_cmdev demo_conn_env 0 Ccontrol_req n = Some n' \<and> demo_ready PF_CMDEV_STATE_W_ARDYCNF n'"
  using assms
  by (simp add: handle_cmdev_def pf_cmdev_cm_ccontrol_req_def all_data_set_def demo_ready_def demo_conn_env_def
      pf_cmdev_state_ind_def pf_cmdev_set_state_def Let_def upd_cn_ar_def)

lemma demo_confirmation:
  assumes "demo_ready PF_CMDEV_STATE_W_ARDYCNF n"
  shows "\<exists>n'. handle_cmdev demo_conn_env 0 (Ccontrol_cnf (demo_command PF_CONTROL_COMMAND_BIT_DONE) demo_no_error) n = Some n' \<and>
    demo_ready PF_CMDEV_STATE_WDATA n'"
  using assms
  by (simp add: handle_cmdev_def pf_cmdev_rm_ccontrol_cnf_def demo_no_error_def pf_set_error_def no_error_def demo_command_def
      demo_ready_def demo_conn_env_def pf_cmdev_set_state_def Let_def upd_cn_ar_def)

lemma demo_data:
  assumes "demo_ready PF_CMDEV_STATE_WDATA n"
  shows "\<exists>n'. handle_cmdev demo_conn_env 0 (Cmio_info True) n = Some n' \<and> cmdev_state 0 n' = PF_CMDEV_STATE_DATA"
  using assms
  by (simp add: handle_cmdev_def pf_cmdev_cmio_info_ind_def pf_cmdev_state_ind_def demo_ready_def demo_conn_env_def
      pf_cmdev_set_state_def Let_def upd_cn_ar_def)

lemma cmdev_run_append: "cmdev_run env a n0 ys n \<Longrightarrow> fold_option (handle_cmdev env a) zs n = Some n' \<Longrightarrow> cmdev_run env a n0 (ys @ zs) n'"
proof (induction zs arbitrary: ys n)
  case (Cons z zs)
  then obtain m where m: "handle_cmdev env a z n = Some m" "fold_option (handle_cmdev env a) zs m = Some n'" by (auto split: bind_splits)
  from Cons.IH [OF cmdev_run.step [OF Cons.prems(1) m(1)] m(2)] show ?case by simp
qed simp

lemma demo_exchange:
  "\<exists>n. cmdev_run demo_conn_env 0 (demo_conn_net (demo_exp_ident 5)) demo_inputs n \<and> cmdev_state 0 n = PF_CMDEV_STATE_DATA"
proof -
  obtain n1 where 1: "handle_cmdev demo_conn_env 0 (Connect demo_no_error)
      (upd_cn_ar 0 (\<lambda>r. r\<lparr>ca_state := PF_CMDEV_STATE_W_CIND\<rparr>) (demo_conn_net (demo_exp_ident 5))) = Some n1"
      "demo_ready PF_CMDEV_STATE_W_PEIND n1" using demo_connect by blast
  obtain n2 where 2: "handle_cmdev demo_conn_env 0 (Dcontrol (demo_command PF_CONTROL_COMMAND_BIT_PRM_END) demo_no_error) n1 = Some n2"
      "demo_ready PF_CMDEV_STATE_W_ARDY n2" using demo_control [OF 1(2)] by blast
  obtain n3 where 3: "handle_cmdev demo_conn_env 0 Ccontrol_req n2 = Some n3" "demo_ready PF_CMDEV_STATE_W_ARDYCNF n3"
    using demo_application_ready [OF 2(2)] by blast
  obtain n4 where 4: "handle_cmdev demo_conn_env 0 (Ccontrol_cnf (demo_command PF_CONTROL_COMMAND_BIT_DONE) demo_no_error) n3 = Some n4"
      "demo_ready PF_CMDEV_STATE_WDATA n4" using demo_confirmation [OF 3(2)] by blast
  obtain n5 where 5: "handle_cmdev demo_conn_env 0 (Cmio_info True) n4 = Some n5" "cmdev_state 0 n5 = PF_CMDEV_STATE_DATA"
    using demo_data [OF 4(2)] by blast
  have "fold_option (handle_cmdev demo_conn_env 0) demo_inputs (demo_conn_net (demo_exp_ident 5)) = Some n5"
    by (simp add: demo_inputs_def demo_init 1 2 3 4 5)
  from cmdev_run_append [OF cmdev_run.start this] 5(2) show ?thesis by auto
qed

end
