(* ===== verification/Connect_Props.thy ===== *)
theory Connect_Props
  imports Connect_Demo
begin

unbundle bit_operations_syntax

text \<open>The properties of the connect request and of the state machine of an AR (pf_cmdev.c).\<close>

section \<open>The order of the requests\<close>



section \<open>The frames\<close>





section \<open>Faults of the request\<close>

text \<open>
  Limits the check of an IOCR does not have. The length of the process data is not looked
  at in the RT classes 2, 3 and stream; and the data hold time is computed with 32 bits, so that
  a time of more than two minutes, far over the limit of 1.92 seconds, passes.
\<close>

theorem connect_limits_missing:
  "(\<forall>m ar p len. rt_class (iocr_properties p) \<in> {PF_RT_CLASS_2, PF_RT_CLASS_3, PF_RT_CLASS_STREAM} \<longrightarrow>
      iocr_param_fault m ar (p\<lparr>c_sdu_length := len\<rparr>) = iocr_param_fault m ar p) \<and>
   (let p = (iocr_param (demo_conn_iocr PF_IOCR_TYPE_INPUT 0xc001 \<lparr>ae_api = 0, nbr_io_data = 0, io_data = [], nbr_iocs = 0, iocs = []\<rparr>))
        \<lparr>reduction_ratio := 512, data_hold_factor := 263\<rparr>
    in iocr_param_fault 32 demo_ar_param p = None \<and>
       unat (data_hold_factor p) * unat (reduction_ratio p) * unat (send_clock_factor p) * 1000 div 32 > 70 * 1920000)"
proof -
  have "iocr_param_fault m ar (p\<lparr>c_sdu_length := len\<rparr>) = iocr_param_fault m ar p"
    if "rt_class (iocr_properties p) \<in> {PF_RT_CLASS_2, PF_RT_CLASS_3, PF_RT_CLASS_STREAM}" for m ar p len
    using that by (elim insertE emptyE) (simp_all add: iocr_fault_defs is_multicast_def is_rt123_def hold_time_def rt_class_defs Let_def
        del: first_fault_simps)
  moreover have "iocr_param_fault 32 demo_ar_param ((iocr_param (demo_conn_iocr PF_IOCR_TYPE_INPUT 0xc001
      \<lparr>ae_api = 0, nbr_io_data = 0, io_data = [], nbr_iocs = 0, iocs = []\<rparr>))\<lparr>reduction_ratio := 512, data_hold_factor := 263\<rparr>) = None"
    by (simp add: iocr_fault_defs demo_conn_defs iocr_type_defs rt_class_defs is_multicast_def
      is_rt123_def id_outside_def hold_time_def PNAL_ETHTYPE_PROFINET_def Let_def)
  ultimately show ?thesis unfolding Let_def by (intro conjI allI impI) (assumption | simp add: demo_conn_defs)+
qed

lemma connect_limits_missing_witness:
  "iocr_param_fault 32 demo_ar_param ((iocr_param (demo_iocr PF_IOCR_TYPE_INPUT))
     \<lparr>iocr_properties := \<lparr>rt_class = 2, reserved_1 = 0, reserved_2 = 0, reserved_3 = 0\<rparr>, nbr_apis := 1, c_sdu_length := 65535\<rparr>) = None"
proof -
  let ?p = "(iocr_param (demo_iocr PF_IOCR_TYPE_INPUT))
     \<lparr>iocr_properties := \<lparr>rt_class = 2, reserved_1 = 0, reserved_2 = 0, reserved_3 = 0\<rparr>, nbr_apis := 1\<rparr>"
  have "iocr_param_fault 32 demo_ar_param ?p = None"
    by (simp add: iocr_fault_defs demo_conn_defs iocr_type_defs rt_class_defs is_multicast_def
      is_rt123_def id_outside_def hold_time_def PNAL_ETHTYPE_PROFINET_def Let_def)
  moreover have "rt_class (iocr_properties ?p) \<in> {PF_RT_CLASS_2, PF_RT_CLASS_3, PF_RT_CLASS_STREAM}" by (simp add: rt_class_defs)
  ultimately show ?thesis using conjunct1 [OF connect_limits_missing, rule_format, of ?p 32 demo_ar_param 65535] by simp
qed

text \<open>
  An IOCS for a submodule that the request does not expect makes the request fail without an
  error in the PNIO status: the result is 0 and the status is the one the request came with, as
  for a request that is accepted, while the machine waits for the next connect request.
\<close>

theorem connect_unexpected_iocs_accepted:
  assumes "ca_nbr_ar_param (cn_ar n a) \<noteq> 0" and "pf_cmdev_check_ar_param (ca_param (cn_ar n a)) = None"
    and "pf_cmdev_check_iocr_param (ev_min_device_interval env) (ca_param (cn_ar n a)) (ca_iocrs (cn_ar n a)) = None"
    and "pf_cmdev_exp_apis_configure (ev_app env) a (ca_param (cn_ar n a)) (ca_iocrs (cn_ar n a)) (cn_dev n) = Some (None, d)"
    and "exp_wf (d_exp_ident d a)"
    and "\<forall>i \<in> set (ca_iocrs (cn_ar n a)). length (data_desc i) = PNET_MAX_API * PNET_MAX_SLOTS * PNET_MAX_SUBSLOTS"
    and "i \<in> set (ca_iocrs (cn_ar n a))" and "iocs_unexpected (d_exp_ident d a) i"
    and "\<And>m. ev_log_book_entry env a st m \<noteq> None"
  shows "\<exists>n'. pf_cmdev_rm_connect_ind env a st n = Some ((0, st), n') \<and> cmdev_state a n' = PF_CMDEV_STATE_W_CIND"
proof -
  obtain r js where js: "setup_all (d_exp_ident d a) (ca_iocrs (cn_ar n a)) = Some (r, js)" using setup_all_ok [OF assms(5,6)] by blast
  then have "r \<noteq> 0" using setup_all_unexpected assms(7,8) by blast
  then obtain m where m: "pf_cmdev_check_apdu env a st n = Some ((-1, st), m)"
    using js assms(1-4) by (simp add: pf_cmdev_check_apdu_def Let_def upd_cn_ar_def)
  obtain m' where "(if \<not> is_device_access a m then ev_log_book_entry env a st m else Some m) = Some m'"
    using assms(9) [of m] by (cases "is_device_access a m") auto
  then show ?thesis using m
    by (simp add: pf_cmdev_rm_connect_ind_def pf_cmdev_cm_connect_rsp_neg_def pf_cmdev_set_state_def Let_def upd_cn_ar_def)
qed

definition demo_bad_iocrs :: "pf_iocr list" where
  "demo_bad_iocrs = [demo_iocrs ! 0, demo_conn_iocr PF_IOCR_TYPE_OUTPUT 0xffff
     \<lparr>ae_api = 0, nbr_io_data = 0, io_data = [], nbr_iocs = 2, iocs = [demo_fd, demo_fd\<lparr>fd_slot_number := 9\<rparr>]\<rparr>]"

definition demo_bad_net :: "nat conn_net" where
  "demo_bad_net = upd_cn_ar 0 (\<lambda>r. r\<lparr>ca_iocrs := demo_bad_iocrs, ca_state := PF_CMDEV_STATE_W_CIND\<rparr>) (demo_conn_net (demo_exp_ident 5))"

lemma demo_bad_configured:
  "\<exists>d. pf_cmdev_exp_apis_configure (ev_app demo_conn_env) 0 demo_ar_param demo_bad_iocrs (cn_dev (demo_conn_net (demo_exp_ident 5))) = Some (None, d) \<and>
     d_exp_ident d 0 = demo_exp_ident 5"
proof -
  have "map_option (\<lambda>(e, d). (e, d_exp_ident d 0)) (pf_cmdev_exp_apis_configure (ev_app demo_conn_env) 0 demo_ar_param demo_bad_iocrs
      (cn_dev (demo_conn_net (demo_exp_ident 5)))) = Some (None, demo_exp_ident 5)" by code_simp
  then show ?thesis by auto
qed

lemma connect_unexpected_iocs_accepted_witness:
  "\<exists>n'. pf_cmdev_rm_connect_ind demo_conn_env 0 demo_no_error demo_bad_net = Some ((0, demo_no_error), n') \<and>
     cmdev_state 0 n' = PF_CMDEV_STATE_W_CIND"
proof -
  have ar: "ca_nbr_ar_param (cn_ar demo_bad_net 0) = 1" "ca_param (cn_ar demo_bad_net 0) = demo_ar_param"
      "ca_iocrs (cn_ar demo_bad_net 0) = demo_bad_iocrs" "cn_dev demo_bad_net = cn_dev (demo_conn_net (demo_exp_ident 5))"
    by (simp_all add: demo_bad_net_def upd_cn_ar_def demo_conn_net_def demo_conn_ar_def)
  have e: "ev_min_device_interval demo_conn_env = 32" by (simp add: demo_conn_env_def)
  have p: "pf_cmdev_check_iocr_param 32 demo_ar_param demo_bad_iocrs = None"
    by (simp add: pf_cmdev_check_iocr_param_def iocr_fault_defs demo_bad_iocrs_def demo_conn_defs iocr_type_defs rt_class_defs
        is_multicast_def is_rt123_def id_outside_def hold_time_def PNAL_ETHTYPE_PROFINET_def overwrite_def Let_def)
  obtain d where d: "pf_cmdev_exp_apis_configure (ev_app demo_conn_env) 0 demo_ar_param demo_bad_iocrs
      (cn_dev (demo_conn_net (demo_exp_ident 5))) = Some (None, d)" "d_exp_ident d 0 = demo_exp_ident 5" using demo_bad_configured by blast
  have l: "\<forall>i \<in> set demo_bad_iocrs. length (data_desc i) = PNET_MAX_API * PNET_MAX_SLOTS * PNET_MAX_SUBSLOTS"
    by (simp add: demo_bad_iocrs_def demo_iocrs_def demo_conn_iocr_def)
  have b: "demo_bad_iocrs ! 1 \<in> set demo_bad_iocrs" by (simp add: demo_bad_iocrs_def)
  have x: "iocs_unexpected (demo_exp_ident 5) (demo_bad_iocrs ! 1)" by code_simp
  show ?thesis
    by (rule connect_unexpected_iocs_accepted [where d = d and i = "demo_bad_iocrs ! 1"], simp_all only: ar e p d b x demo_exp_wf demo_ar_param_ok)
      (simp, rule l, simp add: demo_conn_env_def)
qed



end
