(* ===== verification/Rpc_Epm.thy ===== *)
theory Rpc_Epm
  imports Block_Writer_Records
begin

unbundle bit_operations_syntax

text \<open>
  The endpoint mapper (src/device/pf_cmrpc_epm.c) with the writer of its answers
  (src/device/pf_block_writer.c). A lookup asks for the registered interfaces one at a time: the
  mapper itself first, then, with the handle of the first answer, the device.
\<close>

section \<open>The answer\<close>

definition PF_RPC_TOWER_REFERENTID :: u32 where "PF_RPC_TOWER_REFERENTID = 3"
definition PF_RPC_TOWER_FLOOR_COUNT :: u16 where "PF_RPC_TOWER_FLOOR_COUNT = 5"
definition PF_RPC_FLOOR_VERSION_EPMv4 :: u16 where "PF_RPC_FLOOR_VERSION_EPMv4 = 3"
definition PF_RPC_FLOOR_VERSION_NPR :: u16 where "PF_RPC_FLOOR_VERSION_NPR = 2"
definition PF_RPC_FLOOR_VERSION_PNIO :: u16 where "PF_RPC_FLOOR_VERSION_PNIO = 1"
definition PF_RPC_FLOOR_VERSION_MINOR :: u16 where "PF_RPC_FLOOR_VERSION_MINOR = 0"
definition PF_RPC_EPM_ANNOTATION_OFFSET :: u32 where "PF_RPC_EPM_ANNOTATION_OFFSET = 0"
definition PF_RPC_EPM_ANNOTATION_LENGTH :: nat where "PF_RPC_EPM_ANNOTATION_LENGTH = 64"
definition PF_RPC_EPM_FLOOR_LENGTH :: u32 where "PF_RPC_EPM_FLOOR_LENGTH = 75"
definition PF_RPC_PROTOCOL_DOD_UDP :: u8 where "PF_RPC_PROTOCOL_DOD_UDP = 0x08"
definition PF_RPC_PROTOCOL_DOD_IP :: u8 where "PF_RPC_PROTOCOL_DOD_IP = 0x09"
definition PF_RPC_PROTOCOL_CONNECTIONLESS :: u8 where "PF_RPC_PROTOCOL_CONNECTIONLESS = 0x0a"
definition PF_RPC_PROTOCOL_UUID :: u8 where "PF_RPC_PROTOCOL_UUID = 0x0d"
definition PF_RPC_INQUIRY_READ_ALL_REGISTERED_INTERFACES :: u32 where
  "PF_RPC_INQUIRY_READ_ALL_REGISTERED_INTERFACES = 0"
definition PF_RPC_OK :: u32 where "PF_RPC_OK = 0"
definition PF_RPC_NOT_REGISTERED :: u32 where "PF_RPC_NOT_REGISTERED = 0x16c9a0d6"

record pf_floor_uuid =
  fl_protocol_id :: u8
  fl_uuid :: pf_rpc_uuid_type
  fl_version_major :: u16
  fl_version_minor :: u16

record pf_rpc_tower =
  floor_1 :: pf_floor_uuid
  floor_2 :: pf_floor_uuid
  floor_3_protocol_id :: u8
  floor_3_version_minor :: u16
  floor_4_protocol_id :: u8
  floor_4_port :: u16
  floor_5_protocol_id :: u8
  floor_5_ip_address :: u32

record pf_rpc_entry =
  en_max_count :: u32
  en_offset :: u32
  en_actual_count :: u32
  en_object_uuid :: pf_rpc_uuid_type
  en_tower :: pf_rpc_tower

record pf_rpc_lookup_rsp =
  rsp_handle :: pf_rpc_handle
  rsp_num_entry :: u32
  rsp_entry :: pf_rpc_entry
  rsp_return_code :: u32

text \<open>The configuration that the answers show.\<close>

record epm_cfg =
  ec_product_name :: "u8 list"
  ec_im_0 :: pnet_im_0
  ec_vendor_id_hi :: u8
  ec_vendor_id_lo :: u8
  ec_device_id_hi :: u8
  ec_device_id_lo :: u8

section \<open>Writing the answer\<close>

definition pf_put_rpc_floor_count :: "bool \<Rightarrow> u16 \<Rightarrow> unit wr" where
  "pf_put_rpc_floor_count be count = pf_put_uint16 be count"

definition pf_put_rpc_floor_1_uuid :: "bool \<Rightarrow> pf_floor_uuid \<Rightarrow> unit wr" where
  "pf_put_rpc_floor_1_uuid be f = do {
     pf_put_uint16 be (1 + 16 + 2);
     pf_put_byte (fl_protocol_id f);
     pf_put_rpc_uuid be (fl_uuid f);
     pf_put_uint16 be (fl_version_major f);
     pf_put_uint16 be 2;
     pf_put_uint16 be (fl_version_minor f)
   }"

definition pf_put_rpc_floor_2_uuid :: "bool \<Rightarrow> pf_floor_uuid \<Rightarrow> unit wr" where
  "pf_put_rpc_floor_2_uuid be f = pf_put_rpc_floor_1_uuid be f"

definition pf_put_rpc_floor_3_rpc :: "bool \<Rightarrow> pf_rpc_tower \<Rightarrow> unit wr" where
  "pf_put_rpc_floor_3_rpc be t = do {
     pf_put_uint16 be 1;
     pf_put_byte (floor_3_protocol_id t);
     pf_put_uint16 be 2;
     pf_put_uint16 be (floor_3_version_minor t)
   }"

definition pf_put_rpc_floor_4_udp :: "bool \<Rightarrow> pf_rpc_tower \<Rightarrow> unit wr" where
  "pf_put_rpc_floor_4_udp be t = do {
     pf_put_uint16 be 1;
     pf_put_byte (floor_4_protocol_id t);
     pf_put_uint16 be 2;
     pf_put_uint16 be (floor_4_port t)
   }"

definition pf_put_rpc_floor_5_ip :: "bool \<Rightarrow> pf_rpc_tower \<Rightarrow> unit wr" where
  "pf_put_rpc_floor_5_ip be t = do {
     pf_put_uint16 be 1;
     pf_put_byte (floor_5_protocol_id t);
     pf_put_uint16 be 4;
     pf_put_uint32 be (floor_5_ip_address t)
   }"

text \<open>The conversions of the format string: decimal, padded on the left or on the right.\<close>

fun decimal :: "nat \<Rightarrow> u8 list" where
  "decimal n = (if n < 10 then [of_nat (48 + n)] else decimal (n div 10) @ [of_nat (48 + n mod 10)])"

declare decimal.simps [simp del]

definition pad_left :: "nat \<Rightarrow> u8 list \<Rightarrow> u8 list" where
  "pad_left k xs = replicate (k - length xs) 32 @ xs"

definition pad_right :: "nat \<Rightarrow> u8 list \<Rightarrow> u8 list" where
  "pad_right k xs = xs @ replicate (k - length xs) 32"

definition PNET_PRODUCT_NAME_MAX_LEN :: nat where "PNET_PRODUCT_NAME_MAX_LEN = 25"
definition PNET_ORDER_ID_MAX_LEN :: nat where "PNET_ORDER_ID_MAX_LEN = 20"

definition annotation :: "epm_cfg \<Rightarrow> u8 list" where
  "annotation c = (let im = ec_im_0 c in
     pad_right PNET_PRODUCT_NAME_MAX_LEN (takeWhile (\<lambda>x. x \<noteq> 0) (ec_product_name c)) @ [32] @
     pad_right PNET_ORDER_ID_MAX_LEN (takeWhile (\<lambda>x. x \<noteq> 0) (im_order_id im)) @ [32] @
     pad_left 5 (decimal (unat (im_hardware_revision im))) @ [32, im_sw_revision_prefix im] @
     pad_left 3 (decimal (unat (im_sw_revision_functional_enhancement im))) @
     pad_left 3 (decimal (unat (im_sw_revision_bug_fix im))) @
     pad_left 3 (decimal (unat (im_sw_revision_internal_change im))))"

definition pf_put_rpc_epm_annotation :: "epm_cfg \<Rightarrow> unit wr" where
  "pf_put_rpc_epm_annotation c =
     pf_put_mem (take (PF_RPC_EPM_ANNOTATION_LENGTH - 1) (annotation c) @ [0]) PF_RPC_EPM_ANNOTATION_LENGTH"

definition pf_put_tower_entry :: "bool \<Rightarrow> epm_cfg \<Rightarrow> pf_rpc_tower \<Rightarrow> unit wr" where
  "pf_put_tower_entry be c t = do {
     pf_put_uint32 be PF_RPC_TOWER_REFERENTID;
     pf_put_uint32 be PF_RPC_EPM_ANNOTATION_OFFSET;
     pf_put_uint32 be (of_nat PF_RPC_EPM_ANNOTATION_LENGTH);
     pf_put_rpc_epm_annotation c;
     pf_put_uint32 be PF_RPC_EPM_FLOOR_LENGTH;
     pf_put_uint32 be PF_RPC_EPM_FLOOR_LENGTH;
     pf_put_rpc_floor_count be PF_RPC_TOWER_FLOOR_COUNT;
     pf_put_rpc_floor_1_uuid be (floor_1 t);
     pf_put_rpc_floor_2_uuid be (floor_2 t);
     pf_put_rpc_floor_3_rpc be t;
     pf_put_rpc_floor_4_udp be t;
     pf_put_rpc_floor_5_ip be t
   }"

definition pf_put_rpc_handle :: "bool \<Rightarrow> pf_rpc_handle \<Rightarrow> unit wr" where
  "pf_put_rpc_handle be h = do {
     pf_put_uint32 be (rpc_entry_handle h);
     pf_put_rpc_uuid be (handle_uuid h)
   }"

definition pf_put_rpc_epm_entry :: "bool \<Rightarrow> epm_cfg \<Rightarrow> pf_rpc_entry \<Rightarrow> unit wr" where
  "pf_put_rpc_epm_entry be c e = do {
     pf_put_uint32 be (en_max_count e);
     pf_put_uint32 be (en_offset e);
     pf_put_uint32 be (en_actual_count e);
     (if en_actual_count e > 0 then do {
        pf_put_rpc_uuid be (en_object_uuid e);
        pf_put_tower_entry be c (en_tower e)
      } else State_Monad.return ())
   }"

definition pf_put_lookup_response_data :: "bool \<Rightarrow> epm_cfg \<Rightarrow> pf_rpc_lookup_rsp \<Rightarrow> wstate \<Rightarrow> wstate option" where
  "pf_put_lookup_response_data be c r w = (let block_position = w_pos w in do {
     w \<leftarrow> exec (do {
       pf_put_rpc_handle be (rsp_handle r);
       pf_put_uint32 be (rsp_num_entry r);
       pf_put_rpc_epm_entry be c (rsp_entry r)
     }) w;
     w \<leftarrow> pf_put_padding_align block_position 2 w;
     exec (pf_put_uint32 be (rsp_return_code r)) w
   })"

section \<open>The lookup\<close>

definition zero_rpc_uuid :: pf_rpc_uuid_type where
  "zero_rpc_uuid = \<lparr>time_low = 0, time_mid = 0, time_hi_and_version = 0, clock_hi_and_reserved = 0, clock_low = 0,
     node = replicate 6 0\<rparr>"

definition epm_interface :: pf_rpc_uuid_type where
  "epm_interface = \<lparr>time_low = 0xE1AF8308, time_mid = 0x5D1F, time_hi_and_version = 0x11C9,
     clock_hi_and_reserved = 0x91, clock_low = 0xA4, node = [0x08, 0x00, 0x2B, 0x14, 0xA0, 0xFA]\<rparr>"

definition epm_io_device_interface :: pf_rpc_uuid_type where
  "epm_io_device_interface = \<lparr>time_low = 0xDEA00001, time_mid = 0x6C97, time_hi_and_version = 0x11D1,
     clock_hi_and_reserved = 0x82, clock_low = 0x71, node = [0x00, 0xA0, 0x24, 0x42, 0xDF, 0x7D]\<rparr>"

definition uuid_io_object_instance :: pf_rpc_uuid_type where
  "uuid_io_object_instance = \<lparr>time_low = 0xDEA00000, time_mid = 0x6C97, time_hi_and_version = 0x11D1,
     clock_hi_and_reserved = 0x82, clock_low = 0x71, node = replicate 6 0\<rparr>"

definition uuid_ndr :: pf_rpc_uuid_type where
  "uuid_ndr = \<lparr>time_low = 0x8A885D04, time_mid = 0x1CEB, time_hi_and_version = 0x11C9,
     clock_hi_and_reserved = 0x9F, clock_low = 0xE8, node = [0x08, 0x00, 0x2B, 0x10, 0x48, 0x60]\<rparr>"

text \<open>The fields of the time have 16 bits but for the first, so the masked upper bits are lost.\<close>

definition pf_generate_epm_handle :: "u32 \<Rightarrow> u8 list \<Rightarrow> pf_rpc_handle" where
  "pf_generate_epm_handle timestamp mac =
     \<lparr>rpc_entry_handle = 0, handle_uuid = \<lparr>time_low = timestamp AND 0x0000FFFF,
        time_mid = ucast (timestamp AND 0x00FF0000), time_hi_and_version = ucast ((timestamp AND 0xFF000000) OR 0x1000),
        clock_hi_and_reserved = 0x80, clock_low = 0x0C, node = take 6 mac\<rparr>\<rparr>"

datatype pf_rpc_epm_type = PF_EPM_TYPE_EPMV4 | PF_EPM_TYPE_PNIO

text \<open>The two bytes of a port change places on a host of little endian order.\<close>

definition htons :: "u16 \<Rightarrow> u16" where
  "htons p = push_bit 8 p OR drop_bit 8 p"

definition pf_init_rpc_tower_entry :: "pf_rpc_epm_type \<Rightarrow> u16 \<Rightarrow> pf_rpc_tower" where
  "pf_init_rpc_tower_entry epm_type udp_port =
     \<lparr>floor_1 = \<lparr>fl_protocol_id = PF_RPC_PROTOCOL_UUID,
         fl_uuid = (if epm_type = PF_EPM_TYPE_EPMV4 then epm_interface else epm_io_device_interface),
         fl_version_major = (if epm_type = PF_EPM_TYPE_EPMV4 then PF_RPC_FLOOR_VERSION_EPMv4 else PF_RPC_FLOOR_VERSION_PNIO),
         fl_version_minor = PF_RPC_FLOOR_VERSION_MINOR\<rparr>,
      floor_2 = \<lparr>fl_protocol_id = PF_RPC_PROTOCOL_UUID, fl_uuid = uuid_ndr,
         fl_version_major = PF_RPC_FLOOR_VERSION_NPR, fl_version_minor = PF_RPC_FLOOR_VERSION_MINOR\<rparr>,
      floor_3_protocol_id = PF_RPC_PROTOCOL_CONNECTIONLESS, floor_3_version_minor = PF_RPC_FLOOR_VERSION_MINOR,
      floor_4_protocol_id = PF_RPC_PROTOCOL_DOD_UDP, floor_4_port = htons udp_port,
      floor_5_protocol_id = PF_RPC_PROTOCOL_DOD_IP, floor_5_ip_address = 0\<rparr>"

definition zero_floor :: pf_floor_uuid where
  "zero_floor = \<lparr>fl_protocol_id = 0, fl_uuid = zero_rpc_uuid, fl_version_major = 0, fl_version_minor = 0\<rparr>"

definition empty_rsp :: pf_rpc_lookup_rsp where
  "empty_rsp = \<lparr>rsp_handle = \<lparr>rpc_entry_handle = 0, handle_uuid = zero_rpc_uuid\<rparr>, rsp_num_entry = 0,
     rsp_entry = \<lparr>en_max_count = 1, en_offset = 0, en_actual_count = 0, en_object_uuid = zero_rpc_uuid,
       en_tower = \<lparr>floor_1 = zero_floor, floor_2 = zero_floor, floor_3_protocol_id = 0, floor_3_version_minor = 0,
         floor_4_protocol_id = 0, floor_4_port = 0, floor_5_protocol_id = 0, floor_5_ip_address = 0\<rparr>\<rparr>,
     rsp_return_code = PF_RPC_NOT_REGISTERED\<rparr>"

definition pf_cmrdr_add_epmv4_entry :: "u32 \<Rightarrow> u8 list \<Rightarrow> u16 \<Rightarrow> pf_rpc_lookup_rsp \<Rightarrow> pf_rpc_lookup_rsp" where
  "pf_cmrdr_add_epmv4_entry now mac server_port r = (let e = rsp_entry r in
     r\<lparr>rsp_handle := pf_generate_epm_handle now mac, rsp_num_entry := rsp_num_entry r + 1,
       rsp_entry := e\<lparr>en_object_uuid := zero_rpc_uuid, en_offset := 0, en_actual_count := en_actual_count e + 1,
         en_max_count := en_actual_count e + 1, en_tower := pf_init_rpc_tower_entry PF_EPM_TYPE_EPMV4 server_port\<rparr>,
       rsp_return_code := PF_RPC_OK\<rparr>)"

definition pf_cmrdr_add_pnio_entry :: "epm_cfg \<Rightarrow> u32 \<Rightarrow> u8 list \<Rightarrow> u16 \<Rightarrow> pf_rpc_lookup_rsp \<Rightarrow> pf_rpc_lookup_rsp" where
  "pf_cmrdr_add_pnio_entry c now mac udp_port r = (let e = rsp_entry r in
     r\<lparr>rsp_handle := pf_generate_epm_handle now mac, rsp_num_entry := rsp_num_entry r + 1,
       rsp_entry := e\<lparr>en_actual_count := en_actual_count e + 1, en_offset := 0,
         en_object_uuid := uuid_io_object_instance\<lparr>node := [0, 1, ec_device_id_hi c, ec_device_id_lo c,
           ec_vendor_id_hi c, ec_vendor_id_lo c]\<rparr>,
         en_tower := pf_init_rpc_tower_entry PF_EPM_TYPE_PNIO udp_port\<rparr>,
       rsp_return_code := PF_RPC_OK\<rparr>)"

text \<open>Sixteen of the twenty bytes of the handle are compared.\<close>

definition null_handle :: "pf_rpc_handle \<Rightarrow> bool" where
  "null_handle h \<longleftrightarrow> rpc_entry_handle h = 0 \<and> (let u = handle_uuid h in time_low u = 0 \<and> time_mid u = 0 \<and>
     time_hi_and_version u = 0 \<and> clock_hi_and_reserved u = 0 \<and> clock_low u = 0 \<and> take 2 (node u) = [0, 0])"

definition pf_cmrdr_inquiry_read_all_reg_ind ::
    "epm_cfg \<Rightarrow> u32 \<Rightarrow> u8 list \<Rightarrow> u16 \<Rightarrow> u16 \<Rightarrow> u32 \<Rightarrow> pf_rpc_lookup_req \<Rightarrow> pf_rpc_lookup_rsp \<Rightarrow> pf_rpc_lookup_rsp" where
  "pf_cmrdr_inquiry_read_all_reg_ind c now mac server_port udp_port seq q r =
     (if seq = 0 \<and> null_handle (rpc_handle q) then pf_cmrdr_add_epmv4_entry now mac server_port r
      else if seq = 1 \<and> \<not> null_handle (rpc_handle q) then pf_cmrdr_add_pnio_entry c now mac udp_port r
      else r)"

definition lookup_rsp_of ::
    "epm_cfg \<Rightarrow> u32 \<Rightarrow> u8 list \<Rightarrow> u16 \<Rightarrow> u16 \<Rightarrow> u32 \<Rightarrow> pf_rpc_lookup_req \<Rightarrow> pf_rpc_lookup_rsp" where
  "lookup_rsp_of c now mac server_port udp_port seq q =
     (if max_entries q > 0 \<and> inquiry_type q = PF_RPC_INQUIRY_READ_ALL_REGISTERED_INTERFACES
      then pf_cmrdr_inquiry_read_all_reg_ind c now mac server_port udp_port seq q empty_rsp else empty_rsp)"

definition pf_cmrpc_lookup_request ::
    "epm_cfg \<Rightarrow> u32 \<Rightarrow> u8 list \<Rightarrow> u16 \<Rightarrow> u16 \<Rightarrow> u32 \<Rightarrow> pf_rpc_lookup_req \<Rightarrow> wstate \<Rightarrow> (int \<times> wstate) option" where
  "pf_cmrpc_lookup_request c now mac server_port udp_port seq q w =
     map_option (Pair 0) (pf_put_lookup_response_data False c (lookup_rsp_of c now mac server_port udp_port seq q) w)"

end
