(* ===== verification/Rpc_State.thy ===== *)
theory Rpc_State
  imports Connect Rpc_Epm
begin

unbundle bit_operations_syntax

text \<open>
  The state of CMRPC (src/device/pf_cmrpc.c): the table of sessions, the part of an AR that
  belongs to the RPC, and the world around it. A session carries the buffers in which the
  fragments of a request are collected and from which those of a response are sent. A pointer
  to a session or an AR is its index; the list of the ARs in their order is the one of the
  device state.
\<close>

section \<open>Configuration (pf_types.h, CMakeLists.txt)\<close>

definition PNET_MAX_SESSION_BUFFER_SIZE :: nat where "PNET_MAX_SESSION_BUFFER_SIZE = 4500"
definition PNET_MAX_MC_CR :: nat where "PNET_MAX_MC_CR = 1"
definition PNET_MAX_AR_VENDOR_BLOCKS :: nat where "PNET_MAX_AR_VENDOR_BLOCKS = 1"
definition PF_MAX_SESSION :: nat where "PF_MAX_SESSION = 2 * PNET_MAX_AR + 1"
definition PF_MAX_UDP_PAYLOAD_SIZE :: nat where "PF_MAX_UDP_PAYLOAD_SIZE = 1440"
definition PF_CMRPC_MUST_RECV_FRAG_SIZE :: nat where "PF_CMRPC_MUST_RECV_FRAG_SIZE = 1464"
definition PF_CMRPC_PDU_HEADER_SIZE :: nat where "PF_CMRPC_PDU_HEADER_SIZE = 80"
definition PF_CMRPC_MAX_PDU_BODY_SIZE :: nat where
  "PF_CMRPC_MAX_PDU_BODY_SIZE = PF_CMRPC_MUST_RECV_FRAG_SIZE - PF_CMRPC_PDU_HEADER_SIZE"
definition PF_CMRPC_NUMBER_OF_RESENDS :: u32 where "PF_CMRPC_NUMBER_OF_RESENDS = 3"
definition PF_CCONTROL_TIMEOUT :: u32 where "PF_CCONTROL_TIMEOUT = 2000"
definition PF_FRAG_TIMEOUT :: u32 where "PF_FRAG_TIMEOUT = 2000"
definition PF_RPC_SERVER_PORT :: u16 where "PF_RPC_SERVER_PORT = 0x8894"
definition PF_RPC_CCONTROL_EPHEMERAL_PORT :: u16 where "PF_RPC_CCONTROL_EPHEMERAL_PORT = 0xc001"

lemmas rpc_size_defs = PNET_MAX_SESSION_BUFFER_SIZE_def PF_MAX_SESSION_def PF_FRAME_BUFFER_SIZE_def
  PF_MAX_UDP_PAYLOAD_SIZE_def PF_CMRPC_MUST_RECV_FRAG_SIZE_def PF_CMRPC_PDU_HEADER_SIZE_def PF_CMRPC_MAX_PDU_BODY_SIZE_def

section \<open>State\<close>

record session =
  se_in_use :: bool
  se_release_in_progress :: bool
  se_kill_session :: bool
  se_socket :: int
  se_ar :: "nat option"
  se_from_me :: bool
  se_activity_uuid :: pf_uuid
  se_ip_addr :: u32
  se_port :: u16
  se_sequence_nmb_send :: u32
  se_in_buffer :: "u8 list"
  se_in_buf_len :: u16
  se_in_fragment_nbr :: u16
  se_out_buffer :: "u8 list"
  se_out_buf_len :: u16
  se_out_buf_sent_pos :: u16
  se_out_buf_send_len :: u16
  se_out_fragment_nbr :: u16
  se_get_info :: pf_get_info
  se_is_big_endian :: bool
  se_rpc_result :: pnet_pnio_status
  se_ndr_data :: pf_ndr_data
  se_dcontrol_sequence_nmb :: u32
  se_dcontrol_result :: pnet_pnio_status
  se_resend_timeout :: sched_handle
  se_resend_counter :: u32

text \<open>What CMRPC keeps in an AR beside the parameters that CMDEV uses.\<close>

record rpc_ar =
  ra_arep :: u16
  ra_sess :: "nat option"
  ra_nbr_prm_server :: u16
  ra_prm_server :: pf_prm_server
  ra_mcr_request :: "pf_multicast_cr list"
  ra_nbr_ar_vendor :: u16
  ra_ar_vendor_request :: "pf_ar_vendor_request list"
  ra_nbr_ir_info :: u16
  ra_ir_info :: pf_ir_info

datatype rpc_cb = Cmrpc_send_with_timeout

record 'v rpc_world =
  rw_sessions :: "session list"
  rw_session_number :: u32
  rw_rpcreq_socket :: int
  rw_ar :: "nat \<Rightarrow> rpc_ar"
  rw_sched :: "(rpc_cb, nat) sched"
  rw_now :: u32
  rw_input_frame :: "u8 list"
  rw_initialized :: bool
  rw_out :: 'v

type_synonym 'v rpc_net = "'v rpc_world conn_net"
type_synonym 'v rcmd = "'v rpc_net \<Rightarrow> 'v rpc_net option"
type_synonym ('v, 'a) rfn = "'v rpc_net \<Rightarrow> ('a \<times> 'v rpc_net) option"

text \<open>
  What CMRPC calls: the sockets, the machines that answer read and write requests, and the
  start of the machines of an AR. A received datagram comes with its sender. The read handler
  writes its answer into the output buffer of the session, up to the size it is given. The header of a packet is
  read into a local variable that nothing clears, whose old contents are in the environment.
\<close>

record 'v rpc_env =
  re_conn :: "'v rpc_world conn_env"
  re_udp_open :: "u16 \<Rightarrow> 'v \<Rightarrow> int \<times> 'v"
  re_udp_sendto :: "int \<Rightarrow> u32 \<Rightarrow> u16 \<Rightarrow> u8 list \<Rightarrow> 'v \<Rightarrow> int \<times> 'v"
  re_udp_recvfrom :: "int \<Rightarrow> nat \<Rightarrow> 'v \<Rightarrow> (u32 \<times> u16 \<times> u8 list) option \<times> 'v"
  re_udp_close :: "int \<Rightarrow> 'v \<Rightarrow> 'v"
  re_ar_init :: "nat \<Rightarrow> 'v \<Rightarrow> 'v"
  re_ar_clear :: "nat \<Rightarrow> 'v \<Rightarrow> 'v"
  re_plugsm_prmend_ind :: "nat \<Rightarrow> pnet_pnio_status \<Rightarrow> ('v, int \<times> pnet_pnio_status) rfn"
  re_plugsm_application_ready_cnf :: "nat \<Rightarrow> ('v, int) rfn"
  re_prev_sequence_number :: "nat \<Rightarrow> 'v \<Rightarrow> u16"
  re_cmsm_rm_read_ind :: "nat option \<Rightarrow> pf_iod_read_request \<Rightarrow> ('v, int) rfn"
  re_cmrdr_rm_read_ind :: "nat option \<Rightarrow> pf_iod_read_request \<Rightarrow> pnet_pnio_status \<Rightarrow> nat \<Rightarrow> nat \<Rightarrow>
     ('v, int \<times> pnet_pnio_status) rfn"
  re_cmwrr_rm_write_ind :: "nat \<Rightarrow> pf_iod_write_request \<Rightarrow> pf_iod_write_result \<Rightarrow> pnet_pnio_status \<Rightarrow>
     u8 list option \<Rightarrow> u16 \<Rightarrow> u16 \<Rightarrow> ('v, int \<times> pf_iod_write_result \<times> pnet_pnio_status \<times> u16) rfn"
  re_cmpbe_rm_ccontrol_cnf :: "nat \<Rightarrow> pf_control_block \<Rightarrow> pnet_pnio_status \<Rightarrow> ('v, int) rfn"
  re_lldp_restart :: "'v rcmd"
  re_epm_cfg :: epm_cfg
  re_stack_header :: pf_rpc_header

text \<open>The parts of the state.\<close>

abbreviation rw :: "'v rpc_net \<Rightarrow> 'v rpc_world" where
  "rw n \<equiv> d_world (cn_dev n)"

definition upd_rw :: "('v rpc_world \<Rightarrow> 'v rpc_world) \<Rightarrow> 'v rpc_net \<Rightarrow> 'v rpc_net" where
  "upd_rw f n = n\<lparr>cn_dev := (cn_dev n)\<lparr>d_world := f (d_world (cn_dev n))\<rparr>\<rparr>"

definition get_se :: "nat \<Rightarrow> 'v rpc_net \<Rightarrow> session" where
  "get_se k n = rw_sessions (rw n) ! k"

definition upd_se :: "nat \<Rightarrow> (session \<Rightarrow> session) \<Rightarrow> 'v rpc_net \<Rightarrow> 'v rpc_net" where
  "upd_se k f = upd_rw (\<lambda>w. w\<lparr>rw_sessions := (rw_sessions w)[k := f (rw_sessions w ! k)]\<rparr>)"

definition get_ra :: "nat \<Rightarrow> 'v rpc_net \<Rightarrow> rpc_ar" where
  "get_ra a n = rw_ar (rw n) a"

definition upd_ra :: "nat \<Rightarrow> (rpc_ar \<Rightarrow> rpc_ar) \<Rightarrow> 'v rpc_net \<Rightarrow> 'v rpc_net" where
  "upd_ra a f = upd_rw (\<lambda>w. w\<lparr>rw_ar := (rw_ar w)(a := f (rw_ar w a))\<rparr>)"

definition upd_out :: "('v \<Rightarrow> 'v) \<Rightarrow> 'v rpc_net \<Rightarrow> 'v rpc_net" where
  "upd_out f = upd_rw (\<lambda>w. w\<lparr>rw_out := f (rw_out w)\<rparr>)"

definition out_call :: "('v \<Rightarrow> 'a \<times> 'v) \<Rightarrow> 'v rpc_net \<Rightarrow> 'a \<times> 'v rpc_net" where
  "out_call f n = (fst (f (rw_out (rw n))), upd_out (\<lambda>v. snd (f v)) n)"

section \<open>Cleared memory\<close>

definition no_status :: pnet_pnio_status where
  "no_status = \<lparr>error_code = 0, error_decode = 0, error_code_1 = 0, error_code_2 = 0\<rparr>"

definition zero_ndr :: pf_ndr_data where
  "zero_ndr = \<lparr>args_maximum = 0, args_length = 0, maximum_count = 0, ndr_offset = 0, actual_count = 0\<rparr>"

definition zero_get_info :: pf_get_info where
  "zero_get_info = \<lparr>g_result = PF_PARSE_OK, g_is_big_endian = False, g_buf = None, g_len = 0\<rparr>"

definition zero_session :: session where
  "zero_session = \<lparr>se_in_use = False, se_release_in_progress = False, se_kill_session = False, se_socket = 0,
     se_ar = None, se_from_me = False, se_activity_uuid = zero_uuid, se_ip_addr = 0, se_port = 0,
     se_sequence_nmb_send = 0, se_in_buffer = replicate PNET_MAX_SESSION_BUFFER_SIZE 0, se_in_buf_len = 0,
     se_in_fragment_nbr = 0, se_out_buffer = replicate PNET_MAX_SESSION_BUFFER_SIZE 0, se_out_buf_len = 0,
     se_out_buf_sent_pos = 0, se_out_buf_send_len = 0, se_out_fragment_nbr = 0, se_get_info = zero_get_info,
     se_is_big_endian = False, se_rpc_result = no_status, se_ndr_data = zero_ndr, se_dcontrol_sequence_nmb = 0,
     se_dcontrol_result = no_status, se_resend_timeout = \<lparr>h_name = 0, h_timer_index = 0\<rparr>, se_resend_counter = 0\<rparr>"

definition zero_prm_server :: pf_prm_server where
  "zero_prm_server = \<lparr>parameter_server_object_uuid = zero_uuid, prm_activity_timeout_factor = 0,
     parameter_server_station_name_len = 0, parameter_server_station_name = replicate PNET_STATION_NAME_MAX_SIZE 0\<rparr>"

definition zero_mcr :: pf_multicast_cr where
  "zero_mcr = \<lparr>mcr_iocr_reference = 0, mcr_protocol = 0, resolution_factor = 0, mci_timeout_factor = 0,
     length_provider_station_name = 0, provider_station_name = replicate PNET_STATION_NAME_MAX_SIZE 0\<rparr>"

definition zero_ar_vendor :: pf_ar_vendor_request where
  "zero_ar_vendor = \<lparr>ap_structure_identifier = 0, avr_api = 0, length_data_request = 0,
     data_request = replicate PNET_MAX_AR_VENDOR_BLOCK_DATA_LENGTH 0\<rparr>"

definition zero_ir_info :: pf_ir_info where
  "zero_ir_info = \<lparr>ir_data_uuid = zero_uuid, nbr_iocrs = 0, dfp_iocrs = replicate PNET_MAX_DFP_IOCR
     \<lparr>dfp_iocr_reference = 0, subframe_offset = 0, subframe_position = 0, subframe_length = 0\<rparr>\<rparr>"

definition zero_rpc_ar :: rpc_ar where
  "zero_rpc_ar = \<lparr>ra_arep = 0, ra_sess = None, ra_nbr_prm_server = 0, ra_prm_server = zero_prm_server,
     ra_mcr_request = replicate PNET_MAX_MC_CR zero_mcr, ra_nbr_ar_vendor = 0,
     ra_ar_vendor_request = replicate PNET_MAX_AR_VENDOR_BLOCKS zero_ar_vendor, ra_nbr_ir_info = 0,
     ra_ir_info = zero_ir_info\<rparr>"

end
