(* ===== verification/Rpc_Session.thy ===== *)
theory Rpc_Session
  imports Rpc_State
begin

unbundle bit_operations_syntax

text \<open>
  Sessions, ARs and the sending of UDP packets (src/device/pf_cmrpc.c, pf_cmrpc_helpers.c and
  src/common/pf_udp.c).
\<close>

section \<open>UDP\<close>

definition pf_udp_open :: "'v rpc_env \<Rightarrow> u16 \<Rightarrow> 'v rpc_net \<Rightarrow> int \<times> 'v rpc_net" where
  "pf_udp_open env p = out_call (re_udp_open env p)"

definition pf_udp_sendto :: "'v rpc_env \<Rightarrow> int \<Rightarrow> u32 \<Rightarrow> u16 \<Rightarrow> u8 list \<Rightarrow> 'v rpc_net \<Rightarrow> int \<times> 'v rpc_net" where
  "pf_udp_sendto env sock addr p data = out_call (re_udp_sendto env sock addr p data)"

text \<open>The datagram goes into the frame buffer, of which the rest keeps what it held.\<close>

definition pf_udp_recvfrom :: "'v rpc_env \<Rightarrow> int \<Rightarrow> 'v rpc_net \<Rightarrow> (u32 \<times> u16 \<times> nat) option \<times> 'v rpc_net" where
  "pf_udp_recvfrom env sock n = (case out_call (re_udp_recvfrom env sock PF_FRAME_BUFFER_SIZE) n of
     (None, n) \<Rightarrow> (None, n)
   | (Some (addr, p, bs), n) \<Rightarrow>
       (let bs = take PF_FRAME_BUFFER_SIZE bs in
        (if bs = [] then None else Some (addr, p, length bs),
         upd_rw (\<lambda>w. w\<lparr>rw_input_frame := bs @ drop (length bs) (rw_input_frame w)\<rparr>) n)))"

definition pf_udp_close :: "'v rpc_env \<Rightarrow> int \<Rightarrow> 'v rpc_net \<Rightarrow> 'v rpc_net" where
  "pf_udp_close env sock = upd_out (re_udp_close env sock)"

section \<open>Sessions\<close>

definition pf_generate_uuid :: "u32 \<Rightarrow> u32 \<Rightarrow> u8 list \<Rightarrow> pf_uuid" where
  "pf_generate_uuid timestamp session_number mac =
     \<lparr>data1 = timestamp, data2 = ucast (drop_bit 16 session_number),
      data3 = ucast (drop_bit 8 session_number AND 0x00ff) OR push_bit 12 1,
      data4 = 0x80 # ucast (session_number AND 0xff) # take 6 mac\<rparr>"

definition rpc_timer_name :: str_ptr where "rpc_timer_name = 5"

definition pf_session_allocate :: "'v rpc_env \<Rightarrow> 'v rpc_net \<Rightarrow> nat option \<times> 'v rpc_net" where
  "pf_session_allocate env n = (case find_index (\<lambda>s. \<not> se_in_use s) (rw_sessions (rw n)) of
       None \<Rightarrow> (None, n)
     | Some k \<Rightarrow> (Some k, upd_rw (\<lambda>w. w\<lparr>rw_session_number := rw_session_number w + 1\<rparr>) (upd_se k (\<lambda>_.
         zero_session\<lparr>se_socket := -1, se_in_use := True, se_dcontrol_sequence_nmb := UINT32_MAX,
           se_resend_timeout := pf_scheduler_init_handle (se_resend_timeout zero_session) rpc_timer_name,
           se_activity_uuid := pf_generate_uuid (rw_now (rw n)) (rw_session_number (rw n))
             (ev_mac_address (re_conn env))\<rparr>) n)))"

definition stop_resending :: "nat \<Rightarrow> 'v rcmd" where
  "stop_resending k n = do {
     (h, s) \<leftarrow> pf_scheduler_remove_if_running (se_resend_timeout (get_se k n)) (rw_sched (rw n));
     Some (upd_se k (\<lambda>x. x\<lparr>se_resend_timeout := h\<rparr>) (upd_rw (\<lambda>w. w\<lparr>rw_sched := s\<rparr>) n))
   }"

definition pf_session_release :: "'v rpc_env \<Rightarrow> nat \<Rightarrow> 'v rcmd" where
  "pf_session_release env k n =
     (if se_in_use (get_se k n) then do {
        let n = (if se_socket (get_se k n) > -1 \<and> se_from_me (get_se k n)
                 then upd_se k (\<lambda>x. x\<lparr>se_socket := -1\<rparr>) (pf_udp_close env (se_socket (get_se k n)) n) else n);
        n \<leftarrow> stop_resending k n;
        Some (upd_se k (\<lambda>_. zero_session\<lparr>se_in_use := False, se_socket := -1\<rparr>) n)
      } else Some n)"

definition pf_session_locate_by_uuid :: "pf_uuid \<Rightarrow> 'v rpc_net \<Rightarrow> nat option" where
  "pf_session_locate_by_uuid u n =
     find_index (\<lambda>s. se_in_use s \<and> u = se_activity_uuid s) (rw_sessions (rw n))"

definition pf_session_locate_by_ar :: "nat \<Rightarrow> 'v rpc_net \<Rightarrow> nat option" where
  "pf_session_locate_by_ar a n =
     find_index (\<lambda>s. se_in_use s \<and> se_from_me s \<and> se_ar s = Some a) (rw_sessions (rw n))"

section \<open>ARs\<close>

text \<open>The array has one AR more than the device supports, with the reference 0.\<close>

definition cleared_ar_param :: pf_ar_param where
  "cleared_ar_param = \<lparr>ar_type = 0, ar_uuid = zero_uuid, session_key = 0, cm_initiator_mac_add = replicate 6 0,
     cm_initiator_object_uuid = zero_uuid, ar_properties = ar_properties_of 0, cm_initiator_activity_timeout_factor = 0,
     cm_initiator_udp_rt_port = 0, cm_initiator_station_name_len = 0,
     cm_initiator_station_name = replicate PNET_STATION_NAME_MAX_SIZE 0\<rparr>"

definition zero_alarm_cr :: pf_alarm_cr_request where
  "zero_alarm_cr = \<lparr>acr_type = 0, acr_lt_field = 0, alarm_cr_properties = alarm_cr_properties_of 0,
     rta_timeout_factor = 0, rta_retries = 0, local_alarm_reference = 0, max_alarm_data_length = 0,
     alarm_cr_tag_header_high = alarm_cr_tag_header_of 0, alarm_cr_tag_header_low = alarm_cr_tag_header_of 0\<rparr>"

definition zero_conn_ar :: conn_ar where
  "zero_conn_ar = \<lparr>ca_in_use = False, ca_state = PF_CMDEV_STATE_POWER_ON, ca_nbr_ar_param = 0, ca_param = cleared_ar_param,
     ca_iocrs = [], ca_nbr_alarm_cr = 0, ca_alarm_cr = zero_alarm_cr, ca_nbr_rpc_server = 0, ca_rpc_server_port = 0,
     ca_rpc_valid = False, ca_input_cr_cnt = 0, ca_output_cr_cnt = 0, ca_nbr_mcr = 0, ca_mcr_cons_cnt = 0,
     ca_ir_info_valid = False, ca_rtc3_present = False, ca_ready_4_data = False, ca_err_cls = 0, ca_err_code = 0,
     ca_result = \<lparr>cr_cm_responder_mac_add = replicate 6 0, cr_responder_udp_rt_port = 0, cr_iocrs = [],
       cr_alarm_cr_type = 0, cr_local_alarm_reference = 0, cr_max_alarm_data_length = 0,
       cr_station_name = replicate PNET_STATION_NAME_MAX_SIZE 0, cr_length_station_name = 0\<rparr>\<rparr>"

definition clear_ar :: "'v rpc_env \<Rightarrow> nat \<Rightarrow> 'v rpc_net \<Rightarrow> 'v rpc_net" where
  "clear_ar env a n = upd_ra a (\<lambda>_. zero_rpc_ar) (upd_out (re_ar_clear env a) (upd_cn_ar a (\<lambda>_. zero_conn_ar)
     (n\<lparr>cn_dev := (cn_dev n)\<lparr>d_exp_ident := (d_exp_ident (cn_dev n))(a := zero_exp_ident)\<rparr>\<rparr>)))"

definition upd_order :: "(nat list \<Rightarrow> nat list) \<Rightarrow> 'v rpc_net \<Rightarrow> 'v rpc_net" where
  "upd_order f n = n\<lparr>cn_dev := (cn_dev n)\<lparr>d_ars := f (d_ars (cn_dev n))\<rparr>\<rparr>"

text \<open>The order of the ARs has room for as many as the device supports; a store behind it is a missing result.\<close>

definition pf_ar_allocate :: "'v rpc_env \<Rightarrow> ('v, nat option) rfn" where
  "pf_ar_allocate env n = (case find_index (\<lambda>a. \<not> ca_in_use (cn_ar n a)) [0..<PNET_MAX_AR + 1] of
       None \<Rightarrow> Some (None, n)
     | Some a \<Rightarrow>
         (let n = upd_cn_ar a (\<lambda>r. r\<lparr>ca_in_use := True\<rparr>) (clear_ar env a n) in
          if a < PNET_MAX_AR then
            (if length (d_ars (cn_dev n)) < PNET_MAX_AR then
               Some (Some a, upd_order (\<lambda>xs. xs @ [a]) (upd_out (re_ar_init env a)
                 (upd_ra a (\<lambda>r. r\<lparr>ra_arep := of_nat (a + 1)\<rparr>) n)))
             else None)
          else Some (Some a, n)))"

definition pf_ar_release :: "'v rpc_env \<Rightarrow> nat option \<Rightarrow> 'v rpc_net \<Rightarrow> 'v rpc_net" where
  "pf_ar_release env ar n = (case ar of None \<Rightarrow> n
     | Some a \<Rightarrow>
         if ca_in_use (cn_ar n a) then
           clear_ar env a (if ra_arep (get_ra a n) > 0
             then upd_order (remove1 (unat (ra_arep (get_ra a n)) - 1)) n else n)
         else n)"

definition pf_ar_find_by_uuid :: "pf_uuid \<Rightarrow> 'v rpc_net \<Rightarrow> nat option" where
  "pf_ar_find_by_uuid u n = find_index (\<lambda>a. ca_in_use (cn_ar n a) \<and>
     pf_cmdev_get_state a n \<noteq> PF_CMDEV_STATE_POWER_ON \<and> u = ar_uuid (ca_param (cn_ar n a))) [0..<PNET_MAX_AR + 1]"

definition pf_ar_find_by_index :: "nat \<Rightarrow> nat option" where
  "pf_ar_find_by_index ix = (if ix < PNET_MAX_AR + 1 then Some ix else None)"

definition pf_ar_find_by_arep :: "u32 \<Rightarrow> 'v rpc_net \<Rightarrow> nat option" where
  "pf_ar_find_by_arep arep n =
     (if arep > 0 then (let ix = unat (ucast (arep - 1) :: u16) in
        if ix < PNET_MAX_AR + 1 \<and> ca_in_use (cn_ar n ix) then Some ix else None)
      else None)"

section \<open>Errors\<close>

text \<open>The first definition is the plain store of CMDEV; this one keeps an error that is there.\<close>

definition pf_set_error_if_not_already_set :: "u8 \<Rightarrow> u8 \<Rightarrow> u8 \<Rightarrow> u8 \<Rightarrow> pnet_pnio_status \<Rightarrow> pnet_pnio_status" where
  "pf_set_error_if_not_already_set code dec c1 c2 st =
     (if error_code st = 0 \<and> error_decode st = 0 then pf_set_error code dec c1 c2 else st)"

section \<open>Sending\<close>

definition pf_cmrpc_send_once_from_buffer :: "'v rpc_env \<Rightarrow> nat \<Rightarrow> u8 list \<Rightarrow> 'v rpc_net \<Rightarrow> int \<times> 'v rpc_net" where
  "pf_cmrpc_send_once_from_buffer env k data n =
     (if data \<noteq> [] then (let s = get_se k n in
        case pf_udp_sendto env (se_socket s) (se_ip_addr s) (se_port s) data n of
          (r, n) \<Rightarrow> (if r = int (length data) then 0 else -1, n))
      else (-1, n))"

definition pf_cmrpc_send_once :: "'v rpc_env \<Rightarrow> nat \<Rightarrow> 'v rpc_net \<Rightarrow> int \<times> 'v rpc_net" where
  "pf_cmrpc_send_once env k n = (let s = get_se k n in
     pf_cmrpc_send_once_from_buffer env k (take (unat (se_out_buf_send_len s)) (se_out_buffer s)) n)"

definition PNET_ERROR_CODE_1_RTA_ERR_CLS_PROTOCOL :: u8 where "PNET_ERROR_CODE_1_RTA_ERR_CLS_PROTOCOL = 0xfd"
definition PNET_ERROR_CODE_2_ABORT_AR_RPC_CONTROL_ERROR :: u8 where "PNET_ERROR_CODE_2_ABORT_AR_RPC_CONTROL_ERROR = 0x18"

definition set_resend_timer :: "nat \<Rightarrow> u32 \<Rightarrow> 'v rcmd" where
  "set_resend_timer k delay n = do {
     (r, h, s) \<leftarrow> pf_scheduler_add (rw_now (rw n)) delay Cmrpc_send_with_timeout k (se_resend_timeout (get_se k n))
                     (rw_sched (rw n));
     Some (upd_se k (\<lambda>x. x\<lparr>se_resend_timeout := h\<rparr>) (upd_rw (\<lambda>w. w\<lparr>rw_sched := s\<rparr>) n))
   }"

text \<open>
  The AR is aborted when the last resend stays without an answer; a session without an AR is a
  missing result.
\<close>

definition give_up :: "'v rpc_env \<Rightarrow> 'v rpc_world conn_env \<Rightarrow> nat \<Rightarrow> 'v rcmd" where
  "give_up env cenv k n = do {
     a \<leftarrow> se_ar (get_se k n);
     let n = upd_cn_ar a (\<lambda>r. r\<lparr>ca_err_cls := PNET_ERROR_CODE_1_RTA_ERR_CLS_PROTOCOL,
       ca_err_code := PNET_ERROR_CODE_2_ABORT_AR_RPC_CONTROL_ERROR\<rparr>) n;
     let from_me = se_from_me (get_se k n);
     (_, n) \<leftarrow> pf_cmdev_cm_abort cenv (Some a) n;
     Some (if from_me \<and> se_socket (get_se k n) > -1
       then upd_se k (\<lambda>x. x\<lparr>se_socket := -1\<rparr>) (pf_udp_close env (se_socket (get_se k n)) n) else n)
   }"

definition pf_cmrpc_send_with_timeout :: "'v rpc_env \<Rightarrow> 'v rpc_world conn_env \<Rightarrow> nat \<Rightarrow> 'v rcmd" where
  "pf_cmrpc_send_with_timeout env cenv k n =
     (if se_socket (get_se k n) < 0 then Some n
      else (let n = upd_se k (\<lambda>x. x\<lparr>se_resend_timeout := pf_scheduler_reset_handle (se_resend_timeout x)\<rparr>) n in
        if se_resend_counter (get_se k n) > 0 then
          (let n = upd_se k (\<lambda>x. x\<lparr>se_resend_counter := se_resend_counter x - 1\<rparr>) n;
               delay = (if se_from_me (get_se k n) then PF_CCONTROL_TIMEOUT * 1000 else PF_FRAG_TIMEOUT * 1000)
           in case pf_cmrpc_send_once env k n of (r, n) \<Rightarrow> if r = 0 then set_resend_timer k delay n else Some n)
        else give_up env cenv k n))"

section \<open>Events of CMDEV\<close>

text \<open>
  All the sessions of an aborted AR go: its own, unless it carries the release request, and those
  of its control requests. The loop ends, because every round frees a session.
\<close>

fun release_sessions_of :: "'v rpc_env \<Rightarrow> nat \<Rightarrow> nat \<Rightarrow> 'v rcmd" where
  "release_sessions_of env a 0 n = Some n"
| "release_sessions_of env a (Suc fuel) n = (case pf_session_locate_by_ar a n of
       None \<Rightarrow> Some n
     | Some k \<Rightarrow> Option.bind (pf_session_release env k n) (release_sessions_of env a fuel))"

definition pf_cmrpc_cmdev_state_ind :: "'v rpc_env \<Rightarrow> nat \<Rightarrow> pnet_event \<Rightarrow> 'v rcmd" where
  "pf_cmrpc_cmdev_state_ind env a ev n =
     (if ev = PNET_EVENT_ABORT then do {
        n \<leftarrow> (case ra_sess (get_ra a n) of None \<Rightarrow> Some n
           | Some k \<Rightarrow> if se_release_in_progress (get_se k n) then Some n else pf_session_release env k n);
        n \<leftarrow> release_sessions_of env a (length (rw_sessions (rw n))) n;
        Some (pf_ar_release env (Some a) n)
      } else Some n)"

definition rpc_ind_env :: "'v rpc_env \<Rightarrow> 'v rpc_world conn_env" where
  "rpc_ind_env env = (re_conn env)\<lparr>ev_state_inds := ev_state_inds (re_conn env) @ [pf_cmrpc_cmdev_state_ind env]\<rparr>"

section \<open>Start and end\<close>

definition pf_cmrpc_init :: "'v rpc_env \<Rightarrow> 'v rpc_net \<Rightarrow> 'v rpc_net" where
  "pf_cmrpc_init env n =
     (let n = (if \<not> rw_initialized (rw n) then
          (let n = fold (clear_ar env) [0..<PNET_MAX_AR + 1] n;
               n = upd_rw (\<lambda>w. w\<lparr>rw_sessions := replicate PF_MAX_SESSION (zero_session\<lparr>se_socket := -1\<rparr>)\<rparr>) n
           in case pf_udp_open env PF_RPC_SERVER_PORT n of (s, n) \<Rightarrow>
                upd_rw (\<lambda>w. w\<lparr>rw_rpcreq_socket := s, rw_initialized := True\<rparr>) n)
        else n)
      in upd_rw (\<lambda>w. w\<lparr>rw_session_number := 0x12345678\<rparr>) n)"

definition pf_cmrpc_exit :: "'v rpc_env \<Rightarrow> 'v rpc_net \<Rightarrow> 'v rpc_net" where
  "pf_cmrpc_exit env n =
     (if rw_initialized (rw n) then
        upd_rw (\<lambda>w. w\<lparr>rw_sessions := replicate PF_MAX_SESSION zero_session\<rparr>) (fold (clear_ar env) [0..<PNET_MAX_AR + 1] n)
      else n)"

end
