(* ===== verification/Rpc_Parse.thy ===== *)
theory Rpc_Parse
  imports Rpc_Session
begin

unbundle bit_operations_syntax

text \<open>
  The blocks of the RPC requests (src/device/pf_cmrpc.c): those of a connect request, which fill a
  fresh AR, and the control blocks of release, DControl and CControl messages. The loops go on as
  long as there is input, so they are partial functions; that they end is proved in
  \<open>Rpc_Lemmas\<close>.
\<close>

section \<open>Codes\<close>

definition PNET_ERROR_CODE_RELEASE :: u8 where "PNET_ERROR_CODE_RELEASE = 0xdc"
definition PNET_ERROR_CODE_CONTROL :: u8 where "PNET_ERROR_CODE_CONTROL = 0xdd"
definition PNET_ERROR_CODE_READ :: u8 where "PNET_ERROR_CODE_READ = 0xde"
definition PNET_ERROR_CODE_WRITE :: u8 where "PNET_ERROR_CODE_WRITE = 0xdf"
definition PNET_ERROR_DECODE_PNIORW :: u8 where "PNET_ERROR_DECODE_PNIORW = 0x80"
definition PNET_ERROR_CODE_1_ACC_INVALID_AREA_API :: u8 where "PNET_ERROR_CODE_1_ACC_INVALID_AREA_API = 0xb4"
definition PNET_ERROR_CODE_1_CONN_FAULTY_PRM_SERVER_BLOCK_REQ :: u8 where
  "PNET_ERROR_CODE_1_CONN_FAULTY_PRM_SERVER_BLOCK_REQ = 5"
definition PNET_ERROR_CODE_1_CONN_FAULTY_MCR_BLOCK_REQ :: u8 where "PNET_ERROR_CODE_1_CONN_FAULTY_MCR_BLOCK_REQ = 6"
definition PNET_ERROR_CODE_1_CONN_FAULTY_FAULTY_RECORD :: u8 where "PNET_ERROR_CODE_1_CONN_FAULTY_FAULTY_RECORD = 8"
definition PNET_ERROR_CODE_1_CONN_FAULTY_IR_INFO :: u8 where "PNET_ERROR_CODE_1_CONN_FAULTY_IR_INFO = 9"
definition PNET_ERROR_CODE_1_DCTRL_FAULTY_CONNECT :: u8 where "PNET_ERROR_CODE_1_DCTRL_FAULTY_CONNECT = 0x14"
definition PNET_ERROR_CODE_2_DCTRL_FAULTY_CONNECT_CONTROLCOMMAND :: u8 where
  "PNET_ERROR_CODE_2_DCTRL_FAULTY_CONNECT_CONTROLCOMMAND = 8"
definition PNET_ERROR_CODE_2_CMRPC_ARGSLENGTH_INVALID :: u8 where "PNET_ERROR_CODE_2_CMRPC_ARGSLENGTH_INVALID = 0"
definition PNET_ERROR_CODE_2_CMRPC_NO_AR_RESOURCES :: u8 where "PNET_ERROR_CODE_2_CMRPC_NO_AR_RESOURCES = 4"
definition PNET_ERROR_CODE_2_CMRPC_AR_UUID_UNKNOWN :: u8 where "PNET_ERROR_CODE_2_CMRPC_AR_UUID_UNKNOWN = 5"
definition PNET_ERROR_CODE_2_CMRPC_STATE_CONFLICT :: u8 where "PNET_ERROR_CODE_2_CMRPC_STATE_CONFLICT = 6"
definition PNET_ERROR_CODE_2_CMRPC_OUT_OF_PCA_RESOURCES :: u8 where "PNET_ERROR_CODE_2_CMRPC_OUT_OF_PCA_RESOURCES = 7"
definition PNET_ERROR_CODE_2_CMRPC_OUT_OF_MEMORY :: u8 where "PNET_ERROR_CODE_2_CMRPC_OUT_OF_MEMORY = 8"
definition PNET_ERROR_CODE_2_INVALID_BLOCK_LEN :: u8 where "PNET_ERROR_CODE_2_INVALID_BLOCK_LEN = 1"
definition PNET_ERROR_CODE_2_INVALID_BLOCK_VERSION_HIGH :: u8 where "PNET_ERROR_CODE_2_INVALID_BLOCK_VERSION_HIGH = 2"
definition PNET_ERROR_CODE_2_INVALID_BLOCK_VERSION_LOW :: u8 where "PNET_ERROR_CODE_2_INVALID_BLOCK_VERSION_LOW = 3"

definition PF_BT_AR_BLOCK_REQ :: u16 where "PF_BT_AR_BLOCK_REQ = 0x0101"
definition PF_BT_IOCR_BLOCK_REQ :: u16 where "PF_BT_IOCR_BLOCK_REQ = 0x0102"
definition PF_BT_ALARM_CR_BLOCK_REQ :: u16 where "PF_BT_ALARM_CR_BLOCK_REQ = 0x0103"
definition PF_BT_EXPECTED_SUBMODULE_BLOCK :: u16 where "PF_BT_EXPECTED_SUBMODULE_BLOCK = 0x0104"
definition PF_BT_PRM_SERVER_REQ :: u16 where "PF_BT_PRM_SERVER_REQ = 0x0105"
definition PF_BT_MCR_REQ :: u16 where "PF_BT_MCR_REQ = 0x0106"
definition PF_BT_RPC_SERVER_REQ :: u16 where "PF_BT_RPC_SERVER_REQ = 0x0107"
definition PF_BT_AR_VENDOR_BLOCK_REQ :: u16 where "PF_BT_AR_VENDOR_BLOCK_REQ = 0x0108"
definition PF_BT_IR_INFO_BLOCK_REQ :: u16 where "PF_BT_IR_INFO_BLOCK_REQ = 0x0109"
definition PF_BT_PRMEND_REQ :: u16 where "PF_BT_PRMEND_REQ = 0x0110"
definition PF_BT_PRMEND_PLUG_ALARM_REQ :: u16 where "PF_BT_PRMEND_PLUG_ALARM_REQ = 0x0111"
definition PF_BT_APPRDY_REQ :: u16 where "PF_BT_APPRDY_REQ = 0x0112"
definition PF_BT_APPRDY_PLUG_ALARM_REQ :: u16 where "PF_BT_APPRDY_PLUG_ALARM_REQ = 0x0113"
definition PF_BT_RELEASE_BLOCK_REQ :: u16 where "PF_BT_RELEASE_BLOCK_REQ = 0x0114"
definition PF_BT_PRMBEGIN_REQ :: u16 where "PF_BT_PRMBEGIN_REQ = 0x0118"
definition PF_BT_PRMEND_RES :: u16 where "PF_BT_PRMEND_RES = 0x8110"
definition PF_BT_PRMEND_PLUG_ALARM_RES :: u16 where "PF_BT_PRMEND_PLUG_ALARM_RES = 0x8111"
definition PF_BT_APPRDY_RES :: u16 where "PF_BT_APPRDY_RES = 0x8112"
definition PF_BT_APPRDY_PLUG_ALARM_RES :: u16 where "PF_BT_APPRDY_PLUG_ALARM_RES = 0x8113"
definition PF_BT_RELEASE_BLOCK_RES :: u16 where "PF_BT_RELEASE_BLOCK_RES = 0x8114"

definition PF_CONTROL_COMMAND_BIT_APP_RDY :: nat where "PF_CONTROL_COMMAND_BIT_APP_RDY = 1"
definition PF_CONTROL_COMMAND_BIT_RELEASE :: nat where "PF_CONTROL_COMMAND_BIT_RELEASE = 2"

lemmas block_type_defs = PF_BT_AR_BLOCK_REQ_def PF_BT_IOCR_BLOCK_REQ_def PF_BT_ALARM_CR_BLOCK_REQ_def
  PF_BT_EXPECTED_SUBMODULE_BLOCK_def PF_BT_PRM_SERVER_REQ_def PF_BT_MCR_REQ_def PF_BT_RPC_SERVER_REQ_def
  PF_BT_AR_VENDOR_BLOCK_REQ_def PF_BT_IR_INFO_BLOCK_REQ_def PF_BT_PRMEND_REQ_def PF_BT_PRMEND_PLUG_ALARM_REQ_def
  PF_BT_APPRDY_REQ_def PF_BT_APPRDY_PLUG_ALARM_REQ_def PF_BT_RELEASE_BLOCK_REQ_def PF_BT_PRMBEGIN_REQ_def
  PF_BT_APPRDY_RES_def PF_BT_APPRDY_PLUG_ALARM_RES_def

definition cmrpc_error :: "u8 \<Rightarrow> u8 \<Rightarrow> pnet_pnio_status" where
  "cmrpc_error code c2 = pf_set_error code PNET_ERROR_DECODE_PNIO PNET_ERROR_CODE_1_CMRPC c2"

section \<open>Reading\<close>

text \<open>The parser state of a session together with a position, and back.\<close>

definition parser_at :: "pf_get_info \<Rightarrow> nat \<Rightarrow> rstate" where
  "parser_at gi p = \<lparr>g_result = g_result gi, g_is_big_endian = g_is_big_endian gi, g_buf = g_buf gi, g_len = g_len gi,
     r_pos = p\<rparr>"

definition info_of :: "rstate \<Rightarrow> pf_get_info" where
  "info_of r = \<lparr>g_result = g_result r, g_is_big_endian = g_is_big_endian r, g_buf = g_buf r, g_len = g_len r\<rparr>"

definition header_size :: nat where "header_size = 6"

text \<open>Whether the block fits into what is left of the input; the position is behind the header.\<close>

definition block_fits :: "rstate \<Rightarrow> pf_block_header \<Rightarrow> bool" where
  "block_fits r h \<longleftrightarrow> r_pos r + unat (block_length h) + 4 - header_size \<le> g_len r \<and> g_result r = PF_PARSE_OK"

definition more_blocks :: "rstate \<Rightarrow> bool" where
  "more_blocks r \<longleftrightarrow> r_pos r + header_size \<le> g_len r \<and> g_result r = PF_PARSE_OK"

section \<open>Connect request\<close>

record connect_req =
  q_rd :: rstate
  q_st :: pnet_pnio_status
  q_ret :: int
  q_first :: bool
  q_ar :: conn_ar
  q_exp :: pf_exp_ident
  q_rpc :: rpc_ar

definition req_fails :: "pnet_pnio_status \<Rightarrow> connect_req \<Rightarrow> connect_req" where
  "req_fails st q = q\<lparr>q_st := st, q_ret := -1\<rparr>"

definition pf_check_block_header :: "u16 \<Rightarrow> pf_block_header \<Rightarrow> u8 \<Rightarrow> pnet_pnio_status option" where
  "pf_check_block_header len h code_1 =
     (if block_length h \<noteq> len then Some (conn_status (code_1, PNET_ERROR_CODE_2_INVALID_BLOCK_LEN))
      else if block_version_high h \<noteq> PNET_BLOCK_VERSION_HIGH then
        Some (conn_status (code_1, PNET_ERROR_CODE_2_INVALID_BLOCK_VERSION_HIGH))
      else if block_version_low h \<noteq> PNET_BLOCK_VERSION_LOW then
        Some (conn_status (code_1, PNET_ERROR_CODE_2_INVALID_BLOCK_VERSION_LOW))
      else None)"

definition check_then :: "u16 \<Rightarrow> pf_block_header \<Rightarrow> u8 \<Rightarrow> (connect_req \<Rightarrow> connect_req) \<Rightarrow> connect_req \<Rightarrow> connect_req" where
  "check_then len h code_1 f q = (case pf_check_block_header len h code_1 of Some st \<Rightarrow> req_fails st q | None \<Rightarrow> f q)"

text \<open>A block that an AR for device access may not have; its length is what the parser took.\<close>

definition io_block :: "nat \<Rightarrow> pf_block_header \<Rightarrow> u8 \<Rightarrow> (connect_req \<Rightarrow> connect_req) \<Rightarrow> connect_req \<Rightarrow> connect_req" where
  "io_block data_pos h code_1 f q =
     (if device_access (ar_properties (ca_param (q_ar q))) then
        req_fails (conn_status (faulty_cmrpc PNET_ERROR_CODE_2_CMRPC_UNKNOWN_BLOCKS)) q
      else check_then (of_nat (r_pos (q_rd q) - data_pos + 2)) h code_1 f q)"

definition upd_q_ar :: "(conn_ar \<Rightarrow> conn_ar) \<Rightarrow> connect_req \<Rightarrow> connect_req" where
  "upd_q_ar f q = q\<lparr>q_ar := f (q_ar q)\<rparr>"

definition upd_q_rpc :: "(rpc_ar \<Rightarrow> rpc_ar) \<Rightarrow> connect_req \<Rightarrow> connect_req" where
  "upd_q_rpc f q = q\<lparr>q_rpc := f (q_rpc q)\<rparr>"

text \<open>Running a parser of the request.\<close>

definition q_run :: "'a rd \<Rightarrow> connect_req \<Rightarrow> 'a \<times> connect_req" where
  "q_run m q = (case run_state m (q_rd q) of (x, r) \<Rightarrow> (x, q\<lparr>q_rd := r\<rparr>))"

definition ar_block :: "pf_block_header \<Rightarrow> connect_req \<Rightarrow> connect_req" where
  "ar_block h q = (case q_run (pf_get_ar_param (ca_param (q_ar q))) q of (p, q) \<Rightarrow>
     (let q = upd_q_ar (\<lambda>r. r\<lparr>ca_param := p\<rparr>) q in
      if \<not> q_first q then req_fails (conn_status (faulty_ar 0)) q
      else check_then (54 + of_nat (c_strlen (cm_initiator_station_name p))) h PNET_ERROR_CODE_1_CONN_FAULTY_AR_BLOCK_REQ
        (upd_q_ar (\<lambda>r. r\<lparr>ca_nbr_ar_param := ca_nbr_ar_param r + 1\<rparr>)) q))"

definition zero_cpm :: pf_cpm where
  "zero_cpm = \<lparr>cpm_state = PF_CPM_STATE_W_START, cpm_errcnt = 0, cpm_recv_cnt = 0, cpm_free_cnt = 0, cpm_sa = replicate 6 0,
     nbr_frame_id = 0, cpm_frame_id = (0, 0), cpm_data_hold_factor = 0, p_buffer_app = None, p_buffer_cpm = None,
     cpm_new_buf = False, cpm_frame_id_pos = 0, cpm_data_status = 0, cpm_buffer_length = 0, cpm_buffer_pos = 0, dht = 0,
     cpm_new_data = False, rxa = replicate PNET_MAX_PHYSICAL_PORTS (0, 0), cpm_cycle = 0, cpm_control_interval = 0,
     cpm_ci_running = False, cpm_ci_timeout = \<lparr>h_name = 0, h_timer_index = 0\<rparr>\<rparr>"

definition zero_ppm :: pf_ppm where
  "zero_ppm = \<lparr>ppm_state = PF_PPM_STATE_W_START, next_exec = 0, ppm_sa = replicate 6 0, ppm_da = replicate 6 0,
     first_transmit = False, p_send_buffer = None, ppm_cycle = 0, ppm_transfer_status = 0, ppm_data_status = 0,
     ppm_buffer_length = 0, ppm_buffer_pos = 0, cycle_counter_offset = 0, data_status_offset = 0, transfer_status_offset = 0,
     buffer_data = replicate PF_FRAME_BUFFER_SIZE 0, trx_cnt = 0, ppm_send_clock_factor = 0, ppm_reduction_ratio = 0,
     ppm_control_interval = 0, ppm_ci_running = False, ppm_ci_timeout = \<lparr>h_name = 0, h_timer_index = 0\<rparr>\<rparr>"

definition zero_iodata :: pf_iodata_object where
  "zero_iodata = \<lparr>io_in_use = False, io_api_id = 0, io_slot_nbr = 0, io_subslot_nbr = 0, data_offset = 0, data_length = 0,
     iops_offset = 0, iops_length = 0, iocs_offset = 0, iocs_length = 0, data_avail = False\<rparr>"

definition zero_frame_descriptor :: pf_frame_descriptor where
  "zero_frame_descriptor = \<lparr>fd_slot_number = 0, fd_subslot_number = 0, frame_offset = 0\<rparr>"

definition zero_iocr_param :: pf_iocr_param where
  "zero_iocr_param = \<lparr>iocr_type = 0, iocr_reference = 0, lt_field = 0, iocr_properties = iocr_properties_of 0, c_sdu_length = 0,
     frame_id = 0, send_clock_factor = 0, reduction_ratio = 0, phase = 0, ip_sequence = 0, frame_send_offset = 0,
     watchdog_factor = 0, data_hold_factor = 0, iocr_tag_header = iocr_tag_header_of 0, iocr_multicast_mac_add = replicate 6 0,
     nbr_apis = 0, apis = replicate PNET_MAX_API \<lparr>ae_api = 0,
       nbr_io_data = 0, io_data = replicate (PNET_MAX_SLOTS * PNET_MAX_SUBSLOTS) zero_frame_descriptor,
       nbr_iocs = 0, iocs = replicate (PNET_MAX_SLOTS * PNET_MAX_SUBSLOTS) zero_frame_descriptor\<rparr>\<rparr>"

definition zero_iocr :: pf_iocr where
  "zero_iocr = \<lparr>iocr_cpm = zero_cpm, iocr_ppm = zero_ppm, in_length = 0, out_length = 0, nbr_data_desc = 0,
     data_desc = replicate (PNET_MAX_API * PNET_MAX_SLOTS * PNET_MAX_SUBSLOTS) zero_iodata, iocr_param = zero_iocr_param\<rparr>"

definition count_iocr :: "pf_iocr_param \<Rightarrow> conn_ar \<Rightarrow> conn_ar" where
  "count_iocr p r = r\<lparr>
     ca_input_cr_cnt := ca_input_cr_cnt r + of_bool (iocr_type p = PF_IOCR_TYPE_INPUT),
     ca_output_cr_cnt := ca_output_cr_cnt r + of_bool (iocr_type p = PF_IOCR_TYPE_OUTPUT),
     ca_mcr_cons_cnt := ca_mcr_cons_cnt r + of_bool (iocr_type p = PF_IOCR_TYPE_MC_CONSUMER),
     ca_rtc3_present := (ca_rtc3_present r \<or> rt_class (iocr_properties p) = PF_RT_CLASS_3)\<rparr>"

definition iocr_block :: "nat \<Rightarrow> pf_block_header \<Rightarrow> connect_req \<Rightarrow> connect_req" where
  "iocr_block data_pos h q =
     (if \<not> length (ca_iocrs (q_ar q)) < PNET_MAX_CR then
        req_fails (conn_status (faulty_cmrpc PNET_ERROR_CODE_2_CMRPC_WRONG_BLOCK_COUNT)) q
      else case q_run (pf_get_iocr_param zero_iocr_param) q of ((r, p), q) \<Rightarrow>
        if r \<noteq> 0 then req_fails (conn_status (faulty_cmrpc PNET_ERROR_CODE_2_CMRPC_OUT_OF_PCA_RESOURCES)) q
        else io_block data_pos h PNET_ERROR_CODE_1_CONN_FAULTY_IOCR_BLOCK_REQ
          (upd_q_ar (\<lambda>r. r\<lparr>ca_iocrs := ca_iocrs r @ [zero_iocr\<lparr>iocr_param := p\<rparr>]\<rparr>)) (upd_q_ar (count_iocr p) q))"

definition expected_block :: "nat \<Rightarrow> pf_block_header \<Rightarrow> connect_req \<Rightarrow> connect_req option" where
  "expected_block data_pos h q = (case q_run (pf_get_exp_api_module (q_exp q)) q of (x, q) \<Rightarrow> do {
     x \<leftarrow> x;
     let q = q\<lparr>q_exp := x\<rparr>;
     Some (if g_result (q_rd q) = PF_PARSE_OK then io_block data_pos h PNET_ERROR_CODE_1_CONN_FAULTY_EXP_BLOCK_REQ id q
       else if g_result (q_rd q) \<in> {PF_PARSE_END_OF_INPUT, PF_PARSE_OUT_OF_API_RESOURCES, PF_PARSE_OUT_OF_EXP_SUBMODULE_RESOURCES}
       then req_fails (conn_status (faulty_cmrpc PNET_ERROR_CODE_2_CMRPC_OUT_OF_MEMORY)) q
       else req_fails (conn_status (faulty_cmrpc PNET_ERROR_CODE_2_CMRPC_UNKNOWN_BLOCKS)) q)
   })"

definition alarm_cr_block :: "nat \<Rightarrow> pf_block_header \<Rightarrow> connect_req \<Rightarrow> connect_req" where
  "alarm_cr_block data_pos h q = (case q_run pf_get_alarm_cr_request q of (x, q) \<Rightarrow>
     io_block data_pos h PNET_ERROR_CODE_1_CONN_FAULTY_ALARM_BLOCK_REQ
       (upd_q_ar (\<lambda>r. r\<lparr>ca_nbr_alarm_cr := ca_nbr_alarm_cr r + 1\<rparr>)) (upd_q_ar (\<lambda>r. r\<lparr>ca_alarm_cr := x\<rparr>) q))"

definition prm_server_block :: "nat \<Rightarrow> pf_block_header \<Rightarrow> connect_req \<Rightarrow> connect_req option" where
  "prm_server_block data_pos h q = (case q_run (pf_get_ar_prm_server_request (ra_prm_server (q_rpc q))) q of (x, q) \<Rightarrow> do {
     x \<leftarrow> x;
     Some (io_block data_pos h PNET_ERROR_CODE_1_CONN_FAULTY_PRM_SERVER_BLOCK_REQ
       (upd_q_rpc (\<lambda>r. r\<lparr>ra_nbr_prm_server := ra_nbr_prm_server r + 1\<rparr>)) (upd_q_rpc (\<lambda>r. r\<lparr>ra_prm_server := x\<rparr>) q))
   })"

text \<open>The number of multicast and of vendor blocks is not compared with the size of the tables.\<close>

definition mcr_block :: "nat \<Rightarrow> pf_block_header \<Rightarrow> connect_req \<Rightarrow> connect_req option" where
  "mcr_block data_pos h q = (let ix = unat (ca_nbr_mcr (q_ar q)) in
     if ix < length (ra_mcr_request (q_rpc q)) then
       (case q_run (pf_get_mcr_request (ra_mcr_request (q_rpc q) ! ix)) q of (x, q) \<Rightarrow> do {
          x \<leftarrow> x;
          Some (io_block data_pos h PNET_ERROR_CODE_1_CONN_FAULTY_MCR_BLOCK_REQ
            (upd_q_ar (\<lambda>r. r\<lparr>ca_nbr_mcr := ca_nbr_mcr r + 1\<rparr>))
            (upd_q_rpc (\<lambda>r. r\<lparr>ra_mcr_request := (ra_mcr_request r)[ix := x]\<rparr>) q))
        })
     else None)"

definition rpc_server_block :: "nat \<Rightarrow> pf_block_header \<Rightarrow> connect_req \<Rightarrow> connect_req" where
  "rpc_server_block data_pos h q = (case q_run pf_get_ar_rpc_request q of (x, q) \<Rightarrow>
     io_block data_pos h PNET_ERROR_CODE_1_CONN_FAULTY_AR_RPC_BLOCK_REQ
       (upd_q_ar (\<lambda>r. r\<lparr>ca_nbr_rpc_server := ca_nbr_rpc_server r + 1\<rparr>)) (upd_q_ar (\<lambda>r. r\<lparr>ca_rpc_server_port := x\<rparr>) q))"

definition vendor_block :: "nat \<Rightarrow> pf_block_header \<Rightarrow> connect_req \<Rightarrow> connect_req option" where
  "vendor_block data_pos h q = (let ix = unat (ra_nbr_ar_vendor (q_rpc q)) in
     if ix < length (ra_ar_vendor_request (q_rpc q)) then
       (case q_run (pf_get_ar_vendor_request (ra_ar_vendor_request (q_rpc q) ! ix)) q of (x, q) \<Rightarrow> do {
          x \<leftarrow> x;
          Some (io_block data_pos h PNET_ERROR_CODE_1_CONN_FAULTY_FAULTY_RECORD
            (upd_q_rpc (\<lambda>r. r\<lparr>ra_nbr_ar_vendor := ra_nbr_ar_vendor r + 1\<rparr>))
            (upd_q_rpc (\<lambda>r. r\<lparr>ra_ar_vendor_request := (ra_ar_vendor_request r)[ix := x]\<rparr>) q))
        })
     else None)"

definition ir_info_block :: "nat \<Rightarrow> pf_block_header \<Rightarrow> connect_req \<Rightarrow> connect_req option" where
  "ir_info_block data_pos h q = (case q_run (pf_get_ir_info_request (ra_ir_info (q_rpc q))) q of (x, q) \<Rightarrow> do {
     x \<leftarrow> x;
     Some (io_block data_pos h PNET_ERROR_CODE_1_CONN_FAULTY_IR_INFO
       (upd_q_rpc (\<lambda>r. r\<lparr>ra_nbr_ir_info := ra_nbr_ir_info r + 1\<rparr>)) (upd_q_rpc (\<lambda>r. r\<lparr>ra_ir_info := x\<rparr>) q))
   })"

definition connect_block :: "pf_block_header \<Rightarrow> connect_req \<Rightarrow> connect_req option" where
  "connect_block h q = (let data_pos = r_pos (q_rd q); t = block_type h in
     if t = PF_BT_AR_BLOCK_REQ then Some (ar_block h q)
     else if t = PF_BT_IOCR_BLOCK_REQ then Some (iocr_block data_pos h q)
     else if t = PF_BT_EXPECTED_SUBMODULE_BLOCK then expected_block data_pos h q
     else if t = PF_BT_ALARM_CR_BLOCK_REQ then Some (alarm_cr_block data_pos h q)
     else if t = PF_BT_PRM_SERVER_REQ then prm_server_block data_pos h q
     else if t = PF_BT_MCR_REQ then mcr_block data_pos h q
     else if t = PF_BT_RPC_SERVER_REQ then Some (rpc_server_block data_pos h q)
     else if t = PF_BT_AR_VENDOR_BLOCK_REQ then vendor_block data_pos h q
     else if t = PF_BT_IR_INFO_BLOCK_REQ then ir_info_block data_pos h q
     else Some (req_fails (conn_status (faulty_cmrpc PNET_ERROR_CODE_2_CMRPC_UNKNOWN_BLOCKS)) q))"

definition connect_round :: "connect_req \<Rightarrow> connect_req option" where
  "connect_round q = (case q_run pf_get_block_header q of (h, q) \<Rightarrow>
     map_option (\<lambda>q. q\<lparr>q_first := False\<rparr>)
       (if block_fits (q_rd q) h then connect_block h q
        else Some (req_fails (conn_status (faulty_cmrpc PNET_ERROR_CODE_2_CMRPC_UNKNOWN_BLOCKS)) q)))"

partial_function (option) connect_blocks :: "connect_req \<Rightarrow> connect_req option" where
  "connect_blocks q =
     (if q_ret q = 0 \<and> more_blocks (q_rd q) then Option.bind (connect_round q) connect_blocks else Some q)"

declare connect_blocks.simps [code]

definition pf_cmrpc_rm_connect_interpret_ind :: "u32 \<Rightarrow> connect_req \<Rightarrow> connect_req option" where
  "pf_cmrpc_rm_connect_interpret_ind args_len q = do {
     let start_pos = r_pos (q_rd q);
     q \<leftarrow> connect_blocks q;
     Some (if q_ret q = 0 \<and> (g_result (q_rd q) \<noteq> PF_PARSE_OK \<or> r_pos (q_rd q) \<noteq> g_len (q_rd q) \<or>
          of_nat (r_pos (q_rd q) - start_pos) \<noteq> args_len)
       then req_fails (conn_status (faulty_cmrpc PNET_ERROR_CODE_2_CMRPC_ARGSLENGTH_INVALID)) q else q)
   }"

section \<open>Control blocks\<close>

definition zero_control :: pf_control_block where
  "zero_control = \<lparr>cb_ar_uuid = zero_uuid, cb_session_key = 0, control_command = 0, control_block_properties = 0,
     alarm_sequence_number = 0\<rparr>"

record control_req =
  k_rd :: rstate
  k_st :: pnet_pnio_status
  k_ret :: int
  k_type :: u16
  k_cb :: pf_control_block

text \<open>
  One round: a block of a known type is read, one of another type is an error, and one that does
  not fit is passed over; the loop goes on behind its header in every case.
\<close>

definition control_round :: "u16 set \<Rightarrow> u8 \<Rightarrow> control_req \<Rightarrow> control_req" where
  "control_round known code c = (case run_state pf_get_block_header (k_rd c) of (h, r) \<Rightarrow>
     (let c = c\<lparr>k_rd := r\<rparr> in
      if \<not> block_fits r h then c
      else if block_type h \<in> known then
        (case run_state (pf_get_control (k_cb c)) r of (cb, r) \<Rightarrow> c\<lparr>k_rd := r, k_cb := cb, k_type := block_type h\<rparr>)
      else c\<lparr>k_st := cmrpc_error code PNET_ERROR_CODE_2_CMRPC_UNKNOWN_BLOCKS, k_ret := -1\<rparr>))"

partial_function (option) control_blocks :: "u16 set \<Rightarrow> u8 \<Rightarrow> control_req \<Rightarrow> control_req option" where
  "control_blocks known code c =
     (if more_blocks (k_rd c) then control_blocks known code (control_round known code c) else Some c)"

declare control_blocks.simps [code]

text \<open>The length of the message and the command are checked, with an error of the kind of the message.\<close>

definition control_check :: "u8 \<Rightarrow> u8 \<Rightarrow> nat \<Rightarrow> pnet_pnio_status \<Rightarrow> nat \<Rightarrow> u32 \<Rightarrow> control_req \<Rightarrow> control_req" where
  "control_check code parse_c2 command_bit command_error start_pos args_len c =
     (let fails = (\<lambda>st. c\<lparr>k_st := st, k_ret := -1\<rparr>) in
      if k_ret c \<noteq> 0 then c
      else if g_result (k_rd c) \<noteq> PF_PARSE_OK then fails (cmrpc_error code parse_c2)
      else if r_pos (k_rd c) \<noteq> g_len (k_rd c) then fails (cmrpc_error code PNET_ERROR_CODE_2_CMRPC_ARGSLENGTH_INVALID)
      else if of_nat (r_pos (k_rd c) - start_pos) \<noteq> args_len then
        fails (cmrpc_error code PNET_ERROR_CODE_2_CMRPC_ARGSLENGTH_INVALID)
      else if control_command (k_cb c) \<noteq> push_bit command_bit 1 then fails command_error
      else c)"

definition pf_cmrpc_rm_release_interpret_req :: "u32 \<Rightarrow> control_req \<Rightarrow> control_req option" where
  "pf_cmrpc_rm_release_interpret_req args_len c = map_option
     (control_check PNET_ERROR_CODE_RELEASE PNET_ERROR_CODE_2_CMRPC_ARGSLENGTH_INVALID PF_CONTROL_COMMAND_BIT_RELEASE
        (cmrpc_error PNET_ERROR_CODE_RELEASE PNET_ERROR_CODE_2_CMRPC_STATE_CONFLICT) (r_pos (k_rd c)) args_len)
     (control_blocks {PF_BT_RELEASE_BLOCK_REQ} PNET_ERROR_CODE_CONNECT c)"

definition pf_cmrpc_rm_dcontrol_interpret_req :: "u32 \<Rightarrow> control_req \<Rightarrow> control_req option" where
  "pf_cmrpc_rm_dcontrol_interpret_req args_len c = map_option
     (control_check PNET_ERROR_CODE_CONTROL PNET_ERROR_CODE_2_CMRPC_ARGSLENGTH_INVALID PF_CONTROL_COMMAND_BIT_PRM_END
        (pf_set_error PNET_ERROR_CODE_CONTROL PNET_ERROR_DECODE_PNIO PNET_ERROR_CODE_1_DCTRL_FAULTY_CONNECT
           PNET_ERROR_CODE_2_DCTRL_FAULTY_CONNECT_CONTROLCOMMAND) (r_pos (k_rd c)) args_len)
     (control_blocks {PF_BT_PRMBEGIN_REQ, PF_BT_PRMEND_REQ, PF_BT_PRMEND_PLUG_ALARM_REQ} PNET_ERROR_CODE_CONTROL c)"

definition pf_cmrpc_rm_ccontrol_interpret_cnf :: "u32 \<Rightarrow> control_req \<Rightarrow> control_req option" where
  "pf_cmrpc_rm_ccontrol_interpret_cnf args_len c = map_option
     (control_check PNET_ERROR_CODE_CONTROL PNET_ERROR_CODE_2_CMRPC_STATE_CONFLICT PF_CONTROL_COMMAND_BIT_DONE
        (cmrpc_error PNET_ERROR_CODE_CONTROL PNET_ERROR_CODE_2_CMRPC_STATE_CONFLICT) (r_pos (k_rd c)) args_len)
     (control_blocks {PF_BT_APPRDY_RES, PF_BT_APPRDY_PLUG_ALARM_RES} PNET_ERROR_CODE_CONTROL c)"

end
