(* ===== verification/Rpc_Control.thy ===== *)
theory Rpc_Control
  imports Rpc_Parse
begin

unbundle bit_operations_syntax

text \<open>
  Writing into the output buffer of a session, and the release, DControl and CControl messages
  (src/device/pf_cmrpc.c).
\<close>

section \<open>The output buffer\<close>

definition out_writer :: "nat \<Rightarrow> nat \<Rightarrow> nat \<Rightarrow> 'v rpc_net \<Rightarrow> wstate" where
  "out_writer k sz p n = \<lparr>w_bytes = Some (se_out_buffer (get_se k n)), w_len = sz, w_pos = p\<rparr>"

definition set_out :: "nat \<Rightarrow> wstate \<Rightarrow> 'v rpc_net \<Rightarrow> 'v rpc_net" where
  "set_out k w = upd_se k (\<lambda>s. s\<lparr>se_out_buffer := (case w_bytes w of Some b \<Rightarrow> b | None \<Rightarrow> se_out_buffer s)\<rparr>)"

text \<open>At the end of what is there, which moves, and at a position that was noted before.\<close>

definition put_out :: "nat \<Rightarrow> nat \<Rightarrow> 'a wr \<Rightarrow> 'v rpc_net \<Rightarrow> 'a \<times> 'v rpc_net" where
  "put_out k sz m n = (case run_state m (out_writer k sz (unat (se_out_buf_len (get_se k n))) n) of (x, w) \<Rightarrow>
     (x, upd_se k (\<lambda>s. s\<lparr>se_out_buf_len := of_nat (w_pos w)\<rparr>) (set_out k w n)))"

definition put_out_opt :: "nat \<Rightarrow> nat \<Rightarrow> (wstate \<Rightarrow> wstate option) \<Rightarrow> 'v rcmd" where
  "put_out_opt k sz f n = map_option (\<lambda>w. upd_se k (\<lambda>s. s\<lparr>se_out_buf_len := of_nat (w_pos w)\<rparr>) (set_out k w n))
     (f (out_writer k sz (unat (se_out_buf_len (get_se k n))) n))"

definition put_out_at :: "nat \<Rightarrow> nat \<Rightarrow> nat \<Rightarrow> unit wr \<Rightarrow> 'v rpc_net \<Rightarrow> 'v rpc_net" where
  "put_out_at k sz p m n = set_out k (snd (run_state m (out_writer k sz p n))) n"

definition put_ndr :: "bool \<Rightarrow> pf_ndr_data \<Rightarrow> unit wr" where
  "put_ndr be d = do {
     pf_put_uint32 be (args_length d);
     pf_put_uint32 be (maximum_count d);
     pf_put_uint32 be (ndr_offset d);
     pf_put_uint32 be (actual_count d)
   }"

abbreviation out_be :: "nat \<Rightarrow> 'v rpc_net \<Rightarrow> bool" where
  "out_be k n \<equiv> g_is_big_endian (se_get_info (get_se k n))"

text \<open>
  The common form of a response: the status, the header with dummy lengths, the blocks, and then
  the lengths of what was written.
\<close>

definition fix_ndr :: "nat \<Rightarrow> nat \<Rightarrow> nat \<Rightarrow> nat \<Rightarrow> 'v rpc_net \<Rightarrow> 'v rpc_net" where
  "fix_ndr k sz hdr_pos start_pos n =
     (let len = of_int (int (unat (se_out_buf_len (get_se k n))) - int start_pos);
          n = upd_se k (\<lambda>s. s\<lparr>se_ndr_data := (se_ndr_data s)\<lparr>args_length := len, actual_count := len\<rparr>\<rparr>) n
      in put_out_at k sz hdr_pos (put_ndr (out_be k n) (se_ndr_data (get_se k n))) n)"

text \<open>The positions of the header and of the blocks.\<close>

definition put_rsp_head :: "nat \<Rightarrow> nat \<Rightarrow> 'v rpc_net \<Rightarrow> (nat \<times> nat) \<times> 'v rpc_net" where
  "put_rsp_head k sz n = put_out k sz (do {
     pf_put_pnet_status (out_be k n) (se_rpc_result (get_se k n));
     hdr_pos \<leftarrow> get_pos;
     put_ndr (out_be k n) (se_ndr_data (get_se k n));
     start_pos \<leftarrow> get_pos;
     State_Monad.return (hdr_pos, start_pos)
   }) n"

definition put_rsp :: "nat \<Rightarrow> nat \<Rightarrow> (wstate \<Rightarrow> wstate option) \<Rightarrow> 'v rcmd" where
  "put_rsp k sz blocks n = (case put_rsp_head k sz n of ((hdr_pos, start_pos), n) \<Rightarrow>
     map_option (fix_ndr k sz hdr_pos start_pos) (put_out_opt k sz blocks n))"

text \<open>The result of a call, which is lost when the session was released meanwhile.\<close>

definition set_result_of :: "nat \<Rightarrow> pnet_pnio_status \<Rightarrow> 'v rpc_net \<Rightarrow> 'v rpc_net" where
  "set_result_of k st n = (if se_in_use (get_se k n) then upd_se k (\<lambda>s. s\<lparr>se_rpc_result := st\<rparr>) n else n)"

section \<open>Control messages\<close>

definition control_req_of :: "nat \<Rightarrow> nat \<Rightarrow> 'v rpc_net \<Rightarrow> control_req" where
  "control_req_of k req_pos n = \<lparr>k_rd = parser_at (se_get_info (get_se k n)) req_pos, k_st = se_rpc_result (get_se k n),
     k_ret = 0, k_type = 0, k_cb = zero_control\<rparr>"

definition set_parsed :: "nat \<Rightarrow> control_req \<Rightarrow> 'v rpc_net \<Rightarrow> 'v rpc_net" where
  "set_parsed k c = upd_se k (\<lambda>s. s\<lparr>se_get_info := info_of (k_rd c), se_rpc_result := k_st c\<rparr>)"

section \<open>CControl requests\<close>

definition controller_interface :: pf_uuid where
  "controller_interface = \<lparr>data1 = 0xdea00002, data2 = 0x6c97, data3 = 0x11d1,
     data4 = [0x82, 0x71, 0x00, 0xa0, 0x24, 0x42, 0xdf, 0x7d]\<rparr>"

definition PF_RPC_PT_REQUEST :: u8 where "PF_RPC_PT_REQUEST = 0"
definition PF_RPC_DEV_OPNUM_CONNECT :: u16 where "PF_RPC_DEV_OPNUM_CONNECT = 0"
definition PF_RPC_DEV_OPNUM_RELEASE :: u16 where "PF_RPC_DEV_OPNUM_RELEASE = 1"
definition PF_RPC_DEV_OPNUM_READ :: u16 where "PF_RPC_DEV_OPNUM_READ = 2"
definition PF_RPC_DEV_OPNUM_WRITE :: u16 where "PF_RPC_DEV_OPNUM_WRITE = 3"
definition PF_RPC_DEV_OPNUM_CONTROL :: u16 where "PF_RPC_DEV_OPNUM_CONTROL = 4"
definition PF_RPC_DEV_OPNUM_READ_IMPLICIT :: u16 where "PF_RPC_DEV_OPNUM_READ_IMPLICIT = 5"

definition no_flags :: pf_rpc_flags where
  "no_flags = \<lparr>last_fragment = False, fragment = False, no_fack = False, maybe = False, idempotent = False, broadcast = False\<rparr>"

definition ccontrol_header :: "pf_uuid \<Rightarrow> session \<Rightarrow> pf_rpc_header" where
  "ccontrol_header obj s = \<lparr>rpc_version = 4, packet_type = PF_RPC_PT_REQUEST, rpc_flags = no_flags\<lparr>idempotent := True\<rparr>,
     cancel_pending = False, rpc_is_big_endian = se_is_big_endian s, float_repr = 0, rpc_reserved = 0, serial_high = 0,
     object_uuid = obj, interface_uuid = controller_interface, activity_uuid = se_activity_uuid s, server_boot_time = 0,
     interface_version = 1, sequence_nmb = se_sequence_nmb_send s, opnum = PF_RPC_DEV_OPNUM_CONTROL,
     interface_hint = 0xffff, activity_hint = 0xffff, length_of_body = 0, fragment_nmb = 0, auth_protocol = 0, serial_low = 0\<rparr>"

definition put_ndr_req :: "bool \<Rightarrow> pf_ndr_data \<Rightarrow> unit wr" where
  "put_ndr_req be d = do { pf_put_uint32 be (args_maximum d); put_ndr be d }"

definition ccontrol_block :: "'v rpc_env \<Rightarrow> nat \<Rightarrow> u16 \<Rightarrow> 'v rpc_net \<Rightarrow> pf_control_block" where
  "ccontrol_block env a bt n = \<lparr>cb_ar_uuid = ar_uuid (ca_param (cn_ar n a)), cb_session_key = session_key (ca_param (cn_ar n a)),
     control_command = push_bit PF_CONTROL_COMMAND_BIT_APP_RDY 1, control_block_properties = 0,
     alarm_sequence_number = (if bt = PF_BT_APPRDY_PLUG_ALARM_REQ then re_prev_sequence_number env a (rw_out (rw n)) else 0)\<rparr>"

text \<open>The request is put together in the output buffer; its first fragment is sent now.\<close>

definition ccontrol_write :: "'v rpc_env \<Rightarrow> nat \<Rightarrow> nat \<Rightarrow> u16 \<Rightarrow> 'v rpc_net \<Rightarrow> 'v rpc_net" where
  "ccontrol_write env k a bt n =
     (let sz = PNET_MAX_SESSION_BUFFER_SIZE; max_req = PF_MAX_UDP_PAYLOAD_SIZE;
          h = ccontrol_header (cm_initiator_object_uuid (ca_param (cn_ar n a))) (get_se k n);
          be = rpc_is_big_endian h; cb = ccontrol_block env a bt n; e = d_exp_ident (cn_dev n) a;
          n = upd_se k (\<lambda>s. s\<lparr>se_sequence_nmb_send := se_sequence_nmb_send s + 1,
            se_out_buffer := replicate PNET_MAX_SESSION_BUFFER_SIZE 0, se_out_buf_len := 0, se_out_buf_sent_pos := 0,
            se_out_fragment_nbr := 0\<rparr>) n
      in case put_out k sz (do {
           body_pos \<leftarrow> pf_put_dce_rpc_header h;
           start_pos \<leftarrow> get_pos;
           put_ndr_req be zero_ndr;
           control_pos \<leftarrow> get_pos;
           pf_put_control True bt cb;
           pf_put_ar_diff be (Some e);
           end_pos \<leftarrow> get_pos;
           State_Monad.return (body_pos, start_pos, control_pos, end_pos)
         }) n of ((body_pos, start_pos, control_pos, end_pos), n) \<Rightarrow>
           (let whole = se_out_buf_len (get_se k n) < of_nat max_req;
                d = zero_ndr\<lparr>args_maximum := of_int (int max_req - int control_pos), args_length := of_nat (end_pos - control_pos)\<rparr>;
                d = d\<lparr>actual_count := args_length d, maximum_count := args_maximum d\<rparr>;
                n = upd_se k (\<lambda>s. s\<lparr>se_out_buf_send_len := if whole then se_out_buf_len s else of_nat max_req\<rparr>) n;
                n = (if whole then n
                     else put_out_at k max_req 0 (do { pf_put_dce_rpc_header
                       (h\<lparr>rpc_flags := (rpc_flags h)\<lparr>fragment := True, no_fack := False\<rparr>\<rparr>); State_Monad.return () }) n);
                n = put_out_at k max_req body_pos (pf_put_uint16 be (se_out_buf_send_len (get_se k n) - of_nat start_pos)) n
            in put_out_at k max_req start_pos (put_ndr_req be d) n))"

definition pf_cmrpc_rm_ccontrol_req :: "'v rpc_env \<Rightarrow> u16 \<Rightarrow> nat \<Rightarrow> ('v, int) rfn" where
  "pf_cmrpc_rm_ccontrol_req env bt a n = (case pf_session_allocate env n of
       (None, n) \<Rightarrow> Some (-1, n)
     | (Some k, n) \<Rightarrow> do {
         j \<leftarrow> ra_sess (get_ra a n);
         let n = upd_se k (\<lambda>s. s\<lparr>se_ar := Some a, se_ip_addr := se_ip_addr (get_se j n), se_port := PF_RPC_SERVER_PORT,
           se_from_me := True, se_is_big_endian := True\<rparr>) n;
         let n = ccontrol_write env k a bt n;
         let (sock, n) = pf_udp_open env PF_RPC_CCONTROL_EPHEMERAL_PORT n;
         let n = upd_se k (\<lambda>s. s\<lparr>se_socket := sock, se_resend_counter := PF_CMRPC_NUMBER_OF_RESENDS\<rparr>) n;
         map_option (Pair 0) (pf_cmrpc_send_with_timeout env (rpc_ind_env env) k n)
       })"

text \<open>The environment of CMDEV: CMRPC hears of its events and sends its control requests.\<close>

definition rpc_conn_env :: "'v rpc_env \<Rightarrow> 'v rpc_world conn_env" where
  "rpc_conn_env env = (rpc_ind_env env)\<lparr>ev_cmrpc_ccontrol_req := pf_cmrpc_rm_ccontrol_req env PF_BT_APPRDY_REQ\<rparr>"

definition pf_cmrpc_rm_ccontrol_cnf :: "'v rpc_env \<Rightarrow> nat \<Rightarrow> nat \<Rightarrow> ('v, int) rfn" where
  "pf_cmrpc_rm_ccontrol_cnf env k req_pos n = do {
     a \<leftarrow> se_ar (get_se k n);
     c \<leftarrow> pf_cmrpc_rm_ccontrol_interpret_cnf (args_length (se_ndr_data (get_se k n))) (control_req_of k req_pos n);
     let n = set_parsed k c n;
     (if k_ret c \<noteq> 0 \<or> control_command (k_cb c) \<noteq> push_bit PF_CONTROL_COMMAND_BIT_DONE 1 then Some (-1, n)
      else if k_type c = PF_BT_APPRDY_PLUG_ALARM_RES then do {
        (r, n) \<leftarrow> re_plugsm_application_ready_cnf env a n;
        Some (r, upd_se k (\<lambda>s. s\<lparr>se_kill_session := True\<rparr>) n)
      } else do {
        (r, n) \<leftarrow> pf_cmdev_rm_ccontrol_cnf (rpc_conn_env env) a (k_cb c) (se_rpc_result (get_se k n)) n;
        (if r \<noteq> 0 then Some (-1, n)
         else do {
           (r, n) \<leftarrow> re_cmpbe_rm_ccontrol_cnf env a (k_cb c) (se_rpc_result (get_se k n)) n;
           Some (if r = 0 then (0, upd_se k (\<lambda>s. s\<lparr>se_kill_session := True\<rparr>) n) else (-1, n))
         })
      })
   }"

section \<open>Release requests\<close>

definition pf_cmrpc_rm_release_rsp :: "nat \<Rightarrow> nat \<Rightarrow> pf_control_block \<Rightarrow> 'v rcmd" where
  "pf_cmrpc_rm_release_rsp k sz cb n = put_rsp k sz
     (if error_code (se_rpc_result (get_se k n)) = 0 then exec (pf_put_control (out_be k n) PF_BT_RELEASE_BLOCK_RES
        (cb\<lparr>control_command := push_bit PF_CONTROL_COMMAND_BIT_DONE 1\<rparr>)) else Some) n"

text \<open>
  The second response is written over the first, with a position of its own, so that the end of the
  response stays where the first one had it.
\<close>

definition release_rsp_at :: "nat \<Rightarrow> nat \<Rightarrow> u16 \<Rightarrow> pf_control_block \<Rightarrow> 'v rcmd" where
  "release_rsp_at k sz start_pos cb n = (let end_pos = se_out_buf_len (get_se k n) in
     map_option (upd_se k (\<lambda>s. s\<lparr>se_out_buf_len := end_pos\<rparr>))
       (pf_cmrpc_rm_release_rsp k sz cb (upd_se k (\<lambda>s. s\<lparr>se_out_buf_len := start_pos\<rparr>) n)))"

definition pf_cmrpc_rm_release_ind :: "'v rpc_env \<Rightarrow> nat \<Rightarrow> nat \<Rightarrow> nat \<Rightarrow> ('v, int) rfn" where
  "pf_cmrpc_rm_release_ind env k req_pos sz n = do {
     let start_pos = se_out_buf_len (get_se k n);
     let be = out_be k n;
     n \<leftarrow> pf_cmrpc_rm_release_rsp k sz zero_control n;
     (ret, c, n) \<leftarrow> (if error_code (se_rpc_result (get_se k n)) \<noteq> 0 then Some (-1, control_req_of k req_pos n,
           upd_se k (\<lambda>s. s\<lparr>se_rpc_result := cmrpc_error PNET_ERROR_CODE_RELEASE PNET_ERROR_CODE_2_CMRPC_STATE_CONFLICT\<rparr>) n)
         else map_option (\<lambda>c. (k_ret c, c, set_parsed k c n))
           (pf_cmrpc_rm_release_interpret_req (args_length (se_ndr_data (get_se k n))) (control_req_of k req_pos n)));
     let st = se_rpc_result (get_se k n);
     (st, n) \<leftarrow> (if ret \<noteq> 0 then Some (st, n)
       else case pf_ar_find_by_uuid (cb_ar_uuid (k_cb c)) n of
           None \<Rightarrow> Some (cmrpc_error PNET_ERROR_CODE_RELEASE PNET_ERROR_CODE_2_CMRPC_AR_UUID_UNKNOWN,
             upd_se k (\<lambda>s. s\<lparr>se_kill_session := True\<rparr>) n)
         | Some a \<Rightarrow> do {
             n \<leftarrow> release_rsp_at k sz start_pos (k_cb c) n;
             ((_, st), n) \<leftarrow> pf_cmdev_rm_release_ind (rpc_conn_env env) a st n;
             Some (st, n)
           });
     Some (ret, put_out_at k sz (unat start_pos) (pf_put_pnet_status be st) n)
   }"

section \<open>DControl requests\<close>

definition pf_cmrpc_rm_dcontrol_rsp :: "nat \<Rightarrow> nat \<Rightarrow> u16 \<Rightarrow> pf_control_block \<Rightarrow> 'v rcmd" where
  "pf_cmrpc_rm_dcontrol_rsp k sz bt cb n = put_rsp k sz
     (if error_code (se_rpc_result (get_se k n)) = 0 then exec (pf_put_control (out_be k n)
        (if bt = PF_BT_PRMEND_PLUG_ALARM_REQ then PF_BT_PRMEND_PLUG_ALARM_RES else PF_BT_PRMEND_RES)
        (cb\<lparr>control_command := push_bit PF_CONTROL_COMMAND_BIT_DONE 1\<rparr>)) else Some) n"

definition dcontrol_call :: "'v rpc_env \<Rightarrow> nat \<Rightarrow> control_req \<Rightarrow> ('v, int \<times> bool) rfn" where
  "dcontrol_call env k c n = (case pf_ar_find_by_uuid (cb_ar_uuid (k_cb c)) n of
       None \<Rightarrow> Some ((-1, False), upd_se k (\<lambda>s. s\<lparr>se_kill_session := True,
         se_rpc_result := cmrpc_error PNET_ERROR_CODE_CONTROL PNET_ERROR_CODE_2_CMRPC_AR_UUID_UNKNOWN\<rparr>) n)
     | Some a \<Rightarrow>
         if k_type c = PF_BT_PRMEND_PLUG_ALARM_REQ then do {
           ((ret, st), n) \<leftarrow> re_plugsm_prmend_ind env a (se_rpc_result (get_se k n)) n;
           Some ((ret, False), set_result_of k st n)
         } else do {
           ((ret, st, prmend), n) \<leftarrow> pf_cmdev_rm_dcontrol_ind (rpc_conn_env env) a (k_cb c) (se_rpc_result (get_se k n)) n;
           Some ((ret, prmend), set_result_of k st n)
         })"

text \<open>A message with the number of the last one gets its answer again.\<close>

definition pf_cmrpc_rm_dcontrol_ind :: "'v rpc_env \<Rightarrow> nat \<Rightarrow> u32 \<Rightarrow> nat \<Rightarrow> nat \<Rightarrow> ('v, int \<times> bool) rfn" where
  "pf_cmrpc_rm_dcontrol_ind env k seq req_pos sz n = do {
     c \<leftarrow> pf_cmrpc_rm_dcontrol_interpret_req (args_length (se_ndr_data (get_se k n))) (control_req_of k req_pos n);
     let n = set_parsed k c n;
     ((ret, prmend), n) \<leftarrow>
       (if k_ret c \<noteq> 0 then Some ((-1, False), n)
        else if se_dcontrol_sequence_nmb (get_se k n) \<noteq> seq then do {
          (r, n) \<leftarrow> dcontrol_call env k c n;
          Some (r, upd_se k (\<lambda>s. s\<lparr>se_dcontrol_result := se_rpc_result s, se_dcontrol_sequence_nmb := seq\<rparr>) n)
        } else Some ((-1, False), upd_se k (\<lambda>s. s\<lparr>se_rpc_result := se_dcontrol_result s\<rparr>) n));
     n \<leftarrow> pf_cmrpc_rm_dcontrol_rsp k sz (k_type c) (k_cb c) n;
     Some ((ret, prmend), n)
   }"

end
