(* ===== verification/Rpc_Connect.thy ===== *)
theory Rpc_Connect
  imports Rpc_Control
begin

unbundle bit_operations_syntax

text \<open>
  The connect request (src/device/pf_cmrpc.c): a fresh AR is filled from the request, handed to
  CMDEV, and the response is built from what CMDEV made of it.
\<close>

section \<open>Response\<close>

text \<open>What the writers of the response see of an AR.\<close>

definition iocr_view :: "conn_ar \<Rightarrow> nat \<Rightarrow> pf_iocr_view" where
  "iocr_view r ix = (let p = iocr_param (ca_iocrs r ! ix);
       (t, ref, fid) = (if ix < length (cr_iocrs (ca_result r)) then cr_iocrs (ca_result r) ! ix else (0, 0, 0)) in
     \<lparr>iv_param = p, res_iocr_type = t, res_iocr_reference = ref, res_frame_id = fid, ppm_data_status = 0, cpm_data_status = 0\<rparr>)"

definition ar_view :: "nat \<Rightarrow> 'v rpc_net \<Rightarrow> pf_ar_view" where
  "ar_view a n = (let r = cn_ar n a; q = get_ra a n in
     \<lparr>av_ar_param = ca_param r, cm_responder_mac_add = cr_cm_responder_mac_add (ca_result r),
      responder_udp_rt_port = cr_responder_udp_rt_port (ca_result r), av_alarm_cr_request = ca_alarm_cr r,
      res_alarm_cr_type = ucast (cr_alarm_cr_type (ca_result r)),
      res_local_alarm_reference = cr_local_alarm_reference (ca_result r),
      res_max_alarm_data_length = cr_max_alarm_data_length (ca_result r), responder_rpc_server_port = 0,
      length_cm_responder_station_name = cr_length_station_name (ca_result r),
      cm_responder_station_name = cr_station_name (ca_result r), av_nbr_iocrs = of_nat (length (ca_iocrs r)),
      av_iocrs = map (iocr_view r) [0..<length (ca_iocrs r)], av_exp_ident = d_exp_ident (cn_dev n) a,
      av_prm_server = ra_prm_server q, nbr_ir_info = ra_nbr_ir_info q, sr_info_valid = False,
      nbr_ar_vendor = ra_nbr_ar_vendor q, ar_vendor_request = ra_ar_vendor_request q,
      ar_vendor_result = replicate PNET_MAX_AR_VENDOR_BLOCKS (0, replicate PNET_MAX_AR_VENDOR_BLOCK_DATA_LENGTH 0),
      fast_startup_valid = False, rs_info_valid = False\<rparr>)"

definition connect_rsp_blocks :: "bool \<Rightarrow> pf_ar_view \<Rightarrow> bool \<Rightarrow> wstate \<Rightarrow> wstate option" where
  "connect_rsp_blocks be v rpc_valid w = do {
     w \<leftarrow> exec (do {
       pf_put_ar_result be v;
       for_each (pf_put_iocr_result be v) [0..<unat (av_nbr_iocrs v)];
       pf_put_alarm_cr_result be v;
       (if nbr_diff_apis (av_exp_ident v) > 0 then pf_put_ar_diff be (Some (av_exp_ident v)) else State_Monad.return ());
       (if rpc_valid then pf_put_ar_rpc_result be v else State_Monad.return ())
     }) w;
     (if startup_mode (ar_properties (av_ar_param v)) then do {
        w \<leftarrow> pf_put_ar_server_result be v w;
        fold_option (pf_put_ar_vendor_result be v) [0..<unat (nbr_ar_vendor v)] w
      } else Some w)
   }"

definition pf_cmrpc_rm_connect_rsp :: "nat \<Rightarrow> nat \<Rightarrow> int \<Rightarrow> nat option \<Rightarrow> 'v rcmd" where
  "pf_cmrpc_rm_connect_rsp k sz ret ar n = put_rsp k sz
     (case ar of Some a \<Rightarrow> if ret = 0 then connect_rsp_blocks (out_be k n) (ar_view a n) (ca_rpc_valid (cn_ar n a)) else Some
      | None \<Rightarrow> Some) n"

section \<open>Request\<close>

definition connect_req_of :: "nat \<Rightarrow> nat \<Rightarrow> nat \<Rightarrow> 'v rpc_net \<Rightarrow> connect_req" where
  "connect_req_of k a req_pos n = \<lparr>q_rd = parser_at (se_get_info (get_se k n)) req_pos, q_st = se_rpc_result (get_se k n),
     q_ret = 0, q_first = True, q_ar = cn_ar n a, q_exp = d_exp_ident (cn_dev n) a, q_rpc = get_ra a n\<rparr>"

definition set_connect :: "nat \<Rightarrow> nat \<Rightarrow> connect_req \<Rightarrow> 'v rpc_net \<Rightarrow> 'v rpc_net" where
  "set_connect k a q n = upd_se k (\<lambda>s. s\<lparr>se_get_info := info_of (q_rd q), se_rpc_result := q_st q\<rparr>)
     (upd_ra a (\<lambda>_. q_rpc q) (upd_cn_ar a (\<lambda>_. q_ar q)
        (n\<lparr>cn_dev := (cn_dev n)\<lparr>d_exp_ident := (d_exp_ident (cn_dev n))(a := q_exp q)\<rparr>\<rparr>)))"

definition se_fails :: "nat \<Rightarrow> pnet_pnio_status \<Rightarrow> 'v rpc_net \<Rightarrow> 'v rpc_net" where
  "se_fails k st = upd_se k (\<lambda>s. s\<lparr>se_rpc_result := st\<rparr>)"

text \<open>
  The AR that the request was read into is given up when its identifier is already in use, and an AR
  with the reference 0 is only good for the checks. The value has the result, the AR and the AR
  that has the identifier.
\<close>

definition connect_new_ar :: "'v rpc_env \<Rightarrow> nat \<Rightarrow> nat \<Rightarrow> ('v, int \<times> nat option \<times> nat option) rfn" where
  "connect_new_ar env k a n = (case pf_ar_find_by_uuid (ar_uuid (ca_param (cn_ar n a))) n of
       Some b \<Rightarrow>
         (let n = (if ra_sess (get_ra b n) \<noteq> Some k then upd_se k (\<lambda>s. s\<lparr>se_kill_session := True\<rparr>) n else n);
              n = pf_ar_release env (Some a) n
          in Some ((-1, Some b, Some b), se_fails k (pf_set_error PNET_ERROR_CODE_CONNECT PNET_ERROR_DECODE_PNIO
               PNET_ERROR_CODE_1_CMDEV PNET_ERROR_CODE_2_CMDEV_STATE_CONFLICT) n))
     | None \<Rightarrow>
         if ra_arep (get_ra a n) = 0 then Some ((-1, Some a, None),
           se_fails k (conn_status (faulty_cmrpc PNET_ERROR_CODE_2_CMRPC_NO_AR_RESOURCES)) n)
         else do {
           let n = upd_se k (\<lambda>s. s\<lparr>se_ar := Some a\<rparr>) (upd_ra a (\<lambda>r. r\<lparr>ra_sess := Some k\<rparr>) n);
           ((ret, st), n) \<leftarrow> pf_cmdev_rm_connect_ind (rpc_conn_env env) a (se_rpc_result (get_se k n)) n;
           Some ((ret, Some a, None), set_result_of k st n)
         })"

definition connect_start :: "'v rpc_env \<Rightarrow> nat \<Rightarrow> nat \<Rightarrow> ('v, int \<times> nat option \<times> nat option) rfn" where
  "connect_start env k req_pos n =
     (if error_code (se_rpc_result (get_se k n)) \<noteq> 0 then Some ((-1, None, None),
        se_fails k (conn_status (faulty_cmrpc PNET_ERROR_CODE_2_CMRPC_STATE_CONFLICT)) n)
      else do {
        (ar, n) \<leftarrow> pf_ar_allocate env n;
        (case ar of None \<Rightarrow> Some ((-1, None, None),
             se_fails k (conn_status (faulty_cmrpc PNET_ERROR_CODE_2_CMRPC_NO_AR_RESOURCES)) n)
         | Some a \<Rightarrow> do {
             q \<leftarrow> pf_cmrpc_rm_connect_interpret_ind (args_length (se_ndr_data (get_se k n))) (connect_req_of k a req_pos n);
             let n = set_connect k a q n;
             (if q_ret q = 0 then connect_new_ar env k a n else Some ((-1, Some a, None), n))
           })
      })"

text \<open>
  An AR whose identifier was given again is aborted. A connect request that failed frees the AR and
  the session.
\<close>

definition connect_cleanup :: "'v rpc_env \<Rightarrow> nat \<Rightarrow> int \<Rightarrow> nat option \<Rightarrow> nat option \<Rightarrow> 'v rcmd" where
  "connect_cleanup env k ret ar dup n =
     (if dup \<noteq> None then map_option snd (pf_cmdev_cm_abort (rpc_conn_env env) dup n)
      else if ret \<noteq> 0 \<or> error_code (se_rpc_result (get_se k n)) \<noteq> 0 then
        Some (upd_se k (\<lambda>s. s\<lparr>se_ar := None, se_kill_session := True\<rparr>) (pf_ar_release env ar n))
      else re_lldp_restart env n)"

definition pf_cmrpc_rm_connect_ind :: "'v rpc_env \<Rightarrow> nat \<Rightarrow> nat \<Rightarrow> nat \<Rightarrow> ('v, int) rfn" where
  "pf_cmrpc_rm_connect_ind env k req_pos sz n = do {
     ((ret, ar, dup), n) \<leftarrow> connect_start env k req_pos n;
     n \<leftarrow> pf_cmrpc_rm_connect_rsp k sz ret ar n;
     n \<leftarrow> connect_cleanup env k ret ar dup n;
     Some (ret, n)
   }"

end
