(* ===== verification/Rpc_Records.thy ===== *)
theory Rpc_Records
  imports Rpc_Connect
begin

unbundle bit_operations_syntax

text \<open>
  The read and write requests and the lookup of the endpoint mapper (src/device/pf_cmrpc.c). The
  records themselves are those of CMRDR and CMWRR, which are functions of the environment. A
  write request may carry several writes, which are carried out one after the other.
\<close>

section \<open>Codes\<close>

definition PF_BT_IOD_WRITE_REQ_HEADER :: u16 where "PF_BT_IOD_WRITE_REQ_HEADER = 0x0008"
definition PF_BT_IOD_READ_REQ_HEADER :: u16 where "PF_BT_IOD_READ_REQ_HEADER = 0x0009"
definition PF_BT_INTERFACE_ADJUST :: u16 where "PF_BT_INTERFACE_ADJUST = 0x0250"
definition PF_IDX_USER_MAX :: u16 where "PF_IDX_USER_MAX = 0x7fff"
definition PF_IDX_AR_WRITE_MULTIPLE :: u16 where "PF_IDX_AR_WRITE_MULTIPLE = 0xe040"

definition record_error :: "u8 \<Rightarrow> u8 \<Rightarrow> pnet_pnio_status" where
  "record_error code c2 = pf_set_error code PNET_ERROR_DECODE_PNIO PNET_ERROR_CODE_1_CONN_FAULTY_FAULTY_RECORD c2"

definition area_error :: "u8 \<Rightarrow> u8 \<Rightarrow> pnet_pnio_status" where
  "area_error code c2 = pf_set_error code PNET_ERROR_DECODE_PNIORW PNET_ERROR_CODE_1_ACC_INVALID_AREA_API c2"

section \<open>Read\<close>

definition zero_read_request :: pf_iod_read_request where
  "zero_read_request = \<lparr>rq_sequence_number = 0, rq_ar_uuid = zero_uuid, rq_api = 0, rq_slot_number = 0, rq_subslot_number = 0,
     rq_padding = [0, 0], rq_index = 0, rq_record_data_length = 0, target_ar_uuid = zero_uuid, rq_rw_padding = replicate 8 0\<rparr>"

definition pf_cmrpc_rm_read_interpret_ind ::
    "u32 \<Rightarrow> rstate \<Rightarrow> pnet_pnio_status \<Rightarrow> int \<times> pf_iod_read_request \<times> rstate \<times> pnet_pnio_status" where
  "pf_cmrpc_rm_read_interpret_ind args_len r st =
     (let start_pos = r_pos r in
      if \<not> more_blocks r then (-1, zero_read_request, r, st)
      else case run_state pf_get_block_header r of (h, r) \<Rightarrow>
        if \<not> block_fits r h then (-1, zero_read_request, r, st)
        else if block_type h \<noteq> PF_BT_IOD_READ_REQ_HEADER then
          (-1, zero_read_request, r, record_error PNET_ERROR_CODE_READ PNET_ERROR_CODE_2_CMRPC_UNKNOWN_BLOCKS)
        else case run_state (pf_get_read_request zero_read_request) r of (q, r) \<Rightarrow>
          if g_result r \<noteq> PF_PARSE_OK \<or> r_pos r \<noteq> g_len r \<or> of_nat (r_pos r - start_pos) \<noteq> args_len then
            (-1, q, r, cmrpc_error PNET_ERROR_CODE_READ PNET_ERROR_CODE_2_CMRPC_ARGSLENGTH_INVALID)
          else (0, q, r, st))"

definition set_read :: "nat \<Rightarrow> rstate \<Rightarrow> pnet_pnio_status \<Rightarrow> 'v rpc_net \<Rightarrow> 'v rpc_net" where
  "set_read k r st = upd_se k (\<lambda>s. s\<lparr>se_get_info := info_of r, se_rpc_result := st\<rparr>)"

text \<open>The answer is written by the handler of the record between the head and its correction.\<close>

definition read_record :: "'v rpc_env \<Rightarrow> nat \<Rightarrow> nat option \<Rightarrow> pf_iod_read_request \<Rightarrow> nat \<Rightarrow> ('v, int) rfn" where
  "read_record env k ar q sz n = (let status_pos = unat (se_out_buf_len (get_se k n)) in
     case put_rsp_head k sz n of ((hdr_pos, start_pos), n) \<Rightarrow> do {
       ((r, st), n) \<leftarrow> re_cmrdr_rm_read_ind env ar q (se_rpc_result (get_se k n)) k sz n;
       let n = set_result_of k st n;
       (ret, n) \<leftarrow> (if r = 0 then re_cmsm_rm_read_ind env ar q n else Some (-1, n));
       let n = put_out_at k sz status_pos (pf_put_pnet_status (out_be k n) (se_rpc_result (get_se k n))) n;
       Some (ret, fix_ndr k sz hdr_pos start_pos n)
     })"

definition pf_cmrpc_rm_read_ind :: "'v rpc_env \<Rightarrow> nat \<Rightarrow> u16 \<Rightarrow> nat \<Rightarrow> nat \<Rightarrow> ('v, int) rfn" where
  "pf_cmrpc_rm_read_ind env k op req_pos sz n =
     (if error_code (se_rpc_result (get_se k n)) \<noteq> 0 then
        Some (-1, se_fails k (cmrpc_error PNET_ERROR_CODE_READ PNET_ERROR_CODE_2_CMRPC_STATE_CONFLICT) n)
      else case pf_cmrpc_rm_read_interpret_ind (args_length (se_ndr_data (get_se k n)))
                  (parser_at (se_get_info (get_se k n)) req_pos) (se_rpc_result (get_se k n)) of
        (ret, q, r, st) \<Rightarrow>
          (let n = set_read k r st n; ar = pf_ar_find_by_uuid (rq_ar_uuid q) n;
               kill = upd_se k (\<lambda>s. s\<lparr>se_kill_session := True\<rparr>) in
           if ret \<noteq> 0 then Some (-1, n)
           else if rq_ar_uuid q = zero_uuid \<and> op \<noteq> PF_RPC_DEV_OPNUM_READ_IMPLICIT then
             Some (-1, kill (se_fails k (record_error PNET_ERROR_CODE_READ PNET_ERROR_CODE_2_CMRPC_AR_UUID_UNKNOWN) n))
           else if ar \<noteq> None \<and> op \<noteq> PF_RPC_DEV_OPNUM_READ then
             Some (-1, kill (se_fails k (cmrpc_error PNET_ERROR_CODE_READ PNET_ERROR_CODE_2_CMRPC_AR_UUID_UNKNOWN) n))
           else if rq_api q \<noteq> 0 \<and> pf_cmdev_get_api (d_device (cn_dev n)) (rq_api q) = None then
             Some (-1, se_fails k (area_error PNET_ERROR_CODE_READ 6) n)
           else read_record env k
             (if ar = None \<and> op = PF_RPC_DEV_OPNUM_READ_IMPLICIT then pf_ar_find_by_uuid (target_ar_uuid q) n else ar) q sz n))"

section \<open>Lookup\<close>

definition zero_lookup_request :: pf_rpc_lookup_req where
  "zero_lookup_request = \<lparr>inquiry_type = 0, object_id = 0, lr_object_uuid = zero_uuid, interface_id = 0,
     lr_interface_uuid = zero_uuid, interface_ver_major = 0, interface_ver_minor = 0, version_option = 0,
     rpc_handle = \<lparr>rpc_entry_handle = 0, handle_uuid = zero_rpc_uuid\<rparr>, max_entries = 0\<rparr>"

definition pf_cmrpc_lookup_ind :: "'v rpc_env \<Rightarrow> nat \<Rightarrow> u32 \<Rightarrow> nat \<Rightarrow> nat \<Rightarrow> ('v, int) rfn" where
  "pf_cmrpc_lookup_ind env k seq req_pos sz n =
     (if error_code (se_rpc_result (get_se k n)) \<noteq> 0 then
        Some (-1, se_fails k (cmrpc_error PNET_ERROR_CODE_READ PNET_ERROR_CODE_2_CMRPC_STATE_CONFLICT) n)
      else case run_state (pf_get_epm_lookup_request zero_lookup_request) (parser_at (se_get_info (get_se k n)) req_pos) of
        (q, r) \<Rightarrow>
          (let n = upd_se k (\<lambda>s. s\<lparr>se_get_info := info_of r\<rparr>) n in
           map_option (Pair 0) (put_out_opt k sz
             (\<lambda>w. map_option snd (pf_cmrpc_lookup_request (re_epm_cfg env) (rw_now (rw n)) (ev_mac_address (re_conn env))
                PF_RPC_SERVER_PORT (se_port (get_se k n)) seq q w)) n)))"

section \<open>Write\<close>

definition zero_write_request :: pf_iod_write_request where
  "zero_write_request = \<lparr>wq_sequence_number = 0, wq_ar_uuid = zero_uuid, wq_api = 0, wq_slot_number = 0, wq_subslot_number = 0,
     wq_padding = [0, 0], wq_index = 0, wq_record_data_length = 0, wq_rw_padding = replicate 24 0\<rparr>"

definition zero_write_result :: pf_iod_write_result where
  "zero_write_result = \<lparr>rr_sequence_number = 0, rr_ar_uuid = zero_uuid, rr_api = 0, rr_slot_number = 0, rr_subslot_number = 0,
     rr_index = 0, rr_record_data_length = 0, add_data_1 = 0, add_data_2 = 0, pnio_status = no_status\<rparr>"

definition pf_cmrpc_rm_write_interpret_ind ::
    "pf_iod_write_request \<Rightarrow> rstate \<Rightarrow> pnet_pnio_status \<Rightarrow> int \<times> pf_iod_write_request \<times> rstate \<times> pnet_pnio_status" where
  "pf_cmrpc_rm_write_interpret_ind old r st =
     (if \<not> r_pos r + header_size \<le> g_len r then (-1, old, r, st)
      else case run_state pf_get_block_header r of (h, r) \<Rightarrow>
        if \<not> block_fits r h then (-1, old, r, st)
        else if block_type h = PF_BT_IOD_WRITE_REQ_HEADER then
          (case run_state (pf_get_write_request old) r of (q, r) \<Rightarrow> (0, q, r, st))
        else if block_type h = PF_BT_INTERFACE_ADJUST then (0, old, r, st)
        else (-1, old, r, record_error PNET_ERROR_CODE_WRITE PNET_ERROR_CODE_2_CMRPC_UNKNOWN_BLOCKS))"

record write_state =
  ws_req :: pf_iod_write_request
  ws_res :: pf_iod_write_result
  ws_st :: pnet_pnio_status
  ws_pos :: u16
  ws_ret :: int

text \<open>
  The sum of the position and the length of the record has 32 bits, and the length is passed on with 16.
  The header of a record that is not one of the user is skipped.
\<close>

definition write_record :: "'v rpc_env \<Rightarrow> nat \<Rightarrow> nat \<Rightarrow> write_state \<Rightarrow> ('v, write_state) rfn" where
  "write_record env k a w n =
     (let user = wq_index (ws_req w) \<le> PF_IDX_USER_MAX;
          len = wq_record_data_length (ws_req w);
          r = parser_at (se_get_info (get_se k n)) (unat (ws_pos w));
          r = (if user then r else snd (run_state pf_get_block_header r));
          n = upd_se k (\<lambda>s. s\<lparr>se_get_info := info_of r\<rparr>) n
      in do {
        ((ret, res, st, pos), n) \<leftarrow> re_cmwrr_rm_write_ind env a (ws_req w) (ws_res w) (ws_st w)
          (g_buf (se_get_info (get_se k n))) (if user then ucast len else ucast (len - of_nat header_size)) (of_nat (r_pos r)) n;
        Some (if ret = 0 then w\<lparr>ws_res := res, ws_st := st, ws_pos := pos, ws_ret := 0\<rparr>
          else w\<lparr>ws_res := res, ws_pos := pos, ws_ret := -1,
            ws_st := pf_set_error_if_not_already_set PNET_ERROR_CODE_WRITE PNET_ERROR_DECODE_PNIORW
              PNET_ERROR_CODE_1_ACC_INVALID_AREA_API 2 st\<rparr>, n)
      })"

definition write_length_ok :: "session \<Rightarrow> write_state \<Rightarrow> bool" where
  "write_length_ok s w \<longleftrightarrow> ucast (ws_pos w) + wq_record_data_length (ws_req w) \<le> (of_nat (g_len (se_get_info s)) :: u32)"

definition pf_cmrpc_perform_one_write :: "'v rpc_env \<Rightarrow> nat \<Rightarrow> write_state \<Rightarrow> ('v, write_state) rfn" where
  "pf_cmrpc_perform_one_write env k w n = do {
     (w, n) \<leftarrow> (case pf_ar_find_by_uuid (wq_ar_uuid (ws_req w)) n of
         None \<Rightarrow> Some (w\<lparr>ws_ret := -1, ws_st := cmrpc_error PNET_ERROR_CODE_WRITE PNET_ERROR_CODE_2_CMRPC_AR_UUID_UNKNOWN\<rparr>,
             upd_se k (\<lambda>s. s\<lparr>se_kill_session := True\<rparr>) n)
       | Some a \<Rightarrow>
           if wq_api (ws_req w) \<noteq> 0 \<and> pf_cmdev_get_api (d_device (cn_dev n)) (wq_api (ws_req w)) = None then
             Some (w\<lparr>ws_ret := -1, ws_st := area_error PNET_ERROR_CODE_WRITE 1\<rparr>, n)
           else if write_length_ok (get_se k n) w then write_record env k a w n
           else Some (w\<lparr>ws_ret := -1, ws_st := area_error PNET_ERROR_CODE_WRITE 4\<rparr>, n));
     Some (if ws_ret w \<noteq> 0 then w\<lparr>ws_res := (ws_res w)\<lparr>pnio_status := ws_st w\<rparr>\<rparr> else w, n)
   }"

definition align4 :: "u16 \<Rightarrow> u16" where
  "align4 p = (p + 3) AND NOT 3"

text \<open>One round of the loop over the writes of a request; the flag tells that the loop goes on.\<close>

definition write_round :: "'v rpc_env \<Rightarrow> nat \<Rightarrow> nat \<Rightarrow> write_state \<Rightarrow> ('v, bool \<times> write_state) rfn" where
  "write_round env k sz w n =
     (if \<not> (unat (ws_pos w) + 58 < g_len (se_get_info (get_se k n)) \<and> error_code (pnio_status (ws_res w)) = 0)
      then Some ((False, w), n)
      else case pf_cmrpc_rm_write_interpret_ind (ws_req w) (parser_at (se_get_info (get_se k n)) (unat (ws_pos w))) (ws_st w) of
        (r, q, rd, st) \<Rightarrow>
          (let n = upd_se k (\<lambda>s. s\<lparr>se_get_info := info_of rd\<rparr>) n;
               w = w\<lparr>ws_req := q, ws_st := st, ws_pos := of_nat (r_pos rd)\<rparr> in
           if r \<noteq> 0 then Some ((False, w), n)
           else do {
             (w, n) \<leftarrow> pf_cmrpc_perform_one_write env k w n;
             let (_, n) = put_out k sz (pf_put_write_result (out_be k n) (ws_res w)) n;
             Some ((True, w\<lparr>ws_pos := align4 (ws_pos w), ws_st := no_status\<rparr>), n)
           }))"

partial_function (option) write_rounds :: "'v rpc_env \<Rightarrow> nat \<Rightarrow> nat \<Rightarrow> write_state \<Rightarrow> ('v, write_state) rfn" where
  "write_rounds env k sz w n = Option.bind (write_round env k sz w n)
     (\<lambda>((more, w), n). if more then write_rounds env k sz w n else Some (w, n))"

declare write_rounds.simps [code]

definition write_multiple :: "'v rpc_env \<Rightarrow> nat \<Rightarrow> nat \<Rightarrow> write_state \<Rightarrow> ('v, write_state) rfn" where
  "write_multiple env k sz w n = (case put_out k sz (pf_put_write_result (out_be k n) (ws_res w)) n of (_, n) \<Rightarrow> do {
     (v, n) \<leftarrow> write_rounds env k sz (w\<lparr>ws_req := zero_write_request, ws_res := zero_write_result, ws_st := no_status\<rparr>) n;
     Some (w\<lparr>ws_pos := ws_pos v, ws_ret := if unat (ws_pos v) \<noteq> g_len (se_get_info (get_se k n)) then -1 else ws_ret v\<rparr>, n)
   })"

definition write_single :: "'v rpc_env \<Rightarrow> nat \<Rightarrow> nat \<Rightarrow> write_state \<Rightarrow> ('v, write_state) rfn" where
  "write_single env k sz w n = do {
     (w, n) \<leftarrow> pf_cmrpc_perform_one_write env k w n;
     let n = set_result_of k (ws_st w) n;
     let (_, n) = put_out k sz (pf_put_write_result (out_be k n) (ws_res w)) n;
     Some (w, n)
   }"

definition write_result_of :: "pf_iod_write_request \<Rightarrow> pnet_pnio_status \<Rightarrow> pf_iod_write_result" where
  "write_result_of q st = zero_write_result\<lparr>rr_sequence_number := wq_sequence_number q, rr_ar_uuid := wq_ar_uuid q,
     rr_api := wq_api q, rr_slot_number := wq_slot_number q, rr_subslot_number := wq_subslot_number q,
     rr_index := wq_index q, rr_record_data_length := 0, pnio_status := st\<rparr>"

definition write_check :: "nat \<Rightarrow> nat \<Rightarrow> write_state \<Rightarrow> 'v rpc_net \<Rightarrow> int \<times> 'v rpc_net" where
  "write_check k req_pos w n =
     (if ws_ret w = 0 \<and> (g_result (se_get_info (get_se k n)) \<noteq> PF_PARSE_OK \<or>
          of_int (int (unat (ws_pos w)) - int req_pos) \<noteq> args_length (se_ndr_data (get_se k n)))
      then (-1, se_fails k (cmrpc_error PNET_ERROR_CODE_WRITE PNET_ERROR_CODE_2_CMRPC_ARGSLENGTH_INVALID) n)
      else (ws_ret w, n))"

definition pf_cmrpc_rm_write_ind :: "'v rpc_env \<Rightarrow> nat \<Rightarrow> nat \<Rightarrow> nat \<Rightarrow> ('v, int) rfn" where
  "pf_cmrpc_rm_write_ind env k req_pos sz n =
     (case pf_cmrpc_rm_write_interpret_ind zero_write_request (parser_at (se_get_info (get_se k n)) req_pos)
             (se_rpc_result (get_se k n)) of (ret, q, r, st) \<Rightarrow>
      (let n = set_read k r st n; status_pos = unat (se_out_buf_len (get_se k n)) in
       case put_rsp_head k sz n of ((hdr_pos, start_pos), n) \<Rightarrow>
         if g_result (se_get_info (get_se k n)) \<noteq> PF_PARSE_OK then Some (ret, n)
         else do {
           let w = \<lparr>ws_req = q, ws_res = write_result_of q st, ws_st = st, ws_pos = of_nat (r_pos r), ws_ret = ret\<rparr>;
           (w, n) \<leftarrow> (if ret \<noteq> 0 then Some (w, n)
             else if wq_index q = PF_IDX_AR_WRITE_MULTIPLE then write_multiple env k sz w n
             else write_single env k sz w n);
           let (ret, n) = write_check k req_pos w n;
           let n = fix_ndr k sz hdr_pos start_pos n;
           Some (ret, put_out_at k sz status_pos (pf_put_pnet_status (out_be k n) (se_rpc_result (get_se k n))) n)
         }))"

end
