(* ===== verification/Rpc_Packet.thy ===== *)
theory Rpc_Packet
  imports Rpc_Records
begin

unbundle bit_operations_syntax

text \<open>
  The packets of DCE RPC (src/device/pf_cmrpc.c): incoming fragments are collected in the session,
  a complete message is handled by its type, and a response that does not fit into one packet is
  sent in fragments, the next one whenever the controller has acknowledged the last.
\<close>

section \<open>Codes\<close>

definition PF_RPC_PT_PING :: u8 where "PF_RPC_PT_PING = 1"
definition PF_RPC_PT_RESPONSE :: u8 where "PF_RPC_PT_RESPONSE = 2"
definition PF_RPC_PT_FAULT :: u8 where "PF_RPC_PT_FAULT = 3"
definition PF_RPC_PT_RESP_PING :: u8 where "PF_RPC_PT_RESP_PING = 5"
definition PF_RPC_PT_REJECT :: u8 where "PF_RPC_PT_REJECT = 6"
definition PF_RPC_PT_CL_CANCEL :: u8 where "PF_RPC_PT_CL_CANCEL = 8"
definition PF_RPC_PT_FRAG_ACK :: u8 where "PF_RPC_PT_FRAG_ACK = 9"
definition PF_RPC_NCA_PROTO_ERROR :: u32 where "PF_RPC_NCA_PROTO_ERROR = 0x1C01000B"

lemmas packet_type_defs = PF_RPC_PT_REQUEST_def PF_RPC_PT_PING_def PF_RPC_PT_RESPONSE_def PF_RPC_PT_FAULT_def
  PF_RPC_PT_RESP_PING_def PF_RPC_PT_REJECT_def PF_RPC_PT_CL_CANCEL_def PF_RPC_PT_FRAG_ACK_def

definition uuid_epmap_interface :: pf_uuid where
  "uuid_epmap_interface = \<lparr>data1 = 0xE1AF8308, data2 = 0x5D1F, data3 = 0x11C9,
     data4 = [0x91, 0xA4, 0x08, 0x00, 0x2B, 0x14, 0xA0, 0xFA]\<rparr>"

definition uuid_io_device_interface :: pf_uuid where
  "uuid_io_device_interface = \<lparr>data1 = 0xDEA00001, data2 = 0x6C97, data3 = 0x11D1,
     data4 = [0x82, 0x71, 0x00, 0xA0, 0x24, 0x42, 0xDF, 0x7D]\<rparr>"

section \<open>Requests and responses of CMRPC\<close>

definition set_kill :: "nat \<Rightarrow> 'v rpc_net \<Rightarrow> 'v rpc_net" where
  "set_kill k = upd_se k (\<lambda>s. s\<lparr>se_kill_session := True\<rparr>)"

text \<open>The flag tells that the event PRMEND follows when the response has been sent.\<close>

definition pf_cmrpc_rpc_request :: "'v rpc_env \<Rightarrow> nat \<Rightarrow> nat \<Rightarrow> pf_rpc_header \<Rightarrow> nat \<Rightarrow> ('v, int \<times> bool) rfn" where
  "pf_cmrpc_rpc_request env k req_pos h sz n =
     (let plain = map_option (\<lambda>(r, n). ((r, False), n)) in
      if opnum h = PF_RPC_DEV_OPNUM_CONNECT then plain (pf_cmrpc_rm_connect_ind env k req_pos sz n)
      else if opnum h = PF_RPC_DEV_OPNUM_RELEASE then
        map_option (\<lambda>(r, n). ((r, False), set_kill k n)) (pf_cmrpc_rm_release_ind env k req_pos sz n)
      else if opnum h = PF_RPC_DEV_OPNUM_READ then
        map_option (\<lambda>(r, n). ((r, False), if se_ar (get_se k n) = None then set_kill k n else n))
          (pf_cmrpc_rm_read_ind env k (opnum h) req_pos sz n)
      else if opnum h = PF_RPC_DEV_OPNUM_WRITE then plain (pf_cmrpc_rm_write_ind env k req_pos sz n)
      else if opnum h = PF_RPC_DEV_OPNUM_CONTROL then pf_cmrpc_rm_dcontrol_ind env k (sequence_nmb h) req_pos sz n
      else if opnum h = PF_RPC_DEV_OPNUM_READ_IMPLICIT then
        map_option (\<lambda>(r, n). ((r, False), set_kill k n)) (pf_cmrpc_rm_read_ind env k (opnum h) req_pos sz n)
      else Some ((-1, False), n))"

definition pf_cmrpc_rpc_response :: "'v rpc_env \<Rightarrow> nat \<Rightarrow> nat \<Rightarrow> pf_rpc_header \<Rightarrow> ('v, int) rfn" where
  "pf_cmrpc_rpc_response env k req_pos h n =
     (if opnum h = PF_RPC_DEV_OPNUM_CONTROL then pf_cmrpc_rm_ccontrol_cnf env k req_pos n else Some (-1, n))"

section \<open>Sessions of a packet\<close>

text \<open>The session of the activity, or a new one; the flag tells which.\<close>

definition packet_session :: "'v rpc_env \<Rightarrow> u32 \<Rightarrow> u16 \<Rightarrow> pf_rpc_header \<Rightarrow> 'v rpc_net \<Rightarrow> (nat \<times> bool) option \<times> 'v rpc_net" where
  "packet_session env addr p h n = (case pf_session_locate_by_uuid (activity_uuid h) n of
       Some k \<Rightarrow> (Some (k, False), n)
     | None \<Rightarrow> (case pf_session_allocate env n of (None, n) \<Rightarrow> (None, n)
         | (Some k, n) \<Rightarrow> (Some (k, True), upd_se k (\<lambda>s. s\<lparr>se_from_me := False, se_ip_addr := addr, se_port := p,
             se_socket := rw_rpcreq_socket (rw n)\<rparr>) n)))"

text \<open>The first packet of a message.\<close>

definition start_message :: "u32 \<Rightarrow> u16 \<Rightarrow> pf_rpc_header \<Rightarrow> session \<Rightarrow> session" where
  "start_message addr p h s = s\<lparr>se_in_buf_len := 0, se_ip_addr := addr, se_port := p, se_activity_uuid := activity_uuid h,
     se_is_big_endian := g_is_big_endian (se_get_info s), se_in_fragment_nbr := 0, se_kill_session := False\<rparr>"

abbreviation state_conflict :: pnet_pnio_status where
  "state_conflict \<equiv> conn_status (faulty_cmrpc PNET_ERROR_CODE_2_CMRPC_STATE_CONFLICT)"

text \<open>
  A fragment goes behind the ones that have come. When it is the last one, the parser reads the
  input buffer from its start. As many bytes are copied as the header says, whatever the length
  of the packet.
\<close>

definition add_fragment :: "u8 list \<Rightarrow> nat \<Rightarrow> pf_rpc_header \<Rightarrow> session \<Rightarrow> nat \<times> session" where
  "add_fragment frame req_pos h s =
     (if se_in_fragment_nbr s \<noteq> fragment_nmb h then (req_pos, s\<lparr>se_rpc_result := state_conflict\<rparr>)
      else if unat (se_in_buf_len s) + unat (length_of_body h) > PNET_MAX_SESSION_BUFFER_SIZE then
        (req_pos, s\<lparr>se_rpc_result := state_conflict\<rparr>)
      else
        (let s = s\<lparr>se_in_buffer := write_at (unat (se_in_buf_len s)) (take (unat (length_of_body h)) (drop req_pos frame))
                      (se_in_buffer s),
               se_in_buf_len := se_in_buf_len s + length_of_body h, se_in_fragment_nbr := se_in_fragment_nbr s + 1\<rparr>
         in if last_fragment (rpc_flags h) then
              (0, s\<lparr>se_get_info := (se_get_info s)\<lparr>g_buf := Some (se_in_buffer s), g_len := unat (se_in_buf_len s)\<rparr>\<rparr>)
            else (req_pos, s)))"

definition too_large :: "pf_rpc_header \<Rightarrow> bool" where
  "too_large h \<longleftrightarrow> unat (length_of_body h) > PF_CMRPC_MAX_PDU_BODY_SIZE"

definition collect :: "u8 list \<Rightarrow> u32 \<Rightarrow> u16 \<Rightarrow> nat \<Rightarrow> pf_rpc_header \<Rightarrow> session \<Rightarrow> nat \<times> session" where
  "collect frame addr p req_pos h s =
     (if too_large h then (req_pos, s)
      else if \<not> fragment (rpc_flags h) then (req_pos, start_message addr p h s)
      else add_fragment frame req_pos h
        (if fragment_nmb h = 0 then start_message addr p h s
         else if se_is_big_endian s \<noteq> rpc_is_big_endian h then s\<lparr>se_rpc_result := state_conflict\<rparr> else s))"

section \<open>Replies without a buffer\<close>

definition reply_header :: "u8 \<Rightarrow> bool \<Rightarrow> bool \<Rightarrow> bool \<Rightarrow> pf_rpc_header \<Rightarrow> pf_rpc_header" where
  "reply_header pt nofack idem be h = h\<lparr>packet_type := pt, rpc_flags := no_flags\<lparr>no_fack := nofack, idempotent := idem\<rparr>,
     cancel_pending := False, rpc_is_big_endian := be\<rparr>"

definition send_reply :: "'v rpc_env \<Rightarrow> nat \<Rightarrow> unit wr \<Rightarrow> 'v rpc_net \<Rightarrow> 'v rpc_net" where
  "send_reply env k m n =
     (let w = snd (run_state m \<lparr>w_bytes = Some (replicate PF_FRAME_BUFFER_SIZE 0), w_len = PF_MAX_UDP_PAYLOAD_SIZE, w_pos = 0\<rparr>)
      in snd (pf_cmrpc_send_once_from_buffer env k (case w_bytes w of Some b \<Rightarrow> take (w_pos w) b | None \<Rightarrow> []) n))"

definition put_header :: "pf_rpc_header \<Rightarrow> unit wr" where
  "put_header h = do { pf_put_dce_rpc_header h; State_Monad.return () }"

definition packet_too_large :: "'v rpc_env \<Rightarrow> nat \<Rightarrow> bool \<Rightarrow> pf_rpc_header \<Rightarrow> 'v rpc_net \<Rightarrow> 'v rpc_net" where
  "packet_too_large env k new h n =
     (let be = se_is_big_endian (get_se k n);
          r = (reply_header PF_RPC_PT_REJECT True True be h)\<lparr>length_of_body := 4, fragment_nmb := 0\<rparr>
      in upd_se k (\<lambda>s. s\<lparr>se_kill_session := new\<rparr>)
           (send_reply env k (do { put_header r; pf_put_uint32 be PF_RPC_NCA_PROTO_ERROR }) n))"

definition clear_output :: "session \<Rightarrow> session" where
  "clear_output s = s\<lparr>se_out_buf_len := 0, se_out_buf_sent_pos := 0, se_out_buf_send_len := 0, se_out_fragment_nbr := 0\<rparr>"

definition packet_ping :: "'v rpc_env \<Rightarrow> nat \<Rightarrow> bool \<Rightarrow> pf_rpc_header \<Rightarrow> 'v rpc_net \<Rightarrow> 'v rpc_net" where
  "packet_ping env k new h n =
     (let n = upd_se k clear_output n;
          r = (reply_header PF_RPC_PT_RESP_PING True True (se_is_big_endian (get_se k n)) h)\<lparr>fragment_nmb := 0\<rparr>
      in upd_se k (\<lambda>s. s\<lparr>se_kill_session := new\<rparr>) (send_reply env k (put_header r) n))"

definition packet_fragment :: "'v rpc_env \<Rightarrow> nat \<Rightarrow> pf_rpc_header \<Rightarrow> 'v rpc_net \<Rightarrow> 'v rpc_net" where
  "packet_fragment env k h n =
     (if fragment (rpc_flags h) \<and> \<not> no_fack (rpc_flags h) then
        send_reply env k (put_header
          ((reply_header PF_RPC_PT_FRAG_ACK False False (se_is_big_endian (get_se k n)) h)\<lparr>length_of_body := 0\<rparr>)) n
      else n)"

section \<open>Requests\<close>

text \<open>The size of the response is limited by the buffers of both sides.\<close>

definition max_rsp_len :: "nat \<Rightarrow> pf_ndr_data \<Rightarrow> nat" where
  "max_rsp_len req_pos d = (let remote = of_nat req_pos + args_maximum d in
     if remote > of_nat PNET_MAX_SESSION_BUFFER_SIZE then PNET_MAX_SESSION_BUFFER_SIZE else unat (ucast remote :: u16))"

text \<open>The parser is set up for the interface; from then on all is in one byte order.\<close>

definition request_begin :: "nat \<Rightarrow> nat \<Rightarrow> pf_rpc_header \<Rightarrow> 'v rpc_net \<Rightarrow> nat \<times> nat \<times> 'v rpc_net" where
  "request_begin k req_pos h n =
     (let n = upd_se k clear_output n in
      if interface_uuid h \<noteq> uuid_epmap_interface then
        (case run_state pf_get_ndr_data (parser_at (se_get_info (get_se k n)) req_pos) of (d, r) \<Rightarrow>
           (r_pos r, max_rsp_len (r_pos r) d,
            upd_se k (\<lambda>s. s\<lparr>se_ndr_data := d, se_get_info := (info_of r)\<lparr>g_is_big_endian := True\<rparr>\<rparr>) n))
      else (req_pos, PNET_MAX_SESSION_BUFFER_SIZE,
            upd_se k (\<lambda>s. s\<lparr>se_get_info := (se_get_info s)\<lparr>g_is_big_endian := False\<rparr>\<rparr>) n))"

definition response_header :: "nat \<Rightarrow> pf_rpc_header \<Rightarrow> 'v rpc_net \<Rightarrow> pf_rpc_header" where
  "response_header k h n = (let f = se_out_fragment_nbr (get_se k n) in
     (reply_header PF_RPC_PT_RESPONSE True True (out_be k n) h)
     \<lparr>fragment_nmb := f, serial_high := ucast (drop_bit 8 f), serial_low := ucast (f AND 0xff)\<rparr>)"

text \<open>The value has the result, the flag of PRMEND, the wish to close the socket and the header.\<close>

definition request_handle ::
    "'v rpc_env \<Rightarrow> nat \<Rightarrow> nat \<Rightarrow> nat \<Rightarrow> pf_rpc_header \<Rightarrow> pf_rpc_header \<Rightarrow> ('v, int \<times> bool \<times> bool \<times> pf_rpc_header) rfn" where
  "request_handle env k req_pos sz h r n =
     (let release = (opnum h = PF_RPC_DEV_OPNUM_RELEASE); close = (release \<and> se_from_me (get_se k n));
          n = (if release then upd_se k (\<lambda>s. s\<lparr>se_release_in_progress := True\<rparr>) n else n)
      in if interface_uuid h = uuid_io_device_interface then
           map_option (\<lambda>((ret, prmend), n). ((ret, prmend, close, r), n)) (pf_cmrpc_rpc_request env k req_pos h sz n)
         else if interface_uuid h = uuid_epmap_interface then
           map_option (\<lambda>(ret, n). ((ret, False, se_from_me (get_se k n),
                r\<lparr>fragment_nmb := 0, rpc_flags := (rpc_flags r)\<lparr>idempotent := False\<rparr>\<rparr>), set_kill k n))
             (pf_cmrpc_lookup_ind env k (sequence_nmb h) req_pos sz n)
         else Some ((-1, False, close, r), n))"

text \<open>The response is sent whole, or its first fragment, which is repeated until it is acknowledged.\<close>

definition request_send ::
    "'v rpc_env \<Rightarrow> nat \<Rightarrow> nat \<Rightarrow> nat \<Rightarrow> nat \<Rightarrow> pf_rpc_header \<Rightarrow> int \<Rightarrow> ('v, int) rfn" where
  "request_send env k sz start_pos body_pos r ret n =
     (let whole = unat (se_out_buf_len (get_se k n)) < PF_MAX_UDP_PAYLOAD_SIZE;
          n = upd_se k (\<lambda>s. s\<lparr>se_out_buf_send_len := if whole then se_out_buf_len s else of_nat PF_MAX_UDP_PAYLOAD_SIZE\<rparr>) n;
          n = (if whole then n
               else put_out_at k sz 0 (put_header (r\<lparr>rpc_flags := (rpc_flags r)\<lparr>fragment := True, no_fack := False\<rparr>\<rparr>)) n);
          send_len = se_out_buf_send_len (get_se k n);
          n = put_out_at k (unat send_len) body_pos (pf_put_uint16 (rpc_is_big_endian r) (send_len - of_nat start_pos)) n
      in if whole then Some (pf_cmrpc_send_once env k n)
         else map_option (Pair ret) (pf_cmrpc_send_with_timeout env (rpc_conn_env env) k
                (upd_se k (\<lambda>s. s\<lparr>se_resend_counter := PF_CMRPC_NUMBER_OF_RESENDS\<rparr>) n)))"

definition packet_request :: "'v rpc_env \<Rightarrow> nat \<Rightarrow> nat \<Rightarrow> pf_rpc_header \<Rightarrow> ('v, int \<times> bool) rfn" where
  "packet_request env k req_pos h n = (case request_begin k req_pos h n of (req_pos, sz, n) \<Rightarrow>
     (let r = response_header k h n in
      case put_out k sz (pf_put_dce_rpc_header r) n of (body_pos, n) \<Rightarrow> do {
        let start_pos = unat (se_out_buf_len (get_se k n));
        ((ret, prmend, close, r), n) \<leftarrow> request_handle env k req_pos sz h r n;
        (ret, n) \<leftarrow> request_send env k sz start_pos body_pos r ret n;
        n \<leftarrow> (case se_ar (get_se k n) of Some a \<Rightarrow>
                 if prmend then pf_cmdev_state_ind (rpc_conn_env env) a PNET_EVENT_PRMEND n else Some n
               | None \<Rightarrow> Some n);
        Some ((ret, close), n)
      }))"

section \<open>Fragments of a response\<close>

text \<open>
  The next fragment is moved behind a new header at the start of the buffer, which has been sent
  already. A fragment that fills the packet is not marked as the last one.
\<close>

definition fragment_header :: "nat \<Rightarrow> pf_rpc_header \<Rightarrow> 'v rpc_net \<Rightarrow> pf_rpc_header" where
  "fragment_header k h n = (let s = get_se k n; f = se_out_fragment_nbr s in
     (reply_header (if se_from_me s then PF_RPC_PT_REQUEST else PF_RPC_PT_RESPONSE) False True
        (if se_from_me s then True else g_is_big_endian (se_get_info s)) h)
     \<lparr>rpc_flags := no_flags\<lparr>fragment := True, idempotent := True\<rparr>, fragment_nmb := f,
      serial_high := ucast (drop_bit 8 f), serial_low := ucast (f AND 0xff)\<rparr>)"

definition next_fragment :: "nat \<Rightarrow> pf_rpc_header \<Rightarrow> 'v rpc_net \<Rightarrow> 'v rpc_net" where
  "next_fragment k h n =
     (let sz = PF_MAX_UDP_PAYLOAD_SIZE; r = fragment_header k h n;
          (body_pos, w) = run_state (pf_put_dce_rpc_header r) (out_writer k sz 0 n);
          start_pos = w_pos w; n = set_out k w n;
          rest = se_out_buf_len (get_se k n) - se_out_buf_sent_pos (get_se k n);
          final = unat rest < sz - start_pos;
          n = upd_se k (\<lambda>s. s\<lparr>se_out_buf_send_len := if final then rest else of_nat (sz - start_pos)\<rparr>) n;
          n = (if final then put_out_at k sz 0 (put_header (r\<lparr>rpc_flags := (rpc_flags r)\<lparr>last_fragment := True\<rparr>\<rparr>)) n else n);
          s = get_se k n; len = unat (se_out_buf_send_len s);
          n = put_out_at k sz start_pos (pf_put_mem_overlapping
                (drop (unat (se_out_buf_sent_pos s)) (se_out_buffer s)) len) n;
          n = put_out_at k sz body_pos (pf_put_uint16 (rpc_is_big_endian r) (of_nat len)) n
      in upd_se k (\<lambda>s. s\<lparr>se_out_buf_send_len := se_out_buf_send_len s + of_nat start_pos\<rparr>) n)"

definition acknowledge :: "session \<Rightarrow> session" where
  "acknowledge s = s\<lparr>se_out_buf_sent_pos := se_out_buf_sent_pos s + se_out_buf_send_len s -
       (if se_out_fragment_nbr s > 0 then of_nat PF_CMRPC_PDU_HEADER_SIZE else 0),
     se_out_fragment_nbr := se_out_fragment_nbr s + 1\<rparr>"

definition packet_frag_ack :: "'v rpc_env \<Rightarrow> nat \<Rightarrow> pf_rpc_header \<Rightarrow> 'v rcmd" where
  "packet_frag_ack env k h n =
     (let n = upd_se k acknowledge n in
      if se_out_buf_len (get_se k n) > se_out_buf_sent_pos (get_se k n) then
        pf_cmrpc_send_with_timeout env (rpc_conn_env env) k
          (upd_se k (\<lambda>s. s\<lparr>se_resend_counter := PF_CMRPC_NUMBER_OF_RESENDS\<rparr>) (next_fragment k h n))
      else Some (upd_se k clear_output n))"

section \<open>The other packets\<close>

definition packet_response :: "'v rpc_env \<Rightarrow> nat \<Rightarrow> bool \<Rightarrow> nat \<Rightarrow> pf_rpc_header \<Rightarrow> ('v, int \<times> bool) rfn" where
  "packet_response env k new req_pos h n =
     (if new then Some ((0, se_from_me (get_se k n)), set_kill k n)
      else case run_state pf_get_ndr_data (parser_at (se_get_info (get_se k n)) req_pos) of (d, r) \<Rightarrow>
        map_option (\<lambda>(ret, n). ((ret, False), n)) (pf_cmrpc_rpc_response env k (r_pos r) h
          (upd_se k (\<lambda>s. s\<lparr>se_ndr_data := d, se_get_info := (info_of r)\<lparr>g_is_big_endian := True\<rparr>\<rparr>) n)))"

text \<open>A cancelled, failed or rejected call ends the connection.\<close>

definition packet_abort :: "'v rpc_env \<Rightarrow> nat \<Rightarrow> bool \<Rightarrow> nat \<Rightarrow> ('v, int \<times> bool) rfn" where
  "packet_abort env k has_code req_pos n = do {
     let n = (if has_code then upd_se k (\<lambda>s. s\<lparr>se_get_info :=
         info_of (snd (run_state pf_get_uint32 (parser_at (se_get_info s) req_pos)))\<rparr>) n else n);
     (_, n) \<leftarrow> pf_cmdev_cm_abort (rpc_conn_env env) (se_ar (get_se k n)) n;
     Some ((0, se_from_me (get_se k n)), set_kill k n)
   }"

definition packet_message :: "'v rpc_env \<Rightarrow> nat \<Rightarrow> bool \<Rightarrow> nat \<Rightarrow> pf_rpc_header \<Rightarrow> ('v, int \<times> bool) rfn" where
  "packet_message env k new req_pos h n = (let t = packet_type h in
     if t = PF_RPC_PT_PING then Some ((-1, False), packet_ping env k new h n)
     else if t = PF_RPC_PT_REQUEST then packet_request env k req_pos h n
     else if t = PF_RPC_PT_FRAG_ACK then map_option (Pair (-1, False)) (packet_frag_ack env k h n)
     else if t = PF_RPC_PT_RESPONSE then packet_response env k new req_pos h n
     else if t = PF_RPC_PT_CL_CANCEL then packet_abort env k False req_pos n
     else if t = PF_RPC_PT_FAULT \<or> t = PF_RPC_PT_REJECT then packet_abort env k True req_pos n
     else Some ((-1, False), n))"

section \<open>Packets\<close>

definition parse_header :: "'v rpc_env \<Rightarrow> u8 list \<Rightarrow> nat \<Rightarrow> pf_rpc_header \<times> rstate" where
  "parse_header env frame len = run_state (pf_get_dce_rpc_header (re_stack_header env))
     \<lparr>g_result = PF_PARSE_OK, g_is_big_endian = False, g_buf = Some frame, g_len = len, r_pos = 0\<rparr>"

definition packet_body :: "'v rpc_env \<Rightarrow> nat \<Rightarrow> bool \<Rightarrow> nat \<Rightarrow> pf_rpc_header \<Rightarrow> ('v, int \<times> bool) rfn" where
  "packet_body env k new req_pos h n =
     (if too_large h then Some ((-1, False), packet_too_large env k new h n)
      else if \<not> fragment (rpc_flags h) \<or> last_fragment (rpc_flags h) then packet_message env k new req_pos h n
      else Some ((0, False), packet_fragment env k h n))"

definition pf_cmrpc_dce_packet :: "'v rpc_env \<Rightarrow> u32 \<Rightarrow> u16 \<Rightarrow> nat \<Rightarrow> ('v, int \<times> bool) rfn" where
  "pf_cmrpc_dce_packet env addr p len n =
     (let frame = rw_input_frame (rw n) in
      case parse_header env frame len of (h, r) \<Rightarrow>
        (case packet_session env addr p h n of (None, n) \<Rightarrow> Some ((-1, False), n)
         | (Some (k, new), n) \<Rightarrow> do {
             let n = upd_se k (\<lambda>s. s\<lparr>se_get_info := info_of r, se_rpc_result := no_status\<rparr>) n;
             let (req_pos, s) = collect frame addr p (r_pos r) h (get_se k n);
             n \<leftarrow> stop_resending k (upd_se k (\<lambda>_. s) n);
             (res, n) \<leftarrow> packet_body env k new req_pos h n;
             n \<leftarrow> (if se_kill_session (get_se k n) then pf_session_release env k n else Some n);
             Some (res, n)
           }))"

section \<open>The periodic task\<close>

definition poll_session :: "'v rpc_env \<Rightarrow> nat \<Rightarrow> 'v rcmd" where
  "poll_session env k n =
     (if se_in_use (get_se k n) \<and> se_from_me (get_se k n) then
        (case pf_udp_recvfrom env (se_socket (get_se k n)) n of (None, n) \<Rightarrow> Some n
         | (Some (addr, p, len), n) \<Rightarrow> do {
             ((_, close), n) \<leftarrow> pf_cmrpc_dce_packet env addr p len n;
             Some (if close then upd_se k (\<lambda>s. s\<lparr>se_socket := -1\<rparr>) (pf_udp_close env (se_socket (get_se k n)) n) else n)
           })
      else Some n)"

definition pf_cmrpc_periodic :: "'v rpc_env \<Rightarrow> 'v rcmd" where
  "pf_cmrpc_periodic env n = do {
     n \<leftarrow> fold_option (poll_session env) [0..<length (rw_sessions (rw n))] n;
     (case pf_udp_recvfrom env (rw_rpcreq_socket (rw n)) n of (None, n) \<Rightarrow> Some n
      | (Some (addr, p, len), n) \<Rightarrow> map_option snd (pf_cmrpc_dce_packet env addr p len n))
   }"

end
