(* ===== verification/Rpc_Lemmas.thy ===== *)
theory Rpc_Lemmas
  imports Rpc_Packet Block_Safety
begin

unbundle bit_operations_syntax

text \<open>
  Facts on CMRPC: how the operations change the parts of the state, the end of the loops over the
  blocks of a message, and what is read from a packet that was written.
\<close>

section \<open>The parts of the state\<close>

lemma upd_rw_simps [simp]:
  "rw (upd_rw f n) = f (rw n)" "cn_ar (upd_rw f n) = cn_ar n" "d_ars (cn_dev (upd_rw f n)) = d_ars (cn_dev n)"
  "d_device (cn_dev (upd_rw f n)) = d_device (cn_dev n)" "d_exp_ident (cn_dev (upd_rw f n)) = d_exp_ident (cn_dev n)"
  "upd_rw f (upd_rw g n) = upd_rw (f \<circ> g) n"
  by (simp_all add: upd_rw_def comp_def)

lemma upd_rw_id [simp]: "upd_rw (\<lambda>w. w) n = n"
  by (simp add: upd_rw_def)

lemma upd_se_simps [simp]:
  "cn_ar (upd_se k f n) = cn_ar n" "d_ars (cn_dev (upd_se k f n)) = d_ars (cn_dev n)"
  "d_device (cn_dev (upd_se k f n)) = d_device (cn_dev n)" "d_exp_ident (cn_dev (upd_se k f n)) = d_exp_ident (cn_dev n)"
  "rw_session_number (rw (upd_se k f n)) = rw_session_number (rw n)" "rw_rpcreq_socket (rw (upd_se k f n)) = rw_rpcreq_socket (rw n)"
  "rw_ar (rw (upd_se k f n)) = rw_ar (rw n)" "rw_sched (rw (upd_se k f n)) = rw_sched (rw n)" "rw_now (rw (upd_se k f n)) = rw_now (rw n)"
  "rw_input_frame (rw (upd_se k f n)) = rw_input_frame (rw n)" "rw_out (rw (upd_se k f n)) = rw_out (rw n)"
  "rw_sessions (rw (upd_se k f n)) = (rw_sessions (rw n))[k := f (rw_sessions (rw n) ! k)]"
  by (simp_all add: upd_se_def)

lemma get_upd_se [simp]:
  "k < length (rw_sessions (rw n)) \<Longrightarrow> get_se k (upd_se k f n) = f (get_se k n)"
  "j \<noteq> k \<Longrightarrow> get_se j (upd_se k f n) = get_se j n"
  by (simp_all add: get_se_def)

lemma get_ra_upd_se [simp]: "get_ra a (upd_se k f n) = get_ra a n"
  by (simp add: get_ra_def)

lemma upd_se_upd_se [simp]: "upd_se k f (upd_se k g n) = upd_se k (f \<circ> g) n"
  by (cases "k < length (rw_sessions (rw n))") (simp_all add: upd_se_def upd_rw_def list_update_beyond)

lemma upd_se_cong: "f (get_se k n) = g (get_se k n) \<Longrightarrow> upd_se k f n = upd_se k g n"
  by (simp add: upd_se_def upd_rw_def get_se_def)

lemma upd_se_idle: "f (get_se k n) = get_se k n \<Longrightarrow> upd_se k f n = n"
  by (simp add: upd_se_def upd_rw_def get_se_def)

lemma sessions_count [simp]: "length (rw_sessions (rw (upd_se k f n))) = length (rw_sessions (rw n))"
  by simp

lemma get_se_upd_rw [simp]: "rw_sessions (f (rw n)) = rw_sessions (rw n) \<Longrightarrow> get_se k (upd_rw f n) = get_se k n"
  by (simp add: get_se_def)

section \<open>Timers\<close>

lemma stop_resending_idle:
  "\<not> pf_scheduler_is_running (se_resend_timeout (get_se k n)) \<Longrightarrow> stop_resending k n = Some n"
  by (simp add: stop_resending_def pf_scheduler_remove_if_running_def upd_rw_def upd_se_def get_se_def)

section \<open>Block loops\<close>

definition advances :: "nat \<Rightarrow> 'a rd \<Rightarrow> bool" where
  "advances k m \<longleftrightarrow> (\<forall>r. g_result (snd (run_state m r)) = PF_PARSE_OK \<longrightarrow> r_pos (snd (run_state m r)) = r_pos r + k)"

lemma advances_return: "advances 0 (State_Monad.return x)"
  by (simp add: advances_def)

lemma advances_bind:
  assumes "advances j m" and "\<And>x. advances k (f x)" and "\<And>x. rsafe (f x)"
  shows "advances (j + k) (State_Monad.bind m f)"
  unfolding advances_def
proof (intro allI impI)
  fix r assume ok: "g_result (snd (run_state (State_Monad.bind m f) r)) = PF_PARSE_OK"
  obtain x r' where m: "run_state m r = (x, r')" by fastforce
  from ok m have 1: "g_result (snd (run_state (f x) r')) = PF_PARSE_OK" by simp
  with assms(3) have "g_result r' = PF_PARSE_OK" by (auto simp: rsafe_def r_frame_def)
  with assms(1) m have "r_pos r' = r_pos r + j" by (auto simp: advances_def dest: spec [of _ r])
  with 1 assms(2) m show "r_pos (snd (run_state (State_Monad.bind m f) r)) = r_pos r + (j + k)"
    by (simp add: advances_def)
qed

lemma advances_byte: "advances 1 pf_get_byte"
  by (auto simp: advances_def pf_get_byte_def split: option.split)

lemma advances_uint16: "advances 2 pf_get_uint16"
proof -
  have *: "advances 2 (do { x \<leftarrow> pf_get_byte; y \<leftarrow> pf_get_byte; State_Monad.return (g x y) })" for g :: "u8 \<Rightarrow> u8 \<Rightarrow> u16"
    using advances_bind [OF advances_byte advances_bind [OF advances_byte advances_return]] by (simp add: rsafe_intros numeral_2_eq_2)
  show ?thesis
    unfolding advances_def pf_get_uint16_def
    using * [unfolded advances_def] by (auto simp: get_info_def Let_def)
qed

lemma advances_block_header: "advances header_size pf_get_block_header"
proof -
  have "advances (2 + (2 + (1 + (1 + 0)))) pf_get_block_header"
    unfolding pf_get_block_header_def
    by (intro advances_bind advances_uint16 advances_byte advances_return rsafe_intros)
  then show ?thesis by (simp add: header_size_def)
qed

text \<open>A header that is read takes from what is left of the input, and nothing gives it back.\<close>

definition left :: "rstate \<Rightarrow> nat" where
  "left r = (if g_result r = PF_PARSE_OK then Suc (g_len r - r_pos r) else 0)"

lemma left_frame: "r_frame r r' \<Longrightarrow> left r' \<le> left r"
  by (auto simp: left_def r_frame_def)

lemma left_run: "rsafe m \<Longrightarrow> left (snd (run_state m r)) \<le> left r"
  by (simp add: rsafe_def left_frame)

lemma left_header:
  assumes "more_blocks r"
  shows "left (snd (run_state pf_get_block_header r)) < left r"
proof -
  let ?r = "snd (run_state pf_get_block_header r)"
  have f: "r_frame r ?r" using rsafe_block_header by (simp add: rsafe_def)
  show ?thesis
  proof (cases "g_result ?r = PF_PARSE_OK")
    case True
    then have "r_pos ?r = r_pos r + header_size" using advances_block_header by (simp add: advances_def)
    with assms f True show ?thesis by (auto simp: left_def more_blocks_def r_frame_def header_size_def)
  next
    case False then show ?thesis using assms by (simp add: left_def more_blocks_def)
  qed
qed

lemma left_control_round:
  assumes "more_blocks (k_rd c)"
  shows "left (k_rd (control_round known code c)) < left (k_rd c)"
proof -
  obtain h r where h: "run_state pf_get_block_header (k_rd c) = (h, r)" by fastforce
  with left_header [OF assms] have 1: "left r < left (k_rd c)" by simp
  obtain cb r' where cb: "run_state (pf_get_control (k_cb c)) r = (cb, r')" by fastforce
  with left_run [of "pf_get_control (k_cb c)" r] rsafe_rpc have "left r' \<le> left r" by simp
  with 1 h cb show ?thesis by (simp add: control_round_def Let_def)
qed

lemma control_blocks_end: "\<exists>c'. control_blocks known code c = Some c'"
proof (induction "left (k_rd c)" arbitrary: c rule: less_induct)
  case less
  show ?case
  proof (cases "more_blocks (k_rd c)")
    case True
    from less.hyps [OF left_control_round [OF True]] show ?thesis
      by (subst control_blocks.simps) (simp add: True)
  next
    case False then show ?thesis by (subst control_blocks.simps) simp
  qed
qed

text \<open>The rounds over the blocks of a connect request.\<close>

inductive connect_rounds :: "connect_req \<Rightarrow> connect_req \<Rightarrow> bool" where
  no_round: "connect_rounds q q"
| a_round: "q_ret q = 0 \<Longrightarrow> more_blocks (q_rd q) \<Longrightarrow> connect_round q = Some p \<Longrightarrow> connect_rounds p p' \<Longrightarrow> connect_rounds q p'"

lemma left_q_run: "rsafe m \<Longrightarrow> left (q_rd (snd (q_run m q))) \<le> left (q_rd q)"
  using left_run [of m "q_rd q"] by (cases "run_state m (q_rd q)") (simp add: q_run_def)

lemma left_q_runD: "q_run m q = (x, p) \<Longrightarrow> rsafe m \<Longrightarrow> left (q_rd p) \<le> left (q_rd q)"
  using left_q_run [of m q] by simp

lemma q_rd_upds [simp]:
  "q_rd (req_fails st q) = q_rd q" "q_rd (upd_q_ar f q) = q_rd q" "q_rd (upd_q_rpc g q) = q_rd q"
  by (simp_all add: req_fails_def upd_q_ar_def upd_q_rpc_def)

lemma q_rd_check_then: "(\<And>q. q_rd (f q) = q_rd q) \<Longrightarrow> q_rd (check_then l h c f q) = q_rd q"
  by (simp add: check_then_def split: option.split)

lemma q_rd_io_block: "(\<And>q. q_rd (f q) = q_rd q) \<Longrightarrow> q_rd (io_block p h c f q) = q_rd q"
  by (simp add: io_block_def q_rd_check_then)

lemma left_ar_block: "left (q_rd (ar_block h q)) \<le> left (q_rd q)"
proof -
  obtain x p where r: "q_run (pf_get_ar_param (ca_param (q_ar q))) q = (x, p)" by fastforce
  have "q_rd (ar_block h q) = q_rd p" by (simp add: ar_block_def r Let_def q_rd_check_then)
  then show ?thesis using left_q_runD [OF r rsafe_ar_param] by simp
qed

lemma left_iocr_block: "left (q_rd (iocr_block d h q)) \<le> left (q_rd q)"
proof -
  obtain e x p where r: "q_run (pf_get_iocr_param zero_iocr_param) q = ((e, x), p)" by (metis surj_pair)
  have "q_rd (iocr_block d h q) \<in> {q_rd q, q_rd p}" by (simp add: iocr_block_def r q_rd_io_block)
  then show ?thesis using left_q_runD [OF r rsafe_iocr_param] by auto
qed

lemma left_alarm_cr_block: "left (q_rd (alarm_cr_block d h q)) \<le> left (q_rd q)"
proof -
  obtain x p where r: "q_run pf_get_alarm_cr_request q = (x, p)" by fastforce
  have "q_rd (alarm_cr_block d h q) = q_rd p" by (simp add: alarm_cr_block_def r q_rd_io_block)
  then show ?thesis using left_q_runD [OF r rsafe_connect_blocks(1)] by simp
qed

lemma left_rpc_server_block: "left (q_rd (rpc_server_block d h q)) \<le> left (q_rd q)"
proof -
  obtain x p where r: "q_run pf_get_ar_rpc_request q = (x, p)" by fastforce
  have "q_rd (rpc_server_block d h q) = q_rd p" by (simp add: rpc_server_block_def r q_rd_io_block)
  then show ?thesis using left_q_runD [OF r rsafe_connect_blocks(5)] by simp
qed

text \<open>The blocks whose readers store into tables.\<close>

lemma left_expected_block:
  assumes "expected_block d h q = Some q'"
  shows "left (q_rd q') \<le> left (q_rd q)"
proof -
  obtain x p where r: "q_run (pf_get_exp_api_module (q_exp q)) q = (x, p)" by fastforce
  with assms have "q_rd q' = q_rd p"
    by (auto simp: expected_block_def Let_def q_rd_io_block split: Option.bind_splits if_splits)
  then show ?thesis using left_q_runD [OF r rsafe_exp_api_module] by simp
qed

lemma left_prm_server_block:
  assumes "prm_server_block d h q = Some q'"
  shows "left (q_rd q') \<le> left (q_rd q)"
proof -
  obtain x p where r: "q_run (pf_get_ar_prm_server_request (ra_prm_server (q_rpc q))) q = (x, p)" by fastforce
  with assms have "q_rd q' = q_rd p"
    by (auto simp: prm_server_block_def q_rd_io_block split: Option.bind_splits)
  then show ?thesis using left_q_runD [OF r rsafe_connect_blocks(2)] by simp
qed

lemma left_mcr_block:
  assumes "mcr_block d h q = Some q'"
  shows "left (q_rd q') \<le> left (q_rd q)"
proof -
  obtain x p where r: "q_run (pf_get_mcr_request (ra_mcr_request (q_rpc q) ! unat (ca_nbr_mcr (q_ar q)))) q = (x, p)"
    by fastforce
  with assms have "q_rd q' = q_rd p"
    by (auto simp: mcr_block_def Let_def q_rd_io_block split: Option.bind_splits if_splits)
  then show ?thesis using left_q_runD [OF r rsafe_connect_blocks(4)] by simp
qed

lemma left_vendor_block:
  assumes "vendor_block d h q = Some q'"
  shows "left (q_rd q') \<le> left (q_rd q)"
proof -
  obtain x p where r: "q_run (pf_get_ar_vendor_request (ra_ar_vendor_request (q_rpc q) ! unat (ra_nbr_ar_vendor (q_rpc q)))) q = (x, p)"
    by fastforce
  with assms have "q_rd q' = q_rd p"
    by (auto simp: vendor_block_def Let_def q_rd_io_block split: Option.bind_splits if_splits)
  then show ?thesis using left_q_runD [OF r rsafe_connect_blocks(6)] by simp
qed

lemma left_ir_info_block:
  assumes "ir_info_block d h q = Some q'"
  shows "left (q_rd q') \<le> left (q_rd q)"
proof -
  obtain x p where r: "q_run (pf_get_ir_info_request (ra_ir_info (q_rpc q))) q = (x, p)" by fastforce
  with assms have "q_rd q' = q_rd p"
    by (auto simp: ir_info_block_def q_rd_io_block split: Option.bind_splits)
  then show ?thesis using left_q_runD [OF r rsafe_ir_info] by simp
qed

lemmas left_blocks = left_ar_block left_iocr_block left_alarm_cr_block left_rpc_server_block
  left_expected_block left_prm_server_block left_mcr_block left_vendor_block left_ir_info_block

lemma left_connect_block: "connect_block h q = Some q' \<Longrightarrow> left (q_rd q') \<le> left (q_rd q)"
  by (auto simp: connect_block_def Let_def left_blocks split: if_splits)

lemma left_connect_round:
  assumes "connect_round q = Some q'" and "more_blocks (q_rd q)"
  shows "left (q_rd q') < left (q_rd q)"
proof -
  obtain h p where r: "q_run pf_get_block_header q = (h, p)" by fastforce
  then have 1: "left (q_rd p) < left (q_rd q)"
    using left_header [OF assms(2)] by (auto simp: q_run_def split: prod.splits)
  from assms(1) r obtain p' where "q' = p'\<lparr>q_first := False\<rparr>"
    and "connect_block h p = Some p' \<or> q_rd p' = q_rd p"
    by (auto simp: connect_round_def split: if_splits)
  then have "left (q_rd q') \<le> left (q_rd p)" using left_connect_block [of h p p'] by auto
  with 1 show ?thesis by simp
qed

text \<open>
  The loop over the blocks of a connect request ends, unless a block is reached whose reader
  stores behind a table.
\<close>

lemma connect_blocks_end:
  "connect_blocks q \<noteq> None \<or> (\<exists>q'. connect_rounds q q' \<and> q_ret q' = 0 \<and> more_blocks (q_rd q') \<and> connect_round q' = None)"
proof (induction "left (q_rd q)" arbitrary: q rule: less_induct)
  case less
  show ?case
  proof (cases "q_ret q = 0 \<and> more_blocks (q_rd q)")
    case True
    show ?thesis
    proof (cases "connect_round q")
      case None
      with True show ?thesis by (blast intro: no_round)
    next
      case (Some p)
      from less.hyps [OF left_connect_round [OF Some]] True
      have "connect_blocks p \<noteq> None \<or> (\<exists>q'. connect_rounds p q' \<and> q_ret q' = 0 \<and> more_blocks (q_rd q') \<and> connect_round q' = None)"
        by simp
      then show ?thesis
      proof
        assume "connect_blocks p \<noteq> None"
        with True Some show ?thesis by (subst connect_blocks.simps) simp
      next
        assume "\<exists>q'. connect_rounds p q' \<and> q_ret q' = 0 \<and> more_blocks (q_rd q') \<and> connect_round q' = None"
        with True Some show ?thesis by (blast intro: a_round)
      qed
    qed
  next
    case False then show ?thesis by (subst connect_blocks.simps) auto
  qed
qed

end
