(* ===== verification/Rpc_Receive.thy ===== *)
theory Rpc_Receive
  imports Rpc_Lemmas Block_Codecs Device_Runs
begin

unbundle bit_operations_syntax

text \<open>
  What a packet does to a session (src/device/pf_cmrpc.c): its header is read, the session of its
  activity is found, and its body goes into the input buffer behind those that came before.
\<close>

section \<open>Packets\<close>

text \<open>The first bytes of the frame buffer are a header and a body.\<close>

definition is_packet :: "u8 list \<Rightarrow> nat \<Rightarrow> pf_rpc_header \<Rightarrow> u8 list \<Rightarrow> bool" where
  "is_packet frame len h body \<longleftrightarrow> rpc_header_ok h \<and> len \<le> length frame \<and> take len frame = enc_rpc_header h @ body"

definition stack_header_ok :: "'v rpc_env \<Rightarrow> bool" where
  "stack_header_ok env \<longleftrightarrow> uuid_ok (object_uuid (re_stack_header env)) \<and>
     uuid_ok (interface_uuid (re_stack_header env)) \<and> uuid_ok (activity_uuid (re_stack_header env))"

lemma packet_length: "is_packet frame len h body \<Longrightarrow> len = 80 + length body"
  by (metis is_packet_def enc_rpc_header_length length_append length_take min.absorb2)

lemma packet_body_bytes: "is_packet frame len h body \<Longrightarrow> take (length body) (drop 80 frame) = body"
proof -
  assume p: "is_packet frame len h body"
  then have "drop 80 (take len frame) = body" by (simp add: is_packet_def enc_rpc_header_length)
  then show ?thesis using packet_length [OF p] by (simp add: drop_take)
qed

lemma parse_header_packet:
  assumes p: "is_packet frame len h body" and env: "stack_header_ok env"
  shows "parse_header env frame len = (h, \<lparr>g_result = PF_PARSE_OK, g_is_big_endian = rpc_is_big_endian h,
     g_buf = Some frame, g_len = len, r_pos = 80\<rparr>)"
proof -
  let ?r = "\<lparr>g_result = PF_PARSE_OK, g_is_big_endian = False, g_buf = Some frame, g_len = len, r_pos = 0\<rparr>"
  have h: "rpc_header_ok h" using p by (simp add: is_packet_def)
  have "take 80 (take len frame) = enc_rpc_header h" using p enc_rpc_header_length [OF h] by (simp add: is_packet_def)
  then have "avail False (enc_rpc_header h) ?r"
    using p packet_length [OF p] enc_rpc_header_length [OF h] by (simp add: avail_def is_packet_def)
  from rpc_header_read [OF h _ _ _ this] env show ?thesis by (simp add: parse_header_def stack_header_ok_def skip_def)
qed

section \<open>Stopped timers\<close>

definition idle_timer :: "sched_handle \<Rightarrow> bool" where
  "idle_timer h \<longleftrightarrow> h_timer_index h = UINT32_MAX \<or> h_timer_index h = 0"

lemma stop_idle_timer: "idle_timer (se_resend_timeout (get_se k n)) \<Longrightarrow> stop_resending k n = Some n"
  by (auto simp: stop_resending_def idle_timer_def pf_scheduler_remove_if_running_def pf_scheduler_is_running_def
    pf_scheduler_remove_def upd_rw_def upd_se_def get_se_def)

lemma collect_keeps:
  "se_resend_timeout (snd (collect frame addr p req_pos h s)) = se_resend_timeout s"
  "se_in_use (snd (collect frame addr p req_pos h s)) = se_in_use s"
  "se_ar (snd (collect frame addr p req_pos h s)) = se_ar s"
  "se_from_me (snd (collect frame addr p req_pos h s)) = se_from_me s"
  "length (se_out_buffer (snd (collect frame addr p req_pos h s))) = length (se_out_buffer s)"
  by (simp_all add: collect_def start_message_def add_fragment_def Let_def)

section \<open>The way of a packet\<close>

definition packet_parser :: "u8 list \<Rightarrow> nat \<Rightarrow> pf_rpc_header \<Rightarrow> pf_get_info" where
  "packet_parser frame len h = \<lparr>g_result = PF_PARSE_OK, g_is_big_endian = rpc_is_big_endian h, g_buf = Some frame, g_len = len\<rparr>"

definition release_killed :: "'v rpc_env \<Rightarrow> nat \<Rightarrow> 'v rcmd" where
  "release_killed env k n = (if se_kill_session (get_se k n) then pf_session_release env k n else Some n)"

lemma dce_packet_located:
  assumes p: "is_packet (rw_input_frame (rw n)) len h body" and env: "stack_header_ok env"
    and s: "pf_session_locate_by_uuid (activity_uuid h) n = Some k"
    and t: "idle_timer (se_resend_timeout (get_se k n))"
    and c: "collect (rw_input_frame (rw n)) addr port 80 h
      ((get_se k n)\<lparr>se_get_info := packet_parser (rw_input_frame (rw n)) len h, se_rpc_result := no_status\<rparr>) = (req_pos, se)"
  shows "pf_cmrpc_dce_packet env addr port len n = Option.bind (packet_body env k False req_pos h (upd_se k (\<lambda>_. se) n))
    (\<lambda>(res, n). map_option (Pair res) (release_killed env k n))"
proof -
  let ?n = "upd_se k (\<lambda>s. s\<lparr>se_get_info := packet_parser (rw_input_frame (rw n)) len h, se_rpc_result := no_status\<rparr>) n"
  have k: "k < length (rw_sessions (rw n))" using s by (auto simp: pf_session_locate_by_uuid_def dest: find_index_Some)
  have "se_resend_timeout se = se_resend_timeout (get_se k n)"
    using collect_keeps(1) [of "rw_input_frame (rw n)" addr port 80 h
      "(get_se k n)\<lparr>se_get_info := packet_parser (rw_input_frame (rw n)) len h, se_rpc_result := no_status\<rparr>"] unfolding c by simp
  then have st: "stop_resending k (upd_se k (\<lambda>_. se) n) = Some (upd_se k (\<lambda>_. se) n)"
    using t k by (simp add: stop_idle_timer)
  show ?thesis
    using s st k c
    by (simp add: pf_cmrpc_dce_packet_def parse_header_packet [OF p env] packet_session_def Let_def info_of_def
        packet_parser_def [symmetric] comp_def release_killed_def)
      (auto simp: release_killed_def split: Option.bind_splits option.splits if_splits)
qed

section \<open>Fragments\<close>

text \<open>The session \<open>k\<close> of the activity has got \<open>i\<close> fragments with the bytes \<open>bs\<close>.\<close>

definition collected :: "nat \<Rightarrow> pf_uuid \<Rightarrow> bool \<Rightarrow> u8 list \<Rightarrow> nat \<Rightarrow> 'v rpc_net \<Rightarrow> bool" where
  "collected k u be bs i n \<longleftrightarrow> pf_session_locate_by_uuid u n = Some k \<and> idle_timer (se_resend_timeout (get_se k n)) \<and>
     length (se_in_buffer (get_se k n)) = PNET_MAX_SESSION_BUFFER_SIZE \<and>
     (0 < i \<longrightarrow> se_in_buf_len (get_se k n) = of_nat (length bs) \<and> take (length bs) (se_in_buffer (get_se k n)) = bs \<and>
        length bs \<le> PNET_MAX_SESSION_BUFFER_SIZE \<and> se_in_fragment_nbr (get_se k n) = of_nat i \<and>
        se_is_big_endian (get_se k n) = be \<and> \<not> se_kill_session (get_se k n)) \<and> (i = 0 \<longrightarrow> bs = [])"

text \<open>A fragment of a message: its number, its place and its length.\<close>

definition is_fragment :: "pf_uuid \<Rightarrow> bool \<Rightarrow> nat \<Rightarrow> bool \<Rightarrow> pf_rpc_header \<Rightarrow> u8 list \<Rightarrow> bool" where
  "is_fragment u be i is_last h body \<longleftrightarrow> activity_uuid h = u \<and> rpc_is_big_endian h = be \<and> fragment (rpc_flags h) \<and>
     (last_fragment (rpc_flags h) \<longleftrightarrow> is_last) \<and> fragment_nmb h = of_nat i \<and> i < 2 ^ 16 \<and>
     length_of_body h = of_nat (length body) \<and> length body \<le> PF_CMRPC_MAX_PDU_BODY_SIZE"

text \<open>The session when a fragment has been added.\<close>

lemma collect_fragment:
  assumes c: "collected k u be bs i n" and f: "is_fragment u be i is_last h body"
    and p: "is_packet frame len h body" and room: "length bs + length body \<le> PNET_MAX_SESSION_BUFFER_SIZE"
  obtains s where
    "collect frame addr port 80 h ((get_se k n)\<lparr>se_get_info := packet_parser frame len h, se_rpc_result := no_status\<rparr>) =
       (if is_last then 0 else 80, s)"
    and "se_in_buf_len s = of_nat (length (bs @ body))" and "take (length (bs @ body)) (se_in_buffer s) = bs @ body"
    and "length (se_in_buffer s) = PNET_MAX_SESSION_BUFFER_SIZE" and "se_in_fragment_nbr s = of_nat (Suc i)"
    and "se_is_big_endian s = be" and "\<not> se_kill_session s" and "se_in_use s = se_in_use (get_se k n)"
    and "se_activity_uuid s = se_activity_uuid (get_se k n) \<or> se_activity_uuid s = u"
    and "se_resend_timeout s = se_resend_timeout (get_se k n)" and "se_rpc_result s = no_status"
    and "is_last \<Longrightarrow> se_get_info s = \<lparr>g_result = PF_PARSE_OK, g_is_big_endian = be, g_buf = Some (se_in_buffer s),
           g_len = length (bs @ body)\<rparr>"
proof -
  let ?s0 = "(get_se k n)\<lparr>se_get_info := packet_parser frame len h, se_rpc_result := no_status\<rparr>"
  let ?s1 = "if fragment_nmb h = 0 then start_message addr port h ?s0 else ?s0"
  have lb: "unat (of_nat (length body) :: u16) = length body" "unat (of_nat (length bs) :: u16) = length bs"
    "unat (of_nat (length bs + length body) :: u16) = length bs + length body"
    using f room by (simp_all del: of_nat_add add: is_fragment_def unat_of_nat rpc_size_defs)
  have nl: "\<not> too_large h" using f lb by (simp add: too_large_def is_fragment_def)
  have i0: "fragment_nmb h = 0 \<longleftrightarrow> i = 0"
    using f by (auto simp: is_fragment_def word_of_nat_eq_0_iff dvd_imp_le)
  have s1: "se_in_buf_len ?s1 = of_nat (length bs)" "take (length bs) (se_in_buffer ?s1) = bs"
    "length (se_in_buffer ?s1) = PNET_MAX_SESSION_BUFFER_SIZE" "se_in_fragment_nbr ?s1 = of_nat i"
    "se_is_big_endian ?s1 = be" "\<not> se_kill_session ?s1" "se_in_use ?s1 = se_in_use (get_se k n)"
    "se_activity_uuid ?s1 = se_activity_uuid (get_se k n) \<or> se_activity_uuid ?s1 = u"
    "se_resend_timeout ?s1 = se_resend_timeout (get_se k n)" "se_rpc_result ?s1 = no_status"
    "se_get_info ?s1 = packet_parser frame len h"
    using c f i0 by (auto simp: collected_def start_message_def is_fragment_def packet_parser_def)
  let ?b = "write_at (length bs) body (se_in_buffer ?s1)"
  have b: "take (length (bs @ body)) ?b = bs @ body" "length ?b = PNET_MAX_SESSION_BUFFER_SIZE"
    using s1(2,3) room by (simp_all add: write_at_def)
  have "collect frame addr port 80 h ?s0 = add_fragment frame 80 h ?s1"
    using nl f s1(5) c i0 by (auto simp: collect_def is_fragment_def collected_def)
  moreover have "add_fragment frame 80 h ?s1 = (if is_last then 0 else 80,
      (let s = ?s1\<lparr>se_in_buffer := ?b, se_in_buf_len := of_nat (length (bs @ body)), se_in_fragment_nbr := of_nat (Suc i)\<rparr>
       in if is_last then s\<lparr>se_get_info := (se_get_info s)\<lparr>g_buf := Some (se_in_buffer s), g_len := unat (se_in_buf_len s)\<rparr>\<rparr>
          else s))" (is "_ = (_, ?s2)")
    using f s1(1,4) lb room packet_body_bytes [OF p]
    by (simp add: add_fragment_def is_fragment_def Let_def add.commute)
  ultimately show thesis
    using b s1 lb f by (intro that [of ?s2]) (simp_all add: Let_def packet_parser_def is_fragment_def)
qed

lemma upd_out_simps [simp]:
  "rw_sessions (rw (upd_out f n)) = rw_sessions (rw n)" "rw_input_frame (rw (upd_out f n)) = rw_input_frame (rw n)"
  "get_se k (upd_out f n) = get_se k n" "pf_session_locate_by_uuid u (upd_out f n) = pf_session_locate_by_uuid u n"
  by (simp_all add: upd_out_def get_se_def pf_session_locate_by_uuid_def)

lemma send_once_out: "\<exists>f. snd (pf_cmrpc_send_once_from_buffer env k data n) = upd_out f n"
proof (cases "data = []")
  case True
  have "n = upd_out (\<lambda>v. v) n" by (simp add: upd_out_def upd_rw_def)
  with True show ?thesis by (auto simp: pf_cmrpc_send_once_from_buffer_def)
next
  case False then show ?thesis by (auto simp: pf_cmrpc_send_once_from_buffer_def Let_def pf_udp_sendto_def out_call_def)
qed

lemma send_reply_out: "\<exists>f. send_reply env k m n = upd_out f n"
  using send_once_out by (auto simp: send_reply_def Let_def)

lemma collected_out [simp]: "collected k u be bs i (upd_out f n) = collected k u be bs i n"
  by (simp add: collected_def)

lemma packet_fragment_keeps:
  "collected k u be bs i (packet_fragment env k h n) = collected k u be bs i n"
  "rw_input_frame (rw (packet_fragment env k h n)) = rw_input_frame (rw n)"
  "se_kill_session (get_se k (packet_fragment env k h n)) = se_kill_session (get_se k n)"
proof -
  let ?r = "put_header ((reply_header PF_RPC_PT_FRAG_ACK False False (se_is_big_endian (get_se k n)) h)\<lparr>length_of_body := 0\<rparr>)"
  obtain f where "send_reply env k ?r n = upd_out f n" using send_reply_out by blast
  then show "collected k u be bs i (packet_fragment env k h n) = collected k u be bs i n"
    and "rw_input_frame (rw (packet_fragment env k h n)) = rw_input_frame (rw n)"
    and "se_kill_session (get_se k (packet_fragment env k h n)) = se_kill_session (get_se k n)"
    by (simp_all add: packet_fragment_def)
qed

lemma locate_upd_se:
  assumes "pf_session_locate_by_uuid u n = Some k" and "se_in_use s" and "se_activity_uuid s = u"
  shows "pf_session_locate_by_uuid u (upd_se k (\<lambda>_. s) n) = Some k"
  using assms find_index_Some [of _ "rw_sessions (rw n)" k]
  by (simp add: pf_session_locate_by_uuid_def) (subst find_index_update; fastforce)

lemma locate_replaced:
  assumes "pf_session_locate_by_uuid u n = None" and k: "k < length (rw_sessions (rw n))"
    and s: "se_in_use s" "se_activity_uuid s = u" and m: "rw_sessions (rw m) = (rw_sessions (rw n))[k := s]"
  shows "pf_session_locate_by_uuid u m = Some k"
  unfolding pf_session_locate_by_uuid_def m
proof (rule find_index_unique)
  fix j assume j: "j < length ((rw_sessions (rw n))[k := s])"
    "se_in_use ((rw_sessions (rw n))[k := s] ! j) \<and> u = se_activity_uuid ((rw_sessions (rw n))[k := s] ! j)"
  have "\<forall>x \<in> set (rw_sessions (rw n)). \<not> (se_in_use x \<and> u = se_activity_uuid x)"
    using assms(1) by (simp add: pf_session_locate_by_uuid_def find_index_None)
  then show "j = k" using j by (cases "j = k") auto
qed (use k s in simp_all)

lemma fragment_step:
  assumes c: "collected k u be bs i n" and f: "is_fragment u be i is_last h body"
    and p: "is_packet (rw_input_frame (rw n)) len h body" and env: "stack_header_ok env"
    and room: "length bs + length body \<le> PNET_MAX_SESSION_BUFFER_SIZE"
  obtains n' where "collected k u be (bs @ body) (Suc i) n'" and "rw_input_frame (rw n') = rw_input_frame (rw n)"
    and "pf_cmrpc_dce_packet env addr port len n = (if is_last
      then Option.bind (packet_message env k False 0 h n') (\<lambda>(res, n). map_option (Pair res) (release_killed env k n))
      else Some ((0, False), packet_fragment env k h n'))"
    and "se_rpc_result (get_se k n') = no_status"
    and "is_last \<Longrightarrow> se_get_info (get_se k n') = \<lparr>g_result = PF_PARSE_OK, g_is_big_endian = be,
           g_buf = Some (se_in_buffer (get_se k n')), g_len = length (bs @ body)\<rparr>"
proof -
  from collect_fragment [OF c f p room, of addr port] obtain s where s:
    "collect (rw_input_frame (rw n)) addr port 80 h
       ((get_se k n)\<lparr>se_get_info := packet_parser (rw_input_frame (rw n)) len h, se_rpc_result := no_status\<rparr>) =
       (if is_last then 0 else 80, s)"
    "se_in_buf_len s = of_nat (length (bs @ body))" "take (length (bs @ body)) (se_in_buffer s) = bs @ body"
    "length (se_in_buffer s) = PNET_MAX_SESSION_BUFFER_SIZE" "se_in_fragment_nbr s = of_nat (Suc i)"
    "se_is_big_endian s = be" "\<not> se_kill_session s" "se_in_use s = se_in_use (get_se k n)"
    "se_activity_uuid s = se_activity_uuid (get_se k n) \<or> se_activity_uuid s = u"
    "se_resend_timeout s = se_resend_timeout (get_se k n)" "se_rpc_result s = no_status"
    "is_last \<Longrightarrow> se_get_info s = \<lparr>g_result = PF_PARSE_OK, g_is_big_endian = be, g_buf = Some (se_in_buffer s),
           g_len = length (bs @ body)\<rparr>" by metis
  let ?n = "upd_se k (\<lambda>_. s) n"
  have u: "activity_uuid h = u" "fragment (rpc_flags h)" "last_fragment (rpc_flags h) = is_last"
    using f by (simp_all add: is_fragment_def)
  have loc: "pf_session_locate_by_uuid u n = Some k" and t: "idle_timer (se_resend_timeout (get_se k n))"
    using c by (simp_all add: collected_def)
  have k: "k < length (rw_sessions (rw n))" and us: "se_in_use (get_se k n)" "se_activity_uuid (get_se k n) = u"
    using loc by (auto simp: pf_session_locate_by_uuid_def get_se_def dest: find_index_Some)
  have "collected k u be (bs @ body) (Suc i) ?n"
    using s room t k us locate_upd_se [OF loc, of s] by (auto simp: collected_def)
  moreover have "\<not> too_large h"
    using f by (simp add: too_large_def is_fragment_def unat_of_nat rpc_size_defs)
  ultimately show thesis
    using that [of ?n] s k u dce_packet_located [OF p env loc [folded u(1)] t s(1)] packet_fragment_keeps(3) [of k env h ?n]
    by (auto simp: packet_body_def release_killed_def)
qed

text \<open>Packets that arrive one after the other, each in the frame buffer with the rest of those before.\<close>

definition arrive :: "u8 list \<Rightarrow> 'v rpc_net \<Rightarrow> 'v rpc_net" where
  "arrive f = upd_rw (\<lambda>w. w\<lparr>rw_input_frame := f @ drop (length f) (rw_input_frame w)\<rparr>)"

fun rpc_packets :: "'v rpc_env \<Rightarrow> u32 \<Rightarrow> u16 \<Rightarrow> u8 list list \<Rightarrow> 'v rcmd" where
  "rpc_packets env addr port [] n = Some n"
| "rpc_packets env addr port (f # fs) n = Option.bind (pf_cmrpc_dce_packet env addr port (length f) (arrive f n))
     (\<lambda>(_, n). rpc_packets env addr port fs n)"

lemma arrive_simps [simp]:
  "collected k u be bs i (arrive f n) = collected k u be bs i n"
  "rw_input_frame (rw (arrive f n)) = f @ drop (length f) (rw_input_frame (rw n))"
  by (simp_all add: arrive_def collected_def get_se_def pf_session_locate_by_uuid_def)

lemma arrived_packet:
  "rpc_header_ok h \<Longrightarrow> is_packet (rw_input_frame (rw (arrive (enc_rpc_header h @ body) n)))
     (length (enc_rpc_header h @ body)) h body"
  by (simp add: is_packet_def)

abbreviation packet_of :: "pf_rpc_header \<times> u8 list \<Rightarrow> u8 list" where
  "packet_of x \<equiv> enc_rpc_header (fst x) @ snd x"

lemma fragments_collected:
  assumes "collected k u be bs i n" and "stack_header_ok env"
    and "\<And>j. j < length fs \<Longrightarrow> rpc_header_ok (fst (fs ! j)) \<and> is_fragment u be (i + j) False (fst (fs ! j)) (snd (fs ! j))"
    and "length bs + length (concat (map snd fs)) \<le> PNET_MAX_SESSION_BUFFER_SIZE"
  shows "\<exists>n'. rpc_packets env addr port (map packet_of fs) n = Some n' \<and>
     collected k u be (bs @ concat (map snd fs)) (i + length fs) n'"
  using assms
proof (induction fs arbitrary: bs i n)
  case Nil then show ?case by simp
next
  case (Cons x fs)
  obtain h body where x: "x = (h, body)" by fastforce
  have h: "rpc_header_ok h" "is_fragment u be i False h body" using Cons.prems(3) [of 0] by (simp_all add: x)
  have c: "collected k u be bs i (arrive (packet_of x) n)" and room: "length bs + length body \<le> PNET_MAX_SESSION_BUFFER_SIZE"
    using Cons.prems(1,4) x by simp_all
  from fragment_step [OF c [unfolded x fst_conv snd_conv] h(2) arrived_packet [OF h(1)] Cons.prems(2) room, of addr port]
  obtain n' where n': "collected k u be (bs @ body) (Suc i) n'"
    "pf_cmrpc_dce_packet env addr port (length (packet_of x)) (arrive (packet_of x) n) = Some ((0, False), packet_fragment env k h n')"
    unfolding x fst_conv snd_conv if_False by blast
  have "\<exists>n''. rpc_packets env addr port (map packet_of fs) (packet_fragment env k h n') = Some n'' \<and>
     collected k u be ((bs @ body) @ concat (map snd fs)) (Suc i + length fs) n''"
  proof (rule Cons.IH)
    fix j assume "j < length fs"
    with Cons.prems(3) [of "Suc j"]
    show "rpc_header_ok (fst (fs ! j)) \<and> is_fragment u be (Suc i + j) False (fst (fs ! j)) (snd (fs ! j))" by simp
  qed (use Cons.prems(2,4) n'(1) x in \<open>simp_all add: packet_fragment_keeps\<close>)
  with n'(2) x show ?case by simp
qed

text \<open>The message is handled with a parser on all the bytes when the last fragment comes.\<close>

lemma fragments_handled:
  assumes c: "collected k u be [] 0 n" and env: "stack_header_ok env"
    and fs: "\<And>j. j < length fs \<Longrightarrow> rpc_header_ok (fst (fs ! j)) \<and> is_fragment u be j False (fst (fs ! j)) (snd (fs ! j))"
    and f: "rpc_header_ok (fst f)" "is_fragment u be (length fs) True (fst f) (snd f)"
    and room: "length (concat (map snd (fs @ [f]))) \<le> PNET_MAX_SESSION_BUFFER_SIZE"
  shows "\<exists>n1 n2 b. rpc_packets env addr port (map packet_of fs) n = Some n1 \<and>
     pf_cmrpc_dce_packet env addr port (length (packet_of f)) (arrive (packet_of f) n1) =
       Option.bind (packet_message env k False 0 (fst f) n2) (\<lambda>(res, n). map_option (Pair res) (release_killed env k n)) \<and>
     se_get_info (get_se k n2) = \<lparr>g_result = PF_PARSE_OK, g_is_big_endian = be, g_buf = Some b,
       g_len = length (concat (map snd (fs @ [f])))\<rparr> \<and>
     take (length (concat (map snd (fs @ [f])))) b = concat (map snd (fs @ [f])) \<and>
     se_rpc_result (get_se k n2) = no_status"
proof -
  obtain h body where x: "f = (h, body)" by fastforce
  from fragments_collected [OF c env, of fs addr port] fs room obtain n1 where
    n1: "rpc_packets env addr port (map packet_of fs) n = Some n1" "collected k u be (concat (map snd fs)) (length fs) n1"
    by auto
  have r: "length (concat (map snd fs)) + length body \<le> PNET_MAX_SESSION_BUFFER_SIZE" using room x by simp
  have c1: "collected k u be (concat (map snd fs)) (length fs) (arrive (enc_rpc_header h @ body) n1)" using n1(2) by simp
  from fragment_step [OF c1 f(2) [unfolded x fst_conv snd_conv] arrived_packet [OF f(1) [unfolded x fst_conv]] env r, of addr port]
  obtain n2 where "collected k u be (concat (map snd fs) @ body) (Suc (length fs)) n2"
    "pf_cmrpc_dce_packet env addr port (length (enc_rpc_header h @ body)) (arrive (enc_rpc_header h @ body) n1) =
       Option.bind (packet_message env k False 0 h n2) (\<lambda>(res, n). map_option (Pair res) (release_killed env k n))"
    "se_rpc_result (get_se k n2) = no_status"
    "se_get_info (get_se k n2) = \<lparr>g_result = PF_PARSE_OK, g_is_big_endian = be, g_buf = Some (se_in_buffer (get_se k n2)),
       g_len = length (concat (map snd fs) @ body)\<rparr>"
    unfolding if_True by blast
  with n1(1) x show ?thesis by (intro exI [of _ n1] exI [of _ n2]) (auto simp: collected_def)
qed

section \<open>Packets that belong to no session\<close>

definition fresh_session :: "'v rpc_env \<Rightarrow> u32 \<Rightarrow> u16 \<Rightarrow> 'v rpc_net \<Rightarrow> session" where
  "fresh_session env addr port n = zero_session\<lparr>se_socket := rw_rpcreq_socket (rw n), se_in_use := True,
     se_dcontrol_sequence_nmb := UINT32_MAX, se_ip_addr := addr, se_port := port,
     se_resend_timeout := pf_scheduler_init_handle (se_resend_timeout zero_session) rpc_timer_name,
     se_activity_uuid := pf_generate_uuid (rw_now (rw n)) (rw_session_number (rw n)) (ev_mac_address (re_conn env))\<rparr>"

definition next_session_number :: "'v rpc_net \<Rightarrow> 'v rpc_net" where
  "next_session_number = upd_rw (\<lambda>w. w\<lparr>rw_session_number := rw_session_number w + 1\<rparr>)"

lemma next_session_number_simps [simp]:
  "rw_sessions (rw (next_session_number n)) = rw_sessions (rw n)" "get_se k (next_session_number n) = get_se k n"
  "rw_input_frame (rw (next_session_number n)) = rw_input_frame (rw n)"
  by (simp_all add: next_session_number_def get_se_def)

lemma fresh_idle: "idle_timer (se_resend_timeout (fresh_session env addr port n))"
  by (simp add: fresh_session_def idle_timer_def pf_scheduler_init_handle_def pf_scheduler_reset_handle_def)

lemma packet_session_fresh:
  assumes "pf_session_locate_by_uuid (activity_uuid h) n = None" and k: "find_index (\<lambda>s. \<not> se_in_use s) (rw_sessions (rw n)) = Some k"
  shows "packet_session env addr port h n =
    (Some (k, True), next_session_number (upd_se k (\<lambda>_. fresh_session env addr port n) n))"
  using assms find_index_Some [OF k]
  by (simp add: packet_session_def pf_session_allocate_def fresh_session_def next_session_number_def zero_session_def
      upd_se_def upd_rw_def)

lemma packet_session_full:
  assumes "pf_session_locate_by_uuid (activity_uuid h) n = None" and "\<forall>s \<in> set (rw_sessions (rw n)). se_in_use s"
  shows "packet_session env addr port h n = (None, n)"
proof -
  have "find_index (\<lambda>s. \<not> se_in_use s) (rw_sessions (rw n)) = None" using assms(2) by (simp add: find_index_None)
  then show ?thesis using assms(1) by (simp add: packet_session_def pf_session_allocate_def)
qed

lemma packet_refused:
  assumes "is_packet (rw_input_frame (rw n)) len h body" and "stack_header_ok env"
    and "pf_session_locate_by_uuid (activity_uuid h) n = None" and "\<forall>s \<in> set (rw_sessions (rw n)). se_in_use s"
  shows "pf_cmrpc_dce_packet env addr port len n = Some ((-1, False), n)"
  using assms by (simp add: pf_cmrpc_dce_packet_def parse_header_packet packet_session_full)

text \<open>A packet that is a message of its own.\<close>

definition is_message :: "pf_rpc_header \<Rightarrow> bool" where
  "is_message h \<longleftrightarrow> \<not> fragment (rpc_flags h) \<and> \<not> too_large h"

lemma collect_message: "is_message h \<Longrightarrow> collect frame addr port p h s = (p, start_message addr port h s)"
  by (simp add: is_message_def collect_def)

lemma body_of_message: "is_message h \<Longrightarrow> packet_body env k new p h n = packet_message env k new p h n"
  by (simp add: is_message_def packet_body_def)

definition stray_session :: "'v rpc_env \<Rightarrow> u32 \<Rightarrow> u16 \<Rightarrow> nat \<Rightarrow> pf_rpc_header \<Rightarrow> 'v rpc_net \<Rightarrow> session" where
  "stray_session env addr port len h n = start_message addr port h ((fresh_session env addr port n)
     \<lparr>se_get_info := packet_parser (rw_input_frame (rw n)) len h, se_rpc_result := no_status\<rparr>)"

lemma stray_session_simps [simp]:
  "se_in_use (stray_session env addr port len h n)" "se_activity_uuid (stray_session env addr port len h n) = activity_uuid h"
  "\<not> se_kill_session (stray_session env addr port len h n)" "se_ar (stray_session env addr port len h n) = None"
  "idle_timer (se_resend_timeout (stray_session env addr port len h n))"
  "se_from_me (stray_session env addr port len h n) = False"
  using fresh_idle [of env addr port n] by (simp_all add: stray_session_def start_message_def fresh_session_def zero_session_def)

lemma message_new_session:
  assumes p: "is_packet (rw_input_frame (rw n)) len h body" and env: "stack_header_ok env"
    and l: "pf_session_locate_by_uuid (activity_uuid h) n = None" and k: "find_index (\<lambda>s. \<not> se_in_use s) (rw_sessions (rw n)) = Some k"
    and m: "is_message h"
  shows "pf_cmrpc_dce_packet env addr port len n = Option.bind
    (packet_message env k True 80 h (next_session_number (upd_se k (\<lambda>_. stray_session env addr port len h n) n)))
    (\<lambda>(res, n). map_option (Pair res) (release_killed env k n))"
proof -
  let ?n = "next_session_number (upd_se k (\<lambda>_. fresh_session env addr port n) n)"
  let ?s = "stray_session env addr port len h n"
  have kl: "k < length (rw_sessions (rw n))" using find_index_Some [OF k] by simp
  have up: "upd_se k (\<lambda>_. s) (upd_se k f ?n) = next_session_number (upd_se k (\<lambda>_. s) n)" for s f
    by (simp add: next_session_number_def upd_se_def upd_rw_def)
  have "idle_timer (se_resend_timeout (get_se k (next_session_number (upd_se k (\<lambda>_. ?s) n))))" using kl by simp
  then have st: "stop_resending k (next_session_number (upd_se k (\<lambda>_. ?s) n)) = Some (next_session_number (upd_se k (\<lambda>_. ?s) n))"
    by (rule stop_idle_timer)
  have g: "start_message addr port h ((fresh_session env addr port n)\<lparr>se_get_info := \<lparr>g_result = PF_PARSE_OK,
      g_is_big_endian = rpc_is_big_endian h, g_buf = Some (rw_input_frame (rw n)), g_len = len\<rparr>, se_rpc_result := no_status\<rparr>) = ?s"
    by (simp add: stray_session_def packet_parser_def)
  show ?thesis
    using st kl
    by (simp del: upd_se_upd_se add: pf_cmrpc_dce_packet_def parse_header_packet [OF p env] packet_session_fresh [OF l k] Let_def info_of_def
        collect_message [OF m] body_of_message [OF m] up g)
      (auto simp: release_killed_def split: Option.bind_splits option.splits if_splits)
qed

lemma message_located:
  assumes p: "is_packet (rw_input_frame (rw n)) len h body" and env: "stack_header_ok env"
    and s: "pf_session_locate_by_uuid (activity_uuid h) n = Some k"
    and t: "idle_timer (se_resend_timeout (get_se k n))" and m: "is_message h"
  shows "pf_cmrpc_dce_packet env addr port len n = Option.bind (packet_message env k False 80 h (upd_se k
      (\<lambda>s. start_message addr port h (s\<lparr>se_get_info := packet_parser (rw_input_frame (rw n)) len h, se_rpc_result := no_status\<rparr>)) n))
    (\<lambda>(res, n). map_option (Pair res) (release_killed env k n))"
proof -
  let ?s = "start_message addr port h ((get_se k n)\<lparr>se_get_info := packet_parser (rw_input_frame (rw n)) len h, se_rpc_result := no_status\<rparr>)"
  have "upd_se k (\<lambda>_. ?s) n = upd_se k (\<lambda>s. start_message addr port h
      (s\<lparr>se_get_info := packet_parser (rw_input_frame (rw n)) len h, se_rpc_result := no_status\<rparr>)) n"
    by (rule upd_se_cong) simp
  with dce_packet_located [OF p env s t collect_message [OF m], of addr port] show ?thesis
    by (simp add: body_of_message [OF m])
qed

definition unknown_type :: "pf_rpc_header \<Rightarrow> bool" where
  "unknown_type h \<longleftrightarrow> packet_type h \<notin> {PF_RPC_PT_PING, PF_RPC_PT_REQUEST, PF_RPC_PT_FRAG_ACK, PF_RPC_PT_RESPONSE,
     PF_RPC_PT_CL_CANCEL, PF_RPC_PT_FAULT, PF_RPC_PT_REJECT}"

lemma stray_message:
  assumes "is_packet (rw_input_frame (rw n)) len h body" and "stack_header_ok env"
    and "pf_session_locate_by_uuid (activity_uuid h) n = None" and k: "find_index (\<lambda>s. \<not> se_in_use s) (rw_sessions (rw n)) = Some k"
    and "is_message h" and "unknown_type h"
  shows "pf_cmrpc_dce_packet env addr port len n =
    Some ((-1, False), next_session_number (upd_se k (\<lambda>_. stray_session env addr port len h n) n))"
proof -
  have "packet_message env k True 80 h m = Some ((-1, False), m)" for m
    using assms(6) by (simp add: unknown_type_def packet_message_def Let_def)
  then show ?thesis
    using message_new_session [OF assms(1-5), of addr port] find_index_Some [OF k] by (simp add: release_killed_def)
qed

text \<open>An answer to a control request in a session that has no AR.\<close>

lemma response_without_ar:
  assumes "is_packet (rw_input_frame (rw n)) len h body" and "stack_header_ok env"
    and s: "pf_session_locate_by_uuid (activity_uuid h) n = Some k"
    and "idle_timer (se_resend_timeout (get_se k n))" and "is_message h"
    and "packet_type h = PF_RPC_PT_RESPONSE" and "opnum h = PF_RPC_DEV_OPNUM_CONTROL" and "se_ar (get_se k n) = None"
  shows "pf_cmrpc_dce_packet env addr port len n = None"
proof -
  have k: "k < length (rw_sessions (rw n))" using s by (auto simp: pf_session_locate_by_uuid_def dest: find_index_Some)
  have "packet_message env k False 80 h m = None" if "se_ar (get_se k m) = None" and "k < length (rw_sessions (rw m))" for m
    using assms(6,7) that
    by (simp add: packet_message_def Let_def packet_type_defs packet_response_def pf_cmrpc_rpc_response_def
        pf_cmrpc_rm_ccontrol_cnf_def split: prod.split)
  then show ?thesis
    using message_located [OF assms(1-5), of addr port] k assms(8) by (simp add: start_message_def)
qed

end
