(* ===== verification/Rpc_Send.thy ===== *)
theory Rpc_Send
  imports Rpc_Receive Scheduler_Service
begin

unbundle bit_operations_syntax

text \<open>
  The fragments of a response (src/device/pf_cmrpc.c): every one is the header of the message with
  its number and its length, and the next part of the output buffer, which stays as it is behind
  the first packet.
\<close>

section \<open>Writing into the output buffer\<close>

definition set_bytes :: "nat \<Rightarrow> u8 list \<Rightarrow> session \<Rightarrow> session" where
  "set_bytes p xs s = s\<lparr>se_out_buffer := write_at p xs (se_out_buffer s)\<rparr>"

lemma set_bytes_simps [simp]:
  "se_out_buffer (set_bytes p xs s) = write_at p xs (se_out_buffer s)" "se_out_buf_len (set_bytes p xs s) = se_out_buf_len s"
  "se_out_buf_sent_pos (set_bytes p xs s) = se_out_buf_sent_pos s" "se_out_buf_send_len (set_bytes p xs s) = se_out_buf_send_len s"
  "se_get_info (set_bytes p xs s) = se_get_info s" "se_from_me (set_bytes p xs s) = se_from_me s"
  "se_out_fragment_nbr (set_bytes p xs s) = se_out_fragment_nbr s"
  by (simp_all add: set_bytes_def)

lemma set_out_append:
  assumes "w_bytes w = Some (se_out_buffer (get_se k n))"
  shows "set_out k (append_bytes xs w) n = upd_se k (set_bytes (w_pos w) xs) n"
  unfolding set_out_def using assms by (intro upd_se_cong) (simp add: append_bytes_def set_bytes_def)

lemma put_out_at_emits:
  assumes "emits xs m" and "p + length xs \<le> sz" and "sz \<le> length (se_out_buffer (get_se k n))"
  shows "put_out_at k sz p m n = upd_se k (set_bytes p xs) n"
proof -
  have "room (length xs) (out_writer k sz p n)" using assms(2,3) by (simp add: room_def out_writer_def)
  with assms(1) have "run_state m (out_writer k sz p n) = ((), append_bytes xs (out_writer k sz p n))" by (rule emitsD)
  then show ?thesis using set_out_append [of "out_writer k sz p n" k n xs] by (simp add: put_out_at_def) (simp add: out_writer_def)
qed

lemma emits_put_header: "rpc_header_ok h \<Longrightarrow> emits (enc_rpc_header h) (put_header h)"
  using emits_rpc_header [of h] by (simp add: emits_def emits_pos_def put_header_def)

text \<open>The two bytes of the length in a header.\<close>

lemma rpc_length_place:
  assumes "rpc_header_ok h"
  obtains A B where "length A = 74" and "\<And>v. enc_rpc_header (h\<lparr>length_of_body := v\<rparr>) = A @ enc16 (rpc_is_big_endian h) v @ B"
proof -
  let ?be = "rpc_is_big_endian h"
  let ?A = "enc_rpc_start h @ [float_repr h] @ [rpc_reserved h] @ [serial_high h] @ enc_uuid ?be (object_uuid h) @
     enc_uuid ?be (interface_uuid h) @ enc_uuid ?be (activity_uuid h) @
     enc32 ?be (server_boot_time h) @ enc32 ?be (interface_version h) @ enc32 ?be (sequence_nmb h) @
     enc16 ?be (opnum h) @ enc16 ?be (interface_hint h) @ enc16 ?be (activity_hint h)"
  have "length ?A = 74" using assms by (simp add: rpc_header_ok_def enc_rpc_start_def)
  moreover have "enc_rpc_header (h\<lparr>length_of_body := v\<rparr>) =
      ?A @ enc16 ?be v @ (enc16 ?be (fragment_nmb h) @ [auth_protocol h] @ [serial_low h])" for v
    by (simp add: enc_rpc_header_def enc_rpc_start_def enc_rpc_rest_def Let_def)
  ultimately show thesis by (rule that)
qed

lemma write_at_split: "length A = p \<Longrightarrow> length xs = length ys \<Longrightarrow> write_at p xs (A @ ys @ B) = A @ xs @ B"
  by (simp add: write_at_def)

lemma write_length:
  assumes "rpc_header_ok h"
  shows "write_at 74 (enc16 (rpc_is_big_endian h) v) (enc_rpc_header h @ B) = enc_rpc_header (h\<lparr>length_of_body := v\<rparr>) @ B"
proof -
  obtain A C where a: "length A = 74"
    "\<And>v. enc_rpc_header (h\<lparr>length_of_body := v\<rparr>) = A @ enc16 (rpc_is_big_endian h) v @ C"
    by (rule rpc_length_place [OF assms]) blast
  have "enc_rpc_header h = A @ enc16 (rpc_is_big_endian h) (length_of_body h) @ C" using a(2) [of "length_of_body h"] by simp
  with a show ?thesis using write_at_split [of A 74 "enc16 (rpc_is_big_endian h) v"] by simp
qed

section \<open>The next fragment\<close>

text \<open>The room for the payload of one packet.\<close>

definition chunk_size :: nat where "chunk_size = PF_MAX_UDP_PAYLOAD_SIZE - PF_CMRPC_PDU_HEADER_SIZE"

lemma chunk_size_simp: "chunk_size = 1360"
  by (simp add: chunk_size_def rpc_size_defs)

lemma fragment_header_ok: "rpc_header_ok h \<Longrightarrow> rpc_header_ok (fragment_header k h n)"
  by (simp add: rpc_header_ok_def fragment_header_def reply_header_def packet_type_defs Let_def)

definition sent_header :: "nat \<Rightarrow> pf_rpc_header \<Rightarrow> nat \<Rightarrow> 'v rpc_net \<Rightarrow> pf_rpc_header" where
  "sent_header k h rest n = (let r = fragment_header k h n in
     r\<lparr>rpc_flags := (rpc_flags r)\<lparr>last_fragment := rest < chunk_size\<rparr>, length_of_body := of_nat (min chunk_size rest)\<rparr>)"

lemma header_flags_ok: "rpc_header_ok (h\<lparr>rpc_flags := f\<rparr>) = rpc_header_ok h"
  "rpc_header_ok (h\<lparr>length_of_body := v\<rparr>) = rpc_header_ok h"
  by (simp_all add: rpc_header_ok_def)

lemma next_fragment_effect:
  assumes h: "rpc_header_ok h" and b: "length (se_out_buffer (get_se k n)) = PNET_MAX_SESSION_BUFFER_SIZE"
    and p: "unat (se_out_buf_sent_pos (get_se k n)) = p" "PF_MAX_UDP_PAYLOAD_SIZE \<le> p"
    and l: "unat (se_out_buf_len (get_se k n)) = p + rest" "p + rest \<le> PNET_MAX_SESSION_BUFFER_SIZE" and k: "k < length (rw_sessions (rw n))"
  shows "next_fragment k h n = upd_se k (\<lambda>s. s\<lparr>
     se_out_buffer := enc_rpc_header (sent_header k h rest n) @ take (min chunk_size rest) (drop p (se_out_buffer s)) @
       drop (80 + min chunk_size rest) (se_out_buffer s),
     se_out_buf_send_len := of_nat (80 + min chunk_size rest)\<rparr>) n"
proof -
  let ?s = "get_se k n" let ?r = "fragment_header k h n" let ?len = "min chunk_size rest"
  let ?r2 = "?r\<lparr>rpc_flags := (rpc_flags ?r)\<lparr>last_fragment := rest < chunk_size\<rparr>\<rparr>"
  have r: "rpc_header_ok ?r" "rpc_header_ok ?r2" using fragment_header_ok [OF h] by (simp_all add: header_flags_ok)
  have w: "room 80 (out_writer k PF_MAX_UDP_PAYLOAD_SIZE 0 n)" using b by (simp add: room_def out_writer_def rpc_size_defs)
  have put1: "run_state (pf_put_dce_rpc_header ?r) (out_writer k PF_MAX_UDP_PAYLOAD_SIZE 0 n) =
      (74, append_bytes (enc_rpc_header ?r) (out_writer k PF_MAX_UDP_PAYLOAD_SIZE 0 n))"
    using emits_rpc_header [OF r(1)] w enc_rpc_header_length [OF r(1)] by (simp add: emits_pos_def) (simp add: out_writer_def)
  have rest: "unat (se_out_buf_len ?s - se_out_buf_sent_pos ?s) = rest"
    using p l by (simp add: unat_sub word_le_nat_alt)
  have lens: "unat (of_nat ?len :: u16) = ?len" by (simp add: chunk_size_simp unat_of_nat)
  let ?buf = "se_out_buffer ?s"
  let ?n3 = "upd_se k (\<lambda>s. (set_bytes 0 (enc_rpc_header ?r2) s)\<lparr>se_out_buf_send_len := of_nat ?len\<rparr>) n"
  have len80: "length (enc_rpc_header ?r) = 80" "length (enc_rpc_header ?r2) = 80" by (simp_all add: enc_rpc_header_length r)
  have n1: "set_out k (append_bytes (enc_rpc_header ?r) (out_writer k PF_MAX_UDP_PAYLOAD_SIZE 0 n)) n =
      upd_se k (set_bytes 0 (enc_rpc_header ?r)) n"
    using set_out_append [of "out_writer k PF_MAX_UDP_PAYLOAD_SIZE 0 n" k n "enc_rpc_header ?r"] by (simp add: out_writer_def)
  have send: "(if rest < chunk_size then se_out_buf_len ?s - se_out_buf_sent_pos ?s else of_nat chunk_size) = (of_nat ?len :: u16)"
    by (simp add: min_def rest [symmetric])
  have n3: "(if rest < chunk_size then put_out_at k PF_MAX_UDP_PAYLOAD_SIZE 0
        (put_header (?r\<lparr>rpc_flags := (rpc_flags ?r)\<lparr>last_fragment := True\<rparr>\<rparr>)) m else m) = ?n3"
    if m: "m = upd_se k (\<lambda>s. (set_bytes 0 (enc_rpc_header ?r) s)\<lparr>se_out_buf_send_len := of_nat ?len\<rparr>) n" for m
  proof (cases "rest < chunk_size")
    case True
    have "PF_MAX_UDP_PAYLOAD_SIZE \<le> length (se_out_buffer (get_se k m))"
      using k b len80 by (simp add: m rpc_size_defs)
    with True len80 have "put_out_at k PF_MAX_UDP_PAYLOAD_SIZE 0 (put_header ?r2) m = upd_se k (set_bytes 0 (enc_rpc_header ?r2)) m"
      by (intro put_out_at_emits emits_put_header r) (simp_all add: rpc_size_defs)
    also have "\<dots> = ?n3"
      unfolding m upd_se_upd_se by (rule upd_se_cong) (use len80 b in \<open>simp add: set_bytes_def write_at_def rpc_size_defs\<close>)
    finally show ?thesis using True by simp
  next
    case False
    have "rpc_flags ?r = (rpc_flags ?r)\<lparr>last_fragment := False\<rparr>"
      by (simp add: fragment_header_def Let_def no_flags_def)
    with False have "?r2 = ?r" by simp
    with False m show ?thesis by simp
  qed
  obtain n3 where n3': "n3 = ?n3" by blast
  have buf3: "se_out_buffer (get_se k n3) = enc_rpc_header ?r2 @ drop 80 ?buf"
    using k len80 by (simp add: n3' write_at_def)
  let ?pay = "take ?len (drop p ?buf)"
  have drop3: "drop p (se_out_buffer (get_se k n3)) = drop p ?buf"
    using p(2) len80 unfolding buf3 by (simp add: rpc_size_defs)
  have lenp: "length ?pay = ?len" using b l(2) by simp
  have len3: "length (se_out_buffer (get_se k n3)) = PNET_MAX_SESSION_BUFFER_SIZE"
    using b len80 by (simp add: buf3 rpc_size_defs)
  have n4: "put_out_at k PF_MAX_UDP_PAYLOAD_SIZE 80 (pf_put_mem_overlapping (drop p ?buf) ?len) n3 = upd_se k (set_bytes 80 ?pay) n3"
    unfolding pf_put_mem_overlapping_def
    by (intro put_out_at_emits emits_put_raw) (use lenp len3 in \<open>simp_all add: rpc_size_defs chunk_size_simp\<close>)
  obtain n4 where n4': "n4 = upd_se k (set_bytes 80 ?pay) n3" by blast
  have buf4: "se_out_buffer (get_se k n4) = enc_rpc_header ?r2 @ ?pay @ drop (80 + ?len) ?buf"
    using k len80 lenp by (simp add: n4' n3' buf3 [unfolded n3'] write_at_def add.commute)
  have len4: "length (se_out_buffer (get_se k n4)) = PNET_MAX_SESSION_BUFFER_SIZE"
    using b len80 lenp by (simp add: buf4 rpc_size_defs chunk_size_simp)
  have n5: "put_out_at k PF_MAX_UDP_PAYLOAD_SIZE 74 (pf_put_uint16 (rpc_is_big_endian ?r) (of_nat ?len)) n4 =
      upd_se k (set_bytes 74 (enc16 (rpc_is_big_endian ?r) (of_nat ?len))) n4"
    by (intro put_out_at_emits emits_uint16) (use len4 in \<open>simp_all add: rpc_size_defs\<close>)
  let ?n1 = "upd_se k (set_bytes 0 (enc_rpc_header ?r)) n"
  have w80: "w_pos (append_bytes (enc_rpc_header ?r) (out_writer k PF_MAX_UDP_PAYLOAD_SIZE 0 n)) = 80"
    using len80 by (simp add: append_bytes_def out_writer_def)
  have c: "PF_MAX_UDP_PAYLOAD_SIZE - 80 = chunk_size" by (simp add: chunk_size_simp rpc_size_defs)
  have rest1: "se_out_buf_len (get_se k ?n1) - se_out_buf_sent_pos (get_se k ?n1) = se_out_buf_len ?s - se_out_buf_sent_pos ?s"
    using k by simp
  have n2: "upd_se k (\<lambda>s. s\<lparr>se_out_buf_send_len := of_nat ?len\<rparr>) ?n1 =
      upd_se k (\<lambda>s. (set_bytes 0 (enc_rpc_header ?r) s)\<lparr>se_out_buf_send_len := of_nat ?len\<rparr>) n"
    by (simp add: comp_def)
  have s3: "se_out_buf_send_len (get_se k n3) = of_nat ?len" "se_out_buf_sent_pos (get_se k n3) = se_out_buf_sent_pos ?s"
    using k by (simp_all add: n3')
  have "next_fragment k h n = upd_se k (\<lambda>s. s\<lparr>se_out_buf_send_len := se_out_buf_send_len s + of_nat 80\<rparr>)
      (upd_se k (set_bytes 74 (enc16 (rpc_is_big_endian ?r) (of_nat ?len))) n4)"
    unfolding next_fragment_def Let_def put1 prod.case w80 n1 rest1 rest c send n3 [OF n2] n3' [symmetric] s3 lens p(1)
      drop3 n4 n4' [symmetric] n5 ..
  also have "\<dots> = upd_se k (\<lambda>s. s\<lparr>
     se_out_buffer := enc_rpc_header (sent_header k h rest n) @ take (min chunk_size rest) (drop p (se_out_buffer s)) @
       drop (80 + min chunk_size rest) (se_out_buffer s),
     se_out_buf_send_len := of_nat (80 + min chunk_size rest)\<rparr>) n"
    unfolding n4' n3' upd_se_upd_se
  proof (rule upd_se_cong)
    have b4: "write_at 80 ?pay (write_at 0 (enc_rpc_header ?r2) ?buf) = enc_rpc_header ?r2 @ ?pay @ drop (80 + ?len) ?buf"
      using len80 lenp by (simp add: write_at_def add.commute)
    have "write_at 74 (enc16 (rpc_is_big_endian ?r2) (of_nat ?len)) (enc_rpc_header ?r2 @ ?pay @ drop (80 + ?len) ?buf) =
        enc_rpc_header (sent_header k h rest n) @ ?pay @ drop (80 + ?len) ?buf"
      unfolding write_length [OF r(2)] by (simp add: sent_header_def Let_def)
    then show "((\<lambda>s. s\<lparr>se_out_buf_send_len := se_out_buf_send_len s + of_nat 80\<rparr>) \<circ>
        (set_bytes 74 (enc16 (rpc_is_big_endian ?r) (of_nat ?len)) \<circ> (set_bytes 80 ?pay \<circ>
          (\<lambda>s. (set_bytes 0 (enc_rpc_header ?r2) s)\<lparr>se_out_buf_send_len := of_nat ?len\<rparr>)))) (get_se k n) =
      (get_se k n)\<lparr>se_out_buffer := enc_rpc_header (sent_header k h rest n) @ ?pay @ drop (80 + ?len) ?buf,
        se_out_buf_send_len := of_nat (80 + ?len)\<rparr>"
      by (simp add: b4 set_bytes_def)
  qed
  finally show ?thesis .
qed

section \<open>All fragments\<close>

text \<open>
  The packets that follow when every fragment is acknowledged: the sending is left out, which
  changes neither the buffer nor its positions.
\<close>

fun fragments_from :: "nat \<Rightarrow> nat \<Rightarrow> pf_rpc_header \<Rightarrow> 'v rpc_net \<Rightarrow> u8 list list" where
  "fragments_from 0 k h n = []"
| "fragments_from (Suc fuel) k h n =
     (if se_out_buf_len (get_se k n) > se_out_buf_sent_pos (get_se k n) then
        (let n = next_fragment k h n; s = get_se k n in
         take (unat (se_out_buf_send_len s)) (se_out_buffer s) # fragments_from fuel k h (upd_se k acknowledge n))
      else [])"

text \<open>The payload in parts, and the header of a part.\<close>

function chunks :: "u8 list \<Rightarrow> u8 list list" where
  "chunks xs = (if xs = [] then [] else take chunk_size xs # chunks (drop chunk_size xs))"
  by auto
termination by (relation "measure length") (auto simp: chunk_size_simp)

declare chunks.simps [simp del]

lemma chunks_nil [simp]: "chunks [] = []"
  by (simp add: chunks.simps)

lemma concat_chunks: "concat (chunks xs) = xs"
  by (induction xs rule: chunks.induct) (subst chunks.simps, simp)

lemma chunk_length: "c \<in> set (chunks xs) \<Longrightarrow> length c \<le> chunk_size \<and> c \<noteq> []"
  by (induction xs rule: chunks.induct) (subst (asm) chunks.simps, auto simp: chunk_size_simp split: if_splits)

text \<open>A part that does not fill its packet.\<close>

lemma short_chunk: "(\<exists>c \<in> set (chunks xs). length c < chunk_size) \<longleftrightarrow> \<not> chunk_size dvd length xs"
proof (induction xs rule: chunks.induct)
  case (1 xs)
  show ?case
  proof (cases "xs = []")
    case False
    note IH = "1.IH" [OF False]
    have eq: "chunks xs = take chunk_size xs # chunks (drop chunk_size xs)" using False by (subst chunks.simps) simp
    show ?thesis
    proof (cases "length xs < chunk_size")
      case True
      with False show ?thesis by (auto simp: eq dest!: dvd_imp_le)
    next
      case False
      then have "chunk_size dvd length xs \<longleftrightarrow> chunk_size dvd length (drop chunk_size xs)"
        by (metis dvd_minus_self length_drop not_less)
      with IH False show ?thesis by (auto simp: eq)
    qed
  qed simp
qed

definition fragment_head :: "bool \<Rightarrow> bool \<Rightarrow> pf_rpc_header \<Rightarrow> nat \<Rightarrow> nat \<Rightarrow> pf_rpc_header" where
  "fragment_head from_me be h j len = (let f = of_nat j :: u16 in
     (reply_header (if from_me then PF_RPC_PT_REQUEST else PF_RPC_PT_RESPONSE) False True (if from_me then True else be) h)
     \<lparr>rpc_flags := no_flags\<lparr>fragment := True, idempotent := True, last_fragment := len < chunk_size\<rparr>, fragment_nmb := f,
      serial_high := ucast (drop_bit 8 f), serial_low := ucast (f AND 0xff), length_of_body := of_nat len\<rparr>)"

lemma sent_header_head:
  assumes "se_out_fragment_nbr (get_se k n) = of_nat j"
  shows "sent_header k h rest n =
    fragment_head (se_from_me (get_se k n)) (g_is_big_endian (se_get_info (get_se k n))) h j (min chunk_size rest)"
proof -
  have "min chunk_size rest < chunk_size \<longleftrightarrow> rest < chunk_size" by (auto simp: min_less_iff_disj)
  with assms show ?thesis
    by (simp add: sent_header_def fragment_head_def fragment_header_def reply_header_def Let_def no_flags_def)
qed

lemma fragment_head_ok: "rpc_header_ok h \<Longrightarrow> rpc_header_ok (fragment_head fm be h j len)"
  by (simp add: rpc_header_ok_def fragment_head_def reply_header_def packet_type_defs Let_def)

text \<open>The session when \<open>p\<close> bytes of the message \<open>bs\<close> have been acknowledged, in \<open>j\<close> fragments.\<close>

definition acknowledged :: "nat \<Rightarrow> u8 list \<Rightarrow> nat \<Rightarrow> nat \<Rightarrow> 'v rpc_net \<Rightarrow> bool" where
  "acknowledged k bs p j n \<longleftrightarrow> k < length (rw_sessions (rw n)) \<and>
     length (se_out_buffer (get_se k n)) = PNET_MAX_SESSION_BUFFER_SIZE \<and> length bs \<le> PNET_MAX_SESSION_BUFFER_SIZE \<and>
     unat (se_out_buf_len (get_se k n)) = length bs \<and> unat (se_out_buf_sent_pos (get_se k n)) = p \<and>
     PF_MAX_UDP_PAYLOAD_SIZE \<le> p \<and> p \<le> length bs \<and> se_out_fragment_nbr (get_se k n) = of_nat j \<and> 0 < j \<and> j < 100 \<and>
     drop p (take (length bs) (se_out_buffer (get_se k n))) = drop p bs"

lemma acknowledge_next:
  assumes a: "acknowledged k bs p j n" and h: "rpc_header_ok h" and p: "p < length bs" and j: "Suc j < 100"
  shows "acknowledged k bs (p + min chunk_size (length bs - p)) (Suc j) (upd_se k acknowledge (next_fragment k h n))"
    and "(let s = get_se k (next_fragment k h n) in take (unat (se_out_buf_send_len s)) (se_out_buffer s)) =
      enc_rpc_header (fragment_head (se_from_me (get_se k n)) (g_is_big_endian (se_get_info (get_se k n))) h j
        (min chunk_size (length bs - p))) @ take chunk_size (drop p bs)"
    and "se_from_me (get_se k (upd_se k acknowledge (next_fragment k h n))) = se_from_me (get_se k n)"
    and "se_get_info (get_se k (upd_se k acknowledge (next_fragment k h n))) = se_get_info (get_se k n)"
proof -
  let ?s = "get_se k n" let ?rest = "length bs - p" let ?len = "min chunk_size ?rest"
  note a' = a [unfolded acknowledged_def]
  have k: "k < length (rw_sessions (rw n))" using a' by simp
  have l: "unat (se_out_buf_len ?s) = p + ?rest" "p + ?rest \<le> PNET_MAX_SESSION_BUFFER_SIZE" using a' p by auto
  have pos: "unat (se_out_buf_sent_pos ?s) = p" "PF_MAX_UDP_PAYLOAD_SIZE \<le> p"
    and b: "length (se_out_buffer ?s) = PNET_MAX_SESSION_BUFFER_SIZE" using a' by auto
  note nf = next_fragment_effect [OF h b pos l k]
  let ?h = "fragment_head (se_from_me ?s) (g_is_big_endian (se_get_info ?s)) h j ?len"
  have hd: "sent_header k h ?rest n = ?h" using a' by (intro sent_header_head) simp
  have h80: "length (enc_rpc_header ?h) = 80" using fragment_head_ok [OF h] by (rule enc_rpc_header_length)
  have tk2: "take ?len (drop p bs) = take chunk_size (drop p bs)" by (cases "chunk_size \<le> ?rest") simp_all
  have tk: "take ?len (drop p (se_out_buffer ?s)) = take chunk_size (drop p bs)"
  proof -
    have "take ?len (drop p (se_out_buffer ?s)) = take ?len (drop p (take (length bs) (se_out_buffer ?s)))"
      by (simp add: drop_take)
    also have "\<dots> = take ?len (drop p bs)" using a' by simp
    also note tk2
    finally show ?thesis .
  qed
  have lt: "length (take chunk_size (drop p bs)) = ?len" by simp
  let ?t = "?s\<lparr>se_out_buffer := enc_rpc_header ?h @ take chunk_size (drop p bs) @ drop (80 + ?len) (se_out_buffer ?s),
     se_out_buf_send_len := of_nat (80 + ?len)\<rparr>"
  have t: "get_se k (next_fragment k h n) = ?t" using k by (simp add: nf hd tk)
  have u: "unat (of_nat (80 + ?len) :: u16) = 80 + ?len" by (simp del: of_nat_add add: unat_of_nat chunk_size_simp)
  show "(let s = get_se k (next_fragment k h n) in take (unat (se_out_buf_send_len s)) (se_out_buffer s)) =
      enc_rpc_header ?h @ take chunk_size (drop p bs)"
    unfolding t Let_def using h80 lt u by (simp add: tk2)
  have k': "k < length (rw_sessions (rw (next_fragment k h n)))" using k by (simp add: nf)
  then show "se_from_me (get_se k (upd_se k acknowledge (next_fragment k h n))) = se_from_me ?s"
    and "se_get_info (get_se k (upd_se k acknowledge (next_fragment k h n))) = se_get_info ?s"
    by (simp_all add: t acknowledge_def)
  have n0: "(of_nat j :: u16) > 0" using a' by (simp add: word_less_nat_alt unat_of_nat)
  have "se_out_buf_sent_pos ?s + of_nat (80 + ?len) - of_nat PF_CMRPC_PDU_HEADER_SIZE = (of_nat (p + ?len) :: u16)"
    by (simp add: rpc_size_defs pos(1) [symmetric])
  then have sp: "unat (se_out_buf_sent_pos ?s + of_nat (80 + ?len) - of_nat PF_CMRPC_PDU_HEADER_SIZE) = p + ?len"
    using l(2) p by (simp add: unat_of_nat rpc_size_defs del: of_nat_add)
  have bl: "length (se_out_buffer ?t) = PNET_MAX_SESSION_BUFFER_SIZE"
    using h80 lt b by (simp add: rpc_size_defs chunk_size_simp)
  have dr: "drop (p + ?len) (se_out_buffer ?t) = drop (p + ?len) (se_out_buffer ?s)"
    using h80 lt pos(2) by (simp add: rpc_size_defs chunk_size_simp) linarith
  have "drop (p + ?len) (take (length bs) (se_out_buffer ?t)) = drop (p + ?len) (take (length bs) (se_out_buffer ?s))"
    unfolding drop_take dr ..
  also have "\<dots> = drop ?len (drop p (take (length bs) (se_out_buffer ?s)))" by (simp add: add.commute)
  also have "\<dots> = drop (p + ?len) bs" using a' by (simp add: add.commute)
  finally have d: "drop (p + ?len) (take (length bs) (se_out_buffer ?t)) = drop (p + ?len) bs" .
  obtain t where t': "t = ?t" by blast
  have g: "get_se k (upd_se k acknowledge (next_fragment k h n)) = acknowledge t" using k' t t' by simp
  have "se_out_fragment_nbr ?s = of_nat j" using a' by blast
  then have ts: "se_out_fragment_nbr t = of_nat j" "se_out_buf_sent_pos t = se_out_buf_sent_pos ?s"
    "se_out_buf_send_len t = of_nat (80 + ?len)" "se_out_buf_len t = se_out_buf_len ?s"
    unfolding t' by simp_all
  note tb = bl [folded t'] d [folded t']
  have "se_out_buf_sent_pos (acknowledge t) = se_out_buf_sent_pos ?s + of_nat (80 + ?len) - of_nat PF_CMRPC_PDU_HEADER_SIZE"
    using n0 by (simp add: acknowledge_def ts(1-3) del: of_nat_add)
  then have at: "unat (se_out_buf_sent_pos (acknowledge t)) = p + ?len" "se_out_buf_len (acknowledge t) = se_out_buf_len ?s"
    "se_out_buffer (acknowledge t) = se_out_buffer t" "se_out_fragment_nbr (acknowledge t) = of_nat (Suc j)"
    using sp ts(1,4) by (simp_all add: acknowledge_def del: of_nat_add)
  have le: "p + ?len \<le> length bs" "PF_MAX_UDP_PAYLOAD_SIZE \<le> p + ?len" using p pos(2) by auto
  have sl: "length (rw_sessions (rw (upd_se k acknowledge (next_fragment k h n)))) = length (rw_sessions (rw (next_fragment k h n)))" by simp
  show "acknowledged k bs (p + ?len) (Suc j) (upd_se k acknowledge (next_fragment k h n))"
    unfolding acknowledged_def g at sl using k' tb le a' j by blast
qed

text \<open>
  The packets are the header and the parts of the payload, whatever the fuel that is enough.
\<close>

lemma fragments_from_parts:
  assumes "acknowledged k bs p j n" and "rpc_header_ok h" and "length (chunks (drop p bs)) \<le> fuel" and "j + fuel < 100"
  shows "fragments_from fuel k h n = map (\<lambda>(i, c). enc_rpc_header (fragment_head (se_from_me (get_se k n))
      (g_is_big_endian (se_get_info (get_se k n))) h i (length c)) @ c) (enumerate j (chunks (drop p bs)))"
  using assms
proof (induction fuel arbitrary: p j n)
  case 0 then show ?case by simp
next
  case (Suc fuel)
  note a = Suc.prems(1)
  have gt: "se_out_buf_len (get_se k n) > se_out_buf_sent_pos (get_se k n) \<longleftrightarrow> p < length bs"
    using a by (simp add: acknowledged_def word_less_nat_alt)
  show ?case
  proof (cases "p < length bs")
    case True
    let ?len = "min chunk_size (length bs - p)"
    have eq: "chunks (drop p bs) = take chunk_size (drop p bs) # chunks (drop (p + ?len) bs)"
    proof -
      have "drop chunk_size (drop p bs) = drop (p + ?len) bs" by (cases "chunk_size \<le> length bs - p") (simp_all add: add.commute)
      with True show ?thesis by (subst chunks.simps) simp
    qed
    note st = acknowledge_next [OF a Suc.prems(2) True]
    from Suc.prems(4) have j: "Suc j < 100" by simp
    have "fragments_from fuel k h (upd_se k acknowledge (next_fragment k h n)) =
      map (\<lambda>(i, c). enc_rpc_header (fragment_head (se_from_me (get_se k n)) (g_is_big_endian (se_get_info (get_se k n))) h i (length c)) @ c)
        (enumerate (Suc j) (chunks (drop (p + ?len) bs)))"
      using Suc.IH [OF st(1) [OF j] Suc.prems(2)] Suc.prems(3,4) eq st(3,4) [OF j] by simp
    then show ?thesis using gt True st(2) [OF j] by (simp add: eq Let_def min.commute)
  next
    case False
    then show ?thesis using gt by simp
  qed
qed

text \<open>The session when the first packet has been sent.\<close>

definition first_sent :: "nat \<Rightarrow> u8 list \<Rightarrow> 'v rpc_net \<Rightarrow> bool" where
  "first_sent k bs n \<longleftrightarrow> k < length (rw_sessions (rw n)) \<and>
     length (se_out_buffer (get_se k n)) = PNET_MAX_SESSION_BUFFER_SIZE \<and> length bs \<le> PNET_MAX_SESSION_BUFFER_SIZE \<and>
     PF_MAX_UDP_PAYLOAD_SIZE \<le> length bs \<and> se_out_buf_len (get_se k n) = of_nat (length bs) \<and>
     se_out_buf_sent_pos (get_se k n) = 0 \<and> se_out_buf_send_len (get_se k n) = of_nat PF_MAX_UDP_PAYLOAD_SIZE \<and>
     se_out_fragment_nbr (get_se k n) = 0 \<and> take (length bs) (se_out_buffer (get_se k n)) = bs"

lemma first_acknowledged: "first_sent k bs n \<Longrightarrow> acknowledged k bs PF_MAX_UDP_PAYLOAD_SIZE 1 (upd_se k acknowledge n)"
  by (simp add: first_sent_def acknowledged_def acknowledge_def unat_of_nat rpc_size_defs)

section \<open>Resending\<close>

lemma upd_out_sched [simp]: "rw_sched (rw (upd_out f n)) = rw_sched (rw n)" "cn_ar (upd_out f n) = cn_ar n"
  by (simp_all add: upd_out_def)

lemma sessions_out: "length (rw_sessions (rw (upd_out f n))) = length (rw_sessions (rw n))"
  by simp

lemma send_once_result:
  assumes "take (unat (se_out_buf_send_len (get_se k n))) (se_out_buffer (get_se k n)) = data" and "data \<noteq> []"
    and "re_udp_sendto env (se_socket (get_se k n)) (se_ip_addr (get_se k n)) (se_port (get_se k n)) data (rw_out (rw n)) = (r, v)"
  shows "pf_cmrpc_send_once env k n = (if r = int (length data) then 0 else -1, upd_out (\<lambda>_. v) n)"
proof -
  have "upd_out (\<lambda>v. snd (re_udp_sendto env (se_socket (get_se k n)) (se_ip_addr (get_se k n)) (se_port (get_se k n)) data v)) n =
      upd_out (\<lambda>_. v) n"
    using assms(3) by (simp add: upd_out_def upd_rw_def)
  then show ?thesis
    unfolding pf_cmrpc_send_once_def Let_def assms(1) pf_cmrpc_send_once_from_buffer_def pf_udp_sendto_def out_call_def
    using assms(2,3) by simp
qed

text \<open>The timer runs if the scheduler has one.\<close>

lemma resend_timer_set:
  assumes "k < length (rw_sessions (rw n))" and ok: "timer_ok (rw_sched (rw n))"
  shows "\<exists>n' h s. set_resend_timer k d n = Some n' \<and>
     n' = upd_se k (\<lambda>x. x\<lparr>se_resend_timeout := h\<rparr>) (upd_rw (\<lambda>w. w\<lparr>rw_sched := s\<rparr>) n) \<and>
     (pf_scheduler_is_running h \<longleftrightarrow> card (dom (pending_timers (rw_sched (rw n)))) < PF_MAX_TIMEOUTS)"
proof (cases "card (dom (pending_timers (rw_sched (rw n)))) < PF_MAX_TIMEOUTS")
  case True
  from timer.add_room [OF ok True, of "rw_now (rw n)" d Cmrpc_send_with_timeout k "se_resend_timeout (get_se k n)"]
  obtain h s i where h: "pf_scheduler_add (rw_now (rw n)) d Cmrpc_send_with_timeout k (se_resend_timeout (get_se k n)) (rw_sched (rw n)) =
      Some (0, h, s)" "handle_live s h i" by blast
  have "h_timer_index h \<noteq> UINT32_MAX"
  proof
    assume "h_timer_index h = UINT32_MAX"
    with h(2) have "(of_nat (i + 1) :: u32) = 0xFFFFFFFF" "i < PF_MAX_TIMEOUTS" by (auto simp: handle_live_def UINT32_MAX_def)
    moreover have "unat (of_nat (i + 1) :: u32) = i + 1"
      unfolding unat_of_nat using \<open>i < PF_MAX_TIMEOUTS\<close> by (simp add: config_defs)
    ultimately show False by (simp add: config_defs)
  qed
  with h True show ?thesis
    by (intro exI [of _ "upd_se k (\<lambda>x. x\<lparr>se_resend_timeout := h\<rparr>) (upd_rw (\<lambda>w. w\<lparr>rw_sched := s\<rparr>) n)"] exI [of _ h] exI [of _ s])
      (simp add: set_resend_timer_def pf_scheduler_is_running_def)
next
  case False
  from timer.add_full [OF ok False, of "rw_now (rw n)" d Cmrpc_send_with_timeout k "se_resend_timeout (get_se k n)"]
  obtain h where "pf_scheduler_add (rw_now (rw n)) d Cmrpc_send_with_timeout k (se_resend_timeout (get_se k n)) (rw_sched (rw n)) =
      Some (-1, h, rw_sched (rw n))" "handle_idle h" by blast
  with False show ?thesis
    by (intro exI [of _ "upd_se k (\<lambda>x. x\<lparr>se_resend_timeout := h\<rparr>) (upd_rw (\<lambda>w. w\<lparr>rw_sched := rw_sched (rw n)\<rparr>) n)"]
        exI [of _ h] exI [of _ "rw_sched (rw n)"])
      (simp add: set_resend_timer_def pf_scheduler_is_running_def handle_idle_def)
qed

end
