(* ===== verification/Rpc_Pool.thy ===== *)
theory Rpc_Pool
  imports Rpc_Lemmas Scheduler_Service
begin

text \<open>
  The tables of sessions and ARs (src/device/pf_cmrpc.c) are pools of numbered places: one that is
  free is given out, a full pool gives none, and a place that is given back can be used again. The
  pool is an interface, and both tables provide it.
\<close>

section \<open>Pools\<close>

datatype pool_op = Take | Give nat

fun pool_run :: "('s \<Rightarrow> (nat option \<times> 's) option) \<Rightarrow> (nat \<Rightarrow> 's \<Rightarrow> 's option) \<Rightarrow> pool_op list \<Rightarrow> 's \<Rightarrow> 's option" where
  "pool_run take_slot give_slot [] s = Some s"
| "pool_run take_slot give_slot (Take # ops) s =
     Option.bind (take_slot s) (\<lambda>(_, s). pool_run take_slot give_slot ops s)"
| "pool_run take_slot give_slot (Give i # ops) s = Option.bind (give_slot i s) (pool_run take_slot give_slot ops)"

locale slot_pool =
  fixes capacity :: nat and good :: "'s \<Rightarrow> bool" and used :: "'s \<Rightarrow> nat set"
    and take_slot :: "'s \<Rightarrow> (nat option \<times> 's) option" and give_slot :: "nat \<Rightarrow> 's \<Rightarrow> 's option"
  assumes used_bound: "good s \<Longrightarrow> used s \<subseteq> {..<capacity}"
    and take_free: "good s \<Longrightarrow> used s \<noteq> {..<capacity} \<Longrightarrow>
      \<exists>i s'. take_slot s = Some (Some i, s') \<and> good s' \<and> i < capacity \<and> i \<notin> used s \<and> used s' = insert i (used s)"
    and take_full: "good s \<Longrightarrow> used s = {..<capacity} \<Longrightarrow> take_slot s = Some (None, s)"
    and give_used: "good s \<Longrightarrow> i \<in> used s \<Longrightarrow> \<exists>s'. give_slot i s = Some s' \<and> good s' \<and> used s' = used s - {i}"
    and give_free: "good s \<Longrightarrow> i < capacity \<Longrightarrow> i \<notin> used s \<Longrightarrow> give_slot i s = Some s"
begin

lemma take_total:
  assumes "good s"
  obtains r s' where "take_slot s = Some (r, s')" and "good s'" and "card (used s') = card (used s) + of_bool (r \<noteq> None)"
    and "used s \<subseteq> used s'" and "r = None \<longleftrightarrow> card (used s) = capacity"
proof (cases "used s = {..<capacity}")
  case True
  with take_full [OF assms] assms that show ?thesis by simp
next
  case False
  from take_free [OF assms False] obtain i s' where
    i: "take_slot s = Some (Some i, s')" "good s'" "i \<notin> used s" "used s' = insert i (used s)" by blast
  have f: "finite (used s)" using used_bound [OF assms] by (rule finite_subset) simp
  have "card (used s) < card {..<capacity}" using used_bound [OF assms] False by (intro psubset_card_mono) auto
  with i f show ?thesis by (intro that [OF i(1,2)]) auto
qed

lemma give_total:
  assumes "good s" and "i < capacity"
  obtains s' where "give_slot i s = Some s'" and "good s'" and "used s' = used s - {i}"
  using give_used [OF assms(1), of i] give_free [OF assms] assms(1) that by (cases "i \<in> used s") auto

text \<open>Any sequence of requests is carried out and keeps the pool in order.\<close>

lemma run_total:
  assumes "good s" and "\<And>i. Give i \<in> set ops \<Longrightarrow> i < capacity"
  shows "\<exists>s'. pool_run take_slot give_slot ops s = Some s' \<and> good s'"
  using assms
proof (induction ops arbitrary: s)
  case (Cons q ops)
  show ?case
  proof (cases q)
    case Take
    from take_total [OF Cons.prems(1)] obtain r s1 where "take_slot s = Some (r, s1)" "good s1" by metis
    with Cons.IH [of s1] Cons.prems(2) Take show ?thesis by simp
  next
    case (Give i)
    then have "i < capacity" using Cons.prems(2) by simp
    from give_total [OF Cons.prems(1) this] obtain s1 where "give_slot i s = Some s1" "good s1" by metis
    with Cons.IH [of s1] Cons.prems(2) Give show ?thesis by simp
  qed
qed simp

text \<open>What is free can all be taken, and then no more.\<close>

lemma take_all:
  assumes "good s" and "card (used s) + m = capacity"
  shows "\<exists>s'. pool_run take_slot give_slot (replicate m Take) s = Some s' \<and> good s' \<and> used s' = {..<capacity} \<and>
     take_slot s' = Some (None, s')"
  using assms
proof (induction m arbitrary: s)
  case 0
  have "used s = {..<capacity}"
    using used_bound [OF "0.prems"(1)] "0.prems"(2) by (intro card_subset_eq) auto
  with "0.prems" take_full show ?case by simp
next
  case (Suc m)
  from take_total [OF Suc.prems(1)] obtain r s1 where
    1: "take_slot s = Some (r, s1)" "good s1" "card (used s1) = card (used s) + of_bool (r \<noteq> None)"
       "r = None \<longleftrightarrow> card (used s) = capacity" by metis
  with Suc.prems(2) have "card (used s1) + m = capacity" by simp
  from Suc.IH [OF 1(2) this] 1(1) show ?case by simp
qed

end

section \<open>Sessions\<close>

definition sessions_used :: "'v rpc_net \<Rightarrow> nat set" where
  "sessions_used n = {k. k < PF_MAX_SESSION \<and> se_in_use (get_se k n)}"

definition sessions_ok :: "'v rpc_net \<Rightarrow> bool" where
  "sessions_ok n \<longleftrightarrow> length (rw_sessions (rw n)) = PF_MAX_SESSION \<and> timer_ok (rw_sched (rw n))"

lemma session_release_total:
  assumes ok: "sessions_ok n" and k: "k < PF_MAX_SESSION" "se_in_use (get_se k n)"
  shows "\<exists>n'. pf_session_release env k n = Some n' \<and> sessions_ok n' \<and>
     rw_sessions (rw n') = (rw_sessions (rw n))[k := zero_session\<lparr>se_in_use := False, se_socket := -1\<rparr>]"
proof -
  let ?n = "if se_socket (get_se k n) > -1 \<and> se_from_me (get_se k n)
     then upd_se k (\<lambda>x. x\<lparr>se_socket := -1\<rparr>) (pf_udp_close env (se_socket (get_se k n)) n) else n"
  have 1: "length (rw_sessions (rw ?n)) = PF_MAX_SESSION" "rw_sched (rw ?n) = rw_sched (rw n)"
    "(rw_sessions (rw ?n))[k := z] = (rw_sessions (rw n))[k := z]" for z
    using ok by (simp_all add: sessions_ok_def pf_udp_close_def upd_out_def)
  obtain h s where s: "pf_scheduler_remove_if_running (se_resend_timeout (get_se k ?n)) (rw_sched (rw n)) = Some (h, s)" "timer_ok s"
    using ok timer.cancel_any [of "rw_sched (rw n)"] by (fastforce simp: sessions_ok_def)
  have "stop_resending k ?n = Some (upd_se k (\<lambda>x. x\<lparr>se_resend_timeout := h\<rparr>) (upd_rw (\<lambda>w. w\<lparr>rw_sched := s\<rparr>) ?n))"
    unfolding stop_resending_def 1(2) s(1) by simp
  with k(2) have "pf_session_release env k n = Some (upd_se k (\<lambda>_. zero_session\<lparr>se_in_use := False, se_socket := -1\<rparr>)
      (upd_se k (\<lambda>x. x\<lparr>se_resend_timeout := h\<rparr>) (upd_rw (\<lambda>w. w\<lparr>rw_sched := s\<rparr>) ?n)))"
    by (simp add: pf_session_release_def Let_def)
  moreover have "length (rw_sessions (rw n)) = PF_MAX_SESSION" using ok by (simp add: sessions_ok_def)
  ultimately show ?thesis using s(2) 1 by (simp add: sessions_ok_def)
qed

lemma session_take:
  assumes l: "length (rw_sessions (rw n)) = PF_MAX_SESSION" and u: "sessions_used n \<noteq> {..<PF_MAX_SESSION}"
  shows "\<exists>k s n'. pf_session_allocate env n = (Some k, n') \<and> k < PF_MAX_SESSION \<and> k \<notin> sessions_used n \<and>
     rw_sessions (rw n') = (rw_sessions (rw n))[k := s] \<and> se_in_use s \<and> rw_sched (rw n') = rw_sched (rw n)"
proof -
  from u obtain j where "j < PF_MAX_SESSION" "\<not> se_in_use (get_se j n)" by (auto simp: sessions_used_def)
  then have "find_index (\<lambda>s. \<not> se_in_use s) (rw_sessions (rw n)) \<noteq> None"
    using l by (auto simp: find_index_None get_se_def)
  then obtain k where f: "find_index (\<lambda>s. \<not> se_in_use s) (rw_sessions (rw n)) = Some k" by blast
  then show ?thesis
    using find_index_Some [OF f] l by (auto simp: pf_session_allocate_def sessions_used_def get_se_def)
qed

lemma sessions_used_update:
  assumes "rw_sessions (rw n') = (rw_sessions (rw n))[k := s]" and "length (rw_sessions (rw n)) = PF_MAX_SESSION"
    and "k < PF_MAX_SESSION"
  shows "sessions_used n' = (if se_in_use s then insert k (sessions_used n) else sessions_used n - {k})"
  using assms by (auto simp: sessions_used_def get_se_def nth_list_update)

lemma sessions_full:
  assumes "length (rw_sessions (rw n)) = PF_MAX_SESSION" and "sessions_used n = {..<PF_MAX_SESSION}"
  shows "pf_session_allocate env n = (None, n)"
proof -
  have "se_in_use (rw_sessions (rw n) ! k)" if "k < PF_MAX_SESSION" for k
    using that assms(2) by (auto simp: sessions_used_def get_se_def set_eq_iff)
  then have "\<forall>s \<in> set (rw_sessions (rw n)). se_in_use s" using assms(1) by (auto simp: in_set_conv_nth)
  then have "find_index (\<lambda>s. \<not> se_in_use s) (rw_sessions (rw n)) = None" by (simp add: find_index_None)
  then show ?thesis by (simp add: pf_session_allocate_def)
qed

lemma session_take_free:
  assumes ok: "sessions_ok n" and u: "sessions_used n \<noteq> {..<PF_MAX_SESSION}"
  shows "\<exists>k n'. Some (pf_session_allocate env n) = Some (Some k, n') \<and> sessions_ok n' \<and> k < PF_MAX_SESSION \<and>
     k \<notin> sessions_used n \<and> sessions_used n' = insert k (sessions_used n)"
proof -
  have l: "length (rw_sessions (rw n)) = PF_MAX_SESSION" and t: "timer_ok (rw_sched (rw n))"
    using ok by (simp_all add: sessions_ok_def)
  from session_take [OF l u, of env] obtain k s n' where
    n': "pf_session_allocate env n = (Some k, n')" "k < PF_MAX_SESSION" "k \<notin> sessions_used n"
      "rw_sessions (rw n') = (rw_sessions (rw n))[k := s]" "se_in_use s" "rw_sched (rw n') = rw_sched (rw n)" by blast
  moreover have "sessions_ok n'" using n'(4,6) l t by (simp add: sessions_ok_def)
  ultimately show ?thesis using sessions_used_update [OF n'(4) l n'(2)] by simp
qed

lemma session_give_used:
  assumes ok: "sessions_ok n" and k: "k \<in> sessions_used n"
  shows "\<exists>n'. pf_session_release env k n = Some n' \<and> sessions_ok n' \<and> sessions_used n' = sessions_used n - {k}"
proof -
  have l: "length (rw_sessions (rw n)) = PF_MAX_SESSION" using ok by (simp add: sessions_ok_def)
  from k have i: "k < PF_MAX_SESSION" "se_in_use (get_se k n)" by (simp_all add: sessions_used_def)
  obtain n' where n': "pf_session_release env k n = Some n'" "sessions_ok n'"
      "rw_sessions (rw n') = (rw_sessions (rw n))[k := zero_session\<lparr>se_in_use := False, se_socket := -1\<rparr>]"
    using session_release_total [OF ok i, of env] by (elim exE conjE) (rule that)
  have "sessions_used n' = sessions_used n - {k}"
    unfolding sessions_used_update [OF n'(3) l i(1)] by (rule if_not_P) simp
  with n'(1,2) show ?thesis by blast
qed

lemma session_give_free: "k < PF_MAX_SESSION \<Longrightarrow> k \<notin> sessions_used n \<Longrightarrow> pf_session_release env k n = Some n"
  by (simp add: sessions_used_def pf_session_release_def)

interpretation session_pool: slot_pool PF_MAX_SESSION sessions_ok sessions_used
    "\<lambda>n. Some (pf_session_allocate env n)" "pf_session_release env"
proof (unfold_locales, goal_cases)
  case 1 then show ?case by (auto simp: sessions_used_def)
next
  case 2 then show ?case by (rule session_take_free)
next
  case 3 then show ?case by (simp only: sessions_ok_def sessions_full)
next
  case 4 then show ?case by (rule session_give_used)
next
  case 5 then show ?case by (intro session_give_free)
qed

section \<open>ARs\<close>

text \<open>
  The order of the ARs lists those that are in use, each once; the reference of an AR tells its place in
  the table, and the one that is only good for a check has none.
\<close>

definition ars_used :: "'v rpc_net \<Rightarrow> nat set" where
  "ars_used n = {a. a < PNET_MAX_AR + 1 \<and> ca_in_use (cn_ar n a)}"

definition ar_table_ok :: "'v rpc_net \<Rightarrow> bool" where
  "ar_table_ok n \<longleftrightarrow> distinct (d_ars (cn_dev n)) \<and> set (d_ars (cn_dev n)) = ars_used n - {PNET_MAX_AR} \<and>
     (\<forall>a \<in> ars_used n. ra_arep (get_ra a n) = (if a < PNET_MAX_AR then of_nat (a + 1) else 0))"

lemma clear_ar_simps [simp]:
  "cn_ar (clear_ar env a n) = (cn_ar n)(a := zero_conn_ar)"
  "rw_ar (rw (clear_ar env a n)) = (rw_ar (rw n))(a := zero_rpc_ar)"
  "d_ars (cn_dev (clear_ar env a n)) = d_ars (cn_dev n)"
  by (simp_all add: clear_ar_def upd_ra_def upd_out_def upd_rw_def upd_cn_ar_def)

lemma upd_order_simps [simp]:
  "cn_ar (upd_order f n) = cn_ar n" "rw (upd_order f n) = rw n" "d_ars (cn_dev (upd_order f n)) = f (d_ars (cn_dev n))"
  by (simp_all add: upd_order_def)

lemma ar_release_ok:
  assumes ok: "ar_table_ok n" and a: "a \<in> ars_used n"
  shows "ar_table_ok (pf_ar_release env (Some a) n) \<and> ars_used (pf_ar_release env (Some a) n) = ars_used n - {a}"
proof -
  have u: "ca_in_use (cn_ar n a)" "a < PNET_MAX_AR + 1" using a by (simp_all add: ars_used_def)
  have arep: "ra_arep (get_ra a n) = (if a < PNET_MAX_AR then of_nat (a + 1) else 0)" using ok a by (simp add: ar_table_ok_def)
  let ?n = "pf_ar_release env (Some a) n"
  have n': "?n = clear_ar env a (if a < PNET_MAX_AR then upd_order (remove1 a) n else n)"
    using u arep by (simp add: pf_ar_release_def PNET_MAX_AR_def split: if_splits)
  have used: "ars_used ?n = ars_used n - {a}" unfolding n' by (auto simp: ars_used_def zero_conn_ar_def)
  have order: "d_ars (cn_dev ?n) = (if a < PNET_MAX_AR then remove1 a (d_ars (cn_dev n)) else d_ars (cn_dev n))"
    unfolding n' by simp
  have refs: "ra_arep (get_ra b ?n) = ra_arep (get_ra b n)" if "b \<noteq> a" for b
    using that unfolding n' by (simp add: get_ra_def)
  have "distinct (d_ars (cn_dev ?n))" "set (d_ars (cn_dev ?n)) = ars_used ?n - {PNET_MAX_AR}"
    using ok u(2) unfolding order used by (auto simp: ar_table_ok_def)
  moreover have "\<forall>b \<in> ars_used ?n. ra_arep (get_ra b ?n) = (if b < PNET_MAX_AR then of_nat (b + 1) else 0)"
    using ok refs unfolding used by (simp add: ar_table_ok_def)
  ultimately show ?thesis using used by (simp add: ar_table_ok_def)
qed

lemma ar_release_free: "a < PNET_MAX_AR + 1 \<Longrightarrow> a \<notin> ars_used n \<Longrightarrow> pf_ar_release env (Some a) n = n"
  by (simp add: pf_ar_release_def ars_used_def)

lemma ar_take_free:
  assumes ok: "ar_table_ok n" and u: "ars_used n \<noteq> {..<PNET_MAX_AR + 1}"
  shows "\<exists>a n'. pf_ar_allocate env n = Some (Some a, n') \<and> ar_table_ok n' \<and> a < PNET_MAX_AR + 1 \<and>
     a \<notin> ars_used n \<and> ars_used n' = insert a (ars_used n)"
proof -
  from u obtain b where "b < PNET_MAX_AR + 1" "\<not> ca_in_use (cn_ar n b)" by (auto simp: ars_used_def)
  then have "find_index (\<lambda>a. \<not> ca_in_use (cn_ar n a)) [0..<PNET_MAX_AR + 1] \<noteq> None"
    by (auto simp: find_index_None simp del: upt_Suc)
  then obtain a where f: "find_index (\<lambda>a. \<not> ca_in_use (cn_ar n a)) [0..<PNET_MAX_AR + 1] = Some a" by blast
  from find_index_Some [OF f] nth_upt [of 0 a "PNET_MAX_AR + 1"] have a: "a < PNET_MAX_AR + 1" "\<not> ca_in_use (cn_ar n a)"
    by (auto simp del: upt_Suc)
  then have an: "a \<notin> ars_used n" by (simp add: ars_used_def)
  let ?n1 = "upd_cn_ar a (\<lambda>r. r\<lparr>ca_in_use := True\<rparr>) (clear_ar env a n)"
  let ?n' = "if a < PNET_MAX_AR then upd_order (\<lambda>xs. xs @ [a]) (upd_out (re_ar_init env a)
      (upd_ra a (\<lambda>r. r\<lparr>ra_arep := of_nat (a + 1)\<rparr>) ?n1)) else ?n1"
  have order: "d_ars (cn_dev ?n1) = d_ars (cn_dev n)" by (simp add: upd_cn_ar_def)
  have room: "length (d_ars (cn_dev n)) < PNET_MAX_AR" if "a < PNET_MAX_AR"
  proof -
    have "set (d_ars (cn_dev n)) \<subseteq> {..<PNET_MAX_AR} - {a}" using ok an by (auto simp: ar_table_ok_def ars_used_def)
    then have "card (set (d_ars (cn_dev n))) \<le> card ({..<PNET_MAX_AR} - {a})" by (intro card_mono) auto
    also have "\<dots> < PNET_MAX_AR" using that by simp
    finally show ?thesis using ok distinct_card [of "d_ars (cn_dev n)"] by (simp only: ar_table_ok_def)
  qed
  have eq: "pf_ar_allocate env n = Some (Some a, ?n')"
    unfolding pf_ar_allocate_def f option.case Let_def order using room by simp
  have used: "ars_used ?n' = insert a (ars_used n)"
    using a by (auto simp: ars_used_def upd_cn_ar_def upd_ra_def upd_out_def)
  have order': "d_ars (cn_dev ?n') = (if a < PNET_MAX_AR then d_ars (cn_dev n) @ [a] else d_ars (cn_dev n))"
    by (simp add: order upd_ra_def upd_out_def)
  have refs: "ra_arep (get_ra b ?n') = (if b = a then if a < PNET_MAX_AR then of_nat (a + 1) else 0 else ra_arep (get_ra b n))" for b
    by (simp add: get_ra_def upd_cn_ar_def upd_ra_def upd_out_def zero_rpc_ar_def)
  have "distinct (d_ars (cn_dev ?n'))" "set (d_ars (cn_dev ?n')) = ars_used ?n' - {PNET_MAX_AR}"
    using ok an a(1) unfolding order' used by (auto simp: ar_table_ok_def)
  moreover have "\<forall>b \<in> ars_used ?n'. ra_arep (get_ra b ?n') = (if b < PNET_MAX_AR then of_nat (b + 1) else 0)"
    using ok unfolding refs used by (simp add: ar_table_ok_def)
  ultimately have "ar_table_ok ?n'" unfolding ar_table_ok_def by blast
  with eq used a(1) an show ?thesis by blast
qed

lemma ar_full:
  assumes "ars_used n = {..<PNET_MAX_AR + 1}"
  shows "pf_ar_allocate env n = Some (None, n)"
proof -
  have "ca_in_use (cn_ar n a)" if "a < PNET_MAX_AR + 1" for a
    using that assms by (auto simp: ars_used_def set_eq_iff)
  then have "find_index (\<lambda>a. \<not> ca_in_use (cn_ar n a)) [0..<PNET_MAX_AR + 1] = None" by (simp add: find_index_None)
  then show ?thesis unfolding pf_ar_allocate_def by (simp only: option.case)
qed

interpretation ar_pool: slot_pool "PNET_MAX_AR + 1" ar_table_ok ars_used
    "pf_ar_allocate env" "\<lambda>a n. Some (pf_ar_release env (Some a) n)"
proof (unfold_locales, goal_cases)
  case 1 then show ?case by (auto simp: ars_used_def)
next
  case 2 then show ?case by (rule ar_take_free)
next
  case 3 then show ?case by (intro ar_full)
next
  case 4 then show ?case using ar_release_ok by blast
next
  case 5 then show ?case by (simp add: ar_release_free)
qed

end
