(* ===== verification/Rpc_Demo.thy ===== *)
theory Rpc_Demo
  imports Rpc_Send Rpc_Pool Connect_Demo
begin

unbundle bit_operations_syntax

text \<open>
  A stack around CMRPC that answers everything, with sockets that count the packets, and a few packets,
  with which the properties of CMRPC are applied.
\<close>

section \<open>The stack\<close>

definition demo_rpc_dev_env :: "nat rpc_world dev_env" where
  "demo_rpc_dev_env = \<lparr>de_send_pull = \<lambda>_ _ _ _ _ w. (0, w), de_send_plug = \<lambda>_ _ _ _ _ _ _ w. (0, w),
     de_send_plug_wrong = \<lambda>_ _ _ _ _ _ _ w. (0, w), de_released = \<lambda>_ _ _ _ _ _ _ w. (0, w),
     de_send_diagnosis = \<lambda>_ _ _ _ _ _ w. (0, w), de_send_usi_disappears = \<lambda>_ _ _ _ _ _ w. (0, w),
     de_problem_indicator = \<lambda>_ _ _ w. (0, w)\<rparr>"

definition demo_rpc_conn :: "nat rpc_world conn_env" where
  "demo_rpc_conn = \<lparr>ev_app = \<lparr>exp_module_ind = \<lambda>_ _ _. Some, exp_submodule_ind = \<lambda>_ _ _ _ _ _. Some\<rparr>,
     ev_dev = demo_rpc_dev_env, ev_min_device_interval = 32, ev_station_name = [97], ev_mac_address = replicate 6 2,
     ev_state_inds = [], ev_pdport_reset_all = Some, ev_pdport_ar_connect_ind = \<lambda>_. Some,
     ev_allocate_endpoint = \<lambda>_ n. Some (3, n), ev_connect_ind = \<lambda>_ st n. Some ((0, st), n),
     ev_release_ind = \<lambda>_ st n. Some ((0, st), n), ev_dcontrol_ind = \<lambda>_ st n. Some ((0, st), n),
     ev_ccontrol_cnf = \<lambda>_ _. Some, ev_cmsu_start_req = \<lambda>_ st n. Some ((0, st), n),
     ev_cmpbe_dcontrol_ind = \<lambda>_ _ st n. Some ((0, st), n), ev_log_book_entry = \<lambda>_ _. Some, ev_alarm_enable = \<lambda>_. Some,
     ev_fast_port_in_use = \<lambda>_. True, ev_ppm_iodata = \<lambda>_ _ _ _. None, ev_cmrpc_ccontrol_req = \<lambda>_ n. Some (0, n)\<rparr>"

definition demo_im_0 :: pnet_im_0 where
  "demo_im_0 = \<lparr>im_vendor_id_hi = 0, im_vendor_id_lo = 1, im_order_id = replicate 21 65, im_serial_number = replicate 17 66,
     im_hardware_revision = 1, im_sw_revision_prefix = 86, im_sw_revision_functional_enhancement = 1, im_sw_revision_bug_fix = 0,
     im_sw_revision_internal_change = 0, im_revision_counter = 0, im_profile_id = 0, im_profile_specific_type = 0,
     im_version_major = 1, im_version_minor = 1, im_supported = 0\<rparr>"

definition demo_epm_cfg :: epm_cfg where
  "demo_epm_cfg = \<lparr>ec_product_name = [112], ec_im_0 = demo_im_0, ec_vendor_id_hi = 0, ec_vendor_id_lo = 1, ec_device_id_hi = 0, ec_device_id_lo = 2\<rparr>"

definition demo_rpc_env :: "nat rpc_env" where
  "demo_rpc_env = \<lparr>re_conn = demo_rpc_conn, re_udp_open = \<lambda>_ v. (7, v), re_udp_sendto = \<lambda>_ _ _ d v. (int (length d), Suc v),
     re_udp_recvfrom = \<lambda>_ _ v. (None, v), re_udp_close = \<lambda>_ v. v, re_ar_init = \<lambda>_ v. v, re_ar_clear = \<lambda>_ v. v,
     re_plugsm_prmend_ind = \<lambda>_ st n. Some ((0, st), n), re_plugsm_application_ready_cnf = \<lambda>_ n. Some (0, n),
     re_prev_sequence_number = \<lambda>_ _. 0, re_cmsm_rm_read_ind = \<lambda>_ _ n. Some (0, n),
     re_cmrdr_rm_read_ind = \<lambda>_ _ st _ _ n. Some ((0, st), n),
     re_cmwrr_rm_write_ind = \<lambda>_ _ res st _ _ p n. Some ((0, res, st, p), n),
     re_cmpbe_rm_ccontrol_cnf = \<lambda>_ _ _ n. Some (0, n), re_lldp_restart = Some, re_epm_cfg = demo_epm_cfg,
     re_stack_header = demo_rpc\<rparr>"

definition demo_rpc_sched :: "(rpc_cb, nat) sched" where
  "demo_rpc_sched = the (pf_scheduler_init 1000 \<lparr>timeouts = [], timeout_first = 0, timeout_free = 0, tick_interval = 0\<rparr>)"

definition demo_rpc_world :: "session list \<Rightarrow> nat rpc_world" where
  "demo_rpc_world ss = \<lparr>rw_sessions = ss, rw_session_number = 0x12345678, rw_rpcreq_socket = 4, rw_ar = \<lambda>_. zero_rpc_ar,
     rw_sched = demo_rpc_sched, rw_now = 0, rw_input_frame = replicate PF_FRAME_BUFFER_SIZE 0, rw_initialized = True, rw_out = 0\<rparr>"

definition demo_rpc_net :: "session list \<Rightarrow> nat rpc_net" where
  "demo_rpc_net ss = \<lparr>cn_dev = \<lparr>d_device = demo_real_device, d_ars = [], d_exp_ident = \<lambda>_. zero_exp_ident,
     d_world = demo_rpc_world ss\<rparr>, cn_ar = \<lambda>_. zero_conn_ar\<rparr>"

lemma demo_rpc_sched_ok: "timer_ok demo_rpc_sched"
proof -
  obtain s where "pf_scheduler_init 1000 \<lparr>timeouts = [], timeout_first = 0, timeout_free = 0, tick_interval = 0\<rparr> =
      (Some s :: (rpc_cb, nat) sched option)" "sched_rep s [] [0..<PF_MAX_TIMEOUTS] []" "tick_interval s = 1000"
    using init_rep [of 1000 "\<lparr>timeouts = [], timeout_first = 0, timeout_free = 0, tick_interval = 0\<rparr> :: (rpc_cb, nat) sched"] by auto
  then show ?thesis by (auto simp: demo_rpc_sched_def timer_ok_def sched_ok_def)
qed

lemma demo_stack_header: "stack_header_ok demo_rpc_env"
  by (simp add: stack_header_ok_def demo_rpc_env_def demo_rpc_def)

lemma demo_rpc_net_simps [simp]:
  "rw_sessions (rw (demo_rpc_net ss)) = ss" "rw_sched (rw (demo_rpc_net ss)) = demo_rpc_sched" "get_se k (demo_rpc_net ss) = ss ! k"
  "d_ars (cn_dev (demo_rpc_net ss)) = []" "cn_ar (demo_rpc_net ss) a = zero_conn_ar" "get_ra a (demo_rpc_net ss) = zero_rpc_ar"
  by (simp_all add: demo_rpc_net_def demo_rpc_world_def get_se_def get_ra_def)

text \<open>A session of the activity zero, and packets in it.\<close>

definition demo_session :: session where
  "demo_session = zero_session\<lparr>se_in_use := True, se_socket := 4, se_resend_timeout := \<lparr>h_name = rpc_timer_name, h_timer_index = UINT32_MAX\<rparr>\<rparr>"

definition demo_fragment :: "nat \<Rightarrow> bool \<Rightarrow> pf_rpc_header" where
  "demo_fragment i l = demo_rpc\<lparr>packet_type := PF_RPC_PT_REQUEST, rpc_flags := no_flags\<lparr>fragment := True, last_fragment := l\<rparr>,
     length_of_body := 2, fragment_nmb := of_nat i\<rparr>"

definition demo_message :: "u8 \<Rightarrow> u16 \<Rightarrow> pf_rpc_header" where
  "demo_message t op = demo_rpc\<lparr>packet_type := t, rpc_flags := no_flags, length_of_body := 0, opnum := op\<rparr>"

lemma demo_headers_ok: "rpc_header_ok (demo_fragment i l)" "unat t < 32 \<Longrightarrow> rpc_header_ok (demo_message t op)"
  using demo_rpc_ok by (simp_all add: rpc_header_ok_def demo_fragment_def demo_message_def packet_type_defs)

lemma demo_located: "pf_session_locate_by_uuid zero_uuid (demo_rpc_net (demo_session # ss)) = Some 0"
  by (simp add: pf_session_locate_by_uuid_def find_index_def demo_session_def zero_session_def)

end
