(* ===== verification/Rpc_Props.thy ===== *)
theory Rpc_Props
  imports Rpc_Demo
begin

unbundle bit_operations_syntax

text \<open>The properties of CMRPC (src/device/pf_cmrpc.c).\<close>

section \<open>Fragments\<close>

text \<open>
  C26. A request that comes in fragments is put together: when the packets of one activity come in
  order, with bodies that fit into a packet and all together into the input buffer, then every packet but the
  last only adds to the buffer, and with the last one the message is handled by a parser
  that reads exactly the bodies one after the other, in the byte order of the sender, without
  an error so far.
\<close>

theorem fragments_reassembled:
  assumes "collected k u be [] 0 n" and "stack_header_ok env"
    and "\<And>j. j < length fs \<Longrightarrow> rpc_header_ok (fst (fs ! j)) \<and> is_fragment u be j False (fst (fs ! j)) (snd (fs ! j))"
    and "rpc_header_ok (fst f)" and "is_fragment u be (length fs) True (fst f) (snd f)"
    and "length (concat (map snd (fs @ [f]))) \<le> PNET_MAX_SESSION_BUFFER_SIZE"
  shows "\<exists>n1 n2 b. rpc_packets env addr port (map packet_of fs) n = Some n1 \<and>
     pf_cmrpc_dce_packet env addr port (length (packet_of f)) (arrive (packet_of f) n1) =
       Option.bind (packet_message env k False 0 (fst f) n2) (\<lambda>(res, n). map_option (Pair res) (release_killed env k n)) \<and>
     se_get_info (get_se k n2) = \<lparr>g_result = PF_PARSE_OK, g_is_big_endian = be, g_buf = Some b,
       g_len = length (concat (map snd (fs @ [f])))\<rparr> \<and>
     take (length (concat (map snd (fs @ [f])))) b = concat (map snd (fs @ [f])) \<and>
     se_rpc_result (get_se k n2) = no_status"
  using assms by (rule fragments_handled)

lemma fragments_reassembled_witness:
  "\<exists>n1 (n2 :: nat rpc_net) b. rpc_packets demo_rpc_env 1 2 [packet_of (demo_fragment 0 False, [1, 2])] (demo_rpc_net [demo_session]) = Some n1 \<and>
     se_get_info (get_se 0 n2) = \<lparr>g_result = PF_PARSE_OK, g_is_big_endian = False, g_buf = Some b,
       g_len = length [1, 2, 3, 4 :: u8]\<rparr> \<and> take (length [1, 2, 3, 4 :: u8]) b = [1, 2, 3, 4]"
proof -
  have "collected 0 zero_uuid False [] 0 (demo_rpc_net [demo_session])"
    using demo_located [of "[]"]
    by (simp add: collected_def idle_timer_def demo_session_def zero_session_def)
  moreover have "is_fragment zero_uuid False i l (demo_fragment i l) [x, y]" if "i < 2" for i l x y
    using that by (simp add: is_fragment_def demo_fragment_def demo_rpc_def rpc_size_defs)
  ultimately show ?thesis
    using fragments_reassembled [of 0 zero_uuid False "demo_rpc_net [demo_session]" demo_rpc_env "[(demo_fragment 0 False, [1, 2])]"
      "(demo_fragment 1 True, [3, 4])" 1 2] demo_stack_header demo_headers_ok(1)
    by (auto simp: rpc_size_defs)
qed




section \<open>Sessions and ARs\<close>

text \<open>
  C28. The table of ARs stays in order, whatever ARs are allocated and released: the list of the
  ARs in their order has each AR in use exactly once, the reference of an AR tells its place, no store
  goes behind the list, and an AR that is given out was free. The same pool gives out the sessions.
\<close>

theorem ar_table_kept:
  assumes "ar_table_ok n" and "\<And>a. Give a \<in> set ops \<Longrightarrow> a < PNET_MAX_AR + 1"
  shows "\<exists>n'. pool_run (pf_ar_allocate env) (\<lambda>a n. Some (pf_ar_release env (Some a) n)) ops n = Some n' \<and> ar_table_ok n'"
  using ar_pool.run_total [OF assms] .

lemma ar_table_kept_witness:
  "\<exists>n'. pool_run (pf_ar_allocate demo_rpc_env) (\<lambda>a n. Some (pf_ar_release demo_rpc_env (Some a) n)) [Take, Take, Give 0, Take]
     (demo_rpc_net []) = Some n' \<and> ar_table_ok n'"
proof -
  have "ar_table_ok (demo_rpc_net [])" by (simp add: ar_table_ok_def ars_used_def zero_conn_ar_def)
  then show ?thesis by (intro ar_table_kept) auto
qed

text \<open>
  The sessions can be used up: with \<open>m\<close> free sessions, \<open>m\<close> allocations succeed and take all of
  them, and then no session is given out until one is released.
\<close>

theorem sessions_run_out:
  assumes "sessions_ok n" and "card (sessions_used n) + m = PF_MAX_SESSION"
  shows "\<exists>n'. pool_run (\<lambda>n. Some (pf_session_allocate env n)) (pf_session_release env) (replicate m Take) n = Some n' \<and>
     sessions_ok n' \<and> sessions_used n' = {..<PF_MAX_SESSION} \<and> pf_session_allocate env n' = (None, n')"
  using session_pool.take_all [OF assms, of env] by simp

lemma sessions_run_out_witness:
  "\<exists>n'. pool_run (\<lambda>n. Some (pf_session_allocate demo_rpc_env n)) (pf_session_release demo_rpc_env) (replicate 3 Take)
     (demo_rpc_net (replicate 3 zero_session)) = Some n' \<and> pf_session_allocate demo_rpc_env n' = (None, n')"
proof -
  have "sessions_ok (demo_rpc_net (replicate 3 zero_session))"
    using demo_rpc_sched_ok by (simp add: sessions_ok_def PF_MAX_SESSION_def PNET_MAX_AR_def)
  moreover have "sessions_used (demo_rpc_net (replicate 3 zero_session)) = {}"
    by (auto simp: sessions_used_def PF_MAX_SESSION_def PNET_MAX_AR_def zero_session_def)
  ultimately show ?thesis
    using sessions_run_out [of "demo_rpc_net (replicate 3 zero_session)" 3 demo_rpc_env]
    by (auto simp: PF_MAX_SESSION_def PNET_MAX_AR_def)
qed




lemma demo_message_simps:
  "is_message (demo_message t op)" "unknown_type (demo_message 4 op)" "activity_uuid (demo_message t op) = zero_uuid"
  "packet_type (demo_message t op) = t" "opnum (demo_message t op) = op"
  by (simp_all add: is_message_def too_large_def unknown_type_def demo_message_def no_flags_def packet_type_defs demo_rpc_def)


text \<open>
  C30. Two packets stop the stack: after a stray packet has taken a session, a response to a control request
  with the same activity runs into the assertion that the session has an AR.
\<close>

theorem two_packets_stop_stack:
  assumes "rpc_header_ok h" and "is_message h" and "unknown_type h"
    and "rpc_header_ok h'" and "is_message h'" and "packet_type h' = PF_RPC_PT_RESPONSE" and "opnum h' = PF_RPC_DEV_OPNUM_CONTROL"
    and "activity_uuid h' = activity_uuid h" and "stack_header_ok env"
    and "pf_session_locate_by_uuid (activity_uuid h) n = None"
    and "find_index (\<lambda>s. \<not> se_in_use s) (rw_sessions (rw n)) = Some k"
  shows "rpc_packets env addr port [packet_of (h, body), packet_of (h', body')] n = None"
proof -
  let ?n = "arrive (enc_rpc_header h @ body) n"
  let ?len = "length (enc_rpc_header h @ body)"
  let ?s = "stray_session env addr port ?len h ?n"
  let ?n' = "next_session_number (upd_se k (\<lambda>_. ?s) ?n)"
  have k: "k < length (rw_sessions (rw n))" and free: "\<not> se_in_use (rw_sessions (rw n) ! k)"
    using find_index_Some [OF assms(11)] by simp_all
  have ss: "rw_sessions (rw ?n) = rw_sessions (rw n)" by (simp add: arrive_def)
  have "pf_cmrpc_dce_packet env addr port ?len ?n = Some ((-1, False), ?n')"
    using assms(10,11)
    by (intro stray_message [OF arrived_packet [OF assms(1)] assms(9) _ _ assms(2,3)]) (simp_all add: ss pf_session_locate_by_uuid_def)
  moreover have "pf_cmrpc_dce_packet env addr port (length (enc_rpc_header h' @ body')) (arrive (enc_rpc_header h' @ body') ?n') = None"
  proof (rule response_without_ar [OF arrived_packet [OF assms(4)], where k = k])
    let ?m = "arrive (enc_rpc_header h' @ body') ?n'"
    have sm: "rw_sessions (rw ?m) = (rw_sessions (rw n))[k := ?s]" by (simp add: arrive_def ss [unfolded arrive_def])
    then have "get_se k ?m = ?s" using k by (simp add: get_se_def)
    then show "idle_timer (se_resend_timeout (get_se k ?m))" "se_ar (get_se k ?m) = None" by simp_all
    show "pf_session_locate_by_uuid (activity_uuid h') ?m = Some k"
      unfolding assms(8) by (rule locate_replaced [OF assms(10) k _ _ sm]) simp_all
  qed (use assms in simp_all)
  ultimately show ?thesis by simp
qed

lemma two_packets_stop_stack_witness:
  "rpc_packets demo_rpc_env 1 2 [packet_of (demo_message 4 0, []), packet_of (demo_message 2 4, [])] (demo_rpc_net [zero_session]) = None"
proof (rule two_packets_stop_stack [where k = 0])
  show "pf_session_locate_by_uuid (activity_uuid (demo_message 4 0)) (demo_rpc_net [zero_session]) = None"
    by (simp add: pf_session_locate_by_uuid_def find_index_None zero_session_def)
  show "find_index (\<lambda>s. \<not> se_in_use s) (rw_sessions (rw (demo_rpc_net [zero_session]))) = Some 0"
    by (simp add: find_index_def zero_session_def)
qed (simp_all add: demo_headers_ok demo_message_simps demo_stack_header packet_type_defs PF_RPC_DEV_OPNUM_CONTROL_def)

section \<open>Messages\<close>

lemma all_ones_16: "(0xffffffff :: u16) = 0xffff"
  by simp



lemma write_length_sum:
  assumes "unat (ws_pos w) \<le> g_len (se_get_info s)" and "g_len (se_get_info s) < 2 ^ 16"
  shows "write_length_ok s w \<longleftrightarrow> unat (ws_pos w) + unat (wq_record_data_length (ws_req w)) \<le> g_len (se_get_info s) \<or>
      2 ^ 32 \<le> unat (ws_pos w) + unat (wq_record_data_length (ws_req w))"
proof -
  let ?p = "unat (ws_pos w)" let ?l = "unat (wq_record_data_length (ws_req w))" let ?g = "g_len (se_get_info s)"
  have l: "?l < 2 ^ 32" using unsigned_less [of "wq_record_data_length (ws_req w)"] by simp
  have p: "?p < 2 ^ 16" using unsigned_less [of "ws_pos w"] by simp
  have u: "unat (ucast (ws_pos w) :: u32) = ?p"
    using p by (simp add: unsigned_ucast_eq take_bit_nat_eq_self_iff)
  have sum: "unat (ucast (ws_pos w) + wq_record_data_length (ws_req w)) = (?p + ?l) mod 2 ^ 32"
    by (simp add: unat_word_ariths u)
  have g: "unat (of_nat ?g :: u32) = ?g" using assms(2) by (simp add: unat_of_nat)
  have ok: "write_length_ok s w \<longleftrightarrow> (?p + ?l) mod 2 ^ 32 \<le> ?g"
    by (simp add: write_length_ok_def word_le_nat_alt sum g)
  show ?thesis
  proof (cases "?p + ?l < 2 ^ 32")
    case True
    then show ?thesis unfolding ok by simp
  next
    case False
    then have "(?p + ?l) mod 2 ^ 32 = ?p + ?l - 2 ^ 32" using l p by (simp add: mod_if)
    with False l assms(1) show ?thesis unfolding ok by simp
  qed
qed

lemma long_write_call:
  assumes "write_length_ok (get_se k n) w" and h: "wq_record_data_length (ws_req w) = 0xffffffff" "wq_api (ws_req w) = 0"
      "wq_index (ws_req w) \<le> PF_IDX_USER_MAX" "pf_ar_find_by_uuid (wq_ar_uuid (ws_req w)) n = Some a"
  shows "\<exists>f m. pf_cmrpc_perform_one_write env k w n = Option.bind (re_cmwrr_rm_write_ind env a (ws_req w) (ws_res w) (ws_st w)
        (g_buf (se_get_info (get_se k n))) 0xffff (ws_pos w) m) f"
proof -
  have idle: "upd_se k (\<lambda>s. s\<lparr>se_get_info := info_of (parser_at (se_get_info (get_se k n)) (unat (ws_pos w)))\<rparr>) n = n"
    by (rule upd_se_idle) (simp add: info_of_def parser_at_def)
  have pos: "of_nat (r_pos (parser_at (se_get_info (get_se k n)) (unat (ws_pos w)))) = ws_pos w" by (simp add: parser_at_def)
  obtain F where r: "write_record env k a w n = Option.bind (re_cmwrr_rm_write_ind env a (ws_req w) (ws_res w) (ws_st w)
        (g_buf (se_get_info (get_se k n))) 0xffff (ws_pos w) n) F"
    using h(1,3) idle pos by (simp add: write_record_def Let_def all_ones_16)
  have "pf_cmrpc_perform_one_write env k w n = Option.bind (write_record env k a w n) (\<lambda>(w, n).
        Some (if ws_ret w \<noteq> 0 then w\<lparr>ws_res := (ws_res w)\<lparr>pnio_status := ws_st w\<rparr>\<rparr> else w, n))"
    using assms(1) by (simp add: pf_cmrpc_perform_one_write_def h(2,4))
  then show ?thesis unfolding r Option.bind_assoc by blast
qed

text \<open>
  C32. The check of the length of a written record adds 32-bit numbers that wrap: it accepts a record that
  fits into the message, and also one so long that the sum exceeds 32 bits. Such a record is handed on, with
  the low 16 bits of its length: with the length 0xffffffff the handler of a record of the
  user is told of 65535 bytes, wherever the record lies in the message.
\<close>

theorem write_length_wraps:
  assumes "unat (ws_pos w) \<le> g_len (se_get_info (get_se k n))" and "g_len (se_get_info (get_se k n)) < 2 ^ 16"
  shows "(write_length_ok (get_se k n) w \<longleftrightarrow>
      unat (ws_pos w) + unat (wq_record_data_length (ws_req w)) \<le> g_len (se_get_info (get_se k n)) \<or>
      2 ^ 32 \<le> unat (ws_pos w) + unat (wq_record_data_length (ws_req w))) \<and>
    (0 < unat (ws_pos w) \<and> wq_record_data_length (ws_req w) = 0xffffffff \<and> wq_api (ws_req w) = 0 \<and>
       wq_index (ws_req w) \<le> PF_IDX_USER_MAX \<and> pf_ar_find_by_uuid (wq_ar_uuid (ws_req w)) n = Some a \<longrightarrow>
     (\<exists>f m. pf_cmrpc_perform_one_write env k w n = Option.bind (re_cmwrr_rm_write_ind env a (ws_req w) (ws_res w) (ws_st w)
        (g_buf (se_get_info (get_se k n))) 0xffff (ws_pos w) m) f))"
proof (intro conjI impI)
  show ok: "write_length_ok (get_se k n) w \<longleftrightarrow>
      unat (ws_pos w) + unat (wq_record_data_length (ws_req w)) \<le> g_len (se_get_info (get_se k n)) \<or>
      2 ^ 32 \<le> unat (ws_pos w) + unat (wq_record_data_length (ws_req w))"
    by (rule write_length_sum [OF assms])
  assume h: "0 < unat (ws_pos w) \<and> wq_record_data_length (ws_req w) = 0xffffffff \<and> wq_api (ws_req w) = 0 \<and>
       wq_index (ws_req w) \<le> PF_IDX_USER_MAX \<and> pf_ar_find_by_uuid (wq_ar_uuid (ws_req w)) n = Some a"
  then have "write_length_ok (get_se k n) w" unfolding ok by simp
  with h show "\<exists>f m. pf_cmrpc_perform_one_write env k w n = Option.bind (re_cmwrr_rm_write_ind env a (ws_req w) (ws_res w) (ws_st w)
        (g_buf (se_get_info (get_se k n))) 0xffff (ws_pos w) m) f"
    by (intro long_write_call) simp_all
qed

text \<open>A session with a message of 100 bytes and an AR for the identifier zero.\<close>

definition demo_writing :: "nat rpc_net" where
  "demo_writing = (demo_rpc_net [demo_session\<lparr>se_get_info := zero_get_info\<lparr>g_buf := Some (replicate 100 0), g_len := 100\<rparr>\<rparr>])
     \<lparr>cn_ar := \<lambda>_. zero_conn_ar\<lparr>ca_in_use := True, ca_state := PF_CMDEV_STATE_W_PEIND\<rparr>\<rparr>"

definition demo_long_write :: write_state where
  "demo_long_write = \<lparr>ws_req = zero_write_request\<lparr>wq_record_data_length := 0xffffffff\<rparr>, ws_res = zero_write_result,
     ws_st = no_status, ws_pos = 64, ws_ret = 0\<rparr>"

lemma write_length_wraps_witness:
  "\<exists>f m. pf_cmrpc_perform_one_write demo_rpc_env 0 demo_long_write demo_writing =
     Option.bind (re_cmwrr_rm_write_ind demo_rpc_env 0 (ws_req demo_long_write) zero_write_result no_status
        (Some (replicate 100 0)) 0xffff 64 m) f"
proof -
  have "get_se 0 demo_writing = demo_session\<lparr>se_get_info := zero_get_info\<lparr>g_buf := Some (replicate 100 0), g_len := 100\<rparr>\<rparr>"
    by (simp add: demo_writing_def demo_rpc_net_def demo_rpc_world_def get_se_def)
  moreover have "pf_ar_find_by_uuid zero_uuid demo_writing = Some 0"
    by (simp add: pf_ar_find_by_uuid_def find_index_def demo_writing_def zero_conn_ar_def cleared_ar_param_def
        pf_cmdev_get_state_def PNET_MAX_AR_def)
  ultimately show ?thesis
    using write_length_wraps [of demo_long_write 0 demo_writing 0 demo_rpc_env]
    by (simp add: demo_long_write_def zero_write_request_def PF_IDX_USER_MAX_def)
qed

section \<open>Resending\<close>

text \<open>
  C33. A packet that waits for its answer is sent again when its timer expires, as often as the counter of the
  session says: the packet goes out, the counter goes down by one and no other session and no AR
  changes. If the packet went out whole then a timer is set again, as long as the scheduler has one; if it
  did not, no timer is set and nothing will send it again or give it up. When the counter is used up, the
  AR is aborted.
\<close>

theorem rpc_resend_step:
  assumes "k < length (rw_sessions (rw n))" and "0 \<le> se_socket (get_se k n)" and "timer_ok (rw_sched (rw n))"
    and "take (unat (se_out_buf_send_len (get_se k n))) (se_out_buffer (get_se k n)) = data" and "data \<noteq> []"
    and "re_udp_sendto env (se_socket (get_se k n)) (se_ip_addr (get_se k n)) (se_port (get_se k n)) data (rw_out (rw n)) = (r, v)"
  shows "if se_resend_counter (get_se k n) = 0
     then pf_cmrpc_send_with_timeout env cenv k n =
       give_up env cenv k (upd_se k (\<lambda>x. x\<lparr>se_resend_timeout := pf_scheduler_reset_handle (se_resend_timeout x)\<rparr>) n)
     else \<exists>n'. pf_cmrpc_send_with_timeout env cenv k n = Some n' \<and> rw_out (rw n') = v \<and> cn_ar n' = cn_ar n \<and>
       se_resend_counter (get_se k n') = se_resend_counter (get_se k n) - 1 \<and> (\<forall>j. j \<noteq> k \<longrightarrow> get_se j n' = get_se j n) \<and>
       (pf_scheduler_is_running (se_resend_timeout (get_se k n')) \<longleftrightarrow>
          r = int (length data) \<and> card (dom (pending_timers (rw_sched (rw n)))) < PF_MAX_TIMEOUTS)"
proof (cases "se_resend_counter (get_se k n) = 0")
  case True
  then show ?thesis using assms(1,2) by (simp add: pf_cmrpc_send_with_timeout_def Let_def)
next
  case False
  let ?m = "upd_se k (\<lambda>x. x\<lparr>se_resend_counter := se_resend_counter x - 1\<rparr>)
    (upd_se k (\<lambda>x. x\<lparr>se_resend_timeout := pf_scheduler_reset_handle (se_resend_timeout x)\<rparr>) n)"
  obtain m where m: "m = ?m" by blast
  have g: "get_se k m = (get_se k n)\<lparr>se_resend_timeout := pf_scheduler_reset_handle (se_resend_timeout (get_se k n)),
      se_resend_counter := se_resend_counter (get_se k n) - 1\<rparr>" using assms(1) by (simp add: m)
  have keep: "rw_out (rw m) = rw_out (rw n)" "rw_sched (rw m) = rw_sched (rw n)" "cn_ar m = cn_ar n"
    "j \<noteq> k \<Longrightarrow> get_se j m = get_se j n" "length (rw_sessions (rw m)) = length (rw_sessions (rw n))" for j
    by (simp_all add: m)
  have send: "pf_cmrpc_send_once env k m = (if r = int (length data) then 0 else -1, upd_out (\<lambda>_. v) m)"
    using send_once_result [of k m data env r v] assms(4-6) by (simp add: g keep)
  have c: "pf_cmrpc_send_with_timeout env cenv k n = (if r = int (length data)
      then set_resend_timer k (if se_from_me (get_se k m) then PF_CCONTROL_TIMEOUT * 1000 else PF_FRAG_TIMEOUT * 1000) (upd_out (\<lambda>_. v) m)
      else Some (upd_out (\<lambda>_. v) m))"
    using assms(1,2) False send unfolding m by (simp add: pf_cmrpc_send_with_timeout_def Let_def word_gt_0)
  show ?thesis
  proof (cases "r = int (length data)")
    case True
    from resend_timer_set [where n = "upd_out (\<lambda>_. v) m" and k = k] assms(1,3) keep obtain n' h s where
      n': "set_resend_timer k (if se_from_me (get_se k m) then PF_CCONTROL_TIMEOUT * 1000 else PF_FRAG_TIMEOUT * 1000) (upd_out (\<lambda>_. v) m) = Some n'"
        "n' = upd_se k (\<lambda>x. x\<lparr>se_resend_timeout := h\<rparr>) (upd_rw (\<lambda>w. w\<lparr>rw_sched := s\<rparr>) (upd_out (\<lambda>_. v) m))"
        "pf_scheduler_is_running h \<longleftrightarrow> card (dom (pending_timers (rw_sched (rw n)))) < PF_MAX_TIMEOUTS"
      by (metis upd_out_sched sessions_out)
    have "rw_out (rw n') = v" "cn_ar n' = cn_ar n" "j \<noteq> k \<Longrightarrow> get_se j n' = get_se j n"
      "get_se k n' = (get_se k m)\<lparr>se_resend_timeout := h\<rparr>" for j
      using assms(1) keep by (simp_all add: n'(2) upd_out_def)
    then show ?thesis using False True c n'(1,3) by (simp add: g)
  next
    case wrong: False
    then show ?thesis using False c keep g
      by (simp add: pf_scheduler_is_running_def pf_scheduler_reset_handle_def upd_out_def)
  qed
qed

lemma rpc_resend_step_witness:
  "\<exists>n'. pf_cmrpc_send_with_timeout demo_rpc_env demo_rpc_conn 0
     (demo_rpc_net [demo_session\<lparr>se_out_buf_send_len := 5, se_resend_counter := 3\<rparr>]) = Some n' \<and>
     rw_out (rw n') = 1 \<and> se_resend_counter (get_se 0 n') = 2"
proof -
  let ?n = "demo_rpc_net [demo_session\<lparr>se_out_buf_send_len := 5, se_resend_counter := 3\<rparr>]"
  have "take (unat (se_out_buf_send_len (get_se 0 ?n))) (se_out_buffer (get_se 0 ?n)) = replicate 5 0"
    by (simp add: demo_session_def zero_session_def rpc_size_defs)
  moreover have "rw_out (rw ?n) = 0" by (simp add: demo_rpc_net_def demo_rpc_world_def)
  ultimately show ?thesis
    using rpc_resend_step [of 0 ?n "replicate 5 0" demo_rpc_env 5 1 demo_rpc_conn] demo_rpc_sched_ok
    by (auto simp: demo_rpc_env_def demo_session_def)
qed

end
