(* ===== verification/Dcp_State.thy ===== *)
theory Dcp_State
  imports Codec Cyclic_State Rpc_Parse
begin

unbundle bit_operations_syntax

text \<open>
  The state of CMINA (src/device/pf_cmina.c), which holds the station name and the IP suite of the
  device, and of the discovery and configuration protocol DCP (src/common/pf_dcp.c), which reads and sets
  them over the network. Both keep timers in the scheduler, and DCP works on frame buffers.

  DCP reads the values of the device through pointers into the structure \<open>pf_cmina_dcp_ase_t\<close>, sometimes
  further than the field they point to. So the structure has an image in memory (\<open>ase_bytes\<close>), on a host
  of little endian order with natural alignment, and a pointer into it is the rest of the image.
\<close>

section \<open>Constants\<close>

definition PF_DCP_OPT_IP :: u8 where "PF_DCP_OPT_IP = 1"
definition PF_DCP_OPT_DEVICE_PROPERTIES :: u8 where "PF_DCP_OPT_DEVICE_PROPERTIES = 2"
definition PF_DCP_OPT_DHCP :: u8 where "PF_DCP_OPT_DHCP = 3"
definition PF_DCP_OPT_CONTROL :: u8 where "PF_DCP_OPT_CONTROL = 5"
definition PF_DCP_OPT_DEVICE_INITIATIVE :: u8 where "PF_DCP_OPT_DEVICE_INITIATIVE = 6"
definition PF_DCP_OPT_ALL :: u8 where "PF_DCP_OPT_ALL = 0xff"
definition PF_DCP_SUB_ALL :: u8 where "PF_DCP_SUB_ALL = 0xff"
definition PF_DCP_SUB_IP_MAC :: u8 where "PF_DCP_SUB_IP_MAC = 1"
definition PF_DCP_SUB_IP_PAR :: u8 where "PF_DCP_SUB_IP_PAR = 2"
definition PF_DCP_SUB_IP_SUITE :: u8 where "PF_DCP_SUB_IP_SUITE = 3"
definition PF_DCP_SUB_DEV_PROP_VENDOR :: u8 where "PF_DCP_SUB_DEV_PROP_VENDOR = 1"
definition PF_DCP_SUB_DEV_PROP_NAME :: u8 where "PF_DCP_SUB_DEV_PROP_NAME = 2"
definition PF_DCP_SUB_DEV_PROP_ID :: u8 where "PF_DCP_SUB_DEV_PROP_ID = 3"
definition PF_DCP_SUB_DEV_PROP_ROLE :: u8 where "PF_DCP_SUB_DEV_PROP_ROLE = 4"
definition PF_DCP_SUB_DEV_PROP_OPTIONS :: u8 where "PF_DCP_SUB_DEV_PROP_OPTIONS = 5"
definition PF_DCP_SUB_DEV_PROP_ALIAS :: u8 where "PF_DCP_SUB_DEV_PROP_ALIAS = 6"
definition PF_DCP_SUB_DEV_PROP_INSTANCE :: u8 where "PF_DCP_SUB_DEV_PROP_INSTANCE = 7"
definition PF_DCP_SUB_DEV_PROP_OEM_ID :: u8 where "PF_DCP_SUB_DEV_PROP_OEM_ID = 8"
definition PF_DCP_SUB_DEV_PROP_GATEWAY :: u8 where "PF_DCP_SUB_DEV_PROP_GATEWAY = 9"
definition PF_DCP_SUB_CONTROL_START :: u8 where "PF_DCP_SUB_CONTROL_START = 1"
definition PF_DCP_SUB_CONTROL_STOP :: u8 where "PF_DCP_SUB_CONTROL_STOP = 2"
definition PF_DCP_SUB_CONTROL_SIGNAL :: u8 where "PF_DCP_SUB_CONTROL_SIGNAL = 3"
definition PF_DCP_SUB_CONTROL_RESPONSE :: u8 where "PF_DCP_SUB_CONTROL_RESPONSE = 4"
definition PF_DCP_SUB_CONTROL_FACTORY_RESET :: u8 where "PF_DCP_SUB_CONTROL_FACTORY_RESET = 5"
definition PF_DCP_SUB_CONTROL_RESET_TO_FACTORY :: u8 where "PF_DCP_SUB_CONTROL_RESET_TO_FACTORY = 6"
definition PF_DCP_SUB_DEV_INITIATIVE_SUPPORT :: u8 where "PF_DCP_SUB_DEV_INITIATIVE_SUPPORT = 1"
definition PF_DCP_BLOCK_ERROR_NO_ERROR :: u8 where "PF_DCP_BLOCK_ERROR_NO_ERROR = 0"
definition PF_DCP_BLOCK_ERROR_OPTION_NOT_SUPPORTED :: u8 where "PF_DCP_BLOCK_ERROR_OPTION_NOT_SUPPORTED = 1"
definition PF_DCP_BLOCK_ERROR_SUBOPTION_NOT_SUPPORTED :: u8 where "PF_DCP_BLOCK_ERROR_SUBOPTION_NOT_SUPPORTED = 2"
definition PF_DCP_BLOCK_ERROR_SUBOPTION_NOT_SET :: u8 where "PF_DCP_BLOCK_ERROR_SUBOPTION_NOT_SET = 3"

definition PF_CMINA_FS_HELLO_RETRY :: u16 where "PF_CMINA_FS_HELLO_RETRY = 3"
definition PF_CMINA_FS_HELLO_INTERVAL :: u32 where "PF_CMINA_FS_HELLO_INTERVAL = 3 * 1000"
definition PNET_PORT_NAME_MAX_SIZE :: nat where "PNET_PORT_NAME_MAX_SIZE = 15"
definition PF_ALIAS_NAME_MAX_SIZE :: nat where
  "PF_ALIAS_NAME_MAX_SIZE = PNET_STATION_NAME_MAX_SIZE + PNET_PORT_NAME_MAX_SIZE"
definition PNET_ERROR_CODE_1_ACC_STATE_CONFLICT :: u8 where "PNET_ERROR_CODE_1_ACC_STATE_CONFLICT = 0xb5"
definition PNET_ERROR_CODE_1_ACC_INVALID_PARAMETER :: u8 where "PNET_ERROR_CODE_1_ACC_INVALID_PARAMETER = 0xb8"
definition PNET_ERROR_CODE_2_ABORT_DCP_STATION_NAME_CHANGED :: u8 where
  "PNET_ERROR_CODE_2_ABORT_DCP_STATION_NAME_CHANGED = 0x1f"
definition PNET_ERROR_CODE_2_ABORT_DCP_RESET_TO_FACTORY :: u8 where
  "PNET_ERROR_CODE_2_ABORT_DCP_RESET_TO_FACTORY = 0x20"

lemmas dcp_opts = PF_DCP_OPT_IP_def PF_DCP_OPT_DEVICE_PROPERTIES_def PF_DCP_OPT_DHCP_def PF_DCP_OPT_CONTROL_def
  PF_DCP_OPT_DEVICE_INITIATIVE_def PF_DCP_OPT_ALL_def
lemmas dcp_subs = PF_DCP_SUB_ALL_def PF_DCP_SUB_IP_MAC_def PF_DCP_SUB_IP_PAR_def PF_DCP_SUB_IP_SUITE_def
  PF_DCP_SUB_DEV_PROP_VENDOR_def PF_DCP_SUB_DEV_PROP_NAME_def PF_DCP_SUB_DEV_PROP_ID_def PF_DCP_SUB_DEV_PROP_ROLE_def
  PF_DCP_SUB_DEV_PROP_OPTIONS_def PF_DCP_SUB_DEV_PROP_ALIAS_def PF_DCP_SUB_DEV_PROP_INSTANCE_def
  PF_DCP_SUB_DEV_PROP_OEM_ID_def PF_DCP_SUB_DEV_PROP_GATEWAY_def PF_DCP_SUB_CONTROL_START_def
  PF_DCP_SUB_CONTROL_STOP_def PF_DCP_SUB_CONTROL_SIGNAL_def PF_DCP_SUB_CONTROL_RESPONSE_def
  PF_DCP_SUB_CONTROL_FACTORY_RESET_def PF_DCP_SUB_CONTROL_RESET_TO_FACTORY_def PF_DCP_SUB_DEV_INITIATIVE_SUPPORT_def
lemmas dcp_block_errors = PF_DCP_BLOCK_ERROR_NO_ERROR_def PF_DCP_BLOCK_ERROR_OPTION_NOT_SUPPORTED_def
  PF_DCP_BLOCK_ERROR_SUBOPTION_NOT_SUPPORTED_def PF_DCP_BLOCK_ERROR_SUBOPTION_NOT_SET_def

section \<open>The data of the device\<close>

record pf_ip_suite =
  ip_addr :: u32
  ip_mask :: u32
  ip_gateway :: u32

record pf_full_ip_suite =
  ip_suite :: pf_ip_suite
  dns_addr :: "u32 list"

record pnet_cfg_device_id =
  vendor_id_hi :: u8
  vendor_id_lo :: u8
  device_id_hi :: u8
  device_id_lo :: u8

record pf_cmina_dcp_ase =
  station_name :: "u8 list"
  product_name :: "u8 list"
  device_role :: u8
  device_initiative :: u16
  instance_id_high :: u8
  instance_id_low :: u8
  ase_device_id :: pnet_cfg_device_id
  ase_oem_device_id :: pnet_cfg_device_id
  port_name :: "u8 list"
  mac_address :: "u8 list"
  standard_gw_value :: u16
  dhcp_enable :: bool
  full_ip_suite :: pf_full_ip_suite
  dhcp_hostname :: "u8 list"

definition le32_at :: "nat \<Rightarrow> u8 list \<Rightarrow> u32" where
  "le32_at i xs = ucast (xs ! i) OR push_bit 8 (ucast (xs ! (i + 1))) OR push_bit 16 (ucast (xs ! (i + 2))) OR
     push_bit 24 (ucast (xs ! (i + 3)))"

definition ip_suite_bytes :: "pf_ip_suite \<Rightarrow> u8 list" where
  "ip_suite_bytes s = enc32 False (ip_addr s) @ enc32 False (ip_mask s) @ enc32 False (ip_gateway s)"

definition ip_suite_of :: "u8 list \<Rightarrow> pf_ip_suite" where
  "ip_suite_of xs = \<lparr>ip_addr = le32_at 0 xs, ip_mask = le32_at 4 xs, ip_gateway = le32_at 8 xs\<rparr>"

definition full_ip_suite_bytes :: "pf_full_ip_suite \<Rightarrow> u8 list" where
  "full_ip_suite_bytes f = ip_suite_bytes (ip_suite f) @ concat (map (enc32 False) (dns_addr f))"

definition full_ip_suite_of :: "u8 list \<Rightarrow> pf_full_ip_suite" where
  "full_ip_suite_of xs = \<lparr>ip_suite = ip_suite_of xs, dns_addr = map (\<lambda>i. le32_at (12 + 4 * i) xs) [0..<4]\<rparr>"

definition device_id_bytes :: "pnet_cfg_device_id \<Rightarrow> u8 list" where
  "device_id_bytes d = [vendor_id_hi d, vendor_id_lo d, device_id_hi d, device_id_lo d]"

text \<open>The image of the structure; the padding has no value of its own and is zero here.\<close>

definition ase_bytes :: "pf_cmina_dcp_ase \<Rightarrow> u8 list" where
  "ase_bytes a = station_name a @ product_name a @ [device_role a] @ enc16 False (device_initiative a) @
     [instance_id_high a, instance_id_low a] @ device_id_bytes (ase_device_id a) @ device_id_bytes (ase_oem_device_id a) @
     port_name a @ mac_address a @ [0] @ enc16 False (standard_gw_value a) @ [if dhcp_enable a then 1 else 0, 0, 0, 0] @
     full_ip_suite_bytes (full_ip_suite a) @ dhcp_hostname a @ [0, 0, 0]"

definition ase_ok :: "pf_cmina_dcp_ase \<Rightarrow> bool" where
  "ase_ok a \<longleftrightarrow> length (station_name a) = PNET_STATION_NAME_MAX_SIZE \<and> length (product_name a) = 26 \<and>
     length (port_name a) = PNET_PORT_NAME_MAX_SIZE \<and> length (mac_address a) = 6 \<and>
     length (dns_addr (full_ip_suite a)) = 4 \<and> length (dhcp_hostname a) = 241 \<and>
     0 \<in> set (station_name a) \<and> 0 \<in> set (product_name a)"

definition off_station_name :: nat where "off_station_name = 0"
definition off_product_name :: nat where "off_product_name = 241"
definition off_device_role :: nat where "off_device_role = 267"
definition off_device_initiative :: nat where "off_device_initiative = 268"
definition off_instance_id :: nat where "off_instance_id = 270"
definition off_device_id :: nat where "off_device_id = 272"
definition off_oem_device_id :: nat where "off_oem_device_id = 276"
definition off_mac_address :: nat where "off_mac_address = 295"
definition off_standard_gw_value :: nat where "off_standard_gw_value = 302"
definition off_full_ip_suite :: nat where "off_full_ip_suite = 308"

lemmas ase_offsets = off_station_name_def off_product_name_def off_device_role_def off_device_initiative_def
  off_instance_id_def off_device_id_def off_oem_device_id_def off_mac_address_def off_standard_gw_value_def
  off_full_ip_suite_def

text \<open>A string in memory ends at its first zero byte.\<close>

definition c_str :: "u8 list \<Rightarrow> u8 list" where
  "c_str xs = takeWhile (\<lambda>x. x \<noteq> 0) xs"

definition zero_ip_suite :: pf_ip_suite where
  "zero_ip_suite = \<lparr>ip_addr = 0, ip_mask = 0, ip_gateway = 0\<rparr>"

definition zero_full_ip_suite :: pf_full_ip_suite where
  "zero_full_ip_suite = \<lparr>ip_suite = zero_ip_suite, dns_addr = replicate 4 0\<rparr>"

definition zero_device_id :: pnet_cfg_device_id where
  "zero_device_id = \<lparr>vendor_id_hi = 0, vendor_id_lo = 0, device_id_hi = 0, device_id_lo = 0\<rparr>"

definition zero_ase :: pf_cmina_dcp_ase where
  "zero_ase = \<lparr>station_name = replicate PNET_STATION_NAME_MAX_SIZE 0, product_name = replicate 26 0, device_role = 0,
     device_initiative = 0, instance_id_high = 0, instance_id_low = 0, ase_device_id = zero_device_id,
     ase_oem_device_id = zero_device_id, port_name = replicate PNET_PORT_NAME_MAX_SIZE 0, mac_address = replicate 6 0,
     standard_gw_value = 0, dhcp_enable = False, full_ip_suite = zero_full_ip_suite, dhcp_hostname = replicate 241 0\<rparr>"

section \<open>The stack instance\<close>

datatype pf_cmina_state = PF_CMINA_STATE_SETUP | PF_CMINA_STATE_SET_NAME | PF_CMINA_STATE_SET_IP | PF_CMINA_STATE_W_CONNECT

datatype dcp_cb = Pf_cmina_send_hello | Pf_dcp_responder | Pf_dcp_clear_sam | Pf_dcp_control_signal_led
datatype dcp_arg = No_arg | Buf_arg nat | Led_arg u32
datatype dcp_frame_cb = Pf_dcp_hello_ind | Pf_dcp_get_set | Pf_dcp_identify_req

text \<open>The configuration of the device, as far as it is used here.\<close>

record dcp_cfg =
  cfg_send_hello :: bool
  cfg_device_id :: pnet_cfg_device_id
  cfg_oem_device_id :: pnet_cfg_device_id
  cfg_dhcp_enable :: bool
  cfg_ip :: pf_ip_suite
  cfg_station_name :: "u8 list"
  cfg_product_name :: "u8 list"

record 'w dcp_net =
  dn_sched :: "(dcp_cb, dcp_arg) sched"
  dn_now :: u32
  dn_id_map :: "(dcp_frame_cb, unit) eth_id_map"
  dn_bufs :: "nat \<rightharpoonup> pnal_buf"
  dn_next_buf :: nat
  fspm_cfg :: dcp_cfg
  main_port_mac :: "u8 list"
  cmina_nonvolatile :: pf_cmina_dcp_ase
  cmina_current :: pf_cmina_dcp_ase
  cmina_state :: pf_cmina_state
  cmina_error_decode :: u8
  cmina_error_code_1 :: u8
  cmina_hello_count :: u16
  cmina_hello_timeout :: sched_handle
  cmina_commit_ip_suite :: bool
  dcp_global_block_qualifier :: u16
  dcp_sam :: "u8 list"
  dcp_delayed_response_waiting :: bool
  dcp_led_timeout :: sched_handle
  dcp_sam_timeout :: sched_handle
  dcp_identresp_timeout :: sched_handle
  dn_world :: 'w

type_synonym 'w dcmd = "'w dcp_net \<Rightarrow> 'w dcp_net option"
type_synonym ('w, 'a) dfn = "'w dcp_net \<Rightarrow> ('a \<times> 'w dcp_net) option"

text \<open>
  What CMINA and DCP call: the network driver, files and the background worker, the other data that a reset
  clears, the callbacks of the application, the ARs, and LLDP.
\<close>

record 'w dcp_env =
  de_alloc :: "'w \<Rightarrow> bool"
  de_eth_send :: "u8 list \<Rightarrow> 'w \<Rightarrow> int \<times> 'w"
  de_set_ip_suite :: "pf_ip_suite \<Rightarrow> u8 list \<Rightarrow> bool \<Rightarrow> 'w \<Rightarrow> 'w"
  de_file_load_ip :: "'w \<Rightarrow> pf_cmina_dcp_ase option"
  de_file_save_ip :: "pf_cmina_dcp_ase \<Rightarrow> 'w \<Rightarrow> 'w"
  de_save_job :: "'w \<Rightarrow> 'w"
  de_file_clear_ip :: "'w \<Rightarrow> 'w"
  de_file_clear_diagnostics :: "'w \<Rightarrow> 'w"
  de_clear_im_data :: "'w \<Rightarrow> 'w"
  de_pdport_reset_all :: "'w \<Rightarrow> 'w"
  de_reset_ind :: "bool \<Rightarrow> u16 \<Rightarrow> 'w \<Rightarrow> 'w"
  de_signal_led :: "bool \<Rightarrow> 'w \<Rightarrow> 'w"
  de_ar_in_use :: "nat \<Rightarrow> 'w \<Rightarrow> bool"
  de_abort_ar :: "nat \<Rightarrow> u8 \<Rightarrow> u8 \<Rightarrow> 'w dcmd"
  de_alias_matching :: "u8 list \<Rightarrow> 'w \<Rightarrow> bool"
  de_lldp_restart :: "'w dcmd"

definition world :: "('w \<Rightarrow> 'w) \<Rightarrow> 'w dcp_net \<Rightarrow> 'w dcp_net" where
  "world f n = n\<lparr>dn_world := f (dn_world n)\<rparr>"

definition upd_current :: "(pf_cmina_dcp_ase \<Rightarrow> pf_cmina_dcp_ase) \<Rightarrow> 'w dcp_net \<Rightarrow> 'w dcp_net" where
  "upd_current f n = n\<lparr>cmina_current := f (cmina_current n)\<rparr>"

definition upd_nonvolatile :: "(pf_cmina_dcp_ase \<Rightarrow> pf_cmina_dcp_ase) \<Rightarrow> 'w dcp_net \<Rightarrow> 'w dcp_net" where
  "upd_nonvolatile f n = n\<lparr>cmina_nonvolatile := f (cmina_nonvolatile n)\<rparr>"

definition set_full :: "pf_full_ip_suite \<Rightarrow> pf_cmina_dcp_ase \<Rightarrow> pf_cmina_dcp_ase" where
  "set_full f a = a\<lparr>full_ip_suite := f\<rparr>"

definition set_suite :: "pf_ip_suite \<Rightarrow> pf_cmina_dcp_ase \<Rightarrow> pf_cmina_dcp_ase" where
  "set_suite s a = a\<lparr>full_ip_suite := (full_ip_suite a)\<lparr>ip_suite := s\<rparr>\<rparr>"

definition suite_of :: "pf_cmina_dcp_ase \<Rightarrow> pf_ip_suite" where
  "suite_of a = ip_suite (full_ip_suite a)"

text \<open>Buffers, as in the cyclic machines.\<close>

definition dcp_buf_alloc :: "'w dcp_env \<Rightarrow> nat \<Rightarrow> 'w dcp_net \<Rightarrow> nat option \<times> 'w dcp_net" where
  "dcp_buf_alloc env sz n = (if de_alloc env (dn_world n)
     then (Some (dn_next_buf n), n\<lparr>dn_bufs := (dn_bufs n)(dn_next_buf n \<mapsto> \<lparr>b_len = of_nat sz, b_payload = replicate sz 0\<rparr>),
        dn_next_buf := dn_next_buf n + 1\<rparr>)
     else (None, n))"

definition dcp_buf_free :: "nat \<Rightarrow> 'w dcmd" where
  "dcp_buf_free b n = (if dn_bufs n b = None then None else Some (n\<lparr>dn_bufs := (dn_bufs n)(b := None)\<rparr>))"

definition dcp_buf_store :: "nat \<Rightarrow> u8 list \<Rightarrow> nat \<Rightarrow> 'w dcp_net \<Rightarrow> 'w dcp_net" where
  "dcp_buf_store b xs len n = n\<lparr>dn_bufs := (dn_bufs n)(b \<mapsto> \<lparr>b_len = of_nat len, b_payload = xs\<rparr>)\<rparr>"

definition dcp_eth_send :: "'w dcp_env \<Rightarrow> nat \<Rightarrow> 'w dcmd" where
  "dcp_eth_send env b n = do {
     p \<leftarrow> dn_bufs n b;
     Some (world (\<lambda>w. snd (de_eth_send env (take (unat (b_len p)) (b_payload p)) w)) n)
   }"

text \<open>Timers: the handle is a field of the instance.\<close>

definition dcp_add ::
    "u32 \<Rightarrow> dcp_cb \<Rightarrow> dcp_arg \<Rightarrow> ('w dcp_net \<Rightarrow> sched_handle) \<Rightarrow> (sched_handle \<Rightarrow> 'w dcp_net \<Rightarrow> 'w dcp_net) \<Rightarrow> ('w, int) dfn" where
  "dcp_add d cb arg get put n = do {
     (r, h, s) \<leftarrow> pf_scheduler_add (dn_now n) d cb arg (get n) (dn_sched n);
     Some (r, put h (n\<lparr>dn_sched := s\<rparr>))
   }"

end
