(* ===== verification/Cmina.thy ===== *)
theory Cmina
  imports Dcp_State
begin

unbundle bit_operations_syntax

text \<open>
  CMINA (src/device/pf_cmina.c): the station name and the IP suite of the device, the checks of new
  values, and the state machine that a DCP request to set a value runs through. The functions that only
  print are left out, and the sending of HELLO messages is in the theory of DCP.
\<close>

section \<open>Checks of incoming data\<close>

definition is_digit_char :: "u8 \<Rightarrow> bool" where
  "is_digit_char c \<longleftrightarrow> 48 \<le> c \<and> c \<le> 57"

definition is_lower_char :: "u8 \<Rightarrow> bool" where
  "is_lower_char c \<longleftrightarrow> 97 \<le> c \<and> c \<le> 122"

definition dash :: u8 where "dash = 45"
definition dot :: u8 where "dot = 46"

text \<open>
  The walk over the characters of a name: the previous character, the place in the label, the number of
  labels and of characters that are no digits. The counters stay below the length of a name.
\<close>

fun name_loop :: "u8 list \<Rightarrow> u8 \<Rightarrow> nat \<Rightarrow> nat \<Rightarrow> nat \<Rightarrow> (u8 \<times> nat \<times> nat) option" where
  "name_loop [] prev label_offset n_labels n_non_digit = Some (prev, n_labels, n_non_digit)"
| "name_loop (c # cs) prev label_offset n_labels n_non_digit =
     (if c = dot then
        (if prev = dash then None else name_loop cs c 0 (n_labels + 1) n_non_digit)
      else if \<not> (is_lower_char c \<or> is_digit_char c \<or> c = dash) then None
      else if label_offset = 0 \<and> c = dash then None
      else if label_offset \<ge> 63 then None
      else name_loop cs c (label_offset + 1) n_labels (if is_digit_char c then n_non_digit else n_non_digit + 1))"

definition port_prefix :: "u8 list" where
  "port_prefix = [112, 111, 114, 116, 45]"

definition port_name_form :: "u8 list \<Rightarrow> bool" where
  "port_name_form xs \<longleftrightarrow> take 5 xs = port_prefix \<and> length xs \<in> {8, 14} \<and>
     (\<forall>c \<in> set (drop 5 xs). is_digit_char c \<or> c = dash)"

definition pf_cmina_is_stationname_valid :: "u8 list \<Rightarrow> bool" where
  "pf_cmina_is_stationname_valid xs \<longleftrightarrow>
     (if length xs = 0 then True
      else if xs ! 0 = dash \<or> length xs \<ge> PNET_STATION_NAME_MAX_SIZE then False
      else if port_name_form xs then False
      else case name_loop xs 97 0 1 0 of
          None \<Rightarrow> False
        | Some (prev, n_labels, n_non_digit) \<Rightarrow> \<not> (n_labels = 4 \<and> n_non_digit = 0) \<and> prev \<noteq> dash)"

definition pf_cmina_is_netmask_valid :: "u32 \<Rightarrow> bool" where
  "pf_cmina_is_netmask_valid netmask \<longleftrightarrow> netmask AND drop_bit 1 (NOT netmask) = 0"

definition pf_cmina_is_ipaddress_valid :: "u32 \<Rightarrow> u32 \<Rightarrow> bool" where
  "pf_cmina_is_ipaddress_valid netmask ip \<longleftrightarrow>
     (let host_part = ip AND NOT netmask in
      if netmask = 0 \<and> ip = 0 then True
      else if \<not> pf_cmina_is_netmask_valid netmask then False
      else if host_part = 0 \<or> host_part = NOT netmask then False
      else if ip \<le> 0x00ffffff then False
      else if ip \<ge> 0x7f000000 \<and> ip \<le> 0x7fffffff then False
      else if ip \<ge> 0xe0000000 \<and> ip \<le> 0xefffffff then False
      else if ip \<ge> 0xf0000000 \<and> ip \<le> 0xffffffff then False
      else True)"

definition pf_cmina_is_gateway_valid :: "u32 \<Rightarrow> u32 \<Rightarrow> u32 \<Rightarrow> bool" where
  "pf_cmina_is_gateway_valid ip netmask gateway \<longleftrightarrow>
     \<not> (gateway \<noteq> 0 \<and> ip AND netmask \<noteq> gateway AND netmask)"

definition pf_cmina_is_ipsuite_valid :: "pf_ip_suite \<Rightarrow> bool" where
  "pf_cmina_is_ipsuite_valid s \<longleftrightarrow>
     (if \<not> pf_cmina_is_netmask_valid (ip_mask s) then False
      else if \<not> pf_cmina_is_ipaddress_valid (ip_mask s) (ip_addr s) then False
      else if \<not> pf_cmina_is_gateway_valid (ip_addr s) (ip_mask s) (ip_gateway s) then False
      else True)"

definition pf_cmina_is_full_ipsuite_valid :: "pf_full_ip_suite \<Rightarrow> bool" where
  "pf_cmina_is_full_ipsuite_valid f \<longleftrightarrow> pf_cmina_is_ipsuite_valid (ip_suite f)"

section \<open>Default values and resets\<close>

text \<open>The loop that is to remove trailing spaces starts at the terminator.\<close>

fun trim_from :: "nat \<Rightarrow> u8 list \<Rightarrow> nat" where
  "trim_from ix xs = (if ix > 1 \<and> xs ! ix = 32 then trim_from (ix - 1) xs else ix)"

declare trim_from.simps [simp del]

text \<open>A string is copied into a field of a size, and terminated at its end.\<close>

definition copy_str :: "nat \<Rightarrow> u8 list \<Rightarrow> u8 list" where
  "copy_str sz xs = (let s = take sz (c_str xs) in (s @ replicate (sz - length s) 0)[sz - 1 := 0])"

definition copied_product_name :: "u8 list \<Rightarrow> u8 list" where
  "copied_product_name src = (let name = copy_str 26 src in name[trim_from (length (c_str name)) name := 0])"

definition default_fields :: "dcp_cfg \<Rightarrow> u8 list \<Rightarrow> pf_cmina_dcp_ase \<Rightarrow> pf_cmina_dcp_ase" where
  "default_fields c mac a = a\<lparr>device_initiative := if cfg_send_hello c then 1 else 0, device_role := 1,
     mac_address := mac, port_name := 0 # tl (port_name a), ase_device_id := cfg_device_id c,
     ase_oem_device_id := cfg_oem_device_id c, dhcp_enable := cfg_dhcp_enable c\<rparr>"

definition power_on_fields :: "dcp_cfg \<Rightarrow> pf_cmina_dcp_ase option \<Rightarrow> pf_cmina_dcp_ase \<Rightarrow> pf_cmina_dcp_ase" where
  "power_on_fields c file a = (case file of
       Some f \<Rightarrow> set_suite (suite_of f) (a\<lparr>station_name := (station_name f)[PNET_STATION_NAME_MAX_SIZE - 1 := 0]\<rparr>)
     | None \<Rightarrow> set_suite (cfg_ip c) (a\<lparr>station_name := (cfg_station_name c)[PNET_STATION_NAME_MAX_SIZE - 1 := 0]\<rparr>))"

definition reset_communication :: "'w dcp_env \<Rightarrow> 'w dcp_net \<Rightarrow> 'w dcp_net" where
  "reset_communication env n = world (de_pdport_reset_all env) (world (de_file_clear_diagnostics env)
     (world (de_file_clear_ip env) (upd_nonvolatile (\<lambda>a. (set_suite zero_ip_suite a)
        \<lparr>station_name := replicate PNET_STATION_NAME_MAX_SIZE 0\<rparr>) n)))"

definition pf_cmina_set_default_cfg :: "'w dcp_env \<Rightarrow> u16 \<Rightarrow> 'w dcp_net \<Rightarrow> int \<times> 'w dcp_net" where
  "pf_cmina_set_default_cfg env reset_mode n =
     (let c = fspm_cfg n;
          n = upd_nonvolatile (default_fields c (main_port_mac n)) n;
          n = (if reset_mode = 0 then upd_nonvolatile (power_on_fields c (de_file_load_ip env (dn_world n))) n else n);
          reset_user_application = (reset_mode = 1 \<or> reset_mode \<ge> 3);
          n = (if reset_user_application then world (de_clear_im_data env) n else n);
          n = (if reset_mode = 2 \<or> reset_mode \<ge> 3 then reset_communication env n else n);
          n = (if reset_mode > 0 then world (de_reset_ind env reset_user_application reset_mode) n else n);
          n = upd_nonvolatile (\<lambda>a. a\<lparr>standard_gw_value := 0, instance_id_high := 0, instance_id_low := 0,
                product_name := copied_product_name (cfg_product_name c)\<rparr>) n;
          n = world (de_save_job env) n
      in (0, n\<lparr>cmina_current := cmina_nonvolatile n\<rparr>))"

text \<open>A job of the background worker. The copy that is taken under the mutex is used for the log only.\<close>

definition pf_cmina_save_ase :: "'w dcp_env \<Rightarrow> 'w dcp_net \<Rightarrow> 'w dcp_net" where
  "pf_cmina_save_ase env n = world (de_file_save_ip env (cmina_nonvolatile n)) n"

definition pf_cmina_dcp_set_commit :: "'w dcp_env \<Rightarrow> 'w dcp_net \<Rightarrow> 'w dcp_net" where
  "pf_cmina_dcp_set_commit env n =
     (if \<not> cmina_commit_ip_suite n then n
      else (let cur = cmina_current n; nv = cmina_nonvolatile n;
                permanent = (if suite_of cur \<noteq> suite_of nv then False
                             else if c_str (station_name cur) \<noteq> c_str (station_name nv) then False else True)
            in world (de_set_ip_suite env (suite_of cur) (c_str (station_name cur)) permanent)
                 (n\<lparr>cmina_commit_ip_suite := False\<rparr>)))"

definition hello_name :: str_ptr where "hello_name = 6"

definition has_ip :: "pf_cmina_dcp_ase \<Rightarrow> bool" where
  "has_ip a \<longleftrightarrow> ip_addr (suite_of a) \<noteq> 0 \<or> ip_mask (suite_of a) \<noteq> 0 \<or> ip_gateway (suite_of a) \<noteq> 0"

definition has_name :: "pf_cmina_dcp_ase \<Rightarrow> bool" where
  "has_name a \<longleftrightarrow> length (c_str (station_name a)) > 0"

definition start_hello :: "'w dcmd" where
  "start_hello n = map_option snd (dcp_add 0 Pf_cmina_send_hello No_arg cmina_hello_timeout
     (\<lambda>h n. n\<lparr>cmina_hello_timeout := h\<rparr>) (n\<lparr>cmina_hello_count := PF_CMINA_FS_HELLO_RETRY\<rparr>))"

definition pf_cmina_init :: "'w dcp_env \<Rightarrow> ('w, int) dfn" where
  "pf_cmina_init env n =
     (let n = n\<lparr>cmina_hello_count := 0, cmina_hello_timeout := pf_scheduler_init_handle (cmina_hello_timeout n) hello_name,
            cmina_error_decode := 0, cmina_error_code_1 := 0, cmina_commit_ip_suite := False,
            cmina_state := PF_CMINA_STATE_SETUP, cmina_nonvolatile := zero_ase\<rparr>;
          n = snd (pf_cmina_set_default_cfg env 0 n);
          cur = cmina_current n
      in do {
        n \<leftarrow> (if \<not> has_name cur then
                Some (n\<lparr>cmina_commit_ip_suite := cmina_commit_ip_suite n \<or> \<not> (dhcp_enable cur),
                  cmina_state := PF_CMINA_STATE_SET_NAME\<rparr>)
              else if \<not> has_ip cur then
                Some (n\<lparr>cmina_commit_ip_suite := cmina_commit_ip_suite n \<or> \<not> (dhcp_enable cur),
                  cmina_state := PF_CMINA_STATE_SET_IP\<rparr>)
              else do {
                let n = n\<lparr>cmina_commit_ip_suite := True\<rparr>;
                n \<leftarrow> (if device_initiative cur = 1 then start_hello n else Some n);
                Some (n\<lparr>cmina_state := PF_CMINA_STATE_W_CONNECT\<rparr>)
              });
        Some (0, pf_cmina_dcp_set_commit env n)
      })"

section \<open>Active ARs\<close>

fun abort_ars :: "'w dcp_env \<Rightarrow> u8 \<Rightarrow> nat list \<Rightarrow> ('w, int) dfn" where
  "abort_ars env err [] n = Some (0, n)"
| "abort_ars env err (a # as) n =
     (if de_ar_in_use env a (dn_world n) then do {
        n \<leftarrow> de_abort_ar env a PNET_ERROR_CODE_1_RTA_ERR_CLS_PROTOCOL err n;
        (k, n) \<leftarrow> abort_ars env err as n;
        Some (k + 1, n)
      } else abort_ars env err as n)"

definition pf_cmina_abort_active_ars :: "'w dcp_env \<Rightarrow> u8 \<Rightarrow> ('w, int) dfn" where
  "pf_cmina_abort_active_ars env err = abort_ars env err [0..<PNET_MAX_AR]"

definition pf_cmina_nbr_of_active_ars :: "'w dcp_env \<Rightarrow> 'w dcp_net \<Rightarrow> int" where
  "pf_cmina_nbr_of_active_ars env n = int (length (filter (\<lambda>a. de_ar_in_use env a (dn_world n)) [0..<PNET_MAX_AR]))"

section \<open>Setting a value\<close>

text \<open>What the first part of the request finds out: the result so far, and what changes.\<close>

record set_work =
  sw_ret :: int
  sw_error :: u8
  sw_change_ip :: bool
  sw_change_name :: bool
  sw_reset :: bool
  sw_reset_mode :: u16

definition not_set :: "u8 \<Rightarrow> set_work" where
  "not_set e = \<lparr>sw_ret = -1, sw_error = e, sw_change_ip = False, sw_change_name = False, sw_reset = False, sw_reset_mode = 0\<rparr>"

definition is_temporary :: "u16 \<Rightarrow> bool" where
  "is_temporary block_qualifier \<longleftrightarrow> block_qualifier AND 1 = 0"

text \<open>A pointer to the new value is the memory from there on; a suite comes in the byte order of the host.\<close>

definition set_ip_par :: "bool \<Rightarrow> u16 \<Rightarrow> u8 list \<Rightarrow> u8 \<Rightarrow> ('w, set_work) dfn" where
  "set_ip_par temp value_length p_value err n =
     (if unat value_length \<noteq> 12 then Some (not_set PF_DCP_BLOCK_ERROR_SUBOPTION_NOT_SET, n)
      else do {
        v \<leftarrow> peek 0 12 p_value;
        (if pf_cmina_is_ipsuite_valid (ip_suite_of v) then
           (let change = (ip_suite_bytes (suite_of (cmina_current n)) \<noteq> v);
                n = upd_current (set_suite (ip_suite_of v)) n;
                n = upd_nonvolatile (set_suite (if temp then zero_ip_suite else suite_of (cmina_current n))) n
            in Some ((not_set err)\<lparr>sw_ret := 0, sw_change_ip := change\<rparr>, n))
         else Some (not_set PF_DCP_BLOCK_ERROR_SUBOPTION_NOT_SET, n))
      })"

definition set_ip_suite :: "bool \<Rightarrow> u16 \<Rightarrow> u8 list \<Rightarrow> u8 \<Rightarrow> ('w, set_work) dfn" where
  "set_ip_suite temp value_length p_value err n =
     (if unat value_length \<ge> 28 then Some (not_set PF_DCP_BLOCK_ERROR_SUBOPTION_NOT_SET, n)
      else do {
        v \<leftarrow> peek 0 12 p_value;
        (if pf_cmina_is_ipsuite_valid (ip_suite_of v) then do {
           new \<leftarrow> peek 0 (unat value_length) p_value;
           let old = full_ip_suite_bytes (full_ip_suite (cmina_current n));
           let change = (take (unat value_length) old \<noteq> new);
           let n = upd_current (set_full (full_ip_suite_of (new @ drop (unat value_length) old))) n;
           let n = upd_nonvolatile (set_full (if temp then zero_full_ip_suite else full_ip_suite (cmina_current n))) n;
           Some ((not_set err)\<lparr>sw_ret := 0, sw_change_ip := change\<rparr>, n)
         }
         else Some (not_set PF_DCP_BLOCK_ERROR_SUBOPTION_NOT_SET, n))
      })"

text \<open>The rest of an old name that was longer stays behind the terminator.\<close>

definition set_station_name :: "bool \<Rightarrow> u16 \<Rightarrow> u8 list \<Rightarrow> u8 \<Rightarrow> ('w, set_work) dfn" where
  "set_station_name temp value_length p_value err n =
     (if unat value_length \<ge> PNET_STATION_NAME_MAX_SIZE then Some (not_set PF_DCP_BLOCK_ERROR_SUBOPTION_NOT_SET, n)
      else do {
        v \<leftarrow> peek 0 (unat value_length) p_value;
        (if pf_cmina_is_stationname_valid v then
           (let old = station_name (cmina_current n);
                change = (take (length v) (c_str old) \<noteq> v \<or> length (c_str old) \<noteq> length v);
                n = upd_current (\<lambda>a. a\<lparr>station_name := write_at 0 (v @ [0]) (station_name a)\<rparr>) n;
                n = upd_nonvolatile (\<lambda>a. a\<lparr>station_name :=
                      if temp then replicate PNET_STATION_NAME_MAX_SIZE 0 else write_at 0 (v @ [0]) (station_name a)\<rparr>) n
            in Some ((not_set err)\<lparr>sw_ret := 0, sw_change_name := change\<rparr>, n))
         else Some (not_set PF_DCP_BLOCK_ERROR_SUBOPTION_NOT_SET, n))
      })"

definition set_control :: "u8 \<Rightarrow> u16 \<Rightarrow> u8 \<Rightarrow> set_work" where
  "set_control sub block_qualifier err =
     (if sub = PF_DCP_SUB_CONTROL_FACTORY_RESET then (not_set err)\<lparr>sw_ret := 0, sw_reset := True, sw_reset_mode := 99\<rparr>
      else if sub = PF_DCP_SUB_CONTROL_RESET_TO_FACTORY then
        (not_set err)\<lparr>sw_ret := 0, sw_reset := True, sw_reset_mode := drop_bit 1 block_qualifier\<rparr>
      else not_set err)"

definition set_value :: "u8 \<Rightarrow> u8 \<Rightarrow> u16 \<Rightarrow> u16 \<Rightarrow> u8 list \<Rightarrow> u8 \<Rightarrow> ('w, set_work) dfn" where
  "set_value opt sub block_qualifier value_length p_value err n =
     (let temp = is_temporary block_qualifier in
      if opt = PF_DCP_OPT_IP then
        (if sub = PF_DCP_SUB_IP_PAR then set_ip_par temp value_length p_value err n
         else if sub = PF_DCP_SUB_IP_SUITE then set_ip_suite temp value_length p_value err n
         else Some (not_set PF_DCP_BLOCK_ERROR_SUBOPTION_NOT_SUPPORTED, n))
      else if opt = PF_DCP_OPT_DEVICE_PROPERTIES then
        (if sub = PF_DCP_SUB_DEV_PROP_NAME then set_station_name temp value_length p_value err n
         else Some (not_set PF_DCP_BLOCK_ERROR_SUBOPTION_NOT_SUPPORTED, n))
      else if opt = PF_DCP_OPT_CONTROL then Some (set_control sub block_qualifier err, n)
      else Some (not_set PF_DCP_BLOCK_ERROR_OPTION_NOT_SUPPORTED, n))"

definition cmina_error :: "u8 \<Rightarrow> 'w dcp_net \<Rightarrow> 'w dcp_net" where
  "cmina_error code n = n\<lparr>cmina_error_decode := PNET_ERROR_DECODE_PNIORW, cmina_error_code_1 := code\<rparr>"

text \<open>DHCP is not supported: a request for it fails before this part.\<close>

definition set_wait_connect :: "'w dcp_env \<Rightarrow> set_work \<Rightarrow> ('w, int) dfn" where
  "set_wait_connect env s n =
     (let have_name = has_name (cmina_current n); have_ip = has_ip (cmina_current n) in
      if \<not> sw_change_name s \<and> \<not> sw_change_ip s \<and> \<not> sw_reset s then Some (0, n)
      else if \<not> have_name \<or> sw_reset s then
        map_option (\<lambda>(_, n). (0, n)) (pf_cmina_abort_active_ars env (if sw_reset s
          then PNET_ERROR_CODE_2_ABORT_DCP_RESET_TO_FACTORY else PNET_ERROR_CODE_2_ABORT_DCP_STATION_NAME_CHANGED) n)
      else if (have_name \<and> sw_change_name s) \<or> \<not> have_ip then do {
        (aborted, n) \<leftarrow> pf_cmina_abort_active_ars env PNET_ERROR_CODE_2_ABORT_DCP_STATION_NAME_CHANGED n;
        let n = (if aborted \<le> 0 then n\<lparr>cmina_commit_ip_suite := True\<rparr> else n);
        Some (0, n\<lparr>cmina_state := PF_CMINA_STATE_SET_IP\<rparr>)
      }
      else if have_ip \<and> sw_change_ip s then
        (if pf_cmina_nbr_of_active_ars env n = 0 then Some (0, n\<lparr>cmina_commit_ip_suite := True\<rparr>)
         else Some (-1, cmina_error PNET_ERROR_CODE_1_ACC_INVALID_PARAMETER n))
      else Some (-1, cmina_error PNET_ERROR_CODE_1_ACC_INVALID_PARAMETER n))"

definition set_before_connect :: "set_work \<Rightarrow> 'w dcp_net \<Rightarrow> 'w dcp_net" where
  "set_before_connect s n =
     (let have_name = has_name (cmina_current n); have_ip = has_ip (cmina_current n) in
      if sw_change_name s \<or> sw_change_ip s then
        (if have_name \<and> have_ip then n\<lparr>cmina_commit_ip_suite := True, cmina_state := PF_CMINA_STATE_W_CONNECT\<rparr>
         else if \<not> have_name then n\<lparr>cmina_state := PF_CMINA_STATE_SET_NAME\<rparr>
         else n\<lparr>cmina_state := PF_CMINA_STATE_SET_IP\<rparr>)
      else n)"

definition set_evaluate :: "'w dcp_env \<Rightarrow> set_work \<Rightarrow> ('w, int) dfn" where
  "set_evaluate env s n = (case cmina_state n of
       PF_CMINA_STATE_SETUP \<Rightarrow> Some (-1, cmina_error PNET_ERROR_CODE_1_ACC_STATE_CONFLICT n)
     | PF_CMINA_STATE_SET_NAME \<Rightarrow> Some (0, set_before_connect s n)
     | PF_CMINA_STATE_SET_IP \<Rightarrow> Some (0, set_before_connect s n)
     | PF_CMINA_STATE_W_CONNECT \<Rightarrow> set_wait_connect env s n)"

text \<open>What the device has is looked up before the evaluation, and only for a value that was set.\<close>

definition pf_cmina_dcp_set_ind ::
    "'w dcp_env \<Rightarrow> u8 \<Rightarrow> u8 \<Rightarrow> u16 \<Rightarrow> u16 \<Rightarrow> u8 list \<Rightarrow> u8 \<Rightarrow> ('w, int \<times> u8) dfn" where
  "pf_cmina_dcp_set_ind env opt sub block_qualifier value_length p_value err n = do {
     (h, s) \<leftarrow> pf_scheduler_remove_if_running (cmina_hello_timeout n) (dn_sched n);
     let n = n\<lparr>cmina_hello_timeout := h, dn_sched := s\<rparr>;
     (s, n) \<leftarrow> set_value opt sub block_qualifier value_length p_value err n;
     let n = (if sw_ret s = 0 then world (de_save_job env) n else n);
     let complete = (sw_ret s = 0 \<and> has_name (cmina_current n) \<and> has_ip (cmina_current n));
     (ret, n) \<leftarrow> (if sw_ret s = 0 then set_evaluate env s n else Some (sw_ret s, n));
     let n = (if (cmina_state n = PF_CMINA_STATE_SET_IP \<or> cmina_state n = PF_CMINA_STATE_SET_NAME) \<and> complete
              then n\<lparr>cmina_state := PF_CMINA_STATE_W_CONNECT\<rparr> else n);
     (if sw_reset s then let (ret, n) = pf_cmina_set_default_cfg env (sw_reset_mode s) n in Some ((ret, sw_error s), n)
      else Some ((ret, sw_error s), n))
   }"

section \<open>Getting a value\<close>

text \<open>The result, the length and the place of the value, and the error; what is not set stays as it was.\<close>

record get_value =
  gv_ret :: int
  gv_length :: u16
  gv_value :: "u8 list option"
  gv_error :: u8

definition found_value :: "nat \<Rightarrow> nat \<Rightarrow> pf_cmina_dcp_ase \<Rightarrow> get_value" where
  "found_value len off a = \<lparr>gv_ret = 0, gv_length = of_nat len, gv_value = Some (drop off (ase_bytes a)),
     gv_error = PF_DCP_BLOCK_ERROR_NO_ERROR\<rparr>"

definition pf_cmina_dcp_get_req :: "u8 \<Rightarrow> u8 \<Rightarrow> u16 \<Rightarrow> u8 list option \<Rightarrow> 'w dcp_net \<Rightarrow> get_value" where
  "pf_cmina_dcp_get_req opt sub value_length p_value n =
     (let a = cmina_current n;
          fail = (\<lambda>e. \<lparr>gv_ret = -1, gv_length = value_length, gv_value = p_value, gv_error = e\<rparr>)
      in if opt = PF_DCP_OPT_ALL then
           \<lparr>gv_ret = 0, gv_length = value_length, gv_value = p_value, gv_error = PF_DCP_BLOCK_ERROR_NO_ERROR\<rparr>
         else if opt = PF_DCP_OPT_IP then
           (if sub = PF_DCP_SUB_IP_MAC then found_value 6 off_mac_address a
            else if sub = PF_DCP_SUB_IP_PAR then found_value 12 off_full_ip_suite a
            else if sub = PF_DCP_SUB_IP_SUITE then found_value 28 off_full_ip_suite a
            else fail PF_DCP_BLOCK_ERROR_SUBOPTION_NOT_SUPPORTED)
         else if opt = PF_DCP_OPT_DEVICE_PROPERTIES then
           (if sub = PF_DCP_SUB_DEV_PROP_VENDOR then found_value 25 off_product_name a
            else if sub = PF_DCP_SUB_DEV_PROP_NAME then found_value PNET_STATION_NAME_MAX_SIZE off_station_name a
            else if sub = PF_DCP_SUB_DEV_PROP_ID then found_value 4 off_device_id a
            else if sub = PF_DCP_SUB_DEV_PROP_ROLE then found_value 1 off_device_role a
            else if sub = PF_DCP_SUB_DEV_PROP_INSTANCE then found_value 2 off_instance_id a
            else if sub = PF_DCP_SUB_DEV_PROP_OEM_ID then found_value 4 off_oem_device_id a
            else if sub = PF_DCP_SUB_DEV_PROP_GATEWAY then found_value 2 off_standard_gw_value a
            else fail PF_DCP_BLOCK_ERROR_SUBOPTION_NOT_SUPPORTED)
         else if opt = PF_DCP_OPT_DHCP then fail PF_DCP_BLOCK_ERROR_SUBOPTION_NOT_SUPPORTED
         else if opt = PF_DCP_OPT_CONTROL then fail PF_DCP_BLOCK_ERROR_OPTION_NOT_SUPPORTED
         else if opt = PF_DCP_OPT_DEVICE_INITIATIVE then
           (if sub = PF_DCP_SUB_DEV_INITIATIVE_SUPPORT then found_value 2 off_device_initiative a
            else fail PF_DCP_BLOCK_ERROR_SUBOPTION_NOT_SUPPORTED)
         else fail PF_DCP_BLOCK_ERROR_OPTION_NOT_SUPPORTED)"

definition pf_cmina_get_station_name :: "'w dcp_net \<Rightarrow> u8 list" where
  "pf_cmina_get_station_name n = take (PNET_STATION_NAME_MAX_SIZE - 1) (c_str (station_name (cmina_current n)))"

definition pf_cmina_get_ipaddr :: "'w dcp_net \<Rightarrow> u32" where
  "pf_cmina_get_ipaddr n = ip_addr (suite_of (cmina_current n))"

definition pf_cmina_get_netmask :: "'w dcp_net \<Rightarrow> u32" where
  "pf_cmina_get_netmask n = ip_mask (suite_of (cmina_current n))"

definition pf_cmina_get_gateway :: "'w dcp_net \<Rightarrow> u32" where
  "pf_cmina_get_gateway n = ip_gateway (suite_of (cmina_current n))"

definition pf_cmina_get_device_macaddr :: "'w dcp_net \<Rightarrow> u8 list" where
  "pf_cmina_get_device_macaddr n = main_port_mac n"

text \<open>The product of the period and the factor is an int, and the next one is a 32-bit word.\<close>

definition pf_cmina_has_timed_out :: "u32 \<Rightarrow> u32 \<Rightarrow> u16 \<Rightarrow> u16 \<Rightarrow> bool" where
  "pf_cmina_has_timed_out now_us previous_us period factor \<longleftrightarrow>
     now_us - previous_us \<ge> (ucast period * ucast factor) * 1000 div 32"

end
