(* ===== verification/Dcp.thy ===== *)
theory Dcp
  imports Cmina
begin

unbundle bit_operations_syntax

text \<open>
  The discovery and configuration protocol (src/common/pf_dcp.c): requests to get and to set values of the
  device, requests to identify it, with a delayed response, and HELLO messages.

  A position in a frame has 16 bits, and sums that are compared are integers. A frame is the memory of its
  buffer, so bytes behind the received ones can be read, and a byte behind the memory is a missing result.
\<close>

section \<open>Constants and tables\<close>

definition PF_DCP_SERVICE_GET :: u8 where "PF_DCP_SERVICE_GET = 3"
definition PF_DCP_SERVICE_SET :: u8 where "PF_DCP_SERVICE_SET = 4"
definition PF_DCP_SERVICE_IDENTIFY :: u8 where "PF_DCP_SERVICE_IDENTIFY = 5"
definition PF_DCP_SERVICE_HELLO :: u8 where "PF_DCP_SERVICE_HELLO = 6"
definition PF_DCP_SERVICE_TYPE_REQUEST :: u8 where "PF_DCP_SERVICE_TYPE_REQUEST = 0"
definition PF_DCP_SERVICE_TYPE_SUCCESS :: u8 where "PF_DCP_SERVICE_TYPE_SUCCESS = 1"
definition PF_DCP_SERVICE_TYPE_NOT_SUPPORTED :: u8 where "PF_DCP_SERVICE_TYPE_NOT_SUPPORTED = 5"
definition PF_DCP_HELLO_FRAME_ID :: u16 where "PF_DCP_HELLO_FRAME_ID = 0xfefc"
definition PF_DCP_GET_SET_FRAME_ID :: u16 where "PF_DCP_GET_SET_FRAME_ID = 0xfefd"
definition PF_DCP_ID_REQ_FRAME_ID :: u16 where "PF_DCP_ID_REQ_FRAME_ID = 0xfefe"
definition PF_DCP_ID_RES_FRAME_ID :: u16 where "PF_DCP_ID_RES_FRAME_ID = 0xfeff"
definition PF_DCP_SIGNAL_LED_HALF_INTERVAL :: u32 where "PF_DCP_SIGNAL_LED_HALF_INTERVAL = 500000"
definition PF_DCP_SIGNAL_LED_NUMBER_OF_FLASHES :: u32 where "PF_DCP_SIGNAL_LED_NUMBER_OF_FLASHES = 3"
definition PF_DCP_SAM_TIMEOUT :: u32 where "PF_DCP_SAM_TIMEOUT = 3000000"
definition PNAL_ETHTYPE_PROFINET :: u16 where "PNAL_ETHTYPE_PROFINET = 0x8892"

definition dcp_mc_addr_hello :: "u8 list" where
  "dcp_mc_addr_hello = [0x01, 0x0e, 0xcf, 0x00, 0x00, 0x01]"

definition mac_nil :: "u8 list" where
  "mac_nil = replicate 6 0"

definition device_options :: "(u8 \<times> u8) list" where
  "device_options =
     [(PF_DCP_OPT_IP, PF_DCP_SUB_IP_PAR), (PF_DCP_OPT_IP, PF_DCP_SUB_IP_MAC),
      (PF_DCP_OPT_DEVICE_PROPERTIES, PF_DCP_SUB_DEV_PROP_VENDOR), (PF_DCP_OPT_DEVICE_PROPERTIES, PF_DCP_SUB_DEV_PROP_NAME),
      (PF_DCP_OPT_DEVICE_PROPERTIES, PF_DCP_SUB_DEV_PROP_ID), (PF_DCP_OPT_DEVICE_PROPERTIES, PF_DCP_SUB_DEV_PROP_ROLE),
      (PF_DCP_OPT_DEVICE_PROPERTIES, PF_DCP_SUB_DEV_PROP_OPTIONS), (PF_DCP_OPT_DEVICE_PROPERTIES, PF_DCP_SUB_DEV_PROP_ALIAS),
      (PF_DCP_OPT_CONTROL, PF_DCP_SUB_CONTROL_START), (PF_DCP_OPT_CONTROL, PF_DCP_SUB_CONTROL_STOP),
      (PF_DCP_OPT_CONTROL, PF_DCP_SUB_CONTROL_SIGNAL), (PF_DCP_OPT_CONTROL, PF_DCP_SUB_CONTROL_FACTORY_RESET),
      (PF_DCP_OPT_CONTROL, PF_DCP_SUB_CONTROL_RESET_TO_FACTORY), (PF_DCP_OPT_ALL, PF_DCP_SUB_ALL)]"

section \<open>Headers\<close>

text \<open>The header of DCP behind the frame identifier, in the byte order of the network.\<close>

record pf_dcp_header =
  service_id :: u8
  service_type :: u8
  xid :: "u8 list"
  response_delay_factor :: u16
  dcp_data_length :: u16

definition dcp_header_at :: "nat \<Rightarrow> u8 list \<Rightarrow> pf_dcp_header option" where
  "dcp_header_at pos xs = map_option (\<lambda>h. \<lparr>service_id = h ! 0, service_type = h ! 1, xid = take 4 (drop 2 h),
     response_delay_factor = be16 (drop 6 h), dcp_data_length = be16 (drop 8 h)\<rparr>) (peek pos 10 xs)"

definition dcp_header_bytes :: "pf_dcp_header \<Rightarrow> u8 list" where
  "dcp_header_bytes h = [service_id h, service_type h] @ xid h @ bytes16 (response_delay_factor h) @ bytes16 (dcp_data_length h)"

text \<open>The start of a frame: the Ethernet header, the frame identifier and the header of DCP.\<close>

definition dcp_frame_start :: "u8 list \<Rightarrow> u8 list \<Rightarrow> u16 \<Rightarrow> pf_dcp_header \<Rightarrow> u8 list" where
  "dcp_frame_start dst src fid h = dst @ src @ bytes16 PNAL_ETHTYPE_PROFINET @ bytes16 fid @ dcp_header_bytes h"

definition dcp_start_size :: nat where "dcp_start_size = 26"

definition block_hdr_at :: "nat \<Rightarrow> u8 list \<Rightarrow> (u8 \<times> u8 \<times> nat) option" where
  "block_hdr_at pos xs = map_option (\<lambda>h. (h ! 0, h ! 1, unat (be16 (drop 2 h)))) (peek pos 4 xs)"

definition add16 :: "nat \<Rightarrow> nat \<Rightarrow> nat" where
  "add16 a b = (a + b) mod 65536"

definition align16 :: "nat \<Rightarrow> nat" where
  "align16 p = (if odd p then add16 p 1 else p)"

section \<open>Writing blocks\<close>

text \<open>The padding goes on as long as the position is odd.\<close>

partial_function (option) pad_even :: "wstate \<Rightarrow> wstate option" where
  "pad_even w = (if odd (w_pos w) then pad_even (snd (run_state (pf_put_byte 0) w)) else Some w)"

definition pf_dcp_put_block :: "u8 \<Rightarrow> u8 \<Rightarrow> u16 option \<Rightarrow> u16 \<Rightarrow> u8 list option \<Rightarrow> wstate \<Rightarrow> wstate option" where
  "pf_dcp_put_block opt sub block_info value_length p_value w =
     (if w_pos w + unat value_length \<ge> w_len w then Some w
      else do {
        v \<leftarrow> (case p_value of None \<Rightarrow> Some [] | Some p \<Rightarrow> peek 0 (unat value_length) p);
        pad_even (snd (run_state (do {
          pf_put_byte opt;
          pf_put_byte sub;
          pf_put_uint16 True (value_length + (if block_info = None then 0 else 2));
          (case block_info of None \<Rightarrow> State_Monad.return () | Some i \<Rightarrow> pf_put_uint16 True i);
          (if v \<noteq> [] then pf_put_mem v (length v) else State_Monad.return ())
        }) w))
      })"

section \<open>Getting values\<close>

definition htonl :: "u32 \<Rightarrow> u32" where
  "htonl x = push_bit 24 (x AND 0xff) OR push_bit 8 (x AND 0xff00) OR drop_bit 8 (x AND 0xff0000) OR drop_bit 24 x"

definition htons16 :: "u16 \<Rightarrow> u16" where
  "htons16 x = push_bit 8 x OR drop_bit 8 x"

definition swap_suite :: "pf_ip_suite \<Rightarrow> pf_ip_suite" where
  "swap_suite s = \<lparr>ip_addr = htonl (ip_addr s), ip_mask = htonl (ip_mask s), ip_gateway = htonl (ip_gateway s)\<rparr>"

definition swap_full :: "pf_full_ip_suite \<Rightarrow> pf_full_ip_suite" where
  "swap_full f = \<lparr>ip_suite = swap_suite (ip_suite f), dns_addr = map htonl (dns_addr f)\<rparr>"

definition ip_block_info :: "pf_ip_suite \<Rightarrow> u16" where
  "ip_block_info s = (if ip_addr s = 0 \<and> ip_mask s = 0 \<and> ip_gateway s = 0 then 0 else 1)"

text \<open>A value that is found, with its block information; or none, with the error; or a block that is left out.\<close>

datatype got_value = Got u16 u16 "u8 list option" | Not_got u8 | Skipped

definition options_value :: "u8 list" where
  "options_value = concat (map (\<lambda>(opt, sub). [opt, sub]) device_options)"

definition swapped16 :: "get_value \<Rightarrow> got_value option" where
  "swapped16 g = (if gv_length g = 2 then do {
       v \<leftarrow> Option.bind (gv_value g) (peek 0 2);
       (if gv_ret g = 0 then Some (Got 0 2 (Some (rev v))) else Some (Not_got (gv_error g)))
     } else Some (Not_got (gv_error g)))"

definition plain_value :: "get_value \<Rightarrow> got_value" where
  "plain_value g = (if gv_ret g = 0 then Got 0 (gv_length g) (gv_value g) else Not_got (gv_error g))"

definition str_value :: "get_value \<Rightarrow> got_value option" where
  "str_value g = do { p \<leftarrow> gv_value g; Some (Got 0 (of_nat (length (c_str p))) (Some p)) }"

definition suite_value :: "get_value \<Rightarrow> got_value option" where
  "suite_value g = do {
     v \<leftarrow> Option.bind (gv_value g) (peek 0 12);
     let s = swap_suite (ip_suite_of v);
     Some (Got (ip_block_info s) (gv_length g) (Some (ip_suite_bytes s)))
   }"

definition full_suite_value :: "get_value \<Rightarrow> got_value option" where
  "full_suite_value g = do {
     v \<leftarrow> Option.bind (gv_value g) (peek 0 28);
     let f = swap_full (full_ip_suite_of v);
     Some (Got (ip_block_info (ip_suite f)) (gv_length g) (Some (full_ip_suite_bytes f)))
   }"

definition value_of_option :: "u8 \<Rightarrow> u8 \<Rightarrow> bool \<Rightarrow> u8 list option \<Rightarrow> get_value \<Rightarrow> got_value option" where
  "value_of_option opt sub request_is_identify alias_name g =
     (if opt = PF_DCP_OPT_IP then
        (if sub = PF_DCP_SUB_IP_PAR then suite_value g
         else if sub = PF_DCP_SUB_IP_SUITE then full_suite_value g
         else if sub = PF_DCP_SUB_IP_MAC \<and> request_is_identify then Some Skipped
         else Some (plain_value g))
      else if opt = PF_DCP_OPT_DEVICE_PROPERTIES then
        (if sub = PF_DCP_SUB_DEV_PROP_OPTIONS then Some (Got 0 (of_nat (length options_value)) (Some options_value))
         else if sub = PF_DCP_SUB_DEV_PROP_GATEWAY then swapped16 g
         else if sub = PF_DCP_SUB_DEV_PROP_NAME \<or> sub = PF_DCP_SUB_DEV_PROP_VENDOR then str_value g
         else if sub = PF_DCP_SUB_DEV_PROP_ALIAS then
           Some (case alias_name of None \<Rightarrow> Skipped | Some al \<Rightarrow> Got 0 (of_nat (length (c_str al))) (Some al))
         else if sub = PF_DCP_SUB_DEV_PROP_ROLE then Some (plain_value (g\<lparr>gv_length := gv_length g + 1\<rparr>))
         else Some (plain_value g))
      else if opt = PF_DCP_OPT_DEVICE_INITIATIVE then swapped16 g
      else if opt = PF_DCP_OPT_CONTROL \<or> opt = PF_DCP_OPT_ALL then Some Skipped
      else Some (plain_value g))"

definition pf_dcp_get_req :: "u8 \<Rightarrow> u8 \<Rightarrow> bool \<Rightarrow> u8 list option \<Rightarrow> 'w dcp_net \<Rightarrow> wstate \<Rightarrow> wstate option" where
  "pf_dcp_get_req opt sub request_is_identify alias_name n w = do {
     v \<leftarrow> value_of_option opt sub request_is_identify alias_name (pf_cmina_dcp_get_req opt sub 0 None n);
     (case v of
        Skipped \<Rightarrow> Some w
      | Got info len p \<Rightarrow> pf_dcp_put_block opt sub (Some info) len p w
      | Not_got e \<Rightarrow> pf_dcp_put_block PF_DCP_OPT_CONTROL PF_DCP_SUB_CONTROL_RESPONSE None 3 (Some [opt, sub, e]) w)
   }"

section \<open>Timers\<close>

text \<open>A null buffer is not in use here: the responder is only scheduled with one.\<close>

definition pf_dcp_responder :: "'w dcp_env \<Rightarrow> nat option \<Rightarrow> 'w dcmd" where
  "pf_dcp_responder env p_buf n =
     (let n = n\<lparr>dcp_identresp_timeout := pf_scheduler_reset_handle (dcp_identresp_timeout n)\<rparr> in
      case p_buf of None \<Rightarrow> Some n
      | Some b \<Rightarrow> do {
          n \<leftarrow> dcp_eth_send env b n;
          n \<leftarrow> dcp_buf_free b n;
          Some (n\<lparr>dcp_delayed_response_waiting := False\<rparr>)
        })"

definition pf_dcp_clear_sam :: "'w dcp_net \<Rightarrow> 'w dcp_net" where
  "pf_dcp_clear_sam n = n\<lparr>dcp_sam := mac_nil, dcp_sam_timeout := pf_scheduler_reset_handle (dcp_sam_timeout n)\<rparr>"

definition pf_dcp_restart_sam_timeout :: "u8 list \<Rightarrow> 'w dcmd" where
  "pf_dcp_restart_sam_timeout mac n = do {
     (r, h, s) \<leftarrow> pf_scheduler_restart (dn_now n) PF_DCP_SAM_TIMEOUT Pf_dcp_clear_sam No_arg (dcp_sam_timeout n) (dn_sched n);
     Some (n\<lparr>dcp_sam := mac, dcp_sam_timeout := h, dn_sched := s\<rparr>)
   }"

definition pf_dcp_check_sam :: "'w dcp_net \<Rightarrow> u8 list \<Rightarrow> bool" where
  "pf_dcp_check_sam n mac \<longleftrightarrow> dcp_sam n = mac_nil \<or> dcp_sam n = mac"

definition pf_dcp_check_destination_address :: "u8 list \<Rightarrow> u8 list \<Rightarrow> bool" where
  "pf_dcp_check_destination_address local_mac destination_mac \<longleftrightarrow>
     hd destination_mac AND 1 = 0 \<and> destination_mac = local_mac"

definition add_led :: "u32 \<Rightarrow> 'w dcmd" where
  "add_led state n = map_option snd (dcp_add PF_DCP_SIGNAL_LED_HALF_INTERVAL Pf_dcp_control_signal_led (Led_arg state)
     dcp_led_timeout (\<lambda>h n. n\<lparr>dcp_led_timeout := h\<rparr>) n)"

definition pf_dcp_control_signal_led :: "'w dcp_env \<Rightarrow> u32 \<Rightarrow> 'w dcmd" where
  "pf_dcp_control_signal_led env state n =
     (let n = world (de_signal_led env (state mod 2 = 1)) n in
      if state > 0 \<and> state < 200 then add_led (state - 1) n
      else Some (n\<lparr>dcp_led_timeout := pf_scheduler_reset_handle (dcp_led_timeout n)\<rparr>))"

definition pf_dcp_trigger_signal_led :: "('w, int) dfn" where
  "pf_dcp_trigger_signal_led n =
     (if \<not> pf_scheduler_is_running (dcp_led_timeout n)
      then map_option (Pair 0) (add_led (2 * PF_DCP_SIGNAL_LED_NUMBER_OF_FLASHES - 1) n)
      else Some (0, n))"

section \<open>Setting values\<close>

text \<open>
  Of a full suite a block with the length of the small one is taken, and the full one is read from the frame.
  The result and the error of a block go into the response.
\<close>

definition set_suite_block :: "'w dcp_env \<Rightarrow> u8 \<Rightarrow> nat \<Rightarrow> u16 \<Rightarrow> u16 \<Rightarrow> u8 list \<Rightarrow> u8 \<Rightarrow> ('w, int \<times> u8) dfn" where
  "set_suite_block env sub sz block_qualifier value_length p_value err n =
     (if unat value_length \<noteq> 12 then Some ((-1, err), n)
      else do {
        v \<leftarrow> peek 0 sz p_value;
        pf_cmina_dcp_set_ind env PF_DCP_OPT_IP sub block_qualifier value_length
          (if sz = 12 then ip_suite_bytes (swap_suite (ip_suite_of v))
           else full_ip_suite_bytes (swap_full (full_ip_suite_of v))) err n
      })"

definition set_control_block :: "'w dcp_env \<Rightarrow> u8 \<Rightarrow> u16 \<Rightarrow> u16 \<Rightarrow> u8 list \<Rightarrow> u8 \<Rightarrow> ('w, int \<times> u8) dfn" where
  "set_control_block env sub block_qualifier value_length p_value err n =
     (if sub = PF_DCP_SUB_CONTROL_START then
        Some ((0, PF_DCP_BLOCK_ERROR_NO_ERROR), n\<lparr>dcp_global_block_qualifier := block_qualifier\<rparr>)
      else if sub = PF_DCP_SUB_CONTROL_STOP then
        Some ((0, if block_qualifier = dcp_global_block_qualifier n then PF_DCP_BLOCK_ERROR_NO_ERROR else err), n)
      else if sub = PF_DCP_SUB_CONTROL_SIGNAL then
        map_option (\<lambda>(r, n). ((r, err), n)) (pf_dcp_trigger_signal_led n)
      else if sub = PF_DCP_SUB_CONTROL_FACTORY_RESET \<or> sub = PF_DCP_SUB_CONTROL_RESET_TO_FACTORY then
        map_option (\<lambda>((r, e), n). ((if r \<noteq> 0 then -1 else 0, e), n))
          (pf_cmina_dcp_set_ind env PF_DCP_OPT_CONTROL sub block_qualifier value_length p_value err n)
      else Some ((-1, err), n))"

definition set_block :: "'w dcp_env \<Rightarrow> u8 \<Rightarrow> u8 \<Rightarrow> u16 \<Rightarrow> u16 \<Rightarrow> u8 list \<Rightarrow> ('w, int \<times> u8) dfn" where
  "set_block env opt sub block_qualifier value_length p_value n =
     (let err = PF_DCP_BLOCK_ERROR_SUBOPTION_NOT_SUPPORTED in
      if opt = PF_DCP_OPT_IP then
        (if sub = PF_DCP_SUB_IP_PAR then set_suite_block env sub 12 block_qualifier value_length p_value err n
         else if sub = PF_DCP_SUB_IP_SUITE then set_suite_block env sub 28 block_qualifier value_length p_value err n
         else Some ((-1, err), n))
      else if opt = PF_DCP_OPT_DEVICE_PROPERTIES then
        (if sub = PF_DCP_SUB_DEV_PROP_NAME
         then pf_cmina_dcp_set_ind env opt sub block_qualifier value_length p_value err n
         else Some ((-1, err), n))
      else if opt = PF_DCP_OPT_DHCP then Some ((-1, err), n)
      else if opt = PF_DCP_OPT_CONTROL then set_control_block env sub block_qualifier value_length p_value err n
      else Some ((-1, PF_DCP_BLOCK_ERROR_OPTION_NOT_SUPPORTED), n))"

definition pf_dcp_set_req ::
    "'w dcp_env \<Rightarrow> u8 \<Rightarrow> u8 \<Rightarrow> u16 \<Rightarrow> u16 \<Rightarrow> u8 list \<Rightarrow> wstate \<times> 'w dcp_net \<Rightarrow> (wstate \<times> 'w dcp_net) option" where
  "pf_dcp_set_req env opt sub block_qualifier value_length p_value = (\<lambda>(w, n). do {
     ((ret, e), n) \<leftarrow> set_block env opt sub block_qualifier value_length p_value n;
     let e = (if ret = 0 then PF_DCP_BLOCK_ERROR_NO_ERROR else e);
     w \<leftarrow> pf_dcp_put_block PF_DCP_OPT_CONTROL PF_DCP_SUB_CONTROL_RESPONSE None 3 (Some [opt, sub, e]) w;
     Some (w, n)
   })"

end
