(* ===== verification/Dcp_Frames.thy ===== *)
theory Dcp_Frames
  imports Dcp
begin

unbundle bit_operations_syntax

text \<open>
  The frames of DCP (src/common/pf_dcp.c): requests to get and to set, requests to identify the device,
  HELLO, and the registration of the handlers. The loops over the blocks of a frame are partial functions,
  since their positions wrap at 16 bits.
\<close>

section \<open>Requests to get and to set\<close>

partial_function (option) set_blocks ::
    "'w dcp_env \<Rightarrow> u8 list \<Rightarrow> nat \<Rightarrow> nat \<Rightarrow> u8 \<times> u8 \<times> nat \<Rightarrow> wstate \<times> 'w dcp_net \<Rightarrow> (wstate \<times> 'w dcp_net) option" where
  "set_blocks env xs dcplen pos hdr wn =
     (if dcplen \<ge> pos + snd (snd hdr) then
        Option.bind (peek16 pos xs) (\<lambda>q.
        Option.bind (pf_dcp_set_req env (fst hdr) (fst (snd hdr)) q (of_nat (add16 (snd (snd hdr)) 65534))
            (drop (add16 pos 2) xs) wn) (\<lambda>wn.
        Option.bind (block_hdr_at (align16 (add16 pos (snd (snd hdr)))) xs) (\<lambda>hdr'.
        set_blocks env xs dcplen (add16 (align16 (add16 pos (snd (snd hdr)))) 4) hdr' wn)))
      else Some wn)"

partial_function (option) get_blocks :: "u8 list \<Rightarrow> nat \<Rightarrow> nat \<Rightarrow> 'w dcp_net \<Rightarrow> wstate \<Rightarrow> wstate option" where
  "get_blocks xs dcplen pos n w =
     (if dcplen \<ge> pos + 2 then
        Option.bind (peek pos 2 xs) (\<lambda>b.
        Option.bind (pf_dcp_get_req (b ! 0) (b ! 1) False None n w)
          (get_blocks xs dcplen (add16 pos 2) n))
      else Some w)"

definition response_writer :: wstate where
  "response_writer = \<lparr>w_bytes = Some (replicate PF_FRAME_BUFFER_SIZE 0), w_len = PF_FRAME_BUFFER_SIZE, w_pos = dcp_start_size\<rparr>"

definition finish_frame :: "u8 list \<Rightarrow> u8 list \<Rightarrow> u16 \<Rightarrow> pf_dcp_header \<Rightarrow> wstate \<Rightarrow> u8 list" where
  "finish_frame dst src fid h w =
     write_at 0 (dcp_frame_start dst src fid (h\<lparr>dcp_data_length := of_nat (w_pos w - dcp_start_size)\<rparr>)) (the (w_bytes w))"

definition get_set_blocks ::
    "'w dcp_env \<Rightarrow> u8 list \<Rightarrow> u8 list \<Rightarrow> nat \<Rightarrow> nat \<Rightarrow> pf_dcp_header \<Rightarrow> 'w dcp_net \<Rightarrow> (pf_dcp_header \<times> wstate \<times> 'w dcp_net) option" where
  "get_set_blocks env xs src dcplen pos h n =
     (let rsp = h\<lparr>service_type := PF_DCP_SERVICE_TYPE_SUCCESS, response_delay_factor := 0\<rparr>; w = response_writer in
      if service_id h = PF_DCP_SERVICE_SET then do {
        hdr \<leftarrow> block_hdr_at pos xs;
        (w, n) \<leftarrow> set_blocks env xs dcplen (add16 pos 4) hdr (w, n);
        n \<leftarrow> pf_dcp_restart_sam_timeout src n;
        Some (rsp, w, n)
      }
      else if service_id h = PF_DCP_SERVICE_GET then do {
        w \<leftarrow> get_blocks xs dcplen pos n w;
        n \<leftarrow> pf_dcp_restart_sam_timeout src n;
        Some (rsp, w, n)
      }
      else Some (rsp\<lparr>service_type := PF_DCP_SERVICE_TYPE_NOT_SUPPORTED\<rparr>, w, n))"

text \<open>The part of the handler with a response buffer \<open>r\<close>; the buffers are freed behind it.\<close>

definition get_set_response ::
    "'w dcp_env \<Rightarrow> u8 list \<Rightarrow> nat \<Rightarrow> nat \<Rightarrow> pf_dcp_header \<Rightarrow> nat \<Rightarrow> 'w dcmd" where
  "get_set_response env xs dcplen pos h r n = do {
     src \<leftarrow> peek 6 6 xs;
     dst \<leftarrow> peek 0 6 xs;
     let mac = pf_cmina_get_device_macaddr n;
     (if \<not> pf_dcp_check_sam n src then Some n
      else if \<not> pf_dcp_check_destination_address mac dst then Some n
      else do {
        (rsp, w, n) \<leftarrow> get_set_blocks env xs src dcplen pos h n;
        let n = dcp_buf_store r (finish_frame src mac PF_DCP_GET_SET_FRAME_ID rsp w) (w_pos w) n;
        n \<leftarrow> dcp_eth_send env r n;
        let n = (if service_id h = PF_DCP_SERVICE_SET then pf_cmina_dcp_set_commit env n else n);
        de_lldp_restart env n
      })
   }"

definition pf_dcp_get_set :: "'w dcp_env \<Rightarrow> nat \<Rightarrow> nat \<Rightarrow> ('w, int) dfn" where
  "pf_dcp_get_set env b fid_pos n = do {
     p \<leftarrow> dn_bufs n b;
     let xs = b_payload p;
     h \<leftarrow> dcp_header_at (add16 fid_pos 2) xs;
     let pos = add16 (add16 fid_pos 2) 10;
     let dcplen = add16 pos (unat (dcp_data_length h));
     (if dcplen > unat (b_len p) then map_option (Pair 1) (dcp_buf_free b n)
      else case dcp_buf_alloc env PF_FRAME_BUFFER_SIZE n of
          (None, n) \<Rightarrow> map_option (Pair 1) (dcp_buf_free b n)
        | (Some r, n) \<Rightarrow> do {
            n \<leftarrow> get_set_response env xs dcplen pos h r n;
            n \<leftarrow> dcp_buf_free b n;
            n \<leftarrow> dcp_buf_free r n;
            Some (1, n)
          })
   }"

section \<open>HELLO\<close>

definition pf_dcp_hello_ind :: "nat \<Rightarrow> ('w, int) dfn" where
  "pf_dcp_hello_ind b n = do {
     p \<leftarrow> dn_bufs n b;
     map_option (Pair 1) (dcp_buf_free b n)
   }"

definition hello_block :: "u8 \<Rightarrow> u8 \<Rightarrow> (get_value \<Rightarrow> (u16 \<times> u8 list) option) \<Rightarrow> 'w dcp_net \<Rightarrow> wstate \<Rightarrow> wstate option" where
  "hello_block opt sub f n w =
     (let g = pf_cmina_dcp_get_req opt sub 0 None n in
      if gv_ret g = 0 then do { (len, v) \<leftarrow> f g; pf_dcp_put_block opt sub (Some 0) len (Some v) w } else Some w)"

definition hello_blocks :: "'w dcp_net \<Rightarrow> wstate option" where
  "hello_blocks n = do {
     w \<leftarrow> hello_block PF_DCP_OPT_DEVICE_PROPERTIES PF_DCP_SUB_DEV_PROP_NAME
            (\<lambda>g. map_option (\<lambda>p. (of_nat (length (c_str p)), p)) (gv_value g)) n response_writer;
     w \<leftarrow> hello_block PF_DCP_OPT_IP PF_DCP_SUB_IP_PAR
            (\<lambda>g. map_option (\<lambda>v. (gv_length g, ip_suite_bytes (swap_suite (ip_suite_of v)))) (Option.bind (gv_value g) (peek 0 12))) n w;
     w \<leftarrow> hello_block PF_DCP_OPT_DEVICE_PROPERTIES PF_DCP_SUB_DEV_PROP_ID (\<lambda>g. map_option (Pair (gv_length g)) (gv_value g)) n w;
     w \<leftarrow> hello_block PF_DCP_OPT_DEVICE_PROPERTIES PF_DCP_SUB_DEV_PROP_OEM_ID (\<lambda>g. map_option (Pair (gv_length g)) (gv_value g)) n w;
     hello_block PF_DCP_OPT_DEVICE_INITIATIVE PF_DCP_SUB_DEV_INITIATIVE_SUPPORT
            (\<lambda>g. map_option (\<lambda>v. (gv_length g, [0, v ! 0])) (Option.bind (gv_value g) (peek 0 1))) n w
   }"

definition pf_dcp_hello_req :: "'w dcp_env \<Rightarrow> ('w, int) dfn" where
  "pf_dcp_hello_req env n = (case dcp_buf_alloc env PF_FRAME_BUFFER_SIZE n of
       (None, n) \<Rightarrow> Some (-1, n)
     | (Some r, n) \<Rightarrow> do {
         w \<leftarrow> hello_blocks n;
         let h = \<lparr>service_id = PF_DCP_SERVICE_HELLO, service_type = PF_DCP_SERVICE_TYPE_REQUEST, xid = [0, 0, 0, 1],
                response_delay_factor = 0, dcp_data_length = 0\<rparr>;
         let n = dcp_buf_store r (finish_frame dcp_mc_addr_hello (pf_cmina_get_device_macaddr n) PF_DCP_HELLO_FRAME_ID h w) (w_pos w) n;
         n \<leftarrow> dcp_eth_send env r n;
         n \<leftarrow> dcp_buf_free r n;
         Some (0, n)
       })"

text \<open>The timer of CMINA that sends HELLO messages.\<close>

definition pf_cmina_send_hello :: "'w dcp_env \<Rightarrow> 'w dcmd" where
  "pf_cmina_send_hello env n =
     (if cmina_state n = PF_CMINA_STATE_W_CONNECT \<and> cmina_hello_count n > 0 then do {
        (_, n) \<leftarrow> pf_dcp_hello_req env n;
        let n = n\<lparr>cmina_hello_count := cmina_hello_count n - 1\<rparr>;
        map_option snd (dcp_add (PF_CMINA_FS_HELLO_INTERVAL * 1000) Pf_cmina_send_hello No_arg cmina_hello_timeout
          (\<lambda>h n. n\<lparr>cmina_hello_timeout := h\<rparr>) n)
      }
      else Some (n\<lparr>cmina_hello_timeout := pf_scheduler_reset_handle (cmina_hello_timeout n), cmina_hello_count := 0\<rparr>))"

section \<open>Identify requests\<close>

definition pf_dcp_calculate_response_delay :: "u8 list \<Rightarrow> u16 \<Rightarrow> u32" where
  "pf_dcp_calculate_response_delay mac factor =
     (if factor = 0 \<or> factor > 6400 then 0
      else let random_number = (ucast (mac ! 4) * 0x100 + ucast (mac ! 5) :: u16);
               spread = (ucast (random_number mod factor) :: u32)
           in spread * 10 * 1000)"

text \<open>Two areas of memory are compared up to the first difference.\<close>

fun mem_eq :: "nat \<Rightarrow> u8 list \<Rightarrow> u8 list \<Rightarrow> bool option" where
  "mem_eq 0 xs ys = Some True"
| "mem_eq (Suc k) (x # xs) (y # ys) = (if x = y then mem_eq k xs ys else Some False)"
| "mem_eq (Suc k) xs ys = None"

text \<open>
  What the loop keeps: the result, whether the next block is the first, whether all filters matched, whether
  the request has filters, the buffer for an alias, and whether the response is to have it.
\<close>

record identify_state =
  id_ret :: int
  id_first :: bool
  id_match :: bool
  id_filter :: bool
  id_alias :: "u8 list"
  id_req_alias :: bool

definition identify_bad :: "identify_state \<Rightarrow> identify_state" where
  "identify_bad s = s\<lparr>id_ret := -1\<rparr>"

definition compare_value :: "get_value \<Rightarrow> nat \<Rightarrow> u8 list \<Rightarrow> identify_state \<Rightarrow> identify_state option" where
  "compare_value g len v s = do {
     p \<leftarrow> gv_value g;
     e \<leftarrow> mem_eq (unat (gv_length g)) p v;
     Some (if \<not> e \<or> len \<noteq> unat (gv_length g) then s\<lparr>id_match := False\<rparr> else s)
   }"

definition filter_value :: "get_value \<Rightarrow> nat \<Rightarrow> u8 list \<Rightarrow> identify_state \<Rightarrow> identify_state option" where
  "filter_value g len v s = (if id_filter s then compare_value g len v s else Some (identify_bad s))"

definition filter_name :: "get_value \<Rightarrow> nat \<Rightarrow> u8 list \<Rightarrow> identify_state \<Rightarrow> identify_state option" where
  "filter_name g len v s = do {
     p \<leftarrow> gv_value g;
     e \<leftarrow> mem_eq len p v;
     (if e then do {
        z \<leftarrow> peek len 1 p;
        Some (if z = [0] then (if id_first s then s\<lparr>id_filter := True\<rparr> else s) else s\<lparr>id_match := False\<rparr>)
      }
      else Some (s\<lparr>id_match := False\<rparr>))
   }"

definition filter_all :: "u8 \<Rightarrow> nat \<Rightarrow> identify_state \<Rightarrow> identify_state" where
  "filter_all sub len s =
     (if sub = PF_DCP_SUB_ALL \<and> id_first s \<and> (len = 2 \<or> len = 0) then s\<lparr>id_filter := False\<rparr> else identify_bad s)"

definition filter_known :: "u8 \<Rightarrow> u8 \<Rightarrow> nat \<Rightarrow> u8 list \<Rightarrow> get_value \<Rightarrow> identify_state \<Rightarrow> identify_state option" where
  "filter_known opt sub len v g s =
     (if opt = PF_DCP_OPT_ALL then Some (filter_all sub len s)
      else if opt = PF_DCP_OPT_IP then
        (if sub = PF_DCP_SUB_IP_MAC \<or> sub = PF_DCP_SUB_IP_PAR then filter_value g len v s else Some (identify_bad s))
      else if opt = PF_DCP_OPT_DEVICE_PROPERTIES then
        (if sub = PF_DCP_SUB_DEV_PROP_NAME then filter_name g len v s else filter_value g len v s)
      else Some (identify_bad s))"

definition filter_alias :: "'w dcp_env \<Rightarrow> nat \<Rightarrow> u8 list \<Rightarrow> 'w dcp_net \<Rightarrow> identify_state \<Rightarrow> identify_state option" where
  "filter_alias env len v n s =
     (if len < PF_ALIAS_NAME_MAX_SIZE then do {
        a \<leftarrow> peek 0 len v;
        let s = s\<lparr>id_alias := a @ [0]\<rparr>;
        Some (if de_alias_matching env (c_str (a @ [0])) (dn_world n)
              then (if id_first s then s\<lparr>id_req_alias := True, id_filter := True\<rparr> else s)
              else s\<lparr>id_match := False\<rparr>)
      } else Some (s\<lparr>id_match := False\<rparr>))"

text \<open>One block; the loop only goes on behind a block of a known kind.\<close>

definition identify_block :: "'w dcp_env \<Rightarrow> u8 \<times> u8 \<times> nat \<Rightarrow> u8 list \<Rightarrow> 'w dcp_net \<Rightarrow> identify_state \<Rightarrow> (bool \<times> identify_state) option" where
  "identify_block env hdr v n s = (case hdr of (opt, sub, len) \<Rightarrow>
     let g = pf_cmina_dcp_get_req opt sub 0 None n in
     map_option (\<lambda>(known, s). (known, s\<lparr>id_first := False\<rparr>))
       (if gv_ret g = 0 then map_option (Pair True) (filter_known opt sub len v g s)
        else if opt = PF_DCP_OPT_DEVICE_PROPERTIES \<and> sub = PF_DCP_SUB_DEV_PROP_ALIAS
        then map_option (Pair True) (filter_alias env len v n s)
        else Some (False, identify_bad s)))"

partial_function (option) identify_blocks ::
    "'w dcp_env \<Rightarrow> u8 list \<Rightarrow> nat \<Rightarrow> 'w dcp_net \<Rightarrow> nat \<Rightarrow> u8 \<times> u8 \<times> nat \<Rightarrow> identify_state \<Rightarrow> identify_state option" where
  "identify_blocks env xs dcplen n pos hdr s =
     (if id_ret s = 0 \<and> (id_first s \<or> (id_filter s \<and> id_match s)) \<and> dcplen \<ge> pos + snd (snd hdr) then
        Option.bind (identify_block env hdr (drop pos xs) n s) (\<lambda>ks.
        if fst ks then
          Option.bind (block_hdr_at (align16 (add16 pos (snd (snd hdr)))) xs) (\<lambda>hdr'.
          identify_blocks env xs dcplen n (add16 (align16 (add16 pos (snd (snd hdr)))) 4) hdr' (snd ks))
        else identify_blocks env xs dcplen n pos hdr (snd ks))
      else Some s)"

definition identify_start :: identify_state where
  "identify_start = \<lparr>id_ret = 0, id_first = True, id_match = True, id_filter = False, id_alias = [], id_req_alias = False\<rparr>"

fun put_options :: "(u8 \<times> u8) list \<Rightarrow> u8 list option \<Rightarrow> 'w dcp_net \<Rightarrow> wstate \<Rightarrow> wstate option" where
  "put_options [] alias n w = Some w"
| "put_options ((opt, sub) # os) alias n w = Option.bind (pf_dcp_get_req opt sub True alias n w) (put_options os alias n)"

definition identify_response :: "'w dcp_env \<Rightarrow> u8 list \<Rightarrow> pf_dcp_header \<Rightarrow> nat \<Rightarrow> identify_state \<Rightarrow> 'w dcmd" where
  "identify_response env src h r s n = do {
     w \<leftarrow> put_options device_options (if id_req_alias s then Some (id_alias s) else None) n response_writer;
     let mac = pf_cmina_get_device_macaddr n;
     let rsp = h\<lparr>service_type := PF_DCP_SERVICE_TYPE_SUCCESS, response_delay_factor := 0\<rparr>;
     let n = dcp_buf_store r (finish_frame src mac PF_DCP_ID_RES_FRAME_ID rsp w) (w_pos w) n;
     (ret, n) \<leftarrow> dcp_add (pf_dcp_calculate_response_delay mac (response_delay_factor h)) Pf_dcp_responder (Buf_arg r)
       dcp_identresp_timeout (\<lambda>h n. n\<lparr>dcp_identresp_timeout := h\<rparr>) n;
     (if ret = 0 then Some (n\<lparr>dcp_delayed_response_waiting := True\<rparr>) else dcp_buf_free r n)
   }"

definition pf_dcp_identify_req :: "'w dcp_env \<Rightarrow> nat \<Rightarrow> nat \<Rightarrow> ('w, int) dfn" where
  "pf_dcp_identify_req env b fid_pos n = do {
     p \<leftarrow> dn_bufs n b;
     let xs = b_payload p;
     h \<leftarrow> dcp_header_at (add16 fid_pos 2) xs;
     let pos = add16 (add16 fid_pos 2) 10;
     let dcplen = add16 pos (unat (dcp_data_length h));
     (if dcplen > unat (b_len p) \<or> dcp_delayed_response_waiting n then map_option (Pair 1) (dcp_buf_free b n)
      else case dcp_buf_alloc env PF_FRAME_BUFFER_SIZE n of
          (None, n) \<Rightarrow> map_option (Pair 1) (dcp_buf_free b n)
        | (Some r, n) \<Rightarrow> do {
            src \<leftarrow> peek 6 6 xs;
            hdr \<leftarrow> block_hdr_at pos xs;
            s \<leftarrow> identify_blocks env xs dcplen n (add16 pos 4) hdr identify_start;
            n \<leftarrow> (if id_ret s = 0 \<and> id_match s then identify_response env src h r s n else dcp_buf_free r n);
            map_option (Pair 1) (dcp_buf_free b n)
          })
   }"

section \<open>Start, stop and dispatch\<close>

definition pf_dcp_exit :: "'w dcp_net \<Rightarrow> 'w dcp_net" where
  "pf_dcp_exit n = n\<lparr>dn_id_map := pf_eth_frame_id_map_remove PF_DCP_ID_REQ_FRAME_ID
     (pf_eth_frame_id_map_remove PF_DCP_GET_SET_FRAME_ID (pf_eth_frame_id_map_remove PF_DCP_HELLO_FRAME_ID (dn_id_map n)))\<rparr>"

definition dcp_sam_name :: str_ptr where "dcp_sam_name = 7"
definition dcp_led_name :: str_ptr where "dcp_led_name = 8"
definition dcp_identresp_name :: str_ptr where "dcp_identresp_name = 9"

definition pf_dcp_init :: "'w dcp_net \<Rightarrow> 'w dcp_net" where
  "pf_dcp_init n = n\<lparr>dcp_global_block_qualifier := 0, dcp_delayed_response_waiting := False, dcp_sam := mac_nil,
     dcp_sam_timeout := pf_scheduler_init_handle (dcp_sam_timeout n) dcp_sam_name,
     dcp_led_timeout := pf_scheduler_init_handle (dcp_led_timeout n) dcp_led_name,
     dcp_identresp_timeout := pf_scheduler_init_handle (dcp_identresp_timeout n) dcp_identresp_name,
     dn_id_map := pf_eth_frame_id_map_add PF_DCP_ID_REQ_FRAME_ID Pf_dcp_identify_req ()
       (pf_eth_frame_id_map_add PF_DCP_GET_SET_FRAME_ID Pf_dcp_get_set ()
       (pf_eth_frame_id_map_add PF_DCP_HELLO_FRAME_ID Pf_dcp_hello_ind () (dn_id_map n)))\<rparr>"

definition run_handler :: "'w dcp_env \<Rightarrow> nat \<Rightarrow> dcp_frame_cb \<Rightarrow> unit \<Rightarrow> u16 \<Rightarrow> nat \<Rightarrow> ('w, int) dfn" where
  "run_handler env b h arg fid pos = (case h of
       Pf_dcp_hello_ind \<Rightarrow> pf_dcp_hello_ind b
     | Pf_dcp_get_set \<Rightarrow> pf_dcp_get_set env b pos
     | Pf_dcp_identify_req \<Rightarrow> pf_dcp_identify_req env b pos)"

definition run_timer :: "'w dcp_env \<Rightarrow> dcp_cb \<Rightarrow> dcp_arg \<Rightarrow> 'w dcmd" where
  "run_timer env cb arg = (case cb of
       Pf_cmina_send_hello \<Rightarrow> pf_cmina_send_hello env
     | Pf_dcp_responder \<Rightarrow> pf_dcp_responder env (case arg of Buf_arg b \<Rightarrow> Some b | _ \<Rightarrow> None)
     | Pf_dcp_clear_sam \<Rightarrow> (\<lambda>n. Some (pf_dcp_clear_sam n))
     | Pf_dcp_control_signal_led \<Rightarrow> pf_dcp_control_signal_led env (case arg of Led_arg s \<Rightarrow> s | _ \<Rightarrow> 0))"

end
