(* ===== verification/Dcp_Demo.thy ===== *)
theory Dcp_Demo
  imports Dcp_Frames Scheduler_Service
begin

unbundle bit_operations_syntax

text \<open>
  A device with a name, an address and no timers, in a world that keeps the frames that were
  sent, with which the properties of CMINA and DCP are applied.
\<close>

definition demo_dcp_env :: "(nat \<Rightarrow> bool) \<Rightarrow> u8 list list dcp_env" where
  "demo_dcp_env used = \<lparr>de_alloc = \<lambda>_. True, de_eth_send = \<lambda>f w. (int (length f), w @ [f]), de_set_ip_suite = \<lambda>_ _ _ w. w,
     de_file_load_ip = \<lambda>_. None, de_file_save_ip = \<lambda>_ w. w, de_save_job = \<lambda>w. w, de_file_clear_ip = \<lambda>w. w,
     de_file_clear_diagnostics = \<lambda>w. w, de_clear_im_data = \<lambda>w. w, de_pdport_reset_all = \<lambda>w. w, de_reset_ind = \<lambda>_ _ w. w,
     de_signal_led = \<lambda>on w. w @ [[if on then 1 else 0]], de_ar_in_use = \<lambda>a _. used a, de_abort_ar = \<lambda>_ _ _. Some,
     de_alias_matching = \<lambda>_ _. False, de_lldp_restart = Some\<rparr>"

definition demo_suite :: pf_ip_suite where
  "demo_suite = \<lparr>ip_addr = 0xc0a80032, ip_mask = 0xffffff00, ip_gateway = 0xc0a80001\<rparr>"

definition demo_ase :: pf_cmina_dcp_ase where
  "demo_ase = zero_ase\<lparr>station_name := [100, 101, 118] @ replicate 238 0, product_name := [112, 32] @ replicate 24 0,
     device_role := 1, full_ip_suite := \<lparr>ip_suite = demo_suite, dns_addr = replicate 4 0\<rparr>\<rparr>"

definition demo_mac :: "u8 list" where
  "demo_mac = [2, 0, 0, 0, 1, 4]"

definition demo_dcp_cfg :: dcp_cfg where
  "demo_dcp_cfg = \<lparr>cfg_send_hello = True, cfg_device_id = zero_device_id, cfg_oem_device_id = zero_device_id, cfg_dhcp_enable = False,
     cfg_ip = demo_suite, cfg_station_name = [100, 101, 118] @ replicate 238 0, cfg_product_name = [112, 32] @ replicate 24 0\<rparr>"

definition demo_dcp_sched :: "(dcp_cb, dcp_arg) sched" where
  "demo_dcp_sched = the (pf_scheduler_init 1000 \<lparr>timeouts = [], timeout_first = 0, timeout_free = 0, tick_interval = 0\<rparr>)"

definition stopped :: "str_ptr \<Rightarrow> sched_handle" where
  "stopped name = \<lparr>h_name = name, h_timer_index = UINT32_MAX\<rparr>"

definition demo_dcp_net :: "(nat \<rightharpoonup> pnal_buf) \<Rightarrow> u8 list list dcp_net" where
  "demo_dcp_net bufs = \<lparr>dn_sched = demo_dcp_sched, dn_now = 0, dn_id_map = eth_id_map_init, dn_bufs = bufs, dn_next_buf = 1,
     fspm_cfg = demo_dcp_cfg, main_port_mac = demo_mac, cmina_nonvolatile = demo_ase, cmina_current = demo_ase,
     cmina_state = PF_CMINA_STATE_W_CONNECT, cmina_error_decode = 0, cmina_error_code_1 = 0, cmina_hello_count = 0,
     cmina_hello_timeout = stopped hello_name, cmina_commit_ip_suite = False, dcp_global_block_qualifier = 0, dcp_sam = mac_nil,
     dcp_delayed_response_waiting = False, dcp_led_timeout = stopped dcp_led_name, dcp_sam_timeout = stopped dcp_sam_name,
     dcp_identresp_timeout = stopped dcp_identresp_name, dn_world = []\<rparr>"

lemma demo_dcp_sched_rep: "sched_rep demo_dcp_sched [] [0..<PF_MAX_TIMEOUTS] []" "tick_interval demo_dcp_sched = 1000"
proof -
  obtain s where "pf_scheduler_init 1000 \<lparr>timeouts = [], timeout_first = 0, timeout_free = 0, tick_interval = 0\<rparr> =
      (Some s :: (dcp_cb, dcp_arg) sched option)" "sched_rep s [] [0..<PF_MAX_TIMEOUTS] []" "tick_interval s = 1000"
    using init_rep [of 1000 "\<lparr>timeouts = [], timeout_first = 0, timeout_free = 0, tick_interval = 0\<rparr> :: (dcp_cb, dcp_arg) sched"] by auto
  then show "sched_rep demo_dcp_sched [] [0..<PF_MAX_TIMEOUTS] []" "tick_interval demo_dcp_sched = 1000"
    by (simp_all add: demo_dcp_sched_def)
qed

lemma demo_dcp_timers: "timer_ok demo_dcp_sched"
  using demo_dcp_sched_rep by (auto simp: timer_ok_def sched_ok_def)

lemma demo_ase_ok: "ase_ok demo_ase"
  by (simp add: ase_ok_def demo_ase_def zero_ase_def PNET_STATION_NAME_MAX_SIZE_def PNET_PORT_NAME_MAX_SIZE_def)

lemma demo_names: "c_str (station_name demo_ase) = [100, 101, 118]" "has_name demo_ase" "suite_of demo_ase = demo_suite"
  by (simp_all add: c_str_def demo_ase_def has_name_def suite_of_def)

lemma stopped_not_running [simp]: "\<not> pf_scheduler_is_running (stopped name)"
  by (simp add: stopped_def pf_scheduler_is_running_def)

end
