(* ===== verification/Cmina_Props.thy ===== *)
theory Cmina_Props
  imports Dcp_Demo
begin

unbundle bit_operations_syntax

text \<open>The properties of CMINA (src/device/pf_cmina.c): what names and addresses it takes, and what a request changes.\<close>

section \<open>Names of stations\<close>

text \<open>A name is a sequence of labels with dots between them.\<close>

fun labels :: "u8 list \<Rightarrow> u8 list list" where
  "labels [] = [[]]"
| "labels (c # cs) = (if c = dot then [] # labels cs else (c # hd (labels cs)) # tl (labels cs))"

definition label_char :: "u8 \<Rightarrow> bool" where
  "label_char c \<longleftrightarrow> is_lower_char c \<or> is_digit_char c \<or> c = dash"



lemma labels_nonempty [simp]: "labels xs \<noteq> []"
  by (induction xs) auto

lemma labels_split: "labels xs = hd (labels xs) # tl (labels xs)"
  by simp


lemma length_labels: "length (labels xs) = Suc (length (tl (labels xs)))"
  by (metis labels_nonempty list.collapse length_Cons)



lemma label_char_dot: "\<not> label_char dot"
  by (simp add: label_char_def is_lower_char_def is_digit_char_def dot_def dash_def)

text \<open>The walk with a label \<open>p\<close> begun: it ends well exactly if all labels are sound, and counts them.\<close>

definition walk_ok :: "(nat \<Rightarrow> nat \<Rightarrow> bool) \<Rightarrow> (u8 \<times> nat \<times> nat) option \<Rightarrow> bool" where
  "walk_ok Q r \<longleftrightarrow> (case r of None \<Rightarrow> False | Some (pv, k, d) \<Rightarrow> Q k d \<and> pv \<noteq> dash)"

lemma walk_ok_simps [simp]: "\<not> walk_ok Q None" "walk_ok Q (Some (pv, k, d)) \<longleftrightarrow> Q k d \<and> pv \<noteq> dash"
  by (simp_all add: walk_ok_def)





section \<open>IP suites\<close>

lemma netmask_bits: "pf_cmina_is_netmask_valid m \<longleftrightarrow> (\<forall>i < 31. bit m i \<longrightarrow> bit m (Suc i))"
proof -
  have "pf_cmina_is_netmask_valid m \<longleftrightarrow> (\<forall>i. \<not> (bit m i \<and> bit (drop_bit 1 (NOT m)) i))"
    unfolding pf_cmina_is_netmask_valid_def by (auto simp: bit_eq_iff bit_simps)
  then show ?thesis
    by (auto simp: bit_simps)
qed

lemma netmask_ones: "pf_cmina_is_netmask_valid m \<longleftrightarrow> (\<exists>k \<le> 32. m = NOT (mask k))"
proof
  assume v: "pf_cmina_is_netmask_valid m"
  define k where "k = (LEAST i. bit m i \<or> i \<ge> 32)"
  have k: "bit m k \<or> k \<ge> 32" unfolding k_def by (rule LeastI [of _ 32]) simp
  have k32: "k \<le> 32" unfolding k_def by (rule Least_le) simp
  have low: "\<not> bit m i" if "i < k" for i using not_less_Least [OF that [unfolded k_def]] by simp
  have high: "bit m i" if "k \<le> i" "i < 32" for i
    using that
  proof (induction i rule: dec_induct)
    case base
    then show ?case using k by simp
  next
    case (step i)
    then show ?case using v by (simp add: netmask_bits)
  qed
  have "m = NOT (mask k)"
  proof (rule bit_word_eqI)
    fix i assume "i < LENGTH(32)"
    then show "bit m i = bit (NOT (mask k) :: u32) i"
      using low [of i] high [of i] by (cases "i < k") (auto simp: bit_simps)
  qed
  with k32 show "\<exists>k \<le> 32. m = NOT (mask k)" by blast
next
  assume "\<exists>k \<le> 32. m = NOT (mask k)"
  then show "pf_cmina_is_netmask_valid m" by (auto simp: netmask_bits bit_simps)
qed

lemma address_ranges:
  fixes ip :: u32
  shows "ip \<le> 0x00ffffff \<longleftrightarrow> unat ip div 2 ^ 24 = 0" "ip \<ge> 0x7f000000 \<and> ip \<le> 0x7fffffff \<longleftrightarrow> unat ip div 2 ^ 24 = 127"
    "(ip \<ge> 0xe0000000 \<and> ip \<le> 0xefffffff) \<or> (ip \<ge> 0xf0000000 \<and> ip \<le> 0xffffffff) \<longleftrightarrow> \<not> unat ip div 2 ^ 24 < 224"
proof -
  have range: "unat ip div 2 ^ 24 = k \<longleftrightarrow> k * 2 ^ 24 \<le> unat ip \<and> unat ip < (k + 1) * 2 ^ 24" for k
    using less_eq_div_iff_mult_less_eq [of "2 ^ 24" k "unat ip"] div_less_iff_less_mult [of "2 ^ 24" "unat ip" "k + 1"]
    by auto
  show "ip \<le> 0x00ffffff \<longleftrightarrow> unat ip div 2 ^ 24 = 0" "ip \<ge> 0x7f000000 \<and> ip \<le> 0x7fffffff \<longleftrightarrow> unat ip div 2 ^ 24 = 127"
    unfolding range by (auto simp: word_le_nat_alt)
  have "unat ip < 2 ^ LENGTH(32)" by (rule unsigned_less)
  then show "(ip \<ge> 0xe0000000 \<and> ip \<le> 0xefffffff) \<or> (ip \<ge> 0xf0000000 \<and> ip \<le> 0xffffffff) \<longleftrightarrow> \<not> unat ip div 2 ^ 24 < 224"
    using div_less_iff_less_mult [of "2 ^ 24" "unat ip" 224] by (auto simp: word_le_nat_alt)
qed

lemma ipaddress_cases:
  "pf_cmina_is_ipaddress_valid m ip \<longleftrightarrow> (m = 0 \<and> ip = 0) \<or>
     (pf_cmina_is_netmask_valid m \<and> ip AND NOT m \<noteq> 0 \<and> ip AND NOT m \<noteq> NOT m \<and> \<not> ip \<le> 0x00ffffff \<and>
      \<not> (ip \<ge> 0x7f000000 \<and> ip \<le> 0x7fffffff) \<and>
      \<not> ((ip \<ge> 0xe0000000 \<and> ip \<le> 0xefffffff) \<or> (ip \<ge> 0xf0000000 \<and> ip \<le> 0xffffffff)))"
  unfolding pf_cmina_is_ipaddress_valid_def Let_def by argo

text \<open>
  C35. The check of an IP suite accepts exactly the suites whose netmask is a row of ones before a row of
  zeros, whose address is unset or an address of the classes A to C that is
  neither the first nor the last of its network, nor of the networks 0 and 127, and whose
  gateway is unset or in the same network.
\<close>

theorem ip_suite_check:
  "pf_cmina_is_ipsuite_valid s \<longleftrightarrow>
     (\<exists>k \<le> 32. ip_mask s = NOT (mask k)) \<and>
     ((ip_mask s = 0 \<and> ip_addr s = 0) \<or>
      (ip_addr s AND NOT (ip_mask s) \<noteq> 0 \<and> ip_addr s AND NOT (ip_mask s) \<noteq> NOT (ip_mask s) \<and>
       unat (ip_addr s) div 2 ^ 24 \<notin> {0, 127} \<and> unat (ip_addr s) div 2 ^ 24 < 224)) \<and>
     (ip_gateway s = 0 \<or> ip_gateway s AND ip_mask s = ip_addr s AND ip_mask s)"
  unfolding netmask_ones [symmetric] pf_cmina_is_ipsuite_valid_def ipaddress_cases pf_cmina_is_gateway_valid_def address_ranges
  by auto

text \<open>The suite 192.168.0.50, 255.255.255.0, 192.168.0.1.\<close>

lemma ip_suite_check_witness:
  "pf_cmina_is_ipsuite_valid \<lparr>ip_addr = 0xc0a80032, ip_mask = 0xffffff00, ip_gateway = 0xc0a80001\<rparr>"
proof -
  have "(0xffffff00 :: u32) = NOT (mask 8)" by (simp add: mask_eq_decr_exp not_eq_complement)
  then have "\<exists>k \<le> 32. (0xffffff00 :: u32) = NOT (mask k)" by (intro exI [of _ 8]) simp
  then show ?thesis by (simp add: ip_suite_check)
qed

section \<open>Requests\<close>

lemma le32_at_enc: "le32_at (length xs) (xs @ enc32 False w @ ys) = w"
proof -
  have high: "i - 16 < 8 \<or> 24 + (i - 24) = i" for i :: nat by (cases "24 \<le> i") auto
  show ?thesis
    unfolding le32_at_def enc32_def
    by (intro bit_word_eqI) (auto simp: nth_append bit_simps, metis high)
qed

lemma le32_at_0: "le32_at 0 (enc32 False w @ ys) = w"
  using le32_at_enc [of "[]" w ys] by simp

lemma ip_suite_of_bytes: "ip_suite_of (ip_suite_bytes s @ ys) = s"
proof -
  have "le32_at 4 (ip_suite_bytes s @ ys) = ip_mask s"
    using le32_at_enc [of "enc32 False (ip_addr s)" "ip_mask s" "enc32 False (ip_gateway s) @ ys"]
    by (simp add: ip_suite_bytes_def)
  moreover have "le32_at 8 (ip_suite_bytes s @ ys) = ip_gateway s"
    using le32_at_enc [of "enc32 False (ip_addr s) @ enc32 False (ip_mask s)" "ip_gateway s" ys]
    by (simp add: ip_suite_bytes_def)
  ultimately show ?thesis by (simp add: ip_suite_of_def ip_suite_bytes_def le32_at_0)
qed

lemma ip_suite_bytes_length [simp]: "length (ip_suite_bytes s) = 12"
  by (simp add: ip_suite_bytes_def)

lemma ip_suite_bytes_inj: "ip_suite_bytes s = ip_suite_bytes t \<longleftrightarrow> s = t"
  by (metis append_Nil2 ip_suite_of_bytes)

lemma suite_simps [simp]:
  "suite_of (set_suite s a) = s" "station_name (set_suite s a) = station_name a"
  "has_name (set_suite s a) = has_name a"
  by (simp_all add: suite_of_def set_suite_def has_name_def)

lemma set_ip_par_valid:
  assumes "pf_cmina_is_ipsuite_valid s"
  shows "set_ip_par temp 12 (ip_suite_bytes s @ rest) err n =
    Some ((not_set err)\<lparr>sw_ret := 0, sw_change_ip := (suite_of (cmina_current n) \<noteq> s)\<rparr>,
      n\<lparr>cmina_current := set_suite s (cmina_current n),
        cmina_nonvolatile := set_suite (if temp then zero_ip_suite else s) (cmina_nonvolatile n)\<rparr>)"
  using assms ip_suite_of_bytes [of s "[]"]
  by (simp add: set_ip_par_def peek_def Let_def upd_current_def upd_nonvolatile_def ip_suite_bytes_inj)

text \<open>
  C36. While an AR is active, a request to change the IP suite is refused, but what it asked for stays: the
  current suite, which the device reports, is the new one, the suite that is kept over a restart
  is the new one too, or none for a temporary change, and it is saved. The network keeps
  the old one.
\<close>

theorem refused_suite_stays:
  assumes "cmina_state n = PF_CMINA_STATE_W_CONNECT" and "has_name (cmina_current n)"
    and "a < PNET_MAX_AR" and "de_ar_in_use env a (de_save_job env (dn_world n))"
    and "\<not> pf_scheduler_is_running (cmina_hello_timeout n)"
    and "pf_cmina_is_ipsuite_valid s" and "s \<noteq> suite_of (cmina_current n)" and "ip_addr s \<noteq> 0"
  shows "\<exists>n'. pf_cmina_dcp_set_ind env PF_DCP_OPT_IP PF_DCP_SUB_IP_PAR q 12 (ip_suite_bytes s @ rest) err n = Some ((-1, err), n') \<and>
     suite_of (cmina_current n') = s \<and> suite_of (cmina_nonvolatile n') = (if is_temporary q then zero_ip_suite else s) \<and>
     dn_world n' = de_save_job env (dn_world n) \<and> cmina_commit_ip_suite n' = cmina_commit_ip_suite n"
proof -
  let ?m = "world (de_save_job env) (n\<lparr>cmina_current := set_suite s (cmina_current n),
        cmina_nonvolatile := set_suite (if is_temporary q then zero_ip_suite else s) (cmina_nonvolatile n)\<rparr>)"
  let ?w = "(not_set err)\<lparr>sw_ret := 0, sw_change_ip := True\<rparr>"
  have "pf_cmina_nbr_of_active_ars env ?m \<noteq> 0"
    using assms(3,4) by (auto simp: pf_cmina_nbr_of_active_ars_def world_def filter_empty_conv)
  moreover have "has_ip (cmina_current ?m)" using assms(8) by (simp add: has_ip_def world_def)
  moreover have "has_name (cmina_current ?m)" using assms(2) by (simp add: world_def)
  moreover have "cmina_state ?m = PF_CMINA_STATE_W_CONNECT" using assms(1) by (simp add: world_def)
  ultimately have ev: "set_evaluate env ?w ?m = Some (-1, cmina_error PNET_ERROR_CODE_1_ACC_INVALID_PARAMETER ?m)"
    by (simp add: set_evaluate_def set_wait_connect_def not_set_def)
  have "set_value PF_DCP_OPT_IP PF_DCP_SUB_IP_PAR q 12 (ip_suite_bytes s @ rest) err n = Some (?w,
      n\<lparr>cmina_current := set_suite s (cmina_current n),
        cmina_nonvolatile := set_suite (if is_temporary q then zero_ip_suite else s) (cmina_nonvolatile n)\<rparr>)"
    using assms(7) by (simp add: set_value_def Let_def set_ip_par_valid [OF assms(6)] dcp_opts dcp_subs)
  then have "pf_cmina_dcp_set_ind env PF_DCP_OPT_IP PF_DCP_SUB_IP_PAR q 12 (ip_suite_bytes s @ rest) err n =
    Some ((-1, err), cmina_error PNET_ERROR_CODE_1_ACC_INVALID_PARAMETER ?m)"
    using assms(1,5) ev by (simp add: pf_cmina_dcp_set_ind_def pf_scheduler_remove_if_running_def cmina_error_def
        world_def not_set_def)
  then show ?thesis by (simp add: cmina_error_def world_def)
qed

text \<open>The address 192.168.0.51 for a device with an active AR.\<close>

lemma refused_suite_stays_witness:
  "\<exists>n'. pf_cmina_dcp_set_ind (demo_dcp_env (\<lambda>a. a = 0)) PF_DCP_OPT_IP PF_DCP_SUB_IP_PAR 1 12
      (ip_suite_bytes (demo_suite\<lparr>ip_addr := 0xc0a80033\<rparr>)) 2 (demo_dcp_net (\<lambda>_. None)) = Some ((-1, 2), n') \<and>
     pf_cmina_get_ipaddr n' = 0xc0a80033"
proof -
  have "pf_cmina_is_ipsuite_valid (demo_suite\<lparr>ip_addr := 0xc0a80033\<rparr>)"
    by (simp add: pf_cmina_is_ipsuite_valid_def pf_cmina_is_netmask_valid_def pf_cmina_is_ipaddress_valid_def
        pf_cmina_is_gateway_valid_def demo_suite_def not_eq_complement)
  then show ?thesis
    using refused_suite_stays [of "demo_dcp_net (\<lambda>_. None)" 0 "demo_dcp_env (\<lambda>a. a = 0)"
      "demo_suite\<lparr>ip_addr := 0xc0a80033\<rparr>" 1 "[]" 2] demo_names
    by (auto simp: demo_dcp_net_def demo_dcp_env_def PNET_MAX_AR_def demo_suite_def pf_cmina_get_ipaddr_def)
qed

end
