(* ===== verification/Dcp_Lemmas.thy ===== *)
theory Dcp_Lemmas
  imports Dcp_Demo Codec_Safety
begin

unbundle bit_operations_syntax

text \<open>
  Facts about DCP: the response never leaves its buffer, the loops over the blocks of a frame end, and every
  handler gives its buffers back.
\<close>

section \<open>The response\<close>

definition response_ok :: "wstate \<Rightarrow> bool" where
  "response_ok w \<longleftrightarrow> (\<exists>b. w_bytes w = Some b \<and> length b = PF_FRAME_BUFFER_SIZE) \<and> w_len w = PF_FRAME_BUFFER_SIZE \<and>
     dcp_start_size \<le> w_pos w \<and> w_pos w \<le> PF_FRAME_BUFFER_SIZE \<and> even (w_pos w)"

lemma response_writer_ok: "response_ok response_writer"
  by (simp add: response_ok_def response_writer_def dcp_start_size_def PF_FRAME_BUFFER_SIZE_def)

lemma w_frame_response:
  assumes "w_frame dcp_start_size w w'" and "response_ok w" and "even (w_pos w')"
  shows "response_ok w'"
proof -
  from assms(2) obtain b where "w_bytes w = Some b" "length b = PF_FRAME_BUFFER_SIZE"
    by (auto simp: response_ok_def)
  with assms show ?thesis by (auto simp: response_ok_def w_frame_def option_rel_Some1)
qed

lemma pad_even_ends:
  assumes "mem_ok w" and "w_bytes w = Some b" and "even (w_len w)" and "w_pos w \<le> w_len w" and "p0 \<le> w_pos w"
  shows "\<exists>w'. pad_even w = Some w' \<and> w_frame p0 w w' \<and> even (w_pos w')"
proof (cases "odd (w_pos w)")
  case True
  let ?w = "snd (run_state (pf_put_byte 0) w)"
  have "w_pos w < w_len w" using True assms(3,4) by (metis le_neq_implies_less)
  then have pos: "w_pos ?w = w_pos w + 1" using assms(2) by (simp add: pf_put_byte_def put_raw_def)
  have "pad_even w = Some ?w"
    using True pos by (subst pad_even.simps, subst pad_even.simps) simp
  moreover have "w_frame p0 w ?w" by (rule wsafe_fromD [OF wsafe_put_byte assms(1,5)])
  ultimately show ?thesis using True pos by auto
next
  case False
  then show ?thesis using assms(5) by (subst pad_even.simps) (simp add: w_frame_refl)
qed

lemma wsafe_block_body:
  "wsafe_from p0 (do {
     pf_put_byte opt; pf_put_byte sub; pf_put_uint16 True len;
     (case info of None \<Rightarrow> State_Monad.return () | Some i \<Rightarrow> pf_put_uint16 True i);
     (if v \<noteq> [] then pf_put_mem v (length v) else State_Monad.return ())
   })"
  by (intro wsafe_intros)

lemma put_block_ok:
  assumes "response_ok w" and "\<And>p. p_value = Some p \<Longrightarrow> unat value_length \<le> length p"
  shows "\<exists>w'. pf_dcp_put_block opt sub info value_length p_value w = Some w' \<and> response_ok w'"
proof (cases "w_pos w + unat value_length \<ge> w_len w")
  case True
  then show ?thesis using assms(1) by (simp add: pf_dcp_put_block_def)
next
  case False
  obtain v where v: "(case p_value of None \<Rightarrow> Some [] | Some p \<Rightarrow> peek 0 (unat value_length) p) = Some v"
    using assms(2) by (cases p_value) (auto simp: peek_def)
  let ?w = "snd (run_state (do {
     pf_put_byte opt; pf_put_byte sub; pf_put_uint16 True (value_length + (if info = None then 0 else 2));
     (case info of None \<Rightarrow> State_Monad.return () | Some i \<Rightarrow> pf_put_uint16 True i);
     (if v \<noteq> [] then pf_put_mem v (length v) else State_Monad.return ()) }) w)"
  obtain u where u: "u = ?w" by blast
  have ok: "mem_ok w" "dcp_start_size \<le> w_pos w" using assms(1) by (auto simp: response_ok_def mem_ok_def)
  have f: "w_frame dcp_start_size w u" unfolding u by (rule wsafe_fromD [OF wsafe_block_body ok])
  have "mem_ok u" by (rule w_frame_mem_ok [OF f ok(1)])
  moreover obtain b where "w_bytes u = Some b" using f assms(1) by (auto simp: response_ok_def w_frame_def option_rel_Some1)
  moreover have "even (w_len u)" "w_pos u \<le> w_len u" "dcp_start_size \<le> w_pos u"
    using f assms(1) by (auto simp: response_ok_def w_frame_def PF_FRAME_BUFFER_SIZE_def)
  ultimately obtain w' where w': "pad_even u = Some w'" "w_frame dcp_start_size u w'" "even (w_pos w')"
    using pad_even_ends by blast
  then have "response_ok w'" using w_frame_response [OF w_frame_trans [OF f w'(2)] assms(1)] by blast
  moreover have "pf_dcp_put_block opt sub info value_length p_value w = pad_even u"
    using False v by (simp add: pf_dcp_put_block_def u)
  ultimately show ?thesis using w'(1) by simp
qed

section \<open>Values\<close>

lemma ase_bytes_length: "ase_ok a \<Longrightarrow> length (ase_bytes a) = 580"
proof -
  assume ok: "ase_ok a"
  have "length (concat (map (enc32 False) xs)) = 4 * length xs" for xs by (induction xs) simp_all
  with ok show ?thesis
    by (simp add: ase_ok_def ase_bytes_def full_ip_suite_bytes_def ip_suite_bytes_def device_id_bytes_def
        PNET_STATION_NAME_MAX_SIZE_def PNET_PORT_NAME_MAX_SIZE_def)
qed

lemma full_ip_suite_bytes_length: "length (dns_addr f) = 4 \<Longrightarrow> length (full_ip_suite_bytes f) = 28"
proof -
  have "length (concat (map (enc32 False) xs)) = 4 * length xs" for xs by (induction xs) simp_all
  then show "length (dns_addr f) = 4 \<Longrightarrow> length (full_ip_suite_bytes f) = 28"
    by (simp add: full_ip_suite_bytes_def ip_suite_bytes_def)
qed

definition value_fits :: "got_value \<Rightarrow> bool" where
  "value_fits v \<longleftrightarrow> (case v of Got i len (Some p) \<Rightarrow> unat len \<le> length p | _ \<Rightarrow> True)"

lemma value_fits_simps [simp]:
  "value_fits (Got i len (Some p)) \<longleftrightarrow> unat len \<le> length p" "value_fits (Got i len None)" "value_fits (Not_got e)" "value_fits Skipped"
  by (simp_all add: value_fits_def)

lemma c_str_length: "unat (of_nat (length (c_str xs)) :: u16) \<le> length xs"
proof -
  have "unat (of_nat (length (c_str xs)) :: u16) \<le> length (c_str xs)" by (simp add: unat_of_nat mod_less_eq_dividend)
  also have "\<dots> \<le> length xs" by (simp add: c_str_def length_takeWhile_le)
  finally show ?thesis .
qed

lemma ip_length_12 [simp]: "length (ip_suite_bytes s) = 12"
  by (simp add: ip_suite_bytes_def)

lemma found_value_simps [simp]:
  "gv_ret (found_value len off a) = 0" "gv_value (found_value len off a) = Some (drop off (ase_bytes a))"
  "gv_length (found_value len off a) = of_nat len"
  by (simp_all add: found_value_def)

lemma peek_found: "ase_ok a \<Longrightarrow> off + k \<le> 580 \<Longrightarrow> \<exists>v. peek 0 k (drop off (ase_bytes a)) = Some v"
  by (simp add: peek_def ase_bytes_length)

lemma plain_found: "ase_ok a \<Longrightarrow> off + len \<le> 580 \<Longrightarrow> value_fits (plain_value (found_value len off a))"
  by (simp add: plain_value_def ase_bytes_length unat_of_nat)

lemma swapped_found:
  "ase_ok a \<Longrightarrow> off + 2 \<le> 580 \<Longrightarrow> \<exists>v. swapped16 (found_value 2 off a) = Some v \<and> value_fits v"
  by (auto simp: swapped16_def peek_def ase_bytes_length)

lemma suite_found:
  "ase_ok a \<Longrightarrow> \<exists>v. suite_value (found_value 12 off_full_ip_suite a) = Some v \<and> value_fits v"
  by (auto simp: suite_value_def peek_def ase_bytes_length Let_def ase_offsets)

lemma full_suite_found:
  "ase_ok a \<Longrightarrow> \<exists>v. full_suite_value (found_value 28 off_full_ip_suite a) = Some v \<and> value_fits v"
  by (auto simp: full_suite_value_def peek_def ase_bytes_length Let_def ase_offsets swap_full_def full_ip_suite_of_def
      full_ip_suite_bytes_length)

lemma str_found: "\<exists>v. str_value (found_value len off a) = Some v \<and> value_fits v"
  using c_str_length [of "drop off (ase_bytes a)"] by (auto simp: str_value_def)

lemma options_length: "length options_value = 28"
  by (simp add: options_value_def device_options_def)

lemma found_one_more: "(found_value 1 off a)\<lparr>gv_length := 2\<rparr> = found_value 2 off a"
  by (simp add: found_value_def)

lemma device_property_value:
  assumes "ase_ok (cmina_current n)"
  shows "\<exists>v. value_of_option PF_DCP_OPT_DEVICE_PROPERTIES sub idt al (pf_cmina_dcp_get_req PF_DCP_OPT_DEVICE_PROPERTIES sub 0 None n) = Some v \<and> value_fits v"
proof -
  note f = plain_found [OF assms] str_found swapped_found [OF assms] found_one_more
  consider "sub = 1" | "sub = 2" | "sub = 3" | "sub = 4" | "sub = 5" | "sub = 6" | "sub = 7" | "sub = 8" | "sub = 9" |
    "sub \<notin> {1, 2, 3, 4, 5, 6, 7, 8, 9}" by blast
  then show ?thesis
    using f c_str_length
    by cases (auto simp: value_of_option_def pf_cmina_dcp_get_req_def dcp_opts dcp_subs Let_def ase_offsets options_length
        plain_value_def [of "\<lparr>gv_ret = -1, gv_length = l, gv_value = v, gv_error = e\<rparr>" for l v e] split: option.splits)
qed

lemma ip_value:
  assumes "ase_ok (cmina_current n)"
  shows "\<exists>v. value_of_option PF_DCP_OPT_IP sub idt al (pf_cmina_dcp_get_req PF_DCP_OPT_IP sub 0 None n) = Some v \<and> value_fits v"
proof -
  note f = plain_found [OF assms] suite_found [OF assms] full_suite_found [OF assms]
  consider "sub = 1" | "sub = 2" | "sub = 3" | "sub \<notin> {1, 2, 3}" by blast
  then show ?thesis
    using f
    by cases (auto simp: value_of_option_def pf_cmina_dcp_get_req_def dcp_opts dcp_subs Let_def ase_offsets
        plain_value_def [of "\<lparr>gv_ret = -1, gv_length = l, gv_value = v, gv_error = e\<rparr>" for l v e])
qed

lemma value_of_option_ok:
  assumes "ase_ok (cmina_current n)"
  shows "\<exists>v. value_of_option opt sub idt al (pf_cmina_dcp_get_req opt sub 0 None n) = Some v \<and> value_fits v"
proof -
  consider "opt = PF_DCP_OPT_IP" | "opt = PF_DCP_OPT_DEVICE_PROPERTIES" | "opt = PF_DCP_OPT_DEVICE_INITIATIVE" |
    "opt \<notin> {PF_DCP_OPT_IP, PF_DCP_OPT_DEVICE_PROPERTIES, PF_DCP_OPT_DEVICE_INITIATIVE}" by blast
  then show ?thesis
  proof cases
    case 3
    then show ?thesis using swapped_found [OF assms, of off_device_initiative]
      by (auto simp: value_of_option_def pf_cmina_dcp_get_req_def dcp_opts Let_def ase_offsets swapped16_def
          split: if_splits)
  next
    case 4
    then show ?thesis
      by (auto simp: value_of_option_def pf_cmina_dcp_get_req_def Let_def plain_value_def)
  qed (use ip_value [OF assms] device_property_value [OF assms] in blast)+
qed

lemma get_req_ok:
  assumes "ase_ok (cmina_current n)" and "response_ok w"
  shows "\<exists>w'. pf_dcp_get_req opt sub idt al n w = Some w' \<and> response_ok w'"
proof -
  obtain v where v: "value_of_option opt sub idt al (pf_cmina_dcp_get_req opt sub 0 None n) = Some v" "value_fits v"
    using value_of_option_ok [OF assms(1)] by blast
  show ?thesis
  proof (cases v)
    case (Got i len p)
    then show ?thesis using v put_block_ok [OF assms(2), of p len opt sub "Some i"]
      by (cases p) (auto simp: pf_dcp_get_req_def)
  next
    case (Not_got e)
    then show ?thesis using v put_block_ok [OF assms(2), of "Some [opt, sub, e]" 3 PF_DCP_OPT_CONTROL PF_DCP_SUB_CONTROL_RESPONSE None]
      by (auto simp: pf_dcp_get_req_def)
  next
    case Skipped
    then show ?thesis using v assms(2) by (simp add: pf_dcp_get_req_def)
  qed
qed

section \<open>Setting values\<close>

text \<open>The data of the device are sound, and a step keeps them, the buffers and the configuration.\<close>

definition dcp_ok :: "'w dcp_net \<Rightarrow> bool" where
  "dcp_ok n \<longleftrightarrow> timer_ok (dn_sched n) \<and> ase_ok (cmina_current n) \<and> ase_ok (cmina_nonvolatile n) \<and>
     length (cfg_station_name (fspm_cfg n)) = PNET_STATION_NAME_MAX_SIZE \<and> length (main_port_mac n) = 6"

definition calm_dcp :: "'w dcp_net \<Rightarrow> 'w dcp_net \<Rightarrow> bool" where
  "calm_dcp n n' \<longleftrightarrow> dcp_ok n' \<and> dn_bufs n' = dn_bufs n \<and> dn_next_buf n \<le> dn_next_buf n' \<and> main_port_mac n' = main_port_mac n \<and>
     fspm_cfg n' = fspm_cfg n"

text \<open>The contract of what DCP calls: it returns, leaves the device sound and does not touch the buffers.\<close>

definition callees_ok :: "'w dcp_env \<Rightarrow> bool" where
  "callees_ok env \<longleftrightarrow>
     (\<forall>a c d n. dcp_ok n \<longrightarrow> (\<exists>n'. de_abort_ar env a c d n = Some n' \<and> calm_dcp n n')) \<and>
     (\<forall>n. dcp_ok n \<longrightarrow> (\<exists>n'. de_lldp_restart env n = Some n' \<and> calm_dcp n n')) \<and>
     (\<forall>w f. de_file_load_ip env w = Some f \<longrightarrow> ase_ok f)"

lemma calm_dcp_refl: "dcp_ok n \<Longrightarrow> calm_dcp n n"
  by (simp add: calm_dcp_def)

lemma calm_dcp_trans: "calm_dcp n m \<Longrightarrow> calm_dcp m k \<Longrightarrow> calm_dcp n k"
  by (simp add: calm_dcp_def)

lemma calm_ok: "calm_dcp n m \<Longrightarrow> dcp_ok m"
  by (simp add: calm_dcp_def)

lemma calm_fields [simp]:
  "calm_dcp n (world f m) \<longleftrightarrow> calm_dcp n m"
  "calm_dcp n (m\<lparr>cmina_commit_ip_suite := x1\<rparr>) \<longleftrightarrow> calm_dcp n m" "calm_dcp n (m\<lparr>cmina_state := x2\<rparr>) \<longleftrightarrow> calm_dcp n m"
  "calm_dcp n (m\<lparr>dcp_global_block_qualifier := x3\<rparr>) \<longleftrightarrow> calm_dcp n m" "calm_dcp n (cmina_error x4 m) \<longleftrightarrow> calm_dcp n m"
  "calm_dcp n (m\<lparr>dcp_led_timeout := x5\<rparr>) \<longleftrightarrow> calm_dcp n m"
  by (simp_all add: calm_dcp_def dcp_ok_def world_def cmina_error_def)

lemma calm_sched: "calm_dcp n m \<Longrightarrow> timer_ok s \<Longrightarrow> calm_dcp n (m\<lparr>dn_sched := s\<rparr>)"
  by (auto simp: calm_dcp_def dcp_ok_def)

lemma calm_ase:
  "calm_dcp n m \<Longrightarrow> ase_ok a \<Longrightarrow> calm_dcp n (m\<lparr>cmina_current := a\<rparr>)" "calm_dcp n m \<Longrightarrow> ase_ok a \<Longrightarrow> calm_dcp n (m\<lparr>cmina_nonvolatile := a\<rparr>)"
  by (auto simp: calm_dcp_def dcp_ok_def)

lemma calm_ases: "calm_dcp n m \<Longrightarrow> ase_ok (cmina_current m)" "calm_dcp n m \<Longrightarrow> ase_ok (cmina_nonvolatile m)"
  by (simp_all add: calm_dcp_def dcp_ok_def)

lemma ase_ok_set_full: "ase_ok a \<Longrightarrow> length (dns_addr f) = 4 \<Longrightarrow> ase_ok (set_full f a)"
  by (simp add: ase_ok_def set_full_def)

lemma ase_ok_set_suite: "ase_ok a \<Longrightarrow> ase_ok (set_suite s a)"
  by (simp add: ase_ok_def set_suite_def)

lemma ase_ok_station_name: "ase_ok a \<Longrightarrow> length xs = PNET_STATION_NAME_MAX_SIZE \<Longrightarrow> 0 \<in> set xs \<Longrightarrow> ase_ok (a\<lparr>station_name := xs\<rparr>)"
  by (simp add: ase_ok_def)

lemma set_ip_par_ok:
  assumes "dcp_ok n" and "12 \<le> length p_value"
  shows "\<exists>s n'. set_ip_par temp value_length p_value err n = Some (s, n') \<and> calm_dcp n n'"
  using assms calm_dcp_refl [OF assms(1)]
  by (auto simp: set_ip_par_def peek_def Let_def upd_current_def upd_nonvolatile_def intro!: calm_ase ase_ok_set_suite
      dest: calm_ases)

lemma set_ip_suite_ok:
  assumes "dcp_ok n" and "28 \<le> length p_value"
  shows "\<exists>s n'. set_ip_suite temp value_length p_value err n = Some (s, n') \<and> calm_dcp n n'"
  using assms calm_dcp_refl [OF assms(1)]
  by (auto simp: set_ip_suite_def peek_def Let_def upd_current_def upd_nonvolatile_def full_ip_suite_of_def zero_full_ip_suite_def
      set_full_def ase_ok_def intro!: calm_ase dest: calm_ases)

lemma write_name:
  assumes "length old = PNET_STATION_NAME_MAX_SIZE" and "length v < PNET_STATION_NAME_MAX_SIZE"
  shows "length (write_at 0 (v @ [0]) old) = PNET_STATION_NAME_MAX_SIZE \<and> 0 \<in> set (write_at 0 (v @ [0]) old)"
  using assms by (auto simp: write_at_def)

lemma set_station_name_ok:
  assumes "dcp_ok n" and "unat value_length < PNET_STATION_NAME_MAX_SIZE \<Longrightarrow> unat value_length \<le> length p_value"
  shows "\<exists>s n'. set_station_name temp value_length p_value err n = Some (s, n') \<and> calm_dcp n n'"
proof -
  have old: "length (station_name (cmina_current n)) = PNET_STATION_NAME_MAX_SIZE"
    "length (station_name (cmina_nonvolatile n)) = PNET_STATION_NAME_MAX_SIZE" "ase_ok (cmina_current n)" "ase_ok (cmina_nonvolatile n)"
    using assms(1) by (auto simp: dcp_ok_def ase_ok_def)
  have zeros: "0 \<in> set (replicate PNET_STATION_NAME_MAX_SIZE (0 :: u8))" by (simp add: PNET_STATION_NAME_MAX_SIZE_def)
  show ?thesis
    using assms calm_dcp_refl [OF assms(1)] write_name [OF old(1), of "take (unat value_length) p_value"]
      write_name [OF old(2), of "take (unat value_length) p_value"] old(3,4) zeros
    by (auto simp: set_station_name_def peek_def Let_def upd_current_def upd_nonvolatile_def
        intro!: calm_ase ase_ok_station_name)
qed

lemma set_value_ok:
  assumes "dcp_ok n" and "28 \<le> length p_value \<or> (opt \<noteq> PF_DCP_OPT_IP \<or> (sub = PF_DCP_SUB_IP_PAR \<and> 12 \<le> length p_value))"
    and "opt = PF_DCP_OPT_DEVICE_PROPERTIES \<Longrightarrow> unat value_length < PNET_STATION_NAME_MAX_SIZE \<Longrightarrow> unat value_length \<le> length p_value"
  shows "\<exists>s n'. set_value opt sub q value_length p_value err n = Some (s, n') \<and> calm_dcp n n'"
  using assms set_ip_par_ok [OF assms(1)] set_ip_suite_ok [OF assms(1)] set_station_name_ok [OF assms(1)] calm_dcp_refl [OF assms(1)]
  by (auto simp: set_value_def Let_def dcp_opts dcp_subs)

lemma abort_ars_ok:
  assumes "callees_ok env" and "calm_dcp n m"
  shows "\<exists>k m'. abort_ars env err as m = Some (k, m') \<and> calm_dcp n m'"
  using assms(2)
proof (induction as arbitrary: m)
  case (Cons a as)
  obtain m1 where m1: "de_abort_ar env a PNET_ERROR_CODE_1_RTA_ERR_CLS_PROTOCOL err m = Some m1" "calm_dcp m m1"
    using assms(1) calm_ok [OF Cons.prems] unfolding callees_ok_def by blast
  from Cons.IH [OF calm_dcp_trans [OF Cons.prems m1(2)]] obtain k m' where
    "abort_ars env err as m1 = Some (k, m')" "calm_dcp n m'" by blast
  moreover from Cons.IH [OF Cons.prems] obtain k' m'' where
    "abort_ars env err as m = Some (k', m'')" "calm_dcp n m''" by blast
  ultimately show ?case using m1(1) by simp
qed simp

lemma set_evaluate_ok:
  assumes "callees_ok env" and "calm_dcp n m"
  shows "\<exists>r m'. set_evaluate env s m = Some (r, m') \<and> calm_dcp n m'"
proof -
  have wait: "\<exists>r m'. set_wait_connect env s m = Some (r, m') \<and> calm_dcp n m'"
    using abort_ars_ok [OF assms, of PNET_ERROR_CODE_2_ABORT_DCP_RESET_TO_FACTORY "[0..<PNET_MAX_AR]"]
      abort_ars_ok [OF assms, of PNET_ERROR_CODE_2_ABORT_DCP_STATION_NAME_CHANGED "[0..<PNET_MAX_AR]"] assms(2)
    by (auto simp: set_wait_connect_def Let_def pf_cmina_abort_active_ars_def)
  show ?thesis using wait assms(2) by (cases "cmina_state m") (auto simp: set_evaluate_def set_before_connect_def Let_def)
qed

lemma copy_str_ok: "length (copy_str 26 xs) = 26 \<and> copy_str 26 xs ! 25 = 0"
  by (auto simp: copy_str_def Let_def)

lemma c_str_shorter: "0 \<in> set xs \<Longrightarrow> length (c_str xs) < length xs"
  by (induction xs) (auto simp: c_str_def)

lemma trim_from_le: "trim_from ix xs \<le> ix"
proof (induction ix xs rule: trim_from.induct)
  case (1 ix xs)
  then show ?case by (subst trim_from.simps) (auto intro: le_trans)
qed

lemma copied_product_name_ok: "length (copied_product_name xs) = 26 \<and> 0 \<in> set (copied_product_name xs)"
proof -
  let ?c = "copy_str 26 xs"
  have "0 \<in> set ?c" using copy_str_ok [of xs] nth_mem [of 25 ?c] by simp
  then have "trim_from (length (c_str ?c)) ?c < length ?c"
    using c_str_shorter le_less_trans [OF trim_from_le] by blast
  then show ?thesis using copy_str_ok [of xs] by (simp add: copied_product_name_def Let_def set_update_memI)
qed

lemma default_fields_ok: "ase_ok a \<Longrightarrow> length mac = 6 \<Longrightarrow> ase_ok (default_fields c mac a)"
  by (simp add: ase_ok_def default_fields_def PNET_PORT_NAME_MAX_SIZE_def)

lemma power_on_fields_ok:
  assumes "ase_ok a" and "length (cfg_station_name c) = PNET_STATION_NAME_MAX_SIZE" and "\<And>f. file = Some f \<Longrightarrow> ase_ok f"
  shows "ase_ok (power_on_fields c file a)"
proof -
  have z: "length xs = PNET_STATION_NAME_MAX_SIZE \<Longrightarrow> 0 \<in> set (xs[PNET_STATION_NAME_MAX_SIZE - 1 := 0 :: u8])" for xs
    by (simp add: set_update_memI PNET_STATION_NAME_MAX_SIZE_def)
  show ?thesis using assms z by (auto simp: power_on_fields_def ase_ok_def set_suite_def split: option.split)
qed

lemma reset_communication_ok:
  assumes "dcp_ok n"
  shows "calm_dcp n (reset_communication env n)"
proof -
  have "ase_ok (set_suite zero_ip_suite (cmina_nonvolatile n)\<lparr>station_name := replicate PNET_STATION_NAME_MAX_SIZE 0\<rparr>)"
    using assms by (auto simp: dcp_ok_def ase_ok_def set_suite_def PNET_STATION_NAME_MAX_SIZE_def)
  then show ?thesis
    using calm_dcp_refl [OF assms] by (simp add: reset_communication_def upd_nonvolatile_def calm_ase)
qed

lemma upd_nonvolatile_calm: "calm_dcp n m \<Longrightarrow> ase_ok (f (cmina_nonvolatile m)) \<Longrightarrow> calm_dcp n (upd_nonvolatile f m)"
  by (simp add: upd_nonvolatile_def calm_ase)

lemma set_default_cfg_ok:
  assumes "dcp_ok n" and "\<And>w f. de_file_load_ip env w = Some f \<Longrightarrow> ase_ok f"
  shows "\<exists>n'. pf_cmina_set_default_cfg env mode n = (0, n') \<and> calm_dcp n n'"
proof -
  have parts: "length (main_port_mac n) = 6" "length (cfg_station_name (fspm_cfg n)) = PNET_STATION_NAME_MAX_SIZE"
    using assms(1) by (auto simp: dcp_ok_def)
  obtain n1 where n1: "n1 = upd_nonvolatile (default_fields (fspm_cfg n) (main_port_mac n)) n" by blast
  have c1: "calm_dcp n n1" unfolding n1
    by (intro upd_nonvolatile_calm calm_dcp_refl assms(1) default_fields_ok calm_ases [OF calm_dcp_refl] parts)
  obtain n2 where n2: "n2 = (if mode = 0 then upd_nonvolatile (power_on_fields (fspm_cfg n) (de_file_load_ip env (dn_world n1))) n1 else n1)" by blast
  have c2: "calm_dcp n n2" unfolding n2 using c1 power_on_fields_ok [OF calm_ases(2) [OF c1] parts(2) assms(2)]
    by (auto intro!: upd_nonvolatile_calm)
  obtain n3 where n3: "n3 = (if mode = 1 \<or> mode \<ge> 3 then world (de_clear_im_data env) n2 else n2)" by blast
  have c3: "calm_dcp n n3" unfolding n3 using c2 by simp
  obtain n4 where n4: "n4 = (if mode = 2 \<or> mode \<ge> 3 then reset_communication env n3 else n3)" by blast
  have c4: "calm_dcp n n4" unfolding n4 using c3 calm_dcp_trans [OF c3 reset_communication_ok [OF calm_ok [OF c3]]] by simp
  obtain n5 where n5: "n5 = (if mode > 0 then world (de_reset_ind env (mode = 1 \<or> mode \<ge> 3) mode) n4 else n4)" by blast
  have c5: "calm_dcp n n5" unfolding n5 using c4 by simp
  obtain n6 where n6: "n6 = world (de_save_job env) (upd_nonvolatile (\<lambda>a. a\<lparr>standard_gw_value := 0, instance_id_high := 0,
      instance_id_low := 0, product_name := copied_product_name (cfg_product_name (fspm_cfg n))\<rparr>) n5)" by blast
  have "ase_ok ((cmina_nonvolatile n5)\<lparr>standard_gw_value := 0, instance_id_high := 0,
      instance_id_low := 0, product_name := copied_product_name (cfg_product_name (fspm_cfg n))\<rparr>)"
    using calm_ases(2) [OF c5] copied_product_name_ok by (simp add: ase_ok_def)
  then have c6: "calm_dcp n n6" unfolding n6 using c5 by (simp add: upd_nonvolatile_calm)
  have "pf_cmina_set_default_cfg env mode n = (0, n6\<lparr>cmina_current := cmina_nonvolatile n6\<rparr>)"
    by (simp add: pf_cmina_set_default_cfg_def Let_def n1 n2 n3 n4 n5 n6 cong: if_cong)
  then show ?thesis using calm_ase(1) [OF c6 calm_ases(2) [OF c6]] by simp
qed

section \<open>Requests to set\<close>

lemma remove_calm:
  assumes "dcp_ok n"
  shows "\<exists>h s. pf_scheduler_remove_if_running h0 (dn_sched n) = Some (h, s) \<and> timer_ok s"
  using timer.cancel_any [of "dn_sched n" h0] assms by (auto simp: dcp_ok_def)

text \<open>What a request needs of the memory of a new value.\<close>

definition value_there :: "u8 \<Rightarrow> u8 \<Rightarrow> u16 \<Rightarrow> u8 list \<Rightarrow> bool" where
  "value_there opt sub value_length p_value \<longleftrightarrow>
     (opt = PF_DCP_OPT_IP \<longrightarrow> (sub = PF_DCP_SUB_IP_PAR \<and> 12 \<le> length p_value) \<or> 28 \<le> length p_value) \<and>
     (opt = PF_DCP_OPT_DEVICE_PROPERTIES \<longrightarrow> unat value_length < PNET_STATION_NAME_MAX_SIZE \<longrightarrow> unat value_length \<le> length p_value)"

lemma set_ind_ok:
  assumes "dcp_ok n" and "callees_ok env" and "value_there opt sub len v"
  shows "\<exists>r e n'. pf_cmina_dcp_set_ind env opt sub q len v err n = Some ((r, e), n') \<and> calm_dcp n n'"
proof -
  obtain h s where rem: "pf_scheduler_remove_if_running (cmina_hello_timeout n) (dn_sched n) = Some (h, s)" "timer_ok s"
    using remove_calm [OF assms(1)] by blast
  obtain n1 where n1: "n1 = n\<lparr>cmina_hello_timeout := h, dn_sched := s\<rparr>" by blast
  have c1: "calm_dcp n n1" using rem(2) assms(1) unfolding n1 by (auto simp: calm_dcp_def dcp_ok_def)
  obtain sw n2 where n2: "set_value opt sub q len v err n1 = Some (sw, n2)" "calm_dcp n1 n2"
    using set_value_ok [OF calm_ok [OF c1], of v opt sub len q err] assms(3) unfolding value_there_def by blast
  have c2: "calm_dcp n n2" by (rule calm_dcp_trans [OF c1 n2(2)])
  obtain n3 where n3: "n3 = (if sw_ret sw = 0 then world (de_save_job env) n2 else n2)" by blast
  have c3: "calm_dcp n n3" using c2 by (simp add: n3)
  obtain r n4 where n4: "(if sw_ret sw = 0 then set_evaluate env sw n3 else Some (sw_ret sw, n3)) = Some (r, n4)" "calm_dcp n n4"
    using set_evaluate_ok [OF assms(2) c3, of sw] c3 by (cases "sw_ret sw = 0"; fastforce)
  obtain n5 where n5: "n5 = (if (cmina_state n4 = PF_CMINA_STATE_SET_IP \<or> cmina_state n4 = PF_CMINA_STATE_SET_NAME) \<and>
      (sw_ret sw = 0 \<and> has_name (cmina_current n3) \<and> has_ip (cmina_current n3))
      then n4\<lparr>cmina_state := PF_CMINA_STATE_W_CONNECT\<rparr> else n4)" by blast
  have c5: "calm_dcp n n5" using n4(2) by (simp add: n5)
  have eq: "pf_cmina_dcp_set_ind env opt sub q len v err n =
      (if sw_reset sw then let (ret, n) = pf_cmina_set_default_cfg env (sw_reset_mode sw) n5 in Some ((ret, sw_error sw), n)
       else Some ((r, sw_error sw), n5))"
    by (simp only: pf_cmina_dcp_set_ind_def Let_def rem(1) Option.bind.bind_lunit case_prod_conv n1 [symmetric] n2(1) n3 [symmetric]
        n4(1) n5 [symmetric])
  have "\<And>w f. de_file_load_ip env w = Some f \<Longrightarrow> ase_ok f" using assms(2) by (simp add: callees_ok_def)
  then obtain n6 where "pf_cmina_set_default_cfg env (sw_reset_mode sw) n5 = (0, n6)" "calm_dcp n5 n6"
    using set_default_cfg_ok [OF calm_ok [OF c5]] by blast
  then show ?thesis using eq c5 calm_dcp_trans [OF c5] by (cases "sw_reset sw") auto
qed

lemma dcp_add_ok:
  assumes "calm_dcp n m" and "\<And>h k. calm_dcp n (put h k) \<longleftrightarrow> calm_dcp n k"
  shows "\<exists>r m'. dcp_add d cb arg get put m = Some (r, m') \<and> calm_dcp n m'"
proof -
  have "timer_ok (dn_sched m)" using calm_ok [OF assms(1)] by (simp add: dcp_ok_def)
  from timer.add_total [OF this] obtain r h s where
    "pf_scheduler_add (dn_now m) d cb arg (get m) (dn_sched m) = Some (r, h, s)" "timer_ok s" by blast
  then show ?thesis using assms calm_sched [OF assms(1)] by (simp add: dcp_add_def)
qed

lemma calm_handles [simp]:
  "calm_dcp n (m\<lparr>cmina_hello_timeout := y1\<rparr>) \<longleftrightarrow> calm_dcp n m" "calm_dcp n (m\<lparr>dcp_identresp_timeout := y2\<rparr>) \<longleftrightarrow> calm_dcp n m"
  "calm_dcp n (m\<lparr>dcp_sam_timeout := y3\<rparr>) \<longleftrightarrow> calm_dcp n m" "calm_dcp n (m\<lparr>dcp_sam := y4\<rparr>) \<longleftrightarrow> calm_dcp n m"
  "calm_dcp n (m\<lparr>dcp_delayed_response_waiting := y5\<rparr>) \<longleftrightarrow> calm_dcp n m"
  by (simp_all add: calm_dcp_def dcp_ok_def)

lemma signal_led_ok:
  assumes "calm_dcp n m"
  shows "\<exists>r m'. pf_dcp_trigger_signal_led m = Some (r, m') \<and> calm_dcp n m'"
proof -
  have "\<exists>r m'. dcp_add PF_DCP_SIGNAL_LED_HALF_INTERVAL Pf_dcp_control_signal_led (Led_arg k) dcp_led_timeout
      (\<lambda>h n. n\<lparr>dcp_led_timeout := h\<rparr>) m = Some (r, m') \<and> calm_dcp n m'" for k
    by (rule dcp_add_ok [OF assms]) simp
  then show ?thesis using assms by (fastforce simp: pf_dcp_trigger_signal_led_def add_led_def)
qed

lemma restart_sam_ok:
  assumes "calm_dcp n m"
  shows "\<exists>m'. pf_dcp_restart_sam_timeout mac m = Some m' \<and> calm_dcp n m'"
proof -
  have t: "timer_ok (dn_sched m)" using calm_ok [OF assms] by (simp add: dcp_ok_def)
  obtain h s where rem: "pf_scheduler_remove_if_running (dcp_sam_timeout m) (dn_sched m) = Some (h, s)" "timer_ok s"
    using timer.cancel_any [OF t] by blast
  obtain r h' s' where "pf_scheduler_add (dn_now m) PF_DCP_SAM_TIMEOUT Pf_dcp_clear_sam No_arg h s = Some (r, h', s')" "timer_ok s'"
    using timer.add_total [OF rem(2)] by blast
  with rem have "pf_scheduler_restart (dn_now m) PF_DCP_SAM_TIMEOUT Pf_dcp_clear_sam No_arg (dcp_sam_timeout m) (dn_sched m) = Some (r, h', s')"
    by (simp add: pf_scheduler_restart_def)
  moreover have "calm_dcp n (m\<lparr>dcp_sam := mac, dcp_sam_timeout := h', dn_sched := s'\<rparr>)"
    using assms \<open>timer_ok s'\<close> by (auto simp: calm_dcp_def dcp_ok_def)
  ultimately show ?thesis by (simp add: pf_dcp_restart_sam_timeout_def)
qed

lemma set_suite_block_ok:
  assumes "dcp_ok n" and "callees_ok env" and "28 \<le> length v" and "sub = PF_DCP_SUB_IP_PAR \<and> sz = 12 \<or> sz = 28"
  shows "\<exists>re n'. set_suite_block env sub sz q len v err n = Some (re, n') \<and> calm_dcp n n'"
proof (cases "unat len = 12")
  case True
  let ?v = "if sz = 12 then ip_suite_bytes (swap_suite (ip_suite_of (take sz v))) else full_ip_suite_bytes (swap_full (full_ip_suite_of (take sz v)))"
  have "value_there PF_DCP_OPT_IP sub len ?v"
    using assms(4) by (auto simp: value_there_def dcp_opts full_ip_suite_bytes_length swap_full_def full_ip_suite_of_def)
  from set_ind_ok [OF assms(1,2) this, of q err] show ?thesis
    using assms(3,4) True by (auto simp: set_suite_block_def peek_def)
qed (use calm_dcp_refl [OF assms(1)] in \<open>simp add: set_suite_block_def\<close>)

lemma set_control_block_ok:
  assumes "dcp_ok n" and "callees_ok env"
  shows "\<exists>re n'. set_control_block env sub q len v err n = Some (re, n') \<and> calm_dcp n n'"
proof -
  have "value_there PF_DCP_OPT_CONTROL sub len v" by (simp add: value_there_def dcp_opts)
  from set_ind_ok [OF assms this, of q err] obtain r e n' where
    "pf_cmina_dcp_set_ind env PF_DCP_OPT_CONTROL sub q len v err n = Some ((r, e), n')" "calm_dcp n n'" by blast
  moreover obtain r' m where "pf_dcp_trigger_signal_led n = Some (r', m)" "calm_dcp n m"
    using signal_led_ok [OF calm_dcp_refl [OF assms(1)]] by blast
  ultimately show ?thesis using calm_dcp_refl [OF assms(1)] by (simp add: set_control_block_def)
qed

lemma set_block_ok:
  assumes "dcp_ok n" and "callees_ok env" and "28 \<le> length v"
    and "unat len < PNET_STATION_NAME_MAX_SIZE \<Longrightarrow> unat len \<le> length v"
  shows "\<exists>re n'. set_block env opt sub q len v n = Some (re, n') \<and> calm_dcp n n'"
proof -
  have "value_there PF_DCP_OPT_DEVICE_PROPERTIES sub len v" using assms(4) by (simp add: value_there_def dcp_opts)
  from set_ind_ok [OF assms(1,2) this, of q PF_DCP_BLOCK_ERROR_SUBOPTION_NOT_SUPPORTED] obtain r e n' where
    "pf_cmina_dcp_set_ind env PF_DCP_OPT_DEVICE_PROPERTIES sub q len v PF_DCP_BLOCK_ERROR_SUBOPTION_NOT_SUPPORTED n = Some ((r, e), n')"
    "calm_dcp n n'" by blast
  moreover obtain r2 e2 n2 where
    "set_control_block env sub q len v PF_DCP_BLOCK_ERROR_SUBOPTION_NOT_SUPPORTED n = Some ((r2, e2), n2)" "calm_dcp n n2"
    using set_control_block_ok [OF assms(1,2), of sub q len v PF_DCP_BLOCK_ERROR_SUBOPTION_NOT_SUPPORTED] by force
  moreover obtain r3 e3 n3 where
    "set_suite_block env sub 28 q len v PF_DCP_BLOCK_ERROR_SUBOPTION_NOT_SUPPORTED n = Some ((r3, e3), n3)" "calm_dcp n n3"
    using set_suite_block_ok [OF assms(1,2,3), of sub 28 q len PF_DCP_BLOCK_ERROR_SUBOPTION_NOT_SUPPORTED] by force
  moreover obtain r4 e4 n4 where
    "set_suite_block env PF_DCP_SUB_IP_PAR 12 q len v PF_DCP_BLOCK_ERROR_SUBOPTION_NOT_SUPPORTED n = Some ((r4, e4), n4)" "calm_dcp n n4"
    using set_suite_block_ok [OF assms(1,2,3), of PF_DCP_SUB_IP_PAR 12 q len PF_DCP_BLOCK_ERROR_SUBOPTION_NOT_SUPPORTED] by force
  ultimately show ?thesis using calm_dcp_refl [OF assms(1)] unfolding set_block_def Let_def by auto
qed

lemma set_req_ok:
  assumes "dcp_ok n" and "callees_ok env" and "28 \<le> length v" and "response_ok w"
    and "unat len < PNET_STATION_NAME_MAX_SIZE \<Longrightarrow> unat len \<le> length v"
  shows "\<exists>w' n'. pf_dcp_set_req env opt sub q len v (w, n) = Some (w', n') \<and> calm_dcp n n' \<and> response_ok w'"
proof -
  obtain r e n' where "set_block env opt sub q len v n = Some ((r, e), n')" "calm_dcp n n'"
    using set_block_ok [OF assms(1,2,3,5), of opt sub q] by force
  moreover obtain w' where "pf_dcp_put_block PF_DCP_OPT_CONTROL PF_DCP_SUB_CONTROL_RESPONSE None 3
      (Some [opt, sub, if r = 0 then PF_DCP_BLOCK_ERROR_NO_ERROR else e]) w = Some w'" "response_ok w'"
    using put_block_ok [OF assms(4), of "Some [opt, sub, if r = 0 then PF_DCP_BLOCK_ERROR_NO_ERROR else e]" 3
      PF_DCP_OPT_CONTROL PF_DCP_SUB_CONTROL_RESPONSE None] by (auto split del: if_split)
  ultimately show ?thesis by (simp add: pf_dcp_set_req_def Let_def)
qed

section \<open>The blocks of a request\<close>

text \<open>
  The positions stay below the length of the frame and a block header, so they do not wrap, and each block
  moves on by its header at least.
\<close>

lemma align_small: "p < 65535 \<Longrightarrow> align16 p \<in> {p, p + 1}"
  by (simp add: align16_def add16_def)

lemma add16_small: "a + b < 65536 \<Longrightarrow> add16 a b = a + b"
  by (simp add: add16_def)

lemma block_hdr_there: "pos + 4 \<le> length xs \<Longrightarrow> \<exists>hdr. block_hdr_at pos xs = Some hdr"
  by (simp add: block_hdr_at_def peek_def)

lemma set_blocks_ok:
  assumes "callees_ok env" and "dcplen + 32 \<le> length xs" and "dcplen \<le> 60000"
  shows "calm_dcp n m \<Longrightarrow> response_ok w \<Longrightarrow>
    \<exists>w' m'. set_blocks env xs dcplen pos hdr (w, m) = Some (w', m') \<and> calm_dcp n m' \<and> response_ok w'"
proof (induction "dcplen + 1 - pos" arbitrary: pos hdr w m rule: less_induct)
  case less
  obtain opt sub len where hdr: "hdr = (opt, sub, len)" by (cases hdr) auto
  show ?case
  proof (cases "dcplen \<ge> pos + len")
    case True
    obtain vl where vl: "vl = (of_nat (add16 len 65534) :: u16)" by blast
    obtain q where q: "peek16 pos xs = Some q" using True assms(2) by (auto simp: peek16_def peek_def)
    have small: "add16 pos 2 = pos + 2" "add16 pos len = pos + len" using True assms(3) by (simp_all add: add16_small)
    have "unat vl \<le> length (drop (pos + 2) xs)" if "unat vl < PNET_STATION_NAME_MAX_SIZE"
    proof -
      have "unat vl = add16 len 65534" unfolding vl by (simp add: unat_of_nat add16_def)
      moreover have "add16 len 65534 = (if len < 2 then len + 65534 else len - 2)"
        using True assms(3) by (simp add: add16_def le_mod_geq)
      ultimately show ?thesis using that True assms(2,3) by (auto simp: PNET_STATION_NAME_MAX_SIZE_def split: if_splits)
    qed
    moreover have "28 \<le> length (drop (pos + 2) xs)" using True assms(2) by simp
    ultimately obtain w1 m1 where req: "pf_dcp_set_req env opt sub q vl (drop (pos + 2) xs) (w, m) = Some (w1, m1)" "calm_dcp m m1" "response_ok w1"
      using set_req_ok [OF calm_ok [OF less.prems(1)] assms(1) _ less.prems(2), of "drop (pos + 2) xs" vl opt sub q] by blast
    have al: "align16 (pos + len) \<in> {pos + len, pos + len + 1}" by (rule align_small) (use True assms(3) in simp)
    obtain hdr' where hdr': "block_hdr_at (align16 (pos + len)) xs = Some hdr'"
      using block_hdr_there [of "align16 (pos + len)" xs] al True assms(2) by auto
    obtain pos' where pos': "pos' = add16 (align16 (pos + len)) 4" by blast
    have "add16 (align16 (pos + len)) 4 = align16 (pos + len) + 4" by (rule add16_small) (use al True assms(3) in auto)
    then have "dcplen + 1 - pos' < dcplen + 1 - pos" using al True unfolding pos' by auto
    from less.hyps [OF this calm_dcp_trans [OF less.prems(1) req(2)] req(3), of hdr'] show ?thesis
      using True q req(1) hdr' by (subst set_blocks.simps) (simp add: hdr small vl pos')
  next
    case False
    then show ?thesis using less.prems by (subst set_blocks.simps) (simp add: hdr)
  qed
qed

lemma get_blocks_ok:
  assumes "ase_ok (cmina_current n)" and "dcplen \<le> length xs" and "dcplen \<le> 60000"
  shows "response_ok w \<Longrightarrow> \<exists>w'. get_blocks xs dcplen pos n w = Some w' \<and> response_ok w'"
proof (induction "dcplen + 1 - pos" arbitrary: pos w rule: less_induct)
  case less
  show ?case
  proof (cases "dcplen \<ge> pos + 2")
    case True
    obtain b where b: "peek pos 2 xs = Some b" using True assms(2) by (auto simp: peek_def)
    obtain w1 where w1: "pf_dcp_get_req (b ! 0) (b ! 1) False None n w = Some w1" "response_ok w1"
      using get_req_ok [OF assms(1) less.prems] by blast
    have p: "add16 pos 2 = pos + 2" using True assms(3) by (simp add: add16_small)
    have "dcplen + 1 - (pos + 2) < dcplen + 1 - pos" using True by simp
    from less.hyps [OF this w1(2)] show ?thesis using True b w1(1) p by (subst get_blocks.simps) simp
  next
    case False
    then show ?thesis using less.prems by (subst get_blocks.simps) simp
  qed
qed

end
