(* ===== verification/Dcp_Props.thy ===== *)
theory Dcp_Props
  imports Dcp_Lemmas
begin

unbundle bit_operations_syntax

text \<open>
  Properties of DCP: a request to get or to set values is always answered and gives its buffers back, a device that
  another controller is setting up ignores it, a device is found by its name, and its LED flashes.
\<close>

section \<open>Requests to get and to set\<close>

lemma get_set_blocks_ok:
  assumes "calm_dcp n m" and "callees_ok env" and "dcplen + 32 \<le> length xs" and "dcplen \<le> 60000" and "pos \<le> 28"
  shows "\<exists>rsp w m'. get_set_blocks env xs src dcplen pos h m = Some (rsp, w, m') \<and> calm_dcp n m' \<and> response_ok w"
proof -
  obtain hdr where hdr: "block_hdr_at pos xs = Some hdr" using block_hdr_there [of pos xs] assms(3,5) by auto
  obtain w1 m1 where s: "set_blocks env xs dcplen (add16 pos 4) hdr (response_writer, m) = Some (w1, m1)" "calm_dcp n m1" "response_ok w1"
    using set_blocks_ok [OF assms(2-4,1) response_writer_ok] by blast
  obtain m2 where s2: "pf_dcp_restart_sam_timeout src m1 = Some m2" "calm_dcp n m2" using restart_sam_ok [OF s(2)] by blast
  have "dcplen \<le> length xs" using assms(3) by simp
  from get_blocks_ok [OF calm_ases(1) [OF assms(1)] this assms(4) response_writer_ok]
  obtain w3 where g: "get_blocks xs dcplen pos m response_writer = Some w3" "response_ok w3" by blast
  obtain m3 where g2: "pf_dcp_restart_sam_timeout src m = Some m3" "calm_dcp n m3" using restart_sam_ok [OF assms(1)] by blast
  show ?thesis
    using hdr s s2 g g2 assms(1) response_writer_ok by (simp add: get_set_blocks_def Let_def)
qed

lemma send_ok:
  assumes "calm_dcp n m" and "dn_bufs m b = Some p"
  shows "\<exists>m'. dcp_eth_send env b m = Some m' \<and> calm_dcp n m'"
  using assms by (simp add: dcp_eth_send_def)

lemma set_commit_ok: "calm_dcp n m \<Longrightarrow> calm_dcp n (pf_cmina_dcp_set_commit env m)"
  by (simp add: pf_cmina_dcp_set_commit_def Let_def)

text \<open>The response buffer is written over; nothing else of the buffers changes.\<close>

definition answers :: "nat \<Rightarrow> 'w dcp_net \<Rightarrow> 'w dcp_net \<Rightarrow> bool" where
  "answers r n n' \<longleftrightarrow> dcp_ok n' \<and> (\<exists>p. dn_bufs n' = (dn_bufs n)(r \<mapsto> p))"

lemma get_set_response_ok:
  assumes "dcp_ok n" and "callees_ok env" and "dcplen + 32 \<le> length xs" and "dcplen \<le> 60000" and "pos \<le> 28"
    and "r \<in> dom (dn_bufs n)"
  shows "\<exists>n'. get_set_response env xs dcplen pos h r n = Some n' \<and> answers r n n'"
proof -
  obtain p0 where p0: "dn_bufs n r = Some p0" using assms(6) by blast
  have same: "answers r n n" using assms(1) p0 by (auto simp: answers_def intro!: exI [of _ p0])
  obtain src dst where sd: "peek 6 6 xs = Some src" "peek 0 6 xs = Some dst" using assms(3) by (simp add: peek_def)
  obtain rsp w m where bl: "get_set_blocks env xs src dcplen pos h n = Some (rsp, w, m)" "calm_dcp n m" "response_ok w"
    using get_set_blocks_ok [OF calm_dcp_refl [OF assms(1)] assms(2-5)] by blast
  obtain m1 where m1: "m1 = dcp_buf_store r (finish_frame src (pf_cmina_get_device_macaddr n) PF_DCP_GET_SET_FRAME_ID rsp w) (w_pos w) m" by blast
  have a1: "answers r n m1" using bl(2) by (auto simp: m1 answers_def dcp_buf_store_def calm_dcp_def dcp_ok_def)
  then have ok1: "calm_dcp m1 m1" by (simp add: answers_def calm_dcp_refl)
  have "dn_bufs m1 r \<noteq> None" by (simp add: m1 dcp_buf_store_def)
  then obtain m2 where m2: "dcp_eth_send env r m1 = Some m2" "calm_dcp m1 m2" using send_ok [OF ok1] by blast
  obtain m3 where m3: "m3 = (if service_id h = PF_DCP_SERVICE_SET then pf_cmina_dcp_set_commit env m2 else m2)" by blast
  have c3: "calm_dcp m1 m3" using m2(2) set_commit_ok [OF m2(2), of env] by (simp add: m3)
  obtain m4 where m4: "de_lldp_restart env m3 = Some m4" "calm_dcp m3 m4"
    using assms(2) calm_ok [OF c3] unfolding callees_ok_def by blast
  have "answers r n m4" using a1 calm_dcp_trans [OF c3 m4(2)] by (auto simp: answers_def calm_dcp_def)
  then show ?thesis
    using sd bl(1) m1 m2(1) m3 m4(1) same by (simp add: get_set_response_def Let_def)
qed

lemma dcp_get_set_total:
  assumes "dcp_ok n" and "callees_ok env" and "dn_bufs n b = Some p"
    and "unat (b_len p) + 32 \<le> length (b_payload p)" and "unat (b_len p) \<le> 60000" and "fid_pos \<le> 16"
    and "dn_bufs n (dn_next_buf n) = None"
  shows "\<exists>n'. pf_dcp_get_set env b fid_pos n = Some (1, n') \<and> dcp_ok n' \<and> dn_bufs n' = (dn_bufs n)(b := None)"
proof -
  let ?r = "dn_next_buf n"
  have br: "b \<noteq> ?r" using assms(3,7) by auto
  have pos: "add16 fid_pos 2 = fid_pos + 2" "add16 (fid_pos + 2) 10 = fid_pos + 12" using assms(6) by (simp_all add: add16_def)
  obtain h where h: "dcp_header_at (fid_pos + 2) (b_payload p) = Some h" using assms(4,6) by (auto simp: dcp_header_at_def peek_def)
  obtain dcplen where dcplen: "dcplen = add16 (fid_pos + 12) (unat (dcp_data_length h))" by blast
  have freed: "dcp_ok (m\<lparr>dn_bufs := x\<rparr>) = dcp_ok m" for m :: "'a dcp_net" and x by (simp add: dcp_ok_def)
  show ?thesis
  proof (cases "dcplen > unat (b_len p) \<or> \<not> de_alloc env (dn_world n)")
    case True
    then show ?thesis
      using assms(1,3) h dcplen pos by (auto simp: pf_dcp_get_set_def Let_def dcp_buf_free_def dcp_buf_alloc_def freed)
  next
    case False
    obtain n1 where n1: "n1 = n\<lparr>dn_bufs := (dn_bufs n)(?r \<mapsto> \<lparr>b_len = of_nat PF_FRAME_BUFFER_SIZE,
        b_payload = replicate PF_FRAME_BUFFER_SIZE 0\<rparr>), dn_next_buf := ?r + 1\<rparr>" by blast
    have alloc: "dcp_buf_alloc env PF_FRAME_BUFFER_SIZE n = (Some ?r, n1)" using False by (simp add: dcp_buf_alloc_def n1)
    have "dcp_ok n1" using assms(1) by (simp add: n1 dcp_ok_def)
    moreover have "dcplen + 32 \<le> length (b_payload p)" "dcplen \<le> 60000" using False assms(4,5) by auto
    moreover have "fid_pos + 12 \<le> 28" "?r \<in> dom (dn_bufs n1)" using assms(6) by (simp_all add: n1)
    ultimately obtain n2 where n2: "get_set_response env (b_payload p) dcplen (fid_pos + 12) h ?r n1 = Some n2" "answers ?r n1 n2"
      using get_set_response_ok assms(2) by blast
    obtain p' where p': "dcp_ok n2" "dn_bufs n2 = (dn_bufs n1)(?r \<mapsto> p')" using n2(2) by (auto simp: answers_def)
    have b2: "dn_bufs n2 b = Some p" "dn_bufs n2 ?r = Some p'" using p'(2) br assms(3) by (simp_all add: n1)
    have "((dn_bufs n2)(b := None))(?r := None) = (dn_bufs n)(b := None)"
      using p'(2) assms(7) br by (auto simp: n1)
    then have "pf_dcp_get_set env b fid_pos n = Some (1, n2\<lparr>dn_bufs := (dn_bufs n)(b := None)\<rparr>)"
      using False assms(3) h dcplen pos n2(1) b2 br
      by (simp add: pf_dcp_get_set_def Let_def dcp_buf_free_def alloc)
    then show ?thesis using p'(1) by (simp add: freed)
  qed
qed


definition demo_dcp_frame :: "u8 list \<Rightarrow> u16 \<Rightarrow> u8 \<Rightarrow> u8 \<Rightarrow> u8 list \<Rightarrow> pnal_buf" where
  "demo_dcp_frame src fid service stype body = \<lparr>b_len = 26 + of_nat (length body),
     b_payload = demo_mac @ src @ [0x88, 0x92] @ bytes16 fid @ [service, stype, 0, 0, 0, 1, 0, 0] @ bytes16 (of_nat (length body)) @
       body @ replicate 64 0\<rparr>"

lemma demo_callees_ok: "callees_ok (demo_dcp_env used)"
  by (simp add: callees_ok_def demo_dcp_env_def calm_dcp_refl)

lemma demo_dcp_net_ok: "dcp_ok (demo_dcp_net bufs)"
  using demo_dcp_timers demo_ase_ok by (simp add: dcp_ok_def demo_dcp_net_def demo_dcp_cfg_def demo_mac_def PNET_STATION_NAME_MAX_SIZE_def)




section \<open>The controller that is setting up the device\<close>

lemma set_commit_keeps: "dcp_sam (pf_cmina_dcp_set_commit env m) = dcp_sam m"
  by (simp add: pf_cmina_dcp_set_commit_def world_def Let_def)

lemma get_set_blocks_lock:
  assumes "get_set_blocks env xs src dcplen pos h n = Some (rsp, w, m)" and "service_id h \<in> {PF_DCP_SERVICE_SET, PF_DCP_SERVICE_GET}"
  shows "dcp_sam m = src"
proof -
  have "dcp_sam k' = src" if "pf_dcp_restart_sam_timeout src k = Some k'" for k k' :: "'a dcp_net"
    using that by (auto simp: pf_dcp_restart_sam_timeout_def bind_eq_Some_conv)
  then show ?thesis using assms by (auto simp: get_set_blocks_def Let_def bind_eq_Some_conv split: if_splits)
qed

lemma get_set_response_lock:
  assumes "get_set_response env xs dcplen pos h r n = Some n'" and "service_id h \<in> {PF_DCP_SERVICE_SET, PF_DCP_SERVICE_GET}"
    and "peek 6 6 xs = Some src" and "peek 0 6 xs = Some dst"
    and "pf_dcp_check_sam n src" and "pf_dcp_check_destination_address (main_port_mac n) dst"
    and "\<And>m m'. de_lldp_restart env m = Some m' \<Longrightarrow> dcp_sam m' = dcp_sam m"
  shows "dcp_sam n' = src"
proof -
  obtain rsp w m where bl: "get_set_blocks env xs src dcplen pos h n = Some (rsp, w, m)"
    and rest: "Option.bind (dcp_eth_send env r (dcp_buf_store r (finish_frame src (main_port_mac n) PF_DCP_GET_SET_FRAME_ID rsp w) (w_pos w) m))
      (\<lambda>m. de_lldp_restart env (if service_id h = PF_DCP_SERVICE_SET then pf_cmina_dcp_set_commit env m else m)) = Some n'"
    using assms(1,3-6) by (auto simp: get_set_response_def Let_def pf_cmina_get_device_macaddr_def bind_eq_Some_conv)
  obtain m1 where "dcp_eth_send env r (dcp_buf_store r (finish_frame src (main_port_mac n) PF_DCP_GET_SET_FRAME_ID rsp w) (w_pos w) m) = Some m1"
    "de_lldp_restart env (if service_id h = PF_DCP_SERVICE_SET then pf_cmina_dcp_set_commit env m1 else m1) = Some n'"
    using rest by (auto simp: bind_eq_Some_conv)
  then show ?thesis using get_set_blocks_lock [OF bl assms(2)] assms(7) set_commit_keeps [of env m1]
    by (fastforce simp: dcp_eth_send_def dcp_buf_store_def world_def bind_eq_Some_conv)
qed

text \<open>A complete request to the device itself, from a controller.\<close>

definition request_of :: "u8 list \<Rightarrow> u8 list \<Rightarrow> nat \<Rightarrow> pnal_buf \<Rightarrow> bool" where
  "request_of mac src fid_pos p \<longleftrightarrow> take 6 (b_payload p) = mac \<and> take 6 (drop 6 (b_payload p)) = src \<and> hd mac AND 1 = 0 \<and>
     unat (b_len p) + 32 \<le> length (b_payload p) \<and> unat (b_len p) \<le> 60000 \<and>
     (\<exists>h. dcp_header_at (fid_pos + 2) (b_payload p) = Some h \<and> service_id h \<in> {PF_DCP_SERVICE_SET, PF_DCP_SERVICE_GET} \<and>
        add16 (fid_pos + 12) (unat (dcp_data_length h)) \<le> unat (b_len p))"

lemma locked_out:
  assumes "dn_bufs n b = Some p" and "unat (b_len p) + 32 \<le> length (b_payload p)" and "fid_pos \<le> 16"
    and "dn_bufs n (dn_next_buf n) = None" and "dcp_sam n \<noteq> mac_nil" and "take 6 (drop 6 (b_payload p)) \<noteq> dcp_sam n"
  shows "\<exists>k. pf_dcp_get_set env b fid_pos n = Some (1, n\<lparr>dn_bufs := (dn_bufs n)(b := None), dn_next_buf := k\<rparr>)"
proof -
  let ?r = "dn_next_buf n"
  have br: "b \<noteq> ?r" using assms(1,4) by auto
  have pos: "add16 fid_pos 2 = fid_pos + 2" "add16 (fid_pos + 2) 10 = fid_pos + 12" using assms(3) by (simp_all add: add16_def)
  obtain h where h: "dcp_header_at (fid_pos + 2) (b_payload p) = Some h" using assms(2,3) by (auto simp: dcp_header_at_def peek_def)
  have sam: "\<not> pf_dcp_check_sam n (take 6 (drop 6 (b_payload p)))" using assms(5,6) by (auto simp: pf_dcp_check_sam_def)
  have undone: "((dn_bufs n)(?r \<mapsto> x, b := None))(?r := None) = (dn_bufs n)(b := None)" for x using assms(4) br by auto
  have idle: "n\<lparr>dn_bufs := f, dn_next_buf := dn_next_buf n\<rparr> = n\<lparr>dn_bufs := f\<rparr>" for f by simp
  show ?thesis
  proof (cases "add16 (fid_pos + 12) (unat (dcp_data_length h)) > unat (b_len p) \<or> \<not> de_alloc env (dn_world n)")
    case True
    then have "pf_dcp_get_set env b fid_pos n = Some (1, n\<lparr>dn_bufs := (dn_bufs n)(b := None)\<rparr>)"
      using assms(1) h pos by (auto simp: pf_dcp_get_set_def Let_def dcp_buf_free_def dcp_buf_alloc_def)
    then show ?thesis using idle by metis
  next
    case False
    obtain n1 where n1: "n1 = n\<lparr>dn_bufs := (dn_bufs n)(?r \<mapsto> \<lparr>b_len = of_nat PF_FRAME_BUFFER_SIZE,
        b_payload = replicate PF_FRAME_BUFFER_SIZE 0\<rparr>), dn_next_buf := ?r + 1\<rparr>" by blast
    have alloc: "dcp_buf_alloc env PF_FRAME_BUFFER_SIZE n = (Some ?r, n1)" using False by (simp add: dcp_buf_alloc_def n1)
    have resp: "get_set_response env (b_payload p) dcplen pos' h ?r n1 = Some n1" for dcplen pos'
      using sam assms(2) by (simp add: get_set_response_def peek_def n1 pf_dcp_check_sam_def)
    have "dn_bufs n1 b = Some p" "dn_bufs n1 ?r \<noteq> None" using assms(1) br by (simp_all add: n1)
    then have "pf_dcp_get_set env b fid_pos n = Some (1, n1\<lparr>dn_bufs := (dn_bufs n1)(b := None, ?r := None)\<rparr>)"
      using False assms(1) h pos resp br by (simp add: pf_dcp_get_set_def Let_def dcp_buf_free_def alloc)
    then show ?thesis using undone by (intro exI [of _ "?r + 1"]) (simp add: n1)
  qed
qed

text \<open>
  C38. Once the device has handled a request to get or to set values, it is locked to the controller that sent it: until the
  lock is cleared, a request of another controller is dropped, and neither the data of the device nor its timers change.
\<close>
theorem dcp_locks_to_controller:
  assumes "dcp_ok n" and "callees_ok env" and "\<And>m m'. de_lldp_restart env m = Some m' \<Longrightarrow> dcp_sam m' = dcp_sam m"
    and "dn_bufs n b = Some p" and "request_of (main_port_mac n) src fid_pos p" and "src \<noteq> mac_nil" and "fid_pos \<le> 16"
    and "pf_dcp_check_sam n src" and "de_alloc env (dn_world n)" and "dn_bufs n (dn_next_buf n) = None"
  shows "\<exists>n1. pf_dcp_get_set env b fid_pos n = Some (1, n1) \<and> dcp_sam n1 = src \<and>
    (\<forall>b' p' m. m = n1\<lparr>dn_bufs := (dn_bufs n1)(b' \<mapsto> p')\<rparr> \<and> dn_bufs m (dn_next_buf m) = None \<and>
       unat (b_len p') + 32 \<le> length (b_payload p') \<and> take 6 (drop 6 (b_payload p')) \<noteq> src \<longrightarrow>
       (\<exists>k. pf_dcp_get_set env b' fid_pos m = Some (1, m\<lparr>dn_bufs := (dn_bufs m)(b' := None), dn_next_buf := k\<rparr>)))"
proof -
  obtain h where h: "dcp_header_at (fid_pos + 2) (b_payload p) = Some h" "service_id h \<in> {PF_DCP_SERVICE_SET, PF_DCP_SERVICE_GET}"
    "add16 (fid_pos + 12) (unat (dcp_data_length h)) \<le> unat (b_len p)"
    and macs: "take 6 (b_payload p) = main_port_mac n" "take 6 (drop 6 (b_payload p)) = src" "hd (main_port_mac n) AND 1 = 0"
    and lens: "unat (b_len p) + 32 \<le> length (b_payload p)" "unat (b_len p) \<le> 60000"
    using assms(5) by (auto simp: request_of_def)
  have pos: "add16 fid_pos 2 = fid_pos + 2" "add16 (fid_pos + 2) 10 = fid_pos + 12" using assms(7) by (simp_all add: add16_def)
  obtain n1 where n1: "pf_dcp_get_set env b fid_pos n = Some (1, n1)"
    using dcp_get_set_total [OF assms(1,2,4) lens assms(7,10)] by blast
  obtain n0 where n0: "dcp_buf_alloc env PF_FRAME_BUFFER_SIZE n = (Some (dn_next_buf n), n0)" "dcp_sam n0 = dcp_sam n"
    "main_port_mac n0 = main_port_mac n"
    using assms(9) by (auto simp: dcp_buf_alloc_def)
  obtain n2 where n2: "get_set_response env (b_payload p) (add16 (fid_pos + 12) (unat (dcp_data_length h))) (fid_pos + 12) h (dn_next_buf n) n0
      = Some n2" "dcp_sam n1 = dcp_sam n2"
    using n1 assms(4) h pos n0(1) by (auto simp: pf_dcp_get_set_def Let_def bind_eq_Some_conv dcp_buf_free_def split: if_splits)
  have "peek 6 6 (b_payload p) = Some src" "peek 0 6 (b_payload p) = Some (main_port_mac n)"
    using macs lens by (auto simp: peek_def)
  then have "dcp_sam n2 = src"
    using get_set_response_lock [OF n2(1) h(2) _ _ _ _ assms(3)] assms(8) macs(3) n0(2,3)
    by (simp add: pf_dcp_check_sam_def pf_dcp_check_destination_address_def)
  then have sam: "dcp_sam n1 = src" using n2(2) by simp
  have "\<exists>k. pf_dcp_get_set env b' fid_pos m = Some (1, m\<lparr>dn_bufs := (dn_bufs m)(b' := None), dn_next_buf := k\<rparr>)"
    if "m = n1\<lparr>dn_bufs := (dn_bufs n1)(b' \<mapsto> p')\<rparr> \<and> dn_bufs m (dn_next_buf m) = None \<and>
      unat (b_len p') + 32 \<le> length (b_payload p') \<and> take 6 (drop 6 (b_payload p')) \<noteq> src" for b' p' m
    by (rule locked_out [of m b' p']) (use that sam assms(6,7) in auto)
  then show ?thesis using n1 sam by blast
qed

definition demo_get_name :: "u8 \<Rightarrow> pnal_buf" where
  "demo_get_name from_addr = demo_dcp_frame [2, 0, 0, 0, 0, from_addr] PF_DCP_GET_SET_FRAME_ID PF_DCP_SERVICE_GET 0 [2, 2]"

lemma demo_get_name_bytes: "b_payload (demo_get_name a) = demo_mac @ [2, 0, 0, 0, 0, a, 0x88, 0x92, 0xfe, 0xfd, 3, 0, 0, 0, 0, 1, 0, 0, 0, 2, 2, 2]
    @ replicate 64 0" "b_len (demo_get_name a) = 28"
  by (simp_all add: demo_get_name_def demo_dcp_frame_def bytes16_def PF_DCP_GET_SET_FRAME_ID_def PF_DCP_SERVICE_GET_def)

lemma demo_request: "request_of demo_mac [2, 0, 0, 0, 0, a] 14 (demo_get_name a)"
  by (simp add: request_of_def demo_get_name_bytes demo_mac_def dcp_header_at_def peek_def be16_def add16_def PF_DCP_SERVICE_GET_def)

theorem dcp_locks_to_controller_witness:
  "\<exists>n1. pf_dcp_get_set (demo_dcp_env (\<lambda>_. True)) 0 14 (demo_dcp_net [0 \<mapsto> demo_get_name 9]) = Some (1, n1) \<and> dcp_sam n1 = [2, 0, 0, 0, 0, 9]"
proof -
  let ?n = "demo_dcp_net [0 \<mapsto> demo_get_name 9]"
  have parts: "dn_bufs ?n = [0 \<mapsto> demo_get_name 9]" "dn_next_buf ?n = 1" "main_port_mac ?n = demo_mac" "dcp_sam ?n = mac_nil"
    by (simp_all add: demo_dcp_net_def)
  have sam: "pf_dcp_check_sam ?n [2, 0, 0, 0, 0, 9]" "[2, 0, 0, 0, 0, 9] \<noteq> mac_nil" "de_alloc (demo_dcp_env (\<lambda>_. True)) (dn_world ?n)"
    using parts(4) by (simp_all add: pf_dcp_check_sam_def mac_nil_def numeral_eq_Suc demo_dcp_env_def)
  have req: "request_of (main_port_mac ?n) [2, 0, 0, 0, 0, 9] 14 (demo_get_name 9)" using parts(3) demo_request by simp
  show ?thesis
    using dcp_locks_to_controller [where n = ?n and env = "demo_dcp_env (\<lambda>_. True)" and b = 0 and p = "demo_get_name 9" and
        src = "[2, 0, 0, 0, 0, 9]" and fid_pos = 14, OF demo_dcp_net_ok demo_callees_ok _ _ req sam(2) _ sam(1,3)] parts(1,2)
    by (auto simp: demo_dcp_env_def)
qed

section \<open>Identification by name\<close>

lemma mem_eq_takes: "k \<le> length xs \<Longrightarrow> k \<le> length ys \<Longrightarrow> mem_eq k xs ys = Some (take k xs = take k ys)"
  by (induction k xs ys rule: mem_eq.induct) auto

lemma c_str_take:
  "k < length xs \<Longrightarrow> 0 \<notin> set (take k xs) \<Longrightarrow> xs ! k = 0 \<Longrightarrow> c_str xs = take k xs"
proof (induction xs arbitrary: k)
  case (Cons x xs)
  then show ?case by (cases k) (auto simp: c_str_def)
qed simp

lemma c_str_ends: "length (c_str xs) < length xs \<Longrightarrow> xs ! length (c_str xs) = 0"
  unfolding c_str_def by (metis (mono_tags) nth_length_takeWhile)

lemma c_str_prefix: "take (length (c_str xs)) xs = c_str xs"
  unfolding c_str_def by (metis takeWhile_eq_take)

text \<open>A name in a frame is not terminated, and is compared with one that is.\<close>

lemma name_compare:
  assumes "0 \<in> set xs" and "0 \<notin> set name" and "length name < length xs"
  shows "take (length name) xs = name \<and> xs ! length name = 0 \<longleftrightarrow> c_str xs = name"
proof
  assume "take (length name) xs = name \<and> xs ! length name = 0"
  then show "c_str xs = name" using c_str_take [of "length name" xs] assms(2,3) by simp
next
  assume "c_str xs = name"
  then show "take (length name) xs = name \<and> xs ! length name = 0"
    using c_str_prefix [of xs] c_str_ends [of xs] assms(3) by auto
qed

lemma peek_one: "k < length xs \<Longrightarrow> peek k 1 xs = Some [xs ! k]"
  by (simp add: peek_def take_Suc hd_drop_conv_nth)

lemma identify_name_block:
  assumes "ase_ok (cmina_current n)" and "len < PNET_STATION_NAME_MAX_SIZE" and "len \<le> length v" and "0 \<notin> set (take len v)"
  shows "identify_block env (PF_DCP_OPT_DEVICE_PROPERTIES, PF_DCP_SUB_DEV_PROP_NAME, len) v n identify_start =
    Some (True, if c_str (station_name (cmina_current n)) = take len v then identify_start\<lparr>id_filter := True, id_first := False\<rparr>
      else identify_start\<lparr>id_match := False, id_first := False\<rparr>)"
proof -
  let ?a = "ase_bytes (cmina_current n)"
  let ?name = "station_name (cmina_current n)"
  have l: "length ?a = 580" by (rule ase_bytes_length [OF assms(1)])
  have lens: "length ?name = 241" "0 \<in> set ?name" "len < 241" using assms(1,2) by (auto simp: ase_ok_def PNET_STATION_NAME_MAX_SIZE_def)
  obtain rest where a: "?a = ?name @ rest" unfolding ase_bytes_def by blast
  have same: "take len ?a = take len ?name" "?a ! len = ?name ! len" using lens(1,3) by (simp_all add: a nth_append)
  have g: "pf_cmina_dcp_get_req PF_DCP_OPT_DEVICE_PROPERTIES PF_DCP_SUB_DEV_PROP_NAME 0 None n =
      found_value PNET_STATION_NAME_MAX_SIZE 0 (cmina_current n)"
    by (simp add: pf_cmina_dcp_get_req_def dcp_opts dcp_subs ase_offsets)
  have m: "mem_eq len ?a v = Some (take len ?name = take len v)"
    using mem_eq_takes [of len ?a v] assms(3) l lens(3) same(1) by simp
  have z: "peek len 1 ?a = Some [?name ! len]"
    using peek_one [of len ?a] l lens(3) same(2) by simp
  have "take len ?name = take len v \<and> ?name ! len = 0 \<longleftrightarrow> c_str ?name = take len v"
    using name_compare [OF lens(2) assms(4)] assms(3) lens(1,3) by simp
  moreover have "filter_known PF_DCP_OPT_DEVICE_PROPERTIES PF_DCP_SUB_DEV_PROP_NAME len v (found_value PNET_STATION_NAME_MAX_SIZE 0 (cmina_current n)) s =
      Some (if take len ?name = take len v \<and> ?name ! len = 0 then (if id_first s then s\<lparr>id_filter := True\<rparr> else s) else s\<lparr>id_match := False\<rparr>)" for s
    using m z by (simp add: filter_known_def filter_name_def dcp_opts found_value_def)
  ultimately show ?thesis by (simp add: identify_block_def g Let_def identify_start_def)
qed

lemma identify_one_block:
  assumes "identify_block env (opt, sub, len) (drop pos xs) n s0 = Some (True, s)" and "id_ret s0 = 0" and "id_first s0"
    and "pos + len < 60000" and "align16 (pos + len) + 4 \<le> length xs"
  shows "identify_blocks env xs (pos + len) n pos (opt, sub, len) s0 = Some s"
proof -
  obtain hdr' where hdr': "block_hdr_at (align16 (pos + len)) xs = Some hdr'" using block_hdr_there [OF assms(5)] by blast
  have al: "align16 (pos + len) \<in> {pos + len, pos + len + 1}" by (rule align_small) (use assms(4) in simp)
  have small: "add16 pos len = pos + len" "add16 (align16 (pos + len)) 4 = align16 (pos + len) + 4"
    using al assms(4) by (auto simp: add16_small)
  have stop: "identify_blocks env xs (pos + len) n (align16 (pos + len) + 4) hdr' s = Some s"
    using al by (subst identify_blocks.simps) auto
  show ?thesis using assms(1-3) hdr' small stop by (subst identify_blocks.simps) simp
qed

lemma put_options_ok:
  assumes "ase_ok (cmina_current n)"
  shows "response_ok w \<Longrightarrow> \<exists>w'. put_options os alias n w = Some w' \<and> response_ok w'"
proof (induction os arbitrary: w)
  case (Cons p os)
  obtain opt sub where p: "p = (opt, sub)" by (cases p)
  obtain w1 where "pf_dcp_get_req opt sub True alias n w = Some w1" "response_ok w1"
    using get_req_ok [OF assms Cons.prems] by blast
  then show ?case using Cons.IH by (simp add: p)
qed simp

lemma identify_response_ok:
  assumes "dcp_ok n" and "card (dom (pending_timers (dn_sched n))) < PF_MAX_TIMEOUTS"
  shows "\<exists>n' x i. identify_response env src h r s n = Some n' \<and> dn_bufs n' = (dn_bufs n)(r \<mapsto> x) \<and> dcp_delayed_response_waiting n' \<and>
    pending_timers (dn_sched n') = (pending_timers (dn_sched n))(i \<mapsto> (Some Pf_dcp_responder, Some (Buf_arg r)))"
proof -
  have ok: "ase_ok (cmina_current n)" "timer_ok (dn_sched n)" using assms(1) by (auto simp: dcp_ok_def)
  obtain w where w: "put_options device_options (if id_req_alias s then Some (id_alias s) else None) n response_writer = Some w"
    using put_options_ok [OF ok(1) response_writer_ok] by blast
  obtain delay where delay: "delay = pf_dcp_calculate_response_delay (pf_cmina_get_device_macaddr n) (response_delay_factor h)" by blast
  obtain h' s' i where "pf_scheduler_add (dn_now n) delay Pf_dcp_responder (Buf_arg r) (dcp_identresp_timeout n) (dn_sched n) = Some (0, h', s')"
    "pending_timers s' = (pending_timers (dn_sched n))(i \<mapsto> (Some Pf_dcp_responder, Some (Buf_arg r)))"
    using timer.add_room [OF ok(2) assms(2)] by blast
  then show ?thesis using w by (auto simp: identify_response_def Let_def dcp_add_def dcp_buf_store_def delay)
qed

lemma identify_matches_name:
  assumes "dcp_ok n" and "dn_bufs n b = Some p" and "fid_pos \<le> 16" and "unat (b_len p) + 32 \<le> length (b_payload p)"
    and "dcp_header_at (fid_pos + 2) (b_payload p) = Some h" and "unat (dcp_data_length h) = len + 4"
    and "block_hdr_at (fid_pos + 12) (b_payload p) = Some (PF_DCP_OPT_DEVICE_PROPERTIES, PF_DCP_SUB_DEV_PROP_NAME, len)"
    and "fid_pos + 16 + len \<le> unat (b_len p)" and "len < PNET_STATION_NAME_MAX_SIZE"
    and "0 \<notin> set (take len (drop (fid_pos + 16) (b_payload p)))"
    and "\<not> dcp_delayed_response_waiting n" and "de_alloc env (dn_world n)" and "dn_bufs n (dn_next_buf n) = None"
    and "card (dom (pending_timers (dn_sched n))) < PF_MAX_TIMEOUTS"
  shows "\<exists>n'. pf_dcp_identify_req env b fid_pos n = Some (1, n') \<and>
    (if c_str (station_name (cmina_current n)) = take len (drop (fid_pos + 16) (b_payload p))
     then dcp_delayed_response_waiting n' \<and> dom (dn_bufs n') = insert (dn_next_buf n) (dom (dn_bufs n) - {b}) \<and>
       (\<exists>i. pending_timers (dn_sched n') = (pending_timers (dn_sched n))(i \<mapsto> (Some Pf_dcp_responder, Some (Buf_arg (dn_next_buf n)))))
     else n' = n\<lparr>dn_bufs := (dn_bufs n)(b := None), dn_next_buf := dn_next_buf n + 1\<rparr>)"
proof -
  let ?r = "dn_next_buf n" and ?xs = "b_payload p"
  let ?name = "take len (drop (fid_pos + 16) ?xs)"
  have br: "b \<noteq> ?r" using assms(2,13) by auto
  have len: "len < 241" using assms(9) by (simp add: PNET_STATION_NAME_MAX_SIZE_def)
  have pos: "add16 fid_pos 2 = fid_pos + 2" "add16 (fid_pos + 2) 10 = fid_pos + 12" "add16 (fid_pos + 12) 4 = fid_pos + 16"
    "add16 (fid_pos + 12) (len + 4) = fid_pos + 16 + len"
    using assms(3) len by (simp_all add: add16_def)
  obtain n0 where n0: "n0 = n\<lparr>dn_bufs := (dn_bufs n)(?r \<mapsto> \<lparr>b_len = of_nat PF_FRAME_BUFFER_SIZE,
      b_payload = replicate PF_FRAME_BUFFER_SIZE 0\<rparr>), dn_next_buf := ?r + 1\<rparr>" by blast
  have alloc: "dcp_buf_alloc env PF_FRAME_BUFFER_SIZE n = (Some ?r, n0)" using assms(12) by (simp add: dcp_buf_alloc_def n0)
  have ok0: "dcp_ok n0" "cmina_current n0 = cmina_current n" "dn_sched n0 = dn_sched n" using assms(1) by (simp_all add: n0 dcp_ok_def)
  obtain src where src: "peek 6 6 ?xs = Some src" using assms(4,8) by (simp add: peek_def)
  obtain s where s: "s = (if c_str (station_name (cmina_current n)) = ?name then identify_start\<lparr>id_filter := True, id_first := False\<rparr>
      else identify_start\<lparr>id_match := False, id_first := False\<rparr>)" by blast
  have "identify_block env (PF_DCP_OPT_DEVICE_PROPERTIES, PF_DCP_SUB_DEV_PROP_NAME, len) (drop (fid_pos + 16) ?xs) n0 identify_start = Some (True, s)"
    using identify_name_block [of n0 len "drop (fid_pos + 16) ?xs" env] ok0 assms(4,8,9,10) by (simp add: s dcp_ok_def)
  moreover have "align16 (fid_pos + 16 + len) \<in> {fid_pos + 16 + len, fid_pos + 16 + len + 1}"
    by (rule align_small) (use assms(3) len in simp)
  then have "align16 (fid_pos + 16 + len) + 4 \<le> length ?xs" using assms(4,8) by auto
  ultimately have loop: "identify_blocks env ?xs (fid_pos + 16 + len) n0 (fid_pos + 16)
      (PF_DCP_OPT_DEVICE_PROPERTIES, PF_DCP_SUB_DEV_PROP_NAME, len) identify_start = Some s"
    using identify_one_block [of env PF_DCP_OPT_DEVICE_PROPERTIES PF_DCP_SUB_DEV_PROP_NAME len "fid_pos + 16" ?xs n0 identify_start s] assms(3) len
    by (simp add: identify_start_def)
  have req: "pf_dcp_identify_req env b fid_pos n = Option.bind
      (if id_ret s = 0 \<and> id_match s then identify_response env src h ?r s n0 else dcp_buf_free ?r n0)
      (\<lambda>n. map_option (Pair 1) (dcp_buf_free b n))"
    using assms(2,5,6,7,8,11) pos alloc src loop by (simp add: pf_dcp_identify_req_def Let_def del: identify_blocks.simps)
  show ?thesis
  proof (cases "c_str (station_name (cmina_current n)) = ?name")
    case True
    obtain n1 x i where n1: "identify_response env src h ?r s n0 = Some n1" "dn_bufs n1 = (dn_bufs n0)(?r \<mapsto> x)" "dcp_delayed_response_waiting n1"
      "pending_timers (dn_sched n1) = (pending_timers (dn_sched n))(i \<mapsto> (Some Pf_dcp_responder, Some (Buf_arg ?r)))"
      using identify_response_ok [OF ok0(1), of env src h ?r s] assms(14) ok0(3) by auto
    have "dn_bufs n1 b = Some p" using n1(2) br assms(2) by (simp add: n0)
    then have "pf_dcp_identify_req env b fid_pos n = Some (1, n1\<lparr>dn_bufs := (dn_bufs n1)(b := None)\<rparr>)"
      using req True n1(1) by (simp add: s identify_start_def dcp_buf_free_def)
    moreover have "dom ((dn_bufs n1)(b := None)) = insert ?r (dom (dn_bufs n) - {b})" using n1(2) br by (auto simp: n0)
    ultimately show ?thesis using True n1(3,4) by auto
  next
    case False
    have undone: "((dn_bufs n)(?r \<mapsto> x, ?r := None))(b := None) = (dn_bufs n)(b := None)" for x using assms(13) br by auto
    have "pf_dcp_identify_req env b fid_pos n = Some (1, n0\<lparr>dn_bufs := (dn_bufs n0)(?r := None, b := None)\<rparr>)"
      using req False assms(2) br by (simp add: s identify_start_def dcp_buf_free_def n0)
    then show ?thesis using False undone by (simp add: n0)
  qed
qed

text \<open>
  C39. A request to identify the device that has one block, with a name, is answered exactly if the device has that name:
  a response is then kept in a buffer and a timer is set that sends it, and otherwise nothing but the buffers is touched.
  The request buffer is given back in both cases.
\<close>
theorem dcp_identified_by_name:
  assumes "dcp_ok n" and "dn_bufs n b = Some p" and "fid_pos \<le> 16" and "unat (b_len p) + 32 \<le> length (b_payload p)"
    and "dcp_header_at (fid_pos + 2) (b_payload p) = Some h" and "unat (dcp_data_length h) = len + 4"
    and "block_hdr_at (fid_pos + 12) (b_payload p) = Some (PF_DCP_OPT_DEVICE_PROPERTIES, PF_DCP_SUB_DEV_PROP_NAME, len)"
    and "fid_pos + 16 + len \<le> unat (b_len p)" and "len < PNET_STATION_NAME_MAX_SIZE"
    and "0 \<notin> set (take len (drop (fid_pos + 16) (b_payload p)))"
    and "\<not> dcp_delayed_response_waiting n" and "de_alloc env (dn_world n)" and "dn_bufs n (dn_next_buf n) = None"
    and "card (dom (pending_timers (dn_sched n))) < PF_MAX_TIMEOUTS"
  shows "\<exists>n'. pf_dcp_identify_req env b fid_pos n = Some (1, n') \<and>
    (if c_str (station_name (cmina_current n)) = take len (drop (fid_pos + 16) (b_payload p))
     then dcp_delayed_response_waiting n' \<and> dom (dn_bufs n') = insert (dn_next_buf n) (dom (dn_bufs n) - {b}) \<and>
       (\<exists>i. pending_timers (dn_sched n') = (pending_timers (dn_sched n))(i \<mapsto> (Some Pf_dcp_responder, Some (Buf_arg (dn_next_buf n)))))
     else n' = n\<lparr>dn_bufs := (dn_bufs n)(b := None), dn_next_buf := dn_next_buf n + 1\<rparr>)"
  by (rule identify_matches_name [OF assms])

definition demo_identify :: "u8 list \<Rightarrow> pnal_buf" where
  "demo_identify name = demo_dcp_frame [2, 0, 0, 0, 0, 9] PF_DCP_ID_REQ_FRAME_ID PF_DCP_SERVICE_IDENTIFY 0 ([2, 2, 0, 3] @ name)"

theorem dcp_identified_by_name_witness:
  "\<exists>n'. pf_dcp_identify_req (demo_dcp_env (\<lambda>_. False)) 0 14 (demo_dcp_net [0 \<mapsto> demo_identify [100, 101, 118]]) = Some (1, n') \<and>
     dcp_delayed_response_waiting n' \<and> dom (dn_bufs n') = {1}"
proof -
  let ?p = "demo_identify [100, 101, 118]"
  let ?n = "demo_dcp_net [0 \<mapsto> ?p]"
  let ?h = "\<lparr>service_id = 5, service_type = 0, xid = [0, 0, 0, 1], response_delay_factor = 0, dcp_data_length = 7\<rparr>"
  have parts: "dn_bufs ?n = [0 \<mapsto> ?p]" "dn_next_buf ?n = 1" "\<not> dcp_delayed_response_waiting ?n" "cmina_current ?n = demo_ase" "dn_sched ?n = demo_dcp_sched"
    by (simp_all add: demo_dcp_net_def)
  have bytes: "b_payload ?p = demo_mac @ [2, 0, 0, 0, 0, 9, 0x88, 0x92, 0xfe, 0xfe, 5, 0, 0, 0, 0, 1, 0, 0, 0, 7, 2, 2, 0, 3, 100, 101, 118] @ replicate 64 0"
    "unat (b_len ?p) = 33"
    by (simp_all add: demo_identify_def demo_dcp_frame_def bytes16_def PF_DCP_ID_REQ_FRAME_ID_def PF_DCP_SERVICE_IDENTIFY_def)
  have h: "dcp_header_at (14 + 2) (b_payload ?p) = Some ?h" "unat (dcp_data_length ?h) = 3 + 4"
    "block_hdr_at (14 + 12) (b_payload ?p) = Some (PF_DCP_OPT_DEVICE_PROPERTIES, PF_DCP_SUB_DEV_PROP_NAME, 3)"
    "take 3 (drop (14 + 16) (b_payload ?p)) = [100, 101, 118]" "unat (b_len ?p) + 32 \<le> length (b_payload ?p)"
    by (simp_all add: bytes dcp_header_at_def block_hdr_at_def peek_def demo_mac_def be16_def dcp_opts dcp_subs)
  have room: "card (dom (pending_timers (dn_sched ?n))) < PF_MAX_TIMEOUTS"
    using pending_card [OF demo_dcp_sched_rep(1)] by (simp add: parts(5) PF_MAX_TIMEOUTS_def)
  have "0 \<notin> set (take 3 (drop (14 + 16) (b_payload ?p)))" unfolding h(4) by simp
  moreover have "14 + 16 + 3 \<le> unat (b_len ?p)" "3 < PNET_STATION_NAME_MAX_SIZE"
    "de_alloc (demo_dcp_env (\<lambda>_. False)) (dn_world ?n)" "dn_bufs ?n 0 = Some ?p" "dn_bufs ?n (dn_next_buf ?n) = None" "(14 :: nat) \<le> 16"
    by (simp_all add: bytes(2) PNET_STATION_NAME_MAX_SIZE_def demo_dcp_env_def parts)
  note rest = this
  from dcp_identified_by_name [OF demo_dcp_net_ok rest(4,6) h(5,1,2,3) rest(1,2) calculation parts(3) rest(3,5) room]
  show ?thesis using h(4) demo_names(1) parts(1,2,4) by auto
qed

section \<open>Addresses that are set and read back\<close>

definition le4 :: "u8 \<Rightarrow> u8 \<Rightarrow> u8 \<Rightarrow> u8 \<Rightarrow> u32" where
  "le4 a b c d = ucast a OR push_bit 8 (ucast b) OR push_bit 16 (ucast c) OR push_bit 24 (ucast d)"

lemma bit_le4: "bit (le4 a b c d) k \<longleftrightarrow> k < 32 \<and>
    (if k < 8 then bit a k else if k < 16 then bit b (k - 8) else if k < 24 then bit c (k - 16) else bit d (k - 24))"
  unfolding le4_def by (auto simp: bit_simps not_less dest: bit_imp_le_length)

lemma byte_masks: "(0xff :: u32) = mask 8" "(0xff00 :: u32) = push_bit 8 (mask 8)" "(0xff0000 :: u32) = push_bit 16 (mask 8)"
  by (simp_all add: mask_eq_exp_minus_1 push_bit_eq_mult)

lemma htonl_le4: "htonl (le4 a b c d) = le4 d c b a"
proof (rule bit_word_eqI)
  fix k assume "k < LENGTH(32)"
  then have "k < 8 \<or> k \<in> {8..<16} \<or> k \<in> {16..<24} \<or> k \<in> {24..<32}" by auto
  then show "bit (htonl (le4 a b c d)) k = bit (le4 d c b a) k"
    unfolding htonl_def byte_masks by (auto simp: bit_simps bit_le4 simp del: push_bit_mask_eq split: if_splits)
qed

lemma enc32_le4: "enc32 False (le4 a b c d) = [a, b, c, d]"
  by (auto simp: enc32_def intro!: bit_word_eqI simp: bit_simps bit_le4)

lemma le4_zero: "le4 a b c d = 0 \<longleftrightarrow> a = 0 \<and> b = 0 \<and> c = 0 \<and> d = 0"
proof -
  have "le4 a b c d = 0 \<Longrightarrow> [a, b, c, d] = enc32 False 0" using enc32_le4 [of a b c d] by simp
  then show ?thesis by (auto simp: enc32_def le4_def)
qed

lemma take_12: "12 \<le> length v \<Longrightarrow> [v ! 0, v ! 1, v ! 2, v ! 3, v ! 4, v ! 5, v ! 6, v ! 7, v ! 8, v ! 9, v ! 10, v ! 11] = take 12 v"
  by (rule nth_equalityI) (auto simp: less_Suc_eq numeral_eq_Suc)

text \<open>What the bytes of a request mean, and what they look like in the memory of the host.\<close>

definition wire_suite :: "u8 list \<Rightarrow> pf_ip_suite" where
  "wire_suite v = swap_suite (ip_suite_of v)"

lemma wire_suite_back: "ip_suite_of (ip_suite_bytes (wire_suite v) @ xs) = wire_suite v"
  by (simp add: ip_suite_of_def le32_at_def wire_suite_def swap_suite_def ip_suite_bytes_def htonl_le4 enc32_le4 flip: le4_def)

lemma wire_bytes: "12 \<le> length v \<Longrightarrow> ip_suite_bytes (swap_suite (wire_suite v)) = take 12 v"
  using take_12 [of v] by (simp add: numeral_2_eq_2 ip_suite_of_def le32_at_def wire_suite_def swap_suite_def ip_suite_bytes_def htonl_le4 enc32_le4 flip: le4_def)

lemma wire_suite_take: "12 \<le> length v \<Longrightarrow> wire_suite (take 12 v) = wire_suite v"
  by (simp add: wire_suite_def ip_suite_of_def le32_at_def)

lemma stored_suite:
  assumes "ase_ok a"
  shows "peek 0 12 (drop off_full_ip_suite (ase_bytes a)) = Some (ip_suite_bytes (suite_of a))"
proof -
  obtain front rest where f: "ase_bytes a = front @ ip_suite_bytes (suite_of a) @ rest" "length front = off_full_ip_suite"
  proof
    show "ase_bytes a = (station_name a @ product_name a @ [device_role a] @ enc16 False (device_initiative a) @
      [instance_id_high a, instance_id_low a] @ device_id_bytes (ase_device_id a) @ device_id_bytes (ase_oem_device_id a) @
      port_name a @ mac_address a @ [0] @ enc16 False (standard_gw_value a) @ [if dhcp_enable a then 1 else 0, 0, 0, 0]) @
      ip_suite_bytes (suite_of a) @ (concat (map (enc32 False) (dns_addr (full_ip_suite a))) @ dhcp_hostname a @ [0, 0, 0])"
      by (simp add: ase_bytes_def full_ip_suite_bytes_def suite_of_def)
    show "length (station_name a @ product_name a @ [device_role a] @ enc16 False (device_initiative a) @
      [instance_id_high a, instance_id_low a] @ device_id_bytes (ase_device_id a) @ device_id_bytes (ase_oem_device_id a) @
      port_name a @ mac_address a @ [0] @ enc16 False (standard_gw_value a) @ [if dhcp_enable a then 1 else 0, 0, 0, 0]) = off_full_ip_suite"
      using assms by (simp add: ase_ok_def device_id_bytes_def off_full_ip_suite_def PNET_STATION_NAME_MAX_SIZE_def PNET_PORT_NAME_MAX_SIZE_def)
  qed
  then show ?thesis by (simp add: peek_def)
qed

text \<open>The evaluation behind a new value does not touch it, if the ARs that are aborted leave it alone.\<close>

definition abort_keeps_values :: "'w dcp_env \<Rightarrow> bool" where
  "abort_keeps_values env \<longleftrightarrow> (\<forall>a c d m m'. de_abort_ar env a c d m = Some m' \<longrightarrow> cmina_current m' = cmina_current m)"

definition keeps :: "pf_cmina_dcp_ase \<Rightarrow> ('a \<times> 'w dcp_net) option \<Rightarrow> bool" where
  "keeps a x \<longleftrightarrow> (\<forall>r m. x = Some (r, m) \<longrightarrow> cmina_current m = a)"

lemma keeps_if: "keeps a x \<Longrightarrow> keeps a y \<Longrightarrow> keeps a (if c then x else y)"
  by simp

lemma keeps_Some: "keeps a (Some (r, m)) \<longleftrightarrow> cmina_current m = a"
  by (simp add: keeps_def)

lemma keeps_None: "keeps a None"
  by (simp add: keeps_def)

lemma keeps_bind: "keeps a x \<Longrightarrow> (\<And>r m. cmina_current m = a \<Longrightarrow> keeps a (f (r, m))) \<Longrightarrow> keeps a (Option.bind x f)"
  by (auto simp: keeps_def bind_eq_Some_conv)

lemma keeps_map: "keeps a x \<Longrightarrow> keeps a (map_option (\<lambda>(_, n). (r, n)) x)"
  by (auto simp: keeps_def)

lemma abort_ars_keeps:
  assumes "abort_keeps_values env"
  shows "cmina_current m = a \<Longrightarrow> keeps a (abort_ars env err as m)"
proof (induction as arbitrary: m)
  case (Cons x as)
  have "cmina_current m' = a" if "de_abort_ar env x PNET_ERROR_CODE_1_RTA_ERR_CLS_PROTOCOL err m = Some m'" for m'
    using assms that Cons.prems by (simp add: abort_keeps_values_def)
  then show ?case using Cons.IH Cons.prems
    by (cases "de_abort_ar env x PNET_ERROR_CODE_1_RTA_ERR_CLS_PROTOCOL err m") (auto intro!: keeps_bind simp: keeps_Some keeps_None)
qed (simp add: keeps_Some)

lemma set_evaluate_keeps:
  assumes "abort_keeps_values env" and "cmina_current m = a"
  shows "keeps a (set_evaluate env s m)"
proof -
  have "keeps a (set_wait_connect env s m)"
    unfolding set_wait_connect_def pf_cmina_abort_active_ars_def Let_def
    by (intro keeps_if keeps_map keeps_bind abort_ars_keeps assms) (simp_all add: keeps_Some assms(2) cmina_error_def)
  then show ?thesis using assms(2)
    by (cases "cmina_state m") (simp_all add: set_evaluate_def set_before_connect_def cmina_error_def Let_def keeps_Some)
qed

lemma set_ip_stored:
  assumes "dcp_ok n" and "callees_ok env"
    and "abort_keeps_values env"
    and "pf_cmina_is_ipsuite_valid (wire_suite v)"
  shows "\<exists>r e n'. pf_cmina_dcp_set_ind env PF_DCP_OPT_IP PF_DCP_SUB_IP_PAR q 12 (ip_suite_bytes (wire_suite v)) err n = Some ((r, e), n') \<and>
    cmina_current n' = set_suite (wire_suite v) (cmina_current n)"
proof -
  let ?v = "ip_suite_bytes (wire_suite v)"
  have "value_there PF_DCP_OPT_IP PF_DCP_SUB_IP_PAR 12 ?v" by (simp add: value_there_def dcp_opts)
  from set_ind_ok [OF assms(1,2) this] obtain r e n' where
    run: "pf_cmina_dcp_set_ind env PF_DCP_OPT_IP PF_DCP_SUB_IP_PAR q 12 ?v err n = Some ((r, e), n')" by blast
  have suite: "ip_suite_of ?v = wire_suite v" using wire_suite_back [of v "[]"] by simp
  have "set_value PF_DCP_OPT_IP PF_DCP_SUB_IP_PAR q 12 ?v err m = Some (s, m') \<Longrightarrow>
      sw_ret s = 0 \<and> \<not> sw_reset s \<and> cmina_current m' = set_suite (wire_suite v) (cmina_current m)" for s and m m' :: "'a dcp_net"
    using assms(4) by (auto simp: set_value_def set_ip_par_def peek_def suite Let_def not_set_def upd_current_def upd_nonvolatile_def)
  then have "cmina_current n' = set_suite (wire_suite v) (cmina_current n)"
    using run set_evaluate_keeps [OF assms(3)]
    by (fastforce simp: keeps_def pf_cmina_dcp_set_ind_def bind_eq_Some_conv Let_def world_def split: if_splits prod.splits)
  then show ?thesis using run by blast
qed

text \<open>
  C40. Addresses that are set are read back: when the IP suite of a request is valid in the order of the network, a later
  request to get it returns the very bytes that were sent, whatever the state of the device and the answer.
\<close>
theorem dcp_ip_suite_round_trip:
  assumes "dcp_ok n" and "callees_ok env"
    and "abort_keeps_values env"
    and "12 \<le> length v" and "pf_cmina_is_ipsuite_valid (wire_suite v)"
  shows "\<exists>r e n'. set_block env PF_DCP_OPT_IP PF_DCP_SUB_IP_PAR q 12 v n = Some ((r, e), n') \<and>
    value_of_option PF_DCP_OPT_IP PF_DCP_SUB_IP_PAR ident alias (pf_cmina_dcp_get_req PF_DCP_OPT_IP PF_DCP_SUB_IP_PAR 0 None n') =
      Some (Got (ip_block_info (wire_suite v)) 12 (Some (take 12 v)))"
proof -
  obtain r e n' where n': "pf_cmina_dcp_set_ind env PF_DCP_OPT_IP PF_DCP_SUB_IP_PAR q 12 (ip_suite_bytes (wire_suite v))
      PF_DCP_BLOCK_ERROR_SUBOPTION_NOT_SUPPORTED n = Some ((r, e), n')" "cmina_current n' = set_suite (wire_suite v) (cmina_current n)"
    using set_ip_stored [OF assms(1,2,3,5)] by blast
  have "set_block env PF_DCP_OPT_IP PF_DCP_SUB_IP_PAR q 12 v n = Some ((r, e), n')"
    using n'(1) assms(4) wire_suite_take [OF assms(4)]
    by (simp add: set_block_def set_suite_block_def Let_def peek_def flip: wire_suite_def)
  moreover have ok: "ase_ok (cmina_current n')" unfolding n'(2) using assms(1) by (simp add: dcp_ok_def ase_ok_set_suite)
  have suite: "suite_of (cmina_current n') = wire_suite v" by (simp add: n'(2) suite_of_def set_suite_def)
  have "ip_block_info (swap_suite (wire_suite v)) = ip_block_info (wire_suite v)"
    by (auto simp: ip_block_info_def wire_suite_def swap_suite_def ip_suite_of_def le32_at_def htonl_le4 le4_zero simp flip: le4_def)
  then have "suite_value (found_value 12 off_full_ip_suite (cmina_current n')) =
      Some (Got (ip_block_info (wire_suite v)) 12 (Some (take 12 v)))"
    using stored_suite [OF ok] wire_suite_back [of v "[]"] wire_bytes [OF assms(4)]
    by (simp add: suite_value_def found_value_def suite Let_def)
  then have "value_of_option PF_DCP_OPT_IP PF_DCP_SUB_IP_PAR ident alias (pf_cmina_dcp_get_req PF_DCP_OPT_IP PF_DCP_SUB_IP_PAR 0 None n') =
      Some (Got (ip_block_info (wire_suite v)) 12 (Some (take 12 v)))"
    by (simp add: value_of_option_def pf_cmina_dcp_get_req_def dcp_opts dcp_subs)
  ultimately show ?thesis by blast
qed

theorem dcp_ip_suite_round_trip_witness:
  "\<exists>r e n'. set_block (demo_dcp_env (\<lambda>_. True)) PF_DCP_OPT_IP PF_DCP_SUB_IP_PAR 1 12 [192, 168, 0, 60, 255, 255, 255, 0, 192, 168, 0, 1]
     (demo_dcp_net Map.empty) = Some ((r, e), n') \<and>
     value_of_option PF_DCP_OPT_IP PF_DCP_SUB_IP_PAR False None (pf_cmina_dcp_get_req PF_DCP_OPT_IP PF_DCP_SUB_IP_PAR 0 None n') =
       Some (Got 1 12 (Some [192, 168, 0, 60, 255, 255, 255, 0, 192, 168, 0, 1]))"
proof -
  let ?v = "[192, 168, 0, 60, 255, 255, 255, 0, 192, 168, 0, 1] :: u8 list"
  have keeps: "abort_keeps_values (demo_dcp_env (\<lambda>_. True))" by (simp add: abort_keeps_values_def demo_dcp_env_def)
  have suite: "wire_suite ?v = \<lparr>ip_addr = 0xc0a8003c, ip_mask = 0xffffff00, ip_gateway = 0xc0a80001\<rparr>"
    by (simp add: wire_suite_def swap_suite_def ip_suite_of_def le32_at_def htonl_def)
  have "pf_cmina_is_ipsuite_valid (wire_suite ?v)"
    by (simp add: suite pf_cmina_is_ipsuite_valid_def pf_cmina_is_netmask_valid_def pf_cmina_is_ipaddress_valid_def
        pf_cmina_is_gateway_valid_def Let_def)
  from dcp_ip_suite_round_trip [OF demo_dcp_net_ok demo_callees_ok keeps _ this, of 1 Map.empty False None]
  show ?thesis by (simp add: suite ip_block_info_def)
qed

end
