(* ===== verification/Spec2Isabelle.thy ===== *)
theory Spec2Isabelle
  imports Scheduler_Props Block_Props Alarm_Run_Props Cyclic_Props Device_Props Connect_Props Rpc_Props
    Cmina_Props Dcp_Props
begin

text \<open>
  \<^bold>\<open>A verification library for the p-net Profinet device stack.\<close>

  The program is a Profinet IO device stack in C. One instance of it (\<open>pnet_t\<close>) is driven by
  a periodic call. The call runs the timers of the scheduler (src/common/pf_scheduler.c) and
  the periodic part of every protocol machine. A controller connects by DCE/RPC
  messages, which the block reader (src/device/pf_block_reader.c) takes apart and the block
  writer (src/device/pf_block_writer.c) answers; cyclic data then flows in raw Ethernet
  frames, and alarms go both ways over a small transport protocol of their own
  (src/common/pf_alarm.c) that keeps its retransmission timers in the scheduler and builds its
  frames with the block writer.

  \<^bold>\<open>Conventions.\<close> A structure is a record and an enumeration a datatype with the names of the
  source, an unsigned integer is a machine word of its width (\<open>u8\<close>, \<open>u16\<close>, \<open>u32\<close>), a function
  has the name it has in C. A failed assertion, a null pointer that is used, a buffer freed
  twice, or a loop that does not end is the value \<^const>\<open>None\<close>; results like 0 and -1 are
  integers, as they are in the code. Log messages are left out. An operation is one atomic
  step: the mutexes of the program protect exactly that. Constants of the configuration have
  the default values of the build files (the theory Prelude).

  \<^bold>\<open>Theories and what they model.\<close>

  \<^item> Prelude: machine words, configuration constants, shared lemmas on lists and words.

  \<^item> Scheduler: pf_scheduler.c, statement by statement: an array of entries with two
    doubly linked lists in it. Scheduler_Lists gives the abstract view (two disjoint
    lists of indexes, \<open>sched_rep\<close>) and what linking does to it; Scheduler_Ops and Scheduler_Time
    lift that to adding, removing and the order by deadline, with deadlines compared as
    differences modulo 2^32; Scheduler_Tick treats the tick, whose callbacks are a parameter,
    and Scheduler_Props has the properties. The loops without a guard of their own
    (\<open>add_find_pos\<close>, \<open>pf_scheduler_tick\<close>) are partial functions, and their termination is a
    theorem about well formed lists.

  \<^item> Buffers: the primitives of the writer and the reader on a buffer, in the state monad.
    A writer keeps the announced length and the real buffer apart, so a store behind the end
    is visible; a reader keeps the first error. Codec says when a writer emits a list of bytes
    and when a reader parses one, Codec_Safety when they stay inside the buffer, and
    Codec_Locale states the contract of a coder as a locale (what is written is read back) and
    interprets it on the primitives.

  \<^item> Wire_Types: the structures of src/pf_types.h that messages carry. Block_Reader: every
    function of pf_block_reader.c. Block_Writer, Block_Writer_Records, Block_Writer_Alarm: the
    connect response, the records and headers, and the alarm blocks of pf_block_writer.c.
    Block_Safety shows that every reader and writer stays in its buffer, Block_Codecs has the
    encodings, Block_Results what selected blocks contain, Expected_Modules the tables of
    expected modules, and Block_Props the properties.

  \<^item> Alarm_Queue: the two queues of an alarm channel and the locale of a bounded first-in
    first-out queue, interpreted on both. Alarm_State: the four protocol machines of a channel
    (APMS sends and waits for the transport acknowledgement, APMR receives, ALPMI and ALPMR are
    the users of both), the scheduler with the resend timers, the address space of frame
    buffers, and an environment of functions for what the component calls outside itself
    (Ethernet, the error indication to CMSU, the callbacks of the application, the log book).
    Alarm: the operations of pf_alarm.c in the order of the file. Alarm_Lemmas: what each leaves
    alone, the account of buffers, the timers. Alarm_Props: properties of single operations.
    Alarm_Inv: the invariant of the component, with one owner for every buffer. Alarm_Safety:
    every operation keeps it, under a contract of the callbacks (the locale
    \<open>alarm_callbacks\<close>). Alarm_Runs: opening and closing a channel, received frames, rounds of the
    timer, and runs of all of them. Alarm_Run_Props: the interpretation of the contract on the
    error indication that closes the AR, and the properties of runs. The component uses the
    scheduler through the locale \<open>timer_service\<close> of Scheduler_Service.

  \<^item> Eth: the map of frame identifiers and the dispatch of received frames (pf_eth.c).
    Cyclic_State: the consumers and providers of cyclic data of an AR, with the buffers of
    frames. Cpm: the consumer machine (pf_cpm.c, pf_cpm_driver_sw.c), which checks the cycle
    counter of a frame and aborts when data stay away. Ppm: the provider machine (pf_ppm.c,
    pf_ppm_driver_sw.c), which builds a frame in every interval. Cmsu: start and abort of an
    AR (pf_cmsu.c). Cyclic_Lemmas and Cyclic_Props have the facts and the properties.

  \<^item> Device: the tree of API instances, slots and subslots of pf_cmdev.c with the pool of
    diagnosis items. Device_Ops: plugging and pulling, and what an aborted AR leaves.
    Diag: the diagnosis store (pf_diag.c). Diag_Store says when the lists of items are chains
    that share nothing, Device_Tree when the tree is well formed, and Diag_Refine what the
    abstract store is. Diag_Props shows that adding, updating and removing refine the
    operations of that store, Device_Runs that every operation keeps the invariant, and
    Device_Props has the properties.

  \<^item> Connect_Checks: the checks of the blocks of a connect request (pf_cmdev.c), each a chain of
    conditions with the error of the first that holds. Connect_Setup: the data descriptors of
    an IOCR, which say where the data and the status of every submodule lie in its frame, and
    the final checks of them. Connect_Config: the expected modules, which the application is
    asked to plug, and the lists of differences. Connect: the state machine of an AR
    (\<open>pf_cmdev_rm_connect_ind\<close> and the control requests), with the application and the other
    machines as an environment. Connect_Layout shows that the descriptors of an accepted request
    are sound, Connect_Lemmas treats frame identifiers, unexpected IOCS and the differences,
    Connect_Runs the runs of the machine under a contract of the callees. Connect_Demo is a
    request that gets to the exchange of data, and Connect_Props has the properties.

  \<^item> Rpc_State: the sessions and ARs of pf_cmrpc.c, with the sockets, the handlers of
    records and the small machines as an environment. Rpc_Session: the pools of sessions and ARs, sending,
    resending and the end of an AR. Rpc_Parse, Rpc_Control, Rpc_Connect, Rpc_Records: how the requests are
    taken apart, carried out and answered (connect, release, DControl, CControl, read and write). Rpc_Epm:
    the endpoint mapper (pf_cmrpc_epm.c). Rpc_Packet: received packets, with fragments and
    acknowledgements, and the periodic polling of the sockets. Rpc_Lemmas, Rpc_Receive and Rpc_Send treat the
    reading of blocks, received packets and sent fragments, Rpc_Pool states the contract of a pool of
    slots as a locale and interprets it on the sessions and on the ARs, Rpc_Demo is a small instance, and Rpc_Props has the
    properties.

  \<^item> Dcp_State: the data of CMINA and DCP, and the image of them in memory. Cmina: the station name and
    the addresses of the device (pf_cmina.c), with the checks of new values, resets, and the state machine behind a
    request. Dcp and Dcp_Frames: the discovery protocol (pf_dcp.c), first blocks, values and timers, then whole
    frames. Dcp_Lemmas shows that every handler ends, stays within its memory and gives its buffers
    back, Dcp_Demo is a small device, and Cmina_Props and Dcp_Props have the properties.

  \<^bold>\<open>What the properties show.\<close> The scheduler runs exactly the expired timeouts in the order of
  their deadlines, keeps its lists, and a tick ends. The readers and writers stay within
  the announced lengths, and headers and alarm notifications survive a round trip. The queue of received alarms is a
  bounded list, an unacknowledged alarm is sent again and then aborts the AR, and no frame buffer is
  lost. What a provider is given is what the consumer of its frame gets; a consumer without frames is stopped after
  its hold time; the test of the cycle counter is a window. The device tree stays well
  formed whatever is plugged, pulled and diagnosed, and the store of diagnoses refines lists per
  subslot. An AR exchanges data only after the requests that lead to it, in
  their order; the frames of an accepted connect request have areas that fit and do not overlap,
  and identifiers of their own. Fragments of a request are put together, a response is cut into parts
  that are the message, the table of ARs keeps every AR once, and unanswered packets are sent again until they
  are given up. A station name and an IP suite are accepted exactly if they have their form, a request to get or
  to set values is always handled, locks the device to its sender, and reads back what was set; a device is found by
  its name.

  Some properties state where the code does not do what it means to: the number of submodules is not bounded,
  padding in a full buffer does not end, an alarm acknowledgement is bounded by the wrong size, a
  pulled subslot loses its diagnosis items, two packets can stop the stack, a packet of an unknown type takes a
  session for good, the length of a written record is compared with a sum that wraps, and an IP suite that is
  refused is stored all the same. The lemmas behind them say more of the same kind, for example that a second API is
  merged into the first and that an acknowledged alarm keeps its timer.

  \<^bold>\<open>Bounds.\<close> Every recursion is structural, or has a measure, or is a partial function whose
  result is an option. A fuel is counted down in two places: when the sessions of an AR are released, which needs as many
  rounds as there are sessions, and in the sequence of the fragments of a response, where it is the number of
  fragments asked for. The sizes of tables are the defaults of the build
  (15 timers, 6 alarms in a queue and so on), and the proofs use them through their
  definitions.

  \<^bold>\<open>Not modelled.\<close> The log book and configuration of FSPM, the small machines of
  src/device, the handlers of records, LLDP and the port data; in the block writer, the identification records,
  diagnosis lists and port records. The support of SNMP is an option that is off by default. Files, the
  background worker and the time protocol are small and mostly call the platform. The platform ports, the LAN9662
  driver and the sample application only call operating systems and vendor libraries. Printing functions are left
  out everywhere.
\<close>

end
